(* ===== verification/Prelude.thy ===== *)
theory Prelude
  imports Main "HOL-Library.Word" "HOL-Library.AList"
begin

text \<open>
  Shared vocabulary of the development: the machine types of the Go source, results of
  operations that may panic or fail, association lists for Go maps that the source iterates,
  decimal and hexadecimal printing, and the lemma collections the component theories use.

  A Go panic, a returned error and a normal result are values of \<open>string + 'a\<close>; an
  operation that also mutates a state returns the pair of the result and the new state, so
  that what was written before a panic stays visible.
\<close>

section \<open>Types\<close>

type_synonym byte = "8 word"
type_synonym bytes = "byte list"
type_synonym uint64 = "64 word"
type_synonym word256 = "256 word"
type_synonym word160 = "160 word"

text \<open>A Go map whose entries the source ranges over: its entries in some iteration order.\<close>

type_synonym ('k, 'v) gomap = "('k \<times> 'v) list"

text \<open>A computation on a state \<open>'s\<close> that may panic (\<open>Inl\<close>, with the panic's message).\<close>

type_synonym ('s, 'a) act = "(string + 'a) \<times> 's"

named_theorems frame_simps \<open>fields an operation leaves alone\<close>
named_theorems val_simps \<open>evaluation of the model's definitions on concrete inputs\<close>

section \<open>Sequencing operations that may panic\<close>

definition seqR :: "('s, 'a) act \<Rightarrow> ('a \<Rightarrow> 's \<Rightarrow> ('s, 'b) act) \<Rightarrow> ('s, 'b) act" where
  "seqR m f = (case m of (Inl e, s) \<Rightarrow> (Inl e, s) | (Inr a, s) \<Rightarrow> f a s)"

lemma seqR_simps [simp]:
  "seqR (Inl e, s) f = (Inl e, s)"
  "seqR (Inr a, s) f = f a s"
  by (simp_all add: seqR_def)

lemma seqR_Inr_iff:
  "seqR m f = (Inr b, t) \<longleftrightarrow> (\<exists>a s. m = (Inr a, s) \<and> f a s = (Inr b, t))"
  by (cases m) (auto simp: seqR_def split: sum.splits)

lemma seqR_InrE [elim]:
  assumes "seqR m f = (Inr b, t)"
  obtains a s where "m = (Inr a, s)" "f a s = (Inr b, t)"
  using assms by (auto simp: seqR_Inr_iff)

text \<open>A read that may panic, inside an operation on the state and inside another read.\<close>

definition need :: "string + 'a \<Rightarrow> 's \<Rightarrow> ('a \<Rightarrow> ('s, 'b) act) \<Rightarrow> ('s, 'b) act" where
  "need r s f = (case r of Inl e \<Rightarrow> (Inl e, s) | Inr a \<Rightarrow> f a)"

definition andThen :: "string + 'a \<Rightarrow> ('a \<Rightarrow> string + 'b) \<Rightarrow> string + 'b" where
  "andThen r f = (case r of Inl e \<Rightarrow> Inl e | Inr a \<Rightarrow> f a)"

lemma need_simps [simp]:
  "need (Inl e) s f = (Inl e, s)"
  "need (Inr a) s f = f a"
  by (simp_all add: need_def)

lemma andThen_simps [simp]:
  "andThen (Inl e) g = Inl e"
  "andThen (Inr a) g = g a"
  by (simp_all add: andThen_def)

lemma andThen_Inr_iff: "andThen r f = Inr b \<longleftrightarrow> (\<exists>a. r = Inr a \<and> f a = Inr b)"
  by (cases r) auto

lemma need_Inr_iff: "need r s f = (Inr b, t) \<longleftrightarrow> (\<exists>a. r = Inr a \<and> f a = (Inr b, t))"
  by (cases r) auto

text \<open>What both parts of a sequence keep, the sequence keeps.\<close>

lemma seqR_keeps:
  "P (snd m) \<Longrightarrow> (\<And>a s. m = (Inr a, s) \<Longrightarrow> P s \<Longrightarrow> P (snd (f a s))) \<Longrightarrow> P (snd (seqR m f))"
  by (cases m; cases "fst m") auto

lemma need_keeps: "P s \<Longrightarrow> (\<And>a. r = Inr a \<Longrightarrow> P (snd (f a))) \<Longrightarrow> P (snd (need r s f))"
  by (cases r) auto

section \<open>What an action keeps\<close>

text \<open>
  \<open>kept P m\<close> says that \<open>P\<close> holds in the state that \<open>m\<close> ends in, however it ends. The collection \<open>kept\<close> has a rule for
  every combinator; the components add one for each of their operations.
\<close>

definition kept :: "('s \<Rightarrow> bool) \<Rightarrow> ('s, 'a) act \<Rightarrow> bool" where
  "kept P m \<longleftrightarrow> P (snd m)"

named_theorems kept

lemma keptD: "kept P m \<Longrightarrow> m = (r, s) \<Longrightarrow> P s"
  by (simp add: kept_def)

lemma kept_pair [kept]: "P s \<Longrightarrow> kept P (r, s)"
  by (simp add: kept_def)

lemma kept_branches [kept]:
  "kept P a \<Longrightarrow> kept P b \<Longrightarrow> kept P (if c then a else b)"
  "(\<And>x. kept P (f x)) \<Longrightarrow> kept P (Let y f)"
  "(\<And>x. kept P (f x)) \<Longrightarrow> (\<And>x. kept P (g x)) \<Longrightarrow> kept P (case r of Inl x \<Rightarrow> f x | Inr x \<Rightarrow> g x)"
  "kept P a \<Longrightarrow> (\<And>x. kept P (f x)) \<Longrightarrow> kept P (case o' of None \<Rightarrow> a | Some x \<Rightarrow> f x)"
  "kept P a \<Longrightarrow> (\<And>x xs. kept P (h x xs)) \<Longrightarrow> kept P (case l of [] \<Rightarrow> a | x # xs \<Rightarrow> h x xs)"
  "(\<And>x y. kept P (k x y)) \<Longrightarrow> kept P (case p of (x, y) \<Rightarrow> k x y)"
  "(\<And>x y. kept P (j x y s)) \<Longrightarrow> kept P ((case p of (x, y) \<Rightarrow> j x y) s)"
  by (auto simp: Let_def split: sum.split option.split list.split prod.split)

lemma kept_seqR [kept]: "kept P m \<Longrightarrow> (\<And>a s. P s \<Longrightarrow> kept P (f a s)) \<Longrightarrow> kept P (seqR m f)"
  by (auto simp: kept_def seqR_def split: prod.split sum.split)

lemma kept_need [kept]: "P s \<Longrightarrow> (\<And>a. kept P (f a)) \<Longrightarrow> kept P (need r s f)"
  by (auto simp: kept_def need_def split: sum.split)

section \<open>Association lists as Go maps\<close>

lemma map_of_update_same [simp]: "map_of (AList.update k v al) k = Some v"
  by (simp add: update_conv')

lemma map_of_update_other [simp]: "k' \<noteq> k \<Longrightarrow> map_of (AList.update k v al) k' = map_of al k'"
  by (simp add: update_conv')

lemma distinct_update_keys [simp]:
  "distinct (map fst (AList.update k v al)) = distinct (map fst al)"
  by (induction al) (auto simp: dom_update)

lemma distinct_delete_keys [simp]:
  "distinct (map fst al) \<Longrightarrow> distinct (map fst (AList.delete k al))"
  by (simp add: AList.distinct_delete)

text \<open>Go's \<open>for k, v := range data { m[k] = v }\<close>.\<close>

fun put_all :: "('k, 'v) gomap \<Rightarrow> ('k, 'v) gomap \<Rightarrow> ('k, 'v) gomap" where
  "put_all m [] = m"
| "put_all m ((k, v) # kvs) = put_all (AList.update k v m) kvs"

lemma put_all_distinct [simp]:
  "distinct (map fst (put_all m kvs)) = distinct (map fst m)"
  by (induction m kvs rule: put_all.induct) auto

lemma map_of_put_all:
  "distinct (map fst kvs) \<Longrightarrow> map_of (put_all m kvs) = map_of m ++ map_of kvs"
proof (induction m kvs rule: put_all.induct)
  case (2 m k v kvs)
  from "2.prems" have k: "k \<notin> dom (map_of kvs)"
    by (force simp: dom_map_of_conv_image_fst)
  from "2" have "map_of (put_all m ((k, v) # kvs)) = map_of (AList.update k v m) ++ map_of kvs"
    by simp
  also have "\<dots> = (map_of m ++ map_of kvs)(k \<mapsto> v)"
    using k by (auto simp: update_conv' map_add_def fun_eq_iff split: option.splits)
  finally show ?case using k by (auto simp: map_add_def fun_eq_iff split: option.splits)
qed simp

lemma put_all_apply:
  "distinct (map fst kvs) \<Longrightarrow>
    map_of (put_all m kvs) k = (case map_of kvs k of Some v \<Rightarrow> Some v | None \<Rightarrow> map_of m k)"
  by (simp add: map_of_put_all map_add_def)

section \<open>Printing\<close>

definition digit_char :: "nat \<Rightarrow> char" where
  "digit_char d = (if d < 10 then char_of (48 + d) else char_of (87 + d))"

fun dec_of_nat :: "nat \<Rightarrow> string" where
  "dec_of_nat n = (if n < 10 then [digit_char n] else dec_of_nat (n div 10) @ [digit_char (n mod 10)])"

declare dec_of_nat.simps [simp del]

text \<open>Go's \<open>%d\<close> and \<open>%v\<close> of an integer.\<close>

definition dec_of_int :: "int \<Rightarrow> string" where
  "dec_of_int i = (if i < 0 then ''-'' @ dec_of_nat (nat (- i)) else dec_of_nat (nat i))"

text \<open>Reading a decimal back, used to show that printing loses nothing.\<close>

definition digit_val :: "char \<Rightarrow> nat" where
  "digit_val c = of_char c - 48"

definition nat_of_dec :: "string \<Rightarrow> nat" where
  "nat_of_dec s = foldl (\<lambda>a c. 10 * a + digit_val c) 0 s"

lemma digit_val_char: "d < 10 \<Longrightarrow> digit_val (digit_char d) = d"
  by (simp add: digit_val_def digit_char_def)

lemma nat_of_dec_of_nat [simp]: "nat_of_dec (dec_of_nat n) = n"
proof (induction n rule: dec_of_nat.induct)
  case (1 n)
  show ?case
  proof (cases "n < 10")
    case True
    then show ?thesis
      by (subst dec_of_nat.simps) (simp add: nat_of_dec_def digit_val_char)
  next
    case False
    with "1" have "nat_of_dec (dec_of_nat (n div 10)) = n div 10" by simp
    with False show ?thesis
      by (subst dec_of_nat.simps) (simp add: nat_of_dec_def digit_val_char)
  qed
qed

lemma dec_of_nat_inject [simp]: "dec_of_nat m = dec_of_nat n \<longleftrightarrow> m = n"
  by (metis nat_of_dec_of_nat)

lemma dec_of_nat_digits: "c \<in> set (dec_of_nat n) \<Longrightarrow> \<exists>d<10. c = digit_char d"
proof (induction n rule: dec_of_nat.induct)
  case (1 n)
  show ?case
  proof (cases "n < 10")
    case True
    with "1.prems" show ?thesis by (subst (asm) dec_of_nat.simps) auto
  next
    case False
    with "1.prems" have "c \<in> set (dec_of_nat (n div 10)) \<or> c = digit_char (n mod 10)"
      by (subst (asm) dec_of_nat.simps) auto
    with "1.IH" False show ?thesis
      by (metis mod_less_divisor zero_less_numeral)
  qed
qed

lemma of_char_digit_char: "d < 16 \<Longrightarrow> (of_char (digit_char d) :: nat) = (if d < 10 then 48 + d else 87 + d)"
  by (simp add: digit_char_def)

lemma digit_char_no_sign: "d < 10 \<Longrightarrow> digit_char d \<noteq> CHR ''-'' \<and> digit_char d \<noteq> CHR ''$''"
proof (intro conjI notI)
  assume "d < 10"
  then have v: "(of_char (digit_char d) :: nat) = 48 + d" by (simp add: of_char_digit_char)
  show False if "digit_char d = CHR ''-''" using v that by simp
  show False if "digit_char d = CHR ''$''" using v that by simp
qed

lemma dec_of_nat_no_minus: "CHR ''-'' \<notin> set (dec_of_nat n)"
  using dec_of_nat_digits digit_char_no_sign by metis

lemma dec_of_nat_no_dollar: "CHR ''$'' \<notin> set (dec_of_nat n)"
  using dec_of_nat_digits digit_char_no_sign by metis

lemma dec_of_int_inject [simp]: "dec_of_int i = dec_of_int j \<longleftrightarrow> i = j"
proof
  assume eq: "dec_of_int i = dec_of_int j"
  have hd: "dec_of_nat n \<noteq> CHR ''-'' # xs" for n xs
    using dec_of_nat_no_minus by (metis list.set_intros(1))
  show "i = j"
    using eq hd by (auto simp: dec_of_int_def eq_nat_nat_iff dest!: sym [of "_ # _"] split: if_splits)
qed simp

lemma dec_of_int_no_dollar: "CHR ''$'' \<notin> set (dec_of_int i)"
  using dec_of_nat_no_dollar by (auto simp: dec_of_int_def)

text \<open>\<open>hex.EncodeToString\<close> and \<open>hex.EncodeUpperToString\<close>: two digits per byte.\<close>

definition hex_lower :: "bytes \<Rightarrow> string" where
  "hex_lower bs = concat (map (\<lambda>b. [digit_char (unat b div 16), digit_char (unat b mod 16)]) bs)"

definition upper_digit :: "nat \<Rightarrow> char" where
  "upper_digit d = (if d < 10 then char_of (48 + d) else char_of (55 + d))"

definition hex_upper :: "bytes \<Rightarrow> string" where
  "hex_upper bs = concat (map (\<lambda>b. [upper_digit (unat b div 16), upper_digit (unat b mod 16)]) bs)"

section \<open>Splitting and flags\<close>

text \<open>\<open>strings.Split\<close> at a character; \<open>strconv.ParseBool\<close>.\<close>

fun Split :: "char \<Rightarrow> string \<Rightarrow> string list" where
  "Split c [] = [[]]"
| "Split c (d # s) = (if d = c then [] # Split c s else (case Split c s of [] \<Rightarrow> [[d]] | x # xs \<Rightarrow> (d # x) # xs))"

definition ParseBool :: "string \<Rightarrow> bool option" where
  "ParseBool s = (if s \<in> set [''1'', ''t'', ''T'', ''true'', ''TRUE'', ''True''] then Some True
     else if s \<in> set [''0'', ''f'', ''F'', ''false'', ''FALSE'', ''False''] then Some False else None)"

section \<open>Reading numbers\<close>

text \<open>\<open>strconv.Atoi\<close>: an optional sign and digits; out of range, the nearest bound with an error.\<close>

definition dec_digit :: "char \<Rightarrow> nat option" where
  "dec_digit c = (let n = (of_char c :: nat) in if 48 \<le> n \<and> n \<le> 57 then Some (n - 48) else None)"

fun dec_value :: "string \<Rightarrow> nat \<Rightarrow> nat option" where
  "dec_value [] n = Some n"
| "dec_value (c # s) n = (case dec_digit c of None \<Rightarrow> None | Some d \<Rightarrow> dec_value s (10 * n + d))"

definition Atoi :: "string \<Rightarrow> bool \<times> int" where
  "Atoi s = (let (neg, ds) = (case s of
       c # s' \<Rightarrow> if c = CHR ''-'' then (True, s') else if c = CHR ''+'' then (False, s') else (False, s)
     | [] \<Rightarrow> (False, s))
   in if ds = [] then (False, 0)
      else case dec_value ds 0 of
        None \<Rightarrow> (False, 0)
      | Some n \<Rightarrow> if neg then (if n \<le> 2 ^ 63 then (True, - int n) else (False, - (2 ^ 63)))
          else if n < 2 ^ 63 then (True, int n) else (False, 2 ^ 63 - 1))"

section \<open>Floating point\<close>

fun bit_length :: "nat \<Rightarrow> nat" where
  "bit_length n = (if n = 0 then 0 else Suc (bit_length (n div 2)))"

declare bit_length.simps [simp del]

text \<open>The nearest integer to \<open>n / d\<close>, ties to even.\<close>

definition round_div :: "nat \<Rightarrow> nat \<Rightarrow> nat" where
  "round_div n d = (let q = n div d; r = n mod d in
     if 2 * r < d then q else if d < 2 * r then q + 1 else if even q then q else q + 1)"

text \<open>\<open>float64(n)\<close>, which is an integer.\<close>

definition float64 :: "nat \<Rightarrow> nat" where
  "float64 n = (let k = bit_length n - 53 in round_div n (2 ^ k) * 2 ^ k)"

end
