(* ===== verification/State_DB.thy ===== *)
theory State_DB
  imports Prelude "HOL-Library.List_Lexorder" "HOL-Library.Char_ord"
begin

text \<open>
  The versioned key-value store: package \<open>statedb\<close> (\<open>statedb.go\<close>, \<open>transaction.go\<close>, \<open>tx.go\<close>,
  \<open>snapshot.go\<close>). A \<open>StateDB\<close> owns two LevelDB databases. Writes collect in a \<open>Tx\<close> buffer, move
  to a \<open>Transaction\<close> buffer, and reach the state database when the transaction commits; the
  snapshot database keeps, per committed transaction, the values it wrote and the values it
  overwrote, so that the last transactions can be undone.

  The LevelDB wrapper \<open>bcdb.GILevelDB\<close> and the \<open>jsoniter\<close> codec are not part of the repository:
  they are the fields of the record \<open>ext\<close>, and \<open>ext_ok\<close> states what the code relies on. A \<open>nil\<close>
  and an empty byte slice are both \<open>[]\<close>, because this package only looks at \<open>len\<close> and
  \<open>bytes.Compare\<close>. Transaction numbers are unbounded integers; the 64-bit counter grows by one per
  block.
\<close>

section \<open>External code\<close>

datatype batch_op = BSet string bytes | BDelete string

record 'db ext =
  db_get :: "'db \<Rightarrow> string \<Rightarrow> string + bytes"
  db_has :: "'db \<Rightarrow> string \<Rightarrow> bool"
  db_set_sync :: "'db \<Rightarrow> string \<Rightarrow> bytes \<Rightarrow> string + 'db"
  db_write :: "'db \<Rightarrow> batch_op list \<Rightarrow> string + 'db"
  enc_int :: "int \<Rightarrow> string + bytes"
  dec_int :: "bytes \<Rightarrow> string + int"
  enc_map :: "(string, bytes) gomap \<Rightarrow> string + bytes"
  dec_map :: "bytes \<Rightarrow> string + (string, bytes) gomap"

section \<open>Data\<close>

record Transaction =
  transactionID :: int
  tbuffer :: "(string, bytes) gomap"
  committable :: bool
  lastTxID :: int

record Tx =
  txID :: int
  xbuffer :: "(string, bytes) gomap"

text \<open>
  \<open>committableTransaction\<close> is a pointer that is only compared with \<open>nil\<close>: it is modelled by the
  number of the transaction it points to.
\<close>

record 'db StateDB =
  sdb :: 'db
  sndb :: 'db
  committableTransaction :: "int option"
  lastCommittableTransactionID :: int
  lastRollbackTransactionID :: int

section \<open>Keys and helpers (\<open>statedb.go\<close>, \<open>snapshot.go\<close>)\<close>

definition keyOfLastTransactionID :: string where
  "keyOfLastTransactionID = ''$last_transaction_id''"

definition keyOfMaxSnapshotCount :: string where
  "keyOfMaxSnapshotCount = ''$max_snapshot_count''"

definition keyOfOriginData :: "int \<Rightarrow> string" where
  "keyOfOriginData i = ''$'' @ dec_of_int i @ ''$origin_data''"

definition keyOfNewData :: "int \<Rightarrow> string" where
  "keyOfNewData i = ''$'' @ dec_of_int i @ ''$new_data''"

definition getInt64 :: "'db ext \<Rightarrow> 'db \<Rightarrow> string \<Rightarrow> string + int" where
  "getInt64 E db key = (case db_get E db key of
     Inl e \<Rightarrow> Inl e
   | Inr value \<Rightarrow> if length value = 0 then Inr 0 else dec_int E value)"

text \<open>\<open>setToBatch\<close> marshals an \<open>interface{}\<close>: the caller passes the marshalled value.\<close>

definition setToBatch :: "batch_op list \<Rightarrow> string \<Rightarrow> string + bytes \<Rightarrow> string + batch_op list" where
  "setToBatch batch key marshalled = (case marshalled of
     Inl e \<Rightarrow> Inl e
   | Inr value \<Rightarrow> Inr (batch @ [BSet key value]))"

definition snapshotDBGet :: "'db ext \<Rightarrow> 'db StateDB \<Rightarrow> string \<Rightarrow> string + (string, bytes) gomap" where
  "snapshotDBGet E s key = (case db_get E (sndb s) key of
     Inl e \<Rightarrow> Inl e
   | Inr value \<Rightarrow> if length value = 0 then Inr [] else dec_map E value)"

definition getOriginData :: "'db ext \<Rightarrow> 'db StateDB \<Rightarrow> int \<Rightarrow> string + (string, bytes) gomap" where
  "getOriginData E s i = snapshotDBGet E s (keyOfOriginData i)"

definition setMaxSnapshotCount :: "'db ext \<Rightarrow> 'db \<Rightarrow> int \<Rightarrow> string + 'db" where
  "setMaxSnapshotCount E snap count = (case enc_int E count of
     Inl e \<Rightarrow> Inl e
   | Inr value \<Rightarrow> db_set_sync E snap keyOfMaxSnapshotCount value)"

section \<open>Opening the store, handing out transactions (\<open>statedb.go\<close>)\<close>

text \<open>\<open>New\<close> after the two databases have been opened.\<close>

definition New :: "'db ext \<Rightarrow> 'db \<Rightarrow> 'db \<Rightarrow> int \<Rightarrow> string + 'db StateDB" where
  "New E db sn maxSnapshotCount =
    (if maxSnapshotCount < 0 then Inl ''invalid parameter''
     else case setMaxSnapshotCount E sn maxSnapshotCount of
       Inl e \<Rightarrow> Inl e
     | Inr sn' \<Rightarrow> (case getInt64 E db keyOfLastTransactionID of
         Inl e \<Rightarrow> Inl e
       | Inr lastID \<Rightarrow> Inr \<lparr>sdb = db, sndb = sn', committableTransaction = None,
           lastCommittableTransactionID = lastID, lastRollbackTransactionID = 0\<rparr>))"

definition StateDB_Get :: "'db ext \<Rightarrow> 'db StateDB \<Rightarrow> string \<Rightarrow> string + bytes" where
  "StateDB_Get E s key = db_get E (sdb s) key"

definition calcTransactionID :: "bool \<Rightarrow> 'db StateDB \<Rightarrow> int \<times> 'db StateDB" where
  "calcTransactionID isCommittable s =
    (if isCommittable
     then let i = lastCommittableTransactionID s + 1 in (i, s\<lparr>lastCommittableTransactionID := i\<rparr>)
     else let i = lastRollbackTransactionID s + 1 in (- i, s\<lparr>lastRollbackTransactionID := i\<rparr>))"

definition NewCommittableTransaction :: "'db StateDB \<Rightarrow> ('db StateDB, Transaction) act" where
  "NewCommittableTransaction s =
    (if committableTransaction s \<noteq> None then (Inl ''must commit last transaction'', s)
     else let (i, s1) = calcTransactionID True s;
              t = \<lparr>transactionID = i, tbuffer = [], committable = True, lastTxID = 0\<rparr>
          in (Inr t, s1\<lparr>committableTransaction := Some i\<rparr>))"

definition NewRollbackTransaction :: "'db StateDB \<Rightarrow> Transaction \<times> 'db StateDB" where
  "NewRollbackTransaction s =
    (let (i, s1) = calcTransactionID False s
     in (\<lparr>transactionID = i, tbuffer = [], committable = False, lastTxID = 0\<rparr>, s1))"

definition Close :: "'db StateDB \<Rightarrow> string + unit" where
  "Close s = (if committableTransaction s \<noteq> None
     then Inl ''there cannot be uncommitted transactions when the database is closed'' else Inr ())"

section \<open>Buffers (\<open>transaction.go\<close>, \<open>tx.go\<close>)\<close>

definition calcTxID :: "Transaction \<Rightarrow> int \<times> Transaction" where
  "calcTxID t = (let i = lastTxID t + 1 in (i, t\<lparr>lastTxID := i\<rparr>))"

definition Transaction_NewTx :: "Transaction \<Rightarrow> Tx \<times> Transaction" where
  "Transaction_NewTx t = (let (i, t1) = calcTxID t in (\<lparr>txID = i, xbuffer = []\<rparr>, t1))"

definition Transaction_Get :: "'db ext \<Rightarrow> 'db StateDB \<Rightarrow> Transaction \<Rightarrow> string \<Rightarrow> string + bytes" where
  "Transaction_Get E s t key = (case map_of (tbuffer t) key of
     Some value \<Rightarrow> Inr value
   | None \<Rightarrow> db_get E (sdb s) key)"

definition Transaction_Set :: "Transaction \<Rightarrow> string \<Rightarrow> bytes \<Rightarrow> Transaction" where
  "Transaction_Set t key value = t\<lparr>tbuffer := AList.update key value (tbuffer t)\<rparr>"

definition Transaction_BatchSet :: "Transaction \<Rightarrow> (string, bytes) gomap \<Rightarrow> Transaction" where
  "Transaction_BatchSet t data = t\<lparr>tbuffer := put_all (tbuffer t) data\<rparr>"

definition Transaction_Rollback :: "Transaction \<Rightarrow> Transaction" where
  "Transaction_Rollback t = t\<lparr>tbuffer := []\<rparr>"

definition bytes_of_string :: "string \<Rightarrow> bytes" where
  "bytes_of_string s = map of_char s"

definition string_of_bytes :: "bytes \<Rightarrow> string" where
  "string_of_bytes bs = map (\<lambda>b. char_of (unat b)) bs"

text \<open>
  The loop shared by \<open>Transaction.GetBuffer\<close> and \<open>Tx.Commit\<close>: keys collected in iteration
  order, sorted, then each key followed by its value.
\<close>

definition sorted_dump :: "(string, bytes) gomap \<Rightarrow> bytes" where
  "sorted_dump buf = concat (map (\<lambda>k. bytes_of_string k @
     (case map_of buf k of Some v \<Rightarrow> v | None \<Rightarrow> [])) (sort (map fst buf)))"

definition GetBuffer :: "Transaction \<Rightarrow> bytes" where
  "GetBuffer t = sorted_dump (tbuffer t)"

definition Tx_Get :: "Tx \<Rightarrow> string \<Rightarrow> bytes" where
  "Tx_Get x key = (case map_of (xbuffer x) key of Some v \<Rightarrow> v | None \<Rightarrow> [])"

definition Tx_Set :: "Tx \<Rightarrow> string \<Rightarrow> bytes \<Rightarrow> Tx" where
  "Tx_Set x key value = x\<lparr>xbuffer := AList.update key value (xbuffer x)\<rparr>"

definition Tx_BatchSet :: "Tx \<Rightarrow> (string, bytes) gomap \<Rightarrow> Tx" where
  "Tx_BatchSet x data = x\<lparr>xbuffer := put_all (xbuffer x) data\<rparr>"

definition Tx_Commit :: "Tx \<Rightarrow> Transaction \<Rightarrow> (bytes \<times> (string, bytes) gomap) \<times> Tx \<times> Transaction" where
  "Tx_Commit x t = ((sorted_dump (xbuffer x), xbuffer x),
     x\<lparr>xbuffer := []\<rparr>, t\<lparr>tbuffer := put_all (tbuffer t) (xbuffer x)\<rparr>)"

definition Tx_Rollback :: "Tx \<Rightarrow> Tx" where
  "Tx_Rollback x = x\<lparr>xbuffer := []\<rparr>"

section \<open>Committing (\<open>transaction.go\<close>, \<open>snapshot.go\<close>)\<close>

definition checkID :: "'db ext \<Rightarrow> Transaction \<Rightarrow> 'db StateDB \<Rightarrow> string + unit" where
  "checkID E t s = (case db_get E (sdb s) keyOfLastTransactionID of
     Inl e \<Rightarrow> Inl e
   | Inr value \<Rightarrow>
      if length value = 0 then
        (if transactionID t \<noteq> 1 then Inl ''first transaction ID must be 1'' else Inr ())
      else (case dec_int E value of
          Inl e \<Rightarrow> Inl e
        | Inr lastID \<Rightarrow>
           if transactionID t \<noteq> lastID + 1
           then Inl (''transaction ID must be last transaction ID plus one, ID:'' @
             dec_of_int (transactionID t) @ '', last ID '' @ dec_of_int lastID)
           else Inr ()))"

text \<open>The loop of \<open>Commit\<close> over the buffer: original values read, new values batched.\<close>

fun commit_collect :: "'db ext \<Rightarrow> 'db \<Rightarrow> (string, bytes) gomap \<Rightarrow>
    string + (string, bytes) gomap \<times> batch_op list" where
  "commit_collect E db [] = Inr ([], [])"
| "commit_collect E db ((k, v) # buf) = (case db_get E db k of
     Inl e \<Rightarrow> Inl e
   | Inr value \<Rightarrow> (case commit_collect E db buf of
       Inl e \<Rightarrow> Inl e
     | Inr (origin, batch) \<Rightarrow>
         Inr ((k, value) # origin, (if length v = 0 then BDelete k else BSet k v) # batch)))"

text \<open>\<open>checkMaxCount\<close>: drop the snapshots from \<open>minID\<close> downwards until one is missing.\<close>

fun prune_loop :: "'db ext \<Rightarrow> 'db \<Rightarrow> nat \<Rightarrow> batch_op list" where
  "prune_loop E sn 0 = []"
| "prune_loop E sn (Suc n) =
    (if \<not> db_has E sn (keyOfOriginData (int (Suc n))) then []
     else BDelete (keyOfOriginData (int (Suc n))) # BDelete (keyOfNewData (int (Suc n)))
       # prune_loop E sn n)"

definition checkMaxCount :: "'db ext \<Rightarrow> 'db \<Rightarrow> int \<Rightarrow> int \<Rightarrow> batch_op list" where
  "checkMaxCount E sn i maxCount =
    (let minID = i - maxCount in if minID \<le> 0 then [] else prune_loop E sn (nat minID))"

definition snapshot_batch :: "'db ext \<Rightarrow> int \<Rightarrow> int \<Rightarrow> (string, bytes) gomap \<Rightarrow>
    (string, bytes) gomap \<Rightarrow> batch_op list \<Rightarrow> string + batch_op list" where
  "snapshot_batch E i maxCount originData newData batch =
    (if maxCount \<noteq> 0
     then (case setToBatch batch (keyOfOriginData i) (enc_map E originData) of
         Inl e \<Rightarrow> Inl e
       | Inr batch1 \<Rightarrow> setToBatch batch1 (keyOfNewData i) (enc_map E newData))
     else Inr batch)"

definition snapshot_commit :: "'db ext \<Rightarrow> int \<Rightarrow> (string, bytes) gomap \<Rightarrow> (string, bytes) gomap \<Rightarrow>
    'db StateDB \<Rightarrow> ('db StateDB, unit) act" where
  "snapshot_commit E i originData newData s =
    (case db_get E (sndb s) keyOfMaxSnapshotCount of
       Inl e \<Rightarrow> (Inl e, s)
     | Inr value \<Rightarrow>
     if length value = 0 then (Inl ''must set max snapshot count'', s)
     else case dec_int E value of
       Inl e \<Rightarrow> (Inl e, s)
     | Inr maxCount \<Rightarrow>
    (case getInt64 E (sndb s) keyOfLastTransactionID of
       Inl e \<Rightarrow> (Inl e, s)
     | Inr lastID \<Rightarrow>
     if lastID \<noteq> 0 \<and> i \<noteq> lastID + 1 \<and> i \<noteq> lastID
     then (Inl (''invalid transactionID: '' @ dec_of_int i @ '', lastTransactionID: '' @
            dec_of_int lastID), s)
     else case snapshot_batch E i maxCount originData newData (checkMaxCount E (sndb s) i maxCount) of
       Inl e \<Rightarrow> (Inl e, s)
     | Inr batch \<Rightarrow>
    (case setToBatch batch keyOfLastTransactionID (enc_int E i) of
       Inl e \<Rightarrow> (Inl e, s)
     | Inr batch1 \<Rightarrow>
    (case db_write E (sndb s) batch1 of
       Inl e \<Rightarrow> (Inl e, s)
     | Inr d \<Rightarrow> (Inr (), s\<lparr>sndb := d\<rparr>)))))"

definition Transaction_Commit :: "'db ext \<Rightarrow> Transaction \<Rightarrow> 'db StateDB \<Rightarrow> ('db StateDB, unit) act" where
  "Transaction_Commit E t s =
    (if \<not> committable t then (Inl ''can not commit rollback transaction'', s)
     else case checkID E t s of
       Inl e \<Rightarrow> (Inl e, s)
     | Inr _ \<Rightarrow>
    (case commit_collect E (sdb s) (tbuffer t) of
       Inl e \<Rightarrow> (Inl e, s)
     | Inr (originData, batch) \<Rightarrow>
     seqR (snapshot_commit E (transactionID t) originData (tbuffer t) s) (\<lambda>_ s1.
     case setToBatch batch keyOfLastTransactionID (enc_int E (transactionID t)) of
       Inl e \<Rightarrow> (Inl e, s1)
     | Inr batch1 \<Rightarrow>
    (case db_write E (sdb s1) batch1 of
       Inl e \<Rightarrow> (Inl e, s1)
     | Inr d \<Rightarrow> (Inr (), s1\<lparr>sdb := d, committableTransaction := None\<rparr>)))))"

section \<open>Undoing committed transactions (\<open>snapshot.go\<close>)\<close>

text \<open>The two loops of \<open>rollbackStateDB\<close>: the check of the written values, the restoring batch.\<close>

fun check_new_data :: "'db ext \<Rightarrow> 'db \<Rightarrow> (string, bytes) gomap \<Rightarrow> string + unit" where
  "check_new_data E db [] = Inr ()"
| "check_new_data E db ((k, v) # nd) = (case db_get E db k of
     Inl e \<Rightarrow> Inl e
   | Inr sdbValue \<Rightarrow>
       if v \<noteq> sdbValue then Inl ''can not rollback, because snapshot data wrong.''
       else check_new_data E db nd)"

fun restore_ops :: "(string, bytes) gomap \<Rightarrow> batch_op list" where
  "restore_ops [] = []"
| "restore_ops ((k, v) # od) = (if length v = 0 then BDelete k else BSet k v) # restore_ops od"

definition rollbackStateDB :: "'db ext \<Rightarrow> int \<Rightarrow> 'db StateDB \<Rightarrow> ('db StateDB, unit) act" where
  "rollbackStateDB E i s =
    (case snapshotDBGet E s (keyOfNewData i) of
       Inl e \<Rightarrow> (Inl e, s)
     | Inr newData \<Rightarrow>
     if length newData = 0 then (Inl ''invalid transactionID'', s)
     else case check_new_data E (sdb s) newData of
       Inl e \<Rightarrow> (Inl e, s)
     | Inr _ \<Rightarrow>
    (case snapshotDBGet E s (keyOfOriginData i) of
       Inl e \<Rightarrow> (Inl e, s)
     | Inr originData \<Rightarrow>
     if length originData = 0 then (Inl ''can not rollback, because snapshot data wrong.'', s)
     else case setToBatch (restore_ops originData) keyOfLastTransactionID (enc_int E (i - 1)) of
       Inl e \<Rightarrow> (Inl e, s)
     | Inr batch \<Rightarrow>
    (case db_write E (sdb s) batch of
       Inl e \<Rightarrow> (Inl e, s)
     | Inr d \<Rightarrow> (Inr (), s\<lparr>sdb := d\<rparr>))))"

text \<open>The loop of \<open>snapshot.rollback\<close>: \<open>c\<close> rounds, with \<open>i\<close> counting down.\<close>

fun rollback_loop :: "'db ext \<Rightarrow> nat \<Rightarrow> int \<Rightarrow> batch_op list \<Rightarrow> 'db StateDB \<Rightarrow>
    ('db StateDB, batch_op list) act" where
  "rollback_loop E 0 i batch s = (Inr batch, s)"
| "rollback_loop E (Suc c) i batch s =
    seqR (rollbackStateDB E i s) (\<lambda>_ s1.
      rollback_loop E c (i - 1) (batch @ [BDelete (keyOfNewData i), BDelete (keyOfOriginData i)]) s1)"

definition snapshot_rollback :: "'db ext \<Rightarrow> int \<Rightarrow> 'db StateDB \<Rightarrow> ('db StateDB, unit) act" where
  "snapshot_rollback E n s =
    (case getInt64 E (sndb s) keyOfLastTransactionID of
       Inl e \<Rightarrow> (Inl e, s)
     | Inr lastID \<Rightarrow>
    (case getInt64 E (sdb s) keyOfLastTransactionID of
       Inl e \<Rightarrow> (Inl e, s)
     | Inr sdbLastID \<Rightarrow>
     if lastID \<noteq> sdbLastID then (Inl (''snapshot last transactionID='' @ dec_of_int lastID @
         '' doesn't match state db last transactionID='' @ dec_of_int sdbLastID @ ''.''), s)
     else if lastID - n < 0 then (Inl (''can not rollback, lastTransactionID='' @ dec_of_int lastID @
         '', rollbackTransactions='' @ dec_of_int n), s)
     else let targetID = lastID - n + 1 in
    (case getOriginData E s targetID of
       Inl e \<Rightarrow> (Inl e, s)
     | Inr originData \<Rightarrow>
     if length originData = 0
     then (Inl (''no this transactionID snapshot, transactionID='' @ dec_of_int targetID), s)
     else seqR (rollback_loop E (nat (lastID - targetID + 1)) lastID [] s) (\<lambda>batch s1.
     case setToBatch batch keyOfLastTransactionID (enc_int E (targetID - 1)) of
       Inl e \<Rightarrow> (Inl e, s1)
     | Inr batch1 \<Rightarrow>
    (case db_write E (sndb s1) batch1 of
       Inl e \<Rightarrow> (Inl e, s1)
     | Inr d \<Rightarrow> (Inr (), s1\<lparr>sndb := d\<rparr>))))))"

definition StateDB_Rollback :: "'db ext \<Rightarrow> int \<Rightarrow> 'db StateDB \<Rightarrow> ('db StateDB, unit) act" where
  "StateDB_Rollback E n s =
    (if n \<le> 0 then (Inl ''invalid parameter'', s)
     else if committableTransaction s \<noteq> None
     then (Inl ''cannot be rollback when a committable transaction is not committed'', s)
     else snapshot_rollback E n s)"

end
