(* ===== verification/State_DB_Undo.thy ===== *)
theory State_DB_Undo
  imports State_DB
begin

text \<open>
  Committing and undoing, against an abstract specification: a bounded undo history. A history
  is the list of the contents of the state database after the last commits, newest first;
  committing pushes the new contents and keeps at most one more than the configured number of
  snapshots, and rolling back \<open>n\<close> transactions drops the first \<open>n\<close> entries. \<open>undo_inv\<close> relates the
  two databases to a history, \<open>Commit\<close> and \<open>Rollback\<close> refine the two abstract operations.
\<close>

section \<open>What the code relies on in the databases and the codec\<close>

definition db_val :: "'db ext \<Rightarrow> 'db \<Rightarrow> string \<Rightarrow> bytes" where
  "db_val E d k = (case db_get E d k of Inr v \<Rightarrow> v | Inl _ \<Rightarrow> [])"

text \<open>The effect of a batch on one key: the last operation on the key decides.\<close>

fun ops_val :: "batch_op list \<Rightarrow> string \<Rightarrow> bytes \<Rightarrow> bytes" where
  "ops_val [] k v = v"
| "ops_val (BSet j x # ops) k v = ops_val ops k (if j = k then x else v)"
| "ops_val (BDelete j # ops) k v = ops_val ops k (if j = k then [] else v)"

fun ops_has :: "batch_op list \<Rightarrow> string \<Rightarrow> bool \<Rightarrow> bool" where
  "ops_has [] k b = b"
| "ops_has (BSet j x # ops) k b = ops_has ops k (j = k \<or> b)"
| "ops_has (BDelete j # ops) k b = ops_has ops k (j \<noteq> k \<and> b)"

definition ext_ok :: "'db ext \<Rightarrow> bool" where
  "ext_ok E \<longleftrightarrow>
    (\<forall>d k. \<exists>v. db_get E d k = Inr v)
  \<and> (\<forall>d ops. \<exists>d'. db_write E d ops = Inr d'
        \<and> (\<forall>k. db_val E d' k = ops_val ops k (db_val E d k))
        \<and> (\<forall>k. db_has E d' k = ops_has ops k (db_has E d k)))
  \<and> (\<forall>d k v. \<exists>d'. db_set_sync E d k v = Inr d'
        \<and> (\<forall>j. db_val E d' j = (if j = k then v else db_val E d j))
        \<and> (\<forall>j. db_has E d' j = (j = k \<or> db_has E d j)))
  \<and> (\<forall>d k. db_val E d k \<noteq> [] \<longrightarrow> db_has E d k)
  \<and> (\<forall>i. \<exists>b. enc_int E i = Inr b \<and> b \<noteq> [] \<and> dec_int E b = Inr i)
  \<and> (\<forall>m. distinct (map fst m) \<longrightarrow> (\<exists>b m'. enc_map E m = Inr b \<and> b \<noteq> [] \<and> dec_map E b = Inr m'
        \<and> distinct (map fst m') \<and> map_of m' = map_of m))"

lemma ext_get:
  assumes "ext_ok E"
  shows "db_get E d k = Inr (db_val E d k)"
  using assms [unfolded ext_ok_def, THEN conjunct1, THEN spec [of _ d], THEN spec [of _ k]]
  by (auto simp: db_val_def)

lemma ext_write:
  assumes "ext_ok E"
  obtains d' where "db_write E d ops = Inr d'" "\<forall>k. db_val E d' k = ops_val ops k (db_val E d k)"
    "\<forall>k. db_has E d' k = ops_has ops k (db_has E d k)"
  using assms [unfolded ext_ok_def, THEN conjunct2, THEN conjunct1, THEN spec [of _ d], THEN spec [of _ ops]]
  by (elim exE conjE) (rule that)

lemma ext_set_sync:
  assumes "ext_ok E"
  obtains d' where "db_set_sync E d k v = Inr d'"
    "\<forall>j. db_val E d' j = (if j = k then v else db_val E d j)"
    "\<forall>j. db_has E d' j = (j = k \<or> db_has E d j)"
  using assms [unfolded ext_ok_def, THEN conjunct2, THEN conjunct2, THEN conjunct1,
      THEN spec [of _ d], THEN spec [of _ k], THEN spec [of _ v]]
  by (elim exE conjE) (rule that)

lemma ext_has:
  assumes "ext_ok E" "\<not> db_has E d k"
  shows "db_val E d k = []"
  using assms(1) [unfolded ext_ok_def, THEN conjunct2, THEN conjunct2, THEN conjunct2, THEN conjunct1,
      THEN spec [of _ d], THEN spec [of _ k]] assms(2) by argo

lemma ext_int:
  assumes "ext_ok E"
  obtains b where "enc_int E i = Inr b" "b \<noteq> []" "dec_int E b = Inr i"
  using assms [unfolded ext_ok_def, THEN conjunct2, THEN conjunct2, THEN conjunct2, THEN conjunct2,
      THEN conjunct1, THEN spec [of _ i]]
  by (elim exE conjE) (rule that)

lemma ext_map:
  assumes "ext_ok E" "distinct (map fst m)"
  obtains b m' where "enc_map E m = Inr b" "b \<noteq> []" "dec_map E b = Inr m'"
    "distinct (map fst m')" "map_of m' = map_of m"
  using assms(1) [unfolded ext_ok_def, THEN conjunct2, THEN conjunct2, THEN conjunct2, THEN conjunct2,
      THEN conjunct2, THEN spec [of _ m], THEN mp, OF assms(2)]
  by (elim exE conjE) (rule that)

section \<open>Batches and keys\<close>

lemma ops_val_append [simp]: "ops_val (a @ b) k v = ops_val b k (ops_val a k v)"
  by (induction a k v rule: ops_val.induct) auto

lemma ops_has_append [simp]: "ops_has (a @ b) k v = ops_has b k (ops_has a k v)"
  by (induction a k v rule: ops_has.induct) auto

lemma ops_val_restore:
  "distinct (map fst od) \<Longrightarrow>
    ops_val (restore_ops od) k v = (case map_of od k of Some w \<Rightarrow> w | None \<Rightarrow> v)"
proof (induction od arbitrary: v)
  case (Cons kv od)
  obtain j w where [simp]: "kv = (j, w)" by fastforce
  have "map_of od j = None" using Cons.prems by (auto simp: map_of_eq_None_iff)
  with Cons show ?case by (auto split: option.splits)
qed simp

lemma ops_val_restore_other: "k \<notin> fst ` set od \<Longrightarrow> ops_val (restore_ops od) k v = v"
  by (induction od rule: restore_ops.induct) auto

lemma commit_collect_eq:
  "ext_ok E \<Longrightarrow> commit_collect E d buf =
    Inr (map (\<lambda>(k, v). (k, db_val E d k)) buf, restore_ops buf)"
  by (induction buf) (auto simp: ext_get)

lemma count_dollar_dec [simp]: "count_list (dec_of_int i) CHR ''$'' = 0"
  by (simp add: count_list_0_iff dec_of_int_no_dollar)

lemma origin_key_inject [simp]: "keyOfOriginData i = keyOfOriginData j \<longleftrightarrow> i = j"
  by (simp add: keyOfOriginData_def)

lemma new_key_inject [simp]: "keyOfNewData i = keyOfNewData j \<longleftrightarrow> i = j"
  by (simp add: keyOfNewData_def)

lemma nth_last_neq: "rev a ! n \<noteq> rev b ! n \<Longrightarrow> a \<noteq> b"
  by auto

lemma origin_new_key [simp]: "keyOfOriginData i \<noteq> keyOfNewData j" "keyOfNewData j \<noteq> keyOfOriginData i"
  by (rule nth_last_neq [where n = 5], simp add: keyOfOriginData_def keyOfNewData_def)+

lemma count_neq: "count_list a c \<noteq> count_list b c \<Longrightarrow> a \<noteq> b"
  by auto

lemma count_dollar_keys:
  "count_list (keyOfOriginData i) CHR ''$'' = 2" "count_list (keyOfNewData i) CHR ''$'' = 2"
  "count_list keyOfLastTransactionID CHR ''$'' = 1" "count_list keyOfMaxSnapshotCount CHR ''$'' = 1"
  by (simp_all add: keyOfOriginData_def keyOfNewData_def keyOfLastTransactionID_def
      keyOfMaxSnapshotCount_def)

lemma key_neq [simp]:
  "keyOfOriginData i \<noteq> keyOfLastTransactionID" "keyOfLastTransactionID \<noteq> keyOfOriginData i"
  "keyOfNewData i \<noteq> keyOfLastTransactionID" "keyOfLastTransactionID \<noteq> keyOfNewData i"
  "keyOfOriginData i \<noteq> keyOfMaxSnapshotCount" "keyOfMaxSnapshotCount \<noteq> keyOfOriginData i"
  "keyOfNewData i \<noteq> keyOfMaxSnapshotCount" "keyOfMaxSnapshotCount \<noteq> keyOfNewData i"
  by (rule count_neq [where c = "CHR ''$''"], simp add: count_dollar_keys)+

lemma last_max_key_neq [simp]:
  "keyOfLastTransactionID \<noteq> keyOfMaxSnapshotCount" "keyOfMaxSnapshotCount \<noteq> keyOfLastTransactionID"
  by (simp_all add: keyOfLastTransactionID_def keyOfMaxSnapshotCount_def)

lemma ops_val_prune:
  "(\<And>j. 0 < j \<Longrightarrow> j \<le> int n \<Longrightarrow> k \<noteq> keyOfOriginData j \<and> k \<noteq> keyOfNewData j) \<Longrightarrow>
    ops_val (prune_loop E sn n) k v = v"
proof (induction n)
  case (Suc n)
  then have "keyOfOriginData (int (Suc n)) \<noteq> k" "keyOfNewData (int (Suc n)) \<noteq> k"
    by (metis of_nat_0_less_iff order_refl zero_less_Suc)+
  with Suc show ?case by auto
qed simp

lemma ops_val_checkMaxCount:
  assumes "\<And>j. 0 < j \<Longrightarrow> j \<le> i - m \<Longrightarrow> k \<noteq> keyOfOriginData j \<and> k \<noteq> keyOfNewData j"
  shows "ops_val (checkMaxCount E sn i m) k v = v"
  unfolding checkMaxCount_def Let_def
  by (cases "i - m \<le> 0") (simp_all add: ops_val_prune assms)

lemma ops_has_prune:
  assumes "\<And>j. 0 < j \<Longrightarrow> j \<le> int n \<Longrightarrow> db_has E sn (keyOfOriginData j) \<longleftrightarrow> lo < j"
  shows "ops_has (prune_loop E sn n) (keyOfOriginData j) v = ((lo < j \<and> 0 < j \<and> j \<le> int n \<longrightarrow> False) \<and> v)"
  using assms
proof (induction n arbitrary: v)
  case (Suc n)
  have has: "db_has E sn (keyOfOriginData (int (Suc n))) \<longleftrightarrow> lo < int (Suc n)"
    using Suc.prems [of "int (Suc n)"] by simp
  show ?case
  proof (cases "lo < int (Suc n)")
    case True
    have "ops_has (prune_loop E sn n) (keyOfOriginData j) (int (Suc n) \<noteq> j \<and> v)
        = ((lo < j \<and> 0 < j \<and> j \<le> int n \<longrightarrow> False) \<and> int (Suc n) \<noteq> j \<and> v)"
      by (rule Suc.IH) (use Suc.prems in auto)
    then show ?thesis using True has by auto
  qed (use has in auto)
qed auto

lemma ops_has_checkMaxCount:
  assumes "\<And>j. 0 < j \<Longrightarrow> j \<le> i - m \<Longrightarrow> db_has E sn (keyOfOriginData j) \<longleftrightarrow> lo < j"
  shows "ops_has (checkMaxCount E sn i m) (keyOfOriginData j) v
    = ((lo < j \<and> 0 < j \<and> j \<le> i - m \<longrightarrow> False) \<and> v)"
proof (cases "i - m \<le> 0")
  case False
  then show ?thesis using assms
    by (auto simp: checkMaxCount_def Let_def ops_has_prune [where lo = lo])
qed (auto simp: checkMaxCount_def Let_def)

section \<open>Reading the databases\<close>

definition snap :: "'db ext \<Rightarrow> 'db \<Rightarrow> string \<Rightarrow> string + (string, bytes) gomap" where
  "snap E d k = (if db_val E d k = [] then Inr [] else dec_map E (db_val E d k))"

lemma snapshotDBGet_eq: "ext_ok E \<Longrightarrow> snapshotDBGet E s k = snap E (sndb s) k"
  by (simp add: snapshotDBGet_def ext_get snap_def)

lemma getInt64_eq:
  "ext_ok E \<Longrightarrow> getInt64 E d k = (if db_val E d k = [] then Inr 0 else dec_int E (db_val E d k))"
  by (simp add: getInt64_def ext_get)

lemma snap_cong: "db_val E d k = db_val E d' k \<Longrightarrow> snap E d k = snap E d' k"
  by (simp add: snap_def)

lemma getInt64_cong:
  "ext_ok E \<Longrightarrow> db_val E d k = db_val E d' k \<Longrightarrow> getInt64 E d k = getInt64 E d' k"
  by (simp add: getInt64_eq)

section \<open>The abstract history and the relation to it\<close>

type_synonym contents = "string \<Rightarrow> bytes"

definition same_contents :: "contents \<Rightarrow> contents \<Rightarrow> bool" where
  "same_contents f g \<longleftrightarrow> (\<forall>k. k \<noteq> keyOfLastTransactionID \<longrightarrow> f k = g k)"

text \<open>Undoing the writes \<open>od\<close> (original values) from contents \<open>cur\<close>.\<close>

definition overlay :: "(string, bytes) gomap \<Rightarrow> contents \<Rightarrow> contents" where
  "overlay od cur = (\<lambda>k. case map_of od k of Some v \<Rightarrow> v | None \<Rightarrow> cur k)"

text \<open>The snapshot with number \<open>i\<close> leads back from \<open>cur\<close> to \<open>prev\<close>.\<close>

definition link :: "'db ext \<Rightarrow> 'db \<Rightarrow> int \<Rightarrow> contents \<Rightarrow> contents \<Rightarrow> bool" where
  "link E sn i cur prev \<longleftrightarrow> (\<exists>nd od.
      snap E sn (keyOfNewData i) = Inr nd \<and> snap E sn (keyOfOriginData i) = Inr od
    \<and> nd \<noteq> [] \<and> od \<noteq> [] \<and> distinct (map fst od)
    \<and> keyOfLastTransactionID \<notin> fst ` set nd \<and> keyOfLastTransactionID \<notin> fst ` set od
    \<and> (\<forall>k v. (k, v) \<in> set nd \<longrightarrow> v = cur k)
    \<and> same_contents prev (overlay od cur))"

lemma linkE:
  assumes "link E sn i cur prev"
  obtains nd od where "snap E sn (keyOfNewData i) = Inr nd" "snap E sn (keyOfOriginData i) = Inr od"
    "nd \<noteq> []" "od \<noteq> []" "distinct (map fst od)"
    "keyOfLastTransactionID \<notin> fst ` set nd" "keyOfLastTransactionID \<notin> fst ` set od"
    "\<forall>k v. (k, v) \<in> set nd \<longrightarrow> v = cur k" "same_contents prev (overlay od cur)"
  using assms unfolding link_def by (elim exE conjE) (rule that)

lemma linkI:
  assumes "snap E sn (keyOfNewData i) = Inr nd" "snap E sn (keyOfOriginData i) = Inr od"
    "nd \<noteq> []" "od \<noteq> []" "distinct (map fst od)"
    "keyOfLastTransactionID \<notin> fst ` set nd" "keyOfLastTransactionID \<notin> fst ` set od"
    "\<forall>k v. (k, v) \<in> set nd \<longrightarrow> v = cur k" "same_contents prev (overlay od cur)"
  shows "link E sn i cur prev"
  unfolding link_def by (rule exI [of _ nd], rule exI [of _ od]) (intro conjI assms)

definition undo_inv :: "'db ext \<Rightarrow> nat \<Rightarrow> int \<Rightarrow> contents list \<Rightarrow> 'db StateDB \<Rightarrow> bool" where
  "undo_inv E M lst hist s \<longleftrightarrow>
      getInt64 E (sdb s) keyOfLastTransactionID = Inr lst
    \<and> getInt64 E (sndb s) keyOfLastTransactionID = Inr lst
    \<and> 0 \<le> lst
    \<and> db_val E (sndb s) keyOfMaxSnapshotCount \<noteq> []
    \<and> dec_int E (db_val E (sndb s) keyOfMaxSnapshotCount) = Inr (int M)
    \<and> hist \<noteq> [] \<and> length hist \<le> Suc M \<and> int (length hist) - 1 \<le> lst
    \<and> same_contents (db_val E (sdb s)) (hist ! 0)
    \<and> (\<forall>n. Suc n < length hist \<longrightarrow> link E (sndb s) (lst - int n) (hist ! n) (hist ! Suc n))
    \<and> (\<forall>j>0. db_has E (sndb s) (keyOfOriginData j) \<longleftrightarrow> lst + 1 - int (length hist) < j \<and> j \<le> lst)"

lemma same_contents_trans: "same_contents f g \<Longrightarrow> same_contents g h \<Longrightarrow> same_contents f h"
  by (simp add: same_contents_def)

lemma same_contents_sym: "same_contents f g \<Longrightarrow> same_contents g f"
  by (simp add: same_contents_def)

lemma same_contents_overlay: "same_contents f g \<Longrightarrow> same_contents (overlay od f) (overlay od g)"
  by (simp add: same_contents_def overlay_def split: option.split)

lemma link_db_cong:
  assumes "db_val E d (keyOfNewData i) = db_val E d' (keyOfNewData i)"
    and "db_val E d (keyOfOriginData i) = db_val E d' (keyOfOriginData i)"
  shows "link E d i = link E d' i"
  using snap_cong [OF assms(1)] snap_cong [OF assms(2)] by (simp add: link_def fun_eq_iff)

section \<open>Undoing one transaction\<close>

lemma check_new_data_ok:
  "ext_ok E \<Longrightarrow> (\<And>k v. (k, v) \<in> set nd \<Longrightarrow> v = db_val E d k) \<Longrightarrow> check_new_data E d nd = Inr ()"
  by (induction E d nd rule: check_new_data.induct) (auto simp: ext_get)

lemma rollbackStateDB_link:
  assumes ok: "ext_ok E" and lk: "link E (sndb s) i cur prev"
    and cur: "same_contents (db_val E (sdb s)) cur"
  obtains s' where "rollbackStateDB E i s = (Inr (), s')" "sndb s' = sndb s"
    "committableTransaction s' = committableTransaction s"
    "lastCommittableTransactionID s' = lastCommittableTransactionID s"
    "same_contents (db_val E (sdb s')) prev"
    "getInt64 E (sdb s') keyOfLastTransactionID = Inr (i - 1)"
proof -
  obtain nd od where nd: "snap E (sndb s) (keyOfNewData i) = Inr nd"
    and od: "snap E (sndb s) (keyOfOriginData i) = Inr od" "nd \<noteq> []" "od \<noteq> []"
      "distinct (map fst od)" "keyOfLastTransactionID \<notin> fst ` set nd"
      "keyOfLastTransactionID \<notin> fst ` set od" "\<forall>k v. (k, v) \<in> set nd \<longrightarrow> v = cur k"
      "same_contents prev (overlay od cur)"
    by (rule linkE [OF lk])
  have "v = db_val E (sdb s) k" if "(k, v) \<in> set nd" for k v
  proof -
    have "k \<noteq> keyOfLastTransactionID" using od(5) that by force
    then show ?thesis using od(7) cur that by (simp add: same_contents_def)
  qed
  then have chk: "check_new_data E (sdb s) nd = Inr ()"
    by (rule check_new_data_ok [OF ok])
  obtain b where b: "enc_int E (i - 1) = Inr b" "b \<noteq> []" "dec_int E b = Inr (i - 1)"
    using ext_int [OF ok] .
  obtain d where d: "db_write E (sdb s) (restore_ops od @ [BSet keyOfLastTransactionID b]) = Inr d"
    and dv: "\<forall>k. db_val E d k = ops_val (restore_ops od @ [BSet keyOfLastTransactionID b]) k (db_val E (sdb s) k)"
    and dh: "\<forall>k. db_has E d k = ops_has (restore_ops od @ [BSet keyOfLastTransactionID b]) k (db_has E (sdb s) k)"
    by (rule ext_write [OF ok, of "sdb s" "restore_ops od @ [BSet keyOfLastTransactionID b]"])
  show thesis
  proof (rule that [of "s\<lparr>sdb := d\<rparr>"])
    show "rollbackStateDB E i s = (Inr (), s\<lparr>sdb := d\<rparr>)"
      using chk b d by (simp add: rollbackStateDB_def snapshotDBGet_eq [OF ok] nd od setToBatch_def)
    have "same_contents (db_val E d) (overlay od (db_val E (sdb s)))"
      by (auto simp: same_contents_def overlay_def dv ops_val_restore [OF od(4)] split: option.split)
    then show "same_contents (db_val E (sdb (s\<lparr>sdb := d\<rparr>))) prev"
      using od(8) same_contents_overlay [OF cur, of od] by (simp add: same_contents_def)
    show "getInt64 E (sdb (s\<lparr>sdb := d\<rparr>)) keyOfLastTransactionID = Inr (i - 1)"
      using b by (simp add: getInt64_eq [OF ok] dv)
  qed simp_all
qed

section \<open>Undoing several transactions\<close>

definition links :: "'db ext \<Rightarrow> 'db \<Rightarrow> int \<Rightarrow> contents list \<Rightarrow> bool" where
  "links E sn lst hist \<longleftrightarrow>
    (\<forall>n. Suc n < length hist \<longrightarrow> link E sn (lst - int n) (hist ! n) (hist ! Suc n))"

lemma links_tl: "links E sn lst (c # hist) \<Longrightarrow> links E sn (lst - 1) hist"
  unfolding links_def
proof (intro allI impI)
  fix n
  assume "\<forall>n. Suc n < length (c # hist) \<longrightarrow> link E sn (lst - int n) ((c # hist) ! n) ((c # hist) ! Suc n)"
    and "Suc n < length hist"
  then have "link E sn (lst - int (Suc n)) ((c # hist) ! Suc n) ((c # hist) ! Suc (Suc n))"
    by (metis Suc_mono length_Cons)
  then show "link E sn (lst - 1 - int n) (hist ! n) (hist ! Suc n)"
    by (simp add: algebra_simps)
qed

lemma links_drop: "links E sn lst hist \<Longrightarrow> c < length hist \<Longrightarrow> links E sn (lst - int c) (drop c hist)"
proof (induction c arbitrary: lst hist)
  case (Suc c)
  then obtain x xs where [simp]: "hist = x # xs" by (cases hist) auto
  from Suc.prems have "links E sn (lst - 1) xs" "c < length xs"
    by (auto dest: links_tl)
  from Suc.IH [OF this] show ?case by (simp add: algebra_simps)
qed simp

text \<open>The deletions the loop collects, for \<open>c\<close> transactions from \<open>i\<close> down.\<close>

fun forget_ops :: "nat \<Rightarrow> int \<Rightarrow> batch_op list" where
  "forget_ops 0 i = []"
| "forget_ops (Suc c) i =
    BDelete (keyOfNewData i) # BDelete (keyOfOriginData i) # forget_ops c (i - 1)"

lemma ops_val_forget_other:
  "(\<And>j. i - int c < j \<Longrightarrow> j \<le> i \<Longrightarrow> k \<noteq> keyOfNewData j \<and> k \<noteq> keyOfOriginData j) \<Longrightarrow>
    ops_val (forget_ops c i) k v = v"
proof (induction c i arbitrary: v rule: forget_ops.induct)
  case (2 c i)
  from "2.prems" [of i] have "keyOfNewData i \<noteq> k" "keyOfOriginData i \<noteq> k" by auto
  moreover have "ops_val (forget_ops c (i - 1)) k v = v"
    by (rule "2.IH") (use "2.prems" in auto)
  ultimately show ?case by simp
qed simp

lemma ops_has_forget:
  "ops_has (forget_ops c i) (keyOfOriginData j) v = (\<not> (i - int c < j \<and> j \<le> i) \<and> v)"
proof (induction c i arbitrary: v rule: forget_ops.induct)
  case (2 c i)
  have "i - 1 - int c < j \<and> j \<le> i - 1 \<or> i = j \<longleftrightarrow> i - int (Suc c) < j \<and> j \<le> i" by linarith
  then show ?case by (simp add: "2.IH") metis
qed simp

lemma rollback_loop_links:
  assumes ok: "ext_ok E"
  shows "links E (sndb s) i hist \<Longrightarrow> c < length hist \<Longrightarrow> same_contents (db_val E (sdb s)) (hist ! 0)
    \<Longrightarrow> getInt64 E (sdb s) keyOfLastTransactionID = Inr i
    \<Longrightarrow> \<exists>s'. rollback_loop E c i batch s = (Inr (batch @ forget_ops c i), s')
        \<and> sndb s' = sndb s \<and> committableTransaction s' = committableTransaction s
        \<and> lastCommittableTransactionID s' = lastCommittableTransactionID s
        \<and> same_contents (db_val E (sdb s')) (hist ! c)
        \<and> getInt64 E (sdb s') keyOfLastTransactionID = Inr (i - int c)"
proof (induction c arbitrary: i hist batch s)
  case (Suc c)
  obtain x zs where "hist = x # zs" using Suc.prems(2) by (cases hist) auto
  moreover obtain y xs where "zs = y # xs" using Suc.prems(2) calculation by (cases zs) auto
  ultimately have h [simp]: "hist = x # y # xs" by simp
  have lk: "link E (sndb s) i x y"
    using Suc.prems(1) unfolding links_def by (auto dest!: spec [of _ 0])
  have cur: "same_contents (db_val E (sdb s)) x" using Suc.prems(3) by simp
  obtain s1 where s1: "rollbackStateDB E i s = (Inr (), s1)" "sndb s1 = sndb s"
      "committableTransaction s1 = committableTransaction s"
      "lastCommittableTransactionID s1 = lastCommittableTransactionID s"
      "same_contents (db_val E (sdb s1)) y"
      "getInt64 E (sdb s1) keyOfLastTransactionID = Inr (i - 1)"
    by (rule rollbackStateDB_link [OF ok lk cur])
  have "links E (sndb s1) (i - 1) (y # xs)" using Suc.prems(1) s1(2) by (auto dest: links_tl)
  moreover have "c < length (y # xs)" using Suc.prems(2) by simp
  ultimately show ?case
    using Suc.IH [of s1 "i - 1" "y # xs" "batch @ [BDelete (keyOfNewData i), BDelete (keyOfOriginData i)]"] s1
    by (auto simp: algebra_simps)
qed simp

lemma undo_inv_links: "undo_inv E M lst hist s \<Longrightarrow> links E (sndb s) lst hist"
  by (simp add: undo_inv_def links_def)

lemma snap_target:
  assumes "undo_inv E M lst hist s" "0 < n" "n < length hist"
  obtains od where "snap E (sndb s) (keyOfOriginData (lst - int n + 1)) = Inr od" "od \<noteq> []"
proof -
  obtain m where m: "n = Suc m" using assms(2) by (cases n) auto
  have "link E (sndb s) (lst - int m) (hist ! m) (hist ! Suc m)"
    using assms(1,3) unfolding undo_inv_def m by blast
  moreover have "lst - int m = lst - int n + 1" by (simp add: m)
  ultimately show thesis using that by (metis linkE)
qed

text \<open>Rollback refines dropping the newest entries of the history.\<close>

lemma snapshot_rollback_refines:
  assumes ok: "ext_ok E" and inv: "undo_inv E M lst hist s" and n: "0 < n" "n < length hist"
  obtains s' where "snapshot_rollback E (int n) s = (Inr (), s')"
    "undo_inv E M (lst - int n) (drop n hist) s'"
    "committableTransaction s' = committableTransaction s"
    "lastCommittableTransactionID s' = lastCommittableTransactionID s"
proof -
  note I = inv [unfolded undo_inv_def]
  obtain od where od: "snap E (sndb s) (keyOfOriginData (lst - int n + 1)) = Inr od" "od \<noteq> []"
    using snap_target [OF inv n] .
  have lst: "0 \<le> lst - int n" using I n by linarith
  obtain s1 where s1: "rollback_loop E n lst [] s = (Inr (forget_ops n lst), s1)" "sndb s1 = sndb s"
      "committableTransaction s1 = committableTransaction s"
      "lastCommittableTransactionID s1 = lastCommittableTransactionID s"
      "same_contents (db_val E (sdb s1)) (hist ! n)"
      "getInt64 E (sdb s1) keyOfLastTransactionID = Inr (lst - int n)"
    using rollback_loop_links [OF ok undo_inv_links [OF inv] n(2), of "[]"] I by auto
  obtain b where b: "enc_int E (lst - int n) = Inr b" "b \<noteq> []" "dec_int E b = Inr (lst - int n)"
    using ext_int [OF ok] .
  obtain d where d: "db_write E (sndb s) (forget_ops n lst @ [BSet keyOfLastTransactionID b]) = Inr d"
    and dv: "\<forall>k. db_val E d k = ops_val (forget_ops n lst @ [BSet keyOfLastTransactionID b]) k (db_val E (sndb s) k)"
    and dh: "\<forall>k. db_has E d k = ops_has (forget_ops n lst @ [BSet keyOfLastTransactionID b]) k (db_has E (sndb s) k)"
    by (rule ext_write [OF ok, of "sndb s" "forget_ops n lst @ [BSet keyOfLastTransactionID b]"])
  have keep: "db_val E d k = db_val E (sndb s) k" if "k \<noteq> keyOfLastTransactionID"
    "\<And>j. lst - int n < j \<Longrightarrow> j \<le> lst \<Longrightarrow> k \<noteq> keyOfNewData j \<and> k \<noteq> keyOfOriginData j" for k
    using that by (simp add: dv ops_val_forget_other)
  have links: "links E d (lst - int n) (drop n hist)"
    unfolding links_def
  proof (intro allI impI)
    fix m assume m: "Suc m < length (drop n hist)"
    have "link E d (lst - int n - int m) = link E (sndb s) (lst - int n - int m)"
      by (rule link_db_cong) (rule keep; simp)+
    then show "link E d (lst - int n - int m) (drop n hist ! m) (drop n hist ! Suc m)"
      using links_drop [OF undo_inv_links [OF inv] n(2)] m by (simp add: links_def)
  qed
  show thesis
  proof (rule that [of "s1\<lparr>sndb := d\<rparr>"])
    show "snapshot_rollback E (int n) s = (Inr (), s1\<lparr>sndb := d\<rparr>)"
      using I lst od s1 b d
      by (simp add: snapshot_rollback_def getOriginData_def snapshotDBGet_eq [OF ok] setToBatch_def Let_def)
    show "undo_inv E M (lst - int n) (drop n hist) (s1\<lparr>sndb := d\<rparr>)"
      using I n lst s1 b links keep [of keyOfMaxSnapshotCount]
      by (auto simp: undo_inv_def links_def getInt64_eq [OF ok] dv dh ops_has_forget of_nat_diff)
  qed (use s1 in simp_all)
qed

section \<open>Committing pushes onto the history\<close>

lemma map_of_pair_map: "map_of (map (\<lambda>(k, v). (k, f k)) m) k = (if k \<in> fst ` set m then Some (f k) else None)"
  by (induction m) auto

lemma map_of_eq_keys: "map_of m' = map_of m \<Longrightarrow> fst ` set m' = fst ` set m"
  by (metis dom_map_of_conv_image_fst)

lemma fresh_link:
  assumes nd: "map_of nd = map_of buf" "distinct (map fst nd)"
    and od: "map_of od = map_of (map (\<lambda>(k, v). (k, old k)) buf)" "distinct (map fst od)"
    and buf: "buf \<noteq> []" "keyOfLastTransactionID \<notin> fst ` set buf"
    and d: "snap E d (keyOfNewData i) = Inr nd" "snap E d (keyOfOriginData i) = Inr od"
    and prev: "same_contents prev old"
  shows "link E d i (overlay buf old) prev"
  unfolding link_def
proof (rule exI [of _ nd], rule exI [of _ od], intro conjI allI impI)
  have odk: "fst ` set od = fst ` set buf"
    using map_of_eq_keys [OF od(1)] by (simp add: image_image case_prod_unfold)
  have ndk: "fst ` set nd = fst ` set buf" by (rule map_of_eq_keys [OF nd(1)])
  show "nd \<noteq> []" "od \<noteq> []" using ndk odk buf(1) by fastforce+
  show "keyOfLastTransactionID \<notin> fst ` set nd" "keyOfLastTransactionID \<notin> fst ` set od"
    using ndk odk buf(2) by simp_all
  show "v = overlay buf old k" if "(k, v) \<in> set nd" for k v
  proof -
    have "map_of nd k = Some v" using nd(2) that by (rule map_of_is_SomeI)
    then show ?thesis by (simp add: overlay_def nd(1))
  qed
  have "overlay od (overlay buf old) = old"
    by (auto simp: overlay_def fun_eq_iff od(1) map_of_pair_map split: option.splits
        dest: map_of_SomeD intro: rev_image_eqI)
  then show "same_contents prev (overlay od (overlay buf old))" using prev by simp
qed (use assms in simp_all)

text \<open>What the snapshot part of a commit leaves in the snapshot database.\<close>

lemma snapshot_commit_ok:
  assumes ok: "ext_ok E" and inv: "undo_inv E M lst hist s"
    and buf: "distinct (map fst od)" "distinct (map fst nd)"
  obtains d od' nd' where "snapshot_commit E (lst + 1) od nd s = (Inr (), s\<lparr>sndb := d\<rparr>)"
    "getInt64 E d keyOfLastTransactionID = Inr (lst + 1)"
    "db_val E d keyOfMaxSnapshotCount = db_val E (sndb s) keyOfMaxSnapshotCount"
    "\<forall>j. lst + 1 - int M < j \<and> j \<le> lst \<longrightarrow> link E d j = link E (sndb s) j"
    "0 < M \<longrightarrow> snap E d (keyOfOriginData (lst + 1)) = Inr od' \<and> snap E d (keyOfNewData (lst + 1)) = Inr nd'"
    "map_of od' = map_of od" "map_of nd' = map_of nd" "distinct (map fst od')" "distinct (map fst nd')"
    "\<forall>j>0. db_has E d (keyOfOriginData j)
      \<longleftrightarrow> lst + 1 - int (min M (length hist)) < j \<and> j \<le> lst + 1"
proof -
  note I = inv [unfolded undo_inv_def]
  obtain ob od' where ob: "enc_map E od = Inr ob" "ob \<noteq> []" "dec_map E ob = Inr od'"
      "distinct (map fst od')" "map_of od' = map_of od"
    by (rule ext_map [OF ok buf(1)])
  obtain nb nd' where nb: "enc_map E nd = Inr nb" "nb \<noteq> []" "dec_map E nb = Inr nd'"
      "distinct (map fst nd')" "map_of nd' = map_of nd"
    by (rule ext_map [OF ok buf(2)])
  obtain b where b: "enc_int E (lst + 1) = Inr b" "b \<noteq> []" "dec_int E b = Inr (lst + 1)"
    by (rule ext_int [OF ok])
  let ?ops = "checkMaxCount E (sndb s) (lst + 1) (int M)
    @ (if M = 0 then [] else [BSet (keyOfOriginData (lst + 1)) ob, BSet (keyOfNewData (lst + 1)) nb])
    @ [BSet keyOfLastTransactionID b]"
  obtain d where d: "db_write E (sndb s) ?ops = Inr d"
    and dv: "\<forall>k. db_val E d k = ops_val ?ops k (db_val E (sndb s) k)"
    and dh: "\<forall>k. db_has E d k = ops_has ?ops k (db_has E (sndb s) k)"
    by (rule ext_write [OF ok, of "sndb s" ?ops])
  have keep: "ops_val (checkMaxCount E (sndb s) (lst + 1) (int M)) k v = v"
    if "\<And>j. j \<le> lst + 1 - int M \<Longrightarrow> k \<noteq> keyOfOriginData j \<and> k \<noteq> keyOfNewData j" for k v
    using that by (intro ops_val_checkMaxCount) auto
  have max: "db_val E d keyOfMaxSnapshotCount = db_val E (sndb s) keyOfMaxSnapshotCount"
    by (simp add: dv keep)
  have lid: "getInt64 E d keyOfLastTransactionID = Inr (lst + 1)"
    using b by (simp add: getInt64_eq [OF ok] dv)
  have lnk: "link E d j = link E (sndb s) j" if "lst + 1 - int M < j" "j \<le> lst" for j
    using that by (intro link_db_cong) (simp_all add: dv keep)
  have sn: "snap E d (keyOfOriginData (lst + 1)) = Inr od'" "snap E d (keyOfNewData (lst + 1)) = Inr nd'"
    if "0 < M" using that ob nb by (simp_all add: snap_def dv)
  have old: "db_has E (sndb s) (keyOfOriginData j) \<longleftrightarrow> lst + 1 - int (length hist) < j \<and> j \<le> lst"
    if "0 < j" for j using I that by blast
  have lst0: "0 \<le> lst" using I by blast
  have has: "db_has E d (keyOfOriginData j)
      \<longleftrightarrow> lst + 1 - int (min M (length hist)) < j \<and> j \<le> lst + 1" if j: "0 < j" for j
  proof -
    have len: "Suc 0 \<le> length hist" "length hist \<le> Suc M" using I by (simp_all add: Suc_le_eq)
    show ?thesis
    proof (cases "M = 0")
      case True
      have "nat (lst + 1) = Suc (nat lst)" "int (Suc (nat lst)) = lst + 1" using lst0 by auto
      moreover have "\<not> db_has E (sndb s) (keyOfOriginData (lst + 1))" using old lst0 by simp
      ultimately have "checkMaxCount E (sndb s) (lst + 1) (int M) = []"
        using True lst0 by (simp add: checkMaxCount_def Let_def add.commute)
      then have "db_has E d (keyOfOriginData j) = db_has E (sndb s) (keyOfOriginData j)"
        using True by (simp add: dh)
      then show ?thesis using old [OF j] len True by auto
    next
      case False
      have "ops_has (checkMaxCount E (sndb s) (lst + 1) (int M)) (keyOfOriginData j) v
        = ((lst + 1 - int (length hist) < j \<and> 0 < j \<and> j \<le> lst + 1 - int M \<longrightarrow> False) \<and> v)" for v
        by (rule ops_has_checkMaxCount) (use old False in auto)
      then have "db_has E d (keyOfOriginData j) \<longleftrightarrow> lst + 1 = j
          \<or> \<not> (lst + 1 - int (length hist) < j \<and> 0 < j \<and> j \<le> lst + 1 - int M)
            \<and> lst + 1 - int (length hist) < j \<and> j \<le> lst"
        using False old [OF j] by (simp add: dh)
      also have "\<dots> \<longleftrightarrow> lst + 1 - int (min M (length hist)) < j \<and> j \<le> lst + 1"
        using j len False by (auto simp: min_def)
      finally show ?thesis .
    qed
  qed
  have run: "snapshot_commit E (lst + 1) od nd s = (Inr (), s\<lparr>sndb := d\<rparr>)"
    using I d ob(1) nb(1) b(1)
    by (auto simp: snapshot_commit_def ext_get [OF ok] snapshot_batch_def setToBatch_def)
  have lnk': "\<forall>j. lst + 1 - int M < j \<and> j \<le> lst \<longrightarrow> link E d j = link E (sndb s) j"
    by (intro allI impI) (elim conjE, rule lnk)
  have sn': "0 < M \<longrightarrow> snap E d (keyOfOriginData (lst + 1)) = Inr od' \<and> snap E d (keyOfNewData (lst + 1)) = Inr nd'"
    by (intro impI conjI sn)
  have has': "\<forall>j>0. db_has E d (keyOfOriginData j)
      \<longleftrightarrow> lst + 1 - int (min M (length hist)) < j \<and> j \<le> lst + 1"
    by (intro allI impI has)
  show thesis
    by (rule that [OF run lid max lnk' sn' ob(5) nb(5) ob(4) nb(4) has'])
qed

lemma nth_Cons_take: "n \<le> m \<Longrightarrow> (x # take m xs) ! n = (x # xs) ! n"
  by (cases n) auto

lemma commit_refines:
  assumes ok: "ext_ok E" and inv: "undo_inv E M lst hist s"
    and t: "committable t" "transactionID t = lst + 1"
    and buf: "tbuffer t \<noteq> []" "distinct (map fst (tbuffer t))"
      "keyOfLastTransactionID \<notin> fst ` set (tbuffer t)"
  obtains s' where "Transaction_Commit E t s = (Inr (), s')"
    "undo_inv E M (lst + 1) (take (Suc M) (overlay (tbuffer t) (db_val E (sdb s)) # hist)) s'"
    "same_contents (db_val E (sdb s')) (overlay (tbuffer t) (db_val E (sdb s)))"
    "committableTransaction s' = None"
    "lastCommittableTransactionID s' = lastCommittableTransactionID s"
proof -
  note I = inv [unfolded undo_inv_def]
  let ?od = "map (\<lambda>(k, v). (k, db_val E (sdb s) k)) (tbuffer t)"
  let ?new = "overlay (tbuffer t) (db_val E (sdb s))"
  have dod: "distinct (map fst ?od)"
    using buf(2) by (simp add: comp_def case_prod_unfold)
  have chk: "checkID E t s = Inr ()"
  proof -
    have "(if db_val E (sdb s) keyOfLastTransactionID = [] then Inr 0
        else dec_int E (db_val E (sdb s) keyOfLastTransactionID)) = Inr lst"
      using I by (simp add: getInt64_eq [OF ok])
    then show ?thesis using t(2) by (auto simp: checkID_def ext_get [OF ok] split: if_splits)
  qed
  obtain d od' nd' where sc: "snapshot_commit E (lst + 1) ?od (tbuffer t) s = (Inr (), s\<lparr>sndb := d\<rparr>)"
    and lid: "getInt64 E d keyOfLastTransactionID = Inr (lst + 1)"
    and max: "db_val E d keyOfMaxSnapshotCount = db_val E (sndb s) keyOfMaxSnapshotCount"
    and lnk: "\<forall>j. lst + 1 - int M < j \<and> j \<le> lst \<longrightarrow> link E d j = link E (sndb s) j"
    and sn: "0 < M \<longrightarrow> snap E d (keyOfOriginData (lst + 1)) = Inr od' \<and> snap E d (keyOfNewData (lst + 1)) = Inr nd'"
    and mp: "map_of od' = map_of ?od" "map_of nd' = map_of (tbuffer t)" "distinct (map fst od')" "distinct (map fst nd')"
    and has: "\<forall>j>0. db_has E d (keyOfOriginData j)
      \<longleftrightarrow> lst + 1 - int (min M (length hist)) < j \<and> j \<le> lst + 1"
    by (rule snapshot_commit_ok [OF ok inv dod buf(2)])
  obtain b where b: "enc_int E (lst + 1) = Inr b" "b \<noteq> []" "dec_int E b = Inr (lst + 1)"
    by (rule ext_int [OF ok])
  let ?ops = "restore_ops (tbuffer t) @ [BSet keyOfLastTransactionID b]"
  obtain e where e: "db_write E (sdb s) ?ops = Inr e"
    and ev: "\<forall>k. db_val E e k = ops_val ?ops k (db_val E (sdb s) k)"
    and "\<forall>k. db_has E e k = ops_has ?ops k (db_has E (sdb s) k)"
    by (rule ext_write [OF ok, of "sdb s" ?ops])
  have new: "same_contents (db_val E e) ?new"
    by (auto simp: same_contents_def overlay_def ev ops_val_restore [OF buf(2)] split: option.split)
  have run: "Transaction_Commit E t s =
      (Inr (), s\<lparr>sndb := d, sdb := e, committableTransaction := None\<rparr>)"
    using t chk sc b(1) e
    by (simp add: Transaction_Commit_def commit_collect_eq [OF ok] setToBatch_def)
  have links: "link E d (lst + 1 - int n) ((?new # hist) ! n) ((?new # hist) ! Suc n)"
    if n: "n < M" "n < length hist" for n
  proof (cases n)
    case 0
    have "same_contents (hist ! 0) (db_val E (sdb s))" using I by (simp add: same_contents_sym)
    then have "link E d (lst + 1) ?new (hist ! 0)"
      using sn n(1) by (intro fresh_link [OF mp(2,4,1,3) buf(1,3)]) auto
    then show ?thesis using 0 by simp
  next
    case (Suc m)
    then have "link E (sndb s) (lst - int m) (hist ! m) (hist ! Suc m)" using I n by simp
    then show ?thesis using lnk Suc n(1) by simp
  qed
  show thesis
  proof (rule that [OF run])
    show "undo_inv E M (lst + 1) (take (Suc M) (?new # hist))
        (s\<lparr>sndb := d, sdb := e, committableTransaction := None\<rparr>)"
      using I lid max b new links has by (auto simp: undo_inv_def getInt64_eq [OF ok, of e] ev nth_Cons_take)
  qed (use new in simp_all)
qed

end
