(* ===== verification/Ext_Model.thy ===== *)
theory Ext_Model
  imports State_DB_Undo
begin

text \<open>
  A concrete instance of the external code of the versioned store: an association list as the
  database, decimal text for integers, and a tagged byte encoding for maps. It shows that the
  assumptions \<open>ext_ok\<close> hold together and gives the witnesses a store to run on.
\<close>

section \<open>The database\<close>

type_synonym kvs = "(string, bytes) gomap"

definition kv_get :: "kvs \<Rightarrow> string \<Rightarrow> string + bytes" where
  "kv_get d k = Inr (case map_of d k of Some v \<Rightarrow> v | None \<Rightarrow> [])"

fun kv_write :: "kvs \<Rightarrow> batch_op list \<Rightarrow> kvs" where
  "kv_write d [] = d"
| "kv_write d (BSet k v # ops) = kv_write (AList.update k v d) ops"
| "kv_write d (BDelete k # ops) = kv_write (AList.delete k d) ops"

section \<open>The codec\<close>

lemma string_of_bytes_of_string [simp]: "string_of_bytes (bytes_of_string s) = s"
proof -
  have "char_of (unat (of_char c :: byte)) = c" for c
  proof -
    have "(of_char c :: byte) = of_nat (of_char c)" by (simp add: of_nat_of_char)
    then have "unat (of_char c :: byte) = of_char c mod 256"
      by (simp add: unat_of_nat)
    then show ?thesis by simp
  qed
  then show ?thesis by (simp add: string_of_bytes_def bytes_of_string_def comp_def)
qed

definition int_of_dec :: "string \<Rightarrow> int" where
  "int_of_dec s = (case s of [] \<Rightarrow> 0
     | c # cs \<Rightarrow> if c = CHR ''-'' then - int (nat_of_dec cs) else int (nat_of_dec s))"

lemma int_of_dec_of_int [simp]: "int_of_dec (dec_of_int i) = i"
proof (cases "i < 0")
  case False
  obtain c cs where c: "dec_of_nat (nat i) = c # cs"
    by (cases "dec_of_nat (nat i)") (metis dec_of_nat.simps append_is_Nil_conv list.distinct(1))
  then have "c \<noteq> CHR ''-''" using dec_of_nat_no_minus by (metis list.set_intros(1))
  moreover have "nat_of_dec (c # cs) = nat i" using nat_of_dec_of_nat [of "nat i"] c by simp
  ultimately show ?thesis using False c by (simp add: int_of_dec_def dec_of_int_def)
qed (simp add: int_of_dec_def dec_of_int_def)

definition tag_bytes :: "bytes \<Rightarrow> bytes" where
  "tag_bytes s = concat (map (\<lambda>b. [1, b]) s) @ [2]"

fun untag :: "bytes \<Rightarrow> bytes \<times> bytes" where
  "untag (x # b # r) = (if x = 1 then (let (s, t) = untag r in (b # s, t)) else ([], b # r))"
| "untag r = ([], [])"

lemma untag_tag: "r \<noteq> [] \<Longrightarrow> untag (tag_bytes s @ r) = (s, r)"
proof (induction s)
  case Nil
  then show ?case by (cases r) (auto simp: tag_bytes_def)
qed (simp add: tag_bytes_def)

fun enc_entries :: "kvs \<Rightarrow> bytes" where
  "enc_entries [] = [3]"
| "enc_entries ((k, v) # m) = tag_bytes (bytes_of_string k) @ tag_bytes v @ enc_entries m"

fun dec_entries :: "nat \<Rightarrow> bytes \<Rightarrow> kvs" where
  "dec_entries 0 bs = []"
| "dec_entries (Suc n) bs = (if hd bs = 3 then []
     else let (k, r) = untag bs; (v, r') = untag r in (string_of_bytes k, v) # dec_entries n r')"

lemma enc_entries_not_Nil [simp]: "enc_entries m \<noteq> []"
  by (induction m rule: enc_entries.induct) simp_all

lemma hd_tag: "hd (tag_bytes s @ r) \<noteq> 3"
  by (cases s) (simp_all add: tag_bytes_def)

lemma dec_enc_entries: "length m < n \<Longrightarrow> dec_entries n (enc_entries m) = m"
proof (induction m arbitrary: n)
  case Nil
  then show ?case by (cases n) auto
next
  case (Cons kv m)
  obtain k v where [simp]: "kv = (k, v)" by fastforce
  from Cons.prems obtain n' where [simp]: "n = Suc n'" by (cases n) auto
  show ?case using Cons by (simp add: untag_tag hd_tag)
qed

lemma length_enc_entries: "length m < length (enc_entries m)"
  by (induction m rule: enc_entries.induct) (auto simp: tag_bytes_def)

section \<open>The instance\<close>

definition model_ext :: "kvs ext" where
  "model_ext = \<lparr>db_get = kv_get,
     db_has = (\<lambda>d k. map_of d k \<noteq> None),
     db_set_sync = (\<lambda>d k v. Inr (AList.update k v d)),
     db_write = (\<lambda>d ops. Inr (kv_write d ops)),
     enc_int = (\<lambda>i. Inr (bytes_of_string (dec_of_int i))),
     dec_int = (\<lambda>b. Inr (int_of_dec (string_of_bytes b))),
     enc_map = (\<lambda>m. Inr (enc_entries m)),
     dec_map = (\<lambda>b. Inr (dec_entries (length b) b))\<rparr>"

lemma db_val_model: "db_val model_ext d k = (case map_of d k of Some v \<Rightarrow> v | None \<Rightarrow> [])"
  by (simp add: db_val_def model_ext_def kv_get_def)

lemma kv_write_val: "db_val model_ext (kv_write d ops) k = ops_val ops k (db_val model_ext d k)"
  by (induction d ops rule: kv_write.induct)
    (auto simp: db_val_model update_conv' delete_conv' split: if_splits)

lemma kv_write_has:
  "(map_of (kv_write d ops) k \<noteq> None) = ops_has ops k (map_of d k \<noteq> None)"
  by (induction d ops rule: kv_write.induct) (auto simp: update_conv' delete_conv' split: if_splits)

lemma dec_of_int_not_Nil [simp]: "dec_of_int i \<noteq> []"
  by (simp add: dec_of_int_def) (metis append_is_Nil_conv dec_of_nat.simps list.distinct(1))

lemma model_ext_ok: "ext_ok model_ext"
  unfolding ext_ok_def
proof (intro conjI allI impI)
  fix m :: kvs assume "distinct (map fst m)"
  then show "\<exists>b m'. enc_map model_ext m = Inr b \<and> b \<noteq> [] \<and> dec_map model_ext b = Inr m'
      \<and> distinct (map fst m') \<and> map_of m' = map_of m"
    using dec_enc_entries [OF length_enc_entries] by (auto simp: model_ext_def)
next
  fix d :: kvs and ops
  show "\<exists>d'. db_write model_ext d ops = Inr d'
      \<and> (\<forall>k. db_val model_ext d' k = ops_val ops k (db_val model_ext d k))
      \<and> (\<forall>k. db_has model_ext d' k = ops_has ops k (db_has model_ext d k))"
  proof (rule exI [of _ "kv_write d ops"], intro conjI allI)
    show "db_has model_ext (kv_write d ops) k = ops_has ops k (db_has model_ext d k)" for k
      using kv_write_has [of d ops k] by (simp add: model_ext_def)
  qed (simp_all add: kv_write_val, simp add: model_ext_def)
next
  fix d :: kvs and k v
  show "\<exists>d'. db_set_sync model_ext d k v = Inr d'
      \<and> (\<forall>j. db_val model_ext d' j = (if j = k then v else db_val model_ext d j))
      \<and> (\<forall>j. db_has model_ext d' j = (j = k \<or> db_has model_ext d j))"
    by (rule exI [of _ "AList.update k v d"])
      (simp add: db_val_model update_conv', simp add: model_ext_def update_conv')
next
  fix d :: kvs and k
  assume "db_val model_ext d k \<noteq> []"
  then show "db_has model_ext d k"
    unfolding db_val_model by (auto simp: model_ext_def split: option.splits)
next
  fix i
  show "\<exists>b. enc_int model_ext i = Inr b \<and> b \<noteq> [] \<and> dec_int model_ext b = Inr i"
    by (simp add: model_ext_def) (simp add: bytes_of_string_def)
qed (simp add: model_ext_def kv_get_def)

end
