(* ===== verification/State_DB_Props.thy ===== *)
theory State_DB_Props
  imports Ext_Model
begin

text \<open>
  The contract of the versioned store and its properties. The locale \<open>undo_history\<close> is what a
  client of the store may rely on: blocks are committed one by one and the last ones can be
  undone. It is interpreted on \<open>StateDB\<close>, with the life cycle the node uses: a block opens the
  committable transaction, writes its buffer and commits; undoing runs \<open>Rollback\<close> and opens the
  databases again with \<open>New\<close>.
\<close>

section \<open>The interface\<close>

locale undo_history =
  fixes rel :: "'c list \<Rightarrow> 's \<Rightarrow> bool"
    and block_ok :: "'t \<Rightarrow> bool"
    and commit :: "'t \<Rightarrow> 's \<Rightarrow> ('s, unit) act"
    and undo :: "nat \<Rightarrow> 's \<Rightarrow> ('s, unit) act"
    and effect :: "'t \<Rightarrow> 'c \<Rightarrow> 'c"
    and depth :: nat
  assumes rel_nonempty: "rel hist s \<Longrightarrow> hist \<noteq> []"
    and commit_law: "rel hist s \<Longrightarrow> block_ok t \<Longrightarrow>
      \<exists>s'. commit t s = (Inr (), s') \<and> rel (take (Suc depth) (effect t (hd hist) # hist)) s'"
    and undo_law: "rel hist s \<Longrightarrow> 0 < n \<Longrightarrow> n < length hist \<Longrightarrow>
      \<exists>s'. undo n s = (Inr (), s') \<and> rel (drop n hist) s'"
begin

fun commits :: "'t list \<Rightarrow> 's \<Rightarrow> ('s, unit) act" where
  "commits [] s = (Inr (), s)"
| "commits (t # ts) s = seqR (commit t s) (\<lambda>_. commits ts)"

fun grow :: "'t list \<Rightarrow> 'c list \<Rightarrow> 'c list" where
  "grow [] hist = hist"
| "grow (t # ts) hist = grow ts (take (Suc depth) (effect t (hd hist) # hist))"

lemma commits_ok:
  "rel hist s \<Longrightarrow> (\<And>t. t \<in> set ts \<Longrightarrow> block_ok t) \<Longrightarrow>
    \<exists>s'. commits ts s = (Inr (), s') \<and> rel (grow ts hist) s'"
proof (induction ts arbitrary: hist s)
  case (Cons t ts)
  then obtain s1 where "commit t s = (Inr (), s1)" "rel (take (Suc depth) (effect t (hd hist) # hist)) s1"
    using commit_law [of hist s t] by auto
  then show ?case using Cons.IH Cons.prems by fastforce
qed auto

lemma grow_nth:
  "hist \<noteq> [] \<Longrightarrow> length ts + k \<le> depth \<Longrightarrow> k < length hist \<Longrightarrow>
    length ts + k < length (grow ts hist) \<and> grow ts hist ! (length ts + k) = hist ! k"
proof (induction ts arbitrary: hist k)
  case (Cons t ts)
  let ?h = "take (Suc depth) (effect t (hd hist) # hist)"
  have "length ts + Suc k < length (grow ts ?h) \<and> grow ts ?h ! (length ts + Suc k) = ?h ! Suc k"
    by (rule Cons.IH) (use Cons.prems in auto)
  then show ?case using Cons.prems by simp
qed simp

lemma undo_commits:
  assumes "rel hist s" "ts \<noteq> []" "length ts \<le> depth" "\<And>t. t \<in> set ts \<Longrightarrow> block_ok t"
  shows "\<exists>s1 s2 hist'. commits ts s = (Inr (), s1) \<and> undo (length ts) s1 = (Inr (), s2)
    \<and> rel hist' s2 \<and> hd hist' = hd hist"
proof -
  have ne: "hist \<noteq> []" using rel_nonempty assms(1) .
  obtain s1 where s1: "commits ts s = (Inr (), s1)" "rel (grow ts hist) s1"
    using commits_ok [OF assms(1) assms(4)] by auto
  have g: "length ts < length (grow ts hist)" "grow ts hist ! length ts = hist ! 0"
    using grow_nth [OF ne, of ts 0] assms(3) ne by auto
  obtain s2 where "undo (length ts) s1 = (Inr (), s2)" "rel (drop (length ts) (grow ts hist)) s2"
    using undo_law [OF s1(2) _ g(1)] assms(2) by auto
  moreover have "hd (drop (length ts) (grow ts hist)) = hd hist"
    using g ne by (simp add: hd_drop_conv_nth hd_conv_nth)
  ultimately show ?thesis using s1(1) by blast
qed

end

section \<open>The life cycle of a block, and reopening\<close>

text \<open>
  \<open>BeginBlock\<close>, the writes, \<open>CommitBlock\<close>; \<open>Rollback\<close> followed by a restart of the process.
\<close>

definition run_block :: "'db ext \<Rightarrow> (string, bytes) gomap \<Rightarrow> 'db StateDB \<Rightarrow> ('db StateDB, unit) act" where
  "run_block E data s = seqR (NewCommittableTransaction s) (\<lambda>t.
     Transaction_Commit E (Transaction_BatchSet t data))"

definition reopen :: "'db ext \<Rightarrow> int \<Rightarrow> 'db StateDB \<Rightarrow> ('db StateDB, unit) act" where
  "reopen E maxCount s = (case Close s of Inl e \<Rightarrow> (Inl e, s)
     | Inr _ \<Rightarrow> (case New E (sdb s) (sndb s) maxCount of Inl e \<Rightarrow> (Inl e, s) | Inr s' \<Rightarrow> (Inr (), s')))"

definition undo_blocks :: "'db ext \<Rightarrow> int \<Rightarrow> nat \<Rightarrow> 'db StateDB \<Rightarrow> ('db StateDB, unit) act" where
  "undo_blocks E maxCount n s = seqR (StateDB_Rollback E (int n) s) (\<lambda>_. reopen E maxCount)"

definition data_ok :: "(string, bytes) gomap \<Rightarrow> bool" where
  "data_ok data \<longleftrightarrow> data \<noteq> [] \<and> distinct (map fst data) \<and> keyOfLastTransactionID \<notin> fst ` set data"

definition idle :: "'db ext \<Rightarrow> nat \<Rightarrow> contents list \<Rightarrow> 'db StateDB \<Rightarrow> bool" where
  "idle E M hist s \<longleftrightarrow> ext_ok E \<and> committableTransaction s = None
     \<and> undo_inv E M (lastCommittableTransactionID s) hist s"

lemma put_all_Nil_keys: "fst ` set (put_all m kvs) = fst ` set m \<union> fst ` set kvs"
  by (induction m kvs rule: put_all.induct) (auto simp: dom_update)

lemma put_all_Nil_ne: "kvs \<noteq> [] \<Longrightarrow> put_all m kvs \<noteq> []"
  using put_all_Nil_keys [of m kvs] by force

lemma overlay_put_all: "distinct (map fst data) \<Longrightarrow> overlay (put_all [] data) = overlay data"
  by (simp add: overlay_def map_of_put_all fun_eq_iff)

lemma link_same:
  assumes "link E sn i cur prev" "same_contents cur cur'"
  shows "link E sn i cur' prev"
proof -
  obtain nd od where nd: "snap E sn (keyOfNewData i) = Inr nd" "snap E sn (keyOfOriginData i) = Inr od"
    "nd \<noteq> []" "od \<noteq> []" "distinct (map fst od)"
    "keyOfLastTransactionID \<notin> fst ` set nd" "keyOfLastTransactionID \<notin> fst ` set od"
    "\<forall>k v. (k, v) \<in> set nd \<longrightarrow> v = cur k" "same_contents prev (overlay od cur)"
    by (rule linkE [OF assms(1)])
  have v: "\<forall>k v. (k, v) \<in> set nd \<longrightarrow> v = cur' k"
  proof (intro allI impI)
    fix k v assume kv: "(k, v) \<in> set nd"
    then have "k \<in> fst ` set nd" by force
    then have "k \<noteq> keyOfLastTransactionID" using nd(6) by metis
    then show "v = cur' k" using kv nd(8) assms(2) by (metis same_contents_def)
  qed
  have "same_contents prev (overlay od cur')"
    by (rule same_contents_trans [OF nd(9) same_contents_overlay [OF assms(2)]])
  then show ?thesis by (rule linkI [OF nd(1-7) v])
qed

lemma undo_inv_hd:
  assumes "undo_inv E M lst (x # xs) s" "same_contents x y"
  shows "undo_inv E M lst (y # xs) s"
proof -
  note I = assms(1) [unfolded undo_inv_def]
  have lk: "\<forall>n. Suc n < length (x # xs) \<longrightarrow> link E (sndb s) (lst - int n) ((x # xs) ! n) ((x # xs) ! Suc n)"
    using I by blast
  have "link E (sndb s) (lst - int n) ((y # xs) ! n) ((y # xs) ! Suc n)" if "Suc n < length (y # xs)" for n
  proof (cases n)
    case 0
    have "link E (sndb s) (lst - int 0) x (xs ! 0)" using lk [rule_format, of 0] that 0 by simp
    then show ?thesis using 0 link_same assms(2) by fastforce
  next
    case (Suc m)
    have "link E (sndb s) (lst - int n) ((x # xs) ! n) ((x # xs) ! Suc n)" using lk that by simp
    then show ?thesis using Suc by simp
  qed
  moreover have "same_contents (db_val E (sdb s)) y"
    using I assms(2) same_contents_trans [of _ x y] by simp
  ultimately show ?thesis using I by (simp add: undo_inv_def)
qed

lemma same_contents_overlay_hd:
  "undo_inv E M lst hist s \<Longrightarrow> same_contents (overlay buf (db_val E (sdb s))) (overlay buf (hd hist))"
  by (intro same_contents_overlay) (simp add: undo_inv_def hd_conv_nth)

lemma run_block_idle:
  assumes inv: "idle E M hist s" and d: "data_ok data"
  obtains s' where "run_block E data s = (Inr (), s')"
    "idle E M (take (Suc M) (overlay data (hd hist) # hist)) s'"
    "lastCommittableTransactionID s' = lastCommittableTransactionID s + 1"
proof -
  let ?l = "lastCommittableTransactionID s"
  let ?t = "\<lparr>transactionID = ?l + 1, tbuffer = put_all [] data, committable = True, lastTxID = 0\<rparr>"
  let ?s = "s\<lparr>lastCommittableTransactionID := ?l + 1, committableTransaction := Some (?l + 1)\<rparr>"
  have I: "ext_ok E" "committableTransaction s = None" "undo_inv E M ?l hist s"
    using inv by (simp_all add: idle_def)
  have inv1: "undo_inv E M ?l hist ?s" using I(3) by (simp add: undo_inv_def)
  have buf: "tbuffer ?t \<noteq> []" "distinct (map fst (tbuffer ?t))"
      "keyOfLastTransactionID \<notin> fst ` set (tbuffer ?t)" "committable ?t" "transactionID ?t = ?l + 1"
    using d put_all_Nil_keys [of "[]" data] put_all_Nil_ne [of data] by (simp_all add: data_ok_def)
  obtain s' where s': "Transaction_Commit E ?t ?s = (Inr (), s')"
    "undo_inv E M (?l + 1) (take (Suc M) (overlay (tbuffer ?t) (db_val E (sdb ?s)) # hist)) s'"
    "same_contents (db_val E (sdb s')) (overlay (tbuffer ?t) (db_val E (sdb ?s)))"
    "committableTransaction s' = None"
    "lastCommittableTransactionID s' = lastCommittableTransactionID ?s"
    by (rule commit_refines [OF I(1) inv1 buf(4,5) buf(1-3)])
  have "same_contents (overlay (put_all [] data) (db_val E (sdb ?s))) (overlay data (hd hist))"
    using same_contents_overlay_hd [OF inv1, of data] d by (simp add: overlay_put_all data_ok_def)
  then have "undo_inv E M (?l + 1) (take (Suc M) (overlay data (hd hist) # hist)) s'"
    using undo_inv_hd [of E M "?l + 1" _ "take M hist" s'] s'(2) by simp
  then show thesis
    using that [of s'] s' I
    by (simp add: run_block_def NewCommittableTransaction_def calcTransactionID_def
        Transaction_BatchSet_def idle_def Let_def)
qed

lemma reopen_idle:
  assumes ok: "ext_ok E" and inv: "undo_inv E M lst hist s" and c: "committableTransaction s = None"
  obtains s' where "reopen E (int M) s = (Inr (), s')" "idle E M hist s'"
    "lastCommittableTransactionID s' = lst" "sdb s' = sdb s"
proof -
  note I = inv [unfolded undo_inv_def]
  obtain b where b: "enc_int E (int M) = Inr b" "b \<noteq> []" "dec_int E b = Inr (int M)"
    by (rule ext_int [OF ok])
  obtain d where d: "db_set_sync E (sndb s) keyOfMaxSnapshotCount b = Inr d"
    and dv: "\<forall>j. db_val E d j = (if j = keyOfMaxSnapshotCount then b else db_val E (sndb s) j)"
    and dh: "\<forall>j. db_has E d j = (j = keyOfMaxSnapshotCount \<or> db_has E (sndb s) j)"
    by (rule ext_set_sync [OF ok])
  let ?s = "\<lparr>sdb = sdb s, sndb = d, committableTransaction = None,
    lastCommittableTransactionID = lst, lastRollbackTransactionID = 0\<rparr>"
  have run: "reopen E (int M) s = (Inr (), ?s)"
    using I b d c by (simp add: reopen_def Close_def New_def setMaxSnapshotCount_def)
  have lk: "link E d i = link E (sndb s) i" for i by (rule link_db_cong) (simp_all add: dv)
  have lid: "getInt64 E d keyOfLastTransactionID = Inr lst"
    using I by (simp add: getInt64_cong [OF ok, of d _ "sndb s"] dv)
  have "undo_inv E M lst hist ?s"
    using I b lid lk by (simp add: undo_inv_def dv dh)
  then show thesis using that [OF run] ok by (simp add: idle_def)
qed

lemma undo_blocks_idle:
  assumes inv: "idle E M hist s" and n: "0 < n" "n < length hist"
  obtains s' where "undo_blocks E (int M) n s = (Inr (), s')" "idle E M (drop n hist) s'"
    "lastCommittableTransactionID s' = lastCommittableTransactionID s - int n"
proof -
  have I: "ext_ok E" "committableTransaction s = None"
    "undo_inv E M (lastCommittableTransactionID s) hist s"
    using inv by (simp_all add: idle_def)
  obtain s1 where s1: "snapshot_rollback E (int n) s = (Inr (), s1)"
    "undo_inv E M (lastCommittableTransactionID s - int n) (drop n hist) s1"
    "committableTransaction s1 = committableTransaction s"
    "lastCommittableTransactionID s1 = lastCommittableTransactionID s"
    by (rule snapshot_rollback_refines [OF I(1,3) n])
  have c: "committableTransaction s1 = None" using s1(3) I(2) by simp
  obtain s' where "reopen E (int M) s1 = (Inr (), s')" "idle E M (drop n hist) s'"
    "lastCommittableTransactionID s' = lastCommittableTransactionID s - int n" "sdb s' = sdb s1"
    by (rule reopen_idle [OF I(1) s1(2) c])
  then show thesis using that s1(1) I(2) n(1) by (simp add: undo_blocks_def StateDB_Rollback_def)
qed

interpretation store: undo_history "idle E M" data_ok "run_block E" "undo_blocks E (int M)" overlay M
  for E :: "'db ext" and M
proof unfold_locales
  show "idle E M hist s \<Longrightarrow> hist \<noteq> []" for hist and s :: "'db StateDB"
    by (simp add: idle_def undo_inv_def)
next
  fix hist data and s :: "'db StateDB"
  assume a: "idle E M hist s" "data_ok data"
  obtain s' where "run_block E data s = (Inr (), s')"
    "idle E M (take (Suc M) (overlay data (hd hist) # hist)) s'"
    "lastCommittableTransactionID s' = lastCommittableTransactionID s + 1"
    by (rule run_block_idle [OF a])
  then show "\<exists>s'. run_block E data s = (Inr (), s') \<and> idle E M (take (Suc M) (overlay data (hd hist) # hist)) s'"
    by blast
next
  fix hist n and s :: "'db StateDB"
  assume a: "idle E M hist s" "0 < n" "n < length hist"
  obtain s' where "undo_blocks E (int M) n s = (Inr (), s')" "idle E M (drop n hist) s'"
    "lastCommittableTransactionID s' = lastCommittableTransactionID s - int n"
    by (rule undo_blocks_idle [OF a])
  then show "\<exists>s'. undo_blocks E (int M) n s = (Inr (), s') \<and> idle E M (drop n hist) s'" by blast
qed

section \<open>Opening empty databases\<close>

definition empty_db :: "'db ext \<Rightarrow> 'db \<Rightarrow> bool" where
  "empty_db E d \<longleftrightarrow> (\<forall>k. db_val E d k = [] \<and> \<not> db_has E d k)"

lemma New_idle:
  assumes ok: "ext_ok E" and e: "empty_db E db" "empty_db E sn"
  obtains s where "New E db sn (int M) = Inr s" "idle E M [\<lambda>_. []] s" "lastCommittableTransactionID s = 0"
proof -
  obtain b where b: "enc_int E (int M) = Inr b" "b \<noteq> []" "dec_int E b = Inr (int M)"
    by (rule ext_int [OF ok])
  obtain d where d: "db_set_sync E sn keyOfMaxSnapshotCount b = Inr d"
    and dv: "\<forall>j. db_val E d j = (if j = keyOfMaxSnapshotCount then b else db_val E sn j)"
    and dh: "\<forall>j. db_has E d j = (j = keyOfMaxSnapshotCount \<or> db_has E sn j)"
    by (rule ext_set_sync [OF ok])
  let ?s = "\<lparr>sdb = db, sndb = d, committableTransaction = None,
    lastCommittableTransactionID = 0, lastRollbackTransactionID = 0\<rparr>"
  have "New E db sn (int M) = Inr ?s"
    using b d e by (simp add: New_def setMaxSnapshotCount_def getInt64_eq [OF ok] empty_db_def)
  moreover have "undo_inv E M 0 [\<lambda>_. []] ?s"
    using b e by (auto simp: undo_inv_def getInt64_eq [OF ok] dv dh empty_db_def same_contents_def)
  ultimately show thesis using that ok by (simp add: idle_def)
qed

text \<open>The store of the witnesses: two snapshots are kept, nothing is stored yet.\<close>

definition demo_store :: "kvs StateDB" where
  "demo_store = (case New model_ext [] [] 2 of Inr s \<Rightarrow> s | Inl _ \<Rightarrow> undefined)"

lemma empty_model [simp]: "empty_db model_ext []"
  by (simp add: empty_db_def db_val_model) (simp add: model_ext_def)

lemma demo_store_idle: "idle model_ext 2 [\<lambda>_. []] demo_store" "lastCommittableTransactionID demo_store = 0"
proof -
  obtain s where "New model_ext [] [] (int 2) = Inr s" "idle model_ext 2 [\<lambda>_. []] s"
    "lastCommittableTransactionID s = 0"
    by (rule New_idle [OF model_ext_ok empty_model empty_model])
  then show "idle model_ext 2 [\<lambda>_. []] demo_store" "lastCommittableTransactionID demo_store = 0"
    by (simp_all add: demo_store_def)
qed

definition demo_data :: "(string, bytes) gomap" where
  "demo_data = [(''/a'', [1, 2]), (''/b'', [])]"

lemma demo_data_ok [simp]: "data_ok demo_data"
  by (simp add: data_ok_def demo_data_def keyOfLastTransactionID_def)

section \<open>Undoing more than is kept, and every reachable store\<close>

lemma rollback_beyond:
  assumes ok: "ext_ok E" and inv: "undo_inv E M lst hist s" and c: "committableTransaction s = None"
    and n: "length hist \<le> n"
  obtains msg where "StateDB_Rollback E (int n) s = (Inl msg, s)"
proof -
  note I = inv [unfolded undo_inv_def]
  have n0: "0 < n" using I n by (metis gr0I le_zero_eq length_0_conv)
  show thesis
  proof (cases "lst - int n < 0")
    case True
    then show thesis using that I c n0 by (simp add: StateDB_Rollback_def snapshot_rollback_def)
  next
    case False
    have "\<not> db_has E (sndb s) (keyOfOriginData (lst - int n + 1))"
    proof -
      have "0 < lst - int n + 1" using False by linarith
      then have "db_has E (sndb s) (keyOfOriginData (lst - int n + 1))
          \<longleftrightarrow> lst + 1 - int (length hist) < lst - int n + 1 \<and> lst - int n + 1 \<le> lst" using I by blast
      then show ?thesis using n by linarith
    qed
    then have "snap E (sndb s) (keyOfOriginData (lst - int n + 1)) = Inr []"
      by (simp add: snap_def ext_has [OF ok])
    then show thesis using that I c n0 False
      by (simp add: StateDB_Rollback_def snapshot_rollback_def getOriginData_def snapshotDBGet_eq [OF ok] Let_def)
  qed
qed

text \<open>Histories of a node: opened on empty databases, blocks, and undo commands, failed or not.\<close>

inductive store_reach :: "'db ext \<Rightarrow> nat \<Rightarrow> 'db StateDB \<Rightarrow> bool" for E M where
  opened: "empty_db E db \<Longrightarrow> empty_db E sn \<Longrightarrow> New E db sn (int M) = Inr s \<Longrightarrow> store_reach E M s"
| block: "store_reach E M s \<Longrightarrow> data_ok data \<Longrightarrow> run_block E data s = (r, s') \<Longrightarrow> store_reach E M s'"
| undo: "store_reach E M s \<Longrightarrow> undo_blocks E (int M) n s = (r, s') \<Longrightarrow> store_reach E M s'"

lemma store_reach_idle:
  assumes "store_reach E M s" "ext_ok E"
  shows "\<exists>hist. idle E M hist s"
  using assms
proof (induction rule: store_reach.induct)
  case (opened db sn s)
  obtain s0 where "New E db sn (int M) = Inr s0" "idle E M [\<lambda>_. []] s0" "lastCommittableTransactionID s0 = 0"
    by (rule New_idle [OF opened(4,1,2)])
  then show ?case using opened(3) by auto
next
  case (block s data r s')
  then obtain hist where "idle E M hist s" by blast
  from run_block_idle [OF this block(2)] show ?case using block(3) by (metis prod.inject)
next
  case (undo s n r s')
  then obtain hist where h: "idle E M hist s" by blast
  then have I: "ext_ok E" "committableTransaction s = None"
    "undo_inv E M (lastCommittableTransactionID s) hist s"
    by (simp_all add: idle_def)
  consider "n = 0" | "0 < n" "n < length hist" | "length hist \<le> n" by linarith
  then show ?case
  proof cases
    case 1
    then have "s' = s" using undo(2) by (simp add: undo_blocks_def StateDB_Rollback_def)
    then show ?thesis using h by blast
  next
    case 2
    from undo_blocks_idle [OF h 2] show ?thesis using undo(2) by (metis prod.inject)
  next
    case 3
    obtain msg where "StateDB_Rollback E (int n) s = (Inl msg, s)"
      by (rule rollback_beyond [OF I(1,3,2) 3])
    then have "s' = s" using undo(2) by (simp add: undo_blocks_def)
    then show ?thesis using h by blast
  qed
qed

lemma snapshots_kept:
  assumes "idle E M hist s"
  shows "{j. 0 < j \<and> db_has E (sndb s) (keyOfOriginData j)}
    = {lastCommittableTransactionID s + 1 - int (length hist) <.. lastCommittableTransactionID s}"
proof -
  have I: "undo_inv E M (lastCommittableTransactionID s) hist s" using assms by (simp add: idle_def)
  then have "int (length hist) - 1 \<le> lastCommittableTransactionID s" by (simp add: undo_inv_def)
  moreover have "\<forall>j>0. db_has E (sndb s) (keyOfOriginData j) \<longleftrightarrow>
      lastCommittableTransactionID s + 1 - int (length hist) < j \<and> j \<le> lastCommittableTransactionID s"
    using I unfolding undo_inv_def by blast
  ultimately show ?thesis by auto
qed

definition demo_store1 :: "kvs StateDB" where
  "demo_store1 = snd (run_block model_ext demo_data demo_store)"

lemma demo_store1_idle:
  "idle model_ext 2 [overlay demo_data (\<lambda>_. []), \<lambda>_. []] demo_store1"
  "lastCommittableTransactionID demo_store1 = 1"
proof -
  obtain s' where "run_block model_ext demo_data demo_store = (Inr (), s')"
    "idle model_ext 2 (take (Suc 2) (overlay demo_data (hd [\<lambda>_. []]) # [\<lambda>_. []])) s'"
    "lastCommittableTransactionID s' = lastCommittableTransactionID demo_store + 1"
    by (rule run_block_idle [OF demo_store_idle(1) demo_data_ok])
  then show "idle model_ext 2 [overlay demo_data (\<lambda>_. []), \<lambda>_. []] demo_store1"
    "lastCommittableTransactionID demo_store1 = 1"
    by (simp_all add: demo_store1_def demo_store_idle(2))
qed

lemma demo_store1_inv:
  "undo_inv model_ext 2 1 [overlay demo_data (\<lambda>_. []), \<lambda>_. []] demo_store1"
  "committableTransaction demo_store1 = None"
  using demo_store1_idle by (simp_all add: idle_def)

section \<open>Blocks that cannot be committed or undone\<close>

lemma run_block_stale:
  assumes ok: "ext_ok E" and inv: "undo_inv E M lst hist s" and c: "committableTransaction s = None"
    and stale: "lastCommittableTransactionID s \<noteq> lst"
  obtains msg s' where "run_block E data s = (Inl msg, s')" "sdb s' = sdb s" "sndb s' = sndb s"
    "committableTransaction s' \<noteq> None"
proof -
  have "(if db_val E (sdb s) keyOfLastTransactionID = [] then Inr 0
        else dec_int E (db_val E (sdb s) keyOfLastTransactionID)) = Inr lst"
    using inv by (simp add: undo_inv_def getInt64_eq [OF ok])
  then show thesis using that stale c
    by (auto simp: run_block_def NewCommittableTransaction_def calcTransactionID_def Let_def
        Transaction_Commit_def Transaction_BatchSet_def checkID_def ext_get [OF ok] split: if_splits)
qed

lemma run_empty_block:
  assumes inv: "idle E M hist s" and M: "0 < M"
  obtains s1 msg where "run_block E [] s = (Inr (), s1)" "StateDB_Rollback E 1 s1 = (Inl msg, s1)"
proof -
  let ?l = "lastCommittableTransactionID s"
  let ?s = "s\<lparr>lastCommittableTransactionID := ?l + 1, committableTransaction := Some (?l + 1)\<rparr>"
  have I: "ext_ok E" "committableTransaction s = None" "undo_inv E M ?l hist s"
    using inv by (simp_all add: idle_def)
  note ok = I(1)
  have inv1: "undo_inv E M ?l hist ?s" using I(3) by (simp add: undo_inv_def)
  have l0: "0 \<le> ?l" using I(3) by (simp add: undo_inv_def)
  have dn: "distinct (map fst ([] :: (string, bytes) gomap))" by simp
  obtain d od' nd' where sc: "snapshot_commit E (?l + 1) [] [] ?s = (Inr (), ?s\<lparr>sndb := d\<rparr>)"
    and lid: "getInt64 E d keyOfLastTransactionID = Inr (?l + 1)"
    and "db_val E d keyOfMaxSnapshotCount = db_val E (sndb ?s) keyOfMaxSnapshotCount"
    and "\<forall>j. ?l + 1 - int M < j \<and> j \<le> ?l \<longrightarrow> link E d j = link E (sndb ?s) j"
    and sn: "0 < M \<longrightarrow> snap E d (keyOfOriginData (?l + 1)) = Inr od' \<and> snap E d (keyOfNewData (?l + 1)) = Inr nd'"
    and od: "map_of od' = map_of []"
    and "map_of nd' = map_of []" "distinct (map fst od')" "distinct (map fst nd')"
    and "\<forall>j>0. db_has E d (keyOfOriginData j) \<longleftrightarrow> ?l + 1 - int (min M (length hist)) < j \<and> j \<le> ?l + 1"
    by (rule snapshot_commit_ok [OF ok inv1 dn dn])
  obtain b where b: "enc_int E (?l + 1) = Inr b" "b \<noteq> []" "dec_int E b = Inr (?l + 1)"
    by (rule ext_int [OF ok])
  obtain e where e: "db_write E (sdb s) [BSet keyOfLastTransactionID b] = Inr e"
    and ev: "\<forall>k. db_val E e k = ops_val [BSet keyOfLastTransactionID b] k (db_val E (sdb s) k)"
    and "\<forall>k. db_has E e k = ops_has [BSet keyOfLastTransactionID b] k (db_has E (sdb s) k)"
    by (rule ext_write [OF ok, of "sdb s" "[BSet keyOfLastTransactionID b]"])
  have "(if db_val E (sdb s) keyOfLastTransactionID = [] then Inr 0
        else dec_int E (db_val E (sdb s) keyOfLastTransactionID)) = Inr ?l"
    using I(3) by (simp add: undo_inv_def getInt64_eq [OF ok])
  then have chk: "checkID E \<lparr>transactionID = ?l + 1, tbuffer = [], committable = True, lastTxID = 0\<rparr> ?s = Inr ()"
    by (auto simp: checkID_def ext_get [OF ok] split: if_splits)
  let ?s1 = "s\<lparr>sdb := e, sndb := d, committableTransaction := None, lastCommittableTransactionID := ?l + 1\<rparr>"
  have run: "run_block E [] s = (Inr (), ?s1)"
    using I(2) chk sc b(1) e
    by (simp add: run_block_def NewCommittableTransaction_def calcTransactionID_def Let_def
        Transaction_BatchSet_def Transaction_Commit_def setToBatch_def)
  have "od' = []" using od by simp
  then have "snap E d (keyOfOriginData (?l + 1)) = Inr []" using sn M by simp
  then have "\<exists>msg. StateDB_Rollback E 1 ?s1 = (Inl msg, ?s1)"
    using lid b l0 by (simp add: StateDB_Rollback_def snapshot_rollback_def getInt64_eq [OF ok] ev
        getOriginData_def snapshotDBGet_eq [OF ok] Let_def)
  then show thesis using that [OF run] by blast
qed

section \<open>Buffers do not depend on the order in which Go ranges over a map\<close>

lemma sorted_dump_cong:
  assumes "distinct (map fst a)" "distinct (map fst b)" "map_of a = map_of b"
  shows "sorted_dump a = sorted_dump b"
proof -
  have "set (map fst a) = set (map fst b)"
    using assms(3) by (metis dom_map_of_conv_image_fst list.set_map)
  then have "sort (map fst a) = sort (map fst b)"
    using assms(1,2) by (intro sorted_distinct_set_unique) simp_all
  then show ?thesis using assms(3) by (simp add: sorted_dump_def)
qed

section \<open>Properties\<close>

text \<open>C3. Committing a block with a non-empty buffer succeeds, pushes the resulting contents onto
  the undo history, keeps at most one more entry than the configured number of snapshots, and
  leaves exactly the new contents in the state database.\<close>

theorem block_commit_refines:
  assumes "idle E M hist s" "data_ok data"
  shows "\<exists>s'. run_block E data s = (Inr (), s')
    \<and> idle E M (take (Suc M) (overlay data (hd hist) # hist)) s'
    \<and> (\<forall>k. k \<noteq> keyOfLastTransactionID \<longrightarrow> db_val E (sdb s') k = overlay data (hd hist) k)
    \<and> lastCommittableTransactionID s' = lastCommittableTransactionID s + 1"
proof -
  obtain s' where s': "run_block E data s = (Inr (), s')"
    "idle E M (take (Suc M) (overlay data (hd hist) # hist)) s'"
    "lastCommittableTransactionID s' = lastCommittableTransactionID s + 1"
    by (rule run_block_idle [OF assms])
  then have "same_contents (db_val E (sdb s')) (overlay data (hd hist))"
    by (simp add: idle_def undo_inv_def)
  then show ?thesis using s' by (simp add: same_contents_def)
qed

lemma block_commit_refines_witness:
  "\<exists>s'. run_block model_ext demo_data demo_store = (Inr (), s')
    \<and> idle model_ext 2 (take (Suc 2) (overlay demo_data (hd [\<lambda>_. []]) # [\<lambda>_. []])) s'
    \<and> (\<forall>k. k \<noteq> keyOfLastTransactionID \<longrightarrow> db_val model_ext (sdb s') k = overlay demo_data (hd [\<lambda>_. []]) k)
    \<and> lastCommittableTransactionID s' = lastCommittableTransactionID demo_store + 1"
  by (rule block_commit_refines [OF demo_store_idle(1) demo_data_ok])

text \<open>C16. \<open>StateDB.Rollback(n)\<close>, for a number of transactions the history still holds, succeeds
  and leaves the database in the contents it had \<open>n\<close> commits ago, with the remaining history
  still undoable.\<close>

theorem rollback_refines:
  assumes "ext_ok E" "undo_inv E M lst hist s" "committableTransaction s = None"
    and "0 < n" "n < length hist"
  shows "\<exists>s'. StateDB_Rollback E (int n) s = (Inr (), s')
    \<and> undo_inv E M (lst - int n) (drop n hist) s'
    \<and> same_contents (db_val E (sdb s')) (hist ! n)"
proof -
  obtain s' where s': "snapshot_rollback E (int n) s = (Inr (), s')"
    "undo_inv E M (lst - int n) (drop n hist) s'"
    "committableTransaction s' = committableTransaction s"
    "lastCommittableTransactionID s' = lastCommittableTransactionID s"
    by (rule snapshot_rollback_refines [OF assms(1,2,4,5)])
  then have "same_contents (db_val E (sdb s')) (hist ! n)"
    using assms(5) by (simp add: undo_inv_def)
  then show ?thesis using s' assms(3,4) by (simp add: StateDB_Rollback_def)
qed

lemma rollback_refines_witness:
  "\<exists>s'. StateDB_Rollback model_ext (int 1) demo_store1 = (Inr (), s')
    \<and> undo_inv model_ext 2 (1 - int 1) (drop 1 [overlay demo_data (\<lambda>_. []), \<lambda>_. []]) s'
    \<and> same_contents (db_val model_ext (sdb s')) ([overlay demo_data (\<lambda>_. []), \<lambda>_. []] ! 1)"
  by (rule rollback_refines [OF model_ext_ok demo_store1_inv]) auto

text \<open>C34. Any sequence of at most \<open>M\<close> committed blocks, undone together and followed by a
  restart, brings back the contents from before the first of them.\<close>

theorem blocks_undo_roundtrip:
  assumes "idle E M hist s" "blocks \<noteq> []" "length blocks \<le> M" "\<And>b. b \<in> set blocks \<Longrightarrow> data_ok b"
  shows "\<exists>s1 s2. store.commits E blocks s = (Inr (), s1)
    \<and> undo_blocks E (int M) (length blocks) s1 = (Inr (), s2)
    \<and> same_contents (db_val E (sdb s2)) (db_val E (sdb s))"
proof -
  obtain s1 s2 hist' where r: "store.commits E blocks s = (Inr (), s1)"
    "undo_blocks E (int M) (length blocks) s1 = (Inr (), s2)" "idle E M hist' s2" "hd hist' = hd hist"
    using store.undo_commits [OF assms] by blast
  have "same_contents (db_val E (sdb s2)) (hd hist')" "same_contents (db_val E (sdb s)) (hd hist)"
    using r(3) assms(1) by (simp_all add: idle_def undo_inv_def hd_conv_nth)
  then have "same_contents (db_val E (sdb s2)) (db_val E (sdb s))"
    unfolding r(4) by (rule same_contents_trans [OF _ same_contents_sym])
  then show ?thesis using r(1,2) by simp
qed

lemma blocks_undo_roundtrip_witness:
  "\<exists>s1 s2. store.commits model_ext [demo_data, demo_data] demo_store = (Inr (), s1)
    \<and> undo_blocks model_ext (int 2) (length [demo_data, demo_data]) s1 = (Inr (), s2)
    \<and> same_contents (db_val model_ext (sdb s2)) (db_val model_ext (sdb demo_store))"
  by (rule blocks_undo_roundtrip [OF demo_store_idle(1)]) auto

text \<open>Asking to undo more transactions than the history holds panics and changes nothing.\<close>

theorem rollback_beyond_history:
  assumes "ext_ok E" "undo_inv E M lst hist s" "committableTransaction s = None" "length hist \<le> n"
  shows "\<exists>msg. StateDB_Rollback E (int n) s = (Inl msg, s)"
  by (rule rollback_beyond [OF assms]) blast

lemma rollback_beyond_history_witness:
  "\<exists>msg. StateDB_Rollback model_ext (int 5) demo_store1 = (Inl msg, demo_store1)"
  by (rule rollback_beyond_history [OF model_ext_ok demo_store1_inv]) simp

text \<open>C38. In every state a node reaches from empty databases by committing blocks and by undo
  commands (successful or not), the snapshot database holds at most the configured number of
  snapshots, those of the newest transactions without a gap, and a further block still commits.\<close>

theorem snapshots_bounded:
  assumes "ext_ok E" "store_reach E M s" "data_ok data"
  shows "card {j. 0 < j \<and> db_has E (sndb s) (keyOfOriginData j)} \<le> M
    \<and> (\<exists>h. {j. 0 < j \<and> db_has E (sndb s) (keyOfOriginData j)}
        = {lastCommittableTransactionID s - int h <.. lastCommittableTransactionID s})
    \<and> (\<exists>s'. run_block E data s = (Inr (), s'))"
proof -
  obtain hist where h: "idle E M hist s" using store_reach_idle [OF assms(2,1)] by blast
  let ?l = "lastCommittableTransactionID s"
  have len: "hist \<noteq> []" "length hist \<le> Suc M" using h by (simp_all add: idle_def undo_inv_def)
  then have eq: "?l + 1 - int (length hist) = ?l - int (length hist - 1)"
    by (cases hist) simp_all
  obtain s' where run: "run_block E data s = (Inr (), s')"
    "idle E M (take (Suc M) (overlay data (hd hist) # hist)) s'"
    "lastCommittableTransactionID s' = lastCommittableTransactionID s + 1"
    by (rule run_block_idle [OF h assms(3)])
  show ?thesis
  proof (intro conjI)
    show "card {j. 0 < j \<and> db_has E (sndb s) (keyOfOriginData j)} \<le> M"
      unfolding snapshots_kept [OF h] using len by simp
    show "\<exists>h. {j. 0 < j \<and> db_has E (sndb s) (keyOfOriginData j)} = {?l - int h <.. ?l}"
      unfolding snapshots_kept [OF h] eq by blast
  qed (use run in blast)
qed

lemma snapshots_bounded_witness:
  "card {j. 0 < j \<and> db_has model_ext (sndb demo_store) (keyOfOriginData j)} \<le> 2
    \<and> (\<exists>h. {j. 0 < j \<and> db_has model_ext (sndb demo_store) (keyOfOriginData j)}
        = {lastCommittableTransactionID demo_store - int h <.. lastCommittableTransactionID demo_store})
    \<and> (\<exists>s'. run_block model_ext demo_data demo_store = (Inr (), s'))"
proof (rule snapshots_bounded [OF model_ext_ok _ demo_data_ok])
  obtain s where "New model_ext [] [] (int 2) = Inr s" "idle model_ext 2 [\<lambda>_. []] s"
    "lastCommittableTransactionID s = 0"
    by (rule New_idle [OF model_ext_ok empty_model empty_model])
  then have "New model_ext [] [] (int 2) = Inr demo_store" by (simp add: demo_store_def)
  then show "store_reach model_ext 2 demo_store"
    by (rule store_reach.opened [OF empty_model empty_model])
qed

text \<open>\<open>New\<close> on two empty databases hands out a store that is ready for the first block, with
  nothing to undo, and refuses a negative snapshot count.\<close>

theorem New_opens:
  assumes "ext_ok E" "empty_db E db" "empty_db E sn"
  shows "(\<exists>s. New E db sn (int M) = Inr s \<and> idle E M [\<lambda>_. []] s \<and> lastCommittableTransactionID s = 0)
    \<and> New E db sn (- 1 - int M) = Inl ''invalid parameter''"
proof -
  obtain s where "New E db sn (int M) = Inr s" "idle E M [\<lambda>_. []] s" "lastCommittableTransactionID s = 0"
    by (rule New_idle [OF assms])
  then show ?thesis by (simp add: New_def)
qed

lemma New_opens_witness:
  "(\<exists>s. New model_ext [] [] (int 4) = Inr s \<and> idle model_ext 4 [\<lambda>_. []] s \<and> lastCommittableTransactionID s = 0)
    \<and> New model_ext [] [] (- 1 - int 4) = Inl ''invalid parameter''"
  by (rule New_opens [OF model_ext_ok empty_model empty_model])

text \<open>C39. \<open>StateDB.Rollback\<close> does not reset \<open>lastCommittableTransactionID\<close>: in the process that
  ran it, the next block panics in \<open>checkID\<close> and stays open, whatever it writes.\<close>

theorem rollback_leaves_stale_counter:
  assumes "idle E M hist s" "0 < n" "n < length hist"
  shows "\<exists>s1 msg s2. StateDB_Rollback E (int n) s = (Inr (), s1)
    \<and> run_block E data s1 = (Inl msg, s2) \<and> sdb s2 = sdb s1 \<and> committableTransaction s2 \<noteq> None"
proof -
  let ?l = "lastCommittableTransactionID s"
  have I: "ext_ok E" "committableTransaction s = None" "undo_inv E M ?l hist s"
    using assms(1) by (simp_all add: idle_def)
  obtain s1 where s1: "snapshot_rollback E (int n) s = (Inr (), s1)"
    "undo_inv E M (?l - int n) (drop n hist) s1"
    "committableTransaction s1 = committableTransaction s"
    "lastCommittableTransactionID s1 = ?l"
    by (rule snapshot_rollback_refines [OF I(1,3) assms(2,3)])
  have c: "committableTransaction s1 = None" "lastCommittableTransactionID s1 \<noteq> ?l - int n"
    using s1 I assms(2) by simp_all
  obtain msg s2 where "run_block E data s1 = (Inl msg, s2)" "sdb s2 = sdb s1" "sndb s2 = sndb s1"
    "committableTransaction s2 \<noteq> None"
    by (rule run_block_stale [OF I(1) s1(2) c])
  moreover have "StateDB_Rollback E (int n) s = (Inr (), s1)"
    using s1(1) I(2) assms(2) by (simp add: StateDB_Rollback_def)
  ultimately show ?thesis by blast
qed

lemma rollback_leaves_stale_counter_witness:
  "\<exists>s1 msg s2. StateDB_Rollback model_ext (int 1) demo_store1 = (Inr (), s1)
    \<and> run_block model_ext demo_data s1 = (Inl msg, s2) \<and> sdb s2 = sdb s1 \<and> committableTransaction s2 \<noteq> None"
  by (rule rollback_leaves_stale_counter [OF demo_store1_idle(1)]) auto

text \<open>A block with an empty buffer commits, but the snapshot it leaves cannot be undone: the
  next \<open>Rollback(1)\<close> panics.\<close>

theorem empty_block_not_undoable:
  assumes "idle E M hist s" "0 < M"
  shows "\<exists>s1 msg. run_block E [] s = (Inr (), s1) \<and> StateDB_Rollback E 1 s1 = (Inl msg, s1)"
  by (rule run_empty_block [OF assms]) blast

lemma empty_block_not_undoable_witness:
  "\<exists>s1 msg. run_block model_ext [] demo_store1 = (Inr (), s1) \<and> StateDB_Rollback model_ext 1 s1 = (Inl msg, s1)"
  by (rule empty_block_not_undoable [OF demo_store1_idle(1)]) simp

text \<open>The bytes that \<open>Tx.Commit\<close> returns (they are hashed into the block's application hash)
  and the transaction it leaves depend only on the contents of the buffer, not on the order in
  which the map is iterated.\<close>

theorem Tx_Commit_deterministic:
  assumes "distinct (map fst (xbuffer x))" "distinct (map fst (xbuffer y))"
    and "map_of (xbuffer x) = map_of (xbuffer y)"
  shows "fst (fst (Tx_Commit x t)) = fst (fst (Tx_Commit y t))
    \<and> map_of (tbuffer (snd (snd (Tx_Commit x t)))) = map_of (tbuffer (snd (snd (Tx_Commit y t))))"
  using sorted_dump_cong [OF assms] assms by (simp add: Tx_Commit_def map_of_put_all)

lemma Tx_Commit_deterministic_witness:
  "let x = \<lparr>txID = 1, xbuffer = [(''b'', [1]), (''a'', [2 :: byte])]\<rparr>;
       y = \<lparr>txID = 1, xbuffer = [(''a'', [2]), (''b'', [1])]\<rparr>;
       t = \<lparr>transactionID = 1, tbuffer = [], committable = True, lastTxID = 1\<rparr>
   in fst (fst (Tx_Commit x t)) = fst (fst (Tx_Commit y t))
    \<and> map_of (tbuffer (snd (snd (Tx_Commit x t)))) = map_of (tbuffer (snd (snd (Tx_Commit y t))))"
  unfolding Let_def by (rule Tx_Commit_deterministic) (auto simp: fun_eq_iff)

end
