(* ===== verification/Binary.thy ===== *)
theory Binary
  imports Prelude
begin

unbundle bit_operations_syntax

text \<open>
  Package \<open>binary\<close> of the virtual machine: 32-byte and 20-byte words, padding of byte slices and
  the conversions between words and Go's \<open>big.Int\<close> (an \<open>int\<close>). A \<open>Word256\<close>, in Go an array of
  32 bytes, most significant first, is a \<open>256 word\<close>; \<open>be_bytes\<close> and \<open>be_word\<close> go between the two,
  and the lemmas show that nothing is lost. Operations the source writes byte by byte are
  defined byte by byte.
\<close>

section \<open>Big-endian bytes\<close>

text \<open>\<open>big.Int.SetBytes\<close>.\<close>

definition big_of_bytes :: "bytes \<Rightarrow> int" where
  "big_of_bytes bs = foldl (\<lambda>a b. 256 * a + uint b) 0 bs"

text \<open>The array \<open>w[:]\<close> of a word of \<open>n\<close> bytes, and the word with the given bytes.\<close>

definition be_bytes :: "nat \<Rightarrow> 'a::len word \<Rightarrow> bytes" where
  "be_bytes n w = map (\<lambda>i. ucast (drop_bit (8 * (n - 1 - i)) w)) [0..<n]"

definition be_word :: "bytes \<Rightarrow> 'a::len word" where
  "be_word bs = word_of_int (big_of_bytes bs)"

lemma length_be_bytes [simp]: "length (be_bytes n w) = n"
  by (simp add: be_bytes_def)

lemma big_of_bytes_simps [simp]:
  "big_of_bytes [] = 0"
  "big_of_bytes (bs @ [b]) = 256 * big_of_bytes bs + uint b"
  by (simp_all add: big_of_bytes_def)

lemma big_of_bytes_nonneg [simp]: "0 \<le> big_of_bytes bs"
  by (induction bs rule: rev_induct) simp_all

lemma big_of_bytes_less: "big_of_bytes bs < 256 ^ length bs"
proof (induction bs rule: rev_induct)
  case (snoc b bs)
  have "uint b < 256" using uint_lt2p [of b] by simp
  then show ?case using snoc by simp
qed simp

lemma byte_horner: "256 * a + uint b = push_bit 8 a OR uint (b :: byte)"
proof -
  have "bit (push_bit 8 a) n \<Longrightarrow> bit (uint b) n \<Longrightarrow> False" for n
    by (auto simp: bit_simps dest: bit_imp_le_length)
  then have "push_bit 8 a AND uint b = 0" by (intro bit_eqI) (auto simp: bit_simps)
  then have "push_bit 8 a + uint b = push_bit 8 a OR uint b" by (rule disjunctive_add_eq_or)
  then show ?thesis by (simp add: push_bit_eq_mult mult.commute)
qed

lemma bit_big_of_bytes:
  "bit (big_of_bytes bs) i \<longleftrightarrow> i div 8 < length bs \<and> bit (bs ! (length bs - 1 - i div 8)) (i mod 8)"
proof (induction bs arbitrary: i rule: rev_induct)
  case (snoc b bs)
  show ?case
  proof (cases "i < 8")
    case True
    then show ?thesis by (simp add: byte_horner bit_simps)
  next
    case False
    then have "i div 8 = Suc ((i - 8) div 8)" "i mod 8 = (i - 8) mod 8"
      by (simp_all add: le_div_geq le_mod_geq)
    moreover have "bit (big_of_bytes (bs @ [b])) i \<longleftrightarrow> bit (big_of_bytes bs) (i - 8)"
      using False by (auto simp: byte_horner bit_simps dest: bit_imp_le_length)
    ultimately show ?thesis using snoc.IH [of "i - 8"] by (auto simp: nth_append)
  qed
qed simp

lemma bit_be_bytes:
  "k < n \<Longrightarrow> bit (be_bytes n (w :: 'a::len word) ! k) j \<longleftrightarrow> j < 8 \<and> bit w (8 * (n - 1 - k) + j)"
  by (auto simp: be_bytes_def bit_simps dest: bit_imp_le_length)

lemma bit_be_word:
  "bit (be_word bs :: 'a::len word) i \<longleftrightarrow> i < LENGTH('a) \<and> i div 8 < length bs
    \<and> bit (bs ! (length bs - 1 - i div 8)) (i mod 8)"
  by (auto simp: be_word_def bit_simps bit_big_of_bytes)

lemma be_word_be_bytes [simp]:
  assumes "LENGTH('a) = 8 * n"
  shows "be_word (be_bytes n (w :: 'a::len word)) = w"
proof (rule bit_eqI)
  fix i assume "possible_bit TYPE('a word) i"
  then have i: "i < 8 * n" using assms by simp
  then have "i div 8 < n" by (simp add: less_mult_imp_div_less mult.commute)
  moreover have "8 * (n - 1 - (n - 1 - i div 8)) + i mod 8 = i" using calculation by simp
  ultimately show "bit (be_word (be_bytes n w) :: 'a word) i = bit w i"
    using i assms by (auto simp: bit_be_word bit_be_bytes)
qed

lemma be_bytes_be_word [simp]:
  assumes "LENGTH('a) = 8 * n" "length bs = n"
  shows "be_bytes n (be_word bs :: 'a::len word) = bs"
proof (rule nth_equalityI)
  fix k assume k: "k < length (be_bytes n (be_word bs :: 'a word))"
  show "be_bytes n (be_word bs :: 'a word) ! k = bs ! k"
  proof (rule bit_eqI)
    fix j assume "possible_bit TYPE(byte) j"
    then have j: "j < 8" by simp
    have "(8 * (n - Suc k) + j) div 8 = n - Suc k" "(8 * (n - Suc k) + j) mod 8 = j" using j by simp_all
    moreover have "8 * (n - Suc k) + j < 8 * n" using j k by simp
    ultimately show "bit (be_bytes n (be_word bs :: 'a word) ! k) j = bit (bs ! k) j"
      using j k assms by (simp add: bit_be_bytes bit_be_word)
  qed
qed (use assms in simp)

lemma be_bytes_inject:
  "LENGTH('a) = 8 * n \<Longrightarrow> be_bytes n (v :: 'a::len word) = be_bytes n w \<longleftrightarrow> v = w"
  by (metis be_word_be_bytes)

lemma big_of_be_bytes [simp]:
  assumes "LENGTH('a) = 8 * n"
  shows "big_of_bytes (be_bytes n (w :: 'a::len word)) = uint w"
proof -
  have "big_of_bytes (be_bytes n w) < 2 ^ LENGTH('a)"
    using big_of_bytes_less [of "be_bytes n w"] by (simp add: assms power_mult)
  moreover have "word_of_int (big_of_bytes (be_bytes n w)) = w"
    using be_word_be_bytes [OF assms, of w] by (simp add: be_word_def)
  ultimately show ?thesis by (metis big_of_bytes_nonneg take_bit_int_eq_self uint_word_of_int_eq)
qed

lemma bytewise_map:
  assumes "LENGTH('a) = 8 * n" "\<And>j v w. j < 8 \<Longrightarrow> bit (g v w :: byte) j = p (bit v j) (bit w j)"
    and "\<And>i v w. i < LENGTH('a) \<Longrightarrow> bit (f v w :: 'a::len word) i = p (bit v i) (bit w i)"
  shows "be_word (map2 g (be_bytes n v) (be_bytes n w)) = (f v w :: 'a word)"
proof (rule bit_eqI)
  fix i assume "possible_bit TYPE('a word) i"
  then have i: "i < 8 * n" "i < LENGTH('a)" using assms(1) by simp_all
  then have d: "i div 8 < n" by (simp add: less_mult_imp_div_less mult.commute)
  then have "8 * (n - 1 - (n - 1 - i div 8)) + i mod 8 = i" by simp
  then show "bit (be_word (map2 g (be_bytes n v) (be_bytes n w)) :: 'a word) i = bit (f v w) i"
    using i d assms by (simp add: bit_be_word bit_be_bytes)
qed

section \<open>\<open>word256.go\<close>, \<open>word160.go\<close>\<close>

definition Zero256 :: word256 where "Zero256 = 0"
definition One256 :: word256 where "One256 = 1"

definition Word256_Bytes :: "word256 \<Rightarrow> bytes" where
  "Word256_Bytes w = be_bytes 32 w"

definition Word256_Prefix :: "word256 \<Rightarrow> nat \<Rightarrow> bytes" where
  "Word256_Prefix w n = take n (be_bytes 32 w)"

definition Word256_Postfix :: "word256 \<Rightarrow> nat \<Rightarrow> bytes" where
  "Word256_Postfix w n = drop (32 - n) (be_bytes 32 w)"

definition Word256_Word160 :: "word256 \<Rightarrow> word160" where
  "Word256_Word160 w = be_word (drop 12 (be_bytes 32 w))"

definition Word160_Word256 :: "word160 \<Rightarrow> word256" where
  "Word160_Word256 w = be_word (replicate 12 0 @ be_bytes 20 w)"

definition Word256_IsZero :: "word256 \<Rightarrow> bool" where
  "Word256_IsZero w = (foldl (OR) 0 (be_bytes 32 w) = 0)"

text \<open>\<open>bytes.Compare\<close>.\<close>

fun bytes_compare :: "bytes \<Rightarrow> bytes \<Rightarrow> int" where
  "bytes_compare [] [] = 0"
| "bytes_compare [] (y # ys) = - 1"
| "bytes_compare (x # xs) [] = 1"
| "bytes_compare (x # xs) (y # ys) = (if x < y then - 1 else if y < x then 1 else bytes_compare xs ys)"

definition Word256_Compare :: "word256 \<Rightarrow> word256 \<Rightarrow> int" where
  "Word256_Compare v w = bytes_compare (be_bytes 32 v) (be_bytes 32 w)"

definition Tuple256_Compare :: "word256 \<times> word256 \<Rightarrow> word256 \<times> word256 \<Rightarrow> int" where
  "Tuple256_Compare t u = (let firstCompare = Word256_Compare (fst t) (fst u) in
     if firstCompare = 0 then Word256_Compare (snd t) (snd u) else firstCompare)"

definition Word256_UnPadLeft :: "word256 \<Rightarrow> bytes" where
  "Word256_UnPadLeft w = dropWhile (\<lambda>b. b = 0) (be_bytes 32 w)"

definition Word256_UnPadRight :: "word256 \<Rightarrow> bytes" where
  "Word256_UnPadRight w = rev (dropWhile (\<lambda>b. b = 0) (rev (be_bytes 32 w)))"

definition Word256_String :: "word256 \<Rightarrow> string" where
  "Word256_String w = hex_lower (be_bytes 32 w)"

text \<open>\<open>Unmarshal\<close> writes into the word \<open>w\<close> it is called on.\<close>

definition Word256_Unmarshal :: "word256 \<Rightarrow> bytes \<Rightarrow> string + word256" where
  "Word256_Unmarshal w data =
    (if length data = 0 then Inr w
     else if length data \<noteq> 32 then Inl (''error unmarshallling Word256 '' @ [CHR 0x27] @ hex_upper data @
       [CHR 0x27] @ '' from bytes: '' @ dec_of_nat (length data) @ '' bytes but should have '' @
       dec_of_nat 32 @ '' bytes'')
     else Inr (be_word data))"

definition Uint64ToWord256 :: "uint64 \<Rightarrow> word256" where
  "Uint64ToWord256 i = be_word (replicate 24 0 @ be_bytes 8 i)"

text \<open>An \<open>int64\<close> is an \<open>int\<close>; \<open>uint64(i)\<close> is its residue.\<close>

definition Int64ToWord256 :: "int \<Rightarrow> word256" where
  "Int64ToWord256 i = be_word (replicate 24 0 @ be_bytes 8 (word_of_int i :: uint64))"

definition RightPadWord256 :: "bytes \<Rightarrow> word256" where
  "RightPadWord256 bz = be_word (take 32 (bz @ replicate (32 - length bz) 0))"

text \<open>\<open>None\<close> is the run-time panic of slicing at \<open>32 - len(bz) < 0\<close>.\<close>

definition LeftPadWord256 :: "bytes \<Rightarrow> word256 option" where
  "LeftPadWord256 bz = (if 32 < length bz then None
     else Some (be_word (replicate (32 - length bz) 0 @ bz)))"

definition LeftPadWord256ForString :: "string \<Rightarrow> string" where
  "LeftPadWord256ForString str = replicate (64 - length str) (CHR ''0'') @ str"

definition Uint64FromWord256 :: "word256 \<Rightarrow> uint64" where
  "Uint64FromWord256 w = be_word (Word256_Postfix w 8)"

definition Int64FromWord256 :: "word256 \<Rightarrow> int" where
  "Int64FromWord256 w = sint (Uint64FromWord256 w)"

section \<open>\<open>byteslice.go\<close>\<close>

definition Fingerprint :: "bytes \<Rightarrow> bytes" where
  "Fingerprint bz = take 6 (bz @ replicate (6 - length bz) 0)"

fun IsZeros :: "bytes \<Rightarrow> bool" where
  "IsZeros [] = True"
| "IsZeros (byt # rest) = (if byt \<noteq> 0 then False else IsZeros rest)"

definition RightPadBytes :: "bytes \<Rightarrow> int \<Rightarrow> bytes" where
  "RightPadBytes bz l = (if l < int (length bz) then bz
     else bz @ replicate (nat l - length bz) 0)"

definition LeftPadBytes :: "bytes \<Rightarrow> int \<Rightarrow> bytes" where
  "LeftPadBytes bz l = (if l < int (length bz) then bz
     else replicate (nat l - length bz) 0 @ bz)"

section \<open>\<open>integer.go\<close>\<close>

definition tt255 :: int where "tt255 = push_bit 255 1"
definition tt256 :: int where "tt256 = push_bit 256 1"
definition tt256m1 :: int where "tt256m1 = tt256 - 1"

definition U256 :: "int \<Rightarrow> int" where
  "U256 x = x AND tt256m1"

definition S256 :: "int \<Rightarrow> int" where
  "S256 x = (if x < tt255 then x else x - tt256)"

definition SignExtend :: "nat \<Rightarrow> int \<Rightarrow> int" where
  "SignExtend back x =
    (let signBit = back * 8 + 7;
         msk = push_bit signBit 1 - 1
     in if bit x signBit then x OR NOT msk else x AND msk)"

text \<open>\<open>big.Int.Bytes\<close>: the absolute value, most significant byte first, no leading zero.\<close>

fun nat_bytes :: "nat \<Rightarrow> bytes" where
  "nat_bytes n = (if n = 0 then [] else nat_bytes (n div 256) @ [of_nat n])"

declare nat_bytes.simps [simp del]

definition big_bytes :: "int \<Rightarrow> bytes" where
  "big_bytes x = nat_bytes (nat \<bar>x\<bar>)"

section \<open>What these operations compute\<close>

lemma big_of_bytes_Cons: "big_of_bytes (b # bs) = uint b * 256 ^ length bs + big_of_bytes bs"
  by (induction bs rule: rev_induct) (simp_all add: big_of_bytes_def [of "[b]"] flip: append_Cons)

lemma big_of_bytes_zeros [simp]: "big_of_bytes (replicate n 0 @ bs) = big_of_bytes bs"
  by (induction n) (simp_all add: big_of_bytes_Cons)

lemma U256_take_bit: "U256 x = take_bit 256 x"
proof -
  have "tt256m1 = mask 256" by (simp add: tt256m1_def tt256_def mask_eq_exp_minus_1 push_bit_eq_mult)
  then show ?thesis by (simp only: U256_def take_bit_eq_mask)
qed

lemma U256_eq: "U256 x = x mod 2 ^ 256"
  by (simp add: U256_take_bit take_bit_eq_mod)

lemma big_of_nat_bytes: "big_of_bytes (nat_bytes n) = int n"
proof (induction n rule: nat_bytes.induct)
  case (1 n)
  have "uint (of_nat n :: byte) = int (n mod 256)" by (simp add: uint_nat unat_of_nat)
  moreover have "256 * int (n div 256) + int (n mod 256) = int n"
    using arg_cong [OF mult_div_mod_eq [of 256 n], of int] by (simp only: of_nat_add of_nat_mult of_nat_numeral)
  ultimately show ?case using "1" by (subst nat_bytes.simps) auto
qed

lemma length_nat_bytes: "n < 256 ^ k \<Longrightarrow> length (nat_bytes n) \<le> k"
proof (induction n arbitrary: k rule: nat_bytes.induct)
  case (1 n)
  show ?case
  proof (cases "n = 0")
    case False
    then obtain j where k: "k = Suc j" using "1.prems" by (cases k) auto
    then have "n div 256 < 256 ^ j" using "1.prems" by (simp add: less_mult_imp_div_less mult.commute)
    then show ?thesis using "1.IH" [OF False] False k by (subst nat_bytes.simps) simp
  qed (simp add: nat_bytes.simps)
qed

lemma LeftPadWord256_eq: "length bz \<le> 32 \<Longrightarrow> LeftPadWord256 bz = Some (word_of_int (big_of_bytes bz))"
  by (simp add: LeftPadWord256_def be_word_def)

lemma LeftPad_U256: "LeftPadWord256 (big_bytes (U256 x)) = Some (word_of_int x)"
proof -
  have x: "0 \<le> U256 x" "U256 x < 2 ^ 256" by (simp_all add: U256_eq)
  then have "nat (U256 x) < 256 ^ 32" by (simp add: nat_less_iff)
  then have "length (big_bytes (U256 x)) \<le> 32" using x by (simp add: big_bytes_def length_nat_bytes)
  moreover have "word_of_int (U256 x) = (word_of_int x :: word256)"
    by (simp add: U256_take_bit word_of_int_eq_iff)
  ultimately show ?thesis using x by (simp add: LeftPadWord256_eq big_bytes_def big_of_nat_bytes)
qed

lemma S256_uint: "S256 (uint (w :: word256)) = sint w"
proof (cases "uint w < 2 ^ 255")
  case True
  moreover have "- (2 ^ 255) \<le> uint w" by (rule order_trans [OF _ uint_ge_0]) simp
  ultimately have "signed_take_bit 255 (uint w) = uint w" by (rule signed_take_bit_int_eq_self [rotated])
  then show ?thesis using True by (simp add: S256_def tt255_def sint_uint)
next
  case False
  have "signed_take_bit 255 (uint w) = signed_take_bit 255 (uint w - 2 ^ 256)"
    by (simp add: signed_take_bit_eq_iff_take_bit_eq take_bit_eq_mod)
  also have "\<dots> = uint w - 2 ^ 256"
    using False uint_lt2p [of w] by (intro signed_take_bit_int_eq_self) simp_all
  finally show ?thesis using False by (simp add: S256_def tt255_def tt256_def sint_uint)
qed

lemma SignExtend_eq: "SignExtend back x = signed_take_bit (back * 8 + 7) x"
proof -
  let ?n = "back * 8 + 7"
  have m: "push_bit ?n (1 :: int) - 1 = mask ?n" by (simp add: mask_eq_exp_minus_1 push_bit_eq_mult)
  show ?thesis
    unfolding SignExtend_def Let_def m
    by (rule bit_eqI) (auto simp: bit_simps bit_signed_take_bit_iff min_def)
qed

lemma Word256_Word160_ucast: "Word256_Word160 w = ucast w"
proof (rule bit_eqI)
  fix i assume "possible_bit TYPE(word160) i"
  then have i: "i < 160" by simp
  then have "i div 8 < 20" by simp
  moreover have "8 * (31 - (31 - i div 8)) + i mod 8 = i" using calculation by simp
  ultimately show "bit (Word256_Word160 w) i = bit (ucast w :: word160) i"
    using i by (simp add: Word256_Word160_def bit_be_word bit_be_bytes bit_simps)
qed

lemma bit_zeros_append:
  "bit (be_word (replicate k 0 @ bs) :: 'a::len word) i = bit (be_word bs :: 'a word) i"
  by (simp add: be_word_def)

lemma be_word_zeros [simp]: "be_word (replicate k 0 @ bs) = be_word bs"
  by (simp add: be_word_def)

lemma be_word_of_be_bytes:
  assumes "LENGTH('a) = 8 * n"
  shows "be_word (be_bytes n (w :: 'a::len word)) = (ucast w :: 'b::len word)"
  unfolding be_word_def big_of_be_bytes [OF assms] by (rule ucast_eq [symmetric])

lemma Word256_IsZero_iff: "Word256_IsZero w \<longleftrightarrow> w = 0"
proof -
  have z: "foldl (OR) a bs = 0 \<longleftrightarrow> a = 0 \<and> (\<forall>b\<in>set bs. b = 0)" for a :: byte and bs
    by (induction bs arbitrary: a) (auto simp: or_eq_0_iff)
  have "(\<forall>b\<in>set (be_bytes 32 w). b = 0) \<longleftrightarrow> be_bytes 32 w = be_bytes 32 (0 :: word256)"
    by (auto simp: list_eq_iff_nth_eq all_set_conv_all_nth) (simp_all add: be_bytes_def)
  then show ?thesis by (simp add: Word256_IsZero_def z be_bytes_inject)
qed

lemma bytes_compare_big:
  "length xs = length ys \<Longrightarrow> bytes_compare xs ys =
    (if big_of_bytes xs < big_of_bytes ys then - 1 else if big_of_bytes ys < big_of_bytes xs then 1 else 0)"
proof (induction xs ys rule: bytes_compare.induct)
  case (4 x xs y ys)
  have l: "length xs = length ys" using "4.prems" by simp
  have lt: "a * k + p < b * k + q" if "0 \<le> p" "p < k" "0 \<le> q" "a < b" for a b k p q :: int
  proof -
    have "(a + 1) * k \<le> b * k" using that by (intro mult_right_mono) linarith+
    then show ?thesis using that by (simp add: distrib_right)
  qed
  have b: "0 \<le> big_of_bytes xs" "big_of_bytes xs < 256 ^ length ys" "0 \<le> big_of_bytes ys"
    "big_of_bytes ys < 256 ^ length ys"
    using big_of_bytes_less [of xs] big_of_bytes_less [of ys] l by simp_all
  consider "x < y" | "y < x" | "x = y" by (metis linorder_less_linear)
  then show ?case
  proof cases
    case 1
    then have "big_of_bytes (x # xs) < big_of_bytes (y # ys)"
      unfolding big_of_bytes_Cons l using lt [OF b(1,2,3)] by (simp add: word_less_def)
    then show ?thesis using 1 by simp
  next
    case 2
    then have "big_of_bytes (y # ys) < big_of_bytes (x # xs)"
      unfolding big_of_bytes_Cons l using lt [OF b(3,4,1)] by (simp add: word_less_def)
    then show ?thesis using 2 by simp
  next
    case 3
    then show ?thesis using "4.IH" l by (simp add: big_of_bytes_Cons)
  qed
qed simp_all

lemma Word256_Compare_iff:
  "Word256_Compare v w = (if v < w then - 1 else if w < v then 1 else 0)"
  by (simp add: Word256_Compare_def bytes_compare_big word_less_def)

lemma Uint64_word_roundtrip [simp]: "Uint64FromWord256 (Uint64ToWord256 i) = i"
proof (rule bit_eqI)
  fix k assume "possible_bit TYPE(64 word) k"
  then have k: "k < 64" by simp
  then have "k div 8 < 8" by simp
  moreover have "8 * (31 - (31 - k div 8)) + k mod 8 = k" using calculation by simp
  ultimately show "bit (Uint64FromWord256 (Uint64ToWord256 i)) k = bit i k"
    using k by (simp add: Uint64FromWord256_def Uint64ToWord256_def Word256_Postfix_def bit_be_word
        bit_be_bytes be_word_of_be_bytes bit_simps)
qed

lemma Int64_word_roundtrip:
  "- (2 ^ 63) \<le> i \<Longrightarrow> i < 2 ^ 63 \<Longrightarrow> Int64FromWord256 (Int64ToWord256 i) = i"
  using Uint64_word_roundtrip [of "word_of_int i"]
  by (simp add: Int64FromWord256_def Int64ToWord256_def Uint64ToWord256_def sint_sbintrunc'
      signed_take_bit_int_eq_self)

lemma Unmarshal_Bytes: "Word256_Unmarshal w (Word256_Bytes v) = Inr v"
  by (simp add: Word256_Unmarshal_def Word256_Bytes_def)

lemma IsZeros_iff: "IsZeros bs \<longleftrightarrow> (\<forall>b\<in>set bs. b = 0)"
  by (induction bs) auto

lemma length_RightPadBytes: "length (RightPadBytes bs l) = max (length bs) (nat l)"
  by (auto simp: RightPadBytes_def)

section \<open>Unsigned subtraction without borrow\<close>

lemma word_sub_le: "y \<le> x \<Longrightarrow> x - y \<le> (x :: 'a::len word)"
  by (simp add: word_le_nat_alt unat_sub)

lemma word_sub_less: "0 < y \<Longrightarrow> y \<le> x \<Longrightarrow> x - y < (x :: 'a::len word)"
  by (simp add: word_less_nat_alt word_le_nat_alt unat_sub)

end
