(* ===== verification/Errors.thy ===== *)
theory Errors
  imports Prelude
begin

text \<open>
  Package \<open>errors\<close> of the virtual machine (\<open>execution/errors/errors.go\<close>): the error codes with
  their texts, the exception they are turned into, and the sink that keeps the first error pushed
  to it. A Go \<open>error\<close> is \<open>goerr option\<close>, with \<open>None\<close> for \<open>nil\<close>; \<open>ErrOther\<close> is an error that carries
  no code, with its message.
\<close>

section \<open>Codes\<close>

datatype Code =
    ErrorCodeGeneric
  | ErrorCodeUnknownAddress
  | ErrorCodeInsufficientBalance
  | ErrorCodeInvalidJumpDest
  | ErrorCodeInsufficientGas
  | ErrorCodeMemoryOutOfBounds
  | ErrorCodeCodeOutOfBounds
  | ErrorCodeInputOutOfBounds
  | ErrorCodeReturnDataOutOfBounds
  | ErrorCodeCallStackOverflow
  | ErrorCodeCallStackUnderflow
  | ErrorCodeDataStackOverflow
  | ErrorCodeDataStackUnderflow
  | ErrorCodeInvalidContract
  | ErrorCodeNativeContractCodeCopy
  | ErrorCodeExecutionAborted
  | ErrorCodeExecutionReverted
  | ErrorCodePermissionDenied
  | ErrorCodeNativeFunction
  | ErrorCodeEventPublish
  | ErrorCodeInvalidString
  | ErrorCodeEventMapping
  | ErrorCodeInvalidAddress
  | ErrorCodeDuplicateAddress
  | ErrorCodeInsufficientFunds
  | ErrorCodeOverpayment
  | ErrorCodeZeroPayment
  | ErrorCodeInvalidSequence
  | ErrorCodeReservedAddress
  | ErrorCodeIllegalWrite
  | ErrorCodeIntegerOverflow
  | ErrorCodeInvalidProposal
  | ErrorCodeExpiredProposal
  | ErrorCodeProposalExecuted
  | ErrorCodeNoInputPermission
  | ErrorCodeInvalidBlockNumber
  | ErrorCodeBlockNumberOutOfRange
  | ErrorCodeAlreadyVoted
  | ErrorCodeUnresolvedSymbols

text \<open>The numbering by \<open>iota\<close>.\<close>

definition all_codes :: "Code list" where
  "all_codes = [ErrorCodeGeneric, ErrorCodeUnknownAddress, ErrorCodeInsufficientBalance, ErrorCodeInvalidJumpDest, ErrorCodeInsufficientGas, ErrorCodeMemoryOutOfBounds, ErrorCodeCodeOutOfBounds, ErrorCodeInputOutOfBounds, ErrorCodeReturnDataOutOfBounds, ErrorCodeCallStackOverflow, ErrorCodeCallStackUnderflow, ErrorCodeDataStackOverflow, ErrorCodeDataStackUnderflow, ErrorCodeInvalidContract, ErrorCodeNativeContractCodeCopy, ErrorCodeExecutionAborted, ErrorCodeExecutionReverted, ErrorCodePermissionDenied, ErrorCodeNativeFunction, ErrorCodeEventPublish, ErrorCodeInvalidString, ErrorCodeEventMapping, ErrorCodeInvalidAddress, ErrorCodeDuplicateAddress, ErrorCodeInsufficientFunds, ErrorCodeOverpayment, ErrorCodeZeroPayment, ErrorCodeInvalidSequence, ErrorCodeReservedAddress, ErrorCodeIllegalWrite, ErrorCodeIntegerOverflow, ErrorCodeInvalidProposal, ErrorCodeExpiredProposal, ErrorCodeProposalExecuted, ErrorCodeNoInputPermission, ErrorCodeInvalidBlockNumber, ErrorCodeBlockNumberOutOfRange, ErrorCodeAlreadyVoted, ErrorCodeUnresolvedSymbols]"

fun index_of :: "'a \<Rightarrow> 'a list \<Rightarrow> nat" where
  "index_of x [] = 0"
| "index_of x (y # ys) = (if x = y then 0 else Suc (index_of x ys))"

definition Code_Uint32 :: "Code \<Rightarrow> nat" where
  "Code_Uint32 c = index_of c all_codes"

fun Code_String :: "Code \<Rightarrow> string" where
  "Code_String ErrorCodeGeneric = ''generic error''"
| "Code_String ErrorCodeUnknownAddress = ''unknown address''"
| "Code_String ErrorCodeInsufficientBalance = ''insufficient balance''"
| "Code_String ErrorCodeInvalidJumpDest = ''invalid jump dest''"
| "Code_String ErrorCodeInsufficientGas = ''insufficient gas''"
| "Code_String ErrorCodeMemoryOutOfBounds = ''memory out of bounds''"
| "Code_String ErrorCodeCodeOutOfBounds = ''code out of bounds''"
| "Code_String ErrorCodeInputOutOfBounds = ''input out of bounds''"
| "Code_String ErrorCodeReturnDataOutOfBounds = ''return data out of bounds''"
| "Code_String ErrorCodeCallStackOverflow = ''call stack overflow''"
| "Code_String ErrorCodeCallStackUnderflow = ''call stack underflow''"
| "Code_String ErrorCodeDataStackOverflow = ''data stack overflow''"
| "Code_String ErrorCodeDataStackUnderflow = ''data stack underflow''"
| "Code_String ErrorCodeInvalidContract = ''invalid contract''"
| "Code_String ErrorCodeNativeContractCodeCopy = ''tried to copy native contract code''"
| "Code_String ErrorCodeExecutionAborted = ''execution aborted''"
| "Code_String ErrorCodeExecutionReverted = ''execution reverted''"
| "Code_String ErrorCodePermissionDenied = ''permission denied''"
| "Code_String ErrorCodeNativeFunction = ''native function error''"
| "Code_String ErrorCodeEventPublish = ''event publish error''"
| "Code_String ErrorCodeInvalidString = ''invalid string''"
| "Code_String ErrorCodeEventMapping = ''event mapping error''"
| "Code_String ErrorCodeInvalidAddress = ''invalid address''"
| "Code_String ErrorCodeDuplicateAddress = ''duplicate address''"
| "Code_String ErrorCodeInsufficientFunds = ''insufficient funds''"
| "Code_String ErrorCodeOverpayment = ''overpayment''"
| "Code_String ErrorCodeZeroPayment = ''zero payment error''"
| "Code_String ErrorCodeInvalidSequence = ''invalid sequence number''"
| "Code_String ErrorCodeReservedAddress = ''address is reserved for SNative or internal use''"
| "Code_String ErrorCodeIllegalWrite = ''callee attempted to illegally modify state''"
| "Code_String ErrorCodeIntegerOverflow = ''integer overflow''"
| "Code_String ErrorCodeInvalidProposal = ''proposal is invalid''"
| "Code_String ErrorCodeExpiredProposal = ''proposal is expired since sequence number does not match''"
| "Code_String ErrorCodeProposalExecuted = ''proposal has already been executed''"
| "Code_String ErrorCodeNoInputPermission = ''account has no input permission''"
| "Code_String ErrorCodeInvalidBlockNumber = ''invalid block number''"
| "Code_String ErrorCodeBlockNumberOutOfRange = ''block number out of range''"
| "Code_String ErrorCodeAlreadyVoted = ''vote already registered for this address''"
| "Code_String ErrorCodeUnresolvedSymbols = ''code has unresolved symbols''"

definition Code_Error :: "Code \<Rightarrow> string" where
  "Code_Error c = ''Error '' @ dec_of_nat (Code_Uint32 c) @ '': '' @ Code_String c"

section \<open>Exceptions\<close>

record Exception =
  ex_Code :: Code
  ex_Exception :: string

datatype goerr = ErrExn Exception | ErrCode Code | ErrOther string

definition NewException :: "Code \<Rightarrow> string \<Rightarrow> Exception option" where
  "NewException errorCode exception =
    (if exception = '''' then None else Some \<lparr>ex_Code = errorCode, ex_Exception = exception\<rparr>)"

definition Exception_Error :: "Exception \<Rightarrow> string" where
  "Exception_Error e = ''error '' @ dec_of_nat (Code_Uint32 (ex_Code e)) @ '' - '' @
     Code_String (ex_Code e) @ '': '' @ ex_Exception e"

fun AsException :: "goerr option \<Rightarrow> Exception option" where
  "AsException None = None"
| "AsException (Some (ErrExn e)) = Some e"
| "AsException (Some (ErrCode c)) = NewException c (Code_String c)"
| "AsException (Some (ErrOther msg)) = NewException ErrorCodeGeneric msg"

text \<open>\<open>Wrap\<close> of a \<open>nil\<close> error dereferences \<open>nil\<close>: the outer \<open>None\<close>.\<close>

definition Wrap :: "goerr option \<Rightarrow> string \<Rightarrow> Exception option option" where
  "Wrap err message = (case AsException err of None \<Rightarrow> None
     | Some ex \<Rightarrow> Some (NewException (ex_Code ex) (message @ '': '' @ Exception_Error ex)))"

text \<open>\<open>ErrorCodef\<close> and \<open>Errorf\<close>, with the formatted message; as an \<open>error\<close> value.\<close>

definition ErrorCodef :: "Code \<Rightarrow> string \<Rightarrow> goerr option" where
  "ErrorCodef errorCode msg = map_option ErrExn (NewException errorCode msg)"

definition Errorf :: "string \<Rightarrow> goerr option" where
  "Errorf msg = ErrorCodef ErrorCodeGeneric msg"

definition Exception_String :: "Exception option \<Rightarrow> string" where
  "Exception_String e = (case e of None \<Rightarrow> '''' | Some ex \<Rightarrow> ex_Exception ex)"

definition Exception_Equal :: "Exception option \<Rightarrow> goerr option \<Rightarrow> bool" where
  "Exception_Equal e ce = (let ex = AsException ce in
     case (e, ex) of
       (Some a, Some b) \<Rightarrow> ex_Code a = ex_Code b \<and> ex_Exception a = ex_Exception b
     | _ \<Rightarrow> e = None \<and> ex = None)"

section \<open>The sink that keeps the first error\<close>

definition FirstOnly :: "Exception option" where
  "FirstOnly = None"

definition PushError :: "goerr option \<Rightarrow> Exception option \<Rightarrow> Exception option" where
  "PushError err se = (if se = None then AsException err else se)"

definition singleError_Reset :: "Exception option \<Rightarrow> Exception option" where
  "singleError_Reset se = None"

lemma Code_String_ne [simp]: "Code_String c \<noteq> ''''"
  by (cases c) simp_all

lemma AsException_Code [simp]: "AsException (Some (ErrCode c)) = Some \<lparr>ex_Code = c, ex_Exception = Code_String c\<rparr>"
  by (simp add: NewException_def)

lemma PushError_Some [simp]: "PushError err (Some e) = Some e"
  by (simp add: PushError_def)

lemma PushError_nil [simp]: "PushError None se = se"
  by (simp add: PushError_def)

lemma PushError_eq_None: "PushError err se = None \<longleftrightarrow> se = None \<and> AsException err = None"
  by (cases se) (simp_all add: PushError_def)

lemma ErrorCodef_ne: "msg \<noteq> '''' \<Longrightarrow> ErrorCodef c msg = Some (ErrExn \<lparr>ex_Code = c, ex_Exception = msg\<rparr>)"
  by (simp add: ErrorCodef_def NewException_def)

end
