(* ===== verification/Acm_State.thy ===== *)
theory Acm_State
  imports Binary Errors
begin

text \<open>
  Accounts and the layered account state of the virtual machine: \<open>acm/account.go\<close>,
  \<open>acmstate/state.go\<close>, \<open>acmstate/memory_state.go\<close> and \<open>acmstate/state_cache.go\<close>.

  A \<open>Cache\<close> reads through to its backend and keeps what it read; writes stay in it until \<open>Sync\<close>
  pushes them down. The virtual machine stacks one cache per call frame on the cache of the
  caller, so the caches of a running contract form a \<open>chain\<close> over a backend. A read can fill
  entries in every layer it passes, which is why reading returns a new chain.

  \<open>bn.Number\<close> and \<open>big.Int\<close> are \<open>int\<close>. A byte slice whose \<open>nil\<close>-ness the code looks at (contract
  code) is a \<open>bytes option\<close>. The locks of the source are not modelled: every chain is used by one
  goroutine.
\<close>

section \<open>Accounts (\<open>account.go\<close>)\<close>

record Account =
  Address :: word160
  PubKey :: bytes
  Balance :: int
  BVMToken :: string
  BVMCode :: "bytes option"
  WASMCode :: "bytes option"

definition address_string :: "word160 \<Rightarrow> string" where
  "address_string a = hex_upper (be_bytes 20 a)"

definition N256 :: int where "N256 = tt256m1"

definition AddToBalance :: "Account \<Rightarrow> int \<Rightarrow> goerr option \<times> Account" where
  "AddToBalance a amount =
    (let newBalance = Balance a + amount in
     if amount < 0
     then (ErrorCodef ErrorCodeIntegerOverflow (''uint256 overflow(bigger than '' @ dec_of_int N256 @
       ''): attempt to add '' @ dec_of_int amount @ '' to the balance of '' @ address_string (Address a)), a)
     else (None, a\<lparr>Balance := newBalance\<rparr>))"

definition SubtractFromBalance :: "Account \<Rightarrow> int \<Rightarrow> goerr option \<times> Account" where
  "SubtractFromBalance a amount =
    (if amount < 0 \<or> Balance a < amount
     then (ErrorCodef ErrorCodeInsufficientBalance (''insufficient funds: attempt to subtract '' @
       dec_of_int amount @ '' from the balance of '' @ address_string (Address a)), a)
     else (None, a\<lparr>Balance := Balance a - amount\<rparr>))"

section \<open>The interface \<open>ReaderWriter\<close> (\<open>state.go\<close>)\<close>

text \<open>\<open>None\<close> in place of an account is the \<open>nil\<close> that says there is none.\<close>

record 'b ReaderWriter =
  rw_GetAccount :: "'b \<Rightarrow> word160 \<Rightarrow> goerr + Account option"
  rw_GetToken :: "'b \<Rightarrow> string"
  rw_UpdateAccount :: "'b \<Rightarrow> Account \<Rightarrow> goerr option \<times> 'b"
  rw_RemoveAccount :: "'b \<Rightarrow> word160 \<Rightarrow> goerr option \<times> 'b"
  rw_GetStorage :: "'b \<Rightarrow> word160 \<Rightarrow> word256 \<Rightarrow> goerr + bytes"
  rw_SetStorage :: "'b \<Rightarrow> word160 \<Rightarrow> word256 \<Rightarrow> bytes \<Rightarrow> goerr option \<times> 'b"

section \<open>The in-memory state (\<open>memory_state.go\<close>)\<close>

record MemoryState =
  ms_tokenAddr :: string
  ms_Accounts :: "(word160, Account) gomap"
  ms_Storage :: "(word160, (word256, bytes) gomap) gomap"

definition NewMemoryState :: MemoryState where
  "NewMemoryState = \<lparr>ms_tokenAddr = '''', ms_Accounts = [], ms_Storage = []\<rparr>"

definition ms_GetToken :: "MemoryState \<Rightarrow> string" where
  "ms_GetToken ms = ms_tokenAddr ms"

definition ms_SetToken :: "MemoryState \<Rightarrow> string \<Rightarrow> MemoryState" where
  "ms_SetToken ms token = ms\<lparr>ms_tokenAddr := token\<rparr>"

definition ms_GetAccount :: "MemoryState \<Rightarrow> word160 \<Rightarrow> goerr + Account option" where
  "ms_GetAccount ms address = Inr (map_of (ms_Accounts ms) address)"

definition ms_UpdateAccount :: "MemoryState \<Rightarrow> Account \<Rightarrow> goerr option \<times> MemoryState" where
  "ms_UpdateAccount ms updatedAccount =
    (None, ms\<lparr>ms_Accounts := AList.update (Address updatedAccount) updatedAccount (ms_Accounts ms)\<rparr>)"

definition ms_RemoveAccount :: "MemoryState \<Rightarrow> word160 \<Rightarrow> goerr option \<times> MemoryState" where
  "ms_RemoveAccount ms address = (None, ms\<lparr>ms_Accounts := AList.delete address (ms_Accounts ms)\<rparr>)"

definition ms_GetStorage :: "MemoryState \<Rightarrow> word160 \<Rightarrow> word256 \<Rightarrow> goerr + bytes" where
  "ms_GetStorage ms address key = (case map_of (ms_Storage ms) address of
     None \<Rightarrow> Inl (ErrOther (''could not find storage for account '' @ address_string address))
   | Some storage \<Rightarrow> (case map_of storage key of
       None \<Rightarrow> Inl (ErrOther (''could not find key '' @ Word256_String key @ '' for account '' @
         address_string address))
     | Some value \<Rightarrow> Inr value))"

definition ms_SetStorage :: "MemoryState \<Rightarrow> word160 \<Rightarrow> word256 \<Rightarrow> bytes \<Rightarrow> goerr option \<times> MemoryState" where
  "ms_SetStorage ms address key value =
    (let storage = (case map_of (ms_Storage ms) address of None \<Rightarrow> [] | Some storage \<Rightarrow> storage)
     in (None, ms\<lparr>ms_Storage := AList.update address (AList.update key value storage) (ms_Storage ms)\<rparr>))"

definition memory_rw :: "MemoryState ReaderWriter" where
  "memory_rw = \<lparr>rw_GetAccount = ms_GetAccount, rw_GetToken = ms_GetToken,
     rw_UpdateAccount = ms_UpdateAccount, rw_RemoveAccount = ms_RemoveAccount,
     rw_GetStorage = ms_GetStorage, rw_SetStorage = ms_SetStorage\<rparr>"

section \<open>The cache (\<open>state_cache.go\<close>)\<close>

record accountInfo =
  ai_account :: "Account option"
  ai_storage :: "(word256, bytes) gomap"
  ai_removed :: bool
  ai_updated :: bool

record Cache =
  c_name :: string
  c_tokenAddr :: string
  c_accounts :: "(word160, accountInfo) gomap"
  c_readonly :: bool

datatype CacheOption = Named string | ReadOnly

fun apply_option :: "CacheOption \<Rightarrow> Cache \<Rightarrow> Cache" where
  "apply_option (Named name) cache = cache\<lparr>c_name := name\<rparr>"
| "apply_option ReadOnly cache = cache\<lparr>c_readonly := True\<rparr>"

definition NewCache :: "CacheOption list \<Rightarrow> Cache" where
  "NewCache options = fold apply_option options
     \<lparr>c_name = '''', c_tokenAddr = '''', c_accounts = [], c_readonly = False\<rparr>"

text \<open>A chain of caches: a cache and the reader it wraps.\<close>

datatype 'b chain = Base 'b | Layer Cache "'b chain"

definition set_info :: "word160 \<Rightarrow> accountInfo \<Rightarrow> Cache \<Rightarrow> Cache" where
  "set_info address info c = c\<lparr>c_accounts := AList.update address info (c_accounts c)\<rparr>"

primrec Cache_GetToken :: "'b ReaderWriter \<Rightarrow> 'b chain \<Rightarrow> string \<times> 'b chain" where
  "Cache_GetToken B (Base b) = (rw_GetToken B b, Base b)"
| "Cache_GetToken B (Layer c rest) =
    (if c_tokenAddr c = '''' then
       (let (t, rest') = Cache_GetToken B rest in (t, Layer (c\<lparr>c_tokenAddr := t\<rparr>) rest'))
     else (c_tokenAddr c, Layer c rest))"

text \<open>
  \<open>cache.get\<close>: \<open>below\<close> is the backend's answer, used (with the backend's changes) on a miss only.
\<close>

definition cache_get :: "word160 \<Rightarrow> Cache \<Rightarrow> 'b chain \<Rightarrow> (goerr + Account option) \<times> 'b chain \<Rightarrow>
    (goerr + accountInfo) \<times> 'b chain" where
  "cache_get address c rest below = (case map_of (c_accounts c) address of
     Some accInfo \<Rightarrow> (Inr accInfo, Layer c rest)
   | None \<Rightarrow> (case below of
       (Inl err, rest') \<Rightarrow> (Inl err, Layer c rest')
     | (Inr account, rest') \<Rightarrow>
        (let accInfo = \<lparr>ai_account = account, ai_storage = [], ai_removed = False, ai_updated = False\<rparr>
         in (Inr accInfo, Layer (set_info address accInfo c) rest'))))"

primrec Cache_GetAccount :: "'b ReaderWriter \<Rightarrow> word160 \<Rightarrow> 'b chain \<Rightarrow> (goerr + Account option) \<times> 'b chain" where
  "Cache_GetAccount B address (Base b) = (rw_GetAccount B b address, Base b)"
| "Cache_GetAccount B address (Layer c rest) =
    (case cache_get address c rest (Cache_GetAccount B address rest) of
       (Inl err, ch) \<Rightarrow> (Inl err, ch)
     | (Inr accInfo, ch) \<Rightarrow> (Inr (if ai_removed accInfo then None else ai_account accInfo), ch))"

text \<open>\<open>accInfo\<close> is a pointer into the cache: writing it changes the entry.\<close>

fun put_info :: "word160 \<Rightarrow> accountInfo \<Rightarrow> 'b chain \<Rightarrow> 'b chain" where
  "put_info address info (Layer c rest) = Layer (set_info address info c) rest"
| "put_info address info (Base b) = Base b"

definition IllegalWrite :: "string \<Rightarrow> goerr option" where
  "IllegalWrite msg = ErrorCodef ErrorCodeIllegalWrite msg"

fun Cache_UpdateAccount :: "'b ReaderWriter \<Rightarrow> Account \<Rightarrow> 'b chain \<Rightarrow> goerr option \<times> 'b chain" where
  "Cache_UpdateAccount B account (Base b) =
    (let (err, b') = rw_UpdateAccount B b account in (err, Base b'))"
| "Cache_UpdateAccount B account (Layer c rest) =
    (if c_readonly c
     then (IllegalWrite (''UpdateAccount called in a read-only context on account '' @
       address_string (Address account)), Layer c rest)
     else case cache_get (Address account) c rest (Cache_GetAccount B (Address account) rest) of
       (Inl err, ch) \<Rightarrow> (Some err, ch)
     | (Inr accInfo, ch) \<Rightarrow>
        if ai_removed accInfo
        then (IllegalWrite (''UpdateAccount on a removed account: '' @ address_string (Address account)), ch)
        else (None, put_info (Address account) (accInfo\<lparr>ai_account := Some account, ai_updated := True\<rparr>) ch))"

fun Cache_RemoveAccount :: "'b ReaderWriter \<Rightarrow> word160 \<Rightarrow> 'b chain \<Rightarrow> goerr option \<times> 'b chain" where
  "Cache_RemoveAccount B address (Base b) =
    (let (err, b') = rw_RemoveAccount B b address in (err, Base b'))"
| "Cache_RemoveAccount B address (Layer c rest) =
    (if c_readonly c
     then (IllegalWrite (''RemoveAccount called on read-only account '' @ address_string address), Layer c rest)
     else case cache_get address c rest (Cache_GetAccount B address rest) of
       (Inl err, ch) \<Rightarrow> (Some err, ch)
     | (Inr accInfo, ch) \<Rightarrow>
        if ai_removed accInfo
        then (Some (ErrOther (''RemoveAccount on a removed account: '' @ address_string address)), ch)
        else (None, put_info address (accInfo\<lparr>ai_removed := True\<rparr>) ch))"

text \<open>The number of caches; reading does not change it, which is why \<open>GetStorage\<close> ends.\<close>

primrec chain_depth :: "'b chain \<Rightarrow> nat" where
  "chain_depth (Base b) = 0"
| "chain_depth (Layer c rest) = Suc (chain_depth rest)"

lemma cache_get_depth:
  "cache_get a c rest below = (r, ch) \<Longrightarrow> chain_depth (snd below) = chain_depth rest \<Longrightarrow>
    chain_depth ch = Suc (chain_depth rest)"
  by (auto simp: cache_get_def Let_def split: option.splits prod.splits sum.splits)

lemma GetAccount_depth: "chain_depth (snd (Cache_GetAccount B a ch)) = chain_depth ch"
proof (induction ch)
  case (Layer c rest)
  obtain r ch' where "cache_get a c rest (Cache_GetAccount B a rest) = (r, ch')" by fastforce
  with cache_get_depth [OF this Layer] show ?case by (simp split: sum.splits)
qed simp

text \<open>The miss branch of \<open>GetStorage\<close> stores the value it loads in the entry \<open>get\<close> returned.\<close>

function Cache_GetStorage :: "'b ReaderWriter \<Rightarrow> word160 \<Rightarrow> word256 \<Rightarrow> 'b chain \<Rightarrow> (goerr + bytes) \<times> 'b chain" where
  "Cache_GetStorage B address key (Base b) = (rw_GetStorage B b address key, Base b)"
| "Cache_GetStorage B address key (Layer c rest) =
    (case cache_get address c rest (Cache_GetAccount B address rest) of
       (Inl err, ch) \<Rightarrow> (Inl err, ch)
     | (Inr accInfo, ch) \<Rightarrow>
        (case map_of (ai_storage accInfo) key of
           Some value \<Rightarrow> (Inr value, ch)
         | None \<Rightarrow> (case ch of
             Base b \<Rightarrow> (Inl (ErrOther ''''), Base b)
           | Layer c' rest' \<Rightarrow> (case Cache_GetStorage B address key rest' of
               (Inl err, rest'') \<Rightarrow> (Inl err, Layer c' rest'')
             | (Inr value, rest'') \<Rightarrow> (Inr value,
                 Layer (set_info address (accInfo\<lparr>ai_storage := AList.update key value (ai_storage accInfo)\<rparr>) c')
                   rest'')))))"
  by pat_completeness auto
termination
proof (relation "measure (\<lambda>(B, a, k, ch). chain_depth ch)")
  fix B :: "'b ReaderWriter" and a k c rest x ch z c' rest'
  assume "(x, ch) = cache_get a c rest (Cache_GetAccount B a rest)" "x = Inr z"
    and "map_of (ai_storage z) k = None" and ch: "ch = Layer c' rest'"
  then have "cache_get a c rest (Cache_GetAccount B a rest) = (x, ch)" by simp
  then have "chain_depth ch = Suc (chain_depth rest)" by (rule cache_get_depth) (rule GetAccount_depth)
  then show "((B, a, k, rest'), B, a, k, Layer c rest) \<in> measure (\<lambda>(B, a, k, ch). chain_depth ch)"
    by (simp add: ch)
qed simp

definition SetStorage_missing :: "word160 \<Rightarrow> goerr option" where
  "SetStorage_missing address =
    IllegalWrite (''SetStorage called on an account that does not exist: '' @ address_string address)"

fun Cache_SetStorage :: "'b ReaderWriter \<Rightarrow> word160 \<Rightarrow> word256 \<Rightarrow> bytes \<Rightarrow> 'b chain \<Rightarrow> goerr option \<times> 'b chain" where
  "Cache_SetStorage B address key value (Base b) =
    (let (err, b') = rw_SetStorage B b address key value in (err, Base b'))"
| "Cache_SetStorage B address key value (Layer c rest) =
    (if c_readonly c
     then (IllegalWrite (''SetStorage called in a read-only context on account '' @ address_string address),
       Layer c rest)
     else case cache_get address c rest (Cache_GetAccount B address rest) of
       (Inl err, ch) \<Rightarrow> (SetStorage_missing address, ch)
     | (Inr accInfo, ch) \<Rightarrow>
        if ai_account accInfo = None then (SetStorage_missing address, ch)
        else if ai_removed accInfo
        then (IllegalWrite (''SetStorage on a removed account: '' @ address_string address), ch)
        else (None, put_info address
          (accInfo\<lparr>ai_storage := AList.update key value (ai_storage accInfo), ai_updated := True\<rparr>) ch))"

section \<open>The interface \<open>Writer\<close> and \<open>Sync\<close>\<close>

record 's Writer =
  w_UpdateAccount :: "Account \<Rightarrow> 's \<Rightarrow> goerr option \<times> 's"
  w_RemoveAccount :: "word160 \<Rightarrow> 's \<Rightarrow> goerr option \<times> 's"
  w_SetStorage :: "word160 \<Rightarrow> word256 \<Rightarrow> bytes \<Rightarrow> 's \<Rightarrow> goerr option \<times> 's"

definition chain_writer :: "'b ReaderWriter \<Rightarrow> 'b chain Writer" where
  "chain_writer B = \<lparr>w_UpdateAccount = Cache_UpdateAccount B, w_RemoveAccount = Cache_RemoveAccount B,
     w_SetStorage = Cache_SetStorage B\<rparr>"

definition memory_writer :: "MemoryState Writer" where
  "memory_writer = \<lparr>w_UpdateAccount = (\<lambda>a ms. ms_UpdateAccount ms a),
     w_RemoveAccount = (\<lambda>a ms. ms_RemoveAccount ms a),
     w_SetStorage = (\<lambda>a k v ms. ms_SetStorage ms a k v)\<rparr>"

text \<open>The three nested steps of \<open>Sync\<close>: an account's keys, an account, all accounts.\<close>

fun sync_keys :: "'s Writer \<Rightarrow> word160 \<Rightarrow> accountInfo \<Rightarrow> word256 list \<Rightarrow> 's \<Rightarrow> goerr option \<times> 's" where
  "sync_keys W address accInfo [] st = (None, st)"
| "sync_keys W address accInfo (key # ks) st =
    (case w_SetStorage W address key
        (case map_of (ai_storage accInfo) key of Some v \<Rightarrow> v | None \<Rightarrow> []) st of
       (Some err, st') \<Rightarrow> (Some err, st')
     | (None, st') \<Rightarrow> sync_keys W address accInfo ks st')"

definition sync_account :: "'s Writer \<Rightarrow> word160 \<Rightarrow> accountInfo \<Rightarrow> 's \<Rightarrow> goerr option \<times> 's" where
  "sync_account W address accInfo st =
    (if ai_removed accInfo then w_RemoveAccount W address st
     else if ai_updated accInfo then
       (case ai_account accInfo of
          None \<Rightarrow> (IllegalWrite ''UpdateAccount called with nil account'', st)
        | Some acc \<Rightarrow> (case w_UpdateAccount W acc st of
            (Some err, st') \<Rightarrow> (Some err, st')
          | (None, st') \<Rightarrow> sync_keys W address accInfo (sort (map fst (ai_storage accInfo))) st'))
     else (None, st))"

fun sync_accounts :: "'s Writer \<Rightarrow> Cache \<Rightarrow> word160 list \<Rightarrow> 's \<Rightarrow> goerr option \<times> 's" where
  "sync_accounts W c [] st = (None, st)"
| "sync_accounts W c (address # addresses) st =
    (case map_of (c_accounts c) address of
       None \<Rightarrow> sync_accounts W c addresses st
     | Some accInfo \<Rightarrow> (case sync_account W address accInfo st of
         (Some err, st') \<Rightarrow> (Some err, st')
       | (None, st') \<Rightarrow> sync_accounts W c addresses st'))"

definition Cache_Sync :: "'s Writer \<Rightarrow> Cache \<Rightarrow> 's \<Rightarrow> goerr option \<times> 's" where
  "Cache_Sync W c st =
    (if c_readonly c then (None, st)
     else sync_accounts W c (sort (map fst (c_accounts c))) st)"

text \<open>\<open>Reset\<close> forgets the entries; \<open>Flush\<close> syncs to \<open>st\<close> and reads from \<open>st\<close> again.\<close>

definition Cache_Reset :: "Cache \<Rightarrow> Cache" where
  "Cache_Reset c = c\<lparr>c_accounts := []\<rparr>"

definition Cache_Flush :: "'b ReaderWriter \<Rightarrow> Cache \<Rightarrow> 'b chain \<Rightarrow> goerr option \<times> 'b chain" where
  "Cache_Flush B c st = (case Cache_Sync (chain_writer B) c st of
     (Some err, st') \<Rightarrow> (Some err, Layer c st')
   | (None, st') \<Rightarrow> (None, Layer (Cache_Reset c) st'))"

end
