(* ===== verification/Acm_Cache.thy ===== *)
theory Acm_Cache
  imports Acm_State
begin

text \<open>
  What the layered state means: the accounts and the storage a reader of a chain sees
  (\<open>view_acc\<close>, \<open>view_sto\<close>). Reading fills caches but changes no view; a write changes the view at
  its own place only; and \<open>Sync\<close> gives the backend the view of the cache. The contract of a
  \<open>Writer\<close> is the locale \<open>account_store\<close>, in which \<open>Sync\<close> is proved correct once; it is
  interpreted on chains of caches and on \<open>MemoryState\<close>.
\<close>

section \<open>Views\<close>

primrec view_acc :: "'b ReaderWriter \<Rightarrow> 'b chain \<Rightarrow> word160 \<Rightarrow> goerr + Account option" where
  "view_acc B (Base b) a = rw_GetAccount B b a"
| "view_acc B (Layer c rest) a = (case map_of (c_accounts c) a of
     Some i \<Rightarrow> Inr (if ai_removed i then None else ai_account i)
   | None \<Rightarrow> view_acc B rest a)"

definition sum_opt :: "'e + 'a \<Rightarrow> 'a option" where
  "sum_opt r = (case r of Inl _ \<Rightarrow> None | Inr v \<Rightarrow> Some v)"

lemma sum_opt_simps [simp]: "sum_opt (Inl e) = None" "sum_opt (Inr v) = Some v"
  by (simp_all add: sum_opt_def)

primrec view_sto :: "'b ReaderWriter \<Rightarrow> 'b chain \<Rightarrow> word160 \<Rightarrow> word256 \<Rightarrow> bytes option" where
  "view_sto B (Base b) a k = sum_opt (rw_GetStorage B b a k)"
| "view_sto B (Layer c rest) a k = (case map_of (c_accounts c) a of
     Some i \<Rightarrow> (case map_of (ai_storage i) k of Some v \<Rightarrow> Some v | None \<Rightarrow> view_sto B rest a k)
   | None \<Rightarrow> (case view_acc B rest a of Inl e \<Rightarrow> None | Inr _ \<Rightarrow> view_sto B rest a k))"

definition same_view :: "'b ReaderWriter \<Rightarrow> 'b chain \<Rightarrow> 'b chain \<Rightarrow> bool" where
  "same_view B ch ch' \<longleftrightarrow> view_acc B ch = view_acc B ch' \<and> view_sto B ch = view_sto B ch'"

lemma same_view_refl [simp]: "same_view B ch ch"
  by (simp add: same_view_def)

lemma same_view_trans: "same_view B a b \<Longrightarrow> same_view B b c \<Longrightarrow> same_view B a c"
  by (simp add: same_view_def)

lemma same_view_Layer:
  assumes "same_view B rest rest'" shows "same_view B (Layer c rest) (Layer c rest')"
proof -
  have "view_acc B (Layer c rest) = view_acc B (Layer c rest')"
    using assms by (intro ext) (simp add: same_view_def split: option.split)
  moreover have "view_sto B (Layer c rest) = view_sto B (Layer c rest')"
    using assms by (intro ext) (simp add: same_view_def split: option.split sum.split)
  ultimately show ?thesis by (simp add: same_view_def)
qed

section \<open>Reading\<close>

lemma view_set_info_acc:
  "view_acc B (Layer (set_info a i c) rest) x =
    (if x = a then Inr (if ai_removed i then None else ai_account i) else view_acc B (Layer c rest) x)"
  by (simp add: set_info_def)

lemma view_set_info_sto:
  "view_sto B (Layer (set_info a i c) rest) x k =
    (if x = a then (case map_of (ai_storage i) k of Some v \<Rightarrow> Some v | None \<Rightarrow> view_sto B rest a k)
     else view_sto B (Layer c rest) x k)"
  by (simp add: set_info_def split: option.split)

text \<open>What \<open>cache.get\<close> returns: an entry that is in the chain it leaves, behind unchanged views.\<close>

lemma cache_get_spec:
  assumes g: "cache_get a c rest (Cache_GetAccount B a rest) = (r, ch)"
    and IH: "fst (Cache_GetAccount B a rest) = view_acc B rest a"
      "same_view B rest (snd (Cache_GetAccount B a rest))"
  shows "same_view B (Layer c rest) ch"
    and "r = Inl e \<Longrightarrow> view_acc B (Layer c rest) a = Inl e"
    and "r = Inr i \<Longrightarrow> \<exists>c' rest'. ch = Layer c' rest' \<and> map_of (c_accounts c') a = Some i
      \<and> c_readonly c' = c_readonly c \<and> same_view B rest rest'
      \<and> (map_of (c_accounts c) a = Some i \<or> map_of (c_accounts c) a = None
          \<and> view_acc B rest a = Inr (ai_account i) \<and> ai_storage i = [] \<and> \<not> ai_removed i \<and> \<not> ai_updated i)"
proof -
  obtain q rest' where b: "Cache_GetAccount B a rest = (q, rest')" by fastforce
  have q: "q = view_acc B rest a" "same_view B rest rest'" using IH b by simp_all
  show 1: "same_view B (Layer c rest) ch"
  proof (cases "map_of (c_accounts c) a")
    case None
    show ?thesis
    proof (cases q)
      case (Inl e)
      then show ?thesis using g None b q by (auto simp: cache_get_def intro: same_view_Layer)
    next
      case (Inr acc)
      let ?i = "\<lparr>ai_account = acc, ai_storage = [], ai_removed = False, ai_updated = False\<rparr>"
      have ch: "ch = Layer (set_info a ?i c) rest'" using g None b Inr by (auto simp: cache_get_def Let_def)
      have "view_acc B (Layer c rest) = view_acc B (Layer (set_info a ?i c) rest')"
        using None q Inr by (intro ext) (simp only: view_set_info_acc, auto simp: same_view_def split: option.split)
      moreover have "view_sto B (Layer c rest) = view_sto B (Layer (set_info a ?i c) rest')"
        using None q Inr by (intro ext) (simp only: view_set_info_sto, auto simp: same_view_def split: option.split sum.splits)
      ultimately show ?thesis by (simp add: same_view_def ch)
    qed
  qed (use g in \<open>simp add: cache_get_def\<close>)
  show "r = Inl e \<Longrightarrow> view_acc B (Layer c rest) a = Inl e"
    using g b q by (auto simp: cache_get_def Let_def split: option.splits sum.splits)
  show "r = Inr i \<Longrightarrow> \<exists>c' rest'. ch = Layer c' rest' \<and> map_of (c_accounts c') a = Some i
      \<and> c_readonly c' = c_readonly c \<and> same_view B rest rest'
      \<and> (map_of (c_accounts c) a = Some i \<or> map_of (c_accounts c) a = None
          \<and> view_acc B rest a = Inr (ai_account i) \<and> ai_storage i = [] \<and> \<not> ai_removed i \<and> \<not> ai_updated i)"
    using g b q by (auto simp: cache_get_def Let_def set_info_def split: option.splits sum.splits)
qed

lemma GetAccount_spec:
  "fst (Cache_GetAccount B a ch) = view_acc B ch a \<and> same_view B ch (snd (Cache_GetAccount B a ch))"
proof (induction ch)
  case (Layer c rest)
  obtain r ch' where g: "cache_get a c rest (Cache_GetAccount B a rest) = (r, ch')" by fastforce
  note S = cache_get_spec [OF g conjunct1 [OF Layer] conjunct2 [OF Layer]]
  show ?case
  proof (cases r)
    case (Inl e)
    then show ?thesis using g S(1,2) by simp
  next
    case (Inr i)
    from S(3) [OF this] have "view_acc B ch' a = Inr (if ai_removed i then None else ai_account i)" by auto
    then show ?thesis using g S(1) Inr by (simp add: same_view_def)
  qed
qed simp

lemmas cache_get_view = cache_get_spec [OF _ conjunct1 [OF GetAccount_spec] conjunct2 [OF GetAccount_spec]]

lemma GetStorage_spec:
  "sum_opt (fst (Cache_GetStorage B a k ch)) = view_sto B ch a k \<and> same_view B ch (snd (Cache_GetStorage B a k ch))"
proof (induction B a k ch rule: Cache_GetStorage.induct)
  case (2 B a k c rest)
  obtain r ch where g: "cache_get a c rest (Cache_GetAccount B a rest) = (r, ch)" by fastforce
  note S = cache_get_view [OF g]
  show ?case
  proof (cases r)
    case (Inl e)
    have "view_sto B (Layer c rest) a k = None"
      using S(2) [OF Inl] by (auto split: option.splits sum.splits)
    then show ?thesis using g Inl S(1) by simp
  next
    case (Inr i)
    from S(3) [OF this] obtain c' rest' where ch: "ch = Layer c' rest'" "map_of (c_accounts c') a = Some i" by auto
    have view: "view_sto B (Layer c rest) a k = (case map_of (ai_storage i) k of Some v \<Rightarrow> Some v | None \<Rightarrow> view_sto B rest' a k)"
      using S(1) ch by (simp add: same_view_def)
    show ?thesis
    proof (cases "map_of (ai_storage i) k")
      case None
      obtain q rest'' where q: "Cache_GetStorage B a k rest' = (q, rest'')" by fastforce
      have IH: "sum_opt q = view_sto B rest' a k" "same_view B rest' rest''"
        using "2.IH" [OF g [symmetric] Inr None ch(1)] q by simp_all
      show ?thesis
      proof (cases q)
        case (Inl e)
        then show ?thesis
          using g Inr None ch q IH view S(1) same_view_Layer [OF IH(2), of c'] same_view_trans by force
      next
        case (Inr v)
        let ?i = "i\<lparr>ai_storage := AList.update k v (ai_storage i)\<rparr>"
        have "view_acc B (Layer c' rest') = view_acc B (Layer (set_info a ?i c') rest'')"
          using IH(2) ch by (intro ext) (simp only: view_set_info_acc, auto simp: same_view_def split: option.split)
        moreover have "view_sto B (Layer c' rest') = view_sto B (Layer (set_info a ?i c') rest'')"
        proof (intro ext)
          fix x j
          show "view_sto B (Layer c' rest') x j = view_sto B (Layer (set_info a ?i c') rest'') x j"
            unfolding view_set_info_sto using IH ch None Inr
            by (cases "j = k") (auto simp: same_view_def split: option.split sum.splits)
        qed
        ultimately have "same_view B (Layer c' rest') (Layer (set_info a ?i c') rest'')"
          by (simp add: same_view_def)
        then show ?thesis
          using g \<open>r = Inr i\<close> None ch q IH view S(1) Inr same_view_trans by force
      qed
    qed (use g Inr ch view S(1) in simp)
  qed
qed simp

section \<open>Writing\<close>

lemma view_put_info:
  assumes "ch = Layer c rest" "map_of (c_accounts c) a = Some i" "ai_storage j = ai_storage i"
  shows "view_acc B (put_info a j ch) = (view_acc B ch)(a := Inr (if ai_removed j then None else ai_account j))"
    and "view_sto B (put_info a j ch) = view_sto B ch"
proof -
  show "view_acc B (put_info a j ch) = (view_acc B ch)(a := Inr (if ai_removed j then None else ai_account j))"
    by (intro ext) (simp add: assms view_set_info_acc del: view_acc.simps)
  show "view_sto B (put_info a j ch) = view_sto B ch"
    using assms by (intro ext) (simp add: view_set_info_sto del: view_sto.simps, simp split: option.split)
qed

lemma UpdateAccount_ok:
  assumes "Cache_UpdateAccount B acc (Layer c rest) = (None, ch')"
  shows "\<not> c_readonly c" "\<exists>c' rest'. ch' = Layer c' rest'"
    "view_acc B ch' = (view_acc B (Layer c rest))(Address acc := Inr (Some acc))"
    "view_sto B ch' = view_sto B (Layer c rest)"
proof -
  obtain r ch where g: "cache_get (Address acc) c rest (Cache_GetAccount B (Address acc) rest) = (r, ch)" by fastforce
  show ro: "\<not> c_readonly c" using assms by (auto simp: IllegalWrite_def ErrorCodef_ne split: if_splits)
  then obtain i where i: "r = Inr i" "\<not> ai_removed i"
      "ch' = put_info (Address acc) (i\<lparr>ai_account := Some acc, ai_updated := True\<rparr>) ch"
    using assms g by (auto simp: IllegalWrite_def ErrorCodef_ne split: sum.splits if_splits)
  obtain c' rest' where ch: "ch = Layer c' rest'" "map_of (c_accounts c') (Address acc) = Some i"
    using cache_get_view(3) [OF g i(1)] by auto
  have sv: "same_view B (Layer c rest) ch" by (rule cache_get_view(1) [OF g])
  note V = view_put_info [OF ch, of "i\<lparr>ai_account := Some acc, ai_updated := True\<rparr>" B]
  show "\<exists>c' rest'. ch' = Layer c' rest'" using i ch by simp
  show "view_acc B ch' = (view_acc B (Layer c rest))(Address acc := Inr (Some acc))"
    using V(1) i sv by (simp add: same_view_def)
  show "view_sto B ch' = view_sto B (Layer c rest)" using V(2) i sv by (simp add: same_view_def)
qed

lemma RemoveAccount_ok:
  assumes "Cache_RemoveAccount B a (Layer c rest) = (None, ch')"
  shows "\<not> c_readonly c" "\<exists>c' rest'. ch' = Layer c' rest'"
    "view_acc B ch' = (view_acc B (Layer c rest))(a := Inr None)"
    "view_sto B ch' = view_sto B (Layer c rest)"
proof -
  obtain r ch where g: "cache_get a c rest (Cache_GetAccount B a rest) = (r, ch)" by fastforce
  show ro: "\<not> c_readonly c" using assms by (auto simp: IllegalWrite_def ErrorCodef_ne split: if_splits)
  then obtain i where i: "r = Inr i" "\<not> ai_removed i" "ch' = put_info a (i\<lparr>ai_removed := True\<rparr>) ch"
    using assms g by (auto split: sum.splits if_splits)
  obtain c' rest' where ch: "ch = Layer c' rest'" "map_of (c_accounts c') a = Some i"
    using cache_get_view(3) [OF g i(1)] by auto
  have sv: "same_view B (Layer c rest) ch" by (rule cache_get_view(1) [OF g])
  note V = view_put_info [OF ch, of "i\<lparr>ai_removed := True\<rparr>" B]
  show "\<exists>c' rest'. ch' = Layer c' rest'" using i ch by simp
  show "view_acc B ch' = (view_acc B (Layer c rest))(a := Inr None)"
    using V(1) i sv by (simp add: same_view_def)
  show "view_sto B ch' = view_sto B (Layer c rest)" using V(2) i sv by (simp add: same_view_def)
qed

lemma SetStorage_ok:
  assumes "Cache_SetStorage B a k v (Layer c rest) = (None, ch')"
  shows "\<not> c_readonly c" "\<exists>c' rest'. ch' = Layer c' rest'"
    "view_acc B ch' = view_acc B (Layer c rest)"
    "view_sto B ch' = (view_sto B (Layer c rest))(a := (view_sto B (Layer c rest) a)(k \<mapsto> v))"
proof -
  obtain r ch where g: "cache_get a c rest (Cache_GetAccount B a rest) = (r, ch)" by fastforce
  show ro: "\<not> c_readonly c" using assms by (auto simp: IllegalWrite_def ErrorCodef_ne split: if_splits)
  let ?j = "\<lambda>i. i\<lparr>ai_storage := AList.update k v (ai_storage i), ai_updated := True\<rparr>"
  obtain i where i: "r = Inr i" "\<not> ai_removed i" "ch' = put_info a (?j i) ch"
    using assms g ro by (auto simp: IllegalWrite_def SetStorage_missing_def ErrorCodef_ne split: sum.splits if_splits)
  obtain c' rest' where ch: "ch = Layer c' rest'" "map_of (c_accounts c') a = Some i"
    using cache_get_view(3) [OF g i(1)] by auto
  have sv: "same_view B (Layer c rest) ch" by (rule cache_get_view(1) [OF g])
  show "\<exists>c' rest'. ch' = Layer c' rest'" using i ch by simp
  have "view_acc B ch' = view_acc B ch"
    using i ch by (intro ext) (simp add: view_set_info_acc del: view_acc.simps, simp)
  then show "view_acc B ch' = view_acc B (Layer c rest)" using sv by (simp add: same_view_def)
  have "view_sto B ch' = (view_sto B ch)(a := (view_sto B ch a)(k \<mapsto> v))"
  proof (intro ext)
    fix x j
    show "view_sto B ch' x j = ((view_sto B ch)(a := (view_sto B ch a)(k \<mapsto> v))) x j"
      using i ch by (cases "j = k") (simp_all add: view_set_info_sto del: view_sto.simps, auto split: option.split)
  qed
  then show "view_sto B ch' = (view_sto B (Layer c rest))(a := (view_sto B (Layer c rest) a)(k \<mapsto> v))"
    using sv by (simp add: same_view_def)
qed

text \<open>A write that fails changes no view; every write to a read-only cache fails.\<close>

lemma write_failed:
  "Cache_UpdateAccount B acc (Layer c rest) = (Some e, ch') \<Longrightarrow> same_view B (Layer c rest) ch'"
  "Cache_RemoveAccount B a (Layer c rest) = (Some e, ch') \<Longrightarrow> same_view B (Layer c rest) ch'"
  "Cache_SetStorage B a k v (Layer c rest) = (Some e, ch') \<Longrightarrow> same_view B (Layer c rest) ch'"
  by (auto split: if_splits prod.splits sum.splits dest: cache_get_view(1))

lemma readonly_write_fails:
  assumes "c_readonly c"
  shows "\<exists>e. Cache_UpdateAccount B acc (Layer c rest) = (Some e, Layer c rest)"
    "\<exists>e. Cache_RemoveAccount B a (Layer c rest) = (Some e, Layer c rest)"
    "\<exists>e. Cache_SetStorage B a k v (Layer c rest) = (Some e, Layer c rest)"
  using assms by (simp_all add: IllegalWrite_def ErrorCodef_ne)

section \<open>The contract of a writer, and \<open>Sync\<close>\<close>

text \<open>What one entry of a cache stands for, over the accounts and storage of the backend.\<close>

definition entry_acc :: "accountInfo \<Rightarrow> goerr + Account option \<Rightarrow> goerr + Account option" where
  "entry_acc i old = (if ai_removed i then Inr None else if ai_updated i then Inr (ai_account i) else old)"

text \<open>The same over any reading of the backend: \<open>new\<close> is what an update makes of an account, \<open>gone\<close> what a removal does.\<close>

definition entry_with :: "(Account option \<Rightarrow> 'v \<Rightarrow> 'v) \<Rightarrow> ('v \<Rightarrow> 'v) \<Rightarrow> accountInfo \<Rightarrow> 'v \<Rightarrow> 'v" where
  "entry_with new gone i old = (if ai_removed i then gone old else if ai_updated i then new (ai_account i) old else old)"

lemma entry_with_acc [simp]: "entry_with (\<lambda>acc _. Inr acc) (\<lambda>_. Inr None) i old = entry_acc i old"
  by (simp add: entry_with_def entry_acc_def)

definition entry_sto :: "accountInfo \<Rightarrow> (word256 \<Rightarrow> bytes option) \<Rightarrow> word256 \<Rightarrow> bytes option" where
  "entry_sto i old = (if \<not> ai_removed i \<and> ai_updated i then old ++ map_of (ai_storage i) else old)"

definition keyed :: "Cache \<Rightarrow> bool" where
  "keyed c \<longleftrightarrow> distinct (map fst (c_accounts c))
    \<and> (\<forall>a i acc. map_of (c_accounts c) a = Some i \<longrightarrow> ai_account i = Some acc \<longrightarrow> Address acc = a)"

locale account_store =
  fixes W :: "'s Writer"
    and ok :: "'s \<Rightarrow> bool"
    and new :: "Account option \<Rightarrow> 'v \<Rightarrow> 'v"
    and gone :: "'v \<Rightarrow> 'v"
    and vacc :: "'s \<Rightarrow> word160 \<Rightarrow> 'v"
    and vsto :: "'s \<Rightarrow> word160 \<Rightarrow> word256 \<Rightarrow> bytes option"
  assumes update_law: "ok s \<Longrightarrow> w_UpdateAccount W acc s = (None, s') \<Longrightarrow>
      ok s' \<and> vacc s' = (vacc s)(Address acc := new (Some acc) (vacc s (Address acc))) \<and> vsto s' = vsto s"
    and remove_law: "ok s \<Longrightarrow> w_RemoveAccount W a s = (None, s') \<Longrightarrow>
      ok s' \<and> vacc s' = (vacc s)(a := gone (vacc s a)) \<and> vsto s' = vsto s"
    and storage_law: "ok s \<Longrightarrow> w_SetStorage W a k v s = (None, s') \<Longrightarrow>
      ok s' \<and> vacc s' = vacc s \<and> vsto s' = (vsto s)(a := (vsto s a)(k \<mapsto> v))"
begin

lemma sync_keys_ok:
  "ok s \<Longrightarrow> set ks \<subseteq> dom (map_of (ai_storage i)) \<Longrightarrow> sync_keys W a i ks s = (None, s') \<Longrightarrow>
    ok s' \<and> vacc s' = vacc s \<and> vsto s' = (vsto s)(a := vsto s a ++ (map_of (ai_storage i) |` set ks))"
proof (induction ks arbitrary: s)
  case (Cons k ks)
  then obtain v where v: "map_of (ai_storage i) k = Some v" by auto
  then obtain s1 where s1: "w_SetStorage W a k v s = (None, s1)" "sync_keys W a i ks s1 = (None, s')"
    using Cons.prems(3) by (auto split: prod.splits option.splits)
  have L: "ok s1" "vacc s1 = vacc s" "vsto s1 = (vsto s)(a := (vsto s a)(k \<mapsto> v))"
    using storage_law [OF Cons.prems(1) s1(1)] by simp_all
  have eq: "(vsto s a)(k \<mapsto> v) ++ (map_of (ai_storage i) |` set ks)
      = vsto s a ++ (map_of (ai_storage i) |` set (k # ks))"
    using v by (auto simp: fun_eq_iff map_add_def restrict_map_def split: option.splits)
  have "ok s' \<and> vacc s' = vacc s1 \<and> vsto s' = (vsto s1)(a := vsto s1 a ++ (map_of (ai_storage i) |` set ks))"
    by (rule Cons.IH [OF L(1) _ s1(2)]) (use Cons.prems(2) in simp)
  then show ?case by (simp only: L fun_upd_upd fun_upd_same eq)
qed (auto simp: fun_eq_iff map_add_def)

lemma sync_account_ok:
  assumes "ok s" "sync_account W a i s = (None, s')" "\<And>acc. ai_account i = Some acc \<Longrightarrow> Address acc = a"
  shows "ok s' \<and> vacc s' = (vacc s)(a := entry_with new gone i (vacc s a)) \<and> vsto s' = (vsto s)(a := entry_sto i (vsto s a))"
proof -
  consider "ai_removed i" | "\<not> ai_removed i" "ai_updated i" | "\<not> ai_removed i" "\<not> ai_updated i" by blast
  then show ?thesis
  proof cases
    case 1
    then show ?thesis using remove_law [OF assms(1), of a s'] assms(2)
      by (simp add: sync_account_def entry_with_def entry_sto_def)
  next
    case 2
    then obtain acc s1 where acc: "ai_account i = Some acc" "w_UpdateAccount W acc s = (None, s1)"
        "sync_keys W a i (sort (map fst (ai_storage i))) s1 = (None, s')"
      using assms(2) by (auto simp: sync_account_def IllegalWrite_def ErrorCodef_ne split: option.splits prod.splits)
    have L: "ok s1" "vacc s1 = (vacc s)(a := new (Some acc) (vacc s a))" "vsto s1 = vsto s"
      using update_law [OF assms(1) acc(2)] assms(3) [OF acc(1)] by simp_all
    have "map_of (ai_storage i) |` (fst ` set (ai_storage i)) = map_of (ai_storage i)"
      by (rule ext) (metis map_of_eq_None_iff restrict_map_def)
    then show ?thesis using sync_keys_ok [OF L(1) _ acc(3)] L 2 acc(1)
      by (simp add: entry_with_def entry_sto_def dom_map_of_conv_image_fst)
  next
    case 3
    then show ?thesis using assms by (auto simp: sync_account_def entry_with_def entry_sto_def)
  qed
qed

lemma sync_accounts_ok:
  assumes "keyed c"
  shows "ok s \<Longrightarrow> distinct as \<Longrightarrow> sync_accounts W c as s = (None, s') \<Longrightarrow>
    ok s' \<and> (\<forall>x. vacc s' x = (case map_of (c_accounts c) x of
        Some i \<Rightarrow> if x \<in> set as then entry_with new gone i (vacc s x) else vacc s x | None \<Rightarrow> vacc s x))
    \<and> (\<forall>x. vsto s' x = (case map_of (c_accounts c) x of
        Some i \<Rightarrow> if x \<in> set as then entry_sto i (vsto s x) else vsto s x | None \<Rightarrow> vsto s x))"
proof (induction as arbitrary: s)
  case (Cons a as)
  show ?case
  proof (cases "map_of (c_accounts c) a")
    case None
    then show ?thesis using Cons by (auto split: option.splits)
  next
    case (Some i)
    then obtain s1 where s1: "sync_account W a i s = (None, s1)" "sync_accounts W c as s1 = (None, s')"
      using Cons.prems(3) by (auto split: prod.splits option.splits)
    have k: "\<And>acc. ai_account i = Some acc \<Longrightarrow> Address acc = a" using assms Some by (auto simp: keyed_def)
    have L: "ok s1" "vacc s1 = (vacc s)(a := entry_with new gone i (vacc s a))" "vsto s1 = (vsto s)(a := entry_sto i (vsto s a))"
      using sync_account_ok [OF Cons.prems(1) s1(1) k] by simp_all
    have "distinct as" "a \<notin> set as" using Cons.prems(2) by simp_all
    then show ?thesis using Cons.IH [OF L(1) _ s1(2)] Some
      by (auto simp: L(2,3) split: option.splits)
  qed
qed (auto split: option.splits)

text \<open>\<open>Sync\<close>, when it reports no error, has written every entry of the cache and nothing else.\<close>

lemma Sync_ok:
  assumes "keyed c" "\<not> c_readonly c" "ok s" "Cache_Sync W c s = (None, s')"
  shows "ok s' \<and> (\<forall>x. vacc s' x = (case map_of (c_accounts c) x of Some i \<Rightarrow> entry_with new gone i (vacc s x) | None \<Rightarrow> vacc s x))
    \<and> (\<forall>x. vsto s' x = (case map_of (c_accounts c) x of Some i \<Rightarrow> entry_sto i (vsto s x) | None \<Rightarrow> vsto s x))"
proof -
  have d: "distinct (sort (map fst (c_accounts c)))" using assms(1) by (simp add: keyed_def)
  have "x \<in> set (sort (map fst (c_accounts c)))" if "map_of (c_accounts c) x = Some i" for x i
    using map_of_SomeD [OF that] by force
  then show ?thesis
    using sync_accounts_ok [OF assms(1,3) d] assms(2,4) by (auto simp: Cache_Sync_def split: option.splits)
qed

end

text \<open>A chain is a writer, whatever its backend, as long as a cache is on top of it; so is the
  in-memory state.\<close>

definition cached :: "'b chain \<Rightarrow> bool" where
  "cached ch \<longleftrightarrow> (\<exists>c rest. ch = Layer c rest)"

interpretation chain: account_store "chain_writer B" cached "\<lambda>acc _. Inr acc" "\<lambda>_. Inr None" "view_acc B" "view_sto B"
  for B :: "'b ReaderWriter"
proof unfold_locales
  fix s s' :: "'b chain" and acc
  assume "cached s" "w_UpdateAccount (chain_writer B) acc s = (None, s')"
  then show "cached s' \<and> view_acc B s' = (view_acc B s)(Address acc := Inr (Some acc)) \<and> view_sto B s' = view_sto B s"
    using UpdateAccount_ok by (fastforce simp: chain_writer_def cached_def simp del: Cache_UpdateAccount.simps)
next
  fix s s' :: "'b chain" and a
  assume "cached s" "w_RemoveAccount (chain_writer B) a s = (None, s')"
  then show "cached s' \<and> view_acc B s' = (view_acc B s)(a := Inr None) \<and> view_sto B s' = view_sto B s"
    using RemoveAccount_ok by (fastforce simp: chain_writer_def cached_def simp del: Cache_RemoveAccount.simps)
next
  fix s s' :: "'b chain" and a k v
  assume "cached s" "w_SetStorage (chain_writer B) a k v s = (None, s')"
  then show "cached s' \<and> view_acc B s' = view_acc B s \<and> view_sto B s' = (view_sto B s)(a := (view_sto B s a)(k \<mapsto> v))"
    using SetStorage_ok by (fastforce simp: chain_writer_def cached_def simp del: Cache_SetStorage.simps)
qed

interpretation memory: account_store memory_writer "\<lambda>_. True" "\<lambda>acc _. Inr acc" "\<lambda>_. Inr None" ms_GetAccount
  "\<lambda>ms a k. sum_opt (ms_GetStorage ms a k)"
proof unfold_locales
  fix s s' acc
  assume "w_UpdateAccount memory_writer acc s = (None, s')"
  then show "True \<and> ms_GetAccount s' = (ms_GetAccount s)(Address acc := Inr (Some acc))
      \<and> (\<lambda>a k. sum_opt (ms_GetStorage s' a k)) = (\<lambda>a k. sum_opt (ms_GetStorage s a k))"
    by (auto simp: memory_writer_def ms_UpdateAccount_def ms_GetAccount_def ms_GetStorage_def update_conv' fun_eq_iff)
next
  fix s s' a
  assume "w_RemoveAccount memory_writer a s = (None, s')"
  then show "True \<and> ms_GetAccount s' = (ms_GetAccount s)(a := Inr None)
      \<and> (\<lambda>a k. sum_opt (ms_GetStorage s' a k)) = (\<lambda>a k. sum_opt (ms_GetStorage s a k))"
    by (auto simp: memory_writer_def ms_RemoveAccount_def ms_GetAccount_def ms_GetStorage_def delete_conv' fun_eq_iff)
next
  fix s s' a k v
  assume "w_SetStorage memory_writer a k v s = (None, s')"
  then show "True \<and> ms_GetAccount s' = ms_GetAccount s \<and> (\<lambda>a k. sum_opt (ms_GetStorage s' a k))
      = (\<lambda>a k. sum_opt (ms_GetStorage s a k))(a := (\<lambda>k. sum_opt (ms_GetStorage s a k))(k \<mapsto> v))"
    by (auto simp: memory_writer_def ms_SetStorage_def ms_GetAccount_def ms_GetStorage_def Let_def update_conv'
        fun_eq_iff split: option.splits if_splits)
qed

section \<open>Coherence: unchanged entries agree with the backend\<close>

definition coherent :: "'b ReaderWriter \<Rightarrow> Cache \<Rightarrow> 'b chain \<Rightarrow> bool" where
  "coherent B c rest \<longleftrightarrow> keyed c \<and> (\<forall>a i. map_of (c_accounts c) a = Some i \<longrightarrow> \<not> ai_updated i \<longrightarrow>
     (\<not> ai_removed i \<longrightarrow> view_acc B rest a = Inr (ai_account i))
     \<and> (\<forall>k v. map_of (ai_storage i) k = Some v \<longrightarrow> view_sto B rest a k = Some v))"

primrec coh :: "'b ReaderWriter \<Rightarrow> 'b chain \<Rightarrow> bool" where
  "coh B (Base b) = (\<forall>a acc. rw_GetAccount B b a = Inr (Some acc) \<longrightarrow> Address acc = a)"
| "coh B (Layer c rest) = (coherent B c rest \<and> coh B rest)"

lemma coherent_same: "coherent B c rest \<Longrightarrow> same_view B rest rest' \<Longrightarrow> coherent B c rest'"
  by (simp add: coherent_def same_view_def)

lemma coh_keyed: "coh B ch \<Longrightarrow> view_acc B ch a = Inr (Some acc) \<Longrightarrow> Address acc = a"
  by (induction ch) (auto simp: coherent_def keyed_def split: option.splits if_splits)

lemma coherent_set_info:
  assumes "coherent B c rest" "\<And>acc. ai_account i = Some acc \<Longrightarrow> Address acc = a"
    and "\<not> ai_updated i \<Longrightarrow> (\<not> ai_removed i \<longrightarrow> view_acc B rest a = Inr (ai_account i))
      \<and> (\<forall>k v. map_of (ai_storage i) k = Some v \<longrightarrow> view_sto B rest a k = Some v)"
  shows "coherent B (set_info a i c) rest"
  using assms by (auto simp: coherent_def keyed_def set_info_def update_conv')

lemma coh_cache_get:
  assumes g: "cache_get a c rest (Cache_GetAccount B a rest) = (r, ch)"
    and c: "coherent B c rest" "coh B rest" "coh B (snd (Cache_GetAccount B a rest))"
  shows "coh B ch"
proof -
  obtain q rest' where b: "Cache_GetAccount B a rest = (q, rest')" by fastforce
  have q: "q = view_acc B rest a" "same_view B rest rest'"
    using GetAccount_spec [of B a rest] b by simp_all
  have c': "coherent B c rest'" by (rule coherent_same [OF c(1) q(2)])
  have new: "coherent B (set_info a \<lparr>ai_account = acc, ai_storage = [], ai_removed = False, ai_updated = False\<rparr> c) rest'"
    if "q = Inr acc" for acc
    using that q coh_keyed [OF c(2), of a]
    by (intro coherent_set_info [OF c']) (auto simp: same_view_def)
  show ?thesis using g b c c' new
    by (auto simp: cache_get_def Let_def split: option.splits sum.splits)
qed

lemma coh_GetAccount: "coh B ch \<Longrightarrow> coh B (snd (Cache_GetAccount B a ch))"
proof (induction ch)
  case (Layer c rest)
  obtain r ch' where g: "cache_get a c rest (Cache_GetAccount B a rest) = (r, ch')" by fastforce
  have "coh B ch'" by (rule coh_cache_get [OF g]) (use Layer in simp_all)
  then show ?case using g by (simp split: sum.splits)
qed simp

lemma coh_get: "cache_get a c rest (Cache_GetAccount B a rest) = (r, ch) \<Longrightarrow> coh B (Layer c rest) \<Longrightarrow> coh B ch"
  using coh_cache_get coh_GetAccount by fastforce

lemma coh_GetStorage: "coh B ch \<Longrightarrow> coh B (snd (Cache_GetStorage B a k ch))"
proof (induction B a k ch rule: Cache_GetStorage.induct)
  case (2 B a k c rest)
  obtain r ch where g: "cache_get a c rest (Cache_GetAccount B a rest) = (r, ch)" by fastforce
  have cg: "coh B ch" by (rule coh_get [OF g "2.prems"])
  show ?case
  proof (cases r)
    case (Inr i)
    from cache_get_view(3) [OF g this] obtain c' rest' where ch: "ch = Layer c' rest'" "map_of (c_accounts c') a = Some i" by auto
    show ?thesis
    proof (cases "map_of (ai_storage i) k")
      case None
      obtain q rest'' where q: "Cache_GetStorage B a k rest' = (q, rest'')" by fastforce
      have c1: "coh B rest''" "same_view B rest' rest''" "sum_opt q = view_sto B rest' a k"
        using "2.IH" [OF g [symmetric] Inr None ch(1)] cg ch q GetStorage_spec [of B a k rest'] by simp_all
      have c2: "coherent B c' rest''" using coherent_same [OF _ c1(2)] cg ch by simp
      have "coherent B (set_info a (i\<lparr>ai_storage := AList.update k v (ai_storage i)\<rparr>) c') rest''" if "q = Inr v" for v
        using c1 c2 ch(2) that
        by (intro coherent_set_info [OF c2]) (auto simp: coherent_def keyed_def same_view_def update_conv' split: if_splits)
      then show ?thesis using g Inr None ch q c1 c2 by (auto split: sum.splits)
    qed (use g Inr ch cg in simp)
  qed (use g cg in simp)
qed simp

lemma coh_put_updated:
  assumes "coh B ch" "ch = Layer c rest" "ai_updated i" "\<And>acc. ai_account i = Some acc \<Longrightarrow> Address acc = a"
  shows "coh B (put_info a i ch)"
  using assms coherent_set_info [of B c rest i a] by simp

lemma coh_UpdateAccount:
  assumes "coh B (Layer c rest)"
  shows "coh B (snd (Cache_UpdateAccount B acc (Layer c rest)))"
proof -
  obtain r ch where g: "cache_get (Address acc) c rest (Cache_GetAccount B (Address acc) rest) = (r, ch)" by fastforce
  have cg: "coh B ch" by (rule coh_get [OF g assms])
  show ?thesis
  proof (cases r)
    case (Inr i)
    from cache_get_view(3) [OF g this] obtain c' rest' where ch: "ch = Layer c' rest'" by auto
    have "coh B (put_info (Address acc) (i\<lparr>ai_account := Some acc, ai_updated := True\<rparr>) ch)"
      by (rule coh_put_updated [OF cg ch]) simp_all
    then show ?thesis using assms g Inr cg by simp
  qed (use assms g cg in simp)
qed

lemma coh_RemoveAccount:
  assumes "coh B (Layer c rest)"
  shows "coh B (snd (Cache_RemoveAccount B a (Layer c rest)))"
proof -
  obtain r ch where g: "cache_get a c rest (Cache_GetAccount B a rest) = (r, ch)" by fastforce
  have cg: "coh B ch" by (rule coh_get [OF g assms])
  show ?thesis
  proof (cases r)
    case (Inr i)
    from cache_get_view(3) [OF g this] obtain c' rest' where ch: "ch = Layer c' rest'" "map_of (c_accounts c') a = Some i"
      by auto
    have "coherent B (set_info a (i\<lparr>ai_removed := True\<rparr>) c') rest'"
      using cg ch by (intro coherent_set_info) (auto simp: coherent_def keyed_def)
    then show ?thesis using assms g Inr cg ch by simp
  qed (use assms g cg in simp)
qed

lemma coh_SetStorage:
  assumes "coh B (Layer c rest)"
  shows "coh B (snd (Cache_SetStorage B a k v (Layer c rest)))"
proof -
  obtain r ch where g: "cache_get a c rest (Cache_GetAccount B a rest) = (r, ch)" by fastforce
  have cg: "coh B ch" by (rule coh_get [OF g assms])
  show ?thesis
  proof (cases r)
    case (Inr i)
    from cache_get_view(3) [OF g this] obtain c' rest' where ch: "ch = Layer c' rest'" "map_of (c_accounts c') a = Some i"
      by auto
    have "coh B (put_info a (i\<lparr>ai_storage := AList.update k v (ai_storage i), ai_updated := True\<rparr>) ch)"
      using cg ch by (intro coh_put_updated [OF cg ch(1)]) (auto simp: coherent_def keyed_def)
    then show ?thesis using assms g Inr cg by simp
  qed (use assms g cg in simp)
qed

section \<open>\<open>Sync\<close> carries the view of a cache to the cache below it\<close>

lemma Layer_acc_error: "view_acc B (Layer c rest) a = Inl e \<Longrightarrow> view_sto B (Layer c rest) a k = None"
  by (simp split: option.splits)

lemma Sync_view:
  assumes c: "coherent B c (Layer p rest)" "\<not> c_readonly c"
    and s: "Cache_Sync (chain_writer B) c (Layer p rest) = (None, ch')"
  shows "view_acc B ch' = view_acc B (Layer c (Layer p rest))"
    and "(\<And>i. map_of (c_accounts c) a = Some i \<Longrightarrow> \<not> ai_removed i) \<Longrightarrow>
      view_sto B ch' a = view_sto B (Layer c (Layer p rest)) a"
proof -
  let ?st = "Layer p rest"
  have k: "keyed c" using c(1) by (simp add: coherent_def)
  have "cached ?st" by (simp add: cached_def)
  note S = chain.Sync_ok [OF k c(2) this s, unfolded entry_with_acc]
  have acc: "view_acc B ch' x = (case map_of (c_accounts c) x of Some i \<Rightarrow> entry_acc i (view_acc B ?st x) | None \<Rightarrow> view_acc B ?st x)" for x
    using S by blast
  have sto: "view_sto B ch' x = (case map_of (c_accounts c) x of Some i \<Rightarrow> entry_sto i (view_sto B ?st x) | None \<Rightarrow> view_sto B ?st x)" for x
    using S by blast
  show "view_acc B ch' = view_acc B (Layer c ?st)"
  proof (rule ext)
    fix x
    show "view_acc B ch' x = view_acc B (Layer c ?st) x"
    proof (cases "map_of (c_accounts c) x")
      case (Some i)
      then have "\<not> ai_updated i \<Longrightarrow> \<not> ai_removed i \<Longrightarrow> view_acc B ?st x = Inr (ai_account i)"
        using c(1) by (simp add: coherent_def del: view_acc.simps)
      then show ?thesis unfolding acc using Some
        by (auto simp: entry_acc_def view_acc.simps(2) [of B c] simp del: view_acc.simps)
    qed (simp add: acc)
  qed
  show "view_sto B ch' a = view_sto B (Layer c ?st) a" if nr: "\<And>i. map_of (c_accounts c) a = Some i \<Longrightarrow> \<not> ai_removed i"
  proof (rule ext)
    fix key
    show "view_sto B ch' a key = view_sto B (Layer c ?st) a key"
    proof (cases "map_of (c_accounts c) a")
      case None
      then show ?thesis unfolding sto
        using Layer_acc_error [of B p rest a] by (simp add: view_sto.simps(2) [of B c] split: sum.split del: view_sto.simps view_acc.simps)
    next
      case (Some i)
      have "\<not> ai_updated i \<Longrightarrow> map_of (ai_storage i) key = Some v \<Longrightarrow> view_sto B ?st a key = Some v" for v
        using c(1) Some by (simp add: coherent_def del: view_acc.simps view_sto.simps)
      then show ?thesis unfolding sto using Some nr [OF Some]
        by (auto simp: entry_sto_def view_sto.simps(2) [of B c] map_add_def simp del: view_sto.simps split: option.split)
    qed
  qed
qed

lemma coh_NewCache: "coh B ch \<Longrightarrow> coh B (Layer (NewCache opts) ch)"
proof -
  have "c_accounts (fold apply_option opts c) = c_accounts c" for c
  proof (induction opts arbitrary: c)
    case (Cons x xs)
    then show ?case by (cases x) simp_all
  qed simp
  then show "coh B ch \<Longrightarrow> coh B (Layer (NewCache opts) ch)"
    by (simp add: NewCache_def coherent_def keyed_def)
qed

end
