(* ===== verification/Acm_Props.thy ===== *)
theory Acm_Props
  imports Acm_Cache
begin

text \<open>
  The properties of the layered account state: reading, writing, \<open>Sync\<close> to a cache and to the
  in-memory state, and the words and errors below it.
\<close>

section \<open>A cache over the in-memory state\<close>

definition sample_account :: "word160 \<Rightarrow> int \<Rightarrow> Account" where
  "sample_account a b = \<lparr>Address = a, PubKey = [], Balance = b, BVMToken = '''', BVMCode = None, WASMCode = None\<rparr>"

definition sample_ms :: MemoryState where
  "sample_ms = \<lparr>ms_tokenAddr = '''', ms_Accounts = [(1, sample_account 1 100)], ms_Storage = [(1, [(7, [9])])]\<rparr>"

lemmas sample_defs = sample_account_def sample_ms_def memory_rw_def NewCache_def ms_GetAccount_def ms_GetStorage_def

text \<open>Reading an account or a storage slot through any number of caches gives what the topmost
  cache that knows it holds, and else what the backend holds; it fills the caches on the way and
  changes nothing anyone sees, nor does it spoil the agreement of the caches.\<close>
theorem cache_read:
  "fst (Cache_GetAccount B a ch) = view_acc B ch a
   \<and> sum_opt (fst (Cache_GetStorage B a k ch)) = view_sto B ch a k
   \<and> same_view B ch (snd (Cache_GetAccount B a ch)) \<and> same_view B ch (snd (Cache_GetStorage B a k ch))
   \<and> coh B ch \<le> coh B (snd (Cache_GetAccount B a ch)) \<and> coh B ch \<le> coh B (snd (Cache_GetStorage B a k ch))"
  using GetAccount_spec [of B a ch] GetStorage_spec [of B a k ch] coh_GetAccount [of B ch a] coh_GetStorage [of B ch a k]
  by simp

text \<open>\<open>UpdateAccount\<close> on a cache changes the view of that account only, and nothing when it fails;
  on a read-only cache it fails.\<close>
theorem cache_update:
  "case Cache_UpdateAccount B acc (Layer c rest) of
     (None, ch') \<Rightarrow> \<not> c_readonly c \<and> view_acc B ch' = (view_acc B (Layer c rest))(Address acc := Inr (Some acc))
       \<and> view_sto B ch' = view_sto B (Layer c rest)
   | (Some err, ch') \<Rightarrow> same_view B (Layer c rest) ch'"
proof (cases "Cache_UpdateAccount B acc (Layer c rest)")
  case (Pair e ch')
  show ?thesis
  proof (cases e)
    case None
    then have u: "Cache_UpdateAccount B acc (Layer c rest) = (None, ch')" using Pair by simp
    show ?thesis using UpdateAccount_ok [OF u] unfolding u by (simp del: view_acc.simps view_sto.simps)
  next
    case (Some err)
    then show ?thesis using Pair write_failed(1) by (simp del: Cache_UpdateAccount.simps)
  qed
qed

text \<open>\<open>SetStorage\<close> on a cache changes one slot of the view, and nothing when it fails.\<close>
theorem cache_store:
  "case Cache_SetStorage B a k v (Layer c rest) of
     (None, ch') \<Rightarrow> \<not> c_readonly c \<and> view_acc B ch' = view_acc B (Layer c rest)
       \<and> view_sto B ch' = (view_sto B (Layer c rest))(a := (view_sto B (Layer c rest) a)(k \<mapsto> v))
   | (Some err, ch') \<Rightarrow> same_view B (Layer c rest) ch'"
proof (cases "Cache_SetStorage B a k v (Layer c rest)")
  case (Pair e ch')
  show ?thesis
  proof (cases e)
    case None
    then have u: "Cache_SetStorage B a k v (Layer c rest) = (None, ch')" using Pair by simp
    show ?thesis using SetStorage_ok [OF u] unfolding u by (simp del: view_acc.simps view_sto.simps)
  next
    case (Some err)
    then show ?thesis using Pair write_failed(3) by (simp del: Cache_SetStorage.simps)
  qed
qed

text \<open>C21. \<open>Sync\<close> to the cache of the caller: if it reports no error, the caller then sees the accounts
  of the synced cache, and the storage of every account the cache has not removed.\<close>
theorem Sync_to_cache:
  assumes "coh B (Layer c (Layer p rest))" "\<not> c_readonly c"
    and "Cache_Sync (chain_writer B) c (Layer p rest) = (None, ch')"
  shows "view_acc B ch' = view_acc B (Layer c (Layer p rest))
    \<and> (\<forall>a. (case map_of (c_accounts c) a of None \<Rightarrow> True | Some i \<Rightarrow> \<not> ai_removed i) \<longrightarrow>
        view_sto B ch' a = view_sto B (Layer c (Layer p rest)) a)"
proof (intro conjI allI impI)
  have c: "coherent B c (Layer p rest)" using assms(1) by simp
  show "view_acc B ch' = view_acc B (Layer c (Layer p rest))" by (rule Sync_view(1) [OF c assms(2,3)])
  fix a
  assume "case map_of (c_accounts c) a of None \<Rightarrow> True | Some i \<Rightarrow> \<not> ai_removed i"
  then show "view_sto B ch' a = view_sto B (Layer c (Layer p rest)) a"
    by (intro Sync_view(2) [OF c assms(2,3)]) simp
qed

definition sample_child :: Cache where
  "sample_child = (NewCache [])\<lparr>c_accounts := [(1, \<lparr>ai_account = Some (sample_account 1 60), ai_storage = [(8, [3])],
     ai_removed = False, ai_updated = True\<rparr>)]\<rparr>"

theorem Sync_to_cache_witness:
  "\<exists>ch'. Cache_Sync (chain_writer memory_rw) sample_child (Layer (NewCache []) (Base sample_ms)) = (None, ch')
    \<and> view_acc memory_rw ch' 1 = Inr (Some (sample_account 1 60))"
proof -
  have coh: "coh memory_rw (Layer sample_child (Layer (NewCache []) (Base sample_ms)))"
    by (auto simp: coherent_def keyed_def sample_child_def sample_defs split: if_splits)
  have ro: "\<not> c_readonly sample_child" by (simp add: sample_child_def NewCache_def)
  obtain ch' where s: "Cache_Sync (chain_writer memory_rw) sample_child (Layer (NewCache []) (Base sample_ms)) = (None, ch')"
    by (simp add: Cache_Sync_def sample_child_def NewCache_def sync_account_def chain_writer_def cache_get_def sample_ms_def
        memory_rw_def ms_GetAccount_def sample_account_def set_info_def Let_def)
  have "view_acc memory_rw ch' 1 = view_acc memory_rw (Layer sample_child (Layer (NewCache []) (Base sample_ms))) 1"
    using Sync_to_cache [OF coh ro s] by simp
  then show ?thesis using s by (simp add: sample_child_def)
qed

text \<open>\<open>Sync\<close> to the in-memory state, when it reports no error, has written exactly the removed and
  the updated entries, and left the other accounts alone.\<close>
theorem Sync_to_memory:
  assumes "keyed c" "\<not> c_readonly c" "Cache_Sync memory_writer c ms = (None, ms')"
  shows "ms_GetAccount ms' a = (case map_of (c_accounts c) a of
      Some i \<Rightarrow> if ai_removed i then Inr None else if ai_updated i then Inr (ai_account i) else ms_GetAccount ms a
    | None \<Rightarrow> ms_GetAccount ms a)"
  using memory.Sync_ok [OF assms(1,2) TrueI assms(3)] by (simp add: entry_acc_def split: option.split)

theorem Sync_to_memory_witness:
  "\<exists>ms'. Cache_Sync memory_writer sample_child sample_ms = (None, ms')
    \<and> ms_GetAccount ms' 1 = Inr (Some (sample_account 1 60))"
proof -
  have k: "keyed sample_child" "\<not> c_readonly sample_child"
    by (auto simp: keyed_def sample_child_def NewCache_def sample_account_def split: if_splits)
  obtain ms' where s: "Cache_Sync memory_writer sample_child sample_ms = (None, ms')"
    by (simp add: Cache_Sync_def sample_child_def NewCache_def sync_account_def memory_writer_def ms_UpdateAccount_def
        ms_SetStorage_def Let_def)
  show ?thesis using Sync_to_memory [OF k s, of 1] s by (simp add: sample_child_def)
qed

section \<open>Words and errors\<close>

text \<open>Words and integers: a 64-bit number written as a word is read back, the signed one too, and
  a word survives its bytes and its encoding; comparing words as byte arrays is comparing numbers.\<close>
theorem word_roundtrips:
  "Uint64FromWord256 (Uint64ToWord256 u) = u
   \<and> Int64FromWord256 (Int64ToWord256 (sint u)) = sint u
   \<and> be_word (Word256_Bytes w) = w
   \<and> Word256_Unmarshal v (Word256_Bytes w) = Inr w
   \<and> Word256_Compare v w = (if v < w then - 1 else if w < v then 1 else 0)"
proof -
  have "- (2 ^ 63) \<le> sint u" "sint u < 2 ^ 63" for u :: uint64
    using sint_ge [of u] sint_lt [of u] by simp_all
  then show ?thesis
    by (simp add: Int64_word_roundtrip Unmarshal_Bytes [unfolded Word256_Bytes_def] Word256_Compare_iff Word256_Bytes_def)
qed

text \<open>The error sink keeps the first error: pushing a list of errors leaves the first one that is
  an error at all.\<close>
theorem first_error_kept:
  "fold PushError errs FirstOnly = (case filter (\<lambda>e. AsException e \<noteq> None) errs of
     [] \<Rightarrow> None | e # _ \<Rightarrow> AsException e)"
proof -
  have some: "fold PushError errs (Some e) = Some e" for e errs by (induction errs) simp_all
  have none: "PushError e None = AsException e" for e by (simp add: PushError_def)
  show ?thesis unfolding FirstOnly_def
  proof (induction errs)
    case (Cons e errs)
    then show ?case by (cases "AsException e") (simp_all add: none some)
  qed simp
qed

end
