(* ===== verification/Bvm_State.thy ===== *)
theory Bvm_State
  imports Acm_State "HOL-Library.State_Monad"
begin

text \<open>
  The account state one call frame of the virtual machine works on, \<open>bvm/state.go\<close>: a cache over
  the caller's cache, with the first error that occurred. Its operations are computations in the
  state monad; an operation that fails pushes an error and returns Go's zero value.
\<close>

section \<open>Data\<close>

text \<open>
  \<open>chain\<close> has the frame's own cache on top; what is below is its \<open>backend\<close>, the cache of the
  calling frame.
\<close>

record 'b State =
  chain :: "'b chain"
  st_error :: "Exception option"
  cacheOptions :: "CacheOption list"

text \<open>The reader-writer at the bottom, and the block hashes, given from outside.\<close>

record 'b World =
  rw :: "'b ReaderWriter"
  blockHashGetter :: "uint64 \<Rightarrow> bytes"

definition NewState :: "'b chain \<Rightarrow> CacheOption list \<Rightarrow> 'b State" where
  "NewState backend options =
     \<lparr>chain = Layer (NewCache options) backend, st_error = None, cacheOptions = options\<rparr>"

definition State_NewCache :: "'b State \<Rightarrow> CacheOption list \<Rightarrow> 'b State" where
  "State_NewCache st options = NewState (chain st) (cacheOptions st @ options)"

text \<open>The backend of a state, seen when its frame ends.\<close>

fun below :: "'b chain \<Rightarrow> 'b chain" where
  "below (Layer c rest) = rest"
| "below (Base b) = Base b"

type_synonym ('b, 'a) stm = "('b State, 'a) state"

definition on_chain :: "('b chain \<Rightarrow> 'r \<times> 'b chain) \<Rightarrow> ('b, 'r) stm" where
  "on_chain f = State (\<lambda>st. let (r, ch) = f (chain st) in (r, st\<lparr>chain := ch\<rparr>))"

definition State_PushError :: "goerr option \<Rightarrow> ('b, unit) stm" where
  "State_PushError err = State (\<lambda>st. ((), st\<lparr>st_error := PushError err (st_error st)\<rparr>))"

definition State_Error :: "('b, Exception option) stm" where
  "State_Error = State (\<lambda>st. (st_error st, st))"

text \<open>\<open>Sync\<close>: the error to return. A recorded error prevents it.\<close>

fun sync_top :: "'b World \<Rightarrow> 'b chain \<Rightarrow> goerr option \<times> 'b chain" where
  "sync_top W (Layer c rest) =
    (let (err, rest') = Cache_Sync (chain_writer (rw W)) c rest in (err, Layer c rest'))"
| "sync_top W (Base b) = (None, Base b)"

definition State_Sync :: "'b World \<Rightarrow> ('b, goerr option) stm" where
  "State_Sync W = do {
     e \<leftarrow> State_Error;
     case e of
       Some ex \<Rightarrow> State_Monad.return (Some (ErrExn ex))
     | None \<Rightarrow> do {
         err \<leftarrow> on_chain (sync_top W);
         State_Monad.return (map_option ErrExn (AsException err))
       }
   }"

section \<open>Helpers\<close>

definition State_account :: "'b World \<Rightarrow> word160 \<Rightarrow> ('b, Account option) stm" where
  "State_account W address = do {
     r \<leftarrow> on_chain (Cache_GetAccount (rw W) address);
     case r of
       Inl err \<Rightarrow> do { State_PushError (Some err); State_Monad.return None }
     | Inr acc \<Rightarrow> State_Monad.return acc
   }"

definition State_mustAccount :: "'b World \<Rightarrow> word160 \<Rightarrow> ('b, Account option) stm" where
  "State_mustAccount W address = do {
     acc \<leftarrow> State_account W address;
     (if acc = None
      then State_PushError (IllegalWrite (''attempted to modify non-existent account: '' @ address_string address))
      else State_Monad.return ());
     State_Monad.return acc
   }"

definition State_updateAccount :: "'b World \<Rightarrow> Account \<Rightarrow> ('b, unit) stm" where
  "State_updateAccount W account = do {
     err \<leftarrow> on_chain (Cache_UpdateAccount (rw W) account);
     State_PushError err
   }"

definition State_removeAccount :: "'b World \<Rightarrow> word160 \<Rightarrow> ('b, unit) stm" where
  "State_removeAccount W address = do {
     err \<leftarrow> on_chain (Cache_RemoveAccount (rw W) address);
     State_PushError err
   }"

section \<open>\<open>Reader\<close>\<close>

definition State_GetStorage :: "'b World \<Rightarrow> word160 \<Rightarrow> word256 \<Rightarrow> ('b, bytes) stm" where
  "State_GetStorage W address key = do {
     r \<leftarrow> on_chain (Cache_GetStorage (rw W) address key);
     case r of
       Inl err \<Rightarrow> do { State_PushError (Some err); State_Monad.return [] }
     | Inr value \<Rightarrow> State_Monad.return value
   }"

definition State_GetBalance :: "'b World \<Rightarrow> word160 \<Rightarrow> ('b, int) stm" where
  "State_GetBalance W address = do {
     acc \<leftarrow> State_account W address;
     State_Monad.return (case acc of None \<Rightarrow> 0 | Some a \<Rightarrow> Balance a)
   }"

definition State_GetBVMCode :: "'b World \<Rightarrow> word160 \<Rightarrow> ('b, bytes option) stm" where
  "State_GetBVMCode W address = do {
     acc \<leftarrow> State_account W address;
     State_Monad.return (case acc of None \<Rightarrow> None | Some a \<Rightarrow> BVMCode a)
   }"

definition State_GetWASMCode :: "'b World \<Rightarrow> word160 \<Rightarrow> ('b, bytes option) stm" where
  "State_GetWASMCode W address = do {
     acc \<leftarrow> State_account W address;
     State_Monad.return (case acc of None \<Rightarrow> None | Some a \<Rightarrow> WASMCode a)
   }"

text \<open>\<open>GetToken\<close> asks the backend; \<open>cache_GetToken\<close> is \<open>st.cache.GetToken()\<close>.\<close>

fun token_below :: "'b World \<Rightarrow> 'b chain \<Rightarrow> string \<times> 'b chain" where
  "token_below W (Layer c rest) = (let (t, rest') = Cache_GetToken (rw W) rest in (t, Layer c rest'))"
| "token_below W (Base b) = Cache_GetToken (rw W) (Base b)"

definition State_GetToken :: "'b World \<Rightarrow> ('b, string) stm" where
  "State_GetToken W = on_chain (token_below W)"

definition cache_GetToken :: "'b World \<Rightarrow> ('b, string) stm" where
  "cache_GetToken W = on_chain (Cache_GetToken (rw W))"

definition State_Exists :: "'b World \<Rightarrow> word160 \<Rightarrow> ('b, bool) stm" where
  "State_Exists W address = do {
     r \<leftarrow> on_chain (Cache_GetAccount (rw W) address);
     case r of
       Inl err \<Rightarrow> do { State_PushError (Some err); State_Monad.return False }
     | Inr acc \<Rightarrow> State_Monad.return (acc \<noteq> None)
   }"

text \<open>
  \<open>GetBlockHash\<close> returns no error of its own. The result is \<open>None\<close> when \<open>LeftPadWord256\<close> panics.
\<close>

definition State_GetBlockHash :: "'b World \<Rightarrow> uint64 \<Rightarrow> ('b, word256 option) stm" where
  "State_GetBlockHash W height = do {
     let hash = blockHashGetter W height;
     (if length hash = 0
      then State_PushError (Some (ErrOther ''got empty BlockHash from blockHashGetter''))
      else State_Monad.return ());
     State_Monad.return (LeftPadWord256 hash)
   }"

section \<open>\<open>Writer\<close>\<close>

definition State_CreateAccount :: "'b World \<Rightarrow> word160 \<Rightarrow> ('b, unit) stm" where
  "State_CreateAccount W address = do {
     ex \<leftarrow> State_Exists W address;
     if ex then State_PushError (ErrorCodef ErrorCodeDuplicateAddress
       (''tried to create an account at an address that already exists: '' @ address_string address))
     else State_updateAccount W \<lparr>Address = address, PubKey = [], Balance = 0, BVMToken = '''',
       BVMCode = None, WASMCode = None\<rparr>
   }"

text \<open>The common shape of \<open>InitCode\<close> and \<open>InitWASMCode\<close>; \<open>upd\<close> stores the code.\<close>

definition init_code :: "'b World \<Rightarrow> (Account \<Rightarrow> Account) \<Rightarrow> word160 \<Rightarrow> ('b, unit) stm" where
  "init_code W upd address = do {
     acc \<leftarrow> State_mustAccount W address;
     case acc of
       None \<Rightarrow> State_PushError (ErrorCodef ErrorCodeInvalidAddress
         (''tried to initialise code for an account that does not exist: '' @ address_string address))
     | Some a \<Rightarrow>
        if BVMCode a \<noteq> None \<or> WASMCode a \<noteq> None
        then State_PushError (IllegalWrite
          (''tried to initialise code for a contract that already exists: '' @ address_string address))
        else do {
          token \<leftarrow> cache_GetToken W;
          State_updateAccount W ((upd a)\<lparr>BVMToken := token\<rparr>)
        }
   }"

definition State_InitCode :: "'b World \<Rightarrow> word160 \<Rightarrow> bytes option \<Rightarrow> ('b, unit) stm" where
  "State_InitCode W address code = init_code W (\<lambda>a. a\<lparr>BVMCode := code\<rparr>) address"

definition State_InitWASMCode :: "'b World \<Rightarrow> word160 \<Rightarrow> bytes option \<Rightarrow> ('b, unit) stm" where
  "State_InitWASMCode W address code = init_code W (\<lambda>a. a\<lparr>WASMCode := code\<rparr>) address"

definition State_RemoveAccount :: "'b World \<Rightarrow> word160 \<Rightarrow> ('b, unit) stm" where
  "State_RemoveAccount W address = do {
     ex \<leftarrow> State_Exists W address;
     if \<not> ex then State_PushError (ErrorCodef ErrorCodeDuplicateAddress
       (''tried to remove an account at an address that does not exist: '' @ address_string address))
     else State_removeAccount W address
   }"

definition State_SetStorage :: "'b World \<Rightarrow> word160 \<Rightarrow> word256 \<Rightarrow> bytes \<Rightarrow> ('b, unit) stm" where
  "State_SetStorage W address key value = do {
     err \<leftarrow> on_chain (Cache_SetStorage (rw W) address key value);
     State_PushError err
   }"

definition State_AddToBalance :: "'b World \<Rightarrow> word160 \<Rightarrow> int \<Rightarrow> ('b, unit) stm" where
  "State_AddToBalance W address amount = do {
     acc \<leftarrow> State_mustAccount W address;
     case acc of
       None \<Rightarrow> State_Monad.return ()
     | Some a \<Rightarrow> do {
         let (err, a') = AddToBalance a amount;
         State_PushError err;
         State_updateAccount W a'
       }
   }"

definition State_SubtractFromBalance :: "'b World \<Rightarrow> word160 \<Rightarrow> int \<Rightarrow> ('b, unit) stm" where
  "State_SubtractFromBalance W address amount = do {
     acc \<leftarrow> State_mustAccount W address;
     case acc of
       None \<Rightarrow> State_Monad.return ()
     | Some a \<Rightarrow> do {
         let (err, a') = SubtractFromBalance a amount;
         State_PushError err;
         State_updateAccount W a'
       }
   }"

end
