(* ===== verification/Keccak.thy ===== *)
theory Keccak
  imports Prelude
begin

unbundle bit_operations_syntax

text \<open>
  The hash function of \<open>crypto/sha3\<close>: the permutation (\<open>keccakf.go\<close>, unrolled as in the code) and the sponge around it
  (\<open>sha3.go\<close>). The arrays \<open>b\<close>, \<open>c\<close> and \<open>d\<close> of the struct are written before they are read in every round, so they
  are local here. A loop that makes no progress (a rate of zero) is the result \<open>None\<close>; the constructors give no such
  digest. The count of absorbed bytes is a \<open>nat\<close>: an \<open>int\<close> would wrap after \<open>2^63\<close> bytes. Only what \<open>squeeze\<close> returns is
  modelled, not what it leaves beyond the length of the caller's slice.
\<close>

section \<open>The permutation (\<open>keccakf.go\<close>)\<close>

definition round_constants :: "uint64 list" where
  "round_constants = [0x0000000000000001, 0x0000000000008082, 0x800000000000808A, 0x8000000080008000, 0x000000000000808B, 0x0000000080000001,
     0x8000000080008081, 0x8000000000008009, 0x000000000000008A, 0x0000000000000088, 0x0000000080008009, 0x000000008000000A,
     0x000000008000808B, 0x800000000000008B, 0x8000000000008089, 0x8000000000008003, 0x8000000000008002, 0x8000000000000080,
     0x000000000000800A, 0x800000008000000A, 0x8000000080008081, 0x8000000000008080, 0x0000000080000001, 0x8000000080008008]"

definition rho_offsets :: "nat list" where
  "rho_offsets = [0, 36, 3, 41, 18, 1, 44, 10, 45, 2, 62, 6, 43, 15, 61, 28, 55, 25, 21, 56, 27, 20, 39, 8, 14]"

text \<open>\<open>x << n ^ x >> (64 - n)\<close>.\<close>

definition rol :: "nat \<Rightarrow> uint64 \<Rightarrow> uint64" where
  "rol n x = push_bit n x XOR drop_bit (64 - n) x"

definition theta :: "uint64 list \<Rightarrow> uint64 list" where
  "theta a =
    (let c = [a ! 0 XOR a ! 5 XOR a ! 10 XOR a ! 15 XOR a ! 20,
          a ! 1 XOR a ! 6 XOR a ! 11 XOR a ! 16 XOR a ! 21,
          a ! 2 XOR a ! 7 XOR a ! 12 XOR a ! 17 XOR a ! 22,
          a ! 3 XOR a ! 8 XOR a ! 13 XOR a ! 18 XOR a ! 23,
          a ! 4 XOR a ! 9 XOR a ! 14 XOR a ! 19 XOR a ! 24];
         d = [c ! 4 XOR rol 1 (c ! 1),
          c ! 0 XOR rol 1 (c ! 2),
          c ! 1 XOR rol 1 (c ! 3),
          c ! 2 XOR rol 1 (c ! 4),
          c ! 3 XOR rol 1 (c ! 0)]
     in [a ! 0 XOR d ! 0, a ! 1 XOR d ! 1, a ! 2 XOR d ! 2, a ! 3 XOR d ! 3, a ! 4 XOR d ! 4,
         a ! 5 XOR d ! 0, a ! 6 XOR d ! 1, a ! 7 XOR d ! 2, a ! 8 XOR d ! 3, a ! 9 XOR d ! 4,
         a ! 10 XOR d ! 0, a ! 11 XOR d ! 1, a ! 12 XOR d ! 2, a ! 13 XOR d ! 3, a ! 14 XOR d ! 4,
         a ! 15 XOR d ! 0, a ! 16 XOR d ! 1, a ! 17 XOR d ! 2, a ! 18 XOR d ! 3, a ! 19 XOR d ! 4,
         a ! 20 XOR d ! 0, a ! 21 XOR d ! 1, a ! 22 XOR d ! 2, a ! 23 XOR d ! 3, a ! 24 XOR d ! 4])"

definition rho_pi :: "uint64 list \<Rightarrow> uint64 list" where
  "rho_pi a =
    [a ! 0, rol (rho_offsets ! 6) (a ! 6), rol (rho_offsets ! 12) (a ! 12), rol (rho_offsets ! 18) (a ! 18), rol (rho_offsets ! 24) (a ! 24),
     rol (rho_offsets ! 15) (a ! 3), rol (rho_offsets ! 21) (a ! 9), rol (rho_offsets ! 2) (a ! 10), rol (rho_offsets ! 8) (a ! 16), rol (rho_offsets ! 14) (a ! 22),
     rol (rho_offsets ! 5) (a ! 1), rol (rho_offsets ! 11) (a ! 7), rol (rho_offsets ! 17) (a ! 13), rol (rho_offsets ! 23) (a ! 19), rol (rho_offsets ! 4) (a ! 20),
     rol (rho_offsets ! 20) (a ! 4), rol (rho_offsets ! 1) (a ! 5), rol (rho_offsets ! 7) (a ! 11), rol (rho_offsets ! 13) (a ! 17), rol (rho_offsets ! 19) (a ! 23),
     rol (rho_offsets ! 10) (a ! 2), rol (rho_offsets ! 16) (a ! 8), rol (rho_offsets ! 22) (a ! 14), rol (rho_offsets ! 3) (a ! 15), rol (rho_offsets ! 9) (a ! 21)]"

definition chi :: "uint64 list \<Rightarrow> uint64 list" where
  "chi b =
    [b ! 0 XOR (NOT (b ! 1) AND b ! 2), b ! 1 XOR (NOT (b ! 2) AND b ! 3), b ! 2 XOR (NOT (b ! 3) AND b ! 4),
     b ! 3 XOR (NOT (b ! 4) AND b ! 0), b ! 4 XOR (NOT (b ! 0) AND b ! 1), b ! 5 XOR (NOT (b ! 6) AND b ! 7),
     b ! 6 XOR (NOT (b ! 7) AND b ! 8), b ! 7 XOR (NOT (b ! 8) AND b ! 9), b ! 8 XOR (NOT (b ! 9) AND b ! 5),
     b ! 9 XOR (NOT (b ! 5) AND b ! 6), b ! 10 XOR (NOT (b ! 11) AND b ! 12), b ! 11 XOR (NOT (b ! 12) AND b ! 13),
     b ! 12 XOR (NOT (b ! 13) AND b ! 14), b ! 13 XOR (NOT (b ! 14) AND b ! 10), b ! 14 XOR (NOT (b ! 10) AND b ! 11),
     b ! 15 XOR (NOT (b ! 16) AND b ! 17), b ! 16 XOR (NOT (b ! 17) AND b ! 18), b ! 17 XOR (NOT (b ! 18) AND b ! 19),
     b ! 18 XOR (NOT (b ! 19) AND b ! 15), b ! 19 XOR (NOT (b ! 15) AND b ! 16), b ! 20 XOR (NOT (b ! 21) AND b ! 22),
     b ! 21 XOR (NOT (b ! 22) AND b ! 23), b ! 22 XOR (NOT (b ! 23) AND b ! 24), b ! 23 XOR (NOT (b ! 24) AND b ! 20),
     b ! 24 XOR (NOT (b ! 20) AND b ! 21)]"

definition iota :: "uint64 \<Rightarrow> uint64 list \<Rightarrow> uint64 list" where
  "iota roundConstant a = a[0 := a ! 0 XOR roundConstant]"

definition keccak_round :: "uint64 \<Rightarrow> uint64 list \<Rightarrow> uint64 list" where
  "keccak_round roundConstant a = iota roundConstant (chi (rho_pi (theta a)))"

definition keccak_f :: "uint64 list \<Rightarrow> uint64 list" where
  "keccak_f a = fold keccak_round round_constants a"

section \<open>The sponge (\<open>sha3.go\<close>)\<close>

definition laneSize :: nat where "laneSize = 8"
definition sliceSize :: nat where "sliceSize = 5"
definition numLanes :: nat where "numLanes = sliceSize * sliceSize"
definition stateSize :: nat where "stateSize = laneSize * numLanes"

record digest =
  dg_a :: "uint64 list"
  outputSize :: nat
  dg_capacity :: nat
  absorbed :: nat

definition rate :: "digest \<Rightarrow> nat" where
  "rate d = stateSize - dg_capacity d"

definition digest_Reset :: "digest \<Rightarrow> digest" where
  "digest_Reset d = d\<lparr>absorbed := 0, dg_a := map (\<lambda>_. 0) (dg_a d)\<rparr>"

definition digest_BlockSize :: "digest \<Rightarrow> nat" where
  "digest_BlockSize d = rate d"

definition digest_Size :: "digest \<Rightarrow> nat" where
  "digest_Size d = outputSize d"

definition keccakF :: "digest \<Rightarrow> digest" where
  "keccakF d = d\<lparr>dg_a := keccak_f (dg_a d)\<rparr>"

text \<open>Bytes, the least significant first, as a word: the loop of \<open>unalignedAbsorb\<close>, and \<open>binary.LittleEndian\<close>.\<close>

definition le_word :: "bytes \<Rightarrow> uint64" where
  "le_word p = foldr (\<lambda>b t. push_bit 8 t OR ucast b) p 0"

definition le_bytes :: "uint64 \<Rightarrow> bytes" where
  "le_bytes w = map (\<lambda>i. ucast (drop_bit (8 * i) w)) [0..<8]"

definition xor_lane :: "nat \<Rightarrow> uint64 \<Rightarrow> uint64 list \<Rightarrow> uint64 list" where
  "xor_lane i t a = a[i := a ! i XOR t]"

definition unalignedAbsorb :: "bytes \<Rightarrow> digest \<Rightarrow> digest" where
  "unalignedAbsorb p d =
    (let t = le_word p; offset = absorbed d mod rate d in
     d\<lparr>dg_a := xor_lane (offset div laneSize) (push_bit (8 * (offset mod laneSize)) t) (dg_a d), absorbed := absorbed d + length p\<rparr>)"

text \<open>The inner loop of \<open>Write\<close>, over a number of lanes.\<close>

fun absorb_lanes :: "nat \<Rightarrow> nat \<Rightarrow> bytes \<Rightarrow> uint64 list \<Rightarrow> bytes \<times> uint64 list" where
  "absorb_lanes 0 lane p a = (p, a)"
| "absorb_lanes (Suc n) lane p a = absorb_lanes n (lane + 1) (drop laneSize p) (xor_lane lane (le_word (take laneSize p)) a)"

lemma absorb_lanes_rest: "fst (absorb_lanes n lane p a) = drop (n * laneSize) p"
  by (induction n lane p a rule: absorb_lanes.induct) (simp_all add: laneSize_def add.commute)

function absorb_loop :: "bytes \<Rightarrow> nat \<Rightarrow> digest \<Rightarrow> (bytes \<times> digest) option" where
  "absorb_loop p offset d =
    (if length p \<le> 7 then Some (p, d)
     else let firstLane = offset div laneSize;
              lastLane = min (rate d div laneSize) (firstLane + length p div laneSize) in
       if lastLane \<le> firstLane \<and> offset = 0 then None
       else case absorb_lanes (lastLane - firstLane) firstLane p (dg_a d) of (p', a) \<Rightarrow>
         let d1 = d\<lparr>dg_a := a, absorbed := absorbed d + (lastLane - firstLane) * laneSize\<rparr> in
         absorb_loop p' 0 (if absorbed d1 mod rate d1 = 0 then keccakF d1 else d1))"
  by pat_completeness auto
termination
proof (relation "measures [\<lambda>(p, _). length p, \<lambda>(_, offset, _). offset]")
  fix p offset d x xa xb y xc
  assume *: "\<not> length (p :: bytes) \<le> 7" "x = offset div laneSize" "xa = min (rate d div laneSize) (x + length p div laneSize)"
    "\<not> (xa \<le> x \<and> offset = 0)" "(xb, y) = absorb_lanes (xa - x) x p (dg_a d)"
  have "xb = drop ((xa - x) * laneSize) p" using absorb_lanes_rest [of "xa - x" x p "dg_a d"] by (simp flip: *(5))
  then show "((xb, 0, if absorbed xc mod rate xc = 0 then keccakF xc else xc), p, offset, d)
      \<in> measures [\<lambda>(p, _). length p, \<lambda>(_, offset, _). offset]"
    using *(1,4) by (cases "xa \<le> x") (auto simp: laneSize_def)
qed simp

declare absorb_loop.simps [simp del]

text \<open>\<open>Write\<close>: the number of bytes written and the new digest.\<close>

definition digest_Write :: "bytes \<Rightarrow> digest \<Rightarrow> (nat \<times> digest) option" where
  "digest_Write p d =
    (let offset = absorbed d mod rate d; toWrite = length p;
         (p1, offset1, d1) =
           (if (offset mod laneSize \<noteq> 0 \<or> length p < 8) \<and> 0 < length p
            then let toAbsorb = min (laneSize - offset mod laneSize) (length p);
                     d1 = unalignedAbsorb (take toAbsorb p) d
                 in (drop toAbsorb p, absorbed d1 mod rate d1, if absorbed d1 mod rate d1 = 0 then keccakF d1 else d1)
            else (p, offset, d))
     in case absorb_loop p1 offset1 d1 of
       None \<Rightarrow> None
     | Some (p2, d2) \<Rightarrow> Some (toWrite, if 0 < length p2 then unalignedAbsorb p2 d2 else d2))"

definition pad :: "digest \<Rightarrow> digest" where
  "pad d =
    (let offset = absorbed d mod rate d;
         a = xor_lane (offset div laneSize) (push_bit (8 * (offset mod laneSize)) 0x0000000000000001) (dg_a d)
     in d\<lparr>dg_a := xor_lane (rate d div laneSize - 1) 0x8000000000000000 a\<rparr>)"

definition finalize :: "digest \<Rightarrow> digest" where
  "finalize d = keccakF (pad d)"

text \<open>The loops of \<open>squeeze\<close>, over the number of lanes still to be written.\<close>

function squeeze_lanes :: "nat \<Rightarrow> digest \<Rightarrow> bytes option" where
  "squeeze_lanes n d =
    (if n = 0 then Some []
     else let k = min n ((rate d + laneSize - 1) div laneSize) in
       if k = 0 then None
       else let out = concat (map le_bytes (take k (dg_a d))) in
         if n = k then Some out else map_option (\<lambda>r. out @ r) (squeeze_lanes (n - k) (keccakF d)))"
  by pat_completeness auto
termination by (relation "measure fst") auto

declare squeeze_lanes.simps [simp del]

definition squeeze :: "bytes \<Rightarrow> nat \<Rightarrow> digest \<Rightarrow> bytes option" where
  "squeeze inp toSqueeze d =
    (let needed = toSqueeze + (laneSize - toSqueeze mod laneSize) mod laneSize in
     map_option (\<lambda>out. inp @ take toSqueeze out) (squeeze_lanes (needed div laneSize) d))"

text \<open>\<open>Sum\<close> works on a copy: the digest stays as it is.\<close>

definition digest_Sum :: "bytes \<Rightarrow> digest \<Rightarrow> bytes option" where
  "digest_Sum inp d = (let dup = finalize d in squeeze inp (outputSize dup) dup)"

definition new_digest :: "nat \<Rightarrow> digest" where
  "new_digest bits = \<lparr>dg_a = replicate numLanes 0, outputSize = bits div 8, dg_capacity = 2 * bits div 8, absorbed = 0\<rparr>"

definition NewKeccak224 :: digest where "NewKeccak224 = new_digest 224"
definition NewKeccak256 :: digest where "NewKeccak256 = new_digest 256"
definition NewKeccak384 :: digest where "NewKeccak384 = new_digest 384"
definition NewKeccak512 :: digest where "NewKeccak512 = new_digest 512"

fun write_all :: "bytes list \<Rightarrow> digest \<Rightarrow> digest option" where
  "write_all [] d = Some d"
| "write_all (b # bs) d = (case digest_Write b d of None \<Rightarrow> None | Some (_, d) \<Rightarrow> write_all bs d)"

definition Sha3 :: "bytes list \<Rightarrow> bytes option" where
  "Sha3 data = (case write_all data NewKeccak256 of None \<Rightarrow> None | Some d \<Rightarrow> digest_Sum [] d)"

text \<open>The result of \<open>Sha3\<close> for the code that calls it. \<open>Sha3\<close> always returns (\<open>Keccak_Props\<close>); the empty list stands for
  a loop without end.\<close>

definition sha3_bytes :: "bytes \<Rightarrow> bytes" where
  "sha3_bytes data = (case Sha3 [data] of None \<Rightarrow> [] | Some h \<Rightarrow> h)"

end
