(* ===== verification/Bvm_Crypto.thy ===== *)
theory Bvm_Crypto
  imports Binary Errors Keccak
begin

text \<open>
  Addresses (\<open>crypto/address.go\<close>, \<open>CalcContractAddr\<close> of \<open>bvm/vm.go\<close>) and the native contracts
  (\<open>bvm/native.go\<close>, \<open>ValidateSignatureValues\<close> of \<open>ecrypto/crypt.go\<close>). Hash functions (but for
  \<open>crypto/sha3\<close>, the theory \<open>Keccak\<close>), encodings, key recovery and the process-wide chain name come from other modules: they
  are the fields of the record \<open>Crypto\<close>. A run-time panic of Go (an index out of range) is the result \<open>None\<close>.
\<close>

section \<open>External functions\<close>

record Crypto =
  cr_chainID :: string
  cr_ripemd160 :: "bytes \<Rightarrow> bytes"
  cr_sha256 :: "bytes \<Rightarrow> bytes"
  cr_sha3_256 :: "bytes \<Rightarrow> bytes"
  cr_keccak256 :: "bytes \<Rightarrow> bytes"
  cr_base58_Encode :: "bytes \<Rightarrow> string"
  cr_base58_Decode :: "string \<Rightarrow> bytes"
  cr_btc_base58_Encode :: "bytes \<Rightarrow> string"
  cr_rlp_EncodeToBytes :: "bytes \<Rightarrow> bytes option"
  cr_secret_address :: "bytes \<Rightarrow> string \<Rightarrow> string"
  cr_EcRecover :: "bytes \<Rightarrow> bytes \<Rightarrow> bytes option"
  cr_common_RightPadBytes :: "bytes \<Rightarrow> int \<Rightarrow> bytes"
  cr_common_LeftPadBytes :: "bytes \<Rightarrow> int \<Rightarrow> bytes"
  cr_UnpackRevert :: "bytes \<Rightarrow> string option"

section \<open>Chain names\<close>

text \<open>\<open>strings.Index\<close> for a pattern of one character.\<close>

definition str_index :: "string \<Rightarrow> char \<Rightarrow> int" where
  "str_index s c = (if c \<in> set s then int (length (takeWhile (\<lambda>d. d \<noteq> c) s)) else - 1)"

text \<open>The bytes of a string.\<close>

definition bytes_of_chars :: "string \<Rightarrow> bytes" where
  "bytes_of_chars s = map of_char s"

text \<open>The slice expression \<open>s[i:j]\<close>.\<close>

definition str_slice :: "'a list \<Rightarrow> int \<Rightarrow> int \<Rightarrow> 'a list option" where
  "str_slice s i j = (if 0 \<le> i \<and> i \<le> j \<and> j \<le> int (length s)
     then Some (take (nat (j - i)) (drop (nat i) s)) else None)"

definition GetMainChainID :: "string \<Rightarrow> string" where
  "GetMainChainID chainID =
    (if CHR ''['' \<in> set chainID then take (nat (str_index chainID (CHR ''[''))) chainID else chainID)"

definition GetChainName :: "string \<Rightarrow> string option" where
  "GetChainName chainID =
    (if CHR ''['' \<in> set chainID
     then str_slice chainID (str_index chainID (CHR ''['') + 1) (str_index chainID (CHR '']''))
     else Some '''')"

section \<open>Addresses of the chain and of the virtual machine\<close>

definition ToAddr :: "Crypto \<Rightarrow> word160 \<Rightarrow> string option" where
  "ToAddr X address =
    (let chainID = cr_chainID X;
         mainChainID = GetMainChainID chainID;
         md = cr_ripemd160 X (be_bytes 20 address);
         addr = be_bytes 20 address @ take 4 md;
         goAddr = mainChainID @ cr_base58_Encode X addr
     in if length md < 4 then None
        else case GetChainName chainID of
          None \<Rightarrow> None
        | Some chainName \<Rightarrow>
           Some (if chainName \<noteq> '''' then goAddr @ ''0'' @ cr_base58_Encode X (bytes_of_chars chainName)
                 else goAddr))"

definition ToBVM :: "Crypto \<Rightarrow> string \<Rightarrow> word160 option" where
  "ToBVM X address =
    (let chainID = cr_chainID X; mainChainID = GetMainChainID chainID in
     case str_slice address (int (length mainChainID)) (int (length address)) of
       None \<Rightarrow> None
     | Some trimmed \<Rightarrow>
    (case GetChainName chainID of
       None \<Rightarrow> None
     | Some chainName \<Rightarrow>
    (case (if chainName \<noteq> '''' then str_slice address 0 (str_index trimmed (CHR ''0'')) else Some trimmed) of
       None \<Rightarrow> None
     | Some bareAddr \<Rightarrow>
        (let byt = cr_base58_Decode X bareAddr
         in if length byt < 20 then None else Some (be_word (take 20 byt))))))"

definition CalcContractAddr :: "Crypto \<Rightarrow> string \<Rightarrow> bytes \<Rightarrow> string \<Rightarrow> string option" where
  "CalcContractAddr X senderAddr nonce chainID =
    (case cr_rlp_EncodeToBytes X nonce of
       None \<Rightarrow> Some ''''
     | Some nonceBin \<Rightarrow>
        (let mainChainID = GetMainChainID chainID;
             sha = cr_sha3_256 X (bytes_of_chars senderAddr @ nonceBin);
             rpd = cr_ripemd160 X sha;
             md = cr_ripemd160 X rpd;
             addr = rpd @ take 4 md;
             address = mainChainID @ cr_btc_base58_Encode X addr
         in if length md < 4 then None
            else case GetChainName chainID of
              None \<Rightarrow> None
            | Some chainName \<Rightarrow>
               Some (if chainName \<noteq> '''' then address @ ''0'' @ cr_btc_base58_Encode X (bytes_of_chars chainName)
                     else address)))"

definition AddressFromWord256 :: "word256 \<Rightarrow> word160" where
  "AddressFromWord256 w = Word256_Word160 w"

definition Address_Word256 :: "word160 \<Rightarrow> word256" where
  "Address_Word256 a = Word160_Word256 a"

text \<open>\<open>AddressFromBytes\<close>: a best effort address and, for a slice of another length, an error.\<close>

definition AddressFromBytes :: "bytes \<Rightarrow> word160 \<times> goerr option" where
  "AddressFromBytes bs =
    (be_word (take 20 (bs @ replicate (20 - length bs) 0)),
     if length bs \<noteq> 20 then Some (ErrOther (''slice passed as address '' @ [CHR 0x27] @ hex_upper bs @
       [CHR 0x27] @ '' has '' @ dec_of_nat (length bs) @ '' bytes but should have '' @ dec_of_nat 20 @ '' bytes''))
     else None)"

definition Nonce :: "Crypto \<Rightarrow> word160 \<Rightarrow> bytes \<Rightarrow> bytes" where
  "Nonce X caller nonce = cr_sha256 X (be_bytes 20 caller @ nonce)"

definition SequenceNonce :: "Crypto \<Rightarrow> word160 \<Rightarrow> uint64 \<Rightarrow> bytes" where
  "SequenceNonce X address sequence = Nonce X address (be_bytes 8 sequence)"

definition NewContractAddress :: "Crypto \<Rightarrow> word160 \<Rightarrow> bytes \<Rightarrow> word160" where
  "NewContractAddress X caller nonce =
    (let n = Nonce X caller nonce in be_word (take 20 (n @ replicate (20 - length n) 0)))"

definition NewContractAddress2 :: "word160 \<Rightarrow> word256 \<Rightarrow> bytes \<Rightarrow> word160" where
  "NewContractAddress2 caller salt initcode =
    (let temp = [0xFF] @ be_bytes 20 caller @ be_bytes 32 salt @ sha3_bytes initcode in
     be_word (take 20 (drop 12 (sha3_bytes temp))))"

section \<open>Gas (\<open>gas.go\<close>)\<close>

definition GasSha3 :: uint64 where "GasSha3 = 10"
definition GasGetAccount :: uint64 where "GasGetAccount = 10"
definition GasStorageUpdate :: uint64 where "GasStorageUpdate = 10"
definition GasCreateAccount :: uint64 where "GasCreateAccount = 10"
definition GasBaseOp :: uint64 where "GasBaseOp = 1"
definition GasStackOp :: uint64 where "GasStackOp = 1"
definition GasEcRecover :: uint64 where "GasEcRecover = 10"
definition GasSha256Word :: uint64 where "GasSha256Word = 10"
definition GasSha256Base :: uint64 where "GasSha256Base = 10"
definition GasRipemd160Word :: uint64 where "GasRipemd160Word = 1"
definition GasRipemd160Base :: uint64 where "GasRipemd160Base = 1"
definition GasIdentityWord :: uint64 where "GasIdentityWord = 1"
definition GasIdentityBase :: uint64 where "GasIdentityBase = 1"
definition GasBlockHash :: uint64 where "GasBlockHash = 100"

lemmas gas_defs = GasSha3_def GasGetAccount_def GasStorageUpdate_def GasCreateAccount_def GasBaseOp_def
  GasStackOp_def GasEcRecover_def GasSha256Word_def GasSha256Base_def GasRipemd160Word_def
  GasRipemd160Base_def GasIdentityWord_def GasIdentityBase_def GasBlockHash_def

section \<open>Native contracts (\<open>native.go\<close>)\<close>

text \<open>A native contract: output, error and remaining gas.\<close>

type_synonym native_result = "(bytes option \<times> goerr option) \<times> uint64"

definition allZero :: "bytes \<Rightarrow> bool" where
  "allZero b = list_all (\<lambda>x. x = 0) b"

definition secp256k1N :: int where
  "secp256k1N = 0xfffffffffffffffffffffffffffffffebaaedce6af48a03bbfd25e8cd0364141"

definition ValidateSignatureValues :: "byte \<Rightarrow> int \<Rightarrow> int \<Rightarrow> bool \<Rightarrow> bool" where
  "ValidateSignatureValues v r s homestead =
    (if r < 1 \<or> s < 1 then False
     else if homestead \<and> secp256k1N div 2 < s then False
     else r < secp256k1N \<and> s < secp256k1N \<and> (v = 0 \<or> v = 1))"

definition words_of :: "bytes \<Rightarrow> uint64" where
  "words_of input = of_nat ((length input + 31) div 32)"

text \<open>Every native contract deducts its gas first, in the same way.\<close>

definition deduct_gas :: "uint64 \<Rightarrow> uint64 \<Rightarrow> (uint64 \<Rightarrow> native_result option) \<Rightarrow> native_result option" where
  "deduct_gas gas gasRequired k =
    (if gas < gasRequired then Some ((None, Some (ErrCode ErrorCodeInsufficientGas)), gas)
     else k (gas - gasRequired))"

definition ecRecoverFunc :: "Crypto \<Rightarrow> bytes \<Rightarrow> uint64 \<Rightarrow> native_result option" where
  "ecRecoverFunc X inp gas = deduct_gas gas GasEcRecover (\<lambda>gas'.
    let input = cr_common_RightPadBytes X inp 128 in
    if length input < 128 then None
    else let r = big_of_bytes (take 32 (drop 64 input));
             s = big_of_bytes (take 32 (drop 96 input));
             v = input ! 63 - 27
    in if \<not> allZero (take 31 (drop 32 input)) \<or> \<not> ValidateSignatureValues v r s False
       then Some ((None, None), gas')
       else let hash = take 32 input;
                sig = take 64 (drop 64 input) @ [v]
    in case cr_EcRecover X hash sig of
         None \<Rightarrow> Some ((None, None), gas')
       | Some pub \<Rightarrow> (let k = cr_keccak256 X (drop 1 pub) in
           if length pub < 1 \<or> length k < 12 then None
           else Some ((Some (cr_common_LeftPadBytes X (drop 12 k) 32), None), gas')))"

definition sha256Func :: "Crypto \<Rightarrow> bytes \<Rightarrow> uint64 \<Rightarrow> native_result option" where
  "sha256Func X input gas = deduct_gas gas (words_of input * GasSha256Word + GasSha256Base)
    (\<lambda>gas'. Some ((Some (cr_sha256 X input), None), gas'))"

definition ripemd160Func :: "Crypto \<Rightarrow> bytes \<Rightarrow> uint64 \<Rightarrow> native_result option" where
  "ripemd160Func X input gas = deduct_gas gas (words_of input * GasRipemd160Word + GasRipemd160Base)
    (\<lambda>gas'. Some ((Some (LeftPadBytes (cr_ripemd160 X input) 32), None), gas'))"

definition identityFunc :: "bytes \<Rightarrow> uint64 \<Rightarrow> native_result option" where
  "identityFunc input gas = deduct_gas gas (words_of input * GasIdentityWord + GasIdentityBase)
    (\<lambda>gas'. Some ((Some input, None), gas'))"

definition registeredNativeContracts :: "Crypto \<Rightarrow> word160 \<Rightarrow> (bytes \<Rightarrow> uint64 \<Rightarrow> native_result option) option" where
  "registeredNativeContracts X address = map_of [
     (Word256_Word160 (Int64ToWord256 1), ecRecoverFunc X),
     (Word256_Word160 (Int64ToWord256 2), sha256Func X),
     (Word256_Word160 (Int64ToWord256 3), ripemd160Func X),
     (Word256_Word160 (Int64ToWord256 4), identityFunc)] address"

definition IsRegisteredNativeContract :: "Crypto \<Rightarrow> word160 \<Rightarrow> bool" where
  "IsRegisteredNativeContract X address = (registeredNativeContracts X address \<noteq> None)"

text \<open>The text of an error, \<open>err.Error()\<close>.\<close>

fun goerr_Error :: "goerr \<Rightarrow> string" where
  "goerr_Error (ErrExn e) = Exception_Error e"
| "goerr_Error (ErrCode c) = Code_Error c"
| "goerr_Error (ErrOther msg) = msg"

definition ExecuteNativeContract :: "Crypto \<Rightarrow> word160 \<Rightarrow> bytes \<Rightarrow> uint64 \<Rightarrow> native_result option" where
  "ExecuteNativeContract X address input gas =
    (case registeredNativeContracts X address of
       None \<Rightarrow> Some ((None, ErrorCodef ErrorCodeNativeFunction
         (''no native contract registered at address: '' @ hex_upper (be_bytes 20 address))), gas)
     | Some contract \<Rightarrow>
    (case contract input gas of
       None \<Rightarrow> None
     | Some ((output, err), gas') \<Rightarrow>
        (case err of
           Some e \<Rightarrow> Some ((None, ErrorCodef ErrorCodeNativeFunction (goerr_Error e)), gas')
         | None \<Rightarrow> Some ((output, None), gas'))))"

section \<open>Lemmas\<close>

lemma native_address [simp]:
  "Word256_Word160 (Int64ToWord256 1) = 1" "Word256_Word160 (Int64ToWord256 2) = 2"
  "Word256_Word160 (Int64ToWord256 3) = 3" "Word256_Word160 (Int64ToWord256 4) = 4"
  by (simp_all add: Word256_Word160_ucast Int64ToWord256_def be_word_of_be_bytes)

lemma native_iff: "IsRegisteredNativeContract X a \<longleftrightarrow> a \<in> {1, 2, 3, 4}"
  by (simp add: IsRegisteredNativeContract_def registeredNativeContracts_def)

text \<open>A native contract never gives gas back.\<close>

lemma deduct_gas_le:
  assumes "deduct_gas gas req k = Some (r, g)" "\<And>g0 r g. k g0 = Some (r, g) \<Longrightarrow> g \<le> g0"
  shows "g \<le> gas"
proof (cases "gas < req")
  case False
  then have "g \<le> gas - req" using assms by (simp add: deduct_gas_def)
  moreover have "gas - req \<le> gas" using False by (intro word_sub_le) simp
  ultimately show ?thesis by (rule order.trans)
qed (use assms(1) in \<open>simp add: deduct_gas_def\<close>)

lemma native_gas_le:
  assumes "registeredNativeContracts X a = Some f" "f input gas = Some (r, g)"
  shows "g \<le> gas"
proof -
  consider "f = ecRecoverFunc X" | "f = sha256Func X" | "f = ripemd160Func X" | "f = identityFunc"
    using assms(1) by (auto simp: registeredNativeContracts_def split: if_splits)
  then show ?thesis
  proof cases
    case 1
    show ?thesis using assms(2) unfolding 1 ecRecoverFunc_def
      by (rule deduct_gas_le) (auto simp: Let_def split: if_splits option.splits)
  next
    case 2
    show ?thesis using assms(2) unfolding 2 sha256Func_def by (rule deduct_gas_le) simp
  next
    case 3
    show ?thesis using assms(2) unfolding 3 ripemd160Func_def by (rule deduct_gas_le) simp
  next
    case 4
    show ?thesis using assms(2) unfolding 4 identityFunc_def by (rule deduct_gas_le) simp
  qed
qed

lemma ExecuteNativeContract_gas: "ExecuteNativeContract X a input gas = Some (r, g) \<Longrightarrow> g \<le> gas"
  by (auto simp: ExecuteNativeContract_def split: option.splits prod.splits dest: native_gas_le)

end
