(* ===== verification/Bvm_Opcodes.thy ===== *)
theory Bvm_Opcodes
  imports Binary
begin

text \<open>
  The instruction set of the virtual machine, \<open>asm/opcodes.go\<close>. As in Go, an \<open>OpCode\<close> is a byte,
  and the codes are constants; of the families \<open>PUSH1\<close> to \<open>PUSH32\<close>, \<open>DUP1\<close> to \<open>DUP16\<close>, \<open>SWAP1\<close> to
  \<open>SWAP16\<close> and \<open>LOG0\<close> to \<open>LOG4\<close>, which are consecutive, only the ends are named. A name that is
  an operator of the logic gets the suffix \<open>_op\<close>.
\<close>

type_synonym OpCode = byte

definition STOP :: OpCode where "STOP = 0x0"
definition ADD :: OpCode where "ADD = 0x1"
definition MUL :: OpCode where "MUL = 0x2"
definition SUB :: OpCode where "SUB = 0x3"
definition DIV :: OpCode where "DIV = 0x4"
definition SDIV :: OpCode where "SDIV = 0x5"
definition MOD :: OpCode where "MOD = 0x6"
definition SMOD :: OpCode where "SMOD = 0x7"
definition ADDMOD :: OpCode where "ADDMOD = 0x8"
definition MULMOD :: OpCode where "MULMOD = 0x9"
definition EXP :: OpCode where "EXP = 0xa"
definition SIGNEXTEND :: OpCode where "SIGNEXTEND = 0xb"
definition LT :: OpCode where "LT = 0x10"
definition GT :: OpCode where "GT = 0x11"
definition SLT :: OpCode where "SLT = 0x12"
definition SGT :: OpCode where "SGT = 0x13"
definition EQ :: OpCode where "EQ = 0x14"
definition ISZERO :: OpCode where "ISZERO = 0x15"
definition AND_op :: OpCode where "AND_op = 0x16"
definition OR_op :: OpCode where "OR_op = 0x17"
definition XOR_op :: OpCode where "XOR_op = 0x18"
definition NOT_op :: OpCode where "NOT_op = 0x19"
definition BYTE :: OpCode where "BYTE = 0x1a"
definition SHL :: OpCode where "SHL = 0x1b"
definition SHR :: OpCode where "SHR = 0x1c"
definition SAR :: OpCode where "SAR = 0x1d"
definition SHA3 :: OpCode where "SHA3 = 0x20"
definition ADDRESS :: OpCode where "ADDRESS = 0x30"
definition BALANCE :: OpCode where "BALANCE = 0x31"
definition ORIGIN :: OpCode where "ORIGIN = 0x32"
definition CALLER :: OpCode where "CALLER = 0x33"
definition CALLVALUE :: OpCode where "CALLVALUE = 0x34"
definition CALLDATALOAD :: OpCode where "CALLDATALOAD = 0x35"
definition CALLDATASIZE :: OpCode where "CALLDATASIZE = 0x36"
definition CALLDATACOPY :: OpCode where "CALLDATACOPY = 0x37"
definition CODESIZE :: OpCode where "CODESIZE = 0x38"
definition CODECOPY :: OpCode where "CODECOPY = 0x39"
definition GASPRICE_DEPRECATED :: OpCode where "GASPRICE_DEPRECATED = 0x3a"
definition EXTCODESIZE :: OpCode where "EXTCODESIZE = 0x3b"
definition EXTCODECOPY :: OpCode where "EXTCODECOPY = 0x3c"
definition RETURNDATASIZE :: OpCode where "RETURNDATASIZE = 0x3d"
definition RETURNDATACOPY :: OpCode where "RETURNDATACOPY = 0x3e"
definition EXTCODEHASH :: OpCode where "EXTCODEHASH = 0x3f"
definition BLOCKHASH :: OpCode where "BLOCKHASH = 0x40"
definition COINBASE :: OpCode where "COINBASE = 0x41"
definition TIMESTAMP :: OpCode where "TIMESTAMP = 0x42"
definition BLOCKHEIGHT :: OpCode where "BLOCKHEIGHT = 0x43"
definition DIFFICULTY_DEPRECATED :: OpCode where "DIFFICULTY_DEPRECATED = 0x44"
definition GASLIMIT :: OpCode where "GASLIMIT = 0x45"
definition POP :: OpCode where "POP = 0x50"
definition MLOAD :: OpCode where "MLOAD = 0x51"
definition MSTORE :: OpCode where "MSTORE = 0x52"
definition MSTORE8 :: OpCode where "MSTORE8 = 0x53"
definition SLOAD :: OpCode where "SLOAD = 0x54"
definition SSTORE :: OpCode where "SSTORE = 0x55"
definition JUMP :: OpCode where "JUMP = 0x56"
definition JUMPI :: OpCode where "JUMPI = 0x57"
definition PC :: OpCode where "PC = 0x58"
definition MSIZE :: OpCode where "MSIZE = 0x59"
definition GAS :: OpCode where "GAS = 0x5a"
definition JUMPDEST :: OpCode where "JUMPDEST = 0x5b"
definition PUSH1 :: OpCode where "PUSH1 = 0x60"
definition PUSH32 :: OpCode where "PUSH32 = 0x7f"
definition DUP1 :: OpCode where "DUP1 = 0x80"
definition DUP16 :: OpCode where "DUP16 = 0x8f"
definition SWAP1 :: OpCode where "SWAP1 = 0x90"
definition SWAP16 :: OpCode where "SWAP16 = 0x9f"
definition LOG0 :: OpCode where "LOG0 = 0xa0"
definition LOG4 :: OpCode where "LOG4 = 0xa4"
definition CREATE :: OpCode where "CREATE = 0xf0"
definition CALL :: OpCode where "CALL = 0xf1"
definition CALLCODE :: OpCode where "CALLCODE = 0xf2"
definition RETURN :: OpCode where "RETURN = 0xf3"
definition DELEGATECALL :: OpCode where "DELEGATECALL = 0xf4"
definition STATICCALL :: OpCode where "STATICCALL = 0xfa"
definition CREATE2 :: OpCode where "CREATE2 = 0xfb"
definition REVERT :: OpCode where "REVERT = 0xfd"
definition INVALID :: OpCode where "INVALID = 0xfe"
definition SELFDESTRUCT :: OpCode where "SELFDESTRUCT = 0xff"

lemmas opcode_defs =
  STOP_def ADD_def MUL_def SUB_def DIV_def SDIV_def MOD_def SMOD_def
  ADDMOD_def MULMOD_def EXP_def SIGNEXTEND_def LT_def GT_def SLT_def SGT_def
  EQ_def ISZERO_def AND_op_def OR_op_def XOR_op_def NOT_op_def BYTE_def SHL_def
  SHR_def SAR_def SHA3_def ADDRESS_def BALANCE_def ORIGIN_def CALLER_def CALLVALUE_def
  CALLDATALOAD_def CALLDATASIZE_def CALLDATACOPY_def CODESIZE_def CODECOPY_def GASPRICE_DEPRECATED_def EXTCODESIZE_def EXTCODECOPY_def
  RETURNDATASIZE_def RETURNDATACOPY_def EXTCODEHASH_def BLOCKHASH_def COINBASE_def TIMESTAMP_def BLOCKHEIGHT_def DIFFICULTY_DEPRECATED_def
  GASLIMIT_def POP_def MLOAD_def MSTORE_def MSTORE8_def SLOAD_def SSTORE_def JUMP_def
  JUMPI_def PC_def MSIZE_def GAS_def JUMPDEST_def PUSH1_def PUSH32_def DUP1_def
  DUP16_def SWAP1_def SWAP16_def LOG0_def LOG4_def CREATE_def CALL_def CALLCODE_def
  RETURN_def DELEGATECALL_def STATICCALL_def CREATE2_def REVERT_def INVALID_def SELFDESTRUCT_def

text \<open>\<open>opCodeNames\<close>: the named single codes; the families are numbered.\<close>

definition opCodeNames :: "(OpCode \<times> string) list" where
  "opCodeNames = [
    (STOP, ''STOP''),
    (ADD, ''ADD''),
    (MUL, ''MUL''),
    (SUB, ''SUB''),
    (DIV, ''DIV''),
    (SDIV, ''SDIV''),
    (MOD, ''MOD''),
    (SMOD, ''SMOD''),
    (ADDMOD, ''ADDMOD''),
    (MULMOD, ''MULMOD''),
    (EXP, ''EXP''),
    (SIGNEXTEND, ''SIGNEXTEND''),
    (LT, ''LT''),
    (GT, ''GT''),
    (SLT, ''SLT''),
    (SGT, ''SGT''),
    (EQ, ''EQ''),
    (ISZERO, ''ISZERO''),
    (AND_op, ''AND''),
    (OR_op, ''OR''),
    (XOR_op, ''XOR''),
    (NOT_op, ''NOT''),
    (BYTE, ''BYTE''),
    (SHL, ''SHL''),
    (SHR, ''SHR''),
    (SAR, ''SAR''),
    (SHA3, ''SHA3''),
    (ADDRESS, ''ADDRESS''),
    (BALANCE, ''BALANCE''),
    (ORIGIN, ''ORIGIN''),
    (CALLER, ''CALLER''),
    (CALLVALUE, ''CALLVALUE''),
    (CALLDATALOAD, ''CALLDATALOAD''),
    (CALLDATASIZE, ''CALLDATASIZE''),
    (CALLDATACOPY, ''CALLDATACOPY''),
    (CODESIZE, ''CODESIZE''),
    (CODECOPY, ''CODECOPY''),
    (GASPRICE_DEPRECATED, ''TXGASPRICE_DEPRECATED''),
    (EXTCODESIZE, ''EXTCODESIZE''),
    (EXTCODECOPY, ''EXTCODECOPY''),
    (RETURNDATASIZE, ''RETURNDATASIZE''),
    (RETURNDATACOPY, ''RETURNDATACOPY''),
    (EXTCODEHASH, ''EXTCODEHASH''),
    (BLOCKHASH, ''BLOCKHASH''),
    (COINBASE, ''COINBASE''),
    (TIMESTAMP, ''TIMESTAMP''),
    (BLOCKHEIGHT, ''BLOCKHEIGHT''),
    (DIFFICULTY_DEPRECATED, ''DIFFICULTY_DEPRECATED''),
    (GASLIMIT, ''GASLIMIT''),
    (POP, ''POP''),
    (MLOAD, ''MLOAD''),
    (MSTORE, ''MSTORE''),
    (MSTORE8, ''MSTORE8''),
    (SLOAD, ''SLOAD''),
    (SSTORE, ''SSTORE''),
    (JUMP, ''JUMP''),
    (JUMPI, ''JUMPI''),
    (PC, ''PC''),
    (MSIZE, ''MSIZE''),
    (GAS, ''GAS''),
    (JUMPDEST, ''JUMPDEST''),
    (CREATE, ''CREATE''),
    (CALL, ''CALL''),
    (CALLCODE, ''CALLCODE''),
    (RETURN, ''RETURN''),
    (DELEGATECALL, ''DELEGATECALL''),
    (STATICCALL, ''STATICCALL''),
    (CREATE2, ''CREATE2''),
    (REVERT, ''REVERT''),
    (INVALID, ''INVALID''),
    (SELFDESTRUCT, ''SELFDESTRUCT'')]
   @ map (\<lambda>n. (of_nat (0x5f + n), ''PUSH'' @ dec_of_nat n)) [1..<33]
   @ map (\<lambda>n. (of_nat (0x7f + n), ''DUP'' @ dec_of_nat n)) [1..<17]
   @ map (\<lambda>n. (of_nat (0x8f + n), ''SWAP'' @ dec_of_nat n)) [1..<17]
   @ map (\<lambda>n. (of_nat (0xa0 + n), ''LOG'' @ dec_of_nat n)) [0..<5]"

text \<open>\<open>GetOpCode\<close>: the code, and whether it has a name.\<close>

definition GetOpCode :: "byte \<Rightarrow> OpCode \<times> bool" where
  "GetOpCode b = (b, map_of opCodeNames b \<noteq> None)"

text \<open>Go's \<open>%x\<close> of a number below 256.\<close>

definition hex_of_nat :: "nat \<Rightarrow> string" where
  "hex_of_nat n = (if n < 16 then [digit_char n] else [digit_char (n div 16), digit_char (n mod 16)])"

definition OpCode_Name :: "OpCode \<Rightarrow> string" where
  "OpCode_Name op = (case map_of opCodeNames op of
     None \<Rightarrow> ''Non-opcode 0x'' @ hex_of_nat (unat op)
   | Some str \<Rightarrow> str)"

text \<open>The number of bytes a push instruction takes from the code, 0 for the others.\<close>

definition Pushes :: "OpCode \<Rightarrow> nat" where
  "Pushes op = (if PUSH1 \<le> op \<and> op \<le> PUSH32 then unat (op - PUSH1 + 1) else 0)"

end
