(* ===== verification/Bvm_Frame.thy ===== *)
theory Bvm_Frame
  imports Bvm_State Bvm_Crypto Bvm_Opcodes
begin

text \<open>
  One call frame of the virtual machine with its operand stack (\<open>bvm/stack.go\<close>), its memory
  (\<open>bvm/memory.go\<close>), gas and events (\<open>bvm/event_sink.go\<close>).

  \<open>VM\<close> holds what Go reaches through pointers from every frame: the state with its error sink, the
  gas cell, the counters of the \<open>VM\<close> struct and the tags of the event sink. \<open>Frame\<close> extends it by
  the local variables of \<open>execute\<close>. A run-time panic of Go is recorded in \<open>halt\<close>, where the first
  entry stays: the outcome of a halted run is the panic, and nothing it does afterwards can be
  observed.
\<close>

section \<open>Data\<close>

text \<open>The fields of \<open>Params\<close> and of its \<open>BlockHeader\<close> that the machine reads.\<close>

record Params =
  p_ChainID :: string
  p_Height :: int
  p_Time :: int
  p_ProposerAddress :: string
  p_GasLimit :: uint64
  p_BlockHash :: bytes
  p_GasPrice :: int
  p_CallStackMaxDepth :: uint64
  p_DataStackInitialCapacity :: uint64
  p_DataStackMaxDepth :: uint64

text \<open>\<open>memInitial\<close> and \<open>memMaximum\<close> are the arguments of the memory provider.\<close>

record 'b Machine =
  world :: "'b World"
  crypto :: Crypto
  params :: Params
  origin :: word160
  vm_nonce :: bytes
  memInitial :: nat
  memMaximum :: uint64

definition defaultInitialMemoryCapacity :: nat where "defaultInitialMemoryCapacity = 0x100000"
definition defaultMaximumMemoryCapacity :: uint64 where "defaultMaximumMemoryCapacity = 0x1000000"

text \<open>The options \<open>StackOptions\<close> and \<open>MemoryProvider\<close> of \<open>options.go\<close>.\<close>

definition StackOptions :: "uint64 \<Rightarrow> uint64 \<Rightarrow> uint64 \<Rightarrow> 'b Machine \<Rightarrow> 'b Machine" where
  "StackOptions callStackMaxDepth dataStackInitialCapacity dataStackMaxDepth vm =
     vm\<lparr>params := (params vm)\<lparr>p_CallStackMaxDepth := callStackMaxDepth,
       p_DataStackInitialCapacity := dataStackInitialCapacity, p_DataStackMaxDepth := dataStackMaxDepth\<rparr>\<rparr>"

definition MemoryProvider :: "nat \<Rightarrow> uint64 \<Rightarrow> 'b Machine \<Rightarrow> 'b Machine" where
  "MemoryProvider initialCapacity maximumCapacity vm =
     vm\<lparr>memInitial := initialCapacity, memMaximum := maximumCapacity\<rparr>"

definition NewVM :: "'b World \<Rightarrow> Crypto \<Rightarrow> Params \<Rightarrow> word160 \<Rightarrow> bytes \<Rightarrow> ('b Machine \<Rightarrow> 'b Machine) list \<Rightarrow> 'b Machine" where
  "NewVM W X ps org nonce options = fold (\<lambda>opt. opt) options
     \<lparr>world = W, crypto = X, params = ps, origin = org, vm_nonce = nonce,
      memInitial = defaultInitialMemoryCapacity, memMaximum = defaultMaximumMemoryCapacity\<rparr>"

datatype Event =
    TransferData string string string int
  | LogEvent string "word256 list" bytes
  | ExceptionTag Exception

datatype halt = GoPanic string | OutOfFuel

record 'b VM =
  callState :: "'b State"
  gas :: uint64
  vm_sequence :: uint64
  stackDepth :: uint64
  events :: "Event list"
  halt :: "halt option"

record 'b Frame = "'b VM" +
  st_slice :: "word256 list"
  st_ptr :: nat
  mem :: bytes
  pc :: int
  returnData :: "bytes option"
  val :: int

text \<open>What does not change during a frame: the arguments of \<open>execute\<close>, and whether the event sink
  is the log-free wrapper.\<close>

record Call =
  caller :: word160
  callee :: word160
  code :: bytes
  input :: bytes
  logFree :: bool

type_synonym ('b, 'z, 'a) vmm = "(('b, 'z) VM_scheme, 'a) state"
type_synonym ('b, 'a) fm = "('b Frame, 'a) state"

abbreviation ret :: "'a \<Rightarrow> ('s, 'a) state" where
  "ret x \<equiv> State_Monad.return x"

definition upd :: "('s \<Rightarrow> 's) \<Rightarrow> ('s, unit) state" where
  "upd g = State (\<lambda>s. ((), g s))"

definition gets :: "('s \<Rightarrow> 'a) \<Rightarrow> ('s, 'a) state" where
  "gets g = State (\<lambda>s. (g s, s))"

definition guard :: "bool \<Rightarrow> ('s, unit) state \<Rightarrow> ('s, unit) state" where
  "guard b m = (if b then m else ret ())"

text \<open>The bytes of a slice that may be \<open>nil\<close>.\<close>

definition nil_bytes :: "bytes option \<Rightarrow> bytes" where
  "nil_bytes s = (case s of None \<Rightarrow> [] | Some b \<Rightarrow> b)"

definition MaxInt32 :: nat where "MaxInt32 = 2147483647"

text \<open>Go's wrap-around of an \<open>int64\<close> sum.\<close>

definition wrap64 :: "int \<Rightarrow> int" where
  "wrap64 i = sint (word_of_int i :: uint64)"

section \<open>Errors, panics, gas\<close>

definition on_state :: "('b, 'a) stm \<Rightarrow> ('b, 'z, 'a) vmm" where
  "on_state m = State (\<lambda>f. let (a, s) = run_state m (callState f) in (a, f\<lparr>callState := s\<rparr>))"

definition pushErr :: "goerr option \<Rightarrow> ('b, 'z, unit) vmm" where
  "pushErr err = on_state (State_PushError err)"

definition hasError :: "('b, 'z, bool) vmm" where
  "hasError = gets (\<lambda>f. st_error (callState f) \<noteq> None)"

definition halt_with :: "halt \<Rightarrow> ('b, 'z, unit) vmm" where
  "halt_with h = upd (\<lambda>f. f\<lparr>halt := (case halt f of None \<Rightarrow> Some h | Some h' \<Rightarrow> Some h')\<rparr>)"

definition go_panic :: "string \<Rightarrow> ('b, 'z, unit) vmm" where
  "go_panic msg = halt_with (GoPanic msg)"

definition or_panic :: "string \<Rightarrow> 'a \<Rightarrow> 'a option \<Rightarrow> ('b, 'z, 'a) vmm" where
  "or_panic msg dflt x = (case x of Some a \<Rightarrow> ret a | None \<Rightarrow> do { go_panic msg; ret dflt })"

definition useGasNegative :: "uint64 \<Rightarrow> ('b, 'z, unit) vmm" where
  "useGasNegative gasToUse = do {
     g \<leftarrow> gets gas;
     if gasToUse \<le> g then upd (\<lambda>f. f\<lparr>gas := g - gasToUse\<rparr>)
     else pushErr (Some (ErrCode ErrorCodeInsufficientGas))
   }"

section \<open>The operand stack (\<open>stack.go\<close>)\<close>

definition stack_useGas :: "uint64 \<Rightarrow> ('b, 'z, unit) vmm" where
  "stack_useGas gasToUse = do {
     g \<leftarrow> gets gas;
     if gasToUse < g then upd (\<lambda>f. f\<lparr>gas := g - gasToUse\<rparr>)
     else pushErr (Some (ErrCode ErrorCodeInsufficientGas))
   }"

text \<open>\<open>ensureCapacity\<close>: \<open>None\<close> is an error. The loop that grows the backing array and the reslicing
  leave the old elements followed by zero words.\<close>

definition stack_ensureCapacity :: "uint64 \<Rightarrow> nat \<Rightarrow> word256 list \<Rightarrow> word256 list option" where
  "stack_ensureCapacity maxCapacity newCapacity bz =
    (if MaxInt32 < newCapacity then None
     else if newCapacity \<le> length bz then Some bz
     else if 0 < maxCapacity \<and> unat maxCapacity < newCapacity then None
     else Some (bz @ replicate (newCapacity - length bz) Zero256))"

definition Push :: "'b Machine \<Rightarrow> word256 \<Rightarrow> ('b, unit) fm" where
  "Push M d = do {
     stack_useGas GasStackOp;
     f \<leftarrow> State_Monad.get;
     case stack_ensureCapacity (p_DataStackMaxDepth (params M)) (st_ptr f + 1) (st_slice f) of
       None \<Rightarrow> pushErr (Some (ErrCode ErrorCodeDataStackOverflow))
     | Some bz \<Rightarrow> State_Monad.set (f\<lparr>st_slice := bz[st_ptr f := d], st_ptr := st_ptr f + 1\<rparr>)
   }"

definition PushBytes :: "'b Machine \<Rightarrow> bytes \<Rightarrow> ('b, unit) fm" where
  "PushBytes M bz = do {
     guard (length bz \<noteq> 32) (go_panic ''Invalid bytes size: expected 32'');
     w \<leftarrow> or_panic ''slice bounds out of range'' 0 (LeftPadWord256 bz);
     Push M w
   }"

definition PushAddress :: "'b Machine \<Rightarrow> word160 \<Rightarrow> ('b, unit) fm" where
  "PushAddress M address = Push M (Address_Word256 address)"

definition Push64 :: "'b Machine \<Rightarrow> int \<Rightarrow> ('b, unit) fm" where
  "Push64 M i = Push M (Int64ToWord256 i)"

definition PushU64 :: "'b Machine \<Rightarrow> uint64 \<Rightarrow> ('b, unit) fm" where
  "PushU64 M i = Push M (Uint64ToWord256 i)"

definition PushBigInt :: "'b Machine \<Rightarrow> int \<Rightarrow> ('b, unit) fm" where
  "PushBigInt M bigInt = do {
     word \<leftarrow> or_panic ''slice bounds out of range'' 0 (LeftPadWord256 (big_bytes (U256 bigInt)));
     Push M word
   }"

definition Pop :: "('b, word256) fm" where
  "Pop = do {
     stack_useGas GasStackOp;
     f \<leftarrow> State_Monad.get;
     if st_ptr f = 0 then do {
       pushErr (Some (ErrCode ErrorCodeDataStackUnderflow));
       ret Zero256
     } else do {
       State_Monad.set (f\<lparr>st_ptr := st_ptr f - 1\<rparr>);
       ret (st_slice f ! (st_ptr f - 1))
     }
   }"

definition PopAddress :: "('b, word160) fm" where
  "PopAddress = do { w \<leftarrow> Pop; ret (AddressFromWord256 w) }"

definition Is64BitOverflow :: "word256 \<Rightarrow> bool" where
  "Is64BitOverflow w = list_ex (\<lambda>b. b \<noteq> 0) (take (32 - 8) (be_bytes 32 w))"

definition overflow_error :: "word256 \<Rightarrow> goerr option" where
  "overflow_error d = ErrorCodef ErrorCodeCallStackOverflow (''int64 overflow from word: '' @ Word256_String d)"

definition Pop64 :: "('b, int) fm" where
  "Pop64 = do {
     d \<leftarrow> Pop;
     if Is64BitOverflow d then do { pushErr (overflow_error d); ret 0 }
     else ret (Int64FromWord256 d)
   }"

definition PopU64 :: "('b, uint64) fm" where
  "PopU64 = do {
     d \<leftarrow> Pop;
     if Is64BitOverflow d then do { pushErr (overflow_error d); ret 0 }
     else ret (Uint64FromWord256 d)
   }"

definition PopBigInt :: "('b, int) fm" where
  "PopBigInt = do { d \<leftarrow> Pop; ret (big_of_bytes (be_bytes 32 d)) }"

definition PopBigIntSigned :: "('b, int) fm" where
  "PopBigIntSigned = do { x \<leftarrow> PopBigInt; ret (S256 x) }"

definition Swap :: "nat \<Rightarrow> ('b, unit) fm" where
  "Swap n = do {
     stack_useGas GasStackOp;
     f \<leftarrow> State_Monad.get;
     if st_ptr f < n then pushErr (Some (ErrCode ErrorCodeDataStackUnderflow))
     else State_Monad.set (f\<lparr>st_slice := (st_slice f)[st_ptr f - n := st_slice f ! (st_ptr f - 1),
       st_ptr f - 1 := st_slice f ! (st_ptr f - n)]\<rparr>)
   }"

definition Dup :: "'b Machine \<Rightarrow> nat \<Rightarrow> ('b, unit) fm" where
  "Dup M n = do {
     stack_useGas GasStackOp;
     f \<leftarrow> State_Monad.get;
     if st_ptr f < n then pushErr (Some (ErrCode ErrorCodeDataStackUnderflow))
     else Push M (st_slice f ! (st_ptr f - n))
   }"

definition Peek :: "('b, word256) fm" where
  "Peek = do {
     f \<leftarrow> State_Monad.get;
     if st_ptr f = 0 then do {
       pushErr (Some (ErrCode ErrorCodeDataStackUnderflow));
       ret Zero256
     } else ret (st_slice f ! (st_ptr f - 1))
   }"

section \<open>Memory (\<open>memory.go\<close>)\<close>

definition mem_ensureCapacity :: "uint64 \<Rightarrow> uint64 \<Rightarrow> bytes \<Rightarrow> goerr option \<times> bytes" where
  "mem_ensureCapacity maximumCapacity newCapacity bz =
    (if MaxInt32 < unat newCapacity
     then (Some (ErrOther (''cannot address memory beyond a maximum index with int32 width ('' @
       dec_of_nat MaxInt32 @ '' bytes)'')), bz)
     else if unat newCapacity \<le> length bz then (None, bz)
     else if maximumCapacity < newCapacity
     then (Some (ErrOther (''cannot grow memory because it would exceed the current maximum limit of '' @
       dec_of_nat (unat maximumCapacity) @ '' bytes'')), bz)
     else (None, bz @ replicate (unat newCapacity - length bz) 0))"

text \<open>
  Both \<open>read\<close> and \<open>write\<close> slice \<open>[offset:capacity]\<close>, which panics when the sum wrapped around;
  \<open>copy\<close> writes as many bytes as the slice holds.
\<close>

definition mem_read :: "'b Machine \<Rightarrow> uint64 \<Rightarrow> uint64 \<Rightarrow> ('b, goerr + bytes) fm" where
  "mem_read M offset len = do {
     let capacity = offset + len;
     f \<leftarrow> State_Monad.get;
     let (err, bz) = mem_ensureCapacity (memMaximum M) capacity (mem f);
     State_Monad.set (f\<lparr>mem := bz\<rparr>);
     case err of
       Some e \<Rightarrow> ret (Inl e)
     | None \<Rightarrow>
        if capacity < offset then do { go_panic ''slice bounds out of range''; ret (Inr []) }
        else ret (Inr (take (unat len) (drop (unat offset) bz)))
   }"

definition mem_write :: "'b Machine \<Rightarrow> uint64 \<Rightarrow> bytes \<Rightarrow> ('b, goerr option) fm" where
  "mem_write M offset bs = do {
     let capacity = offset + of_nat (length bs);
     f \<leftarrow> State_Monad.get;
     let (err, bz) = mem_ensureCapacity (memMaximum M) capacity (mem f);
     State_Monad.set (f\<lparr>mem := bz\<rparr>);
     case err of
       Some e \<Rightarrow> ret (Some e)
     | None \<Rightarrow>
        if capacity < offset then do { go_panic ''slice bounds out of range''; ret None }
        else do {
          let copied = take (unat capacity - unat offset) bs;
          upd (\<lambda>f. f\<lparr>mem := take (unat offset) bz @ copied @ drop (unat offset + length copied) bz\<rparr>);
          ret None
        }
   }"

definition IsUint64 :: "int \<Rightarrow> bool" where
  "IsUint64 x \<longleftrightarrow> 0 \<le> x \<and> x < 2 ^ 64"

definition memory_Read :: "'b Machine \<Rightarrow> int \<Rightarrow> int \<Rightarrow> ('b, bytes option) fm" where
  "memory_Read M offset len =
    (if \<not> IsUint64 offset then do {
       pushErr (Some (ErrOther (''offset '' @ dec_of_int offset @ '' does not fit inside an unsigned 64-bit integer'')));
       ret None
     } else if \<not> IsUint64 len then do {
       pushErr (Some (ErrOther (''length '' @ dec_of_int offset @ '' does not fit inside an unsigned 64-bit integer'')));
       ret None
     } else do {
       r \<leftarrow> mem_read M (word_of_int offset) (word_of_int len);
       case r of
         Inl err \<Rightarrow> do { pushErr (Some err); ret None }
       | Inr output \<Rightarrow> ret (Some output)
     })"

definition memory_Write :: "'b Machine \<Rightarrow> int \<Rightarrow> bytes \<Rightarrow> ('b, unit) fm" where
  "memory_Write M offset bs =
    (if \<not> IsUint64 offset then
       pushErr (Some (ErrOther (''offset '' @ dec_of_int offset @ '' does not fit inside an unsigned 64-bit integer'')))
     else do {
       err \<leftarrow> mem_write M (word_of_int offset) bs;
       pushErr err
     })"

definition memory_Capacity :: "('b, int) fm" where
  "memory_Capacity = gets (\<lambda>f. int (length (mem f)))"

section \<open>Events (\<open>event_sink.go\<close>)\<close>

text \<open>\<open>BcEventSink.CallTransfer\<close>: the tag, then the exception if there is one.\<close>

definition CallTransfer :: "Event \<Rightarrow> Exception option \<Rightarrow> ('b, 'z, goerr option) vmm" where
  "CallTransfer transfer exception = do {
     upd (\<lambda>f. f\<lparr>events := events f @ [transfer] @
       (case exception of None \<Rightarrow> [] | Some e \<Rightarrow> [ExceptionTag e])\<rparr>);
     ret None
   }"

text \<open>\<open>Log\<close> of the plain sink, and of the log-free one.\<close>

definition sink_Log :: "bool \<Rightarrow> string \<Rightarrow> word256 list \<Rightarrow> bytes \<Rightarrow> ('b, 'z, goerr option) vmm" where
  "sink_Log free address topics data =
    (if free then ret (IllegalWrite (''Log emitted from contract '' @ address @
       '', but current call should be log-free''))
     else do {
       upd (\<lambda>f. f\<lparr>events := events f @ [LogEvent address topics data]\<rparr>);
       ret None
     })"

text \<open>\<open>ToAddr\<close> inside the machine.\<close>

definition toAddr :: "'b Machine \<Rightarrow> word160 \<Rightarrow> ('b, 'z, string) vmm" where
  "toAddr M a = or_panic ''slice bounds out of range'' '''' (ToAddr (crypto M) a)"

definition toBVM :: "'b Machine \<Rightarrow> string \<Rightarrow> ('b, 'z, word160) vmm" where
  "toBVM M a = or_panic ''slice bounds out of range'' 0 (ToBVM (crypto M) a)"

definition fireTransferEvent :: "'b Machine \<Rightarrow> word160 \<Rightarrow> word160 \<Rightarrow> int \<Rightarrow> ('b, 'z, unit) vmm" where
  "fireTransferEvent M callerAddress calleeAddress amount = do {
     token \<leftarrow> on_state (State_GetToken (world M));
     from \<leftarrow> toAddr M callerAddress;
     to \<leftarrow> toAddr M calleeAddress;
     exception \<leftarrow> gets (\<lambda>f. st_error (callState f));
     eventErr \<leftarrow> CallTransfer (TransferData token from to amount) exception;
     pushErr eventErr
   }"

end
