(* ===== verification/Bvm_Ops.thy ===== *)
theory Bvm_Ops
  imports Bvm_Frame
begin

unbundle bit_operations_syntax

text \<open>
  The instructions of the virtual machine that stay inside a frame: one definition per case of the
  switch in \<open>execute\<close> (\<open>bvm/vm.go\<close>), in its order, and the helpers \<open>subSlice\<close>, \<open>codeGetOp\<close> and
  \<open>jump\<close>. A case answers how the loop goes on: \<open>Next\<close> falls through to \<open>pc++\<close>, \<open>Continue\<close> is Go's
  \<open>continue\<close>, \<open>Return\<close> leaves \<open>execute\<close>.
\<close>

datatype flow = Next | Continue | Return "bytes option"

section \<open>Arithmetic: 0x01 to 0x0b\<close>

text \<open>\<open>big.Int\<close>'s \<open>Div\<close> and \<open>Mod\<close> are Euclidean: the remainder is never negative.\<close>

definition big_Div :: "int \<Rightarrow> int \<Rightarrow> int" where
  "big_Div x y = (if 0 < y then x div y else - (x div (- y)))"

definition big_Mod :: "int \<Rightarrow> int \<Rightarrow> int" where
  "big_Mod x y = x mod \<bar>y\<bar>"

definition op_ADD :: "'b Machine \<Rightarrow> ('b, flow) fm" where
  "op_ADD M = do { x \<leftarrow> PopBigInt; y \<leftarrow> PopBigInt; PushBigInt M (x + y); ret Next }"

definition op_MUL :: "'b Machine \<Rightarrow> ('b, flow) fm" where
  "op_MUL M = do { x \<leftarrow> PopBigInt; y \<leftarrow> PopBigInt; PushBigInt M (x * y); ret Next }"

definition op_SUB :: "'b Machine \<Rightarrow> ('b, flow) fm" where
  "op_SUB M = do { x \<leftarrow> PopBigInt; y \<leftarrow> PopBigInt; PushBigInt M (x - y); ret Next }"

definition op_DIV :: "'b Machine \<Rightarrow> ('b, flow) fm" where
  "op_DIV M = do {
     x \<leftarrow> PopBigInt; y \<leftarrow> PopBigInt;
     (if y = 0 then Push M Zero256 else PushBigInt M (big_Div x y));
     ret Next
   }"

definition op_SDIV :: "'b Machine \<Rightarrow> ('b, flow) fm" where
  "op_SDIV M = do {
     x \<leftarrow> PopBigIntSigned; y \<leftarrow> PopBigIntSigned;
     (if y = 0 then Push M Zero256 else PushBigInt M (big_Div x y));
     ret Next
   }"

definition op_MOD :: "'b Machine \<Rightarrow> ('b, flow) fm" where
  "op_MOD M = do {
     x \<leftarrow> PopBigInt; y \<leftarrow> PopBigInt;
     (if y = 0 then Push M Zero256 else PushBigInt M (big_Mod x y));
     ret Next
   }"

definition op_SMOD :: "'b Machine \<Rightarrow> ('b, flow) fm" where
  "op_SMOD M = do {
     x \<leftarrow> PopBigIntSigned; y \<leftarrow> PopBigIntSigned;
     (if y = 0 then Push M Zero256 else PushBigInt M (big_Mod x y));
     ret Next
   }"

definition op_ADDMOD :: "'b Machine \<Rightarrow> ('b, flow) fm" where
  "op_ADDMOD M = do {
     x \<leftarrow> PopBigInt; y \<leftarrow> PopBigInt; z \<leftarrow> PopBigInt;
     (if z = 0 then Push M Zero256 else PushBigInt M (big_Mod (x + y) z));
     ret Next
   }"

definition op_MULMOD :: "'b Machine \<Rightarrow> ('b, flow) fm" where
  "op_MULMOD M = do {
     x \<leftarrow> PopBigInt; y \<leftarrow> PopBigInt; z \<leftarrow> PopBigInt;
     (if z = 0 then Push M Zero256 else PushBigInt M (big_Mod (x * y) z));
     ret Next
   }"

text \<open>
  The code computes the whole power (\<open>Exp\<close> without a modulus) before it is cut to 256 bits. Here that is one mathematical
  step: the memory and time it takes for a large exponent are not visible in the model.
\<close>

definition op_EXP :: "'b Machine \<Rightarrow> ('b, flow) fm" where
  "op_EXP M = do { x \<leftarrow> PopBigInt; y \<leftarrow> PopBigInt; PushBigInt M (x ^ nat y); ret Next }"

definition op_SIGNEXTEND :: "'b Machine \<Rightarrow> ('b, flow) fm" where
  "op_SIGNEXTEND M = do {
     back \<leftarrow> PopU64;
     guard (back < 32 - 1) (do { x \<leftarrow> PopBigInt; PushBigInt M (SignExtend (unat back) x) });
     ret Next
   }"

section \<open>Comparison and bits: 0x10 to 0x1d\<close>

definition push_bool :: "'b Machine \<Rightarrow> bool \<Rightarrow> ('b, flow) fm" where
  "push_bool M b = do { Push M (if b then One256 else Zero256); ret Next }"

definition op_LT :: "'b Machine \<Rightarrow> ('b, flow) fm" where
  "op_LT M = do { x \<leftarrow> PopBigInt; y \<leftarrow> PopBigInt; push_bool M (x < y) }"

definition op_GT :: "'b Machine \<Rightarrow> ('b, flow) fm" where
  "op_GT M = do { x \<leftarrow> PopBigInt; y \<leftarrow> PopBigInt; push_bool M (y < x) }"

definition op_SLT :: "'b Machine \<Rightarrow> ('b, flow) fm" where
  "op_SLT M = do { x \<leftarrow> PopBigIntSigned; y \<leftarrow> PopBigIntSigned; push_bool M (x < y) }"

definition op_SGT :: "'b Machine \<Rightarrow> ('b, flow) fm" where
  "op_SGT M = do { x \<leftarrow> PopBigIntSigned; y \<leftarrow> PopBigIntSigned; push_bool M (y < x) }"

definition op_EQ :: "'b Machine \<Rightarrow> ('b, flow) fm" where
  "op_EQ M = do { x \<leftarrow> Pop; y \<leftarrow> Pop; push_bool M (be_bytes 32 x = be_bytes 32 y) }"

definition op_ISZERO :: "'b Machine \<Rightarrow> ('b, flow) fm" where
  "op_ISZERO M = do { x \<leftarrow> Pop; push_bool M (Word256_IsZero x) }"

text \<open>The byte loops of \<open>AND\<close>, \<open>OR\<close>, \<open>XOR\<close> and \<open>NOT\<close>.\<close>

definition bytewise :: "(byte \<Rightarrow> byte \<Rightarrow> byte) \<Rightarrow> word256 \<Rightarrow> word256 \<Rightarrow> word256" where
  "bytewise g x y = be_word (map2 g (be_bytes 32 x) (be_bytes 32 y))"

definition op_AND :: "'b Machine \<Rightarrow> ('b, flow) fm" where
  "op_AND M = do { x \<leftarrow> Pop; y \<leftarrow> Pop; Push M (bytewise (AND) x y); ret Next }"

definition op_OR :: "'b Machine \<Rightarrow> ('b, flow) fm" where
  "op_OR M = do { x \<leftarrow> Pop; y \<leftarrow> Pop; Push M (bytewise (OR) x y); ret Next }"

definition op_XOR :: "'b Machine \<Rightarrow> ('b, flow) fm" where
  "op_XOR M = do { x \<leftarrow> Pop; y \<leftarrow> Pop; Push M (bytewise (XOR) x y); ret Next }"

definition op_NOT :: "'b Machine \<Rightarrow> ('b, flow) fm" where
  "op_NOT M = do { x \<leftarrow> Pop; Push M (be_word (map (\<lambda>b. NOT b) (be_bytes 32 x))); ret Next }"

definition op_BYTE :: "'b Machine \<Rightarrow> ('b, flow) fm" where
  "op_BYTE M = do {
     idx \<leftarrow> Pop64;
     v \<leftarrow> Pop;
     res \<leftarrow> (if idx < 32
       then (if idx < 0 then do { go_panic ''index out of range''; ret 0 } else ret (be_bytes 32 v ! nat idx))
       else ret 0);
     Push64 M (uint res);
     ret Next
   }"

definition op_SHL :: "'b Machine \<Rightarrow> ('b, flow) fm" where
  "op_SHL M = do {
     shift \<leftarrow> PopBigInt; x \<leftarrow> PopBigInt;
     (if 256 \<le> shift then PushBigInt M 0 else PushBigInt M (push_bit (nat shift) x));
     ret Next
   }"

definition op_SHR :: "'b Machine \<Rightarrow> ('b, flow) fm" where
  "op_SHR M = do {
     shift \<leftarrow> PopBigInt; x \<leftarrow> PopBigInt;
     (if 256 \<le> shift then PushBigInt M 0 else PushBigInt M (drop_bit (nat shift) x));
     ret Next
   }"

definition op_SAR :: "'b Machine \<Rightarrow> ('b, flow) fm" where
  "op_SAR M = do {
     shift \<leftarrow> PopBigInt; x \<leftarrow> PopBigIntSigned;
     (if 256 \<le> shift then PushBigInt M (if x < 0 then - 1 else 0) else PushBigInt M (drop_bit (nat shift) x));
     ret Next
   }"

definition op_SHA3 :: "'b Machine \<Rightarrow> ('b, flow) fm" where
  "op_SHA3 M = do {
     useGasNegative GasSha3;
     offset \<leftarrow> PopBigInt; size \<leftarrow> PopBigInt;
     data \<leftarrow> memory_Read M offset size;
     PushBytes M (sha3_bytes (nil_bytes data));
     ret Next
   }"

section \<open>Helpers on code and input\<close>

definition subSlice :: "bytes \<Rightarrow> int \<Rightarrow> int \<Rightarrow> ('b, bytes option) fm" where
  "subSlice data offset len =
    (let size = int (length data) in
     if size < offset \<or> offset < 0 \<or> len < 0 then do {
       pushErr (ErrorCodef ErrorCodeInputOutOfBounds (''subSlice could not slice data of size '' @
         dec_of_int size @ '' at offset '' @ dec_of_int offset @ '' for length '' @ dec_of_int len));
       ret None
     } else if size < wrap64 (offset + len) then
       ret (Some (drop (nat offset) data @ replicate (nat len - (length data - nat offset)) 0))
     else if wrap64 (offset + len) < offset then do {
       go_panic ''slice bounds out of range''; ret None
     } else ret (Some (take (nat len) (drop (nat offset) data))))"

text \<open>\<open>None\<close>: the run-time panic for a negative index.\<close>

definition codeGetOp :: "bytes \<Rightarrow> int \<Rightarrow> OpCode option" where
  "codeGetOp cd n = (if int (length cd) \<le> n then Some 0 else if n < 0 then None else Some (cd ! nat n))"

definition getOp :: "bytes \<Rightarrow> int \<Rightarrow> ('b, OpCode) fm" where
  "getOp cd n = or_panic ''index out of range'' 0 (codeGetOp cd n)"

definition jump :: "bytes \<Rightarrow> int \<Rightarrow> ('b, unit) fm" where
  "jump cd to = do {
     dest \<leftarrow> getOp cd to;
     if dest \<noteq> JUMPDEST then pushErr (Some (ErrCode ErrorCodeInvalidJumpDest))
     else upd (\<lambda>f. f\<lparr>pc := to\<rparr>)
   }"

definition pad_word :: "bytes option \<Rightarrow> ('b, word256) fm" where
  "pad_word data = or_panic ''slice bounds out of range'' 0 (LeftPadWord256 (nil_bytes data))"

section \<open>Closure state: 0x30 to 0x3f\<close>

definition op_ADDRESS :: "'b Machine \<Rightarrow> Call \<Rightarrow> ('b, flow) fm" where
  "op_ADDRESS M c = do { PushAddress M (callee c); ret Next }"

definition op_BALANCE :: "'b Machine \<Rightarrow> ('b, flow) fm" where
  "op_BALANCE M = do {
     address \<leftarrow> PopAddress;
     useGasNegative GasGetAccount;
     balance \<leftarrow> on_state (State_GetBalance (world M) address);
     PushBigInt M balance;
     ret Next
   }"

definition op_ORIGIN :: "'b Machine \<Rightarrow> ('b, flow) fm" where
  "op_ORIGIN M = do { PushAddress M (origin M); ret Next }"

definition op_CALLER :: "'b Machine \<Rightarrow> Call \<Rightarrow> ('b, flow) fm" where
  "op_CALLER M c = do { PushAddress M (caller c); ret Next }"

definition op_CALLVALUE :: "'b Machine \<Rightarrow> ('b, flow) fm" where
  "op_CALLVALUE M = do { v \<leftarrow> gets val; PushBigInt M v; ret Next }"

definition op_CALLDATALOAD :: "'b Machine \<Rightarrow> Call \<Rightarrow> ('b, flow) fm" where
  "op_CALLDATALOAD M c = do {
     offset \<leftarrow> Pop64;
     data \<leftarrow> subSlice (input c) offset 32;
     res \<leftarrow> pad_word data;
     Push M res;
     ret Next
   }"

definition op_CALLDATASIZE :: "'b Machine \<Rightarrow> Call \<Rightarrow> ('b, flow) fm" where
  "op_CALLDATASIZE M c = do { Push64 M (int (length (input c))); ret Next }"

text \<open>The common end of \<open>CALLDATACOPY\<close>, \<open>CODECOPY\<close> and \<open>EXTCODECOPY\<close>.\<close>

definition copy_to_memory :: "'b Machine \<Rightarrow> bytes \<Rightarrow> ('b, flow) fm" where
  "copy_to_memory M source = do {
     memOff \<leftarrow> PopBigInt;
     off \<leftarrow> Pop64;
     len \<leftarrow> Pop64;
     data \<leftarrow> subSlice source off len;
     memory_Write M memOff (nil_bytes data);
     ret Next
   }"

definition op_CALLDATACOPY :: "'b Machine \<Rightarrow> Call \<Rightarrow> ('b, flow) fm" where
  "op_CALLDATACOPY M c = copy_to_memory M (input c)"

definition op_CODESIZE :: "'b Machine \<Rightarrow> Call \<Rightarrow> ('b, flow) fm" where
  "op_CODESIZE M c = do { Push64 M (int (length (code c))); ret Next }"

definition op_CODECOPY :: "'b Machine \<Rightarrow> Call \<Rightarrow> ('b, flow) fm" where
  "op_CODECOPY M c = copy_to_memory M (code c)"

definition op_GASPRICE :: "'b Machine \<Rightarrow> ('b, flow) fm" where
  "op_GASPRICE M = do { Push M (Int64ToWord256 (p_GasPrice (params M))); ret Next }"

definition op_DIFFICULTY :: "'b Machine \<Rightarrow> ('b, flow) fm" where
  "op_DIFFICULTY M = do { Push64 M 0; ret Next }"

definition op_EXTCODESIZE :: "'b Machine \<Rightarrow> ('b, flow) fm" where
  "op_EXTCODESIZE M = do {
     address \<leftarrow> PopAddress;
     useGasNegative GasGetAccount;
     ex \<leftarrow> on_state (State_Exists (world M) address);
     if ex then do {
       cd \<leftarrow> on_state (State_GetBVMCode (world M) address);
       Push64 M (int (length (nil_bytes cd)));
       ret Next
     } else if \<not> IsRegisteredNativeContract (crypto M) address then do {
       pushErr (Some (ErrCode ErrorCodeUnknownAddress));
       ret Continue
     } else do { Push M One256; ret Next }
   }"

definition op_EXTCODECOPY :: "'b Machine \<Rightarrow> ('b, flow) fm" where
  "op_EXTCODECOPY M = do {
     address \<leftarrow> PopAddress;
     useGasNegative GasGetAccount;
     ex \<leftarrow> on_state (State_Exists (world M) address);
     if \<not> ex then do {
       guard (IsRegisteredNativeContract (crypto M) address)
         (pushErr (Some (ErrCode ErrorCodeNativeContractCodeCopy)));
       pushErr (Some (ErrCode ErrorCodeUnknownAddress));
       ret Continue
     } else do {
       cd \<leftarrow> on_state (State_GetBVMCode (world M) address);
       copy_to_memory M (nil_bytes cd)
     }
   }"

definition op_RETURNDATASIZE :: "'b Machine \<Rightarrow> ('b, flow) fm" where
  "op_RETURNDATASIZE M = do { r \<leftarrow> gets returnData; Push64 M (int (length (nil_bytes r))); ret Next }"

definition op_RETURNDATACOPY :: "'b Machine \<Rightarrow> ('b, flow) fm" where
  "op_RETURNDATACOPY M = do {
     memOff \<leftarrow> PopBigInt; outputOff \<leftarrow> PopBigInt; len \<leftarrow> PopBigInt;
     r \<leftarrow> gets returnData;
     if 2 ^ 64 \<le> outputOff + len \<or> int (length (nil_bytes r)) < outputOff + len then do {
       pushErr (Some (ErrCode ErrorCodeReturnDataOutOfBounds));
       ret Continue
     } else do { memory_Write M memOff (nil_bytes r); ret Next }
   }"

definition op_EXTCODEHASH :: "'b Machine \<Rightarrow> ('b, flow) fm" where
  "op_EXTCODEHASH M = do {
     address \<leftarrow> PopAddress;
     ex \<leftarrow> on_state (State_Exists (world M) address);
     (if \<not> ex then PushU64 M 0
      else do {
        cd \<leftarrow> on_state (State_GetBVMCode (world M) address);
        Push M (RightPadWord256 (sha3_bytes (nil_bytes cd)))
      });
     ret Next
   }"

section \<open>Block information: 0x40 to 0x45\<close>

definition MaximumAllowedBlockLookBack :: uint64 where "MaximumAllowedBlockLookBack = 256"

definition op_BLOCKHASH :: "'b Machine \<Rightarrow> ('b, flow) fm" where
  "op_BLOCKHASH M = do {
     blockNumber \<leftarrow> PopU64;
     let BlockHeight = (word_of_int (p_Height (params M)) :: uint64);
     (if blockNumber = BlockHeight then do {
        blockHash \<leftarrow> pad_word (Some (p_BlockHash (params M)));
        Push M blockHash
      } else if BlockHeight < blockNumber then
        pushErr (Some (ErrCode ErrorCodeInvalidBlockNumber))
      else if MaximumAllowedBlockLookBack < BlockHeight - blockNumber then
        pushErr (Some (ErrCode ErrorCodeBlockNumberOutOfRange))
      else do {
        useGasNegative GasBlockHash;
        h \<leftarrow> on_state (State_GetBlockHash (world M) blockNumber);
        blockHash \<leftarrow> or_panic ''slice bounds out of range'' 0 h;
        Push M blockHash
      });
     ret Next
   }"

definition op_COINBASE :: "'b Machine \<Rightarrow> ('b, flow) fm" where
  "op_COINBASE M = do {
     coinbase \<leftarrow> toBVM M (p_ProposerAddress (params M));
     Push M (Address_Word256 coinbase);
     _ \<leftarrow> Peek;
     ret Next
   }"

definition op_TIMESTAMP :: "'b Machine \<Rightarrow> ('b, flow) fm" where
  "op_TIMESTAMP M = do { Push64 M (p_Time (params M)); ret Next }"

definition op_BLOCKHEIGHT :: "'b Machine \<Rightarrow> ('b, flow) fm" where
  "op_BLOCKHEIGHT M = do { PushU64 M (word_of_int (p_Height (params M))); ret Next }"

definition op_GASLIMIT :: "'b Machine \<Rightarrow> ('b, flow) fm" where
  "op_GASLIMIT M = do { PushU64 M (p_GasLimit (params M)); ret Next }"

section \<open>Stack, memory, storage and flow: 0x50 to 0x5b\<close>

definition op_POP :: "'b Machine \<Rightarrow> ('b, flow) fm" where
  "op_POP M = do { _ \<leftarrow> Pop; ret Next }"

definition op_MLOAD :: "'b Machine \<Rightarrow> ('b, flow) fm" where
  "op_MLOAD M = do {
     offset \<leftarrow> PopBigInt;
     data \<leftarrow> memory_Read M offset 32;
     w \<leftarrow> pad_word data;
     Push M w;
     ret Next
   }"

definition op_MSTORE :: "'b Machine \<Rightarrow> ('b, flow) fm" where
  "op_MSTORE M = do {
     offset \<leftarrow> PopBigInt; data \<leftarrow> Pop;
     memory_Write M offset (Word256_Bytes data);
     ret Next
   }"

definition op_MSTORE8 :: "'b Machine \<Rightarrow> ('b, flow) fm" where
  "op_MSTORE8 M = do {
     offset \<leftarrow> PopBigInt;
     val64 \<leftarrow> Pop64;
     memory_Write M offset [word_of_int (val64 AND 0xFF)];
     ret Next
   }"

definition op_SLOAD :: "'b Machine \<Rightarrow> Call \<Rightarrow> ('b, flow) fm" where
  "op_SLOAD M c = do {
     loc \<leftarrow> Pop;
     v \<leftarrow> on_state (State_GetStorage (world M) (callee c) loc);
     data \<leftarrow> pad_word (Some v);
     Push M data;
     ret Next
   }"

definition op_SSTORE :: "'b Machine \<Rightarrow> Call \<Rightarrow> ('b, flow) fm" where
  "op_SSTORE M c = do {
     loc \<leftarrow> Pop; data \<leftarrow> Pop;
     useGasNegative GasStorageUpdate;
     on_state (State_SetStorage (world M) (callee c) loc (Word256_Bytes data));
     ret Next
   }"

definition op_JUMP :: "'b Machine \<Rightarrow> Call \<Rightarrow> ('b, flow) fm" where
  "op_JUMP M c = do { to \<leftarrow> Pop64; jump (code c) to; ret Continue }"

definition op_JUMPI :: "'b Machine \<Rightarrow> Call \<Rightarrow> ('b, flow) fm" where
  "op_JUMPI M c = do {
     pos \<leftarrow> Pop64; cond \<leftarrow> Pop;
     if \<not> Word256_IsZero cond then do { jump (code c) pos; ret Continue } else ret Next
   }"

definition op_PC :: "'b Machine \<Rightarrow> ('b, flow) fm" where
  "op_PC M = do { p \<leftarrow> gets pc; Push64 M p; ret Next }"

definition op_MSIZE :: "'b Machine \<Rightarrow> ('b, flow) fm" where
  "op_MSIZE M = do { capacity \<leftarrow> memory_Capacity; PushBigInt M capacity; ret Next }"

definition op_GAS :: "'b Machine \<Rightarrow> ('b, flow) fm" where
  "op_GAS M = do { g \<leftarrow> gets gas; PushU64 M g; ret Next }"

section \<open>Push, duplicate, swap, log: 0x60 to 0xa4\<close>

definition op_PUSH :: "'b Machine \<Rightarrow> Call \<Rightarrow> OpCode \<Rightarrow> ('b, flow) fm" where
  "op_PUSH M c op = do {
     let a = uint (op - PUSH1 + 1);
     p \<leftarrow> gets pc;
     codeSegment \<leftarrow> subSlice (code c) (p + 1) a;
     res \<leftarrow> pad_word codeSegment;
     Push M res;
     upd (\<lambda>f. f\<lparr>pc := pc f + a\<rparr>);
     ret Next
   }"

definition op_DUP :: "'b Machine \<Rightarrow> OpCode \<Rightarrow> ('b, flow) fm" where
  "op_DUP M op = do {
     Dup M (unat (op - DUP1 + 1));
     _ \<leftarrow> Peek;
     ret Next
   }"

definition op_SWAP :: "'b Machine \<Rightarrow> OpCode \<Rightarrow> ('b, flow) fm" where
  "op_SWAP M op = do {
     Swap (unat (op - SWAP1 + 2));
     _ \<leftarrow> Peek;
     ret Next
   }"

definition op_LOG :: "'b Machine \<Rightarrow> Call \<Rightarrow> OpCode \<Rightarrow> ('b, flow) fm" where
  "op_LOG M c op = do {
     let n = unat (op - LOG0);
     offset \<leftarrow> PopBigInt; size \<leftarrow> PopBigInt;
     topics \<leftarrow> State_Monad.traverse_list (\<lambda>_. Pop) [0..<n];
     data \<leftarrow> memory_Read M offset size;
     address \<leftarrow> toAddr M (callee c);
     err \<leftarrow> sink_Log (logFree c) address topics (nil_bytes data);
     pushErr err;
     ret Next
   }"

section \<open>Leaving the frame: 0xf3, 0xfd\<close>

definition op_RETURN :: "'b Machine \<Rightarrow> ('b, flow) fm" where
  "op_RETURN M = do {
     offset \<leftarrow> PopBigInt; size \<leftarrow> PopBigInt;
     output \<leftarrow> memory_Read M offset size;
     ret (Return output)
   }"

definition newRevertException :: "Crypto \<Rightarrow> bytes \<Rightarrow> goerr option" where
  "newRevertException X r =
    (if 0 < length r then
       (case cr_UnpackRevert X r of
          Some reason \<Rightarrow> ErrorCodef ErrorCodeExecutionReverted (''with reason '' @ [CHR 0x27] @ reason @ [CHR 0x27])
        | None \<Rightarrow> Some (ErrCode ErrorCodeExecutionReverted))
     else Some (ErrCode ErrorCodeExecutionReverted))"

definition op_REVERT :: "'b Machine \<Rightarrow> ('b, flow) fm" where
  "op_REVERT M = do {
     offset \<leftarrow> PopBigInt; size \<leftarrow> PopBigInt;
     output \<leftarrow> memory_Read M offset size;
     pushErr (newRevertException (crypto M) (nil_bytes output));
     ret (Return output)
   }"

definition op_INVALID :: "('b, flow) fm" where
  "op_INVALID = do { pushErr (Some (ErrCode ErrorCodeExecutionAborted)); ret (Return None) }"

definition op_unknown :: "OpCode \<Rightarrow> ('b, flow) fm" where
  "op_unknown op = do {
     pushErr (Errorf (''unknown opcode '' @ OpCode_Name op));
     ret (Return None)
   }"

end
