(* ===== verification/Bvm_VM.thy ===== *)
theory Bvm_VM
  imports Bvm_Ops
begin

unbundle bit_operations_syntax

text \<open>
  Calls between frames and the interpreter loop of \<open>bvm/vm.go\<close>: \<open>transfer\<close>, \<open>call\<close>, \<open>delegateCall\<close>,
  the instructions that create contracts, call, or destroy them, the switch, and \<open>execute\<close>. The
  instructions that start another frame take the function that executes it as the argument \<open>X\<close>;
  \<open>run\<close> closes the knot with fuel, of which every turn of a loop and every nested frame uses some.
  \<open>Bvm_Fuel\<close> shows how much is enough.
\<close>

section \<open>\<open>transfer\<close>, \<open>call\<close>, \<open>delegateCall\<close>\<close>

definition transfer :: "'b Machine \<Rightarrow> word160 \<Rightarrow> word160 \<Rightarrow> int \<Rightarrow> ('b, 'z, goerr option) vmm" where
  "transfer M sender recipient amount =
    (if amount = 0 then ret None
     else do {
       balance \<leftarrow> on_state (State_GetBalance (world M) sender);
       if balance < amount then ret (Some (ErrCode ErrorCodeInsufficientBalance))
       else do {
         on_state (State_SubtractFromBalance (world M) sender amount);
         on_state (State_AddToBalance (world M) recipient amount);
         err \<leftarrow> gets (\<lambda>f. st_error (callState f));
         case err of
           Some ex \<Rightarrow> ret (Some (ErrExn ex))
         | None \<Rightarrow> do { fireTransferEvent M sender recipient amount; ret None }
       }
     })"

definition ensureStackDepth :: "'b Machine \<Rightarrow> ('b, 'z, goerr option) vmm" where
  "ensureStackDepth M = gets (\<lambda>f.
     if 0 < p_CallStackMaxDepth (params M) \<and> stackDepth f = p_CallStackMaxDepth (params M)
     then Some (ErrCode ErrorCodeCallStackOverflow) else None)"

type_synonym 'b executor = "Call \<Rightarrow> int \<Rightarrow> ('b VM, bytes option) state"

text \<open>The part \<open>call\<close> and \<open>delegateCall\<close> have in common, after their pushes of errors.\<close>

definition run_code :: "'b executor \<Rightarrow> Call \<Rightarrow> int \<Rightarrow> ('b VM, bytes option \<times> Exception option) state" where
  "run_code X c v = do {
     early \<leftarrow> hasError;
     output \<leftarrow> (if early then ret None
       else if 0 < length (code c) then do {
         upd (\<lambda>vm. vm\<lparr>stackDepth := stackDepth vm + 1\<rparr>);
         output \<leftarrow> X c v;
         upd (\<lambda>vm. vm\<lparr>stackDepth := stackDepth vm - 1\<rparr>);
         ret output
       } else ret None);
     err \<leftarrow> gets (\<lambda>f. st_error (callState f));
     ret (output, err)
   }"

definition vm_call :: "'b Machine \<Rightarrow> 'b executor \<Rightarrow> Call \<Rightarrow> int \<Rightarrow>
    ('b VM, bytes option \<times> Exception option) state" where
  "vm_call M X c v = do {
     e \<leftarrow> transfer M (caller c) (callee c) v;
     pushErr e;
     e' \<leftarrow> ensureStackDepth M;
     pushErr e';
     run_code X c v
   }"

definition delegateCall :: "'b Machine \<Rightarrow> 'b executor \<Rightarrow> Call \<Rightarrow> int \<Rightarrow>
    ('b VM, bytes option \<times> Exception option) state" where
  "delegateCall M X c v = do {
     e' \<leftarrow> ensureStackDepth M;
     pushErr e';
     run_code X c v
   }"

section \<open>A frame inside a frame\<close>

text \<open>
  \<open>nested opts g m\<close> runs \<open>m\<close> on a state cached over the frame's own, with gas \<open>g\<close>. The child's cache
  is dropped at the end; what it read or synced is in the caches below it, which are the frame's
  again. The result carries the remaining gas.
\<close>

definition nested :: "CacheOption list \<Rightarrow> uint64 \<Rightarrow> ('b VM, 'a) state \<Rightarrow> ('b, 'a \<times> uint64) fm" where
  "nested opts g m = State (\<lambda>f.
     let child = \<lparr>callState = State_NewCache (callState f) opts, gas = g, vm_sequence = vm_sequence f,
           stackDepth = stackDepth f, events = events f, halt = halt f\<rparr>;
         (a, vm') = run_state m child
     in ((a, gas vm'), f\<lparr>callState := (callState f)\<lparr>chain := below (chain (callState vm'))\<rparr>,
          vm_sequence := vm_sequence vm', stackDepth := stackDepth vm', events := events vm',
          halt := halt vm'\<rparr>))"

definition createAccount :: "'b Machine \<Rightarrow> word160 \<Rightarrow> ('b, 'z, unit) vmm" where
  "createAccount M address = do {
     guard (IsRegisteredNativeContract (crypto M) address)
       (pushErr (ErrorCodef ErrorCodeReservedAddress (''cannot create account at '' @
         address_string address @ '' because that address is reserved for a native contract'')));
     on_state (State_CreateAccount (world M) address)
   }"

text \<open>The child's \<open>Sync\<close> after a call without error; its error goes to the caller.\<close>

definition sync_if :: "'b Machine \<Rightarrow> bool \<Rightarrow> ('b VM, goerr option) state" where
  "sync_if M b = (if b then on_state (State_Sync (world M)) else ret None)"

section \<open>\<open>CREATE\<close> and \<open>CREATE2\<close>\<close>

definition new_address :: "'b Machine \<Rightarrow> Call \<Rightarrow> OpCode \<Rightarrow> ('b, word160) fm" where
  "new_address M c op = do {
     let chainID = p_ChainID (params M);
     if op = CREATE then do {
       upd (\<lambda>f. f\<lparr>vm_sequence := vm_sequence f + 1\<rparr>);
       callerAddr \<leftarrow> toAddr M (caller c);
       addr \<leftarrow> or_panic ''slice bounds out of range'' ''''
         (CalcContractAddr (crypto M) callerAddr (vm_nonce M) chainID);
       toBVM M addr
     } else do {
       salt \<leftarrow> Pop;
       cd \<leftarrow> on_state (State_GetBVMCode (world M) (callee c));
       toBVM M (cr_secret_address (crypto M) (Word256_Bytes salt @ nil_bytes cd) chainID)
     }
   }"

definition create_child :: "'b Machine \<Rightarrow> 'b executor \<Rightarrow> Call \<Rightarrow> word160 \<Rightarrow> bytes \<Rightarrow> int \<Rightarrow>
    ('b VM, bytes option \<times> Exception option \<times> goerr option) state" where
  "create_child M X c newAccount inp contractValue = do {
     createAccount M newAccount;
     (out, callErr) \<leftarrow> vm_call M X \<lparr>caller = callee c, callee = newAccount, code = inp, input = inp,
       logFree = logFree c\<rparr> contractValue;
     guard (callErr = None) (on_state (State_InitCode (world M) newAccount out));
     syncErr \<leftarrow> sync_if M (callErr = None);
     ret (out, callErr, syncErr)
   }"

text \<open>From the child's cache to the result on the stack. The child uses the frame's own gas cell.\<close>

definition create_run :: "'b Machine \<Rightarrow> 'b executor \<Rightarrow> Call \<Rightarrow> word160 \<Rightarrow> bytes \<Rightarrow> int \<Rightarrow> ('b, flow) fm" where
  "create_run M X c newAccount inp contractValue = do {
     g \<leftarrow> gets gas;
     ((out, callErr, syncErr), g') \<leftarrow> nested [] g (create_child M X c newAccount inp contractValue);
     upd (\<lambda>f. f\<lparr>gas := g'\<rparr>);
     (if callErr \<noteq> None then do {
        Push M Zero256;
        upd (\<lambda>f. f\<lparr>returnData := out\<rparr>)
      } else do {
        pushErr syncErr;
        PushAddress M newAccount
      });
     ret Next
   }"

definition op_CREATE :: "'b Machine \<Rightarrow> 'b executor \<Rightarrow> Call \<Rightarrow> OpCode \<Rightarrow> ('b, flow) fm" where
  "op_CREATE M X c op = do {
     upd (\<lambda>f. f\<lparr>returnData := None\<rparr>);
     contractValue \<leftarrow> PopBigInt;
     offset \<leftarrow> PopBigInt; size \<leftarrow> PopBigInt;
     inp \<leftarrow> memory_Read M offset size;
     useGasNegative GasCreateAccount;
     newAccount \<leftarrow> new_address M c op;
     create_run M X c newAccount (nil_bytes inp) contractValue
   }"

section \<open>\<open>CALL\<close>, \<open>CALLCODE\<close>, \<open>DELEGATECALL\<close>, \<open>STATICCALL\<close>\<close>

text \<open>A native contract: run in a cache, its error pushed to the child's state only.\<close>

definition native_child :: "'b Machine \<Rightarrow> word160 \<Rightarrow> bytes \<Rightarrow>
    ('b VM, bytes option \<times> Exception option \<times> goerr option) state" where
  "native_child M address args = do {
     gl \<leftarrow> gets gas;
     ((out, callErr), gl') \<leftarrow> or_panic ''index out of range'' ((None, None), gl)
       (ExecuteNativeContract (crypto M) address args gl);
     upd (\<lambda>vm. vm\<lparr>gas := gl'\<rparr>);
     pushErr callErr;
     syncErr \<leftarrow> sync_if M (callErr = None);
     ret (out, AsException callErr, syncErr)
   }"

text \<open>
  The four cases of the inner switch. \<open>cd\<close> is the code at \<open>address\<close>, read from the calling state
  (reading it before the child's cache is created makes no difference).
\<close>

definition call_child :: "'b Machine \<Rightarrow> 'b executor \<Rightarrow> Call \<Rightarrow> OpCode \<Rightarrow> word160 \<Rightarrow> bytes \<Rightarrow> bytes \<Rightarrow> int \<Rightarrow>
    ('b VM, bytes option \<times> Exception option \<times> goerr option) state" where
  "call_child M X c op address cd args v = do {
     (out, callErr) \<leftarrow>
       (if op = CALL then
          vm_call M X \<lparr>caller = callee c, callee = address, code = cd, input = args, logFree = logFree c\<rparr> v
        else if op = CALLCODE then
          vm_call M X \<lparr>caller = callee c, callee = callee c, code = cd, input = args, logFree = logFree c\<rparr> v
        else if op = DELEGATECALL then
          delegateCall M X \<lparr>caller = caller c, callee = callee c, code = cd, input = args, logFree = logFree c\<rparr> v
        else
          delegateCall M X \<lparr>caller = callee c, callee = address, code = cd, input = args, logFree = True\<rparr> v);
     syncErr \<leftarrow> sync_if M (callErr = None);
     ret (out, callErr, syncErr)
   }"

definition call_options :: "OpCode \<Rightarrow> CacheOption list" where
  "call_options op = (if op = STATICCALL then [ReadOnly] else [])"

text \<open>The end of the case: the result on the stack, the output in memory, the gas back.\<close>

definition call_result :: "'b Machine \<Rightarrow> int \<Rightarrow> int \<Rightarrow> bytes option \<times> Exception option \<times> goerr option \<Rightarrow> uint64 \<Rightarrow>
    ('b, flow) fm" where
  "call_result M retOffset retSize res gasLimit = do {
     let (out, callErr, syncErr) = res;
     upd (\<lambda>f. f\<lparr>returnData := out\<rparr>);
     guard (callErr = None) (pushErr syncErr);
     (case callErr of
        Some ex \<Rightarrow> do {
          Push M Zero256;
          guard (ex_Code ex = ErrorCodeExecutionReverted)
            (memory_Write M retOffset (RightPadBytes (nil_bytes out) retSize))
        }
      | None \<Rightarrow> do {
          Push M One256;
          memory_Write M retOffset (RightPadBytes (nil_bytes out) retSize)
        });
     upd (\<lambda>f. f\<lparr>gas := gas f + gasLimit\<rparr>);
     ret Next
   }"

text \<open>
  An account that is called without existing: an error, except for \<open>CALL\<close>, which creates it. The
  result says whether the case goes on.
\<close>

definition ensure_callee :: "'b Machine \<Rightarrow> OpCode \<Rightarrow> word160 \<Rightarrow> ('b, bool) fm" where
  "ensure_callee M op address = do {
     ex \<leftarrow> on_state (State_Exists (world M) address);
     if ex then ret True
     else if op \<noteq> CALL then do {
       pushErr (Some (ErrCode ErrorCodeUnknownAddress));
       ret False
     } else do {
       createAccount M address;
       err \<leftarrow> hasError;
       ret (\<not> err)
     }
   }"

text \<open>The gas of the child: what the caller asked for, or all but one 64th when that is too much.\<close>

definition call_gas :: "uint64 \<Rightarrow> uint64 \<Rightarrow> uint64" where
  "call_gas g gasLimit = (if g < gasLimit then g - g div 64 else gasLimit)"

text \<open>The case of an address that is no native contract.\<close>

definition call_account :: "'b Machine \<Rightarrow> 'b executor \<Rightarrow> Call \<Rightarrow> OpCode \<Rightarrow> uint64 \<Rightarrow> word160 \<Rightarrow> int \<Rightarrow> int \<Rightarrow>
    bytes \<Rightarrow> ('b, flow) fm" where
  "call_account M X c op gasLimit address retOffset retSize args = do {
     useGasNegative GasGetAccount;
     go \<leftarrow> ensure_callee M op address;
     if \<not> go then ret Continue
     else do {
       cd \<leftarrow> on_state (State_GetBVMCode (world M) address);
       v \<leftarrow> gets val;
       (res, gl) \<leftarrow> nested (call_options op) gasLimit
         (call_child M X c op address (nil_bytes cd) args v);
       call_result M retOffset retSize res gl
     }
   }"

text \<open>From the gas the child gets to the end of the case.\<close>

definition call_run :: "'b Machine \<Rightarrow> 'b executor \<Rightarrow> Call \<Rightarrow> OpCode \<Rightarrow> uint64 \<Rightarrow> word160 \<Rightarrow> int \<Rightarrow> int \<Rightarrow>
    bytes \<Rightarrow> ('b, flow) fm" where
  "call_run M X c op gasLimit0 address retOffset retSize args = do {
     g \<leftarrow> gets gas;
     let gasLimit = call_gas g gasLimit0;
     upd (\<lambda>f. f\<lparr>gas := g - gasLimit\<rparr>);
     if IsRegisteredNativeContract (crypto M) address then do {
       (res, gl) \<leftarrow> nested [] gasLimit (native_child M address args);
       call_result M retOffset retSize res gl
     } else call_account M X c op gasLimit address retOffset retSize args
   }"

definition op_CALL :: "'b Machine \<Rightarrow> 'b executor \<Rightarrow> Call \<Rightarrow> OpCode \<Rightarrow> ('b, flow) fm" where
  "op_CALL M X c op = do {
     upd (\<lambda>f. f\<lparr>returnData := None\<rparr>);
     gasLimit0 \<leftarrow> PopU64;
     address \<leftarrow> PopAddress;
     guard (op \<noteq> DELEGATECALL \<and> op \<noteq> STATICCALL)
       (do { v \<leftarrow> PopBigInt; upd (\<lambda>f. f\<lparr>val := v\<rparr>) });
     inOffset \<leftarrow> PopBigInt; inSize \<leftarrow> PopBigInt;
     retOffset \<leftarrow> PopBigInt;
     retSize \<leftarrow> Pop64;
     args \<leftarrow> memory_Read M inOffset inSize;
     call_run M X c op gasLimit0 address retOffset retSize (nil_bytes args)
   }"

section \<open>\<open>SELFDESTRUCT\<close>\<close>

definition op_SELFDESTRUCT :: "'b Machine \<Rightarrow> Call \<Rightarrow> ('b, flow) fm" where
  "op_SELFDESTRUCT M c = do {
     receiver \<leftarrow> PopAddress;
     useGasNegative GasGetAccount;
     ex \<leftarrow> on_state (State_Exists (world M) receiver);
     go \<leftarrow> (if ex then ret True else do {
       useGasNegative GasCreateAccount;
       createAccount M receiver;
       err \<leftarrow> hasError;
       ret (\<not> err)
     });
     if \<not> go then ret Continue
     else do {
       balance \<leftarrow> on_state (State_GetBalance (world M) (callee c));
       on_state (State_AddToBalance (world M) receiver balance);
       on_state (State_RemoveAccount (world M) (callee c));
       fireTransferEvent M (callee c) receiver balance;
       ret (Return None)
     }
   }"

section \<open>The switch\<close>

definition exec_op :: "'b Machine \<Rightarrow> 'b executor \<Rightarrow> Call \<Rightarrow> OpCode \<Rightarrow> ('b, flow) fm" where
  "exec_op M X c op =
    (if op = ADD then op_ADD M
     else if op = MUL then op_MUL M
     else if op = SUB then op_SUB M
     else if op = DIV then op_DIV M
     else if op = SDIV then op_SDIV M
     else if op = MOD then op_MOD M
     else if op = SMOD then op_SMOD M
     else if op = ADDMOD then op_ADDMOD M
     else if op = MULMOD then op_MULMOD M
     else if op = EXP then op_EXP M
     else if op = SIGNEXTEND then op_SIGNEXTEND M
     else if op = LT then op_LT M
     else if op = GT then op_GT M
     else if op = SLT then op_SLT M
     else if op = SGT then op_SGT M
     else if op = EQ then op_EQ M
     else if op = ISZERO then op_ISZERO M
     else if op = AND_op then op_AND M
     else if op = OR_op then op_OR M
     else if op = XOR_op then op_XOR M
     else if op = NOT_op then op_NOT M
     else if op = BYTE then op_BYTE M
     else if op = SHL then op_SHL M
     else if op = SHR then op_SHR M
     else if op = SAR then op_SAR M
     else if op = SHA3 then op_SHA3 M
     else if op = ADDRESS then op_ADDRESS M c
     else if op = BALANCE then op_BALANCE M
     else if op = ORIGIN then op_ORIGIN M
     else if op = CALLER then op_CALLER M c
     else if op = CALLVALUE then op_CALLVALUE M
     else if op = CALLDATALOAD then op_CALLDATALOAD M c
     else if op = CALLDATASIZE then op_CALLDATASIZE M c
     else if op = CALLDATACOPY then op_CALLDATACOPY M c
     else if op = CODESIZE then op_CODESIZE M c
     else if op = CODECOPY then op_CODECOPY M c
     else if op = GASPRICE_DEPRECATED then op_GASPRICE M
     else if op = DIFFICULTY_DEPRECATED then op_DIFFICULTY M
     else if op = EXTCODESIZE then op_EXTCODESIZE M
     else if op = EXTCODECOPY then op_EXTCODECOPY M
     else if op = RETURNDATASIZE then op_RETURNDATASIZE M
     else if op = RETURNDATACOPY then op_RETURNDATACOPY M
     else if op = EXTCODEHASH then op_EXTCODEHASH M
     else if op = BLOCKHASH then op_BLOCKHASH M
     else if op = COINBASE then op_COINBASE M
     else if op = TIMESTAMP then op_TIMESTAMP M
     else if op = BLOCKHEIGHT then op_BLOCKHEIGHT M
     else if op = GASLIMIT then op_GASLIMIT M
     else if op = POP then op_POP M
     else if op = MLOAD then op_MLOAD M
     else if op = MSTORE then op_MSTORE M
     else if op = MSTORE8 then op_MSTORE8 M
     else if op = SLOAD then op_SLOAD M c
     else if op = SSTORE then op_SSTORE M c
     else if op = JUMP then op_JUMP M c
     else if op = JUMPI then op_JUMPI M c
     else if op = PC then op_PC M
     else if op = MSIZE then op_MSIZE M
     else if op = GAS then op_GAS M
     else if op = JUMPDEST then ret Next
     else if PUSH1 \<le> op \<and> op \<le> PUSH32 then op_PUSH M c op
     else if DUP1 \<le> op \<and> op \<le> DUP16 then op_DUP M op
     else if SWAP1 \<le> op \<and> op \<le> SWAP16 then op_SWAP M op
     else if LOG0 \<le> op \<and> op \<le> LOG4 then op_LOG M c op
     else if op = CREATE \<or> op = CREATE2 then op_CREATE M X c op
     else if op = CALL \<or> op = CALLCODE \<or> op = DELEGATECALL \<or> op = STATICCALL then op_CALL M X c op
     else if op = RETURN then op_RETURN M
     else if op = REVERT then op_REVERT M
     else if op = INVALID then op_INVALID
     else if op = SELFDESTRUCT then op_SELFDESTRUCT M c
     else if op = STOP then ret (Return None)
     else op_unknown op)"

section \<open>The loop\<close>

text \<open>One turn: fetch, the base gas, the switch, and \<open>pc++\<close>.\<close>

definition step :: "'b Machine \<Rightarrow> 'b executor \<Rightarrow> Call \<Rightarrow> ('b, flow) fm" where
  "step M X c = do {
     p \<leftarrow> gets pc;
     op \<leftarrow> getOp (code c) p;
     useGasNegative GasBaseOp;
     r \<leftarrow> exec_op M X c op;
     guard (r = Next) (upd (\<lambda>f. f\<lparr>pc := pc f + 1\<rparr>));
     ret r
   }"

text \<open>The local variables \<open>execute\<close> starts with, and their end.\<close>

definition enter :: "'b Machine \<Rightarrow> int \<Rightarrow> 'b VM \<Rightarrow> 'b Frame" where
  "enter M v vm = \<lparr>callState = callState vm, gas = gas vm, vm_sequence = vm_sequence vm,
     stackDepth = stackDepth vm, events = events vm, halt = halt vm,
     st_slice = replicate (unat (p_DataStackInitialCapacity (params M))) Zero256, st_ptr = 0,
     mem = replicate (memInitial M) 0, pc = 0, returnData = None, val = v\<rparr>"

definition leave :: "'b Frame \<Rightarrow> 'b VM" where
  "leave f = \<lparr>callState = callState f, gas = gas f, vm_sequence = vm_sequence f,
     stackDepth = stackDepth f, events = events f, halt = halt f\<rparr>"

definition in_frame :: "'b Machine \<Rightarrow> (Call \<Rightarrow> ('b, bytes option) fm) \<Rightarrow> 'b executor" where
  "in_frame M loop c v = State (\<lambda>vm. let (out, f) = run_state (loop c) (enter M v vm) in (out, leave f))"

text \<open>The early \<open>return\<close> on an error returns the named result \<open>returnData\<close>.\<close>

primrec run :: "nat \<Rightarrow> 'b Machine \<Rightarrow> Call \<Rightarrow> ('b, bytes option) fm" where
  "run 0 M c = do { halt_with OutOfFuel; gets returnData }"
| "run (Suc n) M c = do {
     err \<leftarrow> hasError;
     halted \<leftarrow> gets (\<lambda>f. halt f \<noteq> None);
     if err \<or> halted then gets returnData
     else do {
       r \<leftarrow> step M (in_frame M (run n M)) c;
       case r of
         Return output \<Rightarrow> ret output
       | _ \<Rightarrow> run n M c
     }
   }"

definition execute :: "nat \<Rightarrow> 'b Machine \<Rightarrow> 'b executor" where
  "execute n M = in_frame M (run n M)"

text \<open>\<open>Call\<close>, the entry point: output and error.\<close>

definition VM_Call :: "nat \<Rightarrow> 'b Machine \<Rightarrow> Call \<Rightarrow> int \<Rightarrow> ('b VM, bytes option \<times> Exception option) state" where
  "VM_Call n M c v = do {
     (output, err) \<leftarrow> vm_call M (execute n M) c v;
     stErr \<leftarrow> gets (\<lambda>f. st_error (callState f));
     ret (output, if err = None then stErr else err)
   }"

text \<open>The \<open>VM\<close> struct as \<open>NewVM\<close> leaves it, over the state and gas of a transaction.\<close>

definition start_vm :: "'b State \<Rightarrow> uint64 \<Rightarrow> 'b VM" where
  "start_vm st g = \<lparr>callState = st, gas = g, vm_sequence = 0, stackDepth = 1, events = [], halt = None\<rparr>"

end
