(* ===== verification/Bvm_Effect.thy ===== *)
theory Bvm_Effect
  imports Bvm_VM
begin

text \<open>
  A method for facts that hold of every instruction: a computation respects a relation when it
  relates the state before to the state after. The locale \<open>effect\<close> gives the rules for the
  combinators of the state monad; \<open>vm_effect\<close> assumes that the steps all frames share (errors,
  events, one access to the account state) respect the relation, \<open>frame_effect\<close> adds the steps of
  one frame (gas, stack, memory), and proves once that every instruction inside a frame does.
  \<open>Bvm_Nested\<close> extends this to whole runs.
\<close>

definition resp :: "('s \<Rightarrow> 's \<Rightarrow> bool) \<Rightarrow> ('s, 'a) state \<Rightarrow> bool" where
  "resp R m \<longleftrightarrow> (\<forall>s. R s (snd (run_state m s)))"

lemma respD: "resp R m \<Longrightarrow> run_state m s = (a, s') \<Longrightarrow> R s s'"
  by (metis resp_def snd_conv)

named_theorems resp_rules \<open>rules for the combinators, inside the locale\<close>

locale effect =
  fixes R :: "'s \<Rightarrow> 's \<Rightarrow> bool"
  assumes R_refl: "R s s"
    and R_trans: "R s t \<Longrightarrow> R t u \<Longrightarrow> R s u"
begin

lemma resp_ret: "resp R (ret x)"
  by (simp add: resp_def R_refl)

lemma resp_bind:
  assumes "resp R m" "\<And>x. resp R (k x)"
  shows "resp R (State_Monad.bind m k)"
  unfolding resp_def
proof
  fix s
  obtain a t where m: "run_state m s = (a, t)" by fastforce
  obtain b u where k: "run_state (k a) t = (b, u)" by fastforce
  have "R s t" "R t u" using respD [OF assms(1) m] respD [OF assms(2) k] .
  then show "R s (snd (run_state (State_Monad.bind m k) s))"
    using R_trans m k by simp
qed

lemma resp_get: "resp R State_Monad.get"
  by (simp add: resp_def R_refl)

lemma resp_gets: "resp R (gets g)"
  by (simp add: resp_def gets_def R_refl)

lemma resp_upd: "(\<And>s. R s (g s)) \<Longrightarrow> resp R (upd g)"
  by (simp add: resp_def upd_def)

lemma resp_if: "(b \<Longrightarrow> resp R m) \<Longrightarrow> (\<not> b \<Longrightarrow> resp R n) \<Longrightarrow> resp R (if b then m else n)"
  by simp

lemma resp_guard: "(b \<Longrightarrow> resp R m) \<Longrightarrow> resp R (guard b m)"
  by (simp add: guard_def resp_ret)

lemma resp_option: "(x = None \<Longrightarrow> resp R m) \<Longrightarrow> (\<And>y. x = Some y \<Longrightarrow> resp R (n y)) \<Longrightarrow> resp R (case x of None \<Rightarrow> m | Some y \<Rightarrow> n y)"
  by (simp split: option.split)

lemma resp_sum: "(\<And>y. resp R (m y)) \<Longrightarrow> (\<And>y. resp R (n y)) \<Longrightarrow> resp R (case x of Inl y \<Rightarrow> m y | Inr y \<Rightarrow> n y)"
  by (simp split: sum.split)

lemma resp_prod: "(\<And>y z. resp R (m y z)) \<Longrightarrow> resp R (case x of (y, z) \<Rightarrow> m y z)"
  by (simp split: prod.split)

lemma resp_prod_arg: "(\<And>y z. resp R (m y z w)) \<Longrightarrow> resp R ((case x of (y, z) \<Rightarrow> m y z) w)"
  by (simp split: prod.split)

lemma resp_let: "resp R (k e) \<Longrightarrow> resp R (Let e k)"
  by simp

lemma resp_traverse: "(\<And>x. resp R (g x)) \<Longrightarrow> resp R (State_Monad.traverse_list g xs)"
  by (induction xs) (auto intro!: resp_ret resp_bind)

lemmas resp_combinators = resp_ret resp_bind resp_get resp_gets resp_if resp_guard resp_option resp_sum
  resp_prod resp_prod_arg resp_let resp_traverse

end

section \<open>Access to the account state as single steps\<close>

lemma on_state_bind: "on_state (State_Monad.bind m k) = State_Monad.bind (on_state m) (\<lambda>x. on_state (k x))"
  by (rule state_ext) (auto simp: on_state_def Let_def split: prod.splits)

lemma on_state_ret: "on_state (ret x) = ret x"
  by (rule state_ext) (simp add: on_state_def)

lemma on_state_if: "on_state (if b then m else n) = (if b then on_state m else on_state n)"
  by simp

lemma on_state_option: "on_state (case x of None \<Rightarrow> m | Some y \<Rightarrow> n y) = (case x of None \<Rightarrow> on_state m | Some y \<Rightarrow> on_state (n y))"
  by (simp split: option.split)

lemma on_state_sum: "on_state (case x of Inl y \<Rightarrow> m y | Inr y \<Rightarrow> n y) = (case x of Inl y \<Rightarrow> on_state (m y) | Inr y \<Rightarrow> on_state (n y))"
  by (simp split: sum.split)

lemma on_state_prod: "on_state (case x of (y, z) \<Rightarrow> m y z) = (case x of (y, z) \<Rightarrow> on_state (m y z))"
  by (simp split: prod.split)

lemma on_state_Let: "on_state (Let e k) = Let e (\<lambda>x. on_state (k x))"
  by simp

lemmas on_state_push = on_state_bind on_state_ret on_state_if on_state_option on_state_sum on_state_prod
  on_state_Let pushErr_def [symmetric]

lemmas State_defs = State_account_def State_mustAccount_def State_updateAccount_def State_removeAccount_def
  State_GetStorage_def State_GetBalance_def State_GetBVMCode_def State_GetWASMCode_def State_GetToken_def
  cache_GetToken_def State_Exists_def State_GetBlockHash_def State_CreateAccount_def init_code_def
  State_InitCode_def State_InitWASMCode_def State_RemoveAccount_def State_SetStorage_def
  State_AddToBalance_def State_SubtractFromBalance_def

section \<open>Computations on the machine\<close>

text \<open>The contract of a relation: it holds of every step all frames share.\<close>

locale vm_effect = effect R for R :: "('b, 'z) VM_scheme \<Rightarrow> ('b, 'z) VM_scheme \<Rightarrow> bool" +
  fixes M :: "'b Machine"
  assumes r_pushErr: "resp R (pushErr err)"
    and r_go_panic: "resp R (go_panic msg)"
    and r_fire: "R f (f\<lparr>events := events f @ es\<rparr>)"
    and r_GetAccount: "resp R (on_state (on_chain (Cache_GetAccount (rw (world M)) a)))"
    and r_GetStorage: "resp R (on_state (on_chain (Cache_GetStorage (rw (world M)) a k)))"
    and r_GetToken: "resp R (on_state (on_chain (token_below (world M))))"
    and r_UpdateAccount: "resp R (on_state (on_chain (Cache_UpdateAccount (rw (world M)) acc)))"
    and r_RemoveAccount: "resp R (on_state (on_chain (Cache_RemoveAccount (rw (world M)) a)))"
    and r_SetStorage: "resp R (on_state (on_chain (Cache_SetStorage (rw (world M)) a k bs)))"
begin

lemmas vm_prim = r_pushErr r_go_panic r_GetAccount r_GetStorage r_GetToken r_UpdateAccount r_RemoveAccount
  r_SetStorage

lemma r_events: "resp R (upd (\<lambda>f. f\<lparr>events := events f @ h' f\<rparr>))"
  by (auto intro: resp_upd r_fire)

lemma r_or_panic: "resp R (or_panic msg d x)"
  unfolding or_panic_def by (intro resp_combinators resp_bind r_go_panic)

lemma r_state:
  "resp R (on_state (State_GetStorage (world M) a k))" "resp R (on_state (State_GetBalance (world M) a))"
  "resp R (on_state (State_GetBVMCode (world M) a))" "resp R (on_state (State_GetToken (world M)))"
  "resp R (on_state (State_Exists (world M) a))" "resp R (on_state (State_GetBlockHash (world M) n))"
  "resp R (on_state (State_CreateAccount (world M) a))" "resp R (on_state (State_RemoveAccount (world M) a))"
  "resp R (on_state (State_SetStorage (world M) a k bs))" "resp R (on_state (State_AddToBalance (world M) a i))"
  "resp R (on_state (State_SubtractFromBalance (world M) a i))"
  unfolding State_defs on_state_push by (intro resp_combinators resp_bind vm_prim)+

lemma r_events_fired:
  "resp R (toAddr M a)" "resp R (toBVM M s)" "resp R (fireTransferEvent M a a' i)"
  "resp R (sink_Log free s ts bs)"
  unfolding toAddr_def toBVM_def fireTransferEvent_def sink_Log_def CallTransfer_def
  by (intro resp_combinators resp_bind vm_prim r_or_panic r_events r_state)+

lemmas vm_rules = resp_combinators vm_prim r_events r_or_panic r_state r_events_fired

lemma r_createAccount: "resp R (createAccount M a)"
  unfolding createAccount_def by (intro vm_rules resp_bind)

lemma r_transfer: "resp R (transfer M a a' i)"
  unfolding transfer_def by (intro vm_rules resp_bind)

end

section \<open>The instructions inside a frame\<close>

locale frame_effect = vm_effect R M for R :: "'b Frame \<Rightarrow> 'b Frame \<Rightarrow> bool" and M :: "'b Machine" +
  assumes r_useGas: "resp R (useGasNegative g)"
    and r_pc: "R f (f\<lparr>pc := p\<rparr>)"
    and r_returnData: "R f (f\<lparr>returnData := r\<rparr>)"
    and r_val: "R f (f\<lparr>val := v\<rparr>)"
    and r_sequence: "R f (f\<lparr>vm_sequence := q\<rparr>)"
    and r_Push: "resp R (Push M d)"
    and r_Pop: "resp R Pop"
    and r_Swap: "0 < n \<Longrightarrow> resp R (Swap n)"
    and r_Dup: "resp R (Dup M n)"
    and r_read: "resp R (mem_read M o1 l1)"
    and r_write: "resp R (mem_write M o1 bs)"
begin

lemmas prim = r_useGas r_Push r_Pop r_Dup r_read r_write

lemma r_upd:
  "resp R (upd (\<lambda>f. f\<lparr>pc := g f\<rparr>))" "resp R (upd (\<lambda>f. f\<lparr>returnData := g' f\<rparr>))"
  "resp R (upd (\<lambda>f. f\<lparr>val := g'' f\<rparr>))" "resp R (upd (\<lambda>f. f\<lparr>vm_sequence := h f\<rparr>))"
  by (auto intro: resp_upd r_pc r_returnData r_val r_sequence)

lemma r_stack:
  "resp R (PushBytes M bs)" "resp R (PushAddress M a)" "resp R (Push64 M i)" "resp R (PushU64 M w)"
  "resp R (PushBigInt M i)" "resp R PopAddress" "resp R Pop64" "resp R PopU64" "resp R PopBigInt"
  "resp R PopBigIntSigned" "resp R Peek"
  unfolding PushBytes_def PushAddress_def Push64_def PushU64_def PushBigInt_def PopAddress_def Pop64_def
    PopU64_def PopBigInt_def PopBigIntSigned_def Peek_def
  by (intro resp_combinators resp_bind prim r_or_panic r_go_panic r_pushErr)+

lemma r_memory:
  "resp R (memory_Read M i j)" "resp R (memory_Write M i bs)" "resp R memory_Capacity"
  unfolding memory_Read_def memory_Write_def memory_Capacity_def by (intro resp_combinators resp_bind prim r_pushErr)+

lemmas rules = vm_rules prim r_upd r_stack r_memory

lemma r_helpers:
  "resp R (subSlice bs i j)" "resp R (getOp bs i)" "resp R (jump bs i)" "resp R (pad_word d)"
  "resp R (copy_to_memory M bs)" "resp R (push_bool M b)"
  unfolding subSlice_def getOp_def jump_def pad_word_def copy_to_memory_def push_bool_def
  by (intro rules resp_bind | simp only: Let_def)+

lemma r_arith:
  "resp R (op_ADD M)" "resp R (op_MUL M)" "resp R (op_SUB M)" "resp R (op_DIV M)" "resp R (op_SDIV M)"
  "resp R (op_MOD M)" "resp R (op_SMOD M)" "resp R (op_ADDMOD M)" "resp R (op_MULMOD M)" "resp R (op_EXP M)"
  "resp R (op_SIGNEXTEND M)"
  unfolding op_ADD_def op_MUL_def op_SUB_def op_DIV_def op_SDIV_def op_MOD_def op_SMOD_def op_ADDMOD_def
    op_MULMOD_def op_EXP_def op_SIGNEXTEND_def
  by (intro rules resp_bind)+

lemma r_compare:
  "resp R (op_LT M)" "resp R (op_GT M)" "resp R (op_SLT M)" "resp R (op_SGT M)" "resp R (op_EQ M)"
  "resp R (op_ISZERO M)" "resp R (op_AND M)" "resp R (op_OR M)" "resp R (op_XOR M)" "resp R (op_NOT M)"
  "resp R (op_BYTE M)" "resp R (op_SHL M)" "resp R (op_SHR M)" "resp R (op_SAR M)" "resp R (op_SHA3 M)"
  unfolding op_LT_def op_GT_def op_SLT_def op_SGT_def op_EQ_def op_ISZERO_def op_AND_def op_OR_def op_XOR_def
    op_NOT_def op_BYTE_def op_SHL_def op_SHR_def op_SAR_def op_SHA3_def
  by (intro rules r_helpers resp_bind)+

lemma r_closure:
  "resp R (op_ADDRESS M c)" "resp R (op_BALANCE M)" "resp R (op_ORIGIN M)" "resp R (op_CALLER M c)"
  "resp R (op_CALLVALUE M)" "resp R (op_CALLDATALOAD M c)" "resp R (op_CALLDATASIZE M c)"
  "resp R (op_CALLDATACOPY M c)" "resp R (op_CODESIZE M c)" "resp R (op_CODECOPY M c)" "resp R (op_GASPRICE M)"
  "resp R (op_DIFFICULTY M)" "resp R (op_EXTCODESIZE M)" "resp R (op_EXTCODECOPY M)"
  "resp R (op_RETURNDATASIZE M)" "resp R (op_RETURNDATACOPY M)" "resp R (op_EXTCODEHASH M)"
  unfolding op_ADDRESS_def op_BALANCE_def op_ORIGIN_def op_CALLER_def op_CALLVALUE_def op_CALLDATALOAD_def
    op_CALLDATASIZE_def op_CALLDATACOPY_def op_CODESIZE_def op_CODECOPY_def op_GASPRICE_def op_DIFFICULTY_def
    op_EXTCODESIZE_def op_EXTCODECOPY_def op_RETURNDATASIZE_def op_RETURNDATACOPY_def op_EXTCODEHASH_def
  by (intro rules r_helpers resp_bind)+

lemma r_block:
  "resp R (op_BLOCKHASH M)" "resp R (op_COINBASE M)" "resp R (op_TIMESTAMP M)" "resp R (op_BLOCKHEIGHT M)"
  "resp R (op_GASLIMIT M)"
  unfolding op_BLOCKHASH_def op_COINBASE_def op_TIMESTAMP_def op_BLOCKHEIGHT_def op_GASLIMIT_def
  by (intro rules r_helpers resp_bind)+

lemma r_flow:
  "resp R (op_POP M)" "resp R (op_MLOAD M)" "resp R (op_MSTORE M)" "resp R (op_MSTORE8 M)" "resp R (op_SLOAD M c)"
  "resp R (op_SSTORE M c)" "resp R (op_JUMP M c)" "resp R (op_JUMPI M c)" "resp R (op_PC M)" "resp R (op_MSIZE M)"
  "resp R (op_GAS M)" "resp R (op_PUSH M c op)" "resp R (op_DUP M op)" "resp R (op_LOG M c op)"
  "resp R (op_RETURN M)" "resp R (op_REVERT M)" "resp R op_INVALID" "resp R (op_unknown op)"
  unfolding op_POP_def op_MLOAD_def op_MSTORE_def op_MSTORE8_def op_SLOAD_def op_SSTORE_def op_JUMP_def op_JUMPI_def
    op_PC_def op_MSIZE_def op_GAS_def op_PUSH_def op_DUP_def op_LOG_def op_RETURN_def op_REVERT_def
    op_INVALID_def op_unknown_def
  by (intro rules r_helpers resp_bind)+

lemma r_SWAP:
  assumes "SWAP1 \<le> op" "op \<le> SWAP16"
  shows "resp R (op_SWAP M op)"
proof -
  have "0 < unat (op - SWAP1 + 2)"
  proof -
    have "op - SWAP1 \<le> SWAP16 - SWAP1" using assms by (intro word_le_minus_mono_left)
    then have "unat (op - SWAP1) \<le> 15" by (simp add: SWAP1_def SWAP16_def word_le_nat_alt)
    then show ?thesis by (simp add: unat_word_ariths)
  qed
  then show ?thesis unfolding op_SWAP_def by (intro rules r_Swap resp_bind)
qed

lemma r_SELFDESTRUCT: "resp R (op_SELFDESTRUCT M c)"
  unfolding op_SELFDESTRUCT_def hasError_def by (intro rules r_helpers r_createAccount resp_bind)

lemma r_CREATE:
  assumes "\<And>a inp v. resp R (create_run M X c a inp v)"
  shows "resp R (op_CREATE M X c op)"
  unfolding op_CREATE_def new_address_def by (intro rules resp_bind assms)

lemma r_CALL:
  assumes "\<And>gl a ro rs args. resp R (call_run M X c op gl a ro rs args)"
  shows "resp R (op_CALL M X c op)"
  unfolding op_CALL_def by (intro rules resp_bind assms)

text \<open>The whole switch, when the instructions that run other frames respect the relation.\<close>

lemma r_exec_op:
  assumes "\<And>a inp v. resp R (create_run M X c a inp v)"
    and "\<And>gl a ro rs args. resp R (call_run M X c op gl a ro rs args)"
  shows "resp R (exec_op M X c op)"
  unfolding exec_op_def
  by (intro resp_if resp_ret r_arith r_compare r_closure r_block r_flow r_SWAP r_SELFDESTRUCT
      r_CREATE [OF assms(1)] r_CALL [OF assms(2)]) auto

lemma r_step:
  assumes "\<And>a inp v. resp R (create_run M X c a inp v)"
    and "\<And>op gl a ro rs args. resp R (call_run M X c op gl a ro rs args)"
  shows "resp R (step M X c)"
  unfolding step_def by (intro rules r_helpers resp_bind r_exec_op assms)

lemma r_run:
  assumes "\<And>n a inp v. resp R (create_run M (in_frame M (run n M)) c a inp v)"
    and "\<And>n op gl a ro rs args. resp R (call_run M (in_frame M (run n M)) c op gl a ro rs args)"
    and "resp R (halt_with OutOfFuel)"
  shows "resp R (run n M c)"
proof (induction n)
  case (Suc n)
  show ?case unfolding run.simps hasError_def
  proof (intro rules resp_bind r_step assms)
    show "resp R (case r of Return output \<Rightarrow> ret output | _ \<Rightarrow> run n M c)" for r
      using Suc by (cases r) (simp_all add: resp_ret)
  qed
qed (simp, intro rules resp_bind assms)

lemma r_ensure_callee: "resp R (ensure_callee M op a)"
  unfolding ensure_callee_def hasError_def by (intro rules r_helpers r_createAccount resp_bind)

end

end
