(* ===== verification/Bvm_Nested.thy ===== *)
theory Bvm_Nested
  imports Bvm_Effect
begin

text \<open>
  Whole runs. \<open>child_effect\<close> is the contract of a relation on the state of a called frame, for the
  steps around its code: creating accounts, installing code, \<open>Sync\<close>. \<open>run_effect\<close> connects a
  relation on frames with one on their children, and proves that every run respects them.
\<close>

section \<open>The children\<close>

locale child_effect = vm_effect Q M for Q :: "'b VM \<Rightarrow> 'b VM \<Rightarrow> bool" and M :: "'b Machine" +
  assumes r_own_token: "resp Q (on_state (on_chain (Cache_GetToken (rw (world M)))))"
    and r_sync: "resp Q (on_state (State_Sync (world M)))"
begin

lemma r_sync_if: "resp Q (sync_if M q)"
  unfolding sync_if_def by (intro resp_combinators r_sync)

lemma r_InitCode: "resp Q (on_state (State_InitCode (world M) a cd))"
  unfolding State_defs on_state_push by (intro vm_rules resp_bind r_own_token)

lemma r_native_child: "(\<And>vm g. Q vm (vm\<lparr>gas := g\<rparr>)) \<Longrightarrow> resp Q (native_child M a args)"
  unfolding native_child_def by (intro vm_rules resp_bind r_sync_if resp_upd)

lemma r_vm_call:
  assumes "\<And>c v. resp Q (delegateCall M X c v)"
  shows "resp Q (vm_call M X c v)"
proof -
  have "vm_call M X c v = do { e \<leftarrow> transfer M (caller c) (callee c) v; pushErr e; delegateCall M X c v }"
    by (simp add: vm_call_def delegateCall_def)
  then show ?thesis by (simp only:) (intro vm_rules resp_bind r_transfer assms)
qed

lemma r_create_child:
  assumes "\<And>c v. resp Q (delegateCall M X c v)"
  shows "resp Q (create_child M X c a inp v)"
  unfolding create_child_def by (intro vm_rules resp_bind r_createAccount r_vm_call r_InitCode r_sync_if assms)

lemma r_call_child:
  assumes "\<And>c v. resp Q (delegateCall M X c v)"
  shows "resp Q (call_child M X c op a cd args v)"
  unfolding call_child_def by (intro vm_rules resp_bind r_vm_call r_sync_if assms)

end

section \<open>Instructions that run children, for relations that do not look at the gas\<close>

locale gas_free_effect = frame_effect R M for R :: "'b Frame \<Rightarrow> 'b Frame \<Rightarrow> bool" and M :: "'b Machine" +
  assumes r_set_gas: "R f (f\<lparr>gas := g\<rparr>)"
begin

lemma r_upd_gas: "resp R (upd (\<lambda>f. f\<lparr>gas := k f\<rparr>))"
  by (intro resp_upd r_set_gas)

lemma r_call_result: "resp R (call_result M ro rs res g)"
  unfolding call_result_def by (intro rules resp_bind r_upd_gas)

lemma r_create_run_at:
  assumes "resp R (nested [] (gas f) (create_child M X c a inp v))"
  shows "R f (snd (run_state (create_run M X c a inp v) f))"
proof -
  let ?k = "\<lambda>g. do {
     ((out, callErr, syncErr), g') \<leftarrow> nested [] g (create_child M X c a inp v);
     upd (\<lambda>f. f\<lparr>gas := g'\<rparr>);
     (if callErr \<noteq> None then do { Push M Zero256; upd (\<lambda>f. f\<lparr>returnData := out\<rparr>) }
      else do { pushErr syncErr; PushAddress M a });
     ret Next }"
  have "resp R (?k (gas f))" by (intro rules resp_bind r_upd_gas assms)
  then show ?thesis by (simp add: create_run_def gets_def resp_def)
qed

lemma r_call_account:
  assumes "\<And>cd v. resp R (nested (call_options op) gl (call_child M X c op a cd args v))"
  shows "resp R (call_account M X c op gl a ro rs args)"
  unfolding call_account_def by (intro rules resp_bind r_ensure_callee r_call_result assms)

lemma r_call_run_at:
  assumes "resp R (nested [] (call_gas (gas f) gl0) (native_child M a args))"
    and "\<And>cd v. resp R (nested (call_options op) (call_gas (gas f) gl0) (call_child M X c op a cd args v))"
  shows "R f (snd (run_state (call_run M X c op gl0 a ro rs args) f))"
proof -
  let ?gl = "call_gas (gas f) gl0"
  let ?k = "do {
     upd (\<lambda>f'. f'\<lparr>gas := gas f - ?gl\<rparr>);
     if IsRegisteredNativeContract (crypto M) a then do {
       (res, gl) \<leftarrow> nested [] ?gl (native_child M a args);
       call_result M ro rs res gl
     } else call_account M X c op ?gl a ro rs args }"
  have "resp R ?k" by (intro rules resp_bind r_upd_gas r_call_result r_call_account assms)
  moreover have "run_state (call_run M X c op gl0 a ro rs args) f = run_state ?k f"
    by (simp only: call_run_def gets_def run_state_bind Let_def prod.case state.sel)
  ultimately show ?thesis unfolding resp_def by simp
qed

end

section \<open>Runs\<close>

text \<open>
  A relation on frames, a relation on children, and the two places where they meet: a nested frame
  changes its caller's frame through what it left of the caller's state, and the code of a child
  runs as a frame.
\<close>

locale run_effect = gas_free_effect R M + sub: child_effect Q M
  for R :: "'b Frame \<Rightarrow> 'b Frame \<Rightarrow> bool" and Q :: "'b VM \<Rightarrow> 'b VM \<Rightarrow> bool" and M :: "'b Machine" +
  assumes r_fuel: "resp R (halt_with OutOfFuel)"
    and r_child_gas: "Q vm (vm\<lparr>gas := g\<rparr>)"
    and nest_law: "\<And>m :: ('b VM, bytes option \<times> Exception option \<times> goerr option) state.
      resp Q m \<Longrightarrow> resp R (nested opts g m)"
    and code_law: "(\<And>c. resp R (loop c)) \<Longrightarrow> resp Q (delegateCall M (in_frame M loop) c v)"
begin

lemma r_children:
  assumes "\<And>c. resp R (run n M c)"
  shows "resp R (create_run M (in_frame M (run n M)) c a inp v)"
    "resp R (call_run M (in_frame M (run n M)) c op gl a ro rs args)"
  unfolding resp_def
  by (intro allI r_create_run_at nest_law sub.r_create_child code_law assms)
    (intro allI r_call_run_at nest_law sub.r_call_child sub.r_native_child r_child_gas code_law assms)

lemma r_runs: "resp R (run n M c)"
proof (induction n arbitrary: c)
  case (Suc n)
  show ?case unfolding run.simps hasError_def
  proof (intro rules resp_bind r_step r_children Suc)
    show "resp R (case r of Return output \<Rightarrow> ret output | _ \<Rightarrow> run n M c)" for r
      using Suc by (cases r) (simp_all add: resp_ret)
  qed
qed (simp, intro rules resp_bind r_fuel)

lemma r_exec: "resp R (exec_op M (in_frame M (run n M)) c op)"
  by (intro r_exec_op r_children r_runs)

lemma r_turn: "resp R (step M (in_frame M (run n M)) c)"
  by (intro r_step r_children r_runs)

lemma r_code: "resp Q (delegateCall M (execute n M) c v)"
  unfolding execute_def by (rule code_law [OF r_runs])

lemma r_Call: "resp Q (VM_Call n M c v)"
  unfolding VM_Call_def by (intro sub.vm_rules sub.resp_bind sub.r_vm_call r_code)

end

end
