(* ===== verification/Bvm_Order.thy ===== *)
theory Bvm_Order
  imports Bvm_Nested
begin

text \<open>
  What every run keeps, whatever the contract does: the first error of a frame stays its error, the
  events of the transaction are only appended to, the call depth is restored, and a panic of the Go
  program is never undone.
\<close>

definition grows :: "('b, 'z) VM_scheme \<Rightarrow> ('b, 'z) VM_scheme \<Rightarrow> bool" where
  "grows s s' \<longleftrightarrow> (\<forall>e. st_error (callState s) = Some e \<longrightarrow> st_error (callState s') = Some e)
    \<and> (\<exists>es. events s' = events s @ es) \<and> stackDepth s' = stackDepth s
    \<and> (\<forall>h. halt s = Some h \<longrightarrow> halt s' = Some h)
    \<and> cacheOptions (callState s') = cacheOptions (callState s)"

lemma growsI:
  assumes "st_error (callState s') = st_error (callState s)" "events s' = events s @ es" "stackDepth s' = stackDepth s"
    "halt s' = halt s" "cacheOptions (callState s') = cacheOptions (callState s)"
  shows "grows s s'"
  using assms by (auto simp: grows_def)

lemma grows_refl: "grows s s"
  by (rule growsI [where es = "[]"]) simp_all

lemma grows_trans: "grows s t \<Longrightarrow> grows t u \<Longrightarrow> grows s u"
  by (auto simp: grows_def)

interpretation growE: effect grows
  by unfold_locales (rule grows_refl, rule grows_trans)

lemma run_on_state: "run_state (on_state m) s = (fst (run_state m (callState s)), s\<lparr>callState := snd (run_state m (callState s))\<rparr>)"
  by (simp add: on_state_def Let_def split: prod.split)

lemma run_on_chain: "run_state (on_chain g) st = (fst (g (chain st)), st\<lparr>chain := snd (g (chain st))\<rparr>)"
  by (simp add: on_chain_def split: prod.split)

lemma run_pushErr: "run_state (pushErr err) s = ((), s\<lparr>callState := (callState s)\<lparr>st_error := PushError err (st_error (callState s))\<rparr>\<rparr>)"
  by (simp add: pushErr_def run_on_state State_PushError_def)

lemma PushError_code_ne: "PushError (Some (ErrCode c)) se \<noteq> None"
  by (simp add: PushError_eq_None)

lemma grows_chain: "resp grows (on_state (on_chain g))"
  by (auto simp: resp_def run_on_state run_on_chain intro: growsI)

lemma grows_pushErr: "resp grows (pushErr err)"
  by (auto simp: resp_def pushErr_def run_on_state State_PushError_def grows_def)

lemma grows_halt: "resp grows (halt_with h)"
  by (auto simp: resp_def halt_with_def upd_def grows_def split: option.splits)

lemma grows_fire: "grows s (s\<lparr>events := events s @ es\<rparr>)"
  by (auto intro: growsI)

lemmas grows_vm = grows_pushErr grows_halt [of "GoPanic _", folded go_panic_def] grows_fire grows_chain

lemma grows_gas: "resp grows (useGasNegative g)" "resp grows (stack_useGas g)"
  unfolding useGasNegative_def stack_useGas_def
  by (intro growE.resp_bind growE.resp_combinators grows_pushErr growE.resp_upd growsI [where es = "[]"]; simp)+

lemma resp_set:
  assumes "\<And>f. R f (k f)" shows "resp R (upd k)"
  using assms by (simp add: resp_def upd_def)

lemma grows_frame:
  fixes M :: "'b Machine"
  shows "resp grows (Push M d)" "resp grows (Pop :: ('b, word256) fm)" "resp grows (Swap n :: ('b, unit) fm)"
    "resp grows (Dup M n)" "resp grows (mem_read M o1 l1)" "resp grows (mem_write M o1 bs)"
proof -
  have push: "grows f (snd (run_state (pushErr e) f))" for f :: "'b Frame" and e
    by (rule grows_pushErr [unfolded resp_def, THEN spec])
  show P: "resp grows (Push M d)" for d unfolding Push_def
    by (rule growE.resp_bind [OF grows_gas(2)])
      (auto simp: resp_def push split: option.split intro: growsI [where es = "[]"])
  show "resp grows (Pop :: ('b, word256) fm)" unfolding Pop_def
  proof (rule growE.resp_bind [OF grows_gas(2)])
    show "resp grows (do { f \<leftarrow> State_Monad.get;
      if st_ptr f = 0 then do { pushErr (Some (ErrCode ErrorCodeDataStackUnderflow)); ret Zero256 }
      else do { State_Monad.set (f\<lparr>st_ptr := st_ptr f - 1\<rparr>); ret (st_slice f ! (st_ptr f - 1)) } } :: ('b, word256) fm)"
      using push by (auto simp: resp_def split: prod.split intro: growsI [where es = "[]"]) (metis snd_conv)
  qed
  show "resp grows (Swap n :: ('b, unit) fm)" unfolding Swap_def
    by (rule growE.resp_bind [OF grows_gas(2)]) (auto simp: resp_def push intro: growsI [where es = "[]"])
  show "resp grows (Dup M n)" unfolding Dup_def
    by (intro growE.resp_bind growE.resp_combinators grows_gas P grows_pushErr)
  have mem: "grows f (f\<lparr>mem := b, halt := (case halt f of None \<Rightarrow> Some h | Some h' \<Rightarrow> Some h')\<rparr>)"
     "grows f (f\<lparr>mem := b\<rparr>)" for f :: "'b Frame" and b h
    by (auto simp: grows_def split: option.split)
  show "resp grows (mem_read M o1 l1)"
    by (auto simp: resp_def mem_read_def Let_def go_panic_def halt_with_def upd_def mem split: prod.split option.split)
  show "resp grows (mem_write M o1 bs)"
    by (auto simp: resp_def mem_write_def Let_def go_panic_def halt_with_def upd_def mem split: prod.split option.split)
qed

interpretation growF: gas_free_effect grows M
  for M :: "'b Machine"
  by unfold_locales (rule grows_vm grows_gas grows_frame | (rule growsI [where es = "[]"]; simp))+

interpretation growV: child_effect grows M
  for M :: "'b Machine"
  by unfold_locales
    (rule grows_vm | (rule growsI [where es = "[]"]; simp)
      | (auto simp: resp_def run_on_state State_Sync_def State_Error_def run_on_chain split: option.splits intro!: growsI [where es = "[]"]))+

lemma nested_grows:
  fixes m :: "('b VM, 'a) state"
  assumes "resp grows m" shows "resp grows (nested opts g m)"
  unfolding resp_def
proof
  fix f :: "'b Frame"
  let ?vm = "\<lparr>callState = State_NewCache (callState f) opts, gas = g, vm_sequence = vm_sequence f,
           stackDepth = stackDepth f, events = events f, halt = halt f\<rparr>"
  obtain a vm where m: "run_state m ?vm = (a, vm)" by fastforce
  have "grows ?vm vm" by (rule respD [OF assms m])
  then show "grows f (snd (run_state (nested opts g m) f))" using m by (auto simp: nested_def grows_def)
qed

lemma code_grows:
  fixes M :: "'b Machine"
  assumes "\<And>c. resp grows (loop c)" shows "resp grows (delegateCall M (in_frame M loop) c v)"
proof -
  have enter: "grows vm (leave f)" if "grows (enter M v vm) f" for vm f
    using that by (auto simp: grows_def enter_def leave_def)
  have X: "resp grows (in_frame M loop c v)"
    by (auto simp: resp_def in_frame_def split: prod.split intro!: enter respD [OF assms])
  let ?run = "do { upd (\<lambda>vm. vm\<lparr>stackDepth := stackDepth vm + 1\<rparr>); output \<leftarrow> in_frame M loop c v;
        upd (\<lambda>vm. vm\<lparr>stackDepth := stackDepth vm - 1\<rparr>); ret output }"
  have run: "resp grows ?run"
    unfolding resp_def
  proof
    fix vm :: "'b VM"
    obtain r vm' where r: "run_state (in_frame M loop c v) (vm\<lparr>stackDepth := stackDepth vm + 1\<rparr>) = (r, vm')" by fastforce
    have "grows (vm\<lparr>stackDepth := stackDepth vm + 1\<rparr>) vm'" by (rule respD [OF X r])
    then show "grows vm (snd (run_state ?run vm))" using r by (auto simp: upd_def grows_def)
  qed
  show ?thesis unfolding delegateCall_def run_code_def ensureStackDepth_def hasError_def
    by (intro growE.resp_bind growE.resp_combinators grows_pushErr run)
qed

interpretation growR: run_effect grows grows M
  for M :: "'b Machine"
  by unfold_locales (rule grows_halt nested_grows code_grows growsI [where es = "[]"]; simp?)+

end
