(* ===== verification/Bvm_Gas.thy ===== *)
theory Bvm_Gas
  imports Bvm_Order
begin

text \<open>
  Gas. No instruction, no nested call and no run gives back more gas than it got, and every turn
  of the loop that goes on without an error has paid for it. From this the fuel that is enough for
  a run is computed: calls nest at most as deep as \<open>CallStackMaxDepth\<close> allows, and a frame makes at
  most one turn per unit of gas.
\<close>

section \<open>Frames\<close>

abbreviation gas_le :: "('b, 'z) VM_scheme \<Rightarrow> ('b, 'z) VM_scheme \<Rightarrow> bool" where
  "gas_le s s' \<equiv> gas s' \<le> gas s"

lemma gas_on_state [simp]: "gas (snd (run_state (on_state m) s)) = gas s"
  by (simp add: on_state_def Let_def split: prod.split)

lemma gas_pushErr [simp]: "gas (snd (run_state (pushErr e) s)) = gas s"
  by (simp add: pushErr_def)

lemma resp_gas_on_state: "resp gas_le (on_state m)" "resp gas_le (pushErr e)"
  by (simp_all add: resp_def)

lemma resp_gas_use: "resp gas_le (useGasNegative g)" "resp gas_le (stack_useGas g)"
  by (auto simp: useGasNegative_def stack_useGas_def resp_def gets_def upd_def word_sub_le)

interpretation gasE: effect gas_le
  by unfold_locales auto

lemma resp_gas_stack:
  fixes M :: "'b Machine"
  shows "resp gas_le (Push M d)" "resp gas_le (Pop :: ('b, word256) fm)"
    "resp gas_le (Swap n :: ('b, unit) fm)" "resp gas_le (Dup M n)"
proof -
  show P: "resp gas_le (Push M d)" for d
    unfolding Push_def by (rule gasE.resp_bind [OF resp_gas_use(2)]) (auto simp: resp_def split: option.split)
  show "resp gas_le (Pop :: ('b, word256) fm)"
    unfolding Pop_def
    by (rule gasE.resp_bind [OF resp_gas_use(2)]) (auto simp: resp_def split: prod.split, metis gas_pushErr order_refl snd_conv)
  show "resp gas_le (Swap n :: ('b, unit) fm)"
    unfolding Swap_def by (rule gasE.resp_bind [OF resp_gas_use(2)]) (auto simp: resp_def)
  show "resp gas_le (Dup M n)"
    unfolding Dup_def by (intro gasE.resp_bind gasE.resp_combinators resp_gas_use P resp_gas_on_state)
qed

lemma resp_gas_memory:
  fixes M :: "'b Machine"
  shows "resp gas_le (mem_read M o1 l1)" "resp gas_le (mem_write M o1 bs)"
  by (auto simp: resp_def mem_read_def mem_write_def Let_def go_panic_def halt_with_def upd_def split: prod.split option.split)

lemma resp_gas_halt: "resp gas_le (halt_with h)" "resp gas_le (go_panic msg)"
  by (simp_all add: resp_def go_panic_def halt_with_def upd_def)

interpretation gasF: frame_effect gas_le M
  for M :: "'b Machine"
  by unfold_locales
    (rule resp_gas_on_state resp_gas_use resp_gas_stack resp_gas_memory resp_gas_halt | simp)+

interpretation gasV: vm_effect gas_le M
  for M :: "'b Machine"
  by unfold_locales (rule resp_gas_on_state resp_gas_halt | simp)+

section \<open>Nested frames\<close>

lemma resp_gas_vm:
  fixes M :: "'b Machine"
  shows "resp gas_le (sync_if M q)" "resp gas_le (ensureStackDepth M :: ('b VM, goerr option) state)"
    "resp gas_le (hasError :: ('b VM, bool) state)"
  unfolding sync_if_def ensureStackDepth_def hasError_def
  by (intro gasE.resp_combinators resp_gas_on_state)+

lemma resp_gas_run_code:
  assumes "\<And>c v. resp gas_le (X c v)"
  shows "resp gas_le (run_code X c v)"
  unfolding run_code_def
  by (intro gasE.resp_bind gasE.resp_combinators resp_gas_vm gasE.resp_upd assms) simp_all

lemma set_gas_then:
  assumes "\<And>x. resp gas_le (k x)"
  shows "gas (snd (run_state (State_Monad.bind (upd (\<lambda>s. s\<lparr>gas := g\<rparr>)) k) s)) \<le> g"
  using assms [of "()", unfolded resp_def, rule_format, of "s\<lparr>gas := g\<rparr>"] by (simp add: upd_def)

lemma resp_gas_native: "resp gas_le (native_child M a args)"
  unfolding resp_def
proof
  fix s :: "'a VM"
  let ?k = "\<lambda>out callErr (_ :: unit). do {
     pushErr callErr; syncErr \<leftarrow> sync_if M (callErr = None);
     ret (out, AsException callErr, syncErr) }"
  have k: "resp gas_le (?k out e x)" for out :: "bytes option" and e x
    by (intro gasE.resp_bind gasE.resp_combinators resp_gas_on_state resp_gas_vm)
  show "gas_le s (snd (run_state (native_child M a args) s))"
  proof (cases "ExecuteNativeContract (crypto M) a args (gas s)")
    case None
    let ?s = "snd (run_state (go_panic ''index out of range'') s)"
    have "run_state (native_child M a args) s =
        run_state (State_Monad.bind (upd (\<lambda>t. t\<lparr>gas := gas s\<rparr>)) (?k None None)) ?s"
      by (simp add: native_child_def None gets_def or_panic_def split: prod.split)
    then show ?thesis using set_gas_then [of "?k None None" "gas s" ?s, OF k] by simp
  next
    case (Some r)
    obtain out e g where r: "r = ((out, e), g)" by (metis surj_pair)
    have "g \<le> gas s" using ExecuteNativeContract_gas Some r by blast
    then show ?thesis using set_gas_then [of "?k out e" g s, OF k] Some r
      by (simp add: native_child_def gets_def or_panic_def)
  qed
qed

lemma resp_gas_children:
  assumes "\<And>c v. resp gas_le (X c v)"
  shows "resp gas_le (vm_call M X c v)" "resp gas_le (delegateCall M X c v)"
    "resp gas_le (create_child M X c a inp v)" "resp gas_le (call_child M X c op a cd args v)"
proof -
  note R = gasE.resp_bind gasV.vm_rules gasV.r_createAccount gasV.r_transfer resp_gas_vm resp_gas_on_state resp_gas_run_code [OF assms]
  show V: "resp gas_le (vm_call M X c v)" for c v unfolding vm_call_def by (intro R)
  show D: "resp gas_le (delegateCall M X c v)" for c v unfolding delegateCall_def by (intro R)
  show "resp gas_le (create_child M X c a inp v)" unfolding create_child_def by (intro R V)
  show "resp gas_le (call_child M X c op a cd args v)" unfolding call_child_def by (intro R V D)
qed

lemma nested_gas:
  assumes "resp gas_le m" "run_state (nested opts g m) f = ((a, g'), f')"
  shows "g' \<le> g" "gas f' = gas f"
  using assms by (auto simp: nested_def resp_def Let_def split: prod.splits) (metis VM.select_convs(2) snd_conv)
lemma resp_gas_create_run:
  fixes M :: "'b Machine"
  assumes "\<And>c v. resp gas_le (X c v)"
  shows "resp gas_le (create_run M X c a inp v)"
  unfolding resp_def
proof
  fix f :: "'b Frame"
  obtain out callErr syncErr g' f' where n:
    "run_state (nested [] (gas f) (create_child M X c a inp v)) f = (((out, callErr, syncErr), g'), f')"
    by (metis surj_pair)
  have g: "g' \<le> gas f" by (rule nested_gas(1) [OF resp_gas_children(3) [OF assms] n])
  let ?k = "\<lambda>_ :: unit. do {
     (if callErr \<noteq> None then do { Push M Zero256; upd (\<lambda>f. f\<lparr>returnData := out\<rparr>) }
      else do { pushErr syncErr; PushAddress M a }); ret Next }"
  have k: "resp gas_le (?k x)" for x by (intro gasF.rules gasE.resp_bind)
  have "gas (snd (run_state (State_Monad.bind (upd (\<lambda>f. f\<lparr>gas := g'\<rparr>)) ?k) f')) \<le> g'"
    by (rule set_gas_then [OF k])
  moreover have "run_state (create_run M X c a inp v) f = run_state (State_Monad.bind (upd (\<lambda>f. f\<lparr>gas := g'\<rparr>)) ?k) f'"
    by (simp add: create_run_def gets_def n)
  ultimately show "gas_le f (snd (run_state (create_run M X c a inp v) f))" using g by simp
qed

lemma call_result_gas:
  fixes M :: "'b Machine"
  assumes "unat (gas f) + unat gl < 2 ^ 64"
  shows "unat (gas (snd (run_state (call_result M o1 s1 res gl) f))) \<le> unat (gas f) + unat gl"
proof -
  obtain out callErr syncErr where res: "res = (out, callErr, syncErr)" by (metis surj_pair)
  let ?pre = "do {
     upd (\<lambda>f. f\<lparr>returnData := out\<rparr>);
     guard (callErr = None) (pushErr syncErr);
     (case callErr of
        Some ex \<Rightarrow> do {
          Push M Zero256;
          guard (ex_Code ex = ErrorCodeExecutionReverted)
            (memory_Write M o1 (RightPadBytes (nil_bytes out) s1)) }
      | None \<Rightarrow> do { Push M One256; memory_Write M o1 (RightPadBytes (nil_bytes out) s1) }) }"
  obtain u f1 where p: "run_state ?pre f = (u, f1)" by (metis surj_pair)
  have "resp gas_le ?pre" by (intro gasF.rules gasE.resp_bind)
  then have g: "gas f1 \<le> gas f" using p by (rule respD)
  have "run_state (call_result M o1 s1 res gl) f =
      run_state (State_Monad.bind ?pre (\<lambda>_. do { upd (\<lambda>f. f\<lparr>gas := gas f + gl\<rparr>); ret Next })) f"
    by (simp add: call_result_def res)
  also have "\<dots> = (Next, f1\<lparr>gas := gas f1 + gl\<rparr>)" using p by (simp add: upd_def split: prod.splits)
  finally have "snd (run_state (call_result M o1 s1 res gl) f) = f1\<lparr>gas := gas f1 + gl\<rparr>" by simp
  moreover have "unat (gas f1 + gl) \<le> unat (gas f) + unat gl"
    using g assms by (simp add: word_le_nat_alt unat_word_ariths)
  ultimately show ?thesis by simp
qed

lemma call_gas_le: "call_gas g l \<le> g"
proof (cases "g < l")
  case True
  have "g div 64 \<le> g" by (simp add: word_le_nat_alt unat_div)
  then show ?thesis using True by (simp add: call_gas_def word_sub_le)
next
  case False
  then show ?thesis by (simp add: call_gas_def)
qed

lemma gas_parts:
  fixes g gl a b :: uint64
  assumes "gl \<le> g" "a \<le> g - gl" "b \<le> gl"
  shows "unat a + unat b \<le> unat g"
  using assms unat_sub [OF assms(1)] by (simp add: word_le_nat_alt)

text \<open>The gas the child gives back, and the gas the frame kept, never exceed what there was.\<close>

lemma call_result_gas_le:
  fixes M :: "'b Machine"
  assumes "gl \<le> g" "gas f \<le> g - gl" "gl' \<le> gl"
  shows "gas (snd (run_state (call_result M ro rs res gl') f)) \<le> g"
proof -
  have u: "unat (gas f) + unat gl' \<le> unat g" by (rule gas_parts [OF assms])
  then have "unat (gas f) + unat gl' < 2 ^ 64"
    using unsigned_less [of g, where ?'a = nat] by (simp del: unsigned_less)
  from order.trans [OF call_result_gas [OF this] u] show ?thesis by (simp only: word_le_nat_alt)
qed

lemma call_account_gas:
  fixes M :: "'b Machine"
  assumes X: "\<And>c v. resp gas_le (X c v)" and gl: "gl \<le> g" and f: "gas f = g - gl"
  shows "gas (snd (run_state (call_account M X c op gl a ro rs args) f)) \<le> g"
proof -
  obtain u f0 where p0: "run_state (useGasNegative GasGetAccount) f = (u, f0)" by (metis surj_pair)
  obtain go f1 where p: "run_state (ensure_callee M op a) f0 = (go, f1)" by (metis surj_pair)
  have "resp gas_le (ensure_callee M op a)" by (rule gasF.r_ensure_callee)
  from respD [OF this p] respD [OF resp_gas_use(1) p0] f have g1: "gas f1 \<le> g - gl" by simp
  obtain cd f2 where c: "run_state (on_state (State_GetBVMCode (world M) a)) f1 = (cd, f2)" by (metis surj_pair)
  have g2: "gas f2 = gas f1" using c gas_on_state by (metis snd_conv)
  obtain out callErr syncErr g' f' where n: "run_state (nested (call_options op) gl
      (call_child M X c op a (nil_bytes cd) args (val f2))) f2 = (((out, callErr, syncErr), g'), f')"
    by (metis surj_pair)
  have "g' \<le> gl" "gas f' = gas f2" using nested_gas [OF resp_gas_children(4) [OF X] n] by simp_all
  then have "gas (snd (run_state (call_result M ro rs (out, callErr, syncErr) g') f')) \<le> g"
    using g1 g2 by (intro call_result_gas_le [OF gl]) simp_all
  moreover have "gas f1 \<le> g" using g1 word_sub_le [OF gl] by (rule order.trans)
  moreover have "snd (run_state (call_account M X c op gl a ro rs args) f) =
      (if go then snd (run_state (call_result M ro rs (out, callErr, syncErr) g') f') else f1)"
    using p0 p c n by (simp add: call_account_def gets_def)
  ultimately show ?thesis by simp
qed

lemma resp_gas_call_run:
  fixes M :: "'b Machine"
  assumes "\<And>c v. resp gas_le (X c v)"
  shows "resp gas_le (call_run M X c op gl0 a ro rs args)"
  unfolding resp_def
proof
  fix f :: "'b Frame"
  let ?gl = "call_gas (gas f) gl0"
  let ?f = "f\<lparr>gas := gas f - ?gl\<rparr>"
  have gl: "?gl \<le> gas f" by (rule call_gas_le)
  obtain out callErr syncErr g' f' where n:
    "run_state (nested [] ?gl (native_child M a args)) ?f = (((out, callErr, syncErr), g'), f')"
    by (metis surj_pair)
  have "g' \<le> ?gl" "gas f' = gas f - ?gl" using nested_gas [OF resp_gas_native n] by simp_all
  then have "gas (snd (run_state (call_result M ro rs (out, callErr, syncErr) g') f')) \<le> gas f"
    by (intro call_result_gas_le [OF gl]) simp_all
  moreover have "gas (snd (run_state (call_account M X c op ?gl a ro rs args) ?f)) \<le> gas f"
    by (rule call_account_gas [OF assms gl]) simp
  ultimately show "gas_le f (snd (run_state (call_run M X c op gl0 a ro rs args) f))"
    using n by (simp add: call_run_def gets_def upd_def Let_def)
qed

section \<open>Whole runs\<close>

lemma resp_gas_in_frame: "resp gas_le (loop c) \<Longrightarrow> resp gas_le (in_frame M loop c v)"
  by (simp add: resp_def in_frame_def enter_def leave_def split: prod.splits) (metis VM.select_convs(2) snd_conv)


lemma resp_gas_runs: "resp gas_le (run n M c)"
proof (induction n arbitrary: c)
  case (Suc n)
  have X: "resp gas_le (in_frame M (run n M) c v)" for c v by (rule resp_gas_in_frame [OF Suc])
  show ?case unfolding run.simps hasError_def
  proof (intro gasF.rules gasE.resp_bind gasF.r_step resp_gas_create_run resp_gas_call_run X)
    show "resp gas_le (case r of Return output \<Rightarrow> ret output | _ \<Rightarrow> run n M c)" for r
      using Suc by (cases r) (simp_all add: gasE.resp_ret)
  qed
qed (simp, intro gasF.rules gasE.resp_bind resp_gas_halt)

lemma resp_gas_execute: "resp gas_le (execute n M c v)"
  unfolding execute_def by (rule resp_gas_in_frame [OF resp_gas_runs])

lemma resp_gas_Call: "resp gas_le (VM_Call n M c v)"
  unfolding VM_Call_def by (intro gasV.vm_rules gasE.resp_bind resp_gas_children resp_gas_execute)

end
