(* ===== verification/Bvm_Fuel.thy ===== *)
theory Bvm_Fuel
  imports Bvm_Gas
begin

text \<open>
  Every run ends. Calls nest no deeper than \<open>CallStackMaxDepth\<close> (which the chain sets to 10), and a
  frame makes at most one turn of its loop per unit of gas and one more; so the fuel of \<open>run\<close>, which
  bounds the length of every path of turns and nested frames, need not exceed the gas plus the depth
  that is left plus two. With this fuel, \<open>run\<close> is the Go loop.
\<close>

section \<open>Staying within a gas bound, at a depth\<close>

definition within :: "uint64 \<Rightarrow> uint64 \<Rightarrow> ('b, 'z) VM_scheme \<Rightarrow> ('b, 'z) VM_scheme \<Rightarrow> bool" where
  "within B d s s' \<longleftrightarrow> (gas s \<le> B \<and> stackDepth s = d \<and> halt s \<noteq> Some OutOfFuel \<longrightarrow>
     gas s' \<le> B \<and> stackDepth s' = d \<and> halt s' \<noteq> Some OutOfFuel)"

definition calm :: "uint64 \<Rightarrow> ('b, 'z) VM_scheme \<Rightarrow> ('b, 'z) VM_scheme \<Rightarrow> bool" where
  "calm d s s' \<longleftrightarrow> (stackDepth s = d \<and> halt s \<noteq> Some OutOfFuel \<longrightarrow> stackDepth s' = d \<and> halt s' \<noteq> Some OutOfFuel)"

definition unhalted :: "('b, 'z) VM_scheme \<Rightarrow> ('b, 'z) VM_scheme \<Rightarrow> bool" where
  "unhalted s s' \<longleftrightarrow> (stackDepth s' = stackDepth s \<and> (halt s \<noteq> Some OutOfFuel \<longrightarrow> halt s' \<noteq> Some OutOfFuel))"

lemma unhaltedI: "stackDepth s' = stackDepth s \<Longrightarrow> halt s' = halt s \<Longrightarrow> unhalted s s'"
  by (simp add: unhalted_def)

interpretation unhE: effect unhalted
  by unfold_locales (auto simp: unhalted_def)

lemma unhalted_chain: "resp unhalted (on_state m)" "resp unhalted (pushErr e)"
  by (simp_all add: resp_def pushErr_def run_on_state unhalted_def)

lemma unhalted_panic: "resp unhalted (go_panic msg)"
  by (auto simp: resp_def go_panic_def halt_with_def upd_def unhalted_def split: option.split)

lemma unhalted_gas: "resp unhalted (useGasNegative g)" "resp unhalted (stack_useGas g)"
  unfolding useGasNegative_def stack_useGas_def
  by (intro unhE.resp_bind unhE.resp_combinators unhalted_chain unhE.resp_upd unhaltedI; simp)+

lemma unhalted_frame:
  fixes M :: "'b Machine"
  shows "resp unhalted (Push M d)" "resp unhalted (Pop :: ('b, word256) fm)" "resp unhalted (Swap n :: ('b, unit) fm)"
    "resp unhalted (Dup M n)" "resp unhalted (mem_read M o1 l1)" "resp unhalted (mem_write M o1 bs)"
proof -
  have push: "unhalted f (snd (run_state (pushErr e) f))" for f :: "'b Frame" and e
    by (rule unhalted_chain(2) [unfolded resp_def, THEN spec])
  show P: "resp unhalted (Push M d)" for d unfolding Push_def
    by (rule unhE.resp_bind [OF unhalted_gas(2)])
      (auto simp: resp_def push split: option.split intro: unhaltedI)
  show "resp unhalted (Pop :: ('b, word256) fm)" unfolding Pop_def
  proof (rule unhE.resp_bind [OF unhalted_gas(2)])
    show "resp unhalted (do { f \<leftarrow> State_Monad.get;
      if st_ptr f = 0 then do { pushErr (Some (ErrCode ErrorCodeDataStackUnderflow)); ret Zero256 }
      else do { State_Monad.set (f\<lparr>st_ptr := st_ptr f - 1\<rparr>); ret (st_slice f ! (st_ptr f - 1)) } } :: ('b, word256) fm)"
      using push by (auto simp: resp_def split: prod.split intro: unhaltedI) (metis snd_conv)
  qed
  show "resp unhalted (Swap n :: ('b, unit) fm)" unfolding Swap_def
    by (rule unhE.resp_bind [OF unhalted_gas(2)]) (auto simp: resp_def push intro: unhaltedI)
  show "resp unhalted (Dup M n)" unfolding Dup_def
    by (intro unhE.resp_bind unhE.resp_combinators unhalted_gas P unhalted_chain)
  have mem: "unhalted f (f\<lparr>mem := b, halt := (case halt f of None \<Rightarrow> Some (GoPanic h) | Some h' \<Rightarrow> Some h')\<rparr>)"
     "unhalted f (f\<lparr>mem := b\<rparr>)" for f :: "'b Frame" and b h
    by (auto simp: unhalted_def split: option.split)
  show "resp unhalted (mem_read M o1 l1)"
    by (auto simp: resp_def mem_read_def Let_def go_panic_def halt_with_def upd_def mem split: prod.split option.split)
  show "resp unhalted (mem_write M o1 bs)"
    by (auto simp: resp_def mem_write_def Let_def go_panic_def halt_with_def upd_def mem split: prod.split option.split)
qed

text \<open>A step that gives no gas and runs no fuel out does both relations.\<close>

lemma calm_if: "resp unhalted m \<Longrightarrow> resp (calm d) m"
  by (auto simp: resp_def unhalted_def calm_def)

lemma within_if: "resp unhalted m \<Longrightarrow> resp gas_le m \<Longrightarrow> resp (within B d) m"
  unfolding resp_def unhalted_def within_def by (metis order.trans)

interpretation calmF: gas_free_effect "calm d" M
  for d and M :: "'b Machine"
  by unfold_locales
    (rule calm_if unhalted_chain unhalted_panic unhalted_gas unhalted_frame | auto simp: calm_def)+

interpretation withF: frame_effect "within B d" M
  for B d and M :: "'b Machine"
  by unfold_locales
    (rule within_if unhalted_chain unhalted_panic unhalted_gas unhalted_frame resp_gas_on_state resp_gas_halt resp_gas_use
      resp_gas_stack resp_gas_memory | auto simp: within_def)+

interpretation withV: child_effect "within B d" M
  for B d and M :: "'b Machine"
  by unfold_locales
    (rule within_if unhalted_chain unhalted_panic resp_gas_on_state resp_gas_halt | auto simp: within_def)+

section \<open>Nested frames\<close>

lemma nested_calm:
  fixes m :: "('b VM, 'a) state"
  assumes "g \<le> B" "resp (within B d) m"
  shows "resp (calm d) (nested opts g m)"
  unfolding resp_def
proof
  fix f :: "'b Frame"
  let ?vm = "\<lparr>callState = State_NewCache (callState f) opts, gas = g, vm_sequence = vm_sequence f,
           stackDepth = stackDepth f, events = events f, halt = halt f\<rparr>"
  obtain a vm where m: "run_state m ?vm = (a, vm)" by fastforce
  have "within B d ?vm vm" by (rule respD [OF assms(2) m])
  then show "calm d f (snd (run_state (nested opts g m) f))"
    using m assms(1) by (auto simp: nested_def within_def calm_def)
qed

lemma within_children:
  fixes M :: "'b Machine"
  assumes D: "\<And>c v. resp (within B d) (delegateCall M X c v)" and X: "\<And>c v. resp gas_le (X c v)"
  shows "resp (within B d) (create_run M X c a inp v)"
    and "resp (within B d) (call_run M X c op gl0 a ro rs args)"
proof -
  have native: "resp (within B d) (native_child M a args)"
  proof (rule within_if [OF _ resp_gas_native])
    show "resp unhalted (native_child M a args)"
      unfolding native_child_def or_panic_def sync_if_def
      by (intro unhE.resp_bind unhE.resp_combinators unhalted_panic unhalted_chain unhE.resp_upd unhaltedI) simp_all
  qed
  have eq: "within B d f f'" if "gas f \<le> B \<Longrightarrow> calm d f f'" "gas f' \<le> gas f" for f f' :: "'b Frame"
    using that unfolding within_def calm_def by (metis order.trans)
  show "resp (within B d) (create_run M X c a inp v)"
    unfolding resp_def
  proof (intro allI eq)
    fix f :: "'b Frame"
    show "calm d f (snd (run_state (create_run M X c a inp v) f))" if "gas f \<le> B"
      by (intro calmF.r_create_run_at nested_calm [OF that] withV.r_create_child D)
    show "gas_le f (snd (run_state (create_run M X c a inp v) f))"
      by (rule resp_gas_create_run [OF X, unfolded resp_def, THEN spec])
  qed
  show "resp (within B d) (call_run M X c op gl0 a ro rs args)"
    unfolding resp_def
  proof (intro allI eq)
    fix f :: "'b Frame"
    show "calm d f (snd (run_state (call_run M X c op gl0 a ro rs args) f))" if "gas f \<le> B"
      by (intro calmF.r_call_run_at nested_calm [OF order.trans [OF call_gas_le that]] withV.r_call_child native D)
    show "gas_le f (snd (run_state (call_run M X c op gl0 a ro rs args) f))"
      by (rule resp_gas_call_run [OF X, unfolded resp_def, THEN spec])
  qed
qed

section \<open>Every turn pays or ends\<close>

lemma pay:
  fixes f :: "'b Frame"
  assumes "run_state (useGasNegative GasBaseOp) f = (u, f')" "st_error (callState f') = None"
  shows "gas f' < gas f"
proof (cases "1 \<le> gas f")
  case True
  then have "gas f \<noteq> 0" by auto
  moreover have "gas f' = gas f - 1"
    using assms(1) True by (auto simp: useGasNegative_def gets_def upd_def GasBaseOp_def)
  ultimately show ?thesis using word_sub_less [of 1 "gas f"] True by simp
next
  case False
  then have "f' = snd (run_state (pushErr (Some (ErrCode ErrorCodeInsufficientGas))) f)"
    using assms(1) by (simp add: useGasNegative_def gets_def GasBaseOp_def)
  then have False using assms(2)
    by (simp add: run_pushErr PushError_code_ne)
  then show ?thesis ..
qed

lemma step_pays:
  fixes M :: "'b Machine"
  assumes X: "\<And>c v. resp gas_le (X c v)" and G: "\<And>op. resp grows (exec_op M X c op)"
    and s: "run_state (step M X c) f = (r, f')" and e: "st_error (callState f') = None"
  shows "gas f' < gas f"
proof -
  obtain op f1 where 1: "run_state (getOp (code c) (pc f)) f = (op, f1)" by fastforce
  obtain u f2 where 2: "run_state (useGasNegative GasBaseOp) f1 = (u, f2)" by (metis surj_pair)
  obtain r' f3 where 3: "run_state (exec_op M X c op) f2 = (r', f3)" by fastforce
  have g1: "gas f1 \<le> gas f" by (rule respD [OF gasF.r_helpers(2) 1])
  have "resp gas_le (exec_op M X c op)"
    by (intro gasF.r_exec_op resp_gas_create_run resp_gas_call_run X)
  then have g3: "gas f3 \<le> gas f2" by (rule respD [OF _ 3])
  have f': "f' = (if r' = Next then f3\<lparr>pc := pc f3 + 1\<rparr> else f3)"
    using s 1 2 3 by (auto simp: step_def gets_def guard_def upd_def)
  then have "st_error (callState f3) = None" "gas f' = gas f3" using e by (simp_all split: if_splits)
  moreover have "grows f2 f3" by (rule respD [OF G 3])
  ultimately have "st_error (callState f2) = None" by (cases "st_error (callState f2)") (auto simp: grows_def)
  from pay [OF 2 this] show ?thesis using g1 g3 \<open>gas f' = gas f3\<close> by simp
qed

section \<open>Enough fuel\<close>

abbreviation depth_left :: "'b Machine \<Rightarrow> uint64 \<Rightarrow> nat" where
  "depth_left M d \<equiv> unat (p_CallStackMaxDepth (params M)) - unat d"

definition enough :: "'b Machine \<Rightarrow> nat \<Rightarrow> uint64 \<Rightarrow> uint64 \<Rightarrow> bool" where
  "enough M n d g \<longleftrightarrow> d \<le> p_CallStackMaxDepth (params M) \<and> unat g + depth_left M d + 2 \<le> n"

text \<open>The code of a child, when one level less of fuel is enough for the loop one level deeper.\<close>

lemma within_delegateCall:
  fixes M :: "'b Machine"
  assumes max: "0 < p_CallStackMaxDepth (params M)" and n: "enough M (Suc n) d B"
    and IH: "\<And>c f. enough M n (stackDepth f) (gas f) \<Longrightarrow> halt f \<noteq> Some OutOfFuel \<Longrightarrow>
      halt (snd (run_state (run n M c) f)) \<noteq> Some OutOfFuel"
  shows "resp (within B d) (delegateCall M (in_frame M (run n M)) c v)"
  unfolding resp_def
proof
  fix vm :: "'b VM"
  let ?vm1 = "vm\<lparr>stackDepth := stackDepth vm + 1\<rparr>"
  let ?m = "delegateCall M (in_frame M (run n M)) c v"
  obtain out vm2 where r: "run_state (in_frame M (run n M) c v) ?vm1 = (out, vm2)" by fastforce
  obtain r vm' where m: "run_state ?m vm = (r, vm')" by fastforce
  have g: "gas vm' \<le> gas vm" by (rule respD [OF resp_gas_children(2) m]) (rule resp_gas_execute [unfolded execute_def])
  have d: "stackDepth vm' = stackDepth vm" using respD [OF growR.r_code [unfolded execute_def] m] by (simp add: grows_def)
  have "halt vm' \<noteq> Some OutOfFuel" if P: "gas vm \<le> B" "stackDepth vm = d" "halt vm \<noteq> Some OutOfFuel"
  proof (cases "d = p_CallStackMaxDepth (params M)")
    case True
    have "snd (run_state ?m vm) = snd (run_state (pushErr (Some (ErrCode ErrorCodeCallStackOverflow))) vm)"
      using True P max by (simp add: delegateCall_def run_code_def ensureStackDepth_def hasError_def gets_def
          run_pushErr PushError_code_ne)
    then show ?thesis using m P(3) by (simp add: run_pushErr)
  next
    case False
    then have lt: "d < p_CallStackMaxDepth (params M)" using n by (simp add: enough_def order_less_le)
    have u: "unat (d + 1) = unat d + 1" 
      using lt unsigned_less [of "p_CallStackMaxDepth (params M)", where ?'a = nat]
      by (simp add: unat_word_ariths word_less_nat_alt del: unsigned_less)
    have "enough M n (d + 1) (gas vm)"
      using n P(1) lt u by (simp add: enough_def word_le_nat_alt word_less_nat_alt)
    then have "halt vm2 \<noteq> Some OutOfFuel"
      using IH [of "enter M v ?vm1" c] r P by (auto simp: in_frame_def enter_def leave_def split: prod.splits)
    then show ?thesis using m r False P
      by (auto simp: delegateCall_def run_code_def ensureStackDepth_def hasError_def gets_def upd_def
          run_pushErr split: if_splits)
  qed
  then show "within B d vm (snd (run_state ?m vm))" using m g d unfolding within_def by (metis order.trans snd_conv)
qed

lemma run_enough:
  fixes M :: "'b Machine"
  assumes max: "0 < p_CallStackMaxDepth (params M)"
  shows "enough M n (stackDepth f) (gas f) \<or> 0 < n \<and> st_error (callState f) \<noteq> None \<Longrightarrow> halt f \<noteq> Some OutOfFuel \<Longrightarrow>
    halt (snd (run_state (run n M c) f)) \<noteq> Some OutOfFuel"
proof (induction n arbitrary: c f)
  case (Suc n)
  let ?X = "in_frame M (run n M)"
  show ?case
  proof (cases "st_error (callState f) \<noteq> None \<or> halt f \<noteq> None")
    case True
    then show ?thesis using Suc.prems by (auto simp: hasError_def gets_def)
  next
    case False
    then have n: "enough M (Suc n) (stackDepth f) (gas f)" using Suc.prems by simp
    obtain r f' where s: "run_state (step M ?X c) f = (r, f')" by fastforce
    have D: "resp (within (gas f) (stackDepth f)) (delegateCall M ?X c v)" for c v
      by (rule within_delegateCall [OF max n]) (rule Suc.IH, simp_all)
    have X: "resp gas_le (?X c v)" for c v by (rule resp_gas_execute [unfolded execute_def])
    have "resp (within (gas f) (stackDepth f)) (step M ?X c)"
      by (intro withF.r_step within_children D X)
    from respD [OF this s] have w: "stackDepth f' = stackDepth f" "halt f' \<noteq> Some OutOfFuel"
      using Suc.prems(2) by (simp_all add: within_def)
    have "halt (snd (run_state (run n M c) f')) \<noteq> Some OutOfFuel"
    proof (rule Suc.IH [OF _ w(2)])
      show "enough M n (stackDepth f') (gas f') \<or> 0 < n \<and> st_error (callState f') \<noteq> None"
      proof (cases "st_error (callState f') = None")
        case True
        from step_pays [OF X growR.r_exec s True] show ?thesis
          using n w(1) by (simp add: enough_def word_less_nat_alt)
      qed (use n in \<open>simp add: enough_def\<close>)
    qed
    then show ?thesis using False s w(2) by (simp add: hasError_def gets_def split: flow.split)
  qed
qed (simp add: enough_def)

lemma Call_enough:
  fixes M :: "'b Machine"
  assumes max: "0 < p_CallStackMaxDepth (params M)" and n: "enough M (Suc n) (stackDepth vm) (gas vm)"
    and h: "halt vm \<noteq> Some OutOfFuel"
  shows "halt (snd (run_state (VM_Call n M c v) vm)) \<noteq> Some OutOfFuel"
proof -
  have D: "resp (within (gas vm) (stackDepth vm)) (delegateCall M (execute n M) c v)" for c v
    unfolding execute_def by (rule within_delegateCall [OF max n]) (rule run_enough [OF max], simp_all)
  have "resp (within (gas vm) (stackDepth vm)) (VM_Call n M c v)"
    unfolding VM_Call_def by (intro withV.vm_rules withV.resp_bind withV.r_vm_call D)
  then show ?thesis using h by (simp add: resp_def within_def)
qed

end
