(* ===== verification/Bvm_Total.thy ===== *)
theory Bvm_Total
  imports Bvm_Fuel
begin

text \<open>
  The fuel is not part of the result: a run that has not run out of it gives the same outcome with
  any more, so the machine is one function of its state, defined everywhere.
\<close>

section \<open>More fuel, the same result\<close>

definition agrees :: "(('b, 'z) VM_scheme, 'a) state \<Rightarrow> (('b, 'z) VM_scheme, 'a) state \<Rightarrow> bool" where
  "agrees m m' \<longleftrightarrow> (\<forall>s. halt (snd (run_state m s)) \<noteq> Some OutOfFuel \<longrightarrow> run_state m' s = run_state m s)"

definition stays :: "('b, 'z) VM_scheme \<Rightarrow> ('b, 'z) VM_scheme \<Rightarrow> bool" where
  "stays s s' \<longleftrightarrow> (halt s = Some OutOfFuel \<longrightarrow> halt s' = Some OutOfFuel)"

lemma stays_if: "resp grows m \<Longrightarrow> resp stays m"
  by (simp add: resp_def grows_def stays_def)

interpretation stayE: effect stays
  by unfold_locales (auto simp: stays_def)

lemma agrees_refl: "agrees m m"
  by (simp add: agrees_def)

lemma agrees_after: "(\<And>x. agrees (k x) (k' x)) \<Longrightarrow> agrees (State_Monad.bind m k) (State_Monad.bind m k')"
  by (auto simp: agrees_def split: prod.splits)

lemma agrees_bind:
  assumes m: "agrees m m'" and k: "\<And>x. agrees (k x) (k' x)" and s: "\<And>x. resp stays (k x)"
  shows "agrees (State_Monad.bind m k) (State_Monad.bind m' k')"
  unfolding agrees_def
proof (intro allI impI)
  fix s assume h: "halt (snd (run_state (State_Monad.bind m k) s)) \<noteq> Some OutOfFuel"
  obtain a t where t: "run_state m s = (a, t)" by fastforce
  have "halt (snd (run_state (k a) t)) \<noteq> Some OutOfFuel" using h t by simp
  moreover from this have "halt t \<noteq> Some OutOfFuel" using s [of a] by (auto simp: resp_def stays_def)
  ultimately have "run_state m' s = (a, t)" "run_state (k' a) t = run_state (k a) t"
    using m k t by (auto simp: agrees_def)
  then show "run_state (State_Monad.bind m' k') s = run_state (State_Monad.bind m k) s" using t by simp
qed

lemma agrees_if: "(b \<Longrightarrow> agrees m m') \<Longrightarrow> (\<not> b \<Longrightarrow> agrees n n') \<Longrightarrow> agrees (if b then m else n) (if b then m' else n')"
  by simp

lemma agrees_nested: "agrees m m' \<Longrightarrow> agrees (nested opts g m) (nested opts g m')"
  unfolding agrees_def by (force simp: nested_def Let_def split: prod.splits)

section \<open>Calls\<close>

lemma agrees_children:
  fixes M :: "'b Machine"
  assumes X: "\<And>c v. agrees (X c v) (X' c v)"
  shows "agrees (delegateCall M X c v) (delegateCall M X' c v)" "agrees (vm_call M X c v) (vm_call M X' c v)"
    "agrees (create_child M X c a inp v) (create_child M X' c a inp v)"
    "agrees (call_child M X c op a cd args v) (call_child M X' c op a cd args v)"
proof -
  have run: "agrees (run_code X c v) (run_code X' c v)" for c v
    unfolding run_code_def
    by (intro agrees_after agrees_bind agrees_if agrees_refl X stayE.resp_bind stayE.resp_combinators stayE.resp_upd)
      (simp_all add: stays_def)
  show D: "agrees (delegateCall M X c v) (delegateCall M X' c v)" for c v
    unfolding delegateCall_def by (intro agrees_after run)
  show V: "agrees (vm_call M X c v) (vm_call M X' c v)" for c v
    unfolding vm_call_def by (intro agrees_after run)
  have rest: "resp stays (case r of (out, callErr) \<Rightarrow> do {
      guard (callErr = None) (on_state (State_InitCode (world M) a out)); syncErr \<leftarrow> sync_if M (callErr = None);
      ret (out, callErr, syncErr) })" for a and r :: "bytes option \<times> Exception option"
    by (rule stays_if) (intro growV.vm_rules growE.resp_bind growV.r_InitCode growV.r_sync_if)
  show "agrees (create_child M X c a inp v) (create_child M X' c a inp v)"
    unfolding create_child_def by (intro agrees_after agrees_bind agrees_refl V rest)
  have rest': "resp stays (case r of (out, callErr) \<Rightarrow> do {
      syncErr \<leftarrow> sync_if M (callErr = None); ret (out, callErr, syncErr) })" for r :: "bytes option \<times> Exception option"
    by (rule stays_if) (intro growV.vm_rules growE.resp_bind growV.r_sync_if)
  show "agrees (call_child M X c op a cd args v) (call_child M X' c op a cd args v)"
    unfolding call_child_def by (intro agrees_bind agrees_if agrees_refl V D rest')
qed

lemma agrees_op:
  fixes M :: "'b Machine"
  assumes X: "\<And>c v. agrees (X c v) (X' c v)"
  shows "agrees (exec_op M X c op) (exec_op M X' c op)"
proof -
  note A = agrees_after agrees_if agrees_refl
  have create: "agrees (create_run M X c a inp v) (create_run M X' c a inp v)" for a inp v
    unfolding create_run_def
    by (intro A agrees_bind [OF agrees_nested [OF agrees_children(3) [OF X]]] stays_if)
      (intro growF.rules growE.resp_bind growF.r_upd_gas)
  have account: "agrees (call_account M X c op gl a ro rs args) (call_account M X' c op gl a ro rs args)" for op gl a ro rs args
    unfolding call_account_def
    by (intro A agrees_bind [OF agrees_nested [OF agrees_children(4) [OF X]]] stays_if)
      (intro growF.rules growE.resp_bind growF.r_call_result)
  have call: "agrees (call_run M X c op gl a ro rs args) (call_run M X' c op gl a ro rs args)" for op gl a ro rs args
    unfolding call_run_def Let_def by (intro A account)
  have "agrees (op_CREATE M X c op) (op_CREATE M X' c op)" for op
    unfolding op_CREATE_def by (intro A create)
  moreover have "agrees (op_CALL M X c op) (op_CALL M X' c op)" for op
    unfolding op_CALL_def by (intro A call)
  ultimately show ?thesis
    unfolding exec_op_def by (intro agrees_if) (simp_all add: agrees_refl)
qed

section \<open>Runs\<close>

definition turn :: "'b Machine \<Rightarrow> (Call \<Rightarrow> ('b, bytes option) fm) \<Rightarrow> Call \<Rightarrow> ('b, bytes option) fm" where
  "turn M loop c = do {
     err \<leftarrow> hasError;
     halted \<leftarrow> gets (\<lambda>f. halt f \<noteq> None);
     if err \<or> halted then gets returnData
     else do {
       r \<leftarrow> step M (in_frame M loop) c;
       case r of Return output \<Rightarrow> ret output | _ \<Rightarrow> loop c
     }
   }"

lemma run_turn: "run (Suc n) M c = turn M (run n M) c"
  by (simp add: turn_def)

lemma agrees_in_frame:
  assumes "\<And>c. agrees (loop c) (loop' c)" shows "agrees (in_frame M loop c v) (in_frame M loop' c v)"
  using assms [of c] unfolding agrees_def by (auto simp: in_frame_def leave_def split: prod.splits)

lemma agrees_turn:
  fixes M :: "'b Machine"
  assumes loop: "\<And>c. agrees (loop c) (loop' c)" and s: "\<And>c. resp stays (loop c)"
  shows "agrees (turn M loop c) (turn M loop' c)"
proof -
  have S: "agrees (step M (in_frame M loop) c) (step M (in_frame M loop') c)"
    unfolding step_def
  proof (intro agrees_after agrees_bind [OF agrees_op [OF agrees_in_frame [OF loop]]] agrees_refl stays_if)
    show "resp grows (do { guard (r = Next) (upd (\<lambda>f. f\<lparr>pc := pc f + 1\<rparr>)); ret r } :: ('b, flow) fm)" for r
      by (intro growF.rules growE.resp_bind)
  qed
  show ?thesis
    unfolding turn_def
  proof (intro agrees_after agrees_if agrees_refl agrees_bind [OF S])
    show "agrees (case r of Return output \<Rightarrow> ret output | _ \<Rightarrow> loop c)
        (case r of Return output \<Rightarrow> ret output | _ \<Rightarrow> loop' c)" for r
      using loop by (cases r) (simp_all add: agrees_refl)
    show "resp stays (case r of Return output \<Rightarrow> ret output | _ \<Rightarrow> loop c)" for r
      using s by (cases r) (simp_all add: stayE.resp_ret)
  qed
qed

lemma agrees_run: "agrees (run n M c) (run (Suc n) M c)"
proof (induction n arbitrary: c)
  case 0
  show ?case by (auto simp: agrees_def halt_with_def upd_def gets_def hasError_def split: option.splits)
next
  case (Suc n)
  show ?case unfolding run_turn
    by (rule agrees_turn [OF Suc [unfolded run_turn]]) (rule stays_if [OF growR.r_runs])
qed

lemma agrees_execute: "agrees (execute n M c v) (execute (Suc n) M c v)"
  unfolding execute_def by (rule agrees_in_frame [OF agrees_run])

lemma agrees_Call: "agrees (VM_Call n M c v) (VM_Call (Suc n) M c v)"
proof -
  have "resp stays (case r of (output, err) \<Rightarrow> do {
      stErr \<leftarrow> gets (\<lambda>f. st_error (callState f)); ret (output, if err = None then stErr else err) })"
    for r :: "bytes option \<times> Exception option"
    by (intro stayE.resp_bind stayE.resp_combinators)
  then show ?thesis
    unfolding VM_Call_def by (intro agrees_bind agrees_refl agrees_children(2) agrees_execute)
qed

lemma VM_Call_more:
  assumes "halt (snd (run_state (VM_Call n M c v) vm)) \<noteq> Some OutOfFuel" "n \<le> k"
  shows "run_state (VM_Call k M c v) vm = run_state (VM_Call n M c v) vm"
  using assms(2)
proof (induction k rule: dec_induct)
  case (step k)
  then show ?case using agrees_Call [of k M c v] assms(1) by (simp add: agrees_def)
qed simp

end
