(* ===== verification/Bvm_Bounds.thy ===== *)
theory Bvm_Bounds
  imports Bvm_Order
begin

text \<open>
  The operand stack and the memory of a frame stay within the limits the machine is made with: the
  stack pointer stays inside the backing array, which grows to \<open>DataStackMaxDepth\<close> at most, and the
  memory grows, up to the provider's maximum, and never shrinks.
\<close>

definition stack_limit :: "'b Machine \<Rightarrow> nat" where
  "stack_limit M = max (unat (p_DataStackInitialCapacity (params M)))
     (if p_DataStackMaxDepth (params M) = 0 then MaxInt32 else unat (p_DataStackMaxDepth (params M)))"

definition memory_limit :: "'b Machine \<Rightarrow> nat" where
  "memory_limit M = max (memInitial M) (min MaxInt32 (unat (memMaximum M)))"

definition frame_ok :: "'b Machine \<Rightarrow> 'b Frame \<Rightarrow> bool" where
  "frame_ok M f \<longleftrightarrow> st_ptr f \<le> length (st_slice f) \<and> length (st_slice f) \<le> stack_limit M
     \<and> length (mem f) \<le> memory_limit M"

definition keeps_ok :: "'b Machine \<Rightarrow> 'b Frame \<Rightarrow> 'b Frame \<Rightarrow> bool" where
  "keeps_ok M f f' \<longleftrightarrow> (frame_ok M f \<longrightarrow> frame_ok M f') \<and> length (mem f) \<le> length (mem f')"

lemma keeps_okI: "st_ptr f' = st_ptr f \<Longrightarrow> st_slice f' = st_slice f \<Longrightarrow> mem f' = mem f \<Longrightarrow> keeps_ok M f f'"
  by (simp add: keeps_ok_def frame_ok_def)

interpretation okE: effect "keeps_ok M"
  for M :: "'b Machine"
  by unfold_locales (auto simp: keeps_ok_def)

lemma frame_on_state [simp]:
  fixes f :: "'b Frame"
  shows "st_ptr (snd (run_state (on_state m) f)) = st_ptr f" "st_slice (snd (run_state (on_state m) f)) = st_slice f"
    "mem (snd (run_state (on_state m) f)) = mem f"
  by (simp_all add: run_on_state)

lemma ok_on_state: "resp (keeps_ok M) (on_state m)" "resp (keeps_ok M) (pushErr e)"
  by (simp_all add: resp_def keeps_okI pushErr_def)

lemma ok_halt: "resp (keeps_ok M) (halt_with h)" "resp (keeps_ok M) (go_panic msg)"
  by (simp_all add: resp_def go_panic_def halt_with_def upd_def keeps_okI)

lemma ok_gas: "resp (keeps_ok M) (useGasNegative g)" "resp (keeps_ok M) (stack_useGas g)"
  unfolding useGasNegative_def stack_useGas_def
  by (intro okE.resp_bind okE.resp_combinators ok_on_state okE.resp_upd keeps_okI; simp)+

lemma stack_room:
  assumes "stack_ensureCapacity (p_DataStackMaxDepth (params M)) n bz = Some bz'" "length bz \<le> stack_limit M"
  shows "n \<le> length bz'" "length bz' \<le> stack_limit M"
  using assms by (auto simp: stack_ensureCapacity_def stack_limit_def word_gt_0 split: if_splits)

lemma memory_room:
  assumes "mem_ensureCapacity (memMaximum M) n bz = (e, bz')"
  shows "length bz \<le> length bz'" "length bz \<le> memory_limit M \<Longrightarrow> length bz' \<le> memory_limit M"
    "e = None \<Longrightarrow> unat n \<le> length bz'"
  using assms by (auto simp: mem_ensureCapacity_def memory_limit_def word_le_nat_alt not_less split: if_splits)

lemma ok_stack:
  fixes M :: "'b Machine"
  shows "resp (keeps_ok M) (Push M d)" "resp (keeps_ok M) (Pop :: ('b, word256) fm)"
    "resp (keeps_ok M) (Swap n :: ('b, unit) fm)" "resp (keeps_ok M) (Dup M n)"
proof -
  show P: "resp (keeps_ok M) (Push M d)" for d unfolding Push_def
    by (rule okE.resp_bind [OF ok_gas(2)])
      (auto simp: resp_def run_pushErr keeps_ok_def frame_ok_def dest: stack_room split: option.split)
  show "resp (keeps_ok M) (Pop :: ('b, word256) fm)" unfolding Pop_def
    by (rule okE.resp_bind [OF ok_gas(2)]) (auto simp: resp_def run_pushErr keeps_ok_def frame_ok_def)
  show "resp (keeps_ok M) (Swap n :: ('b, unit) fm)" unfolding Swap_def
    by (rule okE.resp_bind [OF ok_gas(2)]) (auto simp: resp_def run_pushErr keeps_ok_def frame_ok_def)
  show "resp (keeps_ok M) (Dup M n)" unfolding Dup_def
    by (intro okE.resp_bind okE.resp_combinators ok_gas P ok_on_state)
qed

lemma ok_memory:
  fixes M :: "'b Machine"
  shows "resp (keeps_ok M) (mem_read M o1 l1)" "resp (keeps_ok M) (mem_write M o1 bs)"
proof -
  show "resp (keeps_ok M) (mem_read M o1 l1)"
    by (auto simp: resp_def mem_read_def Let_def go_panic_def halt_with_def upd_def keeps_ok_def frame_ok_def
        dest: memory_room split: prod.split option.split)
  have written: "length (take a bz @ take (c - a) bs @ drop (a + length (take (c - a) bs)) bz) = length bz"
    if "c \<le> length bz" "a \<le> c" for a c and bz :: bytes
    using that by auto
  show "resp (keeps_ok M) (mem_write M o1 bs)"
    unfolding resp_def
  proof
    fix f :: "'b Frame"
    obtain e bz where m: "mem_ensureCapacity (memMaximum M) (o1 + of_nat (length bs)) (mem f) = (e, bz)" by fastforce
    note room = memory_room [OF m]
    let ?cap = "o1 + of_nat (length bs) :: uint64"
    have w: "e = None \<Longrightarrow> o1 \<le> ?cap \<Longrightarrow>
        length (take (unat o1) bz @ take (unat ?cap - unat o1) bs
          @ drop (unat o1 + length (take (unat ?cap - unat o1) bs)) bz) = length bz"
      by (rule written) (use room(3) in \<open>simp_all add: word_le_nat_alt\<close>)
    show "keeps_ok M f (snd (run_state (mem_write M o1 bs) f))"
      using room(1,2) w unfolding mem_write_def keeps_ok_def frame_ok_def
      by (simp add: m Let_def go_panic_def halt_with_def upd_def not_less del: length_append length_take length_drop
          split: option.split)
  qed
qed

interpretation okF: gas_free_effect "keeps_ok M" M
  for M :: "'b Machine"
  by unfold_locales (rule ok_on_state ok_halt ok_gas ok_stack ok_memory | simp add: keeps_okI)+

text \<open>A child has its own stack and memory, so nothing is asked of it.\<close>

lemma nested_ok: "resp (keeps_ok M) (nested opts g m)"
  by (auto simp: resp_def nested_def Let_def split: prod.split intro: keeps_okI)

interpretation okV: child_effect "\<lambda>_ _. True" M
  for M :: "'b Machine"
  by unfold_locales (simp_all add: resp_def)

interpretation okR: run_effect "keeps_ok M" "\<lambda>_ _. True" M
  for M :: "'b Machine"
  by unfold_locales (auto intro: ok_halt nested_ok simp: resp_def [of "\<lambda>_ _. True"])

lemma enter_ok: "frame_ok M (enter M v vm)"
  by (simp add: frame_ok_def enter_def stack_limit_def memory_limit_def)

end
