(* ===== verification/Bvm_Isolation.thy ===== *)
theory Bvm_Isolation
  imports Bvm_Order Acm_Cache
begin

text \<open>
  What a called contract can do to the state of its caller. \<open>fills\<close> relates two chains of caches that
  differ in what has been read only; \<open>evolves\<close> allows writes to the cache on top, unless it is
  read-only. A frame evolves its own chain; a child evolves the chain of its caller, and only through
  \<open>Sync\<close>. So a call that fails leaves the accounts and the storage its caller sees as they were,
  and a \<open>STATICCALL\<close> does so whatever happens.
\<close>

section \<open>Chains\<close>

fun fills :: "'b ReaderWriter \<Rightarrow> 'b chain \<Rightarrow> 'b chain \<Rightarrow> bool" where
  "fills B (Base b) ch' \<longleftrightarrow> ch' = Base b"
| "fills B (Layer c r) (Layer c' r') \<longleftrightarrow> c_readonly c' = c_readonly c \<and> same_view B (Layer c r) (Layer c' r')
     \<and> (coh B (Layer c r) \<longrightarrow> coh B (Layer c' r')) \<and> fills B r r'"
| "fills B (Layer c r) (Base b) \<longleftrightarrow> False"

fun evolves :: "'b ReaderWriter \<Rightarrow> 'b chain \<Rightarrow> 'b chain \<Rightarrow> bool" where
  "evolves B (Base b) ch' \<longleftrightarrow> (\<exists>b'. ch' = Base b')"
| "evolves B (Layer c r) (Layer c' r') \<longleftrightarrow> c_readonly c' = c_readonly c \<and> fills B r r'
     \<and> (coh B (Layer c r) \<longrightarrow> coh B (Layer c' r')) \<and> (c_readonly c \<longrightarrow> same_view B (Layer c r) (Layer c' r'))"
| "evolves B (Layer c r) (Base b) \<longleftrightarrow> False"

text \<open>What a child, its \<open>Sync\<close> included, does to a chain with the child's cache on top.\<close>

fun child_evolves :: "'b ReaderWriter \<Rightarrow> 'b chain \<Rightarrow> 'b chain \<Rightarrow> bool" where
  "child_evolves B (Base b) ch' \<longleftrightarrow> True"
| "child_evolves B (Layer c r) (Layer c' r') \<longleftrightarrow> c_readonly c' = c_readonly c \<and> evolves B r r' \<and> (c_readonly c \<longrightarrow> fills B r r')"
| "child_evolves B (Layer c r) (Base b) \<longleftrightarrow> False"

lemma fills_refl: "fills B ch ch"
  by (induction ch) simp_all

lemma fills_trans: "fills B x y \<Longrightarrow> fills B y z \<Longrightarrow> fills B x z"
proof (induction x arbitrary: y z)
  case (Layer c r)
  from Layer.prems obtain c' r' c'' r'' where [simp]: "y = Layer c' r'" "z = Layer c'' r''"
    by (metis chain.exhaust fills.simps(3))
  have "same_view B (Layer c r) (Layer c'' r'')" 
    by (rule same_view_trans [of B _ "Layer c' r'"]) (use Layer.prems in simp_all)
  then show ?case using Layer by auto
qed simp

lemma fills_view: "fills B ch ch' \<Longrightarrow> same_view B ch ch'"
  by (cases ch; cases ch') auto

lemma fills_coh: "fills B ch ch' \<Longrightarrow> coh B ch \<Longrightarrow> coh B ch'"
  by (cases ch; cases ch') auto

lemma fills_evolves: "fills B ch ch' \<Longrightarrow> evolves B ch ch'"
  by (cases ch; cases ch') auto

lemma evolves_refl: "evolves B ch ch"
  by (simp add: fills_evolves fills_refl)

lemma fills_LayerD: "fills B (Layer c r) ch \<Longrightarrow> \<exists>c' r'. ch = Layer c' r' \<and> c_readonly c' = c_readonly c \<and> fills B r r'"
  by (cases ch) auto

lemma evolves_LayerD: "evolves B (Layer c r) ch \<Longrightarrow> \<exists>c' r'. ch = Layer c' r' \<and> c_readonly c' = c_readonly c \<and> fills B r r'"
  by (cases ch) auto

lemma child_evolves_LayerD: "child_evolves B (Layer c r) ch \<Longrightarrow>
    \<exists>c' r'. ch = Layer c' r' \<and> c_readonly c' = c_readonly c \<and> evolves B r r' \<and> (c_readonly c \<longrightarrow> fills B r r')"
  by (cases ch) auto

lemma evolves_trans:
  assumes a: "evolves B x y" "evolves B y z"
  shows "evolves B x z"
proof (cases x)
  case (Base b)
  then show ?thesis using a by auto
next
  case x: (Layer c r)
  from evolves_LayerD [OF a(1) [unfolded x]] obtain c' r' where y: "y = Layer c' r'" by blast
  from evolves_LayerD [OF a(2) [unfolded y]] obtain c'' r'' where z: "z = Layer c'' r''" by blast
  have "fills B r r''" using a unfolding x y z by (simp add: fills_trans [of B r r' r''])
  moreover have "same_view B x z" if "c_readonly c"
    by (rule same_view_trans [of B _ y]) (use a that in \<open>simp_all add: x y z\<close>)
  ultimately show ?thesis using a by (simp add: x y z)
qed

lemma child_evolves_refl: "child_evolves B ch ch"
  by (cases ch) (simp_all add: evolves_refl fills_refl)

lemma child_evolves_trans:
  assumes a: "child_evolves B x y" "child_evolves B y z"
  shows "child_evolves B x z"
proof (cases x)
  case x: (Layer c r)
  from child_evolves_LayerD [OF a(1) [unfolded x]] obtain c' r' where y: "y = Layer c' r'" by blast
  from child_evolves_LayerD [OF a(2) [unfolded y]] obtain c'' r'' where z: "z = Layer c'' r''" by blast
  show ?thesis using a evolves_trans [of B r r' r''] fills_trans [of B r r' r''] by (auto simp: x y z)
qed simp

lemma evolves_child: "evolves B ch ch' \<Longrightarrow> child_evolves B ch ch'"
  by (cases ch; cases ch') (auto intro: fills_evolves)

section \<open>Reading fills\<close>

lemma cache_get_fills:
  assumes g: "cache_get a c rest (Cache_GetAccount B a rest) = (r, ch)"
    and IH: "fills B rest (snd (Cache_GetAccount B a rest))"
  shows "fills B (Layer c rest) ch"
proof -
  obtain q rest' where b: "Cache_GetAccount B a rest = (q, rest')" by fastforce
  have "\<exists>c' r'. ch = Layer c' r' \<and> c_readonly c' = c_readonly c \<and> fills B rest r'"
    using g IH b by (auto simp: cache_get_def Let_def set_info_def fills_refl split: option.splits sum.splits)
  moreover have "same_view B (Layer c rest) ch" by (rule cache_get_view(1) [OF g])
  moreover have "coh B (Layer c rest) \<Longrightarrow> coh B ch" by (rule coh_get [OF g])
  ultimately show ?thesis by auto
qed

lemma GetAccount_fills: "fills B ch (snd (Cache_GetAccount B a ch))"
proof (induction ch)
  case (Layer c rest)
  obtain r ch' where g: "cache_get a c rest (Cache_GetAccount B a rest) = (r, ch')" by fastforce
  then have "snd (Cache_GetAccount B a (Layer c rest)) = ch'" by (simp split: sum.split)
  then show ?case using cache_get_fills [OF g Layer] by simp
qed simp

lemmas get_fills = cache_get_fills [OF _ GetAccount_fills]

lemma GetStorage_fills: "fills B ch (snd (Cache_GetStorage B a k ch))"
proof (induction B a k ch rule: Cache_GetStorage.induct)
  case (2 B a k c rest)
  let ?out = "snd (Cache_GetStorage B a k (Layer c rest))"
  obtain r ch where g: "cache_get a c rest (Cache_GetAccount B a rest) = (r, ch)" by fastforce
  from fills_LayerD [OF get_fills [OF g]] obtain c1 r1 where
    ch: "ch = Layer c1 r1" "c_readonly c1 = c_readonly c" "fills B rest r1" by blast
  have "\<exists>c2 r2. ?out = Layer c2 r2 \<and> c_readonly c2 = c_readonly c \<and> fills B rest r2"
  proof (cases r)
    case (Inr i)
    show ?thesis
    proof (cases "map_of (ai_storage i) k")
      case None
      obtain q r2 where q: "Cache_GetStorage B a k r1 = (q, r2)" by fastforce
      have "fills B r1 r2" using "2.IH" [OF g [symmetric] Inr None ch(1)] q by simp
      then have "fills B rest r2" by (rule fills_trans [OF ch(3)])
      then show ?thesis using g Inr None ch q by (auto simp: set_info_def split: sum.split)
    qed (use g Inr ch in simp)
  qed (use g ch in simp)
  moreover have "same_view B (Layer c rest) ?out" using GetStorage_spec by blast
  moreover have "coh B (Layer c rest) \<Longrightarrow> coh B ?out" by (rule coh_GetStorage)
  ultimately show ?case by auto
qed simp

lemma view_tokenAddr:
  "view_acc B (Layer (c\<lparr>c_tokenAddr := t\<rparr>) r) = view_acc B (Layer c r)"
  "view_sto B (Layer (c\<lparr>c_tokenAddr := t\<rparr>) r) = view_sto B (Layer c r)"
  by (simp_all add: fun_eq_iff)

lemma GetToken_fills: "fills B ch (snd (Cache_GetToken B ch))"
proof (induction ch)
  case (Layer c rest)
  obtain t rest' where t: "Cache_GetToken B rest = (t, rest')" by fastforce
  have f: "fills B rest rest'" using Layer t by simp
  have v: "same_view B (Layer c rest) (Layer (c\<lparr>c_tokenAddr := t\<rparr>) rest')"
    using same_view_Layer [OF fills_view [OF f], of c]
    by (simp add: same_view_def view_tokenAddr del: view_acc.simps view_sto.simps)
  have "coherent B (c\<lparr>c_tokenAddr := t\<rparr>) rest'" if "coherent B c rest"
    using coherent_same [OF that fills_view [OF f]] by (simp add: coherent_def keyed_def)
  then have "coh B (Layer c rest) \<longrightarrow> coh B (Layer (c\<lparr>c_tokenAddr := t\<rparr>) rest')"
    using fills_coh [OF f] by simp
  then have "fills B (Layer c rest) (Layer (c\<lparr>c_tokenAddr := t\<rparr>) rest')"
    using v f by (simp del: coh.simps)
  then show ?case using t fills_refl [of B "Layer c rest"] by (auto simp del: fills.simps)
qed simp

lemma fills_Layer:
  assumes "fills B r r'" shows "fills B (Layer c r) (Layer c r')"
  using assms same_view_Layer [OF fills_view [OF assms]] coherent_same [of B c r r', OF _ fills_view [OF assms]]
    fills_coh [OF assms] by simp

lemma token_below_fills: "fills (rw W) ch (snd (token_below W ch))"
  using GetToken_fills [of "rw W"]
  by (cases ch) (auto split: prod.split simp del: fills.simps(2) intro!: fills_Layer, metis snd_conv)

section \<open>Writing evolves\<close>

lemma UpdateAccount_evolves: "evolves B ch (snd (Cache_UpdateAccount B acc ch))"
proof (cases ch)
  case (Layer c rest)
  obtain r ch' where g: "cache_get (Address acc) c rest (Cache_GetAccount B (Address acc) rest) = (r, ch')" by fastforce
  from fills_LayerD [OF get_fills [OF g]] obtain c1 r1 where
    ch: "ch' = Layer c1 r1" "c_readonly c1 = c_readonly c" "fills B rest r1" by blast
  have e: "evolves B ch ch'" using fills_evolves [OF get_fills [OF g]] Layer by simp
  have "evolves B ch (put_info (Address acc) (i\<lparr>ai_account := Some acc, ai_updated := True\<rparr>) ch')"
    if "\<not> c_readonly c" "r = Inr i" "\<not> ai_removed i" for i
    using coh_UpdateAccount [of B c rest acc] g that ch Layer by (simp add: set_info_def del: coh.simps)
  then show ?thesis using g Layer e by (auto simp: fills_refl split: sum.split)
qed (simp split: prod.split)

lemma RemoveAccount_evolves: "evolves B ch (snd (Cache_RemoveAccount B a ch))"
proof (cases ch)
  case (Layer c rest)
  obtain r ch' where g: "cache_get a c rest (Cache_GetAccount B a rest) = (r, ch')" by fastforce
  from fills_LayerD [OF get_fills [OF g]] obtain c1 r1 where
    ch: "ch' = Layer c1 r1" "c_readonly c1 = c_readonly c" "fills B rest r1" by blast
  have e: "evolves B ch ch'" using fills_evolves [OF get_fills [OF g]] Layer by simp
  have "evolves B ch (put_info a (i\<lparr>ai_removed := True\<rparr>) ch')"
    if "\<not> c_readonly c" "r = Inr i" "\<not> ai_removed i" for i
    using coh_RemoveAccount [of B c rest a] g that ch Layer by (simp add: set_info_def del: coh.simps)
  then show ?thesis using g Layer e by (auto simp: fills_refl split: sum.split)
qed (simp split: prod.split)

lemma SetStorage_evolves: "evolves B ch (snd (Cache_SetStorage B a k v ch))"
proof (cases ch)
  case (Layer c rest)
  obtain r ch' where g: "cache_get a c rest (Cache_GetAccount B a rest) = (r, ch')" by fastforce
  from fills_LayerD [OF get_fills [OF g]] obtain c1 r1 where
    ch: "ch' = Layer c1 r1" "c_readonly c1 = c_readonly c" "fills B rest r1" by blast
  have e: "evolves B ch ch'" using fills_evolves [OF get_fills [OF g]] Layer by simp
  have "evolves B ch (put_info a (i\<lparr>ai_storage := AList.update k v (ai_storage i), ai_updated := True\<rparr>) ch')"
    if "\<not> c_readonly c" "r = Inr i" "\<not> ai_removed i" "ai_account i \<noteq> None" for i
    using coh_SetStorage [of B c rest a k v] g that ch Layer by (simp add: set_info_def del: coh.simps)
  then show ?thesis using g Layer e by (auto simp: fills_refl split: sum.split)
qed (simp split: prod.split)

text \<open>\<open>Sync\<close> makes writes to the backend only, and none when the cache is read-only.\<close>

lemma sync_keys_evolves: "sync_keys (chain_writer B) a i ks ch = (e, ch') \<Longrightarrow> evolves B ch ch'"
proof (induction ks arbitrary: ch)
  case (Cons k ks)
  obtain e1 ch1 where 1: "Cache_SetStorage B a k (case map_of (ai_storage i) k of Some v \<Rightarrow> v | None \<Rightarrow> []) ch = (e1, ch1)"
    by fastforce
  have "evolves B ch ch1" using SetStorage_evolves 1 by (metis snd_conv)
  then show ?case using Cons 1 evolves_trans by (fastforce simp: chain_writer_def split: option.splits)
qed (simp add: evolves_refl)

lemma sync_account_evolves:
  assumes "sync_account (chain_writer B) a i ch = (e, ch')"
  shows "evolves B ch ch'"
proof -
  consider "ai_removed i" | "\<not> ai_removed i" "ai_updated i" "ai_account i \<noteq> None"
    | "\<not> ai_removed i" "\<not> ai_updated i \<or> ai_account i = None" by blast
  then show ?thesis
  proof cases
    case 1
    then show ?thesis using assms RemoveAccount_evolves [of B ch a] by (simp add: sync_account_def chain_writer_def)
  next
    case 2
    then obtain acc where acc: "ai_account i = Some acc" by blast
    obtain e1 ch1 where 1: "Cache_UpdateAccount B acc ch = (e1, ch1)" by fastforce
    have u: "evolves B ch ch1" using UpdateAccount_evolves [of B ch acc] 1 by simp
    have c: "w_UpdateAccount (chain_writer B) acc ch = (e1, ch1)" using 1 by (simp add: chain_writer_def)
    show ?thesis
    proof (cases e1)
      case None
      then have "sync_keys (chain_writer B) a i (sort (map fst (ai_storage i))) ch1 = (e, ch')"
        using assms 2 acc c by (simp add: sync_account_def)
      from evolves_trans [OF u sync_keys_evolves [OF this]] show ?thesis .
    qed (use assms 2 acc c u in \<open>simp add: sync_account_def\<close>)
  next
    case 3
    then show ?thesis using assms by (auto simp: sync_account_def evolves_refl split: if_splits)
  qed
qed

lemma sync_accounts_evolves: "sync_accounts (chain_writer B) c as ch = (e, ch') \<Longrightarrow> evolves B ch ch'"
proof (induction as arbitrary: ch)
  case (Cons a as)
  show ?case
  proof (cases "map_of (c_accounts c) a")
    case (Some i)
    obtain e1 ch1 where 1: "sync_account (chain_writer B) a i ch = (e1, ch1)" by fastforce
    show ?thesis using Cons Some 1 sync_account_evolves [OF 1] evolves_trans by (fastforce split: option.splits)
  qed (use Cons in simp)
qed (simp add: evolves_refl)

lemma Cache_Sync_evolves:
  assumes "Cache_Sync (chain_writer B) c ch = (e, ch')"
  shows "evolves B ch ch'" "c_readonly c \<Longrightarrow> ch' = ch"
  using assms sync_accounts_evolves evolves_refl by (auto simp: Cache_Sync_def split: if_splits)

lemma sync_top_evolves: "child_evolves (rw W) ch (snd (sync_top W ch))"
  by (cases ch) (auto split: prod.split intro: Cache_Sync_evolves simp: fills_refl dest: Cache_Sync_evolves(2))

section \<open>Frames and their children\<close>

definition frame_evolves :: "'b Machine \<Rightarrow> ('b, 'z) VM_scheme \<Rightarrow> ('b, 'z) VM_scheme \<Rightarrow> bool" where
  "frame_evolves M s s' \<longleftrightarrow> evolves (rw (world M)) (chain (callState s)) (chain (callState s'))"

definition sub_evolves :: "'b Machine \<Rightarrow> 'b VM \<Rightarrow> 'b VM \<Rightarrow> bool" where
  "sub_evolves M s s' \<longleftrightarrow> child_evolves (rw (world M)) (chain (callState s)) (chain (callState s'))"

lemma frame_evolvesI: "chain (callState s') = chain (callState s) \<Longrightarrow> frame_evolves M s s'"
  by (simp add: frame_evolves_def evolves_refl)

interpretation evoE: effect "frame_evolves M"
  for M :: "'b Machine"
  by unfold_locales (auto simp: frame_evolves_def intro: evolves_refl evolves_trans)

lemma evo_chain:
  assumes "\<And>ch. evolves (rw (world M)) ch (snd (g ch))"
  shows "resp (frame_evolves M) (on_state (on_chain g))"
  by (simp add: resp_def run_on_state run_on_chain frame_evolves_def assms)

lemma evo_access:
  "resp (frame_evolves M) (on_state (on_chain (Cache_GetAccount (rw (world M)) a)))"
  "resp (frame_evolves M) (on_state (on_chain (Cache_GetStorage (rw (world M)) a k)))"
  "resp (frame_evolves M) (on_state (on_chain (token_below (world M))))"
  "resp (frame_evolves M) (on_state (on_chain (Cache_GetToken (rw (world M)))))"
  "resp (frame_evolves M) (on_state (on_chain (Cache_UpdateAccount (rw (world M)) acc)))"
  "resp (frame_evolves M) (on_state (on_chain (Cache_RemoveAccount (rw (world M)) a)))"
  "resp (frame_evolves M) (on_state (on_chain (Cache_SetStorage (rw (world M)) a k bs)))"
  by (intro evo_chain fills_evolves GetAccount_fills GetStorage_fills token_below_fills GetToken_fills
      UpdateAccount_evolves RemoveAccount_evolves SetStorage_evolves)+

lemma evo_pushErr: "resp (frame_evolves M) (pushErr err)"
  by (simp add: resp_def run_pushErr frame_evolvesI)

lemma evo_halt: "resp (frame_evolves M) (halt_with h)" "resp (frame_evolves M) (go_panic msg)"
  by (simp_all add: resp_def go_panic_def halt_with_def upd_def frame_evolvesI)

lemma evo_gas: "resp (frame_evolves M) (useGasNegative g)" "resp (frame_evolves M) (stack_useGas g)"
  unfolding useGasNegative_def stack_useGas_def
  by (intro evoE.resp_bind evoE.resp_combinators evo_pushErr evoE.resp_upd frame_evolvesI; simp)+

lemma evo_frame:
  fixes M :: "'b Machine"
  shows "resp (frame_evolves M) (Push M d)" "resp (frame_evolves M) (Pop :: ('b, word256) fm)"
    "resp (frame_evolves M) (Swap n :: ('b, unit) fm)"
    "resp (frame_evolves M) (Dup M n)" "resp (frame_evolves M) (mem_read M o1 l1)" "resp (frame_evolves M) (mem_write M o1 bs)"
proof -
  have push: "frame_evolves M f (snd (run_state (pushErr e) f))" for f :: "'b Frame" and e
    by (rule evo_pushErr [unfolded resp_def, THEN spec])
  show P: "resp (frame_evolves M) (Push M d)" for d unfolding Push_def
    by (rule evoE.resp_bind [OF evo_gas(2)]) (auto simp: resp_def push split: option.split intro: frame_evolvesI)
  show "resp (frame_evolves M) (Pop :: ('b, word256) fm)" unfolding Pop_def
    by (rule evoE.resp_bind [OF evo_gas(2)]) (auto simp: resp_def run_pushErr split: prod.split intro: frame_evolvesI)
  show "resp (frame_evolves M) (Swap n :: ('b, unit) fm)" unfolding Swap_def
    by (rule evoE.resp_bind [OF evo_gas(2)]) (auto simp: resp_def push intro: frame_evolvesI)
  show "resp (frame_evolves M) (Dup M n)" unfolding Dup_def
    by (intro evoE.resp_bind evoE.resp_combinators evo_gas P evo_pushErr)
  show "resp (frame_evolves M) (mem_read M o1 l1)"
    by (auto simp: resp_def mem_read_def Let_def go_panic_def halt_with_def upd_def split: prod.split option.split intro: frame_evolvesI)
  show "resp (frame_evolves M) (mem_write M o1 bs)"
    by (auto simp: resp_def mem_write_def Let_def go_panic_def halt_with_def upd_def split: prod.split option.split intro: frame_evolvesI)
qed

interpretation evoF: gas_free_effect "frame_evolves M" M
  for M :: "'b Machine"
  by unfold_locales (rule evo_access evo_pushErr evo_halt evo_gas evo_frame | simp add: frame_evolvesI)+

interpretation evoV: vm_effect "frame_evolves M" M
  for M :: "'b Machine"
  by unfold_locales (rule evo_access evo_pushErr evo_halt | simp add: frame_evolvesI)+

lemma sub_if: "resp (frame_evolves M) m \<Longrightarrow> resp (sub_evolves M) m"
  by (auto simp: resp_def frame_evolves_def sub_evolves_def intro: evolves_child)

lemma sub_evolvesI: "chain (callState s') = chain (callState s) \<Longrightarrow> sub_evolves M s s'"
  by (simp add: sub_evolves_def child_evolves_refl)

lemma sub_sync: "resp (sub_evolves M) (on_state (State_Sync (world M)))"
  by (auto simp: resp_def run_on_state State_Sync_def State_Error_def run_on_chain sub_evolves_def child_evolves_refl
      sync_top_evolves split: option.split)

interpretation subV: child_effect "sub_evolves M" M
  for M :: "'b Machine"
proof unfold_locales
  fix s t u
  show "sub_evolves M s s" by (rule sub_evolvesI) simp
  assume "sub_evolves M s t" "sub_evolves M t u"
  then show "sub_evolves M s u" unfolding sub_evolves_def by (rule child_evolves_trans)
qed (rule sub_if sub_sync evo_access evo_pushErr evo_halt | simp add: sub_evolvesI)+

lemma nested_start: "chain (State_NewCache st opts) = Layer (NewCache (cacheOptions st @ opts)) (chain st)"
  by (simp add: State_NewCache_def NewState_def)

lemma nested_evolves:
  fixes m :: "('b VM, 'a) state"
  assumes "resp (sub_evolves M) m" shows "resp (frame_evolves M) (nested opts g m)"
  unfolding resp_def
proof
  fix f :: "'b Frame"
  let ?vm = "\<lparr>callState = State_NewCache (callState f) opts, gas = g, vm_sequence = vm_sequence f,
           stackDepth = stackDepth f, events = events f, halt = halt f\<rparr>"
  obtain a vm where m: "run_state m ?vm = (a, vm)" by fastforce
  have "sub_evolves M ?vm vm" by (rule respD [OF assms m])
  from child_evolves_LayerD [OF this [unfolded sub_evolves_def, simplified, unfolded nested_start]]
  obtain c' r' where "chain (callState vm) = Layer c' r'" "evolves (rw (world M)) (chain (callState f)) r'" by blast
  then show "frame_evolves M f (snd (run_state (nested opts g m) f))" using m by (simp add: nested_def frame_evolves_def)
qed

lemma code_evolves:
  fixes M :: "'b Machine"
  assumes "\<And>c. resp (frame_evolves M) (loop c)"
  shows "resp (frame_evolves M) (delegateCall M (in_frame M loop) c v)"
proof -
  have enter: "frame_evolves M vm (leave f)" if "frame_evolves M (enter M v vm) f" for vm f
    using that by (simp add: frame_evolves_def enter_def leave_def)
  have X: "resp (frame_evolves M) (in_frame M loop c v)"
    by (auto simp: resp_def in_frame_def split: prod.split intro!: enter respD [OF assms])
  show ?thesis unfolding delegateCall_def run_code_def ensureStackDepth_def hasError_def
    by (intro evoE.resp_bind evoE.resp_combinators evo_pushErr X evoE.resp_upd frame_evolvesI) simp_all
qed

interpretation evoR: run_effect "frame_evolves M" "sub_evolves M" M
  for M :: "'b Machine"
  by unfold_locales (auto intro: evo_halt nested_evolves sub_if code_evolves sub_evolvesI)

section \<open>Calls that fail, and calls that only read\<close>

lemma evo_delegateCall: "resp (frame_evolves M) (delegateCall M (execute n M) c v)"
  unfolding execute_def by (rule code_evolves [OF evoR.r_runs])

lemma evo_vm_call: "resp (frame_evolves M) (vm_call M (execute n M) c v)"
proof -
  have "vm_call M (execute n M) c v =
      do { e \<leftarrow> transfer M (caller c) (callee c) v; pushErr e; delegateCall M (execute n M) c v }"
    by (simp add: vm_call_def delegateCall_def)
  then show ?thesis by (simp only:) (intro evoV.vm_rules evoE.resp_bind evoV.r_transfer evo_delegateCall)
qed

text \<open>A child that fails does not sync, so all it did to its caller's chain is to read.\<close>

lemma failed_child:
  assumes "resp (frame_evolves M) body"
    and "run_state (do { (out, callErr) \<leftarrow> body; guard (callErr = None) init; syncErr \<leftarrow> sync_if M (callErr = None);
       ret (out, callErr, syncErr) }) vm = ((out, Some err, syncErr), vm')"
  shows "frame_evolves M vm vm'"
proof -
  obtain r ce vm1 where b: "run_state body vm = ((r, ce), vm1)" by (metis surj_pair)
  have "vm' = vm1" using assms(2) b by (cases ce) (auto simp: guard_def sync_if_def split: prod.splits)
  then show ?thesis using respD [OF assms(1) b] by simp
qed

lemma nested_failed:
  assumes m: "\<And>vm out syncErr vm'. run_state m vm = ((out, Some err, syncErr), vm') \<Longrightarrow> frame_evolves M vm vm'"
    and n: "run_state (nested opts g m) f = (((out, Some err, syncErr), g'), f')"
  shows "fills (rw (world M)) (chain (callState f)) (chain (callState f'))"
proof -
  let ?vm = "\<lparr>callState = State_NewCache (callState f) opts, gas = g, vm_sequence = vm_sequence f,
           stackDepth = stackDepth f, events = events f, halt = halt f\<rparr>"
  obtain vm where r: "run_state m ?vm = ((out, Some err, syncErr), vm)" and f': "chain (callState f') = below (chain (callState vm))"
    using n by (auto simp: nested_def split: prod.splits)
  from evolves_LayerD [OF m [OF r, unfolded frame_evolves_def, simplified, unfolded nested_start]] f'
  show ?thesis by auto
qed

lemma call_failed:
  assumes "run_state (call_child M (execute n M) c op a cd args v) vm = ((out, Some err, syncErr), vm')"
  shows "frame_evolves M vm vm'"
proof (rule failed_child [where init = "ret ()"])
  let ?body = "if op = CALL then vm_call M (execute n M)
      \<lparr>caller = callee c, callee = a, code = cd, input = args, logFree = logFree c\<rparr> v
    else if op = CALLCODE then vm_call M (execute n M)
      \<lparr>caller = callee c, callee = callee c, code = cd, input = args, logFree = logFree c\<rparr> v
    else if op = DELEGATECALL then delegateCall M (execute n M)
      \<lparr>caller = caller c, callee = callee c, code = cd, input = args, logFree = logFree c\<rparr> v
    else delegateCall M (execute n M) \<lparr>caller = callee c, callee = a, code = cd, input = args, logFree = True\<rparr> v"
  show "resp (frame_evolves M) ?body" by (simp add: evo_vm_call evo_delegateCall)
  show "run_state (do { (out, callErr) \<leftarrow> ?body; guard (callErr = None) (ret ()); syncErr \<leftarrow> sync_if M (callErr = None);
       ret (out, callErr, syncErr) }) vm = ((out, Some err, syncErr), vm')"
    using assms by (simp add: call_child_def guard_def)
qed

lemma create_failed:
  assumes "run_state (create_child M (execute n M) c a inp v) vm = ((out, Some err, syncErr), vm')"
  shows "frame_evolves M vm vm'"
proof (rule failed_child [where init = "on_state (State_InitCode (world M) a out)"])
  let ?body = "do { createAccount M a; vm_call M (execute n M)
     \<lparr>caller = callee c, callee = a, code = inp, input = inp, logFree = logFree c\<rparr> v }"
  show "resp (frame_evolves M) ?body" by (intro evoE.resp_bind evoV.r_createAccount evo_vm_call)
  obtain u vm0 where b0: "run_state (createAccount M a) vm = (u, vm0)" by (metis surj_pair)
  obtain out' ce vm1 where b1: "run_state (vm_call M (execute n M)
     \<lparr>caller = callee c, callee = a, code = inp, input = inp, logFree = logFree c\<rparr> v) vm0 = ((out', ce), vm1)"
    by (metis surj_pair)
  have split: "run_state (create_child M (execute n M) c a inp v) vm = run_state (do {
     guard (ce = None) (on_state (State_InitCode (world M) a out')); syncErr \<leftarrow> sync_if M (ce = None); ret (out', ce, syncErr) }) vm1"
    using b0 b1 by (simp add: create_child_def)
  have ce: "ce = Some err" "out' = out" using assms unfolding split by (auto split: prod.splits)
  then have "run_state (sync_if M False) vm1 = (syncErr, vm')"
    using assms unfolding split by (simp add: guard_def split: prod.splits)
  then show "run_state (do { (out'', callErr) \<leftarrow> ?body; guard (callErr = None) (on_state (State_InitCode (world M) a out));
       syncErr \<leftarrow> sync_if M (callErr = None); ret (out'', callErr, syncErr) }) vm = ((out, Some err, syncErr), vm')"
    using b0 b1 ce by (simp add: guard_def)
qed

lemma NewCache_readonly: "ReadOnly \<in> set opts \<Longrightarrow> c_readonly (NewCache opts)"
proof -
  have keep: "c_readonly c \<Longrightarrow> c_readonly (fold apply_option opts c)" for c opts
  proof (induction opts arbitrary: c)
    case (Cons x xs)
    then show ?case by (cases x) simp_all
  qed simp
  have "ReadOnly \<in> set opts \<Longrightarrow> c_readonly (fold apply_option opts c)" for c
  proof (induction opts arbitrary: c)
    case (Cons x xs)
    then show ?case using keep by (cases x) auto
  qed simp
  then show "ReadOnly \<in> set opts \<Longrightarrow> c_readonly (NewCache opts)" by (simp add: NewCache_def)
qed

text \<open>A child whose cache is read-only leaves its caller's view alone, whether it fails or not.\<close>

lemma nested_readonly:
  fixes m :: "('b VM, 'a) state"
  assumes m: "resp (sub_evolves M) m" and ro: "ReadOnly \<in> set (cacheOptions (callState f) @ opts)"
  shows "fills (rw (world M)) (chain (callState f)) (chain (callState (snd (run_state (nested opts g m) f))))"
proof -
  let ?vm = "\<lparr>callState = State_NewCache (callState f) opts, gas = g, vm_sequence = vm_sequence f,
           stackDepth = stackDepth f, events = events f, halt = halt f\<rparr>"
  obtain a vm where r: "run_state m ?vm = (a, vm)" by fastforce
  from child_evolves_LayerD [OF respD [OF m r, unfolded sub_evolves_def, simplified, unfolded nested_start]]
  show ?thesis using r NewCache_readonly [OF ro] by (auto simp: nested_def)
qed

lemma run_readonly:
  assumes "chain (callState f) = Layer c0 r" "c_readonly c0"
  shows "same_view (rw (world M)) (chain (callState f)) (chain (callState (snd (run_state (run n M c) f))))"
  using evoR.r_runs [of M n c, unfolded resp_def, THEN spec, of f, unfolded frame_evolves_def assms(1)] assms
  by (cases "chain (callState (snd (run_state (run n M c) f)))") simp_all

lemma VM_Call_evolves: "resp (frame_evolves M) (VM_Call n M c v)"
  unfolding VM_Call_def by (intro evoV.vm_rules evoE.resp_bind evo_vm_call)

end
