(* ===== verification/Bvm_Transfer.thy ===== *)
theory Bvm_Transfer
  imports Bvm_Isolation
begin

text \<open>
  The account operations of a frame's state in terms of the view of its chain, and the transfer of
  funds built from them.
\<close>

lemma UpdateAccount_succeeds:
  assumes "\<not> c_readonly c" "view_acc B (Layer c rest) (Address acc) = Inr x" "x \<noteq> None \<or> map_of (c_accounts c) (Address acc) = None"
  shows "fst (Cache_UpdateAccount B acc (Layer c rest)) = None"
proof -
  obtain r ch where g: "cache_get (Address acc) c rest (Cache_GetAccount B (Address acc) rest) = (r, ch)" by fastforce
  note S = cache_get_view [OF g]
  from S(2) assms(2) obtain i where i: "r = Inr i" by (cases r) auto
  from S(3) [OF i] have "\<not> ai_removed i" using assms(2,3) by (auto split: if_splits)
  then show ?thesis using assms(1) g i by simp
qed

text \<open>A frame that can write, and whose caches agree with what is below them.\<close>

definition writable :: "'b World \<Rightarrow> 'b State \<Rightarrow> bool" where
  "writable W st \<longleftrightarrow> (\<exists>c rest. chain st = Layer c rest \<and> \<not> c_readonly c) \<and> coh (rw W) (chain st)"

abbreviation acc_of :: "'b World \<Rightarrow> 'b State \<Rightarrow> word160 \<Rightarrow> goerr + Account option" where
  "acc_of W st \<equiv> view_acc (rw W) (chain st)"

abbreviation sto_of :: "'b World \<Rightarrow> 'b State \<Rightarrow> word160 \<Rightarrow> word256 \<Rightarrow> bytes option" where
  "sto_of W st \<equiv> view_sto (rw W) (chain st)"

lemma writable_evolves:
  assumes "writable W st" "evolves (rw W) (chain st) (chain st')" shows "writable W st'"
proof -
  from assms(1) obtain c rest where c: "chain st = Layer c rest" "\<not> c_readonly c" "coh (rw W) (chain st)"
    by (auto simp: writable_def)
  from evolves_LayerD [OF assms(2) [unfolded c(1)]] obtain c' r' where c': "chain st' = Layer c' r'" "c_readonly c' = c_readonly c"
    by blast
  then show ?thesis using assms(2) c by (simp add: writable_def del: coh.simps)
qed

lemma State_account_run:
  assumes "acc_of W st a = Inr x"
  shows "\<exists>st'. run_state (State_account W a) st = (x, st') \<and> fills (rw W) (chain st) (chain st')
    \<and> st_error st' = st_error st \<and> cacheOptions st' = cacheOptions st"
proof -
  obtain q ch where q: "Cache_GetAccount (rw W) a (chain st) = (q, ch)" by fastforce
  then have "q = Inr x" using GetAccount_spec [of "rw W" a "chain st"] assms by simp
  moreover have "fills (rw W) (chain st) ch" using GetAccount_fills [of "rw W" "chain st" a] q by simp
  ultimately show ?thesis using q by (auto simp: State_account_def run_on_chain)
qed

lemma State_updateAccount_run:
  assumes w: "writable W st" and x: "acc_of W st (Address acc) = Inr (Some y)"
  shows "\<exists>st'. run_state (State_updateAccount W acc) st = ((), st') \<and> writable W st'
    \<and> acc_of W st' = (acc_of W st)(Address acc := Inr (Some acc)) \<and> sto_of W st' = sto_of W st
    \<and> st_error st' = st_error st"
proof -
  from w obtain c rest where c: "chain st = Layer c rest" "\<not> c_readonly c" by (auto simp: writable_def)
  obtain e ch where u: "Cache_UpdateAccount (rw W) acc (Layer c rest) = (e, ch)" by fastforce
  have "e = None" using UpdateAccount_succeeds [OF c(2) x [unfolded c(1)]] u by simp
  note V = UpdateAccount_ok [OF u [unfolded this]]
  let ?st = "st\<lparr>chain := ch\<rparr>"
  have "run_state (State_updateAccount W acc) st = ((), ?st)"
    using u c \<open>e = None\<close> by (simp add: State_updateAccount_def run_on_chain State_PushError_def del: Cache_UpdateAccount.simps)
  moreover have "writable W ?st"
    by (rule writable_evolves [OF w]) (use UpdateAccount_evolves [of "rw W" "Layer c rest" acc] u c in simp)
  ultimately show ?thesis using V(3,4) c by (simp del: view_acc.simps view_sto.simps)
qed

lemma same_viewD: "fills B ch ch' \<Longrightarrow> view_acc B ch' = view_acc B ch" "fills B ch ch' \<Longrightarrow> view_sto B ch' = view_sto B ch"
  by (simp_all add: fills_view [unfolded same_view_def])

lemma State_mustAccount_run:
  assumes "acc_of W st a = Inr (Some acc)"
  shows "\<exists>st'. run_state (State_mustAccount W a) st = (Some acc, st') \<and> fills (rw W) (chain st) (chain st')
    \<and> st_error st' = st_error st"
  using State_account_run [OF assms] by (auto simp: State_mustAccount_def)

lemma change_balance:
  assumes w: "writable W st" and a: "acc_of W st a = Inr (Some acc)"
    and op: "\<And>e acc'. k acc = (e, acc') \<Longrightarrow> e = None \<and> acc' = acc\<lparr>Balance := b\<rparr>"
  shows "\<exists>st'. run_state (do {
       acc \<leftarrow> State_mustAccount W a;
       case acc of
         None \<Rightarrow> State_Monad.return ()
       | Some a \<Rightarrow> do { let (err, a') = k a; State_PushError err; State_updateAccount W a' } }) st = ((), st')
    \<and> writable W st' \<and> acc_of W st' = (acc_of W st)(a := Inr (Some (acc\<lparr>Balance := b\<rparr>)))
    \<and> sto_of W st' = sto_of W st \<and> st_error st' = st_error st"
proof -
  from State_mustAccount_run [OF a] obtain st1 where
    1: "run_state (State_mustAccount W a) st = (Some acc, st1)" "fills (rw W) (chain st) (chain st1)"
       "st_error st1 = st_error st" by blast
  have w1: "writable W st1" by (rule writable_evolves [OF w fills_evolves [OF 1(2)]])
  have addr: "Address acc = a" using w a coh_keyed by (auto simp: writable_def)
  have k: "k acc = (None, acc\<lparr>Balance := b\<rparr>)" using op by (metis surj_pair)
  have a1: "acc_of W st1 (Address (acc\<lparr>Balance := b\<rparr>)) = Inr (Some acc)" using same_viewD(1) [OF 1(2)] a addr by simp
  from State_updateAccount_run [OF w1 a1] obtain st2 where
    2: "run_state (State_updateAccount W (acc\<lparr>Balance := b\<rparr>)) st1 = ((), st2)" "writable W st2"
      "acc_of W st2 = (acc_of W st1)(Address (acc\<lparr>Balance := b\<rparr>) := Inr (Some (acc\<lparr>Balance := b\<rparr>)))"
      "sto_of W st2 = sto_of W st1" "st_error st2 = st_error st1" by blast
  have "st1\<lparr>st_error := st_error st1\<rparr> = st1" by simp
  then show ?thesis using 1 2 k same_viewD [OF 1(2)] addr by (simp add: State_PushError_def)
qed

lemma SubtractFromBalance_run:
  assumes "writable W st" "acc_of W st a = Inr (Some acc)" "0 \<le> amount" "amount \<le> Balance acc"
  shows "\<exists>st'. run_state (State_SubtractFromBalance W a amount) st = ((), st') \<and> writable W st'
    \<and> acc_of W st' = (acc_of W st)(a := Inr (Some (acc\<lparr>Balance := Balance acc - amount\<rparr>)))
    \<and> sto_of W st' = sto_of W st \<and> st_error st' = st_error st"
  unfolding State_SubtractFromBalance_def
  by (rule change_balance [OF assms(1,2)]) (use assms in \<open>simp add: SubtractFromBalance_def\<close>)

lemma AddToBalance_run:
  assumes "writable W st" "acc_of W st a = Inr (Some acc)" "0 \<le> amount"
  shows "\<exists>st'. run_state (State_AddToBalance W a amount) st = ((), st') \<and> writable W st'
    \<and> acc_of W st' = (acc_of W st)(a := Inr (Some (acc\<lparr>Balance := Balance acc + amount\<rparr>)))
    \<and> sto_of W st' = sto_of W st \<and> st_error st' = st_error st"
  unfolding State_AddToBalance_def
  by (rule change_balance [OF assms(1,2)]) (use assms in \<open>simp add: AddToBalance_def Let_def\<close>)

lemma GetBalance_run:
  assumes "acc_of W st a = Inr (Some acc)"
  shows "\<exists>st'. run_state (State_GetBalance W a) st = (Balance acc, st') \<and> fills (rw W) (chain st) (chain st')
    \<and> st_error st' = st_error st"
  using State_account_run [OF assms] by (auto simp: State_GetBalance_def)

text \<open>The event of a transfer changes neither the view nor the error of the frame.\<close>

lemma fireTransferEvent_run:
  assumes "run_state (fireTransferEvent M a b amount) s = (u, s')"
  shows "fills (rw (world M)) (chain (callState s)) (chain (callState s'))"
    "st_error (callState s') = st_error (callState s)"
proof -
  have *: "run_state (or_panic msg d x) s = (r, s') \<Longrightarrow> callState s' = callState s" for msg d x r and s s' :: "('a, 'b) VM_scheme"
    by (auto simp: or_panic_def go_panic_def halt_with_def upd_def split: option.splits)
  obtain t ch where t: "token_below (world M) (chain (callState s)) = (t, ch)" by fastforce
  have f: "fills (rw (world M)) (chain (callState s)) ch" using token_below_fills [of "world M" "chain (callState s)"] t by simp
  let ?s1 = "s\<lparr>callState := (callState s)\<lparr>chain := ch\<rparr>\<rparr>"
  obtain fr s2 where 2: "run_state (toAddr M a) ?s1 = (fr, s2)" by fastforce
  obtain to s3 where 3: "run_state (toAddr M b) s2 = (to, s3)" by fastforce
  have "callState s3 = (callState s)\<lparr>chain := ch\<rparr>" using * [OF 2 [unfolded toAddr_def]] * [OF 3 [unfolded toAddr_def]] by simp
  moreover have "callState s' = callState s3"
    using assms 2 3 t by (auto simp: fireTransferEvent_def CallTransfer_def State_GetToken_def run_on_state run_on_chain
        run_pushErr gets_def upd_def)
  ultimately show "fills (rw (world M)) (chain (callState s)) (chain (callState s'))"
    "st_error (callState s') = st_error (callState s)" using f by simp_all
qed

lemma run_on_state_eq: "run_state m (callState s) = (x, st) \<Longrightarrow> run_state (on_state m) s = (x, s\<lparr>callState := st\<rparr>)"
  by (simp add: run_on_state)

lemma transfer_run:
  fixes s :: "('b, 'z) VM_scheme" and M :: "'b Machine"
  assumes w: "writable (world M) (callState s)" and e: "st_error (callState s) = None"
    and a: "acc_of (world M) (callState s) sender = Inr (Some as)"
    and b: "acc_of (world M) (callState s) recipient = Inr (Some ar)" and ne: "sender \<noteq> recipient"
    and amount: "0 \<le> amount" "amount \<le> Balance as"
  obtains s' where "run_state (transfer M sender recipient amount) s = (None, s')"
    "acc_of (world M) (callState s') = (acc_of (world M) (callState s))
       (sender := Inr (Some (as\<lparr>Balance := Balance as - amount\<rparr>)),
        recipient := Inr (Some (ar\<lparr>Balance := Balance ar + amount\<rparr>)))"
    "sto_of (world M) (callState s') = sto_of (world M) (callState s)" "st_error (callState s') = None"
proof (cases "amount = 0")
  case True
  have "acc_of (world M) (callState s) = (acc_of (world M) (callState s)) (sender := Inr (Some as), recipient := Inr (Some ar))"
    using a b by (simp add: fun_eq_iff)
  then show ?thesis using that [of s] e True by (simp add: transfer_def)
next
  case False
  let ?W = "world M"
  from GetBalance_run [OF a] obtain st1 where
    1: "run_state (State_GetBalance ?W sender) (callState s) = (Balance as, st1)"
      "fills (rw ?W) (chain (callState s)) (chain st1)" "st_error st1 = st_error (callState s)" by blast
  note v1 = same_viewD [OF 1(2)]
  have w1: "writable ?W st1" by (rule writable_evolves [OF w fills_evolves [OF 1(2)]])
  have a1: "acc_of ?W st1 sender = Inr (Some as)" using a v1 by simp
  from SubtractFromBalance_run [OF w1 a1 amount] obtain st2 where
    2: "run_state (State_SubtractFromBalance ?W sender amount) st1 = ((), st2)" "writable ?W st2"
      "acc_of ?W st2 = (acc_of ?W st1)(sender := Inr (Some (as\<lparr>Balance := Balance as - amount\<rparr>)))"
      "sto_of ?W st2 = sto_of ?W st1" "st_error st2 = st_error st1" by blast
  have b2: "acc_of ?W st2 recipient = Inr (Some ar)" using b ne v1 2(3) by simp
  from AddToBalance_run [OF 2(2) b2 amount(1)] obtain st3 where
    3: "run_state (State_AddToBalance ?W recipient amount) st2 = ((), st3)"
      "acc_of ?W st3 = (acc_of ?W st2)(recipient := Inr (Some (ar\<lparr>Balance := Balance ar + amount\<rparr>)))"
      "sto_of ?W st3 = sto_of ?W st2" "st_error st3 = st_error st2" by blast
  obtain u s' where 4: "run_state (fireTransferEvent M sender recipient amount) (s\<lparr>callState := st3\<rparr>) = (u, s')"
    by (metis surj_pair)
  note F = fireTransferEvent_run [OF 4]
  have "run_state (transfer M sender recipient amount) s = (None, s')"
    using False 1 2 3 4 e amount(2) by (simp add: transfer_def run_on_state gets_def)
  then show ?thesis
    using that same_viewD [OF F(1)] F(2) 3 2 1 v1 e by simp
qed

lemma transfer_insufficient:
  assumes a: "acc_of (world M) (callState s) sender = Inr (Some as)" and amount: "amount \<noteq> 0" "Balance as < amount"
  shows "\<exists>s'. run_state (transfer M sender recipient amount) s = (Some (ErrCode ErrorCodeInsufficientBalance), s')
    \<and> fills (rw (world M)) (chain (callState s)) (chain (callState s')) \<and> st_error (callState s') = st_error (callState s)"
  using GetBalance_run [OF a] amount by (auto simp: transfer_def run_on_state)

text \<open>Code does not run in a frame that starts with an error.\<close>

lemma delegateCall_error:
  "st_error (callState vm) = Some e \<Longrightarrow> \<exists>vm'. run_state (delegateCall M X c v) vm = ((None, Some e), vm')"
  by (simp add: delegateCall_def ensureStackDepth_def run_code_def hasError_def gets_def run_pushErr)

lemma vm_call_insufficient:
  assumes a: "acc_of (world M) (callState vm) (caller c) = Inr (Some as)" and e: "st_error (callState vm) = None"
    and v: "v \<noteq> 0" "Balance as < v"
  obtains vm' where "run_state (vm_call M X c v) vm =
    ((None, Some \<lparr>ex_Code = ErrorCodeInsufficientBalance, ex_Exception = Code_String ErrorCodeInsufficientBalance\<rparr>), vm')"
proof -
  let ?e = "\<lparr>ex_Code = ErrorCodeInsufficientBalance, ex_Exception = Code_String ErrorCodeInsufficientBalance\<rparr>"
  obtain vm1 where 1: "run_state (transfer M (caller c) (callee c) v) vm = (Some (ErrCode ErrorCodeInsufficientBalance), vm1)"
      "st_error (callState vm1) = None"
    using transfer_insufficient [OF a v, of "callee c"] by (elim exE conjE) (rule that, simp_all add: e)
  let ?vm2 = "vm1\<lparr>callState := (callState vm1)\<lparr>st_error := Some ?e\<rparr>\<rparr>"
  obtain vm3 where "run_state (delegateCall M X c v) ?vm2 = ((None, Some ?e), vm3)"
    using delegateCall_error [of ?vm2 ?e M X c v] by auto
  then have "run_state (vm_call M X c v) vm = ((None, Some ?e), vm3)"
    using 1 by (simp add: vm_call_def delegateCall_def run_pushErr PushError_def)
  then show ?thesis by (rule that)
qed

end
