(* ===== verification/Bvm_Alu.thy ===== *)
theory Bvm_Alu
  imports Bvm_Order
begin

unbundle bit_operations_syntax

text \<open>
  What the instructions compute. The code works on \<open>big.Int\<close> and on byte arrays; the words it leaves
  on the stack are those of the arithmetic on 256-bit words. \<open>alu\<close> is the specification of the
  instructions with two operands, \<open>alu3\<close> of those with three.
\<close>

section \<open>The stack, when gas and room suffice\<close>

lemma stack_useGas_run:
  "GasStackOp < gas s \<Longrightarrow> run_state (stack_useGas GasStackOp) s = ((), s\<lparr>gas := gas s - GasStackOp\<rparr>)"
  by (simp add: stack_useGas_def gets_def upd_def)

lemma Pop_run:
  "0 < st_ptr f \<Longrightarrow> GasStackOp < gas f \<Longrightarrow>
    run_state Pop f = (st_slice f ! (st_ptr f - 1), f\<lparr>gas := gas f - GasStackOp, st_ptr := st_ptr f - 1\<rparr>)"
  by (simp add: Pop_def stack_useGas_run)

lemma Push_run:
  "st_ptr f < length (st_slice f) \<Longrightarrow> st_ptr f < MaxInt32 \<Longrightarrow> GasStackOp < gas f \<Longrightarrow>
    run_state (Push M d) f =
      ((), f\<lparr>gas := gas f - GasStackOp, st_slice := (st_slice f)[st_ptr f := d], st_ptr := st_ptr f + 1\<rparr>)"
  by (simp add: Push_def stack_useGas_run stack_ensureCapacity_def)

lemma PopBigInt_run:
  "0 < st_ptr f \<Longrightarrow> GasStackOp < gas f \<Longrightarrow>
    run_state PopBigInt f = (uint (st_slice f ! (st_ptr f - 1)), f\<lparr>gas := gas f - GasStackOp, st_ptr := st_ptr f - 1\<rparr>)"
  by (simp add: PopBigInt_def Pop_run)

lemma PopBigIntSigned_run:
  "0 < st_ptr f \<Longrightarrow> GasStackOp < gas f \<Longrightarrow>
    run_state PopBigIntSigned f = (sint (st_slice f ! (st_ptr f - 1)), f\<lparr>gas := gas f - GasStackOp, st_ptr := st_ptr f - 1\<rparr>)"
  by (simp add: PopBigIntSigned_def PopBigInt_run S256_uint)

lemma PushBigInt_eq: "PushBigInt M i = Push M (word_of_int i)"
  by (simp add: PushBigInt_def LeftPad_U256 or_panic_def)

lemmas stack_runs = Pop_run Push_run PopBigInt_run PopBigIntSigned_run PushBigInt_eq

definition operands :: "nat \<Rightarrow> 'b Frame \<Rightarrow> bool" where
  "operands n f \<longleftrightarrow> n \<le> st_ptr f \<and> st_ptr f \<le> length (st_slice f) \<and> st_ptr f \<le> MaxInt32 \<and> 0 < n
     \<and> n + 1 < unat (gas f)"

abbreviation opd :: "'b Frame \<Rightarrow> nat \<Rightarrow> word256" where
  "opd f i \<equiv> st_slice f ! (st_ptr f - i)"

text \<open>The frame after an instruction that takes \<open>n\<close> operands and leaves one result.\<close>

definition result :: "nat \<Rightarrow> word256 \<Rightarrow> 'b Frame \<Rightarrow> 'b Frame" where
  "result n w f = f\<lparr>gas := gas f - of_nat (n + 1) * GasStackOp, st_slice := (st_slice f)[st_ptr f - n := w],
     st_ptr := st_ptr f - n + 1\<rparr>"

lemma gas_steps:
  fixes g :: uint64
  assumes "k < unat g"
  shows "unat (g - of_nat k) = unat g - k" "of_nat k < g"
proof -
  have k: "k < 2 ^ 64" using assms unsigned_less [of g, where ?'a = nat] by (simp del: unsigned_less)
  then have u: "unat (of_nat k :: uint64) = k" by (simp add: unat_of_nat take_bit_nat_eq_self)
  then show "of_nat k < g" using assms by (simp add: word_less_nat_alt)
  then show "unat (g - of_nat k) = unat g - k" using u by (simp add: unat_sub word_le_nat_alt word_less_nat_alt)
qed

lemma gas_gt: "1 < unat (g :: uint64) \<Longrightarrow> 1 < g" "2 < unat g \<Longrightarrow> 1 < g - 1" "3 < unat g \<Longrightarrow> 1 < g - 2" "4 < unat g \<Longrightarrow> 1 < g - 3"
  using gas_steps [of 1 g] gas_steps [of 2 g] gas_steps [of 3 g] by (simp_all add: word_less_nat_alt)

lemma gas_sub: "(g :: uint64) - 1 - 1 = g - 2" "g - 2 - 1 = g - 3" "g - 3 - 1 = g - 4"
  by simp_all

section \<open>Two operands\<close>

definition flag :: "bool \<Rightarrow> word256" where
  "flag b = (if b then 1 else 0)"

fun alu_table :: "(OpCode \<times> (word256 \<Rightarrow> word256 \<Rightarrow> word256)) list \<Rightarrow> OpCode \<Rightarrow> (word256 \<Rightarrow> word256 \<Rightarrow> word256) option" where
  "alu_table [] op = None"
| "alu_table ((op', g) # t) op = (if op = op' then Some g else alu_table t op)"

definition alu :: "OpCode \<Rightarrow> (word256 \<Rightarrow> word256 \<Rightarrow> word256) option" where
  "alu = alu_table [
    (ADD, \<lambda>x y. x + y), (MUL, \<lambda>x y. x * y), (SUB, \<lambda>x y. x - y),
    (DIV, \<lambda>x y. if y = 0 then 0 else x div y), (MOD, \<lambda>x y. if y = 0 then 0 else x mod y),
    (SDIV, \<lambda>x y. if y = 0 then 0 else word_of_int (big_Div (sint x) (sint y))),
    (SMOD, \<lambda>x y. if y = 0 then 0 else word_of_int (sint x mod \<bar>sint y\<bar>)),
    (EXP, \<lambda>x y. x ^ unat y),
    (LT, \<lambda>x y. flag (x < y)), (GT, \<lambda>x y. flag (y < x)),
    (SLT, \<lambda>x y. flag (x <s y)), (SGT, \<lambda>x y. flag (y <s x)), (EQ, \<lambda>x y. flag (x = y)),
    (AND_op, \<lambda>x y. x AND y), (OR_op, \<lambda>x y. x OR y), (XOR_op, \<lambda>x y. x XOR y),
    (SHL, \<lambda>n x. push_bit (unat n) x), (SHR, \<lambda>n x. drop_bit (unat n) x),
    (SAR, \<lambda>n x. signed_drop_bit (unat n) x)]"

lemma two_operands:
  assumes "operands 2 f"
  shows "0 < st_ptr f" "1 < st_ptr f" "Suc 0 < st_ptr f" "st_ptr f - 2 < length (st_slice f)" "st_ptr f - 2 < MaxInt32"
    "1 < gas f" "1 < gas f - 1" "1 < gas f - 2" "st_ptr f - Suc (Suc 0) = st_ptr f - 2"
  using assms gas_gt [of "gas f"] by (auto simp: operands_def)

lemma word_of_int_arith:
  fixes x y :: word256
  shows "word_of_int (uint x + uint y) = x + y" "word_of_int (uint x * uint y) = x * y"
    "word_of_int (uint x - uint y) = x - y" "word_of_int (uint x ^ n) = x ^ n"
    "word_of_int (uint x div uint y) = x div y" "word_of_int (uint x mod uint y) = x mod y"
    "word_of_int (push_bit n (uint x)) = push_bit n x" "word_of_int (drop_bit n (uint x)) = drop_bit n x"
    "word_of_int (drop_bit n (sint x)) = signed_drop_bit n x"
proof -
  show "word_of_int (drop_bit n (uint x)) = drop_bit n x"
    by (rule bit_word_eqI) (simp add: bit_simps)
  show "word_of_int (push_bit n (uint x)) = push_bit n x"
    by (rule bit_word_eqI) (simp add: bit_simps)
  show "word_of_int (drop_bit n (sint x)) = signed_drop_bit n x"
    by (simp flip: sint_signed_drop_bit_eq)
qed (simp_all add: word_div_def word_mod_def)

lemma shift_far:
  fixes x :: word256
  assumes "256 \<le> n"
  shows "push_bit n x = 0" "drop_bit n x = 0" "signed_drop_bit n x = (if x <s 0 then - 1 else 0)"
proof -
  show "push_bit n x = 0" by (rule bit_word_eqI) (use assms in \<open>simp add: bit_simps\<close>)
  show "drop_bit n x = 0" by (rule bit_word_eqI) (use assms in \<open>auto simp: bit_simps dest: bit_imp_le_length\<close>)
  have "signed_drop_bit n x = (if bit x 255 then - 1 else 0)"
    by (rule bit_word_eqI) (use assms in \<open>auto simp: bit_simps dest: bit_imp_le_length\<close>)
  then show "signed_drop_bit n x = (if x <s 0 then - 1 else 0)"
    by (simp add: word_sless_alt sint_uint bit_last_iff [where 'a = 256] bit_uint_iff)
qed

lemma shift_far_words:
  fixes n x :: word256
  assumes "256 \<le> uint n"
  shows "push_bit (unat n) x = 0" "drop_bit (unat n) x = 0" "sint x < 0 \<Longrightarrow> signed_drop_bit (unat n) x = - 1"
    "\<not> sint x < 0 \<Longrightarrow> signed_drop_bit (unat n) x = 0"
proof -
  have "256 \<le> unat n" using nat_mono [OF assms] by (simp only: unat_eq_nat_uint nat_numeral)
  from shift_far [OF this, of x] show "push_bit (unat n) x = 0" "drop_bit (unat n) x = 0"
    "sint x < 0 \<Longrightarrow> signed_drop_bit (unat n) x = - 1" "\<not> sint x < 0 \<Longrightarrow> signed_drop_bit (unat n) x = 0"
    by (simp_all add: word_sless_alt)
qed

lemma uint_pos: "0 < uint w \<longleftrightarrow> w \<noteq> 0"
  by (simp add: order_less_le uint_0_iff)

lemma sint_zero: "sint (w :: word256) = 0 \<longleftrightarrow> w = 0"
  by (metis signed_0 signed_word_eqI)

lemma big_Div_pos: "big_Div (uint x) (uint (y :: word256)) = uint x div uint y"
  using uint_pos [of y] by (auto simp: big_Div_def)

lemma bytewise_ops: "bytewise (AND) x y = x AND y" "bytewise (OR) x y = x OR y" "bytewise (XOR) x y = x XOR y"
  unfolding bytewise_def
  by (rule bytewise_map [where p = "(\<and>)"] bytewise_map [where p = "(\<or>)"] bytewise_map [where p = "(\<noteq>)"];
      simp add: bit_simps)+

lemma flag_words: "Word256_IsZero x = (x = 0)" "(if b then One256 else Zero256) = flag b"
  by (simp_all add: Word256_IsZero_iff flag_def One256_def Zero256_def)

lemma result_2:
  assumes "operands 2 f"
  shows "f\<lparr>gas := gas f - 1 - 1 - 1, st_slice := (st_slice f)[st_ptr f - 2 := w], st_ptr := Suc (st_ptr f - 2)\<rparr> = result 2 w f"
  by (simp add: result_def GasStackOp_def)

lemma alu_ops:
  assumes "operands 2 f"
  defines "x \<equiv> opd f 1" and "y \<equiv> opd f 2"
  shows "run_state (op_ADD M) f = (Next, result 2 (x + y) f)"
    "run_state (op_MUL M) f = (Next, result 2 (x * y) f)"
    "run_state (op_SUB M) f = (Next, result 2 (x - y) f)"
    "run_state (op_EXP M) f = (Next, result 2 (x ^ unat y) f)"
    "run_state (op_DIV M) f = (Next, result 2 (if y = 0 then 0 else x div y) f)"
    "run_state (op_MOD M) f = (Next, result 2 (if y = 0 then 0 else x mod y) f)"
    "run_state (op_SDIV M) f = (Next, result 2 (if y = 0 then 0 else word_of_int (big_Div (sint x) (sint y))) f)"
    "run_state (op_SMOD M) f = (Next, result 2 (if y = 0 then 0 else word_of_int (sint x mod \<bar>sint y\<bar>)) f)"
    "run_state (op_LT M) f = (Next, result 2 (flag (x < y)) f)"
    "run_state (op_GT M) f = (Next, result 2 (flag (y < x)) f)"
    "run_state (op_SLT M) f = (Next, result 2 (flag (x <s y)) f)"
    "run_state (op_SGT M) f = (Next, result 2 (flag (y <s x)) f)"
    "run_state (op_EQ M) f = (Next, result 2 (flag (x = y)) f)"
    "run_state (op_AND M) f = (Next, result 2 (x AND y) f)"
    "run_state (op_OR M) f = (Next, result 2 (x OR y) f)"
    "run_state (op_XOR M) f = (Next, result 2 (x XOR y) f)"
    "run_state (op_SHL M) f = (Next, result 2 (push_bit (unat x) y) f)"
    "run_state (op_SHR M) f = (Next, result 2 (drop_bit (unat x) y) f)"
    "run_state (op_SAR M) f = (Next, result 2 (signed_drop_bit (unat x) y) f)"
  using two_operands [OF assms(1)] unfolding x_def y_def
  by (simp_all add: op_ADD_def op_MUL_def op_SUB_def op_EXP_def op_DIV_def op_MOD_def op_SDIV_def op_SMOD_def sint_zero op_LT_def op_GT_def op_SLT_def op_SGT_def
    op_EQ_def op_AND_def op_OR_def op_XOR_def op_SHL_def op_SHR_def op_SAR_def push_bool_def stack_runs word_of_int_arith
    GasStackOp_def result_def bytewise_ops flag_words be_bytes_inject big_Mod_def uint_0_iff word_less_def word_sless_alt Zero256_def shift_far_words uint_pos
    big_Div_pos)

lemmas opcode_values = ADD_def MUL_def SUB_def DIV_def SDIV_def MOD_def SMOD_def ADDMOD_def MULMOD_def EXP_def SIGNEXTEND_def
  LT_def GT_def SLT_def SGT_def EQ_def ISZERO_def AND_op_def OR_op_def XOR_op_def NOT_op_def BYTE_def SHL_def SHR_def SAR_def

lemma dispatch:
  shows "exec_op M X c ADD = op_ADD M" "exec_op M X c MUL = op_MUL M" "exec_op M X c SUB = op_SUB M"
    "exec_op M X c DIV = op_DIV M" "exec_op M X c SDIV = op_SDIV M" "exec_op M X c MOD = op_MOD M"
    "exec_op M X c SMOD = op_SMOD M" "exec_op M X c ADDMOD = op_ADDMOD M" "exec_op M X c MULMOD = op_MULMOD M"
    "exec_op M X c EXP = op_EXP M" "exec_op M X c LT = op_LT M" "exec_op M X c GT = op_GT M"
    "exec_op M X c SLT = op_SLT M" "exec_op M X c SGT = op_SGT M" "exec_op M X c EQ = op_EQ M"
    "exec_op M X c AND_op = op_AND M" "exec_op M X c OR_op = op_OR M" "exec_op M X c XOR_op = op_XOR M"
    "exec_op M X c SHL = op_SHL M" "exec_op M X c SHR = op_SHR M" "exec_op M X c SAR = op_SAR M"
    "exec_op M X c BYTE = op_BYTE M" "exec_op M X c SIGNEXTEND = op_SIGNEXTEND M"
  unfolding exec_op_def opcode_values by simp_all

lemma alu_table_mem: "alu_table t op = Some g \<Longrightarrow> (op, g) \<in> set t"
  by (induction t op rule: alu_table.induct) (auto split: if_splits)

lemma alu_exec:
  assumes "alu op = Some g" and f: "operands 2 f"
  shows "run_state (exec_op M X c op) f = (Next, result 2 (g (opd f 1) (opd f 2)) f)"
proof -
  note alu_table_mem [OF assms(1) [unfolded alu_def]]
  then show ?thesis
    by (simp only: list.set insert_iff empty_iff prod.inject simp_thms)
      (elim disjE conjE; simp only: dispatch alu_ops [OF f])
qed

section \<open>An index of 64 bits\<close>

text \<open>The first operand of \<open>BYTE\<close> and \<open>SIGNEXTEND\<close> must fit 64 bits.\<close>

lemma index_word: "\<not> Is64BitOverflow (Uint64ToWord256 u)" "Int64FromWord256 (Uint64ToWord256 u) = sint u"
proof -
  have "be_bytes 32 (Uint64ToWord256 u) = replicate 24 0 @ be_bytes 8 u"
    unfolding Uint64ToWord256_def by (rule be_bytes_be_word) simp_all
  then show "\<not> Is64BitOverflow (Uint64ToWord256 u)" by (simp add: Is64BitOverflow_def list_ex_iff)
qed (simp add: Int64FromWord256_def)

lemma Pop_index_run:
  assumes "0 < st_ptr f" "GasStackOp < gas f" "opd f 1 = Uint64ToWord256 u"
  shows "run_state Pop64 f = (sint u, f\<lparr>gas := gas f - GasStackOp, st_ptr := st_ptr f - 1\<rparr>)"
    "run_state PopU64 f = (u, f\<lparr>gas := gas f - GasStackOp, st_ptr := st_ptr f - 1\<rparr>)"
  using assms by (simp_all add: Pop64_def PopU64_def Pop_run index_word)

lemma small_index:
  assumes "(u :: uint64) < 32"
  shows "sint u = int (unat u)" "unat u < 32" "uint u < 32"
proof -
  show "unat u < 32" using assms by (simp add: word_less_nat_alt)
  show less: "uint u < 32" using assms by (simp only: word_less_def) simp
  have "signed_take_bit 63 (uint u) = uint u"
  proof (rule signed_take_bit_int_eq_self)
    have "- (2 ^ 63) \<le> (0 :: int)" by simp
    then show "- (2 ^ 63) \<le> uint u" using uint_ge_0 by (rule order_trans)
    show "uint u < 2 ^ 63" by (rule less_trans [OF less]) simp
  qed
  then have "sint (word_of_int (uint u) :: uint64) = uint u" by (simp only: sint_sbintrunc') simp
  then show "sint u = int (unat u)" by simp
qed

lemma large_index:
  assumes "32 \<le> (u :: uint64)" "0 \<le> sint u"
  shows "\<not> sint u < 32"
proof
  assume "sint u < 32"
  then have "uint (word_of_int (sint u) :: uint64) = sint u"
    using assms(2) by (simp only: uint_word_of_int_eq) (simp add: take_bit_int_eq_self)
  then have "uint u < 32" using \<open>sint u < 32\<close> by simp
  then show False using assms(1) by (simp add: word_le_def)
qed

lemma byte_word: "Int64ToWord256 (uint (b :: byte)) = ucast b" "Int64ToWord256 0 = 0"
proof -
  have "word_of_int (uint b) = (ucast b :: uint64)" by simp
  then show "Int64ToWord256 (uint b) = ucast b"
    by (simp add: Int64ToWord256_def be_word_of_be_bytes) (rule bit_word_eqI, auto simp: bit_simps dest: bit_imp_le_length)
qed (simp add: Int64ToWord256_def be_word_of_be_bytes)

lemma BYTE_run:
  assumes f: "operands 2 f" "opd f 1 = Uint64ToWord256 u"
  shows "u < 32 \<Longrightarrow> run_state (op_BYTE M) f = (Next, result 2 (ucast (be_bytes 32 (opd f 2) ! unat u)) f)"
    "32 \<le> u \<Longrightarrow> 0 \<le> sint u \<Longrightarrow> run_state (op_BYTE M) f = (Next, result 2 0 f)"
    "sint u < 0 \<Longrightarrow> halt f = None \<Longrightarrow> halt (snd (run_state (op_BYTE M) f)) = Some (GoPanic ''index out of range'')"
proof -
  show "u < 32 \<Longrightarrow> run_state (op_BYTE M) f = (Next, result 2 (ucast (be_bytes 32 (opd f 2) ! unat u)) f)"
    using two_operands [OF f(1)] small_index [of u]
    by (simp add: op_BYTE_def Pop_index_run [OF _ _ f(2)] stack_runs Push64_def GasStackOp_def result_def byte_word)
  show "32 \<le> u \<Longrightarrow> 0 \<le> sint u \<Longrightarrow> run_state (op_BYTE M) f = (Next, result 2 0 f)"
    using two_operands [OF f(1)] large_index [of u]
    by (simp add: op_BYTE_def Pop_index_run [OF _ _ f(2)] stack_runs Push64_def GasStackOp_def result_def byte_word)
  show "sint u < 0 \<Longrightarrow> halt f = None \<Longrightarrow> halt (snd (run_state (op_BYTE M) f)) = Some (GoPanic ''index out of range'')"
    using two_operands [OF f(1)]
    by (simp add: op_BYTE_def Pop_index_run [OF _ _ f(2)] stack_runs Push64_def GasStackOp_def go_panic_def halt_with_def upd_def)
qed

lemma SIGNEXTEND_run:
  assumes f: "operands 2 f" "opd f 1 = Uint64ToWord256 u"
  shows "u < 31 \<Longrightarrow> run_state (op_SIGNEXTEND M) f = (Next, result 2 (word_of_int (SignExtend (unat u) (uint (opd f 2)))) f)"
    "31 \<le> u \<Longrightarrow> run_state (op_SIGNEXTEND M) f = (Next, f\<lparr>gas := gas f - GasStackOp, st_ptr := st_ptr f - 1\<rparr>)"
  using two_operands [OF f(1)]
  by (simp_all add: op_SIGNEXTEND_def Pop_index_run [OF _ _ f(2)] stack_runs GasStackOp_def result_def guard_def)

section \<open>Three operands\<close>

text \<open>\<open>ADDMOD\<close> and \<open>MULMOD\<close> compute modulo the third operand without wrapping around first.\<close>

definition alu3 :: "OpCode \<Rightarrow> (word256 \<Rightarrow> word256 \<Rightarrow> word256 \<Rightarrow> word256) option" where
  "alu3 op = (if op = ADDMOD then Some (\<lambda>x y z. if z = 0 then 0 else word_of_int ((uint x + uint y) mod uint z))
     else if op = MULMOD then Some (\<lambda>x y z. if z = 0 then 0 else word_of_int ((uint x * uint y) mod uint z))
     else None)"

lemma three_operands:
  assumes "operands 3 f"
  shows "0 < st_ptr f" "Suc 0 < st_ptr f" "2 < st_ptr f" "st_ptr f - 3 < length (st_slice f)" "st_ptr f - 3 < MaxInt32"
    "1 < gas f" "1 < gas f - 1" "1 < gas f - 2" "1 < gas f - 3" "st_ptr f - Suc (Suc 0) = st_ptr f - 2"
    "st_ptr f - Suc (Suc (Suc 0)) = st_ptr f - 3"
  using assms gas_gt [of "gas f"] by (auto simp: operands_def)

lemma alu3_ops:
  assumes "operands 3 f"
  shows "run_state (op_ADDMOD M) f =
      (Next, result 3 (if opd f 3 = 0 then 0 else word_of_int ((uint (opd f 1) + uint (opd f 2)) mod uint (opd f 3))) f)"
    "run_state (op_MULMOD M) f =
      (Next, result 3 (if opd f 3 = 0 then 0 else word_of_int ((uint (opd f 1) * uint (opd f 2)) mod uint (opd f 3))) f)"
  using three_operands [OF assms]
  by (simp_all add: op_ADDMOD_def op_MULMOD_def stack_runs GasStackOp_def result_def uint_0_iff big_Mod_def Zero256_def)

lemma alu3_cases:
  "alu3 op = Some g \<Longrightarrow> op = ADDMOD \<and> g = (\<lambda>x y z. if z = 0 then 0 else word_of_int ((uint x + uint y) mod uint z))
    \<or> op = MULMOD \<and> g = (\<lambda>x y z. if z = 0 then 0 else word_of_int ((uint x * uint y) mod uint z))"
  by (simp add: alu3_def split: if_splits)

lemma alu3_exec:
  assumes "alu3 op = Some g" and f: "operands 3 f"
  shows "run_state (exec_op M X c op) f = (Next, result 3 (g (opd f 1) (opd f 2) (opd f 3)) f)"
  using alu3_cases [OF assms(1)] by (elim disjE conjE; simp only: dispatch alu3_ops [OF f])

section \<open>Memory\<close>

text \<open>An area of memory that a frame may use: it fits below the limits.\<close>

definition in_reach :: "'b Machine \<Rightarrow> 'b Frame \<Rightarrow> int \<Rightarrow> nat \<Rightarrow> bool" where
  "in_reach M f offset n \<longleftrightarrow> 0 \<le> offset \<and> nat offset + n \<le> MaxInt32
     \<and> (nat offset + n \<le> length (mem f) \<or> nat offset + n \<le> unat (memMaximum M))"

lemma capacity_word:
  fixes offset :: int
  assumes "0 \<le> offset" "nat offset + n \<le> MaxInt32"
  shows "unat (word_of_int offset + of_nat n :: uint64) = nat offset + n" "unat (word_of_int offset :: uint64) = nat offset"
    "(word_of_int offset :: uint64) \<le> word_of_int offset + of_nat n" "IsUint64 offset"
proof -
  have small: "nat offset + n < 2 ^ 64" using assms(2) by (simp add: MaxInt32_def)
  have "(word_of_int offset :: uint64) = of_nat (nat offset)" using assms(1) by simp
  then have sum: "(word_of_int offset + of_nat n :: uint64) = of_nat (nat offset + n)" by simp
  then show u: "unat (word_of_int offset + of_nat n :: uint64) = nat offset + n"
    using small by (simp only: unat_of_nat) (simp add: take_bit_nat_eq_self)
  show v: "unat (word_of_int offset :: uint64) = nat offset"
    using small assms(1) by (simp add: unat_eq_nat_uint uint_word_of_int_eq take_bit_int_eq_self)
  show "(word_of_int offset :: uint64) \<le> word_of_int offset + of_nat n" using u v by (simp add: word_le_nat_alt)
  show "IsUint64 offset" using small assms(1) by (simp add: IsUint64_def)
qed

lemma in_reach_room:
  assumes "in_reach M f offset n"
  shows "\<exists>bz. mem_ensureCapacity (memMaximum M) (word_of_int offset + of_nat n) (mem f) = (None, bz)
    \<and> bz = mem f @ replicate (nat offset + n - length (mem f)) 0 \<and> nat offset + n \<le> length bz"
  using assms capacity_word(1) [of offset n]
  by (auto simp: in_reach_def mem_ensureCapacity_def word_less_nat_alt)

definition overwrite :: "nat \<Rightarrow> bytes \<Rightarrow> bytes \<Rightarrow> bytes" where
  "overwrite i bs m = (let bz = m @ replicate (i + length bs - length m) 0 in take i bz @ bs @ drop (i + length bs) bz)"

lemma memory_Write_run:
  assumes "in_reach M f offset (length bs)"
  shows "run_state (memory_Write M offset bs) f = ((), f\<lparr>mem := overwrite (nat offset) bs (mem f)\<rparr>)"
proof -
  have o1: "0 \<le> offset" "nat offset + length bs \<le> MaxInt32" using assms by (simp_all add: in_reach_def)
  note cap = capacity_word [OF o1]
  from in_reach_room [OF assms] show ?thesis
    using cap by (auto simp: memory_Write_def mem_write_def Let_def not_less upd_def run_pushErr overwrite_def)
qed

lemma memory_Read_run:
  assumes "in_reach M f offset n"
  shows "run_state (memory_Read M offset (int n)) f =
    (Some (take n (drop (nat offset) (mem f @ replicate (nat offset + n - length (mem f)) 0))),
     f\<lparr>mem := mem f @ replicate (nat offset + n - length (mem f)) 0\<rparr>)"
proof -
  have o1: "0 \<le> offset" "nat offset + n \<le> MaxInt32" using assms by (simp_all add: in_reach_def)
  note cap = capacity_word [OF o1]
  have n: "unat (word_of_int (int n) :: uint64) = n" "IsUint64 (int n)"
    using capacity_word(2,4) [of "int n" 0] o1 by simp_all
  from in_reach_room [OF assms] show ?thesis
    using cap n by (auto simp: memory_Read_def mem_read_def Let_def not_less)
qed

lemma overwrite_length: "length (overwrite i bs m) = max (length m) (i + length bs)"
  by (auto simp: overwrite_def Let_def)

lemma overwrite_nth:
  assumes "k < length (overwrite i bs m)"
  shows "overwrite i bs m ! k = (if i \<le> k \<and> k < i + length bs then bs ! (k - i) else if k < length m then m ! k else 0)"
  using assms unfolding overwrite_length
  by (auto simp: overwrite_def Let_def nth_append min_def not_less)

lemma overwrite_read: "take (length bs) (drop i (overwrite i bs m)) = bs"
  by (simp add: overwrite_def Let_def min_def)

end
