(* ===== verification/Bvm_Props.thy ===== *)
theory Bvm_Props
  imports Bvm_Total Bvm_Bounds Bvm_Transfer Bvm_Alu
begin

text \<open>
  The properties of whole runs of the virtual machine, with a machine over an in-memory state as
  their witness: gas, termination, bounds, what a run keeps, and what a called contract can do to
  its caller.
\<close>

section \<open>A machine over the in-memory state\<close>

definition demo_crypto :: Crypto where
  "demo_crypto = \<lparr>cr_chainID = ''bcb'', cr_ripemd160 = (\<lambda>_. replicate 20 0), cr_sha256 = (\<lambda>_. replicate 32 0),
     cr_sha3_256 = (\<lambda>_. replicate 32 0), cr_keccak256 = (\<lambda>_. replicate 32 0), cr_base58_Encode = hex_lower,
     cr_base58_Decode = bytes_of_chars, cr_btc_base58_Encode = hex_lower, cr_rlp_EncodeToBytes = Some,
     cr_secret_address = (\<lambda>_ _. ''bcb''), cr_EcRecover = (\<lambda>_ _. None),
     cr_common_RightPadBytes = (\<lambda>b n. b @ replicate (nat n - length b) 0),
     cr_common_LeftPadBytes = (\<lambda>b n. replicate (nat n - length b) 0 @ b), cr_UnpackRevert = (\<lambda>_. None)\<rparr>"

definition demo_world :: "MemoryState World" where
  "demo_world = \<lparr>rw = memory_rw, blockHashGetter = (\<lambda>_. [])\<rparr>"

definition demo_params :: Params where
  "demo_params = \<lparr>p_ChainID = ''bcb'', p_Height = 1, p_Time = 0, p_ProposerAddress = '''', p_GasLimit = 100,
     p_BlockHash = [], p_GasPrice = 1, p_CallStackMaxDepth = 10, p_DataStackInitialCapacity = 0,
     p_DataStackMaxDepth = 0\<rparr>"

definition demo_machine :: "MemoryState Machine" where
  "demo_machine = NewVM demo_world demo_crypto demo_params 1 [] []"

definition demo_account :: "word160 \<Rightarrow> int \<Rightarrow> Account" where
  "demo_account a b = \<lparr>Address = a, PubKey = [], Balance = b, BVMToken = '''', BVMCode = None, WASMCode = None\<rparr>"

definition demo_ms :: MemoryState where
  "demo_ms = \<lparr>ms_tokenAddr = ''t'', ms_Accounts = [(1, demo_account 1 100), (2, demo_account 2 5)], ms_Storage = []\<rparr>"

definition demo_vm :: "MemoryState VM" where
  "demo_vm = start_vm (NewState (Base demo_ms) []) 7"

definition demo_call :: Call where
  "demo_call = \<lparr>caller = 1, callee = 2, code = [0x5b, 0x56], input = [], logFree = False\<rparr>"

lemmas demo_defs = demo_crypto_def demo_world_def demo_params_def demo_machine_def demo_account_def demo_ms_def
  demo_vm_def demo_call_def NewVM_def start_vm_def NewState_def NewCache_def memory_rw_def

section \<open>Gas and termination\<close>

text \<open>C24. A call into the machine, with every call and creation nested in it, never leaves more gas
  than it started with.\<close>
theorem VM_Call_gas: "gas (snd (run_state (VM_Call n M c v) vm)) \<le> gas vm"
  by (rule resp_gas_Call [unfolded resp_def, THEN spec])

text \<open>C1. Every call returns, with one result: when the call stack is bounded, fuel of one more than the
  gas and the depth that is left never runs out, for every code, input and state, and all larger
  fuel gives the same outcome. The fuel counts instructions and calls: one instruction is one step, whatever the size of
  the numbers in it, also the power that \<open>EXP\<close> computes before it is cut to 256 bits.\<close>
theorem VM_Call_total:
  assumes "0 < p_CallStackMaxDepth (params M)" "stackDepth vm \<le> p_CallStackMaxDepth (params M)"
    and "halt vm \<noteq> Some OutOfFuel"
    and "unat (gas vm) + (unat (p_CallStackMaxDepth (params M)) - unat (stackDepth vm)) + 1 \<le> n" "n \<le> k"
  shows "halt (snd (run_state (VM_Call n M c v) vm)) \<noteq> Some OutOfFuel
    \<and> run_state (VM_Call k M c v) vm = run_state (VM_Call n M c v) vm"
proof -
  have "halt (snd (run_state (VM_Call n M c v) vm)) \<noteq> Some OutOfFuel"
    by (rule Call_enough [OF assms(1) _ assms(3)]) (use assms(2,4) in \<open>simp add: enough_def\<close>)
  with VM_Call_more [OF this assms(5)] show ?thesis by blast
qed

theorem VM_Call_total_witness:
  "halt (snd (run_state (VM_Call 17 demo_machine demo_call 0) demo_vm)) \<noteq> Some OutOfFuel
    \<and> run_state (VM_Call 1000 demo_machine demo_call 0) demo_vm = run_state (VM_Call 17 demo_machine demo_call 0) demo_vm"
  by (rule VM_Call_total) (simp_all add: demo_defs)

text \<open>C33. What no run undoes: a recorded error stays the first error, events are only added (also by
  frames that fail later), the call depth is what it was, and a Go panic stays.\<close>
theorem VM_Call_keeps:
  "let vm' = snd (run_state (VM_Call n M c v) vm) in
     st_error (callState vm') \<in> (case st_error (callState vm) of Some e \<Rightarrow> {Some e} | None \<Rightarrow> UNIV)
     \<and> (\<exists>es. events vm' = events vm @ es)
     \<and> stackDepth vm' = stackDepth vm
     \<and> halt vm' \<in> (case halt vm of Some h \<Rightarrow> {Some h} | None \<Rightarrow> UNIV)"
  using growR.r_Call [of n M c v, unfolded resp_def, THEN spec, of vm]
  by (auto simp: grows_def Let_def split: option.split)

section \<open>Bounds\<close>

text \<open>C36. The operand stack and the memory of a frame respect their limits from its start to its end:
  every turn of the loop keeps the stack pointer inside the backing array, the array inside
  \<open>DataStackMaxDepth\<close> (or the initial capacity), the memory inside the provider's maximum; and the
  memory never shrinks.\<close>
theorem frame_bounds:
  "frame_ok M (enter M v vm)
   \<and> (frame_ok M f \<longrightarrow> frame_ok M (snd (run_state (step M (execute n M) c) f)))
   \<and> length (mem f) \<le> length (mem (snd (run_state (step M (execute n M) c) f)))"
  using enter_ok okR.r_turn [of M n c, unfolded resp_def execute_def [symmetric], THEN spec, of f]
  by (auto simp: keeps_ok_def)

theorem frame_bounds_witness:
  "frame_ok demo_machine (snd (run_state (step demo_machine (execute 3 demo_machine) demo_call) (enter demo_machine 0 demo_vm)))"
  using frame_bounds [of demo_machine 0 demo_vm "enter demo_machine 0 demo_vm" 3 demo_call] by simp

section \<open>Isolation\<close>

abbreviation demo_frame :: "MemoryState Frame" where
  "demo_frame \<equiv> enter demo_machine 200 demo_vm"

text \<open>C13. A nested call that fails (\<open>CALL\<close>, \<open>CALLCODE\<close>, \<open>DELEGATECALL\<close> or \<open>STATICCALL\<close>, whatever the
  called code did and called before it failed) leaves every account and every storage slot the
  caller sees as it was.\<close>
theorem failed_call_isolated:
  assumes "run_state (nested (call_options op) g (call_child M (execute n M) c op address cd args v)) f =
      (((out, Some err, syncErr), g'), f')"
  shows "view_acc (rw (world M)) (chain (callState f')) = view_acc (rw (world M)) (chain (callState f))
    \<and> view_sto (rw (world M)) (chain (callState f')) = view_sto (rw (world M)) (chain (callState f))"
proof -
  have "fills (rw (world M)) (chain (callState f)) (chain (callState f'))"
    by (rule nested_failed [OF _ assms]) (rule call_failed)
  from same_viewD [OF this] show ?thesis by blast
qed

text \<open>The witness: account 2 has too little for the value of the call.\<close>

lemma demo_call_fails:
  "\<exists>out err syncErr g' f'. run_state (nested (call_options CALL) 5 (call_child demo_machine (execute 3 demo_machine)
      demo_call CALL 1 [] [] 200)) demo_frame = (((out, Some err, syncErr), g'), f')"
proof -
  let ?vm = "\<lparr>callState = State_NewCache (callState demo_frame) (call_options CALL), gas = 5, vm_sequence = vm_sequence demo_frame,
           stackDepth = stackDepth demo_frame, events = events demo_frame, halt = halt demo_frame\<rparr>"
  let ?c = "\<lparr>caller = callee demo_call, callee = 1, code = [], input = [], logFree = logFree demo_call\<rparr>"
  have a: "acc_of (world demo_machine) (callState ?vm) (caller ?c) = Inr (Some (demo_account 2 5))"
    by (simp add: State_NewCache_def call_options_def enter_def demo_defs ms_GetAccount_def)
  obtain vm' where "run_state (vm_call demo_machine (execute 3 demo_machine) ?c 200) ?vm = ((None,
      Some \<lparr>ex_Code = ErrorCodeInsufficientBalance, ex_Exception = Code_String ErrorCodeInsufficientBalance\<rparr>), vm')"
    by (rule vm_call_insufficient [OF a, where v = 200]) (auto simp: State_NewCache_def NewState_def demo_account_def)
  then show ?thesis by (simp add: nested_def call_child_def sync_if_def Let_def)
qed

theorem failed_call_isolated_witness:
  "\<exists>f'. f' = snd (run_state (nested (call_options CALL) 5 (call_child demo_machine (execute 3 demo_machine)
      demo_call CALL 1 [] [] 200)) demo_frame)
    \<and> view_acc memory_rw (chain (callState f')) = view_acc memory_rw (chain (callState demo_frame))"
proof -
  from demo_call_fails obtain out err syncErr g' f' where
    r: "run_state (nested (call_options CALL) 5 (call_child demo_machine (execute 3 demo_machine)
      demo_call CALL 1 [] [] 200)) demo_frame = (((out, Some err, syncErr), g'), f')" by blast
  have w: "rw (world demo_machine) = memory_rw" by (simp add: demo_machine_def demo_world_def NewVM_def)
  show ?thesis using failed_call_isolated [OF r] r w by simp
qed

text \<open>C35. A contract creation that fails leaves the view of its creator as it was; the account it
  made does not exist.\<close>
theorem failed_create_isolated:
  assumes "run_state (nested [] g (create_child M (execute n M) c address inp v)) f = (((out, Some err, syncErr), g'), f')"
  shows "view_acc (rw (world M)) (chain (callState f')) = view_acc (rw (world M)) (chain (callState f))
    \<and> view_sto (rw (world M)) (chain (callState f')) = view_sto (rw (world M)) (chain (callState f))"
proof -
  have "fills (rw (world M)) (chain (callState f)) (chain (callState f'))"
    by (rule nested_failed [OF _ assms]) (rule create_failed)
  from same_viewD [OF this] show ?thesis by blast
qed

text \<open>The witness: account 2 has too little for the value its creation sends along.\<close>

lemma demo_create_fails:
  "\<exists>out err syncErr g' f'. run_state (nested [] 5 (create_child demo_machine (execute 3 demo_machine)
      demo_call 9 [0x5b] 200)) demo_frame = (((out, Some err, syncErr), g'), f')"
proof -
  let ?vm = "\<lparr>callState = State_NewCache (callState demo_frame) [], gas = 5, vm_sequence = vm_sequence demo_frame,
           stackDepth = stackDepth demo_frame, events = events demo_frame, halt = halt demo_frame\<rparr>"
  let ?c = "\<lparr>caller = callee demo_call, callee = 9, code = [0x5b], input = [0x5b], logFree = logFree demo_call\<rparr>"
  obtain u vm0 where 0: "run_state (createAccount demo_machine 9) ?vm = (u, vm0)" by (metis surj_pair)
  have a: "acc_of (world demo_machine) (callState vm0) (caller ?c) = Inr (Some (demo_account 2 5))
      \<and> st_error (callState vm0) = None"
    using 0 by (auto simp: createAccount_def guard_def native_iff
      State_CreateAccount_def State_Exists_def State_updateAccount_def State_PushError_def run_on_state run_on_chain
      State_NewCache_def enter_def demo_defs cache_get_def ms_GetAccount_def set_info_def Let_def)
  obtain vm' where "run_state (vm_call demo_machine (execute 3 demo_machine) ?c 200) vm0 = ((None,
      Some \<lparr>ex_Code = ErrorCodeInsufficientBalance, ex_Exception = Code_String ErrorCodeInsufficientBalance\<rparr>), vm')"
    by (rule vm_call_insufficient [OF conjunct1 [OF a] conjunct2 [OF a], where v = 200]) (auto simp: demo_account_def)
  then show ?thesis using 0 by (simp add: nested_def create_child_def sync_if_def guard_def Let_def)
qed

theorem failed_create_isolated_witness:
  "\<exists>f'. f' = snd (run_state (nested [] 5 (create_child demo_machine (execute 3 demo_machine) demo_call 9 [0x5b] 200)) demo_frame)
    \<and> view_acc memory_rw (chain (callState f')) 9 = Inr None"
proof -
  from demo_create_fails obtain out err syncErr g' f' where
    r: "run_state (nested [] 5 (create_child demo_machine (execute 3 demo_machine)
      demo_call 9 [0x5b] 200)) demo_frame = (((out, Some err, syncErr), g'), f')" by blast
  have w: "rw (world demo_machine) = memory_rw" by (simp add: demo_machine_def demo_world_def NewVM_def)
  have "view_acc memory_rw (chain (callState demo_frame)) 9 = Inr None"
    by (simp add: enter_def demo_defs ms_GetAccount_def)
  then show ?thesis using failed_create_isolated [OF r] r w by simp
qed

text \<open>C17. A \<open>STATICCALL\<close> changes nothing its caller sees, also when it succeeds and syncs.\<close>
theorem static_call_isolated:
  "same_view (rw (world M)) (chain (callState f)) (chain (callState (snd (run_state
     (nested (call_options STATICCALL) g (call_child M (execute n M) c STATICCALL address cd args v)) f))))"
proof (rule fills_view [OF nested_readonly])
  show "resp (sub_evolves M) (call_child M (execute n M) c STATICCALL address cd args v)"
    by (intro subV.r_call_child sub_if evo_delegateCall)
qed (simp add: call_options_def)

text \<open>In a frame whose cache is read-only, no code changes an account or a storage slot.\<close>
theorem readonly_frame:
  assumes "chain (callState f) = Layer c0 rest" "c_readonly c0"
  shows "same_view (rw (world M)) (chain (callState f)) (chain (callState (snd (run_state (run n M c) f))))"
  by (rule run_readonly [OF assms])

theorem readonly_frame_witness:
  "same_view memory_rw (Layer (NewCache [ReadOnly]) (Base demo_ms)) (chain (callState (snd (run_state (run 5 demo_machine demo_call)
     (demo_frame\<lparr>callState := NewState (Base demo_ms) [ReadOnly]\<rparr>)))))"
  using readonly_frame [of "demo_frame\<lparr>callState := NewState (Base demo_ms) [ReadOnly]\<rparr>" "NewCache [ReadOnly]" "Base demo_ms"
      demo_machine 5 demo_call]
  by (simp add: NewState_def NewCache_def demo_machine_def demo_world_def NewVM_def del: run.simps)

text \<open>C37. A whole call writes to the cache of its own state only: what lies below that cache, the state
  of the block, has the same accounts and storage afterwards.\<close>
theorem VM_Call_backend:
  assumes "chain (callState vm) = Layer c0 rest"
  shows "\<exists>c1 rest'. chain (callState (snd (run_state (VM_Call n M c v) vm))) = Layer c1 rest'
    \<and> same_view (rw (world M)) rest rest'"
  using evolves_LayerD [OF VM_Call_evolves [of M n c v, unfolded resp_def, THEN spec, of vm, unfolded frame_evolves_def assms]]
  by (auto dest: fills_view)

theorem VM_Call_backend_witness:
  "\<exists>c1 rest'. chain (callState (snd (run_state (VM_Call 5 demo_machine demo_call 1) demo_vm))) = Layer c1 rest'
    \<and> same_view memory_rw (Base demo_ms) rest'"
  using VM_Call_backend [of demo_vm "NewCache []" "Base demo_ms" 5 demo_machine demo_call 1]
  by (simp add: demo_defs)

section \<open>Transfer\<close>

text \<open>C22. A transfer between two existing accounts moves exactly the amount from the one to the other
  when the sender has it (no other account and no storage slot changes, no error is recorded), and
  otherwise returns the error of insufficient balance and changes nothing.\<close>
theorem transfer_moves:
  assumes "writable (world M) (callState s)" "st_error (callState s) = None" "sender \<noteq> recipient" "0 < amount"
    and "acc_of (world M) (callState s) sender = Inr (Some as)" "acc_of (world M) (callState s) recipient = Inr (Some ar)"
    and "run_state (transfer M sender recipient amount) s = (err, s')"
  shows "if amount \<le> Balance as
    then err = None \<and> st_error (callState s') = None
      \<and> acc_of (world M) (callState s') = (acc_of (world M) (callState s))
         (sender := Inr (Some (as\<lparr>Balance := Balance as - amount\<rparr>)),
          recipient := Inr (Some (ar\<lparr>Balance := Balance ar + amount\<rparr>)))
      \<and> sto_of (world M) (callState s') = sto_of (world M) (callState s)
    else err = Some (ErrCode ErrorCodeInsufficientBalance)
      \<and> acc_of (world M) (callState s') = acc_of (world M) (callState s)
      \<and> sto_of (world M) (callState s') = sto_of (world M) (callState s)"
proof (cases "amount \<le> Balance as")
  case True
  from assms(4) have "0 \<le> amount" by simp
  from transfer_run [OF assms(1,2,5,6,3) this True] obtain t where
    "run_state (transfer M sender recipient amount) s = (None, t)"
    "acc_of (world M) (callState t) = (acc_of (world M) (callState s))
       (sender := Inr (Some (as\<lparr>Balance := Balance as - amount\<rparr>)),
        recipient := Inr (Some (ar\<lparr>Balance := Balance ar + amount\<rparr>)))"
    "sto_of (world M) (callState t) = sto_of (world M) (callState s)" "st_error (callState t) = None" by blast
  then show ?thesis using assms(7) True by simp
next
  case False
  then have "amount \<noteq> 0" "Balance as < amount" using assms(4) by auto
  from transfer_insufficient [OF assms(5) this, of recipient] obtain t where
    "run_state (transfer M sender recipient amount) s = (Some (ErrCode ErrorCodeInsufficientBalance), t)"
    "fills (rw (world M)) (chain (callState s)) (chain (callState t))" by (elim exE conjE) (rule that)
  then show ?thesis using assms(7) False same_viewD [of "rw (world M)"] by simp
qed

text \<open>The witness: 30 of the 100 that account 1 has go to account 2.\<close>

theorem transfer_moves_witness:
  "\<exists>err s'. run_state (transfer demo_machine 1 2 30) demo_vm = (err, s') \<and> err = None
    \<and> view_acc memory_rw (chain (callState s')) 2 = Inr (Some (demo_account 2 35))"
proof -
  obtain err s' where r: "run_state (transfer demo_machine 1 2 30) demo_vm = (err, s')" by fastforce
  have w: "writable (world demo_machine) (callState demo_vm)"
    by (auto simp: writable_def demo_defs coherent_def keyed_def ms_GetAccount_def split: if_splits)
  have "if 30 \<le> Balance (demo_account 1 100)
    then err = None \<and> st_error (callState s') = None
      \<and> acc_of (world demo_machine) (callState s') = (acc_of (world demo_machine) (callState demo_vm))
         (1 := Inr (Some ((demo_account 1 100)\<lparr>Balance := Balance (demo_account 1 100) - 30\<rparr>)),
          2 := Inr (Some ((demo_account 2 5)\<lparr>Balance := Balance (demo_account 2 5) + 30\<rparr>)))
      \<and> sto_of (world demo_machine) (callState s') = sto_of (world demo_machine) (callState demo_vm)
    else err = Some (ErrCode ErrorCodeInsufficientBalance)
      \<and> acc_of (world demo_machine) (callState s') = acc_of (world demo_machine) (callState demo_vm)
      \<and> sto_of (world demo_machine) (callState s') = sto_of (world demo_machine) (callState demo_vm)"
    by (rule transfer_moves [OF w _ _ _ _ _ r]) (simp_all add: demo_defs ms_GetAccount_def)
  then show ?thesis using r by (simp add: demo_account_def demo_machine_def NewVM_def demo_world_def)
qed

section \<open>What instructions compute\<close>

definition demo_operands :: "word256 list \<Rightarrow> MemoryState Frame" where
  "demo_operands ws = (enter demo_machine 0 demo_vm)\<lparr>st_slice := ws, st_ptr := length ws\<rparr>"

lemma demo_operands_sel [simp]: "st_slice (demo_operands ws) = ws" "st_ptr (demo_operands ws) = length ws"
  by (simp_all add: demo_operands_def)

lemma demo_operands_ok: "0 < length ws \<Longrightarrow> length ws \<le> 4 \<Longrightarrow> operands (length ws) (demo_operands ws)"
  by (simp add: operands_def demo_operands_def enter_def demo_vm_def start_vm_def MaxInt32_def)

text \<open>C25. The instructions of the table \<open>alu\<close> (\<open>ADD\<close>, \<open>MUL\<close>, \<open>SUB\<close>, \<open>DIV\<close>, \<open>MOD\<close>, \<open>SDIV\<close>, \<open>SMOD\<close>, \<open>EXP\<close>, \<open>LT\<close>, \<open>GT\<close>, \<open>SLT\<close>, \<open>SGT\<close>,
  \<open>EQ\<close>, \<open>AND\<close>, \<open>OR\<close>, \<open>XOR\<close>, \<open>SHL\<close>, \<open>SHR\<close>, \<open>SAR\<close>), which the code computes on \<open>big.Int\<close> and byte by byte, replace their two
  operands by the result of the operation on 256-bit words (wrapping around, 0 for a division by zero, \<open>SLT\<close>, \<open>SGT\<close> and
  \<open>SAR\<close> on signed words), take one unit of gas per stack access and touch nothing else of the frame. \<open>SDIV\<close> and \<open>SMOD\<close>
  have the quotient and the remainder of the Euclidean division of the signed operands, which is what the code computes
  and not what the instruction set has (\<open>SDIV_SMOD_euclidean\<close>). \<open>BYTE\<close> and \<open>SIGNEXTEND\<close>, whose index must fit 64 bits, are
  not in the table: for them there is \<open>BYTE_SIGNEXTEND\<close>.\<close>
theorem alu_correct:
  assumes "alu op = Some g" "operands 2 f"
  shows "run_state (exec_op M X c op) f = (Next, result 2 (g (opd f 1) (opd f 2)) f)"
  by (rule alu_exec [OF assms])

theorem alu_correct_witness:
  "run_state (exec_op demo_machine (execute 1 demo_machine) demo_call SUB) (demo_operands [4, 3]) =
    (Next, result 2 (- 1) (demo_operands [4, 3]))"
proof -
  have "alu SUB = Some (\<lambda>x y. x - y)" by (simp add: alu_def opcode_values)
  from alu_correct [OF this demo_operands_ok [of "[4, 3]", simplified, folded numeral_2_eq_2]] show ?thesis
    by simp
qed

text \<open>\<open>ADDMOD\<close> and \<open>MULMOD\<close> reduce the exact sum or product, not the wrapped one, modulo the third
  operand, and give 0 for the modulus 0.\<close>
theorem alu3_correct:
  assumes "alu3 op = Some g" "operands 3 f"
  shows "run_state (exec_op M X c op) f = (Next, result 3 (g (opd f 1) (opd f 2) (opd f 3)) f)"
  by (rule alu3_exec [OF assms])

theorem alu3_correct_witness:
  "run_state (exec_op demo_machine (execute 1 demo_machine) demo_call ADDMOD) (demo_operands [10, 1, - 1]) =
    (Next, result 3 6 (demo_operands [10, 1, - 1]))"
proof -
  have "alu3 ADDMOD = Some (\<lambda>x y z. if z = 0 then 0 else word_of_int ((uint x + uint y) mod uint z))"
    by (simp add: alu3_def)
  from alu3_correct [OF this demo_operands_ok [of "[10, 1, - 1]", simplified, folded numeral_3_eq_3]] show ?thesis
    by (simp add: unsigned_minus_1_eq_mask mask_eq_exp_minus_1)
qed

text \<open>\<open>BYTE\<close> and \<open>SIGNEXTEND\<close> with an index of 64 bits. \<open>BYTE\<close> leaves the byte at the index, 0 beyond the word, and panics for
  an index from \<open>2 ^ 63\<close> on, which the code reads as negative. \<open>SIGNEXTEND\<close> extends the sign of the byte, and leaves the
  second operand in place for an index of 31 or more.\<close>
theorem BYTE_SIGNEXTEND:
  assumes "operands 2 f" "opd f 1 = Uint64ToWord256 u" "halt f = None"
  shows "(u < 32 \<longrightarrow> run_state (exec_op M X c BYTE) f = (Next, result 2 (ucast (be_bytes 32 (opd f 2) ! unat u)) f))
    \<and> (32 \<le> u \<and> 0 \<le> sint u \<longrightarrow> run_state (exec_op M X c BYTE) f = (Next, result 2 0 f))
    \<and> (sint u < 0 \<longrightarrow> halt (snd (run_state (exec_op M X c BYTE) f)) = Some (GoPanic ''index out of range''))
    \<and> (u < 31 \<longrightarrow> run_state (exec_op M X c SIGNEXTEND) f = (Next, result 2 (word_of_int (signed_take_bit (unat u * 8 + 7) (uint (opd f 2)))) f))
    \<and> (31 \<le> u \<longrightarrow> run_state (exec_op M X c SIGNEXTEND) f = (Next, f\<lparr>gas := gas f - GasStackOp, st_ptr := st_ptr f - 1\<rparr>))"
  unfolding dispatch using BYTE_run [OF assms(1,2)] SIGNEXTEND_run [OF assms(1,2)] assms(3) by (simp add: SignExtend_eq)

text \<open>\<open>SDIV\<close> and \<open>SMOD\<close> divide as \<open>big.Int\<close> does, with a remainder that is never negative, and not
  towards zero with the sign of the dividend, as the instruction set has it: -7 divided by 2 leaves
  the quotient -4 and the remainder 1, where -3 and -1 are expected.\<close>
theorem SDIV_SMOD_euclidean:
  assumes "operands 2 f"
  shows "run_state (exec_op M X c SDIV) f = (Next, result 2 (if opd f 2 = 0 then 0
      else word_of_int (big_Div (sint (opd f 1)) (sint (opd f 2)))) f)
    \<and> run_state (exec_op M X c SMOD) f = (Next, result 2 (if opd f 2 = 0 then 0
      else word_of_int (sint (opd f 1) mod \<bar>sint (opd f 2)\<bar>)) f)"
  by (simp only: dispatch alu_ops [OF assms])

theorem SDIV_SMOD_euclidean_witness:
  "run_state (exec_op demo_machine (execute 1 demo_machine) demo_call SDIV) (demo_operands [2, - 7]) =
      (Next, result 2 (- 4) (demo_operands [2, - 7]))
    \<and> run_state (exec_op demo_machine (execute 1 demo_machine) demo_call SMOD) (demo_operands [2, - 7]) =
      (Next, result 2 1 (demo_operands [2, - 7]))"
  using SDIV_SMOD_euclidean [OF demo_operands_ok [of "[2, - 7]", simplified, folded numeral_2_eq_2],
      of demo_machine "execute 1 demo_machine" demo_call]
  by (simp add: big_Div_def)

text \<open>What is written to memory is read back, and a write changes no other byte: memory that was
  never written reads as zero.\<close>
theorem memory_write_read:
  assumes "in_reach M f offset (length bs)"
    and "run_state (memory_Write M offset bs) f = (u, f')"
  shows "fst (run_state (memory_Read M offset (int (length bs))) f') = Some bs
    \<and> st_error (callState f') = st_error (callState f)
    \<and> (\<forall>k < length (mem f'). k < nat offset \<or> nat offset + length bs \<le> k \<longrightarrow>
        mem f' ! k = (if k < length (mem f) then mem f ! k else 0))"
proof -
  let ?m = "overwrite (nat offset) bs (mem f)"
  have f': "f' = f\<lparr>mem := ?m\<rparr>" using memory_Write_run [OF assms(1)] assms(2) by simp
  have "nat offset + length bs \<le> length ?m" by (simp add: overwrite_length)
  then have r: "in_reach M f' offset (length bs)" using assms(1) f' by (simp add: in_reach_def)
  show ?thesis
    using memory_Read_run [OF r] f' \<open>nat offset + length bs \<le> length ?m\<close>
    by (auto simp: overwrite_read overwrite_nth)
qed

theorem memory_write_read_witness:
  "\<exists>f'. run_state (memory_Write demo_machine 32 [1, 2]) (demo_operands []) = ((), f')
    \<and> fst (run_state (memory_Read demo_machine 32 2) f') = Some [1, 2]"
proof -
  have r: "in_reach demo_machine (demo_operands []) 32 (length [1, 2 :: byte])"
    by (simp add: in_reach_def MaxInt32_def demo_operands_def enter_def demo_machine_def NewVM_def defaultInitialMemoryCapacity_def)
  obtain u f' where f': "run_state (memory_Write demo_machine 32 [1, 2]) (demo_operands []) = (u, f')" by (metis surj_pair)
  show ?thesis using memory_write_read [OF r f'] f' by simp
qed

end
