(* ===== verification/State_Helper.thy ===== *)
theory State_Helper
  imports State_DB
begin

text \<open>
  State access of the application: package \<open>statedbhelper\<close> (\<open>common/statedbhelper\<close>). A global
  \<open>StateDB\<close>, the open transactions by number, and in each of them the open \<open>Tx\<close> buffers by number.
  A read looks into the buffer of the tx, then into the buffer of the transaction, then into the
  database; a write goes to the buffer of the tx.

  The values are JSON texts. The codec \<open>jsoniter\<close> is external (so is one key, \<open>std.KeyOfMineContracts\<close>): each type that is stored has a
  \<open>codec\<close> in the record \<open>json\<close>, of which \<open>codec_ok\<close> states that it reads back what it wrote. The
  structures of the chain's SDK (\<open>std\<close>) and of its consensus engine (\<open>abci\<close>) are records of the
  fields this repository uses, with the others in one opaque field. The package variables are the
  record \<open>Helper\<close>; \<open>stateDB\<close> has been set by \<open>Init\<close>. As in the store, \<open>nil\<close> and an empty byte
  slice are both \<open>[]\<close>.
\<close>

section \<open>Stored data\<close>

record Header =
  ChainID :: string
  Height :: int
  LastAppHash :: bytes
  ProposerAddress :: string
  RewardAddress :: string
  hd_Time :: "64 word"
  hd_ChainVersion :: "64 word"
  hd_others :: bytes

record RequestBeginBlock =
  bb_Hash :: bytes
  bb_Header :: Header

record AppState =
  BlockHeight :: int
  AppHash :: bytes
  TxsHashList :: "bytes list"
  Rewards :: "(string \<times> bytes) list"
  Fee :: uint64
  BeginBlock :: RequestBeginBlock
  ChainVersion :: int

definition no_header :: Header where
  "no_header = \<lparr>ChainID = [], Height = 0, LastAppHash = [], ProposerAddress = [], RewardAddress = [],
     hd_Time = 0, hd_ChainVersion = 0, hd_others = []\<rparr>"

definition no_state :: AppState where
  "no_state = \<lparr>BlockHeight = 0, AppHash = [], TxsHashList = [], Rewards = [], Fee = 0,
     BeginBlock = \<lparr>bb_Hash = [], bb_Header = no_header\<rparr>, ChainVersion = 0\<rparr>"

record Method =
  mt_MethodID :: string
  mt_Gas :: "64 word"
  mt_others :: bytes

record Contract =
  ct_Address :: string
  ct_Account :: string
  ct_Owner :: string
  ct_OrgID :: string
  ct_Name :: string
  ct_Token :: string
  ct_Methods :: "Method list"
  ct_CodeHash :: bytes
  ct_EffectHeight :: int
  ct_LoseHeight :: int
  ct_ChainVersion :: int
  ct_others :: bytes

record ContractMeta =
  cm_ContractAddr :: string
  cm_others :: bytes

record ContractVersionList =
  cv_Name :: string
  cv_ContractAddrList :: "string list"
  cv_EffectHeights :: "int list"

record ContractWithEffectHeight =
  ch_ContractAddr :: string
  ch_IsUpgrade :: bool

record MineContract =
  mc_MineHeight :: int
  mc_Address :: string

record Organization =
  og_OrgID :: string
  og_Signers :: "bytes list"
  og_OrgCodeHash :: bytes
  og_ContractAddrList :: "string list"
  og_others :: bytes

record Token =
  tk_Address :: string
  tk_others :: bytes

record AccountBalance =
  ab_Address :: string
  ab_Balance :: int

record Rewarder =
  rw_Name :: string
  rw_RewardPercent :: string
  rw_Address :: string

record RewardStrategy =
  rs_Strategy :: "Rewarder list"
  rs_EffectHeight :: int

record Validator =
  vd_PubKey :: bytes
  vd_Power :: int
  vd_RewardAddr :: string
  vd_Name :: string
  vd_NodeAddr :: string

record GetResult =
  gr_Code :: nat
  gr_Msg :: string
  gr_Data :: bytes

section \<open>External code\<close>

record 'a codec =
  marshal :: "'a \<Rightarrow> string + bytes"
  unmarshal :: "bytes \<Rightarrow> string + 'a"

definition codec_ok :: "'a codec \<Rightarrow> bool" where
  "codec_ok c \<longleftrightarrow> (\<forall>x. \<exists>b. marshal c x = Inr b \<and> b \<noteq> [] \<and> unmarshal c b = Inr x)"

record json =
  j_AppState :: "AppState codec"
  j_string :: "string codec"
  j_strings :: "string list codec"
  j_bool :: "bool codec"
  j_int64 :: "int codec"
  j_Nonce :: "uint64 codec"
  j_Contract :: "Contract codec"
  j_ContractMeta :: "ContractMeta codec"
  j_Versions :: "ContractVersionList codec"
  j_WithHeight :: "ContractWithEffectHeight list codec"
  j_Mines :: "MineContract list codec"
  j_Organization :: "Organization codec"
  j_Token :: "Token codec"
  j_Balance :: "AccountBalance codec"
  j_Strategies :: "RewardStrategy list codec"
  j_Validator :: "Validator codec"
  j_GetResult :: "GetResult codec"
  c_CodeOK :: nat
  c_ErrInvalidParameter :: nat
  std_KeyOfMineContracts :: string

section \<open>Keys (\<open>statedbkey.go\<close>)\<close>

definition keyOfWorldAppState :: string where
  "keyOfWorldAppState = ''/world/appstate''"

definition keyOfGenesisChainID :: string where
  "keyOfGenesisChainID = ''/genesis/chainid''"

definition keyOfRewardStrategy :: string where
  "keyOfRewardStrategy = ''/rewardstrategys''"

definition KeyOfAccountNonce :: "string \<Rightarrow> string" where
  "KeyOfAccountNonce exAddress = ''/account/ex/'' @ exAddress @ ''/account''"

definition KeyOfAccountToken :: "string \<Rightarrow> string \<Rightarrow> string" where
  "KeyOfAccountToken exAddress contractAddr = ''/account/ex/'' @ exAddress @ ''/token/'' @ contractAddr"

definition KeyOfAccount :: "string \<Rightarrow> string" where
  "KeyOfAccount exAddress = ''/account/ex/'' @ exAddress"

definition keyOfContract :: "string \<Rightarrow> string" where
  "keyOfContract addr = ''/contract/'' @ addr"

definition keyOfValidators :: string where
  "keyOfValidators = ''/validators/all/0''"

definition keyOfValidator :: "string \<Rightarrow> string" where
  "keyOfValidator nodeAddr = ''/validator/'' @ nodeAddr"

definition keyOfBlackList :: "string \<Rightarrow> string" where
  "keyOfBlackList addr = ''/blacklist/'' @ addr"

definition keyOfGenesisContract :: string where
  "keyOfGenesisContract = ''/contract/genesis''"

definition keyOfContractOrgID :: "string \<Rightarrow> string \<Rightarrow> string" where
  "keyOfContractOrgID orgID name = ''/contract/'' @ orgID @ ''/'' @ name"

definition keyOfContractWithHeight :: "string \<Rightarrow> string" where
  "keyOfContractWithHeight height = ''/'' @ height"

definition keyOfContractMeta :: "string \<Rightarrow> string" where
  "keyOfContractMeta addr = ''/contract/code/'' @ addr"

definition keyOfOrganization :: "string \<Rightarrow> string" where
  "keyOfOrganization orgID = ''/organization/'' @ orgID"

definition keyOfMineContracts :: string where
  "keyOfMineContracts = ''/contract/mines''"

definition KeyOfToken :: "string \<Rightarrow> string" where
  "KeyOfToken tokenAddr = ''/token/'' @ tokenAddr"

definition keyOfGasPriceRatio :: string where
  "keyOfGasPriceRatio = ''/genesis/gaspriceratio''"

definition keyOfGenesisOrgID :: string where
  "keyOfGenesisOrgID = ''/genesis/orgid''"

section \<open>Package state\<close>

text \<open>A transaction with its open txs: \<open>Trans\<close>, whose \<open>TxMap\<close> is only looked up and extended.\<close>

record Trans =
  tr_Transaction :: Transaction
  tr_TxMap :: "int \<Rightarrow> Tx option"

text \<open>
  \<open>currentCommittableTransaction\<close> points to the transaction of that number in \<open>transactionMap\<close>; only
  its \<open>ID()\<close> is read.
\<close>

record 'db Helper =
  stateDB :: "'db StateDB"
  transactionMap :: "int \<Rightarrow> Trans option"
  setOnce :: bool
  chainID :: string
  currentCommittableTransaction :: "int option"
  genesisToken :: Token
  genesisContractAddr :: string

definition Helper_Init :: "'db ext \<Rightarrow> 'db \<Rightarrow> 'db \<Rightarrow> int \<Rightarrow> string + 'db Helper" where
  "Helper_Init E db sn maxSnapshotCount = (case New E db sn maxSnapshotCount of
     Inl e \<Rightarrow> Inl e
   | Inr st \<Rightarrow> Inr \<lparr>stateDB = st, transactionMap = (\<lambda>_. None), setOnce = False, chainID = [],
       currentCommittableTransaction = None, genesisToken = \<lparr>tk_Address = [], tk_others = []\<rparr>,
       genesisContractAddr = []\<rparr>)"

definition put_trans :: "int \<Rightarrow> Trans option \<Rightarrow> 'db Helper \<Rightarrow> 'db Helper" where
  "put_trans i t h = h\<lparr>transactionMap := (transactionMap h)(i := t)\<rparr>"

section \<open>Transactions and txs\<close>


definition NewCommittableTransactionID :: "'db Helper \<Rightarrow> ('db Helper, int) act" where
  "NewCommittableTransactionID h = (case currentCommittableTransaction h of
     Some i \<Rightarrow> (Inr i, h)
   | None \<Rightarrow> (case NewCommittableTransaction (stateDB h) of
       (Inl e, st) \<Rightarrow> (Inl e, h\<lparr>stateDB := st\<rparr>)
     | (Inr t, st) \<Rightarrow> (Inr (transactionID t),
         put_trans (transactionID t) (Some \<lparr>tr_Transaction = t, tr_TxMap = (\<lambda>_. None)\<rparr>)
           (h\<lparr>stateDB := st, currentCommittableTransaction := Some (transactionID t)\<rparr>))))"

definition NewRollbackTransactionID :: "'db Helper \<Rightarrow> int \<times> 'db Helper" where
  "NewRollbackTransactionID h = (let (t, st) = NewRollbackTransaction (stateDB h)
     in (transactionID t, put_trans (transactionID t)
          (Some \<lparr>tr_Transaction = t, tr_TxMap = (\<lambda>_. None)\<rparr>) (h\<lparr>stateDB := st\<rparr>)))"

definition RollbackStateDB :: "'db ext \<Rightarrow> int \<Rightarrow> 'db Helper \<Rightarrow> ('db Helper, unit) act" where
  "RollbackStateDB E n h = (let (r, st) = StateDB_Rollback E n (stateDB h) in (r, h\<lparr>stateDB := st\<rparr>))"

definition GetFromDB :: "'db ext \<Rightarrow> string \<Rightarrow> 'db Helper \<Rightarrow> string + bytes" where
  "GetFromDB E key h = StateDB_Get E (stateDB h) key"

definition getTrans :: "int \<Rightarrow> 'db Helper \<Rightarrow> ('db Helper, Trans) act" where
  "getTrans transID h = (case transactionMap h transID of
     None \<Rightarrow> (Inl ''invalid transID'', h)
   | Some tr \<Rightarrow> (Inr tr, h))"

definition NewTx :: "int \<Rightarrow> 'db Helper \<Rightarrow> ('db Helper, int) act" where
  "NewTx transID h = seqR (getTrans transID h) (\<lambda>tr h.
     let (tx, t) = Transaction_NewTx (tr_Transaction tr)
     in (Inr (txID tx), put_trans transID
          (Some \<lparr>tr_Transaction = t, tr_TxMap = (tr_TxMap tr)(txID tx := Some tx)\<rparr>) h))"

text \<open>\<open>get\<close>: an entry of the tx buffer with an empty value is passed over.\<close>

definition helper_get :: "'db ext \<Rightarrow> int \<Rightarrow> int \<Rightarrow> string \<Rightarrow> 'db Helper \<Rightarrow> string + bytes" where
  "helper_get E transID xid key h = (case transactionMap h transID of
     None \<Rightarrow> if transID = 0 then StateDB_Get E (stateDB h) key else Inl ''invalid transID''
   | Some tr \<Rightarrow>
      let below = Transaction_Get E (stateDB h) (tr_Transaction tr) key
      in (case tr_TxMap tr xid of
         None \<Rightarrow> below
       | Some tx \<Rightarrow> if length (Tx_Get tx key) \<noteq> 0 then Inr (Tx_Get tx key) else below))"

text \<open>\<open>set\<close> and \<open>batchSet\<close> find the tx the same way and write to its buffer.\<close>

definition on_tx :: "int \<Rightarrow> int \<Rightarrow> (Tx \<Rightarrow> Tx) \<Rightarrow> 'db Helper \<Rightarrow> ('db Helper, unit) act" where
  "on_tx transID i f h = seqR (getTrans transID h) (\<lambda>tr h. case tr_TxMap tr i of
     None \<Rightarrow> (Inl (''invalid txID: '' @ dec_of_int i), h)
   | Some tx \<Rightarrow> (Inr (), put_trans transID
       (Some (tr\<lparr>tr_TxMap := (tr_TxMap tr)(i := Some (f tx))\<rparr>)) h))"

definition helper_set :: "int \<Rightarrow> int \<Rightarrow> string \<Rightarrow> bytes \<Rightarrow> 'db Helper \<Rightarrow> ('db Helper, unit) act" where
  "helper_set transID xid key v = on_tx transID xid (\<lambda>tx. Tx_Set tx key v)"

definition helper_batchSet :: "int \<Rightarrow> int \<Rightarrow> (string, bytes) gomap \<Rightarrow> 'db Helper \<Rightarrow> ('db Helper, unit) act" where
  "helper_batchSet transID xid data = on_tx transID xid (\<lambda>tx. Tx_BatchSet tx data)"

definition on_transaction :: "int \<Rightarrow> (Transaction \<Rightarrow> Transaction) \<Rightarrow> 'db Helper \<Rightarrow> ('db Helper, unit) act" where
  "on_transaction transID f h = seqR (getTrans transID h) (\<lambda>tr h.
     (Inr (), put_trans transID (Some (tr\<lparr>tr_Transaction := f (tr_Transaction tr)\<rparr>)) h))"

definition RollbackBlock :: "int \<Rightarrow> 'db Helper \<Rightarrow> ('db Helper, unit) act" where
  "RollbackBlock transID h = seqR (getTrans transID h) (\<lambda>tr h.
     let h1 = put_trans (transactionID (tr_Transaction tr)) None h
     in (Inr (), if currentCommittableTransaction h1 = Some transID
           then h1\<lparr>currentCommittableTransaction := None\<rparr> else h1))"

text \<open>A tx that does not exist is a nil pointer: the runtime panics.\<close>

definition nil_pointer :: string where
  "nil_pointer = ''runtime error: invalid memory address or nil pointer dereference''"

definition RollbackTx :: "int \<Rightarrow> int \<Rightarrow> 'db Helper \<Rightarrow> ('db Helper, unit) act" where
  "RollbackTx transID i h = seqR (getTrans transID h) (\<lambda>tr h. case tr_TxMap tr i of
     None \<Rightarrow> (Inl nil_pointer, h)
   | Some tx \<Rightarrow> (Inr (), put_trans transID
       (Some (tr\<lparr>tr_TxMap := (tr_TxMap tr)(i := Some (Tx_Rollback tx))\<rparr>)) h))"

definition CommitBlock :: "'db ext \<Rightarrow> int \<Rightarrow> 'db Helper \<Rightarrow> ('db Helper, unit) act" where
  "CommitBlock E transID h = seqR (getTrans transID h) (\<lambda>tr h.
     case Transaction_Commit E (tr_Transaction tr) (stateDB h) of
       (Inl e, st) \<Rightarrow> (Inl e, h\<lparr>stateDB := st\<rparr>)
     | (Inr _, st) \<Rightarrow> (Inr (), put_trans (transactionID (tr_Transaction tr)) None
         (h\<lparr>stateDB := st, currentCommittableTransaction := None\<rparr>)))"

definition CommitTx :: "int \<Rightarrow> int \<Rightarrow> 'db Helper \<Rightarrow> ('db Helper, bytes \<times> (string, bytes) gomap) act" where
  "CommitTx transID i h = seqR (getTrans transID h) (\<lambda>tr h. case tr_TxMap tr i of
     None \<Rightarrow> (Inl nil_pointer, h)
   | Some tx \<Rightarrow> (let (out, tx', t) = Tx_Commit tx (tr_Transaction tr)
       in (Inr out, put_trans transID
            (Some \<lparr>tr_Transaction = t, tr_TxMap = (tr_TxMap tr)(i := Some tx')\<rparr>) h)))"

definition CommitTx2V1 :: "int \<Rightarrow> (string, bytes) gomap \<Rightarrow> 'db Helper \<Rightarrow> ('db Helper, unit) act" where
  "CommitTx2V1 transID txBuffer = on_transaction transID (\<lambda>t. Transaction_BatchSet t txBuffer)"

section \<open>Reading and writing JSON\<close>

text \<open>\<open>Unmarshal\<close> or panic; with a default for an absent value; \<open>Marshal\<close> and write.\<close>

definition decode :: "'a codec \<Rightarrow> string \<Rightarrow> bytes \<Rightarrow> string + 'a" where
  "decode c msg v = (case unmarshal c v of Inl e \<Rightarrow> Inl (msg @ e) | Inr x \<Rightarrow> Inr x)"

definition decode_or :: "'a \<Rightarrow> 'a codec \<Rightarrow> string \<Rightarrow> bytes \<Rightarrow> string + 'a" where
  "decode_or d c msg v = (if length v = 0 then Inr d else decode c msg v)"

definition write_json :: "'a codec \<Rightarrow> string \<Rightarrow> int \<Rightarrow> int \<Rightarrow> string \<Rightarrow> 'a \<Rightarrow> 'db Helper \<Rightarrow> ('db Helper, unit) act" where
  "write_json c msg transID xid key x h = (case marshal c x of
     Inl e \<Rightarrow> (Inl (msg @ e), h)
   | Inr value \<Rightarrow> helper_set transID xid key value h)"

section \<open>World state and chain\<close>

definition GetWorldAppState :: "'db ext \<Rightarrow> json \<Rightarrow> int \<Rightarrow> int \<Rightarrow> 'db Helper \<Rightarrow> string + AppState" where
  "GetWorldAppState E J transID xid h =
    andThen (helper_get E transID xid keyOfWorldAppState h) (decode_or no_state (j_AppState J) [])"

definition SetWorldAppState :: "json \<Rightarrow> int \<Rightarrow> int \<Rightarrow> AppState \<Rightarrow> 'db Helper \<Rightarrow> ('db Helper, unit) act" where
  "SetWorldAppState J transID xid = write_json (j_AppState J) [] transID xid keyOfWorldAppState"

definition Helper_BeginBlock :: "'db ext \<Rightarrow> json \<Rightarrow> int \<Rightarrow> 'db Helper \<Rightarrow> ('db Helper, unit) act" where
  "Helper_BeginBlock E J transID h = need (GetWorldAppState E J transID 0 h) h (\<lambda>st.
     seqR (NewTx transID h) (\<lambda>xid h.
     SetWorldAppState J transID xid (st\<lparr>BlockHeight := BlockHeight st + 1\<rparr>) h))"

definition SetChainIDOnce :: "string \<Rightarrow> 'db Helper \<Rightarrow> 'db Helper" where
  "SetChainIDOnce cID h = (if setOnce h then h else h\<lparr>setOnce := True, chainID := cID\<rparr>)"

definition GetChainID :: "'db ext \<Rightarrow> json \<Rightarrow> 'db Helper \<Rightarrow> ('db Helper, string) act" where
  "GetChainID E J h =
    (if chainID h \<noteq> [] then (Inr (chainID h), h)
     else need (StateDB_Get E (stateDB h) keyOfGenesisChainID) h (\<lambda>value.
       if length value = 0 then (Inr [], h)
       else let c = (case unmarshal (j_string J) value of Inl _ \<Rightarrow> string_of_bytes value | Inr c \<Rightarrow> c)
         in (Inr c, h\<lparr>chainID := c\<rparr>)))"

definition GetChainGenesisVersion :: "'db ext \<Rightarrow> json \<Rightarrow> 'db Helper \<Rightarrow> string + int" where
  "GetChainGenesisVersion E J h =
    andThen (StateDB_Get E (stateDB h) ''/genesis/chainversion'') (\<lambda>value.
      if length value = 0 then Inr 0
      else andThen (decode (j_int64 J) [] value) (\<lambda>v.
        if v = 0 then Inr 0 else if v = 2 then Inr 2 else Inl ''invalid genesisChainVersion''))"

definition GetGenesisToken :: "'db ext \<Rightarrow> json \<Rightarrow> 'db Helper \<Rightarrow> ('db Helper, Token) act" where
  "GetGenesisToken E J h =
    (if tk_Address (genesisToken h) \<noteq> [] then (Inr (genesisToken h), h)
     else need (StateDB_Get E (stateDB h) ''/genesis/token'') h (\<lambda>tokenBytes.
       need (decode (j_Token J) ''Get Genesis Token Failed: '' tokenBytes) h (\<lambda>t.
       (Inr t, h\<lparr>genesisToken := t\<rparr>))))"

definition SetGenesisContractAddr :: "json \<Rightarrow> int \<Rightarrow> int \<Rightarrow> string \<Rightarrow> 'db Helper \<Rightarrow> ('db Helper, unit) act" where
  "SetGenesisContractAddr J transID xid addr h =
    (let v = (case marshal (j_string J) addr of Inl _ \<Rightarrow> [] | Inr v \<Rightarrow> v)
     in seqR (helper_set transID xid keyOfGenesisContract v h) (\<lambda>_ h.
       (Inr (), h\<lparr>genesisContractAddr := addr\<rparr>)))"

definition GetGenesisContractAddr :: "'db ext \<Rightarrow> json \<Rightarrow> int \<Rightarrow> int \<Rightarrow> 'db Helper \<Rightarrow> ('db Helper, string) act" where
  "GetGenesisContractAddr E J transID xid h =
    (if genesisContractAddr h \<noteq> [] then (Inr (genesisContractAddr h), h)
     else need (helper_get E transID xid keyOfGenesisContract h) h (\<lambda>v.
       if length v = 0 then (Inr [], h)
       else need (decode (j_string J) [] v) h (\<lambda>a. (Inr a, h\<lparr>genesisContractAddr := a\<rparr>))))"

section \<open>Account nonces\<close>

definition CheckAccountNonce :: "'db ext \<Rightarrow> json \<Rightarrow> int \<Rightarrow> int \<Rightarrow> string \<Rightarrow> uint64 \<Rightarrow> 'db Helper \<Rightarrow>
    string + string option" where
  "CheckAccountNonce E J transID xid exAddr n h =
    andThen (helper_get E transID xid (KeyOfAccountNonce exAddr) h) (\<lambda>value.
    andThen (decode_or 0 (j_Nonce J) [] value) (\<lambda>lastNonce.
      if n \<noteq> lastNonce + 1
      then Inr (Some (''address:'' @ exAddr @ '' nonce invalid! expected: '' @
        dec_of_nat (unat (lastNonce + 1)) @ '', got: '' @ dec_of_nat (unat n)))
      else Inr None))"

text \<open>The first nonce of an account also lists its key among the account's keys.\<close>

definition account_keys :: "'db ext \<Rightarrow> json \<Rightarrow> int \<Rightarrow> int \<Rightarrow> string \<Rightarrow> 'db Helper \<Rightarrow>
    string + (string, bytes) gomap" where
  "account_keys E J transID xid exAddress h =
    andThen (helper_get E transID xid (KeyOfAccount exAddress) h) (\<lambda>accAllKeyBytes.
    andThen (decode_or [] (j_strings J) [] accAllKeyBytes) (\<lambda>accAllKeys.
    andThen (marshal (j_strings J) (accAllKeys @ [KeyOfAccountNonce exAddress])) (\<lambda>resBytes.
    Inr [(KeyOfAccount exAddress, resBytes)])))"

text \<open>
  The result is the nonce buffer, or the returned error. The writes go to the buffer of the
  transaction, past that of the tx.
\<close>

definition SetAccountNonce :: "'db ext \<Rightarrow> json \<Rightarrow> int \<Rightarrow> int \<Rightarrow> string \<Rightarrow> uint64 \<Rightarrow> 'db Helper \<Rightarrow>
    ('db Helper, string + (string, bytes) gomap) act" where
  "SetAccountNonce E J transID xid exAddress n h =
    need (CheckAccountNonce E J transID xid exAddress n h) h (\<lambda>err. case err of
      Some msg \<Rightarrow> (Inr (Inl msg), h)
    | None \<Rightarrow>
      need (marshal (j_Nonce J) n) h (\<lambda>accountData.
      need (helper_get E transID xid (KeyOfAccountNonce exAddress) h) h (\<lambda>data.
      seqR (getTrans transID h) (\<lambda>tr h.
      need (if length data = 0 then account_keys E J transID xid exAddress h else Inr []) h (\<lambda>keys.
      let nonceBuffer = keys @ [(KeyOfAccountNonce exAddress, accountData)]
      in seqR (on_transaction transID
           (\<lambda>t. foldl (\<lambda>t (k, v). Transaction_Set t k v) t nonceBuffer) h) (\<lambda>_ h.
         (Inr (Inr nonceBuffer), h)))))))"

section \<open>Balances\<close>

definition BalanceOf :: "'db ext \<Rightarrow> json \<Rightarrow> int \<Rightarrow> int \<Rightarrow> string \<Rightarrow> string \<Rightarrow> 'db Helper \<Rightarrow> string + int" where
  "BalanceOf E J transID xid addr token h =
    andThen (helper_get E transID xid (KeyOfAccountToken addr token) h) (\<lambda>value.
      if length value = 0 then Inr 0
      else andThen (decode (j_Balance J) [] value) (\<lambda>acc. Inr (ab_Balance acc)))"

definition SetBalance :: "json \<Rightarrow> int \<Rightarrow> int \<Rightarrow> string \<Rightarrow> string \<Rightarrow> int \<Rightarrow> 'db Helper \<Rightarrow> ('db Helper, unit) act" where
  "SetBalance J transID xid addr token value =
    write_json (j_Balance J) (''cannot set account balance'' @ [CHR 0xEF, CHR 0xBC, CHR 0x9A])
      transID xid (KeyOfAccountToken addr token) \<lparr>ab_Address = token, ab_Balance = value\<rparr>"

definition AddAccountToken :: "'db ext \<Rightarrow> json \<Rightarrow> int \<Rightarrow> int \<Rightarrow> string \<Rightarrow> string \<Rightarrow> 'db Helper \<Rightarrow>
    ('db Helper, unit) act" where
  "AddAccountToken E J transID xid addr token h =
    need (helper_get E transID xid (KeyOfAccount addr) h) h (\<lambda>bs.
    need (decode_or [] (j_strings J) [] bs) h (\<lambda>tokenList.
      let newToken = KeyOfAccountToken addr token
      in if newToken \<in> set tokenList then (Inr (), h)
         else write_json (j_strings J) [] transID xid (KeyOfAccount addr) (tokenList @ [newToken]) h))"

section \<open>Contracts\<close>

definition GetContract :: "'db ext \<Rightarrow> json \<Rightarrow> string \<Rightarrow> 'db Helper \<Rightarrow> string + Contract option" where
  "GetContract E J contractAddr h =
    andThen (StateDB_Get E (stateDB h) (keyOfContract contractAddr)) (\<lambda>value.
      if length value = 0 then Inr None
      else andThen (decode (j_Contract J) [] value) (\<lambda>c. Inr (Some c)))"

definition SetContract :: "json \<Rightarrow> int \<Rightarrow> int \<Rightarrow> Contract \<Rightarrow> 'db Helper \<Rightarrow> ('db Helper, unit) act" where
  "SetContract J transID xid contract =
    write_json (j_Contract J) [] transID xid (keyOfContract (ct_Address contract)) contract"

definition GetOrgID :: "'db ext \<Rightarrow> json \<Rightarrow> int \<Rightarrow> int \<Rightarrow> string \<Rightarrow> 'db Helper \<Rightarrow> string + string" where
  "GetOrgID E J transID xid contractAddr h =
    andThen (helper_get E transID xid (''/contract/'' @ contractAddr) h) (\<lambda>res.
      if length res = 0 then Inr []
      else andThen (decode (j_Contract J) ''state db helper get org Id err: '' res) (\<lambda>contract.
        Inr (ct_OrgID contract)))"

definition GetContractCodeHash :: "'db ext \<Rightarrow> json \<Rightarrow> int \<Rightarrow> int \<Rightarrow> string \<Rightarrow> 'db Helper \<Rightarrow> string + bytes" where
  "GetContractCodeHash E J transID xid contractAddr h =
    andThen (helper_get E transID xid (''/contract/'' @ contractAddr) h) (\<lambda>res.
    andThen (decode (j_Contract J) ''state db helper get contracts err: '' res) (\<lambda>con.
      Inr (ct_CodeHash con)))"

definition GetContractMeta :: "'db ext \<Rightarrow> json \<Rightarrow> int \<Rightarrow> int \<Rightarrow> string \<Rightarrow> 'db Helper \<Rightarrow> string + ContractMeta" where
  "GetContractMeta E J transID xid contractAddr h =
    andThen (helper_get E transID xid (keyOfContractMeta contractAddr) h)
      (decode_or \<lparr>cm_ContractAddr = [], cm_others = []\<rparr> (j_ContractMeta J) [])"

definition SetContractMeta :: "json \<Rightarrow> int \<Rightarrow> int \<Rightarrow> ContractMeta \<Rightarrow> 'db Helper \<Rightarrow> ('db Helper, unit) act" where
  "SetContractMeta J transID xid contract =
    write_json (j_ContractMeta J) [] transID xid (keyOfContractMeta (cm_ContractAddr contract)) contract"

definition CheckContractAddr :: "'db ext \<Rightarrow> json \<Rightarrow> int \<Rightarrow> int \<Rightarrow> string \<Rightarrow> 'db Helper \<Rightarrow> string + bool" where
  "CheckContractAddr E J transID xid addr h =
    andThen (helper_get E transID xid (keyOfContract addr) h) (\<lambda>contractBytes.
    andThen (decode (j_Contract J) [] contractBytes) (\<lambda>contract.
    andThen (GetWorldAppState E J transID xid h) (\<lambda>st.
      if BlockHeight st = 0 \<or> ct_LoseHeight contract = 0 then Inr True
      else if BlockHeight st < ct_EffectHeight contract \<or> ct_LoseHeight contract < BlockHeight st
      then Inr False else Inr True)))"

definition no_versions :: ContractVersionList where
  "no_versions = \<lparr>cv_Name = [], cv_ContractAddrList = [], cv_EffectHeights = []\<rparr>"

definition GetContractsByName :: "'db ext \<Rightarrow> json \<Rightarrow> int \<Rightarrow> int \<Rightarrow> string \<Rightarrow> string \<Rightarrow> 'db Helper \<Rightarrow>
    string + string list" where
  "GetContractsByName E J transID xid name orgID h =
    andThen (helper_get E transID xid (keyOfContractOrgID orgID name) h) (\<lambda>v.
    andThen (decode_or no_versions (j_Versions J) [] v) (\<lambda>cv. Inr (cv_ContractAddrList cv)))"

text \<open>The loop from the newest version: index \<open>n - 1\<close> down to 0; the two lists may differ in length.\<close>

fun effect_version :: "int list \<Rightarrow> string list \<Rightarrow> int \<Rightarrow> nat \<Rightarrow> string + string option" where
  "effect_version heights addrs height 0 = Inr None"
| "effect_version heights addrs height (Suc n) =
    (if heights ! n \<le> height
     then (if n < length addrs then Inr (Some (addrs ! n)) else Inl ''runtime error: index out of range'')
     else effect_version heights addrs height n)"

definition GetEffectContractByName :: "'db ext \<Rightarrow> json \<Rightarrow> int \<Rightarrow> int \<Rightarrow> int \<Rightarrow> string \<Rightarrow> string \<Rightarrow>
    'db Helper \<Rightarrow> string + Contract option" where
  "GetEffectContractByName E J transID xid height name orgID h =
    andThen (helper_get E transID xid (keyOfContractOrgID orgID name) h) (\<lambda>v.
    andThen (decode_or no_versions (j_Versions J) [] v) (\<lambda>cv.
    andThen (effect_version (cv_EffectHeights cv) (cv_ContractAddrList cv) height
        (length (cv_EffectHeights cv))) (\<lambda>a. case a of
      None \<Rightarrow> Inr None
    | Some addr \<Rightarrow> GetContract E J addr h)))"

definition SetContractVersionList :: "json \<Rightarrow> int \<Rightarrow> int \<Rightarrow> string \<Rightarrow> ContractVersionList \<Rightarrow> 'db Helper \<Rightarrow>
    ('db Helper, unit) act" where
  "SetContractVersionList J transID xid orgID vl =
    write_json (j_Versions J) [] transID xid (keyOfContractOrgID orgID (cv_Name vl)) vl"

definition GetContractsWithHeight :: "'db ext \<Rightarrow> json \<Rightarrow> int \<Rightarrow> int \<Rightarrow> int \<Rightarrow> 'db Helper \<Rightarrow>
    string + ContractWithEffectHeight list" where
  "GetContractsWithHeight E J transID xid height h =
    andThen (helper_get E transID xid (keyOfContractWithHeight (dec_of_int height)) h)
      (decode_or [] (j_WithHeight J) [])"

definition GetMineContract :: "'db ext \<Rightarrow> json \<Rightarrow> int \<Rightarrow> int \<Rightarrow> 'db Helper \<Rightarrow> string + MineContract list" where
  "GetMineContract E J transID xid h =
    andThen (helper_get E transID xid (std_KeyOfMineContracts J) h) (decode_or [] (j_Mines J) [])"

definition SetMineContract :: "json \<Rightarrow> int \<Rightarrow> int \<Rightarrow> MineContract list \<Rightarrow> 'db Helper \<Rightarrow>
    ('db Helper, unit) act" where
  "SetMineContract J transID xid mines = write_json (j_Mines J) [] transID xid keyOfMineContracts mines"

definition CheckBVMEnable :: "'db ext \<Rightarrow> json \<Rightarrow> int \<Rightarrow> int \<Rightarrow> 'db Helper \<Rightarrow> string + bool" where
  "CheckBVMEnable E J transID xid h =
    andThen (helper_get E transID xid ''/bvm/status'' h) (decode_or True (j_bool J) [])"

section \<open>Organizations\<close>

definition read_org :: "'a \<Rightarrow> (Organization \<Rightarrow> 'a) \<Rightarrow> string \<Rightarrow> 'db ext \<Rightarrow> json \<Rightarrow> int \<Rightarrow> int \<Rightarrow> string \<Rightarrow>
    'db Helper \<Rightarrow> string + 'a" where
  "read_org absent f msg E J transID xid orgID h =
    andThen (helper_get E transID xid (keyOfOrganization orgID) h) (\<lambda>res.
      if length res = 0 then Inr absent
      else andThen (decode (j_Organization J) msg res) (\<lambda>org. Inr (f org)))"

definition GetOrgSigners :: "'db ext \<Rightarrow> json \<Rightarrow> int \<Rightarrow> int \<Rightarrow> string \<Rightarrow> 'db Helper \<Rightarrow> string + bytes list" where
  "GetOrgSigners = read_org [] og_Signers ''state db helper get org err: ''"

definition GetOrgCodeHash :: "'db ext \<Rightarrow> json \<Rightarrow> int \<Rightarrow> int \<Rightarrow> string \<Rightarrow> 'db Helper \<Rightarrow> string + bytes" where
  "GetOrgCodeHash = read_org [] og_OrgCodeHash ''state db helper get org err: ''"

definition GetContracts :: "'db ext \<Rightarrow> json \<Rightarrow> int \<Rightarrow> int \<Rightarrow> string \<Rightarrow> 'db Helper \<Rightarrow> string + string list" where
  "GetContracts = read_org [] og_ContractAddrList ''state db helper get contracts err: ''"

definition CheckOrgInfo :: "'db ext \<Rightarrow> json \<Rightarrow> int \<Rightarrow> int \<Rightarrow> string \<Rightarrow> string \<Rightarrow> 'db Helper \<Rightarrow> string + bool" where
  "CheckOrgInfo E J transID xid orgID orgAddr h =
    andThen (helper_get E transID xid (''/organization/'' @ orgID) h) (\<lambda>res.
    andThen (decode (j_Organization J) ''state db helper check org info err: '' res) (\<lambda>_. Inr True))"

definition SetOrganization :: "json \<Rightarrow> int \<Rightarrow> int \<Rightarrow> Organization \<Rightarrow> 'db Helper \<Rightarrow> ('db Helper, unit) act" where
  "SetOrganization J transID xid org =
    write_json (j_Organization J) [] transID xid (keyOfOrganization (og_OrgID org)) org"

definition GetGenesisOrgID :: "'db ext \<Rightarrow> json \<Rightarrow> int \<Rightarrow> int \<Rightarrow> 'db Helper \<Rightarrow> string + string" where
  "GetGenesisOrgID E J transID xid h =
    andThen (helper_get E transID xid keyOfGenesisOrgID h) (decode_or [] (j_string J) [])"

section \<open>Tokens, rewards, validators\<close>

definition GetTokenByAddress :: "'db ext \<Rightarrow> json \<Rightarrow> int \<Rightarrow> int \<Rightarrow> string \<Rightarrow> 'db Helper \<Rightarrow> string + Token option" where
  "GetTokenByAddress E J transID xid addr h =
    andThen (helper_get E transID xid (KeyOfToken addr) h) (\<lambda>v.
      if length v = 0 then Inr None
      else andThen (decode (j_Token J) [] v) (\<lambda>t. Inr (Some t)))"

definition GetGasPriceRatio :: "'db ext \<Rightarrow> json \<Rightarrow> int \<Rightarrow> int \<Rightarrow> 'db Helper \<Rightarrow> string + string" where
  "GetGasPriceRatio E J transID xid h =
    andThen (helper_get E transID xid keyOfGasPriceRatio h) (decode_or [] (j_string J) [])"

definition Rewarder_String :: "Rewarder \<Rightarrow> string" where
  "Rewarder_String r = ''[Name:'' @ rw_Name r @ '',RewardPercent:'' @ rw_RewardPercent r @
     '',Address:'' @ rw_Address r @ '']''"

text \<open>The newest strategy that is in effect: the loop runs from the end of the list.\<close>

definition GetRewardStrategy :: "'db ext \<Rightarrow> json \<Rightarrow> int \<Rightarrow> int \<Rightarrow> int \<Rightarrow> 'db Helper \<Rightarrow> string + Rewarder list" where
  "GetRewardStrategy E J transID xid blockHeight h =
    andThen (helper_get E transID xid keyOfRewardStrategy h) (\<lambda>value.
    andThen (decode_or [] (j_Strategies J) [] value) (\<lambda>result.
      case List.find (\<lambda>r. rs_EffectHeight r \<le> blockHeight) (rev result) of
        Some r \<Rightarrow> Inr (rs_Strategy r)
      | None \<Rightarrow> Inr []))"

fun read_validators :: "'db ext \<Rightarrow> json \<Rightarrow> int \<Rightarrow> int \<Rightarrow> string list \<Rightarrow> 'db Helper \<Rightarrow> string + Validator list" where
  "read_validators E J transID xid [] h = Inr []"
| "read_validators E J transID xid (a # addrs) h =
    andThen (helper_get E transID xid (keyOfValidator a) h) (\<lambda>val.
    andThen (decode (j_Validator J) [] val) (\<lambda>v.
    andThen (read_validators E J transID xid addrs h) (\<lambda>vs. Inr (v # vs))))"

definition GetAllValidators :: "'db ext \<Rightarrow> json \<Rightarrow> int \<Rightarrow> int \<Rightarrow> 'db Helper \<Rightarrow> string + Validator list" where
  "GetAllValidators E J transID xid h =
    andThen (helper_get E transID xid keyOfValidators h) (\<lambda>value.
    andThen (decode (j_strings J) [] value) (\<lambda>nodeAddrs.
      read_validators E J transID xid nodeAddrs h))"

definition CheckBlackList :: "'db ext \<Rightarrow> json \<Rightarrow> int \<Rightarrow> int \<Rightarrow> string \<Rightarrow> 'db Helper \<Rightarrow> string + bool" where
  "CheckBlackList E J transID xid addr h =
    andThen (helper_get E transID xid (keyOfBlackList addr) h) (\<lambda>value.
      if value = [] then Inr False
      else andThen (decode (j_string J) [] value) (\<lambda>status. Inr (status = ''true'')))"

section \<open>Callbacks of the contract runtime\<close>

definition AdapterGetCallBack :: "'db ext \<Rightarrow> json \<Rightarrow> int \<Rightarrow> int \<Rightarrow> string \<Rightarrow> 'db Helper \<Rightarrow> string + bytes" where
  "AdapterGetCallBack E J transID xid key h =
    andThen (helper_get E transID xid key h) (\<lambda>resDB.
      let result = (if length resDB = 0
            then \<lparr>gr_Code = c_ErrInvalidParameter J, gr_Msg = ''key='' @ key @ '' cannot get data.'', gr_Data = []\<rparr>
            else \<lparr>gr_Code = c_CodeOK J, gr_Msg = [], gr_Data = resDB\<rparr>)
      in Inr (case marshal (j_GetResult J) result of Inl _ \<Rightarrow> [] | Inr res \<Rightarrow> res))"

definition AdapterSetCallBack :: "int \<Rightarrow> int \<Rightarrow> (string, bytes) gomap \<Rightarrow> 'db Helper \<Rightarrow> ('db Helper, bool) act" where
  "AdapterSetCallBack transID xid data h = seqR (helper_batchSet transID xid data h) (\<lambda>_ h. (Inr True, h))"

end
