(* ===== verification/Helper_View.thy ===== *)
theory Helper_View
  imports State_Helper State_DB_Props
begin

text \<open>
  What the operations of \<open>State_Helper\<close> do, through four observations of the package state: the
  transaction with a number (\<open>tran\<close>), the tx with a number in it (\<open>tx_of\<close>), the remaining variables
  (\<open>rest\<close>), and the contents that a reader sees: of the database (\<open>base\<close>), of a transaction
  (\<open>block_view\<close>), of a tx (\<open>tx_view\<close>). One lemma per operation gives its result and the new
  observations.
\<close>

section \<open>Observations\<close>

definition tran :: "int \<Rightarrow> 'db Helper \<Rightarrow> Transaction option" where
  "tran i h = map_option tr_Transaction (transactionMap h i)"

definition tx_of :: "int \<Rightarrow> int \<Rightarrow> 'db Helper \<Rightarrow> Tx option" where
  "tx_of i x h = (case transactionMap h i of None \<Rightarrow> None | Some tr \<Rightarrow> tr_TxMap tr x)"

definition rest :: "'db Helper \<Rightarrow> 'db Helper" where
  "rest h = h\<lparr>transactionMap := (\<lambda>_. None)\<rparr>"

definition base :: "'db ext \<Rightarrow> 'db Helper \<Rightarrow> contents" where
  "base E h = db_val E (sdb (stateDB h))"

definition block_view :: "'db ext \<Rightarrow> int \<Rightarrow> 'db Helper \<Rightarrow> contents" where
  "block_view E i h = (case tran i h of None \<Rightarrow> base E h | Some t \<Rightarrow> overlay (tbuffer t) (base E h))"

text \<open>An empty value in the buffer of a tx does not hide the value below.\<close>

definition shadow :: "(string, bytes) gomap \<Rightarrow> contents \<Rightarrow> contents" where
  "shadow buf f = (\<lambda>k. case map_of buf k of None \<Rightarrow> f k | Some v \<Rightarrow> if v = [] then f k else v)"

definition tx_view :: "'db ext \<Rightarrow> int \<Rightarrow> int \<Rightarrow> 'db Helper \<Rightarrow> contents" where
  "tx_view E i x h = (case tx_of i x h of None \<Rightarrow> block_view E i h
     | Some tx \<Rightarrow> shadow (xbuffer tx) (block_view E i h))"

lemma rest_fields:
  assumes "rest h' = rest h"
  shows "stateDB h' = stateDB h" "setOnce h' = setOnce h" "chainID h' = chainID h"
    "currentCommittableTransaction h' = currentCommittableTransaction h"
    "genesisToken h' = genesisToken h" "genesisContractAddr h' = genesisContractAddr h"
  using arg_cong [OF assms, of stateDB] arg_cong [OF assms, of setOnce] arg_cong [OF assms, of chainID]
    arg_cong [OF assms, of currentCommittableTransaction] arg_cong [OF assms, of genesisToken]
    arg_cong [OF assms, of genesisContractAddr]
  by (simp_all add: rest_def)

lemma base_rest:
  assumes "rest h' = rest h"
  shows "base E h' = base E h"
  by (simp add: base_def rest_fields(1) [OF assms])

lemma block_view_cong:
  assumes "rest h' = rest h" "map_option tbuffer (tran i h') = map_option tbuffer (tran i h)"
  shows "block_view E i h' = block_view E i h"
  using assms(2) base_rest [OF assms(1), of E]
  by (cases "tran i h"; cases "tran i h'") (simp_all add: block_view_def)

lemma tx_view_cong:
  assumes "rest h' = rest h" "map_option tbuffer (tran i h') = map_option tbuffer (tran i h)"
    "tx_of i x h' = tx_of i x h"
  shows "tx_view E i x h' = tx_view E i x h"
  using assms(3) block_view_cong [OF assms(1,2), of E]
  by (simp add: tx_view_def split: option.split)

lemma shadow_Nil [simp]: "shadow [] f = f"
  by (simp add: shadow_def)

lemma shadow_update:
  "v \<noteq> [] \<Longrightarrow> shadow (AList.update k v buf) f = (shadow buf f)(k := v)"
  by (auto simp: shadow_def update_conv' fun_eq_iff)

lemma overlay_Nil [simp]: "overlay [] f = f"
  by (simp add: overlay_def)

lemma overlay_update: "overlay (AList.update k v buf) f = (overlay buf f)(k := v)"
  by (auto simp: overlay_def update_conv' fun_eq_iff)

lemma overlay_overlay:
  "distinct (map fst new) \<Longrightarrow> overlay (put_all buf new) f = overlay new (overlay buf f)"
  by (auto simp: overlay_def map_of_put_all map_add_def fun_eq_iff split: option.splits)

section \<open>Replacing a transaction\<close>

lemma put_trans_apply [simp]:
  "transactionMap (put_trans i t h) j = (if j = i then t else transactionMap h j)"
  by (simp add: put_trans_def)

lemma put_trans_obs:
  "tran j (put_trans i t h) = (if j = i then map_option tr_Transaction t else tran j h)"
  "tx_of j x (put_trans i t h) = (if j = i then (case t of None \<Rightarrow> None | Some tr \<Rightarrow> tr_TxMap tr x) else tx_of j x h)"
  "rest (put_trans i t h) = rest h"
  by (simp_all add: tran_def tx_of_def rest_def put_trans_def)

lemma tran_Some: "tran i h = Some t \<longleftrightarrow> (\<exists>tr. transactionMap h i = Some tr \<and> tr_Transaction tr = t)"
  by (auto simp: tran_def)

lemma tx_of_tran: "tx_of i x h = Some tx \<Longrightarrow> \<exists>t. tran i h = Some t"
  by (auto simp: tran_def tx_of_def split: option.splits)

lemma on_tx_run:
  assumes "tx_of i x h = Some tx"
  obtains h' where "on_tx i x f h = (Inr (), h')" "rest h' = rest h" "\<And>j. tran j h' = tran j h"
    "\<And>j y. tx_of j y h' = (if j = i \<and> y = x then Some (f tx) else tx_of j y h)"
proof -
  obtain tr where tr: "transactionMap h i = Some tr" "tr_TxMap tr x = Some tx"
    using assms by (auto simp: tx_of_def split: option.splits)
  show thesis
    by (rule that [of "put_trans i (Some (tr\<lparr>tr_TxMap := (tr_TxMap tr)(x := Some (f tx))\<rparr>)) h"])
      (use tr in \<open>auto simp: on_tx_def getTrans_def put_trans_obs(3) tran_def tx_of_def\<close>)
qed

lemma on_transaction_run:
  assumes "tran i h = Some t"
  obtains h' where "on_transaction i f h = (Inr (), h')" "rest h' = rest h"
    "\<And>j. tran j h' = (if j = i then Some (f t) else tran j h)" "\<And>j y. tx_of j y h' = tx_of j y h"
proof -
  obtain tr where tr: "transactionMap h i = Some tr" "tr_Transaction tr = t"
    using assms by (auto simp: tran_Some)
  show thesis
    by (rule that [of "put_trans i (Some (tr\<lparr>tr_Transaction := f t\<rparr>)) h"])
      (use tr in \<open>auto simp: on_transaction_def getTrans_def put_trans_obs(3) tran_def tx_of_def\<close>)
qed

lemma getTrans_run: "tran i h = Some t \<Longrightarrow> \<exists>tr. getTrans i h = (Inr tr, h) \<and> tr_Transaction tr = t"
  by (auto simp: getTrans_def tran_Some)

section \<open>Reading and writing\<close>

lemma get_run:
  assumes "ext_ok E" "tran i h = Some t"
  shows "helper_get E i x k h = Inr (tx_view E i x h k)"
  using assms
  by (auto simp: helper_get_def tran_def tx_of_def tx_view_def block_view_def shadow_def overlay_def
      Transaction_Get_def Tx_Get_def ext_get base_def Let_def split: option.splits)

lemma get_base: "ext_ok E \<Longrightarrow> tran 0 h = None \<Longrightarrow> helper_get E 0 x k h = Inr (base E h k)"
  by (auto simp: helper_get_def tran_def StateDB_Get_def ext_get base_def)

lemma set_run:
  assumes "tx_of i x h = Some tx" "v \<noteq> []"
  obtains h' where "helper_set i x k v h = (Inr (), h')" "rest h' = rest h" "\<And>j. tran j h' = tran j h"
    "\<And>j y. tx_of j y h' = (if j = i \<and> y = x then Some (Tx_Set tx k v) else tx_of j y h)"
    "\<And>E. tx_view E i x h' = (tx_view E i x h)(k := v)"
proof -
  obtain h' where h': "on_tx i x (\<lambda>tx. Tx_Set tx k v) h = (Inr (), h')" "rest h' = rest h"
    "\<And>j. tran j h' = tran j h"
    "\<And>j y. tx_of j y h' = (if j = i \<and> y = x then Some (Tx_Set tx k v) else tx_of j y h)"
    by (rule on_tx_run [OF assms(1), where f = "\<lambda>tx. Tx_Set tx k v"]) blast
  have "tx_view E i x h' = (tx_view E i x h)(k := v)" for E
    using assms h'(2-4) block_view_cong [OF h'(2), of i E]
    by (simp add: tx_view_def Tx_Set_def shadow_update)
  then show thesis using that h' by (simp add: helper_set_def)
qed

lemma codec_marshal:
  assumes "codec_ok c"
  obtains b where "marshal c x = Inr b" "b \<noteq> []" "unmarshal c b = Inr x" "decode c m b = Inr x"
    "decode_or d c m b = Inr x"
  using assms [unfolded codec_ok_def, THEN spec [of _ x]] by (auto simp: decode_def decode_or_def)

section \<open>The life of a tx\<close>

lemma NewTx_run:
  assumes "tran i h = Some t"
  obtains h' where "NewTx i h = (Inr (lastTxID t + 1), h')" "rest h' = rest h"
    "\<And>j. tran j h' = (if j = i then Some (t\<lparr>lastTxID := lastTxID t + 1\<rparr>) else tran j h)"
    "\<And>j y. tx_of j y h' = (if j = i \<and> y = lastTxID t + 1
       then Some \<lparr>txID = lastTxID t + 1, xbuffer = []\<rparr> else tx_of j y h)"
    "\<And>E j. block_view E j h' = block_view E j h"
    "\<And>E. tx_view E i (lastTxID t + 1) h' = block_view E i h"
proof -
  obtain tr where tr: "transactionMap h i = Some tr" "tr_Transaction tr = t"
    using assms by (auto simp: tran_Some)
  let ?x = "\<lparr>txID = lastTxID t + 1, xbuffer = []\<rparr>"
  let ?h = "put_trans i (Some \<lparr>tr_Transaction = t\<lparr>lastTxID := lastTxID t + 1\<rparr>,
      tr_TxMap = (tr_TxMap tr)(lastTxID t + 1 := Some ?x)\<rparr>) h"
  have r: "rest ?h = rest h" by (simp add: put_trans_obs)
  have bv: "block_view E j ?h = block_view E j h" for E j
    by (rule block_view_cong [OF r]) (simp add: put_trans_obs assms)
  show thesis
    by (rule that [of ?h])
      (use tr bv in \<open>auto simp: NewTx_def getTrans_def put_trans_obs(3) tran_def tx_of_def tx_view_def
        Transaction_NewTx_def calcTxID_def Let_def\<close>)
qed

lemma CommitTx_run:
  assumes "tx_of i x h = Some tx" "tran i h = Some t"
  obtains h' where "CommitTx i x h = (Inr (sorted_dump (xbuffer tx), xbuffer tx), h')" "rest h' = rest h"
    "\<And>j. tran j h' = (if j = i then Some (t\<lparr>tbuffer := put_all (tbuffer t) (xbuffer tx)\<rparr>) else tran j h)"
    "\<And>j y. tx_of j y h' = (if j = i \<and> y = x then Some (tx\<lparr>xbuffer := []\<rparr>) else tx_of j y h)"
proof -
  obtain tr where tr: "transactionMap h i = Some tr" "tr_Transaction tr = t" "tr_TxMap tr x = Some tx"
    using assms by (auto simp: tran_Some tx_of_def)
  show thesis
    by (rule that [of "put_trans i (Some \<lparr>tr_Transaction = t\<lparr>tbuffer := put_all (tbuffer t) (xbuffer tx)\<rparr>,
      tr_TxMap = (tr_TxMap tr)(x := Some (tx\<lparr>xbuffer := []\<rparr>))\<rparr>) h"])
      (use tr in \<open>auto simp: CommitTx_def Tx_Commit_def getTrans_def put_trans_obs(3) tran_def tx_of_def Let_def\<close>)
qed

lemma CommitTx_view:
  assumes "tx_of i x h = Some tx" "tran i h = Some t" "distinct (map fst (xbuffer tx))"
  obtains h' where "CommitTx i x h = (Inr (sorted_dump (xbuffer tx), xbuffer tx), h')"
    "block_view E i h' = overlay (xbuffer tx) (block_view E i h)"
    "tx_view E i x h' = block_view E i h'"
proof -
  obtain h' where h': "CommitTx i x h = (Inr (sorted_dump (xbuffer tx), xbuffer tx), h')" "rest h' = rest h"
    "\<And>j. tran j h' = (if j = i then Some (t\<lparr>tbuffer := put_all (tbuffer t) (xbuffer tx)\<rparr>) else tran j h)"
    "\<And>j y. tx_of j y h' = (if j = i \<and> y = x then Some (tx\<lparr>xbuffer := []\<rparr>) else tx_of j y h)"
    by (rule CommitTx_run [OF assms(1,2)]) blast
  have "block_view E i h' = overlay (xbuffer tx) (block_view E i h)"
    using assms h' by (simp add: block_view_def base_rest [OF h'(2)] overlay_overlay)
  moreover have "tx_view E i x h' = block_view E i h'" using h'(4) by (simp add: tx_view_def)
  ultimately show thesis using that h'(1) by blast
qed

lemma RollbackTx_run:
  assumes "tx_of i x h = Some tx"
  obtains h' where "RollbackTx i x h = (Inr (), h')" "rest h' = rest h" "\<And>j. tran j h' = tran j h"
    "\<And>j y. tx_of j y h' = (if j = i \<and> y = x then Some (tx\<lparr>xbuffer := []\<rparr>) else tx_of j y h)"
    "\<And>E j. block_view E j h' = block_view E j h" "\<And>E. tx_view E i x h' = block_view E i h"
proof -
  obtain tr where tr: "transactionMap h i = Some tr" "tr_TxMap tr x = Some tx"
    using assms by (auto simp: tx_of_def split: option.splits)
  let ?h = "put_trans i (Some (tr\<lparr>tr_TxMap := (tr_TxMap tr)(x := Some (tx\<lparr>xbuffer := []\<rparr>))\<rparr>)) h"
  have r: "rest ?h = rest h" and t: "tran j ?h = tran j h" for j
    using tr by (simp_all add: put_trans_obs(3) tran_def)
  have bv: "block_view E j ?h = block_view E j h" for E j
    by (rule block_view_cong [OF r]) (simp add: t)
  show thesis
    by (rule that [of ?h])
      (use tr t bv in \<open>auto simp: RollbackTx_def Tx_Rollback_def getTrans_def put_trans_obs(3) tx_of_def tx_view_def\<close>)
qed

section \<open>What an operation leaves alone\<close>

text \<open>
  \<open>same_chain\<close>: everything is as before but the values cached of the genesis (\<open>chainID\<close>, \<open>genesisToken\<close>,
  \<open>genesisContractAddr\<close>), which a first read fills in. \<open>confined\<close>: in addition the tx \<open>x\<close> of transaction \<open>i\<close> may have
  other pending writes.
\<close>

definition same_chain :: "'db Helper \<Rightarrow> 'db Helper \<Rightarrow> bool" where
  "same_chain h h' \<longleftrightarrow> stateDB h' = stateDB h \<and> transactionMap h' = transactionMap h
     \<and> currentCommittableTransaction h' = currentCommittableTransaction h"

definition confined :: "int \<Rightarrow> int \<Rightarrow> 'db Helper \<Rightarrow> 'db Helper \<Rightarrow> bool" where
  "confined i x h h' \<longleftrightarrow> stateDB h' = stateDB h \<and> currentCommittableTransaction h' = currentCommittableTransaction h
    \<and> (\<forall>j. tran j h' = tran j h) \<and> (\<forall>j y. \<not> (j = i \<and> y = x) \<longrightarrow> tx_of j y h' = tx_of j y h)
    \<and> (tx_of i x h' = None \<longleftrightarrow> tx_of i x h = None)"

lemma same_chain_refl [simp]: "same_chain h h"
  by (simp add: same_chain_def)

lemma same_chain_trans: "same_chain h h1 \<Longrightarrow> same_chain h1 h2 \<Longrightarrow> same_chain h h2"
  by (simp add: same_chain_def)

lemma same_chain_caches [simp]:
  "same_chain h (h1\<lparr>chainID := c\<rparr>) = same_chain h h1" "same_chain h (h1\<lparr>genesisToken := g\<rparr>) = same_chain h h1"
  by (simp_all add: same_chain_def)

lemma confined_refl [simp]: "confined i x h h"
  by (simp add: confined_def)

lemma confined_trans: "confined i x h h1 \<Longrightarrow> confined i x h1 h2 \<Longrightarrow> confined i x h h2"
  by (simp add: confined_def)

lemma same_chain_confined: "same_chain h h' \<Longrightarrow> confined i x h h'"
  by (simp add: same_chain_def confined_def tran_def tx_of_def)

text \<open>A transaction that is not open has no tx to write to.\<close>

lemma confined_same_chain:
  assumes "confined i x h h'" "transactionMap h i = None"
  shows "same_chain h h'"
proof -
  have none: "tx_of i x h = None" "tx_of i x h' = None" using assms by (simp_all add: confined_def tx_of_def)
  have tx: "tx_of j y h' = tx_of j y h" for j y using assms(1) none by (cases "j = i \<and> y = x") (auto simp: confined_def)
  have "transactionMap h' j = transactionMap h j" for j
  proof (cases "transactionMap h j")
    case None
    then show ?thesis using assms(1) by (auto simp: confined_def tran_def dest: spec [of _ j])
  next
    case (Some tr)
    then have "tran j h' = Some (tr_Transaction tr)" using assms(1) by (simp add: confined_def tran_def)
    then obtain tr' where tr': "transactionMap h' j = Some tr'" "tr_Transaction tr' = tr_Transaction tr"
      by (auto simp: tran_Some)
    moreover have "tr_TxMap tr' = tr_TxMap tr" using tx [of j] Some tr'(1) by (auto simp: tx_of_def fun_eq_iff)
    ultimately show ?thesis using Some by simp
  qed
  then show ?thesis using assms(1) by (auto simp: same_chain_def confined_def fun_eq_iff)
qed

lemma on_tx_confined: "confined i x h (snd (on_tx i x f h))"
proof (cases "tx_of i x h")
  case None
  then have "snd (on_tx i x f h) = h" by (simp add: on_tx_def getTrans_def tx_of_def split: option.splits)
  then show ?thesis by simp
next
  case (Some tx)
  show ?thesis by (rule on_tx_run [OF Some, where f = f]) (use Some rest_fields(1,4) in \<open>auto simp: confined_def\<close>)
qed

lemma kept_on_tx [kept]: "confined i x h0 h \<Longrightarrow> kept (confined i x h0) (on_tx i x f h)"
  unfolding kept_def by (rule confined_trans [OF _ on_tx_confined])

lemma kept_helper_set [kept]: "confined i x h0 h \<Longrightarrow> kept (confined i x h0) (helper_set i x k v h)"
  unfolding helper_set_def by (rule kept)

lemma kept_write_json [kept]: "confined i x h0 h \<Longrightarrow> kept (confined i x h0) (write_json c m i x k y h)"
  unfolding write_json_def by (intro kept)

lemma kept_SetBalance [kept]: "confined i x h0 h \<Longrightarrow> kept (confined i x h0) (SetBalance J i x a tok v h)"
  unfolding SetBalance_def by (intro kept)

lemma kept_AdapterSetCallBack [kept]: "confined i x h0 h \<Longrightarrow> kept (confined i x h0) (AdapterSetCallBack i x data h)"
  unfolding AdapterSetCallBack_def helper_batchSet_def by (intro kept)

text \<open>The reads that fill a cache.\<close>

lemma GetChainID_same_chain: "same_chain h (snd (GetChainID E J h))"
  by (simp add: GetChainID_def need_def Let_def split: sum.split)

lemma GetGenesisToken_same_chain: "same_chain h (snd (GetGenesisToken E J h))"
  by (simp add: GetGenesisToken_def need_def split: sum.split)

lemma kept_caches [kept]:
  "same_chain h0 h \<Longrightarrow> kept (same_chain h0) (GetChainID E J h)"
  "same_chain h0 h \<Longrightarrow> kept (same_chain h0) (GetGenesisToken E J h)"
  "confined i x h0 h \<Longrightarrow> kept (confined i x h0) (GetChainID E J h)"
  "confined i x h0 h \<Longrightarrow> kept (confined i x h0) (GetGenesisToken E J h)"
  unfolding kept_def using GetChainID_same_chain [of h E J] GetGenesisToken_same_chain [of h E J]
  by (blast intro: same_chain_trans confined_trans same_chain_confined)+

end
