(* ===== verification/Helper_Inv.thy ===== *)
theory Helper_Inv
  imports Helper_View
begin

text \<open>
  The invariant of the package state of \<open>statedbhelper\<close>: numbers and buffers are consistent, and the
  only committable transaction that is open is the current one. \<open>helper_step\<close> has one rule for each
  operation that changes the state, whether it returns or panics, and every rule keeps the
  invariant.
\<close>

section \<open>The invariant\<close>

definition trans_ok :: "'db Helper \<Rightarrow> int \<Rightarrow> Transaction \<Rightarrow> bool" where
  "trans_ok h i t \<longleftrightarrow> transactionID t = i \<and> i \<noteq> 0 \<and> committable t = (0 < i)
    \<and> distinct (map fst (tbuffer t)) \<and> 0 \<le> lastTxID t
    \<and> i \<le> lastCommittableTransactionID (stateDB h) \<and> - i \<le> lastRollbackTransactionID (stateDB h)
    \<and> (0 < i \<longrightarrow> currentCommittableTransaction h = Some i)"

definition tx_ok :: "Transaction \<Rightarrow> int \<Rightarrow> Tx \<Rightarrow> bool" where
  "tx_ok t x tx \<longleftrightarrow> txID tx = x \<and> 0 < x \<and> x \<le> lastTxID t \<and> distinct (map fst (xbuffer tx))"

definition helper_ok :: "'db Helper \<Rightarrow> bool" where
  "helper_ok h \<longleftrightarrow> (\<forall>i t. tran i h = Some t \<longrightarrow> trans_ok h i t)
    \<and> (\<forall>i x t tx. tran i h = Some t \<longrightarrow> tx_of i x h = Some tx \<longrightarrow> tx_ok t x tx)
    \<and> (\<forall>i. currentCommittableTransaction h = Some i \<longrightarrow> 0 < i \<and> tran i h \<noteq> None)
    \<and> 0 \<le> lastCommittableTransactionID (stateDB h) \<and> 0 \<le> lastRollbackTransactionID (stateDB h)"

lemma helper_okI:
  assumes "\<And>i t. tran i h = Some t \<Longrightarrow> trans_ok h i t"
    "\<And>i x t tx. tran i h = Some t \<Longrightarrow> tx_of i x h = Some tx \<Longrightarrow> tx_ok t x tx"
    "\<And>i. currentCommittableTransaction h = Some i \<Longrightarrow> 0 < i \<and> tran i h \<noteq> None"
    "0 \<le> lastCommittableTransactionID (stateDB h)" "0 \<le> lastRollbackTransactionID (stateDB h)"
  shows "helper_ok h"
  using assms by (simp add: helper_ok_def)

lemma helper_okD:
  assumes "helper_ok h"
  shows "tran i h = Some t \<Longrightarrow> trans_ok h i t"
    "tran i h = Some t \<Longrightarrow> tx_of i x h = Some tx \<Longrightarrow> tx_ok t x tx"
    "currentCommittableTransaction h = Some i \<Longrightarrow> 0 < i \<and> tran i h \<noteq> None"
    "0 \<le> lastCommittableTransactionID (stateDB h)" "0 \<le> lastRollbackTransactionID (stateDB h)"
  using assms by (simp_all add: helper_ok_def)

text \<open>Updates of one transaction and of one of its txs.\<close>

lemma helper_ok_one:
  assumes inv: "helper_ok h" and t: "tran i h = Some t" and r: "rest h' = rest h"
    and tran': "\<And>j. tran j h' = (if j = i then Some t' else tran j h)"
    and tx': "\<And>j y. tx_of j y h' = (if j = i \<and> y = x then Some tx else tx_of j y h)"
    and ok: "transactionID t' = transactionID t" "committable t' = committable t"
      "distinct (map fst (tbuffer t'))" "lastTxID t \<le> lastTxID t'"
    and txok: "tx_ok t' x tx"
  shows "helper_ok h'"
proof (rule helper_okI)
  fix j u assume "tran j h' = Some u"
  then show "trans_ok h' j u"
    using tran' helper_okD(1) [OF inv t] helper_okD(1) [OF inv, of j u] ok
    by (cases "j = i") (auto simp: trans_ok_def rest_fields [OF r])
next
  fix j y u z assume "tran j h' = Some u" "tx_of j y h' = Some z"
  then show "tx_ok u y z"
    using tran' tx' helper_okD(2) [OF inv, of j u y z] helper_okD(2) [OF inv t, of y z] ok(4) txok
    by (auto simp: tx_ok_def split: if_splits)
next
  fix j assume "currentCommittableTransaction h' = Some j"
  then show "0 < j \<and> tran j h' \<noteq> None"
    using helper_okD(3) [OF inv, of j] tran' by (simp add: rest_fields [OF r])
qed (use helper_okD(4,5) [OF inv] in \<open>simp_all add: rest_fields [OF r]\<close>)

lemma helper_ok_trans:
  assumes inv: "helper_ok h" and t: "tran i h = Some t" and r: "rest h' = rest h"
    and tran': "\<And>j. tran j h' = (if j = i then Some t' else tran j h)"
    and tx': "\<And>j y. tx_of j y h' = tx_of j y h"
    and ok: "transactionID t' = transactionID t" "committable t' = committable t"
      "distinct (map fst (tbuffer t'))" "lastTxID t' = lastTxID t"
  shows "helper_ok h'"
proof (rule helper_okI)
  fix j u assume "tran j h' = Some u"
  then show "trans_ok h' j u"
    using tran' helper_okD(1) [OF inv t] helper_okD(1) [OF inv, of j u] ok
    by (cases "j = i") (auto simp: trans_ok_def rest_fields [OF r])
next
  fix j y u z assume "tran j h' = Some u" "tx_of j y h' = Some z"
  then show "tx_ok u y z"
    using tran' tx' helper_okD(2) [OF inv, of j u y z] helper_okD(2) [OF inv t, of y z] ok(4)
    by (auto simp: tx_ok_def split: if_splits)
next
  fix j assume "currentCommittableTransaction h' = Some j"
  then show "0 < j \<and> tran j h' \<noteq> None"
    using helper_okD(3) [OF inv, of j] tran' by (simp add: rest_fields [OF r])
qed (use helper_okD(4,5) [OF inv] in \<open>simp_all add: rest_fields [OF r]\<close>)

section \<open>The operations keep it\<close>

lemma getTrans_cases:
  obtains (none) "tran i h = None" "getTrans i h = (Inl ''invalid transID'', h)"
  | (some) t tr where "tran i h = Some t" "transactionMap h i = Some tr" "getTrans i h = (Inr tr, h)"
      "\<And>x. tx_of i x h = tr_TxMap tr x"
  by (cases "transactionMap h i") (auto simp: getTrans_def tran_def tx_of_def)

lemma on_tx_ok:
  assumes inv: "helper_ok h"
    and f: "\<And>tx. distinct (map fst (xbuffer tx)) \<Longrightarrow> distinct (map fst (xbuffer (f tx)))"
      "\<And>tx. txID (f tx) = txID tx"
  shows "helper_ok (snd (on_tx i x f h))"
proof (cases "tx_of i x h")
  case None
  then have "snd (on_tx i x f h) = h"
    by (cases rule: getTrans_cases [of i h]) (simp_all add: on_tx_def)
  then show ?thesis using inv by simp
next
  case (Some tx)
  obtain t where t: "tran i h = Some t" using tx_of_tran [OF Some] by blast
  obtain h' where h': "on_tx i x f h = (Inr (), h')" "rest h' = rest h" "\<And>j. tran j h' = tran j h"
    "\<And>j y. tx_of j y h' = (if j = i \<and> y = x then Some (f tx) else tx_of j y h)"
    by (rule on_tx_run [OF Some, where f = f]) blast
  have "tx_ok t x (f tx)" using helper_okD(2) [OF inv t Some] f by (simp add: tx_ok_def)
  then have "helper_ok h'"
    using helper_okD(1) [OF inv t] t h'(3)
    by (intro helper_ok_one [OF inv t h'(2) _ h'(4)]) (auto simp: trans_ok_def)
  then show ?thesis using h'(1) by simp
qed

lemma on_transaction_ok:
  assumes inv: "helper_ok h"
    and f: "\<And>t. transactionID (f t) = transactionID t" "\<And>t. committable (f t) = committable t"
      "\<And>t. lastTxID (f t) = lastTxID t"
      "\<And>t. distinct (map fst (tbuffer t)) \<Longrightarrow> distinct (map fst (tbuffer (f t)))"
  shows "helper_ok (snd (on_transaction i f h))"
proof (cases "tran i h")
  case None
  then have "snd (on_transaction i f h) = h"
    by (cases rule: getTrans_cases [of i h]) (simp_all add: on_transaction_def)
  then show ?thesis using inv by simp
next
  case (Some t)
  obtain h' where h': "on_transaction i f h = (Inr (), h')" "rest h' = rest h"
    "\<And>j. tran j h' = (if j = i then Some (f t) else tran j h)" "\<And>j y. tx_of j y h' = tx_of j y h"
    by (rule on_transaction_run [OF Some, where f = f]) blast
  have "helper_ok h'"
    using helper_okD(1) [OF inv Some] f
    by (intro helper_ok_trans [OF inv Some h'(2-4)]) (auto simp: trans_ok_def)
  then show ?thesis using h'(1) by simp
qed

lemma NewTx_ok:
  assumes inv: "helper_ok h"
  shows "helper_ok (snd (NewTx i h))"
proof (cases "tran i h")
  case None
  then have "snd (NewTx i h) = h"
    by (cases rule: getTrans_cases [of i h]) (simp_all add: NewTx_def)
  then show ?thesis using inv by simp
next
  case (Some t)
  obtain h' where h': "NewTx i h = (Inr (lastTxID t + 1), h')" "rest h' = rest h"
    "\<And>j. tran j h' = (if j = i then Some (t\<lparr>lastTxID := lastTxID t + 1\<rparr>) else tran j h)"
    "\<And>j y. tx_of j y h' = (if j = i \<and> y = lastTxID t + 1
       then Some \<lparr>txID = lastTxID t + 1, xbuffer = []\<rparr> else tx_of j y h)"
    by (rule NewTx_run [OF Some]) blast
  have "helper_ok h'"
    using helper_okD(1) [OF inv Some]
    by (intro helper_ok_one [OF inv Some h'(2-4)]) (auto simp: trans_ok_def tx_ok_def)
  then show ?thesis using h'(1) by simp
qed

lemma CommitTx_ok:
  assumes inv: "helper_ok h"
  shows "helper_ok (snd (CommitTx i x h))"
proof (cases "tx_of i x h")
  case None
  then have "snd (CommitTx i x h) = h"
    by (cases rule: getTrans_cases [of i h]) (simp_all add: CommitTx_def)
  then show ?thesis using inv by simp
next
  case (Some tx)
  obtain t where t: "tran i h = Some t" using tx_of_tran [OF Some] by blast
  obtain h' where h': "CommitTx i x h = (Inr (sorted_dump (xbuffer tx), xbuffer tx), h')" "rest h' = rest h"
    "\<And>j. tran j h' = (if j = i then Some (t\<lparr>tbuffer := put_all (tbuffer t) (xbuffer tx)\<rparr>) else tran j h)"
    "\<And>j y. tx_of j y h' = (if j = i \<and> y = x then Some (tx\<lparr>xbuffer := []\<rparr>) else tx_of j y h)"
    by (rule CommitTx_run [OF Some t]) blast
  have "helper_ok h'"
    using helper_okD(1) [OF inv t] helper_okD(2) [OF inv t Some]
    by (intro helper_ok_one [OF inv t h'(2-4)]) (auto simp: trans_ok_def tx_ok_def)
  then show ?thesis using h'(1) by simp
qed

lemma RollbackTx_ok:
  assumes inv: "helper_ok h"
  shows "helper_ok (snd (RollbackTx i x h))"
proof (cases "tx_of i x h")
  case None
  then have "snd (RollbackTx i x h) = h"
    by (cases rule: getTrans_cases [of i h]) (simp_all add: RollbackTx_def)
  then show ?thesis using inv by simp
next
  case (Some tx)
  obtain t where t: "tran i h = Some t" using tx_of_tran [OF Some] by blast
  obtain h' where h': "RollbackTx i x h = (Inr (), h')" "rest h' = rest h" "\<And>j. tran j h' = tran j h"
    "\<And>j y. tx_of j y h' = (if j = i \<and> y = x then Some (tx\<lparr>xbuffer := []\<rparr>) else tx_of j y h)"
    by (rule RollbackTx_run [OF Some]) blast
  have "helper_ok h'"
    using helper_okD(1) [OF inv t] helper_okD(2) [OF inv t Some] t h'(3)
    by (intro helper_ok_one [OF inv t h'(2) _ h'(4)]) (auto simp: trans_ok_def tx_ok_def)
  then show ?thesis using h'(1) by simp
qed

text \<open>Opening and closing transactions.\<close>

lemma helper_ok_open:
  assumes inv: "helper_ok h"
    and t: "transactionID t = i" "i \<noteq> 0" "committable t = (0 < i)" "tbuffer t = []" "lastTxID t = 0"
    and st: "lastCommittableTransactionID (stateDB h) \<le> lastCommittableTransactionID (stateDB h')"
      "lastRollbackTransactionID (stateDB h) \<le> lastRollbackTransactionID (stateDB h')"
      "i \<le> lastCommittableTransactionID (stateDB h')" "- i \<le> lastRollbackTransactionID (stateDB h')"
    and cur: "currentCommittableTransaction h' = (if 0 < i then Some i else currentCommittableTransaction h)"
      "0 < i \<Longrightarrow> currentCommittableTransaction h = None"
    and m: "transactionMap h' = (transactionMap h)(i := Some \<lparr>tr_Transaction = t, tr_TxMap = (\<lambda>_. None)\<rparr>)"
  shows "helper_ok h'"
proof -
  have tr: "tran j h' = (if j = i then Some t else tran j h)" for j by (simp add: tran_def m)
  have tx: "tx_of j y h' = (if j = i then None else tx_of j y h)" for j y by (simp add: tx_of_def m)
  show ?thesis
  proof (rule helper_okI)
    fix j u assume "tran j h' = Some u"
    then show "trans_ok h' j u"
      using tr t st cur helper_okD(1) [OF inv, of j u] by (auto simp: trans_ok_def split: if_splits)
  next
    fix j y u z assume "tran j h' = Some u" "tx_of j y h' = Some z"
    then show "tx_ok u y z" using tr tx helper_okD(2) [OF inv, of j u y z] by (auto split: if_splits)
  next
    fix j assume "currentCommittableTransaction h' = Some j"
    then show "0 < j \<and> tran j h' \<noteq> None"
      using cur(1) tr helper_okD(3) [OF inv, of j] by (auto split: if_splits)
  qed (use st helper_okD(4,5) [OF inv] in auto)
qed

lemma helper_ok_close:
  assumes inv: "helper_ok h" and i: "currentCommittableTransaction h' =
      (if currentCommittableTransaction h = Some i then None else currentCommittableTransaction h)"
    and st: "lastCommittableTransactionID (stateDB h') = lastCommittableTransactionID (stateDB h)"
      "lastRollbackTransactionID (stateDB h') = lastRollbackTransactionID (stateDB h)"
    and m: "transactionMap h' = (transactionMap h)(i := None)"
  shows "helper_ok h'"
proof -
  have tr: "tran j h' = (if j = i then None else tran j h)" for j by (simp add: tran_def m)
  have tx: "tx_of j y h' = (if j = i then None else tx_of j y h)" for j y by (simp add: tx_of_def m)
  show ?thesis
  proof (rule helper_okI)
    fix j u assume "tran j h' = Some u"
    then show "trans_ok h' j u"
      using tr st i helper_okD(1) [OF inv, of j u] by (auto simp: trans_ok_def split: if_splits)
  next
    fix j y u z assume "tran j h' = Some u" "tx_of j y h' = Some z"
    then show "tx_ok u y z" using tr tx helper_okD(2) [OF inv, of j u y z] by (auto split: if_splits)
  next
    fix j assume "currentCommittableTransaction h' = Some j"
    then show "0 < j \<and> tran j h' \<noteq> None"
      using i tr helper_okD(3) [OF inv, of j] by (auto split: if_splits)
  qed (use st helper_okD(4,5) [OF inv] in auto)
qed

lemma helper_ok_same:
  assumes "helper_ok h" "transactionMap h' = transactionMap h"
    "currentCommittableTransaction h' = currentCommittableTransaction h"
    "lastCommittableTransactionID (stateDB h') = lastCommittableTransactionID (stateDB h)"
    "lastRollbackTransactionID (stateDB h') = lastRollbackTransactionID (stateDB h)"
  shows "helper_ok h'"
  using assms(1) unfolding helper_ok_def tran_def tx_of_def trans_ok_def assms(2-5) .

lemma NewCommittable_ok: "helper_ok h \<Longrightarrow> helper_ok (snd (NewCommittableTransactionID h))"
proof -
  assume inv: "helper_ok h"
  let ?i = "lastCommittableTransactionID (stateDB h) + 1"
  have pos: "0 < ?i" using helper_okD(4) [OF inv] by simp
  show ?thesis
  proof (cases "currentCommittableTransaction h")
    case (Some i)
    then show ?thesis using inv by (simp add: NewCommittableTransactionID_def)
  next
    case None
    then show ?thesis
    proof (cases "committableTransaction (stateDB h)")
      case None
      show ?thesis
        by (rule helper_ok_open [OF inv, where i = ?i and t = "\<lparr>transactionID = ?i, tbuffer = [],
            committable = True, lastTxID = 0\<rparr>"])
          (use pos None \<open>currentCommittableTransaction h = None\<close> helper_okD(5) [OF inv] in
            \<open>simp_all add: NewCommittableTransactionID_def NewCommittableTransaction_def
              calcTransactionID_def put_trans_def Let_def\<close>)
    qed (use inv None in \<open>simp add: NewCommittableTransactionID_def NewCommittableTransaction_def\<close>)
  qed
qed

lemma NewRollback_ok: "helper_ok h \<Longrightarrow> helper_ok (snd (NewRollbackTransactionID h))"
proof -
  assume inv: "helper_ok h"
  let ?i = "- (lastRollbackTransactionID (stateDB h) + 1)"
  have "?i < 0" using helper_okD(5) [OF inv] by simp
  then show ?thesis
    by (intro helper_ok_open [OF inv, where i = ?i and t = "\<lparr>transactionID = ?i, tbuffer = [],
        committable = False, lastTxID = 0\<rparr>"])
      (use helper_okD(4) [OF inv] in \<open>simp_all add: NewRollbackTransactionID_def NewRollbackTransaction_def
        calcTransactionID_def put_trans_def Let_def\<close>)
qed

lemma RollbackBlock_ok:
  assumes inv: "helper_ok h"
  shows "helper_ok (snd (RollbackBlock i h))"
proof (cases rule: getTrans_cases [of i h])
  case none
  then show ?thesis using inv by (simp add: RollbackBlock_def)
next
  case (some t tr)
  have id: "transactionID (tr_Transaction tr) = i"
    using helper_okD(1) [OF inv some(1)] some(1,2) by (simp add: trans_ok_def tran_def)
  show ?thesis
    by (rule helper_ok_close [OF inv, where i = i])
      (use some(3) id in \<open>simp_all add: RollbackBlock_def put_trans_def Let_def\<close>)
qed

text \<open>Committing and undoing do not touch the counters, even when they panic.\<close>

lemma snapshot_commit_counters:
  "lastCommittableTransactionID (snd (snapshot_commit E i od nd s)) = lastCommittableTransactionID s"
  "lastRollbackTransactionID (snd (snapshot_commit E i od nd s)) = lastRollbackTransactionID s"
  by (simp_all add: snapshot_commit_def split: sum.split)

lemma Transaction_Commit_counters:
  "lastCommittableTransactionID (snd (Transaction_Commit E t s)) = lastCommittableTransactionID s
   \<and> lastRollbackTransactionID (snd (Transaction_Commit E t s)) = lastRollbackTransactionID s"
proof (cases "\<not> committable t \<or> (\<exists>e. checkID E t s = Inl e) \<or> (\<exists>e. commit_collect E (sdb s) (tbuffer t) = Inl e)")
  case True
  then show ?thesis by (auto simp: Transaction_Commit_def split: sum.split)
next
  case False
  then obtain od b where c: "committable t" "checkID E t s = Inr ()" "commit_collect E (sdb s) (tbuffer t) = Inr (od, b)"
    by (cases "checkID E t s"; cases "commit_collect E (sdb s) (tbuffer t)") auto
  obtain r s1 where s1: "snapshot_commit E (transactionID t) od (tbuffer t) s = (r, s1)"
    by (cases "snapshot_commit E (transactionID t) od (tbuffer t) s")
  then have "lastCommittableTransactionID s1 = lastCommittableTransactionID s"
    "lastRollbackTransactionID s1 = lastRollbackTransactionID s"
    using snapshot_commit_counters [of E "transactionID t" od "tbuffer t" s] by simp_all
  then show ?thesis using c s1
    by (cases r) (simp_all add: Transaction_Commit_def split: sum.split)
qed

lemma rollbackStateDB_counters:
  "lastCommittableTransactionID (snd (rollbackStateDB E i s)) = lastCommittableTransactionID s
   \<and> lastRollbackTransactionID (snd (rollbackStateDB E i s)) = lastRollbackTransactionID s"
  by (simp add: rollbackStateDB_def split: sum.split)

lemma rollback_loop_counters:
  "lastCommittableTransactionID (snd (rollback_loop E c i b s)) = lastCommittableTransactionID s
   \<and> lastRollbackTransactionID (snd (rollback_loop E c i b s)) = lastRollbackTransactionID s"
proof (induction c arbitrary: i b s)
  case (Suc c)
  obtain r s1 where s1: "rollbackStateDB E i s = (r, s1)" by (cases "rollbackStateDB E i s")
  then show ?case
    using Suc rollbackStateDB_counters [of E i s] by (cases r) simp_all
qed simp

lemma StateDB_Rollback_counters:
  "lastCommittableTransactionID (snd (StateDB_Rollback E n s)) = lastCommittableTransactionID s
   \<and> lastRollbackTransactionID (snd (StateDB_Rollback E n s)) = lastRollbackTransactionID s"
proof -
  have "lastCommittableTransactionID (snd (seqR (rollback_loop E c i b s) (\<lambda>batch s1.
     case setToBatch batch k v of Inl e \<Rightarrow> (Inl e, s1)
     | Inr batch1 \<Rightarrow> (case db_write E (sndb s1) batch1 of Inl e \<Rightarrow> (Inl e, s1)
       | Inr d \<Rightarrow> (Inr (), s1\<lparr>sndb := d\<rparr>))))) = lastCommittableTransactionID s
   \<and> lastRollbackTransactionID (snd (seqR (rollback_loop E c i b s) (\<lambda>batch s1.
     case setToBatch batch k v of Inl e \<Rightarrow> (Inl e, s1)
     | Inr batch1 \<Rightarrow> (case db_write E (sndb s1) batch1 of Inl e \<Rightarrow> (Inl e, s1)
       | Inr d \<Rightarrow> (Inr (), s1\<lparr>sndb := d\<rparr>))))) = lastRollbackTransactionID s" for c i b k v
    using rollback_loop_counters [of E c i b s]
    by (cases "rollback_loop E c i b s"; cases "fst (rollback_loop E c i b s)") (auto split: sum.split)
  then show ?thesis
    by (simp add: StateDB_Rollback_def snapshot_rollback_def Let_def split: sum.split)
qed

lemma CommitBlock_ok:
  assumes inv: "helper_ok h"
  shows "helper_ok (snd (CommitBlock E i h))"
proof (cases rule: getTrans_cases [of i h])
  case none
  then show ?thesis using inv by (simp add: CommitBlock_def)
next
  case (some t tr)
  have t: "tr_Transaction tr = t" using some(1,2) by (simp add: tran_def)
  obtain r st where c: "Transaction_Commit E t (stateDB h) = (r, st)"
    by (cases "Transaction_Commit E t (stateDB h)")
  have k: "lastCommittableTransactionID st = lastCommittableTransactionID (stateDB h)"
    "lastRollbackTransactionID st = lastRollbackTransactionID (stateDB h)"
    using Transaction_Commit_counters [of E t "stateDB h"] c by simp_all
  show ?thesis
  proof (cases r)
    case (Inl e)
    show ?thesis
      by (rule helper_ok_same [OF inv]) (use some(3) t c Inl k in \<open>simp_all add: CommitBlock_def\<close>)
  next
    case (Inr u)
    have "committable t" using c Inr by (auto simp: Transaction_Commit_def split: if_splits)
    then have i: "currentCommittableTransaction h = Some i" "transactionID t = i"
      using helper_okD(1) [OF inv some(1)] by (simp_all add: trans_ok_def)
    show ?thesis
      by (rule helper_ok_close [OF inv, where i = i])
        (use some(3) t c Inr k i in \<open>simp_all add: CommitBlock_def put_trans_def\<close>)
  qed
qed

lemma RollbackStateDB_ok:
  assumes inv: "helper_ok h"
  shows "helper_ok (snd (RollbackStateDB E n h))"
  by (rule helper_ok_same [OF inv])
    (use StateDB_Rollback_counters [of E n "stateDB h"] in \<open>simp_all add: RollbackStateDB_def split_beta\<close>)

end
