(* ===== verification/Json_Model.thy ===== *)
theory Json_Model
  imports Helper_View
begin

text \<open>
  A concrete codec for the stored texts the properties need (nonces, lists of keys, balances,
  strings): it shows that the assumption \<open>codec_ok\<close> can hold, and gives the witnesses a state to
  run on. The codecs no witness uses refuse to marshal.
\<close>

definition no_codec :: "'a codec" where
  "no_codec = \<lparr>marshal = (\<lambda>_. Inl ''unsupported''), unmarshal = (\<lambda>_. Inl ''unsupported'')\<rparr>"

definition nonce_codec :: "uint64 codec" where
  "nonce_codec = \<lparr>marshal = (\<lambda>n. Inr (bytes_of_string (dec_of_nat (unat n)))),
     unmarshal = (\<lambda>b. Inr (of_nat (nat_of_dec (string_of_bytes b))))\<rparr>"

definition strings_codec :: "string list codec" where
  "strings_codec = \<lparr>marshal = (\<lambda>l. Inr (enc_entries (map (\<lambda>s. (s, [])) l))),
     unmarshal = (\<lambda>b. Inr (map fst (dec_entries (length b) b)))\<rparr>"

definition balance_codec :: "AccountBalance codec" where
  "balance_codec = \<lparr>marshal = (\<lambda>a. Inr (enc_entries [(ab_Address a, bytes_of_string (dec_of_int (ab_Balance a)))])),
     unmarshal = (\<lambda>b. case dec_entries (length b) b of
         [(a, v)] \<Rightarrow> Inr \<lparr>ab_Address = a, ab_Balance = int_of_dec (string_of_bytes v)\<rparr>
       | _ \<Rightarrow> Inl ''not an account'')\<rparr>"

definition string_codec :: "string codec" where
  "string_codec = \<lparr>marshal = (\<lambda>s. Inr (enc_entries [(s, [])])),
     unmarshal = (\<lambda>b. case dec_entries (length b) b of [(s, v)] \<Rightarrow> Inr s | _ \<Rightarrow> Inl ''not a string'')\<rparr>"

definition model_json :: json where
  "model_json = \<lparr>j_AppState = no_codec, j_string = string_codec, j_strings = strings_codec,
     j_bool = no_codec, j_int64 = no_codec, j_Nonce = nonce_codec, j_Contract = no_codec,
     j_ContractMeta = no_codec, j_Versions = no_codec, j_WithHeight = no_codec, j_Mines = no_codec,
     j_Organization = no_codec, j_Token = no_codec, j_Balance = balance_codec, j_Strategies = no_codec,
     j_Validator = no_codec, j_GetResult = no_codec, c_CodeOK = 200, c_ErrInvalidParameter = 5001,
     std_KeyOfMineContracts = ''/contract/mines''\<rparr>"

lemma dec_of_nat_not_Nil [simp]: "dec_of_nat n \<noteq> []"
  by (subst dec_of_nat.simps) simp

lemma bytes_of_string_Nil [simp]: "bytes_of_string s = [] \<longleftrightarrow> s = []"
  by (simp add: bytes_of_string_def)

lemma nonce_codec_ok [simp]: "codec_ok nonce_codec"
  by (simp add: codec_ok_def nonce_codec_def)

lemma dec_enc [simp]: "dec_entries (length (enc_entries m)) (enc_entries m) = m"
  by (rule dec_enc_entries [OF length_enc_entries])

lemma strings_codec_ok [simp]: "codec_ok strings_codec"
  by (simp add: codec_ok_def strings_codec_def comp_def)

lemma balance_codec_ok [simp]: "codec_ok balance_codec"
  unfolding codec_ok_def balance_codec_def codec.simps by (simp del: enc_entries.simps)

lemma string_codec_ok [simp]: "codec_ok string_codec"
  unfolding codec_ok_def string_codec_def codec.simps by (simp del: enc_entries.simps)

lemma model_json_sel [simp]:
  "j_Nonce model_json = nonce_codec" "j_strings model_json = strings_codec"
  "j_Balance model_json = balance_codec" "j_string model_json = string_codec"
  by (simp_all add: model_json_def)

text \<open>The package state after \<open>Init\<close> on empty databases, two snapshots kept.\<close>

definition demo_helper :: "kvs Helper" where
  "demo_helper = \<lparr>stateDB = demo_store, transactionMap = (\<lambda>_. None), setOnce = False, chainID = [],
     currentCommittableTransaction = None, genesisToken = \<lparr>tk_Address = [], tk_others = []\<rparr>,
     genesisContractAddr = []\<rparr>"

text \<open>The same with one open block, and one open tx in it.\<close>

definition demo_open :: "kvs Helper" where
  "demo_open = snd (seqR (NewCommittableTransactionID demo_helper) NewTx)"

lemma demo_open_simps:
  "tran 1 demo_open = Some \<lparr>transactionID = 1, tbuffer = [], committable = True, lastTxID = 1\<rparr>"
  "tx_of 1 1 demo_open = Some \<lparr>txID = 1, xbuffer = []\<rparr>"
  "block_view model_ext 1 demo_open k = db_val model_ext (sdb demo_store) k"
  "tx_view model_ext 1 1 demo_open k = db_val model_ext (sdb demo_store) k"
  using demo_store_idle
  by (simp_all add: demo_open_def demo_helper_def NewCommittableTransactionID_def idle_def
      NewCommittableTransaction_def calcTransactionID_def put_trans_def NewTx_def getTrans_def
      Transaction_NewTx_def calcTxID_def tran_def tx_of_def block_view_def tx_view_def base_def Let_def)

lemma demo_store_empty [simp]: "db_val model_ext (sdb demo_store) k = []"
proof -
  have "sdb demo_store = []"
    by (simp add: demo_store_def New_def setMaxSnapshotCount_def getInt64_def model_ext_def kv_get_def)
  then show ?thesis by (simp add: db_val_model)
qed

end
