(* ===== verification/Helper_Props.thy ===== *)
theory Helper_Props
  imports Helper_Inv Json_Model
begin

text \<open>
  Properties of the state access with buffers: the invariant over every sequence of operations,
  nonces that are used once, and blocks that refine the undo history of the store.
\<close>

section \<open>Every sequence of operations\<close>

lemma foldl_Transaction_Set:
  "foldl (\<lambda>t (k, v). Transaction_Set t k v) t buf = t\<lparr>tbuffer := put_all (tbuffer t) buf\<rparr>"
  by (induction buf arbitrary: t) (auto simp: Transaction_Set_def)

lemmas helper_seq = seqR_keeps [where P = helper_ok] need_keeps [where P = helper_ok]

lemma SetAccountNonce_ok:
  assumes inv: "helper_ok h"
  shows "helper_ok (snd (SetAccountNonce E J i x a n h))"
proof -
  have k: "helper_ok s \<Longrightarrow> helper_ok (snd (on_transaction i (\<lambda>t. t\<lparr>tbuffer := put_all (tbuffer t) buf\<rparr>) s))"
    for buf and s :: "'a Helper"
    by (rule on_transaction_ok) auto
  have "helper_ok (snd (getTrans i h))" using inv by (simp add: getTrans_def split: option.split)
  then show ?thesis
    unfolding SetAccountNonce_def Let_def foldl_Transaction_Set
    by (intro helper_seq inv) (auto split: option.split intro!: helper_seq k inv)
qed

inductive helper_step :: "'db ext \<Rightarrow> json \<Rightarrow> 'db Helper \<Rightarrow> 'db Helper \<Rightarrow> bool" for E J where
  "helper_step E J h (snd (NewCommittableTransactionID h))"
| "helper_step E J h (snd (NewRollbackTransactionID h))"
| "helper_step E J h (snd (NewTx i h))"
| "helper_step E J h (snd (helper_set i x k v h))"
| "distinct (map fst data) \<Longrightarrow> helper_step E J h (snd (helper_batchSet i x data h))"
| "helper_step E J h (snd (SetAccountNonce E J i x a n h))"
| "helper_step E J h (snd (RollbackTx i x h))"
| "helper_step E J h (snd (CommitTx i x h))"
| "distinct (map fst data) \<Longrightarrow> helper_step E J h (snd (CommitTx2V1 i data h))"
| "helper_step E J h (snd (RollbackBlock i h))"
| "helper_step E J h (snd (CommitBlock E i h))"
| "helper_step E J h (snd (RollbackStateDB E m h))"
| "helper_step E J h (SetChainIDOnce c h)"
| "helper_step E J h (snd (GetChainID E J h))"
| "helper_step E J h (snd (GetGenesisToken E J h))"
| "helper_step E J h (snd (SetGenesisContractAddr J i x c h))"
| "helper_step E J h (snd (GetGenesisContractAddr E J i x h))"

text \<open>Package state of a process that was started on databases with a valid counter.\<close>

inductive helper_reach :: "'db ext \<Rightarrow> json \<Rightarrow> 'db Helper \<Rightarrow> bool" for E J where
  start: "Helper_Init E db sn m = Inr h \<Longrightarrow> 0 \<le> lastCommittableTransactionID (stateDB h) \<Longrightarrow> helper_reach E J h"
| move: "helper_reach E J h \<Longrightarrow> helper_step E J h h' \<Longrightarrow> helper_reach E J h'"

lemma helper_ok_vars [simp]:
  "helper_ok (h\<lparr>chainID := c\<rparr>) = helper_ok h"
  "helper_ok (h\<lparr>setOnce := b\<rparr>) = helper_ok h"
  "helper_ok (h\<lparr>genesisToken := t\<rparr>) = helper_ok h"
  "helper_ok (h\<lparr>genesisContractAddr := c\<rparr>) = helper_ok h"
  by (simp_all add: helper_ok_def tran_def tx_of_def trans_ok_def)

lemma helper_step_ok: "helper_step E J h h' \<Longrightarrow> helper_ok h \<Longrightarrow> helper_ok h'"
proof (induction rule: helper_step.induct)
  case (4 h i x k v)
  then show ?case unfolding helper_set_def by (intro on_tx_ok) (simp_all add: Tx_Set_def)
next
  case (5 data h i x)
  then show ?case unfolding helper_batchSet_def by (intro on_tx_ok) (simp_all add: Tx_BatchSet_def)
next
  case (9 data h i)
  then show ?case
    unfolding CommitTx2V1_def by (intro on_transaction_ok) (simp_all add: Transaction_BatchSet_def)
next
  case (16 h i x c)
  have k: "helper_ok (snd (helper_set i x keyOfGenesisContract v h))" for v
    unfolding helper_set_def by (intro on_tx_ok [OF 16]) (simp_all add: Tx_Set_def)
  show ?case unfolding SetGenesisContractAddr_def Let_def by (intro helper_seq k) simp
qed (simp_all add: NewCommittable_ok NewRollback_ok NewTx_ok SetAccountNonce_ok RollbackTx_ok CommitTx_ok
    RollbackBlock_ok CommitBlock_ok RollbackStateDB_ok SetChainIDOnce_def GetChainID_def
    GetGenesisToken_def GetGenesisContractAddr_def need_def Let_def split: sum.split)

lemma helper_reach_ok: "helper_reach E J h \<Longrightarrow> helper_ok h"
proof (induction rule: helper_reach.induct)
  case (start db sn m h)
  then show ?case
    by (auto simp: Helper_Init_def New_def helper_ok_def tran_def tx_of_def split: sum.splits if_splits)
qed (rule helper_step_ok)

section \<open>Nonces\<close>

text \<open>The nonce and the listed keys of an account, as the transaction shows them.\<close>

definition account_nonce :: "'db ext \<Rightarrow> json \<Rightarrow> int \<Rightarrow> string \<Rightarrow> 'db Helper \<Rightarrow> string + uint64" where
  "account_nonce E J i a h = decode_or 0 (j_Nonce J) [] (block_view E i h (KeyOfAccountNonce a))"

definition account_list :: "'db ext \<Rightarrow> json \<Rightarrow> int \<Rightarrow> string \<Rightarrow> 'db Helper \<Rightarrow> string + string list" where
  "account_list E J i a h = decode_or [] (j_strings J) [] (block_view E i h (KeyOfAccount a))"

lemma Check_fresh:
  assumes "ext_ok E" "tran i h = Some t" "tx_view E i x h = block_view E i h"
    and "account_nonce E J i a h = Inr lastNonce"
  shows "(CheckAccountNonce E J i x a n h = Inr None) = (n = lastNonce + 1)"
    "n \<noteq> lastNonce + 1 \<Longrightarrow> \<exists>msg. CheckAccountNonce E J i x a n h = Inr (Some msg)"
  using assms by (simp_all add: CheckAccountNonce_def get_run account_nonce_def)

lemma put_all_append: "put_all m (a @ b) = put_all (put_all m a) b"
  by (induction m a rule: put_all.induct) simp_all

lemma SetAccountNonce_run:
  assumes E: "ext_ok E" and J: "codec_ok (j_Nonce J)" "codec_ok (j_strings J)"
    and t: "tran i h = Some t" and v: "tx_view E i x h = block_view E i h"
    and l: "account_nonce E J i a h = Inr lastNonce" "account_list E J i a h = Inr keys"
    and n: "n = lastNonce + 1"
  obtains buf b h' where "SetAccountNonce E J i x a n h = (Inr (Inr (buf @ [(KeyOfAccountNonce a, b)])), h')"
    "fst ` set buf \<subseteq> {KeyOfAccount a}" "marshal (j_Nonce J) n = Inr b" "rest h' = rest h"
    "\<And>j. tran j h' = (if j = i then Some (t\<lparr>tbuffer :=
       put_all (tbuffer t) (buf @ [(KeyOfAccountNonce a, b)])\<rparr>) else tran j h)"
    "\<And>j y. tx_of j y h' = tx_of j y h"
    "account_nonce E J i a h' = Inr n"
proof -
  obtain b where b: "marshal (j_Nonce J) n = Inr b" "b \<noteq> []" "unmarshal (j_Nonce J) b = Inr n"
    "decode (j_Nonce J) [] b = Inr n" "decode_or 0 (j_Nonce J) [] b = Inr n"
    by (rule codec_marshal [OF J(1)])
  obtain r where r: "marshal (j_strings J) (keys @ [KeyOfAccountNonce a]) = Inr r"
    by (rule codec_marshal [OF J(2)])
  let ?data = "block_view E i h (KeyOfAccountNonce a)"
  let ?buf = "(if length ?data = 0 then [(KeyOfAccount a, r)] else []) @ [(KeyOfAccountNonce a, b)]"
  have keys: "(if length ?data = 0 then account_keys E J i x a h else Inr []) =
      Inr (if length ?data = 0 then [(KeyOfAccount a, r)] else [])"
    using l(2) r by (simp add: account_keys_def get_run [OF E t] v account_list_def)
  obtain tr where tr: "getTrans i h = (Inr tr, h)" using getTrans_run [OF t] by blast
  obtain h' where h': "on_transaction i (\<lambda>t. t\<lparr>tbuffer := put_all (tbuffer t) ?buf\<rparr>) h = (Inr (), h')"
    "rest h' = rest h" "\<And>j. tran j h' = (if j = i then Some (t\<lparr>tbuffer := put_all (tbuffer t) ?buf\<rparr>) else tran j h)"
    "\<And>j y. tx_of j y h' = tx_of j y h"
    by (rule on_transaction_run [OF t, where f = "\<lambda>t. t\<lparr>tbuffer := put_all (tbuffer t) ?buf\<rparr>"]) blast
  have "CheckAccountNonce E J i x a n h = Inr None" using Check_fresh(1) [OF E t v l(1)] n by simp
  then have run: "SetAccountNonce E J i x a n h = (Inr (Inr ?buf), h')"
    using b(1) tr h'(1) keys
    by (simp add: SetAccountNonce_def get_run [OF E t] v foldl_Transaction_Set Let_def del: length_0_conv)
  have "block_view E i h' (KeyOfAccountNonce a) = b"
    using h'(3) by (simp add: block_view_def put_all_append overlay_update)
  then have "account_nonce E J i a h' = Inr n" using b(5) by (simp add: account_nonce_def)
  with run show thesis
    by (intro that [of "if length ?data = 0 then [(KeyOfAccount a, r)] else []" b h'])
      (use b(1) h' in \<open>simp_all split: if_splits\<close>)
qed

lemma nonce_used:
  assumes E: "ext_ok E" and J: "codec_ok (j_Nonce J)" "codec_ok (j_strings J)"
    and x: "tx_of i x h = Some tx" "xbuffer tx = []"
    and l: "account_nonce E J i a h = Inr lastNonce" "account_list E J i a h = Inr keys"
    and n: "n = lastNonce + 1"
  obtains buf h1 h2 where "SetAccountNonce E J i x a n h = (Inr (Inr buf), h1)"
    "RollbackTx i x h1 = (Inr (), h2)" "account_nonce E J i a h2 = Inr n"
    "\<And>m. (CheckAccountNonce E J i x a m h2 = Inr None) = (m = n + 1)"
proof -
  obtain t where t: "tran i h = Some t" using tx_of_tran [OF x(1)] by blast
  have v: "tx_view E i x h = block_view E i h" using x by (simp add: tx_view_def)
  obtain buf b h1 where h1: "SetAccountNonce E J i x a n h = (Inr (Inr (buf @ [(KeyOfAccountNonce a, b)])), h1)"
    "fst ` set buf \<subseteq> {KeyOfAccount a}" "marshal (j_Nonce J) n = Inr b" "rest h1 = rest h"
    "\<And>j. tran j h1 = (if j = i then Some (t\<lparr>tbuffer :=
       put_all (tbuffer t) (buf @ [(KeyOfAccountNonce a, b)])\<rparr>) else tran j h)"
    "\<And>j y. tx_of j y h1 = tx_of j y h" "account_nonce E J i a h1 = Inr n"
    by (rule SetAccountNonce_run [OF E J t v l n]) blast
  have x1: "tx_of i x h1 = Some tx" using x(1) h1(6) by simp
  obtain h2 where h2: "RollbackTx i x h1 = (Inr (), h2)" "rest h2 = rest h1" "\<And>j. tran j h2 = tran j h1"
    "\<And>j y. tx_of j y h2 = (if j = i \<and> y = x then Some (tx\<lparr>xbuffer := []\<rparr>) else tx_of j y h1)"
    "block_view E i h2 = block_view E i h1" "tx_view E i x h2 = block_view E i h1"
    by (rule RollbackTx_run [OF x1]) blast
  have n2: "account_nonce E J i a h2 = Inr n" using h1(7) h2(5) by (simp add: account_nonce_def)
  obtain t2 where t2: "tran i h2 = Some t2" using h1(5) h2(3) by simp
  have v2: "tx_view E i x h2 = block_view E i h2" using h2(5,6) by simp
  show thesis by (rule that [OF h1(1) h2(1) n2 Check_fresh(1) [OF E t2 v2 n2]])
qed

section \<open>Blocks\<close>

text \<open>
  A block as the node runs it: the committable transaction is opened; each tx gets a number, its
  contract writes \<open>data\<close> through the callback, and the tx is committed or, after an error, rolled
  back; the block is committed. Undoing goes through \<open>RollbackStateDB\<close> and a restart.
\<close>

type_synonym block = "((string, bytes) gomap \<times> bool) list"

fun run_txs :: "int \<Rightarrow> block \<Rightarrow> 'db Helper \<Rightarrow> ('db Helper, unit) act" where
  "run_txs i [] h = (Inr (), h)"
| "run_txs i ((data, good) # txs) h = seqR (NewTx i h) (\<lambda>x h.
     seqR (AdapterSetCallBack i x data h) (\<lambda>_ h.
     if good then seqR (CommitTx i x h) (\<lambda>_. run_txs i txs)
     else seqR (RollbackTx i x h) (\<lambda>_. run_txs i txs)))"

definition helper_block :: "'db ext \<Rightarrow> block \<Rightarrow> 'db Helper \<Rightarrow> ('db Helper, unit) act" where
  "helper_block E txs h = seqR (NewCommittableTransactionID h) (\<lambda>i h.
     seqR (run_txs i txs h) (\<lambda>_. CommitBlock E i))"

definition helper_undo :: "'db ext \<Rightarrow> int \<Rightarrow> nat \<Rightarrow> 'db Helper \<Rightarrow> ('db Helper, unit) act" where
  "helper_undo E maxCount n h = seqR (RollbackStateDB E (int n) h) (\<lambda>_ h.
     need (Close (stateDB h)) h (\<lambda>_.
     need (Helper_Init E (sdb (stateDB h)) (sndb (stateDB h)) maxCount) h (\<lambda>h'. (Inr (), h'))))"

text \<open>The contents after a block: the writes of the txs that succeeded, in their order.\<close>

fun block_effect :: "block \<Rightarrow> contents \<Rightarrow> contents" where
  "block_effect [] c = c"
| "block_effect ((data, good) # txs) c = block_effect txs (if good then overlay data c else c)"

definition block_ok :: "block \<Rightarrow> bool" where
  "block_ok txs \<longleftrightarrow> (\<exists>data. (data, True) \<in> set txs \<and> data \<noteq> [])
     \<and> (\<forall>(data, good) \<in> set txs. distinct (map fst data) \<and> keyOfLastTransactionID \<notin> fst ` set data)"

definition helper_idle :: "'db ext \<Rightarrow> nat \<Rightarrow> contents list \<Rightarrow> 'db Helper \<Rightarrow> bool" where
  "helper_idle E M hist h \<longleftrightarrow> idle E M hist (stateDB h) \<and> helper_ok h
     \<and> currentCommittableTransaction h = None"

text \<open>The buffer of the transaction after its txs.\<close>

fun block_buffer :: "block \<Rightarrow> (string, bytes) gomap \<Rightarrow> (string, bytes) gomap" where
  "block_buffer [] buf = buf"
| "block_buffer ((data, good) # txs) buf =
    block_buffer txs (if good then put_all buf (put_all [] data) else buf)"

lemma block_buffer_distinct [simp]: "distinct (map fst (block_buffer txs buf)) = distinct (map fst buf)"
  by (induction txs buf rule: block_buffer.induct) auto

lemma block_buffer_overlay:
  "\<forall>(data, good) \<in> set txs. distinct (map fst data) \<Longrightarrow>
    overlay (block_buffer txs buf) c = block_effect txs (overlay buf c)"
  by (induction txs buf arbitrary: c rule: block_buffer.induct) (auto simp: overlay_overlay overlay_put_all)

lemma block_buffer_keys:
  "fst ` set (block_buffer txs buf) = fst ` set buf \<union> (\<Union>(data, good) \<in> set txs. if good then fst ` set data else {})"
  by (induction txs buf rule: block_buffer.induct) (auto simp: put_all_Nil_keys)

lemma same_contents_effect: "same_contents f g \<Longrightarrow> same_contents (block_effect txs f) (block_effect txs g)"
  by (induction txs f arbitrary: g rule: block_effect.induct) (auto simp: same_contents_overlay)

lemma run_txs_run:
  assumes "helper_ok h" "tran i h = Some t" "\<forall>(data, good) \<in> set txs. distinct (map fst data)"
  obtains h' t' where "run_txs i txs h = (Inr (), h')" "rest h' = rest h" "helper_ok h'" "tran i h' = Some t'"
    "tbuffer t' = block_buffer txs (tbuffer t)"
  using assms
proof (induction txs arbitrary: h t thesis)
  case Nil
  then show ?case by simp
next
  case (Cons tx txs)
  obtain data good where tx: "tx = (data, good)" by fastforce
  have d: "distinct (map fst data)" using Cons.prems(4) tx by simp
  let ?x = "lastTxID t + 1"
  obtain h1 where h1: "NewTx i h = (Inr ?x, h1)" "rest h1 = rest h"
    "\<And>j. tran j h1 = (if j = i then Some (t\<lparr>lastTxID := ?x\<rparr>) else tran j h)"
    "\<And>j y. tx_of j y h1 = (if j = i \<and> y = ?x then Some \<lparr>txID = ?x, xbuffer = []\<rparr> else tx_of j y h)"
    by (rule NewTx_run [OF Cons.prems(3)]) blast
  have ok1: "helper_ok h1" using NewTx_ok [OF Cons.prems(2), of i] h1(1) by simp
  have x1: "tx_of i ?x h1 = Some \<lparr>txID = ?x, xbuffer = []\<rparr>" using h1(4) by simp
  obtain h2 where h2: "on_tx i ?x (\<lambda>tx. Tx_BatchSet tx data) h1 = (Inr (), h2)" "rest h2 = rest h1"
    "\<And>j. tran j h2 = tran j h1"
    "\<And>j y. tx_of j y h2 = (if j = i \<and> y = ?x then Some (Tx_BatchSet \<lparr>txID = ?x, xbuffer = []\<rparr> data) else tx_of j y h1)"
    by (rule on_tx_run [OF x1, where f = "\<lambda>tx. Tx_BatchSet tx data"]) blast
  have ok2: "helper_ok h2"
    using on_tx_ok [OF ok1, of "\<lambda>tx. Tx_BatchSet tx data" i ?x] h2(1) d by (simp add: Tx_BatchSet_def)
  have x2: "tx_of i ?x h2 = Some \<lparr>txID = ?x, xbuffer = put_all [] data\<rparr>" using h2(4) by (simp add: Tx_BatchSet_def)
  have t2: "tran i h2 = Some (t\<lparr>lastTxID := ?x\<rparr>)" using h1(3) h2(3) by simp
  obtain out h3 t3 where h3: "(if good then seqR (CommitTx i ?x h2) (\<lambda>_ h. (Inr (), h)) else RollbackTx i ?x h2) = (Inr (), h3)"
    "rest h3 = rest h2" "helper_ok h3" "tran i h3 = Some t3"
    "tbuffer t3 = (if good then put_all (tbuffer t) (put_all [] data) else tbuffer t)"
    "good \<Longrightarrow> CommitTx i ?x h2 = (Inr out, h3)"
  proof (cases good)
    case True
    let ?t = "t\<lparr>lastTxID := ?x\<rparr>" and ?tx = "\<lparr>txID = ?x, xbuffer = put_all [] data\<rparr>"
    obtain h3 where c: "CommitTx i ?x h2 = (Inr (sorted_dump (xbuffer ?tx), xbuffer ?tx), h3)" "rest h3 = rest h2"
      "\<And>j. tran j h3 = (if j = i then Some (?t\<lparr>tbuffer := put_all (tbuffer ?t) (xbuffer ?tx)\<rparr>) else tran j h2)"
      by (rule CommitTx_run [OF x2 t2]) blast
    then show thesis using that [of h3] True CommitTx_ok [OF ok2, of i ?x] by simp
  next
    case False
    obtain h3 where c: "RollbackTx i ?x h2 = (Inr (), h3)" "rest h3 = rest h2" "\<And>j. tran j h3 = tran j h2"
      by (rule RollbackTx_run [OF x2]) blast
    then show thesis using that [of h3] False RollbackTx_ok [OF ok2, of i ?x] t2 by simp
  qed
  obtain h4 t4 where h4: "run_txs i txs h3 = (Inr (), h4)" "rest h4 = rest h3" "helper_ok h4" "tran i h4 = Some t4"
    "tbuffer t4 = block_buffer txs (tbuffer t3)"
    using Cons.IH [OF _ h3(3,4)] Cons.prems(4) by (metis list.set_intros(2))
  show ?case
  proof (rule Cons.prems(1))
    show "run_txs i (tx # txs) h = (Inr (), h4)"
      using h1(1) h2(1) h3(1,6) h4(1) tx
      by (cases good) (simp_all add: AdapterSetCallBack_def helper_batchSet_def)
  qed (use h1(2) h2(2) h3(2,5) h4(2-5) tx in simp_all)
qed

lemma idle_parts:
  assumes "idle E M hist s"
  shows "ext_ok E" "committableTransaction s = None" "undo_inv E M (lastCommittableTransactionID s) hist s"
  using assms by (simp_all add: idle_def)

lemma helper_block_idle:
  assumes inv: "helper_idle E M hist h" and txs: "block_ok txs"
  obtains h' where "helper_block E txs h = (Inr (), h')"
    "helper_idle E M (take (Suc M) (block_effect txs (hd hist) # hist)) h'"
proof -
  let ?s = "stateDB h"
  let ?i = "lastCommittableTransactionID ?s + 1"
  note I = idle_parts [of E M hist ?s]
  have i0: "idle E M hist ?s" "helper_ok h" "currentCommittableTransaction h = None"
    using inv by (simp_all add: helper_idle_def)
  let ?t = "\<lparr>transactionID = ?i, tbuffer = [], committable = True, lastTxID = 0\<rparr>"
  let ?s1 = "?s\<lparr>lastCommittableTransactionID := ?i, committableTransaction := Some ?i\<rparr>"
  obtain h1 where h1: "NewCommittableTransactionID h = (Inr ?i, h1)" "stateDB h1 = ?s1" "tran ?i h1 = Some ?t"
    using i0(3) I(2) [OF i0(1)]
    by (simp add: NewCommittableTransactionID_def NewCommittableTransaction_def calcTransactionID_def
        Let_def put_trans_def tran_def)
  have ok1: "helper_ok h1" using NewCommittable_ok [OF i0(2)] h1(1) by simp
  have d: "\<forall>(data, good) \<in> set txs. distinct (map fst data)" using txs by (auto simp: block_ok_def)
  obtain h2 t2 where h2: "run_txs ?i txs h1 = (Inr (), h2)" "rest h2 = rest h1" "helper_ok h2"
    "tran ?i h2 = Some t2" "tbuffer t2 = block_buffer txs (tbuffer ?t)"
    by (rule run_txs_run [OF ok1 h1(3) d]) blast
  have s2: "stateDB h2 = ?s1" using rest_fields(1) [OF h2(2)] h1(2) by simp
  have inv1: "undo_inv E M (lastCommittableTransactionID ?s) hist ?s1"
    using I(3) [OF i0(1)] by (simp add: undo_inv_def)
  have t2: "committable t2" "transactionID t2 = lastCommittableTransactionID ?s + 1"
    "distinct (map fst (tbuffer t2))"
    using helper_okD(1) [OF h2(3,4)] helper_okD(4) [OF i0(2)] by (simp_all add: trans_ok_def)
  have buf: "tbuffer t2 \<noteq> []"
  proof -
    obtain data where "(data, True) \<in> set txs" "data \<noteq> []" using txs by (auto simp: block_ok_def)
    moreover from this obtain k v where "(k, v) \<in> set data" by (cases data) auto
    ultimately have "k \<in> fst ` set (block_buffer txs [])"
      unfolding block_buffer_keys by (intro UnI2 UN_I [of "(data, True)"]) force+
    then show ?thesis using h2(5) by auto
  qed
  have key: "keyOfLastTransactionID \<notin> fst ` set (tbuffer t2)"
    using txs h2(5) by (auto simp: block_buffer_keys block_ok_def split: if_splits)
  obtain s3 where s3: "Transaction_Commit E t2 ?s1 = (Inr (), s3)"
    "undo_inv E M (lastCommittableTransactionID ?s + 1) (take (Suc M) (overlay (tbuffer t2) (db_val E (sdb ?s1)) # hist)) s3"
    "same_contents (db_val E (sdb s3)) (overlay (tbuffer t2) (db_val E (sdb ?s1)))"
    "committableTransaction s3 = None" "lastCommittableTransactionID s3 = lastCommittableTransactionID ?s1"
    by (rule commit_refines [OF I(1) [OF i0(1)] inv1 t2(1,2) buf t2(3) key])
  have "overlay (tbuffer t2) (db_val E (sdb ?s)) = block_effect txs (db_val E (sdb ?s))"
    using block_buffer_overlay [OF d, of "[]"] h2(5) by simp
  moreover have "same_contents (db_val E (sdb ?s)) (hd hist)"
    using I(3) [OF i0(1)] by (simp add: undo_inv_def hd_conv_nth)
  ultimately have "same_contents (overlay (tbuffer t2) (db_val E (sdb ?s1))) (block_effect txs (hd hist))"
    by (simp add: same_contents_effect)
  then have inv3: "undo_inv E M (lastCommittableTransactionID s3) (take (Suc M) (block_effect txs (hd hist) # hist)) s3"
    using undo_inv_hd [of E M "lastCommittableTransactionID ?s + 1" _ "take M hist" s3] s3(2,5) by simp
  obtain tr2 where tr2: "getTrans ?i h2 = (Inr tr2, h2)" "tr_Transaction tr2 = t2"
    using getTrans_run [OF h2(4)] by blast
  let ?h3 = "put_trans ?i None (h2\<lparr>stateDB := s3, currentCommittableTransaction := None\<rparr>)"
  have c: "CommitBlock E ?i h2 = (Inr (), ?h3)" using tr2 s3(1) s2 t2(2) by (simp add: CommitBlock_def)
  have "helper_ok ?h3" using CommitBlock_ok [OF h2(3), of E ?i] c by simp
  then have "helper_idle E M (take (Suc M) (block_effect txs (hd hist) # hist)) ?h3"
    using inv3 s3(4) I(1) [OF i0(1)] by (simp add: helper_idle_def idle_def put_trans_def)
  moreover have "helper_block E txs h = (Inr (), ?h3)" using h1(1) h2(1) c by (simp add: helper_block_def)
  ultimately show thesis using that by blast
qed

lemma fresh_helper_ok:
  "0 \<le> lastCommittableTransactionID st \<Longrightarrow> 0 \<le> lastRollbackTransactionID st \<Longrightarrow> stateDB h = st \<Longrightarrow>
    transactionMap h = (\<lambda>_. None) \<Longrightarrow> currentCommittableTransaction h = None \<Longrightarrow> helper_ok h"
  by (simp add: helper_ok_def tran_def tx_of_def)

lemma helper_undo_idle:
  assumes inv: "helper_idle E M hist h" and n: "0 < n" "n < length hist"
  obtains h' where "helper_undo E (int M) n h = (Inr (), h')" "helper_idle E M (drop n hist) h'"
proof -
  have i0: "idle E M hist (stateDB h)" using inv by (simp add: helper_idle_def)
  obtain s' where s': "undo_blocks E (int M) n (stateDB h) = (Inr (), s')" "idle E M (drop n hist) s'"
    "lastCommittableTransactionID s' = lastCommittableTransactionID (stateDB h) - int n"
    by (rule undo_blocks_idle [OF i0 n])
  obtain s1 where s1: "StateDB_Rollback E (int n) (stateDB h) = (Inr (), s1)" "reopen E (int M) s1 = (Inr (), s')"
    using s'(1) by (auto simp: undo_blocks_def)
  have c: "Close s1 = Inr ()" and new: "New E (sdb s1) (sndb s1) (int M) = Inr s'"
    using s1(2) by (auto simp: reopen_def split: sum.splits)
  obtain h' where h': "Helper_Init E (sdb s1) (sndb s1) (int M) = Inr h'" "stateDB h' = s'"
    "transactionMap h' = (\<lambda>_. None)" "currentCommittableTransaction h' = None"
    using new by (simp add: Helper_Init_def)
  have "0 \<le> lastCommittableTransactionID s'" "lastRollbackTransactionID s' = 0"
    using idle_parts(3) [OF s'(2)] new by (auto simp: undo_inv_def New_def split: sum.splits if_splits)
  then have "helper_ok h'" using fresh_helper_ok [of s' h'] h' by simp
  then have "helper_idle E M (drop n hist) h'" using s'(2) h' by (simp add: helper_idle_def)
  moreover have "helper_undo E (int M) n h = (Inr (), h')"
    using s1(1) c h'(1) by (simp add: helper_undo_def RollbackStateDB_def)
  ultimately show thesis using that by blast
qed

interpretation node: undo_history "helper_idle E M" block_ok "helper_block E" "helper_undo E (int M)" block_effect M
  for E :: "'db ext" and M
proof unfold_locales
  show "helper_idle E M hist h \<Longrightarrow> hist \<noteq> []" for hist and h :: "'db Helper"
    by (simp add: helper_idle_def idle_def undo_inv_def)
next
  fix hist txs and h :: "'db Helper"
  assume a: "helper_idle E M hist h" "block_ok txs"
  show "\<exists>h'. helper_block E txs h = (Inr (), h') \<and> helper_idle E M (take (Suc M) (block_effect txs (hd hist) # hist)) h'"
    by (rule helper_block_idle [OF a]) blast
next
  fix hist n and h :: "'db Helper"
  assume a: "helper_idle E M hist h" "0 < n" "n < length hist"
  show "\<exists>h'. helper_undo E (int M) n h = (Inr (), h') \<and> helper_idle E M (drop n hist) h'"
    by (rule helper_undo_idle [OF a]) blast
qed

section \<open>Properties\<close>

lemma demo_helper_idle: "helper_idle model_ext 2 [\<lambda>_. []] demo_helper"
proof -
  have "lastRollbackTransactionID demo_store = 0"
    by (simp add: demo_store_def New_def setMaxSnapshotCount_def getInt64_def model_ext_def kv_get_def)
  then show ?thesis
    using demo_store_idle fresh_helper_ok [of demo_store demo_helper]
    by (simp add: helper_idle_def demo_helper_def)
qed

definition demo_block :: block where
  "demo_block = [(demo_data, True), ([(''/c'', [7])], False)]"

lemma demo_block_ok [simp]: "block_ok demo_block"
  by (auto simp: block_ok_def demo_block_def demo_data_def keyOfLastTransactionID_def)

text \<open>C11. A block run through the buffers of \<open>statedbhelper\<close> commits: the database then holds the
  contents before the block with the writes of the successful transactions laid over them in
  order, a transaction that was rolled back leaves no trace, and the block can be undone.\<close>

theorem node_block_refines:
  assumes "helper_idle E M hist h" "block_ok txs"
  shows "\<exists>h'. helper_block E txs h = (Inr (), h')
    \<and> helper_idle E M (take (Suc M) (block_effect txs (hd hist) # hist)) h'
    \<and> same_contents (base E h') (block_effect txs (hd hist))"
proof -
  obtain h' where h': "helper_block E txs h = (Inr (), h')"
    "helper_idle E M (take (Suc M) (block_effect txs (hd hist) # hist)) h'"
    by (rule helper_block_idle [OF assms])
  then have "same_contents (base E h') (block_effect txs (hd hist))"
    by (simp add: helper_idle_def idle_def undo_inv_def base_def)
  then show ?thesis using h' by blast
qed

lemma node_block_refines_witness:
  "\<exists>h'. helper_block model_ext demo_block demo_helper = (Inr (), h')
    \<and> helper_idle model_ext 2 (take (Suc 2) (block_effect demo_block (hd [\<lambda>_. []]) # [\<lambda>_. []])) h'
    \<and> same_contents (base model_ext h') (block_effect demo_block (hd [\<lambda>_. []]))"
  by (rule node_block_refines [OF demo_helper_idle demo_block_ok])

text \<open>C40. Blocks run through \<open>statedbhelper\<close> and undone together by \<open>RollbackStateDB\<close> and a restart
  give the contents from before the first of them back, as long as they are at most as many as
  the snapshots that are kept.\<close>

theorem node_undo_roundtrip:
  assumes "helper_idle E M hist h" "blocks \<noteq> []" "length blocks \<le> M" "\<And>b. b \<in> set blocks \<Longrightarrow> block_ok b"
  shows "\<exists>h1 h2. node.commits E blocks h = (Inr (), h1)
    \<and> helper_undo E (int M) (length blocks) h1 = (Inr (), h2)
    \<and> same_contents (base E h2) (base E h)"
proof -
  obtain h1 h2 hist' where r: "node.commits E blocks h = (Inr (), h1)"
    "helper_undo E (int M) (length blocks) h1 = (Inr (), h2)" "helper_idle E M hist' h2" "hd hist' = hd hist"
    using node.undo_commits [OF assms] by blast
  have "same_contents (base E h2) (hd hist')" "same_contents (base E h) (hd hist)"
    using r(3) assms(1) by (simp_all add: helper_idle_def idle_def undo_inv_def hd_conv_nth base_def)
  then have "same_contents (base E h2) (base E h)"
    unfolding r(4) by (rule same_contents_trans [OF _ same_contents_sym])
  then show ?thesis using r(1,2) by simp
qed

lemma node_undo_roundtrip_witness:
  "\<exists>h1 h2. node.commits model_ext [demo_block, demo_block] demo_helper = (Inr (), h1)
    \<and> helper_undo model_ext (int 2) (length [demo_block, demo_block]) h1 = (Inr (), h2)
    \<and> same_contents (base model_ext h2) (base model_ext demo_helper)"
  by (rule node_undo_roundtrip [OF demo_helper_idle]) auto

text \<open>C15. \<open>SetAccountNonce\<close> accepts a nonce exactly when it is the last one plus one (modulo
  \<open>2 ^ 64\<close>), and otherwise changes nothing. An accepted nonce stays used when the transaction
  fails and its tx is rolled back: afterwards only the following nonce is accepted.\<close>

theorem nonce_consumed:
  assumes "ext_ok E" "codec_ok (j_Nonce J)" "codec_ok (j_strings J)"
    and "tx_of i x h = Some tx" "xbuffer tx = []"
    and "account_nonce E J i a h = Inr lastNonce" "account_list E J i a h = Inr keys"
  shows "if n = lastNonce + 1
    then \<exists>buf h1 h2. SetAccountNonce E J i x a n h = (Inr (Inr buf), h1)
      \<and> RollbackTx i x h1 = (Inr (), h2)
      \<and> (\<forall>m. (CheckAccountNonce E J i x a m h2 = Inr None) = (m = n + 1))
    else \<exists>msg. SetAccountNonce E J i x a n h = (Inr (Inl msg), h)"
proof (cases "n = lastNonce + 1")
  case True
  obtain buf h1 h2 where "SetAccountNonce E J i x a n h = (Inr (Inr buf), h1)"
    "RollbackTx i x h1 = (Inr (), h2)" "account_nonce E J i a h2 = Inr n"
    "\<And>m. (CheckAccountNonce E J i x a m h2 = Inr None) = (m = n + 1)"
    by (rule nonce_used [OF assms(1-7) True]) blast
  then show ?thesis using True by auto
next
  case False
  obtain t where t: "tran i h = Some t" using tx_of_tran [OF assms(4)] by blast
  have "tx_view E i x h = block_view E i h" using assms(4,5) by (simp add: tx_view_def)
  from Check_fresh(2) [OF assms(1) t this assms(6) False]
  show ?thesis using False by (auto simp: SetAccountNonce_def)
qed

lemma nonce_consumed_witness:
  "if (1 :: uint64) = 0 + 1
    then \<exists>buf h1 h2. SetAccountNonce model_ext model_json 1 1 ''bcbA'' 1 demo_open = (Inr (Inr buf), h1)
      \<and> RollbackTx 1 1 h1 = (Inr (), h2)
      \<and> (\<forall>m. (CheckAccountNonce model_ext model_json 1 1 ''bcbA'' m h2 = Inr None) = (m = 1 + 1))
    else \<exists>msg. SetAccountNonce model_ext model_json 1 1 ''bcbA'' 1 demo_open = (Inr (Inl msg), demo_open)"
  by (rule nonce_consumed [OF model_ext_ok _ _ demo_open_simps(2), where keys = "[]"])
    (simp_all add: account_nonce_def account_list_def demo_open_simps decode_or_def)

text \<open>C26. In every state the operations of \<open>statedbhelper\<close> can reach, at most one committable
  transaction is open, it is the current one and has the greatest number handed out, the number
  of the next tx is free, and every buffer holds a key once.\<close>

theorem helper_consistent:
  assumes "helper_reach E J h" "tran i h = Some t" "tx_of i x h = Some tx"
  shows "transactionID t = i \<and> txID tx = x
    \<and> (committable t = (currentCommittableTransaction h = Some i))
    \<and> i \<le> lastCommittableTransactionID (stateDB h)
    \<and> tx_of i (lastTxID t + 1) h = None
    \<and> distinct (map fst (tbuffer t)) \<and> distinct (map fst (xbuffer tx))"
proof -
  note inv = helper_reach_ok [OF assms(1)]
  have "tx_of i (lastTxID t + 1) h = None"
    using helper_okD(2) [OF inv assms(2), of "lastTxID t + 1"]
    by (cases "tx_of i (lastTxID t + 1) h") (auto simp: tx_ok_def)
  then show ?thesis
    using helper_okD(1) [OF inv assms(2)] helper_okD(2) [OF inv assms(2,3)] helper_okD(3) [OF inv, of i]
    by (auto simp: trans_ok_def tx_ok_def)
qed

lemma demo_open_reach: "helper_reach model_ext model_json demo_open"
proof -
  have "Helper_Init model_ext [] [] 2 = Inr demo_helper"
    by (simp add: Helper_Init_def demo_helper_def demo_store_def New_def setMaxSnapshotCount_def
        getInt64_def model_ext_def kv_get_def)
  then have r0: "helper_reach model_ext model_json demo_helper"
    by (rule helper_reach.start) (simp add: demo_helper_def demo_store_idle)
  obtain h where h: "NewCommittableTransactionID demo_helper = (Inr 1, h)"
    using demo_store_idle by (simp add: demo_helper_def NewCommittableTransactionID_def idle_def
      NewCommittableTransaction_def calcTransactionID_def Let_def)
  have "helper_reach model_ext model_json h"
    using helper_reach.move [OF r0 helper_step.intros(1)] h by simp
  from helper_reach.move [OF this helper_step.intros(3) [of _ _ _ 1]]
  show ?thesis using h by (simp add: demo_open_def)
qed

lemma helper_consistent_witness:
  "transactionID \<lparr>transactionID = 1, tbuffer = [], committable = True, lastTxID = 1\<rparr> = 1
    \<and> txID \<lparr>txID = 1, xbuffer = []\<rparr> = 1
    \<and> (committable \<lparr>transactionID = 1, tbuffer = [], committable = True, lastTxID = 1\<rparr>
        = (currentCommittableTransaction demo_open = Some 1))
    \<and> 1 \<le> lastCommittableTransactionID (stateDB demo_open)
    \<and> tx_of 1 (lastTxID \<lparr>transactionID = 1, tbuffer = [], committable = True, lastTxID = 1\<rparr> + 1) demo_open = None
    \<and> distinct (map fst (tbuffer \<lparr>transactionID = 1, tbuffer = [], committable = True, lastTxID = 1\<rparr>))
    \<and> distinct (map fst (xbuffer \<lparr>txID = 1, xbuffer = []\<rparr>))"
  by (rule helper_consistent [OF demo_open_reach demo_open_simps(1,2)])

end
