(* ===== verification/Deliver.thy ===== *)
theory Deliver
  imports State_Helper
begin

text \<open>
  Running the transactions of a block: package \<open>deliver\<close> (\<open>abciapp/service/deliver\<close>) with the
  checks of \<open>check\<close> and the switches of \<open>softforks\<close>. \<open>AppDeliver\<close> keeps the state of the current
  block; the chain state is that of \<open>State_Helper\<close>. The record \<open>Node\<close> holds both.

  External code is in the record \<open>Env\<close>: the execution of contracts in their containers (\<open>InvokeTx\<close>,
  \<open>InitOrUpdateSMC\<close>, \<open>Mine\<close>), which reads and writes the chain state through the callbacks of
  \<open>State_Helper\<close>, the parsers of transactions, hash functions, the JSON codec, the big-number
  division, the conversion of a percentage (\<open>ParseFloat\<close>, times 100, \<open>int64\<close>), and the case folding of
  runes beyond ASCII. An \<open>int64\<close> is a \<open>64 word\<close> read with \<open>sint\<close>. Log output, the containers' own
  \<open>Commit\<close> and \<open>RollbackTx\<close>, and files are left out.
\<close>

type_synonym int64 = "64 word"

section \<open>Data\<close>

record KVPair =
  kv_Key :: string
  kv_Value :: bytes

record StdFee =
  fe_Token :: string
  fe_From :: string
  fe_Value :: int64
  fe_others :: bytes

record Transfer =
  tf_Token :: string
  tf_From :: string
  tf_To :: string
  tf_Value :: int

record Receipt =
  rc_Name :: string
  rc_Bytes :: bytes
  rc_Hash :: bytes

record Message =
  ms_Contract :: string
  ms_MethodID :: "32 word"
  ms_Items :: "bytes list"

record TxData =
  td_Nonce :: uint64
  td_GasLimit :: int64
  td_Note :: string
  td_Messages :: "Message list"

record Response =
  rs_Code :: nat
  rs_Log :: string
  rs_Data :: string
  rs_GasUsed :: int64
  rs_Fee :: int64
  rs_Tags :: "KVPair list"

record ResponseDeliverTx =
  rd_Code :: nat
  rd_Log :: string
  rd_Data :: string
  rd_GasLimit :: uint64
  rd_GasUsed :: uint64
  rd_Fee :: uint64
  rd_Tags :: "KVPair list"

record ResponseCheckTx =
  rk_Code :: nat
  rk_Log :: string
  rk_Data :: string

record AbciValidator =
  av_PubKey :: bytes
  av_Power :: uint64
  av_RewardAddr :: string
  av_Name :: string

record ContractData =
  cd_Name :: string
  cd_Version :: string
  cd_CodeData :: bytes

record SideChainGenesis =
  sg_SideChainID :: string
  sg_GenesisInfo :: string
  sg_ContractData :: "ContractData list"
  sg_Validators :: "AbciValidator list"

text \<open>The side chain receipt, and the part of its genesis text that is read.\<close>

record genesisSideChain =
  gs_SideChainID :: string
  gs_OpenURLs :: "string list"
  gs_GenesisInfo :: string
  gs_ContractData :: "ContractData list"

record genesisValidator =
  gv_PubKey :: bytes
  gv_Power :: int64
  gv_RewardAddr :: string
  gv_Name :: string
  gv_NodeAddr :: string

record ForkInfo =
  fi_Tag :: string
  fi_BugBlockHeight :: int
  fi_EffectBlockHeight :: int
  fi_Description :: string
  fi_FilterContracts :: "(string \<times> string list) list"

type_synonym Forks = "string \<Rightarrow> ForkInfo option"

section \<open>State\<close>

record AppDeliver =
  a_transID :: int
  a_txID :: int
  a_blockHash :: bytes
  a_blockHeader :: Header
  a_appState :: AppState
  a_hashList :: "bytes list"
  a_chainID :: string
  a_sponser :: string
  a_rewarder :: string
  a_rewardStrategy :: "Rewarder list"
  a_udValidator :: bool
  a_validators :: "AbciValidator list"
  a_fee :: int64
  a_rewards :: "(string, int64) gomap"
  a_scGenesis :: "SideChainGenesis list"

record 'db Node =
  app :: AppDeliver
  helper :: "'db Helper"

definition onH :: "('db Helper \<Rightarrow> ('db Helper, 'a) act) \<Rightarrow> 'db Node \<Rightarrow> ('db Node, 'a) act" where
  "onH f n = (let (r, h) = f (helper n) in (r, n\<lparr>helper := h\<rparr>))"

definition upd_app :: "(AppDeliver \<Rightarrow> AppDeliver) \<Rightarrow> 'db Node \<Rightarrow> 'db Node" where
  "upd_app f n = n\<lparr>app := f (app n)\<rparr>"

record 'db Env =
  ext :: "'db ext"
  jsn :: json
  c_ErrDeliverTx :: nat
  c_ErrCheckTx :: nat
  c_ErrLogicError :: nat
  c_CodeBVMQueryOK :: nat
  c_MaxSizeNote :: nat
  j_Fee :: "StdFee codec"
  j_Transfer :: "Transfer codec"
  j_Receipt :: "Receipt codec"
  j_TypesReceipt :: "Receipt codec"
  j_SideChain :: "genesisSideChain codec"
  j_GenesisInfo :: "genesisValidator list codec"
  TagToForkInfo :: Forks
  Address_of :: "bytes \<Rightarrow> string \<Rightarrow> string"
  PubKeyEd25519FromBytes :: "bytes \<Rightarrow> bytes"
  CalcCodeHash :: "string \<Rightarrow> bytes"
  Response_String :: "ResponseDeliverTx \<Rightarrow> string"
  Md5 :: "bytes \<Rightarrow> bytes"
  Sum256 :: "bytes list \<Rightarrow> bytes"
  Sha3_256 :: "bytes \<Rightarrow> bytes"
  DivI :: "int \<Rightarrow> int \<Rightarrow> int"
  percent100 :: "string \<Rightarrow> string + int64"
  same_fold :: "nat \<Rightarrow> nat \<Rightarrow> bool"
  TxParse_v2 :: "string \<Rightarrow> string \<Rightarrow> string + TxData \<times> bytes"
  TxParse_v3 :: "string \<Rightarrow> string \<Rightarrow> string + TxData \<times> bytes"
  InvokeTx :: "Header \<Rightarrow> int \<Rightarrow> int \<Rightarrow> string \<Rightarrow> TxData \<Rightarrow> bytes \<Rightarrow> bytes \<Rightarrow> bytes \<Rightarrow>
    'db Helper \<Rightarrow> ('db Helper, Response) act"
  InitOrUpdateSMC :: "int \<Rightarrow> int \<Rightarrow> Header \<Rightarrow> string \<Rightarrow> string \<Rightarrow> bool \<Rightarrow> 'db Helper \<Rightarrow> ('db Helper, Response) act"
  Mine :: "int \<Rightarrow> int \<Rightarrow> Header \<Rightarrow> string \<Rightarrow> string \<Rightarrow> 'db Helper \<Rightarrow> ('db Helper, Response) act"

section \<open>Strings of the standard library\<close>

definition HasSuffix :: "string \<Rightarrow> string \<Rightarrow> bool" where
  "HasSuffix s t \<longleftrightarrow> length t \<le> length s \<and> drop (length s - length t) s = t"

fun Contains :: "string \<Rightarrow> string \<Rightarrow> bool" where
  "Contains s t = (take (length t) s = t \<or> (case s of [] \<Rightarrow> False | _ # s' \<Rightarrow> Contains s' t))"

declare Contains.simps [simp del]

text \<open>\<open>utf8.DecodeRune\<close>: the rune and the number of bytes; an invalid byte is \<open>U+FFFD\<close> of length 1.\<close>

definition RuneError :: nat where
  "RuneError = 0xFFFD"

definition cont_byte :: "byte \<Rightarrow> bool" where
  "cont_byte b \<longleftrightarrow> 0x80 \<le> b \<and> b \<le> 0xBF"

definition first_accept :: "byte \<Rightarrow> byte \<Rightarrow> bool" where
  "first_accept b0 b1 \<longleftrightarrow>
     (if b0 = 0xE0 then 0xA0 \<le> b1 \<and> b1 \<le> 0xBF
      else if b0 = 0xED then 0x80 \<le> b1 \<and> b1 \<le> 0x9F
      else if b0 = 0xF0 then 0x90 \<le> b1 \<and> b1 \<le> 0xBF
      else if b0 = 0xF4 then 0x80 \<le> b1 \<and> b1 \<le> 0x8F
      else cont_byte b1)"

definition low :: "nat \<Rightarrow> byte \<Rightarrow> nat" where
  "low n b = unat b mod 2 ^ n"

definition DecodeRune :: "bytes \<Rightarrow> nat \<times> nat" where
  "DecodeRune p = (case p of [] \<Rightarrow> (RuneError, 0) | b0 # bs \<Rightarrow>
     if b0 < 0x80 then (unat b0, 1)
     else if b0 < 0xC2 \<or> 0xF4 < b0 then (RuneError, 1)
     else (case bs of [] \<Rightarrow> (RuneError, 1) | b1 # bs1 \<Rightarrow>
       if b0 < 0xE0 then (if first_accept b0 b1 then (low 5 b0 * 64 + low 6 b1, 2) else (RuneError, 1))
       else (case bs1 of [] \<Rightarrow> (RuneError, 1) | b2 # bs2 \<Rightarrow>
         if b0 < 0xF0 then
           (if first_accept b0 b1 \<and> cont_byte b2
            then (low 4 b0 * 4096 + low 6 b1 * 64 + low 6 b2, 3) else (RuneError, 1))
         else (case bs2 of [] \<Rightarrow> (RuneError, 1) | b3 # _ \<Rightarrow>
           if first_accept b0 b1 \<and> cont_byte b2 \<and> cont_byte b3
           then (low 3 b0 * 262144 + low 6 b1 * 4096 + low 6 b2 * 64 + low 6 b3, 4)
           else (RuneError, 1)))))"

text \<open>\<open>bytes.EqualFold\<close>; \<open>same_fold\<close> stands for the orbits of \<open>unicode.SimpleFold\<close>.\<close>

definition rune_fold :: "(nat \<Rightarrow> nat \<Rightarrow> bool) \<Rightarrow> nat \<Rightarrow> nat \<Rightarrow> bool" where
  "rune_fold orbit r1 r2 \<longleftrightarrow> r1 = r2 \<or>
     (let sr = min r1 r2; tr = max r1 r2
      in if tr < 0x80 then 65 \<le> sr \<and> sr \<le> 90 \<and> tr = sr + 32 else orbit sr tr)"

function EqualFold :: "(nat \<Rightarrow> nat \<Rightarrow> bool) \<Rightarrow> bytes \<Rightarrow> bytes \<Rightarrow> bool" where
  "EqualFold orbit s t = (if s = [] \<or> t = [] then length s = length t
     else let (r1, n1) = DecodeRune s; (r2, n2) = DecodeRune t
       in rune_fold orbit r1 r2 \<and> EqualFold orbit (drop n1 s) (drop n2 t))"
  by auto
termination
proof (relation "measure (\<lambda>(orbit, s, t). length s)", simp)
  fix orbit s t and x xa y xb n2 and r
  assume a: "\<not> (s = [] \<or> t = [])" "x = DecodeRune s" "(xa, y) = x"
  then obtain b bs where s: "s = b # bs" by (cases s) auto
  have "0 < snd (DecodeRune s)"
    unfolding s by (simp add: DecodeRune_def split: list.split)
  then have "0 < y" using a by (metis snd_conv)
  then show "((orbit, drop y s, drop n2 t), orbit, s, t) \<in> measure (\<lambda>(orbit, s, t). length s)"
    using s by simp
qed

declare EqualFold.simps [simp del]

section \<open>Switches (\<open>softforks.go\<close>)\<close>

definition before_effect :: "Forks \<Rightarrow> string \<Rightarrow> int \<Rightarrow> bool" where
  "before_effect F tag blockHeight = (case F tag of
     Some forkInfo \<Rightarrow> blockHeight < fi_EffectBlockHeight forkInfo
   | None \<Rightarrow> False)"

definition V1_0_2_3233 :: "Forks \<Rightarrow> int \<Rightarrow> bool" where
  "V1_0_2_3233 F blockHeight = before_effect F ''fork-abci#1.0.2.3233'' blockHeight"

definition V2_0_1_13780 :: "Forks \<Rightarrow> int \<Rightarrow> bool" where
  "V2_0_1_13780 F blockHeight = before_effect F ''fork-abci#2.0.1.13780'' blockHeight"

definition V2_0_2_14654 :: "Forks \<Rightarrow> int \<Rightarrow> bool" where
  "V2_0_2_14654 F blockHeight = (case F ''fork-abci#2.0.2.14654'' of
     Some forkInfo \<Rightarrow> blockHeight < fi_EffectBlockHeight forkInfo \<and> fi_BugBlockHeight forkInfo < blockHeight
   | None \<Rightarrow> False)"

definition FilterContracts_V2_0_2_14654 :: "Forks \<Rightarrow> (bytes \<Rightarrow> bytes) \<Rightarrow> string \<Rightarrow> string \<Rightarrow> bool" where
  "FilterContracts_V2_0_2_14654 F md5 orgID contractName =
    (let nameHash = hex_lower (md5 (bytes_of_string contractName))
     in case F ''fork-abci#2.0.2.14654'' of
       Some forkInfo \<Rightarrow> (case map_of (fi_FilterContracts forkInfo) orgID of
           Some nameHashs \<Rightarrow> nameHash \<in> set nameHashs
         | None \<Rightarrow> False)
     | None \<Rightarrow> False)"

section \<open>Hashes of the block's results\<close>

definition calcDeliverHash :: "'db Env \<Rightarrow> string option \<Rightarrow> ResponseDeliverTx option \<Rightarrow> bytes \<Rightarrow>
    'db Node \<Rightarrow> 'db Node" where
  "calcDeliverHash K tx response stateTx n =
    (if tx \<noteq> None \<or> response \<noteq> None \<or> stateTx \<noteq> []
     then upd_app (\<lambda>a. a\<lparr>a_hashList := a_hashList a @ [Md5 K
        ((case tx of None \<Rightarrow> [] | Some t \<Rightarrow> bytes_of_string t) @
         (case response of None \<Rightarrow> [] | Some r \<Rightarrow> bytes_of_string (Response_String K r)) @
         stateTx)]\<rparr>) n
     else n)"

definition no_response :: ResponseDeliverTx where
  "no_response = \<lparr>rd_Code = 0, rd_Log = [], rd_Data = [], rd_GasLimit = 0, rd_GasUsed = 0, rd_Fee = 0, rd_Tags = []\<rparr>"

definition reportFailure :: "'db Env \<Rightarrow> string \<Rightarrow> nat \<Rightarrow> string \<Rightarrow> 'db Node \<Rightarrow> ResponseDeliverTx \<times> 'db Node" where
  "reportFailure K tx errorCode msg n =
    (let response = no_response\<lparr>rd_Code := errorCode, rd_Log := msg\<rparr>
     in (response, calcDeliverHash K (Some tx) (Some response) [] n))"

section \<open>Fees\<close>

type_synonym fees = "(string, StdFee) gomap"

text \<open>\<open>gatherFeesByFromAddr\<close>: one fee per payer, the last receipt with the sum of the values.\<close>

fun gatherFeesByFromAddr :: "'db Env \<Rightarrow> bool \<Rightarrow> KVPair list \<Rightarrow> fees \<times> KVPair list \<times> int64 \<Rightarrow>
    string + fees \<times> KVPair list \<times> int64" where
  "gatherFeesByFromAddr K isDlvOK [] acc = Inr acc"
| "gatherFeesByFromAddr K isDlvOK (t # tags) (fees, feeTags, totalFee) =
    (if Contains (kv_Key t) ''std::fee''
     then andThen (unmarshal (j_Receipt K) (kv_Value t)) (\<lambda>receipt.
          andThen (unmarshal (j_Fee K) (rc_Bytes receipt)) (\<lambda>rf.
          let rf' = (case map_of fees (fe_From rf) of
                Some v \<Rightarrow> rf\<lparr>fe_Value := fe_Value v + fe_Value rf\<rparr> | None \<Rightarrow> rf)
          in gatherFeesByFromAddr K isDlvOK tags
            (AList.update (fe_From rf) rf' fees, if isDlvOK then feeTags else feeTags @ [t],
             totalFee + fe_Value rf)))
     else gatherFeesByFromAddr K isDlvOK tags (fees, feeTags, totalFee))"

definition fee_receipt :: "'db Env \<Rightarrow> string \<Rightarrow> bytes \<Rightarrow> string + bytes" where
  "fee_receipt K name rbyte = marshal (j_TypesReceipt K)
     \<lparr>rc_Name = name, rc_Bytes = rbyte, rc_Hash = Sum256 K [bytes_of_string name, rbyte]\<rparr>"

fun emitTotalFeeReceipt :: "'db Env \<Rightarrow> fees \<Rightarrow> string + (string, bytes) gomap" where
  "emitTotalFeeReceipt K [] = Inr []"
| "emitTotalFeeReceipt K ((k, fee) # fees) =
    andThen (marshal (j_Fee K) fee) (\<lambda>rbyte.
    andThen (fee_receipt K ''totalFee'' rbyte) (\<lambda>br.
    andThen (emitTotalFeeReceipt K fees) (\<lambda>bbrs. Inr ((fe_From fee, br) # bbrs))))"

text \<open>A receipt that cannot be marshalled is \<open>nil\<close>.\<close>

definition emitTransferReceipt :: "'db Env \<Rightarrow> string \<Rightarrow> string \<Rightarrow> string \<Rightarrow> int \<Rightarrow> bytes" where
  "emitTransferReceipt K sender to_addr tokenAddr value =
    (case marshal (j_Transfer K) \<lparr>tf_Token = tokenAddr, tf_From = sender, tf_To = to_addr, tf_Value = value\<rparr> of
       Inl _ \<Rightarrow> []
     | Inr bz \<Rightarrow> (case fee_receipt K ''transferFee'' bz of Inl _ \<Rightarrow> [] | Inr r \<Rightarrow> r))"

text \<open>\<open>strconv.ParseInt\<close> of a printed integer: out of range, the nearest \<open>int64\<close>, with an error.\<close>

definition clamp_int64 :: "int \<Rightarrow> int64" where
  "clamp_int64 v = word_of_int (max (- (2 ^ 63)) (min (2 ^ 63 - 1) v))"

definition add_reward :: "string \<Rightarrow> int64 \<Rightarrow> (string, int64) gomap \<Rightarrow> (string, int64) gomap" where
  "add_reward addr v m = AList.update addr ((case map_of m addr of None \<Rightarrow> 0 | Some w \<Rightarrow> w) + v) m"

definition reward_addr :: "string \<Rightarrow> Rewarder \<Rightarrow> string" where
  "reward_addr proposerReward reward =
    (if rw_Address reward = [] \<and> rw_Name reward = ''validators'' then proposerReward else rw_Address reward)"

text \<open>
  The loop of \<open>distributeFee\<close>, at index \<open>i\<close> of \<open>len\<close> rewards. The test for the last reward compares
  the index with the length. The result is the receipts and the error, if any.
\<close>

fun distribute_rewards :: "'db Env \<Rightarrow> StdFee \<Rightarrow> string \<Rightarrow> nat \<Rightarrow> nat \<Rightarrow> Rewarder list \<Rightarrow> int64 \<Rightarrow> bytes list \<Rightarrow>
    'db Node \<Rightarrow> ('db Node, bytes list \<times> string option) act" where
  "distribute_rewards K fee proposer i len [] leftFee receipts n = (Inr (receipts, None), n)"
| "distribute_rewards K fee proposer i len (reward # rewards) leftFee receipts n =
    (let addr = reward_addr proposer reward; E = ext K; J = jsn K; t = a_transID (app n); x = a_txID (app n)
     in case percent100 K (rw_RewardPercent reward) of
       Inl err \<Rightarrow> (Inr (receipts, Some err), n)
     | Inr percent \<Rightarrow>
       let award = (if i = len then sint leftFee else DivI K (sint (fe_Value fee) * sint percent) 10000);
           ia = clamp_int64 award
       in need (BalanceOf E J t x addr (fe_Token fee) (helper n)) n (\<lambda>v.
          seqR (onH (SetBalance J t x addr (fe_Token fee) (v + award)) n) (\<lambda>_ n.
          seqR (if V2_0_1_13780 (TagToForkInfo K) (Height (a_blockHeader (app n))) then (Inr (), n)
                else onH (AddAccountToken E J t x addr (fe_Token fee)) n) (\<lambda>_ n.
          distribute_rewards K fee proposer (Suc i) len rewards (leftFee - ia)
            (receipts @ [emitTransferReceipt K (fe_From fee) addr (fe_Token fee) award])
            (upd_app (\<lambda>a. a\<lparr>a_rewards := add_reward addr ia (a_rewards a)\<rparr>) n)))))"

definition distributeFee :: "'db Env \<Rightarrow> StdFee \<Rightarrow> string \<Rightarrow> bool \<Rightarrow> bool \<Rightarrow> 'db Node \<Rightarrow>
    ('db Node, bytes list \<times> string option) act" where
  "distributeFee K fee proposerReward isDlvOK isBVM n =
    (let E = ext K; J = jsn K; t = a_transID (app n); x = a_txID (app n); strategy = a_rewardStrategy (app n)
     in seqR (if \<not> isDlvOK \<or> isBVM
           then need (BalanceOf E J t x (fe_From fee) (fe_Token fee) (helper n)) n (\<lambda>b.
             onH (SetBalance J t x (fe_From fee) (fe_Token fee) (b - sint (fe_Value fee))) n)
           else (Inr (), n)) (\<lambda>_ n.
        distribute_rewards K fee proposerReward 0 (length strategy) strategy (fe_Value fee) [] n))"

fun transfer_tags :: "nat \<Rightarrow> nat \<Rightarrow> bytes list \<Rightarrow> KVPair list" where
  "transfer_tags m i [] = []"
| "transfer_tags m i (r # rs) =
    \<lparr>kv_Key = ''/'' @ dec_of_nat m @ ''/'' @ dec_of_nat (i + 1) @ ''/transferFee'', kv_Value = r\<rparr>
      # transfer_tags m (Suc i) rs"

definition no_fee :: StdFee where
  "no_fee = \<lparr>fe_Token = [], fe_From = [], fe_Value = 0, fe_others = []\<rparr>"

fun distribute_all :: "'db Env \<Rightarrow> bool \<Rightarrow> bool \<Rightarrow> nat \<Rightarrow> fees \<Rightarrow> (string, bytes) gomap \<Rightarrow> string list \<Rightarrow>
    KVPair list \<Rightarrow> 'db Node \<Rightarrow> ('db Node, KVPair list) act" where
  "distribute_all K isDlvOK isBVM m fees receipts [] tags n = (Inr tags, n)"
| "distribute_all K isDlvOK isBVM m fees receipts (k # ks) tags n =
    seqR (distributeFee K (case map_of fees k of None \<Rightarrow> no_fee | Some fee \<Rightarrow> fee)
        (a_rewarder (app n)) isDlvOK isBVM n) (\<lambda>(transRcpt, _) n.
       distribute_all K isDlvOK isBVM m fees receipts ks
         (tags @ [\<lparr>kv_Key = ''/'' @ dec_of_nat m @ ''/0/totalFee'',
            kv_Value = (case map_of receipts k of None \<Rightarrow> [] | Some v \<Rightarrow> v)\<rparr>] @ transfer_tags m 0 transRcpt) n)"

definition emitFeeReceipts :: "'db Env \<Rightarrow> TxData \<Rightarrow> Response \<Rightarrow> bool \<Rightarrow> 'db Node \<Rightarrow>
    ('db Node, KVPair list \<times> int64) act" where
  "emitFeeReceipts K transaction response isDlvOK n =
    need (gatherFeesByFromAddr K isDlvOK (rs_Tags response) ([], [], 0)) n (\<lambda>(fees, feetags, totalFee).
    case emitTotalFeeReceipt K fees of
      Inl _ \<Rightarrow> (Inr ([], 0), n)
    | Inr totalFeeReceipts \<Rightarrow>
      let tags = (if isDlvOK then rs_Tags response else feetags);
          keys = sort (map fst totalFeeReceipts); m = length (td_Messages transaction)
      in if m = 0 then (Inl ''runtime error: index out of range [-1]'', n)
         else let methodID = ms_MethodID (last (td_Messages transaction));
                  isBVM = (methodID = 0 \<or> methodID = 0xFFFFFFFF)
         in seqR (distribute_all K isDlvOK isBVM m fees totalFeeReceipts keys tags n) (\<lambda>tags n.
            (Inr (tags, totalFee), n)))"

section \<open>Delivering a transaction\<close>

definition hasUpdateValidatorReceipt :: "KVPair list \<Rightarrow> bool" where
  "hasUpdateValidatorReceipt tags = list_ex (\<lambda>r. HasSuffix (kv_Key r) ''governance.newValidator''
     \<or> HasSuffix (kv_Key r) ''governance.setPower'') tags"

definition packValidators :: "'db Env \<Rightarrow> 'db Node \<Rightarrow> ('db Node, unit) act" where
  "packValidators K n0 = (let n = upd_app (\<lambda>a. a\<lparr>a_udValidator := True\<rparr>) n0
     in need (GetAllValidators (ext K) (jsn K) (a_transID (app n)) (a_txID (app n)) (helper n)) n (\<lambda>validators.
       (Inr (), upd_app (\<lambda>a. a\<lparr>a_validators := map (\<lambda>v.
          \<lparr>av_PubKey = PubKeyEd25519FromBytes K (vd_PubKey v), av_Power = word_of_int (vd_Power v),
           av_RewardAddr = vd_RewardAddr v, av_Name = vd_Name v\<rparr>) validators\<rparr>) n)))"

definition hasSideChainGenesisReceipt :: "KVPair list \<Rightarrow> KVPair option" where
  "hasSideChainGenesisReceipt tags =
    List.find (\<lambda>r. Contains (kv_Key r) ''netgovernance.genesisSideChain'') tags"

definition packSideChainGenesis :: "'db Env \<Rightarrow> KVPair \<Rightarrow> 'db Node \<Rightarrow> ('db Node, unit) act" where
  "packSideChainGenesis K tag n =
    need (unmarshal (j_Receipt K) (kv_Value tag)) n (\<lambda>r.
    need (unmarshal (j_SideChain K) (rc_Bytes r)) n (\<lambda>gsc.
    need (unmarshal (j_GenesisInfo K) (bytes_of_string (gs_GenesisInfo gsc))) n (\<lambda>gi.
    let vals = map (\<lambda>v. \<lparr>av_PubKey = gv_PubKey v, av_Power = gv_Power v, av_RewardAddr = gv_RewardAddr v,
           av_Name = gv_Name v\<rparr>) gi
    in (Inr (), upd_app (\<lambda>a. a\<lparr>a_scGenesis := [\<lparr>sg_SideChainID = gs_SideChainID gsc,
          sg_GenesisInfo = gs_GenesisInfo gsc, sg_ContractData = gs_ContractData gsc,
          sg_Validators = vals\<rparr>]\<rparr>) n))))"

definition combineBuffer :: "(string, bytes) gomap \<Rightarrow> (string, bytes) gomap \<Rightarrow> (string, bytes) gomap" where
  "combineBuffer nonceBuffer txBuffer = put_all txBuffer nonceBuffer"

text \<open>The fees of a failed transaction are committed; its own writes were rolled back before.\<close>

definition reportInvokeFailure :: "'db Env \<Rightarrow> string \<Rightarrow> TxData \<Rightarrow> Response \<Rightarrow> 'db Node \<Rightarrow>
    ('db Node, ResponseDeliverTx \<times> (string, bytes) gomap \<times> int64) act" where
  "reportInvokeFailure K tx transaction response n =
    seqR (emitFeeReceipts K transaction response False n) (\<lambda>(rcpts, totalFee) n.
    let res = \<lparr>rd_Code = rs_Code response, rd_Log = rs_Log response, rd_Data = [],
          rd_GasLimit = td_GasLimit transaction, rd_GasUsed = rs_GasUsed response,
          rd_Fee = rs_Fee response, rd_Tags = rcpts\<rparr>
    in seqR (if 0 < length rcpts then onH (CommitTx (a_transID (app n)) (a_txID (app n))) n
             else (Inr ([], []), n)) (\<lambda>(stateTx, txBuffer) n.
       (Inr (res, txBuffer, totalFee), calcDeliverHash K (Some tx) (Some res) stateTx n)))"

text \<open>The rest of \<open>runDeliverTx\<close>, after a contract that returned \<open>CodeOK\<close>.\<close>

definition deliver_ok :: "'db Env \<Rightarrow> string \<Rightarrow> TxData \<Rightarrow> Response \<Rightarrow> (string, bytes) gomap \<Rightarrow> 'db Node \<Rightarrow>
    ('db Node, ResponseDeliverTx \<times> (string, bytes) gomap) act" where
  "deliver_ok K tx transaction response nonceBuffer n =
    seqR (if hasUpdateValidatorReceipt (rs_Tags response) then packValidators K n else (Inr (), n)) (\<lambda>_ n.
    seqR (case hasSideChainGenesisReceipt (rs_Tags response) of
        Some t \<Rightarrow> packSideChainGenesis K t n | None \<Rightarrow> (Inr (), n)) (\<lambda>_ n.
    seqR (emitFeeReceipts K transaction response True n) (\<lambda>(tags, totalFee) n.
    let res = \<lparr>rd_Code = rs_Code response, rd_Log = rs_Log response, rd_Data = rs_Data response,
          rd_GasLimit = td_GasLimit transaction, rd_GasUsed = rs_GasUsed response,
          rd_Fee = totalFee, rd_Tags = tags\<rparr>
    in seqR (onH (CommitTx (a_transID (app n)) (a_txID (app n))) n) (\<lambda>(stateTx, txBuffer) n.
       (Inr (res, combineBuffer nonceBuffer txBuffer),
        upd_app (\<lambda>a. a\<lparr>a_fee := a_fee a + rs_Fee response\<rparr>)
          (calcDeliverHash K (Some tx) (Some res) stateTx n))))))"

definition runDeliverTx :: "'db Env \<Rightarrow> string \<Rightarrow> TxData \<Rightarrow> bytes \<Rightarrow> 'db Node \<Rightarrow>
    ('db Node, ResponseDeliverTx \<times> (string, bytes) gomap) act" where
  "runDeliverTx K tx transaction pubKey n =
    (if c_MaxSizeNote K < length (td_Note transaction)
     then let (r, n) = reportFailure K tx (c_ErrDeliverTx K) ''tx note is out of range'' n in (Inr (r, []), n)
     else seqR (onH (GetChainID (ext K) (jsn K)) n) (\<lambda>cid n.
     let sender = Address_of K pubKey cid; t = a_transID (app n); x = a_txID (app n)
     in seqR (onH (SetAccountNonce (ext K) (jsn K) t x sender (td_Nonce transaction)) n) (\<lambda>set_nonce n.
     case set_nonce of
       Inl _ \<Rightarrow> (let (r, n) = reportFailure K tx (c_ErrDeliverTx K) ''SetAccountNonce failed'' n in (Inr (r, []), n))
     | Inr nonceBuffer \<Rightarrow>
       seqR (onH (InvokeTx K (a_blockHeader (app n)) t x sender transaction pubKey
           (CalcCodeHash K tx) (a_blockHash (app n))) n) (\<lambda>response n.
       if rs_Code response \<noteq> c_CodeOK (jsn K)
       then seqR (onH (RollbackTx t x) n) (\<lambda>_ n.
            seqR (reportInvokeFailure K tx transaction response n) (\<lambda>(res, txBuffer, totalFee) n.
            (Inr (res\<lparr>rd_Fee := totalFee\<rparr>, combineBuffer nonceBuffer txBuffer), n)))
       else deliver_ok K tx transaction response nonceBuffer n))))"

definition deliverBCTx :: "'db Env \<Rightarrow> string \<Rightarrow> 'db Node \<Rightarrow> ('db Node, ResponseDeliverTx \<times> (string, bytes) gomap) act" where
  "deliverBCTx K tx n =
    seqR (if a_chainID (app n) = [] then seqR (onH (GetChainID (ext K) (jsn K)) n) (\<lambda>cid n.
        (Inr (), upd_app (\<lambda>a. a\<lparr>a_chainID := cid\<rparr>) n)) else (Inr (), n)) (\<lambda>_ n.
    seqR (onH (NewTx (a_transID (app n))) n) (\<lambda>x n0.
    let n = upd_app (\<lambda>a. a\<lparr>a_txID := x\<rparr>) n0
    in case (case TxParse_v2 K (a_chainID (app n)) tx of
           Inr r \<Rightarrow> Inr r | Inl _ \<Rightarrow> TxParse_v3 K (a_chainID (app n)) tx) of
        Inl _ \<Rightarrow> (let (r, n) = reportFailure K tx (c_ErrDeliverTx K) ''tx parse failed'' n in (Inr (r, []), n))
      | Inr (transaction, pubKey) \<Rightarrow> runDeliverTx K tx transaction pubKey n))"

section \<open>The block: begin, contracts due at a height, mining, end, commit\<close>

definition getAndVerifyAppState :: "'db Env \<Rightarrow> Header \<Rightarrow> 'db Node \<Rightarrow> ('db Node, unit) act" where
  "getAndVerifyAppState K blockHeader n0 =
    need (GetWorldAppState (ext K) (jsn K) (a_transID (app n0)) (a_txID (app n0)) (helper n0)) n0 (\<lambda>st.
    let n = upd_app (\<lambda>a. a\<lparr>a_appState := st\<rparr>) n0
    in if Height blockHeader \<noteq> BlockHeight st + 1 then (Inl ''Block height does not match'', n)
       else if \<not> EqualFold (same_fold K) (LastAppHash blockHeader) (AppHash st)
       then (Inl (''App hash does not match, req.Header.LastAppHash '' @ hex_lower (LastAppHash blockHeader) @
         '':'' @ dec_of_int (Height blockHeader) @ '', app.appState.AppHash:'' @ hex_lower (AppHash st) @
         '':'' @ dec_of_int (BlockHeight st)), n)
       else (Inr (), n))"

definition remove_mine :: "string \<Rightarrow> MineContract list \<Rightarrow> MineContract list" where
  "remove_mine addr mines = takeWhile (\<lambda>m. mc_Address m \<noteq> addr) mines
     @ drop 1 (dropWhile (\<lambda>m. mc_Address m \<noteq> addr) mines)"

definition forbidContract :: "'db Env \<Rightarrow> string \<Rightarrow> 'db Node \<Rightarrow> ('db Node, unit) act" where
  "forbidContract K contractAddr n =
    (let t = a_transID (app n); x = a_txID (app n)
     in need (GetContract (ext K) (jsn K) contractAddr (helper n)) n (\<lambda>c. case c of
       None \<Rightarrow> (Inl nil_pointer, n)
     | Some contract \<Rightarrow>
       seqR (onH (SetContract (jsn K) t x (contract\<lparr>ct_LoseHeight := Height (a_blockHeader (app n))\<rparr>)) n) (\<lambda>_ n.
       need (GetFromDB (ext K) (std_KeyOfMineContracts (jsn K)) (helper n)) n (\<lambda>v.
       if length v = 0 then (Inr (), n)
       else need (unmarshal (j_Mines (jsn K)) v) n (\<lambda>mines.
         onH (SetMineContract (jsn K) t x (remove_mine contractAddr mines)) n)))))"

definition ok_response :: "'db Env \<Rightarrow> Response" where
  "ok_response K = \<lparr>rs_Code = c_CodeOK (jsn K), rs_Log = [], rs_Data = [], rs_GasUsed = 0, rs_Fee = 0, rs_Tags = []\<rparr>"

text \<open>\<open>CommitTx\<close> and the hash of what it wrote, at the end of each contract run in a block.\<close>

definition commit_and_hash :: "'db Env \<Rightarrow> 'db Node \<Rightarrow> ('db Node, (string, bytes) gomap) act" where
  "commit_and_hash K n = seqR (onH (CommitTx (a_transID (app n)) (a_txID (app n))) n) (\<lambda>(stateTx, txBuffer) n.
     (Inr txBuffer, if stateTx \<noteq> [] then calcDeliverHash K None None stateTx n else n))"

definition new_tx :: "'db Node \<Rightarrow> ('db Node, unit) act" where
  "new_tx n = seqR (onH (NewTx (a_transID (app n))) n) (\<lambda>x n. (Inr (), upd_app (\<lambda>a. a\<lparr>a_txID := x\<rparr>) n))"

fun init_loop :: "'db Env \<Rightarrow> ContractWithEffectHeight list \<Rightarrow> Response \<Rightarrow> (string, bytes) gomap \<Rightarrow> 'db Node \<Rightarrow>
    ('db Node, Response \<times> (string, bytes) gomap) act" where
  "init_loop K [] result txBuffer n = (Inr (result, txBuffer), n)"
| "init_loop K (v # vs) result txBuffer n =
    seqR (new_tx n) (\<lambda>_ n.
    need (GetContract (ext K) (jsn K) (ch_ContractAddr v) (helper n)) n (\<lambda>c. case c of
      None \<Rightarrow> (Inr (result\<lparr>rs_Code := c_ErrLogicError K, rs_Log :=
        ''can not get smart contract to initChain or updateChain when begin block''\<rparr>, txBuffer), n)
    | Some contract \<Rightarrow>
      seqR (onH (InitOrUpdateSMC K (a_transID (app n)) (a_txID (app n)) (a_blockHeader (app n))
          (ch_ContractAddr v) (ct_Owner contract) (ch_IsUpgrade v)) n) (\<lambda>result n.
      seqR (if rs_Code result \<noteq> c_CodeOK (jsn K) then forbidContract K (ch_ContractAddr v) n else (Inr (), n)) (\<lambda>_ n.
      seqR (commit_and_hash K n) (\<lambda>txBuffer n.
      init_loop K vs (result\<lparr>rs_Code := c_CodeOK (jsn K)\<rparr>) txBuffer n)))))"

definition initOrUpdateSMC :: "'db Env \<Rightarrow> 'db Node \<Rightarrow> ('db Node, Response \<times> (string, bytes) gomap) act" where
  "initOrUpdateSMC K n =
    need (GetContractsWithHeight (ext K) (jsn K) (a_transID (app n)) (a_txID (app n))
      (BlockHeight (a_appState (app n))) (helper n)) n (\<lambda>cs. init_loop K cs (ok_response K) [] n)"

text \<open>The result is the code and the log of the response, and the buffer.\<close>

definition BCBeginBlock :: "'db Env \<Rightarrow> RequestBeginBlock \<Rightarrow> 'db Node \<Rightarrow>
    ('db Node, nat \<times> string \<times> (string, bytes) gomap) act" where
  "BCBeginBlock K req n =
    seqR (onH NewCommittableTransactionID n) (\<lambda>t n0.
    seqR (new_tx (upd_app (\<lambda>a. a\<lparr>a_transID := t\<rparr>) n0)) (\<lambda>_ n.
    let hd = bb_Header req
    in seqR (getAndVerifyAppState K hd n) (\<lambda>_ n0.
    let n = upd_app (\<lambda>a. a\<lparr>a_appState := (a_appState a)\<lparr>BlockHeight := Height hd, BeginBlock := req\<rparr>,
          a_hashList := [], a_sponser := ProposerAddress hd, a_rewarder := RewardAddress hd,
          a_blockHash := bb_Hash req, a_blockHeader := hd, a_fee := 0, a_rewards := []\<rparr>) n0
    in need (GetRewardStrategy (ext K) (jsn K) (a_transID (app n)) (a_txID (app n)) (Height hd) (helper n)) n (\<lambda>strategy.
    seqR (initOrUpdateSMC K (upd_app (\<lambda>a. a\<lparr>a_rewardStrategy := strategy\<rparr>) n)) (\<lambda>(r, txBuffer) n.
    if rs_Code r \<noteq> c_CodeOK (jsn K) then (Inr (rs_Code r, rs_Log r, []), n)
    else (Inr (c_CodeOK (jsn K), [], txBuffer), n))))))"

fun mine_loop :: "'db Env \<Rightarrow> MineContract list \<Rightarrow> Response \<Rightarrow> (string, bytes) gomap \<Rightarrow> 'db Node \<Rightarrow>
    ('db Node, Response \<times> (string, bytes) gomap) act" where
  "mine_loop K [] result txBuffer n = (Inr (result, txBuffer), n)"
| "mine_loop K (v # vs) result txBuffer n =
    need (GetContract (ext K) (jsn K) (mc_Address v) (helper n)) n (\<lambda>c. case c of
      None \<Rightarrow> (Inr (result\<lparr>rs_Code := c_ErrLogicError K, rs_Log :=
        ''can not get smart contract to call mine method when begin block''\<rparr>, txBuffer), n)
    | Some contract \<Rightarrow>
      if ct_ChainVersion contract = 2 \<and> mc_MineHeight v \<le> BlockHeight (a_appState (app n))
      then seqR (new_tx n) (\<lambda>_ n.
           seqR (onH (Mine K (a_transID (app n)) (a_txID (app n)) (a_blockHeader (app n))
             (mc_Address v) (ct_Owner contract)) n) (\<lambda>result n.
           seqR (commit_and_hash K n) (\<lambda>txBuffer n.
           mine_loop K vs (result\<lparr>rs_Code := c_CodeOK (jsn K)\<rparr>) txBuffer n)))
      else mine_loop K vs result txBuffer n)"

definition mine :: "'db Env \<Rightarrow> 'db Node \<Rightarrow> ('db Node, Response \<times> (string, bytes) gomap) act" where
  "mine K n = need (GetMineContract (ext K) (jsn K) (a_transID (app n)) (a_txID (app n)) (helper n)) n (\<lambda>ms.
     mine_loop K ms (ok_response K) [] n)"

text \<open>\<open>strconv.ParseInt(s, 10, 64)\<close> with the error ignored.\<close>

definition ParseInt :: "string \<Rightarrow> int64" where
  "ParseInt s = (let (neg, ds) = (case s of [] \<Rightarrow> (False, [])
       | c # cs \<Rightarrow> if c = CHR ''-'' then (True, cs) else if c = CHR ''+'' then (False, cs) else (False, s))
     in if ds = [] \<or> \<not> list_all (\<lambda>c. (of_char c :: nat) \<in> {48..57}) ds then 0
        else clamp_int64 (if neg then - int (nat_of_dec ds) else int (nat_of_dec ds)))"

record ResponseEndBlock =
  re_RewardAmount :: int64
  re_ValidatorUpdates :: "AbciValidator list"
  re_SCGenesis :: "SideChainGenesis list"
  re_ChainVersion :: int

definition EndBlock :: "'db Env \<Rightarrow> 'db Node \<Rightarrow> ('db Node, ResponseEndBlock \<times> (string, bytes) gomap) act" where
  "EndBlock K n = seqR (mine K n) (\<lambda>(resp, txBuffer) n.
    let a = app n;
        res = \<lparr>re_RewardAmount = (if rs_Code resp = c_CodeOK (jsn K) \<and> length (rs_Data resp) \<noteq> 0
                 then ParseInt (rs_Data resp) else 0),
               re_ValidatorUpdates = (if a_udValidator a then a_validators a else []),
               re_SCGenesis = a_scGenesis a, re_ChainVersion = ChainVersion (a_appState a)\<rparr>
    in (Inr (res, txBuffer), upd_app (\<lambda>a. a\<lparr>a_udValidator := False,
          a_validators := (if a_udValidator a then [] else a_validators a), a_scGenesis := []\<rparr>) n))"

definition be64 :: "uint64 \<Rightarrow> bytes" where
  "be64 w = map (\<lambda>i. ucast (drop_bit (8 * (7 - i)) w)) [0..<8]"

definition commitBlock :: "'db Env \<Rightarrow> 'db Node \<Rightarrow> ('db Node, unit) act" where
  "commitBlock K n =
    (let t = a_transID (app n); x = a_txID (app n)
     in seqR (onH (SetWorldAppState (jsn K) t x (a_appState (app n))) n) (\<lambda>_ n.
        seqR (onH (CommitTx t x) n) (\<lambda>_ n.
        seqR (onH (CommitBlock (ext K) t) n) (\<lambda>_ n.
        (Inr (), upd_app (\<lambda>a. a\<lparr>a_sponser := [], a_rewarder := []\<rparr>) n)))))"

definition commitEmptyBlock :: "'db Env \<Rightarrow> 'db Node \<Rightarrow> ('db Node, AppState) act" where
  "commitEmptyBlock K n = seqR (commitBlock K n) (\<lambda>_ n.
     (Inr (no_state\<lparr>BlockHeight := BlockHeight (a_appState (app n)), AppHash := AppHash (a_appState (app n))\<rparr>), n))"

definition reward_pairs :: "(string, int64) gomap \<Rightarrow> (string \<times> bytes) list" where
  "reward_pairs rewards = map (\<lambda>k. (k, be64 (case map_of rewards k of Some v \<Rightarrow> v | None \<Rightarrow> 0)))
     (sort (map fst rewards))"

definition deliver_commit :: "'db Env \<Rightarrow> 'db Node \<Rightarrow> ('db Node, AppState) act" where
  "deliver_commit K n =
    (if length (a_hashList (app n)) = 0 then commitEmptyBlock K n
     else let hashListSha = Sha3_256 K (concat (a_hashList (app n)));
              n = upd_app (\<lambda>a. a\<lparr>a_appState := (a_appState a)\<lparr>
                AppHash := Sha3_256 K (AppHash (a_appState a) @ hashListSha),
                TxsHashList := a_hashList a, Rewards := reward_pairs (a_rewards a), Fee := a_fee a\<rparr>\<rparr>) n
          in seqR (commitBlock K n) (\<lambda>_ n. (Inr (a_appState (app n)), n)))"

section \<open>Entry points for transactions of version 1 (\<open>deliver.go\<close>), and undoing a block\<close>

definition AddDeliverHash :: "bytes \<Rightarrow> 'db Node \<Rightarrow> 'db Node" where
  "AddDeliverHash deliverHash = upd_app (\<lambda>a. a\<lparr>a_hashList := a_hashList a @ [deliverHash]\<rparr>)"

definition AddFee :: "int64 \<Rightarrow> 'db Node \<Rightarrow> 'db Node" where
  "AddFee f = upd_app (\<lambda>a. a\<lparr>a_fee := a_fee a + f\<rparr>)"

definition AddRewardValues :: "(string, uint64) gomap \<Rightarrow> 'db Node \<Rightarrow> 'db Node" where
  "AddRewardValues rewardValues = upd_app (\<lambda>a. a\<lparr>a_rewards :=
     foldl (\<lambda>m (k, v). add_reward k v m) (a_rewards a) rewardValues\<rparr>)"

definition deliver_rollback :: "'db Env \<Rightarrow> 'db Node \<Rightarrow> ('db Node, unit) act" where
  "deliver_rollback K = onH (RollbackStateDB (ext K) 1)"

section \<open>Checking a transaction (\<open>check_tx.go\<close>)\<close>

text \<open>A deferred call runs after the body, also when the body panics.\<close>

definition deferred :: "('s, 'a) act \<Rightarrow> ('s \<Rightarrow> ('s, unit) act) \<Rightarrow> ('s, 'a) act" where
  "deferred m f = (let (r, s) = m in case f s of (Inl e, s') \<Rightarrow> (Inl e, s') | (Inr _, s') \<Rightarrow> (r, s'))"

definition check_response :: "nat \<Rightarrow> string \<Rightarrow> string \<Rightarrow> ResponseCheckTx" where
  "check_response code l d = \<lparr>rk_Code = code, rk_Log = l, rk_Data = d\<rparr>"

definition runCheckBCTx :: "'db Env \<Rightarrow> string \<Rightarrow> string \<Rightarrow> TxData \<Rightarrow> bytes \<Rightarrow> 'db Helper \<Rightarrow>
    ('db Helper, ResponseCheckTx) act" where
  "runCheckBCTx K app_chainID tx transaction pubKey h =
    (let E = ext K; J = jsn K
     in if c_MaxSizeNote K < length (td_Note transaction)
     then (Inr (check_response (c_ErrCheckTx K) ''Invalid transaction note'' []), h)
     else let (t, h) = NewRollbackTransactionID h
     in seqR (GetChainID E J h) (\<lambda>cid h.
     let sender = Address_of K pubKey cid
     in need (CheckAccountNonce E J t 1 sender (td_Nonce transaction) h) h (\<lambda>err.
     if err \<noteq> None then (Inr (check_response (c_ErrCheckTx K) ''Invalid nonce'' []), h)
     else seqR (Helper_BeginBlock E J t h) (\<lambda>_ h.
     deferred
       (need (GetWorldAppState E J 0 0 h) h (\<lambda>appStat.
        let bh = bb_Header (BeginBlock appStat);
            blockHeader = (if BlockHeight appStat = 0 then no_header\<lparr>ChainID := app_chainID, Height := 0\<rparr>
              else bh\<lparr>Height := Height bh + 1\<rparr>)
        in seqR (InvokeTx K blockHeader t 1 sender transaction pubKey (CalcCodeHash K tx)
             (bb_Hash (BeginBlock appStat)) h) (\<lambda>result h.
           (Inr (if rs_Code result = c_CodeBVMQueryOK K
             then check_response (c_CodeBVMQueryOK K) (rs_Log result) (rs_Data result)
             else if rs_Code result \<noteq> c_CodeOK J then check_response (rs_Code result) (rs_Log result) []
             else check_response (c_CodeOK J) ''CheckTx success'' []), h))))
       (RollbackBlock t)))))"

definition CheckBCTx :: "'db Env \<Rightarrow> string \<Rightarrow> string \<Rightarrow> 'db Helper \<Rightarrow> ('db Helper, ResponseCheckTx) act" where
  "CheckBCTx K app_chainID tx h =
    seqR (if app_chainID = [] then GetChainID (ext K) (jsn K) h else (Inr app_chainID, h)) (\<lambda>cid h.
    case (case TxParse_v2 K cid tx of Inr r \<Rightarrow> Inr r | Inl _ \<Rightarrow> TxParse_v3 K cid tx) of
      Inl err \<Rightarrow> (Inr (check_response (c_ErrCheckTx K) err []), h)
    | Inr (transaction, pubKey) \<Rightarrow> runCheckBCTx K cid tx transaction pubKey h)"

end
