(* ===== verification/Ledger.thy ===== *)
theory Ledger
  imports Prelude
begin

text \<open>
  The contract of a table of balances: \<open>put\<close> sets the balance of one account and leaves the others.
  The clients credit accounts one by one; what they credit is what the total grows by.
\<close>

section \<open>Crediting a list of accounts\<close>

fun credits :: "('a \<times> int) list \<Rightarrow> ('a \<Rightarrow> int) \<Rightarrow> 'a \<Rightarrow> int" where
  "credits [] f = f"
| "credits ((a, v) # xs) f = credits xs (f(a := f a + v))"

lemma credits_append: "credits (xs @ ys) f = credits ys (credits xs f)"
  by (induction xs arbitrary: f) auto

lemma credits_apply: "credits xs f a = f a + (\<Sum>(b, v) \<leftarrow> xs. if b = a then v else 0)"
  by (induction xs arbitrary: f) auto

lemma credits_total:
  assumes "finite S" "fst ` set xs \<subseteq> S"
  shows "sum (credits xs f) S = sum f S + (\<Sum>(a, v) \<leftarrow> xs. v)"
  using assms
proof (induction xs arbitrary: f)
  case (Cons x xs)
  obtain a v where x: "x = (a, v)" by fastforce
  have "sum (f(a := f a + v)) S = sum f S + v"
    using Cons(2,3) x sum.remove [of S a "f(a := f a + v)"] sum.remove [of S a f] by simp
  then show ?case using Cons x by simp
qed simp

lemma credits_cong:
  assumes "\<And>b. P b \<Longrightarrow> f b = g b" "P a"
  shows "credits xs f a = credits xs g a"
  using assms by (simp add: credits_apply)

section \<open>The interface\<close>

locale ledger =
  fixes ok :: "'s \<Rightarrow> bool" and acct :: "'a \<Rightarrow> bool" and bal :: "'s \<Rightarrow> 'a \<Rightarrow> int"
    and put :: "'a \<Rightarrow> int \<Rightarrow> 's \<Rightarrow> ('s, unit) act"
    and touch :: "'a \<Rightarrow> 's \<Rightarrow> ('s, unit) act"
  assumes put_law: "ok s \<Longrightarrow> acct a \<Longrightarrow>
      \<exists>s'. put a v s = (Inr (), s') \<and> ok s' \<and> (\<forall>b. acct b \<longrightarrow> bal s' b = ((bal s)(a := v)) b)"
    and touch_law: "ok s \<Longrightarrow> acct a \<Longrightarrow>
      \<exists>s'. touch a s = (Inr (), s') \<and> ok s' \<and> (\<forall>b. acct b \<longrightarrow> bal s' b = bal s b)"
begin

lemma credit:
  assumes "ok s" "acct a"
  obtains s1 s2 where "put a (bal s a + v) s = (Inr (), s1)" "touch a s1 = (Inr (), s2)" "ok s1" "ok s2"
    "\<And>b. acct b \<Longrightarrow> bal s2 b = ((bal s)(a := bal s a + v)) b"
proof -
  obtain s1 where s1: "put a (bal s a + v) s = (Inr (), s1)" "ok s1"
    "\<forall>b. acct b \<longrightarrow> bal s1 b = ((bal s)(a := bal s a + v)) b"
    using put_law [OF assms] by blast
  obtain s2 where s2: "touch a s1 = (Inr (), s2)" "ok s2" "\<forall>b. acct b \<longrightarrow> bal s2 b = bal s1 b"
    using touch_law [OF s1(2) assms(2)] by blast
  show thesis by (rule that [OF s1(1) s2(1) s1(2) s2(2)]) (simp add: s1(3) s2(3))
qed

text \<open>Each account is credited, then touched.\<close>

fun settle :: "('a \<times> int) list \<Rightarrow> 's \<Rightarrow> ('s, unit) act" where
  "settle [] s = (Inr (), s)"
| "settle ((a, v) # xs) s = seqR (put a (bal s a + v) s) (\<lambda>_ s. seqR (touch a s) (\<lambda>_. settle xs))"

lemma settle_run:
  assumes "ok s" "\<forall>(a, v) \<in> set xs. acct a"
  shows "\<exists>s'. settle xs s = (Inr (), s') \<and> ok s' \<and> (\<forall>b. acct b \<longrightarrow> bal s' b = credits xs (bal s) b)"
  using assms
proof (induction xs arbitrary: s)
  case (Cons x xs)
  obtain a v where x: "x = (a, v)" by fastforce
  have a: "acct a" and xs: "\<forall>(a, v) \<in> set xs. acct a" using Cons.prems(2) x by auto
  obtain s1 s2 where s2: "put a (bal s a + v) s = (Inr (), s1)" "touch a s1 = (Inr (), s2)" "ok s1" "ok s2"
    "\<And>b. acct b \<Longrightarrow> bal s2 b = ((bal s)(a := bal s a + v)) b"
    by (rule credit [OF Cons.prems(1) a]) blast
  obtain s3 where s3: "settle xs s2 = (Inr (), s3)" "ok s3" "\<forall>b. acct b \<longrightarrow> bal s3 b = credits xs (bal s2) b"
    using Cons.IH [OF s2(4) xs] by blast
  have "bal s3 b = credits xs ((bal s)(a := bal s a + v)) b" if "acct b" for b
    using that s3(3) credits_cong [of acct "bal s2" "(bal s)(a := bal s a + v)" b xs] s2(5) by simp
  then show ?case using s2(1,2) s3(1,2) x by simp
qed simp

lemma settle_total:
  assumes "ok s" "\<forall>(a, v) \<in> set xs. acct a" "settle xs s = (Inr (), s')"
    and S: "finite S" "\<forall>a \<in> S. acct a" "fst ` set xs \<subseteq> S"
  shows "sum (bal s') S = sum (bal s) S + (\<Sum>(a, v) \<leftarrow> xs. v)"
proof -
  have "\<forall>b. acct b \<longrightarrow> bal s' b = credits xs (bal s) b"
    using settle_run [OF assms(1,2)] assms(3) by auto
  then have "sum (bal s') S = sum (credits xs (bal s)) S" using S(2) by (intro sum.cong) auto
  then show ?thesis using credits_total [OF S(1,3)] by simp
qed

end

end
