(* ===== verification/Deliver_Fee.thy ===== *)
theory Deliver_Fee
  imports Deliver Ledger Json_Model
begin

text \<open>
  The balances a node keeps are a ledger: \<open>SetBalance\<close> and \<open>AddAccountToken\<close> satisfy the contract of
  \<open>Ledger\<close> for addresses without a slash, in a state where the stored texts can be read. The
  distribution of a fee is a sequence of credits.
\<close>

section \<open>Balances of one token in the open transaction\<close>

definition plain :: "string \<Rightarrow> bool" where
  "plain a \<longleftrightarrow> CHR ''/'' \<notin> set a"

lemma slash_split:
  assumes "plain a" "plain b" "a @ CHR ''/'' # x = b @ CHR ''/'' # y"
  shows "a = b \<and> x = y"
  using assms
proof (induction a arbitrary: b)
  case Nil
  then show ?case by (cases b) (auto simp: plain_def)
next
  case (Cons c a)
  then show ?case by (cases b) (auto simp: plain_def)
qed

definition node_view :: "'db Env \<Rightarrow> 'db Node \<Rightarrow> contents" where
  "node_view K n = tx_view (ext K) (a_transID (app n)) (a_txID (app n)) (helper n)"

definition read_balance :: "json \<Rightarrow> bytes \<Rightarrow> string + int" where
  "read_balance J v = (if v = [] then Inr 0 else andThen (decode (j_Balance J) [] v) (\<lambda>acc. Inr (ab_Balance acc)))"

definition node_balance :: "'db Env \<Rightarrow> string \<Rightarrow> 'db Node \<Rightarrow> string \<Rightarrow> int" where
  "node_balance K tok n a = (case read_balance (jsn K) (node_view K n (KeyOfAccountToken a tok)) of
     Inr v \<Rightarrow> v | Inl _ \<Rightarrow> 0)"

definition ledger_ok :: "'db Env \<Rightarrow> string \<Rightarrow> 'db Node \<Rightarrow> bool" where
  "ledger_ok K tok n \<longleftrightarrow> ext_ok (ext K) \<and> codec_ok (j_Balance (jsn K)) \<and> codec_ok (j_strings (jsn K))
    \<and> tx_of (a_transID (app n)) (a_txID (app n)) (helper n) \<noteq> None
    \<and> (\<forall>a. plain a \<longrightarrow> (\<exists>v. read_balance (jsn K) (node_view K n (KeyOfAccountToken a tok)) = Inr v)
        \<and> (\<exists>l. decode_or [] (j_strings (jsn K)) [] (node_view K n (KeyOfAccount a)) = Inr l))"

definition put_balance :: "'db Env \<Rightarrow> string \<Rightarrow> string \<Rightarrow> int \<Rightarrow> 'db Node \<Rightarrow> ('db Node, unit) act" where
  "put_balance K tok a v n = onH (SetBalance (jsn K) (a_transID (app n)) (a_txID (app n)) a tok v) n"

definition list_token :: "'db Env \<Rightarrow> string \<Rightarrow> string \<Rightarrow> 'db Node \<Rightarrow> ('db Node, unit) act" where
  "list_token K tok a n = (if V2_0_1_13780 (TagToForkInfo K) (Height (a_blockHeader (app n))) then (Inr (), n)
     else onH (AddAccountToken (ext K) (jsn K) (a_transID (app n)) (a_txID (app n)) a tok) n)"

lemma KeyOfAccountToken_inject [simp]: "KeyOfAccountToken a tok = KeyOfAccountToken b tok \<longleftrightarrow> a = b"
  by (simp add: KeyOfAccountToken_def)

lemma plain_keys:
  assumes "plain a"
  shows "KeyOfAccount a \<noteq> KeyOfAccountToken b tok" "KeyOfAccountToken b tok \<noteq> KeyOfAccount a"
proof -
  have "KeyOfAccount a \<noteq> KeyOfAccountToken b tok"
  proof
    assume "KeyOfAccount a = KeyOfAccountToken b tok"
    then have "a = b @ ''/token/'' @ tok" by (simp add: KeyOfAccount_def KeyOfAccountToken_def)
    then show False using assms by (simp add: plain_def)
  qed
  then show "KeyOfAccount a \<noteq> KeyOfAccountToken b tok" "KeyOfAccountToken b tok \<noteq> KeyOfAccount a" by auto
qed

lemma KeyOfAccount_inject [simp]: "KeyOfAccount a = KeyOfAccount b \<longleftrightarrow> a = b"
  by (simp add: KeyOfAccount_def)

lemma BalanceOf_node:
  assumes "ledger_ok K tok n" "plain a"
  shows "BalanceOf (ext K) (jsn K) (a_transID (app n)) (a_txID (app n)) a tok (helper n)
    = Inr (node_balance K tok n a)"
proof -
  obtain tx where x: "tx_of (a_transID (app n)) (a_txID (app n)) (helper n) = Some tx"
    using assms by (auto simp: ledger_ok_def)
  obtain t where t: "tran (a_transID (app n)) (helper n) = Some t" using tx_of_tran [OF x] by blast
  obtain v where v: "read_balance (jsn K) (node_view K n (KeyOfAccountToken a tok)) = Inr v"
    using assms by (auto simp: ledger_ok_def)
  have E: "ext_ok (ext K)" using assms by (simp add: ledger_ok_def)
  have "BalanceOf (ext K) (jsn K) (a_transID (app n)) (a_txID (app n)) a tok (helper n)
     = read_balance (jsn K) (node_view K n (KeyOfAccountToken a tok))"
    unfolding BalanceOf_def get_run [OF E t] by (simp add: read_balance_def node_view_def)
  then show ?thesis by (simp add: v node_balance_def)
qed

text \<open>A write of a readable text under one key.\<close>

lemma ledger_write:
  assumes ok: "ledger_ok K tok n" and c: "codec_ok c"
    and b: "\<And>b. marshal c y = Inr b \<Longrightarrow> b \<noteq> [] \<Longrightarrow> unmarshal c b = Inr y \<Longrightarrow>
        (\<forall>a. plain a \<longrightarrow> k = KeyOfAccountToken a tok \<longrightarrow> (\<exists>v. read_balance (jsn K) b = Inr v))
      \<and> (\<forall>a. plain a \<longrightarrow> k = KeyOfAccount a \<longrightarrow> (\<exists>l. decode_or [] (j_strings (jsn K)) [] b = Inr l))"
  obtains h' b where "write_json c m (a_transID (app n)) (a_txID (app n)) k y (helper n) = (Inr (), h')"
    "marshal c y = Inr b" "b \<noteq> []" "unmarshal c b = Inr y"
    "node_view K (n\<lparr>helper := h'\<rparr>) = (node_view K n)(k := b)" "ledger_ok K tok (n\<lparr>helper := h'\<rparr>)"
proof -
  let ?t = "a_transID (app n)" and ?x = "a_txID (app n)"
  obtain v where v: "marshal c y = Inr v" "v \<noteq> []" "unmarshal c v = Inr y"
    by (rule codec_marshal [OF c])
  obtain tx where x: "tx_of ?t ?x (helper n) = Some tx" using ok by (auto simp: ledger_ok_def)
  obtain h' where h': "helper_set ?t ?x k v (helper n) = (Inr (), h')" "rest h' = rest (helper n)"
    "\<And>j. tran j h' = tran j (helper n)"
    "\<And>j y. tx_of j y h' = (if j = ?t \<and> y = ?x then Some (Tx_Set tx k v) else tx_of j y (helper n))"
    "\<And>E. tx_view E ?t ?x h' = (tx_view E ?t ?x (helper n))(k := v)"
    by (rule set_run [OF x v(2)]) blast
  have view: "node_view K (n\<lparr>helper := h'\<rparr>) = (node_view K n)(k := v)"
    by (simp add: node_view_def h'(5))
  have "ledger_ok K tok (n\<lparr>helper := h'\<rparr>)"
    using ok b [OF v] unfolding ledger_ok_def view by (simp add: h'(4))
  then show thesis
    using that [of h' v] h'(1) v view by (simp add: write_json_def)
qed

lemma put_balance_law:
  assumes ok: "ledger_ok K tok n" and a: "plain a"
  shows "\<exists>n'. put_balance K tok a v n = (Inr (), n') \<and> ledger_ok K tok n'
    \<and> (\<forall>b. plain b \<longrightarrow> node_balance K tok n' b = ((node_balance K tok n)(a := v)) b)"
proof -
  let ?y = "\<lparr>ab_Address = tok, ab_Balance = v\<rparr>" and ?k = "KeyOfAccountToken a tok"
  have c: "codec_ok (j_Balance (jsn K))" using ok by (simp add: ledger_ok_def)
  obtain h' b where h': "write_json (j_Balance (jsn K)) (''cannot set account balance'' @ [CHR 0xEF, CHR 0xBC, CHR 0x9A])
      (a_transID (app n)) (a_txID (app n)) ?k ?y (helper n) = (Inr (), h')"
    "marshal (j_Balance (jsn K)) ?y = Inr b" "b \<noteq> []" "unmarshal (j_Balance (jsn K)) b = Inr ?y"
    "node_view K (n\<lparr>helper := h'\<rparr>) = (node_view K n)(?k := b)" "ledger_ok K tok (n\<lparr>helper := h'\<rparr>)"
    by (rule ledger_write [OF ok c, where y = ?y and k = ?k])
      (use plain_keys in \<open>auto simp: read_balance_def decode_def\<close>)
  have "node_balance K tok (n\<lparr>helper := h'\<rparr>) d = ((node_balance K tok n)(a := v)) d" for d
    unfolding node_balance_def h'(5) using h'(3,4) by (simp add: read_balance_def decode_def)
  then show ?thesis
    using h'(1,6) by (auto simp: put_balance_def onH_def SetBalance_def)
qed

lemma list_token_law:
  assumes ok: "ledger_ok K tok n" and a: "plain a"
  shows "\<exists>n'. list_token K tok a n = (Inr (), n') \<and> ledger_ok K tok n'
    \<and> (\<forall>b. plain b \<longrightarrow> node_balance K tok n' b = node_balance K tok n b)"
proof -
  let ?t = "a_transID (app n)" and ?x = "a_txID (app n)"
  have E: "ext_ok (ext K)" and c: "codec_ok (j_strings (jsn K))" using ok by (simp_all add: ledger_ok_def)
  obtain tx where x: "tx_of ?t ?x (helper n) = Some tx" using ok by (auto simp: ledger_ok_def)
  obtain t where t: "tran ?t (helper n) = Some t" using tx_of_tran [OF x] by blast
  obtain l where l: "decode_or [] (j_strings (jsn K)) [] (node_view K n (KeyOfAccount a)) = Inr l"
    using ok a by (auto simp: ledger_ok_def)
  let ?y = "l @ [KeyOfAccountToken a tok]"
  obtain h' b where h': "write_json (j_strings (jsn K)) [] ?t ?x (KeyOfAccount a) ?y (helper n) = (Inr (), h')"
    "marshal (j_strings (jsn K)) ?y = Inr b" "b \<noteq> []" "unmarshal (j_strings (jsn K)) b = Inr ?y"
    "node_view K (n\<lparr>helper := h'\<rparr>) = (node_view K n)(KeyOfAccount a := b)" "ledger_ok K tok (n\<lparr>helper := h'\<rparr>)"
    by (rule ledger_write [OF ok c, where y = ?y and k = "KeyOfAccount a" and m = "[]"])
      (use plain_keys [OF a] in \<open>auto simp: decode_or_def decode_def\<close>)
  have bal: "node_balance K tok (n\<lparr>helper := h'\<rparr>) d = node_balance K tok n d" for d
    unfolding node_balance_def h'(5) using plain_keys [OF a] by simp
  have run: "AddAccountToken (ext K) (jsn K) ?t ?x a tok (helper n) =
      (if KeyOfAccountToken a tok \<in> set l then (Inr (), helper n) else (Inr (), h'))"
    unfolding AddAccountToken_def get_run [OF E t] using l h'(1) by (simp add: node_view_def Let_def)
  show ?thesis
  proof (cases "V2_0_1_13780 (TagToForkInfo K) (Height (a_blockHeader (app n))) \<or> KeyOfAccountToken a tok \<in> set l")
    case True
    then have "list_token K tok a n = (Inr (), n)" by (auto simp: list_token_def onH_def run)
    then show ?thesis using ok by simp
  next
    case False
    then have "list_token K tok a n = (Inr (), n\<lparr>helper := h'\<rparr>)" by (auto simp: list_token_def onH_def run)
    then show ?thesis using bal h'(6) by simp
  qed
qed

interpretation fees: ledger "ledger_ok K tok" plain "node_balance K tok" "put_balance K tok" "list_token K tok"
  for K :: "'db Env" and tok
  by unfold_locales (rule put_balance_law list_token_law; assumption)+

section \<open>The distribution of a fee\<close>

definition percent_of :: "'db Env \<Rightarrow> Rewarder \<Rightarrow> int" where
  "percent_of K r = (case percent100 K (rw_RewardPercent r) of Inr p \<Rightarrow> sint p | Inl _ \<Rightarrow> 0)"

definition award :: "'db Env \<Rightarrow> StdFee \<Rightarrow> Rewarder \<Rightarrow> int" where
  "award K fee r = DivI K (sint (fe_Value fee) * percent_of K r) 10000"

definition awards :: "'db Env \<Rightarrow> StdFee \<Rightarrow> string \<Rightarrow> Rewarder list \<Rightarrow> (string \<times> int) list" where
  "awards K fee proposer rs = map (\<lambda>r. (reward_addr proposer r, award K fee r)) rs"

definition count_rewards :: "(string \<times> int) list \<Rightarrow> (string, int64) gomap \<Rightarrow> (string, int64) gomap" where
  "count_rewards xs m = foldl (\<lambda>m (a, v). add_reward a (clamp_int64 v) m) m xs"

lemma ledger_ok_rewards [simp]:
  "ledger_ok K tok (upd_app (\<lambda>a. a\<lparr>a_rewards := f a\<rparr>) n) = ledger_ok K tok n"
  "node_balance K tok (upd_app (\<lambda>a. a\<lparr>a_rewards := f a\<rparr>) n) = node_balance K tok n"
  by (simp_all add: ledger_ok_def node_balance_def node_view_def upd_app_def fun_eq_iff)

lemma onH_app: "onH f n = (r, n') \<Longrightarrow> app n' = app n"
  by (auto simp: onH_def split: prod.splits)

lemma put_balance_app: "put_balance K tok a v n = (r, n') \<Longrightarrow> app n' = app n"
  unfolding put_balance_def by (rule onH_app)

lemma list_token_app: "list_token K tok a n = (r, n') \<Longrightarrow> app n' = app n"
  by (auto simp: list_token_def dest: onH_app split: if_splits)

lemma distribute_rewards_run:
  assumes "ledger_ok K (fe_Token fee) n" "i + length rs = len"
    and "\<forall>r \<in> set rs. plain (reward_addr proposer r) \<and> (\<exists>p. percent100 K (rw_RewardPercent r) = Inr p)"
  shows "\<exists>n' new. distribute_rewards K fee proposer i len rs left receipts n = (Inr (receipts @ new, None), n')
    \<and> length new = length rs \<and> ledger_ok K (fe_Token fee) n'
    \<and> (\<forall>b. plain b \<longrightarrow> node_balance K (fe_Token fee) n' b
          = credits (awards K fee proposer rs) (node_balance K (fe_Token fee) n) b)
    \<and> app n' = (app n)\<lparr>a_rewards := count_rewards (awards K fee proposer rs) (a_rewards (app n))\<rparr>"
  using assms
proof (induction rs arbitrary: i left receipts n)
  case Nil
  then show ?case by (simp add: awards_def count_rewards_def)
next
  case (Cons r rs)
  let ?a = "reward_addr proposer r" and ?w = "award K fee r" and ?tok = "fe_Token fee"
  obtain p where p: "percent100 K (rw_RewardPercent r) = Inr p" using Cons.prems(3) by auto
  have a: "plain ?a" using Cons.prems(3) by simp
  have i: "i \<noteq> len" using Cons.prems(2) by simp
  have w: "DivI K (sint (fe_Value fee) * sint p) 10000 = ?w" using p by (simp add: award_def percent_of_def)
  obtain n1 n2 where n2: "put_balance K ?tok ?a (node_balance K ?tok n ?a + ?w) n = (Inr (), n1)"
    "list_token K ?tok ?a n1 = (Inr (), n2)" "ledger_ok K ?tok n1" "ledger_ok K ?tok n2"
    "\<And>b. plain b \<Longrightarrow> node_balance K ?tok n2 b = ((node_balance K ?tok n)(?a := node_balance K ?tok n ?a + ?w)) b"
    by (rule fees.credit [OF Cons.prems(1) a]) blast
  have app: "app n1 = app n" "app n2 = app n"
    using put_balance_app [OF n2(1)] list_token_app [OF n2(2)] by simp_all
  let ?n3 = "upd_app (\<lambda>x. x\<lparr>a_rewards := add_reward ?a (clamp_int64 ?w) (a_rewards x)\<rparr>) n2"
  have ok3: "ledger_ok K ?tok ?n3" using n2(4) by simp
  have i3: "Suc i + length rs = len" and
    r3: "\<forall>r \<in> set rs. plain (reward_addr proposer r) \<and> (\<exists>p. percent100 K (rw_RewardPercent r) = Inr p)"
    using Cons.prems(2,3) by simp_all
  obtain n4 new where n4: "distribute_rewards K fee proposer (Suc i) len rs (left - clamp_int64 ?w)
      (receipts @ [emitTransferReceipt K (fe_From fee) ?a ?tok ?w]) ?n3 =
      (Inr ((receipts @ [emitTransferReceipt K (fe_From fee) ?a ?tok ?w]) @ new, None), n4)"
    "length new = length rs" "ledger_ok K ?tok n4"
    "\<forall>b. plain b \<longrightarrow> node_balance K ?tok n4 b = credits (awards K fee proposer rs) (node_balance K ?tok ?n3) b"
    "app n4 = (app ?n3)\<lparr>a_rewards := count_rewards (awards K fee proposer rs) (a_rewards (app ?n3))\<rparr>"
    using Cons.IH [OF ok3 i3 r3, of "left - clamp_int64 ?w"
      "receipts @ [emitTransferReceipt K (fe_From fee) ?a ?tok ?w]"] by blast
  have run: "distribute_rewards K fee proposer i len (r # rs) left receipts n =
      (Inr (receipts @ (emitTransferReceipt K (fe_From fee) ?a ?tok ?w # new), None), n4)"
    using n2(1,2) n4(1) i p w BalanceOf_node [OF Cons.prems(1) a]
    by (cases "V2_0_1_13780 (TagToForkInfo K) (Height (a_blockHeader (app n)))")
      (simp_all add: Let_def put_balance_def list_token_def app)
  have bal: "node_balance K ?tok n4 b = credits (awards K fee proposer (r # rs)) (node_balance K ?tok n) b"
    if "plain b" for b
    using n4(4) that credits_cong [of plain "node_balance K ?tok n2"
        "(node_balance K ?tok n)(?a := node_balance K ?tok n ?a + ?w)" b "awards K fee proposer rs"] n2(5)
    by (simp add: awards_def)
  have "app n4 = (app n)\<lparr>a_rewards := count_rewards (awards K fee proposer (r # rs)) (a_rewards (app n))\<rparr>"
    using n4(5) app by (simp add: upd_app_def awards_def count_rewards_def)
  then show ?case using run n4(2,3) bal by (intro exI [of _ n4] exI) auto
qed

text \<open>What is paid out of a fee, with shares that add up to at most 100 percent.\<close>

definition shares_ok :: "'db Env \<Rightarrow> string \<Rightarrow> Rewarder list \<Rightarrow> bool" where
  "shares_ok K proposer rs \<longleftrightarrow> (\<forall>r \<in> set rs. plain (reward_addr proposer r)
      \<and> (\<exists>p. percent100 K (rw_RewardPercent r) = Inr p) \<and> 0 \<le> percent_of K r)
    \<and> sum_list (map (percent_of K) rs) \<le> 10000"

definition div_ok :: "'db Env \<Rightarrow> bool" where
  "div_ok K \<longleftrightarrow> (\<forall>a b. 0 \<le> a \<longrightarrow> 0 < b \<longrightarrow> DivI K a b = a div b)"

lemma awards_bounds:
  fixes K :: "'db Env" and proposer :: string and rs :: "Rewarder list" and fee :: StdFee
  assumes "div_ok K" "0 \<le> sint (fe_Value fee)" "\<forall>r \<in> set rs. 0 \<le> percent_of K r"
  defines "paid \<equiv> sum_list (map snd (awards K fee proposer rs))"
    and "p \<equiv> sum_list (map (percent_of K) rs)"
  shows "0 \<le> paid" "10000 * paid \<le> sint (fe_Value fee) * p"
    "sint (fe_Value fee) * p \<le> 10000 * paid + 9999 * int (length rs)"
proof -
  let ?f = "sint (fe_Value fee)"
  have a: "award K fee r = ?f * percent_of K r div 10000" if "r \<in> set rs" for r
    using assms(1-3) that by (simp add: award_def div_ok_def)
  have "0 \<le> sum_list (map (\<lambda>r. award K fee r) rs)"
    using a assms(2,3) by (intro sum_list_nonneg) (auto intro!: pos_imp_zdiv_nonneg_iff [THEN iffD2])
  then show "0 \<le> paid" by (simp add: paid_def awards_def comp_def)
  have "\<forall>r \<in> set rs. 10000 * award K fee r \<le> ?f * percent_of K r \<and> ?f * percent_of K r \<le> 10000 * award K fee r + 9999"
  proof
    fix r assume "r \<in> set rs"
    from a [OF this] show "10000 * award K fee r \<le> ?f * percent_of K r \<and> ?f * percent_of K r \<le> 10000 * award K fee r + 9999"
      by presburger
  qed
  then have "10000 * sum_list (map (award K fee) rs) \<le> ?f * sum_list (map (percent_of K) rs)
     \<and> ?f * sum_list (map (percent_of K) rs) \<le> 10000 * sum_list (map (award K fee) rs) + 9999 * int (length rs)"
  proof (induction rs)
    case (Cons r rs)
    then show ?case by (simp add: distrib_left)
  qed simp
  then show "10000 * paid \<le> ?f * p" "?f * p \<le> 10000 * paid + 9999 * int (length rs)"
    by (simp_all add: paid_def p_def awards_def comp_def)
qed

lemma distributeFee_run:
  assumes ok: "ledger_ok K (fe_Token fee) n" and pays: "\<not> isDlvOK \<or> isBVM" and payer: "plain (fe_From fee)"
    and sh: "shares_ok K proposer (a_rewardStrategy (app n))"
  obtains n' new where "distributeFee K fee proposer isDlvOK isBVM n = (Inr (new, None), n')"
    "length new = length (a_rewardStrategy (app n))" "ledger_ok K (fe_Token fee) n'"
    "\<And>b. plain b \<Longrightarrow> node_balance K (fe_Token fee) n' b
      = credits ((fe_From fee, - sint (fe_Value fee)) # awards K fee proposer (a_rewardStrategy (app n)))
          (node_balance K (fe_Token fee) n) b"
    "app n' = (app n)\<lparr>a_rewards := count_rewards (awards K fee proposer (a_rewardStrategy (app n))) (a_rewards (app n))\<rparr>"
proof -
  let ?tok = "fe_Token fee" and ?rs = "a_rewardStrategy (app n)" and ?f = "sint (fe_Value fee)"
  let ?v = "node_balance K ?tok n (fe_From fee) - ?f"
  obtain n1 where n1: "put_balance K ?tok (fe_From fee) ?v n = (Inr (), n1)" "ledger_ok K ?tok n1"
    "\<forall>b. plain b \<longrightarrow> node_balance K ?tok n1 b = ((node_balance K ?tok n)(fe_From fee := ?v)) b"
    using fees.put_law [OF ok payer] by blast
  have app1: "app n1 = app n" by (rule put_balance_app [OF n1(1)])
  obtain n2 new where n2: "distribute_rewards K fee proposer 0 (length ?rs) ?rs (fe_Value fee) [] n1 = (Inr ([] @ new, None), n2)"
    "length new = length ?rs" "ledger_ok K ?tok n2"
    "\<forall>b. plain b \<longrightarrow> node_balance K ?tok n2 b = credits (awards K fee proposer ?rs) (node_balance K ?tok n1) b"
    "app n2 = (app n1)\<lparr>a_rewards := count_rewards (awards K fee proposer ?rs) (a_rewards (app n1))\<rparr>"
    using distribute_rewards_run [OF n1(2), of 0 ?rs "length ?rs" proposer "fe_Value fee" "[]"] sh
    by (auto simp: shares_ok_def)
  show thesis
  proof (rule that)
    show "distributeFee K fee proposer isDlvOK isBVM n = (Inr (new, None), n2)"
      using n1(1) n2(1) pays BalanceOf_node [OF ok payer]
      by (simp add: distributeFee_def Let_def put_balance_def app1)
    show "node_balance K ?tok n2 b = credits ((fe_From fee, - ?f) # awards K fee proposer ?rs) (node_balance K ?tok n) b"
      if "plain b" for b
      using n2(4) that credits_cong [of plain "node_balance K ?tok n1"
          "(node_balance K ?tok n)(fe_From fee := ?v)" b "awards K fee proposer ?rs"] n1(3) by simp
  qed (use n2 app1 in simp_all)
qed

end
