(* ===== verification/Deliver_Model.thy ===== *)
theory Deliver_Model
  imports Deliver_Fee
begin

text \<open>
  A concrete environment for the witnesses of the delivery properties: codecs for fees and receipts,
  a contract that writes an entry and asks for a fee of 10 and that fails unless the note says
  otherwise, two rewarders with 20 and 80 percent.
\<close>

definition receipt_codec :: "Receipt codec" where
  "receipt_codec = \<lparr>marshal = (\<lambda>r. Inr (enc_entries [(rc_Name r, rc_Bytes r), ([], rc_Hash r)])),
     unmarshal = (\<lambda>b. case dec_entries (length b) b of
         [(name, bs), (_, hash)] \<Rightarrow> Inr \<lparr>rc_Name = name, rc_Bytes = bs, rc_Hash = hash\<rparr>
       | _ \<Rightarrow> Inl ''not a receipt'')\<rparr>"

definition fee_codec :: "StdFee codec" where
  "fee_codec = \<lparr>marshal = (\<lambda>f. Inr (enc_entries [(fe_Token f, bytes_of_string (fe_From f)),
       (dec_of_int (sint (fe_Value f)), fe_others f)])),
     unmarshal = (\<lambda>b. case dec_entries (length b) b of
         [(token, payer), (v, others)] \<Rightarrow> Inr \<lparr>fe_Token = token, fe_From = string_of_bytes payer,
            fe_Value = word_of_int (int_of_dec v), fe_others = others\<rparr>
       | _ \<Rightarrow> Inl ''not a fee'')\<rparr>"

definition demo_fee :: StdFee where
  "demo_fee = \<lparr>fe_Token = ''bcbT'', fe_From = ''bcbA'', fe_Value = 10, fe_others = []\<rparr>"

definition demo_tag :: KVPair where
  "demo_tag = \<lparr>kv_Key = ''/0/std::fee'', kv_Value = (case marshal fee_codec demo_fee of Inl _ \<Rightarrow> [] | Inr b \<Rightarrow>
     (case marshal receipt_codec \<lparr>rc_Name = ''std::fee'', rc_Bytes = b, rc_Hash = []\<rparr> of Inl _ \<Rightarrow> [] | Inr r \<Rightarrow> r))\<rparr>"

definition demo_contract :: "int \<Rightarrow> int \<Rightarrow> TxData \<Rightarrow> kvs Helper \<Rightarrow> (kvs Helper, Response) act" where
  "demo_contract i x td h = seqR (AdapterSetCallBack i x [(''/contract/data'', [1])] h) (\<lambda>_ h.
     (Inr \<lparr>rs_Code = (if td_Note td = ''ok'' then 200 else 500), rs_Log = [], rs_Data = [], rs_GasUsed = 1,
        rs_Fee = 10, rs_Tags = [demo_tag]\<rparr>, h))"

definition model_env :: "kvs Env" where
  "model_env = \<lparr>ext = model_ext, jsn = model_json, c_ErrDeliverTx = 5002, c_ErrCheckTx = 5003,
     c_ErrLogicError = 5004, c_CodeBVMQueryOK = 201, c_MaxSizeNote = 256,
     j_Fee = fee_codec, j_Transfer = no_codec, j_Receipt = receipt_codec, j_TypesReceipt = receipt_codec,
     j_SideChain = no_codec, j_GenesisInfo = no_codec, TagToForkInfo = (\<lambda>_. None),
     Address_of = (\<lambda>pk c. ''bcbA''), PubKeyEd25519FromBytes = (\<lambda>b. b), CalcCodeHash = bytes_of_string,
     Response_String = rd_Log, Md5 = (\<lambda>b. b), Sum256 = concat, Sha3_256 = (\<lambda>b. b), DivI = (div),
     percent100 = (\<lambda>s. Inr (100 * ParseInt s)), same_fold = (\<lambda>_ _. False),
     TxParse_v2 = (\<lambda>_ _. Inl ''parse''), TxParse_v3 = (\<lambda>_ _. Inl ''parse''),
     InvokeTx = (\<lambda>hd i x sender td pk ch bh. demo_contract i x td),
     InitOrUpdateSMC = (\<lambda>_ _ _ _ _ _ h. (Inl ''none'', h)), Mine = (\<lambda>_ _ _ _ _ h. (Inl ''none'', h))\<rparr>"

definition demo_rewards :: "Rewarder list" where
  "demo_rewards = [\<lparr>rw_Name = ''validators'', rw_RewardPercent = ''20'', rw_Address = []\<rparr>,
     \<lparr>rw_Name = ''fund'', rw_RewardPercent = ''80'', rw_Address = ''bcbF''\<rparr>]"

definition demo_node :: "kvs Node" where
  "demo_node = \<lparr>app = \<lparr>a_transID = 1, a_txID = 1, a_blockHash = [], a_blockHeader = no_header,
     a_appState = no_state, a_hashList = [], a_chainID = ''bcb'', a_sponser = [], a_rewarder = ''bcbP'',
     a_rewardStrategy = demo_rewards, a_udValidator = False, a_validators = [], a_fee = 0, a_rewards = [],
     a_scGenesis = []\<rparr>, helper = demo_open\<rparr>"

definition demo_tx :: TxData where
  "demo_tx = \<lparr>td_Nonce = 1, td_GasLimit = 100, td_Note = ''fail'',
     td_Messages = [\<lparr>ms_Contract = ''bcbC'', ms_MethodID = 7, ms_Items = []\<rparr>]\<rparr>"

lemma demo_gather: "gatherFeesByFromAddr model_env False [demo_tag] ([], [], 0) = Inr ([(''bcbA'', demo_fee)], [demo_tag], 10)"
  by code_simp

end
