(* ===== verification/Burrow_Store.thy ===== *)
theory Burrow_Store
  imports Deliver Bvm_VM
begin

text \<open>
  The state of the chain as the account state of the virtual machine (\<open>burrow/state.go\<close>): accounts, code and storage
  are keys of the open tx of \<open>State_Helper\<close>. \<open>AddAccountTokenKey\<close> is from \<open>acm/account.go\<close>.

  Outside: the keys of the chain's SDK (\<open>std\<close>), its record of a deployed contract, the parser of contract interfaces
  (\<open>hyperledger/burrow/abi\<close>, which works by reflection), and the block server. Both JSON libraries of the code write and
  read the same texts, so a type has one codec. As everywhere, \<open>nil\<close> and empty bytes from the store are both \<open>[]\<close>:
  an account whose stored code is empty has no code.
\<close>

section \<open>Data and external code\<close>

text \<open>\<open>std.BvmContract\<close>; a method is its identifier and its prototype.\<close>

record BvmContract =
  bc_Address :: string
  bc_Deployer :: string
  bc_Token :: string
  bc_BvmAbi :: string
  bc_ChainVersion :: int
  bc_Methods :: "(string \<times> string) list"
  bc_Events :: "string list"

text \<open>A parsed interface: by name, the methods with identifier and prototype, and the events.\<close>

record ABI =
  abi_Methods :: "(string, bytes \<times> string) gomap"
  abi_Events :: "(string, string) gomap"
  abi_text :: string

record 'db Chain =
  ch_ext :: "'db ext"
  ch_json :: json
  ch_crypto :: Crypto
  std_KeyOfAccountToken :: "string \<Rightarrow> string \<Rightarrow> string"
  std_KeyOfToken :: "string \<Rightarrow> string"
  j_BvmContract :: "BvmContract codec"
  abi_JSON :: "string \<Rightarrow> string + ABI"

text \<open>
  \<open>State\<close> together with the store it works on. A panic inside an operation ends the tx: it is kept, and nothing happens
  after it.
\<close>

record 'db BvmStore =
  bs_helper :: "'db Helper"
  bs_transID :: int
  bs_txID :: int
  bs_tokenAddr :: string
  bs_panic :: "string option"

definition bvm_NewState :: "int \<Rightarrow> int \<Rightarrow> 'db Helper \<Rightarrow> 'db BvmStore" where
  "bvm_NewState transID xid h =
    \<lparr>bs_helper = h, bs_transID = transID, bs_txID = xid, bs_tokenAddr = [], bs_panic = None\<rparr>"

definition bs_SetToken :: "string \<Rightarrow> 'db BvmStore \<Rightarrow> 'db BvmStore" where
  "bs_SetToken token s = s\<lparr>bs_tokenAddr := token\<rparr>"

definition bs_GetToken :: "'db BvmStore \<Rightarrow> string" where
  "bs_GetToken s = bs_tokenAddr s"

section \<open>Keys\<close>

definition bvm_addr :: "'db Chain \<Rightarrow> word160 \<Rightarrow> string + string" where
  "bvm_addr C a = (case ToAddr (ch_crypto C) a of None \<Rightarrow> Inl ''slice bounds out of range'' | Some addr \<Rightarrow> Inr addr)"

definition tokenKey :: "string \<Rightarrow> string" where
  "tokenKey addr = ''/bvm/'' @ addr @ ''/bvmToken''"

definition codeKey :: "string \<Rightarrow> string" where
  "codeKey addr = ''/bvm/'' @ addr @ ''/bvmCode''"

definition storageKey :: "string \<Rightarrow> word256 \<Rightarrow> string" where
  "storageKey addr key = ''/bvm/'' @ addr @ ''/storage/'' @ Word256_String key"

definition contractInfoKey :: "string \<Rightarrow> string" where
  "contractInfoKey contractAddr = ''/bvm/contract/'' @ contractAddr"

section \<open>Reads and writes of the tx\<close>

definition bs_read :: "'db Chain \<Rightarrow> 'db BvmStore \<Rightarrow> string \<Rightarrow> string + bytes" where
  "bs_read C s key = helper_get (ch_ext C) (bs_transID s) (bs_txID s) key (bs_helper s)"

definition on_helper :: "(int \<Rightarrow> int \<Rightarrow> 'db Helper \<Rightarrow> ('db Helper, 'a) act) \<Rightarrow> 'db BvmStore \<Rightarrow> ('db BvmStore, 'a) act" where
  "on_helper f s = (case f (bs_transID s) (bs_txID s) (bs_helper s) of (r, h) \<Rightarrow> (r, s\<lparr>bs_helper := h\<rparr>))"

definition bs_write :: "string \<Rightarrow> bytes \<Rightarrow> 'db BvmStore \<Rightarrow> ('db BvmStore, unit) act" where
  "bs_write key value = on_helper (\<lambda>t x. helper_set t x key value)"

fun bs_writes :: "(string \<times> bytes) list \<Rightarrow> 'db BvmStore \<Rightarrow> ('db BvmStore, unit) act" where
  "bs_writes [] s = (Inr (), s)"
| "bs_writes ((k, v) # kvs) s = seqR (bs_write k v s) (\<lambda>_ s. bs_writes kvs s)"

section \<open>Accounts\<close>

definition AddAccountTokenKey :: "'db Chain \<Rightarrow> string \<Rightarrow> string \<Rightarrow> 'db BvmStore \<Rightarrow> ('db BvmStore, goerr option) act" where
  "AddAccountTokenKey C addr keyOfAccountToken s =
    need (bs_read C s (KeyOfAccount addr)) s (\<lambda>value.
    case unmarshal (j_strings (ch_json C)) value of
      Inl err \<Rightarrow> (Inr (Some (ErrOther err)), s)
    | Inr resSlice \<Rightarrow>
      (case marshal (j_strings (ch_json C)) (if keyOfAccountToken \<in> set resSlice then resSlice else resSlice @ [keyOfAccountToken]) of
         Inl err \<Rightarrow> (Inr (Some (ErrOther err)), s)
       | Inr result \<Rightarrow> seqR (bs_write (KeyOfAccount addr) result s) (\<lambda>_ s. (Inr None, s))))"

text \<open>The list of the account's keys is written anew, with the key of its nonce and the one of the current token.\<close>

definition bs_UpdateAccount :: "'db Chain \<Rightarrow> Account \<Rightarrow> 'db BvmStore \<Rightarrow> ('db BvmStore, goerr option) act" where
  "bs_UpdateAccount C updated s = need (bvm_addr C (Address updated)) s (\<lambda>addr.
    let keys = (case marshal (j_strings (ch_json C)) [KeyOfAccountNonce addr] of Inl _ \<Rightarrow> [] | Inr v \<Rightarrow> v) in
    seqR (bs_write (KeyOfAccount addr) keys s) (\<lambda>_ s.
    seqR (on_helper (\<lambda>t x. SetBalance (ch_json C) t x addr (bs_tokenAddr s) (Balance updated)) s) (\<lambda>_ s.
    seqR (case BVMCode updated of
        None \<Rightarrow> (Inr (), s)
      | Some bvmCode \<Rightarrow> bs_writes [(codeKey addr, bvmCode),
          (tokenKey addr, bytes_of_string (if bs_tokenAddr s \<noteq> [] then bs_tokenAddr s else BVMToken updated))] s) (\<lambda>_ s.
    AddAccountTokenKey C addr (std_KeyOfAccountToken C addr (bs_GetToken s)) s))))"

text \<open>The key that is cleared third is the text stored for the account, not a key of a token.\<close>

definition bs_RemoveAccount :: "'db Chain \<Rightarrow> word160 \<Rightarrow> 'db BvmStore \<Rightarrow> ('db BvmStore, goerr option) act" where
  "bs_RemoveAccount C removed s = need (bvm_addr C removed) s (\<lambda>addr.
    need (bs_read C s (KeyOfAccount addr)) s (\<lambda>keyOfAccountToken.
    seqR (bs_writes [(KeyOfAccount addr, []), (KeyOfAccountToken addr (bs_tokenAddr s), []),
       (string_of_bytes keyOfAccountToken, []), (contractInfoKey addr, []), (codeKey addr, []), (tokenKey addr, [])] s)
    (\<lambda>_ s. (Inr None, s))))"

definition bs_GetAccount :: "'db Chain \<Rightarrow> 'db BvmStore \<Rightarrow> word160 \<Rightarrow> string + Account option" where
  "bs_GetAccount C s address = andThen (bvm_addr C address) (\<lambda>addr.
    andThen (bs_read C s (KeyOfAccount addr)) (\<lambda>value.
    if length value = 0 then Inr None
    else andThen (BalanceOf (ch_ext C) (ch_json C) (bs_transID s) (bs_txID s) addr (bs_tokenAddr s) (bs_helper s)) (\<lambda>balance.
      andThen (bs_read C s (tokenKey addr)) (\<lambda>bvmToken.
      andThen (bs_read C s (codeKey addr)) (\<lambda>bvmCode.
      Inr (Some \<lparr>Address = address, PubKey = [], Balance = balance, BVMToken = string_of_bytes bvmToken,
        BVMCode = (if bvmCode = [] then None else Some bvmCode), WASMCode = None\<rparr>))))))"

section \<open>Storage\<close>

definition bs_SetStorage :: "'db Chain \<Rightarrow> word160 \<Rightarrow> word256 \<Rightarrow> bytes \<Rightarrow> 'db BvmStore \<Rightarrow> ('db BvmStore, goerr option) act" where
  "bs_SetStorage C address key value s = need (bvm_addr C address) s (\<lambda>addr.
    seqR (bs_write (storageKey addr key) value s) (\<lambda>_ s. (Inr None, s)))"

definition bs_GetStorage :: "'db Chain \<Rightarrow> 'db BvmStore \<Rightarrow> word160 \<Rightarrow> word256 \<Rightarrow> string + bytes" where
  "bs_GetStorage C s address key = andThen (bvm_addr C address) (\<lambda>addr. bs_read C s (storageKey addr key))"

section \<open>The interface of the virtual machine\<close>

text \<open>
  A write that panics leaves its panic in the state, which takes no write afterwards. A read that panics (a stored value
  that is no JSON) stops the whole transaction in the code; here it is an error that the machine reports.
\<close>

definition bs_guarded :: "('db BvmStore \<Rightarrow> ('db BvmStore, goerr option) act) \<Rightarrow> 'db BvmStore \<Rightarrow> goerr option \<times> 'db BvmStore" where
  "bs_guarded f s = (if bs_panic s \<noteq> None then (None, s)
     else case f s of (Inl p, s') \<Rightarrow> (None, s'\<lparr>bs_panic := Some p\<rparr>) | (Inr e, s') \<Rightarrow> (e, s'))"

definition bs_reader :: "string + 'a \<Rightarrow> goerr + 'a" where
  "bs_reader r = (case r of Inl p \<Rightarrow> Inl (ErrOther p) | Inr a \<Rightarrow> Inr a)"

definition chain_rw :: "'db Chain \<Rightarrow> 'db BvmStore ReaderWriter" where
  "chain_rw C = \<lparr>rw_GetAccount = (\<lambda>s a. bs_reader (bs_GetAccount C s a)), rw_GetToken = bs_GetToken,
     rw_UpdateAccount = (\<lambda>s acc. bs_guarded (bs_UpdateAccount C acc) s),
     rw_RemoveAccount = (\<lambda>s a. bs_guarded (bs_RemoveAccount C a) s),
     rw_GetStorage = (\<lambda>s a k. bs_reader (bs_GetStorage C s a k)),
     rw_SetStorage = (\<lambda>s a k v. bs_guarded (bs_SetStorage C a k v) s)\<rparr>"

section \<open>Contract records\<close>

text \<open>Every occurrence of line breaks, tabs and backslashes is dropped before parsing.\<close>

definition clean_abi :: "string \<Rightarrow> string" where
  "clean_abi s = filter (\<lambda>c. c \<noteq> CHR 0x0A \<and> c \<noteq> CHR 0x09 \<and> c \<noteq> CHR 0x5C) s"

definition setBVMContract :: "'db Chain \<Rightarrow> int \<Rightarrow> int \<Rightarrow> BvmContract \<Rightarrow> 'db Helper \<Rightarrow> ('db Helper, unit) act" where
  "setBVMContract C transID xid contract h =
    write_json (j_BvmContract C) [] transID xid (contractInfoKey (bc_Address contract)) contract h"

definition SetContractInfo :: "'db Chain \<Rightarrow> int \<Rightarrow> int \<Rightarrow> int \<Rightarrow> string \<Rightarrow> string \<Rightarrow> string \<Rightarrow> string \<Rightarrow> 'db Helper \<Rightarrow>
    ('db Helper, goerr option) act" where
  "SetContractInfo C transID xid chainVersion token bvmAddr senderAddr abiStr h =
    (if abiStr = [] then (Inr None, h)
     else let abiStr = clean_abi abiStr in
     case abi_JSON C abiStr of
       Inl err \<Rightarrow> (Inr (Some (ErrOther err)), h)
     | Inr newAbi \<Rightarrow>
       let methods = map (\<lambda>k. case map_of (abi_Methods newAbi) k of Some (mid, proto) \<Rightarrow> (hex_lower mid, proto) | None \<Rightarrow> ([], []))
             (sort (map fst (abi_Methods newAbi)));
           evs = map (\<lambda>k. case map_of (abi_Events newAbi) k of Some e \<Rightarrow> e | None \<Rightarrow> []) (sort (map fst (abi_Events newAbi)))
       in seqR (setBVMContract C transID xid \<lparr>bc_Address = bvmAddr, bc_Deployer = senderAddr, bc_Token = token, bc_BvmAbi = abiStr,
            bc_ChainVersion = chainVersion, bc_Methods = methods, bc_Events = evs\<rparr> h) (\<lambda>_ h. (Inr None, h)))"

text \<open>Read from the database: transaction 0 is never open, so what the block has written is not seen.\<close>

definition GetContractInfo :: "'db Chain \<Rightarrow> string \<Rightarrow> 'db Helper \<Rightarrow> string + BvmContract option" where
  "GetContractInfo C address h = andThen (helper_get (ch_ext C) 0 0 (contractInfoKey address) h) (\<lambda>res.
    Inr (if length res = 0 then None
      else case unmarshal (j_BvmContract C) res of Inl _ \<Rightarrow> None | Inr contract \<Rightarrow> Some contract))"

end
