(* ===== verification/Burrow_Tx.thy ===== *)
theory Burrow_Tx
  imports Burrow_Store
begin

text \<open>
  Transactions for the virtual machine: creation of a contract, a call, a call with a payment before it
  (\<open>burrow/invokeTx.go\<close>), their receipts (\<open>burrow/receipt/receipt.go\<close>), the manager of the contracts that run in
  processes (\<open>smcrunctl/invokermgr\<close>, \<open>smcdocker\<close>), and the choice between the two (\<open>smcrunctl/adapter/adapter.go\<close>).

  Outside: the RLP decoder, the methods and events of a parsed interface, the marshalling of receipts, the processes.
  Logging is left out. The fuel of the machine is what \<open>VM_Call_total\<close> shows to be enough.
\<close>

section \<open>External code\<close>

datatype bvm_receipt = FeeReceipt StdFee | EventReceipt Event

record StdReceipt =
  sr_Name :: string
  sr_ContractAddr :: string
  sr_Bytes :: bytes
  sr_Hash :: bytes

text \<open>\<open>types.RPCInvokeCallParam\<close>.\<close>

record InvokeParam =
  ip_Sender :: string
  ip_Payer :: string
  ip_To :: string
  ip_Tx :: TxData
  ip_GasLeft :: int64
  ip_TxHash :: bytes
  ip_Message :: Message
  ip_Receipts :: "KVPair list"
  ip_SenderPublicKey :: bytes
  ip_BlockHash :: bytes

record 'db Burrow = "'db Chain" +
  c_ErrCodeBVMInvoke :: nat
  c_ErrInvalidParam :: nat
  c_ErrRlpDecode :: nat
  c_ErrFeeNotEnough :: nat
  c_BVMQueryOK :: nat
  c_LogicError :: nat
  c_ErrDealFailed :: nat
  txt_ErrDealFailed :: string
  rlp_bytes :: "bytes \<Rightarrow> string + bytes"
  rlp_string :: "bytes \<Rightarrow> string + string"
  rlp_number :: "bytes \<Rightarrow> string + int"
  hd_Time :: "Header \<Rightarrow> int"
  hd_ChainVersion :: "Header \<Rightarrow> int"
  tk_GasPrice :: "Token \<Rightarrow> int64"
  GetBlock :: "int64 \<Rightarrow> string + bytes"
  abi_method :: "ABI \<Rightarrow> bytes \<Rightarrow> string + string \<times> bool"
  abi_outputs :: "ABI \<Rightarrow> string \<Rightarrow> bytes \<Rightarrow> string + bytes"
  abi_event :: "ABI \<Rightarrow> string \<Rightarrow> word256 list \<Rightarrow> bytes \<Rightarrow> string + string \<times> bytes"
  json_receipt :: "bvm_receipt \<Rightarrow> string + bytes"
  json_no_data :: bytes
  j_StdReceipt :: "StdReceipt codec"
  j_StdFee :: "StdFee codec"
  Sum256_of :: "bytes list \<Rightarrow> bytes"
  c_ErrInternalFailed :: nat
  fork_infos :: Forks
  Md5_of :: "bytes \<Rightarrow> bytes"
  std_GenesisContractAddr :: "string \<Rightarrow> string"
  CalcOrgID :: "string \<Rightarrow> string"
  docker_url :: "int \<Rightarrow> int \<Rightarrow> string \<Rightarrow> string \<Rightarrow> bytes \<Rightarrow> 'db Helper \<Rightarrow> string + (string + string)"
  docker_Kill :: "string \<Rightarrow> bool"
  rpc_Invoke :: "string \<Rightarrow> Header \<Rightarrow> int \<Rightarrow> int \<Rightarrow> InvokeParam \<Rightarrow> 'db Helper \<Rightarrow> ('db Helper, Response) act"
  CallMcDirtyTx :: "string list \<Rightarrow> int \<Rightarrow> int \<Rightarrow> string + unit"
  McDirtyToken :: "string \<Rightarrow> string + unit"
  McDirtyContract :: "string \<Rightarrow> string + unit"
  receipt_Token :: "string \<Rightarrow> bytes \<Rightarrow> string + string"
  receipt_ContractAddr :: "bytes \<Rightarrow> string + string"

abbreviation base_chain :: "'db Burrow \<Rightarrow> 'db Chain" where
  "base_chain B \<equiv> Chain.truncate B"

definition GasBvmRatio :: uint64 where "GasBvmRatio = 1"
definition GasPerByte :: int where "GasPerByte = 200"

section \<open>Responses\<close>

definition new_Response :: Response where
  "new_Response = \<lparr>rs_Code = 0, rs_Log = [], rs_Data = [], rs_GasUsed = 0, rs_Fee = 0, rs_Tags = []\<rparr>"

definition fail_Response :: "nat \<Rightarrow> string \<Rightarrow> Response" where
  "fail_Response c msg = new_Response\<lparr>rs_Code := c, rs_Log := msg\<rparr>"

definition index_range :: string where
  "index_range = ''runtime error: index out of range''"

definition elem_at :: "'a list \<Rightarrow> nat \<Rightarrow> string + 'a" where
  "elem_at l i = (if i < length l then Inr (l ! i) else Inl index_range)"

definition or_crash :: "string \<Rightarrow> 'a option \<Rightarrow> string + 'a" where
  "or_crash msg v = (case v of None \<Rightarrow> Inl msg | Some x \<Rightarrow> Inr x)"

definition not_nil :: "'a option \<Rightarrow> string + 'a" where
  "not_nil = or_crash nil_pointer"

section \<open>Receipts (\<open>receipt.go\<close>)\<close>

definition receiptName :: "bvm_receipt \<Rightarrow> string" where
  "receiptName r = (case r of
     EventReceipt (LogEvent _ _ _) \<Rightarrow> ''bvm::log_event''
   | EventReceipt (TransferData _ _ _ _) \<Rightarrow> ''std::transfer''
   | FeeReceipt _ \<Rightarrow> ''std::fee''
   | _ \<Rightarrow> ''bvm::unknownType'')"

text \<open>The interface by which an event is read: the given text, or the record of the contract. A contract without a record
  has none.\<close>

definition event_abi :: "'db Burrow \<Rightarrow> int \<Rightarrow> int \<Rightarrow> string \<Rightarrow> string \<Rightarrow> 'db Helper \<Rightarrow> string + string + ABI option" where
  "event_abi B t x contractAddress abiStr h =
    (if abiStr \<noteq> [] then Inr (map_sum id Some (abi_JSON B (clean_abi abiStr)))
     else andThen (helper_get (ch_ext B) t x (contractInfoKey contractAddress) h) (\<lambda>result.
       if length result = 0 then Inr (Inr None)
       else andThen (decode (j_BvmContract B) ''state db helper get bvm contract err: '' result) (\<lambda>contract.
         if bc_BvmAbi contract = [] then Inr (Inr None)
         else Inr (map_sum id Some (abi_JSON B (clean_abi (bc_BvmAbi contract)))))))"

text \<open>The name and data of an event. One without topics indexes an empty list.\<close>

definition ConversionEventReceipt :: "'db Burrow \<Rightarrow> int \<Rightarrow> int \<Rightarrow> string \<Rightarrow> word256 list \<Rightarrow> bytes \<Rightarrow> string \<Rightarrow> string \<Rightarrow>
    'db Helper \<Rightarrow> string + string + string \<times> bytes" where
  "ConversionEventReceipt B t x address topics evData contractAddress abiStr h =
    andThen (event_abi B t x contractAddress abiStr h) (\<lambda>r. case r of
      Inl err \<Rightarrow> Inr (Inl err)
    | Inr None \<Rightarrow> Inr (Inr ([], json_no_data B))
    | Inr (Some newAbi) \<Rightarrow>
       if abi_Events newAbi = [] then Inr (Inr ([], json_no_data B))
       else if topics = [] then Inl index_range
       else (case abi_event B newAbi address topics evData of
           Inl err \<Rightarrow> Inr (Inl err)
         | Inr (rawName, evJson) \<Rightarrow> Inr (Inr (''::'' @ rawName, evJson))))"

definition receipt_Emit :: "'db Burrow \<Rightarrow> bvm_receipt \<Rightarrow> string \<Rightarrow> string \<Rightarrow> int \<Rightarrow> int \<Rightarrow> int \<Rightarrow> int \<Rightarrow> 'db Helper \<Rightarrow>
    string + string + KVPair" where
  "receipt_Emit B r contractAddress abiStr idx1 idx2 t x h =
    andThen (case r of
        EventReceipt (LogEvent address topics evData) \<Rightarrow>
          andThen (ConversionEventReceipt B t x address topics evData contractAddress abiStr h)
            (\<lambda>q. Inr (map_sum id (\<lambda>(n, b). (receiptName r @ n, b)) q))
      | _ \<Rightarrow> andThen (json_receipt B r) (\<lambda>b. Inr (Inr (receiptName r, b))))
    (\<lambda>q. case q of Inl err \<Rightarrow> Inr (Inl err)
       | Inr (name, bz) \<Rightarrow>
          let rcpt = \<lparr>sr_Name = name, sr_ContractAddr = contractAddress, sr_Bytes = bz,
                sr_Hash = Sum256_of B [bytes_of_string name, bytes_of_string contractAddress, bz]\<rparr> in
          Inr (Inr \<lparr>kv_Key = ''/'' @ dec_of_int idx1 @ ''/'' @ dec_of_int idx2 @ ''/'' @ name,
            kv_Value = (case marshal (j_StdReceipt B) rcpt of Inl _ \<Rightarrow> [] | Inr resBytes \<Rightarrow> resBytes)\<rparr>))"

text \<open>The two numbers in the key of the tag at a position.\<close>

definition tag_index :: "bool \<Rightarrow> int \<Rightarrow> int \<times> int" where
  "tag_index isCascadeCall idx = (if isCascadeCall then (if idx = 0 then (0, 1) else (1, idx - 1)) else (0, idx + 1))"

fun emit_tags :: "'db Burrow \<Rightarrow> int \<Rightarrow> int \<Rightarrow> string \<Rightarrow> string \<Rightarrow> bool \<Rightarrow> int \<Rightarrow> Event list \<Rightarrow> 'db Helper \<Rightarrow>
    string + string + KVPair list" where
  "emit_tags B t x contractAddr abiStr isCascadeCall idx [] h = Inr (Inr [])"
| "emit_tags B t x contractAddr abiStr isCascadeCall idx (e # tags) h =
    (case tag_index isCascadeCall idx of (idx1, idx2) \<Rightarrow>
     andThen (receipt_Emit B (EventReceipt e) contractAddr abiStr idx1 idx2 t x h) (\<lambda>q. case q of
       Inl err \<Rightarrow> Inr (Inl err)
     | Inr tag \<Rightarrow> andThen (emit_tags B t x contractAddr abiStr isCascadeCall (idx + 1) tags h) (\<lambda>q.
         Inr (map_sum id (\<lambda>l. tag # l) q))))"

definition Tags2Receipt :: "'db Burrow \<Rightarrow> Event list \<Rightarrow> int \<Rightarrow> int \<Rightarrow> int64 \<Rightarrow> string \<Rightarrow> string \<Rightarrow> string \<Rightarrow> string \<Rightarrow> bool \<Rightarrow>
    'db Helper \<Rightarrow> string + string + KVPair list" where
  "Tags2Receipt B tags t x fee tokenAddr contractAddr sender abiStr isCascadeCall h =
    andThen (receipt_Emit B (FeeReceipt \<lparr>fe_Token = tokenAddr, fe_From = sender, fe_Value = fee, fe_others = []\<rparr>)
      contractAddr abiStr 0 0 t x h) (\<lambda>q. case q of
      Inl err \<Rightarrow> Inr (Inl err)
    | Inr tag0 \<Rightarrow> andThen (emit_tags B t x contractAddr abiStr isCascadeCall 0 tags h) (\<lambda>q.
        Inr (map_sum id (\<lambda>l. tag0 # l) q)))"

text \<open>\<open>strconv.ParseUint(s, 10, 64)\<close>, of which any error is a panic here.\<close>

definition ParseUint64 :: "string \<Rightarrow> string + uint64" where
  "ParseUint64 s =
    (if s = [] \<or> (\<exists>c \<in> set s. c \<notin> set ''0123456789'') then Inl (''strconv.ParseUint: parsing '' @ s @ '': invalid syntax'')
     else if 2 ^ 64 \<le> nat_of_dec s then Inl (''strconv.ParseUint: parsing '' @ s @ '': value out of range'')
     else Inr (of_nat (nat_of_dec s)))"

definition thousandth :: "int64 \<Rightarrow> int64" where
  "thousandth w = word_of_int (if sint w < 0 then - (- sint w div 1000) else sint w div 1000)"

text \<open>The ratio is read without its point, as if it always had three decimals. \<open>int64\<close> multiplication wraps, the division
  truncates towards zero.\<close>

definition GetGasPrice :: "'db Burrow \<Rightarrow> int \<Rightarrow> int \<Rightarrow> bool \<Rightarrow> 'db Helper \<Rightarrow> ('db Helper, int64) act" where
  "GetGasPrice B t x isCreate h =
    seqR (GetGenesisToken (ch_ext B) (ch_json B) h) (\<lambda>genToken h.
    need (GetTokenByAddress (ch_ext B) (ch_json B) t x (tk_Address genToken) h) h (\<lambda>genTokenCurrent.
    if isCreate then need (not_nil genTokenCurrent) h (\<lambda>tok. (Inr (tk_GasPrice B tok), h))
    else need (GetGasPriceRatio (ch_ext B) (ch_json B) t x h) h (\<lambda>gasPriceRatio.
      need (ParseUint64 (filter (\<lambda>c. c \<noteq> CHR ''.'') (if gasPriceRatio = [] then ''1.000'' else gasPriceRatio))) h (\<lambda>ratio.
      need (not_nil genTokenCurrent) h (\<lambda>tok.
      (Inr (thousandth (tk_GasPrice B tok * ratio)), h))))))"

section \<open>The machine of a transaction (\<open>invokeTx.go\<close>)\<close>

definition bvm_blockHashGetter :: "'db Burrow \<Rightarrow> uint64 \<Rightarrow> bytes" where
  "bvm_blockHashGetter B height = (case GetBlock B height of Inl _ \<Rightarrow> []
     | Inr hash \<Rightarrow> (case LeftPadWord256 hash of None \<Rightarrow> [] | Some w \<Rightarrow> Word256_Bytes w))"

definition newParams :: "Header \<Rightarrow> 'db Burrow \<Rightarrow> bytes \<Rightarrow> int64 \<Rightarrow> int64 \<Rightarrow> Params" where
  "newParams hdr B blockHash gasPrice gasLimit = \<lparr>p_ChainID = ChainID hdr, p_Height = Height hdr, p_Time = hd_Time B hdr,
     p_ProposerAddress = ProposerAddress hdr, p_GasLimit = gasLimit, p_BlockHash = blockHash, p_GasPrice = sint gasPrice,
     p_CallStackMaxDepth = 10, p_DataStackInitialCapacity = 0, p_DataStackMaxDepth = 0\<rparr>"

definition bvm_world :: "'db Burrow \<Rightarrow> 'db BvmStore World" where
  "bvm_world B = \<lparr>rw = chain_rw (base_chain B), blockHashGetter = bvm_blockHashGetter B\<rparr>"

definition bvm_machine :: "'db Burrow \<Rightarrow> Header \<Rightarrow> bytes \<Rightarrow> int64 \<Rightarrow> int64 \<Rightarrow> word160 \<Rightarrow> uint64 \<Rightarrow> 'db BvmStore Machine" where
  "bvm_machine B hdr blockHash gasPrice gasLimit sender nonce =
    NewVM (bvm_world B) (ch_crypto B) (newParams hdr B blockHash gasPrice gasLimit) sender (be_bytes 8 nonce) []"

text \<open>One more than the gas and the depth of the call stack.\<close>

definition bvm_fuel :: "uint64 \<Rightarrow> nat" where
  "bvm_fuel g = Suc (unat g + 10)"

primrec chain_base :: "'b chain \<Rightarrow> 'b" where
  "chain_base (Base b) = b"
| "chain_base (Layer c ch) = chain_base ch"

primrec on_base :: "('b \<Rightarrow> 'b) \<Rightarrow> 'b chain \<Rightarrow> 'b chain" where
  "on_base f (Base b) = Base (f b)"
| "on_base f (Layer c ch) = Layer c (on_base f ch)"

definition state_helper :: "'db BvmStore State \<Rightarrow> 'db Helper" where
  "state_helper st = bs_helper (chain_base (chain st))"

definition state_panic :: "'db BvmStore State \<Rightarrow> string option" where
  "state_panic st = bs_panic (chain_base (chain st))"

text \<open>\<open>Call\<close> of the machine on a state with the gas of the transaction: output, error, gas left, events and state. A panic of
  the machine is one of the transaction.\<close>

definition bvm_invoke :: "'db BvmStore Machine \<Rightarrow> uint64 \<Rightarrow> word160 \<Rightarrow> word160 \<Rightarrow> bytes \<Rightarrow> bytes \<Rightarrow> int \<Rightarrow> 'db BvmStore State \<Rightarrow>
    (string + bytes option \<times> Exception option \<times> uint64 \<times> Event list) \<times> 'db BvmStore State" where
  "bvm_invoke M g from_addr to_addr bvmCode inp value st =
    (case run_state (VM_Call (bvm_fuel g) M \<lparr>caller = from_addr, callee = to_addr, code = bvmCode, input = inp, logFree = False\<rparr> value)
        (start_vm st g) of
      ((out, err), vm) \<Rightarrow> (case halt vm of
          Some (GoPanic p) \<Rightarrow> Inl p
        | Some OutOfFuel \<Rightarrow> Inl ''out of fuel''
        | None \<Rightarrow> (case state_panic (callState vm) of Some p \<Rightarrow> Inl p | None \<Rightarrow> Inr (out, err, gas vm, events vm)),
        callState vm))"

text \<open>\<open>Sync\<close> of the state, and its error.\<close>

definition bvm_Sync :: "'db Burrow \<Rightarrow> 'db BvmStore State \<Rightarrow> (string + string option) \<times> 'db BvmStore State" where
  "bvm_Sync B st = (case run_state (State_Sync (bvm_world B)) st of (err, st) \<Rightarrow>
     (case state_panic st of
        Some p \<Rightarrow> Inl p
      | None \<Rightarrow> Inr (case err of None \<Rightarrow> None | Some e \<Rightarrow> Some (Exception_String (AsException (Some e)))), st))"

section \<open>View methods\<close>

definition JudgeFuncType :: "'db Burrow \<Rightarrow> string \<Rightarrow> bytes \<Rightarrow> bytes \<Rightarrow> 'db Helper \<Rightarrow> string + string + bool \<times> bytes" where
  "JudgeFuncType B address methodID out h =
    andThen (GetContractInfo (base_chain B) address h) (\<lambda>c. andThen (not_nil c) (\<lambda>contract.
    if bc_BvmAbi contract = [] then Inl nil_pointer
    else case abi_JSON B (clean_abi (bc_BvmAbi contract)) of
      Inl err \<Rightarrow> Inr (Inl err)
    | Inr abi \<Rightarrow> (case abi_method B abi methodID of
        Inl err \<Rightarrow> Inr (Inl err)
      | Inr (name, isConst) \<Rightarrow>
          if length out = 0 then Inr (Inr (isConst, []))
          else (case abi_outputs B abi name out of Inl err \<Rightarrow> Inr (Inl err) | Inr outData \<Rightarrow> Inr (Inr (isConst, outData))))))"

section \<open>Creation\<close>

text \<open>After the run of the code: record of the contract, code, \<open>Sync\<close>, response and receipts.\<close>

definition create_finish :: "'db Burrow \<Rightarrow> Header \<Rightarrow> int \<Rightarrow> int \<Rightarrow> string \<Rightarrow> TxData \<Rightarrow> int64 \<Rightarrow> string \<Rightarrow> string \<Rightarrow> word160 \<Rightarrow> word160 \<Rightarrow>
    bytes option \<Rightarrow> uint64 \<Rightarrow> Event list \<Rightarrow> 'db BvmStore State \<Rightarrow> ('db Helper, Response) act" where
  "create_finish B hdr t x sender tx gasPrice token contractAddr addr from_addr out gasLeft tags st =
    (let C = base_chain B; h = state_helper st; fail = (\<lambda>c msg h. (Inr (fail_Response c msg), h)) in
    need (andThen (elem_at (td_Messages tx) 0) (\<lambda>msg. elem_at (ms_Items msg) 1)) h (\<lambda>item.
    case rlp_bytes B item of
      Inl err \<Rightarrow> fail (c_ErrInvalidParam B) err h
    | Inr abiCode \<Rightarrow>
      if abiCode = [] then fail (c_ErrInvalidParam B) (''contract'' @ [CHR 0x27] @ ''s ABI info could not be empty'') h
      else let abiStr = string_of_bytes abiCode in
      need (bvm_addr C addr) h (\<lambda>bvmAddr. need (bvm_addr C from_addr) h (\<lambda>senderAddr.
      seqR (SetContractInfo C t x (hd_ChainVersion B hdr) token bvmAddr senderAddr abiStr h) (\<lambda>err h.
      case err of
        Some e \<Rightarrow> fail (c_ErrCodeBVMInvoke B) (Exception_String (AsException (Some e))) h
      | None \<Rightarrow>
        let st1 = st\<lparr>chain := on_base (\<lambda>s. s\<lparr>bs_helper := h\<rparr>) (chain st)\<rparr>;
            st2 = snd (run_state (State_InitCode (bvm_world B) addr out) st1);
            (r, st3) = bvm_Sync B st2; h = state_helper st3 in
        need r h (\<lambda>err. case err of
          Some msg \<Rightarrow> fail (c_ErrCodeBVMInvoke B) msg h
        | None \<Rightarrow>
          let used = td_GasLimit tx * GasBvmRatio - gasLeft;
              fee = (used + word_of_int (GasPerByte * int (length (nil_bytes out)))) * gasPrice in
          seqR (GetGenesisToken (ch_ext B) (ch_json B) h) (\<lambda>genToken h.
          need (Tags2Receipt B tags t x fee (tk_Address genToken) contractAddr sender abiStr False h) h (\<lambda>q. case q of
            Inl err \<Rightarrow> fail (c_ErrCodeBVMInvoke B) err h
          | Inr tags \<Rightarrow> (Inr (new_Response\<lparr>rs_Code := c_CodeOK (ch_json B), rs_Data := contractAddr, rs_GasUsed := used,
              rs_Tags := tags\<rparr>), h)))))))))"

definition bvm_Create :: "'db Burrow \<Rightarrow> Header \<Rightarrow> bytes \<Rightarrow> int \<Rightarrow> int \<Rightarrow> string \<Rightarrow> TxData \<Rightarrow> int64 \<Rightarrow> 'db Helper \<Rightarrow> ('db Helper, Response) act" where
  "bvm_Create B hdr blockHash t x sender tx gasPrice h =
    (let X = ch_crypto B; W = bvm_world B; fail = (\<lambda>c msg h. (Inr (fail_Response c msg), h)); slice = ''slice bounds out of range'' in
    need (elem_at (td_Messages tx) 0) h (\<lambda>msg. let token = ms_Contract msg in
    need (helper_get (ch_ext B) t x (std_KeyOfToken B token) h) h (\<lambda>tokenInfo.
    if length tokenInfo = 0 then fail (c_ErrInvalidParam B) ''token addr is not exits'' h
    else need (elem_at (ms_Items msg) 0) h (\<lambda>item. case rlp_bytes B item of
      Inl err \<Rightarrow> fail (c_ErrInvalidParam B) err h
    | Inr bvmCode \<Rightarrow>
      if length bvmCode = 0 then fail (c_ErrInvalidParam B) ''bvm contract code could not be empty'' h
      else need (or_crash slice (CalcContractAddr X sender (be_bytes 8 (td_Nonce tx)) (ChainID hdr))) h (\<lambda>contractAddr.
      need (or_crash slice (ToBVM X contractAddr)) h (\<lambda>addr.
      let st = snd (run_state (State_CreateAccount W addr) (NewState (Base (bs_SetToken token (bvm_NewState t x h))) [])) in
      need (or_crash slice (ToBVM X sender)) h (\<lambda>from_addr.
      case bvm_invoke (bvm_machine B hdr blockHash gasPrice (td_GasLimit tx) from_addr (td_Nonce tx)) (td_GasLimit tx * GasBvmRatio)
          from_addr addr bvmCode [] 0 st of
        (Inl p, st) \<Rightarrow> (Inl p, state_helper st)
      | (Inr (out, err, gasLeft, tags), st) \<Rightarrow> (case err of
          Some e \<Rightarrow> fail (c_ErrCodeBVMInvoke B) (Exception_Error e) (state_helper st)
        | None \<Rightarrow> create_finish B hdr t x sender tx gasPrice token contractAddr addr from_addr out gasLeft tags st))))))))"

section \<open>Calls\<close>

text \<open>A failed call keeps \<open>GasUsed\<close> at zero. The first four bytes of the input are taken after the call has been made.\<close>

definition bvm_Call :: "'db Burrow \<Rightarrow> Header \<Rightarrow> bytes \<Rightarrow> int64 \<Rightarrow> string \<Rightarrow> bytes \<Rightarrow> TxData \<Rightarrow> int \<Rightarrow> 'db BvmStore State \<Rightarrow>
    ('db Helper, Response \<times> Event list) act" where
  "bvm_Call B hdr blockHash gasPrice sender bvmCode tx value st =
    (let X = ch_crypto B; h0 = state_helper st; slice = ''slice bounds out of range'';
         fail = (\<lambda>c msg tags h. (Inr (fail_Response c msg, tags), h)) in
    need (elem_at (td_Messages tx) 0) h0 (\<lambda>msg.
    need (elem_at (ms_Items msg) 0) h0 (\<lambda>item. case rlp_bytes B item of
      Inl err \<Rightarrow> fail (c_ErrRlpDecode B) err [] h0
    | Inr inp \<Rightarrow>
      need (or_crash slice (ToBVM X sender)) h0 (\<lambda>from_addr. need (or_crash slice (ToBVM X (ms_Contract msg))) h0 (\<lambda>to_addr.
      case bvm_invoke (bvm_machine B hdr blockHash gasPrice (td_GasLimit tx) from_addr 0) (td_GasLimit tx * GasBvmRatio)
          from_addr to_addr bvmCode inp value st of
        (Inl p, st) \<Rightarrow> (Inl p, state_helper st)
      | (Inr (out, err, gasLeft, tags), st) \<Rightarrow> (case err of
          Some e \<Rightarrow> fail (c_ErrCodeBVMInvoke B) (Exception_Error e) tags (state_helper st)
        | None \<Rightarrow> (case bvm_Sync B st of (r, st) \<Rightarrow> let h = state_helper st in
            need r h (\<lambda>err2. case err2 of
              Some m \<Rightarrow> fail (c_ErrCodeBVMInvoke B) m tags h
            | None \<Rightarrow>
              if length inp < 4 then (Inl slice, h)
              else need (JudgeFuncType B (ms_Contract msg) (take 4 inp) (nil_bytes out) h) h (\<lambda>q. case q of
                Inl err \<Rightarrow> fail (c_ErrCodeBVMInvoke B) err tags h
              | Inr (isView, outData) \<Rightarrow>
                (Inr (new_Response\<lparr>rs_Code := (if isView then c_BVMQueryOK B else c_CodeOK (ch_json B)),
                   rs_Data := string_of_bytes outData,
                   rs_GasUsed := (if isView then 0 else td_GasLimit tx * GasBvmRatio - gasLeft)\<rparr>, tags), h))))))))))"

text \<open>The tags of a call, successful or not; when they cannot be made they are the only failure reported.\<close>

definition with_tags :: "'db Burrow \<Rightarrow> int \<Rightarrow> int \<Rightarrow> int64 \<Rightarrow> string \<Rightarrow> string \<Rightarrow> bool \<Rightarrow> ('db Helper, Response \<times> Event list) act \<Rightarrow>
    ('db Helper, Response) act" where
  "with_tags B t x gasPrice contractAddr sender isCascadeCall m = seqR m (\<lambda>(result, tags) h.
    seqR (GetGenesisToken (ch_ext B) (ch_json B) h) (\<lambda>genToken h.
    need (Tags2Receipt B tags t x (rs_GasUsed result * gasPrice) (tk_Address genToken) contractAddr sender [] isCascadeCall h) h
      (\<lambda>q. case q of
        Inl err \<Rightarrow> (Inr (fail_Response (c_ErrCodeBVMInvoke B) err), h)
      | Inr tags \<Rightarrow> (Inr (result\<lparr>rs_Tags := tags\<rparr>), h))))"

text \<open>The account of a contract, read before its token is known.\<close>

definition contract_account :: "'db Burrow \<Rightarrow> int \<Rightarrow> int \<Rightarrow> string \<Rightarrow> 'db Helper \<Rightarrow> string + Account option" where
  "contract_account B t x contractAddr h =
    andThen (or_crash ''slice bounds out of range'' (ToBVM (ch_crypto B) contractAddr)) (\<lambda>a.
    bs_GetAccount (base_chain B) (bvm_NewState t x h) a)"

definition bvm_CallTx :: "'db Burrow \<Rightarrow> Header \<Rightarrow> bytes \<Rightarrow> int \<Rightarrow> int \<Rightarrow> string \<Rightarrow> TxData \<Rightarrow> int64 \<Rightarrow> 'db Helper \<Rightarrow> ('db Helper, Response) act" where
  "bvm_CallTx B hdr blockHash t x sender tx gasPrice h =
    need (elem_at (td_Messages tx) 0) h (\<lambda>msg. let contractAddr = ms_Contract msg; fail = fail_Response (c_ErrCodeBVMInvoke B) in
    if length contractAddr = 0 then (Inr (fail ''contract address should not be empty ''), h)
    else need (contract_account B t x contractAddr h) h (\<lambda>account. case account of
      None \<Rightarrow> (Inr (fail ''no such account''), h)
    | Some a \<Rightarrow> with_tags B t x gasPrice contractAddr sender False
        (bvm_Call B hdr blockHash gasPrice sender (nil_bytes (BVMCode a)) tx 0
          (NewState (Base (bs_SetToken (BVMToken a) (bvm_NewState t x h))) []))))"

definition CascadeCall :: "'db Burrow \<Rightarrow> Header \<Rightarrow> bytes \<Rightarrow> int \<Rightarrow> int \<Rightarrow> string \<Rightarrow> TxData \<Rightarrow> int64 \<Rightarrow> 'db Helper \<Rightarrow> ('db Helper, Response) act" where
  "CascadeCall B hdr blockHash t x sender tx gasPrice h =
    need (elem_at (td_Messages tx) 1) h (\<lambda>msg1. let contractAddr = ms_Contract msg1; fail = (\<lambda>c msg. (Inr (fail_Response c msg), h)) in
    need (contract_account B t x contractAddr h) h (\<lambda>account. case account of
      None \<Rightarrow> fail (c_ErrCodeBVMInvoke B) ''no such account''
    | Some a \<Rightarrow> need (elem_at (td_Messages tx) 0) h (\<lambda>msg0.
      if ms_Contract msg0 \<noteq> BVMToken a then fail (c_ErrInvalidParam B) ''invalid tokenAddr''
      else if ms_MethodID msg0 \<noteq> 0x44d8ca60 then fail (c_ErrInvalidParam B) ''invalid methodID''
      else (case ms_Items msg0 of
        [item0, item1] \<Rightarrow> (case rlp_string B item0 of
            Inl err \<Rightarrow> fail (c_ErrRlpDecode B) err
          | Inr to_addr \<Rightarrow>
            if to_addr \<noteq> contractAddr then fail (c_ErrInvalidParam B) ''target address must be contractAddr''
            else (case rlp_number B item1 of
              Inl err \<Rightarrow> fail (c_ErrRlpDecode B) err
            | Inr value \<Rightarrow> with_tags B t x gasPrice contractAddr sender True
                (bvm_Call B hdr blockHash gasPrice sender (nil_bytes (BVMCode a)) (tx\<lparr>td_Messages := tl (td_Messages tx)\<rparr>) value
                  (NewState (Base (bs_SetToken (BVMToken a) (bvm_NewState t x h))) []))))
      | _ \<Rightarrow> fail (c_ErrInvalidParam B) ''tx format error''))))"

section \<open>Transactions\<close>

definition IsCreate :: "Message list \<Rightarrow> bool" where
  "IsCreate messages \<longleftrightarrow> (case messages of [m] \<Rightarrow> ms_MethodID m = 0 | _ \<Rightarrow> False)"

definition IsCall :: "Message list \<Rightarrow> bool" where
  "IsCall messages \<longleftrightarrow> (case messages of [m] \<Rightarrow> ms_MethodID m = 0xFFFFFFFF | _ \<Rightarrow> False)"

definition IsCascadeCall :: "Message list \<Rightarrow> bool" where
  "IsCascadeCall messages \<longleftrightarrow> (case messages of [_, m] \<Rightarrow> ms_MethodID m = 0xFFFFFFFF | _ \<Rightarrow> False)"

definition InvokeTxEx :: "'db Burrow \<Rightarrow> Header \<Rightarrow> bytes \<Rightarrow> int \<Rightarrow> int \<Rightarrow> string \<Rightarrow> TxData \<Rightarrow> 'db Helper \<Rightarrow> ('db Helper, Response) act" where
  "InvokeTxEx B hdr blockHash t x sender tx h = (let ms = td_Messages tx in
    if IsCreate ms then seqR (GetGasPrice B t x True h) (\<lambda>gasPrice h. bvm_Create B hdr blockHash t x sender tx gasPrice h)
    else if IsCall ms then seqR (GetGasPrice B t x False h) (\<lambda>gasPrice h. bvm_CallTx B hdr blockHash t x sender tx gasPrice h)
    else if IsCascadeCall ms then seqR (GetGasPrice B t x False h) (\<lambda>gasPrice h. CascadeCall B hdr blockHash t x sender tx gasPrice h)
    else (Inr (fail_Response (c_ErrCodeBVMInvoke B) ''invalid call''), h))"

text \<open>The fee of the first tag whose key has \<open>std::fee\<close> in it.\<close>

definition no_fee :: StdFee where
  "no_fee = \<lparr>fe_Token = [], fe_From = [], fe_Value = 0, fe_others = []\<rparr>"

fun getFee :: "'db Burrow \<Rightarrow> KVPair list \<Rightarrow> string + StdFee" where
  "getFee B [] = Inr no_fee"
| "getFee B (tag # tags) = (if Contains (kv_Key tag) ''std::fee''
     then andThen (decode (j_StdReceipt B) [] (kv_Value tag)) (\<lambda>r. decode (j_StdFee B) [] (sr_Bytes r))
     else getFee B tags)"

definition checkBalanceForFee :: "'db Burrow \<Rightarrow> int \<Rightarrow> int \<Rightarrow> Response \<Rightarrow> 'db Helper \<Rightarrow> string + string option" where
  "checkBalanceForFee B t x response h = andThen (getFee B (rs_Tags response)) (\<lambda>fee.
    andThen (BalanceOf (ch_ext B) (ch_json B) t x (fe_From fee) (fe_Token fee) h) (\<lambda>senderBal.
    Inr (if senderBal < sint (fe_Value fee) then Some ''Insufficient balance to pay fee '' else None)))"

definition bvm_InvokeTx :: "'db Burrow \<Rightarrow> Header \<Rightarrow> bytes \<Rightarrow> int \<Rightarrow> int \<Rightarrow> string \<Rightarrow> TxData \<Rightarrow> 'db Helper \<Rightarrow> ('db Helper, Response) act" where
  "bvm_InvokeTx B hdr blockHash t x sender tx h =
    seqR (InvokeTxEx B hdr blockHash t x sender tx h) (\<lambda>result h.
    need (checkBalanceForFee B t x result h) h (\<lambda>e.
    (Inr (case e of None \<Rightarrow> result
       | Some msg \<Rightarrow> result\<lparr>rs_Code := c_ErrFeeNotEnough B, rs_Log := msg, rs_Data := []\<rparr>), h)))"

section \<open>The manager of the contract processes (\<open>smcrunctl/invokermgr\<close>)\<close>

text \<open>
  A contract that is not of the virtual machine runs in a process of its own, outside the node. The manager finds the
  contract and the account that pays, asks \<open>smcdocker\<close> for the URL of the process, and calls it for one message after
  the other. Outside: the process itself (\<open>rpc_Invoke\<close>, a panic when the call fails), its start (\<open>docker_url\<close>) and end
  (\<open>docker_Kill\<close>), the notes to the processes about what they should forget, and the texts of the receipts. The tables
  of the manager (connections, and which process to tell of a commit or a rollback) are left out.
\<close>

fun hex_number :: "nat \<Rightarrow> string" where
  "hex_number n = (if n < 16 then [digit_char n] else hex_number (n div 16) @ [digit_char (n mod 16)])"

declare hex_number.simps [simp del]

definition standardMethods :: "32 word list" where
  "standardMethods = [0x44D8CA60, 0x6B7E4ED5, 0xFBBD9DD3, 0x810B995F, 0x9024DC9B]"

text \<open>The first contract of the list that is in effect at a height.\<close>

fun effective_of :: "'db Burrow \<Rightarrow> int \<Rightarrow> string list \<Rightarrow> 'db Helper \<Rightarrow> string + Contract option" where
  "effective_of B currentBlock [] h = Inr None"
| "effective_of B currentBlock (v # vs) h = andThen (GetContract (ch_ext B) (ch_json B) v h) (\<lambda>c. case c of
     Some con \<Rightarrow> if ct_EffectHeight con \<le> currentBlock \<and> (ct_LoseHeight con = 0 \<or> currentBlock < ct_LoseHeight con)
       then Inr (Some con) else effective_of B currentBlock vs h
   | None \<Rightarrow> effective_of B currentBlock vs h)"

text \<open>The value is the description of an error, whose code is always \<open>ErrLogicError\<close>, or the contract.\<close>

definition getEffectContract :: "'db Burrow \<Rightarrow> int \<Rightarrow> int \<Rightarrow> int \<Rightarrow> string \<Rightarrow> 32 word \<Rightarrow> 'db Helper \<Rightarrow>
    string + (string + Contract)" where
  "getEffectContract B t x currentBlock contractAddr methodID h =
    andThen (GetTokenByAddress (ch_ext B) (ch_json B) t x contractAddr h) (\<lambda>token.
    andThen (GetContract (ch_ext B) (ch_json B) contractAddr h) (\<lambda>c. case token of
      Some _ \<Rightarrow> (case c of None \<Rightarrow> Inr (Inl [])
        | Some contract \<Rightarrow>
            andThen (GetContractsByName (ch_ext B) (ch_json B) t x (ct_Name contract) (ct_OrgID contract) h) (\<lambda>addrList.
            andThen (effective_of B currentBlock addrList h) (\<lambda>con. case con of
              Some con \<Rightarrow> Inr (Inr con) | None \<Rightarrow> Inr (Inl ''The contract has expired''))))
    | None \<Rightarrow> (case c of None \<Rightarrow> Inr (Inl ''Invalid contract address'')
        | Some contract \<Rightarrow>
            if methodID \<in> set standardMethods \<and> ct_Token contract \<noteq> []
            then Inr (Inl ''Can not call standard token method by contract address'')
            else if currentBlock < ct_EffectHeight contract then Inr (Inl ''The smart contract is not yet in effect'')
            else if ct_LoseHeight contract \<noteq> 0 \<and> ct_LoseHeight contract \<le> currentBlock
            then Inr (Inl ''The contract has expired'')
            else Inr (Inr contract))))"

definition is_genesis :: "'db Burrow \<Rightarrow> string \<Rightarrow> 'db Helper \<Rightarrow> ('db Helper, bool) act" where
  "is_genesis B contractAddr h = seqR (GetChainID (ch_ext B) (ch_json B) h) (\<lambda>cid h.
    (Inr (contractAddr = std_GenesisContractAddr B cid), h))"

subsection \<open>The payer\<close>

text \<open>An address may come with its organization, as \<open>org.address\<close>.\<close>

definition bare_address :: "string \<Rightarrow> string" where
  "bare_address a = (case Split (CHR ''.'') a of [_, contractAddr] \<Rightarrow> contractAddr | _ \<Rightarrow> a)"

fun message_contracts :: "'db Burrow \<Rightarrow> int \<Rightarrow> Message list \<Rightarrow> 'db Helper \<Rightarrow> string + (string + Contract list)" where
  "message_contracts B height [] h = Inr (Inr [])"
| "message_contracts B height (m # ms) h =
    andThen (getEffectContract B 0 0 height (bare_address (ms_Contract m)) (ms_MethodID m) h) (\<lambda>r. case r of
      Inl e \<Rightarrow> Inr (Inl e)
    | Inr c \<Rightarrow> andThen (message_contracts B height ms h) (\<lambda>cs. Inr (map_sum id ((#) c) cs)))"

definition is_method :: "Message \<Rightarrow> Method \<Rightarrow> bool" where
  "is_method m method \<longleftrightarrow> mt_MethodID method = hex_number (unat (ms_MethodID m))"

text \<open>The contract pays for a method whose gas is negative.\<close>

definition contract_pays :: "Contract \<Rightarrow> Message \<Rightarrow> bool" where
  "contract_pays c m \<longleftrightarrow> list_ex (\<lambda>method. is_method m method \<and> sint (mt_Gas method) < 0) (ct_Methods c)"

definition payer_of :: "Contract list \<Rightarrow> string \<Rightarrow> Message list \<Rightarrow> nat \<Rightarrow> string" where
  "payer_of cs sender msgs index =
    (if length msgs = 2 \<and> index = 0 \<and> contract_pays (cs ! 1) (msgs ! 1) \<and> ms_MethodID (msgs ! 0) = 0x44d8ca60
        \<and> ct_Token (cs ! 0) \<noteq> []
     then ct_Account (cs ! 1)
     else if contract_pays (cs ! index) (msgs ! index) then ct_Account (cs ! index) else sender)"

definition getPayer :: "'db Burrow \<Rightarrow> int \<Rightarrow> string \<Rightarrow> TxData \<Rightarrow> nat \<Rightarrow> 'db Helper \<Rightarrow> ('db Helper, string + string) act" where
  "getPayer B height sender tx index h = (let msgs = td_Messages tx in
    seqR (if length msgs = 1 then is_genesis B (ms_Contract (msgs ! 0)) h else (Inr False, h)) (\<lambda>genesis h.
    if genesis then (Inr (Inr sender), h)
    else need (message_contracts B height msgs h) h (\<lambda>r.
      (Inr (map_sum id (\<lambda>cs. payer_of cs sender msgs index) r), h))))"

subsection \<open>The process (\<open>smcdocker.go\<close>)\<close>

definition ThirdPartyContract :: string where
  "ThirdPartyContract = ''smcrunsvc_v1.0_3dcontract''"

text \<open>
  The value is an error, or the address without the organization and the URL. \<open>docker_url\<close> stands for the table of
  running processes, the look for the binary named by the code hashes, and the start of a process.
\<close>

definition ask_docker :: "'db Burrow \<Rightarrow> int \<Rightarrow> int \<Rightarrow> string \<Rightarrow> string \<Rightarrow> bytes \<Rightarrow> 'db Helper \<Rightarrow>
    ('db Helper, string + string \<times> string) act" where
  "ask_docker B t x contractAddr orgID hashes h =
    need (docker_url B t x contractAddr orgID hashes h) h (\<lambda>r. (Inr (map_sum id (Pair contractAddr) r), h))"

definition GetContractInvokeURL :: "'db Burrow \<Rightarrow> int \<Rightarrow> int \<Rightarrow> string \<Rightarrow> 'db Helper \<Rightarrow>
    ('db Helper, string + string \<times> string) act" where
  "GetContractInvokeURL B t x contractAddr h =
    (if contractAddr = ThirdPartyContract then ask_docker B t x contractAddr ThirdPartyContract [] h
     else seqR (is_genesis B contractAddr h) (\<lambda>genesis h.
     if genesis then ask_docker B t x contractAddr [] [] h
     else need (case Split (CHR ''.'') contractAddr of
           [orgID, a] \<Rightarrow> Inr (orgID, a)
         | _ \<Rightarrow> andThen (GetOrgID (ch_ext B) (ch_json B) t x contractAddr h) (\<lambda>orgID. Inr (orgID, contractAddr))) h
       (\<lambda>(orgID, contractAddr).
     if orgID = [] then (Inr (Inl (''invalid contractAddr: '' @ contractAddr)), h)
     else need (GetOrgCodeHash (ch_ext B) (ch_json B) t x orgID h) h (\<lambda>orgCodeHash.
     need (GetGenesisOrgID (ch_ext B) (ch_json B) t x h) h (\<lambda>genesisOrgID.
     need (if orgID \<noteq> genesisOrgID then GetOrgCodeHash (ch_ext B) (ch_json B) t x genesisOrgID h else Inr []) h (\<lambda>genesisOrgHash.
     ask_docker B t x contractAddr orgID (genesisOrgHash @ orgCodeHash) h))))))"

definition DirtyContractInvokeURL :: "'db Burrow \<Rightarrow> int \<Rightarrow> int \<Rightarrow> string \<Rightarrow> 'db Helper \<Rightarrow> ('db Helper, unit) act" where
  "DirtyContractInvokeURL B t x contractAddr h =
    seqR (is_genesis B contractAddr h) (\<lambda>genesis h.
    need (if genesis then Inr (CalcOrgID B ''genesis'') else GetOrgID (ch_ext B) (ch_json B) t x contractAddr h) h (\<lambda>orgID.
    if docker_Kill B orgID then (Inr (), h) else (Inl (''kill docker for '' @ orgID @ '' fail!''), h)))"

subsection \<open>One message\<close>

text \<open>The results of \<open>invoke\<close>: the response, and whether its \<open>error\<close> has the code \<open>CodeOK\<close>, with the URL.\<close>

definition mgr_invoke :: "'db Burrow \<Rightarrow> Header \<Rightarrow> int \<Rightarrow> int \<Rightarrow> int64 \<Rightarrow> string \<Rightarrow> string \<Rightarrow> TxData \<Rightarrow> Message \<Rightarrow>
    KVPair list \<Rightarrow> bytes \<Rightarrow> bytes \<Rightarrow> bytes \<Rightarrow> 'db Helper \<Rightarrow> ('db Helper, string \<times> Response \<times> bool) act" where
  "mgr_invoke B hdr t x gasLeft sender payer tx message receipts pubKey txHash blockHash h =
    seqR (GetContractInvokeURL B t x (ms_Contract message) h) (\<lambda>u h. case u of
      Inl e \<Rightarrow> (Inr ([], fail_Response (c_ErrInternalFailed B) e, False), h)
    | Inr (contractAddr, url) \<Rightarrow>
        seqR (is_genesis B contractAddr h) (\<lambda>genesis h.
        need (if genesis then Inr (Inr contractAddr)
              else andThen (getEffectContract B t x (Height hdr) contractAddr (ms_MethodID message) h)
                (\<lambda>r. Inr (map_sum id ct_Address r))) h (\<lambda>a. case a of
          Inl e \<Rightarrow> (Inr (url, fail_Response (c_LogicError B) e, False), h)
        | Inr contractAddr \<Rightarrow>
            let param = \<lparr>ip_Sender = sender, ip_Payer = payer, ip_To = [], ip_Tx = tx\<lparr>td_Messages := []\<rparr>, ip_GasLeft = gasLeft,
              ip_TxHash = txHash, ip_Message = message\<lparr>ms_Contract := contractAddr\<rparr>, ip_Receipts = receipts,
              ip_SenderPublicKey = pubKey,
              ip_BlockHash = (if V2_0_1_13780 (fork_infos B) (Height hdr) then [] else blockHash)\<rparr>
            in seqR (is_genesis B contractAddr h) (\<lambda>_ h.
               seqR (rpc_Invoke B url hdr t x param h) (\<lambda>result h.
               seqR (is_genesis B contractAddr h) (\<lambda>genesis h.
               seqR (if genesis then DirtyContractInvokeURL B 0 0 contractAddr h else (Inr (), h)) (\<lambda>_ h.
               (Inr (url, result, True), h))))))))"

text \<open>
  \<open>cleanDockerCache\<close>: what a receipt says has changed is to be forgotten by every process. The value is the address
  of a contract that was deployed.
\<close>

definition clean_receipt :: "'db Burrow \<Rightarrow> StdReceipt \<Rightarrow> string \<Rightarrow> string + string" where
  "clean_receipt B receipt newContractAddr = (let name = sr_Name receipt in
    if name \<in> {''std::setGasPrice'', ''std::burn'', ''std::addSupply''}
    then andThen (receipt_Token B name (sr_Bytes receipt)) (\<lambda>token.
         andThen (McDirtyToken B token) (\<lambda>_. Inr newContractAddr))
    else if name \<in> {''std::setOwner'', ''smartcontract.forbidContract'', ''IBC.setGasPriceRatio''}
    then andThen (McDirtyContract B ''*'') (\<lambda>_. Inr newContractAddr)
    else if name = ''smartcontract.deployContract''
    then andThen (receipt_ContractAddr B (sr_Bytes receipt)) (\<lambda>a. andThen (McDirtyContract B ''*'') (\<lambda>_. Inr a))
    else Inr newContractAddr)"

fun cleanDockerCache :: "'db Burrow \<Rightarrow> KVPair list \<Rightarrow> string \<Rightarrow> string + string" where
  "cleanDockerCache B [] newContractAddr = Inr newContractAddr"
| "cleanDockerCache B (v # vs) newContractAddr =
    andThen (unmarshal (j_StdReceipt B) (kv_Value v)) (\<lambda>receipt.
    andThen (clean_receipt B receipt newContractAddr) (cleanDockerCache B vs))"

subsection \<open>All messages\<close>

record MgrRun =
  mr_result :: Response
  mr_receipts :: "KVPair list"
  mr_gasUsed :: int64
  mr_fee :: int64
  mr_urls :: "string list"
  mr_new :: "string list"

definition mgr_start :: MgrRun where
  "mgr_start = \<lparr>mr_result = new_Response, mr_receipts = [], mr_gasUsed = 0, mr_fee = 0, mr_urls = [], mr_new = []\<rparr>"

definition number_tag :: "nat \<Rightarrow> KVPair \<Rightarrow> KVPair" where
  "number_tag index tag = tag\<lparr>kv_Key := ''/'' @ dec_of_nat index @ kv_Key tag\<rparr>"

text \<open>What the loop notes of the answer to a message: the URL is added only to a list that is not empty.\<close>

definition note_answer :: "nat \<Rightarrow> string \<Rightarrow> Response \<Rightarrow> MgrRun \<Rightarrow> MgrRun" where
  "note_answer index url result r = r\<lparr>mr_result := result,
     mr_urls := (if mr_urls r \<noteq> [] \<and> url \<notin> set (mr_urls r) then mr_urls r @ [url] else mr_urls r),
     mr_receipts := mr_receipts r @ map (number_tag index) (rs_Tags result),
     mr_gasUsed := rs_GasUsed result, mr_fee := mr_fee r + rs_Fee result\<rparr>"

text \<open>The value is a response that is returned as it is, or what the loop has noted.\<close>

fun mgr_messages :: "'db Burrow \<Rightarrow> Header \<Rightarrow> int \<Rightarrow> int \<Rightarrow> string \<Rightarrow> TxData \<Rightarrow> bytes \<Rightarrow> bytes \<Rightarrow> bytes \<Rightarrow> nat \<Rightarrow>
    Message list \<Rightarrow> MgrRun \<Rightarrow> 'db Helper \<Rightarrow> ('db Helper, Response + MgrRun) act" where
  "mgr_messages B hdr t x sender tx pubKey txHash blockHash index [] r h = (Inr (Inr r), h)"
| "mgr_messages B hdr t x sender tx pubKey txHash blockHash index (message # ms) r h =
    seqR (getPayer B (Height hdr) sender tx index h) (\<lambda>p h. case p of
      Inl e \<Rightarrow> (Inr (Inl ((mr_result r)\<lparr>rs_Code := c_LogicError B, rs_Log := e\<rparr>)), h)
    | Inr payer \<Rightarrow>
        seqR (mgr_invoke B hdr t x (td_GasLimit tx - mr_gasUsed r) sender payer tx message (rs_Tags (mr_result r))
            pubKey txHash blockHash h) (\<lambda>(url, result, ok) h.
        let r = note_answer index url result r in
        if rs_Code result \<noteq> c_CodeOK (ch_json B) \<or> \<not> ok
        then need (if mr_urls r \<noteq> [] then CallMcDirtyTx B (mr_urls r) t x else Inr ()) h (\<lambda>_. (Inr (Inr r), h))
        else need (cleanDockerCache B (rs_Tags result) []) h (\<lambda>newContractAddr.
          mgr_messages B hdr t x sender tx pubKey txHash blockHash (Suc index) ms
            (if newContractAddr \<noteq> [] then r\<lparr>mr_new := mr_new r @ [newContractAddr]\<rparr> else r) h)))"

text \<open>\<open>resetGasUsed\<close>: between two heights the gas is that of the last message alone, unless a contract is exempt.\<close>

fun any_exempt :: "'db Burrow \<Rightarrow> int \<Rightarrow> Message list \<Rightarrow> 'db Helper \<Rightarrow> string + bool" where
  "any_exempt B height [] h = Inr False"
| "any_exempt B height (m # ms) h =
    andThen (getEffectContract B 0 0 height (ms_Contract m) (ms_MethodID m) h) (\<lambda>r. case r of
      Inl e \<Rightarrow> Inl e
    | Inr c \<Rightarrow> if FilterContracts_V2_0_2_14654 (fork_infos B) (Md5_of B) (ct_OrgID c) (ct_Name c) then Inr True
               else any_exempt B height ms h)"

definition abs_gas :: "int64 \<Rightarrow> int64" where
  "abs_gas g = of_nat (float64 (nat \<bar>sint g\<bar>))"

definition resetGasUsed :: "'db Burrow \<Rightarrow> int \<Rightarrow> Response \<Rightarrow> TxData \<Rightarrow> 'db Helper \<Rightarrow> string + Response" where
  "resetGasUsed B height result tx h =
    andThen (any_exempt B height (td_Messages tx) h) (\<lambda>exempt.
    if exempt then Inr result
    else if td_Messages tx = [] then Inl index_range
    else let msg = last (td_Messages tx) in
      andThen (getEffectContract B 0 0 height (ms_Contract msg) (ms_MethodID msg) h) (\<lambda>r. case r of
        Inl e \<Rightarrow> Inl e
      | Inr c \<Rightarrow> Inr (case List.find (is_method msg) (ct_Methods c) of
          Some method \<Rightarrow> result\<lparr>rs_GasUsed := abs_gas (mt_Gas method)\<rparr> | None \<Rightarrow> result)))"

definition mgr_InvokeTx :: "'db Burrow \<Rightarrow> Header \<Rightarrow> int \<Rightarrow> int \<Rightarrow> string \<Rightarrow> TxData \<Rightarrow> bytes \<Rightarrow> bytes \<Rightarrow> bytes \<Rightarrow>
    'db Helper \<Rightarrow> ('db Helper, Response) act" where
  "mgr_InvokeTx B hdr t x sender tx pubKey txHash blockHash h =
    seqR (mgr_messages B hdr t x sender tx pubKey txHash blockHash 0 (td_Messages tx) mgr_start h) (\<lambda>r h. case r of
      Inl result \<Rightarrow> (Inr result, h)
    | Inr r \<Rightarrow>
        let result = (mr_result r)\<lparr>rs_Fee := mr_fee r, rs_GasUsed := mr_gasUsed r, rs_Tags := mr_receipts r\<rparr>
        in need (if V2_0_2_14654 (fork_infos B) (Height hdr) then resetGasUsed B (Height hdr) result tx h else Inr result) h
             (\<lambda>result. (Inr result, h)))"

section \<open>The adapter (\<open>adapter.go\<close>)\<close>

definition adapter_InvokeTx :: "'db Burrow \<Rightarrow> Header \<Rightarrow> int \<Rightarrow> int \<Rightarrow> string \<Rightarrow> TxData \<Rightarrow> bytes \<Rightarrow> bytes \<Rightarrow> bytes \<Rightarrow> 'db Helper \<Rightarrow>
    ('db Helper, Response) act" where
  "adapter_InvokeTx B hdr t x sender tx publicKey txHash blockHash h =
    need (CheckBlackList (ch_ext B) (ch_json B) t x sender h) h (\<lambda>black.
    if black then (Inr (fail_Response (c_ErrDealFailed B) (txt_ErrDealFailed B)), h)
    else if td_Messages tx = [] then (Inl index_range, h)
    else let methodID = ms_MethodID (last (td_Messages tx)) in
    if methodID = 0 \<or> methodID = 0xFFFFFFFF
    then need (CheckBVMEnable (ch_ext B) (ch_json B) t x h) h (\<lambda>enabled.
      if \<not> enabled then (Inr (fail_Response (c_LogicError B) ''BVM is disabled''), h)
      else bvm_InvokeTx B hdr blockHash t x sender tx h)
    else mgr_InvokeTx B hdr t x sender tx publicKey txHash blockHash h)"

end
