(* ===== verification/Burrow_View.thy ===== *)
theory Burrow_View
  imports Burrow_Tx Deliver_Fee Acm_Cache
begin

text \<open>
  What the store of the chain holds for the virtual machine: the keys of an account and of a storage slot (\<open>slot_key\<close>,
  which tells all of them apart), the contents the block has once the tx is committed (\<open>pending\<close>), and an account read
  from them (\<open>stored_account\<close>). On these the store meets the contract \<open>account_store\<close> of a backend.
\<close>

section \<open>Keys\<close>

definition addr_of :: "'db Chain \<Rightarrow> word160 \<Rightarrow> string" where
  "addr_of C a = (case ToAddr (ch_crypto C) a of None \<Rightarrow> [] | Some addr \<Rightarrow> addr)"

datatype slot = Listing word160 | Holding word160 | Code_of word160 | Token_of word160 | Storage_of word160 word256 | Info_of word160

primrec slot_key :: "'db Chain \<Rightarrow> string \<Rightarrow> slot \<Rightarrow> string" where
  "slot_key C tok (Listing a) = KeyOfAccount (addr_of C a)"
| "slot_key C tok (Holding a) = KeyOfAccountToken (addr_of C a) tok"
| "slot_key C tok (Code_of a) = codeKey (addr_of C a)"
| "slot_key C tok (Token_of a) = tokenKey (addr_of C a)"
| "slot_key C tok (Storage_of a k) = storageKey (addr_of C a) k"
| "slot_key C tok (Info_of a) = contractInfoKey (addr_of C a)"

text \<open>A value that is not the text of a key of the store.\<close>

definition not_key :: "bytes \<Rightarrow> bool" where
  "not_key v \<longleftrightarrow> (case string_of_bytes v of [] \<Rightarrow> True | c # _ \<Rightarrow> c \<noteq> CHR ''/'')"

text \<open>What is asked of the surroundings: the codecs read back what they wrote, the text of a list is no key, and addresses
  have distinct texts without a slash.\<close>

definition chain_ok :: "'db Chain \<Rightarrow> bool" where
  "chain_ok C \<longleftrightarrow> ext_ok (ch_ext C) \<and> codec_ok (j_strings (ch_json C)) \<and> codec_ok (j_Balance (ch_json C))
    \<and> (\<forall>l b. marshal (j_strings (ch_json C)) l = Inr b \<longrightarrow> not_key b)
    \<and> (\<forall>a. ToAddr (ch_crypto C) a \<noteq> None \<and> plain (addr_of C a) \<and> addr_of C a \<noteq> ''contract'') \<and> inj (addr_of C)"

lemma chain_okD:
  assumes "chain_ok C"
  shows "ext_ok (ch_ext C)" "codec_ok (j_strings (ch_json C))" "codec_ok (j_Balance (ch_json C))"
    "marshal (j_strings (ch_json C)) l = Inr b \<Longrightarrow> not_key b" "plain (addr_of C a)" "addr_of C a \<noteq> ''contract''"
    "addr_of C a = addr_of C a' \<longleftrightarrow> a = a'" "bvm_addr C a = Inr (addr_of C a)"
proof -
  have "\<exists>addr. ToAddr (ch_crypto C) a = Some addr" "inj (addr_of C)" using assms by (auto simp: chain_ok_def)
  then show "bvm_addr C a = Inr (addr_of C a)" "addr_of C a = addr_of C a' \<longleftrightarrow> a = a'"
    by (auto simp: bvm_addr_def addr_of_def simp flip: inj_eq)
qed (use assms in \<open>auto simp: chain_ok_def\<close>)

lemma hex_lower_inject: "length v = length w \<Longrightarrow> hex_lower v = hex_lower w \<longleftrightarrow> v = w"
proof (induction v w rule: list_induct2)
  case (Cons b v c w)
  have digit: "m = n" if "digit_char m = digit_char n" "m < 16" "n < 16" for m n
  proof -
    have "(if m < 10 then 48 + m else 87 + m) = (if n < 10 then 48 + n else 87 + n)"
      using of_char_digit_char [OF that(2)] of_char_digit_char [OF that(3)] unfolding that(1) by (rule trans [OF sym])
    then show ?thesis using that(2,3) by (simp split: if_splits)
  qed
  have lt: "unat (x :: byte) div 16 < 16" for x using unsigned_less [of x, where 'a = nat] by simp
  have "b = c" if d: "digit_char (unat b div 16) = digit_char (unat c div 16)" "digit_char (unat b mod 16) = digit_char (unat c mod 16)"
  proof -
    have "unat b div 16 = unat c div 16" by (rule digit [OF d(1) lt lt])
    moreover have "unat b mod 16 = unat c mod 16" by (rule digit [OF d(2)]) simp_all
    ultimately have "unat b = unat c" by (metis div_mult_mod_eq)
    then show ?thesis by (rule unsigned_word_eqI)
  qed
  then show ?case using Cons.IH by (auto simp: hex_lower_def)
qed simp

lemma Word256_String_inject: "Word256_String v = Word256_String w \<longleftrightarrow> v = w"
  by (simp add: Word256_String_def hex_lower_inject be_bytes_inject)

text \<open>No two slots share a key.\<close>

lemma slot_key_inject:
  assumes "chain_ok C"
  shows "slot_key C tok s = slot_key C tok s' \<longleftrightarrow> s = s'"
proof
  note D = chain_okD [OF assms]
  have split: "addr_of C a @ CHR ''/'' # x = addr_of C b @ CHR ''/'' # y \<longleftrightarrow> a = b \<and> x = y" for a b x y
    using slash_split [OF D(5) D(5), of a x b y] D(7) by auto
  have info: "addr_of C a @ CHR ''/'' # x \<noteq> ''contract'' @ CHR ''/'' # y" for a x y
    using slash_split [OF D(5), of "''contract''" a x y] D(6) by (auto simp: plain_def)
  have listing: "addr_of C a \<noteq> addr_of C b @ CHR ''/'' # y" for a b y using D(5) [of a] by (auto simp: plain_def)
  note facts = split info info [THEN not_sym] listing listing [THEN not_sym] D(7) Word256_String_inject
  note defs = KeyOfAccount_def KeyOfAccountToken_def codeKey_def tokenKey_def storageKey_def contractInfoKey_def
  assume "slot_key C tok s = slot_key C tok s'"
  then show "s = s'"
    by (cases s; cases s') (use facts in \<open>simp_all add: defs\<close>)
qed simp

lemma listing_key:
  assumes "chain_ok C"
  shows "KeyOfAccount (addr_of C a) = slot_key C tok s \<longleftrightarrow> s = Listing a" "slot_key C tok s = KeyOfAccount (addr_of C a) \<longleftrightarrow> s = Listing a"
  using slot_key_inject [OF assms, of tok s "Listing a"] by auto

text \<open>Every key begins with a slash, so a text that is no key differs from all of them.\<close>

lemma not_key_slot: "not_key v \<Longrightarrow> string_of_bytes v \<noteq> slot_key C tok s"
  by (cases s) (auto simp: not_key_def KeyOfAccount_def KeyOfAccountToken_def codeKey_def tokenKey_def storageKey_def
      contractInfoKey_def)

section \<open>The contents of the open tx\<close>

definition pending :: "'db Chain \<Rightarrow> 'db BvmStore \<Rightarrow> contents" where
  "pending C s = (case tx_of (bs_transID s) (bs_txID s) (bs_helper s) of
     None \<Rightarrow> block_view (ch_ext C) (bs_transID s) (bs_helper s)
   | Some tx \<Rightarrow> overlay (xbuffer tx) (block_view (ch_ext C) (bs_transID s) (bs_helper s)))"

definition listings_ok :: "'db Chain \<Rightarrow> contents \<Rightarrow> bool" where
  "listings_ok C m \<longleftrightarrow> (\<forall>a. not_key (m (KeyOfAccount (addr_of C a))))"

definition store_ok :: "'db Chain \<Rightarrow> string \<Rightarrow> int \<Rightarrow> int \<Rightarrow> 'db BvmStore \<Rightarrow> bool" where
  "store_ok C tok t x s \<longleftrightarrow> bs_panic s = None \<and> bs_tokenAddr s = tok \<and> bs_transID s = t \<and> bs_txID s = x
    \<and> (case tx_of t x (bs_helper s) of None \<Rightarrow> False | Some tx \<Rightarrow> distinct (map fst (xbuffer tx)))
    \<and> listings_ok C (block_view (ch_ext C) t (bs_helper s)) \<and> listings_ok C (pending C s)"

lemma store_okD:
  assumes "store_ok C tok t x s"
  shows "bs_panic s = None" "bs_tokenAddr s = tok" "bs_transID s = t" "bs_txID s = x"
    "listings_ok C (block_view (ch_ext C) t (bs_helper s))" "listings_ok C (pending C s)"
    "\<exists>tx. tx_of t x (bs_helper s) = Some tx \<and> distinct (map fst (xbuffer tx))"
  using assms by (auto simp: store_ok_def split: option.splits)

text \<open>A read gives the pending value; where that is empty it gives the one of the block.\<close>

lemma bs_read_run:
  assumes "chain_ok C" "store_ok C tok t x s"
  shows "bs_read C s k = Inr (if pending C s k = [] then block_view (ch_ext C) t (bs_helper s) k else pending C s k)"
proof -
  note D = store_okD [OF assms(2)]
  obtain tx where tx: "tx_of t x (bs_helper s) = Some tx" using D(7) by blast
  obtain tr where tr: "tran t (bs_helper s) = Some tr" using tx_of_tran [OF tx] by blast
  show ?thesis unfolding bs_read_def D(3,4) get_run [OF chain_okD(1) [OF assms(1)] tr]
    using tx D(3,4) by (simp add: tx_view_def pending_def shadow_def overlay_def split: option.split)
qed

lemma on_tx_pending:
  assumes "store_ok C tok t x s" "\<And>h. f t x h = on_tx t x (\<lambda>tx. Tx_Set tx k v) h"
    "\<And>a. k = KeyOfAccount (addr_of C a) \<Longrightarrow> not_key v"
  obtains s' where "on_helper f s = (Inr (), s')" "store_ok C tok t x s'" "pending C s' = (pending C s)(k := v)"
proof -
  note D = store_okD [OF assms(1)]
  obtain tx where tx: "tx_of t x (bs_helper s) = Some tx" "distinct (map fst (xbuffer tx))" using D(7) by blast
  obtain h' where h': "on_tx t x (\<lambda>tx. Tx_Set tx k v) (bs_helper s) = (Inr (), h')" "rest h' = rest (bs_helper s)"
    "\<And>j. tran j h' = tran j (bs_helper s)"
    "\<And>j y. tx_of j y h' = (if j = t \<and> y = x then Some (Tx_Set tx k v) else tx_of j y (bs_helper s))"
    by (rule on_tx_run [OF tx(1), where f = "\<lambda>tx. Tx_Set tx k v"]) blast
  let ?s = "s\<lparr>bs_helper := h'\<rparr>"
  have bv: "block_view (ch_ext C) t h' = block_view (ch_ext C) t (bs_helper s)"
    by (rule block_view_cong [OF h'(2)]) (simp add: h'(3))
  have p: "pending C ?s = (pending C s)(k := v)"
    using D(3,4) tx(1) h'(4) bv by (simp add: pending_def Tx_Set_def overlay_update)
  have "store_ok C tok t x ?s"
    using D tx h'(4) bv assms(3) by (auto simp: store_ok_def p Tx_Set_def distinct_update listings_ok_def)
  then show thesis using that [of ?s] p h'(1) D(3,4) by (simp add: on_helper_def assms(2))
qed

lemma bs_write_run:
  assumes "store_ok C tok t x s" "\<And>a. k = KeyOfAccount (addr_of C a) \<Longrightarrow> not_key v"
  obtains s' where "bs_write k v s = (Inr (), s')" "store_ok C tok t x s'" "pending C s' = (pending C s)(k := v)"
  by (rule on_tx_pending [OF assms(1), where f = "\<lambda>t x. helper_set t x k v" and k = k and v = v])
    (use assms(2) that in \<open>auto simp: helper_set_def bs_write_def\<close>)

text \<open>A list of writes.\<close>

fun puts :: "(string \<times> bytes) list \<Rightarrow> contents \<Rightarrow> contents" where
  "puts [] m = m"
| "puts ((k, v) # kvs) m = puts kvs (m(k := v))"

lemma bs_writes_run:
  "store_ok C tok t x s \<Longrightarrow> (\<And>a v. (KeyOfAccount (addr_of C a), v) \<in> set kvs \<Longrightarrow> not_key v) \<Longrightarrow>
    \<exists>s'. bs_writes kvs s = (Inr (), s') \<and> store_ok C tok t x s' \<and> pending C s' = puts kvs (pending C s)"
proof (induction kvs arbitrary: s)
  case (Cons kv kvs)
  obtain k v where kv: "kv = (k, v)" by fastforce
  obtain s1 where s1: "bs_write k v s = (Inr (), s1)" "store_ok C tok t x s1" "pending C s1 = (pending C s)(k := v)"
    by (rule bs_write_run [OF Cons.prems(1), of k v]) (use Cons.prems(2) kv in auto)
  have "\<exists>s'. bs_writes kvs s1 = (Inr (), s') \<and> store_ok C tok t x s' \<and> pending C s' = puts kvs (pending C s1)"
    by (rule Cons.IH [OF s1(2)], rule Cons.prems(2), rule list.set_intros(2))
  then show ?case using s1 kv by auto
qed simp

section \<open>Accounts and storage in the store\<close>

record Stored =
  so_listed :: bool
  so_balance :: "string + int"
  so_code :: bytes
  so_token :: string

definition stored_account :: "'db Chain \<Rightarrow> string \<Rightarrow> contents \<Rightarrow> word160 \<Rightarrow> Stored" where
  "stored_account C tok m a = \<lparr>so_listed = (m (slot_key C tok (Listing a)) \<noteq> []),
     so_balance = read_balance (ch_json C) (m (slot_key C tok (Holding a))),
     so_code = m (slot_key C tok (Code_of a)), so_token = string_of_bytes (m (slot_key C tok (Token_of a)))\<rparr>"

definition stored_slot :: "'db Chain \<Rightarrow> string \<Rightarrow> contents \<Rightarrow> word160 \<Rightarrow> word256 \<Rightarrow> bytes" where
  "stored_slot C tok m a k = m (slot_key C tok (Storage_of a k))"

text \<open>An update without code leaves code and token; a removal empties all four.\<close>

definition update_stored :: "string \<Rightarrow> Account option \<Rightarrow> Stored \<Rightarrow> Stored" where
  "update_stored tok updated old = (case updated of None \<Rightarrow> old
   | Some acc \<Rightarrow> (case BVMCode acc of
       None \<Rightarrow> old\<lparr>so_listed := True, so_balance := Inr (Balance acc)\<rparr>
     | Some c \<Rightarrow> \<lparr>so_listed = True, so_balance = Inr (Balance acc), so_code = c,
         so_token = (if tok \<noteq> [] then tok else BVMToken acc)\<rparr>))"

definition remove_stored :: "Stored \<Rightarrow> Stored" where
  "remove_stored old = \<lparr>so_listed = False, so_balance = Inr 0, so_code = [], so_token = []\<rparr>"

lemma SetBalance_store:
  assumes "chain_ok C" "store_ok C tok t x s"
  obtains s' b where "on_helper (\<lambda>t x. SetBalance (ch_json C) t x (addr_of C a) tok v) s = (Inr (), s')" "store_ok C tok t x s'"
    "read_balance (ch_json C) b = Inr v" "pending C s' = (pending C s)(slot_key C tok (Holding a) := b)"
proof -
  obtain b where b: "marshal (j_Balance (ch_json C)) \<lparr>ab_Address = tok, ab_Balance = v\<rparr> = Inr b" "b \<noteq> []"
      "unmarshal (j_Balance (ch_json C)) b = Inr \<lparr>ab_Address = tok, ab_Balance = v\<rparr>"
    by (rule codec_marshal [OF chain_okD(3) [OF assms(1)]])
  have r: "read_balance (ch_json C) b = Inr v" using b by (simp add: read_balance_def decode_def andThen_def)
  have ne: "slot_key C tok (Holding a) \<noteq> KeyOfAccount (addr_of C d)" for d
    using listing_key [OF assms(1)] by (simp del: slot_key.simps)
  show thesis
    by (rule on_tx_pending [OF assms(2), where f = "\<lambda>t x. SetBalance (ch_json C) t x (addr_of C a) tok v"
        and k = "slot_key C tok (Holding a)" and v = b])
      (use b(1) ne r that in \<open>auto simp: SetBalance_def write_json_def helper_set_def\<close>)
qed

text \<open>\<open>AddAccountTokenKey\<close> after a list has been written.\<close>

lemma AddAccountTokenKey_store:
  assumes "chain_ok C" "store_ok C tok t x s" "pending C s (slot_key C tok (Listing a)) = b" "b \<noteq> []"
    and "unmarshal (j_strings (ch_json C)) b = Inr l"
  obtains s' b' where "AddAccountTokenKey C (addr_of C a) key s = (Inr None, s')" "store_ok C tok t x s'" "b' \<noteq> []"
    "unmarshal (j_strings (ch_json C)) b' = Inr (if key \<in> set l then l else l @ [key])"
    "pending C s' = (pending C s)(slot_key C tok (Listing a) := b')"
proof -
  let ?l = "if key \<in> set l then l else l @ [key]"
  obtain b' where b': "marshal (j_strings (ch_json C)) ?l = Inr b'" "b' \<noteq> []" "unmarshal (j_strings (ch_json C)) b' = Inr ?l"
    by (rule codec_marshal [OF chain_okD(2) [OF assms(1)]])
  have "bs_read C s (KeyOfAccount (addr_of C a)) = Inr b"
    using bs_read_run [OF assms(1,2), of "KeyOfAccount (addr_of C a)"] assms(3,4) by simp
  moreover obtain s' where "bs_write (KeyOfAccount (addr_of C a)) b' s = (Inr (), s')" "store_ok C tok t x s'"
      "pending C s' = (pending C s)(KeyOfAccount (addr_of C a) := b')"
    by (rule bs_write_run [OF assms(2)]) (use chain_okD(4) [OF assms(1) b'(1)] in auto)
  ultimately show thesis using assms(5) b' that [of s' b'] by (simp add: AddAccountTokenKey_def need_def)
qed

lemma UpdateAccount_store:
  assumes "chain_ok C" "store_ok C tok t x s"
  obtains s' where "bs_UpdateAccount C acc s = (Inr None, s')" "store_ok C tok t x s'"
    "stored_account C tok (pending C s') = (stored_account C tok (pending C s))
       (Address acc := update_stored tok (Some acc) (stored_account C tok (pending C s) (Address acc)))"
    "stored_slot C tok (pending C s') = stored_slot C tok (pending C s)"
proof -
  let ?a = "Address acc" and ?K = "slot_key C tok" and ?l = "[KeyOfAccountNonce (addr_of C (Address acc))]"
  note inj = slot_key_inject [OF assms(1)] and listing = listing_key [OF assms(1)]
  obtain b1 where b1: "marshal (j_strings (ch_json C)) ?l = Inr b1" "b1 \<noteq> []" "unmarshal (j_strings (ch_json C)) b1 = Inr ?l"
    by (rule codec_marshal [OF chain_okD(2) [OF assms(1)]])
  obtain s1 where s1: "bs_write (KeyOfAccount (addr_of C ?a)) b1 s = (Inr (), s1)" "store_ok C tok t x s1"
      "pending C s1 = (pending C s)(KeyOfAccount (addr_of C ?a) := b1)"
    by (rule bs_write_run [OF assms(2)]) (use chain_okD(4) [OF assms(1) b1(1)] in auto)
  obtain s2 b2 where s2: "on_helper (\<lambda>t x. SetBalance (ch_json C) t x (addr_of C ?a) tok (Balance acc)) s1 = (Inr (), s2)"
      "store_ok C tok t x s2" "read_balance (ch_json C) b2 = Inr (Balance acc)"
      "pending C s2 = (pending C s1)(?K (Holding ?a) := b2)"
    by (rule SetBalance_store [OF assms(1) s1(2)])
  let ?kvs = "case BVMCode acc of None \<Rightarrow> []
     | Some c \<Rightarrow> [(?K (Code_of ?a), c), (?K (Token_of ?a), bytes_of_string (if tok \<noteq> [] then tok else BVMToken acc))]"
  have "\<exists>s'. bs_writes ?kvs s2 = (Inr (), s') \<and> store_ok C tok t x s' \<and> pending C s' = puts ?kvs (pending C s2)"
    by (rule bs_writes_run [OF s2(2)]) (auto simp: listing simp del: slot_key.simps split: option.splits)
  then obtain s3 where s3: "bs_writes ?kvs s2 = (Inr (), s3)" "store_ok C tok t x s3" "pending C s3 = puts ?kvs (pending C s2)"
    by blast
  have l3: "pending C s3 (?K (Listing ?a)) = b1"
    by (simp add: s3(3) s2(4) s1(3) listing inj del: slot_key.simps split: option.split)
  obtain s4 b4 where s4: "AddAccountTokenKey C (addr_of C ?a) (std_KeyOfAccountToken C (addr_of C ?a) tok) s3 = (Inr None, s4)"
      "store_ok C tok t x s4" "b4 \<noteq> []" "pending C s4 = (pending C s3)(?K (Listing ?a) := b4)"
    by (rule AddAccountTokenKey_store [OF assms(1) s3(2) l3 b1(2,3)])
  have run: "bs_UpdateAccount C acc s = (Inr None, s4)"
    using s3(1) s4(1)
    by (cases "BVMCode acc") (simp_all add: bs_UpdateAccount_def need_def chain_okD(8) [OF assms(1)] b1(1) s1(1) s2(1) bs_GetToken_def
        store_okD(2) [OF s1(2)] store_okD(2) [OF s2(2)] store_okD(2) [OF s3(2)] del: bs_writes.simps(2) split del: if_split cong: if_cong)
  have slots: "pending C s4 (?K sl) = ((puts ?kvs ((pending C s)(?K (Listing ?a) := b1, ?K (Holding ?a) := b2)))(?K (Listing ?a) := b4)) (?K sl)" for sl
    unfolding s4(4) s3(3) s2(4) s1(3) by simp
  have "stored_account C tok (pending C s4) d = ((stored_account C tok (pending C s))
       (?a := update_stored tok (Some acc) (stored_account C tok (pending C s) ?a))) d" for d
    using s4(3) s2(3)
    by (cases "BVMCode acc") (auto simp: stored_account_def slots inj update_stored_def simp del: slot_key.simps)
  moreover have "stored_slot C tok (pending C s4) d = stored_slot C tok (pending C s) d" for d
    by (cases "BVMCode acc") (auto simp: fun_eq_iff stored_slot_def slots inj simp del: slot_key.simps)
  ultimately show thesis using that [OF run s4(2)] by blast
qed

lemma RemoveAccount_store:
  assumes "chain_ok C" "store_ok C tok t x s"
  obtains s' where "bs_RemoveAccount C a s = (Inr None, s')" "store_ok C tok t x s'"
    "stored_account C tok (pending C s') = (stored_account C tok (pending C s))
       (a := remove_stored (stored_account C tok (pending C s) a))"
    "stored_slot C tok (pending C s') = stored_slot C tok (pending C s)"
proof -
  let ?K = "slot_key C tok"
  note inj = slot_key_inject [OF assms(1)] and listing = listing_key [OF assms(1)] and D = store_okD [OF assms(2)]
  obtain v where v: "bs_read C s (KeyOfAccount (addr_of C a)) = Inr v" "not_key v"
    using bs_read_run [OF assms, of "KeyOfAccount (addr_of C a)"] D(5,6) by (auto simp: listings_ok_def)
  note other = not_key_slot [OF v(2)] not_key_slot [OF v(2), THEN not_sym]
  have empty: "not_key []" by (simp add: not_key_def string_of_bytes_def)
  let ?kvs = "[(?K (Listing a), []), (?K (Holding a), []), (string_of_bytes v, []), (?K (Info_of a), []), (?K (Code_of a), []),
    (?K (Token_of a), [])]"
  have "\<exists>s'. bs_writes ?kvs s = (Inr (), s') \<and> store_ok C tok t x s' \<and> pending C s' = puts ?kvs (pending C s)"
    by (rule bs_writes_run [OF assms(2)]) (auto simp: empty simp del: slot_key.simps)
  then obtain s' where s': "bs_writes ?kvs s = (Inr (), s')" "store_ok C tok t x s'" "pending C s' = puts ?kvs (pending C s)"
    by blast
  have run: "bs_RemoveAccount C a s = (Inr None, s')"
    using s'(1) by (simp add: bs_RemoveAccount_def need_def chain_okD(8) [OF assms(1)] v(1) D(2) del: bs_writes.simps)
  have "stored_account C tok (pending C s') d = ((stored_account C tok (pending C s))
      (a := remove_stored (stored_account C tok (pending C s) a))) d" for d
    by (auto simp: stored_account_def s'(3) inj other remove_stored_def read_balance_def string_of_bytes_def [of "[]"] simp del: slot_key.simps)
  moreover have "stored_slot C tok (pending C s') d = stored_slot C tok (pending C s) d" for d
    by (auto simp: fun_eq_iff stored_slot_def s'(3) inj other simp del: slot_key.simps)
  ultimately show thesis using that [OF run s'(2)] by blast
qed

lemma SetStorage_store:
  assumes "chain_ok C" "store_ok C tok t x s"
  obtains s' where "bs_SetStorage C a k v s = (Inr None, s')" "store_ok C tok t x s'"
    "stored_account C tok (pending C s') = stored_account C tok (pending C s)"
    "stored_slot C tok (pending C s') = (stored_slot C tok (pending C s))(a := (stored_slot C tok (pending C s) a)(k := v))"
proof -
  note inj = slot_key_inject [OF assms(1)] and listing = listing_key [OF assms(1)]
  obtain s' where s': "bs_write (slot_key C tok (Storage_of a k)) v s = (Inr (), s')" "store_ok C tok t x s'"
      "pending C s' = (pending C s)(slot_key C tok (Storage_of a k) := v)"
    by (rule bs_write_run [OF assms(2), where k = "slot_key C tok (Storage_of a k)"]) (auto simp: listing simp del: slot_key.simps)
  have "bs_SetStorage C a k v s = (Inr None, s')"
    using s'(1) by (simp add: bs_SetStorage_def need_def chain_okD(8) [OF assms(1)])
  moreover have "stored_account C tok (pending C s') d = stored_account C tok (pending C s) d" for d
    by (simp add: stored_account_def s'(3) inj del: slot_key.simps)
  moreover have "stored_slot C tok (pending C s') d j = ((stored_slot C tok (pending C s))(a := (stored_slot C tok (pending C s) a)(k := v))) d j" for d j
    by (simp add: stored_slot_def s'(3) inj del: slot_key.simps)
  ultimately show thesis using that [OF _ s'(2)] by (simp add: fun_eq_iff del: fun_upd_apply)
qed

section \<open>The store as a backend\<close>

text \<open>The chain of a \<open>Sync\<close> to the store has no cache left.\<close>

fun at_store :: "'db Chain \<Rightarrow> string \<Rightarrow> int \<Rightarrow> int \<Rightarrow> 'db BvmStore chain \<Rightarrow> bool" where
  "at_store C tok t x (Base s) \<longleftrightarrow> chain_ok C \<and> store_ok C tok t x s"
| "at_store C tok t x (Layer _ _) \<longleftrightarrow> False"

lemma bs_guarded_run: "bs_panic s = None \<Longrightarrow> f s = (Inr e, s') \<Longrightarrow> bs_guarded f s = (e, s')"
  by (simp add: bs_guarded_def)

interpretation stored: account_store "chain_writer (chain_rw C)" "at_store C tok t x" "update_stored tok" remove_stored
  "\<lambda>ch. stored_account C tok (pending C (chain_base ch))" "\<lambda>ch a k. Some (stored_slot C tok (pending C (chain_base ch)) a k)"
  for C :: "'db Chain" and tok t x
proof unfold_locales
  fix ch ch' :: "'db BvmStore chain" and acc
  assume ok: "at_store C tok t x ch" and w: "w_UpdateAccount (chain_writer (chain_rw C)) acc ch = (None, ch')"
  obtain s where s: "ch = Base s" "chain_ok C" "store_ok C tok t x s" using ok by (cases ch) auto
  obtain s' where s': "bs_UpdateAccount C acc s = (Inr None, s')" "store_ok C tok t x s'"
    "stored_account C tok (pending C s') = (stored_account C tok (pending C s))
       (Address acc := update_stored tok (Some acc) (stored_account C tok (pending C s) (Address acc)))"
    "stored_slot C tok (pending C s') = stored_slot C tok (pending C s)"
    by (rule UpdateAccount_store [OF s(2,3)])
  have "ch' = Base s'"
    using w bs_guarded_run [where f = "bs_UpdateAccount C acc", OF store_okD(1) [OF s(3)] s'(1)] by (simp add: s(1) chain_writer_def chain_rw_def)
  then show "at_store C tok t x ch' \<and> stored_account C tok (pending C (chain_base ch')) = (stored_account C tok (pending C (chain_base ch)))
      (Address acc := update_stored tok (Some acc) (stored_account C tok (pending C (chain_base ch)) (Address acc)))
    \<and> (\<lambda>a k. Some (stored_slot C tok (pending C (chain_base ch')) a k)) = (\<lambda>a k. Some (stored_slot C tok (pending C (chain_base ch)) a k))"
    using s(1,2) s'(2-4) by simp
next
  fix ch ch' :: "'db BvmStore chain" and a
  assume ok: "at_store C tok t x ch" and w: "w_RemoveAccount (chain_writer (chain_rw C)) a ch = (None, ch')"
  obtain s where s: "ch = Base s" "chain_ok C" "store_ok C tok t x s" using ok by (cases ch) auto
  obtain s' where s': "bs_RemoveAccount C a s = (Inr None, s')" "store_ok C tok t x s'"
    "stored_account C tok (pending C s') = (stored_account C tok (pending C s))
       (a := remove_stored (stored_account C tok (pending C s) a))"
    "stored_slot C tok (pending C s') = stored_slot C tok (pending C s)"
    by (rule RemoveAccount_store [OF s(2,3)])
  have "ch' = Base s'"
    using w bs_guarded_run [where f = "bs_RemoveAccount C a", OF store_okD(1) [OF s(3)] s'(1)] by (simp add: s(1) chain_writer_def chain_rw_def)
  then show "at_store C tok t x ch' \<and> stored_account C tok (pending C (chain_base ch')) = (stored_account C tok (pending C (chain_base ch)))
      (a := remove_stored (stored_account C tok (pending C (chain_base ch)) a))
    \<and> (\<lambda>a k. Some (stored_slot C tok (pending C (chain_base ch')) a k)) = (\<lambda>a k. Some (stored_slot C tok (pending C (chain_base ch)) a k))"
    using s(1,2) s'(2-4) by simp
next
  fix ch ch' :: "'db BvmStore chain" and a k v
  assume ok: "at_store C tok t x ch" and w: "w_SetStorage (chain_writer (chain_rw C)) a k v ch = (None, ch')"
  obtain s where s: "ch = Base s" "chain_ok C" "store_ok C tok t x s" using ok by (cases ch) auto
  obtain s' where s': "bs_SetStorage C a k v s = (Inr None, s')" "store_ok C tok t x s'"
    "stored_account C tok (pending C s') = stored_account C tok (pending C s)"
    "stored_slot C tok (pending C s') = (stored_slot C tok (pending C s))(a := (stored_slot C tok (pending C s) a)(k := v))"
    by (rule SetStorage_store [OF s(2,3)])
  have "ch' = Base s'"
    using w bs_guarded_run [where f = "bs_SetStorage C a k v", OF store_okD(1) [OF s(3)] s'(1)] by (simp add: s(1) chain_writer_def chain_rw_def)
  then show "at_store C tok t x ch' \<and> stored_account C tok (pending C (chain_base ch')) = stored_account C tok (pending C (chain_base ch))
    \<and> (\<lambda>a k. Some (stored_slot C tok (pending C (chain_base ch')) a k)) =
      (\<lambda>a k. Some (stored_slot C tok (pending C (chain_base ch)) a k))(a := (\<lambda>k. Some (stored_slot C tok (pending C (chain_base ch)) a k))(k \<mapsto> v))"
    using s(1,2) s'(2-4) by (auto simp: fun_eq_iff)
qed

section \<open>Stores that report no error\<close>

text \<open>\<open>Sync\<close> to such a store fails only on an entry that is marked as updated and has no account.\<close>

definition nil_account :: "goerr option" where
  "nil_account = IllegalWrite ''UpdateAccount called with nil account''"

definition accounted :: "Cache \<Rightarrow> bool" where
  "accounted c \<longleftrightarrow> (\<forall>a i. map_of (c_accounts c) a = Some i \<longrightarrow> ai_updated i \<longrightarrow> ai_account i \<noteq> None)"

locale reliable_store = account_store +
  assumes updates: "ok s \<Longrightarrow> fst (w_UpdateAccount W acc s) = None"
    and removes: "ok s \<Longrightarrow> fst (w_RemoveAccount W a s) = None"
    and stores: "ok s \<Longrightarrow> fst (w_SetStorage W a k v s) = None"
begin

lemma run_updates: "ok s \<Longrightarrow> \<exists>s'. w_UpdateAccount W acc s = (None, s') \<and> ok s'"
  using updates [of s acc] update_law [of s acc] by (metis prod.collapse)

lemma run_removes: "ok s \<Longrightarrow> \<exists>s'. w_RemoveAccount W a s = (None, s') \<and> ok s'"
  using removes [of s a] remove_law [of s a] by (metis prod.collapse)

lemma run_stores: "ok s \<Longrightarrow> \<exists>s'. w_SetStorage W a k v s = (None, s') \<and> ok s'"
  using stores [of s a k v] storage_law [of s a k v] by (metis prod.collapse)

lemma run_keys: "ok s \<Longrightarrow> \<exists>s'. sync_keys W a i ks s = (None, s') \<and> ok s'"
proof (induction ks arbitrary: s)
  case (Cons k ks)
  obtain s' where "w_SetStorage W a k (case map_of (ai_storage i) k of None \<Rightarrow> [] | Some v \<Rightarrow> v) s = (None, s')" "ok s'"
    using run_stores [OF Cons.prems] by blast
  then show ?case using Cons.IH [of s'] by simp
qed simp

lemma run_account:
  assumes "ok s"
  shows "\<exists>e s'. sync_account W a i s = (e, s') \<and> ok s' \<and> e \<in> {None, nil_account} \<and> ((ai_updated i \<longrightarrow> ai_account i \<noteq> None) \<longrightarrow> e = None)"
proof -
  consider "ai_removed i" | "\<not> ai_removed i" "\<not> ai_updated i" | "\<not> ai_removed i" "ai_updated i" "ai_account i = None"
    | acc where "\<not> ai_removed i" "ai_updated i" "ai_account i = Some acc" by fastforce
  then show ?thesis
  proof cases
    case 4
    obtain s1 where s1: "w_UpdateAccount W acc s = (None, s1)" "ok s1" using run_updates [OF assms] by blast
    moreover obtain s2 where "sync_keys W a i (sort (map fst (ai_storage i))) s1 = (None, s2)" "ok s2"
      using run_keys [OF s1(2)] by blast
    ultimately show ?thesis using 4 by (simp add: sync_account_def)
  qed (use assms run_removes [OF assms, of a] in \<open>auto simp: sync_account_def nil_account_def\<close>)
qed

lemma run_accounts: "ok s \<Longrightarrow> \<exists>e s'. sync_accounts W c as s = (e, s') \<and> ok s' \<and> e \<in> {None, nil_account}
    \<and> (accounted c \<longrightarrow> e = None)"
proof (induction as arbitrary: s)
  case (Cons a as)
  show ?case
  proof (cases "map_of (c_accounts c) a")
    case (Some i)
    obtain e s1 where s1: "sync_account W a i s = (e, s1)" "ok s1" "e \<in> {None, nil_account}" "accounted c \<longrightarrow> e = None"
    proof -
      have "ai_updated i \<longrightarrow> ai_account i \<noteq> None" if "accounted c" using that Some by (simp add: accounted_def)
      then show thesis using run_account [OF Cons.prems, of a i] that by blast
    qed
    show ?thesis
    proof (cases e)
      case None
      then show ?thesis using Some s1 Cons.IH [OF s1(2)] by simp
    next
      case (Some err)
      then have "sync_accounts W c (a # as) s = (e, s1)" by (simp add: \<open>map_of (c_accounts c) a = Some i\<close> s1(1))
      then show ?thesis using s1(2-4) by blast
    qed
  qed (use Cons in simp)
qed simp

lemma Sync_run: "ok s \<Longrightarrow> \<exists>e s'. Cache_Sync W c s = (e, s') \<and> ok s' \<and> e \<in> {None, nil_account} \<and> (accounted c \<longrightarrow> e = None)"
  using run_accounts [of s c] by (simp add: Cache_Sync_def)

end

lemma at_store_E:
  assumes "at_store C tok t x ch"
  obtains s where "ch = Base s" "chain_ok C" "store_ok C tok t x s"
  using assms by (cases ch) auto

interpretation stored_fine: reliable_store "chain_writer (chain_rw C)" "at_store C tok t x" "update_stored tok" remove_stored
  "\<lambda>ch. stored_account C tok (pending C (chain_base ch))" "\<lambda>ch a k. Some (stored_slot C tok (pending C (chain_base ch)) a k)"
  for C :: "'db Chain" and tok t x
proof unfold_locales
  fix ch :: "'db BvmStore chain" and acc a k v
  assume "at_store C tok t x ch"
  then obtain s where s: "ch = Base s" "chain_ok C" "store_ok C tok t x s" by (rule at_store_E)
  have "fst (bs_guarded (bs_UpdateAccount C acc) s) = None"
    by (rule UpdateAccount_store [OF s(2,3), of acc]) (simp add: bs_guarded_def)
  then show "fst (w_UpdateAccount (chain_writer (chain_rw C)) acc ch) = None"
    by (simp add: s(1) chain_writer_def chain_rw_def case_prod_unfold)
  have "fst (bs_guarded (bs_RemoveAccount C a) s) = None"
    by (rule RemoveAccount_store [OF s(2,3), of a]) (simp add: bs_guarded_def)
  then show "fst (w_RemoveAccount (chain_writer (chain_rw C)) a ch) = None"
    by (simp add: s(1) chain_writer_def chain_rw_def case_prod_unfold)
  have "fst (bs_guarded (bs_SetStorage C a k v) s) = None"
    by (rule SetStorage_store [OF s(2,3), of a k v]) (simp add: bs_guarded_def)
  then show "fst (w_SetStorage (chain_writer (chain_rw C)) a k v ch) = None"
    by (simp add: s(1) chain_writer_def chain_rw_def case_prod_unfold)
qed

end
