(* ===== verification/Burrow_Props.thy ===== *)
theory Burrow_Props
  imports Burrow_View Json_Model Bvm_Props
begin

text \<open>
  Transactions of the virtual machine on the state of the chain: what a call leaves in the block once its tx is committed,
  that all of it, and of what the adapter runs, is confined to its tx, and what a call that fails costs and leaves.
\<close>

section \<open>The run of a call\<close>

text \<open>The fuel is enough, since the depth of calls is bounded.\<close>

lemma bvm_fuel_enough:
  "halt (snd (run_state (VM_Call (bvm_fuel g) (bvm_machine B hdr bh gp gl sender nonce) c v) (start_vm st g))) \<noteq> Some OutOfFuel"
  by (rule Call_enough) (simp_all add: enough_def bvm_fuel_def bvm_machine_def NewVM_def newParams_def start_vm_def)

lemma chain_rw_Address: "rw_GetAccount (chain_rw C) s a = Inr (Some acc) \<Longrightarrow> Address acc = a"
  by (auto simp: chain_rw_def bs_reader_def bs_GetAccount_def andThen_def split: sum.splits if_splits)

text \<open>A run leaves a cache on the store as it was, agreeing with it, and no more gas than it had.\<close>

lemma bvm_invoke_run:
  assumes st0: "chain st0 = Layer c0 (Base s)" "writable (bvm_world B) st0"
    and run: "bvm_invoke (bvm_machine B hdr bh gp gl sender nonce) g from_addr to_addr bc inp v st0 = (Inr (out, err, left, evs), st)"
  shows "\<exists>c. chain st = Layer c (Base s) \<and> keyed c \<and> \<not> c_readonly c" "left \<le> g"
proof -
  let ?M = "bvm_machine B hdr bh gp gl sender nonce" and ?vm = "start_vm st0 g"
  let ?c = "\<lparr>caller = from_addr, callee = to_addr, code = bc, input = inp, logFree = False\<rparr>"
  have rwM: "rw (world ?M) = rw (bvm_world B)" by (simp add: bvm_machine_def NewVM_def)
  obtain r vm where r: "run_state (VM_Call (bvm_fuel g) ?M ?c v) ?vm = (r, vm)" by fastforce
  have st: "st = callState vm" "left = gas vm"
    using run r by (auto simp: bvm_invoke_def split: prod.splits option.splits halt.splits)
  have "evolves (rw (world ?M)) (chain (callState ?vm)) (chain (callState vm))"
    using VM_Call_evolves [of ?M "bvm_fuel g" ?c v] r by (auto simp: resp_def frame_evolves_def dest: spec [of _ ?vm])
  then have e: "evolves (rw (bvm_world B)) (Layer c0 (Base s)) (chain st)" by (simp add: rwM st start_vm_def st0(1))
  have c0: "coh (rw (bvm_world B)) (Layer c0 (Base s))" "\<not> c_readonly c0" using st0 by (auto simp: writable_def)
  obtain c ch where c: "chain st = Layer c ch" "c_readonly c = c_readonly c0" "fills (rw (bvm_world B)) (Base s) ch"
    using evolves_LayerD [OF e] by blast
  have "coh (rw (bvm_world B)) (Layer c ch)" using e c0(1) unfolding c(1) evolves.simps(2) by blast
  then have "keyed c" by (simp add: coherent_def)
  then show "\<exists>c. chain st = Layer c (Base s) \<and> keyed c \<and> \<not> c_readonly c" using c c0(2) by simp
  have "resp gas_le (VM_Call (bvm_fuel g) ?M ?c v)" by (rule resp_gas_Call)
  then show "left \<le> g" using r by (auto simp: st resp_def start_vm_def dest: spec [of _ ?vm])
qed

text \<open>A call starts from an empty cache.\<close>

lemma NewState_writable: "writable (bvm_world B) (NewState (Base s) [])"
  by (auto simp: writable_def NewState_def NewCache_def coherent_def keyed_def bvm_world_def chain_rw_Address)

section \<open>What a transaction leaves in the block\<close>

text \<open>A cache entry over the storage of an account in the store.\<close>

definition slot_after :: "accountInfo option \<Rightarrow> word256 \<Rightarrow> bytes \<Rightarrow> bytes" where
  "slot_after entry k old = (case entry of None \<Rightarrow> old
   | Some i \<Rightarrow> if ai_removed i \<or> \<not> ai_updated i then old else (case map_of (ai_storage i) k of None \<Rightarrow> old | Some v \<Rightarrow> v))"

definition account_after :: "string \<Rightarrow> accountInfo option \<Rightarrow> Stored \<Rightarrow> Stored" where
  "account_after tok entry old = (case entry of None \<Rightarrow> old | Some i \<Rightarrow> entry_with (update_stored tok) remove_stored i old)"

lemma bvm_Sync_run:
  assumes "chain st = Layer c (Base s)" "keyed c" "\<not> c_readonly c" "chain_ok (base_chain B)" "store_ok (base_chain B) tok t x s"
  obtains (broken) msg st' where "bvm_Sync B st = (Inr (Some msg), st')" "st_error st \<noteq> None \<or> \<not> accounted c"
    | (saved) st' s' where "bvm_Sync B st = (Inr None, st')" "chain st' = Layer c (Base s')" "store_ok (base_chain B) tok t x s'"
      "\<And>a. stored_account (base_chain B) tok (pending (base_chain B) s') a =
        account_after tok (map_of (c_accounts c) a) (stored_account (base_chain B) tok (pending (base_chain B) s) a)"
      "\<And>a k. stored_slot (base_chain B) tok (pending (base_chain B) s') a k =
        slot_after (map_of (c_accounts c) a) k (stored_slot (base_chain B) tok (pending (base_chain B) s) a k)"
proof -
  let ?C = "base_chain B"
  have at: "at_store ?C tok t x (Base s)" using assms(4,5) by simp
  obtain e ch where e: "Cache_Sync (chain_writer (chain_rw ?C)) c (Base s) = (e, ch)" "at_store ?C tok t x ch" "e \<in> {None, nil_account}" "accounted c \<Longrightarrow> e = None"
    using stored_fine.Sync_run [OF at] by blast
  obtain s' where s': "ch = Base s'" "store_ok ?C tok t x s'" using at_store_E [OF e(2)] by blast
  have run: "bvm_Sync B st = (case st_error st of Some ex \<Rightarrow> (Inr (Some (Exception_String (AsException (Some (ErrExn ex))))), st)
      | None \<Rightarrow> (Inr (if e = None then None else Some (Exception_String (AsException e))), st\<lparr>chain := Layer c ch\<rparr>))"
    using e(3) store_okD(1) [OF assms(5)] store_okD(1) [OF s'(2)]
    by (auto simp: bvm_Sync_def State_Sync_def State_Error_def on_chain_def bvm_world_def assms(1) e(1) state_panic_def s'(1)
        nil_account_def IllegalWrite_def ErrorCodef_ne split: option.split)
  show thesis
  proof (cases "st_error st = None \<and> e = None")
    case True
    note S = stored.Sync_ok [OF assms(2,3) at e(1) [unfolded conjunct2 [OF True]]]
    show thesis
    proof (rule saved [of "st\<lparr>chain := Layer c ch\<rparr>" s'])
      fix a k
      show "stored_account ?C tok (pending ?C s') a = account_after tok (map_of (c_accounts c) a) (stored_account ?C tok (pending ?C s) a)"
        using S by (simp add: s'(1) account_after_def split: option.split)
      have "Some (stored_slot ?C tok (pending ?C s') a k) = (case map_of (c_accounts c) a of
          Some i \<Rightarrow> entry_sto i (\<lambda>k. Some (stored_slot ?C tok (pending ?C s) a k)) k | None \<Rightarrow> Some (stored_slot ?C tok (pending ?C s) a k))"
        using S by (auto simp: s'(1) fun_eq_iff split: option.split)
      then show "stored_slot ?C tok (pending ?C s') a k = slot_after (map_of (c_accounts c) a) k (stored_slot ?C tok (pending ?C s) a k)"
        by (auto simp: slot_after_def entry_sto_def map_add_def split: option.splits if_splits)
    qed (use True run s' in simp_all)
  next
    case False
    then have "st_error st \<noteq> None \<or> \<not> accounted c" using e(4) by auto
    moreover obtain msg st' where "bvm_Sync B st = (Inr (Some msg), st')"
      using False run by (cases "st_error st"; cases e) auto
    ultimately show thesis using broken by blast
  qed
qed

text \<open>C7. What the machine has done reaches the chain, and nothing else does: a run that starts from a cache agreeing with
  the store ends in a cache on the same store, with no more gas than it had; \<open>Sync\<close> of it does not panic and reports
  an error only if the run has recorded one or an updated entry has no account; if it reports none, the block holds after the commit of the tx, for every account, exactly what the cache's entry says (a
  removed account has no listing, balance, code or token; an updated one has its balance, and its code and token if
  it has code), for every storage slot the value written, and for all others what the tx held before.\<close>
theorem run_commits:
  assumes "chain_ok (base_chain B)" "store_ok (base_chain B) tok t x s" "chain st0 = Layer c0 (Base s)" "writable (bvm_world B) st0"
    and "bvm_invoke (bvm_machine B hdr bh gp gl sender nonce) g from_addr to_addr bc inp v st0 = (Inr (out, err, left, evs), st)"
    and "bvm_Sync B st = (r, st')" "CommitTx t x (state_helper st') = (q, h')"
  shows "left \<le> g \<and> (\<exists>c. chain st = Layer c (Base s) \<and> (case r of
      Inl panic \<Rightarrow> False
    | Inr (Some msg) \<Rightarrow> st_error st \<noteq> None \<or> \<not> accounted c
    | Inr None \<Rightarrow> (let C = base_chain B; before = pending C s; after = block_view (ch_ext C) t h' in
        \<forall>a. stored_account C tok after a = account_after tok (map_of (c_accounts c) a) (stored_account C tok before a)
          \<and> (\<forall>k. stored_slot C tok after a k = slot_after (map_of (c_accounts c) a) k (stored_slot C tok before a k)))))"
proof -
  let ?C = "base_chain B"
  note I = bvm_invoke_run [OF assms(3-5)]
  obtain c where c: "chain st = Layer c (Base s)" "keyed c" "\<not> c_readonly c" using I(1) by blast
  show ?thesis
  proof (rule bvm_Sync_run [OF c assms(1,2)])
    fix msg st'' assume "bvm_Sync B st = (Inr (Some msg), st'')" "st_error st \<noteq> None \<or> \<not> accounted c"
    then show ?thesis using I(2) c(1) assms(6) by auto
  next
    fix st'' s' assume S: "bvm_Sync B st = (Inr None, st'')" "chain st'' = Layer c (Base s')" "store_ok ?C tok t x s'"
      "\<And>a. stored_account ?C tok (pending ?C s') a = account_after tok (map_of (c_accounts c) a) (stored_account ?C tok (pending ?C s) a)"
      "\<And>a k. stored_slot ?C tok (pending ?C s') a k = slot_after (map_of (c_accounts c) a) k (stored_slot ?C tok (pending ?C s) a k)"
    note D = store_okD [OF S(3)]
    obtain tx where tx: "tx_of t x (bs_helper s') = Some tx" "distinct (map fst (xbuffer tx))" using D(7) by blast
    obtain tr where tr: "tran t (bs_helper s') = Some tr" using tx_of_tran [OF tx(1)] by blast
    have h: "state_helper st' = bs_helper s'" "r = Inr None" using S(1,2) assms(6) by (auto simp: state_helper_def)
    have "block_view (ch_ext ?C) t h' = pending ?C s'"
      using CommitTx_view [OF tx(1) tr tx(2)] assms(7) D(3,4) tx(1) by (auto simp: h(1) pending_def)
    then show ?thesis using I(2) c(1) S(4,5) by (simp add: h(2) Let_def)
  qed
qed

section \<open>Nothing but the tx\<close>

text \<open>
  Whatever a transaction of the virtual machine does, and however it ends, it writes to its own tx and to the values cached
  of the genesis: \<open>confined\<close>, through the operations of the store, \<open>Sync\<close>, the run, the calls and the creation.
\<close>

definition bound :: "int \<Rightarrow> int \<Rightarrow> 'db Helper \<Rightarrow> 'db BvmStore \<Rightarrow> bool" where
  "bound t x h s \<longleftrightarrow> bs_transID s = t \<and> bs_txID s = x \<and> confined t x h (bs_helper s)"

lemma kept_on_helper [kept]:
  assumes "bound t x h s" "\<And>h1. confined t x h h1 \<Longrightarrow> kept (confined t x h) (f t x h1)"
  shows "kept (bound t x h) (on_helper f s)"
  using assms(1) assms(2) [of "bs_helper s"] by (cases "f t x (bs_helper s)") (auto simp: bound_def kept_def on_helper_def)

lemma kept_bs_write [kept]: "bound t x h s \<Longrightarrow> kept (bound t x h) (bs_write k v s)"
  unfolding bs_write_def by (intro kept)

lemma kept_bs_writes [kept]: "bound t x h s \<Longrightarrow> kept (bound t x h) (bs_writes kvs s)"
proof (induction kvs s rule: bs_writes.induct)
  case (2 k v kvs s)
  then show ?case unfolding bs_writes.simps by (intro kept) auto
qed (auto intro: kept)

lemma kept_store [kept]:
  assumes "bound t x h s"
  shows "kept (bound t x h) (bs_UpdateAccount C acc s)" "kept (bound t x h) (bs_RemoveAccount C a s)"
    "kept (bound t x h) (bs_SetStorage C a k v s)"
  unfolding bs_UpdateAccount_def bs_RemoveAccount_def bs_SetStorage_def AddAccountTokenKey_def Let_def
  by (intro kept assms; assumption)+

definition held :: "int \<Rightarrow> int \<Rightarrow> 'db Helper \<Rightarrow> 'db BvmStore chain \<Rightarrow> bool" where
  "held t x h ch \<longleftrightarrow> (\<exists>s. ch = Base s \<and> bound t x h s)"

lemma held_guarded: "bs_guarded f s = (e, s') \<Longrightarrow> bound t x h s \<Longrightarrow> kept (bound t x h) (f s) \<Longrightarrow> bound t x h s'"
  by (auto simp: bs_guarded_def kept_def bound_def split: if_splits prod.splits sum.splits)

lemma held_writer:
  assumes "held t x h ch"
  shows "w_UpdateAccount (chain_writer (chain_rw C)) a ch = (e, ch') \<Longrightarrow> held t x h ch'"
    "w_RemoveAccount (chain_writer (chain_rw C)) r ch = (e, ch') \<Longrightarrow> held t x h ch'"
    "w_SetStorage (chain_writer (chain_rw C)) r k v ch = (e, ch') \<Longrightarrow> held t x h ch'"
  using assms
  by (auto simp: held_def chain_writer_def chain_rw_def split: prod.splits dest!: held_guarded intro: kept_store)

text \<open>What every write of a writer keeps, \<open>Sync\<close> keeps.\<close>

lemma Sync_keeps:
  assumes W: "\<And>a st e st'. w_UpdateAccount W a st = (e, st') \<Longrightarrow> P st \<Longrightarrow> P st'"
      "\<And>a st e st'. w_RemoveAccount W a st = (e, st') \<Longrightarrow> P st \<Longrightarrow> P st'"
      "\<And>a k v st e st'. w_SetStorage W a k v st = (e, st') \<Longrightarrow> P st \<Longrightarrow> P st'"
  shows "Cache_Sync W c st = (e, st') \<Longrightarrow> P st \<Longrightarrow> P st'"
proof -
  have keys: "sync_keys W a i ks st = (e, st') \<Longrightarrow> P st \<Longrightarrow> P st'" for a i ks st e st'
  proof (induction ks arbitrary: st)
    case (Cons k ks)
    then show ?case using W(3) by (simp split: prod.splits option.splits)
  qed simp
  have one: "sync_account W a i st = (e, st') \<Longrightarrow> P st \<Longrightarrow> P st'" for a i st e st'
    using W(1,2) keys by (simp add: sync_account_def split: prod.splits option.splits if_splits)
  have "sync_accounts W c as st = (e, st') \<Longrightarrow> P st \<Longrightarrow> P st'" for as st e st'
  proof (induction as arbitrary: st)
    case (Cons a as)
    then show ?case using one by (simp split: prod.splits option.splits)
  qed simp
  then show "Cache_Sync W c st = (e, st') \<Longrightarrow> P st \<Longrightarrow> P st'" by (auto simp: Cache_Sync_def split: if_splits)
qed

text \<open>A run leaves the store below its cache alone, however it ends.\<close>

lemma bvm_invoke_base:
  assumes "chain st0 = Layer c0 (Base s)"
  shows "\<exists>c. chain (snd (bvm_invoke (bvm_machine B hdr bh gp gl sender n) g from_addr to_addr bc inp v st0)) = Layer c (Base s)"
proof -
  let ?M = "bvm_machine B hdr bh gp gl sender n" and ?vm = "start_vm st0 g"
  let ?c = "\<lparr>caller = from_addr, callee = to_addr, code = bc, input = inp, logFree = False\<rparr>"
  obtain r vm where r: "run_state (VM_Call (bvm_fuel g) ?M ?c v) ?vm = (r, vm)" by fastforce
  have "evolves (rw (world ?M)) (chain (callState ?vm)) (chain (callState vm))"
    using VM_Call_evolves [of ?M "bvm_fuel g" ?c v] r by (auto simp: resp_def frame_evolves_def dest: spec [of _ ?vm])
  then have "\<exists>c. chain (callState vm) = Layer c (Base s)"
    using assms by (auto simp: start_vm_def dest!: evolves_LayerD)
  then show ?thesis using r by (simp add: bvm_invoke_def split: prod.split)
qed

definition state_held :: "int \<Rightarrow> int \<Rightarrow> 'db Helper \<Rightarrow> 'db BvmStore State \<Rightarrow> bool" where
  "state_held t x h st \<longleftrightarrow> (\<exists>c s. chain st = Layer c (Base s) \<and> bound t x h s)"

lemma state_held_helper: "state_held t x h st \<Longrightarrow> confined t x h (state_helper st)"
  by (auto simp: state_held_def bound_def state_helper_def)

lemma held_from: "confined t x h0 h \<Longrightarrow> state_held t x h0 (NewState (Base (bs_SetToken tok (bvm_NewState t x h))) [])"
  by (simp add: state_held_def NewState_def bound_def bs_SetToken_def bvm_NewState_def)

lemma invoke_held:
  assumes "state_held t x h st0"
    and "bvm_invoke (bvm_machine B hdr bh gp gl sender n) g from_addr to_addr bc inp v st0 = (r, st)"
  shows "state_held t x h st"
proof -
  obtain c s where s: "chain st0 = Layer c (Base s)" "bound t x h s" using assms(1) by (auto simp: state_held_def)
  from bvm_invoke_base [OF s(1), of B hdr bh gp gl sender n g from_addr to_addr bc inp v] show ?thesis
    using assms(2) s(2) by (auto simp: state_held_def)
qed

lemma Sync_held:
  assumes "state_held t x h st" "bvm_Sync B st = (r, st')"
  shows "state_held t x h st'"
proof -
  obtain c s where s: "chain st = Layer c (Base s)" "bound t x h s" using assms(1) by (auto simp: state_held_def)
  then have held: "held t x h (Base s)" by (auto simp: held_def)
  obtain e ch where e: "Cache_Sync (chain_writer (rw (bvm_world B))) c (Base s) = (e, ch)" by fastforce
  have "held t x h ch"
    by (rule Sync_keeps [where P = "held t x h", OF _ _ _ e [unfolded bvm_world_def World.simps] held]) (erule held_writer, assumption)+
  then show ?thesis using assms(2) s e
    by (auto simp: bvm_Sync_def State_Sync_def State_Error_def on_chain_def state_held_def held_def split: option.splits prod.splits)
qed

lemma evo_InitCode: "resp (frame_evolves M) (on_state (State_InitCode (world M) a cd))"
  unfolding State_defs on_state_push by (intro evoV.vm_rules evoE.resp_bind evo_access)

lemma state_ops_held:
  assumes "state_held t x h st"
  shows "state_held t x h (snd (run_state (State_CreateAccount (bvm_world B) a) st))"
    "state_held t x h (snd (run_state (State_InitCode (bvm_world B) a cd) st))"
    "confined t x h h1 \<Longrightarrow> state_held t x h (st\<lparr>chain := on_base (\<lambda>s. s\<lparr>bs_helper := h1\<rparr>) (chain st)\<rparr>)"
proof -
  obtain c s where s: "chain st = Layer c (Base s)" "bound t x h s" using assms by (auto simp: state_held_def)
  let ?M = "bvm_machine B no_header [] 0 0 0 0"
  have step: "state_held t x h (snd (run_state m st))" if "resp (frame_evolves ?M) (on_state m :: ('a BvmStore VM, unit) state)" for m
  proof -
    have "evolves (rw (world ?M)) (Layer c (Base s)) (chain (snd (run_state m st)))"
      using that s(1) by (auto simp: resp_def run_on_state frame_evolves_def start_vm_def dest: spec [of _ "start_vm st 0"])
    then show ?thesis using s(2) by (auto simp: state_held_def dest!: evolves_LayerD)
  qed
  have W: "world ?M = bvm_world B" by (simp add: bvm_machine_def NewVM_def)
  show "state_held t x h (snd (run_state (State_CreateAccount (bvm_world B) a) st))"
    by (rule step) (use evoV.r_state(7) [of ?M a] W in simp)
  show "state_held t x h (snd (run_state (State_InitCode (bvm_world B) a cd) st))"
    by (rule step) (use evo_InitCode [of ?M a cd] W in simp)
  show "state_held t x h (st\<lparr>chain := on_base (\<lambda>s. s\<lparr>bs_helper := h1\<rparr>) (chain st)\<rparr>)" if "confined t x h h1"
    using that s by (auto simp: state_held_def bound_def)
qed

text \<open>A run and a \<open>Sync\<close> inside an action.\<close>

lemma kept_run:
  "state_held t x h st \<Longrightarrow> (\<And>r st. state_held t x h st \<Longrightarrow> kept (confined t x h) (k r st)) \<Longrightarrow>
    kept (confined t x h) (case bvm_invoke (bvm_machine B hdr bh gp gl sender n) gas0 from_addr to_addr bc inp v st of (r, st) \<Rightarrow> k r st)"
  "state_held t x h st \<Longrightarrow> (\<And>r st. state_held t x h st \<Longrightarrow> kept (confined t x h) (g r st)) \<Longrightarrow>
    kept (confined t x h) (case bvm_Sync B st of (r, st) \<Rightarrow> g r st)"
  by (auto split: prod.split dest: invoke_held Sync_held)

lemmas confined_rules = kept_run state_held_helper state_ops_held held_from

lemma kept_bvm_Call [kept]:
  "state_held t x h0 st \<Longrightarrow> kept (confined t x h0) (bvm_Call B hdr bh gp sender bc tx v st)"
  unfolding bvm_Call_def Let_def by (intro confined_rules kept; assumption)

lemma kept_with_tags [kept]:
  "kept (confined t x h0) m \<Longrightarrow> kept (confined t x h0) (with_tags B i j gp ca sender c m)"
  unfolding with_tags_def by (intro kept; assumption)

lemma kept_SetContractInfo [kept]:
  "confined t x h0 h \<Longrightarrow> kept (confined t x h0) (SetContractInfo C t x v tok a sa abiStr h)"
  unfolding SetContractInfo_def setBVMContract_def Let_def by (intro kept; assumption)

lemma kept_create_finish [kept]:
  "state_held t x h0 st \<Longrightarrow> kept (confined t x h0) (create_finish B hdr t x sender tx gp tok ca a fa out gl tags st)"
  unfolding create_finish_def Let_def by (intro confined_rules kept; assumption)

lemma kept_bvm_CallTx [kept]:
  "confined t x h0 h \<Longrightarrow> kept (confined t x h0) (bvm_CallTx B hdr bh t x sender tx gp h)"
  unfolding bvm_CallTx_def Let_def by (intro confined_rules kept; assumption)

lemma kept_CascadeCall [kept]:
  "confined t x h0 h \<Longrightarrow> kept (confined t x h0) (CascadeCall B hdr bh t x sender tx gp h)"
  unfolding CascadeCall_def Let_def by (intro confined_rules kept; assumption)

lemma kept_bvm_Create [kept]:
  "confined t x h0 h \<Longrightarrow> kept (confined t x h0) (bvm_Create B hdr bh t x sender tx gp h)"
  unfolding bvm_Create_def Let_def by (intro confined_rules kept; assumption)

lemma kept_GetGasPrice [kept]: "confined t x h0 h \<Longrightarrow> kept (confined t x h0) (GetGasPrice B i j c h)"
  unfolding GetGasPrice_def Let_def by (intro kept; assumption)

lemma kept_InvokeTxEx [kept]:
  "confined t x h0 h \<Longrightarrow> kept (confined t x h0) (InvokeTxEx B hdr bh t x sender tx h)"
  unfolding InvokeTxEx_def Let_def by (intro kept; assumption)

lemma kept_bvm_InvokeTx [kept]:
  "confined t x h0 h \<Longrightarrow> kept (confined t x h0) (bvm_InvokeTx B hdr bh t x sender tx h)"
  unfolding bvm_InvokeTx_def by (intro kept; assumption)

section \<open>The adapter\<close>

text \<open>
  What a contract's process does to the state: it answers, it reads (which may fill the values cached of the genesis), and
  it writes through the callback \<open>AdapterSetCallBack\<close>, with the numbers it was called with. Nothing is assumed of the
  manager that calls the process, nor of the adapter: what they do is shown here.
\<close>

inductive by_callbacks :: "int \<Rightarrow> int \<Rightarrow> ('db Helper \<Rightarrow> ('db Helper, 'a) act) \<Rightarrow> bool" for t x where
  answer: "by_callbacks t x (\<lambda>h. (r, h))"
| look: "(\<And>h. same_chain h (c h)) \<Longrightarrow> (\<And>h. by_callbacks t x (f h)) \<Longrightarrow> by_callbacks t x (\<lambda>h. f h (c h))"
| store: "(\<And>r. by_callbacks t x (f r)) \<Longrightarrow> by_callbacks t x (\<lambda>h. case AdapterSetCallBack t x data h of (r, h) \<Rightarrow> f r h)"

definition containers_by_callbacks :: "'db Burrow \<Rightarrow> bool" where
  "containers_by_callbacks B \<longleftrightarrow>
     (\<forall>url hdr t x param. by_callbacks t x (rpc_Invoke B url hdr t x param))"

lemma by_callbacks_kept: "by_callbacks t x f \<Longrightarrow> confined t x h0 h \<Longrightarrow> kept (confined t x h0) (f h)"
proof (induction arbitrary: h rule: by_callbacks.induct)
  case (look c f)
  then show ?case by (blast intro: confined_trans same_chain_confined)
next
  case (store f data)
  obtain r h1 where w: "AdapterSetCallBack t x data h = (r, h1)" by fastforce
  have "confined t x h0 h1" using kept_AdapterSetCallBack [OF store.prems] w by (rule keptD)
  then show ?case using store.IH w by simp
qed (rule kept)

lemma kept_rpc_Invoke [kept]:
  "containers_by_callbacks B \<Longrightarrow> confined t x h0 h \<Longrightarrow> kept (confined t x h0) (rpc_Invoke B url hdr t x param h)"
  by (auto simp: containers_by_callbacks_def intro: by_callbacks_kept)

lemma kept_is_genesis [kept]: "confined i y h0 h \<Longrightarrow> kept (confined i y h0) (is_genesis B a h)"
  unfolding is_genesis_def by (intro kept)

lemma kept_GetContractInvokeURL [kept]: "confined i y h0 h \<Longrightarrow> kept (confined i y h0) (GetContractInvokeURL B t x a h)"
  unfolding GetContractInvokeURL_def ask_docker_def by (intro kept)

lemma kept_DirtyContractInvokeURL [kept]: "confined i y h0 h \<Longrightarrow> kept (confined i y h0) (DirtyContractInvokeURL B t x a h)"
  unfolding DirtyContractInvokeURL_def by (intro kept)

lemma kept_getPayer [kept]: "confined i y h0 h \<Longrightarrow> kept (confined i y h0) (getPayer B height sender tx index h)"
  unfolding getPayer_def by (intro kept)

lemma kept_mgr_invoke [kept]:
  "containers_by_callbacks B \<Longrightarrow> confined t x h0 h \<Longrightarrow>
    kept (confined t x h0) (mgr_invoke B hdr t x gasLeft sender payer tx m receipts pk th bh h)"
  unfolding mgr_invoke_def Let_def by (intro kept)

lemma kept_mgr_messages [kept]:
  "containers_by_callbacks B \<Longrightarrow> confined t x h0 h \<Longrightarrow>
    kept (confined t x h0) (mgr_messages B hdr t x sender tx pk th bh index ms r h)"
proof (induction ms arbitrary: index r h)
  case (Cons m ms)
  show ?case unfolding mgr_messages.simps Let_def by (intro kept Cons)
qed (simp add: kept)

lemma kept_adapter [kept]:
  "containers_by_callbacks B \<Longrightarrow> confined t x h0 h \<Longrightarrow>
    kept (confined t x h0) (adapter_InvokeTx B hdr t x sender tx pk th bh h)"
  unfolding adapter_InvokeTx_def mgr_InvokeTx_def Let_def by (intro kept)

text \<open>
  The manager adds a URL only to a list that is not empty, so the list stays empty: no process is ever told to forget
  a failed tx (\<open>CallMcDirtyTx\<close>).
\<close>

lemma no_urls_noted:
  "mgr_messages B hdr t x sender tx pk th bh index ms r h = (Inr (Inr r'), h') \<Longrightarrow> mr_urls r = [] \<Longrightarrow> mr_urls r' = []"
proof (induction ms arbitrary: index r h)
  case (Cons m ms)
  then show ?case
    by (auto simp: seqR_def need_def Let_def note_answer_def split: prod.splits sum.splits if_splits)
qed simp

section \<open>A chain for the witnesses\<close>

definition demo_burrow :: "kvs Burrow" where
  "demo_burrow = \<lparr>ch_ext = model_ext, ch_json = model_json, ch_crypto = demo_crypto, std_KeyOfAccountToken = KeyOfAccountToken,
     std_KeyOfToken = KeyOfToken, j_BvmContract = no_codec, abi_JSON = (\<lambda>_. Inl ''no interface''),
     c_ErrCodeBVMInvoke = 5002, c_ErrInvalidParam = 5001, c_ErrRlpDecode = 5003, c_ErrFeeNotEnough = 5004, c_BVMQueryOK = 201,
     c_LogicError = 5005, c_ErrDealFailed = 5006, txt_ErrDealFailed = ''deal failed'', rlp_bytes = Inr,
     rlp_string = (\<lambda>b. Inr (string_of_bytes b)), rlp_number = (\<lambda>b. Inr (int (length b))), hd_Time = (\<lambda>_. 0),
     hd_ChainVersion = (\<lambda>_. 2), tk_GasPrice = (\<lambda>_. 2500), GetBlock = (\<lambda>_. Inl ''no block''),
     abi_method = (\<lambda>_ _. Inl ''no method''), abi_outputs = (\<lambda>_ _ _. Inl ''no output''),
     abi_event = (\<lambda>_ _ _ _. Inl ''no event''), json_receipt = (\<lambda>_. Inr []), json_no_data = [], j_StdReceipt = no_codec,
     j_StdFee = no_codec, Sum256_of = (\<lambda>_. replicate 32 0), c_ErrInternalFailed = 5007,
     fork_infos = (\<lambda>_. None), Md5_of = (\<lambda>_. replicate 16 0), std_GenesisContractAddr = (\<lambda>_. ''bcbC''), CalcOrgID = id,
     docker_url = (\<lambda>_ _ _ _ _ _. Inr (Inr ''tcp://contract'')), docker_Kill = (\<lambda>_. True),
     rpc_Invoke = (\<lambda>_ _ _ _ _ h. (Inl ''no contract'', h)), CallMcDirtyTx = (\<lambda>_ _ _. Inr ()), McDirtyToken = (\<lambda>_. Inr ()),
     McDirtyContract = (\<lambda>_. Inr ()), receipt_Token = (\<lambda>_ _. Inl ''no token''), receipt_ContractAddr = (\<lambda>_. Inl ''no contract'')\<rparr>"

abbreviation demo_base :: "kvs Chain" where "demo_base \<equiv> base_chain demo_burrow"

definition demo_bs :: "kvs BvmStore" where
  "demo_bs = bs_SetToken ''t'' (bvm_NewState 1 1 demo_open)"

lemma demo_base_sel [simp]:
  "ch_ext demo_base = model_ext" "ch_json demo_base = model_json" "ch_crypto demo_base = demo_crypto"
  "ch_ext demo_burrow = model_ext" "ch_json demo_burrow = model_json" "ch_crypto demo_burrow = demo_crypto"
  by (simp_all add: demo_burrow_def Chain.truncate_def)

lemma demo_addr: "ToAddr demo_crypto a = Some (''bcb'' @ hex_lower (be_bytes 20 a @ replicate 4 0))"
  by (simp add: ToAddr_def demo_crypto_def GetMainChainID_def GetChainName_def Let_def)

lemma hex_plain: "CHR ''/'' \<notin> set (hex_lower v)"
proof (induction v)
  case (Cons b v)
  have slash: "digit_char d \<noteq> CHR ''/''" if "d < 16" for d using of_char_digit_char [OF that] that by (auto split: if_splits)
  have "unat b div 16 < 16" using unsigned_less [of b, where 'a = nat] by simp
  then show ?case using Cons slash [of "unat b div 16"] slash [of "unat b mod 16"] by (simp add: hex_lower_def)
qed (simp add: hex_lower_def)

lemma enc_not_key: "not_key (enc_entries l)"
proof -
  have t: "hd (tag_bytes v @ w) \<in> {1, 2}" for v w by (cases v) (simp_all add: tag_bytes_def)
  have "hd (enc_entries l) \<in> {1, 2, 3}"
  proof (cases l)
    case (Cons e m)
    then show ?thesis using t [of "bytes_of_string (fst e)" "tag_bytes (snd e) @ enc_entries m"] by (cases e) auto
  qed simp
  moreover have "char_of (unat (b :: byte)) \<noteq> CHR ''/''" if "b \<in> {1, 2, 3}" for b
  proof -
    have "of_char (char_of (unat b) :: char) \<noteq> (of_char (CHR ''/'') :: nat)" using that by auto
    then show ?thesis by metis
  qed
  ultimately show ?thesis using enc_entries_not_Nil [of l]
    by (cases "enc_entries l") (auto simp: not_key_def string_of_bytes_def)
qed

lemma demo_chain_ok: "chain_ok demo_base"
proof -
  have a: "addr_of demo_base a = ''bcb'' @ hex_lower (be_bytes 20 a @ replicate 4 0)" for a
    by (simp add: addr_of_def demo_addr)
  have "inj (addr_of demo_base)" by (rule injI) (simp add: a hex_lower_inject be_bytes_inject)
  moreover have "plain (addr_of demo_base a)" for a using hex_plain by (auto simp: a plain_def)
  ultimately show ?thesis
    using strings_codec_ok by (auto simp: chain_ok_def a demo_addr model_ext_ok enc_not_key strings_codec_def comp_def)
qed

lemma demo_bs_ok: "store_ok demo_base ''t'' 1 1 demo_bs"
  by (simp add: store_ok_def demo_bs_def bs_SetToken_def bvm_NewState_def demo_open_simps listings_ok_def pending_def not_key_def
    string_of_bytes_def)

definition demo_written :: Cache where
  "demo_written = (NewCache [])\<lparr>c_accounts := [(1, \<lparr>ai_account = Some ((demo_account 1 60)\<lparr>BVMCode := Some [0]\<rparr>), ai_storage = [(8, [3])],
     ai_removed = False, ai_updated = True\<rparr>), (2, \<lparr>ai_account = Some (demo_account 2 5), ai_storage = [], ai_removed = True, ai_updated = True\<rparr>)]\<rparr>"

definition demo_state :: "kvs BvmStore State" where
  "demo_state = (NewState (Base demo_bs) [])\<lparr>chain := Layer demo_written (Base demo_bs)\<rparr>"

lemma demo_state_writable: "writable (bvm_world demo_burrow) demo_state"
  by (auto simp: writable_def demo_state_def demo_written_def NewCache_def coherent_def keyed_def demo_account_def bvm_world_def chain_rw_Address split: if_splits)

lemma demo_invoke: "bvm_invoke (bvm_machine demo_burrow hdr [] gp gl a n) 100 1 2 [] [] 0 demo_state = (Inr (None, None, 100, []), demo_state)"
  by (simp add: bvm_invoke_def VM_Call_def vm_call_def transfer_def ensureStackDepth_def run_code_def hasError_def gets_def run_pushErr start_vm_def bvm_machine_def
   NewVM_def newParams_def demo_state_def NewState_def state_panic_def demo_bs_def bs_SetToken_def bvm_NewState_def)

theorem run_commits_witness:
  "\<exists>r st' q h'. bvm_Sync demo_burrow demo_state = (r, st') \<and> CommitTx 1 1 (state_helper st') = (q, h') \<and> r = Inr None
    \<and> so_balance (stored_account demo_base ''t'' (block_view model_ext 1 h') 1) = Inr 60
    \<and> so_code (stored_account demo_base ''t'' (block_view model_ext 1 h') 1) = [0]
    \<and> so_listed (stored_account demo_base ''t'' (block_view model_ext 1 h') 2) = False
    \<and> stored_slot demo_base ''t'' (block_view model_ext 1 h') 1 8 = [3]"
proof -
  obtain r st' where S: "bvm_Sync demo_burrow demo_state = (r, st')" by fastforce
  obtain q h' where h': "CommitTx 1 1 (state_helper st') = (q, h')" by fastforce
  have ch: "chain demo_state = Layer demo_written (Base demo_bs)" by (simp add: demo_state_def)
  note R = run_commits [OF demo_chain_ok demo_bs_ok ch demo_state_writable demo_invoke S h', unfolded demo_base_sel]
  have "st_error demo_state = None" "accounted demo_written"
    by (auto simp: demo_state_def NewState_def accounted_def demo_written_def split: if_splits)
  then have r: "r = Inr None" using R ch by (auto split: sum.splits option.splits)
  then have "stored_account demo_base ''t'' (block_view model_ext 1 h') a = account_after ''t'' (map_of (c_accounts demo_written) a)
        (stored_account demo_base ''t'' (pending demo_base demo_bs) a)"
      "stored_slot demo_base ''t'' (block_view model_ext 1 h') a k = slot_after (map_of (c_accounts demo_written) a) k
        (stored_slot demo_base ''t'' (pending demo_base demo_bs) a k)" for a k
    using R ch by (auto simp: Let_def)
  then show ?thesis using S h' r
    by (simp add: demo_written_def account_after_def slot_after_def entry_with_def update_stored_def remove_stored_def demo_account_def)
qed

lemma fail_free: "rs_GasUsed (fail_Response c m) = 0"
  by (simp add: fail_Response_def new_Response_def)

section \<open>Calls that fail\<close>

text \<open>The run of the machine that a call makes, \<open>None\<close> when the call ends before it.\<close>

definition run_of_call :: "'db Burrow \<Rightarrow> Header \<Rightarrow> bytes \<Rightarrow> int \<Rightarrow> int \<Rightarrow> string \<Rightarrow> TxData \<Rightarrow> int64 \<Rightarrow> 'db Helper \<Rightarrow>
    (string + bytes option \<times> Exception option \<times> uint64 \<times> Event list) option" where
  "run_of_call B hdr blockHash t x sender tx gasPrice h =
    (case td_Messages tx of [] \<Rightarrow> None | msg # _ \<Rightarrow> (case ms_Items msg of [] \<Rightarrow> None | item # _ \<Rightarrow>
      (case (rlp_bytes B item, contract_account B t x (ms_Contract msg) h, ToBVM (ch_crypto B) sender,
          ToBVM (ch_crypto B) (ms_Contract msg)) of
        (Inr inp, Inr (Some a), Some from_addr, Some to_addr) \<Rightarrow>
          Some (fst (bvm_invoke (bvm_machine B hdr blockHash gasPrice (td_GasLimit tx) from_addr 0) (td_GasLimit tx * GasBvmRatio)
            from_addr to_addr (nil_bytes (BVMCode a)) inp 0 (NewState (Base (bs_SetToken (BVMToken a) (bvm_NewState t x h))) [])))
      | _ \<Rightarrow> None)))"

definition ran_well :: "(string + bytes option \<times> Exception option \<times> uint64 \<times> Event list) option \<Rightarrow> bool" where
  "ran_well r \<longleftrightarrow> (case r of Some (Inr (_, None, _, _)) \<Rightarrow> True | _ \<Rightarrow> False)"

lemma kept_tags_same [kept]: "kept (same_chain h0) m \<Longrightarrow> kept (same_chain h0) (with_tags B i j gp ca sender c m)"
  unfolding with_tags_def by (intro kept; assumption)

text \<open>A call writes only after a run without an error.\<close>

lemma bvm_Call_unrun:
  assumes "td_Messages tx = msg # msgs" "contract_account B t x (ms_Contract msg) h = Inr (Some a)"
    and not: "\<not> ran_well (run_of_call B hdr bh t x sender tx gp h)"
  shows "kept (same_chain h) (bvm_Call B hdr bh gp sender (nil_bytes (BVMCode a)) tx 0
    (NewState (Base (bs_SetToken (BVMToken a) (bvm_NewState t x h))) []))"
proof -
  let ?s = "bs_SetToken (BVMToken a) (bvm_NewState t x h)" and ?st0 = "NewState (Base (bs_SetToken (BVMToken a) (bvm_NewState t x h))) []"
  have h0: "state_helper ?st0 = h" by (simp add: state_helper_def NewState_def bs_SetToken_def bvm_NewState_def)
  note call = bvm_Call_def Let_def h0 elem_at_def or_crash_def kept_def assms(1)
  consider (early) "ms_Items msg = [] \<or> (\<exists>e. rlp_bytes B (hd (ms_Items msg)) = Inl e) \<or> ToBVM (ch_crypto B) sender = None
      \<or> ToBVM (ch_crypto B) (ms_Contract msg) = None"
    | (late) item items inp fa ta where "ms_Items msg = item # items" "rlp_bytes B item = Inr inp" "ToBVM (ch_crypto B) sender = Some fa"
      "ToBVM (ch_crypto B) (ms_Contract msg) = Some ta"
    by (metis list.exhaust list.sel(1) not_None_eq sum.exhaust)
  then show ?thesis
  proof cases
    case early
    then show ?thesis by (auto simp: call need_def hd_conv_nth split: sum.split option.split)
  next
    case late
    obtain r st where run: "bvm_invoke (bvm_machine B hdr bh gp (td_GasLimit tx) fa 0) (td_GasLimit tx * GasBvmRatio) fa ta
        (nil_bytes (BVMCode a)) inp 0 ?st0 = (r, st)" by fastforce
    have "\<exists>c. chain st = Layer c (Base ?s)"
      using bvm_invoke_base [of ?st0 "NewCache []" ?s] run by (metis NewState_def State.select_convs(1) snd_conv)
    then have "state_helper st = h" by (auto simp: state_helper_def bs_SetToken_def bvm_NewState_def)
    moreover have "\<not> ran_well (Some r)" using not by (simp add: run_of_call_def assms(1,2) late run)
    ultimately show ?thesis by (auto simp: call late run ran_well_def split: sum.split option.splits prod.split)
  qed
qed

lemma CallTx_unrun:
  assumes "\<not> ran_well (run_of_call B hdr bh t x sender tx gp h)"
  shows "kept (same_chain h) (bvm_CallTx B hdr bh t x sender tx gp h)"
proof (cases "td_Messages tx")
  case (Cons msg msgs)
  then show ?thesis
    unfolding bvm_CallTx_def Let_def
    using bvm_Call_unrun [OF Cons _ assms]
    by (auto simp: elem_at_def need_def split: sum.split option.split intro!: kept)
qed (simp add: bvm_CallTx_def elem_at_def kept_def)

text \<open>What holds of every answer.\<close>

definition answers :: "('a \<Rightarrow> bool) \<Rightarrow> ('s, 'a) act \<Rightarrow> bool" where
  "answers Q m \<longleftrightarrow> (\<forall>a. fst m = Inr a \<longrightarrow> Q a)"

lemma answers_rules:
  "answers Q (Inl e, s)" "Q a \<Longrightarrow> answers Q (Inr a, s)"
  "(\<And>a. answers Q (f a)) \<Longrightarrow> answers Q (need r s f)"
  "(\<And>b. answers Q (g1 b)) \<Longrightarrow> (\<And>c. answers Q (g2 c)) \<Longrightarrow> answers Q (case v of Inl b \<Rightarrow> g1 b | Inr c \<Rightarrow> g2 c)"
  "answers Q n \<Longrightarrow> (\<And>b. answers Q (k b)) \<Longrightarrow> answers Q (case z of None \<Rightarrow> n | Some b \<Rightarrow> k b)"
  "(\<And>b c. answers Q (l b c)) \<Longrightarrow> answers Q (case y of (b, c) \<Rightarrow> l b c)"
  "answers Q m1 \<Longrightarrow> answers Q m2 \<Longrightarrow> answers Q (if c then m1 else m2)"
  by (auto simp: answers_def need_def split: sum.split option.split prod.split)

lemma answers_seqR: "answers R m \<Longrightarrow> (\<And>a s. R a \<Longrightarrow> answers Q (f a s)) \<Longrightarrow> answers Q (seqR m f)"
  by (cases m; cases "fst m") (auto simp: answers_def)

definition free_unless_ok :: "'db Burrow \<Rightarrow> Response \<Rightarrow> bool" where
  "free_unless_ok B res \<longleftrightarrow> rs_Code res = c_CodeOK (ch_json B) \<or> rs_GasUsed res = 0"

lemma free_cases [simp]:
  "free_unless_ok B (fail_Response c m)" "free_unless_ok B (res\<lparr>rs_Tags := tags\<rparr>) = free_unless_ok B res"
  "free_unless_ok B (new_Response\<lparr>rs_Code := (if q then c else c_CodeOK (ch_json B)), rs_Data := d, rs_GasUsed := (if q then 0 else u)\<rparr>)"
  by (simp_all add: free_unless_ok_def fail_Response_def new_Response_def)

lemma bvm_Call_gas: "answers (\<lambda>(res, _). free_unless_ok B res) (bvm_Call B hdr bh gp sender bc tx v st)"
  unfolding bvm_Call_def Let_def by (intro answers_rules; simp)

lemma CallTx_gas: "answers (free_unless_ok B) (bvm_CallTx B hdr bh t x sender tx gp h)"
proof -
  have tags: "answers (free_unless_ok B) (with_tags B i j g ca s c m)"
    if "answers (\<lambda>(res, _). free_unless_ok B res) m" for i j g ca s c and m :: "('a Helper, Response \<times> Event list) act"
    unfolding with_tags_def using that
    by (elim answers_seqR; clarsimp; intro answers_seqR [where R = "\<lambda>_. True"] answers_rules; simp add: answers_def)
  show ?thesis unfolding bvm_CallTx_def Let_def by (intro answers_rules tags bvm_Call_gas free_cases)
qed

lemma confined_block_view: "confined i x h h' \<Longrightarrow> block_view E j h' = block_view E j h"
  by (simp add: confined_def block_view_def base_def split: option.split)

text \<open>C8. A call of a contract of the virtual machine, however it ends (an error or a panic before, in or after the run,
  also one of \<open>Sync\<close> or of the receipts after writes have been made): the answer of a call without success has gas used 0;
  the call changes at most the pending writes of its own tx and the values cached of the genesis, no other tx, no open
  transaction, not the database; if the run of the machine has not ended without an error, not even those pending writes;
  and the rollback of the tx discards every one of them: the tx then reads what the block had before the call.\<close>
theorem failed_call_free:
  assumes "bvm_CallTx B hdr bh t x sender tx gasPrice h = (r, h1)" "tx_of t x h \<noteq> None"
  shows "(\<forall>res. r = Inr res \<longrightarrow> rs_Code res = c_CodeOK (ch_json B) \<or> rs_GasUsed res = 0)
    \<and> confined t x h h1 \<and> (ran_well (run_of_call B hdr bh t x sender tx gasPrice h) \<or> same_chain h h1)
    \<and> (\<exists>h2. RollbackTx t x h1 = (Inr (), h2) \<and> confined t x h h2 \<and> tx_view (ch_ext B) t x h2 = block_view (ch_ext B) t h)"
proof -
  have c: "confined t x h h1" using kept_bvm_CallTx [OF confined_refl] assms(1) by (rule keptD)
  have s: "same_chain h h1" if "\<not> ran_well (run_of_call B hdr bh t x sender tx gasPrice h)"
    using CallTx_unrun [OF that] assms(1) by (rule keptD)
  have g: "\<forall>res. r = Inr res \<longrightarrow> rs_Code res = c_CodeOK (ch_json B) \<or> rs_GasUsed res = 0"
    using CallTx_gas [of B hdr bh t x sender tx gasPrice h] assms(1) by (simp add: answers_def free_unless_ok_def)
  obtain tx1 where tx1: "tx_of t x h1 = Some tx1" using c assms(2) by (auto simp: confined_def)
  obtain h2 where h2: "RollbackTx t x h1 = (Inr (), h2)" "rest h2 = rest h1" "\<And>j. tran j h2 = tran j h1"
    "\<And>j y. tx_of j y h2 = (if j = t \<and> y = x then Some (tx1\<lparr>xbuffer := []\<rparr>) else tx_of j y h1)"
    "tx_view (ch_ext B) t x h2 = block_view (ch_ext B) t h1"
    by (rule RollbackTx_run [OF tx1]) blast
  have "confined t x h1 h2" using h2 tx1 rest_fields(1,4) [OF h2(2)] by (simp add: confined_def)
  with c have "confined t x h h2" by (rule confined_trans)
  then show ?thesis using g c s h2(1,5) confined_block_view [OF c, of "ch_ext B" t] by auto
qed

definition demo_bvm_contract :: string where
  "demo_bvm_contract = ''bcbAAAAAAAAAAAAAAAAAAAA''"

definition demo_address :: word160 where
  "demo_address = be_word (replicate 20 0x41)"

lemma demo_ToBVM: "ToBVM demo_crypto demo_bvm_contract = Some demo_address"
  by (simp add: ToBVM_def demo_crypto_def demo_bvm_contract_def demo_address_def GetMainChainID_def GetChainName_def str_slice_def bytes_of_chars_def Let_def numeral_eq_Suc)

text \<open>The run of the one instruction \<open>INVALID\<close>.\<close>

lemma exec_invalid: "exec_op M X c 0xfe = op_INVALID"
  by (simp add: exec_op_def STOP_def ADD_def MUL_def SUB_def DIV_def SDIV_def MOD_def SMOD_def ADDMOD_def MULMOD_def EXP_def SIGNEXTEND_def LT_def GT_def SLT_def SGT_def EQ_def ISZERO_def AND_op_def OR_op_def XOR_op_def NOT_op_def BYTE_def SHL_def SHR_def SAR_def SHA3_def ADDRESS_def BALANCE_def ORIGIN_def CALLER_def CALLVALUE_def CALLDATALOAD_def CALLDATASIZE_def CALLDATACOPY_def CODESIZE_def CODECOPY_def GASPRICE_DEPRECATED_def EXTCODESIZE_def EXTCODECOPY_def RETURNDATASIZE_def RETURNDATACOPY_def EXTCODEHASH_def BLOCKHASH_def COINBASE_def TIMESTAMP_def BLOCKHEIGHT_def DIFFICULTY_DEPRECATED_def GASLIMIT_def POP_def MLOAD_def MSTORE_def MSTORE8_def SLOAD_def SSTORE_def JUMP_def JUMPI_def PC_def MSIZE_def GAS_def JUMPDEST_def PUSH1_def PUSH32_def DUP1_def DUP16_def SWAP1_def SWAP16_def LOG0_def LOG4_def CREATE_def CALL_def CALLCODE_def RETURN_def DELEGATECALL_def STATICCALL_def CREATE2_def REVERT_def INVALID_def SELFDESTRUCT_def split del: if_split cong: if_weak_cong)

lemma step_invalid:
  assumes "code c = [0xfe]" "pc f = 0" "1 \<le> gas f" "st_error (callState f) = None"
  shows "run_state (step M X c) f = (Return None, f\<lparr>gas := gas f - 1, callState := (callState f)\<lparr>st_error :=
    Some \<lparr>ex_Code = ErrorCodeExecutionAborted, ex_Exception = Code_String ErrorCodeExecutionAborted\<rparr>\<rparr>\<rparr>)"
  using assms
  by (simp add: step_def gets_def getOp_def codeGetOp_def or_panic_def useGasNegative_def GasBaseOp_def upd_def exec_invalid op_INVALID_def
      run_pushErr PushError_def guard_def NewException_def)

lemma demo_invalid_run:
  assumes "bs_panic s = None"
  shows "\<exists>left st. bvm_invoke (bvm_machine demo_burrow hdr [] gp gl from_addr n) 100 from_addr to_addr [0xfe] inp 0 (NewState (Base s) []) =
     (Inr (None, Some \<lparr>ex_Code = ErrorCodeExecutionAborted, ex_Exception = Code_String ErrorCodeExecutionAborted\<rparr>, left, []), st)"
proof -
  obtain m where m: "bvm_fuel 100 = Suc m" by (simp add: bvm_fuel_def)
  show ?thesis
    by (simp add: m assms step_invalid bvm_invoke_def VM_Call_def vm_call_def transfer_def ensureStackDepth_def run_code_def hasError_def
        gets_def run_pushErr start_vm_def bvm_machine_def NewVM_def newParams_def NewState_def state_panic_def execute_def in_frame_def
        enter_def leave_def upd_def)
qed

text \<open>What has been stored for an account is read back.\<close>

lemma GetAccount_stored:
  assumes "chain_ok C" "store_ok C tok t x s"
    and a: "stored_account C tok (pending C s) a = \<lparr>so_listed = True, so_balance = Inr b, so_code = c, so_token = tk\<rparr>"
    and ne: "c \<noteq> []" "tk \<noteq> []" "b \<noteq> 0"
  shows "bs_GetAccount C s a = Inr (Some \<lparr>Address = a, PubKey = [], Balance = b, BVMToken = tk, BVMCode = Some c, WASMCode = None\<rparr>)"
proof -
  let ?K = "slot_key C tok"
  have v: "pending C s (?K (Listing a)) \<noteq> []" "read_balance (ch_json C) (pending C s (?K (Holding a))) = Inr b"
      "pending C s (?K (Code_of a)) = c" "string_of_bytes (pending C s (?K (Token_of a))) = tk"
    using a by (simp_all add: stored_account_def del: slot_key.simps)
  then have full: "pending C s (?K (Holding a)) \<noteq> []" "pending C s (?K (Token_of a)) \<noteq> []"
    using ne by (auto simp: read_balance_def string_of_bytes_def)
  have get: "bs_read C s (?K sl) = Inr (pending C s (?K sl))" if "pending C s (?K sl) \<noteq> []" for sl
    using bs_read_run [OF assms(1,2), of "?K sl"] that by simp
  have "BalanceOf (ch_ext C) (ch_json C) (bs_transID s) (bs_txID s) (addr_of C a) (bs_tokenAddr s) (bs_helper s) = Inr b"
    using get [OF full(1)] v(2) full(1) store_okD(2) [OF assms(2)] by (simp add: BalanceOf_def bs_read_def read_balance_def)
  then show ?thesis
    using get [OF v(1)] get [OF full(2)] get [of "Code_of a"] v ne(1)
    by (simp add: bs_GetAccount_def chain_okD(8) [OF assms(1)] andThen_def)
qed

definition demo_code_account :: Account where
  "demo_code_account = \<lparr>Address = demo_address, PubKey = [], Balance = 7, BVMToken = ''t'', BVMCode = Some [0xfe], WASMCode = None\<rparr>"

definition demo_bvm_tx :: TxData where
  "demo_bvm_tx = \<lparr>td_Nonce = 1, td_GasLimit = 100, td_Note = [], td_Messages = [\<lparr>ms_Contract = demo_bvm_contract, ms_MethodID = 0xFFFFFFFF,
     ms_Items = [[0, 0, 0, 0]]\<rparr>]\<rparr>"

text \<open>The contract's code is the instruction \<open>INVALID\<close>.\<close>

theorem failed_call_free_witness:
  "\<exists>h r h1. bvm_CallTx demo_burrow no_header [] 1 1 demo_bvm_contract demo_bvm_tx 5 h = (r, h1) \<and> same_chain h h1
    \<and> (\<forall>res. r = Inr res \<longrightarrow> rs_Code res = 200 \<or> rs_GasUsed res = 0)
    \<and> (\<exists>h2. RollbackTx 1 1 h1 = (Inr (), h2) \<and> tx_view model_ext 1 1 h2 = block_view model_ext 1 h)"
proof -
  have ok: "store_ok demo_base [] 1 1 (bvm_NewState 1 1 demo_open)"
    by (simp add: store_ok_def bvm_NewState_def demo_open_simps listings_ok_def pending_def not_key_def string_of_bytes_def)
  obtain s where s: "store_ok demo_base [] 1 1 s" "stored_account demo_base [] (pending demo_base s) demo_address =
      \<lparr>so_listed = True, so_balance = Inr 7, so_code = [0xfe], so_token = ''t''\<rparr>"
    by (rule UpdateAccount_store [OF demo_chain_ok ok, of demo_code_account]) (simp add: demo_code_account_def update_stored_def)
  have get: "bs_GetAccount demo_base s demo_address = Inr (Some demo_code_account)"
    using GetAccount_stored [OF demo_chain_ok s] by (simp add: demo_code_account_def)
  let ?h = "bs_helper s"
  have "s = bvm_NewState 1 1 ?h" using store_okD(1-4) [OF s(1)] by (cases s) (simp add: bvm_NewState_def)
  then have acc: "contract_account demo_burrow 1 1 demo_bvm_contract ?h = Inr (Some demo_code_account)"
    using get by (simp add: contract_account_def demo_ToBVM or_crash_def andThen_def)
  let ?st = "NewState (Base (bs_SetToken (BVMToken demo_code_account) (bvm_NewState 1 1 ?h))) []"
  have "bs_panic (bs_SetToken (BVMToken demo_code_account) (bvm_NewState 1 1 ?h)) = None" by (simp add: bs_SetToken_def bvm_NewState_def)
  from demo_invalid_run [OF this, of no_header 5 100 demo_address 0 demo_address "[0, 0, 0, 0]"] obtain left st where
    "bvm_invoke (bvm_machine demo_burrow no_header [] 5 (td_GasLimit demo_bvm_tx) demo_address 0) (td_GasLimit demo_bvm_tx * GasBvmRatio) demo_address
      demo_address (nil_bytes (BVMCode demo_code_account)) [0, 0, 0, 0] 0 ?st =
      (Inr (None, Some \<lparr>ex_Code = ErrorCodeExecutionAborted, ex_Exception = Code_String ErrorCodeExecutionAborted\<rparr>, left, []), st)"
    by (auto simp: demo_bvm_tx_def GasBvmRatio_def demo_code_account_def nil_bytes_def)
  then have "\<not> ran_well (run_of_call demo_burrow no_header [] 1 1 demo_bvm_contract demo_bvm_tx 5 ?h)"
    using acc demo_ToBVM by (simp add: ran_well_def run_of_call_def demo_bvm_tx_def demo_burrow_def)
  moreover obtain r h1 where run: "bvm_CallTx demo_burrow no_header [] 1 1 demo_bvm_contract demo_bvm_tx 5 ?h = (r, h1)" by fastforce
  moreover have "tx_of 1 1 ?h \<noteq> None" using store_okD(7) [OF s(1)] by auto
  ultimately show ?thesis using failed_call_free [OF run] by (intro exI [of _ ?h]) (auto simp: model_json_def)
qed

end
