(* ===== verification/Deliver_Props.thy ===== *)
theory Deliver_Props
  imports Deliver_Model Helper_Props Burrow_Props
begin

text \<open>
  Properties of the delivery of transactions: fees are settled within their amount, a failed
  transaction leaves only entries of accounts behind, checking a transaction leaves no trace (both for contracts run by
  the adapter, \<open>adapter_InvokeTx\<close>), the per-payer fees add up to the total, and what the check of the application
  hash lets pass.
\<close>

section \<open>Operations confined to one tx\<close>

text \<open>
  The keys a failed transaction may change: the entries of accounts. \<open>touched\<close> relates two package states that differ
  at most in the tx \<open>x\<close> of transaction \<open>i\<close> (\<open>confined\<close>), and there only at keys of accounts.
\<close>

definition account_key :: "string \<Rightarrow> bool" where
  "account_key k \<longleftrightarrow> take 12 k = ''/account/ex/''"

definition tx_entry :: "int \<Rightarrow> int \<Rightarrow> 'db Helper \<Rightarrow> string \<Rightarrow> bytes option" where
  "tx_entry i x h k = (case tx_of i x h of None \<Rightarrow> None | Some tx \<Rightarrow> map_of (xbuffer tx) k)"

definition touched :: "int \<Rightarrow> int \<Rightarrow> 'db Helper \<Rightarrow> 'db Helper \<Rightarrow> bool" where
  "touched i x h h' \<longleftrightarrow> confined i x h h' \<and> (\<forall>k. \<not> account_key k \<longrightarrow> tx_entry i x h' k = tx_entry i x h k)"

lemma account_keys_ok [simp]:
  "account_key (KeyOfAccount a)" "account_key (KeyOfAccountToken a t)" "account_key (KeyOfAccountNonce a)"
  by (simp_all add: account_key_def KeyOfAccount_def KeyOfAccountToken_def KeyOfAccountNonce_def)

lemma touched_refl [simp]: "touched i x h h"
  by (simp add: touched_def)

lemma touched_trans: "touched i x h h1 \<Longrightarrow> touched i x h1 h2 \<Longrightarrow> touched i x h h2"
  by (auto simp: touched_def intro: confined_trans)

lemma set_touched:
  assumes "account_key k"
  shows "touched i x h (snd (helper_set i x k v h))"
proof (cases "tx_of i x h")
  case None
  then have "snd (helper_set i x k v h) = h"
    by (cases rule: getTrans_cases [of i h]) (simp_all add: helper_set_def on_tx_def)
  then show ?thesis by simp
next
  case (Some tx)
  obtain h' where h': "on_tx i x (\<lambda>tx. Tx_Set tx k v) h = (Inr (), h')"
    "\<And>j y. tx_of j y h' = (if j = i \<and> y = x then Some (Tx_Set tx k v) else tx_of j y h)"
    by (rule on_tx_run [OF Some, where f = "\<lambda>tx. Tx_Set tx k v"]) blast
  have "tx_entry i x h' l = tx_entry i x h l" if "\<not> account_key l" for l
    using that assms Some h'(2) by (auto simp: tx_entry_def Tx_Set_def update_conv')
  then show ?thesis
    using on_tx_confined [of i x h "\<lambda>tx. Tx_Set tx k v"] h'(1) by (simp add: touched_def helper_set_def)
qed

lemma write_json_touched: "account_key k \<Longrightarrow> touched i x h (snd (write_json c m i x k y h))"
  by (simp add: write_json_def set_touched split: sum.split)

lemma AddAccountToken_touched: "touched i x h (snd (AddAccountToken E J i x a t h))"
  by (auto simp: AddAccountToken_def need_def Let_def write_json_touched split: sum.split)

text \<open>The same for the node: the operations on fees keep the block's numbers and parties.\<close>

definition node_touched :: "'db Node \<Rightarrow> 'db Node \<Rightarrow> bool" where
  "node_touched n n' \<longleftrightarrow> a_transID (app n') = a_transID (app n) \<and> a_txID (app n') = a_txID (app n)
    \<and> touched (a_transID (app n)) (a_txID (app n)) (helper n) (helper n')"

lemma node_touched_refl [simp]: "node_touched n n"
  by (simp add: node_touched_def)

lemma node_touched_trans: "node_touched n n1 \<Longrightarrow> node_touched n1 n2 \<Longrightarrow> node_touched n n2"
  by (auto simp: node_touched_def intro: touched_trans)

lemma onH_touched:
  assumes "touched (a_transID (app n)) (a_txID (app n)) (helper n) (snd (f (helper n)))"
  shows "node_touched n (snd (onH f n))"
  using assms by (simp add: node_touched_def onH_def split_beta)

lemma upd_app_touched:
  assumes "a_transID (f (app n)) = a_transID (app n)" "a_txID (f (app n)) = a_txID (app n)"
  shows "node_touched n (upd_app f n)"
  using assms by (simp add: node_touched_def upd_app_def)

text \<open>Sequences of such operations.\<close>

lemma node_touched_seq:
  assumes "node_touched n (snd m)" "\<And>a s. m = (Inr a, s) \<Longrightarrow> node_touched s (snd (f a s))"
  shows "node_touched n (snd (seqR m f))"
  using assms by (cases m; cases "fst m") (auto intro: node_touched_trans)

lemma node_touched_need: "(\<And>a. r = Inr a \<Longrightarrow> node_touched n (snd (f a))) \<Longrightarrow> node_touched n (snd (need r n f))"
  by (cases r) auto

lemma SetBalance_touched:
  "t = a_transID (app n) \<Longrightarrow> x = a_txID (app n) \<Longrightarrow> node_touched n (snd (onH (SetBalance J t x a tok v) n))"
  by (auto intro!: onH_touched simp: SetBalance_def write_json_touched)

lemma AddAccountToken_node:
  "t = a_transID (app n) \<Longrightarrow> x = a_txID (app n) \<Longrightarrow> node_touched n (snd (onH (AddAccountToken E J t x a tok) n))"
  by (auto intro!: onH_touched simp: AddAccountToken_touched)

lemma distribute_rewards_touched:
  "node_touched n (snd (distribute_rewards K fee proposer i len rs left receipts n))"
proof (induction rs arbitrary: i left receipts n)
  case (Cons r rs)
  let ?t = "a_transID (app n)" and ?x = "a_txID (app n)"
  show ?case
  proof (cases "percent100 K (rw_RewardPercent r)")
    case (Inl e)
    then show ?thesis by (simp add: Let_def)
  next
    case (Inr p)
    note ids = onH_app
    show ?thesis
      unfolding distribute_rewards.simps Inr sum.case Let_def
    proof (intro node_touched_need node_touched_seq, rule SetBalance_touched [OF refl refl])
      fix v u s
      assume s: "onH (SetBalance (jsn K) ?t ?x (reward_addr proposer r) (fe_Token fee) v) n = (Inr u, s)"
      then have "app s = app n" by (rule onH_app)
      then show "node_touched s (snd (if V2_0_1_13780 (TagToForkInfo K) (Height (a_blockHeader (app s))) then (Inr (), s)
          else onH (AddAccountToken (ext K) (jsn K) ?t ?x (reward_addr proposer r) (fe_Token fee)) s))"
        by (simp add: AddAccountToken_node)
    next
      fix u s
      show "node_touched s (snd (distribute_rewards K fee proposer (Suc i) len rs l rc
          (upd_app (\<lambda>a. a\<lparr>a_rewards := f a\<rparr>) s)))" for l rc f
        by (rule node_touched_trans [OF upd_app_touched Cons.IH]) simp_all
    qed
  qed
qed simp

lemma distributeFee_touched: "node_touched n (snd (distributeFee K fee proposer isDlvOK isBVM n))"
  unfolding distributeFee_def Let_def
  by (intro node_touched_seq distribute_rewards_touched)
    (auto intro!: node_touched_need SetBalance_touched)

lemma distribute_all_touched: "node_touched n (snd (distribute_all K ok bvm m fees receipts ks tags n))"
proof (induction ks arbitrary: tags n)
  case (Cons k ks)
  show ?case
    unfolding distribute_all.simps by (intro node_touched_seq distributeFee_touched) (auto intro: Cons.IH)
qed simp

lemma emitFeeReceipts_touched: "node_touched n (snd (emitFeeReceipts K td response ok n))"
proof -
  have "node_touched n (snd (seqR (distribute_all K ok bvm m fees receipts ks tags n)
      (\<lambda>tags n. (Inr (tags, totalFee), n))))" for bvm m fees receipts ks tags and totalFee :: int64
    by (intro node_touched_seq distribute_all_touched) simp
  then show ?thesis
    unfolding emitFeeReceipts_def Let_def
    by (intro node_touched_need) (auto split: sum.split)
qed

section \<open>A failed transaction\<close>

text \<open>Two package states with the same contents outside the entries of accounts.\<close>

definition accounts_only :: "int \<Rightarrow> 'db Helper \<Rightarrow> 'db Helper \<Rightarrow> bool" where
  "accounts_only i h h' \<longleftrightarrow> stateDB h' = stateDB h \<and> (\<forall>j. j \<noteq> i \<longrightarrow> tran j h' = tran j h)
    \<and> (\<forall>t. tran i h = Some t \<longrightarrow> (\<exists>t'. tran i h' = Some t'
        \<and> (\<forall>k. \<not> account_key k \<longrightarrow> map_of (tbuffer t') k = map_of (tbuffer t) k)))"

lemma accounts_only_refl [simp]: "accounts_only i h h"
  by (simp add: accounts_only_def)

lemma accounts_only_trans: "accounts_only i h h1 \<Longrightarrow> accounts_only i h1 h2 \<Longrightarrow> accounts_only i h h2"
  unfolding accounts_only_def by (elim conjE, intro conjI) (simp, simp, metis)

lemma accounts_only_view:
  assumes "accounts_only i h h'" "tran i h \<noteq> None" "\<not> account_key k"
  shows "block_view E i h' k = block_view E i h k"
proof -
  obtain t t' where "tran i h = Some t" "tran i h' = Some t'" "map_of (tbuffer t') k = map_of (tbuffer t) k"
    using assms unfolding accounts_only_def by blast
  then show ?thesis using assms(1) by (simp add: accounts_only_def block_view_def base_def overlay_def)
qed

lemma confined_accounts_only: "confined i x h h' \<Longrightarrow> accounts_only i h h'"
  by (simp add: confined_def accounts_only_def)

lemma GetChainID_same:
  "stateDB (snd (GetChainID E J h)) = stateDB h" "tran j (snd (GetChainID E J h)) = tran j h"
  "tx_of j y (snd (GetChainID E J h)) = tx_of j y h"
  "currentCommittableTransaction (snd (GetChainID E J h)) = currentCommittableTransaction h"
  by (simp_all add: GetChainID_def need_def Let_def tran_def tx_of_def split: sum.split)

lemma map_of_put_all_other: "k \<notin> fst ` set kvs \<Longrightarrow> map_of (put_all m kvs) k = map_of m k"
  by (induction m kvs rule: put_all.induct) auto

lemma SetAccountNonce_accounts:
  "accounts_only i h (snd (SetAccountNonce E J i x a n h))
   \<and> (\<forall>j y. tx_of j y (snd (SetAccountNonce E J i x a n h)) = tx_of j y h)"
proof (cases "tran i h")
  case None
  then have g: "getTrans i h = (Inl ''invalid transID'', h)"
    by (cases rule: getTrans_cases [of i h]) simp_all
  have "snd (SetAccountNonce E J i x a n h) = h"
    unfolding SetAccountNonce_def g by (auto simp: need_def split: sum.split option.split)
  then show ?thesis by simp
next
  case (Some t)
  have w: "accounts_only i h (snd (seqR (on_transaction i (\<lambda>t. t\<lparr>tbuffer := put_all (tbuffer t) buf\<rparr>) h) (\<lambda>_ h. (r, h))))
    \<and> (\<forall>j y. tx_of j y (snd (seqR (on_transaction i (\<lambda>t. t\<lparr>tbuffer := put_all (tbuffer t) buf\<rparr>) h) (\<lambda>_ h. (r, h)))) = tx_of j y h)"
    if buf: "\<forall>k \<in> fst ` set buf. account_key k" for buf and r :: "string + (string + (string, bytes) gomap)"
  proof -
    obtain h' where h': "on_transaction i (\<lambda>t. t\<lparr>tbuffer := put_all (tbuffer t) buf\<rparr>) h = (Inr (), h')" "rest h' = rest h"
      "\<And>j. tran j h' = (if j = i then Some (t\<lparr>tbuffer := put_all (tbuffer t) buf\<rparr>) else tran j h)"
      "\<And>j y. tx_of j y h' = tx_of j y h"
      by (rule on_transaction_run [OF Some, where f = "\<lambda>t. t\<lparr>tbuffer := put_all (tbuffer t) buf\<rparr>"]) blast
    have "map_of (put_all (tbuffer t) buf) k = map_of (tbuffer t) k" if "\<not> account_key k" for k
      using that buf by (intro map_of_put_all_other) blast
    then have "accounts_only i h h'"
      using h'(3) Some rest_fields(1) [OF h'(2)] by (simp add: accounts_only_def)
    then show ?thesis using h'(1,4) by simp
  qed
  obtain tr where g: "getTrans i h = (Inr tr, h)" using getTrans_run [OF Some] by blast
  have keys: "\<forall>k \<in> fst ` set keys. account_key k"
    if "(if length data = 0 then account_keys E J i x a h else Inr []) = Inr keys" for data keys
    using that by (auto simp: account_keys_def andThen_Inr_iff split: if_splits)
  have w2: "accounts_only i h (snd (need (if length data = 0 then account_keys E J i x a h else Inr []) h (\<lambda>keys.
      seqR (on_transaction i (\<lambda>t. t\<lparr>tbuffer := put_all (tbuffer t) (keys @ [(KeyOfAccountNonce a, b)])\<rparr>) h)
        (\<lambda>_ h. (Inr (Inr (keys @ [(KeyOfAccountNonce a, b)]) :: string + (string, bytes) gomap), h)))))
    \<and> (\<forall>j y. tx_of j y (snd (need (if length data = 0 then account_keys E J i x a h else Inr []) h (\<lambda>keys.
      seqR (on_transaction i (\<lambda>t. t\<lparr>tbuffer := put_all (tbuffer t) (keys @ [(KeyOfAccountNonce a, b)])\<rparr>) h)
        (\<lambda>_ h. (Inr (Inr (keys @ [(KeyOfAccountNonce a, b)]) :: string + (string, bytes) gomap), h))))) = tx_of j y h)" for data b
  proof (cases "if length data = 0 then account_keys E J i x a h else Inr []")
    case (Inr keys)
    show ?thesis unfolding Inr need_simps
      using w [of "keys @ [(KeyOfAccountNonce a, b)]" "Inr (Inr (keys @ [(KeyOfAccountNonce a, b)]))"] keys [OF Inr]
      by auto
  qed (simp only: need_simps accounts_only_refl snd_conv, simp)
  note defs = SetAccountNonce_def g seqR_simps foldl_Transaction_Set Let_def
  show ?thesis
  proof (cases "(\<exists>e. CheckAccountNonce E J i x a n h = Inl e) \<or> (\<exists>m. CheckAccountNonce E J i x a n h = Inr (Some m))
      \<or> (\<exists>e. marshal (j_Nonce J) n = Inl e) \<or> (\<exists>e. helper_get E i x (KeyOfAccountNonce a) h = Inl e)")
    case True
    then show ?thesis unfolding defs by (auto simp: need_def split: sum.split option.split)
  next
    case False
    then obtain b data where r: "CheckAccountNonce E J i x a n h = Inr None" "marshal (j_Nonce J) n = Inr b"
      "helper_get E i x (KeyOfAccountNonce a) h = Inr data"
      by (metis not_None_eq sum.exhaust)
    show ?thesis unfolding defs r need_simps option.case by (rule w2)
  qed
qed

text \<open>A contract is run by the adapter: in the virtual machine, or by a process that uses the callbacks.\<close>

lemma InvokeTx_confined:
  assumes "InvokeTx K = adapter_InvokeTx B" "containers_by_callbacks B"
  shows "confined i x h (snd (InvokeTx K hdr i x sender td pk txHash blockHash h))"
  using kept_adapter [OF assms(2) confined_refl] assms(1) by (simp add: kept_def)

lemma calcDeliverHash_node [simp]:
  "helper (calcDeliverHash K tx r st n) = helper n"
  "a_transID (app (calcDeliverHash K tx r st n)) = a_transID (app n)"
  "a_txID (app (calcDeliverHash K tx r st n)) = a_txID (app n)"
  by (simp_all add: calcDeliverHash_def upd_app_def)

lemma CommitTx_accounts:
  assumes "tx_of i x h = Some tx" "\<And>k. \<not> account_key k \<Longrightarrow> map_of (xbuffer tx) k = None"
  shows "accounts_only i h (snd (CommitTx i x h))"
proof -
  obtain t where t: "tran i h = Some t" using tx_of_tran [OF assms(1)] by blast
  obtain h' where h': "CommitTx i x h = (Inr (sorted_dump (xbuffer tx), xbuffer tx), h')" "rest h' = rest h"
    "\<And>j. tran j h' = (if j = i then Some (t\<lparr>tbuffer := put_all (tbuffer t) (xbuffer tx)\<rparr>) else tran j h)"
    by (rule CommitTx_run [OF assms(1) t]) blast
  have "map_of (put_all (tbuffer t) (xbuffer tx)) k = map_of (tbuffer t) k" if "\<not> account_key k" for k
    using assms(2) [OF that] by (intro map_of_put_all_other) (simp add: map_of_eq_None_iff)
  then show ?thesis using h' t rest_fields(1) [OF h'(2)] by (simp add: accounts_only_def)
qed

lemma reportInvokeFailure_accounts:
  assumes x: "tx_of (a_transID (app n)) (a_txID (app n)) (helper n) = Some tx" "xbuffer tx = []"
  shows "accounts_only (a_transID (app n)) (helper n) (helper (snd (reportInvokeFailure K tx' td response n)))"
proof -
  let ?t = "a_transID (app n)" and ?x = "a_txID (app n)"
  obtain r n1 where e: "emitFeeReceipts K td response False n = (r, n1)"
    by (cases "emitFeeReceipts K td response False n")
  have n1: "a_transID (app n1) = ?t" "a_txID (app n1) = ?x" "touched ?t ?x (helper n) (helper n1)"
    using emitFeeReceipts_touched [of n K td response False] e by (simp_all add: node_touched_def)
  then have a1: "accounts_only ?t (helper n) (helper n1)"
    unfolding touched_def by (blast intro: confined_accounts_only)
  have "tx_of ?t ?x (helper n1) \<noteq> None" using n1(3) x by (simp add: touched_def confined_def)
  then obtain tx1 where tx1: "tx_of ?t ?x (helper n1) = Some tx1" by blast
  have "map_of (xbuffer tx1) k = None" if "\<not> account_key k" for k
    using n1(3) that x tx1 by (simp add: touched_def tx_entry_def)
  then have a2: "accounts_only ?t (helper n1) (snd (CommitTx ?t ?x (helper n1)))"
    by (rule CommitTx_accounts [OF tx1])
  show ?thesis
  proof (cases r)
    case (Inl m)
    then show ?thesis using a1 e by (simp add: reportInvokeFailure_def)
  next
    case (Inr p)
    obtain rcpts fee where p: "p = (rcpts, fee)" by fastforce
    obtain c h2 where c: "CommitTx ?t ?x (helper n1) = (c, h2)" by (cases "CommitTx ?t ?x (helper n1)")
    show ?thesis
      using a1 accounts_only_trans [OF a1 a2] c
      by (cases c) (auto simp: reportInvokeFailure_def e Inr p Let_def onH_def n1(1,2))
  qed
qed

lemma deliver_ok_code:
  "deliver_ok K tx td response buf n = (Inr (res, b), n') \<Longrightarrow> rd_Code res = rs_Code response"
  by (auto simp: deliver_ok_def seqR_Inr_iff Let_def)

lemma runDeliverTx_failed:
  assumes K: "InvokeTx K = adapter_InvokeTx B" "containers_by_callbacks B"
    and x: "tx_of (a_transID (app n)) (a_txID (app n)) (helper n) = Some tx0"
    and run: "runDeliverTx K tx td pk n = (Inr (res, buf), n')" and bad: "rd_Code res \<noteq> c_CodeOK (jsn K)"
  shows "accounts_only (a_transID (app n)) (helper n) (helper n')"
proof -
  let ?t = "a_transID (app n)" and ?x = "a_txID (app n)" and ?E = "ext K" and ?J = "jsn K"
  show ?thesis
  proof (cases "c_MaxSizeNote K < length (td_Note td)")
    case True
    then show ?thesis using run by (auto simp: runDeliverTx_def reportFailure_def Let_def)
  next
    case False
    obtain cid h1 where h1: "GetChainID ?E ?J (helper n) = (Inr cid, h1)"
      using run False by (cases "GetChainID ?E ?J (helper n)"; cases "fst (GetChainID ?E ?J (helper n))")
        (auto simp: runDeliverTx_def onH_def)
    let ?n1 = "n\<lparr>helper := h1\<rparr>" and ?s = "Address_of K pk cid"
    have a1: "accounts_only ?t (helper n) h1" "tx_of ?t ?x h1 = Some tx0"
      using GetChainID_same [where E = ?E and J = ?J and h = "helper n"] h1 x by (simp_all add: accounts_only_def)
    obtain nb h2 where h2: "SetAccountNonce ?E ?J ?t ?x ?s (td_Nonce td) h1 = (Inr nb, h2)"
      using run False h1 by (cases "SetAccountNonce ?E ?J ?t ?x ?s (td_Nonce td) h1";
        cases "fst (SetAccountNonce ?E ?J ?t ?x ?s (td_Nonce td) h1)")
        (auto simp: runDeliverTx_def onH_def Let_def)
    have a2: "accounts_only ?t h1 h2" "tx_of ?t ?x h2 = Some tx0"
      using SetAccountNonce_accounts [of ?t h1 ?E ?J ?x ?s "td_Nonce td"] h2 a1(2) by simp_all
    have a02: "accounts_only ?t (helper n) h2" by (rule accounts_only_trans [OF a1(1) a2(1)])
    show ?thesis
    proof (cases nb)
      case (Inl m)
      then show ?thesis using run False h1 h2 a02
        by (auto simp: runDeliverTx_def onH_def Let_def reportFailure_def)
    next
      case (Inr nonceBuffer)
      let ?call = "InvokeTx K (a_blockHeader (app n)) ?t ?x ?s td pk (CalcCodeHash K tx) (a_blockHash (app n)) h2"
      obtain response h3 where h3: "?call = (Inr response, h3)"
        using run False h1 h2 Inr by (cases ?call; cases "fst ?call") (auto simp: runDeliverTx_def onH_def Let_def)
      have c3: "confined ?t ?x h2 h3" using InvokeTx_confined [OF K] h3 by (metis snd_conv)
      have a3: "accounts_only ?t (helper n) h3"
        by (rule accounts_only_trans [OF a02 confined_accounts_only [OF c3]])
      obtain tx3 where tx3: "tx_of ?t ?x h3 = Some tx3" using c3 a2(2) by (auto simp: confined_def)
      let ?n3 = "n\<lparr>helper := h3\<rparr>"
      have code: "rs_Code response \<noteq> c_CodeOK ?J"
      proof
        assume ok: "rs_Code response = c_CodeOK ?J"
        have "deliver_ok K tx td response nonceBuffer ?n3 = (Inr (res, buf), n')"
          using run False h1 h2 Inr h3 ok by (simp add: runDeliverTx_def onH_def Let_def)
        from deliver_ok_code [OF this] show False using ok bad by simp
      qed
      obtain h4 where h4: "RollbackTx ?t ?x h3 = (Inr (), h4)" "rest h4 = rest h3" "\<And>j. tran j h4 = tran j h3"
        "\<And>j y. tx_of j y h4 = (if j = ?t \<and> y = ?x then Some (tx3\<lparr>xbuffer := []\<rparr>) else tx_of j y h3)"
        by (rule RollbackTx_run [OF tx3]) blast
      have "confined ?t ?x h3 h4" using h4(3,4) rest_fields(1,4) [OF h4(2)] tx3 by (simp add: confined_def)
      then have a4: "accounts_only ?t (helper n) h4"
        by (rule accounts_only_trans [OF a3 confined_accounts_only])
      let ?n4 = "n\<lparr>helper := h4\<rparr>"
      have "accounts_only ?t h4 (helper (snd (reportInvokeFailure K tx td response ?n4)))"
        using reportInvokeFailure_accounts [of ?n4 "tx3\<lparr>xbuffer := []\<rparr>" K tx td response] h4(4) by simp
      moreover have "helper n' = helper (snd (reportInvokeFailure K tx td response ?n4))"
        using run False h1 h2 Inr h3 code h4(1)
        by (auto simp: runDeliverTx_def onH_def Let_def seqR_Inr_iff)
      ultimately show ?thesis using accounts_only_trans [OF a4] by simp
    qed
  qed
qed

section \<open>Checking a transaction\<close>

text \<open>Everything but the transaction \<open>t\<close> is as before, and \<open>t\<close> has its number.\<close>

definition others_same :: "int \<Rightarrow> 'db Helper \<Rightarrow> 'db Helper \<Rightarrow> bool" where
  "others_same t h h' \<longleftrightarrow> stateDB h' = stateDB h
    \<and> currentCommittableTransaction h' = currentCommittableTransaction h
    \<and> (\<forall>j. j \<noteq> t \<longrightarrow> tran j h' = tran j h \<and> (\<forall>y. tx_of j y h' = tx_of j y h))"

definition in_check :: "int \<Rightarrow> 'db Helper \<Rightarrow> 'db Helper \<Rightarrow> bool" where
  "in_check t h h' \<longleftrightarrow> others_same t h h' \<and> (\<exists>tr. tran t h' = Some tr \<and> transactionID tr = t)"

lemma in_check_confined: "in_check t h h1 \<Longrightarrow> confined t x h1 h2 \<Longrightarrow> in_check t h h2"
  unfolding in_check_def others_same_def confined_def by metis

lemma in_check_ChainID: "in_check t h h1 \<Longrightarrow> in_check t h (snd (GetChainID E J h1))"
  by (simp add: in_check_def others_same_def GetChainID_same)

lemma in_check_NewTx:
  assumes "in_check t h h1"
  shows "in_check t h (snd (NewTx t h1))"
proof -
  obtain tr where tr: "tran t h1 = Some tr" "transactionID tr = t" using assms by (auto simp: in_check_def)
  show ?thesis
    by (rule NewTx_run [OF tr(1)])
      (use assms tr in \<open>auto simp: in_check_def others_same_def dest: rest_fields(1,4)\<close>)
qed

lemma in_check_BeginBlock:
  assumes "in_check t h h1"
  shows "in_check t h (snd (Helper_BeginBlock E J t h1))"
  unfolding Helper_BeginBlock_def
  by (intro need_keeps [where P = "in_check t h"] seqR_keeps [where P = "in_check t h"] assms in_check_NewTx)
    (auto simp: SetWorldAppState_def intro: in_check_confined [OF _ kept_write_json [OF confined_refl, unfolded kept_def]])

lemma in_check_RollbackBlock:
  assumes "in_check t h h1" "currentCommittableTransaction h \<noteq> Some t"
  shows "others_same t h (snd (RollbackBlock t h1))"
proof -
  obtain tr where tr: "transactionMap h1 t = Some tr" "transactionID (tr_Transaction tr) = t"
    using assms(1) by (auto simp: in_check_def tran_def)
  then have "snd (RollbackBlock t h1) = put_trans t None h1"
    using assms by (simp add: RollbackBlock_def getTrans_def Let_def in_check_def others_same_def put_trans_def)
  then show ?thesis
    using assms(1) rest_fields(1,4) [OF put_trans_obs(3), of t None h1]
    by (simp add: in_check_def others_same_def put_trans_obs)
qed

lemma snd_deferred: "snd (deferred m f) = snd (f (snd m))"
  by (cases m) (auto simp: deferred_def split: sum.split prod.split)

lemma in_check_seq:
  assumes "in_check t h (snd m)" "\<And>a s. in_check t h s \<Longrightarrow> others_same t h (snd (f a s))"
  shows "others_same t h (snd (seqR m f))"
  using assms by (cases m; cases "fst m") (auto simp: in_check_def)

lemma in_check_need:
  assumes "in_check t h s" "\<And>a. others_same t h (snd (f a))"
  shows "others_same t h (snd (need r s f))"
  using assms by (cases r) (auto simp: in_check_def)

lemma check_others:
  assumes K: "InvokeTx K = adapter_InvokeTx B" "containers_by_callbacks B" and inv: "helper_ok h"
  shows "snd (runCheckBCTx K cid tx td pk h) = h
    \<or> others_same (- (lastRollbackTransactionID (stateDB h) + 1)) (snd (NewRollbackTransactionID h))
        (snd (runCheckBCTx K cid tx td pk h))"
proof (cases "c_MaxSizeNote K < length (td_Note td)")
  case True
  then show ?thesis by (simp add: runCheckBCTx_def Let_def)
next
  case False
  obtain t h1 where h1: "NewRollbackTransactionID h = (t, h1)" "in_check t h1 h1"
    "currentCommittableTransaction h1 \<noteq> Some t" "t = - (lastRollbackTransactionID (stateDB h) + 1)"
    using helper_okD(3) [OF inv, of "- (lastRollbackTransactionID (stateDB h) + 1)"] helper_okD(5) [OF inv]
    by (auto simp: NewRollbackTransactionID_def NewRollbackTransaction_def calcTransactionID_def Let_def
        in_check_def others_same_def tran_def put_trans_def)
  have call: "in_check t h1 (snd (seqR (InvokeTx K bh t 1 s td pk ch hs h2) (\<lambda>r h. (Inr (f r), h))))"
    if "in_check t h1 h2" for bh s ch hs h2 and f :: "Response \<Rightarrow> ResponseCheckTx"
  proof (rule seqR_keeps [where P = "in_check t h1"])
    show "in_check t h1 (snd (InvokeTx K bh t 1 s td pk ch hs h2))"
      by (rule in_check_confined [OF that InvokeTx_confined [OF K]])
  qed simp
  have body: "in_check t h1 (snd (need r h2 (\<lambda>st. seqR (InvokeTx K (bh st) t 1 s td pk ch (hs st) h2) (\<lambda>r h. (Inr (f r), h)))))"
    if "in_check t h1 h2" for bh s ch hs h2 r and f :: "Response \<Rightarrow> ResponseCheckTx"
    by (rule need_keeps [where P = "in_check t h1"]) (rule that call)+
  have "others_same t h1 (snd (runCheckBCTx K cid tx td pk h))"
    unfolding runCheckBCTx_def Let_def h1(1) prod.case if_not_P [OF False]
    by (intro in_check_seq in_check_need in_check_ChainID h1(2))
      (auto simp: snd_deferred in_check_def [of _ _ h1]
        intro!: in_check_seq in_check_BeginBlock in_check_RollbackBlock body h1(3) dest: in_check_def [THEN iffD1])
  then show ?thesis using h1(1,4) by simp
qed

section \<open>Fees per payer\<close>

definition fee_sum :: "fees \<Rightarrow> int64" where
  "fee_sum fees = (\<Sum>(k, f) \<leftarrow> fees. fe_Value f)"

definition fees_ok :: "fees \<Rightarrow> bool" where
  "fees_ok fees \<longleftrightarrow> distinct (map fst fees) \<and> (\<forall>(k, f) \<in> set fees. fe_From f = k)"

lemma fee_sum_update:
  "distinct (map fst fees) \<Longrightarrow> fee_sum (AList.update k f fees)
    = fee_sum fees + fe_Value f - (case map_of fees k of None \<Rightarrow> 0 | Some g \<Rightarrow> fe_Value g)"
proof (induction fees)
  case (Cons e fees)
  obtain j g where e: "e = (j, g)" by fastforce
  show ?case
  proof (cases "j = k")
    case True
    then show ?thesis by (simp add: e fee_sum_def)
  next
    case False
    have d: "distinct (map fst fees)" using Cons.prems by simp
    have "fee_sum (AList.update k f (e # fees)) = fe_Value g + fee_sum (AList.update k f fees)"
      using False by (simp add: e fee_sum_def)
    also have "\<dots> = fe_Value g + (fee_sum fees + fe_Value f - (case map_of fees k of None \<Rightarrow> 0 | Some g \<Rightarrow> fe_Value g))"
      by (simp only: Cons.IH [OF d])
    finally show ?thesis using False by (simp add: e fee_sum_def)
  qed
qed (simp add: fee_sum_def)

lemma set_update_subset: "set (AList.update k v al) \<subseteq> insert (k, v) (set al)"
  by (induction al) auto

lemma fees_ok_update: "fees_ok fees \<Longrightarrow> fe_From f = k \<Longrightarrow> fees_ok (AList.update k f fees)"
  using set_update_subset [of k f fees] by (fastforce simp: fees_ok_def)

lemma gather_sums:
  assumes "gatherFeesByFromAddr K good tags (fees, ft, tot) = Inr (fees', ft', tot')" "fees_ok fees" "tot = fee_sum fees"
  shows "fees_ok fees' \<and> tot' = fee_sum fees'"
  using assms
proof (induction tags arbitrary: fees ft tot)
  case (Cons t tags)
  show ?case
  proof (cases "Contains (kv_Key t) ''std::fee''")
    case False
    then show ?thesis using Cons.IH [of fees ft tot] Cons.prems by simp
  next
    case True
    obtain r rf where r: "unmarshal (j_Receipt K) (kv_Value t) = Inr r" "unmarshal (j_Fee K) (rc_Bytes r) = Inr rf"
      using Cons.prems(1) True by (auto simp: andThen_Inr_iff)
    define rf' where "rf' = (case map_of fees (fe_From rf) of
        Some v \<Rightarrow> rf\<lparr>fe_Value := fe_Value v + fe_Value rf\<rparr> | None \<Rightarrow> rf)"
    have f: "fe_From rf' = fe_From rf" by (simp add: rf'_def split: option.split)
    have sum: "tot + fe_Value rf = fee_sum (AList.update (fe_From rf) rf' fees)"
      using Cons.prems(2,3) fee_sum_update [of fees "fe_From rf" rf']
      by (simp add: fees_ok_def rf'_def split: option.splits)
    have run: "gatherFeesByFromAddr K good tags (AList.update (fe_From rf) rf' fees,
        if good then ft else ft @ [t], tot + fe_Value rf) = Inr (fees', ft', tot')"
      using Cons.prems(1) True r by (simp add: rf'_def)
    show ?thesis by (rule Cons.IH [OF run fees_ok_update [OF Cons.prems(2) f] sum])
  qed
qed simp

section \<open>The check of the application hash\<close>

lemma EqualFold_invalid:
  assumes "length s = length t" "\<forall>b \<in> set s \<union> set t. 0x80 \<le> b \<and> b < 0xC2"
  shows "EqualFold orbit s t"
  using assms
proof (induction s t rule: list_induct2)
  case (Cons b s c t)
  have "DecodeRune (b # s) = (RuneError, 1)" "DecodeRune (c # t) = (RuneError, 1)"
    using Cons.prems by (auto simp: DecodeRune_def)
  then show ?case using Cons by (subst EqualFold.simps) (simp add: rune_fold_def)
qed (subst EqualFold.simps, simp)

section \<open>Properties\<close>

lemma demo_view [simp]: "node_view model_env demo_node k = []"
  using demo_open_simps(4) by (simp add: node_view_def model_env_def demo_node_def)

lemma model_env_sel [simp]: "ext model_env = model_ext" "jsn model_env = model_json" "DivI model_env = (div)"
  by (simp_all add: model_env_def)

lemma demo_node_ids [simp]:
  "a_transID (app demo_node) = 1" "a_txID (app demo_node) = 1" "helper demo_node = demo_open"
  "a_rewardStrategy (app demo_node) = demo_rewards"
  by (simp_all add: demo_node_def)

lemma demo_ledger_ok [simp]: "ledger_ok model_env tok demo_node"
  by (simp add: ledger_ok_def model_ext_ok demo_open_simps read_balance_def decode_or_def)

text \<open>C14. The fee of a transaction that failed, or that ran in the virtual machine, is settled: the
  payer's balance goes down by the fee, each rewarder's balance goes up by its share, rounded
  down, no balance of another account changes, and together the rewarders get at most the fee
  and lose less than one unit each to rounding when the shares add up to 100 percent.\<close>

theorem fee_settled:
  assumes "ledger_ok K (fe_Token fee) n" "\<not> isDlvOK \<or> isBVM" "plain (fe_From fee)" "0 \<le> sint (fe_Value fee)"
    and "div_ok K" "shares_ok K proposer (a_rewardStrategy (app n))"
    and "S = insert (fe_From fee) (reward_addr proposer ` set (a_rewardStrategy (app n)))"
    and "paid = sum_list (map snd (awards K fee proposer (a_rewardStrategy (app n))))"
  shows "\<exists>receipts n'. distributeFee K fee proposer isDlvOK isBVM n = (Inr (receipts, None), n')
    \<and> (\<forall>a. plain a \<longrightarrow> node_balance K (fe_Token fee) n' a = node_balance K (fe_Token fee) n a
          - (if a = fe_From fee then sint (fe_Value fee) else 0)
          + (\<Sum>(b, v) \<leftarrow> awards K fee proposer (a_rewardStrategy (app n)). if b = a then v else 0))
    \<and> sum (node_balance K (fe_Token fee) n') S = sum (node_balance K (fe_Token fee) n) S - (sint (fe_Value fee) - paid)
    \<and> 0 \<le> paid \<and> paid \<le> sint (fe_Value fee)
    \<and> 10000 * (sint (fe_Value fee) - paid)
        \<le> sint (fe_Value fee) * (10000 - sum_list (map (percent_of K) (a_rewardStrategy (app n))))
          + 9999 * int (length (a_rewardStrategy (app n)))"
proof -
  let ?rs = "a_rewardStrategy (app n)" and ?tok = "fe_Token fee" and ?f = "sint (fe_Value fee)"
  let ?p = "sum_list (map (percent_of K) ?rs)"
  let ?xs = "(fe_From fee, - ?f) # awards K fee proposer ?rs"
  obtain n' new where run: "distributeFee K fee proposer isDlvOK isBVM n = (Inr (new, None), n')"
    "\<And>b. plain b \<Longrightarrow> node_balance K ?tok n' b = credits ?xs (node_balance K ?tok n) b"
    by (rule distributeFee_run [OF assms(1-3,6)]) blast
  have bal: "node_balance K ?tok n' a = node_balance K ?tok n a - (if a = fe_From fee then ?f else 0)
      + (\<Sum>(b, v) \<leftarrow> awards K fee proposer ?rs. if b = a then v else 0)" if "plain a" for a
    unfolding run(2) [OF that] credits_apply by auto
  have S: "finite S" "\<forall>a \<in> S. plain a" "fst ` set ?xs \<subseteq> S"
    using assms(3,6,7) by (auto simp: shares_ok_def awards_def)
  have "sum (node_balance K ?tok n') S = sum (credits ?xs (node_balance K ?tok n)) S"
    using run(2) S(2) by (intro sum.cong) auto
  also have "\<dots> = sum (node_balance K ?tok n) S + (\<Sum>(a, v) \<leftarrow> ?xs. v)" by (rule credits_total [OF S(1,3)])
  also have "(\<Sum>(a, v) \<leftarrow> ?xs. v) = paid - ?f" using assms(8) by (simp add: case_prod_unfold)
  finally have total: "sum (node_balance K ?tok n') S = sum (node_balance K ?tok n) S - (?f - paid)" by simp
  have nonneg: "\<forall>r \<in> set ?rs. 0 \<le> percent_of K r" and p: "?p \<le> 10000" using assms(6) by (simp_all add: shares_ok_def)
  note b = awards_bounds [OF assms(5,4) nonneg, where proposer = proposer, folded assms(8)]
  have "?f * ?p \<le> ?f * 10000" using p assms(4) by (intro mult_left_mono) auto
  then have "paid \<le> ?f" using b(2) by linarith
  moreover have "10000 * (?f - paid) \<le> ?f * (10000 - ?p) + 9999 * int (length ?rs)"
    using b(3) by (simp add: right_diff_distrib)
  ultimately show ?thesis using run(1) bal total b(1) by blast
qed

lemma demo_percent: "map (percent_of model_env) demo_rewards = [2000, 8000]"
  by code_simp

lemma demo_shares: "shares_ok model_env ''bcbP'' demo_rewards"
proof -
  have "\<exists>p. percent100 model_env s = Inr p" for s by (simp add: model_env_def)
  moreover have "list_all (\<lambda>r. plain (reward_addr ''bcbP'' r)) demo_rewards"
    by (simp add: demo_rewards_def reward_addr_def plain_def)
  moreover have "\<forall>p \<in> set (map (percent_of model_env) demo_rewards). 0 \<le> p"
    unfolding demo_percent by simp
  then have "\<forall>r \<in> set demo_rewards. 0 \<le> percent_of model_env r" by simp
  ultimately show ?thesis unfolding shares_ok_def demo_percent by (simp add: list_all_iff)
qed

lemma fee_settled_witness:
  "\<exists>receipts n'. distributeFee model_env demo_fee ''bcbP'' False False demo_node = (Inr (receipts, None), n')
    \<and> (\<forall>a. plain a \<longrightarrow> node_balance model_env (fe_Token demo_fee) n' a = node_balance model_env (fe_Token demo_fee) demo_node a
          - (if a = fe_From demo_fee then sint (fe_Value demo_fee) else 0)
          + (\<Sum>(b, v) \<leftarrow> awards model_env demo_fee ''bcbP'' (a_rewardStrategy (app demo_node)). if b = a then v else 0))
    \<and> sum (node_balance model_env (fe_Token demo_fee) n') (insert (fe_From demo_fee) (reward_addr ''bcbP'' ` set (a_rewardStrategy (app demo_node))))
      = sum (node_balance model_env (fe_Token demo_fee) demo_node) (insert (fe_From demo_fee) (reward_addr ''bcbP'' ` set (a_rewardStrategy (app demo_node))))
        - (sint (fe_Value demo_fee) - sum_list (map snd (awards model_env demo_fee ''bcbP'' (a_rewardStrategy (app demo_node)))))
    \<and> 0 \<le> sum_list (map snd (awards model_env demo_fee ''bcbP'' (a_rewardStrategy (app demo_node))))
    \<and> sum_list (map snd (awards model_env demo_fee ''bcbP'' (a_rewardStrategy (app demo_node)))) \<le> sint (fe_Value demo_fee)
    \<and> 10000 * (sint (fe_Value demo_fee) - sum_list (map snd (awards model_env demo_fee ''bcbP'' (a_rewardStrategy (app demo_node)))))
        \<le> sint (fe_Value demo_fee) * (10000 - sum_list (map (percent_of model_env) (a_rewardStrategy (app demo_node))))
          + 9999 * int (length (a_rewardStrategy (app demo_node)))"
  by (rule fee_settled [OF demo_ledger_ok _ _ _ _ _ refl refl])
    (use demo_shares in \<open>simp_all add: demo_fee_def plain_def div_ok_def\<close>)

text \<open>C10. A transaction whose delivery does not return \<open>CodeOK\<close>, however its contract ended, changes
  no entry of the open block but those of accounts (nonces, balances, lists of keys): what its
  contract wrote is gone, the database and all other transactions are as before. The contract is run by the
  adapter: in the virtual machine, for which nothing is assumed, or in a process outside the node, of which it is
  assumed that it works on the state through the callbacks, with the numbers it was given.\<close>

theorem failed_tx_isolated:
  assumes "InvokeTx K = adapter_InvokeTx B" "containers_by_callbacks B" "tx_of (a_transID (app n)) (a_txID (app n)) (helper n) = Some tx0"
    and "runDeliverTx K tx td pk n = (Inr (res, buf), n')" "rd_Code res \<noteq> c_CodeOK (jsn K)"
    and "\<not> account_key k"
  shows "block_view (ext K) (a_transID (app n)) (helper n') k = block_view (ext K) (a_transID (app n)) (helper n) k
    \<and> stateDB (helper n') = stateDB (helper n)
    \<and> (\<forall>j. j = a_transID (app n) \<or> tran j (helper n') = tran j (helper n))"
proof -
  have a: "accounts_only (a_transID (app n)) (helper n) (helper n')"
    by (rule runDeliverTx_failed [OF assms(1-5)])
  have "tran (a_transID (app n)) (helper n) \<noteq> None" using tx_of_tran [OF assms(3)] by auto
  from accounts_only_view [OF a this assms(6)] show ?thesis using a by (auto simp: accounts_only_def)
qed

text \<open>
  The adapter over the demo machine, with a contract in a process (that of the genesis contract, which the manager calls
  without a look at the stored contracts) that writes an entry through the callback and fails.
\<close>

definition demo_failing :: "int \<Rightarrow> int \<Rightarrow> kvs Helper \<Rightarrow> (kvs Helper, Response) act" where
  "demo_failing i x h = (case AdapterSetCallBack i x [(''/contract/data'', [1])] h of (r, h) \<Rightarrow>
     (map_sum id (\<lambda>_. fail_Response 500 ''failed'') r, h))"

definition adapter_burrow :: "kvs Burrow" where
  "adapter_burrow = demo_burrow\<lparr>rpc_Invoke := (\<lambda>url hdr i x param. demo_failing i x)\<rparr>"

definition demo_adapter :: "Header \<Rightarrow> int \<Rightarrow> int \<Rightarrow> string \<Rightarrow> TxData \<Rightarrow> bytes \<Rightarrow> bytes \<Rightarrow> bytes \<Rightarrow> kvs Helper \<Rightarrow> (kvs Helper, Response) act" where
  "demo_adapter hdr i x s td pk th bh h = adapter_InvokeTx adapter_burrow hdr i x s td pk th bh h"

definition adapter_env :: "kvs Env" where
  "adapter_env = model_env\<lparr>InvokeTx := demo_adapter\<rparr>"

lemma adapter_env_InvokeTx: "InvokeTx adapter_env = adapter_InvokeTx adapter_burrow"
  by (simp add: adapter_env_def demo_adapter_def fun_eq_iff)

lemma adapter_callbacks: "containers_by_callbacks adapter_burrow"
  unfolding containers_by_callbacks_def adapter_burrow_def demo_failing_def [abs_def]
  by (simp, intro allI, rule by_callbacks.store, rule by_callbacks.answer)

lemma adapter_run: "map_sum id (\<lambda>(r, b). rd_Code r) (fst (runDeliverTx adapter_env ''tx'' demo_tx [1] demo_node)) = Inr 500"
  by code_simp

lemma failed_tx_isolated_witness:
  "\<exists>res buf n'. runDeliverTx adapter_env ''tx'' demo_tx [1] demo_node = (Inr (res, buf), n') \<and> rd_Code res = 500
    \<and> (block_view (ext adapter_env) (a_transID (app demo_node)) (helper n') ''/contract/data''
        = block_view (ext adapter_env) (a_transID (app demo_node)) (helper demo_node) ''/contract/data''
      \<and> stateDB (helper n') = stateDB (helper demo_node)
      \<and> (\<forall>j. j = a_transID (app demo_node) \<or> tran j (helper n') = tran j (helper demo_node)))"
proof -
  obtain res buf n' where r: "runDeliverTx adapter_env ''tx'' demo_tx [1] demo_node = (Inr (res, buf), n')" "rd_Code res = 500"
    using adapter_run by (cases "runDeliverTx adapter_env ''tx'' demo_tx [1] demo_node";
      cases "fst (runDeliverTx adapter_env ''tx'' demo_tx [1] demo_node)") auto
  have x: "tx_of (a_transID (app demo_node)) (a_txID (app demo_node)) (helper demo_node) = Some \<lparr>txID = 1, xbuffer = []\<rparr>"
    by (simp add: demo_open_simps)
  have "rd_Code res \<noteq> c_CodeOK (jsn adapter_env)" using r(2) by (simp add: adapter_env_def model_env_def model_json_def)
  from failed_tx_isolated [OF adapter_env_InvokeTx adapter_callbacks x r(1) this, of "''/contract/data''"]
  show ?thesis using r by (simp add: account_key_def)
qed

text \<open>C27. Checking a transaction, whatever its result and even when it panics, changes neither the
  databases nor the current block nor any committable transaction. The contract is run by the adapter, as in delivery
  (\<open>InvokeTx\<close>): the virtual machine, or a process that works through the callbacks.\<close>

theorem check_isolated:
  assumes "InvokeTx K = adapter_InvokeTx B" "containers_by_callbacks B" "helper_ok h"
  shows "\<forall>j y. let h' = snd (runCheckBCTx K cid tx td pk h) in
      sdb (stateDB h') = sdb (stateDB h) \<and> sndb (stateDB h') = sndb (stateDB h)
    \<and> committableTransaction (stateDB h') = committableTransaction (stateDB h)
    \<and> currentCommittableTransaction h' = currentCommittableTransaction h
    \<and> (j \<le> 0 \<or> tran j h' = tran j h \<and> tx_of j y h' = tx_of j y h)"
proof -
  let ?t = "- (lastRollbackTransactionID (stateDB h) + 1)"
  have t: "?t \<le> 0" using helper_okD(5) [OF assms(3)] by simp
  have n: "sdb (stateDB (snd (NewRollbackTransactionID h))) = sdb (stateDB h)"
    "sndb (stateDB (snd (NewRollbackTransactionID h))) = sndb (stateDB h)"
    "committableTransaction (stateDB (snd (NewRollbackTransactionID h))) = committableTransaction (stateDB h)"
    "currentCommittableTransaction (snd (NewRollbackTransactionID h)) = currentCommittableTransaction h"
    "j \<noteq> ?t \<Longrightarrow> tran j (snd (NewRollbackTransactionID h)) = tran j h"
    "j \<noteq> ?t \<Longrightarrow> tx_of j y (snd (NewRollbackTransactionID h)) = tx_of j y h" for j y
    by (simp_all add: NewRollbackTransactionID_def NewRollbackTransaction_def calcTransactionID_def Let_def
        put_trans_def tran_def tx_of_def)
  consider (same) "snd (runCheckBCTx K cid tx td pk h) = h"
    | (other) "others_same ?t (snd (NewRollbackTransactionID h)) (snd (runCheckBCTx K cid tx td pk h))"
    using check_others [OF assms] by blast
  then show ?thesis
  proof cases
    case other
    have "tran j (snd (runCheckBCTx K cid tx td pk h)) = tran j h
        \<and> tx_of j y (snd (runCheckBCTx K cid tx td pk h)) = tx_of j y h" if "\<not> j \<le> 0" for j y
    proof -
      have "j \<noteq> ?t" using that t by linarith
      then show ?thesis using other n(5,6) unfolding others_same_def by metis
    qed
    then show ?thesis using other n(1-4) unfolding others_same_def Let_def by metis
  qed simp
qed

lemma check_isolated_witness:
  "\<forall>j y. let h' = snd (runCheckBCTx adapter_env ''bcb'' ''tx'' demo_bvm_tx [1] demo_open) in
      sdb (stateDB h') = sdb (stateDB demo_open) \<and> sndb (stateDB h') = sndb (stateDB demo_open)
    \<and> committableTransaction (stateDB h') = committableTransaction (stateDB demo_open)
    \<and> currentCommittableTransaction h' = currentCommittableTransaction demo_open
    \<and> (j \<le> 0 \<or> tran j h' = tran j demo_open \<and> tx_of j y h' = tx_of j y demo_open)"
  by (rule check_isolated [OF adapter_env_InvokeTx adapter_callbacks helper_reach_ok [OF demo_open_reach]])

text \<open>The fees gathered from the receipts are booked once per payer, and add up (modulo
  \<open>2 ^ 64\<close>) to the total fee that is reported.\<close>

theorem fees_add_up:
  assumes "gatherFeesByFromAddr K good tags ([], [], 0) = Inr (fees, feetags, sum_all)"
  shows "sum_all = (\<Sum>(k, f) \<leftarrow> fees. fe_Value f) \<and> distinct (map fst fees) \<and> map (fe_From \<circ> snd) fees = map fst fees"
proof -
  have "fees_ok fees \<and> sum_all = fee_sum fees"
    by (rule gather_sums [OF assms]) (simp_all add: fees_ok_def fee_sum_def)
  then show ?thesis by (auto simp: fees_ok_def fee_sum_def)
qed

lemma fees_add_up_witness:
  "10 = (\<Sum>(k, f) \<leftarrow> [(''bcbA'', demo_fee)]. fe_Value f) \<and> distinct (map fst [(''bcbA'', demo_fee)])
    \<and> map (fe_From \<circ> snd) [(''bcbA'', demo_fee)] = map fst [(''bcbA'', demo_fee)]"
  by (rule fees_add_up [OF demo_gather])

text \<open>\<open>BeginBlock\<close> compares the application hashes with \<open>bytes.EqualFold\<close>, which decodes them as
  UTF-8 text: it accepts every hash of the right length against every other when the bytes of
  both are not valid text (here, all from \<open>0x80\<close> to \<open>0xC1\<close>), although they differ.\<close>

theorem app_hash_check_weak:
  assumes "GetWorldAppState (ext K) (jsn K) (a_transID (app n)) (a_txID (app n)) (helper n) = Inr st"
    and "Height hdr = BlockHeight st + 1" "length (LastAppHash hdr) = length (AppHash st)"
    and "\<forall>b \<in> set (LastAppHash hdr) \<union> set (AppHash st). 0x80 \<le> b \<and> b < 0xC2"
  shows "getAndVerifyAppState K hdr n = (Inr (), upd_app (\<lambda>a. a\<lparr>a_appState := st\<rparr>) n)"
  using assms EqualFold_invalid [OF assms(3,4), of "same_fold K"]
  by (simp add: getAndVerifyAppState_def Let_def)

definition hash_state :: AppState where
  "hash_state = no_state\<lparr>BlockHeight := 7, AppHash := [0x80, 0x81]\<rparr>"

definition hash_env :: "kvs Env" where
  "hash_env = model_env\<lparr>jsn := model_json\<lparr>j_AppState :=
     \<lparr>marshal = (\<lambda>_. Inr [1]), unmarshal = (\<lambda>_. Inr hash_state)\<rparr>\<rparr>\<rparr>"

definition hash_node :: "kvs Node" where
  "hash_node = demo_node\<lparr>helper := snd (helper_set 1 1 keyOfWorldAppState [1] demo_open)\<rparr>"

lemma app_hash_check_weak_witness:
  "getAndVerifyAppState hash_env (no_header\<lparr>Height := 8, LastAppHash := [0xC0, 0xAB]\<rparr>) hash_node
    = (Inr (), upd_app (\<lambda>a. a\<lparr>a_appState := hash_state\<rparr>) hash_node)"
proof (rule app_hash_check_weak)
  obtain h where h: "helper_set 1 1 keyOfWorldAppState [1] demo_open = (Inr (), h)"
    "\<And>j. tran j h = tran j demo_open" "\<And>E. tx_view E 1 1 h = (tx_view E 1 1 demo_open)(keyOfWorldAppState := [1])"
    by (rule set_run [OF demo_open_simps(2), of "[1]" keyOfWorldAppState]) auto
  have t: "tran 1 h = Some \<lparr>transactionID = 1, tbuffer = [], committable = True, lastTxID = 1\<rparr>"
    using h(2) demo_open_simps(1) by simp
  show "GetWorldAppState (ext hash_env) (jsn hash_env) (a_transID (app hash_node)) (a_txID (app hash_node))
      (helper hash_node) = Inr hash_state"
    by (simp add: hash_node_def h(1) hash_env_def GetWorldAppState_def get_run [OF model_ext_ok t] h(3)
        decode_or_def decode_def)
qed (simp_all add: hash_state_def no_state_def no_header_def)

end
