(* ===== verification/V1_Errors.thy ===== *)
theory V1_Errors
  imports Prelude
begin

text \<open>
  The error codes of the version 1 contracts: package \<open>bcerrors\<close> (\<open>abciapp_v1.0/bcerrors\<close>). An
  operation of a contract returns a code with an optional text; \<open>ErrCodeOK\<close> is success.
\<close>

type_synonym uint32 = "32 word"

record BCError =
  ErrorCode :: uint32
  ErrorDesc :: string

named_theorems code_defs \<open>the numbers of the error codes\<close>

section \<open>Codes\<close>

definition ErrCodeOK :: uint32 where
  [code_defs]: "ErrCodeOK = 200"

definition ErrCodeDockerDupRegist :: uint32 where
  [code_defs]: "ErrCodeDockerDupRegist = 500"

definition ErrCodeDockerNotFindContract :: uint32 where
  [code_defs]: "ErrCodeDockerNotFindContract = 501"

definition ErrCodeDockerNotFindDocker :: uint32 where
  [code_defs]: "ErrCodeDockerNotFindDocker = 502"

definition ErrCodeNoAuthorization :: uint32 where
  [code_defs]: "ErrCodeNoAuthorization = 600"

definition ErrCodeCheckTxTransData :: uint32 where
  [code_defs]: "ErrCodeCheckTxTransData = 1000"

definition ErrCodeCheckTxInvalidNonce :: uint32 where
  [code_defs]: "ErrCodeCheckTxInvalidNonce = 1001"

definition ErrCodeCheckTxNoContract :: uint32 where
  [code_defs]: "ErrCodeCheckTxNoContract = 1002"

definition ErrCodeCheckTxNoteExceedLimit :: uint32 where
  [code_defs]: "ErrCodeCheckTxNoteExceedLimit = 1003"

definition ErrCodeDeliverTxTransData :: uint32 where
  [code_defs]: "ErrCodeDeliverTxTransData = 2000"

definition ErrCodeDeliverTxInvalidNonce :: uint32 where
  [code_defs]: "ErrCodeDeliverTxInvalidNonce = 2001"

definition ErrCodeDeliverTxNoContract :: uint32 where
  [code_defs]: "ErrCodeDeliverTxNoContract = 2002"

definition ErrCodeDeliverTxNoteExceedLimit :: uint32 where
  [code_defs]: "ErrCodeDeliverTxNoteExceedLimit = 2003"

definition ErrCodeStubUnregisteredContract :: uint32 where
  [code_defs]: "ErrCodeStubUnregisteredContract = 3000"

definition ErrCodeInterContractsNoAuthorization :: uint32 where
  [code_defs]: "ErrCodeInterContractsNoAuthorization = 4000"

definition ErrCodeInterContractsNoGenesis :: uint32 where
  [code_defs]: "ErrCodeInterContractsNoGenesis = 4001"

definition ErrCodeInterContractsNoToken :: uint32 where
  [code_defs]: "ErrCodeInterContractsNoToken = 4002"

definition ErrCodeInterContractsInvalidAddr :: uint32 where
  [code_defs]: "ErrCodeInterContractsInvalidAddr = 4003"

definition ErrCodeInterContractsUnsupportAddSupply :: uint32 where
  [code_defs]: "ErrCodeInterContractsUnsupportAddSupply = 4004"

definition ErrCodeInterContractsUnsupportBurn :: uint32 where
  [code_defs]: "ErrCodeInterContractsUnsupportBurn = 4005"

definition ErrCodeInterContractsInvalidGasLimit :: uint32 where
  [code_defs]: "ErrCodeInterContractsInvalidGasLimit = 4006"

definition ErrCodeInterContractsInvalidGasPrice :: uint32 where
  [code_defs]: "ErrCodeInterContractsInvalidGasPrice = 4007"

definition ErrCodeInterContractsInvalidFee :: uint32 where
  [code_defs]: "ErrCodeInterContractsInvalidFee = 4008"

definition ErrCodeInterContractsInvalidBalance :: uint32 where
  [code_defs]: "ErrCodeInterContractsInvalidBalance = 4009"

definition ErrCodeInterContractsInvalidSupply :: uint32 where
  [code_defs]: "ErrCodeInterContractsInvalidSupply = 4010"

definition ErrCodeInterContractsInsufficientBalance :: uint32 where
  [code_defs]: "ErrCodeInterContractsInsufficientBalance = 4011"

definition ErrCodeInterContractsNoValidators :: uint32 where
  [code_defs]: "ErrCodeInterContractsNoValidators = 4012"

definition ErrCodeInterContractsInvalidRewarderAddr :: uint32 where
  [code_defs]: "ErrCodeInterContractsInvalidRewarderAddr = 4013"

definition ErrCodeInterContractsInvalidPower :: uint32 where
  [code_defs]: "ErrCodeInterContractsInvalidPower = 4014"

definition ErrCodeInterContractsInvalidParameter :: uint32 where
  [code_defs]: "ErrCodeInterContractsInvalidParameter = 4015"

definition ErrCodeInterContractsInvalidMethod :: uint32 where
  [code_defs]: "ErrCodeInterContractsInvalidMethod = 4016"

definition ErrCodeInterContractsDupName :: uint32 where
  [code_defs]: "ErrCodeInterContractsDupName = 4017"

definition ErrCodeInterContractsDupSymbol :: uint32 where
  [code_defs]: "ErrCodeInterContractsDupSymbol = 4018"

definition ErrCodeInterContractsNoStrategys :: uint32 where
  [code_defs]: "ErrCodeInterContractsNoStrategys = 4019"

definition ErrCodeInterContractsOutOfRange :: uint32 where
  [code_defs]: "ErrCodeInterContractsOutOfRange = 4020"

definition ErrCodeInterContractsUnsupportTransToSelf :: uint32 where
  [code_defs]: "ErrCodeInterContractsUnsupportTransToSelf = 4021"

definition ErrCodeInterContractsTokenNotInit :: uint32 where
  [code_defs]: "ErrCodeInterContractsTokenNotInit = 4022"

definition ErrCodeInterContractsUnfinished :: uint32 where
  [code_defs]: "ErrCodeInterContractsUnfinished = 4023"

definition ErrCodeInterContractsNameTooLong :: uint32 where
  [code_defs]: "ErrCodeInterContractsNameTooLong = 4024"

definition ErrCodeInterContractsSymbolTooLong :: uint32 where
  [code_defs]: "ErrCodeInterContractsSymbolTooLong = 4025"

definition ErrCodeInterContractsInvalidPercent :: uint32 where
  [code_defs]: "ErrCodeInterContractsInvalidPercent = 4026"

definition ErrCodeInterContractsEmptyName :: uint32 where
  [code_defs]: "ErrCodeInterContractsEmptyName = 4027"

definition ErrCodeInterContractsLoseNameOfValidators :: uint32 where
  [code_defs]: "ErrCodeInterContractsLoseNameOfValidators = 4028"

definition ErrCodeInterContractsRuntimeError :: uint32 where
  [code_defs]: "ErrCodeInterContractsRuntimeError = 4029"

definition ErrCodeInterContractsInvalidTeam :: uint32 where
  [code_defs]: "ErrCodeInterContractsInvalidTeam = 4030"

definition ErrCodeInterContractsSenderInBlackList :: uint32 where
  [code_defs]: "ErrCodeInterContractsSenderInBlackList = 4031"

definition ErrCodeLowLevelError :: uint32 where
  [code_defs]: "ErrCodeLowLevelError = 5000"

definition ErrCodeInterContractsMinUserCode :: uint32 where
  [code_defs]: "ErrCodeInterContractsMinUserCode = 8000"

definition ErrCodeInterContractsBeyondMaximumStockHolders :: uint32 where
  [code_defs]: "ErrCodeInterContractsBeyondMaximumStockHolders = 8001"

definition ErrCodeInterContractsBybInitialized :: uint32 where
  [code_defs]: "ErrCodeInterContractsBybInitialized = 8002"

definition ErrCodeInterContractsBybOwnedByb :: uint32 where
  [code_defs]: "ErrCodeInterContractsBybOwnedByb = 8003"

definition ErrCodeInterContractsBybHolderNotFound :: uint32 where
  [code_defs]: "ErrCodeInterContractsBybHolderNotFound = 8004"

section \<open>Texts\<close>

text \<open>A code with no text has the empty one.\<close>

definition bcErrors :: "(uint32 \<times> string) list" where
  "bcErrors = [
   (ErrCodeOK, ''''),
   (ErrCodeDockerDupRegist, ''Failed to register contract due to it has been registered into docker''),
   (ErrCodeDockerNotFindContract, ''Did not find contract from docker''),
   (ErrCodeDockerNotFindDocker, ''Did not find the docker''),
   (ErrCodeNoAuthorization, ''No authorization''),
   (ErrCodeCheckTxTransData, ''Transaction data is invalid''),
   (ErrCodeCheckTxInvalidNonce, ''Nonce is invalid''),
   (ErrCodeCheckTxNoContract, ''Did not find this contract''),
   (ErrCodeCheckTxNoteExceedLimit, ''Invalid note, it must be stay within 256 characters limit''),
   (ErrCodeDeliverTxTransData, ''Transaction data is invalid''),
   (ErrCodeDeliverTxInvalidNonce, ''Nonce is invalid''),
   (ErrCodeDeliverTxNoContract, ''Did not find this contract''),
   (ErrCodeDeliverTxNoteExceedLimit, ''Invalid note, it must be stay within 256 characters limit''),
   (ErrCodeStubUnregisteredContract, ''Contract did not be registered into docker''),
   (ErrCodeInterContractsNoAuthorization, ''No authorization to execute contract''),
   (ErrCodeInterContractsNoGenesis, ''No genesis''),
   (ErrCodeInterContractsNoToken, ''Did not find this token''),
   (ErrCodeInterContractsInvalidAddr, ''The specified contract address is invalid''),
   (ErrCodeInterContractsUnsupportAddSupply, ''The token does not support to add supply''),
   (ErrCodeInterContractsUnsupportBurn, ''The token does not support to burn''),
   (ErrCodeInterContractsInvalidGasLimit, ''The specified gaslimit is too less to execute''),
   (ErrCodeInterContractsInvalidGasPrice, ''The token'' @ [CHR 0x27] @ ''s gasprice is invalid''),
   (ErrCodeInterContractsInvalidFee, ''The fee of operation is invalid''),
   (ErrCodeInterContractsInvalidBalance, ''The account'' @ [CHR 0x27] @ ''s balance is invalid''),
   (ErrCodeInterContractsInvalidSupply, ''The token supply is incorrect''),
   (ErrCodeInterContractsInsufficientBalance, ''The accounts'' @ [CHR 0x27] @ '' balance is insufficient''),
   (ErrCodeInterContractsNoValidators, ''Did not get validators list''),
   (ErrCodeInterContractsInvalidRewarderAddr, ''The proposer'' @ [CHR 0x27] @ ''s reward address is mismatch''),
   (ErrCodeInterContractsInvalidPower, ''Validator'' @ [CHR 0x27] @ ''s power is invalid''),
   (ErrCodeInterContractsInvalidParameter, ''Invalid parameter''),
   (ErrCodeInterContractsInvalidMethod, ''The specified method is unsupported''),
   (ErrCodeInterContractsDupName, ''The specified token name is duplicated with existing one''),
   (ErrCodeInterContractsDupSymbol, ''The specified token symbol is duplicated with existing one''),
   (ErrCodeInterContractsNoStrategys, ''Did not get reward strategy''),
   (ErrCodeInterContractsOutOfRange, ''It exceeds the limit''),
   (ErrCodeInterContractsUnsupportTransToSelf, ''Do not support to transfer to yourself''),
   (ErrCodeInterContractsTokenNotInit, ''Invalid operation for token what is not completed issued yet''),
   (ErrCodeInterContractsUnfinished, ''Unfinished contract, coming soon''),
   (ErrCodeInterContractsNameTooLong, ''Name is too long''),
   (ErrCodeInterContractsSymbolTooLong, ''Symbol is too long''),
   (ErrCodeInterContractsInvalidPercent, ''Percentage of reward is wrong''),
   (ErrCodeInterContractsEmptyName, ''Name cannot be empty''),
   (ErrCodeInterContractsLoseNameOfValidators, ''There is no validators in reward strategy list''),
   (ErrCodeInterContractsRuntimeError, ''Running time error''),
   (ErrCodeInterContractsInvalidTeam, ''The team is invalid''),
   (ErrCodeLowLevelError, ''''),
   (ErrCodeInterContractsMinUserCode, ''''),
   (ErrCodeInterContractsBeyondMaximumStockHolders, ''The number of stockHolder exceeds the limit''),
   (ErrCodeInterContractsBybInitialized, ''The token byb has been initialized''),
   (ErrCodeInterContractsBybOwnedByb, ''The stockholder is still owning byb token''),
   (ErrCodeInterContractsBybHolderNotFound, ''The stockholder was not found''),
   (ErrCodeInterContractsSenderInBlackList, ''This sender is in black list'')]"

definition BCError_Error :: "BCError \<Rightarrow> string" where
  "BCError_Error bcerror = (if ErrorDesc bcerror \<noteq> [] then ErrorDesc bcerror
     else (case map_of bcErrors (ErrorCode bcerror) of Some d \<Rightarrow> d | None \<Rightarrow> []))"

section \<open>Results\<close>

text \<open>The zero value of the Go structure, a code alone, a low-level error with its text, success.\<close>

definition zeroError :: BCError where
  "zeroError = \<lparr>ErrorCode = 0, ErrorDesc = []\<rparr>"

definition errC :: "uint32 \<Rightarrow> BCError" where
  "errC c = \<lparr>ErrorCode = c, ErrorDesc = []\<rparr>"

definition errD :: "uint32 \<Rightarrow> string \<Rightarrow> BCError" where
  "errD c d = \<lparr>ErrorCode = c, ErrorDesc = d\<rparr>"

definition lowE :: "string \<Rightarrow> BCError" where
  "lowE e = errD ErrCodeLowLevelError e"

definition okE :: BCError where
  "okE = errC ErrCodeOK"

definition isOK :: "BCError \<Rightarrow> bool" where
  "isOK e \<longleftrightarrow> ErrorCode e = ErrCodeOK"

lemma isOK_simps [simp]:
  "isOK okE" "isOK (errC c) \<longleftrightarrow> c = ErrCodeOK" "isOK (errD c d) \<longleftrightarrow> c = ErrCodeOK" "\<not> isOK (lowE e)"
  "\<not> isOK zeroError"
  by (simp_all add: isOK_def okE_def errC_def errD_def lowE_def zeroError_def code_defs)

lemma err_simps [simp]:
  "ErrorCode (errC c) = c" "ErrorCode (errD c d) = c" "ErrorCode (lowE e) = ErrCodeLowLevelError"
  "ErrorCode okE = ErrCodeOK" "ErrorDesc (errC c) = []" "ErrorDesc (errD c d) = d" "ErrorDesc (lowE e) = e"
  by (simp_all add: okE_def errC_def errD_def lowE_def)

text \<open>No failure code is the code of success.\<close>

lemma codes_not_OK [simp]:
  "ErrCodeDockerDupRegist \<noteq> ErrCodeOK" "ErrCodeDockerNotFindContract \<noteq> ErrCodeOK"
  "ErrCodeDockerNotFindDocker \<noteq> ErrCodeOK" "ErrCodeNoAuthorization \<noteq> ErrCodeOK"
  "ErrCodeCheckTxTransData \<noteq> ErrCodeOK" "ErrCodeCheckTxInvalidNonce \<noteq> ErrCodeOK"
  "ErrCodeCheckTxNoContract \<noteq> ErrCodeOK" "ErrCodeCheckTxNoteExceedLimit \<noteq> ErrCodeOK"
  "ErrCodeDeliverTxTransData \<noteq> ErrCodeOK" "ErrCodeDeliverTxInvalidNonce \<noteq> ErrCodeOK"
  "ErrCodeDeliverTxNoContract \<noteq> ErrCodeOK" "ErrCodeDeliverTxNoteExceedLimit \<noteq> ErrCodeOK"
  "ErrCodeStubUnregisteredContract \<noteq> ErrCodeOK" "ErrCodeInterContractsNoAuthorization \<noteq> ErrCodeOK"
  "ErrCodeInterContractsNoGenesis \<noteq> ErrCodeOK" "ErrCodeInterContractsNoToken \<noteq> ErrCodeOK"
  "ErrCodeInterContractsInvalidAddr \<noteq> ErrCodeOK" "ErrCodeInterContractsUnsupportAddSupply \<noteq> ErrCodeOK"
  "ErrCodeInterContractsUnsupportBurn \<noteq> ErrCodeOK" "ErrCodeInterContractsInvalidGasLimit \<noteq> ErrCodeOK"
  "ErrCodeInterContractsInvalidGasPrice \<noteq> ErrCodeOK" "ErrCodeInterContractsInvalidFee \<noteq> ErrCodeOK"
  "ErrCodeInterContractsInvalidBalance \<noteq> ErrCodeOK" "ErrCodeInterContractsInvalidSupply \<noteq> ErrCodeOK"
  "ErrCodeInterContractsInsufficientBalance \<noteq> ErrCodeOK" "ErrCodeInterContractsNoValidators \<noteq> ErrCodeOK"
  "ErrCodeInterContractsInvalidRewarderAddr \<noteq> ErrCodeOK" "ErrCodeInterContractsInvalidPower \<noteq> ErrCodeOK"
  "ErrCodeInterContractsInvalidParameter \<noteq> ErrCodeOK" "ErrCodeInterContractsInvalidMethod \<noteq> ErrCodeOK"
  "ErrCodeInterContractsDupName \<noteq> ErrCodeOK" "ErrCodeInterContractsDupSymbol \<noteq> ErrCodeOK"
  "ErrCodeInterContractsNoStrategys \<noteq> ErrCodeOK" "ErrCodeInterContractsOutOfRange \<noteq> ErrCodeOK"
  "ErrCodeInterContractsUnsupportTransToSelf \<noteq> ErrCodeOK" "ErrCodeInterContractsTokenNotInit \<noteq> ErrCodeOK"
  "ErrCodeInterContractsUnfinished \<noteq> ErrCodeOK" "ErrCodeInterContractsNameTooLong \<noteq> ErrCodeOK"
  "ErrCodeInterContractsSymbolTooLong \<noteq> ErrCodeOK" "ErrCodeInterContractsInvalidPercent \<noteq> ErrCodeOK"
  "ErrCodeInterContractsEmptyName \<noteq> ErrCodeOK" "ErrCodeInterContractsLoseNameOfValidators \<noteq> ErrCodeOK"
  "ErrCodeInterContractsRuntimeError \<noteq> ErrCodeOK" "ErrCodeInterContractsInvalidTeam \<noteq> ErrCodeOK"
  "ErrCodeInterContractsSenderInBlackList \<noteq> ErrCodeOK" "ErrCodeLowLevelError \<noteq> ErrCodeOK"
  "ErrCodeInterContractsMinUserCode \<noteq> ErrCodeOK" "ErrCodeInterContractsBeyondMaximumStockHolders \<noteq> ErrCodeOK"
  "ErrCodeInterContractsBybInitialized \<noteq> ErrCodeOK" "ErrCodeInterContractsBybOwnedByb \<noteq> ErrCodeOK"
  "ErrCodeInterContractsBybHolderNotFound \<noteq> ErrCodeOK"
  by (simp_all add: code_defs)

end
