(* ===== verification/V1_State.thy ===== *)
theory V1_State
  imports Deliver V1_Errors
begin

text \<open>
  The state the version 1 contracts work on: package \<open>statedb\<close> of \<open>abciapp_v1.0\<close>. A \<open>StateDB\<close> points
  to the transaction of the current block; a \<open>TxState\<close> adds a buffer for one tx, an owner and a
  contract address. A read looks into the tx buffer, the buffer of the transaction, the database.

  The transaction object is the one the map of \<open>State_Helper\<close> holds under its number. It is kept here
  once, in \<open>v_Transaction\<close>, and written back before the helper commits it or rolls it back, so the
  pointer stays readable after the block as it does in the code. The txs are reached by their number.

  A function may panic and may return an error: its result is \<open>string + string + 'a\<close>, a panic, an error
  or a value. \<open>nil\<close> matters in this package: the value of a key is an option. The database returns \<open>nil\<close>
  for a key it does not hold, and holds no empty value, because \<open>Transaction.Commit\<close> deletes
  the keys whose new value is empty; an empty value in the buffer of the transaction is not \<open>nil\<close>.
\<close>

section \<open>Stored data (\<open>types.statedb.go\<close>)\<close>

record IssueToken =
  it_Address :: string
  it_Owner :: string
  it_Version :: string
  it_Name :: string
  it_Symbol :: string
  it_TotalSupply :: int
  it_AddSupplyEnabled :: bool
  it_BurnEnabled :: bool
  it_GasPrice :: uint64

record TokenBalance =
  tb_Address :: string
  tb_Balance :: int

record types_Method =
  me_MethodId :: string
  me_Gas :: int64
  me_Prototype :: string

record types_Contract =
  tc_Address :: string
  tc_Owner :: string
  tc_Name :: string
  tc_Version :: string
  tc_CodeHash :: string
  tc_Methods :: "types_Method list"
  tc_EffectHeight :: uint64
  tc_LoseHeight :: uint64
  tc_ChainVersion :: int64
  tc_OrgID :: string

record types_Rewarder =
  wr_Name :: string
  wr_RewardPercent :: string
  wr_Address :: string

text \<open>The list is \<open>nil\<close> in the zero value and when the text has none.\<close>

record types_RewardStrategy =
  st_Strategy :: "types_Rewarder list option"
  st_EffectHeight :: uint64

record AccountInfo =
  an_Nonce :: uint64

record UDCOrder =
  ud_UDCState :: string
  ud_UDCHash :: bytes
  ud_Nonce :: uint64
  ud_ContractAddr :: string
  ud_Owner :: string
  ud_Value :: int
  ud_MatureDate :: string

record types_Validator =
  tv_Name :: string
  tv_NodePubKey :: bytes
  tv_NodeAddr :: string
  tv_RewardAddr :: string
  tv_Power :: uint64

section \<open>External code\<close>

text \<open>
  The codecs of \<open>encoding/json\<close>, one per stored type; the big numbers of \<open>bclib/bignumber_v1.0\<close>; the
  addresses and hashes of \<open>bclib/algorithm\<close>; \<open>strings.ToLower\<close> on text that is not ASCII.
\<close>

record 'db Env1 =
  env :: "'db Env"
  k_Token :: "IssueToken codec"
  k_Balance :: "TokenBalance codec"
  k_Contract :: "types_Contract codec"
  k_Strategies :: "types_RewardStrategy list codec"
  k_Account :: "AccountInfo codec"
  k_UDC :: "UDCOrder codec"
  k_Validator :: "types_Validator codec"
  k_Rewarders :: "types_Rewarder list option codec"
  k_strings :: "string list codec"
  k_string :: "string codec"
  k_uint64 :: "uint64 codec"
  k_AppState :: "AppState codec"
  Big_Add :: "int \<Rightarrow> int \<Rightarrow> int"
  Big_Sub :: "int \<Rightarrow> int \<Rightarrow> int"
  Big_Compare :: "int \<Rightarrow> int \<Rightarrow> int"
  Big_Multi :: "int \<Rightarrow> nat \<Rightarrow> string + int"
  Big_SafeMul :: "int \<Rightarrow> int \<Rightarrow> int"
  Big_SafeDiv :: "int \<Rightarrow> int \<Rightarrow> int"
  Big_Zero :: int
  UintToBigInt :: "uint64 \<Rightarrow> int"
  CalcContractAddress :: "string \<Rightarrow> string \<Rightarrow> string \<Rightarrow> string \<Rightarrow> string"
  CheckAddress :: "string \<Rightarrow> string \<Rightarrow> string option"
  PubKeyBytes :: "bytes \<Rightarrow> bytes"
  CalcUdcHash :: "uint64 \<Rightarrow> string \<Rightarrow> string \<Rightarrow> int \<Rightarrow> string \<Rightarrow> bytes"
  CalcMethodId :: "string \<Rightarrow> bytes"
  Unicode_lower :: "string \<Rightarrow> string"

abbreviation ext1 :: "'db Env1 \<Rightarrow> 'db ext" where
  "ext1 K \<equiv> ext (env K)"

section \<open>Strings of the standard library\<close>

definition HasPrefix :: "string \<Rightarrow> string \<Rightarrow> bool" where
  "HasPrefix s t \<longleftrightarrow> take (length t) s = t"

definition ascii_lower :: "char \<Rightarrow> char" where
  "ascii_lower c = (let n = (of_char c :: nat) in if 65 \<le> n \<and> n \<le> 90 then char_of (n + 32) else c)"

definition ToLower :: "'db Env1 \<Rightarrow> string \<Rightarrow> string" where
  "ToLower K s = (if list_all (\<lambda>c. (of_char c :: nat) < 128) s then map ascii_lower s else Unicode_lower K s)"

text \<open>\<open>strconv.ParseUint(s, 16, 32)\<close>: digits only, at least one, at most 32 bits.\<close>

definition hex_digit :: "char \<Rightarrow> nat option" where
  "hex_digit c = (let n = (of_char c :: nat) in
     if 48 \<le> n \<and> n \<le> 57 then Some (n - 48)
     else if 97 \<le> n \<and> n \<le> 102 then Some (n - 87)
     else if 65 \<le> n \<and> n \<le> 70 then Some (n - 55) else None)"

fun hex_value :: "string \<Rightarrow> nat \<Rightarrow> nat option" where
  "hex_value [] n = Some n"
| "hex_value (c # s) n = (case hex_digit c of None \<Rightarrow> None | Some d \<Rightarrow> hex_value s (16 * n + d))"

definition ParseUint16_32 :: "string \<Rightarrow> string + uint64" where
  "ParseUint16_32 s = (if s = [] then Inl (''strconv.ParseUint: parsing '' @ s @ '': invalid syntax'')
     else case hex_value s 0 of
       None \<Rightarrow> Inl (''strconv.ParseUint: parsing '' @ s @ '': invalid syntax'')
     | Some n \<Rightarrow> if n < 2 ^ 32 then Inr (of_nat n)
         else Inl (''strconv.ParseUint: parsing '' @ s @ '': value out of range''))"

text \<open>\<open>binary.BigEndian.PutUint64\<close>.\<close>

definition be_bytes :: "uint64 \<Rightarrow> bytes" where
  "be_bytes v = map (\<lambda>i. ucast (drop_bit (8 * (7 - i)) v)) [0..<8]"

text \<open>\<open>sort.SearchStrings\<close>: the binary search of package \<open>sort\<close>.\<close>

function search :: "(nat \<Rightarrow> bool) \<Rightarrow> nat \<Rightarrow> nat \<Rightarrow> nat" where
  "search f i j = (if i < j
     then let h = (i + j) div 2 in if \<not> f h then search f (h + 1) j else search f i h
     else i)"
  by pat_completeness auto
termination
  by (relation "measure (\<lambda>(f, i, j). j - i)") auto

declare search.simps [simp del]

definition SearchStrings :: "string list \<Rightarrow> string \<Rightarrow> nat" where
  "SearchStrings a x = search (\<lambda>i. x \<le> a ! i) 0 (length a)"

section \<open>Results\<close>

type_synonym 'a res = "string + string + 'a"

definition tryR :: "'a res \<Rightarrow> ('a \<Rightarrow> 'b res) \<Rightarrow> 'b res" where
  "tryR r f = (case r of Inl e \<Rightarrow> Inl e | Inr (Inl e) \<Rightarrow> Inr (Inl e) | Inr (Inr a) \<Rightarrow> f a)"

definition tryN :: "'a res \<Rightarrow> 's \<Rightarrow> ('a \<Rightarrow> ('s, string + 'b) act) \<Rightarrow> ('s, string + 'b) act" where
  "tryN r s f = (case r of Inl e \<Rightarrow> (Inl e, s) | Inr (Inl e) \<Rightarrow> (Inr (Inl e), s) | Inr (Inr a) \<Rightarrow> f a)"

definition tryS :: "('s, string + 'a) act \<Rightarrow> ('a \<Rightarrow> 's \<Rightarrow> ('s, string + 'b) act) \<Rightarrow> ('s, string + 'b) act" where
  "tryS m f = seqR m (\<lambda>r s. case r of Inl e \<Rightarrow> (Inr (Inl e), s) | Inr a \<Rightarrow> f a s)"

lemma try_simps [simp]:
  "tryR (Inl e) f = Inl e" "tryR (Inr (Inl e)) f = Inr (Inl e)" "tryR (Inr (Inr a)) f = f a"
  "tryN (Inl e) s g = (Inl e, s)" "tryN (Inr (Inl e)) s g = (Inr (Inl e), s)" "tryN (Inr (Inr a)) s g = g a"
  "tryS (Inl e, s) h = (Inl e, s)" "tryS (Inr (Inl e), s) h = (Inr (Inl e), s)"
  "tryS (Inr (Inr a), s) h = h a s"
  by (simp_all add: tryR_def tryN_def tryS_def)

section \<open>Keys (\<open>statedbkey.go\<close>)\<close>

definition keyOfGenesisToken_v1 :: string where "keyOfGenesisToken_v1 = ''/genesis/token''"
definition keyOfTokenAll :: string where "keyOfTokenAll = ''/token/all/0''"
definition keyOfGenesisContracts :: string where "keyOfGenesisContracts = ''/genesis/contracts''"
definition keyOfContractAll :: string where "keyOfContractAll = ''/contract/all/0''"
definition keyOfGenesisChainId :: string where "keyOfGenesisChainId = ''/genesis/chainid''"
definition keyOfWorldAppState_v1 :: string where "keyOfWorldAppState_v1 = ''/world/appstate''"
definition keyOfRewardStrategys :: string where "keyOfRewardStrategys = ''/rewardstrategys''"
definition keyOfTokenBaseGasPrice :: string where "keyOfTokenBaseGasPrice = ''/token/basegasprice''"
definition keyOfUDCNonce :: string where "keyOfUDCNonce = ''/udc/nonce''"
definition keyOfValidators_v1 :: string where "keyOfValidators_v1 = ''/validators/all/0''"

definition keyOfGenesisContract_v1 :: "string \<Rightarrow> string" where
  "keyOfGenesisContract_v1 contractAddr = ''/genesis/sc/'' @ contractAddr"

definition keyOfContract_v1 :: "string \<Rightarrow> string" where
  "keyOfContract_v1 contractAddr = ''/contract/'' @ contractAddr"

definition keyOfToken_v1 :: "string \<Rightarrow> string" where
  "keyOfToken_v1 contractAddr = ''/token/'' @ contractAddr"

definition keyOfAccountToken :: "string \<Rightarrow> string \<Rightarrow> string" where
  "keyOfAccountToken exAddress contractAddr = ''/account/ex/'' @ exAddress @ ''/token/'' @ contractAddr"

definition keyOfAccount :: "string \<Rightarrow> string" where
  "keyOfAccount exAddress = ''/account/ex/'' @ exAddress"

definition keyOfAccountNonce :: "string \<Rightarrow> string" where
  "keyOfAccountNonce exAddress = ''/account/ex/'' @ exAddress @ ''/account''"

definition keyOfAccountContracts :: "string \<Rightarrow> string" where
  "keyOfAccountContracts exAddress = ''/account/ex/'' @ exAddress @ ''/contracts''"

definition keyOfAccountUDCHashList :: "string \<Rightarrow> string" where
  "keyOfAccountUDCHashList exAddress = ''/account/ex/'' @ exAddress @ ''/udchashlist''"

definition keyOfTokenName :: "'db Env1 \<Rightarrow> string \<Rightarrow> string" where
  "keyOfTokenName K name = ''/token/name/'' @ ToLower K name"

definition keyOfTokenSymbol :: "'db Env1 \<Rightarrow> string \<Rightarrow> string" where
  "keyOfTokenSymbol K symbol = ''/token/symbol/'' @ ToLower K symbol"

definition keyOfUDCOrder :: "bytes \<Rightarrow> string" where
  "keyOfUDCOrder udcHash = ''/udc/nonce/'' @ hex_lower udcHash"

definition keyOfValidator_v1 :: "string \<Rightarrow> string" where
  "keyOfValidator_v1 nodeAddr = ''/validator/'' @ nodeAddr"

definition keyOfBlackList_v1 :: "string \<Rightarrow> string" where
  "keyOfBlackList_v1 key = ''/blacklist/'' @ key"

section \<open>State, reading and writing\<close>

record 'db V1 =
  v_helper :: "'db Helper"
  v_Transaction :: "Transaction option"
  v_Tx :: "int \<Rightarrow> Tx option"

record TxState =
  ts_ContractAddress :: string
  ts_SenderAddress :: string
  ts_Tx :: "int option"

definition nonnil :: "bytes \<Rightarrow> bytes option" where
  "nonnil v = (if v = [] then None else Some v)"

definition sdb_Get :: "'db Env1 \<Rightarrow> 'db V1 \<Rightarrow> string \<Rightarrow> bytes option res" where
  "sdb_Get K s key = (case v_Transaction s of
     None \<Rightarrow> (case GetFromDB (ext1 K) key (v_helper s) of Inl e \<Rightarrow> Inl e | Inr v \<Rightarrow> Inr (Inr (nonnil v)))
   | Some t \<Rightarrow> (case map_of (tbuffer t) key of
       Some v \<Rightarrow> Inr (Inr (Some v))
     | None \<Rightarrow> (case Transaction_Get (ext1 K) (stateDB (v_helper s)) t key of
         Inl e \<Rightarrow> Inl e | Inr v \<Rightarrow> Inr (Inr (nonnil v)))))"

definition sdb_Set :: "string \<Rightarrow> bytes \<Rightarrow> 'db V1 \<Rightarrow> ('db V1, string + unit) act" where
  "sdb_Set key value s = (case v_Transaction s of
     None \<Rightarrow> (Inl nil_pointer, s)
   | Some t \<Rightarrow> (Inr (Inr ()), s\<lparr>v_Transaction := Some (Transaction_Set t key value)\<rparr>))"

definition ts_Get :: "'db Env1 \<Rightarrow> TxState \<Rightarrow> 'db V1 \<Rightarrow> string \<Rightarrow> bytes option res" where
  "ts_Get K ts s key = (case ts_Tx ts of
     None \<Rightarrow> sdb_Get K s key
   | Some i \<Rightarrow> (case v_Tx s i of
       None \<Rightarrow> Inl nil_pointer
     | Some tx \<Rightarrow> let v = Tx_Get tx key in
         if 0 < length v then Inr (Inr (Some v)) else sdb_Get K s key))"

definition ts_Set :: "TxState \<Rightarrow> string \<Rightarrow> bytes \<Rightarrow> 'db V1 \<Rightarrow> ('db V1, string + unit) act" where
  "ts_Set ts key value s = (case ts_Tx ts of
     None \<Rightarrow> (Inr (Inl ''TxBuffer is nil''), s)
   | Some i \<Rightarrow> (case v_Tx s i of
       None \<Rightarrow> (Inl nil_pointer, s)
     | Some tx \<Rightarrow> (Inr (Inr ()), s\<lparr>v_Tx := (v_Tx s)(i \<mapsto> Tx_Set tx key value)\<rparr>)))"

text \<open>\<open>if err != nil\<close>, \<open>if value == nil\<close>, then \<open>json.Unmarshal\<close>: the shape of every typed read.\<close>

definition as_json :: "'a codec \<Rightarrow> bytes option res \<Rightarrow> 'a option res" where
  "as_json c r = tryR r (\<lambda>v. case v of
     None \<Rightarrow> Inr (Inr None)
   | Some b \<Rightarrow> (case unmarshal c b of Inl e \<Rightarrow> Inr (Inl e) | Inr x \<Rightarrow> Inr (Inr (Some x))))"

definition mjson :: "'a codec \<Rightarrow> 'a \<Rightarrow> bytes res" where
  "mjson c x = (case marshal c x of Inl e \<Rightarrow> Inr (Inl e) | Inr b \<Rightarrow> Inr (Inr b))"

end
