(* ===== verification/V1_Store.thy ===== *)
theory V1_Store
  imports V1_State
begin

text \<open>
  The typed operations of the version 1 state: the methods of \<open>StateDB\<close> (\<open>statedb.go\<close>) and of \<open>TxState\<close>
  (\<open>txstate.go\<close>) in \<open>abciapp_v1.0/statedb\<close>. A structured value is stored under a key of its own, and its
  key is entered in a list of keys that is kept sorted.
\<close>

section \<open>Sorted lists of keys\<close>

definition list_of :: "'a list option \<Rightarrow> 'a list" where
  "list_of v = (case v of None \<Rightarrow> [] | Some l \<Rightarrow> l)"

text \<open>The list with the new entry, or \<open>None\<close> when it is there already.\<close>

definition insert_child :: "string list \<Rightarrow> string \<Rightarrow> string list option" where
  "insert_child childKeys childKey = (let index = SearchStrings childKeys childKey in
     if index = length childKeys then Some (childKeys @ [childKey])
     else if childKeys ! index = childKey then None
     else Some (take index childKeys @ [childKey] @ drop index childKeys))"

text \<open>No test that the entry at the index is the one to delete; past the end the slice panics.\<close>

definition remove_child :: "string list \<Rightarrow> string \<Rightarrow> string + string list" where
  "remove_child childKeys childKey = (let index = SearchStrings childKeys childKey in
     if length childKeys < index + 1 then Inl ''runtime error: slice bounds out of range''
     else Inr (take index childKeys @ drop (index + 1) childKeys))"

section \<open>\<open>StateDB\<close>\<close>

definition sdb_getChildKeys :: "'db Env1 \<Rightarrow> 'db V1 \<Rightarrow> string \<Rightarrow> string list option res" where
  "sdb_getChildKeys K s key = as_json (k_strings K) (sdb_Get K s key)"

definition sdb_addChildKey :: "'db Env1 \<Rightarrow> string \<Rightarrow> string \<Rightarrow> 'db V1 \<Rightarrow> ('db V1, string + unit) act" where
  "sdb_addChildKey K key childKey s =
    tryN (sdb_getChildKeys K s key) s (\<lambda>v. case insert_child (list_of v) childKey of
      None \<Rightarrow> (Inr (Inr ()), s)
    | Some childKeys \<Rightarrow> tryN (mjson (k_strings K) childKeys) s (\<lambda>data. sdb_Set key data s))"

text \<open>The result is the entry that was written, or \<open>None\<close> for the \<open>nil\<close> map.\<close>

definition sdb_addChildKeyEx :: "'db Env1 \<Rightarrow> string \<Rightarrow> string \<Rightarrow> 'db V1 \<Rightarrow>
    ('db V1, string + (string, bytes) gomap option) act" where
  "sdb_addChildKeyEx K key childKey s =
    tryN (sdb_getChildKeys K s key) s (\<lambda>v. case insert_child (list_of v) childKey of
      None \<Rightarrow> (Inr (Inr None), s)
    | Some childKeys \<Rightarrow> tryN (mjson (k_strings K) childKeys) s (\<lambda>data.
        tryS (sdb_Set key data s) (\<lambda>_ s. (Inr (Inr (Some [(key, data)])), s))))"

text \<open>A call whose error is dropped.\<close>

definition no_err :: "('s, string + unit) act \<Rightarrow> ('s, string + unit) act" where
  "no_err m = seqR m (\<lambda>_ s. (Inr (Inr ()), s))"

definition sdb_GetGenesisToken :: "'db Env1 \<Rightarrow> 'db V1 \<Rightarrow> IssueToken option res" where
  "sdb_GetGenesisToken K s = as_json (k_Token K) (sdb_Get K s keyOfGenesisToken_v1)"

text \<open>An error in marshalling the gas price is overwritten before it is read; its bytes are \<open>nil\<close> then.\<close>

definition sdb_SetGenesisToken :: "'db Env1 \<Rightarrow> IssueToken \<Rightarrow> 'db V1 \<Rightarrow> ('db V1, string + unit) act" where
  "sdb_SetGenesisToken K gtoken s =
    tryN (mjson (k_Token K) gtoken) s (\<lambda>data.
    tryS (sdb_Set keyOfGenesisToken_v1 data s) (\<lambda>_ s.
    tryS (sdb_Set (keyOfToken_v1 (it_Address gtoken)) data s) (\<lambda>_ s.
    tryS (no_err (sdb_addChildKey K keyOfTokenAll (it_Address gtoken) s)) (\<lambda>_ s.
    tryN (mjson (k_string K) (it_Address gtoken)) s (\<lambda>addressData.
    tryS (sdb_Set (keyOfTokenName K (it_Name gtoken)) addressData s) (\<lambda>_ s.
    tryS (sdb_Set (keyOfTokenSymbol K (it_Symbol gtoken)) addressData s) (\<lambda>_ s.
    tryS (sdb_Set keyOfTokenBaseGasPrice
        (case marshal (k_uint64 K) (it_GasPrice gtoken) of Inl _ \<Rightarrow> [] | Inr b \<Rightarrow> b) s) (\<lambda>_ s.
    tryN (mjson (k_Balance K) \<lparr>tb_Address = it_Address gtoken, tb_Balance = it_TotalSupply gtoken\<rparr>) s
      (\<lambda>tokenData.
    let childkey = keyOfAccountToken (it_Owner gtoken) (it_Address gtoken) in
    tryS (sdb_Set childkey tokenData s) (\<lambda>_ s.
    sdb_addChildKey K (keyOfAccount (it_Owner gtoken)) childkey s))))))))))"

definition sdb_GetGenesisContract :: "'db Env1 \<Rightarrow> string \<Rightarrow> 'db V1 \<Rightarrow> types_Contract option res" where
  "sdb_GetGenesisContract K contractAddr s = as_json (k_Contract K) (sdb_Get K s (keyOfGenesisContract_v1 contractAddr))"

definition sdb_GetContract :: "'db Env1 \<Rightarrow> string \<Rightarrow> 'db V1 \<Rightarrow> types_Contract option res" where
  "sdb_GetContract K contractAddr s = as_json (k_Contract K) (sdb_Get K s (keyOfContract_v1 contractAddr))"

definition sdb_SetGenesisContract :: "'db Env1 \<Rightarrow> types_Contract \<Rightarrow> 'db V1 \<Rightarrow> ('db V1, string + unit) act" where
  "sdb_SetGenesisContract K contract s =
    tryN (sdb_GetContract K (tc_Address contract) s) s (\<lambda>con.
    if con \<noteq> None then (Inr (Inl ''Repeated calls to SetGenesisContract()''), s)
    else tryN (mjson (k_Contract K) contract) s (\<lambda>data.
    tryS (sdb_Set (keyOfGenesisContract_v1 (tc_Address contract)) data s) (\<lambda>_ s.
    tryS (no_err (sdb_addChildKey K keyOfGenesisContracts (tc_Address contract) s)) (\<lambda>_ s.
    tryS (sdb_Set (keyOfContract_v1 (tc_Address contract)) data s) (\<lambda>_ s.
    tryS (no_err (sdb_addChildKey K keyOfContractAll (tc_Address contract) s)) (\<lambda>_ s.
    tryS (sdb_addChildKey K (keyOfAccountContracts (tc_Owner contract)) (tc_Address contract) s) (\<lambda>_ s.
    sdb_addChildKey K (keyOfAccount (tc_Owner contract)) (keyOfAccountContracts (tc_Owner contract)) s)))))))"

definition sdb_GetGenesisContractList :: "'db Env1 \<Rightarrow> 'db V1 \<Rightarrow> string list option res" where
  "sdb_GetGenesisContractList K s = sdb_getChildKeys K s keyOfGenesisContracts"

definition sdb_GetChainID :: "'db Env1 \<Rightarrow> 'db V1 \<Rightarrow> string + string" where
  "sdb_GetChainID K s = (case sdb_Get K s keyOfGenesisChainId of
     Inl e \<Rightarrow> Inl e
   | Inr (Inl e) \<Rightarrow> Inl e
   | Inr (Inr None) \<Rightarrow> Inl ''ChainID is null''
   | Inr (Inr (Some v)) \<Rightarrow> Inr (string_of_bytes v))"

definition calcContractV1_0 :: "'db Env1 \<Rightarrow> 'db V1 \<Rightarrow> string + string list" where
  "calcContractV1_0 K s = (case sdb_GetGenesisToken K s of
     Inl e \<Rightarrow> Inl e
   | Inr (Inl e) \<Rightarrow> Inl (''failed get genesis token:'' @ e)
   | Inr (Inr None) \<Rightarrow> Inr []
   | Inr (Inr (Some token)) \<Rightarrow> andThen (sdb_GetChainID K s) (\<lambda>chainID.
       Inr (map (\<lambda>name. CalcContractAddress K chainID (it_Owner token) name ''1.0'')
           [''token-byb'', ''yuebao-dc'', ''yuebao-usdy'']
         @ [CalcContractAddress K chainID (it_Owner token) ''yuebao-dc'' ''2.0''])))"

text \<open>The error of \<open>getChildKeys\<close> is dropped.\<close>

definition sdb_GetContractAddrList :: "'db Env1 \<Rightarrow> 'db V1 \<Rightarrow> string + string list" where
  "sdb_GetContractAddrList K s = (case sdb_getChildKeys K s keyOfContractAll of
     Inl e \<Rightarrow> Inl e
   | Inr r \<Rightarrow> let allCon = (case r of Inl _ \<Rightarrow> [] | Inr v \<Rightarrow> list_of v) in
       if length allCon \<noteq> 0 then Inr allCon else calcContractV1_0 K s)"

definition sdb_GetTokenAddrList :: "'db Env1 \<Rightarrow> 'db V1 \<Rightarrow> string list option res" where
  "sdb_GetTokenAddrList K s = sdb_getChildKeys K s keyOfTokenAll"

text \<open>Errors of a single balance are dropped: reading gives no entry, decoding an empty one.\<close>

fun collect_balances :: "'db Env1 \<Rightarrow> 'db V1 \<Rightarrow> string list \<Rightarrow> TokenBalance list res" where
  "collect_balances K s [] = Inr (Inr [])"
| "collect_balances K s (childKey # childKeys) =
    (if HasPrefix childKey ''/account/ex/'' \<and> Contains childKey ''token''
     then (case sdb_Get K s childKey of
         Inl e \<Rightarrow> Inl e
       | Inr (Inl _) \<Rightarrow> collect_balances K s childKeys
       | Inr (Inr v) \<Rightarrow> tryR (collect_balances K s childKeys) (\<lambda>l. Inr (Inr
           ((case unmarshal (k_Balance K) (list_of v) of Inl _ \<Rightarrow> \<lparr>tb_Address = [], tb_Balance = 0\<rparr> | Inr b \<Rightarrow> b) # l))))
     else collect_balances K s childKeys)"

definition sdb_GetTokenBalListWithAccAddr :: "'db Env1 \<Rightarrow> string \<Rightarrow> 'db V1 \<Rightarrow> TokenBalance list res" where
  "sdb_GetTokenBalListWithAccAddr K accountAddr s =
    tryR (sdb_Get K s (keyOfAccount accountAddr)) (\<lambda>value.
    if length (list_of value) = 0 then Inr (Inr [])
    else case unmarshal (k_strings K) (list_of value) of
      Inl e \<Rightarrow> Inr (Inl e)
    | Inr childKeys \<Rightarrow> collect_balances K s childKeys)"

definition sdb_GetValidator :: "'db Env1 \<Rightarrow> string \<Rightarrow> 'db V1 \<Rightarrow> types_Validator option res" where
  "sdb_GetValidator K nodeAddr s = as_json (k_Validator K) (sdb_Get K s (keyOfValidator_v1 nodeAddr))"

text \<open>A listed validator that is not stored is a \<open>nil\<close> pointer, which is read.\<close>

fun collect_validators :: "'db Env1 \<Rightarrow> 'db V1 \<Rightarrow> string list \<Rightarrow> types_Validator list res" where
  "collect_validators K s [] = Inr (Inr [])"
| "collect_validators K s (nodeAddr # nodeAddrs) =
    tryR (sdb_GetValidator K nodeAddr s) (\<lambda>val. case val of
      None \<Rightarrow> Inl nil_pointer
    | Some v \<Rightarrow> tryR (collect_validators K s nodeAddrs) (\<lambda>l. Inr (Inr (v # l))))"

definition sdb_GetAllValidators :: "'db Env1 \<Rightarrow> 'db V1 \<Rightarrow> types_Validator list res" where
  "sdb_GetAllValidators K s = tryR (sdb_getChildKeys K s keyOfValidators_v1) (\<lambda>nodeAddrs.
     collect_validators K s (list_of nodeAddrs))"

definition sdb_GetWorldAppState :: "'db Env1 \<Rightarrow> 'db V1 \<Rightarrow> AppState option res" where
  "sdb_GetWorldAppState K s = as_json (k_AppState K) (sdb_Get K s keyOfWorldAppState_v1)"

definition sdb_SetStrategys :: "'db Env1 \<Rightarrow> types_RewardStrategy list \<Rightarrow> 'db V1 \<Rightarrow> ('db V1, string + unit) act" where
  "sdb_SetStrategys K strategys s = tryN (mjson (k_Strategies K) strategys) s (\<lambda>data. sdb_Set keyOfRewardStrategys data s)"

definition sdb_SetChainID :: "string \<Rightarrow> 'db V1 \<Rightarrow> ('db V1, string + unit) act" where
  "sdb_SetChainID cid s = sdb_Set keyOfGenesisChainId (bytes_of_string cid) s"

definition sdb_SetWorldAppState :: "'db Env1 \<Rightarrow> AppState \<Rightarrow> 'db V1 \<Rightarrow> ('db V1, string + unit) act" where
  "sdb_SetWorldAppState K appState s = tryN (mjson (k_AppState K) appState) s (\<lambda>data. sdb_Set keyOfWorldAppState_v1 data s)"

definition sdb_SetValidator :: "'db Env1 \<Rightarrow> types_Validator \<Rightarrow> 'db V1 \<Rightarrow> ('db V1, string + unit) act" where
  "sdb_SetValidator K validator s = tryN (mjson (k_Validator K) validator) s (\<lambda>data.
     tryS (sdb_Set (keyOfValidator_v1 (tv_NodeAddr validator)) data s) (\<lambda>_ s.
     sdb_addChildKey K keyOfValidators_v1 (tv_NodeAddr validator) s))"

definition sdb_GetBalance :: "'db Env1 \<Rightarrow> string \<Rightarrow> string \<Rightarrow> 'db V1 \<Rightarrow> int res" where
  "sdb_GetBalance K contractAddress exAddress s =
    tryR (as_json (k_Balance K) (sdb_Get K s (keyOfAccountToken exAddress contractAddress))) (\<lambda>token.
      Inr (Inr (case token of None \<Rightarrow> 0 | Some t \<Rightarrow> tb_Balance t)))"

definition sdb_GetAccountNonce :: "'db Env1 \<Rightarrow> string \<Rightarrow> 'db V1 \<Rightarrow> uint64 res" where
  "sdb_GetAccountNonce K exAddress s =
    tryR (as_json (k_Account K) (sdb_Get K s (keyOfAccountNonce exAddress))) (\<lambda>account.
      Inr (Inr (case account of None \<Rightarrow> 0 | Some a \<Rightarrow> an_Nonce a)))"

definition sdb_CheckAccountNonce :: "'db Env1 \<Rightarrow> string \<Rightarrow> uint64 \<Rightarrow> 'db V1 \<Rightarrow> unit res" where
  "sdb_CheckAccountNonce K exAddress nonce s =
    tryR (as_json (k_Account K) (sdb_Get K s (keyOfAccountNonce exAddress))) (\<lambda>account.
      let lastNonce = (case account of None \<Rightarrow> 0 | Some a \<Rightarrow> an_Nonce a) in
      if lastNonce + 1 \<noteq> nonce then Inr (Inl (''Address:'' @ exAddress @ '' nonce invalid!''))
      else Inr (Inr ()))"

text \<open>
  When the key of the nonce is listed although no nonce is stored, \<open>addChildKeyEx\<close> gives a \<open>nil\<close> map, and
  the assignment to it panics.
\<close>

definition sdb_SetAccountNonce :: "'db Env1 \<Rightarrow> string \<Rightarrow> uint64 \<Rightarrow> 'db V1 \<Rightarrow>
    ('db V1, string + (string, bytes) gomap) act" where
  "sdb_SetAccountNonce K exAddress nonce s =
    tryN (sdb_CheckAccountNonce K exAddress nonce s) s (\<lambda>_.
    tryN (mjson (k_Account K) \<lparr>an_Nonce = nonce\<rparr>) s (\<lambda>accountData.
    let childKey = keyOfAccountNonce exAddress in
    tryN (sdb_Get K s childKey) s (\<lambda>data.
    tryS (if data = None then sdb_addChildKeyEx K (keyOfAccount exAddress) childKey s
          else (Inr (Inr (Some [])), s)) (\<lambda>nonceBuffer s.
    case nonceBuffer of
      None \<Rightarrow> (Inl ''assignment to entry in nil map'', s)
    | Some m \<Rightarrow> tryS (sdb_Set childKey accountData s) (\<lambda>_ s.
        (Inr (Inr (AList.update childKey accountData m)), s))))))"

definition sdb_GetToken :: "'db Env1 \<Rightarrow> string \<Rightarrow> 'db V1 \<Rightarrow> IssueToken option res" where
  "sdb_GetToken K contractAddr s = as_json (k_Token K) (sdb_Get K s (keyOfToken_v1 contractAddr))"

text \<open>A new tx of the transaction; without one the pointer is \<open>nil\<close>.\<close>

definition sdb_NewTxState :: "string \<Rightarrow> string \<Rightarrow> 'db V1 \<Rightarrow> ('db V1, TxState) act" where
  "sdb_NewTxState contractAddress senderAddress s = (case v_Transaction s of
     None \<Rightarrow> (Inl nil_pointer, s)
   | Some t \<Rightarrow> let (tx, t) = Transaction_NewTx t in
       (Inr \<lparr>ts_ContractAddress = contractAddress, ts_SenderAddress = senderAddress, ts_Tx = Some (txID tx)\<rparr>,
        s\<lparr>v_Transaction := Some t, v_Tx := (v_Tx s)(txID tx \<mapsto> tx)\<rparr>))"

definition sdb_BeginBlock :: "Transaction \<Rightarrow> 'db V1 \<Rightarrow> 'db V1" where
  "sdb_BeginBlock transaction s = s\<lparr>v_Transaction := Some transaction, v_Tx := (\<lambda>_. None)\<rparr>"

definition sdb_CommitTx :: "(string, bytes) gomap \<Rightarrow> 'db V1 \<Rightarrow> ('db V1, unit) act" where
  "sdb_CommitTx txBuffer s = (case v_Transaction s of
     None \<Rightarrow> (Inl nil_pointer, s)
   | Some t \<Rightarrow> (Inr (), s\<lparr>v_Transaction := Some (Transaction_BatchSet t txBuffer)\<rparr>))"

definition sdb_GetBlockBuffer :: "'db V1 \<Rightarrow> string + bytes" where
  "sdb_GetBlockBuffer s = (case v_Transaction s of None \<Rightarrow> Inl nil_pointer | Some t \<Rightarrow> Inr (GetBuffer t))"

text \<open>The object in the map of the helper is brought up to date before the helper works on it.\<close>

definition write_back :: "Transaction \<Rightarrow> 'db Helper \<Rightarrow> 'db Helper" where
  "write_back t h = (case transactionMap h (transactionID t) of
     None \<Rightarrow> h
   | Some tr \<Rightarrow> put_trans (transactionID t) (Some (tr\<lparr>tr_Transaction := t\<rparr>)) h)"

definition sdb_CommitBlock :: "'db Env1 \<Rightarrow> 'db V1 \<Rightarrow> ('db V1, unit) act" where
  "sdb_CommitBlock K s = (case v_Transaction s of
     None \<Rightarrow> (Inl nil_pointer, s)
   | Some t \<Rightarrow> let (r, h) = CommitBlock (ext1 K) (transactionID t) (write_back t (v_helper s))
       in (r, s\<lparr>v_helper := h\<rparr>))"

text \<open>The object that \<open>RollbackBlock\<close> empties is the one \<open>v_Transaction\<close> points to.\<close>

definition sdb_RollBlock :: "'db V1 \<Rightarrow> ('db V1, unit) act" where
  "sdb_RollBlock s = (case v_Transaction s of
     None \<Rightarrow> (Inl nil_pointer, s)
   | Some t \<Rightarrow> (case RollbackBlock (transactionID t) (write_back t (v_helper s)) of
       (Inl e, h) \<Rightarrow> (Inl e, s\<lparr>v_helper := h\<rparr>)
     | (Inr u, h) \<Rightarrow> (Inr u, s\<lparr>v_helper := h, v_Transaction := Some (Transaction_Rollback t)\<rparr>)))"

end
