(* ===== verification/V1_TxState.thy ===== *)
theory V1_TxState
  imports V1_Store
begin

text \<open>
  The methods of \<open>TxState\<close> (\<open>abciapp_v1.0/statedb/txstate.go\<close>): what a contract reads and writes
  through the buffer of its tx. \<open>SetUDCNonce\<close> and the order of \<open>SetUDCOrder\<close> go to the buffer of the
  block, as in the code.
\<close>

section \<open>Lists of keys\<close>

definition ts_getChildKeys :: "'db Env1 \<Rightarrow> TxState \<Rightarrow> 'db V1 \<Rightarrow> string \<Rightarrow> string list option res" where
  "ts_getChildKeys K ts s key = as_json (k_strings K) (ts_Get K ts s key)"

text \<open>The result of the last \<open>Set\<close> is dropped.\<close>

definition ts_addChildKey :: "'db Env1 \<Rightarrow> TxState \<Rightarrow> string \<Rightarrow> string \<Rightarrow> 'db V1 \<Rightarrow> ('db V1, string + unit) act" where
  "ts_addChildKey K ts key childKey s =
    tryN (ts_getChildKeys K ts s key) s (\<lambda>v. case insert_child (list_of v) childKey of
      None \<Rightarrow> (Inr (Inr ()), s)
    | Some childKeys \<Rightarrow> tryN (mjson (k_strings K) childKeys) s (\<lambda>data. no_err (ts_Set ts key data s)))"

definition ts_deleteChildKey :: "'db Env1 \<Rightarrow> TxState \<Rightarrow> string \<Rightarrow> string \<Rightarrow> 'db V1 \<Rightarrow> ('db V1, string + unit) act" where
  "ts_deleteChildKey K ts key childKey s =
    tryN (ts_getChildKeys K ts s key) s (\<lambda>v. case remove_child (list_of v) childKey of
      Inl e \<Rightarrow> (Inl e, s)
    | Inr childKeys \<Rightarrow> tryN (mjson (k_strings K) childKeys) s (\<lambda>data. no_err (ts_Set ts key data s)))"

section \<open>Balances\<close>

definition ts_CheckBlackAddress :: "'db Env1 \<Rightarrow> TxState \<Rightarrow> string \<Rightarrow> 'db V1 \<Rightarrow> string + bool" where
  "ts_CheckBlackAddress K ts address s = (case ts_Get K ts s (keyOfBlackList_v1 address) of
     Inl e \<Rightarrow> Inl e
   | Inr (Inl _) \<Rightarrow> Inr False
   | Inr (Inr None) \<Rightarrow> Inr False
   | Inr (Inr (Some v)) \<Rightarrow> Inr ((case unmarshal (k_string K) v of Inl _ \<Rightarrow> [] | Inr b \<Rightarrow> b) = ''true''))"

definition ts_GetBalance :: "'db Env1 \<Rightarrow> TxState \<Rightarrow> string \<Rightarrow> string \<Rightarrow> 'db V1 \<Rightarrow> int res" where
  "ts_GetBalance K ts exAddress tokenAddress s =
    tryR (as_json (k_Balance K) (ts_Get K ts s (keyOfAccountToken exAddress tokenAddress))) (\<lambda>token.
      Inr (Inr (case token of None \<Rightarrow> 0 | Some t \<Rightarrow> tb_Balance t)))"

definition ts_SetBalance :: "'db Env1 \<Rightarrow> TxState \<Rightarrow> string \<Rightarrow> string \<Rightarrow> int \<Rightarrow> 'db V1 \<Rightarrow> ('db V1, string + unit) act" where
  "ts_SetBalance K ts exAddress tokenAddress value s =
    tryN (mjson (k_Balance K) \<lparr>tb_Address = tokenAddress, tb_Balance = value\<rparr>) s (\<lambda>tokenData.
    let childKey = keyOfAccountToken exAddress tokenAddress in
    tryN (ts_Get K ts s childKey) s (\<lambda>data.
    tryS (if data = None then ts_addChildKey K ts (keyOfAccount exAddress) childKey s else (Inr (Inr ()), s)) (\<lambda>_ s.
    ts_Set ts childKey tokenData s)))"

section \<open>Tokens and contracts\<close>

definition ts_GetToken :: "'db Env1 \<Rightarrow> TxState \<Rightarrow> string \<Rightarrow> 'db V1 \<Rightarrow> IssueToken option res" where
  "ts_GetToken K ts tokenAddr s = as_json (k_Token K) (ts_Get K ts s (keyOfToken_v1 tokenAddr))"

definition ts_GetGenesisToken :: "'db Env1 \<Rightarrow> TxState \<Rightarrow> 'db V1 \<Rightarrow> IssueToken option res" where
  "ts_GetGenesisToken K ts s = as_json (k_Token K) (ts_Get K ts s keyOfGenesisToken_v1)"

definition ts_SetToken :: "'db Env1 \<Rightarrow> TxState \<Rightarrow> IssueToken \<Rightarrow> 'db V1 \<Rightarrow> ('db V1, string + unit) act" where
  "ts_SetToken K ts issueToken s =
    tryN (mjson (k_Token K) issueToken) s (\<lambda>tokenData.
    tryS (ts_Set ts (keyOfToken_v1 (it_Address issueToken)) tokenData s) (\<lambda>_ s.
    tryS (ts_addChildKey K ts keyOfTokenAll (it_Address issueToken) s) (\<lambda>_ s.
    tryN (mjson (k_string K) (it_Address issueToken)) s (\<lambda>addressData.
    tryS (ts_Set ts (keyOfTokenName K (it_Name issueToken)) addressData s) (\<lambda>_ s.
    ts_Set ts (keyOfTokenSymbol K (it_Symbol issueToken)) addressData s)))))"

definition ts_SetTokenContract :: "'db Env1 \<Rightarrow> TxState \<Rightarrow> types_Contract \<Rightarrow> 'db V1 \<Rightarrow> ('db V1, string + unit) act" where
  "ts_SetTokenContract K ts contract s =
    tryN (mjson (k_Contract K) contract) s (\<lambda>contractData.
    tryS (ts_Set ts (keyOfContract_v1 (tc_Address contract)) contractData s) (\<lambda>_ s.
    tryS (ts_addChildKey K ts keyOfContractAll (tc_Address contract) s) (\<lambda>_ s.
    tryS (ts_addChildKey K ts (keyOfAccountContracts (tc_Owner contract)) (tc_Address contract) s) (\<lambda>_ s.
    ts_addChildKey K ts (keyOfAccount (tc_Owner contract)) (keyOfAccountContracts (tc_Owner contract)) s))))"

definition ts_SetStrategys :: "'db Env1 \<Rightarrow> TxState \<Rightarrow> types_RewardStrategy list \<Rightarrow> 'db V1 \<Rightarrow>
    ('db V1, string + unit) act" where
  "ts_SetStrategys K ts strategys s = tryN (mjson (k_Strategies K) strategys) s (\<lambda>data. ts_Set ts keyOfRewardStrategys data s)"

definition ts_GetStrategys :: "'db Env1 \<Rightarrow> TxState \<Rightarrow> 'db V1 \<Rightarrow> types_RewardStrategy list res" where
  "ts_GetStrategys K ts s = tryR (as_json (k_Strategies K) (ts_Get K ts s keyOfRewardStrategys)) (\<lambda>v.
     Inr (Inr (list_of v)))"

definition ts_DeleteContractAddr :: "'db Env1 \<Rightarrow> TxState \<Rightarrow> string \<Rightarrow> string \<Rightarrow> 'db V1 \<Rightarrow> ('db V1, string + unit) act" where
  "ts_DeleteContractAddr K ts exAddress contractAddr s =
    ts_deleteChildKey K ts (keyOfAccountContracts exAddress) contractAddr s"

definition addr_at :: "'db Env1 \<Rightarrow> TxState \<Rightarrow> string \<Rightarrow> 'db V1 \<Rightarrow> string res" where
  "addr_at K ts key s = tryR (as_json (k_string K) (ts_Get K ts s key)) (\<lambda>v.
     Inr (Inr (case v of None \<Rightarrow> [] | Some a \<Rightarrow> a)))"

definition ts_GetTokenAddrByName :: "'db Env1 \<Rightarrow> TxState \<Rightarrow> string \<Rightarrow> 'db V1 \<Rightarrow> string res" where
  "ts_GetTokenAddrByName K ts name s = addr_at K ts (keyOfTokenName K name) s"

definition ts_GetTokenAddrBySymbol :: "'db Env1 \<Rightarrow> TxState \<Rightarrow> string \<Rightarrow> 'db V1 \<Rightarrow> string res" where
  "ts_GetTokenAddrBySymbol K ts name s = addr_at K ts (keyOfTokenSymbol K name) s"

definition ts_SetBaseGasPrice :: "'db Env1 \<Rightarrow> TxState \<Rightarrow> uint64 \<Rightarrow> 'db V1 \<Rightarrow> ('db V1, string + unit) act" where
  "ts_SetBaseGasPrice K ts gasPrice s =
    tryN (mjson (k_uint64 K) gasPrice) s (\<lambda>data. ts_Set ts keyOfTokenBaseGasPrice data s)"

text \<open>Every error is a panic here.\<close>

definition ts_GetBaseGasPrice :: "'db Env1 \<Rightarrow> TxState \<Rightarrow> 'db V1 \<Rightarrow> string + uint64" where
  "ts_GetBaseGasPrice K ts s = (case as_json (k_uint64 K) (ts_Get K ts s keyOfTokenBaseGasPrice) of
     Inl e \<Rightarrow> Inl e
   | Inr (Inl e) \<Rightarrow> Inl e
   | Inr (Inr None) \<Rightarrow> Inl ''Base gas price is null''
   | Inr (Inr (Some price)) \<Rightarrow> Inr price)"

definition ts_GetChainID :: "'db Env1 \<Rightarrow> TxState \<Rightarrow> 'db V1 \<Rightarrow> string + string" where
  "ts_GetChainID K ts s = (case ts_Get K ts s keyOfGenesisChainId of
     Inl e \<Rightarrow> Inl e
   | Inr (Inl e) \<Rightarrow> Inl e
   | Inr (Inr None) \<Rightarrow> Inl ''ChainID is null''
   | Inr (Inr (Some v)) \<Rightarrow> Inr (string_of_bytes v))"

fun find_gas :: "types_Method list \<Rightarrow> uint32 \<Rightarrow> string + uint64" where
  "find_gas [] methodId = Inl ''methodId invalid!''"
| "find_gas (m # ms) methodId = (case ParseUint16_32 (me_MethodId m) of
     Inl e \<Rightarrow> Inl e
   | Inr intMethodId \<Rightarrow> if intMethodId = ucast methodId then Inr (me_Gas m) else find_gas ms methodId)"

definition ts_GetGas :: "'db Env1 \<Rightarrow> string \<Rightarrow> uint32 \<Rightarrow> 'db V1 \<Rightarrow> uint64 res" where
  "ts_GetGas K contractAddr methodId s = tryR (sdb_GetContract K contractAddr s) (\<lambda>contract.
     case contract of None \<Rightarrow> Inr (Inl ''contractAddr invalid!'') | Some c \<Rightarrow> Inr (find_gas (tc_Methods c) methodId))"

section \<open>Certificates\<close>

definition ts_SetUDCNonce :: "uint64 \<Rightarrow> 'db V1 \<Rightarrow> ('db V1, string + unit) act" where
  "ts_SetUDCNonce nonce s = sdb_Set keyOfUDCNonce (be_bytes nonce) s"

text \<open>The nonce is written as eight bytes and read as a JSON text; no value is an empty text.\<close>

definition ts_GetUDCNonce :: "'db Env1 \<Rightarrow> TxState \<Rightarrow> 'db V1 \<Rightarrow> uint64 res" where
  "ts_GetUDCNonce K ts s = tryR (ts_Get K ts s keyOfUDCNonce) (\<lambda>v. Inr (unmarshal (k_uint64 K) (list_of v)))"

definition ts_SetUDCOrder :: "'db Env1 \<Rightarrow> TxState \<Rightarrow> UDCOrder \<Rightarrow> 'db V1 \<Rightarrow> ('db V1, string + unit) act" where
  "ts_SetUDCOrder K ts udcOrder s =
    tryN (mjson (k_UDC K) udcOrder) s (\<lambda>data.
    tryS (sdb_Set (keyOfUDCOrder (ud_UDCHash udcOrder)) data s) (\<lambda>_ s.
    ts_addChildKey K ts (keyOfAccountUDCHashList (ud_Owner udcOrder)) (hex_lower (ud_UDCHash udcOrder)) s))"

definition ts_GetUDCOrder :: "'db Env1 \<Rightarrow> TxState \<Rightarrow> bytes \<Rightarrow> 'db V1 \<Rightarrow> UDCOrder res" where
  "ts_GetUDCOrder K ts udcHash s = tryR (as_json (k_UDC K) (ts_Get K ts s (keyOfUDCOrder udcHash))) (\<lambda>v.
     Inr (case v of None \<Rightarrow> Inl ''UDCOrder is empty'' | Some u \<Rightarrow> Inr u))"

section \<open>Validators\<close>

definition ts_SetValidator :: "'db Env1 \<Rightarrow> TxState \<Rightarrow> types_Validator \<Rightarrow> 'db V1 \<Rightarrow> ('db V1, string + unit) act" where
  "ts_SetValidator K ts validator s =
    tryN (mjson (k_Validator K) validator) s (\<lambda>data.
    tryS (ts_Set ts (keyOfValidator_v1 (tv_NodeAddr validator)) data s) (\<lambda>_ s.
    ts_addChildKey K ts keyOfValidators_v1 (tv_NodeAddr validator) s))"

definition ts_GetAllValidatorPubKeys :: "'db Env1 \<Rightarrow> TxState \<Rightarrow> 'db V1 \<Rightarrow> string list option res" where
  "ts_GetAllValidatorPubKeys K ts s = ts_getChildKeys K ts s keyOfValidators_v1"

section \<open>The end of a tx\<close>

definition ts_CommitTx :: "TxState \<Rightarrow> 'db V1 \<Rightarrow> ('db V1, bytes \<times> (string, bytes) gomap) act" where
  "ts_CommitTx ts s = (case (ts_Tx ts, v_Transaction s) of
     (Some i, Some t) \<Rightarrow> (case v_Tx s i of
         None \<Rightarrow> (Inl nil_pointer, s)
       | Some tx \<Rightarrow> let (out, tx', t') = Tx_Commit tx t
           in (Inr out, s\<lparr>v_Transaction := Some t', v_Tx := (v_Tx s)(i \<mapsto> tx')\<rparr>))
   | _ \<Rightarrow> (Inl nil_pointer, s))"

definition ts_RollbackTx :: "TxState \<Rightarrow> 'db V1 \<Rightarrow> ('db V1, unit) act" where
  "ts_RollbackTx ts s = (case ts_Tx ts of
     None \<Rightarrow> (Inl nil_pointer, s)
   | Some i \<Rightarrow> (case v_Tx s i of
       None \<Rightarrow> (Inl nil_pointer, s)
     | Some tx \<Rightarrow> (Inr (), s\<lparr>v_Tx := (v_Tx s)(i \<mapsto> Tx_Rollback tx)\<rparr>)))"

text \<open>A listed contract that is not stored is a \<open>nil\<close> pointer, which is read.\<close>

fun contracts_named :: "'db Env1 \<Rightarrow> 'db V1 \<Rightarrow> string \<Rightarrow> string list \<Rightarrow> string list res" where
  "contracts_named K s name [] = Inr (Inr [])"
| "contracts_named K s name (k # ks) = tryR (sdb_GetContract K k s) (\<lambda>contract. case contract of
     None \<Rightarrow> Inl nil_pointer
   | Some c \<Rightarrow> tryR (contracts_named K s name ks) (\<lambda>l.
       Inr (Inr (if tc_Name c = name then tc_Address c # l else l))))"

definition ts_GetContractsListByName :: "'db Env1 \<Rightarrow> string \<Rightarrow> 'db V1 \<Rightarrow> string list res" where
  "ts_GetContractsListByName K name s = andThen (sdb_GetContractAddrList K s) (\<lambda>childKeys.
     contracts_named K s name childKeys)"

end
