(* ===== verification/V1_Context.thy ===== *)
theory V1_Context
  imports V1_TxState
begin

text \<open>
  What a version 1 contract is called with: \<open>Account\<close> and \<open>InvokeContext\<close> of
  \<open>contract/stubapi/invokecontext.go\<close>: tokens, certificates, prices. Gas and rewards are in
  \<open>V1_Gas\<close>, validators in \<open>V1_Validators\<close>. Every operation returns a \<open>BCError\<close>; only what the code
  panics on is \<open>Inl\<close>. Of the proposer and the rewarder only the address is read. Logging is left
  out; \<open>fee\<close>s and balances are exact integers, gas and prices 64-bit words.
\<close>

record Account1 =
  ac_Addr :: string
  ac_TxState :: TxState

record InvokeContext =
  cx_Sender :: Account1
  cx_Owner :: Account1
  cx_TxState :: TxState
  cx_BlockHash :: bytes
  cx_BlockHeader :: Header
  cx_Proposer :: "string option"
  cx_Rewarder :: "string option"
  cx_GasLimit :: uint64
  cx_Note :: string

section \<open>Error conversion\<close>

text \<open>\<open>if err != nil\<close>: \<open>ErrCodeLowLevelError\<close> with its text; otherwise \<open>ErrCodeOK\<close>.\<close>

definition low :: "('s, string + unit) act \<Rightarrow> ('s, BCError) act" where
  "low m = seqR m (\<lambda>r s. (Inr (case r of Inl e \<Rightarrow> lowE e | Inr _ \<Rightarrow> okE), s))"

text \<open>The same for an operation that is followed by others.\<close>

definition orLow :: "('s, string + unit) act \<Rightarrow> ('s \<Rightarrow> ('s, BCError) act) \<Rightarrow> ('s, BCError) act" where
  "orLow m f = seqR m (\<lambda>r s. case r of Inl e \<Rightarrow> (Inr (lowE e), s) | Inr _ \<Rightarrow> f s)"

text \<open>A read: an error is a low-level error, \<open>nil\<close> has a code of its own.\<close>

definition getOr :: "'a option res \<Rightarrow> BCError \<Rightarrow> 's \<Rightarrow> ('a \<Rightarrow> ('s, BCError) act) \<Rightarrow> ('s, BCError) act" where
  "getOr r absent s f = (case r of
     Inl e \<Rightarrow> (Inl e, s)
   | Inr (Inl e) \<Rightarrow> (Inr (lowE e), s)
   | Inr (Inr None) \<Rightarrow> (Inr absent, s)
   | Inr (Inr (Some a)) \<Rightarrow> f a)"

text \<open>\<open>if smcError.ErrorCode != ErrCodeOK { return }\<close>.\<close>

definition checkE :: "('s, BCError) act \<Rightarrow> ('s \<Rightarrow> ('s, BCError) act) \<Rightarrow> ('s, BCError) act" where
  "checkE m f = seqR m (\<lambda>e s. if isOK e then f s else (Inr e, s))"

lemma low_simps [simp]:
  "low (Inl e, s) = (Inl e, s)" "low (Inr (Inl e), s) = (Inr (lowE e), s)" "low (Inr (Inr u), s) = (Inr okE, s)"
  "orLow (Inl e, s) f = (Inl e, s)" "orLow (Inr (Inl e), s) f = (Inr (lowE e), s)"
  "orLow (Inr (Inr u), s) f = f s"
  "getOr (Inl e) b s g = (Inl e, s)" "getOr (Inr (Inl e)) b s g = (Inr (lowE e), s)"
  "getOr (Inr (Inr None)) b s g = (Inr b, s)" "getOr (Inr (Inr (Some a))) b s g = g a"
  "checkE (Inl e, s) f = (Inl e, s)" "checkE (Inr x, s) f = (if isOK x then f s else (Inr x, s))"
  by (simp_all add: low_def orLow_def getOr_def checkE_def)

section \<open>Accounts\<close>

definition acct_BalanceOf :: "'db Env1 \<Rightarrow> Account1 \<Rightarrow> string \<Rightarrow> 'db V1 \<Rightarrow> string + int \<times> BCError" where
  "acct_BalanceOf K account tokenAddr s = (case ts_GetBalance K (ac_TxState account) (ac_Addr account) tokenAddr s of
     Inl e \<Rightarrow> Inl e
   | Inr (Inl e) \<Rightarrow> Inr (0, lowE e)
   | Inr (Inr v) \<Rightarrow> Inr (v, okE))"

definition acct_SetBalance :: "'db Env1 \<Rightarrow> Account1 \<Rightarrow> string \<Rightarrow> int \<Rightarrow> 'db V1 \<Rightarrow> ('db V1, BCError) act" where
  "acct_SetBalance K account tokenAddr value s =
    low (ts_SetBalance K (ac_TxState account) (ac_Addr account) tokenAddr value s)"

section \<open>Tokens\<close>

definition ctx_SetGasBasePrice :: "'db Env1 \<Rightarrow> InvokeContext \<Rightarrow> uint64 \<Rightarrow> 'db V1 \<Rightarrow> ('db V1, BCError) act" where
  "ctx_SetGasBasePrice K ctx value s = low (ts_SetBaseGasPrice K (cx_TxState ctx) value s)"

definition ctx_GasBasePrice :: "'db Env1 \<Rightarrow> InvokeContext \<Rightarrow> 'db V1 \<Rightarrow> string + uint64" where
  "ctx_GasBasePrice K ctx s = ts_GetBaseGasPrice K (cx_TxState ctx) s"

definition own_token :: "'db Env1 \<Rightarrow> InvokeContext \<Rightarrow> 'db V1 \<Rightarrow> IssueToken option res" where
  "own_token K ctx s = ts_GetToken K (cx_TxState ctx) (ts_ContractAddress (cx_TxState ctx)) s"

definition ctx_SetGasPrice :: "'db Env1 \<Rightarrow> InvokeContext \<Rightarrow> uint64 \<Rightarrow> 'db V1 \<Rightarrow> ('db V1, BCError) act" where
  "ctx_SetGasPrice K ctx value s =
    getOr (own_token K ctx s) (errC ErrCodeInterContractsNoToken) s (\<lambda>token.
      low (ts_SetToken K (cx_TxState ctx) (token\<lparr>it_GasPrice := value\<rparr>) s))"

definition ctx_GetTokenIssueContract :: "'db Env1 \<Rightarrow> InvokeContext \<Rightarrow> 'db V1 \<Rightarrow> types_Contract option res" where
  "ctx_GetTokenIssueContract K ctx s = sdb_GetContract K (ts_ContractAddress (cx_TxState ctx)) s"

text \<open>The contract of a new token is that of the template, under the address and the name of the token.\<close>

definition new_contract :: "string \<Rightarrow> string \<Rightarrow> string \<Rightarrow> types_Contract \<Rightarrow> types_Contract" where
  "new_contract addr owner name c = \<lparr>tc_Address = addr, tc_Owner = owner, tc_Name = name, tc_Version = tc_Version c,
     tc_CodeHash = tc_CodeHash c, tc_Methods = tc_Methods c, tc_EffectHeight = tc_EffectHeight c,
     tc_LoseHeight = tc_LoseHeight c, tc_ChainVersion = 0, tc_OrgID = []\<rparr>"

definition ctx_NewToken :: "'db Env1 \<Rightarrow> InvokeContext \<Rightarrow> string \<Rightarrow> string \<Rightarrow> string \<Rightarrow> int \<Rightarrow> bool \<Rightarrow> bool \<Rightarrow>
    uint64 \<Rightarrow> 'db V1 \<Rightarrow> ('db V1, BCError) act" where
  "ctx_NewToken K ctx addr name symbol supply addSupplyEnabled burnEnabled gasprice s =
    (let ts = cx_TxState ctx; sender = ac_Addr (cx_Sender ctx) in
    getOr (ctx_GetTokenIssueContract K ctx s) (errC ErrCodeInterContractsNoGenesis) s (\<lambda>tiContract.
    let token = \<lparr>it_Address = addr, it_Owner = sender, it_Version = tc_Version tiContract, it_Name = name,
          it_Symbol = symbol, it_TotalSupply = supply, it_AddSupplyEnabled = addSupplyEnabled,
          it_BurnEnabled = burnEnabled, it_GasPrice = gasprice\<rparr>
    in orLow (ts_SetToken K ts token s) (\<lambda>s.
    need (ts_GetChainID K ts s) s (\<lambda>cid.
    getOr (sdb_GetContract K (CalcContractAddress K cid (tc_Owner tiContract) ''token-templet'' (it_Version token)) s)
      (errC ErrCodeInterContractsInvalidAddr) s (\<lambda>tempContract.
    orLow (ts_SetTokenContract K ts (new_contract addr sender (''token-templet-'' @ name) tempContract) s) (\<lambda>s.
    low (ts_SetBalance K (ts\<lparr>ts_ContractAddress := addr\<rparr>) sender addr supply s)))))))"

definition ctx_GetToken :: "'db Env1 \<Rightarrow> InvokeContext \<Rightarrow> string \<Rightarrow> 'db V1 \<Rightarrow> string + IssueToken option \<times> BCError" where
  "ctx_GetToken K ctx addr s = (case ts_GetToken K (cx_TxState ctx) addr s of
     Inl e \<Rightarrow> Inl e
   | Inr (Inl e) \<Rightarrow> Inr (None, lowE e)
   | Inr (Inr None) \<Rightarrow> Inr (None, errC ErrCodeInterContractsInvalidAddr)
   | Inr (Inr (Some t)) \<Rightarrow> Inr (Some t, okE))"

definition addr_err :: "string res \<Rightarrow> string + string \<times> BCError" where
  "addr_err r = (case r of Inl e \<Rightarrow> Inl e | Inr (Inl e) \<Rightarrow> Inr ([], lowE e) | Inr (Inr a) \<Rightarrow> Inr (a, okE))"

definition ctx_GetTokenAddressByName :: "'db Env1 \<Rightarrow> InvokeContext \<Rightarrow> string \<Rightarrow> 'db V1 \<Rightarrow> string + string \<times> BCError" where
  "ctx_GetTokenAddressByName K ctx name s = addr_err (ts_GetTokenAddrByName K (cx_TxState ctx) name s)"

definition ctx_GetTokenAddressBySymbol :: "'db Env1 \<Rightarrow> InvokeContext \<Rightarrow> string \<Rightarrow> 'db V1 \<Rightarrow> string + string \<times> BCError" where
  "ctx_GetTokenAddressBySymbol K ctx symbol s = addr_err (ts_GetTokenAddrBySymbol K (cx_TxState ctx) symbol s)"

definition ctx_TokenSupply :: "'db Env1 \<Rightarrow> InvokeContext \<Rightarrow> 'db V1 \<Rightarrow> string + int \<times> BCError" where
  "ctx_TokenSupply K ctx s = (case own_token K ctx s of
     Inl e \<Rightarrow> Inl e
   | Inr (Inl e) \<Rightarrow> Inr (0, lowE e)
   | Inr (Inr None) \<Rightarrow> Inr (0, errC ErrCodeInterContractsNoToken)
   | Inr (Inr (Some t)) \<Rightarrow> Inr (it_TotalSupply t, okE))"

definition ctx_SetTokenSupply :: "'db Env1 \<Rightarrow> InvokeContext \<Rightarrow> int \<Rightarrow> bool \<Rightarrow> bool \<Rightarrow> 'db V1 \<Rightarrow> ('db V1, BCError) act" where
  "ctx_SetTokenSupply K ctx value isAddSupply isBurn s =
    getOr (own_token K ctx s) (errC ErrCodeInterContractsNoToken) s (\<lambda>token.
      if isAddSupply \<and> \<not> it_AddSupplyEnabled token then (Inr (errC ErrCodeInterContractsUnsupportAddSupply), s)
      else if isBurn \<and> \<not> it_BurnEnabled token then (Inr (errC ErrCodeInterContractsUnsupportBurn), s)
      else low (ts_SetToken K (cx_TxState ctx) (token\<lparr>it_TotalSupply := value\<rparr>) s))"

text \<open>The text of an error of \<open>SetToken\<close> is dropped. The contract is read from the block, past the tx.\<close>

definition ctx_SetTokenNewOwner :: "'db Env1 \<Rightarrow> InvokeContext \<Rightarrow> string \<Rightarrow> 'db V1 \<Rightarrow> ('db V1, BCError) act" where
  "ctx_SetTokenNewOwner K ctx owner s =
    (let ts = cx_TxState ctx; contract = ts_ContractAddress ts in
    getOr (own_token K ctx s) (errC ErrCodeInterContractsNoToken) s (\<lambda>token.
    seqR (ts_SetToken K ts (token\<lparr>it_Owner := owner\<rparr>) s) (\<lambda>r s.
    case r of Inl _ \<Rightarrow> (Inr (errC ErrCodeLowLevelError), s) | Inr _ \<Rightarrow>
    getOr (sdb_GetContract K contract s) (errC ErrCodeDockerNotFindContract) s (\<lambda>oldContract.
    orLow (ts_SetTokenContract K ts (new_contract (tc_Address oldContract) owner (tc_Name oldContract) oldContract) s)
      (\<lambda>s. low (ts_DeleteContractAddr K ts (it_Owner token) contract s))))))"

definition ctx_CheckNameAndSybmol :: "'db Env1 \<Rightarrow> InvokeContext \<Rightarrow> string \<Rightarrow> string \<Rightarrow> 'db V1 \<Rightarrow> string + BCError" where
  "ctx_CheckNameAndSybmol K ctx name symbol s =
    andThen (ctx_GetTokenAddressByName K ctx name s) (\<lambda>(addr1, bcerr1).
    andThen (ctx_GetTokenAddressBySymbol K ctx symbol s) (\<lambda>(addr2, bcerr2).
    if \<not> isOK bcerr1 then Inr bcerr1
    else if \<not> isOK bcerr2 then Inr bcerr2
    else if addr1 = [] \<and> addr2 = [] then Inr bcerr1
    else if addr1 = addr2 then andThen (ctx_GetToken K ctx addr1 s) (\<lambda>(t, bcerr).
      case t of
        Some tok \<Rightarrow> if isOK bcerr \<and> Big_Compare K (it_TotalSupply tok) (Big_Zero K) = 0
            \<and> it_Owner tok = ac_Addr (cx_Sender ctx) then Inr bcerr
          else Inr (bcerr\<lparr>ErrorCode := ErrCodeInterContractsDupName\<rparr>)
      | None \<Rightarrow> Inr (bcerr\<lparr>ErrorCode := ErrCodeInterContractsDupName\<rparr>))
    else if addr1 \<noteq> [] then Inr (bcerr1\<lparr>ErrorCode := ErrCodeInterContractsDupName\<rparr>)
    else if addr2 \<noteq> [] then Inr (bcerr1\<lparr>ErrorCode := ErrCodeInterContractsDupSymbol\<rparr>)
    else Inr bcerr1))"

text \<open>A contract that is not stored is a \<open>nil\<close> pointer, which is read.\<close>

definition ctx_NewUnitedToken :: "'db Env1 \<Rightarrow> InvokeContext \<Rightarrow> string \<Rightarrow> string \<Rightarrow> string \<Rightarrow> int \<Rightarrow> bool \<Rightarrow> bool \<Rightarrow>
    uint64 \<Rightarrow> 'db V1 \<Rightarrow> ('db V1, BCError) act" where
  "ctx_NewUnitedToken K ctx addr name symbol supply addSupplyEnabled burnEnabled gasprice s =
    (let ts = cx_TxState ctx; sender = ac_Addr (cx_Sender ctx) in
    case sdb_GetContract K (ts_ContractAddress ts) s of
      Inl e \<Rightarrow> (Inl e, s)
    | Inr (Inl e) \<Rightarrow> (Inr (lowE e), s)
    | Inr (Inr None) \<Rightarrow> (Inl nil_pointer, s)
    | Inr (Inr (Some tiContract)) \<Rightarrow>
      let token = \<lparr>it_Address = addr, it_Owner = sender, it_Version = tc_Version tiContract, it_Name = name,
          it_Symbol = symbol, it_TotalSupply = supply, it_AddSupplyEnabled = addSupplyEnabled,
          it_BurnEnabled = burnEnabled, it_GasPrice = gasprice\<rparr>
      in orLow (ts_SetToken K ts token s) (\<lambda>s.
         orLow (ts_SetTokenContract K ts (new_contract addr sender (''ut-templet-'' @ name) tiContract) s) (\<lambda>s.
         low (ts_SetBalance K (ts\<lparr>ts_ContractAddress := addr\<rparr>) sender addr supply s))))"

section \<open>Certificates\<close>

definition UDCState_Unmatured :: string where "UDCState_Unmatured = ''unmatured''"
definition UDCState_Matured :: string where "UDCState_Matured = ''matured''"
definition UDCState_Expired :: string where "UDCState_Expired = ''expired''"

definition ctx_CreateUDC :: "'db Env1 \<Rightarrow> InvokeContext \<Rightarrow> string \<Rightarrow> int \<Rightarrow> string \<Rightarrow> 'db V1 \<Rightarrow>
    ('db V1, bytes \<times> BCError) act" where
  "ctx_CreateUDC K ctx to_addr value matureDate s = (case ts_GetUDCNonce K (cx_TxState ctx) s of
     Inl e \<Rightarrow> (Inl e, s)
   | Inr (Inl e) \<Rightarrow> (Inr ([], lowE e), s)
   | Inr (Inr nonce) \<Rightarrow>
     let h = CalcUdcHash K (nonce + 1) (ts_ContractAddress (cx_TxState ctx)) (ac_Addr (cx_Sender ctx)) value matureDate;
         udc = \<lparr>ud_UDCState = UDCState_Unmatured, ud_UDCHash = h, ud_Nonce = nonce, ud_ContractAddr = to_addr,
           ud_Owner = to_addr, ud_Value = value, ud_MatureDate = matureDate\<rparr>
     in seqR (low (ts_SetUDCOrder K (cx_TxState ctx) udc s)) (\<lambda>e s. (Inr (h, e), s)))"

definition set_udc_state :: "'db Env1 \<Rightarrow> InvokeContext \<Rightarrow> string \<Rightarrow> bytes \<Rightarrow> 'db V1 \<Rightarrow> ('db V1, BCError) act" where
  "set_udc_state K ctx state udc s = (case ts_GetUDCOrder K (cx_TxState ctx) udc s of
     Inl e \<Rightarrow> (Inl e, s)
   | Inr (Inl e) \<Rightarrow> (Inr (lowE e), s)
   | Inr (Inr oldudc) \<Rightarrow> low (ts_SetUDCOrder K (cx_TxState ctx) (oldudc\<lparr>ud_UDCState := state\<rparr>) s))"

definition ctx_ExpiredUDC :: "'db Env1 \<Rightarrow> InvokeContext \<Rightarrow> bytes \<Rightarrow> 'db V1 \<Rightarrow> ('db V1, BCError) act" where
  "ctx_ExpiredUDC K ctx udc s = set_udc_state K ctx UDCState_Expired udc s"

definition ctx_MatureUDC :: "'db Env1 \<Rightarrow> InvokeContext \<Rightarrow> bytes \<Rightarrow> 'db V1 \<Rightarrow> ('db V1, BCError) act" where
  "ctx_MatureUDC K ctx udc s = set_udc_state K ctx UDCState_Matured udc s"

text \<open>\<open>ConvertPrototype2ID\<close>: the first four bytes of the method id, big-endian; fewer give 0.\<close>

definition ConvertPrototype2ID :: "'db Env1 \<Rightarrow> string \<Rightarrow> uint32" where
  "ConvertPrototype2ID K prototype = (let b = CalcMethodId K prototype in
     if length b < 4 then 0
     else foldl (\<lambda>acc x. push_bit 8 acc + ucast x) 0 (take 4 b))"

end
