(* ===== verification/V1_Gas.thy ===== *)
theory V1_Gas
  imports V1_Context
begin

text \<open>
  Gas and rewards of version 1 (\<open>contract/stubapi/invokecontext.go\<close>): the fee of a call in 64-bit
  arithmetic with overflow checks, its distribution over the reward strategy, the strategies by block height.

  A share is \<open>uint64(math.Floor(float64(v) / float64(d)))\<close>: the conversions and the quotient are rounded to
  53 significant bits, ties to even, as written out on numbers here and in \<open>Prelude\<close>. The map of rewards
  is an association list in the order of its iteration. \<open>CheckRewardStrategy\<close> is in \<open>V1_System\<close>.
\<close>

section \<open>Floating point\<close>

text \<open>
  \<open>math.Floor(a / b)\<close> for the quotient of two floats: with \<open>a / b\<close> between \<open>2^L\<close> and \<open>2^(L+1)\<close> the
  significand is \<open>a / b * 2^(52-L)\<close>, rounded.
\<close>

definition float_floor_div :: "nat \<Rightarrow> nat \<Rightarrow> nat" where
  "float_floor_div a b = (if a = 0 then 0
     else let e = 309 - int (bit_length (a * 2 ^ 256 div b)) in
       if 0 \<le> e then round_div (a * 2 ^ nat e) b div 2 ^ nat e
       else round_div a (b * 2 ^ nat (- e)) * 2 ^ nat (- e))"

section \<open>Checked arithmetic\<close>

definition safeAdd :: "uint64 \<Rightarrow> uint64 \<Rightarrow> uint64 \<times> bool" where
  "safeAdd a b = (if a > - 1 - b then (- 1, True) else (a + b, False))"

definition safeMul :: "uint64 \<Rightarrow> uint64 \<Rightarrow> uint64 \<times> bool" where
  "safeMul a b = (if a = 0 \<or> b = 0 then (0, False)
     else if a = 1 then (b, False)
     else if b = 1 then (a, False)
     else if a = - 1 \<or> b = - 1 then (0, True)
     else let c = a * b in (c, c div b \<noteq> a))"

definition calcFee :: "uint64 \<Rightarrow> uint64 \<Rightarrow> uint64 \<Rightarrow> uint64 \<times> BCError" where
  "calcFee gas gaslimit gasprice =
    (let (realgas, bcerr) = (if gaslimit < gas then (gaslimit, errC ErrCodeInterContractsInvalidGasLimit) else (gas, okE))
     in if gasprice = 0 then (0, bcerr\<lparr>ErrorCode := ErrCodeInterContractsInvalidGasPrice\<rparr>)
     else let (fee, overflow) = safeMul realgas gasprice in
       if overflow then (fee, bcerr\<lparr>ErrorCode := ErrCodeInterContractsInvalidFee\<rparr>) else (fee, bcerr))"

section \<open>Strings\<close>

text \<open>\<open>strings.Replace(s, ".", "", 1)\<close> and \<open>strings.Index(s, ".")\<close>.\<close>

fun drop_point :: "string \<Rightarrow> string" where
  "drop_point [] = []"
| "drop_point (c # s) = (if c = CHR ''.'' then s else c # drop_point s)"

fun index_point :: "string \<Rightarrow> int" where
  "index_point [] = - 1"
| "index_point (c # s) = (if c = CHR ''.'' then 0 else let i = index_point s in if i < 0 then - 1 else i + 1)"

section \<open>Strategies\<close>

definition no_strategy :: types_RewardStrategy where
  "no_strategy = \<lparr>st_Strategy = None, st_EffectHeight = 0\<rparr>"

text \<open>The loop of \<open>GetStrategy\<close>: of the strategies in effect the one with the greatest height.\<close>

fun select_strategy :: "uint64 \<Rightarrow> types_RewardStrategy list \<Rightarrow> types_RewardStrategy \<Rightarrow> types_RewardStrategy" where
  "select_strategy height [] result = result"
| "select_strategy height (strategy # strategys) result =
    select_strategy height strategys
      (if st_EffectHeight strategy \<le> height
         \<and> \<not> (st_Strategy result \<noteq> None \<and> st_EffectHeight strategy \<le> st_EffectHeight result)
       then strategy else result)"

definition ctx_GetStrategy :: "'db Env1 \<Rightarrow> InvokeContext \<Rightarrow> 'db V1 \<Rightarrow> string + types_RewardStrategy \<times> BCError" where
  "ctx_GetStrategy K ctx s = (case ts_GetStrategys K (cx_TxState ctx) s of
     Inl e \<Rightarrow> Inl e
   | Inr (Inl e) \<Rightarrow> Inr (no_strategy, lowE e)
   | Inr (Inr strategys) \<Rightarrow>
     if length strategys = 0 then Inr (no_strategy, errC ErrCodeInterContractsNoStrategys)
     else case sdb_GetWorldAppState K s of
       Inl e \<Rightarrow> Inl e
     | Inr (Inl e) \<Rightarrow> Inr (no_strategy, lowE e)
     | Inr (Inr None) \<Rightarrow> Inl nil_pointer
     | Inr (Inr (Some appState)) \<Rightarrow>
         Inr (select_strategy (of_int (BlockHeight appState + 1)) strategys no_strategy, okE))"

text \<open>\<open>big.Int.Uint64\<close>: the low 64 bits.\<close>

definition big_Uint64 :: "int \<Rightarrow> uint64" where
  "big_Uint64 v = word_of_int \<bar>v\<bar>"

text \<open>The divisor: a one and as many zeros as digits after the point, two more.\<close>

definition percent_divisor :: "string \<Rightarrow> nat" where
  "percent_divisor p = nat (snd (Atoi (CHR ''1'' # replicate (nat (int (length p) - index_point p + 1)) (CHR ''0''))))"

definition share_of :: "uint64 \<Rightarrow> string \<Rightarrow> uint64" where
  "share_of product p = of_nat (float_floor_div (float64 (unat product)) (float64 (percent_divisor p)))"

text \<open>The loop of \<open>CalcdRewards\<close>: an entry of the map is set, not added to. \<open>None\<close> is an error return.\<close>

fun reward_loop :: "uint64 \<Rightarrow> string \<Rightarrow> types_Rewarder list \<Rightarrow> (string, uint64) gomap \<Rightarrow> uint64 \<Rightarrow>
    (string, uint64) gomap \<times> uint64 option" where
  "reward_loop value rewarder [] rewardValues sumValue = (rewardValues, Some sumValue)"
| "reward_loop value rewarder (item # items) rewardValues sumValue =
    (case Atoi (drop_point (wr_RewardPercent item)) of
       (False, _) \<Rightarrow> (rewardValues, None)
     | (True, rewardRatioI) \<Rightarrow>
       (case safeMul value (word_of_int rewardRatioI) of
          (_, True) \<Rightarrow> (rewardValues, None)
        | (product, False) \<Rightarrow>
          let rewardValue = share_of product (wr_RewardPercent item);
              addr = (if wr_Name item = ''validators'' then rewarder else wr_Address item)
          in reward_loop value rewarder items (AList.update addr rewardValue rewardValues) (sumValue + rewardValue)))"

definition val_at :: "(string, uint64) gomap \<Rightarrow> string \<Rightarrow> uint64" where
  "val_at m k = (case map_of m k of None \<Rightarrow> 0 | Some v \<Rightarrow> v)"

definition CalcdRewards :: "types_RewardStrategy \<Rightarrow> int \<Rightarrow> string \<Rightarrow> (string, uint64) gomap \<times> BCError" where
  "CalcdRewards strategy value rewarder =
    (case reward_loop (big_Uint64 value) rewarder (list_of (st_Strategy strategy)) [] 0 of
       (rewardValues, None) \<Rightarrow> (rewardValues, errC ErrCodeInterContractsInvalidParameter)
     | (rewardValues, Some sumValue) \<Rightarrow>
       if sumValue < big_Uint64 value
       then (AList.update rewarder (val_at rewardValues rewarder + (big_Uint64 value - sumValue)) rewardValues, okE)
       else if big_Uint64 value < sumValue then (rewardValues, errC ErrCodeInterContractsInvalidParameter)
       else (rewardValues, okE))"

fun setRewardBalances :: "'db Env1 \<Rightarrow> TxState \<Rightarrow> (string, uint64) gomap \<Rightarrow> 'db V1 \<Rightarrow> ('db V1, BCError) act" where
  "setRewardBalances K ts [] s = (Inr okE, s)"
| "setRewardBalances K ts ((key, value) # rewardValues) s =
    (case ts_GetBalance K ts key (ts_ContractAddress ts) s of
       Inl e \<Rightarrow> (Inl e, s)
     | Inr (Inl e) \<Rightarrow> (Inr (lowE e), s)
     | Inr (Inr proBalance) \<Rightarrow>
       orLow (ts_SetBalance K ts key (ts_ContractAddress ts) (Big_Add K proBalance (UintToBigInt K value)) s)
         (\<lambda>s. setRewardBalances K ts rewardValues s))"

section \<open>Paying for gas\<close>

definition ctx_CheckValidatorRewardAddr :: "'db Env1 \<Rightarrow> string \<Rightarrow> string \<Rightarrow> 'db V1 \<Rightarrow> string + BCError" where
  "ctx_CheckValidatorRewardAddr K validatorAddr rewardAddr s = (case sdb_GetValidator K validatorAddr s of
     Inl e \<Rightarrow> Inl e
   | Inr (Inr (Some validator)) \<Rightarrow>
       if tv_RewardAddr validator \<noteq> rewardAddr then Inr (errC ErrCodeInterContractsInvalidRewarderAddr) else Inr okE
   | _ \<Rightarrow> Inr (errC ErrCodeInterContractsNoValidators))"

record GasResult =
  gr_gasused :: uint64
  gr_gasprice :: uint64
  gr_rewards :: "(string, uint64) gomap"
  gr_error :: BCError

definition gasErr :: "BCError \<Rightarrow> GasResult" where
  "gasErr e = \<lparr>gr_gasused = 0, gr_gasprice = 0, gr_rewards = [], gr_error = e\<rparr>"

text \<open>A read whose error ends the call.\<close>

definition getGas :: "'a option res \<Rightarrow> BCError \<Rightarrow> 's \<Rightarrow> ('a \<Rightarrow> ('s, GasResult) act) \<Rightarrow> ('s, GasResult) act" where
  "getGas r absent s f = (case r of
     Inl e \<Rightarrow> (Inl e, s)
   | Inr (Inl e) \<Rightarrow> (Inr (gasErr (lowE e)), s)
   | Inr (Inr None) \<Rightarrow> (Inr (gasErr absent), s)
   | Inr (Inr (Some a)) \<Rightarrow> f a)"

definition onError :: "('s, BCError) act \<Rightarrow> ('s \<Rightarrow> ('s, GasResult) act) \<Rightarrow> ('s, GasResult) act" where
  "onError m f = seqR m (\<lambda>e s. if isOK e then f s else (Inr (gasErr e), s))"

text \<open>The rewards of the proposer's block: strategy, shares, balances.\<close>

definition pay_rewards :: "'db Env1 \<Rightarrow> InvokeContext \<Rightarrow> TxState \<Rightarrow> int \<Rightarrow> string \<Rightarrow> 'db V1 \<Rightarrow>
    ('db V1, (string, uint64) gomap \<times> BCError) act" where
  "pay_rewards K ctx genTxState value rewarder s =
    need (ctx_GetStrategy K ctx s) s (\<lambda>(strategy, e1).
    if \<not> isOK e1 then (Inr ([], e1), s)
    else let (rewardValues, e2) = CalcdRewards strategy value rewarder in
      if \<not> isOK e2 then (Inr ([], e2), s)
      else seqR (setRewardBalances K genTxState rewardValues s) (\<lambda>e3 s. (Inr (rewardValues, e3), s)))"

text \<open>The token whose gas price counts: that of the contract, else the basic token.\<close>

definition price_token :: "'db Env1 \<Rightarrow> InvokeContext \<Rightarrow> Account1 \<Rightarrow> IssueToken \<Rightarrow> 'db V1 \<Rightarrow> IssueToken res" where
  "price_token K ctx sender tokenbasic s =
    tryR (ts_GetToken K (cx_TxState ctx) (ts_ContractAddress (ac_TxState sender)) s) (\<lambda>t.
      Inr (Inr (case t of None \<Rightarrow> tokenbasic | Some tok \<Rightarrow> tok)))"

text \<open>The second half: the sender pays what is due or what is left, the rewards are paid, the buffer is committed.\<close>

definition pay_gas :: "'db Env1 \<Rightarrow> InvokeContext \<Rightarrow> Account1 \<Rightarrow> string option \<Rightarrow> string option \<Rightarrow> IssueToken \<Rightarrow>
    IssueToken \<Rightarrow> int \<Rightarrow> TxState \<Rightarrow> uint64 \<Rightarrow> BCError \<Rightarrow> 'db V1 \<Rightarrow> ('db V1, GasResult) act" where
  "pay_gas K ctx sender proposer rewarder tokenbasic token senderBalance genTxState fee bcerr0 s =
    (let short = Big_Compare K senderBalance (UintToBigInt K fee) < 0;
         bcerr = (if short then bcerr0\<lparr>ErrorCode := ErrCodeInterContractsInsufficientBalance\<rparr> else bcerr0);
         value = (if short then senderBalance else UintToBigInt K fee);
         newSenderBalance = (if short then 0 else Big_Sub K senderBalance (UintToBigInt K fee));
         senderBasic = \<lparr>ac_Addr = ac_Addr sender, ac_TxState = genTxState\<rparr>
     in onError (acct_SetBalance K senderBasic (it_Address tokenbasic) newSenderBalance s) (\<lambda>s.
     case proposer of
       None \<Rightarrow> seqR (ts_CommitTx genTxState s) (\<lambda>_ s. (Inr (gasErr bcerr), s))
     | Some _ \<Rightarrow> (case rewarder of
         None \<Rightarrow> (Inl nil_pointer, s)
       | Some rw \<Rightarrow> seqR (pay_rewards K ctx genTxState value rw s) (\<lambda>(rewardValues, e) s.
           if \<not> isOK e then (Inr (gasErr e), s)
           else seqR (ts_CommitTx genTxState s) (\<lambda>_ s.
             (Inr \<lparr>gr_gasused = fee div it_GasPrice token, gr_gasprice = it_GasPrice token,
                gr_rewards = rewardValues, gr_error = bcerr\<rparr>, s))))))"

text \<open>When no basic token is stored, the text of a \<open>nil\<close> error is read, which panics.\<close>

definition CheckAndPayForGas :: "'db Env1 \<Rightarrow> InvokeContext \<Rightarrow> Account1 \<Rightarrow> string option \<Rightarrow> string option \<Rightarrow>
    uint64 \<Rightarrow> uint64 \<Rightarrow> 'db V1 \<Rightarrow> ('db V1, GasResult) act" where
  "CheckAndPayForGas K ctx sender proposer rewarder gas gaslimit s =
    need (case proposer of
        None \<Rightarrow> Inr okE
      | Some p \<Rightarrow> (case rewarder of None \<Rightarrow> Inl nil_pointer | Some r \<Rightarrow> ctx_CheckValidatorRewardAddr K p r s)) s (\<lambda>e0.
    if \<not> isOK e0 then (Inr (gasErr e0), s)
    else case ts_GetGenesisToken K (ac_TxState sender) s of
      Inl e \<Rightarrow> (Inl e, s)
    | Inr (Inl e) \<Rightarrow> (Inr (gasErr (lowE e)), s)
    | Inr (Inr None) \<Rightarrow> (Inl nil_pointer, s)
    | Inr (Inr (Some tokenbasic)) \<Rightarrow>
      seqR (sdb_NewTxState (it_Address tokenbasic) (ac_Addr sender) s) (\<lambda>genTxState s.
      need (acct_BalanceOf K \<lparr>ac_Addr = ac_Addr sender, ac_TxState = genTxState\<rparr> (it_Address tokenbasic) s) s
        (\<lambda>(senderBalance, e1).
      if \<not> isOK e1 then (Inr (gasErr e1), s)
      else getGas (sdb_GetContract K (ts_ContractAddress (ac_TxState sender)) s)
        (errC ErrCodeInterContractsInvalidAddr) s (\<lambda>_.
      case price_token K ctx sender tokenbasic s of
        Inl e \<Rightarrow> (Inl e, s)
      | Inr (Inl e) \<Rightarrow> (Inr (gasErr (lowE e)), s)
      | Inr (Inr token) \<Rightarrow>
        let (fee, bcerr) = calcFee gas gaslimit (it_GasPrice token)
        in if \<not> isOK bcerr \<and> ErrorCode bcerr \<noteq> ErrCodeInterContractsInvalidGasLimit then (Inr (gasErr bcerr), s)
           else pay_gas K ctx sender proposer rewarder tokenbasic token senderBalance genTxState fee bcerr s))))"

section \<open>Changing the strategies\<close>

text \<open>A missing application state is a \<open>nil\<close> pointer, which is read.\<close>

definition current_height :: "'db Env1 \<Rightarrow> 'db V1 \<Rightarrow> uint64 res" where
  "current_height K s = tryR (sdb_GetWorldAppState K s) (\<lambda>v. case v of
     None \<Rightarrow> Inl nil_pointer | Some appState \<Rightarrow> Inr (Inr (of_int (BlockHeight appState))))"

definition low_err :: "'a res \<Rightarrow> ('a \<Rightarrow> string + BCError) \<Rightarrow> string + BCError" where
  "low_err r f = (case r of Inl e \<Rightarrow> Inl e | Inr (Inl e) \<Rightarrow> Inr (lowE e) | Inr (Inr a) \<Rightarrow> f a)"

definition ctx_CheckEffectHeight :: "'db Env1 \<Rightarrow> InvokeContext \<Rightarrow> uint64 \<Rightarrow> 'db V1 \<Rightarrow> string + BCError" where
  "ctx_CheckEffectHeight K ctx effectHeight s =
    low_err (current_height K s) (\<lambda>height.
    if effectHeight \<le> height then Inr (errC ErrCodeInterContractsInvalidParameter)
    else low_err (ts_GetStrategys K (cx_TxState ctx) s) (\<lambda>rewardStrategys.
      if \<exists>item \<in> set rewardStrategys. effectHeight \<le> st_EffectHeight item
      then Inr (errC ErrCodeInterContractsInvalidParameter) else Inr okE))"

text \<open>
  The loop of \<open>UpdateRewardStrategy\<close>: of the strategies up to the current height the latest is kept, in front of
  those to come.
\<close>

fun keep_strategies :: "uint64 \<Rightarrow> types_RewardStrategy list \<Rightarrow> types_RewardStrategy list \<Rightarrow> types_RewardStrategy \<Rightarrow>
    types_RewardStrategy list \<times> types_RewardStrategy" where
  "keep_strategies height [] result pre = (result, pre)"
| "keep_strategies height (r # rs) result pre =
    (if st_EffectHeight r \<le> height
     then if st_EffectHeight r \<le> st_EffectHeight pre then keep_strategies height rs result pre
          else keep_strategies height rs result r
     else if st_EffectHeight pre \<noteq> 0
       then keep_strategies height rs (result @ [pre, r]) (pre\<lparr>st_EffectHeight := 0\<rparr>)
       else keep_strategies height rs (result @ [r]) pre)"

definition ctx_UpdateRewardStrategy :: "'db Env1 \<Rightarrow> InvokeContext \<Rightarrow> bytes \<Rightarrow> uint64 \<Rightarrow> 'db V1 \<Rightarrow> ('db V1, BCError) act" where
  "ctx_UpdateRewardStrategy K ctx strategy effectHeight s = (case current_height K s of
     Inl e \<Rightarrow> (Inl e, s)
   | Inr (Inl e) \<Rightarrow> (Inr (lowE e), s)
   | Inr (Inr height) \<Rightarrow> (case ts_GetStrategys K (cx_TxState ctx) s of
       Inl e \<Rightarrow> (Inl e, s)
     | Inr (Inl e) \<Rightarrow> (Inr (lowE e), s)
     | Inr (Inr rewardStrategys) \<Rightarrow>
       let (result, pre) = keep_strategies height rewardStrategys [] no_strategy;
           result1 = (if length result = 0 \<and> st_EffectHeight pre \<noteq> 0 then [pre] else result);
           newRewarder = (case unmarshal (k_Rewarders K) strategy of Inl _ \<Rightarrow> None | Inr r \<Rightarrow> r)
       in low (ts_SetStrategys K (cx_TxState ctx)
            (result1 @ [\<lparr>st_Strategy = newRewarder, st_EffectHeight = effectHeight\<rparr>]) s)))"

end
