(* ===== verification/V1_Validators.thy ===== *)
theory V1_Validators
  imports V1_Gas
begin

text \<open>
  The validators of the chain, as the system contract manages them
  (\<open>contract/stubapi/invokecontext.go\<close>): their pw in 64-bit arithmetic, their names, their reward
  addresses. The address of a public key depends on the chain, whose name \<open>statedbhelper.GetChainID\<close> gives.
\<close>

definition helper_ChainID :: "'db Env1 \<Rightarrow> 'db V1 \<Rightarrow> ('db V1, string) act" where
  "helper_ChainID K s = (let (r, h) = GetChainID (ext1 K) (jsn (env K)) (v_helper s) in (r, s\<lparr>v_helper := h\<rparr>))"

definition node_addr :: "'db Env1 \<Rightarrow> bytes \<Rightarrow> 'db V1 \<Rightarrow> ('db V1, string) act" where
  "node_addr K pubKey s = seqR (helper_ChainID K s) (\<lambda>cid s.
     (Inr (Address_of (env K) (PubKeyEd25519FromBytes (env K) pubKey) cid), s))"

text \<open>
  The loop of \<open>checkValidatorsPower\<close>: total pw, greatest pw, whether the validator was there. Its own
  entry counts with the new pw, once. \<open>None\<close> is an overflow.
\<close>

fun power_loop :: "string \<Rightarrow> uint64 \<Rightarrow> types_Validator list \<Rightarrow> uint64 \<Rightarrow> uint64 \<Rightarrow> bool \<Rightarrow>
    (uint64 \<times> uint64 \<times> bool) option" where
  "power_loop addr pw [] totalPower maxPower has = Some (totalPower, maxPower, has)"
| "power_loop addr pw (validator # validators) totalPower maxPower has =
    (let own = (\<not> has \<and> tv_NodeAddr validator = addr);
         p = (if own then pw else tv_Power validator)
     in case safeAdd totalPower p of
       (_, True) \<Rightarrow> None
     | (newtotalPower, False) \<Rightarrow>
         power_loop addr pw validators newtotalPower (if maxPower < p then p else maxPower) (has \<or> own))"

definition power_ok :: "string \<Rightarrow> uint64 \<Rightarrow> types_Validator list \<Rightarrow> bool" where
  "power_ok addr pw validators = (case power_loop addr pw validators 0 0 False of
     None \<Rightarrow> False
   | Some (totalPower, maxPower, has) \<Rightarrow>
     let total1 = (if has then totalPower else totalPower + pw);
         max1 = (if \<not> has \<and> maxPower < pw then pw else maxPower)
     in max1 < total1 * 1 div 3)"

definition checkValidatorsPower :: "'db Env1 \<Rightarrow> bytes \<Rightarrow> uint64 \<Rightarrow> 'db V1 \<Rightarrow> ('db V1, BCError) act" where
  "checkValidatorsPower K pubKey pw s = (case sdb_GetAllValidators K s of
     Inl e \<Rightarrow> (Inl e, s)
   | Inr (Inl e) \<Rightarrow> (Inr (lowE e), s)
   | Inr (Inr validators) \<Rightarrow> seqR (node_addr K pubKey s) (\<lambda>addr s.
       (Inr (if power_ok addr pw validators then okE else errC ErrCodeInterContractsInvalidPower), s)))"

definition ctx_AddValidator :: "'db Env1 \<Rightarrow> InvokeContext \<Rightarrow> string \<Rightarrow> bytes \<Rightarrow> string \<Rightarrow> uint64 \<Rightarrow> 'db V1 \<Rightarrow>
    ('db V1, BCError) act" where
  "ctx_AddValidator K ctx name pubKey rewardAddr pw s =
    (if length name = 0 \<or> length pubKey \<noteq> 32 \<or> pw = 0
     then (Inr (errC ErrCodeInterContractsInvalidParameter), s)
     else checkE (checkValidatorsPower K pubKey pw s) (\<lambda>s.
       seqR (node_addr K pubKey s) (\<lambda>addr s.
       low (ts_SetValidator K (cx_TxState ctx)
         \<lparr>tv_Name = name, tv_NodePubKey = PubKeyBytes K (PubKeyEd25519FromBytes (env K) pubKey), tv_NodeAddr = addr,
          tv_RewardAddr = rewardAddr, tv_Power = pw\<rparr> s))))"

definition ctx_GetValidatorUpdate :: "'db Env1 \<Rightarrow> bytes \<Rightarrow> 'db V1 \<Rightarrow> ('db V1, string) act" where
  "ctx_GetValidatorUpdate K pubKey s = node_addr K pubKey s"

text \<open>Errors of \<open>GetValidator\<close> are dropped.\<close>

definition stored_validator :: "'db Env1 \<Rightarrow> string \<Rightarrow> 'db V1 \<Rightarrow> string + types_Validator option" where
  "stored_validator K addr s = (case sdb_GetValidator K addr s of
     Inl e \<Rightarrow> Inl e | Inr (Inl _) \<Rightarrow> Inr None | Inr (Inr v) \<Rightarrow> Inr v)"

definition ctx_HasValidator :: "'db Env1 \<Rightarrow> bytes \<Rightarrow> 'db V1 \<Rightarrow> ('db V1, bool) act" where
  "ctx_HasValidator K pubKey s = seqR (node_addr K pubKey s) (\<lambda>addr s.
     need (stored_validator K addr s) s (\<lambda>v.
     (Inr (case v of None \<Rightarrow> False | Some validator \<Rightarrow> tv_Power validator \<noteq> 0), s)))"

text \<open>
  \<open>hex.DecodeString\<close>: what was decoded before the first character that is no digit (the error is dropped).
  The list of the validators holds addresses, but it is read as one of public keys.
\<close>

fun hex_decode :: "string \<Rightarrow> bytes" where
  "hex_decode (a # b # s) = (case (hex_digit a, hex_digit b) of
     (Some x, Some y) \<Rightarrow> of_nat (16 * x + y) # hex_decode s
   | _ \<Rightarrow> [])"
| "hex_decode _ = []"

fun name_loop :: "'db Env1 \<Rightarrow> string \<Rightarrow> string list \<Rightarrow> 'db V1 \<Rightarrow> ('db V1, BCError) act" where
  "name_loop K name [] s = (Inr okE, s)"
| "name_loop K name (pubkey # pubkeys) s = seqR (node_addr K (hex_decode pubkey) s) (\<lambda>addr s.
     need (stored_validator K addr s) s (\<lambda>v. case v of
       Some validator \<Rightarrow> if tv_Name validator = name \<and> tv_Power validator \<noteq> 0
         then (Inr (errC ErrCodeInterContractsDupName), s) else name_loop K name pubkeys s
     | None \<Rightarrow> name_loop K name pubkeys s))"

definition ctx_CheckValidatorName :: "'db Env1 \<Rightarrow> InvokeContext \<Rightarrow> string \<Rightarrow> 'db V1 \<Rightarrow> ('db V1, BCError) act" where
  "ctx_CheckValidatorName K ctx name s =
    getOr (ts_GetAllValidatorPubKeys K (cx_TxState ctx) s) (errC ErrCodeInterContractsNoValidators) s
      (\<lambda>pubkeys. name_loop K name pubkeys s)"

text \<open>The validator of a public key, or \<open>ErrCodeInterContractsNoValidators\<close>.\<close>

definition with_validator :: "'db Env1 \<Rightarrow> bytes \<Rightarrow> 'db V1 \<Rightarrow>
    (types_Validator \<Rightarrow> 'db V1 \<Rightarrow> ('db V1, BCError) act) \<Rightarrow> ('db V1, BCError) act" where
  "with_validator K pubKey s f = seqR (node_addr K pubKey s) (\<lambda>addr s.
     need (stored_validator K addr s) s (\<lambda>v. case v of
       None \<Rightarrow> (Inr (errC ErrCodeInterContractsNoValidators), s) | Some validator \<Rightarrow> f validator s))"

definition ctx_SetValidatorPower :: "'db Env1 \<Rightarrow> InvokeContext \<Rightarrow> bytes \<Rightarrow> uint64 \<Rightarrow> 'db V1 \<Rightarrow> ('db V1, BCError) act" where
  "ctx_SetValidatorPower K ctx pubKey pw s =
    checkE (checkValidatorsPower K pubKey pw s) (\<lambda>s.
    with_validator K pubKey s (\<lambda>validator s.
      low (ts_SetValidator K (cx_TxState ctx) (validator\<lparr>tv_Power := pw\<rparr>) s)))"

definition ctx_SetValidatorRewardAddr :: "'db Env1 \<Rightarrow> InvokeContext \<Rightarrow> bytes \<Rightarrow> string \<Rightarrow> 'db V1 \<Rightarrow> ('db V1, BCError) act" where
  "ctx_SetValidatorRewardAddr K ctx pubKey rewardAddr s =
    with_validator K pubKey s (\<lambda>validator s.
    need (sdb_GetChainID K s) s (\<lambda>cid. case CheckAddress K cid rewardAddr of
      Some e \<Rightarrow> (Inr (lowE e), s)
    | None \<Rightarrow> low (ts_SetValidator K (cx_TxState ctx) (validator\<lparr>tv_RewardAddr := rewardAddr\<rparr>) s)))"

end
