(* ===== verification/V1_Contracts.thy ===== *)
theory V1_Contracts
  imports V1_Validators
begin

text \<open>
  The token contracts of version 1: the contract base (\<open>contract/contract.go\<close>), \<open>TokenTemplet\<close>
  (\<open>contract/tokentemplet\<close>), \<open>TokenBasic\<close> (\<open>contract/tokenbasic\<close>) and \<open>TokenIssue\<close>
  (\<open>contract/tokenissue\<close>). A method runs in the context of its call and returns a \<open>BCError\<close>. The methods of
  \<open>TokenTemplet\<close> on certificates have no body in the code and are left out.
\<close>

section \<open>The base of a contract (\<open>contract.go\<close>)\<close>

definition GetAccount :: "InvokeContext \<Rightarrow> string \<Rightarrow> Account1" where
  "GetAccount ctx to_addr = \<lparr>ac_Addr = to_addr, ac_TxState = cx_TxState ctx\<rparr>"

text \<open>\<open>Balance\<close> drops the error.\<close>

definition Balance :: "'db Env1 \<Rightarrow> Account1 \<Rightarrow> string \<Rightarrow> 'db V1 \<Rightarrow> string + int" where
  "Balance K account tokenAddr s = andThen (acct_BalanceOf K account tokenAddr s) (\<lambda>(v, _). Inr v)"

definition own_addr :: "InvokeContext \<Rightarrow> string" where
  "own_addr ctx = ts_ContractAddress (cx_TxState ctx)"

definition CalcAddress :: "'db Env1 \<Rightarrow> InvokeContext \<Rightarrow> string \<Rightarrow> 'db V1 \<Rightarrow> string + string" where
  "CalcAddress K ctx name s = (case ctx_GetTokenIssueContract K ctx s of
     Inl e \<Rightarrow> Inl e
   | Inr (Inr (Some tiContract)) \<Rightarrow> andThen (ts_GetChainID K (cx_TxState ctx) s) (\<lambda>cid.
       Inr (CalcContractAddress K cid (ac_Addr (cx_Owner ctx)) name (tc_Version tiContract)))
   | _ \<Rightarrow> Inr [])"

definition CheckRewardAddress :: "'db Env1 \<Rightarrow> string \<Rightarrow> 'db V1 \<Rightarrow> string + BCError" where
  "CheckRewardAddress K rewardAddr s = andThen (sdb_GetChainID K s) (\<lambda>cid.
     Inr (case CheckAddress K cid rewardAddr of None \<Rightarrow> okE | Some e \<Rightarrow> lowE e))"

section \<open>Transfers\<close>

definition negative :: BCError where
  "negative = errD ErrCodeInterContractsInvalidParameter ''Invalid value: it cannot be a negative''"

text \<open>What a debit and a credit check before the balance is set.\<close>

definition debit :: "'db Env1 \<Rightarrow> InvokeContext \<Rightarrow> Account1 \<Rightarrow> int \<Rightarrow> int \<Rightarrow> 'db V1 \<Rightarrow> ('db V1, BCError) act" where
  "debit K ctx account old value s = (let new = Big_Sub K old value in
     if Big_Compare K new (Big_Zero K) < 0 then (Inr (errC ErrCodeInterContractsInsufficientBalance), s)
     else if 0 < Big_Compare K new old then (Inr (errC ErrCodeInterContractsInvalidBalance), s)
     else acct_SetBalance K account (own_addr ctx) new s)"

definition credit_to :: "'db Env1 \<Rightarrow> InvokeContext \<Rightarrow> Account1 \<Rightarrow> int \<Rightarrow> 'db V1 \<Rightarrow> ('db V1, BCError) act" where
  "credit_to K ctx account value s = need (Balance K account (own_addr ctx) s) s (\<lambda>old.
     let new = Big_Add K old value in
     if Big_Compare K new old < 0 then (Inr (errC ErrCodeInterContractsInvalidBalance), s)
     else acct_SetBalance K account (own_addr ctx) new s)"

definition Templet_Transfer :: "'db Env1 \<Rightarrow> InvokeContext \<Rightarrow> string \<Rightarrow> int \<Rightarrow> 'db V1 \<Rightarrow> ('db V1, BCError) act" where
  "Templet_Transfer K ctx to_addr value s =
    (if Big_Compare K value (Big_Zero K) < 0 then (Inr negative, s)
     else if ac_Addr (cx_Sender ctx) = to_addr then (Inr (errC ErrCodeInterContractsUnsupportTransToSelf), s)
     else need (Balance K (cx_Sender ctx) (own_addr ctx) s) s (\<lambda>old.
       checkE (debit K ctx (cx_Sender ctx) old value s) (\<lambda>s.
       credit_to K ctx (GetAccount ctx to_addr) value s)))"

text \<open>\<open>TokenBasic.Transfer\<close> has the same body.\<close>

definition Basic_Transfer :: "'db Env1 \<Rightarrow> InvokeContext \<Rightarrow> string \<Rightarrow> int \<Rightarrow> 'db V1 \<Rightarrow> ('db V1, BCError) act" where
  "Basic_Transfer K ctx to_addr value s =
    (if Big_Compare K value (Big_Zero K) < 0 then (Inr negative, s)
     else if ac_Addr (cx_Sender ctx) = to_addr then (Inr (errC ErrCodeInterContractsUnsupportTransToSelf), s)
     else need (Balance K (cx_Sender ctx) (own_addr ctx) s) s (\<lambda>old.
       checkE (debit K ctx (cx_Sender ctx) old value s) (\<lambda>s.
       credit_to K ctx (GetAccount ctx to_addr) value s)))"

fun batch_loop :: "'db Env1 \<Rightarrow> InvokeContext \<Rightarrow> string list \<Rightarrow> int \<Rightarrow> 'db V1 \<Rightarrow> ('db V1, BCError) act" where
  "batch_loop K ctx [] value s = (Inr okE, s)"
| "batch_loop K ctx (to_addr # toList) value s =
    (if ac_Addr (cx_Sender ctx) = to_addr then (Inr (errC ErrCodeInterContractsUnsupportTransToSelf), s)
     else checkE (credit_to K ctx (GetAccount ctx to_addr) value s) (\<lambda>s. batch_loop K ctx toList value s))"

definition Templet_BatchTransfer :: "'db Env1 \<Rightarrow> InvokeContext \<Rightarrow> string list \<Rightarrow> int \<Rightarrow> 'db V1 \<Rightarrow> ('db V1, BCError) act" where
  "Templet_BatchTransfer K ctx toList value s =
    (if Big_Compare K value (Big_Zero K) < 0 then (Inr negative, s)
     else if 1000 < length toList then (Inr (errD ErrCodeInterContractsOutOfRange
       ''Exceeds the limit:, up to 1000 accounts be supported for batch transfer''), s)
     else case Big_Multi K value (length toList) of
       Inl e \<Rightarrow> (Inr (lowE e), s)
     | Inr total_value \<Rightarrow>
       if Big_Compare K total_value value < 0 then (Inr (errC ErrCodeInterContractsOutOfRange), s)
       else need (Balance K (cx_Sender ctx) (own_addr ctx) s) s (\<lambda>old.
         checkE (debit K ctx (cx_Sender ctx) old total_value s) (\<lambda>s. batch_loop K ctx toList value s)))"

section \<open>Supply and owner\<close>

text \<open>\<open>Contract.Token\<close> is the contract's own address; \<open>SetSupply\<close> and \<open>Burn\<close> are \<open>SetTokenSupply\<close> with a flag.\<close>

definition Token_SetSupply :: "'db Env1 \<Rightarrow> InvokeContext \<Rightarrow> int \<Rightarrow> 'db V1 \<Rightarrow> ('db V1, BCError) act" where
  "Token_SetSupply K ctx value s = ctx_SetTokenSupply K ctx value True False s"

definition Token_Burn :: "'db Env1 \<Rightarrow> InvokeContext \<Rightarrow> int \<Rightarrow> 'db V1 \<Rightarrow> ('db V1, BCError) act" where
  "Token_Burn K ctx value s = ctx_SetTokenSupply K ctx value False True s"

definition only_owner :: "InvokeContext \<Rightarrow> 'db V1 \<Rightarrow> ('db V1, BCError) act \<Rightarrow> ('db V1, BCError) act" where
  "only_owner ctx s m = (if ac_Addr (cx_Sender ctx) \<noteq> ac_Addr (cx_Owner ctx)
     then (Inr (errC ErrCodeInterContractsNoAuthorization), s) else m)"

definition Templet_AddSupply :: "'db Env1 \<Rightarrow> InvokeContext \<Rightarrow> int \<Rightarrow> 'db V1 \<Rightarrow> ('db V1, BCError) act" where
  "Templet_AddSupply K ctx value s =
    (if Big_Compare K value (Big_Zero K) \<le> 0 then (Inr negative, s)
     else only_owner ctx s (need (ctx_TokenSupply K ctx s) s (\<lambda>(totalSupply, e).
       if \<not> isOK e then (Inr e, s)
       else let newSupply = Big_Add K totalSupply value in
         if Big_Compare K newSupply totalSupply < 0 then (Inr (e\<lparr>ErrorCode := ErrCodeInterContractsInvalidSupply\<rparr>), s)
         else checkE (Token_SetSupply K ctx newSupply s) (\<lambda>s.
           credit_to K ctx (cx_Owner ctx) value s))))"

text \<open>The error of \<open>GetTotalSupply\<close> is dropped; the balance is set before the supply is checked.\<close>

definition Templet_Burn :: "'db Env1 \<Rightarrow> InvokeContext \<Rightarrow> int \<Rightarrow> 'db V1 \<Rightarrow> ('db V1, BCError) act" where
  "Templet_Burn K ctx value s =
    (if Big_Compare K value (Big_Zero K) < 0 then (Inr negative, s)
     else only_owner ctx s (need (Balance K (cx_Owner ctx) (own_addr ctx) s) s (\<lambda>old.
       checkE (let new = Big_Sub K old value in
         if Big_Compare K new (Big_Zero K) < 0 then (Inr (errC ErrCodeInterContractsInsufficientBalance), s)
         else if 0 < Big_Compare K new old then (Inr (errC ErrCodeInterContractsInvalidBalance), s)
         else acct_SetBalance K (cx_Sender ctx) (own_addr ctx) new s) (\<lambda>s.
       need (ctx_TokenSupply K ctx s) s (\<lambda>(totalSupply, _).
       let newSupply = Big_Sub K totalSupply value in
       if 0 < Big_Compare K newSupply totalSupply then (Inr (errC ErrCodeInterContractsInvalidSupply), s)
       else if Big_Compare K newSupply 1000000000 < 0
       then (Inr (errD ErrCodeInterContractsInvalidSupply ''Invalid supply: token supply is less than limit''), s)
       else Token_Burn K ctx newSupply s)))))"

definition Templet_SetOwner :: "'db Env1 \<Rightarrow> InvokeContext \<Rightarrow> string \<Rightarrow> 'db V1 \<Rightarrow> ('db V1, BCError) act" where
  "Templet_SetOwner K ctx newOwner s =
    only_owner ctx s (need (Balance K (cx_Owner ctx) (own_addr ctx) s) s (\<lambda>balance.
      checkE (Templet_Transfer K ctx newOwner balance s) (\<lambda>s. ctx_SetTokenNewOwner K ctx newOwner s)))"

section \<open>Prices\<close>

definition Max_Gas_Price :: uint64 where
  "Max_Gas_Price = 1000000000"

text \<open>The same body in \<open>TokenTemplet\<close> and \<open>TokenBasic\<close>.\<close>

definition Templet_SetGasPrice :: "'db Env1 \<Rightarrow> InvokeContext \<Rightarrow> uint64 \<Rightarrow> 'db V1 \<Rightarrow> ('db V1, BCError) act" where
  "Templet_SetGasPrice K ctx value s =
    only_owner ctx s (need (ctx_GasBasePrice K ctx s) s (\<lambda>base.
      if value < base \<or> Max_Gas_Price < value then (Inr (errC ErrCodeInterContractsInvalidGasPrice), s)
      else ctx_SetGasPrice K ctx value s))"

definition Basic_SetGasPrice :: "'db Env1 \<Rightarrow> InvokeContext \<Rightarrow> uint64 \<Rightarrow> 'db V1 \<Rightarrow> ('db V1, BCError) act" where
  "Basic_SetGasPrice K ctx value s =
    only_owner ctx s (need (ctx_GasBasePrice K ctx s) s (\<lambda>base.
      if value < base \<or> Max_Gas_Price < value then (Inr (errC ErrCodeInterContractsInvalidGasPrice), s)
      else ctx_SetGasPrice K ctx value s))"

definition Basic_SetGasBasePrice :: "'db Env1 \<Rightarrow> InvokeContext \<Rightarrow> uint64 \<Rightarrow> 'db V1 \<Rightarrow> ('db V1, BCError) act" where
  "Basic_SetGasBasePrice K ctx value s =
    only_owner ctx s (if value < 1 \<or> Max_Gas_Price < value
      then (Inr (errC ErrCodeInterContractsInvalidGasPrice), s) else ctx_SetGasBasePrice K ctx value s)"

section \<open>Issuing a token\<close>

definition invalid :: "string \<Rightarrow> BCError" where
  "invalid d = errD ErrCodeInterContractsInvalidParameter d"

definition Issue_NewToken :: "'db Env1 \<Rightarrow> InvokeContext \<Rightarrow> string \<Rightarrow> string \<Rightarrow> int \<Rightarrow> bool \<Rightarrow> bool \<Rightarrow> uint64 \<Rightarrow>
    'db V1 \<Rightarrow> ('db V1, string \<times> BCError) act" where
  "Issue_NewToken K ctx name symbol supply addSupplyEnabled burnEnabled gasprice s =
    (if length name = 0 then (Inr ([], invalid ''Invalid name: token name cannot be empty''), s)
     else if 40 < length name then (Inr ([], invalid ''Invalid name: token name cannot be more than 40 characters''), s)
     else if length symbol = 0 then (Inr ([], invalid ''Invalid symbol: token symbol cannot be empty''), s)
     else if 20 < length symbol then (Inr ([], invalid ''Invalid symbol: token symbol cannot be more than 20 characters''), s)
     else if Big_Compare K supply 1000000000 < 0 \<and> Big_Compare K supply (Big_Zero K) \<noteq> 0
     then (Inr ([], invalid ''Invalid supply: token supply is less than limit''), s)
     else need (ctx_CheckNameAndSybmol K ctx name symbol s) s (\<lambda>e.
       if \<not> isOK e then (Inr ([], e), s)
       else need (ctx_GasBasePrice K ctx s) s (\<lambda>base.
         if gasprice < base \<or> Max_Gas_Price < gasprice
         then (Inr ([], e\<lparr>ErrorCode := ErrCodeInterContractsInvalidGasPrice\<rparr>), s)
         else need (CalcAddress K ctx name s) s (\<lambda>currency.
           seqR (ctx_NewToken K ctx currency name symbol supply addSupplyEnabled burnEnabled gasprice s)
             (\<lambda>e s. (Inr (currency, e), s))))))"

end
