(* ===== verification/V1_View.thy ===== *)
theory V1_View
  imports V1_Contracts Deliver_Fee
begin

text \<open>
  What the operations of the version 1 state do, through two observations: what a reader sees in the
  block (\<open>block1\<close>) and in a tx (\<open>view1\<close>). The balances of one token in a tx are a ledger in the sense
  of \<open>Ledger\<close>, and its token record is changed by no payment.
\<close>

section \<open>Observations\<close>

definition block1 :: "'db Env1 \<Rightarrow> 'db V1 \<Rightarrow> string \<Rightarrow> bytes option" where
  "block1 K s k = (let b = nonnil (base (ext1 K) (v_helper s) k) in case v_Transaction s of
     None \<Rightarrow> b | Some t \<Rightarrow> (case map_of (tbuffer t) k of Some v \<Rightarrow> Some v | None \<Rightarrow> b))"

text \<open>The tx of an open block is open, its buffer has an entry at most per key, and none is empty (no operation writes an empty text).\<close>

definition buf_ok :: "(string, bytes) gomap \<Rightarrow> bool" where
  "buf_ok m \<longleftrightarrow> distinct (map fst m) \<and> (\<forall>k. map_of m k \<noteq> Some [])"

lemma buf_ok_Nil [simp]: "buf_ok []"
  by (simp add: buf_ok_def)

lemma buf_ok_update: "buf_ok m \<Longrightarrow> v \<noteq> [] \<Longrightarrow> buf_ok (AList.update k v m)"
  by (auto simp: buf_ok_def distinct_update update_conv' fun_upd_apply)

definition live :: "TxState \<Rightarrow> 'db V1 \<Rightarrow> bool" where
  "live ts s \<longleftrightarrow> (\<exists>i tx. ts_Tx ts = Some i \<and> v_Tx s i = Some tx \<and> buf_ok (xbuffer tx))
    \<and> v_Transaction s \<noteq> None"

definition view1 :: "'db Env1 \<Rightarrow> TxState \<Rightarrow> 'db V1 \<Rightarrow> string \<Rightarrow> bytes option" where
  "view1 K ts s k = (case ts_Tx ts of
     None \<Rightarrow> block1 K s k
   | Some i \<Rightarrow> (case v_Tx s i of
       None \<Rightarrow> block1 K s k
     | Some tx \<Rightarrow> (case map_of (xbuffer tx) k of
         None \<Rightarrow> block1 K s k | Some v \<Rightarrow> if v = [] then block1 K s k else Some v)))"

lemma sdb_Get_block:
  assumes "ext_ok (ext1 K)"
  shows "sdb_Get K s k = Inr (Inr (block1 K s k))"
  using ext_get [OF assms]
  by (simp add: sdb_Get_def block1_def GetFromDB_def StateDB_Get_def Transaction_Get_def base_def Let_def
      split: option.split)

lemma ts_Get_view:
  assumes "ext_ok (ext1 K)" "live ts s"
  shows "ts_Get K ts s k = Inr (Inr (view1 K ts s k))"
  using assms(2) by (auto simp: ts_Get_def view1_def live_def Tx_Get_def sdb_Get_block [OF assms(1)] Let_def
      split: option.split)

text \<open>A step of one tx leaves the block and the other txs as they are.\<close>

definition only_tx :: "TxState \<Rightarrow> 'db V1 \<Rightarrow> 'db V1 \<Rightarrow> bool" where
  "only_tx ts s s' \<longleftrightarrow> v_helper s' = v_helper s \<and> v_Transaction s' = v_Transaction s
    \<and> (\<forall>j. ts_Tx ts \<noteq> Some j \<longrightarrow> v_Tx s' j = v_Tx s j)"

lemma only_tx_refl [simp]: "only_tx ts s s"
  by (simp add: only_tx_def)

lemma only_tx_trans: "only_tx ts s s1 \<Longrightarrow> only_tx ts s1 s2 \<Longrightarrow> only_tx ts s s2"
  by (simp add: only_tx_def)

lemma only_tx_frame:
  assumes "only_tx ts s s'"
  shows "block1 K s' = block1 K s" "ts_Tx u \<noteq> ts_Tx ts \<or> ts_Tx u = None \<Longrightarrow> view1 K u s' = view1 K u s"
proof -
  show b: "block1 K s' = block1 K s" by (rule ext) (use assms in \<open>simp add: block1_def only_tx_def\<close>)
  show "view1 K u s' = view1 K u s" if "ts_Tx u \<noteq> ts_Tx ts \<or> ts_Tx u = None"
    by (rule ext) (use assms that b in \<open>auto simp: view1_def only_tx_def split: option.split\<close>)
qed

lemma ts_Set_run:
  assumes "live ts s" "v \<noteq> []"
  obtains s' where "ts_Set ts k v s = (Inr (Inr ()), s')" "live ts s'" "view1 K ts s' = (view1 K ts s)(k \<mapsto> v)"
    "block1 K s' = block1 K s" "only_tx ts s s'"
proof -
  obtain i tx where i: "ts_Tx ts = Some i" "v_Tx s i = Some tx" "buf_ok (xbuffer tx)"
    "v_Transaction s \<noteq> None" using assms(1) by (auto simp: live_def)
  let ?s = "s\<lparr>v_Tx := (v_Tx s)(i \<mapsto> Tx_Set tx k v)\<rparr>"
  have b: "block1 K (s\<lparr>v_Tx := f\<rparr>) x = block1 K s x" for f x by (simp add: block1_def)
  have "view1 K ts ?s x = ((view1 K ts s)(k \<mapsto> v)) x" for x
    using assms(2) by (cases "x = k") (simp_all add: view1_def i b Tx_Set_def split: option.split)
  then have "view1 K ts ?s = (view1 K ts s)(k \<mapsto> v)" by (rule ext)
  moreover have "block1 K ?s = block1 K s" by (rule ext) (rule b)
  moreover have "live ts ?s" using i assms(2) by (simp add: live_def Tx_Set_def buf_ok_update)
  moreover have "only_tx ts s ?s" using i by (simp add: only_tx_def)
  ultimately show thesis using that [of ?s] i by (simp add: ts_Set_def)
qed

text \<open>The end of a tx: the block sees what the tx saw.\<close>

lemma ts_CommitTx_run:
  assumes "live ts s"
  obtains out s' t' where "ts_CommitTx ts s = (Inr out, s')" "block1 K s' = view1 K ts s" "v_Transaction s' = Some t'"
    "v_helper s' = v_helper s"
proof -
  obtain i tx t where i: "ts_Tx ts = Some i" "v_Tx s i = Some tx" "buf_ok (xbuffer tx)" "v_Transaction s = Some t"
    using assms by (auto simp: live_def)
  let ?t = "t\<lparr>tbuffer := put_all (tbuffer t) (xbuffer tx)\<rparr>"
  let ?s = "s\<lparr>v_Transaction := Some ?t, v_Tx := (v_Tx s)(i \<mapsto> tx\<lparr>xbuffer := []\<rparr>)\<rparr>"
  have run: "ts_CommitTx ts s = (Inr (sorted_dump (xbuffer tx), xbuffer tx), ?s)"
    by (simp add: ts_CommitTx_def i Tx_Commit_def)
  have "block1 K ?s k = view1 K ts s k" for k
    using i put_all_apply [of "xbuffer tx" "tbuffer t" k]
    by (auto simp: block1_def view1_def buf_ok_def split: option.split)
  then have "block1 K ?s = view1 K ts s" by (rule ext)
  then show thesis using that [OF run] by simp
qed

lemma sdb_NewTxState_run:
  assumes "v_Transaction s = Some t"
  obtains ts s' where "sdb_NewTxState c a s = (Inr ts, s')" "ts_ContractAddress ts = c" "live ts s'"
    "view1 K ts s' = block1 K s" "block1 K s' = block1 K s" "v_Transaction s' \<noteq> None" 
    "\<And>u. ts_Tx u \<noteq> ts_Tx ts \<Longrightarrow> view1 K u s' = view1 K u s" "ts_Tx ts = Some (lastTxID t + 1)"
proof -
  obtain i t1 where n: "calcTxID t = (i, t1)" "tbuffer t1 = tbuffer t" "i = lastTxID t + 1"
    by (auto simp: calcTxID_def Let_def)
  let ?ts = "\<lparr>ts_ContractAddress = c, ts_SenderAddress = a, ts_Tx = Some i\<rparr>"
  let ?s = "s\<lparr>v_Transaction := Some t1, v_Tx := (v_Tx s)(i \<mapsto> \<lparr>txID = i, xbuffer = []\<rparr>)\<rparr>"
  have run: "sdb_NewTxState c a s = (Inr ?ts, ?s)" by (simp add: sdb_NewTxState_def assms Transaction_NewTx_def n(1))
  have "block1 K ?s k = block1 K s k" for k by (simp add: block1_def assms n(2))
  then have b: "block1 K ?s = block1 K s" by (rule ext)
  have "view1 K ?ts ?s k = block1 K ?s k" for k by (simp add: view1_def)
  then have "view1 K ?ts ?s = block1 K ?s" by (rule ext)
  moreover have "view1 K u ?s = view1 K u s" if "ts_Tx u \<noteq> ts_Tx ?ts" for u
    by (rule ext) (use that b in \<open>auto simp: view1_def split: option.split\<close>)
  ultimately show thesis using that [OF run] b n(3) by (simp add: live_def)
qed

section \<open>Typed reading and writing\<close>

definition dec1 :: "'a codec \<Rightarrow> bytes option \<Rightarrow> string + 'a option" where
  "dec1 c v = (case v of None \<Rightarrow> Inr None | Some b \<Rightarrow> (case unmarshal c b of Inl e \<Rightarrow> Inl e | Inr x \<Rightarrow> Inr (Some x)))"

lemma as_json_view [simp]: "as_json c (Inr (Inr v)) = Inr (dec1 c v)"
  by (simp add: as_json_def dec1_def split: option.split sum.split)

lemma dec1_simps [simp]: "dec1 c None = Inr None" "unmarshal c b = Inr x \<Longrightarrow> dec1 c (Some b) = Inr (Some x)"
  by (simp_all add: dec1_def)

lemma mjson_ok:
  assumes "codec_ok c"
  obtains b where "mjson c x = Inr (Inr b)" "b \<noteq> []" "unmarshal c b = Inr x"
proof -
  obtain b where "marshal c x = Inr b" "b \<noteq> []" "unmarshal c b = Inr x" by (rule codec_marshal [OF assms])
  then show thesis using that by (simp add: mjson_def)
qed

text \<open>The contract of a tx on which token operations can run: its texts can be read.\<close>

definition bal1 :: "'db Env1 \<Rightarrow> TxState \<Rightarrow> string \<Rightarrow> 'db V1 \<Rightarrow> string \<Rightarrow> int" where
  "bal1 K ts tok s a = (case dec1 (k_Balance K) (view1 K ts s (keyOfAccountToken a tok)) of
     Inr (Some t) \<Rightarrow> tb_Balance t | _ \<Rightarrow> 0)"

definition tok1 :: "'db Env1 \<Rightarrow> TxState \<Rightarrow> string \<Rightarrow> 'db V1 \<Rightarrow> IssueToken option" where
  "tok1 K ts tok s = (case dec1 (k_Token K) (view1 K ts s (keyOfToken_v1 tok)) of Inr t \<Rightarrow> t | _ \<Rightarrow> None)"

definition codecs1_ok :: "'db Env1 \<Rightarrow> bool" where
  "codecs1_ok K \<longleftrightarrow> ext_ok (ext1 K) \<and> codec_ok (k_Balance K) \<and> codec_ok (k_strings K) \<and> codec_ok (k_string K)
    \<and> codec_ok (k_Token K)"

definition lists_ok :: "'db Env1 \<Rightarrow> (string \<Rightarrow> bytes option) \<Rightarrow> bool" where
  "lists_ok K f \<longleftrightarrow> (\<forall>k. k = keyOfTokenAll \<or> (\<exists>a. plain a \<and> k = keyOfAccount a) \<longrightarrow> (\<exists>l. dec1 (k_strings K) (f k) = Inr l))"

definition tok_ok :: "'db Env1 \<Rightarrow> TxState \<Rightarrow> string \<Rightarrow> 'db V1 \<Rightarrow> bool" where
  "tok_ok K ts tok s \<longleftrightarrow> codecs1_ok K \<and> plain tok \<and> live ts s \<and> lists_ok K (view1 K ts s)
    \<and> (\<forall>a. plain a \<longrightarrow> (\<exists>t. dec1 (k_Balance K) (view1 K ts s (keyOfAccountToken a tok)) = Inr t))
    \<and> (\<exists>t. dec1 (k_Token K) (view1 K ts s (keyOfToken_v1 tok)) = Inr t)"

lemma codecs1D:
  assumes "codecs1_ok K"
  shows "ext_ok (ext1 K)" "codec_ok (k_Balance K)" "codec_ok (k_strings K)" "codec_ok (k_string K)" "codec_ok (k_Token K)"
  using assms by (simp_all add: codecs1_ok_def)

lemma tok_okD:
  assumes "tok_ok K ts tok s"
  shows "codecs1_ok K" "live ts s" "plain tok" "lists_ok K (view1 K ts s)"
  using assms by (simp_all add: tok_ok_def)

lemma list_readable:
  assumes "lists_ok K f" "k = keyOfTokenAll \<or> (\<exists>a. plain a \<and> k = keyOfAccount a)"
  obtains l where "dec1 (k_strings K) (f k) = Inr l"
  using assms unfolding lists_ok_def by blast

section \<open>Keys\<close>

lemma acct_key_eq [simp]:
  "keyOfAccountToken a tok = keyOfAccountToken b tok \<longleftrightarrow> a = b" "keyOfAccount a = keyOfAccount b \<longleftrightarrow> a = b"
  "keyOfToken_v1 x = keyOfToken_v1 y \<longleftrightarrow> x = y"
  by (simp_all add: keyOfAccountToken_def keyOfAccount_def keyOfToken_v1_def)

lemma plain_keys1:
  assumes "plain a"
  shows "keyOfAccount a \<noteq> keyOfAccountToken b tok" "keyOfAccountToken b tok \<noteq> keyOfAccount a"
  using plain_keys [OF assms, of b tok]
  by (simp_all add: keyOfAccount_def keyOfAccountToken_def KeyOfAccount_def KeyOfAccountToken_def)

lemma token_keys [simp]:
  "keyOfToken_v1 x \<noteq> keyOfAccountToken a tok" "keyOfToken_v1 x \<noteq> keyOfAccount a"
  "keyOfTokenAll \<noteq> keyOfAccountToken a tok" "keyOfTokenAll \<noteq> keyOfAccount a"
  "keyOfTokenName K n \<noteq> keyOfAccountToken a tok" "keyOfTokenName K n \<noteq> keyOfAccount a"
  "keyOfTokenSymbol K n \<noteq> keyOfAccountToken a tok" "keyOfTokenSymbol K n \<noteq> keyOfAccount a"
  "keyOfTokenName K n \<noteq> keyOfTokenAll" "keyOfTokenSymbol K n \<noteq> keyOfTokenAll"
  by (simp_all add: keyOfToken_v1_def keyOfAccountToken_def keyOfAccount_def keyOfTokenAll_def
      keyOfTokenName_def keyOfTokenSymbol_def)

lemmas token_keys_sym [simp] = token_keys [THEN not_sym]

lemma plain_token_keys:
  assumes "plain tok"
  shows "keyOfToken_v1 tok \<noteq> keyOfTokenAll" "keyOfToken_v1 tok \<noteq> keyOfTokenName K n" "keyOfToken_v1 tok \<noteq> keyOfTokenSymbol K n"
  using assms by (auto simp: keyOfToken_v1_def keyOfTokenAll_def keyOfTokenName_def keyOfTokenSymbol_def plain_def)

section \<open>Writing under a list of keys\<close>

text \<open>An entry in a sorted list of keys: the list is rewritten or left alone.\<close>

lemma addChildKey_run:
  assumes K: "codecs1_ok K" and "live ts s" and r: "dec1 (k_strings K) (view1 K ts s key) = Inr l"
  obtains s' v where "ts_addChildKey K ts key child s = (Inr (Inr ()), s')" "live ts s'"
    "view1 K ts s' = (view1 K ts s)(key := v)" "dec1 (k_strings K) v = Inr l \<or> (\<exists>l'. dec1 (k_strings K) v = Inr (Some l'))"
    "block1 K s' = block1 K s" "only_tx ts s s'"
proof -
  note g = ts_Get_view [OF codecs1D(1) [OF K] assms(2)]
  show thesis
  proof (cases "insert_child (list_of l) child")
    case None
    then show thesis
      using that [of s "view1 K ts s key"] assms(2) r by (simp add: ts_addChildKey_def ts_getChildKeys_def g)
  next
    case (Some ks)
    obtain b where b: "mjson (k_strings K) ks = Inr (Inr b)" "b \<noteq> []" "unmarshal (k_strings K) b = Inr ks"
      by (rule mjson_ok [OF codecs1D(3) [OF K]])
    obtain s' where "ts_Set ts key b s = (Inr (Inr ()), s')" "live ts s'" "view1 K ts s' = (view1 K ts s)(key \<mapsto> b)"
      "block1 K s' = block1 K s" "only_tx ts s s'"
      by (rule ts_Set_run [OF assms(2) b(2)])
    then show thesis
      using that [of s' "Some b"] b r Some by (simp add: ts_addChildKey_def ts_getChildKeys_def g no_err_def)
  qed
qed

section \<open>Balances\<close>

lemma tok_ok_put:
  assumes ok: "tok_ok K ts tok s" and "live ts s'"
    and v: "\<And>k. (\<exists>a. plain a \<and> k = keyOfAccount a) \<or> k = keyOfTokenAll \<Longrightarrow> \<exists>l. dec1 (k_strings K) (view1 K ts s' k) = Inr l"
    "\<And>a. plain a \<Longrightarrow> \<exists>t. dec1 (k_Balance K) (view1 K ts s' (keyOfAccountToken a tok)) = Inr t"
    "\<exists>t. dec1 (k_Token K) (view1 K ts s' (keyOfToken_v1 tok)) = Inr t"
  shows "tok_ok K ts tok s'"
  using assms unfolding tok_ok_def lists_ok_def by blast

lemma GetBalance_view:
  assumes ok: "tok_ok K ts tok s" and a: "plain a"
  shows "ts_GetBalance K ts a tok s = Inr (Inr (bal1 K ts tok s a))"
proof -
  obtain t where "dec1 (k_Balance K) (view1 K ts s (keyOfAccountToken a tok)) = Inr t"
    using ok a unfolding tok_ok_def by blast
  then show ?thesis
    using ts_Get_view [OF codecs1D(1) [OF tok_okD(1) [OF ok]] tok_okD(2) [OF ok]]
    by (simp add: ts_GetBalance_def bal1_def split: option.split)
qed

text \<open>\<open>SetBalance\<close> sets one balance and leaves the others and the token alone.\<close>

lemma SetBalance_run:
  assumes ok: "tok_ok K ts tok s" and a: "plain a"
  obtains s' where "ts_SetBalance K ts a tok v s = (Inr (Inr ()), s')" "tok_ok K ts tok s'"
    "\<And>b. plain b \<Longrightarrow> bal1 K ts tok s' b = ((bal1 K ts tok s)(a := v)) b" "tok1 K ts tok s' = tok1 K ts tok s"
    "block1 K s' = block1 K s" "only_tx ts s s'"
    "\<And>k. k \<noteq> keyOfAccount a \<Longrightarrow> k \<noteq> keyOfAccountToken a tok \<Longrightarrow> view1 K ts s' k = view1 K ts s k"
proof -
  note K = tok_okD(1) [OF ok] and lv = tok_okD(2) [OF ok]
  let ?y = "\<lparr>tb_Address = tok, tb_Balance = v\<rparr>" and ?c = "keyOfAccountToken a tok" and ?k = "keyOfAccount a"
  obtain b where b: "mjson (k_Balance K) ?y = Inr (Inr b)" "b \<noteq> []" "unmarshal (k_Balance K) b = Inr ?y"
    by (rule mjson_ok [OF codecs1D(2) [OF K]])
  obtain l where l: "dec1 (k_strings K) (view1 K ts s ?k) = Inr l"
    by (rule list_readable [OF tok_okD(4) [OF ok], of ?k]) (use a in auto)
  obtain s1 w where s1: "(if view1 K ts s ?c = None then ts_addChildKey K ts ?k ?c s else (Inr (Inr ()), s)) = (Inr (Inr ()), s1)"
    "live ts s1" "view1 K ts s1 = (view1 K ts s)(?k := w)" "\<exists>l'. dec1 (k_strings K) w = Inr l'"
    "block1 K s1 = block1 K s" "only_tx ts s s1"
  proof (cases "view1 K ts s ?c = None")
    case True
    obtain s1 w where "ts_addChildKey K ts ?k ?c s = (Inr (Inr ()), s1)" "live ts s1"
      "view1 K ts s1 = (view1 K ts s)(?k := w)" "dec1 (k_strings K) w = Inr l \<or> (\<exists>l'. dec1 (k_strings K) w = Inr (Some l'))"
      "block1 K s1 = block1 K s" "only_tx ts s s1"
      by (rule addChildKey_run [OF K lv l])
    then show thesis using that [of s1 w] True by auto
  next
    case False
    then have "(if view1 K ts s ?c = None then ts_addChildKey K ts ?k ?c s else (Inr (Inr ()), s)) = (Inr (Inr ()), s)"
      by (rule if_not_P)
    then show thesis by (rule that [where w = "view1 K ts s ?k"]) (use lv l in simp_all)
  qed
  obtain s2 where s2: "ts_Set ts ?c b s1 = (Inr (Inr ()), s2)" "live ts s2"
    "view1 K ts s2 = (view1 K ts s1)(?c \<mapsto> b)" "block1 K s2 = block1 K s1" "only_tx ts s1 s2"
    by (rule ts_Set_run [OF s1(2) b(2)])
  have run: "ts_SetBalance K ts a tok v s = (Inr (Inr ()), s2)"
    unfolding ts_SetBalance_def b(1) ts_Get_view [OF codecs1D(1) [OF K] lv] try_simps Let_def s1(1) using s2(1) by simp
  have w: "view1 K ts s2 = (view1 K ts s)(?k := w, ?c \<mapsto> b)" using s1(3) s2(3) by simp
  have "tok_ok K ts tok s2"
  proof (rule tok_ok_put [OF ok s2(2)])
    fix k assume k: "(\<exists>a. plain a \<and> k = keyOfAccount a) \<or> k = keyOfTokenAll"
    then have "k \<noteq> ?c" using plain_keys1(1) token_keys(3) by metis
    then show "\<exists>l. dec1 (k_strings K) (view1 K ts s2 k) = Inr l"
      using list_readable [OF tok_okD(4) [OF ok], of k] k s1(4) unfolding w by fastforce
  next
    fix d assume "plain d"
    then show "\<exists>t. dec1 (k_Balance K) (view1 K ts s2 (keyOfAccountToken d tok)) = Inr t"
      using ok b(3) plain_keys1(2) [OF a] unfolding w tok_ok_def by (auto split: if_splits)
  next
    show "\<exists>t. dec1 (k_Token K) (view1 K ts s2 (keyOfToken_v1 tok)) = Inr t"
      using ok unfolding w tok_ok_def by simp
  qed
  moreover have "bal1 K ts tok s2 d = ((bal1 K ts tok s)(a := v)) d" if "plain d" for d
    using b(3) plain_keys1(2) [OF a, of d tok] unfolding bal1_def w by simp
  moreover have "tok1 K ts tok s2 = tok1 K ts tok s" by (simp add: tok1_def w)
  moreover have "view1 K ts s2 k = view1 K ts s k" if "k \<noteq> ?k" "k \<noteq> ?c" for k using that by (simp add: w)
  ultimately show thesis using that [of s2] run s1(5) s2(4) only_tx_trans [OF s1(6) s2(5)] by simp
qed

section \<open>The token record\<close>

text \<open>A write under a key that belongs neither to a balance, a list of keys, nor to the token.\<close>

lemma other_write:
  assumes ok: "tok_ok K ts tok s" and v: "v \<noteq> []"
    and k: "\<And>a. plain a \<Longrightarrow> k \<noteq> keyOfAccountToken a tok" "\<And>a. plain a \<Longrightarrow> k \<noteq> keyOfAccount a"
      "k \<noteq> keyOfTokenAll" "k \<noteq> keyOfToken_v1 tok"
  obtains s' where "ts_Set ts k v s = (Inr (Inr ()), s')" "tok_ok K ts tok s'"
    "\<And>a. plain a \<Longrightarrow> bal1 K ts tok s' a = bal1 K ts tok s a" "tok1 K ts tok s' = tok1 K ts tok s"
    "block1 K s' = block1 K s" "view1 K ts s' = (view1 K ts s)(k \<mapsto> v)"
proof -
  obtain s' where s': "ts_Set ts k v s = (Inr (Inr ()), s')" "live ts s'"
    "view1 K ts s' = (view1 K ts s)(k \<mapsto> v)" "block1 K s' = block1 K s"
    by (rule ts_Set_run [OF tok_okD(2) [OF ok] v])
  have k': "keyOfAccountToken a tok \<noteq> k" if "plain a" for a using k(1) [OF that] by blast
  have "tok_ok K ts tok s'"
  proof (rule tok_ok_put [OF ok s'(2)])
    fix j assume j: "(\<exists>a. plain a \<and> j = keyOfAccount a) \<or> j = keyOfTokenAll"
    then have "j \<noteq> k" using k by blast
    then show "\<exists>l. dec1 (k_strings K) (view1 K ts s' j) = Inr l"
      using list_readable [OF tok_okD(4) [OF ok], of j] j unfolding s'(3) by fastforce
  qed (use ok k in \<open>auto simp: s'(3) tok_ok_def\<close>)
  then show thesis
    by (rule that [OF s'(1)]) (use k(4) s'(4) in \<open>simp_all add: s'(3) bal1_def tok1_def k'\<close>)
qed

lemma SetToken_run:
  assumes ok: "tok_ok K ts tok s" and a: "it_Address t = tok"
  obtains s' where "ts_SetToken K ts t s = (Inr (Inr ()), s')" "tok_ok K ts tok s'" "tok1 K ts tok s' = Some t"
    "\<And>b. plain b \<Longrightarrow> bal1 K ts tok s' b = bal1 K ts tok s b" "block1 K s' = block1 K s"
    "\<And>k. k \<notin> {keyOfToken_v1 tok, keyOfTokenAll, keyOfTokenName K (it_Name t), keyOfTokenSymbol K (it_Symbol t)}
       \<Longrightarrow> view1 K ts s' k = view1 K ts s k"
proof -
  note K = tok_okD(1) [OF ok] and lv = tok_okD(2) [OF ok] and pt = plain_token_keys [OF tok_okD(3) [OF ok]]
  obtain b where b: "mjson (k_Token K) t = Inr (Inr b)" "b \<noteq> []" "unmarshal (k_Token K) b = Inr t"
    by (rule mjson_ok [OF codecs1D(5) [OF K]])
  obtain ab where ab: "mjson (k_string K) tok = Inr (Inr ab)" "ab \<noteq> []"
    by (rule mjson_ok [OF codecs1D(4) [OF K]])
  obtain s1 where s1: "ts_Set ts (keyOfToken_v1 tok) b s = (Inr (Inr ()), s1)" "live ts s1"
    "view1 K ts s1 = (view1 K ts s)(keyOfToken_v1 tok \<mapsto> b)" "block1 K s1 = block1 K s"
    by (rule ts_Set_run [OF lv b(2)])
  obtain l where l: "dec1 (k_strings K) (view1 K ts s keyOfTokenAll) = Inr l"
    by (rule list_readable [OF tok_okD(4) [OF ok], of keyOfTokenAll]) simp
  obtain s2 w where s2: "ts_addChildKey K ts keyOfTokenAll tok s1 = (Inr (Inr ()), s2)" "live ts s2"
    "view1 K ts s2 = (view1 K ts s1)(keyOfTokenAll := w)" "\<exists>l'. dec1 (k_strings K) w = Inr l'" "block1 K s2 = block1 K s1"
  proof -
    have l1: "dec1 (k_strings K) (view1 K ts s1 keyOfTokenAll) = Inr l" using l pt(1) by (simp add: s1(3))
    show thesis
      by (rule addChildKey_run [OF K s1(2) l1, where child = tok]) (use that in auto)
  qed
  have v2: "view1 K ts s2 = (view1 K ts s)(keyOfToken_v1 tok \<mapsto> b, keyOfTokenAll := w)"
    by (simp add: s1(3) s2(3))
  have ok2: "tok_ok K ts tok s2"
  proof (rule tok_ok_put [OF ok s2(2)])
    fix j assume "(\<exists>a. plain a \<and> j = keyOfAccount a) \<or> j = keyOfTokenAll"
    then have j: "j = keyOfTokenAll \<or> (\<exists>a. plain a \<and> j = keyOfAccount a)" by blast
    show "\<exists>l. dec1 (k_strings K) (view1 K ts s2 j) = Inr l"
    proof (cases "j = keyOfTokenAll")
      case False
      obtain l where "dec1 (k_strings K) (view1 K ts s j) = Inr l" by (rule list_readable [OF tok_okD(4) [OF ok] j])
      then show ?thesis using False j by (auto simp: v2)
    qed (use s2(4) in \<open>simp add: v2\<close>)
  qed (use ok pt(1) b(3) in \<open>auto simp: v2 tok_ok_def keyOfAccountToken_def keyOfToken_v1_def keyOfTokenAll_def\<close>)
  have bal2: "bal1 K ts tok s2 d = bal1 K ts tok s d" for d
    by (simp add: bal1_def v2)
  have tok2: "tok1 K ts tok s2 = Some t" using b(3) pt(1) by (simp add: tok1_def v2)
  have names: "keyOfTokenName K n \<noteq> keyOfToken_v1 tok" "keyOfTokenSymbol K n \<noteq> keyOfToken_v1 tok" for n
    using pt(2,3) by metis+
  obtain s3 where s3: "ts_Set ts (keyOfTokenName K (it_Name t)) ab s2 = (Inr (Inr ()), s3)" "tok_ok K ts tok s3"
    "\<And>a. plain a \<Longrightarrow> bal1 K ts tok s3 a = bal1 K ts tok s2 a" "tok1 K ts tok s3 = tok1 K ts tok s2" "block1 K s3 = block1 K s2"
    "view1 K ts s3 = (view1 K ts s2)(keyOfTokenName K (it_Name t) \<mapsto> ab)"
    by (rule other_write [OF ok2 ab(2), where k = "keyOfTokenName K (it_Name t)"]) (use names in auto)
  obtain s4 where s4: "ts_Set ts (keyOfTokenSymbol K (it_Symbol t)) ab s3 = (Inr (Inr ()), s4)" "tok_ok K ts tok s4"
    "\<And>a. plain a \<Longrightarrow> bal1 K ts tok s4 a = bal1 K ts tok s3 a" "tok1 K ts tok s4 = tok1 K ts tok s3" "block1 K s4 = block1 K s3"
    "view1 K ts s4 = (view1 K ts s3)(keyOfTokenSymbol K (it_Symbol t) \<mapsto> ab)"
    by (rule other_write [OF s3(2) ab(2), where k = "keyOfTokenSymbol K (it_Symbol t)"]) (use names in auto)
  have "ts_SetToken K ts t s = (Inr (Inr ()), s4)"
    by (simp add: ts_SetToken_def a b(1) ab(1) s1(1) s2(1) s3(1) s4(1))
  then show thesis
    by (rule that [OF _ s4(2)]) (simp_all add: s4(3-6) s3(3-6) bal2 tok2 s2(5) s1(4) v2)
qed

end
