(* ===== verification/V1_Tokens.thy ===== *)
theory V1_Tokens
  imports V1_View
begin

text \<open>
  The token contracts of version 1 move exactly what they are told to move. The balances of a token in
  the tx of a call are a ledger (the interpretation \<open>tokens\<close> of \<open>Ledger\<close>), which leaves the token's record alone;
  every method that succeeds changes the sum of the balances by what it changes the total supply.
\<close>

section \<open>Setting\<close>

text \<open>What the contracts rely on in \<open>bclib/bignumber_v1.0\<close>: it is the arithmetic of integers.\<close>

definition bignum_ok :: "'db Env1 \<Rightarrow> bool" where
  "bignum_ok K \<longleftrightarrow> (\<forall>a b. Big_Add K a b = a + b) \<and> (\<forall>a b. Big_Sub K a b = a - b)
    \<and> (\<forall>a b. (Big_Compare K a b < 0) = (a < b) \<and> (0 < Big_Compare K a b) = (b < a))
    \<and> (\<forall>a n p. Big_Multi K a n = Inr p \<longrightarrow> p = a * int n)
    \<and> (\<forall>a b. 0 \<le> a \<longrightarrow> 0 < b \<longrightarrow> Big_SafeDiv K a b = a div b) \<and> (\<forall>a b. 0 \<le> a \<longrightarrow> 0 \<le> b \<longrightarrow> Big_SafeMul K a b = a * b)
    \<and> Big_Zero K = 0 \<and> (\<forall>v. UintToBigInt K v = uint v)"

lemma bigD:
  assumes "bignum_ok K"
  shows "Big_Add K a b = a + b" "Big_Sub K a b = a - b" "Big_Compare K a b < 0 \<longleftrightarrow> a < b"
    "0 < Big_Compare K a b \<longleftrightarrow> b < a" "Big_Compare K a b \<le> 0 \<longleftrightarrow> a \<le> b" "Big_Compare K a b = 0 \<longleftrightarrow> a = b"
    "Big_Zero K = 0" "UintToBigInt K v = uint v"
proof -
  have c: "(Big_Compare K a b < 0) = (a < b)" "(0 < Big_Compare K a b) = (b < a)"
    using assms by (simp_all add: bignum_ok_def)
  show "Big_Compare K a b < 0 \<longleftrightarrow> a < b" "0 < Big_Compare K a b \<longleftrightarrow> b < a" by (fact c)+
  show "Big_Compare K a b \<le> 0 \<longleftrightarrow> a \<le> b" "Big_Compare K a b = 0 \<longleftrightarrow> a = b" using c by linarith+
qed (use assms in \<open>simp_all add: bignum_ok_def\<close>)

text \<open>
  A call of a token contract: sender and owner act through the tx of the call, addresses have no slash, and the
  token's record is \<open>t\<close>.
\<close>

definition bals :: "'db Env1 \<Rightarrow> InvokeContext \<Rightarrow> 'db V1 \<Rightarrow> string \<Rightarrow> int" where
  "bals K ctx s = bal1 K (cx_TxState ctx) (own_addr ctx) s"

definition call_ok :: "'db Env1 \<Rightarrow> InvokeContext \<Rightarrow> IssueToken option \<Rightarrow> 'db V1 \<Rightarrow> bool" where
  "call_ok K ctx t s \<longleftrightarrow> bignum_ok K \<and> tok_ok K (cx_TxState ctx) (own_addr ctx) s
    \<and> tok1 K (cx_TxState ctx) (own_addr ctx) s = t
    \<and> ac_TxState (cx_Sender ctx) = cx_TxState ctx \<and> ac_TxState (cx_Owner ctx) = cx_TxState ctx
    \<and> plain (ac_Addr (cx_Sender ctx)) \<and> plain (ac_Addr (cx_Owner ctx))"

lemma call_okD:
  assumes "call_ok K ctx t s"
  shows "bignum_ok K" "tok_ok K (cx_TxState ctx) (own_addr ctx) s" "ac_TxState (cx_Sender ctx) = cx_TxState ctx"
    "ac_TxState (cx_Owner ctx) = cx_TxState ctx" "plain (ac_Addr (cx_Sender ctx))" "plain (ac_Addr (cx_Owner ctx))"
    "tok1 K (cx_TxState ctx) (own_addr ctx) s = t"
  using assms by (simp_all add: call_ok_def)

lemma Balance_run:
  assumes ok: "call_ok K ctx t s" and "plain (ac_Addr a)" "ac_TxState a = cx_TxState ctx"
  shows "Balance K a (own_addr ctx) s = Inr (bals K ctx s (ac_Addr a))"
  using GetBalance_view [OF call_okD(2) [OF ok] assms(2)] assms(3)
  by (simp add: Balance_def acct_BalanceOf_def bals_def)

lemma SetBalance_step:
  assumes ok: "call_ok K ctx t s" and "plain (ac_Addr a)" "ac_TxState a = cx_TxState ctx"
  obtains s' where "acct_SetBalance K a (own_addr ctx) v s = (Inr okE, s')" "call_ok K ctx t s'"
    "\<And>b. plain b \<Longrightarrow> bals K ctx s' b = ((bals K ctx s)(ac_Addr a := v)) b" "only_tx (cx_TxState ctx) s s'"
proof (rule SetBalance_run [OF call_okD(2) [OF ok] assms(2), where v = v])
  fix s'
  assume s': "ts_SetBalance K (cx_TxState ctx) (ac_Addr a) (own_addr ctx) v s = (Inr (Inr ()), s')"
    "tok_ok K (cx_TxState ctx) (own_addr ctx) s'"
    "\<And>b. plain b \<Longrightarrow> bal1 K (cx_TxState ctx) (own_addr ctx) s' b = ((bal1 K (cx_TxState ctx) (own_addr ctx) s)(ac_Addr a := v)) b"
    "tok1 K (cx_TxState ctx) (own_addr ctx) s' = tok1 K (cx_TxState ctx) (own_addr ctx) s" "only_tx (cx_TxState ctx) s s'"
  show thesis
    by (rule that [of s']) (use s' ok assms(3) in \<open>simp_all add: acct_SetBalance_def bals_def call_ok_def\<close>)
qed

section \<open>The ledger\<close>

definition put1 :: "'db Env1 \<Rightarrow> InvokeContext \<Rightarrow> string \<Rightarrow> int \<Rightarrow> 'db V1 \<Rightarrow> ('db V1, unit) act" where
  "put1 K ctx a v s = seqR (acct_SetBalance K (GetAccount ctx a) (own_addr ctx) v s) (\<lambda>e s.
     if isOK e then (Inr (), s) else (Inl (ErrorDesc e), s))"

text \<open>The states of the ledger are those that a step of the tx reaches from \<open>s0\<close>.\<close>

definition at_call :: "'db Env1 \<Rightarrow> InvokeContext \<Rightarrow> IssueToken option \<Rightarrow> 'db V1 \<Rightarrow> 'db V1 \<Rightarrow> bool" where
  "at_call K ctx t s0 s \<longleftrightarrow> call_ok K ctx t s \<and> only_tx (cx_TxState ctx) s0 s"

lemma at_call_self [simp]: "at_call K ctx t s s \<longleftrightarrow> call_ok K ctx t s"
  by (simp add: at_call_def)

lemma at_callD: "at_call K ctx t s0 s \<Longrightarrow> call_ok K ctx t s" "at_call K ctx t s0 s \<Longrightarrow> only_tx (cx_TxState ctx) s0 s"
  by (simp_all add: at_call_def)

interpretation tokens: ledger "at_call K ctx t s0" plain "bals K ctx" "put1 K ctx" "\<lambda>_ s. (Inr (), s)"
  for K :: "'db Env1" and ctx t s0
proof unfold_locales
  fix s a v assume at: "at_call K ctx t s0 s" and a: "plain a"
  note ok = at_callD(1) [OF at]
  obtain s' where "acct_SetBalance K (GetAccount ctx a) (own_addr ctx) v s = (Inr okE, s')" "call_ok K ctx t s'"
    "\<And>b. plain b \<Longrightarrow> bals K ctx s' b = ((bals K ctx s)(a := v)) b" "only_tx (cx_TxState ctx) s s'"
    using SetBalance_step [OF ok, of "GetAccount ctx a" v] a by (auto simp: GetAccount_def)
  then show "\<exists>s'. put1 K ctx a v s = (Inr (), s') \<and> at_call K ctx t s0 s'
      \<and> (\<forall>b. plain b \<longrightarrow> bals K ctx s' b = ((bals K ctx s)(a := v)) b)"
    using only_tx_trans [OF at_callD(2) [OF at]] by (auto simp: put1_def at_call_def)
qed simp

lemma put1_law:
  assumes ok: "call_ok K ctx t s" and a: "plain a"
  shows "\<exists>s'. put1 K ctx a v s = (Inr (), s') \<and> call_ok K ctx t s'
    \<and> (\<forall>b. plain b \<longrightarrow> bals K ctx s' b = ((bals K ctx s)(a := v)) b)"
proof -
  have "at_call K ctx t s s" using ok by simp
  then obtain s' where "put1 K ctx a v s = (Inr (), s') \<and> at_call K ctx t s s'
    \<and> (\<forall>b. plain b \<longrightarrow> bals K ctx s' b = ((bals K ctx s)(a := v)) b)"
    using tokens.put_law [OF _ a] by blast
  then show ?thesis using at_callD(1) by blast
qed

lemma put1_ok:
  assumes "call_ok K ctx t s" "plain a" "put1 K ctx a v s = (Inr (), s')"
  shows "call_ok K ctx t s'"
  using put1_law [OF assms(1,2), of v] assms(3) by auto

text \<open>A credit of the contracts is one of the ledger.\<close>

lemma credit_to_put:
  assumes ok: "call_ok K ctx t s" and a: "plain (ac_Addr acc)" "ac_TxState acc = cx_TxState ctx" and v: "0 \<le> v"
    and p: "put1 K ctx (ac_Addr acc) (bals K ctx s (ac_Addr acc) + v) s = (Inr (), s')"
  shows "credit_to K ctx acc v s = (Inr okE, s')"
proof -
  have acc: "GetAccount ctx (ac_Addr acc) = acc" using a(2) by (simp add: GetAccount_def)
  obtain s1 where "acct_SetBalance K acc (own_addr ctx) (bals K ctx s (ac_Addr acc) + v) s = (Inr okE, s1)"
    by (rule SetBalance_step [OF ok a])
  then show ?thesis
    using p v by (simp add: credit_to_def Balance_run [OF ok a] bigD [OF call_okD(1) [OF ok]] put1_def acc Let_def)
qed

lemma credit_to_run:
  assumes ok: "call_ok K ctx t s" and a: "plain (ac_Addr acc)" "ac_TxState acc = cx_TxState ctx" and v: "0 \<le> v"
  obtains s' where "credit_to K ctx acc v s = (Inr okE, s')" "call_ok K ctx t s'"
    "\<And>b. plain b \<Longrightarrow> bals K ctx s' b = ((bals K ctx s)(ac_Addr acc := bals K ctx s (ac_Addr acc) + v)) b"
proof -
  obtain s' where "put1 K ctx (ac_Addr acc) (bals K ctx s (ac_Addr acc) + v) s = (Inr (), s')" "call_ok K ctx t s'"
    "\<forall>b. plain b \<longrightarrow> bals K ctx s' b = ((bals K ctx s)(ac_Addr acc := bals K ctx s (ac_Addr acc) + v)) b"
    using put1_law [OF ok a(1)] by blast
  then show thesis using that credit_to_put [OF ok a v] by simp
qed

lemma debit_run:
  assumes ok: "call_ok K ctx t s" and a: "plain (ac_Addr acc)" "ac_TxState acc = cx_TxState ctx"
    and v: "0 \<le> v" "v \<le> bals K ctx s (ac_Addr acc)"
  obtains s' where "debit K ctx acc (bals K ctx s (ac_Addr acc)) v s = (Inr okE, s')" "call_ok K ctx t s'"
    "\<And>b. plain b \<Longrightarrow> bals K ctx s' b = ((bals K ctx s)(ac_Addr acc := bals K ctx s (ac_Addr acc) - v)) b"
proof (rule SetBalance_step [OF ok a, where v = "bals K ctx s (ac_Addr acc) - v"])
  fix s'
  assume s': "acct_SetBalance K acc (own_addr ctx) (bals K ctx s (ac_Addr acc) - v) s = (Inr okE, s')" "call_ok K ctx t s'"
    "\<And>b. plain b \<Longrightarrow> bals K ctx s' b = ((bals K ctx s)(ac_Addr acc := bals K ctx s (ac_Addr acc) - v)) b"
  show thesis
    by (rule that [OF _ s'(2,3)]) (use s'(1) v in \<open>simp_all add: debit_def bigD [OF call_okD(1) [OF ok]] Let_def\<close>)
qed

text \<open>The loop of a batch transfer settles a list of equal credits.\<close>

lemma batch_settle:
  assumes "call_ok K ctx t s" "0 \<le> v" "ac_Addr (cx_Sender ctx) \<notin> set tos" "\<forall>a \<in> set tos. plain a"
  shows "\<exists>s'. batch_loop K ctx tos v s = (Inr okE, s') \<and> call_ok K ctx t s'
    \<and> (\<forall>b. plain b \<longrightarrow> bals K ctx s' b = credits (map (\<lambda>a. (a, v)) tos) (bals K ctx s) b)"
proof -
  have "batch_loop K ctx tos v s = (Inr okE, s')"
    if "tokens.settle K ctx (map (\<lambda>a. (a, v)) tos) s = (Inr (), s')" for s'
    using assms that
  proof (induction tos arbitrary: s)
    case (Cons a tos)
    obtain s1 where s1: "put1 K ctx a (bals K ctx s a + v) s = (Inr (), s1)"
      "tokens.settle K ctx (map (\<lambda>a. (a, v)) tos) s1 = (Inr (), s')"
      using Cons.prems(5) by auto
    have a: "plain a" and tos: "\<forall>a \<in> set tos. plain a" and snd: "ac_Addr (cx_Sender ctx) \<notin> set tos"
      "ac_Addr (cx_Sender ctx) \<noteq> a" using Cons.prems(3,4) by auto
    have ok1: "call_ok K ctx t s1" by (rule put1_ok [OF Cons.prems(1) a s1(1)])
    have c: "credit_to K ctx (GetAccount ctx a) v s = (Inr okE, s1)"
      by (rule credit_to_put [OF Cons.prems(1) _ _ Cons.prems(2)]) (use a s1(1) in \<open>simp_all add: GetAccount_def\<close>)
    show ?case using Cons.IH [OF ok1 Cons.prems(2) snd(1) tos s1(2)] c snd(2) by simp
  qed simp
  moreover obtain s' where "tokens.settle K ctx (map (\<lambda>a. (a, v)) tos) s = (Inr (), s')" "call_ok K ctx t s'"
    "\<forall>b. plain b \<longrightarrow> bals K ctx s' b = credits (map (\<lambda>a. (a, v)) tos) (bals K ctx s) b"
    using tokens.settle_run [of K ctx t s s "map (\<lambda>a. (a, v)) tos"] assms(1,4) by (auto dest: at_callD)
  ultimately show ?thesis by blast
qed

section \<open>The token's record\<close>

lemma own_token_run:
  assumes "call_ok K ctx t s"
  shows "own_token K ctx s = Inr (Inr t)"
proof -
  have "own_token K ctx s = Inr (dec1 (k_Token K) (view1 K (cx_TxState ctx) s (keyOfToken_v1 (own_addr ctx))))"
    using ts_Get_view [OF codecs1D(1) [OF tok_okD(1) [OF call_okD(2) [OF assms]]] tok_okD(2) [OF call_okD(2) [OF assms]]]
    by (simp add: own_token_def ts_GetToken_def own_addr_def)
  then show ?thesis using assms by (auto simp: call_ok_def tok_ok_def tok1_def)
qed

lemma TokenSupply_run:
  assumes "call_ok K ctx (Some t) s"
  shows "ctx_TokenSupply K ctx s = Inr (it_TotalSupply t, okE)"
  using own_token_run [OF assms] by (simp add: ctx_TokenSupply_def)

text \<open>The supply is set if the flag that the operation needs is; balances stay.\<close>

lemma SetTokenSupply_run:
  assumes ok: "call_ok K ctx (Some t) s" and a: "it_Address t = own_addr ctx"
    and f: "add \<longrightarrow> it_AddSupplyEnabled t" "burn \<longrightarrow> it_BurnEnabled t"
  obtains s' where "ctx_SetTokenSupply K ctx v add burn s = (Inr okE, s')" "call_ok K ctx (Some (t\<lparr>it_TotalSupply := v\<rparr>)) s'"
    "\<And>b. plain b \<Longrightarrow> bals K ctx s' b = bals K ctx s b"
proof -
  have a': "it_Address (t\<lparr>it_TotalSupply := v\<rparr>) = own_addr ctx" by (simp add: a)
  show thesis
  proof (rule SetToken_run [OF call_okD(2) [OF ok] a'])
    fix s'
    assume s': "ts_SetToken K (cx_TxState ctx) (t\<lparr>it_TotalSupply := v\<rparr>) s = (Inr (Inr ()), s')"
      "tok_ok K (cx_TxState ctx) (own_addr ctx) s'"
      "tok1 K (cx_TxState ctx) (own_addr ctx) s' = Some (t\<lparr>it_TotalSupply := v\<rparr>)"
      "\<And>b. plain b \<Longrightarrow> bal1 K (cx_TxState ctx) (own_addr ctx) s' b = bal1 K (cx_TxState ctx) (own_addr ctx) s b"
    show thesis
      by (rule that [of s']) (use s' f ok own_token_run [OF ok] in
          \<open>auto simp: ctx_SetTokenSupply_def call_ok_def bals_def\<close>)
  qed
qed

lemma SetTokenSupply_refused:
  assumes ok: "call_ok K ctx (Some t) s" and f: "\<not> ((add \<longrightarrow> it_AddSupplyEnabled t) \<and> (burn \<longrightarrow> it_BurnEnabled t))"
  obtains e where "ctx_SetTokenSupply K ctx v add burn s = (Inr e, s)" "\<not> isOK e"
proof (cases "add \<and> \<not> it_AddSupplyEnabled t")
  case True
  show thesis by (rule that [of "errC ErrCodeInterContractsUnsupportAddSupply"])
      (use True own_token_run [OF ok] in \<open>simp_all add: ctx_SetTokenSupply_def code_defs\<close>)
next
  case False
  show thesis by (rule that [of "errC ErrCodeInterContractsUnsupportBurn"])
      (use False f own_token_run [OF ok] in \<open>auto simp: ctx_SetTokenSupply_def code_defs\<close>)
qed

end
