(* ===== verification/V1_Token_Props.thy ===== *)
theory V1_Token_Props
  imports V1_Tokens
begin

text \<open>
  What the token contracts of version 1 do to balances and supply, as a whole: each method by itself,
  and a sequence of calls of a token.
\<close>

section \<open>One transfer\<close>

text \<open>Debit of the sender, credit of another account.\<close>

lemma pay_run:
  assumes ok: "call_ok K ctx t s" and a: "plain to_addr" "to_addr \<noteq> ac_Addr (cx_Sender ctx)"
    and v: "0 \<le> v" "v \<le> bals K ctx s (ac_Addr (cx_Sender ctx))"
  obtains s1 s2 where "debit K ctx (cx_Sender ctx) (bals K ctx s (ac_Addr (cx_Sender ctx))) v s = (Inr okE, s1)"
    "call_ok K ctx t s1" "credit_to K ctx (GetAccount ctx to_addr) v s1 = (Inr okE, s2)" "call_ok K ctx t s2"
    "\<And>b. plain b \<Longrightarrow> bals K ctx s2 b = ((bals K ctx s)
       (ac_Addr (cx_Sender ctx) := bals K ctx s (ac_Addr (cx_Sender ctx)) - v, to_addr := bals K ctx s to_addr + v)) b"
proof (rule debit_run [OF ok call_okD(5) [OF ok] call_okD(3) [OF ok] v])
  fix s1
  assume s1: "debit K ctx (cx_Sender ctx) (bals K ctx s (ac_Addr (cx_Sender ctx))) v s = (Inr okE, s1)" "call_ok K ctx t s1"
    "\<And>b. plain b \<Longrightarrow> bals K ctx s1 b = ((bals K ctx s)(ac_Addr (cx_Sender ctx) := bals K ctx s (ac_Addr (cx_Sender ctx)) - v)) b"
  have acc: "plain (ac_Addr (GetAccount ctx to_addr))" "ac_TxState (GetAccount ctx to_addr) = cx_TxState ctx"
    using a by (simp_all add: GetAccount_def)
  show thesis
  proof (rule credit_to_run [OF s1(2) acc v(1)])
    fix s2
    assume s2: "credit_to K ctx (GetAccount ctx to_addr) v s1 = (Inr okE, s2)" "call_ok K ctx t s2"
      "\<And>b. plain b \<Longrightarrow> bals K ctx s2 b = ((bals K ctx s1)(ac_Addr (GetAccount ctx to_addr) :=
         bals K ctx s1 (ac_Addr (GetAccount ctx to_addr)) + v)) b"
    show thesis
      by (rule that [OF s1(1,2) s2(1,2)]) (use a s1(3) s2(3) in \<open>simp add: GetAccount_def\<close>)
  qed
qed

lemmas transfer_defs = negative_def errC_def errD_def isOK_def okE_def

lemma Templet_Transfer_refuses:
  assumes ok: "call_ok K ctx t s"
  shows "v < 0 \<Longrightarrow> Templet_Transfer K ctx to_addr v s = (Inr negative, s)"
    "0 \<le> v \<Longrightarrow> to_addr = ac_Addr (cx_Sender ctx) \<Longrightarrow>
      Templet_Transfer K ctx to_addr v s = (Inr (errC ErrCodeInterContractsUnsupportTransToSelf), s)"
    "0 \<le> v \<Longrightarrow> to_addr \<noteq> ac_Addr (cx_Sender ctx) \<Longrightarrow> bals K ctx s (ac_Addr (cx_Sender ctx)) < v \<Longrightarrow>
      Templet_Transfer K ctx to_addr v s = (Inr (errC ErrCodeInterContractsInsufficientBalance), s)"
  using Balance_run [OF ok call_okD(5) [OF ok] call_okD(3) [OF ok]]
  by (simp_all add: Templet_Transfer_def bigD [OF call_okD(1) [OF ok]] debit_def errC_def isOK_def code_defs)

lemma Templet_Transfer_moves:
  assumes ok: "call_ok K ctx t s" and a: "plain to_addr" "to_addr \<noteq> ac_Addr (cx_Sender ctx)"
    and v: "0 \<le> v" "v \<le> bals K ctx s (ac_Addr (cx_Sender ctx))"
  obtains s' where "Templet_Transfer K ctx to_addr v s = (Inr okE, s')" "call_ok K ctx t s'"
    "\<And>b. plain b \<Longrightarrow> bals K ctx s' b = ((bals K ctx s)
       (ac_Addr (cx_Sender ctx) := bals K ctx s (ac_Addr (cx_Sender ctx)) - v, to_addr := bals K ctx s to_addr + v)) b"
proof (rule pay_run [OF ok a v])
  fix s1 s2
  assume p: "debit K ctx (cx_Sender ctx) (bals K ctx s (ac_Addr (cx_Sender ctx))) v s = (Inr okE, s1)"
    "credit_to K ctx (GetAccount ctx to_addr) v s1 = (Inr okE, s2)" "call_ok K ctx t s2"
    and b: "\<And>b. plain b \<Longrightarrow> bals K ctx s2 b = ((bals K ctx s)
       (ac_Addr (cx_Sender ctx) := bals K ctx s (ac_Addr (cx_Sender ctx)) - v, to_addr := bals K ctx s to_addr + v)) b"
  show thesis
    by (rule that [OF _ p(3) b])
      (use p(1,2) v a Balance_run [OF ok call_okD(5) [OF ok] call_okD(3) [OF ok]] in
        \<open>simp_all add: Templet_Transfer_def bigD [OF call_okD(1) [OF ok]]\<close>)
qed

section \<open>What a call does to the token\<close>

text \<open>
  A call of a token: credits of accounts of \<open>A\<close>, whose sum \<open>d\<close> is what the total supply grows by; the rest of
  the token's record stays, and no balance becomes negative.
\<close>

definition effect :: "'db Env1 \<Rightarrow> InvokeContext \<Rightarrow> string set \<Rightarrow> IssueToken \<Rightarrow> 'db V1 \<Rightarrow> int \<Rightarrow> 'db V1 \<Rightarrow> bool" where
  "effect K ctx A t s d s' \<longleftrightarrow> (\<exists>xs. fst ` set xs \<subseteq> A \<and> (\<Sum>(a, v) \<leftarrow> xs. v) = d
    \<and> call_ok K ctx (Some (t\<lparr>it_TotalSupply := it_TotalSupply t + d\<rparr>)) s'
    \<and> (\<forall>b. plain b \<longrightarrow> bals K ctx s' b = credits xs (bals K ctx s) b)
    \<and> ((\<forall>b. plain b \<longrightarrow> 0 \<le> bals K ctx s b) \<longrightarrow> (\<forall>b. plain b \<longrightarrow> 0 \<le> bals K ctx s' b)))"

lemma effectI:
  assumes "fst ` set xs \<subseteq> A" "(\<Sum>(a, v) \<leftarrow> xs. v) = d"
    "call_ok K ctx (Some (t\<lparr>it_TotalSupply := it_TotalSupply t + d\<rparr>)) s'"
    "\<And>b. plain b \<Longrightarrow> bals K ctx s' b = credits xs (bals K ctx s) b"
    "\<And>b. plain b \<Longrightarrow> 0 \<le> bals K ctx s b \<Longrightarrow> 0 \<le> credits xs (bals K ctx s) b"
  shows "effect K ctx A t s d s'"
  using assms unfolding effect_def by (intro exI [of _ xs]) simp

lemma effect_total:
  assumes "effect K ctx A t s d s'" "finite S" "A \<subseteq> S" "\<forall>a \<in> S. plain a"
  shows "sum (bals K ctx s') S = sum (bals K ctx s) S + d"
proof -
  obtain xs where xs: "fst ` set xs \<subseteq> A" "(\<Sum>(a, v) \<leftarrow> xs. v) = d"
    "\<forall>b. plain b \<longrightarrow> bals K ctx s' b = credits xs (bals K ctx s) b"
    using assms(1) unfolding effect_def by blast
  have "sum (bals K ctx s') S = sum (credits xs (bals K ctx s)) S" using xs(3) assms(4) by (intro sum.cong) auto
  then show ?thesis using credits_total [OF assms(2), of xs "bals K ctx s"] xs(1,2) assms(3) by auto
qed

text \<open>Every call that returns OK, by method.\<close>

lemma Templet_Transfer_effect:
  assumes ok: "call_ok K ctx (Some t) s" and a: "plain to_addr"
    and r: "Templet_Transfer K ctx to_addr v s = (Inr e, s')" "isOK e"
  shows "effect K ctx {ac_Addr (cx_Sender ctx), to_addr} t s 0 s'"
proof -
  note no = Templet_Transfer_refuses [OF ok, of v to_addr]
  let ?f = "ac_Addr (cx_Sender ctx)"
  have c: "0 \<le> v" "to_addr \<noteq> ?f" "v \<le> bals K ctx s ?f"
    using no r by (fastforce simp: negative_def code_defs not_less [symmetric])+
  show ?thesis
  proof (rule Templet_Transfer_moves [OF ok a c(2,1,3)])
    fix s1 assume s1: "Templet_Transfer K ctx to_addr v s = (Inr okE, s1)" "call_ok K ctx (Some t) s1"
      "\<And>b. plain b \<Longrightarrow> bals K ctx s1 b = ((bals K ctx s)(?f := bals K ctx s ?f - v, to_addr := bals K ctx s to_addr + v)) b"
    then have "s1 = s'" using r by simp
    then show ?thesis
      by (intro effectI [of "[(?f, - v), (to_addr, v)]"]) (use s1 c in auto)
  qed
qed

lemma debit_refused:
  assumes "bignum_ok K" "old < v"
  shows "debit K ctx acc old v s = (Inr (errC ErrCodeInterContractsInsufficientBalance), s)"
  using bigD [OF assms(1)] assms(2) by (simp add: debit_def)

lemma batch_ok_not_self:
  "batch_loop K ctx tos v s = (Inr e, s') \<Longrightarrow> isOK e \<Longrightarrow> ac_Addr (cx_Sender ctx) \<notin> set tos"
proof (induction tos arbitrary: s)
  case (Cons a tos)
  have n: "ac_Addr (cx_Sender ctx) \<noteq> a" using Cons.prems by (auto simp: code_defs)
  obtain r s1 where c: "credit_to K ctx (GetAccount ctx a) v s = (r, s1)" by fastforce
  show ?case using Cons.IH Cons.prems n c by (cases r) (auto split: if_splits)
qed simp

lemma sum_equal_credits: "(\<Sum>(a, v) \<leftarrow> map (\<lambda>a. (a, w)) tos. v) = int (length tos) * w"
  by (induction tos) (auto simp: algebra_simps)

lemma credits_increase: "\<forall>(a, v) \<in> set xs. (0 :: int) \<le> v \<Longrightarrow> f b \<le> credits xs f b"
proof (induction xs arbitrary: f)
  case (Cons x xs)
  obtain a v where x: "x = (a, v)" by fastforce
  have "f b \<le> (f(a := f a + v)) b" using Cons.prems x by simp
  then show ?case using Cons.IH [of "f(a := f a + v)"] Cons.prems x by fastforce
qed simp

lemma Templet_BatchTransfer_effect:
  assumes ok: "call_ok K ctx (Some t) s" and a: "\<forall>a \<in> set tos. plain a"
    and r: "Templet_BatchTransfer K ctx tos v s = (Inr e, s')" "isOK e"
  shows "effect K ctx (insert (ac_Addr (cx_Sender ctx)) (set tos)) t s 0 s'"
proof -
  let ?f = "ac_Addr (cx_Sender ctx)"
  note snd = call_okD(5,3) [OF ok] and big = bigD [OF call_okD(1) [OF ok]]
  obtain p where m: "Big_Multi K v (length tos) = Inr p"
    using r by (cases "Big_Multi K v (length tos)") (auto simp: Templet_BatchTransfer_def negative_def code_defs split: if_splits)
  have p: "p = v * int (length tos)" using call_okD(1) [OF ok] m unfolding bignum_ok_def by blast
  have c: "0 \<le> v" "v \<le> p" using r m big by (auto simp: Templet_BatchTransfer_def negative_def code_defs split: if_splits)
  have le: "p \<le> bals K ctx s ?f"
  proof (rule ccontr)
    assume "\<not> p \<le> bals K ctx s ?f"
    then have "debit K ctx (cx_Sender ctx) (bals K ctx s ?f) p s = (Inr (errC ErrCodeInterContractsInsufficientBalance), s)"
      by (intro debit_refused [OF call_okD(1) [OF ok]]) simp
    then show False using r m c big Balance_run [OF ok snd]
      by (auto simp: Templet_BatchTransfer_def negative_def code_defs split: if_splits)
  qed
  have p0: "0 \<le> p" using c by simp
  show ?thesis
  proof (rule debit_run [OF ok snd p0 le])
    fix s1
    assume s1: "debit K ctx (cx_Sender ctx) (bals K ctx s ?f) p s = (Inr okE, s1)" "call_ok K ctx (Some t) s1"
      "\<And>b. plain b \<Longrightarrow> bals K ctx s1 b = ((bals K ctx s)(?f := bals K ctx s ?f - p)) b"
    have l: "batch_loop K ctx tos v s1 = (Inr e, s')"
      using r m c big Balance_run [OF ok snd] s1(1)
      by (auto simp: Templet_BatchTransfer_def negative_def code_defs split: if_splits)
    obtain s2 where s2: "batch_loop K ctx tos v s1 = (Inr okE, s2)" "call_ok K ctx (Some t) s2"
      "\<forall>b. plain b \<longrightarrow> bals K ctx s2 b = credits (map (\<lambda>a. (a, v)) tos) (bals K ctx s1) b"
      using batch_settle [OF s1(2) c(1) batch_ok_not_self [OF l r(2)] a] by blast
    have same: "s2 = s'" using s2(1) l by simp
    let ?xs = "(?f, - p) # map (\<lambda>a. (a, v)) tos"
    have e: "credits ?xs (bals K ctx s) b = credits (map (\<lambda>a. (a, v)) tos) (bals K ctx s1) b" if "plain b" for b
      using that s1(3) by (simp add: credits_apply)
    show ?thesis
    proof (rule effectI [of ?xs])
      fix b assume b: "plain b" "0 \<le> bals K ctx s b"
      then have "0 \<le> bals K ctx s1 b" using s1(3) le by simp
      then show "0 \<le> credits ?xs (bals K ctx s) b"
        using credits_increase [of "map (\<lambda>a. (a, v)) tos" "bals K ctx s1" b] c(1) e [OF b(1)] by fastforce
    qed (use e s2 same p sum_equal_credits [of v tos] in auto)
  qed
qed

lemma Templet_AddSupply_effect:
  assumes ok: "call_ok K ctx (Some t) s" and t: "it_Address t = own_addr ctx"
    and r: "Templet_AddSupply K ctx v s = (Inr e, s')" "isOK e"
  shows "effect K ctx {ac_Addr (cx_Owner ctx)} t s v s'"
proof -
  note big = bigD [OF call_okD(1) [OF ok]]
  let ?o = "ac_Addr (cx_Owner ctx)"
  have c: "0 < v" "ac_Addr (cx_Sender ctx) = ?o"
    using r big by (auto simp: Templet_AddSupply_def only_owner_def negative_def code_defs split: if_splits)
  have d: "checkE (Token_SetSupply K ctx (it_TotalSupply t + v) s) (\<lambda>s. credit_to K ctx (cx_Owner ctx) v s) = (Inr e, s')"
    using r c big TokenSupply_run [OF ok] by (simp add: Templet_AddSupply_def only_owner_def)
  have f: "it_AddSupplyEnabled t"
  proof (rule ccontr)
    assume n: "\<not> it_AddSupplyEnabled t"
    show False
    proof (rule SetTokenSupply_refused [OF ok, where add = True and burn = False and v = "it_TotalSupply t + v"])
      fix e' assume "ctx_SetTokenSupply K ctx (it_TotalSupply t + v) True False s = (Inr e', s)" "\<not> isOK e'"
      then show False using d r(2) by (simp add: Token_SetSupply_def)
    qed (use n in simp)
  qed
  show ?thesis
  proof (rule SetTokenSupply_run [OF ok t, where add = True and burn = False and v = "it_TotalSupply t + v"])
    fix s1
    assume s1: "ctx_SetTokenSupply K ctx (it_TotalSupply t + v) True False s = (Inr okE, s1)"
      "call_ok K ctx (Some (t\<lparr>it_TotalSupply := it_TotalSupply t + v\<rparr>)) s1"
      "\<And>b. plain b \<Longrightarrow> bals K ctx s1 b = bals K ctx s b"
    have v0: "0 \<le> v" using c by simp
    show ?thesis
    proof (rule credit_to_run [OF s1(2) call_okD(6) [OF ok] call_okD(4) [OF ok] v0])
      fix s2
      assume s2: "credit_to K ctx (cx_Owner ctx) v s1 = (Inr okE, s2)"
        "call_ok K ctx (Some (t\<lparr>it_TotalSupply := it_TotalSupply t + v\<rparr>)) s2"
        "\<And>b. plain b \<Longrightarrow> bals K ctx s2 b = ((bals K ctx s1)(?o := bals K ctx s1 ?o + v)) b"
      have "s2 = s'" using d s1(1) s2(1) by (simp add: Token_SetSupply_def)
      then show ?thesis
        by (intro effectI [of "[(?o, v)]"]) (use s1(3) s2 c call_okD(6) [OF ok] in auto)
    qed
  qed (use f in simp_all)
qed

lemma Templet_Burn_effect:
  assumes ok: "call_ok K ctx (Some t) s" and t: "it_Address t = own_addr ctx"
    and r: "Templet_Burn K ctx v s = (Inr e, s')" "isOK e"
  shows "effect K ctx {ac_Addr (cx_Sender ctx)} t s (- v) s'"
proof -
  note big = bigD [OF call_okD(1) [OF ok]] and snd = call_okD(5,3) [OF ok]
  let ?f = "ac_Addr (cx_Sender ctx)"
  have b: "Balance K (cx_Owner ctx) (own_addr ctx) s = Inr (bals K ctx s (ac_Addr (cx_Owner ctx)))"
    by (rule Balance_run [OF ok call_okD(6,4) [OF ok]])
  have c: "0 \<le> v" "ac_Addr (cx_Owner ctx) = ?f"
    using r big by (auto simp: Templet_Burn_def only_owner_def negative_def code_defs split: if_splits)
  have le: "v \<le> bals K ctx s ?f"
  proof (rule ccontr)
    assume "\<not> v \<le> bals K ctx s ?f"
    then show False using r big b c by (auto simp: Templet_Burn_def only_owner_def Let_def code_defs)
  qed
  show ?thesis
  proof (rule SetBalance_step [OF ok snd, where v = "bals K ctx s ?f - v"])
    fix s1
    assume s1: "acct_SetBalance K (cx_Sender ctx) (own_addr ctx) (bals K ctx s ?f - v) s = (Inr okE, s1)"
      "call_ok K ctx (Some t) s1" "\<And>b. plain b \<Longrightarrow> bals K ctx s1 b = ((bals K ctx s)(?f := bals K ctx s ?f - v)) b"
    have d: "ctx_SetTokenSupply K ctx (it_TotalSupply t - v) False True s1 = (Inr e, s')"
      using r big b c le s1(1) TokenSupply_run [OF s1(2)]
      by (auto simp: Templet_Burn_def Token_Burn_def only_owner_def code_defs Let_def split: if_splits)
    have f: "it_BurnEnabled t"
    proof (rule ccontr)
      assume n: "\<not> it_BurnEnabled t"
      show False
      proof (rule SetTokenSupply_refused [OF s1(2), where add = False and burn = True and v = "it_TotalSupply t - v"])
        fix e' assume "ctx_SetTokenSupply K ctx (it_TotalSupply t - v) False True s1 = (Inr e', s1)" "\<not> isOK e'"
        then show False using d r(2) by simp
      qed (use n in simp)
    qed
    show ?thesis
    proof (rule SetTokenSupply_run [OF s1(2) t, where add = False and burn = True and v = "it_TotalSupply t - v"])
      fix s2
      assume s2: "ctx_SetTokenSupply K ctx (it_TotalSupply t - v) False True s1 = (Inr okE, s2)"
        "call_ok K ctx (Some (t\<lparr>it_TotalSupply := it_TotalSupply t - v\<rparr>)) s2"
        "\<And>b. plain b \<Longrightarrow> bals K ctx s2 b = bals K ctx s1 b"
      have "s2 = s'" using d s2(1) by simp
      then show ?thesis by (intro effectI [of "[(?f, - v)]"]) (use s1(3) s2 le in auto)
    qed (use f in simp_all)
  qed
qed

section \<open>A sequence of calls\<close>

datatype token_call =
  Call_Transfer string int
| Call_BatchTransfer "string list" int
| Call_AddSupply int
| Call_Burn int

fun run_call :: "'db Env1 \<Rightarrow> InvokeContext \<Rightarrow> token_call \<Rightarrow> 'db V1 \<Rightarrow> ('db V1, BCError) act" where
  "run_call K ctx (Call_Transfer to_addr v) s = Templet_Transfer K ctx to_addr v s"
| "run_call K ctx (Call_BatchTransfer tos v) s = Templet_BatchTransfer K ctx tos v s"
| "run_call K ctx (Call_AddSupply v) s = Templet_AddSupply K ctx v s"
| "run_call K ctx (Call_Burn v) s = Templet_Burn K ctx v s"

fun run_calls :: "'db Env1 \<Rightarrow> InvokeContext \<Rightarrow> token_call list \<Rightarrow> 'db V1 \<Rightarrow> ('db V1, BCError) act" where
  "run_calls K ctx [] s = (Inr okE, s)"
| "run_calls K ctx (c # cs) s = checkE (run_call K ctx c s) (run_calls K ctx cs)"

fun receivers :: "token_call \<Rightarrow> string set" where
  "receivers (Call_Transfer to_addr v) = {to_addr}"
| "receivers (Call_BatchTransfer tos v) = set tos"
| "receivers _ = {}"

definition parties :: "InvokeContext \<Rightarrow> token_call list \<Rightarrow> string set" where
  "parties ctx cs = {ac_Addr (cx_Sender ctx), ac_Addr (cx_Owner ctx)} \<union> (\<Union>c \<in> set cs. receivers c)"

lemma effect_mono: "effect K ctx A t s d s' \<Longrightarrow> A \<subseteq> B \<Longrightarrow> effect K ctx B t s d s'"
  unfolding effect_def by blast

lemma run_call_effect:
  assumes ok: "call_ok K ctx (Some t) s" and t: "it_Address t = own_addr ctx"
    and a: "\<forall>a \<in> receivers c. plain a" and r: "run_call K ctx c s = (Inr e, s')" "isOK e"
  obtains d where "effect K ctx (parties ctx [c]) t s d s'"
proof (cases c)
  case (Call_Transfer to_addr v)
  have "effect K ctx {ac_Addr (cx_Sender ctx), to_addr} t s 0 s'"
    by (rule Templet_Transfer_effect [OF ok]) (use a r Call_Transfer in auto)
  then show thesis by (rule that [OF effect_mono]) (auto simp: parties_def Call_Transfer)
next
  case (Call_BatchTransfer tos v)
  have "effect K ctx (insert (ac_Addr (cx_Sender ctx)) (set tos)) t s 0 s'"
    by (rule Templet_BatchTransfer_effect [OF ok]) (use a r Call_BatchTransfer in auto)
  then show thesis by (rule that [OF effect_mono]) (auto simp: parties_def Call_BatchTransfer)
next
  case (Call_AddSupply v)
  have "effect K ctx {ac_Addr (cx_Owner ctx)} t s v s'"
    by (rule Templet_AddSupply_effect [OF ok t]) (use r Call_AddSupply in auto)
  then show thesis by (rule that [OF effect_mono]) (auto simp: parties_def)
next
  case (Call_Burn v)
  have "effect K ctx {ac_Addr (cx_Sender ctx)} t s (- v) s'"
    by (rule Templet_Burn_effect [OF ok t]) (use r Call_Burn in auto)
  then show thesis by (rule that [OF effect_mono]) (auto simp: parties_def)
qed

lemma run_calls_supply:
  assumes "call_ok K ctx (Some t) s" "it_Address t = own_addr ctx" "\<forall>a \<in> parties ctx cs. plain a"
    "run_calls K ctx cs s = (Inr e, s')" "isOK e"
  obtains t' where "call_ok K ctx (Some t') s'" "it_Address t' = own_addr ctx" "t\<lparr>it_TotalSupply := it_TotalSupply t'\<rparr> = t'"
    "\<And>S. finite S \<Longrightarrow> parties ctx cs \<subseteq> S \<Longrightarrow> \<forall>a \<in> S. plain a \<Longrightarrow>
       sum (bals K ctx s') S - it_TotalSupply t' = sum (bals K ctx s) S - it_TotalSupply t"
    "(\<forall>b. plain b \<longrightarrow> 0 \<le> bals K ctx s b) \<longrightarrow> (\<forall>b. plain b \<longrightarrow> 0 \<le> bals K ctx s' b)"
  using assms
proof (induction cs arbitrary: s t thesis)
  case (Cons c cs)
  have p: "\<forall>a \<in> parties ctx cs. plain a" "\<forall>a \<in> receivers c. plain a"
    using Cons.prems(4) by (auto simp: parties_def)
  obtain e1 s1 where r1: "run_call K ctx c s = (Inr e1, s1)" "isOK e1" "run_calls K ctx cs s1 = (Inr e, s')"
    using Cons.prems(5,6) by (cases "run_call K ctx c s"; cases "fst (run_call K ctx c s)") (auto split: if_splits)
  obtain d where d: "effect K ctx (parties ctx [c]) t s d s1"
    by (rule run_call_effect [OF Cons.prems(2,3) p(2) r1(1,2)])
  let ?t = "t\<lparr>it_TotalSupply := it_TotalSupply t + d\<rparr>"
  have ok1: "call_ok K ctx (Some ?t) s1" and nn: "(\<forall>b. plain b \<longrightarrow> 0 \<le> bals K ctx s b) \<longrightarrow> (\<forall>b. plain b \<longrightarrow> 0 \<le> bals K ctx s1 b)"
    using d unfolding effect_def by blast+
  have t1: "it_Address ?t = own_addr ctx" using Cons.prems(3) by simp
  show ?case
  proof (rule Cons.IH [OF _ ok1 t1 p(1) r1(3) Cons.prems(6)])
    fix t'
    assume t': "call_ok K ctx (Some t') s'" "it_Address t' = own_addr ctx" "?t\<lparr>it_TotalSupply := it_TotalSupply t'\<rparr> = t'"
      "\<And>S. finite S \<Longrightarrow> parties ctx cs \<subseteq> S \<Longrightarrow> \<forall>a \<in> S. plain a \<Longrightarrow>
         sum (bals K ctx s') S - it_TotalSupply t' = sum (bals K ctx s1) S - it_TotalSupply ?t"
      "(\<forall>b. plain b \<longrightarrow> 0 \<le> bals K ctx s1 b) \<longrightarrow> (\<forall>b. plain b \<longrightarrow> 0 \<le> bals K ctx s' b)"
    show ?thesis
    proof (rule Cons.prems(1) [OF t'(1,2)])
      fix S assume S: "finite S" "parties ctx (c # cs) \<subseteq> S" "\<forall>a \<in> S. plain a"
      then have "parties ctx [c] \<subseteq> S" "parties ctx cs \<subseteq> S" by (auto simp: parties_def)
      then show "sum (bals K ctx s') S - it_TotalSupply t' = sum (bals K ctx s) S - it_TotalSupply t"
        using t'(4) [OF S(1) _ S(3)] effect_total [OF d S(1) _ S(3)] by simp
    qed (use t'(3,5) nn in simp_all)
  qed
qed auto

end
