(* ===== verification/V1_Gas_Props.thy ===== *)
theory V1_Gas_Props
  imports V1_Gas V1_Token_Props
begin

text \<open>
  Fees and rewards of version 1: the checked arithmetic is that of the numbers, the rewards of a strategy
  add up to what was paid, and the two together move balances of the basic token without creating any.
\<close>

section \<open>Checked arithmetic\<close>

lemma word64_bounds:
  fixes a :: uint64
  shows "unat a < 2 ^ 64" "unat (- 1 :: uint64) = 2 ^ 64 - 1"
proof -
  show "unat a < 2 ^ 64" by (rule order_less_le_trans [OF unsigned_less]) simp
  show "unat (- 1 :: uint64) = 2 ^ 64 - 1" by (simp add: unsigned_minus_1_eq_mask mask_eq_exp_minus_1)
qed

lemma safeAdd_exact:
  "snd (safeAdd a b) \<longleftrightarrow> 2 ^ 64 \<le> unat a + unat b"
  "\<not> snd (safeAdd a b) \<Longrightarrow> unat (fst (safeAdd a b)) = unat a + unat b"
proof -
  have m: "unat (- 1 - b) = 2 ^ 64 - 1 - unat b"
    using word64_bounds(1) [of b] word64_bounds(2) by (subst unat_sub) (simp_all add: word_le_nat_alt)
  have l: "unat b < 2 ^ 64" by (rule word64_bounds)
  show s: "snd (safeAdd a b) \<longleftrightarrow> 2 ^ 64 \<le> unat a + unat b"
    using m l by (simp add: safeAdd_def word_less_nat_alt) linarith
  show "unat (fst (safeAdd a b)) = unat a + unat b" if "\<not> snd (safeAdd a b)"
    using that s by (simp add: safeAdd_def unat_word_ariths split: if_splits)
qed

lemma mult_overflow_div:
  fixes a b :: uint64
  assumes "b \<noteq> 0"
  shows "a * b div b \<noteq> a \<longleftrightarrow> 2 ^ 64 \<le> unat a * unat b"
proof -
  have b: "0 < unat b" using assms by (simp add: unat_gt_0)
  have d: "unat (a * b div b) = unat a * unat b mod 2 ^ 64 div unat b"
    by (simp add: unat_div unat_word_ariths)
  have "unat a * unat b mod 2 ^ 64 div unat b = unat a \<longleftrightarrow> unat a * unat b < 2 ^ 64"
  proof
    assume e: "unat a * unat b mod 2 ^ 64 div unat b = unat a"
    have "unat a * unat b \<le> unat a * unat b mod 2 ^ 64"
      using div_times_less_eq_dividend [of "unat a * unat b mod 2 ^ 64" "unat b"] unfolding e .
    then show "unat a * unat b < 2 ^ 64" by (rule le_less_trans) simp
  qed (use b in simp)
  then show ?thesis using d by (metis not_le word_unat_eq_iff)
qed

lemma unat_two:
  fixes a :: uint64
  assumes "a \<noteq> 0" "a \<noteq> 1"
  shows "2 \<le> unat a"
proof -
  have "unat a \<noteq> 0" "unat a \<noteq> 1" using assms by (metis unat_0 unat_1 unsigned_word_eqI)+
  then show ?thesis by linarith
qed

lemma safeMul_exact:
  "snd (safeMul a b) \<longleftrightarrow> 2 ^ 64 \<le> unat a * unat b"
  "\<not> snd (safeMul a b) \<Longrightarrow> unat (fst (safeMul a b)) = unat a * unat b"
proof -
  have l: "unat a < 2 ^ 64" "unat b < 2 ^ 64" by (rule word64_bounds(1))+
  have m: "unat (- 1 :: uint64) = 2 ^ 64 - 1" by (rule word64_bounds)
  show s: "snd (safeMul a b) \<longleftrightarrow> 2 ^ 64 \<le> unat a * unat b"
  proof (cases "a = 0 \<or> b = 0 \<or> a = 1 \<or> b = 1")
    case False
    then have g: "2 \<le> unat a" "2 \<le> unat b" using unat_two [of a] unat_two [of b] by auto
    show ?thesis
    proof (cases "a = - 1 \<or> b = - 1")
      case True
      then have "2 ^ 64 \<le> unat a * unat b"
      proof
        assume "a = - 1"
        then show ?thesis using mult_le_mono [OF order_refl g(2), of "unat a"] m by simp
      next
        assume "b = - 1"
        then show ?thesis using mult_le_mono [OF g(1) order_refl, of "unat b"] m by simp
      qed
      then show ?thesis using False True by (simp add: safeMul_def)
    qed (use False mult_overflow_div [of b a] in \<open>simp add: safeMul_def Let_def\<close>)
  qed (use l in \<open>auto simp: safeMul_def\<close>)
  show "unat (fst (safeMul a b)) = unat a * unat b" if "\<not> snd (safeMul a b)"
  proof -
    have "unat (a * b) = unat a * unat b" using that s by (simp add: unat_word_ariths)
    then show ?thesis using that by (auto simp: safeMul_def Let_def split: if_splits)
  qed
qed

lemma calcFee_cases:
  fixes gas gaslimit gasprice
  defines "g \<equiv> min gas gaslimit"
  shows "calcFee gas gaslimit gasprice =
    (if gasprice = 0 then (0, errC ErrCodeInterContractsInvalidGasPrice)
     else if 2 ^ 64 \<le> unat g * unat gasprice then (fst (safeMul g gasprice), errC ErrCodeInterContractsInvalidFee)
     else (g * gasprice, if gaslimit < gas then errC ErrCodeInterContractsInvalidGasLimit else okE))"
proof -
  have g: "(if gaslimit < gas then gaslimit else gas) = g" by (auto simp: g_def min_def not_le)
  have p: "fst (safeMul g gasprice) = g * gasprice" if "\<not> snd (safeMul g gasprice)"
    using that by (auto simp: safeMul_def Let_def split: if_splits)
  show ?thesis
    using g p safeMul_exact(1) [of g gasprice]
    by (cases "safeMul g gasprice") (auto simp: calcFee_def errC_def okE_def split: if_splits)
qed

section \<open>Rewards\<close>

text \<open>Who gets the share of an entry of the strategy.\<close>

definition reward_addr :: "string \<Rightarrow> types_Rewarder \<Rightarrow> string" where
  "reward_addr rewarder item = (if wr_Name item = ''validators'' then rewarder else wr_Address item)"

lemma update_new: "k \<notin> fst ` set m \<Longrightarrow> AList.update k v m = m @ [(k, v)]"
  by (induction m) auto

lemma sum_update:
  fixes m :: "(string, uint64) gomap"
  assumes "distinct (map fst m)"
  shows "sum_list (map snd (AList.update k (val_at m k + d) m)) = sum_list (map snd m) + d"
  using assms
proof (induction m)
  case (Cons x m)
  show ?case
  proof (cases "fst x = k")
    case True
    then show ?thesis by (cases x) (simp add: val_at_def)
  next
    case False
    then have "val_at (x # m) k = val_at m k" by (cases x) (simp add: val_at_def)
    then show ?thesis using Cons False by (cases x) (simp add: algebra_simps)
  qed
qed (simp add: val_at_def)

lemma reward_loop_sum:
  assumes "reward_loop value rewarder items m sum0 = (m', Some sum1)"
    "distinct (map fst m @ map (reward_addr rewarder) items)" "sum_list (map snd m) = sum0"
  shows "map fst m' = map fst m @ map (reward_addr rewarder) items \<and> sum_list (map snd m') = sum1"
  using assms
proof (induction items arbitrary: m sum0)
  case (Cons item items)
  let ?a = "reward_addr rewarder item"
  have new: "?a \<notin> fst ` set m" using Cons.prems(2) by auto
  obtain n where n: "Atoi (drop_point (wr_RewardPercent item)) = (True, n)"
    using Cons.prems(1) by (cases "Atoi (drop_point (wr_RewardPercent item))"; cases "fst (Atoi (drop_point (wr_RewardPercent item)))") auto
  obtain p where p: "safeMul value (word_of_int n) = (p, False)"
    using Cons.prems(1) n by (cases "safeMul value (word_of_int n)"; cases "snd (safeMul value (word_of_int n))") auto
  let ?v = "share_of p (wr_RewardPercent item)"
  have step: "reward_loop value rewarder items (m @ [(?a, ?v)]) (sum0 + ?v) = (m', Some sum1)"
    using Cons.prems(1) n p update_new [OF new] by (simp add: reward_addr_def Let_def)
  have "map fst m' = map fst (m @ [(?a, ?v)]) @ map (reward_addr rewarder) items \<and> sum_list (map snd m') = sum1"
    by (rule Cons.IH [OF step]) (use Cons.prems(2,3) in simp_all)
  then show ?case by simp
qed simp

definition strategy_addrs :: "types_RewardStrategy \<Rightarrow> string \<Rightarrow> string list" where
  "strategy_addrs strategy rewarder = map (reward_addr rewarder) (list_of (st_Strategy strategy))"

lemma CalcdRewards_sum:
  assumes "CalcdRewards strategy value rewarder = (rewards, e)" "isOK e" "distinct (strategy_addrs strategy rewarder)"
  shows "sum_list (map snd rewards) = big_Uint64 value" "distinct (map fst rewards)"
    "fst ` set rewards \<subseteq> insert rewarder (set (strategy_addrs strategy rewarder))"
proof -
  obtain m r where l: "reward_loop (big_Uint64 value) rewarder (list_of (st_Strategy strategy)) [] 0 = (m, r)"
    by fastforce
  obtain sum1 where r: "r = Some sum1" using assms(1,2) l by (cases r) (auto simp: CalcdRewards_def code_defs)
  have m: "map fst m = strategy_addrs strategy rewarder" "sum_list (map snd m) = sum1"
    using reward_loop_sum [OF l [unfolded r]] assms(3) by (simp_all add: strategy_addrs_def)
  have d: "distinct (map fst m)" using assms(3) m(1) by simp
  have u: "distinct (map fst (AList.update k v m))" for k v using d by (rule AList.distinct_update)
  have k: "fst ` set (AList.update k v m) = insert k (fst ` set m)" for k v
    using AList.dom_update [of k v m] by (simp add: dom_map_of_conv_image_fst)
  have s: "fst ` set m = set (strategy_addrs strategy rewarder)" using m(1) by (metis set_map)
  have c: "sum1 < big_Uint64 value \<and> rewards = AList.update rewarder (val_at m rewarder + (big_Uint64 value - sum1)) m
      \<or> sum1 = big_Uint64 value \<and> rewards = m"
    using assms(1,2) l r by (auto simp: CalcdRewards_def code_defs not_less_iff_gr_or_eq split: if_splits)
  show "sum_list (map snd rewards) = big_Uint64 value"
    using c m(2) sum_update [OF d, of rewarder "big_Uint64 value - sum1"] by auto
  show "distinct (map fst rewards)" using c u d by auto
  show "fst ` set rewards \<subseteq> insert rewarder (set (strategy_addrs strategy rewarder))" using c k s by auto
qed

section \<open>Paying the rewards\<close>

text \<open>The basic token is paid through a tx of its own, in which the sender acts.\<close>

definition basic_ctx :: "InvokeContext \<Rightarrow> string \<Rightarrow> TxState \<Rightarrow> InvokeContext" where
  "basic_ctx ctx a gen = ctx\<lparr>cx_Sender := \<lparr>ac_Addr = a, ac_TxState = gen\<rparr>, cx_Owner := \<lparr>ac_Addr = a, ac_TxState = gen\<rparr>,
     cx_TxState := gen\<rparr>"

lemma basic_ctx_sel [simp]:
  "cx_TxState (basic_ctx ctx a gen) = gen" "cx_Sender (basic_ctx ctx a gen) = \<lparr>ac_Addr = a, ac_TxState = gen\<rparr>"
  "cx_Owner (basic_ctx ctx a gen) = \<lparr>ac_Addr = a, ac_TxState = gen\<rparr>" "own_addr (basic_ctx ctx a gen) = ts_ContractAddress gen"
  by (simp_all add: basic_ctx_def own_addr_def)

definition as_credits :: "(string, uint64) gomap \<Rightarrow> (string \<times> int) list" where
  "as_credits m = map (\<lambda>(k, v). (k, uint v)) m"

lemma put1_run:
  assumes ok: "call_ok K ctx t s" and a: "plain a" and p: "put1 K ctx a v s = (Inr (), s')"
  shows "ts_SetBalance K (cx_TxState ctx) a (own_addr ctx) v s = (Inr (Inr ()), s')"
proof (rule SetBalance_run [OF call_okD(2) [OF ok] a, where v = v])
  fix s1 assume "ts_SetBalance K (cx_TxState ctx) a (own_addr ctx) v s = (Inr (Inr ()), s1)"
  then show ?thesis using p by (simp add: put1_def acct_SetBalance_def GetAccount_def)
qed

lemma setRewardBalances_run:
  assumes ok: "call_ok K ctx t s" and m: "\<forall>k \<in> fst ` set m. plain k"
  shows "\<exists>s'. setRewardBalances K (cx_TxState ctx) m s = (Inr okE, s') \<and> at_call K ctx t s s'
    \<and> (\<forall>b. plain b \<longrightarrow> bals K ctx s' b = credits (as_credits m) (bals K ctx s) b)"
proof -
  have "setRewardBalances K (cx_TxState ctx) m s = (Inr okE, s')"
    if "tokens.settle K ctx (as_credits m) s = (Inr (), s')" for s'
    using ok m that
  proof (induction m arbitrary: s)
    case (Cons x m)
    obtain a v where x: "x = (a, v)" by fastforce
    obtain s1 where s1: "put1 K ctx a (bals K ctx s a + uint v) s = (Inr (), s1)"
      "tokens.settle K ctx (as_credits m) s1 = (Inr (), s')"
      using Cons.prems(3) by (auto simp: as_credits_def x)
    have a: "plain a" "\<forall>k \<in> fst ` set m. plain k" using Cons.prems(2) x by auto
    have ok1: "call_ok K ctx t s1" by (rule put1_ok [OF Cons.prems(1) a(1) s1(1)])
    show ?case
      using Cons.IH [OF ok1 a(2) s1(2)] put1_run [OF Cons.prems(1) a(1) s1(1)] x
        GetBalance_view [OF call_okD(2) [OF Cons.prems(1)] a(1)] bigD [OF call_okD(1) [OF Cons.prems(1)]]
      by (simp add: bals_def own_addr_def)
  qed (simp add: as_credits_def)
  moreover obtain s' where "tokens.settle K ctx (as_credits m) s = (Inr (), s')" "at_call K ctx t s s'"
    "\<forall>b. plain b \<longrightarrow> bals K ctx s' b = credits (as_credits m) (bals K ctx s) b"
    using tokens.settle_run [of K ctx t s s "as_credits m"] ok m by (fastforce simp: as_credits_def)
  ultimately show ?thesis by blast
qed

section \<open>Paying for gas\<close>

text \<open>Balances as the block has them.\<close>

definition block_bal :: "'db Env1 \<Rightarrow> string \<Rightarrow> 'db V1 \<Rightarrow> string \<Rightarrow> int" where
  "block_bal K tok s a = (case dec1 (k_Balance K) (block1 K s (keyOfAccountToken a tok)) of
     Inr (Some t) \<Rightarrow> tb_Balance t | _ \<Rightarrow> 0)"

definition block_ok :: "'db Env1 \<Rightarrow> string \<Rightarrow> 'db V1 \<Rightarrow> bool" where
  "block_ok K tok s \<longleftrightarrow> bignum_ok K \<and> codecs1_ok K \<and> plain tok \<and> v_Transaction s \<noteq> None \<and> lists_ok K (block1 K s)
    \<and> (\<forall>a. plain a \<longrightarrow> (\<exists>t. dec1 (k_Balance K) (block1 K s (keyOfAccountToken a tok)) = Inr t))
    \<and> (\<exists>t. dec1 (k_Token K) (block1 K s (keyOfToken_v1 tok)) = Inr t)"

lemma CalcdRewards_OK: "CalcdRewards strategy value rewarder = (m, e) \<Longrightarrow> isOK e \<Longrightarrow> e = okE"
  by (auto simp: CalcdRewards_def code_defs split: prod.splits option.splits if_splits)

text \<open>What \<open>pay_rewards\<close> returns without an error it has credited.\<close>

lemma pay_rewards_run:
  assumes ok: "call_ok K c t s" and c: "cx_TxState c = gen"
    and r: "pay_rewards K ctx gen value rw s = (Inr (m, e), s')" "isOK e" and m: "\<forall>k \<in> fst ` set m. plain k"
  obtains strategy where "CalcdRewards strategy value rw = (m, okE)" "call_ok K c t s'"
    "\<forall>b. plain b \<longrightarrow> bals K c s' b = credits (as_credits m) (bals K c s) b"
proof -
  obtain strategy e1 where g: "ctx_GetStrategy K ctx s = Inr (strategy, e1)" "isOK e1"
    using r by (cases "ctx_GetStrategy K ctx s") (auto simp: pay_rewards_def split: if_splits)
  obtain m' e2 where k: "CalcdRewards strategy value rw = (m', e2)" by fastforce
  have e2: "isOK e2" using r g k by (auto simp: pay_rewards_def split: if_splits)
  obtain x s1 where x: "setRewardBalances K gen m' s = (x, s1)" by fastforce
  have mm: "m' = m" using r g k e2 x by (cases x) (auto simp: pay_rewards_def)
  obtain s2 where s2: "setRewardBalances K gen m s = (Inr okE, s2)" "call_ok K c t s2"
    "\<forall>b. plain b \<longrightarrow> bals K c s2 b = credits (as_credits m) (bals K c s) b"
    using setRewardBalances_run [OF ok m] c at_callD(1) by blast
  have "s2 = s'" using r g k e2 mm s2(1) by (simp add: pay_rewards_def)
  then show thesis using that k mm CalcdRewards_OK [OF k e2] s2 by simp
qed

text \<open>The second half of \<open>CheckAndPayForGas\<close>, when it gets to the rewards.\<close>

lemma pay_gas_run:
  assumes ok: "call_ok K (basic_ctx ctx (ac_Addr sender) gen) t s"
    and tok: "it_Address tokenbasic = ts_ContractAddress gen"
    and bal: "bals K (basic_ctx ctx (ac_Addr sender) gen) s (ac_Addr sender) = senderBalance"
    and r: "pay_gas K ctx sender (Some p) (Some rw) tokenbasic token senderBalance gen fee bcerr0 s = (Inr r, s')"
      "gr_gasprice r \<noteq> 0" "\<forall>k \<in> fst ` set (gr_rewards r). plain k"
  obtains strategy s1 out where "CalcdRewards strategy (min (uint fee) senderBalance) rw = (gr_rewards r, okE)"
    "call_ok K (basic_ctx ctx (ac_Addr sender) gen) t s1" "ts_CommitTx gen s1 = (Inr out, s')"
    "\<forall>b. plain b \<longrightarrow> bals K (basic_ctx ctx (ac_Addr sender) gen) s1 b =
       credits ((ac_Addr sender, - min (uint fee) senderBalance) # as_credits (gr_rewards r))
         (bals K (basic_ctx ctx (ac_Addr sender) gen) s) b"
    "gr_gasprice r = it_GasPrice token" "gr_gasused r = fee div it_GasPrice token"
proof -
  let ?c = "basic_ctx ctx (ac_Addr sender) gen" and ?f = "ac_Addr sender" and ?v = "min (uint fee) senderBalance"
  let ?acc = "\<lparr>ac_Addr = ?f, ac_TxState = gen\<rparr>"
  note big = bigD [OF call_okD(1) [OF ok]]
  have acc: "plain (ac_Addr ?acc)" "ac_TxState ?acc = cx_TxState ?c" using call_okD(5) [OF ok] by simp_all
  have v: "(if Big_Compare K senderBalance (UintToBigInt K fee) < 0 then senderBalance else UintToBigInt K fee) = ?v"
    "(if Big_Compare K senderBalance (UintToBigInt K fee) < 0 then 0 else Big_Sub K senderBalance (UintToBigInt K fee))
      = senderBalance - ?v"
    by (simp_all add: big min_def)
  show thesis
  proof (rule SetBalance_step [OF ok acc, where v = "senderBalance - ?v"])
    fix s1
    assume s1: "acct_SetBalance K ?acc (own_addr ?c) (senderBalance - ?v) s = (Inr okE, s1)" "call_ok K ?c t s1"
      "\<And>b. plain b \<Longrightarrow> bals K ?c s1 b = ((bals K ?c s)(ac_Addr ?acc := senderBalance - ?v)) b"
    obtain x s2 where x: "pay_rewards K ctx gen ?v rw s1 = (x, s2)" by fastforce
    obtain bc where d: "seqR (pay_rewards K ctx gen ?v rw s1) (\<lambda>(rewardValues, e) s.
        if \<not> isOK e then (Inr (gasErr e), s)
        else seqR (ts_CommitTx gen s) (\<lambda>_ s.
          (Inr \<lparr>gr_gasused = fee div it_GasPrice token, gr_gasprice = it_GasPrice token,
             gr_rewards = rewardValues, gr_error = bc\<rparr>, s))) = (Inr r, s')"
      using r(1) s1(1) unfolding pay_gas_def by (simp add: tok v onError_def Let_def)
    obtain m e where me: "x = Inr (m, e)" using d x by (cases x) auto
    have e: "isOK e" using d x me r(2) by (auto simp: gasErr_def split: if_splits)
    obtain y s3 where y: "ts_CommitTx gen s2 = (y, s3)" by fastforce
    obtain out where out: "y = Inr out" "r = \<lparr>gr_gasused = fee div it_GasPrice token, gr_gasprice = it_GasPrice token,
        gr_rewards = m, gr_error = bc\<rparr>" "s3 = s'"
      using d x me e y by (cases y) auto
    have m: "\<forall>k \<in> fst ` set m. plain k" using r(3) out(2) by simp
    show thesis
    proof (rule pay_rewards_run [OF s1(2) _ x [unfolded me] e m])
      fix strategy
      assume p: "CalcdRewards strategy ?v rw = (m, okE)" "call_ok K ?c t s2"
        "\<forall>b. plain b \<longrightarrow> bals K ?c s2 b = credits (as_credits m) (bals K ?c s1) b"
      have b: "bals K ?c s2 b = credits ((?f, - ?v) # as_credits m) (bals K ?c s) b" if "plain b" for b
        using p(3) that s1(3) credits_cong [of plain "bals K ?c s1" "(bals K ?c s)(?f := bals K ?c s ?f + - ?v)" b "as_credits m"]
          bal by simp
      show thesis by (rule that [of strategy s2 out]) (use p out y b in simp_all)
    qed simp
  qed
qed

lemma fresh_call_ok:
  assumes "block_ok K tok s" "live gen s1" "view1 K gen s1 = block1 K s" "ts_ContractAddress gen = tok" "plain a"
  shows "call_ok K (basic_ctx ctx a gen) (tok1 K gen tok s1) s1" "bals K (basic_ctx ctx a gen) s1 = block_bal K tok s"
proof -
  have "tok_ok K gen tok s1" using assms unfolding block_ok_def tok_ok_def by simp
  then show "call_ok K (basic_ctx ctx a gen) (tok1 K gen tok s1) s1"
    using assms by (simp add: call_ok_def block_ok_def)
  show "bals K (basic_ctx ctx a gen) s1 = block_bal K tok s"
    by (rule ext) (simp add: bals_def bal1_def block_bal_def assms)
qed

lemma CheckAndPayForGas_run:
  assumes ok: "block_ok K (it_Address tokenbasic) s" "plain (ac_Addr sender)"
    and gt: "ts_GetGenesisToken K (ac_TxState sender) s = Inr (Inr (Some tokenbasic))"
    and r: "CheckAndPayForGas K ctx sender (Some p) (Some rw) gas gaslimit s = (Inr r, s')"
      "gr_gasprice r \<noteq> 0" "\<forall>k \<in> fst ` set (gr_rewards r). plain k"
  obtains strategy fee e where "calcFee gas gaslimit (gr_gasprice r) = (fee, e)"
    "isOK e \<or> ErrorCode e = ErrCodeInterContractsInvalidGasLimit"
    "CalcdRewards strategy (min (uint fee) (block_bal K (it_Address tokenbasic) s (ac_Addr sender))) rw = (gr_rewards r, okE)"
    "\<forall>b. plain b \<longrightarrow> block_bal K (it_Address tokenbasic) s' b =
       credits ((ac_Addr sender, - min (uint fee) (block_bal K (it_Address tokenbasic) s (ac_Addr sender))) # as_credits (gr_rewards r))
         (block_bal K (it_Address tokenbasic) s) b"
proof -
  let ?tok = "it_Address tokenbasic" and ?f = "ac_Addr sender"
  have e0: "ctx_CheckValidatorRewardAddr K p rw s = Inr e0 \<Longrightarrow> isOK e0" for e0
    using r(1,2) by (auto simp: CheckAndPayForGas_def gasErr_def split: if_splits)
  obtain e0 where e0: "ctx_CheckValidatorRewardAddr K p rw s = Inr e0" "isOK e0"
    using r(1) e0 by (cases "ctx_CheckValidatorRewardAddr K p rw s") (auto simp: CheckAndPayForGas_def)
  obtain t where t: "v_Transaction s = Some t" using ok(1) by (auto simp: block_ok_def)
  obtain gen s1 where n: "sdb_NewTxState ?tok ?f s = (Inr gen, s1)" "ts_ContractAddress gen = ?tok" "live gen s1"
    "view1 K gen s1 = block1 K s"
    by (rule sdb_NewTxState_run [OF t]) blast
  note call = fresh_call_ok [OF ok(1) n(3,4,2) ok(2), of ctx]
  have bal: "acct_BalanceOf K \<lparr>ac_Addr = ?f, ac_TxState = gen\<rparr> ?tok s1 = Inr (block_bal K ?tok s ?f, okE)"
    using GetBalance_view [OF call_okD(2) [OF call(1)], of ?f] ok(2) call(2) n(2)
    by (simp add: acct_BalanceOf_def bals_def)
  note d0 = r(1) [unfolded CheckAndPayForGas_def, simplified, unfolded e0(1), simplified]
  have d1: "getGas (sdb_GetContract K (ts_ContractAddress (ac_TxState sender)) s1) (errC ErrCodeInterContractsInvalidAddr) s1
      (\<lambda>_. case price_token K ctx sender tokenbasic s1 of
        Inl e \<Rightarrow> (Inl e, s1)
      | Inr (Inl e) \<Rightarrow> (Inr (gasErr (lowE e)), s1)
      | Inr (Inr token) \<Rightarrow>
        let (fee, bcerr) = calcFee gas gaslimit (it_GasPrice token)
        in if \<not> isOK bcerr \<and> ErrorCode bcerr \<noteq> ErrCodeInterContractsInvalidGasLimit then (Inr (gasErr bcerr), s1)
           else pay_gas K ctx sender (Some p) (Some rw) tokenbasic token (block_bal K ?tok s ?f) gen fee bcerr s1) = (Inr r, s')"
    using d0 e0(2) gt n(1) bal by simp
  obtain cc where cc: "sdb_GetContract K (ts_ContractAddress (ac_TxState sender)) s1 = Inr (Inr (Some cc))"
    using d1 r(2) by (auto simp: getGas_def gasErr_def split: sum.splits option.splits)
  obtain token where token: "price_token K ctx sender tokenbasic s1 = Inr (Inr token)"
    using d1 r(2) cc by (auto simp: getGas_def gasErr_def split: sum.splits)
  obtain fee e where fee: "calcFee gas gaslimit (it_GasPrice token) = (fee, e)" by fastforce
  have e: "isOK e \<or> ErrorCode e = ErrCodeInterContractsInvalidGasLimit"
    using d1 r(2) cc token fee by (auto simp: getGas_def gasErr_def split: if_splits)
  have pay: "pay_gas K ctx sender (Some p) (Some rw) tokenbasic token (block_bal K ?tok s ?f) gen fee e s1 = (Inr r, s')"
    using d1 cc token fee e by (auto simp: getGas_def)
  show thesis
  proof (rule pay_gas_run [OF call(1) n(2) [symmetric] _ pay r(2,3)])
    fix strategy s2 out
    assume p: "CalcdRewards strategy (min (uint fee) (block_bal K ?tok s ?f)) rw = (gr_rewards r, okE)"
      "call_ok K (basic_ctx ctx ?f gen) (tok1 K gen ?tok s1) s2" "ts_CommitTx gen s2 = (Inr out, s')"
      "\<forall>b. plain b \<longrightarrow> bals K (basic_ctx ctx ?f gen) s2 b =
         credits ((?f, - min (uint fee) (block_bal K ?tok s ?f)) # as_credits (gr_rewards r)) (bals K (basic_ctx ctx ?f gen) s1) b"
      and g: "gr_gasprice r = it_GasPrice token"
    have lv: "live gen s2" using tok_okD(2) [OF call_okD(2) [OF p(2)]] by simp
    obtain s3 where s3: "ts_CommitTx gen s2 = (Inr out, s3)" "block1 K s3 = view1 K gen s2"
      by (rule ts_CommitTx_run [OF lv, of K]) (use p(3) in auto)
    have b: "block_bal K ?tok s' b = bals K (basic_ctx ctx ?f gen) s2 b" for b
      using s3 p(3) n(2) by (simp add: block_bal_def bals_def bal1_def)
    show thesis
      by (rule that [OF _ e p(1)]) (use fee g p(4) b call(2) in simp_all)
  qed (use call(2) in simp)
qed

section \<open>The payment goes through\<close>

text \<open>What another tx, or a reader of the block, sees before and after.\<close>

definition same_reads :: "'db Env1 \<Rightarrow> TxState \<Rightarrow> 'db V1 \<Rightarrow> 'db V1 \<Rightarrow> bool" where
  "same_reads K ts s s' \<longleftrightarrow> sdb_Get K s' = sdb_Get K s \<and> ts_Get K ts s' = ts_Get K ts s"

lemma only_tx_reads:
  assumes "only_tx gen s s'" "ts_Tx ts \<noteq> ts_Tx gen"
  shows "same_reads K ts s s'"
proof -
  have b: "sdb_Get K s' = sdb_Get K s" using assms by (auto simp: fun_eq_iff sdb_Get_def only_tx_def split: option.split)
  moreover have "ts_Get K ts s' = ts_Get K ts s"
    unfolding ts_Get_def b using assms by (auto simp: fun_eq_iff only_tx_def split: option.split)
  ultimately show ?thesis by (simp add: same_reads_def)
qed

lemma new_tx_reads:
  assumes "sdb_NewTxState c a s = (Inr gen, s')" "ts_Tx ts \<noteq> ts_Tx gen"
  shows "same_reads K ts s s'"
proof -
  obtain t where t: "v_Transaction s = Some t" using assms(1) by (cases "v_Transaction s") (auto simp: sdb_NewTxState_def)
  have s': "s' = s\<lparr>v_Transaction := Some (t\<lparr>lastTxID := lastTxID t + 1\<rparr>),
      v_Tx := (v_Tx s)(lastTxID t + 1 \<mapsto> \<lparr>txID = lastTxID t + 1, xbuffer = []\<rparr>)\<rparr>" "ts_Tx gen = Some (lastTxID t + 1)"
    using assms(1) t by (auto simp: sdb_NewTxState_def Transaction_NewTx_def calcTxID_def Let_def)
  have g: "Transaction_Get (ext1 K) d (t\<lparr>lastTxID := n\<rparr>) k = Transaction_Get (ext1 K) d t k" for d n k
    by (simp add: Transaction_Get_def)
  have b: "sdb_Get K s' k = sdb_Get K s k" for k using t g by (simp add: sdb_Get_def s'(1) split: option.split)
  then have bb: "sdb_Get K s' = sdb_Get K s" by (rule ext)
  have "ts_Get K ts s' k = ts_Get K ts s k" for k
    unfolding ts_Get_def bb using assms(2) s' by (auto split: option.split)
  then show ?thesis using bb by (simp add: same_reads_def fun_eq_iff)
qed

lemma same_reads_trans: "same_reads K ts s s1 \<Longrightarrow> same_reads K ts s1 s2 \<Longrightarrow> same_reads K ts s s2"
  by (simp add: same_reads_def)

lemma same_reads_ops:
  assumes "same_reads K (cx_TxState ctx) s s'"
  shows "ctx_GetStrategy K ctx s' = ctx_GetStrategy K ctx s" "sdb_GetContract K a s' = sdb_GetContract K a s"
    "price_token K ctx sender tokenbasic s' = price_token K ctx sender tokenbasic s"
proof -
  have e: "sdb_GetWorldAppState K s' = sdb_GetWorldAppState K s" "ts_GetStrategys K (cx_TxState ctx) s' = ts_GetStrategys K (cx_TxState ctx) s"
    "sdb_GetContract K a s' = sdb_GetContract K a s" "ts_GetToken K (cx_TxState ctx) b s' = ts_GetToken K (cx_TxState ctx) b s" for a b
    using assms by (simp_all add: same_reads_def ts_GetStrategys_def sdb_GetWorldAppState_def sdb_GetContract_def ts_GetToken_def)
  show "ctx_GetStrategy K ctx s' = ctx_GetStrategy K ctx s" unfolding ctx_GetStrategy_def e ..
  show "sdb_GetContract K a s' = sdb_GetContract K a s" by (rule e)
  show "price_token K ctx sender tokenbasic s' = price_token K ctx sender tokenbasic s" unfolding price_token_def e ..
qed

lemma pay_gas_goes:
  assumes ok: "call_ok K (basic_ctx ctx (ac_Addr sender) gen) t s"
    and tok: "it_Address tokenbasic = ts_ContractAddress gen"
    and bal: "bals K (basic_ctx ctx (ac_Addr sender) gen) s (ac_Addr sender) = senderBalance"
    and strat: "ctx_GetStrategy K ctx s = Inr (strategy, okE)" "ts_Tx (cx_TxState ctx) \<noteq> ts_Tx gen"
    and rew: "CalcdRewards strategy (min (uint fee) senderBalance) rw = (rewards, okE)" "\<forall>k \<in> fst ` set rewards. plain k"
  shows "\<exists>s'. pay_gas K ctx sender (Some p) (Some rw) tokenbasic token senderBalance gen fee e s =
    (Inr \<lparr>gr_gasused = fee div it_GasPrice token, gr_gasprice = it_GasPrice token, gr_rewards = rewards,
       gr_error = if senderBalance < uint fee then e\<lparr>ErrorCode := ErrCodeInterContractsInsufficientBalance\<rparr> else e\<rparr>, s')"
proof -
  let ?c = "basic_ctx ctx (ac_Addr sender) gen" and ?f = "ac_Addr sender" and ?v = "min (uint fee) senderBalance"
  let ?acc = "\<lparr>ac_Addr = ?f, ac_TxState = gen\<rparr>"
  note big = bigD [OF call_okD(1) [OF ok]]
  have acc: "plain (ac_Addr ?acc)" "ac_TxState ?acc = cx_TxState ?c" using call_okD(5) [OF ok] by simp_all
  have v: "(if Big_Compare K senderBalance (UintToBigInt K fee) < 0 then senderBalance else UintToBigInt K fee) = ?v"
    "(if Big_Compare K senderBalance (UintToBigInt K fee) < 0 then 0 else Big_Sub K senderBalance (UintToBigInt K fee))
      = senderBalance - ?v"
    "(Big_Compare K senderBalance (UintToBigInt K fee) < 0) = (senderBalance < uint fee)"
    by (simp_all add: big min_def)
  show ?thesis
  proof (rule SetBalance_step [OF ok acc, where v = "senderBalance - ?v"])
    fix s1
    assume s1: "acct_SetBalance K ?acc (own_addr ?c) (senderBalance - ?v) s = (Inr okE, s1)" "call_ok K ?c t s1"
      "only_tx (cx_TxState ?c) s s1"
    have st: "ctx_GetStrategy K ctx s1 = Inr (strategy, okE)"
      using same_reads_ops(1) [OF only_tx_reads [OF s1(3), of "cx_TxState ctx"]] strat by simp
    obtain s2 where s2: "setRewardBalances K gen rewards s1 = (Inr okE, s2)" "at_call K ?c t s1 s2"
      using setRewardBalances_run [OF s1(2) rew(2)] by auto
    have lv: "live gen s2" using tok_okD(2) [OF call_okD(2) [OF at_callD(1) [OF s2(2)]]] by simp
    have pr: "pay_rewards K ctx gen ?v rw s1 = (Inr (rewards, okE), s2)"
      using st rew(1) s2(1) by (simp add: pay_rewards_def)
    obtain out s3 where s3: "ts_CommitTx gen s2 = (Inr out, s3)" by (rule ts_CommitTx_run [OF lv]) blast
    show ?thesis
      using s1(1) pr s3 unfolding pay_gas_def by (simp add: tok v(1,2) onError_def Let_def) (simp add: v(3))
  qed
qed

lemma CheckAndPayForGas_goes:
  assumes ok: "block_ok K (it_Address tokenbasic) s" "plain (ac_Addr sender)" "v_Transaction s = Some t"
    and val: "ctx_CheckValidatorRewardAddr K p rw s = Inr okE"
    and gt: "ts_GetGenesisToken K (ac_TxState sender) s = Inr (Inr (Some tokenbasic))"
    and con: "sdb_GetContract K (ts_ContractAddress (ac_TxState sender)) s = Inr (Inr (Some con))"
    and tok: "price_token K ctx sender tokenbasic s = Inr (Inr token)"
    and fee: "calcFee gas gaslimit (it_GasPrice token) = (fee, e)" "isOK e \<or> ErrorCode e = ErrCodeInterContractsInvalidGasLimit"
    and strat: "ctx_GetStrategy K ctx s = Inr (strategy, okE)" "ts_Tx (cx_TxState ctx) \<noteq> Some (lastTxID t + 1)"
    and rew: "CalcdRewards strategy (min (uint fee) (block_bal K (it_Address tokenbasic) s (ac_Addr sender))) rw = (rewards, okE)"
      "\<forall>k \<in> fst ` set rewards. plain k"
  shows "\<exists>s'. CheckAndPayForGas K ctx sender (Some p) (Some rw) gas gaslimit s =
    (Inr \<lparr>gr_gasused = fee div it_GasPrice token, gr_gasprice = it_GasPrice token, gr_rewards = rewards,
       gr_error = if block_bal K (it_Address tokenbasic) s (ac_Addr sender) < uint fee
         then e\<lparr>ErrorCode := ErrCodeInterContractsInsufficientBalance\<rparr> else e\<rparr>, s')"
proof -
  let ?tok = "it_Address tokenbasic" and ?f = "ac_Addr sender"
  obtain gen s1 where n: "sdb_NewTxState ?tok ?f s = (Inr gen, s1)" "ts_ContractAddress gen = ?tok" "live gen s1"
    "view1 K gen s1 = block1 K s" "ts_Tx gen = Some (lastTxID t + 1)"
    by (rule sdb_NewTxState_run [OF ok(3)]) blast
  note call = fresh_call_ok [OF ok(1) n(3,4,2) ok(2), of ctx]
  have bal: "acct_BalanceOf K \<lparr>ac_Addr = ?f, ac_TxState = gen\<rparr> ?tok s1 = Inr (block_bal K ?tok s ?f, okE)"
    using GetBalance_view [OF call_okD(2) [OF call(1)], of ?f] ok(2) call(2) n(2)
    by (simp add: acct_BalanceOf_def bals_def)
  have "same_reads K (cx_TxState ctx) s s1" by (rule new_tx_reads [OF n(1)]) (use strat(2) n(5) in simp)
  note reads = same_reads_ops [OF this]
  obtain s' where s': "pay_gas K ctx sender (Some p) (Some rw) tokenbasic token (block_bal K ?tok s ?f) gen fee e s1 =
    (Inr \<lparr>gr_gasused = fee div it_GasPrice token, gr_gasprice = it_GasPrice token, gr_rewards = rewards,
       gr_error = if block_bal K ?tok s ?f < uint fee
         then e\<lparr>ErrorCode := ErrCodeInterContractsInsufficientBalance\<rparr> else e\<rparr>, s')"
    using pay_gas_goes [OF call(1) n(2) [symmetric] _ _ _ rew(1,2), where token = token and e = e and p = p] call(2) reads(1) strat n(5) by auto
  have sdb: "sdb_GetContract K (ts_ContractAddress (ac_TxState sender)) s1 = Inr (Inr (Some con))"
    and pt: "price_token K ctx sender tokenbasic s1 = Inr (Inr token)" using reads con tok by simp_all
  have ne: "\<not> (\<not> isOK e \<and> ErrorCode e \<noteq> ErrCodeInterContractsInvalidGasLimit)" using fee(2) by blast
  show ?thesis
    unfolding CheckAndPayForGas_def
    by (simp add: val gt n(1) bal sdb getGas_def pt fee(1) ne s' del: not_not)
qed

end
