(* ===== verification/V1_Model.thy ===== *)
theory V1_Model
  imports V1_Gas_Props Deliver_Model
begin

text \<open>
  A concrete environment for the witnesses of the version 1 properties: codecs for tokens, balances and
  lists of keys, integers as big numbers, and a tx in which one token is stored.
\<close>

section \<open>Codecs\<close>

definition flag_text :: "bool \<Rightarrow> string" where
  "flag_text b = (if b then ''1'' else ''0'')"

definition token_codec :: "IssueToken codec" where
  "token_codec = \<lparr>marshal = (\<lambda>t. Inr (enc_entries [(it_Address t, bytes_of_string (it_Owner t)),
       (it_Version t, bytes_of_string (it_Name t)), (it_Symbol t, bytes_of_string (dec_of_int (it_TotalSupply t))),
       (flag_text (it_AddSupplyEnabled t), bytes_of_string (flag_text (it_BurnEnabled t))),
       (dec_of_int (sint (it_GasPrice t)), [])])),
     unmarshal = (\<lambda>b. case dec_entries (length b) b of
         [(addr, owner), (version, name), (symbol, supply), (add, burn), (price, _)] \<Rightarrow>
           Inr \<lparr>it_Address = addr, it_Owner = string_of_bytes owner, it_Version = version, it_Name = string_of_bytes name,
             it_Symbol = symbol, it_TotalSupply = int_of_dec (string_of_bytes supply), it_AddSupplyEnabled = (add = ''1''),
             it_BurnEnabled = (string_of_bytes burn = ''1''), it_GasPrice = word_of_int (int_of_dec price)\<rparr>
       | _ \<Rightarrow> Inl ''not a token'')\<rparr>"

definition tokbal_codec :: "TokenBalance codec" where
  "tokbal_codec = \<lparr>marshal = (\<lambda>a. Inr (enc_entries [(tb_Address a, bytes_of_string (dec_of_int (tb_Balance a)))])),
     unmarshal = (\<lambda>b. case dec_entries (length b) b of
         [(a, v)] \<Rightarrow> Inr \<lparr>tb_Address = a, tb_Balance = int_of_dec (string_of_bytes v)\<rparr>
       | _ \<Rightarrow> Inl ''not a balance'')\<rparr>"

lemma flag_text_eq [simp]: "flag_text b = ''1'' \<longleftrightarrow> b"
  by (simp add: flag_text_def)

lemma token_codec_ok [simp]: "codec_ok token_codec"
  unfolding codec_ok_def token_codec_def codec.simps by (simp del: enc_entries.simps)

lemma tokbal_codec_ok [simp]: "codec_ok tokbal_codec"
  unfolding codec_ok_def tokbal_codec_def codec.simps by (simp del: enc_entries.simps)

text \<open>Codecs of which only the decoder is used: the stored text stands for one value.\<close>

definition const_codec :: "'a \<Rightarrow> 'a codec" where
  "const_codec x = \<lparr>marshal = (\<lambda>_. Inl ''unsupported''), unmarshal = (\<lambda>_. Inr x)\<rparr>"

definition demo_contract1 :: types_Contract where
  "demo_contract1 = \<lparr>tc_Address = ''bcbT'', tc_Owner = ''bcbA'', tc_Name = ''token-basic'', tc_Version = ''1'', tc_CodeHash = [],
     tc_Methods = [], tc_EffectHeight = 1, tc_LoseHeight = 0, tc_ChainVersion = 0, tc_OrgID = []\<rparr>"

definition demo_validator1 :: types_Validator where
  "demo_validator1 = \<lparr>tv_Name = ''node'', tv_NodePubKey = [1], tv_NodeAddr = ''bcbN'', tv_RewardAddr = ''bcbP'', tv_Power = 10\<rparr>"

definition demo_strategy1 :: types_RewardStrategy where
  "demo_strategy1 = \<lparr>st_Strategy = Some [\<lparr>wr_Name = ''validators'', wr_RewardPercent = ''20.00'', wr_Address = []\<rparr>,
     \<lparr>wr_Name = ''fund'', wr_RewardPercent = ''80.00'', wr_Address = ''bcbF''\<rparr>], st_EffectHeight = 1\<rparr>"

section \<open>Environment\<close>

definition model1 :: "kvs Env1" where
  "model1 = \<lparr>env = model_env, k_Token = token_codec, k_Balance = tokbal_codec, k_Contract = const_codec demo_contract1,
     k_Strategies = const_codec [demo_strategy1], k_Account = no_codec, k_UDC = no_codec, k_Validator = const_codec demo_validator1,
     k_Rewarders = no_codec, k_strings = strings_codec, k_string = string_codec, k_uint64 = nonce_codec,
     k_AppState = const_codec no_state, Big_Add = (+), Big_Sub = (-), Big_Compare = (\<lambda>a b. sgn (a - b)),
     Big_Multi = (\<lambda>a n. Inr (a * int n)), Big_SafeMul = (*), Big_SafeDiv = (div), Big_Zero = 0,
     UintToBigInt = uint, CalcContractAddress = (\<lambda>cid owner name ver. cid @ owner @ name @ ver), CheckAddress = (\<lambda>_ _. None),
     PubKeyBytes = (\<lambda>b. b), CalcUdcHash = (\<lambda>_ _ _ _ _. []), CalcMethodId = bytes_of_string,
     Unicode_lower = (\<lambda>s. s)\<rparr>"

lemma model1_sel [simp]:
  "env model1 = model_env" "k_Token model1 = token_codec" "k_Balance model1 = tokbal_codec"
  "k_strings model1 = strings_codec" "k_string model1 = string_codec" "k_uint64 model1 = nonce_codec"
  by (simp_all add: model1_def)

lemma model1_bignum [simp]: "bignum_ok model1"
  by (auto simp: bignum_ok_def model1_def sgn_if)

section \<open>A token in a tx\<close>

definition demo_token :: IssueToken where
  "demo_token = \<lparr>it_Address = ''bcbT'', it_Owner = ''bcbA'', it_Version = ''1'', it_Name = ''demo'', it_Symbol = ''DMO'',
     it_TotalSupply = 5000000000, it_AddSupplyEnabled = True, it_BurnEnabled = True, it_GasPrice = 2500\<rparr>"

definition demo_enc :: "'a codec \<Rightarrow> 'a \<Rightarrow> bytes" where
  "demo_enc c x = (case marshal c x of Inr b \<Rightarrow> b | Inl _ \<Rightarrow> [])"

text \<open>An open block whose first tx has stored the token and given all of it to its owner.\<close>

definition demo_v1 :: "kvs V1" where
  "demo_v1 = \<lparr>v_helper = demo_helper,
     v_Transaction = Some \<lparr>transactionID = 1, tbuffer = [], committable = True, lastTxID = 1\<rparr>,
     v_Tx = [1 \<mapsto> \<lparr>txID = 1, xbuffer = [
       (keyOfToken_v1 ''bcbT'', demo_enc token_codec demo_token),
       (keyOfAccountToken ''bcbA'' ''bcbT'', demo_enc tokbal_codec \<lparr>tb_Address = ''bcbT'', tb_Balance = 5000000000\<rparr>)]\<rparr>]\<rparr>"

definition demo_ts :: TxState where
  "demo_ts = \<lparr>ts_ContractAddress = ''bcbT'', ts_SenderAddress = ''bcbA'', ts_Tx = Some 1\<rparr>"

definition demo_ctx :: InvokeContext where
  "demo_ctx = \<lparr>cx_Sender = \<lparr>ac_Addr = ''bcbA'', ac_TxState = demo_ts\<rparr>, cx_Owner = \<lparr>ac_Addr = ''bcbA'', ac_TxState = demo_ts\<rparr>,
     cx_TxState = demo_ts, cx_BlockHash = [], cx_BlockHeader = no_header, cx_Proposer = None, cx_Rewarder = None,
     cx_GasLimit = 100000, cx_Note = []\<rparr>"

lemma demo_block1 [simp]: "block1 model1 demo_v1 k = None"
  using demo_store_empty [of k]
  by (simp add: block1_def demo_v1_def demo_helper_def base_def nonnil_def db_val_def model_env_def)

lemma demo_live [simp]: "live demo_ts demo_v1"
  by (simp add: live_def demo_ts_def demo_v1_def buf_ok_def keyOfToken_v1_def keyOfAccountToken_def)
    (simp add: demo_enc_def token_codec_def tokbal_codec_def)

lemma demo_enc_ok:
  assumes "codec_ok c"
  shows "demo_enc c x \<noteq> []" "unmarshal c (demo_enc c x) = Inr x"
  by (rule codec_marshal [OF assms, of x], simp add: demo_enc_def)+

lemma demo_view1:
  "view1 model1 demo_ts demo_v1 k = (if k = keyOfToken_v1 ''bcbT'' then Some (demo_enc token_codec demo_token)
     else if k = keyOfAccountToken ''bcbA'' ''bcbT''
     then Some (demo_enc tokbal_codec \<lparr>tb_Address = ''bcbT'', tb_Balance = 5000000000\<rparr>) else None)"
  using demo_block1 [of k]
  by (auto simp: view1_def demo_enc_ok demo_ts_def demo_v1_def keyOfToken_v1_def keyOfAccountToken_def)

lemma demo_own_addr [simp]: "own_addr demo_ctx = ''bcbT''"
  by (simp add: own_addr_def demo_ctx_def demo_ts_def)

lemma demo_tok_ok: "tok_ok model1 demo_ts ''bcbT'' demo_v1"
  unfolding tok_ok_def lists_ok_def codecs1_ok_def demo_view1
  by (auto simp: demo_enc_ok plain_def keyOfTokenAll_def keyOfToken_v1_def keyOfAccount_def keyOfAccountToken_def model_env_def
      model_ext_ok)

lemma demo_call_ok: "call_ok model1 demo_ctx (Some demo_token) demo_v1"
  using demo_tok_ok
  by (simp add: call_ok_def tok1_def demo_view1 demo_enc_ok demo_ctx_def own_addr_def demo_ts_def [symmetric])
    (simp add: demo_ts_def plain_def)

section \<open>A block in which gas is paid\<close>

definition demo_v2 :: "kvs V1" where
  "demo_v2 = \<lparr>v_helper = demo_helper,
     v_Transaction = Some \<lparr>transactionID = 1, tbuffer = [
       (keyOfGenesisToken_v1, demo_enc token_codec demo_token),
       (keyOfToken_v1 ''bcbT'', demo_enc token_codec demo_token),
       (keyOfAccountToken ''bcbA'' ''bcbT'', demo_enc tokbal_codec \<lparr>tb_Address = ''bcbT'', tb_Balance = 5000000000\<rparr>),
       (keyOfContract_v1 ''bcbT'', [1]), (keyOfValidator_v1 ''bcbN'', [1]), (keyOfRewardStrategys, [1]),
       (keyOfWorldAppState_v1, [1])], committable = True, lastTxID = 1\<rparr>,
     v_Tx = [1 \<mapsto> \<lparr>txID = 1, xbuffer = []\<rparr>]\<rparr>"

definition demo_sender :: Account1 where
  "demo_sender = \<lparr>ac_Addr = ''bcbA'', ac_TxState = demo_ts\<rparr>"

lemma demo_block2:
  "block1 model1 demo_v2 k = (if k = keyOfGenesisToken_v1 \<or> k = keyOfToken_v1 ''bcbT'' then Some (demo_enc token_codec demo_token)
     else if k = keyOfAccountToken ''bcbA'' ''bcbT''
     then Some (demo_enc tokbal_codec \<lparr>tb_Address = ''bcbT'', tb_Balance = 5000000000\<rparr>)
     else if k \<in> {keyOfContract_v1 ''bcbT'', keyOfValidator_v1 ''bcbN'', keyOfRewardStrategys, keyOfWorldAppState_v1}
     then Some [1] else None)"
  using demo_store_empty [of k]
  by (auto simp: block1_def demo_v2_def demo_helper_def base_def nonnil_def db_val_def model_env_def)

lemma demo_strategy_runs:
  "CalcdRewards demo_strategy1 250000 ''bcbP'' = ([(''bcbP'', 50000), (''bcbF'', 200000)], okE)"
proof -
  have a: "Atoi (drop_point ''20.00'') = (True, 2000)" "Atoi (drop_point ''80.00'') = (True, 8000)"
    by (simp_all add: Atoi_def dec_digit_def)
  have r: "replicate 4 c = [c, c, c, c]" for c :: char by (simp add: eval_nat_numeral)
  have d: "percent_divisor ''20.00'' = 10000" "percent_divisor ''80.00'' = 10000"
    by (simp_all add: percent_divisor_def Atoi_def dec_digit_def r)
  have s: "share_of 500000000 ''20.00'' = 50000" "share_of 2000000000 ''80.00'' = 200000"
    by (simp_all add: d share_of_def float_floor_div_def float64_def bit_length.simps round_div_def)
  show ?thesis using a by (simp add: CalcdRewards_def demo_strategy1_def list_of_def safeMul_def s big_Uint64_def)
qed

lemma model1_ext: "ext_ok (ext1 model1)"
  by (simp add: model_env_def model_ext_ok)

lemmas demo_get2 = sdb_Get_block [OF model1_ext, of demo_v2]

lemmas key_defs = keyOfGenesisToken_v1_def keyOfToken_v1_def keyOfAccountToken_def keyOfContract_v1_def keyOfValidator_v1_def
  keyOfRewardStrategys_def keyOfWorldAppState_v1_def keyOfTokenAll_def keyOfAccount_def

lemma demo_bal2:
  "block_bal model1 ''bcbT'' demo_v2 a = (if a = ''bcbA'' then 5000000000 else 0)"
  by (auto simp: block_bal_def demo_block2 demo_enc_ok key_defs)

lemma demo_block_ok2: "block_ok model1 ''bcbT'' demo_v2"
  unfolding block_ok_def lists_ok_def codecs1_ok_def demo_block2
  using model1_ext by (auto simp: demo_enc_ok plain_def key_defs demo_v2_def)

lemma demo_ts_Get2: "ts_Get model1 demo_ts demo_v2 k = Inr (Inr (block1 model1 demo_v2 k))"
proof -
  have "live demo_ts demo_v2" by (simp add: live_def demo_ts_def demo_v2_def)
  moreover have "view1 model1 demo_ts demo_v2 k = block1 model1 demo_v2 k"
    by (simp add: view1_def) (simp add: demo_ts_def demo_v2_def)
  ultimately show ?thesis using ts_Get_view [OF model1_ext] by simp
qed

lemma demo_reads2:
  "ctx_CheckValidatorRewardAddr model1 ''bcbN'' ''bcbP'' demo_v2 = Inr okE"
  "ts_GetGenesisToken model1 demo_ts demo_v2 = Inr (Inr (Some demo_token))"
  "sdb_GetContract model1 (ts_ContractAddress demo_ts) demo_v2 = Inr (Inr (Some demo_contract1))"
  "price_token model1 demo_ctx demo_sender demo_token demo_v2 = Inr (Inr demo_token)"
  "ctx_GetStrategy model1 demo_ctx demo_v2 = Inr (demo_strategy1, okE)"
proof -
  show "ctx_CheckValidatorRewardAddr model1 ''bcbN'' ''bcbP'' demo_v2 = Inr okE"
    by (simp add: ctx_CheckValidatorRewardAddr_def sdb_GetValidator_def demo_get2 demo_block2 key_defs)
      (simp add: model1_def const_codec_def demo_validator1_def)
  show "ts_GetGenesisToken model1 demo_ts demo_v2 = Inr (Inr (Some demo_token))"
    by (simp add: ts_GetGenesisToken_def demo_ts_Get2 demo_block2 demo_enc_ok)
  show "sdb_GetContract model1 (ts_ContractAddress demo_ts) demo_v2 = Inr (Inr (Some demo_contract1))"
    by (simp add: sdb_GetContract_def demo_ts_def demo_get2 demo_block2 key_defs) (simp add: model1_def const_codec_def)
  have c: "cx_TxState demo_ctx = demo_ts" "ac_TxState demo_sender = demo_ts" "ts_ContractAddress demo_ts = ''bcbT''"
    by (simp_all add: demo_ctx_def demo_sender_def demo_ts_def)
  show "price_token model1 demo_ctx demo_sender demo_token demo_v2 = Inr (Inr demo_token)"
    by (simp add: price_token_def c ts_GetToken_def demo_ts_Get2 demo_block2 demo_enc_ok)
  have st: "ts_GetStrategys model1 demo_ts demo_v2 = Inr (Inr [demo_strategy1])"
    by (simp add: ts_GetStrategys_def demo_ts_Get2 demo_block2 key_defs) (simp add: model1_def const_codec_def list_of_def)
  have w: "sdb_GetWorldAppState model1 demo_v2 = Inr (Inr (Some no_state))"
    by (simp add: sdb_GetWorldAppState_def demo_get2 demo_block2 key_defs) (simp add: model1_def const_codec_def)
  show "ctx_GetStrategy model1 demo_ctx demo_v2 = Inr (demo_strategy1, okE)"
    by (simp add: ctx_GetStrategy_def c st w) (simp add: demo_strategy1_def no_strategy_def no_state_def)
qed

end
