(* ===== verification/V1_Keys.thy ===== *)
theory V1_Keys
  imports V1_TxState
begin

text \<open>
  The lists of keys of version 1 (\<open>addChildKey\<close>, \<open>deleteChildKey\<close>) are sets kept as strictly increasing
  lists, and the binary search of package \<open>sort\<close> finds the place of a key in them.
\<close>

section \<open>Binary search\<close>

lemma search_spec:
  assumes "i \<le> j" "\<And>m n. i \<le> m \<Longrightarrow> m \<le> n \<Longrightarrow> n < j \<Longrightarrow> f m \<Longrightarrow> f n"
  shows "i \<le> search f i j \<and> search f i j \<le> j \<and> (\<forall>m. i \<le> m \<longrightarrow> m < search f i j \<longrightarrow> \<not> f m)
    \<and> (search f i j < j \<longrightarrow> f (search f i j))"
  using assms
proof (induction f i j rule: search.induct)
  case (1 f i j)
  show ?case
  proof (cases "i < j")
    case lt: True
    define h where "h = (i + j) div 2"
    have h: "i \<le> h" "h < j" using lt by (simp_all add: h_def)
    show ?thesis
    proof (cases "f h")
      case True
      have s: "search f i j = search f i h" using lt True by (subst search.simps) (simp add: h_def)
      have "i \<le> search f i h \<and> search f i h \<le> h \<and> (\<forall>m. i \<le> m \<longrightarrow> m < search f i h \<longrightarrow> \<not> f m)
          \<and> (search f i h < h \<longrightarrow> f (search f i h))"
      proof (rule "1.IH"(2) [OF lt h_def])
        show "f n" if "i \<le> m" "m \<le> n" "n < h" "f m" for m n
          by (rule "1.prems"(2) [OF that(1,2) _ that(4)]) (use that h in simp)
      qed (use True h in simp_all)
      then show ?thesis using s h True by (cases "search f i h < h") auto
    next
      case False
      have s: "search f i j = search f (h + 1) j" using lt False by (subst search.simps) (simp add: h_def)
      have IH: "h + 1 \<le> search f (h + 1) j \<and> search f (h + 1) j \<le> j \<and> (\<forall>m. h + 1 \<le> m \<longrightarrow> m < search f (h + 1) j \<longrightarrow> \<not> f m)
          \<and> (search f (h + 1) j < j \<longrightarrow> f (search f (h + 1) j))"
      proof (rule "1.IH"(1) [OF lt h_def])
        show "f n" if "h + 1 \<le> m" "m \<le> n" "n < j" "f m" for m n
          by (rule "1.prems"(2) [OF _ that(2,3,4)]) (use that h in simp)
      qed (use False h in simp_all)
      have low: "\<not> f m" if "i \<le> m" "m \<le> h" for m using "1.prems"(2) [of m h] that h False by blast
      have "\<not> f m" if "i \<le> m" "m < search f i j" for m
        using low [OF that(1)] IH that(2) s by (cases "m \<le> h") simp_all
      then show ?thesis using IH s h by simp
    qed
  next
    case False
    then have "search f i j = i" by (subst search.simps) simp
    then show ?thesis using False "1.prems"(1) by simp
  qed
qed

lemma SearchStrings_sorted:
  assumes "sorted_wrt (<) ks"
  shows "SearchStrings ks x = length (takeWhile (\<lambda>y. y < x) ks)"
proof -
  let ?r = "SearchStrings ks x"
  have mono: "x \<le> ks ! n" if "m \<le> n" "n < length ks" "x \<le> ks ! m" for m n
  proof (cases "m = n")
    case False
    then have "ks ! m < ks ! n" using sorted_wrt_nth_less [OF assms] that by simp
    then show ?thesis using that(3) by simp
  qed (use that in simp)
  have r: "?r \<le> length ks" "\<And>m. m < ?r \<Longrightarrow> ks ! m < x" "?r < length ks \<Longrightarrow> x \<le> ks ! ?r"
  proof -
    have "0 \<le> ?r \<and> ?r \<le> length ks \<and> (\<forall>m. 0 \<le> m \<longrightarrow> m < ?r \<longrightarrow> \<not> x \<le> ks ! m) \<and> (?r < length ks \<longrightarrow> x \<le> ks ! ?r)"
      unfolding SearchStrings_def
      by (rule search_spec) (simp, rule mono)
    then show "?r \<le> length ks" "\<And>m. m < ?r \<Longrightarrow> ks ! m < x" "?r < length ks \<Longrightarrow> x \<le> ks ! ?r" by (simp_all add: not_le)
  qed
  have "takeWhile (\<lambda>y. y < x) ks = take ?r ks"
    by (rule takeWhile_eq_take_P_nth) (use r in \<open>auto simp: not_less\<close>)
  then show ?thesis using r(1) by simp
qed

section \<open>A list of keys\<close>

lemma split_at_search:
  assumes "sorted_wrt (<) ks"
  obtains ls rs where "ks = ls @ rs" "SearchStrings ks x = length ls" "\<forall>y \<in> set ls. y < x" "\<forall>y \<in> set rs. x \<le> y"
proof -
  let ?ls = "takeWhile (\<lambda>y. y < x) ks" and ?rs = "dropWhile (\<lambda>y. y < x) ks"
  have "x \<le> y" if "y \<in> set ?rs" for y
  proof -
    obtain z zs where z: "?rs = z # zs" using \<open>y \<in> set ?rs\<close> by (cases ?rs) auto
    then have "x \<le> z" using hd_dropWhile [of "\<lambda>y. y < x" ks] by (simp add: not_less)
    moreover have "sorted_wrt (<) ?rs" using assms by (metis sorted_wrt_append takeWhile_dropWhile_id)
    ultimately show ?thesis using that z by auto
  qed
  then show thesis using that [of ?ls ?rs] SearchStrings_sorted [OF assms, of x] set_takeWhileD by fastforce
qed

lemma insert_child_set:
  assumes "sorted_wrt (<) ks"
  shows "insert_child ks x = None \<longleftrightarrow> x \<in> set ks"
    "insert_child ks x = Some ks' \<Longrightarrow> sorted_wrt (<) ks' \<and> set ks' = insert x (set ks)"
proof -
  obtain ls rs where k: "ks = ls @ rs" "SearchStrings ks x = length ls" "\<forall>y \<in> set ls. y < x" "\<forall>y \<in> set rs. x \<le> y"
    by (rule split_at_search [OF assms])
  have i: "insert_child ks x = (case rs of [] \<Rightarrow> Some (ls @ [x]) | y # _ \<Rightarrow> if y = x then None else Some (ls @ x # rs))"
    using k(1,2) by (cases rs) (simp_all add: insert_child_def)
  have n: "x \<in> set ks \<longleftrightarrow> (\<exists>rs'. rs = x # rs')"
    using k assms by (cases rs) (auto simp: sorted_wrt_append)
  show "insert_child ks x = None \<longleftrightarrow> x \<in> set ks" using i n by (auto split: list.splits)
  show "sorted_wrt (<) ks' \<and> set ks' = insert x (set ks)" if "insert_child ks x = Some ks'"
  proof -
    have e: "ks' = ls @ x # rs" "\<forall>y \<in> set rs. x < y"
      using that i n k assms by (auto split: list.splits if_splits simp: sorted_wrt_append order_le_less)
    then show ?thesis using assms k by (auto simp: sorted_wrt_append)
  qed
qed

lemma remove_child_set:
  assumes "sorted_wrt (<) ks" "x \<in> set ks"
  obtains ks' where "remove_child ks x = Inr ks'" "sorted_wrt (<) ks'" "set ks' = set ks - {x}"
proof -
  obtain ls rs where k: "ks = ls @ rs" "SearchStrings ks x = length ls" "\<forall>y \<in> set ls. y < x" "\<forall>y \<in> set rs. x \<le> y"
    by (rule split_at_search [OF assms(1)])
  obtain rs' where rs: "rs = x # rs'" using k assms by (cases rs) (auto simp: sorted_wrt_append)
  have "remove_child ks x = Inr (ls @ rs')" using k(1,2) rs by (simp add: remove_child_def)
  then show thesis by (rule that) (use assms(1) k(1) rs in \<open>auto simp: sorted_wrt_append\<close>)
qed

section \<open>The interface\<close>

text \<open>What the users of a list of keys need: entering and removing a key are those of a set.\<close>

locale key_set =
  fixes ok :: "'l \<Rightarrow> bool" and elems :: "'l \<Rightarrow> 'k set"
    and enter :: "'l \<Rightarrow> 'k \<Rightarrow> 'l option" and leave :: "'l \<Rightarrow> 'k \<Rightarrow> string + 'l"
  assumes enter_None: "ok l \<Longrightarrow> enter l x = None \<longleftrightarrow> x \<in> elems l"
    and enter_Some: "ok l \<Longrightarrow> enter l x = Some l' \<Longrightarrow> ok l' \<and> elems l' = insert x (elems l)"
    and leave_law: "ok l \<Longrightarrow> x \<in> elems l \<Longrightarrow> \<exists>l'. leave l x = Inr l' \<and> ok l' \<and> elems l' = elems l - {x}"
begin

text \<open>A list into which keys are entered one by one: no entry twice, the list otherwise as it is.\<close>

fun enter_all :: "'l \<Rightarrow> 'k list \<Rightarrow> 'l" where
  "enter_all l [] = l"
| "enter_all l (x # xs) = enter_all (case enter l x of None \<Rightarrow> l | Some l' \<Rightarrow> l') xs"

lemma enter_one:
  assumes "ok l"
  shows "ok (case enter l x of None \<Rightarrow> l | Some l' \<Rightarrow> l')"
    "elems (case enter l x of None \<Rightarrow> l | Some l' \<Rightarrow> l') = insert x (elems l)"
  by (cases "enter l x"; use enter_None [OF assms, of x] enter_Some [OF assms, of x] assms in auto)+

lemma enter_all_set: "ok l \<Longrightarrow> ok (enter_all l xs) \<and> elems (enter_all l xs) = elems l \<union> set xs"
proof (induction xs arbitrary: l)
  case (Cons x xs)
  show ?case using Cons.IH [OF enter_one(1) [OF Cons.prems, of x]] enter_one(2) [OF Cons.prems, of x] by auto
qed simp

text \<open>Entering a new key and removing it again gives the set back.\<close>

lemma enter_leave:
  assumes "ok l" "enter l x = Some l'"
  obtains l'' where "leave l' x = Inr l''" "ok l''" "elems l'' = elems l"
proof -
  have "x \<notin> elems l" using enter_None [OF assms(1)] assms(2) by (metis option.distinct(1))
  moreover have "ok l'" "elems l' = insert x (elems l)" using enter_Some [OF assms] by simp_all
  ultimately show thesis using leave_law [of l' x] that by auto
qed

end

interpretation child_keys: key_set "sorted_wrt (<) :: string list \<Rightarrow> bool" set insert_child remove_child
proof unfold_locales
  fix l :: "string list" and x
  assume l: "sorted_wrt (<) l"
  show "insert_child l x = None \<longleftrightarrow> x \<in> set l" by (rule insert_child_set(1) [OF l])
  show "sorted_wrt (<) l' \<and> set l' = insert x (set l)" if "insert_child l x = Some l'" for l'
    using insert_child_set(2) [OF l that] .
  show "\<exists>l'. remove_child l x = Inr l' \<and> sorted_wrt (<) l' \<and> set l' = set l - {x}" if "x \<in> set l"
    using remove_child_set [OF l that] by metis
qed

end
