(* ===== verification/V1_Power.thy ===== *)
theory V1_Power
  imports V1_Validators V1_Gas_Props
begin

text \<open>
  The check of \<open>checkValidatorsPower\<close>, on numbers: no validator has a third of the total power.
\<close>

section \<open>The powers after the change\<close>

definition new_powers :: "string \<Rightarrow> uint64 \<Rightarrow> types_Validator list \<Rightarrow> uint64 list" where
  "new_powers addr pw vs = map (\<lambda>v. if tv_NodeAddr v = addr then pw else tv_Power v) vs
     @ (if addr \<in> tv_NodeAddr ` set vs then [] else [pw])"

definition power_sum :: "uint64 list \<Rightarrow> nat" where
  "power_sum ps = (\<Sum>p \<leftarrow> ps. unat p)"

lemma power_sum_simps [simp]:
  "power_sum [] = 0" "power_sum (p # ps) = unat p + power_sum ps" "power_sum (ps @ qs) = power_sum ps + power_sum qs"
  by (simp_all add: power_sum_def)

section \<open>The loop\<close>

lemma power_loop_sum:
  assumes "distinct (map tv_NodeAddr vs)" "has \<longrightarrow> addr \<notin> tv_NodeAddr ` set vs"
  shows "power_loop addr pw vs t m has =
    (let ps = map (\<lambda>v. if tv_NodeAddr v = addr then pw else tv_Power v) vs in
     if unat t + power_sum ps < 2 ^ 64
     then Some (t + sum_list ps, foldl max m ps, has \<or> addr \<in> tv_NodeAddr ` set vs) else None)"
  using assms
proof (induction vs arbitrary: t m has)
  case Nil
  then show ?case using word64_bounds(1) [of t] by simp
next
  case (Cons v vs)
  let ?own = "\<not> has \<and> tv_NodeAddr v = addr"
  let ?p = "if tv_NodeAddr v = addr then pw else tv_Power v"
  let ?ps = "map (\<lambda>v. if tv_NodeAddr v = addr then pw else tv_Power v) vs"
  have own: "(if ?own then pw else tv_Power v) = ?p" using Cons.prems by auto
  have max: "(if m < ?p then ?p else m) = max m ?p" by (auto simp: max_def)
  show ?case
  proof (cases "snd (safeAdd t ?p)")
    case True
    then have "2 ^ 64 \<le> unat t + unat ?p" by (simp only: safeAdd_exact(1))
    moreover have "power_loop addr pw (v # vs) t m has = None"
      using True own by (cases "safeAdd t ?p") (simp only: power_loop.simps Let_def, simp)
    ultimately show ?thesis by (simp add: Let_def)
  next
    case False
    have s: "safeAdd t ?p = (t + ?p, False)" using False by (simp add: safeAdd_def split: if_splits)
    have n: "unat (t + ?p) = unat t + unat ?p" using safeAdd_exact(2) [OF False] s by simp
    have step: "power_loop addr pw (v # vs) t m has = power_loop addr pw vs (t + ?p) (max m ?p) (has \<or> ?own)"
      unfolding power_loop.simps Let_def own s by (simp add: max)
    have IH: "power_loop addr pw vs (t + ?p) (max m ?p) (has \<or> ?own) =
        (let ps = ?ps in if unat (t + ?p) + power_sum ps < 2 ^ 64
         then Some (t + ?p + sum_list ps, foldl max (max m ?p) ps, (has \<or> ?own) \<or> addr \<in> tv_NodeAddr ` set vs) else None)"
      by (rule Cons.IH) (use Cons.prems in auto)
    show ?thesis unfolding step IH n by (auto simp: Let_def add.assoc)
  qed
qed

lemma foldl_max_less: "foldl max m ps < (b :: 'a :: linorder) \<longleftrightarrow> m < b \<and> (\<forall>p \<in> set ps. p < b)"
  by (induction ps arbitrary: m) auto

lemma power_sum_sum_list: "power_sum ps < 2 ^ 64 \<Longrightarrow> unat (sum_list ps) = power_sum ps"
  by (induction ps) (simp_all add: unat_word_ariths)

text \<open>
  With distinct addresses the check is the one on numbers, when the total fits into 64 bits or the validator
  is already there; for a new validator the last addition is not checked.
\<close>

lemma power_ok_numbers:
  assumes d: "distinct (map tv_NodeAddr vs)"
    and o: "addr \<in> tv_NodeAddr ` set vs \<or> power_sum (new_powers addr pw vs) < 2 ^ 64"
  shows "power_ok addr pw vs \<longleftrightarrow> power_sum (new_powers addr pw vs) < 2 ^ 64
    \<and> (\<forall>p \<in> set (new_powers addr pw vs). unat p < power_sum (new_powers addr pw vs) div 3)"
proof -
  let ?ps = "map (\<lambda>v. if tv_NodeAddr v = addr then pw else tv_Power v) vs" and ?ns = "new_powers addr pw vs"
  let ?has = "addr \<in> tv_NodeAddr ` set vs"
  have l: "power_loop addr pw vs 0 0 False = (if power_sum ?ps < 2 ^ 64
      then Some (sum_list ?ps, foldl max 0 ?ps, ?has) else None)"
    using power_loop_sum [OF d, of False addr pw 0 0] by (simp add: Let_def)
  have n: "?ns = ?ps @ (if ?has then [] else [pw])" by (simp add: new_powers_def)
  show ?thesis
  proof (cases "power_sum ?ns < 2 ^ 64")
    case True
    have le: "power_sum ?ps < 2 ^ 64" using True n by (simp split: if_splits)
    have tot: "(if ?has then sum_list ?ps else sum_list ?ps + pw) = sum_list ?ns" using n by simp
    have mx: "(if \<not> ?has \<and> foldl max 0 ?ps < pw then pw else foldl max 0 ?ps) = foldl max 0 ?ns"
      using n by (auto simp: max_def)
    have ne: "?ns \<noteq> []" using n by (cases vs) auto
    have "power_ok addr pw vs \<longleftrightarrow> foldl max 0 ?ns < sum_list ?ns * 1 div 3"
      using l le tot mx by (simp add: power_ok_def Let_def)
    also have "\<dots> \<longleftrightarrow> (\<forall>p \<in> set ?ns. p < sum_list ?ns div 3)"
    proof -
      have "0 < sum_list ?ns div 3" if "p < sum_list ?ns div 3" for p
        using le_less_trans [OF word_zero_le that] .
      then show ?thesis using ne foldl_max_less [of 0 ?ns "sum_list ?ns div 3"] by (cases ?ns) auto
    qed
    also have "\<dots> \<longleftrightarrow> (\<forall>p \<in> set ?ns. unat p < power_sum ?ns div 3)"
      using power_sum_sum_list [OF True] by (simp add: word_less_nat_alt unat_div)
    finally show ?thesis using True by simp
  next
    case False
    then have "?has" using o by blast
    then have "\<not> power_sum ?ps < 2 ^ 64" using False n by simp
    then show ?thesis using l False by (simp add: power_ok_def)
  qed
qed

end
