(* ===== verification/V1_Props.thy ===== *)
theory V1_Props
  imports V1_Model V1_Gas_Props V1_Keys V1_Power
begin

text \<open>
  The properties of the version 1 application: transfers and supply of tokens, fees and rewards, the
  validators' power, the lists of keys in the store.
\<close>

section \<open>Tokens\<close>

text \<open>C30. A transfer of a token is refused, with nothing changed, when the value is negative, when it goes to
  the sender itself or when it exceeds the sender's balance; otherwise it succeeds and moves exactly the
  value from the sender to the receiver, every other balance stays, and so does the token's record.\<close>
theorem Templet_Transfer_exact:
  assumes ok: "call_ok K ctx t s" and a: "plain to_addr"
  defines "payer \<equiv> ac_Addr (cx_Sender ctx)"
  shows "if v < 0 then Templet_Transfer K ctx to_addr v s = (Inr negative, s)
    else if to_addr = payer
    then Templet_Transfer K ctx to_addr v s = (Inr (errC ErrCodeInterContractsUnsupportTransToSelf), s)
    else if bals K ctx s payer < v
    then Templet_Transfer K ctx to_addr v s = (Inr (errC ErrCodeInterContractsInsufficientBalance), s)
    else \<exists>s'. Templet_Transfer K ctx to_addr v s = (Inr okE, s') \<and> call_ok K ctx t s'
      \<and> (\<forall>b. plain b \<longrightarrow> bals K ctx s' b =
           ((bals K ctx s)(payer := bals K ctx s payer - v, to_addr := bals K ctx s to_addr + v)) b)"
proof -
  note no = Templet_Transfer_refuses [OF ok, of v to_addr]
  show ?thesis
  proof (cases "0 \<le> v \<and> to_addr \<noteq> payer \<and> v \<le> bals K ctx s payer")
    case True
    then have c: "to_addr \<noteq> payer" "0 \<le> v" "v \<le> bals K ctx s payer" by simp_all
    have "\<exists>s'. Templet_Transfer K ctx to_addr v s = (Inr okE, s') \<and> call_ok K ctx t s'
      \<and> (\<forall>b. plain b \<longrightarrow> bals K ctx s' b =
           ((bals K ctx s)(payer := bals K ctx s payer - v, to_addr := bals K ctx s to_addr + v)) b)"
      by (rule Templet_Transfer_moves [OF ok a c [unfolded payer_def]]) (auto simp: payer_def)
    then show ?thesis using c by (simp only: if_False not_less not_le) simp
  qed (use no in \<open>auto simp: payer_def\<close>)
qed

lemma Templet_Transfer_exact_witness:
  "\<exists>s'. Templet_Transfer model1 demo_ctx ''bcbB'' 1000 demo_v1 = (Inr okE, s')
    \<and> bals model1 demo_ctx s' ''bcbA'' = 4999999000 \<and> bals model1 demo_ctx s' ''bcbB'' = 1000"
proof -
  have b: "bals model1 demo_ctx demo_v1 ''bcbA'' = 5000000000" "bals model1 demo_ctx demo_v1 ''bcbB'' = 0"
    by (simp_all add: bals_def bal1_def demo_ctx_def own_addr_def demo_ts_def [symmetric] demo_view1 demo_enc_ok)
      (simp_all add: demo_ts_def demo_enc_ok keyOfToken_v1_def keyOfAccountToken_def)
  have s: "ac_Addr (cx_Sender demo_ctx) = ''bcbA''" by (simp add: demo_ctx_def)
  have p: "plain ''bcbB''" "plain ''bcbA''" by (simp_all add: plain_def)
  show ?thesis
    using Templet_Transfer_exact [OF demo_call_ok p(1), of 1000] b s p by auto
qed

text \<open>C2. Whatever calls of a token succeed one after another (transfers, batch transfers, issue of supply,
  burning), the sum of the balances and the total supply change by the same amount, the rest of the
  token's record stays, and no balance becomes negative.\<close>
theorem token_calls_keep_supply:
  assumes "call_ok K ctx (Some t) s" "it_Address t = own_addr ctx" "\<forall>a \<in> parties ctx cs. plain a"
    and "run_calls K ctx cs s = (Inr e, s')" "isOK e"
  shows "\<exists>t'. call_ok K ctx (Some t') s' \<and> t\<lparr>it_TotalSupply := it_TotalSupply t'\<rparr> = t'
    \<and> (\<forall>S. finite S \<longrightarrow> parties ctx cs \<subseteq> S \<longrightarrow> (\<forall>a \<in> S. plain a) \<longrightarrow>
         sum (bals K ctx s') S - it_TotalSupply t' = sum (bals K ctx s) S - it_TotalSupply t)
    \<and> ((\<forall>b. plain b \<longrightarrow> 0 \<le> bals K ctx s b) \<longrightarrow> (\<forall>b. plain b \<longrightarrow> 0 \<le> bals K ctx s' b))"
  by (rule run_calls_supply [OF assms]) blast

lemma token_calls_keep_supply_witness:
  "\<exists>s' t'. run_calls model1 demo_ctx [Call_Transfer ''bcbB'' 1000] demo_v1 = (Inr okE, s')
    \<and> call_ok model1 demo_ctx (Some t') s'
    \<and> sum (bals model1 demo_ctx s') {''bcbA'', ''bcbB''} - it_TotalSupply t'
      = sum (bals model1 demo_ctx demo_v1) {''bcbA'', ''bcbB''} - 5000000000"
proof -
  have ctx: "ac_Addr (cx_Sender demo_ctx) = ''bcbA''" "ac_Addr (cx_Owner demo_ctx) = ''bcbA''" by (simp_all add: demo_ctx_def)
  have b: "bals model1 demo_ctx demo_v1 ''bcbA'' = 5000000000"
    by (simp add: bals_def bal1_def demo_ctx_def own_addr_def demo_ts_def [symmetric] demo_view1 demo_enc_ok)
      (simp add: demo_ts_def demo_enc_ok keyOfToken_v1_def keyOfAccountToken_def)
  have p: "plain ''bcbB''" "plain ''bcbA''" by (simp_all add: plain_def)
  obtain s' where s': "Templet_Transfer model1 demo_ctx ''bcbB'' 1000 demo_v1 = (Inr okE, s')"
    by (rule Templet_Transfer_moves [OF demo_call_ok p(1), where v = 1000]) (use ctx b in auto)
  then have r: "run_calls model1 demo_ctx [Call_Transfer ''bcbB'' 1000] demo_v1 = (Inr okE, s')" by simp
  have t: "it_Address demo_token = own_addr demo_ctx" "it_TotalSupply demo_token = 5000000000"
    by (simp_all add: demo_token_def)
  have q: "parties demo_ctx [Call_Transfer ''bcbB'' 1000] = {''bcbA'', ''bcbB''}" using ctx by (auto simp: parties_def)
  obtain t' where t': "call_ok model1 demo_ctx (Some t') s'"
    "\<forall>S. finite S \<longrightarrow> {''bcbA'', ''bcbB''} \<subseteq> S \<longrightarrow> (\<forall>a \<in> S. plain a) \<longrightarrow>
       sum (bals model1 demo_ctx s') S - it_TotalSupply t' = sum (bals model1 demo_ctx demo_v1) S - it_TotalSupply demo_token"
    using token_calls_keep_supply [OF demo_call_ok t(1) _ r] p unfolding q by auto
  have "sum (bals model1 demo_ctx s') {''bcbA'', ''bcbB''} - it_TotalSupply t'
      = sum (bals model1 demo_ctx demo_v1) {''bcbA'', ''bcbB''} - 5000000000"
    using t'(2) [rule_format, of "{''bcbA'', ''bcbB''}"] p t(2) by auto
  then show ?thesis using r t'(1) by blast
qed

section \<open>Fees and rewards\<close>

text \<open>C32. The fee of a call is exact: the gas up to the limit times the price; a price of zero and every
  product that does not fit into 64 bits are errors, and so is gas beyond the limit, which is still paid for
  up to the limit.\<close>
theorem calcFee_exact:
  "calcFee gas gaslimit gasprice =
    (let n = unat (min gas gaslimit) * unat gasprice in
     if gasprice = 0 then (0, errC ErrCodeInterContractsInvalidGasPrice)
     else if 2 ^ 64 \<le> n then (fst (safeMul (min gas gaslimit) gasprice), errC ErrCodeInterContractsInvalidFee)
     else (of_nat n, if gaslimit < gas then errC ErrCodeInterContractsInvalidGasLimit else okE))"
  by (simp add: calcFee_cases Let_def)

text \<open>The rewards that \<open>CalcdRewards\<close> computes without an error add up to what was paid, to the last unit,
  if the strategy names no receiver twice and the shares do not exceed 64 bits together.\<close>
theorem CalcdRewards_adds_up:
  assumes "CalcdRewards strategy value rewarder = (rewards, e)" "isOK e" "distinct (strategy_addrs strategy rewarder)"
    and "0 \<le> value" "value < 2 ^ 64" "(\<Sum>(k, v) \<leftarrow> rewards. uint v) < 2 ^ 64"
  shows "(\<Sum>(k, v) \<leftarrow> rewards. uint v) = value \<and> distinct (map fst rewards)"
proof -
  have m: "uint (sum_list (map snd m)) = (\<Sum>(k, v) \<leftarrow> m. uint v) mod 2 ^ 64" for m :: "(string, uint64) gomap"
    by (induction m) (auto simp: uint_word_ariths mod_simps)
  have "uint (sum_list (map snd rewards)) = (\<Sum>(k, v) \<leftarrow> rewards. uint v)"
  proof -
    have "0 \<le> (\<Sum>(k, v) \<leftarrow> rewards. uint v)" by (rule sum_list_nonneg) auto
    then show ?thesis using m [of rewards] assms(6) by simp
  qed
  moreover have "uint (big_Uint64 value) = value" using assms(4,5) by (simp add: big_Uint64_def uint_word_of_int)
  ultimately show ?thesis using CalcdRewards_sum [OF assms(1-3)] by simp
qed

lemma CalcdRewards_adds_up_witness:
  "(\<Sum>(k, v) \<leftarrow> [(''bcbP'', 50000 :: uint64), (''bcbF'', 200000)]. uint v) = 250000
    \<and> distinct (map fst [(''bcbP'', 50000 :: uint64), (''bcbF'', 200000)])"
  by (rule CalcdRewards_adds_up [OF demo_strategy_runs])
    (simp_all add: strategy_addrs_def reward_addr_def demo_strategy1_def list_of_def)

text \<open>C12. Paying for gas. When the validator, the basic token, the contract, the price and the strategy are
  found and the fee can be computed, the call returns the gas used and the rewards of the strategy; in the
  block the sender has paid the fee, or all it has if that is less (which is reported as an error), the
  receivers of the rewards have got theirs, and no other balance has changed.\<close>
theorem CheckAndPayForGas_exact:
  assumes ok: "block_ok K (it_Address tokenbasic) s" "plain (ac_Addr sender)" "v_Transaction s = Some t"
    and val: "ctx_CheckValidatorRewardAddr K p rw s = Inr okE"
    and gt: "ts_GetGenesisToken K (ac_TxState sender) s = Inr (Inr (Some tokenbasic))"
    and con: "sdb_GetContract K (ts_ContractAddress (ac_TxState sender)) s = Inr (Inr (Some con))"
    and tok: "price_token K ctx sender tokenbasic s = Inr (Inr token)"
    and fee: "calcFee gas gaslimit (it_GasPrice token) = (fee, e)" "isOK e \<or> ErrorCode e = ErrCodeInterContractsInvalidGasLimit"
    and strat: "ctx_GetStrategy K ctx s = Inr (strategy, okE)" "ts_Tx (cx_TxState ctx) \<noteq> Some (lastTxID t + 1)"
    and rew: "CalcdRewards strategy (min (uint fee) (block_bal K (it_Address tokenbasic) s (ac_Addr sender))) rw = (rewards, okE)"
      "\<forall>k \<in> fst ` set rewards. plain k"
  shows "\<exists>s'. CheckAndPayForGas K ctx sender (Some p) (Some rw) gas gaslimit s =
      (Inr \<lparr>gr_gasused = fee div it_GasPrice token, gr_gasprice = it_GasPrice token, gr_rewards = rewards,
         gr_error = if block_bal K (it_Address tokenbasic) s (ac_Addr sender) < uint fee
           then e\<lparr>ErrorCode := ErrCodeInterContractsInsufficientBalance\<rparr> else e\<rparr>, s')
    \<and> (\<forall>b. plain b \<longrightarrow> block_bal K (it_Address tokenbasic) s' b =
         block_bal K (it_Address tokenbasic) s b
         - (if b = ac_Addr sender then min (uint fee) (block_bal K (it_Address tokenbasic) s (ac_Addr sender)) else 0)
         + (\<Sum>(k, v) \<leftarrow> rewards. if k = b then uint v else 0))"
proof -
  let ?tok = "it_Address tokenbasic" and ?f = "ac_Addr sender"
  obtain s' where r: "CheckAndPayForGas K ctx sender (Some p) (Some rw) gas gaslimit s =
      (Inr \<lparr>gr_gasused = fee div it_GasPrice token, gr_gasprice = it_GasPrice token, gr_rewards = rewards,
         gr_error = if block_bal K ?tok s ?f < uint fee then e\<lparr>ErrorCode := ErrCodeInterContractsInsufficientBalance\<rparr> else e\<rparr>, s')"
    using CheckAndPayForGas_goes [OF assms] by blast
  have price: "it_GasPrice token \<noteq> 0" using fee by (auto simp: calcFee_cases code_defs)
  have "\<forall>b. plain b \<longrightarrow> block_bal K ?tok s' b =
      credits ((?f, - min (uint fee) (block_bal K ?tok s ?f)) # as_credits rewards) (block_bal K ?tok s) b"
    by (rule CheckAndPayForGas_run [OF ok(1,2) gt r]) (use price fee(1) rew(2) in auto)
  moreover have "(\<Sum>(k, v) \<leftarrow> as_credits rewards. if k = b then v else 0) = (\<Sum>(k, v) \<leftarrow> rewards. if k = b then uint v else 0)" for b
    by (induction rewards) (auto simp: as_credits_def)
  ultimately show ?thesis using r by (auto simp: credits_apply)
qed

lemma CheckAndPayForGas_exact_witness:
  "\<exists>s'. CheckAndPayForGas model1 demo_ctx demo_sender (Some ''bcbN'') (Some ''bcbP'') 100 1000 demo_v2 =
      (Inr \<lparr>gr_gasused = 100, gr_gasprice = 2500, gr_rewards = [(''bcbP'', 50000), (''bcbF'', 200000)], gr_error = okE\<rparr>, s')
    \<and> block_bal model1 ''bcbT'' s' ''bcbA'' = 4999750000 \<and> block_bal model1 ''bcbT'' s' ''bcbP'' = 50000
    \<and> block_bal model1 ''bcbT'' s' ''bcbF'' = 200000"
proof -
  let ?t = "the (v_Transaction demo_v2)"
  have tok: "it_Address demo_token = ''bcbT''" "it_GasPrice demo_token = 2500" by (simp_all add: demo_token_def)
  have s: "ac_Addr demo_sender = ''bcbA''" "ac_TxState demo_sender = demo_ts" by (simp_all add: demo_sender_def)
  have t: "v_Transaction demo_v2 = Some ?t" "lastTxID ?t = 1" by (simp_all add: demo_v2_def)
  have bal: "block_bal model1 ''bcbT'' demo_v2 ''bcbA'' = 5000000000" "block_bal model1 ''bcbT'' demo_v2 ''bcbP'' = 0"
    "block_bal model1 ''bcbT'' demo_v2 ''bcbF'' = 0" using demo_bal2 by auto
  have fee: "calcFee 100 1000 2500 = (250000, okE)" by (simp add: calcFee_cases Let_def)
  have p: "plain ''bcbA''" "plain ''bcbP''" "plain ''bcbF''" by (simp_all add: plain_def)
  note run = CheckAndPayForGas_exact [where K = model1 and ctx = demo_ctx and sender = demo_sender and s = demo_v2
      and tokenbasic = demo_token and token = demo_token and con = demo_contract1 and strategy = demo_strategy1 and t = ?t
      and p = "''bcbN''" and rw = "''bcbP''" and gas = 100 and gaslimit = 1000 and fee = 250000 and e = okE
      and rewards = "[(''bcbP'', 50000), (''bcbF'', 200000)]", unfolded tok s]
  show ?thesis
    using run [OF demo_block_ok2 p(1) t(1) demo_reads2(1-4) fee _ demo_reads2(5)] demo_strategy_runs bal p t(2)
    by (auto simp: demo_ctx_def demo_ts_def)
qed

section \<open>Validators\<close>

text \<open>The check of the validators' power is the one on numbers: with distinct addresses, a change of
  power (or a new validator) is accepted exactly when the total fits into 64 bits and no validator then has a
  third of it or more; for a new validator this needs the total to fit, because that addition is not checked.\<close>
theorem power_ok_exact:
  assumes "distinct (map tv_NodeAddr vs)"
    and "addr \<in> tv_NodeAddr ` set vs \<or> power_sum (new_powers addr pw vs) < 2 ^ 64"
  shows "power_ok addr pw vs \<longleftrightarrow> power_sum (new_powers addr pw vs) < 2 ^ 64
    \<and> (\<forall>p \<in> set (new_powers addr pw vs). unat p < power_sum (new_powers addr pw vs) div 3)"
  by (rule power_ok_numbers [OF assms])

definition demo_validators :: "types_Validator list" where
  "demo_validators = map (\<lambda>a. demo_validator1\<lparr>tv_NodeAddr := a\<rparr>) [''a'', ''b'', ''c'']"

lemma power_ok_exact_witness: "power_ok ''d'' 10 demo_validators \<and> \<not> power_ok ''d'' 16 demo_validators"
proof -
  have d: "distinct (map tv_NodeAddr demo_validators)" by (simp add: demo_validators_def)
  have n: "new_powers ''d'' p demo_validators = [10, 10, 10, p]" for p
    by (simp add: new_powers_def demo_validators_def demo_validator1_def)
  show ?thesis
    using power_ok_exact [OF d, of "''d''" 10] power_ok_exact [OF d, of "''d''" 16] n by simp
qed

section \<open>Lists of keys\<close>

text \<open>\<open>sort.SearchStrings\<close> on a strictly increasing list finds the number of entries before the key: the
  binary search is a linear one.\<close>
theorem SearchStrings_exact:
  assumes "sorted_wrt (<) ks"
  shows "SearchStrings ks x = length (takeWhile (\<lambda>y. y < x) ks)"
  by (rule SearchStrings_sorted [OF assms])

lemma SearchStrings_exact_witness: "SearchStrings [''/a'', ''/b'', ''/d''] ''/c'' = 2"
  using SearchStrings_exact [of "[''/a'', ''/b'', ''/d'']" "''/c''"] by simp

text \<open>The list of the keys of an account or of the tokens is a set: entering a key that is there changes
  nothing; entering a new one keeps the list strictly increasing and adds just this key, and deleting it
  again gives back the list as it was.\<close>
theorem child_keys_roundtrip:
  assumes ks: "sorted_wrt (<) ks"
  shows "if x \<in> set ks then insert_child ks x = None
    else \<exists>ks'. insert_child ks x = Some ks' \<and> sorted_wrt (<) ks' \<and> set ks' = insert x (set ks)
      \<and> remove_child ks' x = Inr ks"
proof (cases "x \<in> set ks")
  case True
  then show ?thesis using child_keys.enter_None [OF ks] by simp
next
  case False
  then obtain ks' where k: "insert_child ks x = Some ks'" using child_keys.enter_None [OF ks, of x] by fastforce
  have s: "sorted_wrt (<) ks'" "set ks' = insert x (set ks)" using child_keys.enter_Some [OF ks k] by simp_all
  obtain ks'' where r: "remove_child ks' x = Inr ks''" "sorted_wrt (<) ks''" "set ks'' = set ks"
    by (rule child_keys.enter_leave [OF ks k])
  have "ks'' = ks" using r(2,3) ks by (metis strict_sorted_equal)
  then show ?thesis using False k s r(1) by auto
qed

lemma child_keys_roundtrip_witness:
  "\<exists>ks'. insert_child [''/a'', ''/c''] ''/b'' = Some ks' \<and> remove_child ks' ''/b'' = Inr [''/a'', ''/c'']"
  using child_keys_roundtrip [of "[''/a'', ''/c'']" "''/b''"] by auto

end
