(* ===== verification/V1_Smc.thy ===== *)
theory V1_Smc
  imports V1_Contracts
begin

text \<open>
  The interface of the later version 1 contracts: \<open>SmcApi\<close> and its event handler
  (\<open>contract/smcapi/smcapi.go\<close>), receipts (\<open>smc\<close>). A contract works on the state of version 1 and on
  the receipts emitted so far, the slice of the event handler. The pointers of an \<open>SmcApi\<close> are those its
  stub fills in, so none is \<open>nil\<close>. \<open>bignumber.Number\<close> wraps an integer and is one here.
\<close>

section \<open>Receipts\<close>

record bybBalance =
  Chromo :: string
  Value :: int

record TokenFeeInfo =
  tf_TokenName :: string
  tf_TokenAddr :: string
  tf_Fee :: int

text \<open>What is marshalled into a receipt: the structures of package \<open>smc\<close>, and those of the contracts with receipts of their own.\<close>

datatype receipt_body =
    ReceiptOfTransfer string string string int
  | ReceiptOfFee string string uint64
  | ReceiptOfSetOwner string string
  | ReceiptOfAddSupply string int int
  | ReceiptOfBurn string int int
  | ReceiptOfSetGasPrice string uint64
  | ReceiptOfNewToken string string string string string string string int bool bool uint64
  | bybTransferReceipt string string string "bybBalance list"
  | bybAddressReceipt string
  | bybStockReceipt string "bybBalance list"
  | bybChromoReceipt string string "bybBalance list"
  | ReceiptOfCancellation int
  | ReceiptOfMine string int64 string uint64
  | ReceiptOfSetManager "string list"
  | ReceiptOfSetTokenFeeInfo "TokenFeeInfo list"

record Receipt =
  rc_Name :: string
  rc_ContractAddress :: string
  rc_ReceiptBytes :: bytes
  rc_ReceiptHash :: bytes

section \<open>State and external code\<close>

record 'db EnvS =
  base1 :: "'db Env1"
  k_Byb :: "bybBalance list codec"
  k_Receipt :: "receipt_body codec"
  Num_Cmp :: "int \<Rightarrow> int \<Rightarrow> int"
  Sha3_256 :: "bytes \<Rightarrow> bytes"
  GreaterThan :: "string \<Rightarrow> string \<Rightarrow> bool"

record SmcApi =
  sa_Sender :: Account1
  sa_Owner :: Account1
  sa_ContractAcct :: Account1
  sa_ContractAddr :: string
  sa_State :: TxState
  sa_Note :: string

record 'db Smc =
  sm_v1 :: "'db V1"
  sm_receipts :: "Receipt list"

text \<open>An operation on the state of version 1.\<close>

definition onV :: "('db V1 \<Rightarrow> ('db V1, 'a) act) \<Rightarrow> 'db Smc \<Rightarrow> ('db Smc, 'a) act" where
  "onV f s = (case f (sm_v1 s) of (r, v) \<Rightarrow> (r, s\<lparr>sm_v1 := v\<rparr>))"

text \<open>A read whose error is dropped: the zero value remains.\<close>

definition or_nil :: "'a option res \<Rightarrow> string + 'a option" where
  "or_nil r = (case r of Inl e \<Rightarrow> Inl e | Inr (Inl _) \<Rightarrow> Inr None | Inr (Inr v) \<Rightarrow> Inr v)"

definition or_empty :: "'a list res \<Rightarrow> string + 'a list" where
  "or_empty r = (case r of Inl e \<Rightarrow> Inl e | Inr (Inl _) \<Rightarrow> Inr [] | Inr (Inr v) \<Rightarrow> Inr v)"

lemma dropped_simps [simp]:
  "or_nil (Inl e) = Inl e" "or_nil (Inr (Inl e)) = Inr None" "or_nil (Inr (Inr v)) = Inr v"
  "or_empty (Inl e) = Inl e" "or_empty (Inr (Inl e)) = Inr []" "or_empty (Inr (Inr l)) = Inr l"
  by (simp_all add: or_nil_def or_empty_def)

text \<open>A pointer that is read.\<close>

definition deref :: "'a option \<Rightarrow> string + 'a" where
  "deref v = (case v of None \<Rightarrow> Inl nil_pointer | Some x \<Rightarrow> Inr x)"

lemma deref_simps [simp]: "deref None = Inl nil_pointer" "deref (Some x) = Inr x"
  by (simp_all add: deref_def)

section \<open>Event handler\<close>

definition CalcReceiptHash :: "'db EnvS \<Rightarrow> string \<Rightarrow> string \<Rightarrow> bytes \<Rightarrow> bytes" where
  "CalcReceiptHash E name addr receiptByte =
    Sha3_256 E (bytes_of_string name @ bytes_of_string addr @ receiptByte)"

definition InitEventHandler :: "'db V1 \<Rightarrow> 'db Smc" where
  "InitEventHandler v = \<lparr>sm_v1 = v, sm_receipts = []\<rparr>"

definition GetReceipts :: "'db Smc \<Rightarrow> Receipt list" where
  "GetReceipts s = sm_receipts s"

definition SetReceipts :: "Receipt list \<Rightarrow> 'db Smc \<Rightarrow> 'db Smc" where
  "SetReceipts receipts s = s\<lparr>sm_receipts := receipts\<rparr>"

definition EmitReceipt :: "'db EnvS \<Rightarrow> SmcApi \<Rightarrow> string \<Rightarrow> bytes \<Rightarrow> 'db Smc \<Rightarrow> 'db Smc" where
  "EmitReceipt E api name receipt s = s\<lparr>sm_receipts := sm_receipts s @
     [\<lparr>rc_Name = name, rc_ContractAddress = sa_ContractAddr api, rc_ReceiptBytes = receipt,
       rc_ReceiptHash = CalcReceiptHash E name (sa_ContractAddr api) receipt\<rparr>]\<rparr>"

text \<open>The body of every \<open>PackReceiptOf...\<close>: no receipt if its body cannot be marshalled.\<close>

definition pack :: "'db EnvS \<Rightarrow> SmcApi \<Rightarrow> string \<Rightarrow> receipt_body \<Rightarrow> 'db Smc \<Rightarrow> 'db Smc" where
  "pack E api name body s = (case marshal (k_Receipt E) body of
     Inl _ \<Rightarrow> s | Inr receiptByte \<Rightarrow> EmitReceipt E api name receiptByte s)"

definition PackReceiptOfTransfer :: "'db EnvS \<Rightarrow> SmcApi \<Rightarrow> string \<Rightarrow> string \<Rightarrow> string \<Rightarrow> int \<Rightarrow> 'db Smc \<Rightarrow> 'db Smc" where
  "PackReceiptOfTransfer E api token from_addr to_addr value = pack E api ''transfer'' (ReceiptOfTransfer token from_addr to_addr value)"

definition PackReceiptOfFee :: "'db EnvS \<Rightarrow> SmcApi \<Rightarrow> string \<Rightarrow> string \<Rightarrow> uint64 \<Rightarrow> 'db Smc \<Rightarrow> 'db Smc" where
  "PackReceiptOfFee E api token from_addr value = pack E api ''fee'' (ReceiptOfFee token from_addr value)"

definition PackReceiptOfSetOwner :: "'db EnvS \<Rightarrow> SmcApi \<Rightarrow> string \<Rightarrow> string \<Rightarrow> 'db Smc \<Rightarrow> 'db Smc" where
  "PackReceiptOfSetOwner E api address newOwner = pack E api ''setOwner'' (ReceiptOfSetOwner address newOwner)"

definition PackReceiptOfAddSupply :: "'db EnvS \<Rightarrow> SmcApi \<Rightarrow> string \<Rightarrow> int \<Rightarrow> int \<Rightarrow> 'db Smc \<Rightarrow> 'db Smc" where
  "PackReceiptOfAddSupply E api token value totalSupply = pack E api ''addSupply'' (ReceiptOfAddSupply token value totalSupply)"

definition PackReceiptOfBurn :: "'db EnvS \<Rightarrow> SmcApi \<Rightarrow> string \<Rightarrow> int \<Rightarrow> int \<Rightarrow> 'db Smc \<Rightarrow> 'db Smc" where
  "PackReceiptOfBurn E api token value totalSupply = pack E api ''burn'' (ReceiptOfBurn token value totalSupply)"

definition PackReceiptOfSetGasPrice :: "'db EnvS \<Rightarrow> SmcApi \<Rightarrow> string \<Rightarrow> uint64 \<Rightarrow> 'db Smc \<Rightarrow> 'db Smc" where
  "PackReceiptOfSetGasPrice E api token gasPrice = pack E api ''setGasPrice'' (ReceiptOfSetGasPrice token gasPrice)"

definition PackReceiptOfNewToken :: "'db EnvS \<Rightarrow> SmcApi \<Rightarrow> IssueToken \<Rightarrow> string \<Rightarrow> 'db Smc \<Rightarrow> 'db Smc" where
  "PackReceiptOfNewToken E api token acctAddr = pack E api ''newToken''
     (ReceiptOfNewToken (it_Address token) (it_Address token) acctAddr (it_Owner token) (it_Version token)
       (it_Name token) (it_Symbol token) (it_TotalSupply token) (it_AddSupplyEnabled token) (it_BurnEnabled token)
       (it_GasPrice token))"

section \<open>Transfers of any token\<close>

definition smc_negative :: BCError where
  "smc_negative = errD ErrCodeInterContractsInvalidParameter ''Invalid value: it cannot be a negative''"

text \<open>The accounts act through a copy of the \<open>TxState\<close> with the token's address.\<close>

definition smc_transferToken :: "'db EnvS \<Rightarrow> SmcApi \<Rightarrow> string \<Rightarrow> string \<Rightarrow> string \<Rightarrow> int \<Rightarrow> 'db Smc \<Rightarrow> ('db Smc, BCError) act" where
  "smc_transferToken E api tokenAddr from_addr to_addr value s = (let K = base1 E in
    if Big_Compare K value (Big_Zero K) \<le> 0 then (Inr smc_negative, s)
    else if from_addr = to_addr then (Inr (errC ErrCodeInterContractsUnsupportTransToSelf), s)
    else if length tokenAddr = 0
    then (Inr (errD ErrCodeInterContractsInvalidParameter ''Invalid value: you must specify a token to transfer''), s)
    else let newTxState = (sa_State api)\<lparr>ts_ContractAddress := tokenAddr\<rparr>;
             sender = \<lparr>ac_Addr = from_addr, ac_TxState = newTxState\<rparr>; payee = \<lparr>ac_Addr = to_addr, ac_TxState = newTxState\<rparr> in
      need (acct_BalanceOf K sender tokenAddr (sm_v1 s)) s (\<lambda>(senderBal, bcerr).
      if \<not> isOK bcerr then (Inr bcerr, s)
      else if Big_Compare K senderBal value < 0 then (Inr (bcerr\<lparr>ErrorCode := ErrCodeInterContractsInsufficientBalance\<rparr>), s)
      else checkE (onV (acct_SetBalance K sender tokenAddr (Big_Sub K senderBal value)) s) (\<lambda>s.
      need (acct_BalanceOf K payee tokenAddr (sm_v1 s)) s (\<lambda>(payeeBal, bcerr).
      if \<not> isOK bcerr then (Inr bcerr, s)
      else seqR (onV (acct_SetBalance K payee tokenAddr (Big_Add K payeeBal value)) s) (\<lambda>bcerr s.
        if \<not> isOK bcerr then (Inr bcerr, s)
        else (Inr bcerr, PackReceiptOfTransfer E api tokenAddr from_addr to_addr value s))))))"

text \<open>Errors of the reads are dropped; without a genesis token the name is read through \<open>nil\<close>.\<close>

definition token_name :: "'db EnvS \<Rightarrow> SmcApi \<Rightarrow> string \<Rightarrow> 'db V1 \<Rightarrow> string + string" where
  "token_name E api tokenName v = (if length tokenName = 0
     then andThen (or_nil (ts_GetGenesisToken (base1 E) (sa_State api) v)) (\<lambda>t. andThen (deref t) (\<lambda>token. Inr (it_Name token)))
     else Inr tokenName)"

definition smc_TransferToken :: "'db EnvS \<Rightarrow> SmcApi \<Rightarrow> string \<Rightarrow> string \<Rightarrow> string \<Rightarrow> int \<Rightarrow> 'db Smc \<Rightarrow> ('db Smc, BCError) act" where
  "smc_TransferToken E api tokenName from_addr to_addr value s =
    need (token_name E api tokenName (sm_v1 s)) s (\<lambda>name.
    need (or_empty (ts_GetTokenAddrByName (base1 E) (sa_State api) name (sm_v1 s))) s (\<lambda>tokenAddr.
    smc_transferToken E api tokenAddr from_addr to_addr value s))"

definition smc_Transfer :: "'db EnvS \<Rightarrow> SmcApi \<Rightarrow> string \<Rightarrow> string \<Rightarrow> int \<Rightarrow> 'db Smc \<Rightarrow> ('db Smc, BCError) act" where
  "smc_Transfer E api from_addr to_addr value s = smc_TransferToken E api [] from_addr to_addr value s"

definition smc_TransferByAddr :: "'db EnvS \<Rightarrow> SmcApi \<Rightarrow> string \<Rightarrow> string \<Rightarrow> string \<Rightarrow> int \<Rightarrow> 'db Smc \<Rightarrow> ('db Smc, BCError) act" where
  "smc_TransferByAddr E api tokenAddr from_addr to_addr value s = smc_transferToken E api tokenAddr from_addr to_addr value s"

text \<open>\<open>SmcApi.TransferToken\<close>: errors of both balances are dropped and count as no balance; zero may be transferred, to oneself too.\<close>

definition bal_only :: "string + int \<times> BCError \<Rightarrow> string + int" where
  "bal_only r = andThen r (\<lambda>(v, _). Inr v)"

definition api_TransferToken :: "'db EnvS \<Rightarrow> SmcApi \<Rightarrow> string \<Rightarrow> string \<Rightarrow> string \<Rightarrow> int \<Rightarrow> 'db Smc \<Rightarrow> ('db Smc, BCError) act" where
  "api_TransferToken E api from_addr to_addr token value s = (let K = base1 E in
    if Big_Compare K value (Big_Zero K) < 0 then (Inr (errC ErrCodeInterContractsInvalidParameter), s)
    else let newTxState = \<lparr>ts_ContractAddress = token, ts_SenderAddress = from_addr, ts_Tx = ts_Tx (sa_State api)\<rparr>;
             accSender = \<lparr>ac_Addr = from_addr, ac_TxState = newTxState\<rparr>; accTo = \<lparr>ac_Addr = to_addr, ac_TxState = newTxState\<rparr> in
      need (bal_only (acct_BalanceOf K accSender token (sm_v1 s))) s (\<lambda>senderBalance.
      if Big_Compare K senderBalance value < 0 then (Inr (errC ErrCodeInterContractsInsufficientBalance), s)
      else checkE (onV (acct_SetBalance K accSender token (Big_Sub K senderBalance value)) s) (\<lambda>s.
      need (bal_only (acct_BalanceOf K accTo token (sm_v1 s))) s (\<lambda>toBalance.
      onV (acct_SetBalance K accTo token (Big_Add K toBalance value)) s))))"

definition api_GetBalance :: "'db EnvS \<Rightarrow> SmcApi \<Rightarrow> string \<Rightarrow> string \<Rightarrow> 'db V1 \<Rightarrow> string + int \<times> BCError" where
  "api_GetBalance E api tokenName accAddress v =
    andThen (token_name E api tokenName v) (\<lambda>name.
    andThen (or_empty (ts_GetTokenAddrByName (base1 E) (sa_State api) name v)) (\<lambda>tokenAddr.
    if length tokenAddr = 0
    then Inr (0, errD ErrCodeInterContractsInvalidParameter ''Invalid value: you must specify a token to query'')
    else acct_BalanceOf (base1 E) \<lparr>ac_Addr = accAddress, ac_TxState = (sa_State api)\<lparr>ts_ContractAddress := tokenAddr\<rparr>\<rparr> tokenAddr v))"

section \<open>Addresses and heights\<close>

definition SHA3256 :: "'db EnvS \<Rightarrow> bytes list \<Rightarrow> bytes" where
  "SHA3256 E datas = Sha3_256 E (concat datas)"

definition GetCurrentBlockHeight :: "'db EnvS \<Rightarrow> 'db V1 \<Rightarrow> int res" where
  "GetCurrentBlockHeight E v = tryR (sdb_GetWorldAppState (base1 E) v) (\<lambda>app. Inr (case app of
     None \<Rightarrow> Inl ''Failed to get AppState''
   | Some a \<Rightarrow> Inr (sint (of_int (BlockHeight a + 1) :: int64))))"

text \<open>The account of a contract has no \<open>TxState\<close>.\<close>

definition GetContractAcct :: "'db EnvS \<Rightarrow> SmcApi \<Rightarrow> string \<Rightarrow> 'db V1 \<Rightarrow> string + string \<times> TxState option" where
  "GetContractAcct E api name v = andThen (ts_GetChainID (base1 E) (sa_State api) v) (\<lambda>cid.
     Inr (CalcContractAddress (base1 E) cid [] name [], None))"

definition api_GetAccount :: "'db EnvS \<Rightarrow> SmcApi \<Rightarrow> string \<Rightarrow> 'db V1 \<Rightarrow> string + string \<times> TxState option" where
  "api_GetAccount E api addr v = andThen (or_nil (sdb_GetContract (base1 E) addr v)) (\<lambda>contract. case contract of
     Some c \<Rightarrow> GetContractAcct E api (tc_Name c) v
   | None \<Rightarrow> Inr (addr, Some (sa_State api)))"

fun first_in_effect :: "'db EnvS \<Rightarrow> uint64 \<Rightarrow> string list \<Rightarrow> 'db V1 \<Rightarrow> string + string" where
  "first_in_effect E h [] v = Inr []"
| "first_in_effect E h (addr # contractList) v =
    andThen (or_nil (sdb_GetContract (base1 E) addr v)) (\<lambda>c. andThen (deref c) (\<lambda>contract.
      if tc_EffectHeight contract \<le> h \<and> (tc_LoseHeight contract = 0 \<or> h < tc_LoseHeight contract)
      then Inr (tc_Address contract) else first_in_effect E h contractList v))"

definition GetContractAddr :: "'db EnvS \<Rightarrow> string \<Rightarrow> 'db V1 \<Rightarrow> string + string" where
  "GetContractAddr E name v = andThen (or_nil (sdb_GetWorldAppState (base1 E) v)) (\<lambda>appState. case appState of
     None \<Rightarrow> Inr []
   | Some a \<Rightarrow> andThen (or_empty (ts_GetContractsListByName (base1 E) name v)) (\<lambda>contractList.
       first_in_effect E (of_int (BlockHeight a + 1)) contractList v))"

definition api_CalcContractAddress :: "'db EnvS \<Rightarrow> SmcApi \<Rightarrow> string \<Rightarrow> string \<Rightarrow> 'db V1 \<Rightarrow> string + string" where
  "api_CalcContractAddress E api name version v = andThen (ts_GetChainID (base1 E) (sa_State api) v) (\<lambda>cid.
     Inr (CalcContractAddress (base1 E) cid (ac_Addr (sa_Owner api)) name version))"

definition api_GetContract :: "'db EnvS \<Rightarrow> SmcApi \<Rightarrow> 'db V1 \<Rightarrow> types_Contract option res" where
  "api_GetContract E api v = sdb_GetContract (base1 E) (sa_ContractAddr api) v"

definition GetOwnerOfGenesisToken :: "'db EnvS \<Rightarrow> SmcApi \<Rightarrow> 'db V1 \<Rightarrow> string + string \<times> BCError" where
  "GetOwnerOfGenesisToken E api v =
    andThen (or_nil (ts_GetGenesisToken (base1 E) (sa_State api) v)) (\<lambda>gt. case gt of
      None \<Rightarrow> Inr ([], lowE ''Failed to get genesis token'')
    | Some g \<Rightarrow> andThen (or_nil (ts_GetToken (base1 E) (sa_State api) (it_Address g) v)) (\<lambda>token. case token of
        None \<Rightarrow> Inr ([], lowE ''Failed to get genesis token'')
      | Some t \<Rightarrow> Inr (it_Owner t, okE)))"

section \<open>Contracts and tokens\<close>

text \<open>The context that the methods build: sender, owner and state, the rest is zero.\<close>

definition smc_ctx :: "SmcApi \<Rightarrow> InvokeContext" where
  "smc_ctx api = \<lparr>cx_Sender = sa_Sender api, cx_Owner = sa_Owner api, cx_TxState = sa_State api, cx_BlockHash = [],
     cx_BlockHeader = no_header, cx_Proposer = None, cx_Rewarder = None, cx_GasLimit = 0, cx_Note = []\<rparr>"

definition CreateUnitedToken :: "'db EnvS \<Rightarrow> SmcApi \<Rightarrow> string \<Rightarrow> string \<Rightarrow> string \<Rightarrow> int \<Rightarrow> bool \<Rightarrow> bool \<Rightarrow> uint64 \<Rightarrow>
    'db Smc \<Rightarrow> ('db Smc, BCError) act" where
  "CreateUnitedToken E api addr name symbol totalsupply addSupplyEnabled burnEnabled gasprice s =
    seqR (onV (ctx_NewUnitedToken (base1 E) (smc_ctx api) addr name symbol totalsupply addSupplyEnabled burnEnabled gasprice) s)
      (\<lambda>bcerr s. if \<not> isOK bcerr then (Inr bcerr, s)
       else need (ctx_GetToken (base1 E) (smc_ctx api) addr (sm_v1 s)) s (\<lambda>(t, _).
         need (GetContractAcct E api name (sm_v1 s)) s (\<lambda>(acct, _).
         need (deref t) s (\<lambda>token.
           (Inr bcerr, PackReceiptOfTransfer E api (it_Address token) [] (it_Owner token) (it_TotalSupply token)
              (PackReceiptOfNewToken E api token acct s))))))"

definition CheckParameterGasAndPrototype :: "string list \<Rightarrow> uint64 list \<Rightarrow> BCError" where
  "CheckParameterGasAndPrototype protoTypes gasList =
    (if length protoTypes \<noteq> length gasList then errC ErrCodeInterContractsInvalidGasPrice else okE)"

definition invalidD :: "string \<Rightarrow> BCError" where
  "invalidD d = errD ErrCodeInterContractsInvalidParameter d"

definition ForbidSpecificContract :: "'db EnvS \<Rightarrow> SmcApi \<Rightarrow> string \<Rightarrow> uint64 \<Rightarrow> 'db V1 \<Rightarrow> ('db V1, BCError) act" where
  "ForbidSpecificContract E api addr loseHeight v =
    getOr (sdb_GetContract (base1 E) addr v) (invalidD ''The specified contract address does not exist'') v (\<lambda>contract.
      if tc_LoseHeight contract \<noteq> 0 then (Inr (invalidD (''It'' @ [CHR 0x27] @ ''s already be set, don'' @ [CHR 0x27] @ ''t repeat'')), v)
      else if loseHeight \<le> tc_EffectHeight contract then (Inr (invalidD ''The specified block height is invalid''), v)
      else low (ts_SetTokenContract (base1 E) (sa_State api) (contract\<lparr>tc_LoseHeight := loseHeight\<rparr>) v))"

text \<open>The flag is that of the last contract of the list: true unless this one has just been forbidden.\<close>

fun forbid_loop :: "'db EnvS \<Rightarrow> SmcApi \<Rightarrow> string \<Rightarrow> uint64 \<Rightarrow> string list \<Rightarrow> bool \<Rightarrow> 'db V1 \<Rightarrow> ('db V1, bool \<times> BCError) act" where
  "forbid_loop E api version effectHeight [] bForbid v = (Inr (bForbid, okE), v)"
| "forbid_loop E api version effectHeight (contractAddr # oldcontracts) bForbid v =
    (case sdb_GetContract (base1 E) contractAddr v of
       Inl e \<Rightarrow> (Inl e, v)
     | Inr (Inl e) \<Rightarrow> (Inr (True, lowE e), v)
     | Inr (Inr None) \<Rightarrow> (Inl nil_pointer, v)
     | Inr (Inr (Some contract)) \<Rightarrow>
       if GreaterThan E (tc_Version contract) version
       then (Inr (True, invalidD (''Contract'' @ [CHR 0x27] @ ''s version is incorrect'')), v)
       else if effectHeight \<le> tc_EffectHeight contract
       then (Inr (True, invalidD (''Contract'' @ [CHR 0x27] @ ''s effectHeight is incorrect'')), v)
       else if tc_LoseHeight contract = 0
       then seqR (ts_SetTokenContract (base1 E) (sa_State api) (contract\<lparr>tc_LoseHeight := effectHeight\<rparr>) v) (\<lambda>r v.
         case r of Inl e \<Rightarrow> (Inr (False, lowE e), v)
         | Inr _ \<Rightarrow> forbid_loop E api version effectHeight oldcontracts False v)
       else forbid_loop E api version effectHeight oldcontracts True v)"

definition CheckAndForbidOldVersionContract :: "'db EnvS \<Rightarrow> SmcApi \<Rightarrow> string \<Rightarrow> string \<Rightarrow> uint64 \<Rightarrow> 'db V1 \<Rightarrow>
    ('db V1, bool \<times> BCError) act" where
  "CheckAndForbidOldVersionContract E api name version effectHeight v =
    (case ts_GetContractsListByName (base1 E) name v of
       Inl e \<Rightarrow> (Inl e, v)
     | Inr (Inl e) \<Rightarrow> (Inr (False, lowE e), v)
     | Inr (Inr oldcontracts) \<Rightarrow> forbid_loop E api version effectHeight oldcontracts False v)"

text \<open>A list of prices that is too short is read past its end.\<close>

fun new_methods :: "'db EnvS \<Rightarrow> string list \<Rightarrow> uint64 list \<Rightarrow> string + types_Method list" where
  "new_methods E [] gasList = Inr []"
| "new_methods E (protoType # protoTypes) [] = Inl ''runtime error: index out of range''"
| "new_methods E (protoType # protoTypes) (gas # gasList) = andThen (new_methods E protoTypes gasList) (\<lambda>methods.
     Inr (\<lparr>me_MethodId = hex_lower (CalcMethodId (base1 E) protoType), me_Gas = gas, me_Prototype = protoType\<rparr> # methods))"

definition SetNewContract :: "'db EnvS \<Rightarrow> SmcApi \<Rightarrow> string \<Rightarrow> string \<Rightarrow> string \<Rightarrow> string list \<Rightarrow> uint64 list \<Rightarrow> bytes \<Rightarrow> uint64 \<Rightarrow>
    'db V1 \<Rightarrow> ('db V1, string + unit) act" where
  "SetNewContract E api contractAddr name version protoTypes gasList codeHash effectHeight v =
    need (new_methods E protoTypes gasList) v (\<lambda>methods.
      ts_SetTokenContract (base1 E) (sa_State api) \<lparr>tc_Address = contractAddr, tc_Owner = ac_Addr (sa_Owner api), tc_Name = name,
        tc_Version = version, tc_CodeHash = hex_lower codeHash, tc_Methods = methods, tc_EffectHeight = effectHeight,
        tc_LoseHeight = 0, tc_ChainVersion = 0, tc_OrgID = []\<rparr> v)"

definition CheckTokenNameAndSybmol :: "'db EnvS \<Rightarrow> SmcApi \<Rightarrow> string \<Rightarrow> string \<Rightarrow> 'db V1 \<Rightarrow> string + BCError" where
  "CheckTokenNameAndSybmol E api name symbol v = ctx_CheckNameAndSybmol (base1 E) (smc_ctx api) name symbol v"

definition GetTokenTotalSupply :: "'db EnvS \<Rightarrow> SmcApi \<Rightarrow> 'db V1 \<Rightarrow> string + int \<times> BCError" where
  "GetTokenTotalSupply E api v = ctx_TokenSupply (base1 E) (smc_ctx api) v"

definition SetTokenGasPrice :: "'db EnvS \<Rightarrow> SmcApi \<Rightarrow> uint64 \<Rightarrow> 'db V1 \<Rightarrow> ('db V1, BCError) act" where
  "SetTokenGasPrice E api value v = ctx_SetGasPrice (base1 E) (smc_ctx api) value v"

definition api_SetTokenSupply :: "'db EnvS \<Rightarrow> SmcApi \<Rightarrow> int \<Rightarrow> 'db V1 \<Rightarrow> ('db V1, BCError) act" where
  "api_SetTokenSupply E api value v = ctx_SetTokenSupply (base1 E) (smc_ctx api) value True False v"

definition TokenBurn :: "'db EnvS \<Rightarrow> SmcApi \<Rightarrow> int \<Rightarrow> 'db V1 \<Rightarrow> ('db V1, BCError) act" where
  "TokenBurn E api value v = ctx_SetTokenSupply (base1 E) (smc_ctx api) value False True v"

definition api_SetTokenNewOwner :: "'db EnvS \<Rightarrow> SmcApi \<Rightarrow> string \<Rightarrow> 'db V1 \<Rightarrow> ('db V1, BCError) act" where
  "api_SetTokenNewOwner E api owner v = ctx_SetTokenNewOwner (base1 E) (smc_ctx api) owner v"

end
