(* ===== verification/V1_Byb.thy ===== *)
theory V1_Byb
  imports V1_Smc
begin

text \<open>
  The BYB token (\<open>contract/tokenbyb\<close>): every unit of the token has a chromo, an account holds an amount
  per chromo, and the balance of the token is the sum. There are the owner's side (the committee), stock
  holders, black holes and users. A transfer takes its value from the sender's chromos in proportion.

  A missing list of amounts and an empty one are the same here: no operation tells them apart. The
  methods are in \<open>V1_Byb_Ops\<close>.
\<close>

section \<open>Constants\<close>

definition maxStockHolder :: nat where "maxStockHolder = 100"
definition BybName :: string where "BybName = ''BYB''"
definition bybSymbol :: string where "bybSymbol = ''BYB''"
definition minTotalSupply :: int where "minTotalSupply = 1000000000"
definition white_Chromo :: string where "white_Chromo = ''0''"

definition addressRole_Committee :: uint32 where "addressRole_Committee = 1"
definition addressRole_StockHolder :: uint32 where "addressRole_StockHolder = 2"
definition addressRole_Hole :: uint32 where "addressRole_Hole = 3"
definition addressRole_User :: uint32 where "addressRole_User = 4"

section \<open>Reads with low-level errors\<close>

definition readL :: "'a res \<Rightarrow> 's \<Rightarrow> ('a \<Rightarrow> ('s, BCError) act) \<Rightarrow> ('s, BCError) act" where
  "readL r s f = (case r of Inl e \<Rightarrow> (Inl e, s) | Inr (Inl e) \<Rightarrow> (Inr (lowE e), s) | Inr (Inr a) \<Rightarrow> f a)"

text \<open>The same for a result with a value, which is \<open>z\<close> then.\<close>

definition readP :: "'z \<Rightarrow> 'a res \<Rightarrow> 's \<Rightarrow> ('a \<Rightarrow> ('s, 'z \<times> BCError) act) \<Rightarrow> ('s, 'z \<times> BCError) act" where
  "readP z r s f = (case r of Inl e \<Rightarrow> (Inl e, s) | Inr (Inl e) \<Rightarrow> (Inr (z, lowE e), s) | Inr (Inr a) \<Rightarrow> f a)"

definition writeP :: "'z \<Rightarrow> ('s, string + unit) act \<Rightarrow> ('s \<Rightarrow> ('s, 'z \<times> BCError) act) \<Rightarrow> ('s, 'z \<times> BCError) act" where
  "writeP z m f = seqR m (\<lambda>r s. case r of Inl e \<Rightarrow> (Inr (z, lowE e), s) | Inr _ \<Rightarrow> f s)"

text \<open>A call that returns a value and an error, and a return if the error is one.\<close>

definition checkP :: "('s, 'a \<times> BCError) act \<Rightarrow> ('a \<Rightarrow> 's \<Rightarrow> ('s, BCError) act) \<Rightarrow> ('s, BCError) act" where
  "checkP m f = seqR m (\<lambda>(a, e) s. if isOK e then f a s else (Inr e, s))"

lemma read_simps [simp]:
  "readL (Inl e) s f = (Inl e, s)" "readL (Inr (Inl e)) s f = (Inr (lowE e), s)" "readL (Inr (Inr a)) s f = f a"
  "readP z (Inl e) s g = (Inl e, s)" "readP z (Inr (Inl e)) s g = (Inr (z, lowE e), s)" "readP z (Inr (Inr a)) s g = g a"
  "writeP z (Inl e, s) h = (Inl e, s)" "writeP z (Inr (Inl e), s) h = (Inr (z, lowE e), s)" "writeP z (Inr (Inr u), s) h = h s"
  "checkP (Inl e, s) k = (Inl e, s)" "checkP (Inr (a, b), s) k = (if isOK b then k a s else (Inr b, s))"
  by (simp_all add: readL_def readP_def writeP_def checkP_def)

definition index_panic :: string where
  "index_panic = ''runtime error: index out of range''"

section \<open>Stored data (\<open>statedb.go\<close>)\<close>

definition keyOfBlackHole :: string where "keyOfBlackHole = ''/byb/blackholes''"
definition keyOfStockholders :: string where "keyOfStockholders = ''/byb/stockholders''"
definition keyOfCurChromo :: string where "keyOfCurChromo = ''/byb/curchromo''"

definition keyOfByb :: "string \<Rightarrow> string" where
  "keyOfByb addr = keyOfAccount addr @ ''/byb''"

definition setBlackHole :: "'db EnvS \<Rightarrow> SmcApi \<Rightarrow> string list \<Rightarrow> 'db V1 \<Rightarrow> ('db V1, string + unit) act" where
  "setBlackHole E byb blackHoles v = tryN (mjson (k_strings (base1 E)) blackHoles) v (\<lambda>data.
     ts_Set (sa_State byb) keyOfBlackHole data v)"

definition getBlackHole :: "'db EnvS \<Rightarrow> SmcApi \<Rightarrow> 'db V1 \<Rightarrow> string list option res" where
  "getBlackHole E byb v = as_json (k_strings (base1 E)) (ts_Get (base1 E) (sa_State byb) v keyOfBlackHole)"

definition sum_values :: "'db EnvS \<Rightarrow> bybBalance list \<Rightarrow> int" where
  "sum_values E balances = foldl (\<lambda>t b. Big_Add (base1 E) t (Value b)) 0 balances"

definition setBybBalance :: "'db EnvS \<Rightarrow> SmcApi \<Rightarrow> string \<Rightarrow> bybBalance list \<Rightarrow> 'db V1 \<Rightarrow> ('db V1, string + unit) act" where
  "setBybBalance E byb addr balances v = (let K = base1 E; ts = sa_State byb in
    tryN (mjson (k_Byb E) balances) v (\<lambda>bybBalanceData.
    let childKey = keyOfByb addr in
    tryN (ts_Get K ts v childKey) v (\<lambda>data.
    tryS (if data = None then ts_addChildKey K ts (keyOfAccount addr) childKey v else (Inr (Inr ()), v)) (\<lambda>_ v.
    tryS (ts_Set ts childKey bybBalanceData v) (\<lambda>_ v.
    ts_SetBalance K ts addr (ts_ContractAddress ts) (sum_values E balances) v)))))"

definition getBybBalance :: "'db EnvS \<Rightarrow> SmcApi \<Rightarrow> string \<Rightarrow> 'db V1 \<Rightarrow> bybBalance list res" where
  "getBybBalance E byb addr v = tryR (as_json (k_Byb E) (ts_Get (base1 E) (sa_State byb) v (keyOfByb addr))) (\<lambda>l.
     Inr (Inr (list_of l)))"

definition getBybStockHolders :: "'db EnvS \<Rightarrow> SmcApi \<Rightarrow> 'db V1 \<Rightarrow> string list option res" where
  "getBybStockHolders E byb v = as_json (k_strings (base1 E)) (ts_Get (base1 E) (sa_State byb) v keyOfStockholders)"

definition setBybStockHolders :: "'db EnvS \<Rightarrow> SmcApi \<Rightarrow> string list \<Rightarrow> 'db V1 \<Rightarrow> ('db V1, string + unit) act" where
  "setBybStockHolders E byb stockHolders v = tryN (mjson (k_strings (base1 E)) stockHolders) v (\<lambda>data.
     ts_Set (sa_State byb) keyOfStockholders data v)"

definition setCurChromo :: "SmcApi \<Rightarrow> string \<Rightarrow> 'db V1 \<Rightarrow> ('db V1, string + unit) act" where
  "setCurChromo byb chromo v = ts_Set (sa_State byb) keyOfCurChromo (bytes_of_string chromo) v"

definition getCurChromo :: "'db EnvS \<Rightarrow> SmcApi \<Rightarrow> 'db V1 \<Rightarrow> string res" where
  "getCurChromo E byb v = tryR (ts_Get (base1 E) (sa_State byb) v keyOfCurChromo) (\<lambda>value.
     Inr (Inr (case value of None \<Rightarrow> [] | Some b \<Rightarrow> string_of_bytes b)))"

section \<open>Receipts (\<open>tokenbyb_events.go\<close>)\<close>

text \<open>An error in marshalling leaves no bytes, and the receipt is emitted all the same.\<close>

definition emit_byb :: "'db EnvS \<Rightarrow> SmcApi \<Rightarrow> string \<Rightarrow> receipt_body \<Rightarrow> 'db Smc \<Rightarrow> 'db Smc" where
  "emit_byb E byb name body s = EmitReceipt E byb name
     (case marshal (k_Receipt E) body of Inl _ \<Rightarrow> [] | Inr resBytes \<Rightarrow> resBytes) s"

definition bybReceipt_onTransfer :: "'db EnvS \<Rightarrow> SmcApi \<Rightarrow> string \<Rightarrow> string \<Rightarrow> bybBalance list \<Rightarrow> 'db Smc \<Rightarrow> 'db Smc" where
  "bybReceipt_onTransfer E byb from_addr to_addr transByb s = (let token = ts_ContractAddress (sa_State byb) in
    emit_byb E byb ''bybTransfer'' (bybTransferReceipt token from_addr to_addr transByb)
      (PackReceiptOfTransfer E byb token from_addr to_addr (sum_values E transByb) s))"

definition bybReceipt_onInitToken :: "'db EnvS \<Rightarrow> SmcApi \<Rightarrow> IssueToken \<Rightarrow> string \<Rightarrow> 'db Smc \<Rightarrow> 'db Smc" where
  "bybReceipt_onInitToken E byb token accountAddress = PackReceiptOfNewToken E byb token accountAddress"

definition bybReceipt_onNewBlackHole :: "'db EnvS \<Rightarrow> SmcApi \<Rightarrow> string \<Rightarrow> 'db Smc \<Rightarrow> 'db Smc" where
  "bybReceipt_onNewBlackHole E byb addr = emit_byb E byb ''newBlackHole'' (bybAddressReceipt addr)"

definition bybReceipt_onNewStockHolder :: "'db EnvS \<Rightarrow> SmcApi \<Rightarrow> string \<Rightarrow> bybBalance list \<Rightarrow> 'db Smc \<Rightarrow> 'db Smc" where
  "bybReceipt_onNewStockHolder E byb addr bybt = emit_byb E byb ''newStockHolder'' (bybStockReceipt addr bybt)"

definition bybReceipt_onDelStockHolder :: "'db EnvS \<Rightarrow> SmcApi \<Rightarrow> string \<Rightarrow> 'db Smc \<Rightarrow> 'db Smc" where
  "bybReceipt_onDelStockHolder E byb addr = emit_byb E byb ''delStockHolder'' (bybAddressReceipt addr)"

definition bybReceipt_onChangeChromoOwnership :: "'db EnvS \<Rightarrow> SmcApi \<Rightarrow> string \<Rightarrow> string \<Rightarrow> bybBalance list \<Rightarrow> 'db Smc \<Rightarrow> 'db Smc" where
  "bybReceipt_onChangeChromoOwnership E byb from_addr to_addr bybt s =
    emit_byb E byb ''changeChromoOwnership'' (bybChromoReceipt from_addr to_addr bybt)
      (bybReceipt_onTransfer E byb from_addr to_addr bybt s)"

definition bybReceipt_onSetOwner :: "'db EnvS \<Rightarrow> SmcApi \<Rightarrow> string \<Rightarrow> 'db Smc \<Rightarrow> 'db Smc" where
  "bybReceipt_onSetOwner E byb addr = PackReceiptOfSetOwner E byb (ts_ContractAddress (sa_State byb)) addr"

definition bybReceipt_onAddSupply :: "'db EnvS \<Rightarrow> SmcApi \<Rightarrow> int \<Rightarrow> int \<Rightarrow> 'db Smc \<Rightarrow> 'db Smc" where
  "bybReceipt_onAddSupply E byb value totalSupply = PackReceiptOfAddSupply E byb (ts_ContractAddress (sa_State byb)) value totalSupply"

definition bybReceipt_onBurn :: "'db EnvS \<Rightarrow> SmcApi \<Rightarrow> int \<Rightarrow> int \<Rightarrow> 'db Smc \<Rightarrow> 'db Smc" where
  "bybReceipt_onBurn E byb value totalSupply = PackReceiptOfBurn E byb (ts_ContractAddress (sa_State byb)) value totalSupply"

definition bybReceipt_onSetGasPrice :: "'db EnvS \<Rightarrow> SmcApi \<Rightarrow> uint64 \<Rightarrow> 'db Smc \<Rightarrow> 'db Smc" where
  "bybReceipt_onSetGasPrice E byb gasPrice = PackReceiptOfSetGasPrice E byb (ts_ContractAddress (sa_State byb)) gasPrice"

section \<open>Chromos\<close>

definition calcTotalBalance :: "'db EnvS \<Rightarrow> bybBalance list \<Rightarrow> int" where
  "calcTotalBalance E chromoinfo = foldl (\<lambda>t x. Big_Add (base1 E) t (Value x)) 0 chromoinfo"

text \<open>\<open>strconv.ParseUint(s, 10, 64)\<close> without its error: 0 for a syntax error, all ones if out of range.\<close>

fun parse10 :: "string \<Rightarrow> nat \<Rightarrow> uint64" where
  "parse10 [] n = of_nat n"
| "parse10 (c # s) n = (case dec_digit c of
     None \<Rightarrow> 0
   | Some d \<Rightarrow> if 2 ^ 64 \<le> 10 * n + d then - 1 else parse10 s (10 * n + d))"

text \<open>The empty string stands for an error; the error of storing the new chromo is dropped.\<close>

definition calcNewChromo :: "'db EnvS \<Rightarrow> SmcApi \<Rightarrow> 'db V1 \<Rightarrow> ('db V1, string) act" where
  "calcNewChromo E byb v = (case getCurChromo E byb v of
     Inl e \<Rightarrow> (Inl e, v)
   | Inr (Inl _) \<Rightarrow> (Inr [], v)
   | Inr (Inr curChromo) \<Rightarrow>
     let chromo = (if curChromo = [] then 0 else parse10 curChromo 0) in
     if curChromo \<noteq> [] \<and> chromo = 0 then (Inr [], v)
     else let newChromo = dec_of_nat (unat (chromo + 1)) in
       seqR (setCurChromo byb newChromo v) (\<lambda>_ v. (Inr newChromo, v)))"

definition makeByb :: "'db EnvS \<Rightarrow> SmcApi \<Rightarrow> int \<Rightarrow> 'db V1 \<Rightarrow> ('db V1, bybBalance \<times> BCError) act" where
  "makeByb E byb value v = seqR (calcNewChromo E byb v) (\<lambda>chromo v.
     if chromo = [] then (Inr (\<lparr>Chromo = [], Value = 0\<rparr>, lowE ''Error happened while calculating byb chromo''), v)
     else (Inr (\<lparr>Chromo = chromo, Value = value\<rparr>, okE), v))"

text \<open>
  The loop of \<open>calcTransferBybChromo\<close>: \<open>moved\<close> is \<open>totalTransValue\<close>, the lists are what remains and what is
  taken. The lists that go with an error are not read by the callers.
\<close>

fun transfer_loop :: "'db Env1 \<Rightarrow> int \<Rightarrow> int \<Rightarrow> int \<Rightarrow> bybBalance list \<Rightarrow> BCError + bybBalance list \<times> bybBalance list" where
  "transfer_loop K totalBalance value moved [] = Inr ([], [])"
| "transfer_loop K totalBalance value moved (chromo # senderByb) =
    (if Big_Compare K (Value chromo) (Big_Zero K) = 0 then transfer_loop K totalBalance value moved senderByb
     else let surplus = Big_Sub K value moved in
     if Big_Compare K surplus (Big_Zero K) = 0
     then (case transfer_loop K totalBalance value moved senderByb of
         Inl e \<Rightarrow> Inl e | Inr (senderNewByb, payeeByb) \<Rightarrow> Inr (chromo # senderNewByb, payeeByb))
     else if Big_Compare K surplus (Big_Zero K) < 0 then Inl (errC ErrCodeInterContractsInvalidBalance)
     else let temp = Big_SafeMul K value (Value chromo); share = Big_SafeDiv K temp totalBalance in
       if 0 < Big_Compare K share (Value chromo) then Inl (errC ErrCodeInterContractsInvalidBalance)
       else let transValue = (if 0 < Big_Compare K share surplus then surplus
                  else if Big_Compare K share (Big_Zero K) = 0 then 1 else share);
                left = Big_Sub K (Value chromo) transValue
         in (case transfer_loop K totalBalance value (Big_Add K moved transValue) senderByb of
             Inl e \<Rightarrow> Inl e
           | Inr (senderNewByb, payeeByb) \<Rightarrow>
               Inr (if 0 < Big_Compare K left (Big_Zero K) then \<lparr>Chromo = Chromo chromo, Value = left\<rparr> # senderNewByb else senderNewByb,
                 \<lparr>Chromo = Chromo chromo, Value = transValue\<rparr> # payeeByb)))"

definition calcTransferBybChromo :: "'db EnvS \<Rightarrow> bybBalance list \<Rightarrow> int \<Rightarrow> BCError + bybBalance list \<times> bybBalance list" where
  "calcTransferBybChromo E senderByb value = transfer_loop (base1 E) (calcTotalBalance E senderByb) value 0 senderByb"

text \<open>What the second round took is added to what the first took of the same chromo.\<close>

definition add_second :: "'db EnvS \<Rightarrow> bybBalance list \<Rightarrow> bybBalance \<Rightarrow> bybBalance" where
  "add_second E sr_payeeByb ch = (case find (\<lambda>sr. Chromo ch = Chromo sr) sr_payeeByb of
     None \<Rightarrow> ch | Some sr \<Rightarrow> ch\<lparr>Value := Big_Add (base1 E) (Value ch) (Value sr)\<rparr>)"

text \<open>What leaves a black hole becomes white.\<close>

definition whiten :: "uint32 \<Rightarrow> int \<Rightarrow> bybBalance list \<Rightarrow> bybBalance list" where
  "whiten senderRole value out = (if senderRole = addressRole_Hole then [\<lparr>Chromo = white_Chromo, Value = value\<rparr>] else out)"

definition calcAndSetSenderBalance :: "'db EnvS \<Rightarrow> SmcApi \<Rightarrow> int \<Rightarrow> uint32 \<Rightarrow> 'db V1 \<Rightarrow> ('db V1, bybBalance list \<times> BCError) act" where
  "calcAndSetSenderBalance E byb value senderRole v = (let K = base1 E; sender = ac_Addr (sa_Sender byb) in
    if Big_Compare K value (Big_Zero K) = 0 then (Inr ([], errC ErrCodeInterContractsInvalidParameter), v)
    else readP [] (getBybBalance E byb sender v) v (\<lambda>senderByb.
    let totalBalance = calcTotalBalance E senderByb in
    if Big_Compare K totalBalance value < 0 then (Inr ([], errC ErrCodeInterContractsInsufficientBalance), v)
    else if Big_Compare K totalBalance value = 0
    then writeP (whiten senderRole value senderByb) (setBybBalance E byb sender [] v)
      (\<lambda>v. (Inr (whiten senderRole value senderByb, okE), v))
    else case calcTransferBybChromo E senderByb value of
      Inl e \<Rightarrow> (Inr ([], e), v)
    | Inr (senderNewByb, payeeByb) \<Rightarrow>
      let surplus = Big_Sub K value (calcTotalBalance E payeeByb) in
      if Big_Compare K surplus (Big_Zero K) = 0
      then writeP (whiten senderRole value payeeByb) (setBybBalance E byb sender senderNewByb v)
        (\<lambda>v. (Inr (whiten senderRole value payeeByb, okE), v))
      else (case calcTransferBybChromo E senderNewByb surplus of
        Inl e \<Rightarrow> (Inr ([], e), v)
      | Inr (sr_senderNewByb, sr_payeeByb) \<Rightarrow>
        writeP [] (setBybBalance E byb sender sr_senderNewByb v) (\<lambda>v.
          if Big_Compare K (Big_Sub K surplus (calcTotalBalance E sr_payeeByb)) (Big_Zero K) \<noteq> 0
          then (Inr ([], errC ErrCodeInterContractsInvalidBalance), v)
          else (Inr (whiten senderRole value (map (add_second E sr_payeeByb) payeeByb), okE), v)))))"

text \<open>The old chromos, and what is left to add: the first entry of a chromo is added and set to zero.\<close>

fun take_added :: "'db Env1 \<Rightarrow> bybBalance \<Rightarrow> bybBalance list \<Rightarrow> (bybBalance \<times> bybBalance list) option" where
  "take_added K chromo [] = None"
| "take_added K chromo (newchromo # addedByb) =
    (if Chromo chromo = Chromo newchromo
     then Some (chromo\<lparr>Value := Big_Add K (Value chromo) (Value newchromo)\<rparr>, newchromo\<lparr>Value := 0\<rparr> # addedByb)
     else case take_added K chromo addedByb of None \<Rightarrow> None | Some (c, rest) \<Rightarrow> Some (c, newchromo # rest))"

fun merge_old :: "'db Env1 \<Rightarrow> bybBalance list \<Rightarrow> bybBalance list \<Rightarrow> bybBalance list \<times> bybBalance list" where
  "merge_old K [] addedByb = ([], addedByb)"
| "merge_old K (chromo # oldByb) addedByb = (case take_added K chromo addedByb of
     None \<Rightarrow> (case merge_old K oldByb addedByb of (l, a) \<Rightarrow> (chromo # l, a))
   | Some (c, rest) \<Rightarrow> (case merge_old K oldByb rest of (l, a) \<Rightarrow> (c # l, a)))"

definition merge_byb :: "'db Env1 \<Rightarrow> bybBalance list \<Rightarrow> bybBalance list \<Rightarrow> bybBalance list" where
  "merge_byb K oldByb addedByb = (case merge_old K oldByb addedByb of (newBybChromo, rest) \<Rightarrow>
     newBybChromo @ filter (\<lambda>newchromo. Big_Compare K (Value newchromo) (Big_Zero K) \<noteq> 0) rest)"

definition setPayeeBalance :: "'db EnvS \<Rightarrow> SmcApi \<Rightarrow> string \<Rightarrow> bybBalance list \<Rightarrow> 'db V1 \<Rightarrow> ('db V1, BCError) act" where
  "setPayeeBalance E byb payeeAddr addedByb v = readL (getBybBalance E byb payeeAddr v) v (\<lambda>oldByb.
     low (setBybBalance E byb payeeAddr (merge_byb (base1 E) oldByb addedByb) v))"

section \<open>Roles\<close>

text \<open>The role is 0 with an error.\<close>

definition checkAddress :: "'db EnvS \<Rightarrow> SmcApi \<Rightarrow> string \<Rightarrow> 'db V1 \<Rightarrow> string + uint32 \<times> BCError" where
  "checkAddress E byb addr v =
    (if addr = ac_Addr (sa_Owner byb) \<or> addr = ac_Addr (sa_ContractAcct byb) \<or> addr = sa_ContractAddr byb
     then Inr (addressRole_Committee, okE)
     else case getBlackHole E byb v of
       Inl e \<Rightarrow> Inl e
     | Inr (Inl e) \<Rightarrow> Inr (0, lowE e)
     | Inr (Inr blackHoleAddrs) \<Rightarrow> if addr \<in> set (list_of blackHoleAddrs) then Inr (addressRole_Hole, okE)
       else (case getBybStockHolders E byb v of
         Inl e \<Rightarrow> Inl e
       | Inr (Inl e) \<Rightarrow> Inr (0, lowE e)
       | Inr (Inr stockHolderAddrs) \<Rightarrow>
         if addr \<in> set (list_of stockHolderAddrs) then Inr (addressRole_StockHolder, okE)
         else Inr (addressRole_User, okE)))"

definition isStockHolderOwnTheChromo :: "'db EnvS \<Rightarrow> SmcApi \<Rightarrow> string \<Rightarrow> string \<Rightarrow> 'db V1 \<Rightarrow> string + bool" where
  "isStockHolderOwnTheChromo E byb stockHolder chromo v = (case getBybBalance E byb stockHolder v of
     Inl e \<Rightarrow> Inl e
   | Inr (Inl _) \<Rightarrow> Inr False
   | Inr (Inr ownedByb) \<Rightarrow> Inr (\<exists>token \<in> set ownedByb. Chromo token = chromo))"

text \<open>The start of most methods: the sender has to be the owner.\<close>

definition byb_owner :: "SmcApi \<Rightarrow> 's \<Rightarrow> ('s, BCError) act \<Rightarrow> ('s, BCError) act" where
  "byb_owner byb s m = (if ac_Addr (sa_Sender byb) \<noteq> ac_Addr (sa_Owner byb)
     then (Inr (errC ErrCodeInterContractsNoAuthorization), s) else m)"

end
