(* ===== verification/V1_Byb_Ops.thy ===== *)
theory V1_Byb_Ops
  imports V1_Byb
begin

text \<open>
  The methods of the BYB token (\<open>contract/tokenbyb/tokenbyb.go\<close>) on the state of version 1 and the receipts.
  An operation with a capital is a method of the contract, the same name without one the code's private
  helper. A \<open>nil\<close> token or contract that the code reads through is a panic.
\<close>

section \<open>The token's record\<close>

definition getTokenAddrByName :: "'db EnvS \<Rightarrow> SmcApi \<Rightarrow> 'db V1 \<Rightarrow> string + string \<times> BCError" where
  "getTokenAddrByName E byb v = (case ts_GetTokenAddrByName (base1 E) (sa_State byb) BybName v of
     Inl e \<Rightarrow> Inl e
   | Inr (Inl _) \<Rightarrow> Inr ([], lowE (BCError_Error (errC ErrCodeLowLevelError)))
   | Inr (Inr address) \<Rightarrow> Inr (address, okE))"

definition getTokenAddrBySymbol :: "'db EnvS \<Rightarrow> SmcApi \<Rightarrow> 'db V1 \<Rightarrow> string + string \<times> BCError" where
  "getTokenAddrBySymbol E byb v = (case ts_GetTokenAddrBySymbol (base1 E) (sa_State byb) bybSymbol v of
     Inl e \<Rightarrow> Inl e
   | Inr (Inl _) \<Rightarrow> Inr ([], lowE (BCError_Error (errC ErrCodeLowLevelError)))
   | Inr (Inr address) \<Rightarrow> Inr (address, okE))"

definition checkBybToken :: "'db EnvS \<Rightarrow> SmcApi \<Rightarrow> 'db V1 \<Rightarrow> ('db V1, BCError) act" where
  "checkBybToken E byb v = (let K = base1 E; ts = sa_State byb in
    need (getTokenAddrByName E byb v) v (\<lambda>(addr1, bcerr1).
    need (getTokenAddrBySymbol E byb v) v (\<lambda>(addr2, bcerr2).
    if \<not> isOK bcerr1 then (Inr bcerr1, v)
    else if \<not> isOK bcerr2 then (Inr bcerr2, v)
    else if addr1 = [] \<and> addr2 = [] then (Inr okE, v)
    else if addr1 \<noteq> addr2 then (Inr (errC ErrCodeInterContractsBybInitialized), v)
    else readL (ts_GetToken K ts addr1 v) v (\<lambda>t. need (deref t) v (\<lambda>iToken.
    if it_Owner iToken \<noteq> ac_Addr (sa_Sender byb) then (Inr (errC ErrCodeInterContractsBybInitialized), v)
    else if Big_Compare K (it_TotalSupply iToken) (Big_Zero K) \<noteq> 0 then (Inr (errC ErrCodeInterContractsBybInitialized), v)
    else readL (sdb_GetContract K (it_Address iToken) v) v (\<lambda>c. need (deref c) v (\<lambda>tContract.
    if tc_Address tContract = ts_ContractAddress ts then (Inr (errC ErrCodeInterContractsBybInitialized), v)
    else readL (sdb_GetWorldAppState K v) v (\<lambda>w. need (deref w) v (\<lambda>worldAppState.
    seqR (ts_SetTokenContract K ts (tContract\<lparr>tc_LoseHeight := of_int (BlockHeight worldAppState + 1)\<rparr>) v) (\<lambda>r v.
      (Inr (case r of Inl _ \<Rightarrow> lowE (BCError_Error (errC ErrCodeLowLevelError)) | Inr _ \<Rightarrow> okE), v)))))))))))"

text \<open>The receipt of the transfer is emitted even if the balance could not be stored.\<close>

definition initBybToken :: "'db EnvS \<Rightarrow> SmcApi \<Rightarrow> int \<Rightarrow> bool \<Rightarrow> bool \<Rightarrow> 'db Smc \<Rightarrow> ('db Smc, BCError) act" where
  "initBybToken E byb totalSupply addSupplyEnabled burnEnabled s = (let K = base1 E; ts = sa_State byb in
    readL (sdb_GetContract K (ts_ContractAddress ts) (sm_v1 s)) s (\<lambda>c. need (deref c) s (\<lambda>bybContract.
    need (ts_GetBaseGasPrice K ts (sm_v1 s)) s (\<lambda>price.
    let bybToken = \<lparr>it_Address = tc_Address bybContract, it_Owner = ac_Addr (sa_Owner byb), it_Version = tc_Version bybContract,
          it_Name = BybName, it_Symbol = bybSymbol, it_TotalSupply = totalSupply, it_AddSupplyEnabled = addSupplyEnabled,
          it_BurnEnabled = burnEnabled, it_GasPrice = price\<rparr>;
        acct = ac_Addr (sa_ContractAcct byb); balance = [\<lparr>Chromo = white_Chromo, Value = totalSupply\<rparr>] in
    orLow (onV (ts_SetToken K ts bybToken) s) (\<lambda>s.
    seqR (onV (setBybBalance E byb acct balance) (bybReceipt_onInitToken E byb bybToken acct s)) (\<lambda>r s.
      (Inr (case r of Inl e \<Rightarrow> lowE e | Inr _ \<Rightarrow> okE), bybReceipt_onTransfer E byb [] acct balance s)))))))"

definition byb_Init :: "'db EnvS \<Rightarrow> SmcApi \<Rightarrow> int \<Rightarrow> bool \<Rightarrow> bool \<Rightarrow> 'db Smc \<Rightarrow> ('db Smc, BCError) act" where
  "byb_Init E byb totalSupply addSupplyEnabled burnEnabled s = byb_owner byb s
    (if Num_Cmp E totalSupply minTotalSupply < 0 then (Inr (errC ErrCodeInterContractsInvalidSupply), s)
     else checkE (onV (checkBybToken E byb) s) (\<lambda>s. initBybToken E byb totalSupply addSupplyEnabled burnEnabled s))"

section \<open>Black holes and stock holders\<close>

definition updateBlackHole :: "'db EnvS \<Rightarrow> SmcApi \<Rightarrow> string \<Rightarrow> 'db V1 \<Rightarrow> ('db V1, BCError) act" where
  "updateBlackHole E byb blackHole v = readL (getBlackHole E byb v) v (\<lambda>holes.
     low (setBlackHole E byb (list_of holes @ [blackHole]) v))"

text \<open>An error of \<open>checkAddress\<close> is dropped: its role 0 is none of the forbidden ones.\<close>

definition NewBlackHole :: "'db EnvS \<Rightarrow> SmcApi \<Rightarrow> string \<Rightarrow> 'db Smc \<Rightarrow> ('db Smc, BCError) act" where
  "NewBlackHole E byb blackHole s = byb_owner byb s
    (need (checkAddress E byb blackHole (sm_v1 s)) s (\<lambda>(addrRole, _).
     if addrRole = addressRole_Committee \<or> addrRole = addressRole_StockHolder \<or> addrRole = addressRole_Hole
     then (Inr (errD ErrCodeInterContractsInvalidParameter ''Cannot set it as black hole''), s)
     else checkE (onV (updateBlackHole E byb blackHole) s) (\<lambda>s.
       (Inr okE, bybReceipt_onNewBlackHole E byb blackHole s))))"

text \<open>When no chromo could be made the list is empty and the error is the success of \<open>checkAddress\<close>.\<close>

definition makeStockHolderAndBybBalance :: "'db EnvS \<Rightarrow> SmcApi \<Rightarrow> string \<Rightarrow> int \<Rightarrow> 'db V1 \<Rightarrow>
    ('db V1, bybBalance list \<times> BCError) act" where
  "makeStockHolderAndBybBalance E byb stockHolder value v =
    need (checkAddress E byb stockHolder v) v (\<lambda>(addrRole, e).
    if \<not> isOK e then (Inr ([], e), v)
    else if addrRole = addressRole_Committee \<or> addrRole = addressRole_Hole
    then (Inr ([], errD ErrCodeInterContractsInvalidParameter
      (''Invalid address, please ensure it'' @ [CHR 0x27] @ ''s not the owner of contract or a hole'')), v)
    else readP [] (getBybStockHolders E byb v) v (\<lambda>h. let stockHolderAddrs = list_of h in
    if addrRole = addressRole_User \<and> maxStockHolder < length stockHolderAddrs + 1
    then (Inr ([], errC ErrCodeInterContractsBeyondMaximumStockHolders), v)
    else readP [] (getBybBalance E byb stockHolder v) v (\<lambda>stockHolderBalances.
    if addrRole = addressRole_User \<and> length stockHolderBalances \<noteq> 0
    then (Inr ([], errD ErrCodeInterContractsInvalidParameter ''Invalid address due to it has already owned byb token''), v)
    else seqR (case stockHolderBalances of
         [] \<Rightarrow> seqR (makeByb E byb value v) (\<lambda>(bybBalanceNew, smcErr) v.
           (Inr (if isOK smcErr then Some [bybBalanceNew] else None), v))
       | item # rest \<Rightarrow> (Inr (Some (\<lparr>Chromo = Chromo item, Value = Big_Add (base1 E) (Value item) value\<rparr> # rest)), v))
      (\<lambda>b v. case b of
        None \<Rightarrow> (Inr ([], okE), v)
      | Some balances \<Rightarrow>
        if addrRole = addressRole_User
        then writeP [] (setBybStockHolders E byb (stockHolderAddrs @ [stockHolder]) v) (\<lambda>v. (Inr (balances, okE), v))
        else (Inr (balances, okE), v)))))"

text \<open>
  The receipt has the whole holding of the stock holder; the list \<open>transByb\<close> that the code builds for it is not
  used, but building it reads the first entry of \<open>bybBalances\<close>.
\<close>

definition setOwnerAndStockHolderBalance :: "'db EnvS \<Rightarrow> SmcApi \<Rightarrow> string \<Rightarrow> bybBalance list \<Rightarrow> int \<Rightarrow> int \<Rightarrow>
    'db Smc \<Rightarrow> ('db Smc, BCError) act" where
  "setOwnerAndStockHolderBalance E byb stockHolder bybBalances value sendBalanceBYB s =
    (let acct = ac_Addr (sa_ContractAcct byb) in
    orLow (onV (setBybBalance E byb stockHolder bybBalances) s) (\<lambda>s.
    readL (getBybBalance E byb acct (sm_v1 s)) s (\<lambda>ownerBalance. case ownerBalance of
      [] \<Rightarrow> (Inl index_panic, s)
    | first # rest \<Rightarrow>
      orLow (onV (setBybBalance E byb acct (first\<lparr>Value := Big_Sub (base1 E) sendBalanceBYB value\<rparr> # rest)) s) (\<lambda>s.
      if bybBalances = [] then (Inl index_panic, s)
      else (Inr okE, bybReceipt_onTransfer E byb acct stockHolder bybBalances s)))))"

definition NewStockHolder :: "'db EnvS \<Rightarrow> SmcApi \<Rightarrow> string \<Rightarrow> int \<Rightarrow> 'db Smc \<Rightarrow> ('db Smc, string \<times> BCError) act" where
  "NewStockHolder E byb stockHolder value s =
    (if ac_Addr (sa_Sender byb) \<noteq> ac_Addr (sa_Owner byb) then (Inr ([], errC ErrCodeInterContractsNoAuthorization), s)
     else if Num_Cmp E value 0 \<le> 0
     then (Inr ([], errD ErrCodeInterContractsInvalidParameter ''Invalid value: it cannot be a negative''), s)
     else readP [] (ts_GetBalance (base1 E) (sa_State byb) (ac_Addr (sa_ContractAcct byb)) (ts_ContractAddress (sa_State byb)) (sm_v1 s)) s
       (\<lambda>ownerBalance.
     if 0 \<le> Num_Cmp E value ownerBalance
     then (Inr ([], errD ErrCodeInterContractsInvalidParameter ''Invalid value: it is over the owner BYB balance''), s)
     else seqR (onV (makeStockHolderAndBybBalance E byb stockHolder value) s) (\<lambda>(bybBalances, e) s.
     if \<not> isOK e then (Inr ([], e), s)
     else seqR (setOwnerAndStockHolderBalance E byb stockHolder bybBalances value ownerBalance s) (\<lambda>e s.
     if \<not> isOK e then (Inr ([], e), s)
     else (case bybBalances of
         [] \<Rightarrow> (Inl index_panic, bybReceipt_onNewStockHolder E byb stockHolder bybBalances s)
       | first # _ \<Rightarrow> (Inr (Chromo first, e), bybReceipt_onNewStockHolder E byb stockHolder bybBalances s))))))"

definition delStockHolder :: "'db EnvS \<Rightarrow> SmcApi \<Rightarrow> string \<Rightarrow> 'db V1 \<Rightarrow> ('db V1, BCError) act" where
  "delStockHolder E byb stockHolder v = readL (getBybStockHolders E byb v) v (\<lambda>h. case h of
     None \<Rightarrow> (Inr (lowE ''Failed to get stock holders list''), v)
   | Some holders \<Rightarrow> if stockHolder \<notin> set holders then (Inr (errC ErrCodeInterContractsBybHolderNotFound), v)
       else low (setBybStockHolders E byb (remove1 stockHolder holders) v))"

definition DelStockHolder :: "'db EnvS \<Rightarrow> SmcApi \<Rightarrow> string \<Rightarrow> 'db Smc \<Rightarrow> ('db Smc, BCError) act" where
  "DelStockHolder E byb stockHolder s = byb_owner byb s
    (readL (getBybBalance E byb stockHolder (sm_v1 s)) s (\<lambda>balance.
     if 1 \<le> length balance then (Inr (errC ErrCodeInterContractsBybOwnedByb), s)
     else checkE (onV (delStockHolder E byb stockHolder) s) (\<lambda>s.
       (Inr okE, bybReceipt_onDelStockHolder E byb stockHolder s))))"

section \<open>Transfers\<close>

definition no_transfer :: "string \<Rightarrow> BCError" where
  "no_transfer which = errD ErrCodeInterContractsInvalidParameter (''Invalid address, cannot transfer byb '' @ which @ '' this address'')"

definition byb_Transfer :: "'db EnvS \<Rightarrow> SmcApi \<Rightarrow> string \<Rightarrow> int \<Rightarrow> 'db Smc \<Rightarrow> ('db Smc, BCError) act" where
  "byb_Transfer E byb to_addr value s = (let K = base1 E; sender = ac_Addr (sa_Sender byb) in
    if Big_Compare K value (Big_Zero K) \<le> 0
    then (Inr (errD ErrCodeInterContractsInvalidParameter ''Invalid value: it cannot be a negative''), s)
    else if sender = to_addr \<or> ac_Addr (sa_ContractAcct byb) = to_addr
    then (Inr (errC ErrCodeInterContractsUnsupportTransToSelf), s)
    else need (checkAddress E byb to_addr (sm_v1 s)) s (\<lambda>(toRole, e).
    if \<not> isOK e then (Inr e, s)
    else if toRole = addressRole_StockHolder \<or> toRole = addressRole_Committee then (Inr (no_transfer ''to''), s)
    else need (checkAddress E byb sender (sm_v1 s)) s (\<lambda>(addrRole, e).
    if \<not> isOK e then (Inr e, s)
    else if addrRole = addressRole_StockHolder \<or> addrRole = addressRole_Committee then (Inr (no_transfer ''from''), s)
    else checkP (onV (calcAndSetSenderBalance E byb value addrRole) s) (\<lambda>transByb s.
      onV (setPayeeBalance E byb to_addr transByb) (bybReceipt_onTransfer E byb sender to_addr transByb s)))))"

text \<open>The amount of one chromo; for a stock holder an entry of zero stays.\<close>

definition chromo_value :: "string \<Rightarrow> bybBalance list \<Rightarrow> int option" where
  "chromo_value chromo l = (case find (\<lambda>token. Chromo token = chromo) l of None \<Rightarrow> None | Some token \<Rightarrow> Some (Value token))"

fun take_chromo :: "'db Env1 \<Rightarrow> string \<Rightarrow> int \<Rightarrow> bool \<Rightarrow> bybBalance list \<Rightarrow> bybBalance list" where
  "take_chromo K chromo value keep [] = []"
| "take_chromo K chromo value keep (token # senderByb) =
    (if Chromo token = chromo then
       (let left = Big_Sub K (Value token) value in
        if \<not> keep \<and> Big_Compare K left (Big_Zero K) = 0 then senderByb else token\<lparr>Value := left\<rparr> # senderByb)
     else token # take_chromo K chromo value keep senderByb)"

definition checkAndSetSenderChromoBybBalance :: "'db EnvS \<Rightarrow> SmcApi \<Rightarrow> string \<Rightarrow> int \<Rightarrow> 'db V1 \<Rightarrow>
    ('db V1, bybBalance list \<times> BCError) act" where
  "checkAndSetSenderChromoBybBalance E byb chromo value v = (let K = base1 E; sender = ac_Addr (sa_Sender byb) in
    need (checkAddress E byb sender v) v (\<lambda>(senderRole, e).
    if \<not> isOK e then (Inr ([], e), v)
    else if senderRole = addressRole_Committee then (Inr ([], no_transfer ''from''), v)
    else readP [] (getBybBalance E byb sender v) v (\<lambda>senderByb.
    case chromo_value chromo senderByb of
      None \<Rightarrow> (Inr ([], errC ErrCodeInterContractsInsufficientBalance), v)
    | Some amount \<Rightarrow>
      if Big_Compare K amount value < 0 then (Inr ([], errC ErrCodeInterContractsInsufficientBalance), v)
      else writeP [] (setBybBalance E byb sender (take_chromo K chromo value (senderRole = addressRole_StockHolder) senderByb) v)
        (\<lambda>v. (Inr ([\<lparr>Chromo = if senderRole = addressRole_Hole then white_Chromo else chromo, Value = value\<rparr>], okE), v)))))"

definition TransferByChromo :: "'db EnvS \<Rightarrow> SmcApi \<Rightarrow> string \<Rightarrow> string \<Rightarrow> int \<Rightarrow> 'db Smc \<Rightarrow> ('db Smc, BCError) act" where
  "TransferByChromo E byb chromo to_addr value s = (let sender = ac_Addr (sa_Sender byb) in
    if Num_Cmp E value 0 \<le> 0
    then (Inr (errD ErrCodeInterContractsInvalidParameter ''Invalid value: it cannot be a negative''), s)
    else if sender = to_addr then (Inr (errC ErrCodeInterContractsUnsupportTransToSelf), s)
    else need (checkAddress E byb to_addr (sm_v1 s)) s (\<lambda>(toRole, e).
    if \<not> isOK e then (Inr e, s)
    else if toRole = addressRole_Committee then (Inr (no_transfer ''to''), s)
    else need (if toRole = addressRole_StockHolder then isStockHolderOwnTheChromo E byb to_addr chromo (sm_v1 s) else Inr True) s (\<lambda>owned.
    if \<not> owned
    then (Inr (errD ErrCodeInterContractsInvalidParameter ''Cannot transfer chromo byb to stockholder who does not own the chromo''), s)
    else checkP (onV (checkAndSetSenderChromoBybBalance E byb chromo value) s) (\<lambda>transByb s.
      onV (setPayeeBalance E byb to_addr transByb) (bybReceipt_onTransfer E byb sender to_addr transByb s)))))"

text \<open>The first entry of the chromo moves to the other stock holder, or an empty one if there is none.\<close>

definition changeChromoOwnership :: "'db EnvS \<Rightarrow> SmcApi \<Rightarrow> string \<Rightarrow> string \<Rightarrow> string \<Rightarrow> 'db Smc \<Rightarrow> ('db Smc, BCError) act" where
  "changeChromoOwnership E byb from_addr to_addr chromo s =
    readL (getBybBalance E byb from_addr (sm_v1 s)) s (\<lambda>ownedByb.
    let (transByb, rest) = (case find (\<lambda>bybt. Chromo bybt = chromo) ownedByb of
          None \<Rightarrow> (\<lparr>Chromo = [], Value = 0\<rparr>, ownedByb) | Some bybt \<Rightarrow> (bybt, remove1 bybt ownedByb)) in
    orLow (onV (setBybBalance E byb (ac_Addr (sa_Sender byb)) rest) s) (\<lambda>s.
    readL (getBybBalance E byb to_addr (sm_v1 s)) s (\<lambda>holderByb.
    orLow (onV (setBybBalance E byb to_addr (holderByb @ [transByb])) s) (\<lambda>s.
    (Inr okE, bybReceipt_onChangeChromoOwnership E byb from_addr to_addr [transByb] s)))))"

text \<open>Errors of \<open>checkAddress\<close> leave role 0, which is not a stock holder.\<close>

definition ChangeChromoOwnership :: "'db EnvS \<Rightarrow> SmcApi \<Rightarrow> string \<Rightarrow> string \<Rightarrow> 'db Smc \<Rightarrow> ('db Smc, BCError) act" where
  "ChangeChromoOwnership E byb chromo toStockHolder s = (let sender = ac_Addr (sa_Sender byb) in
    if sender = toStockHolder
    then (Inr (errD ErrCodeInterContractsUnsupportTransToSelf (''Don'' @ [CHR 0x27] @ ''t transfer chromo to yourself'')), s)
    else need (checkAddress E byb sender (sm_v1 s)) s (\<lambda>(addrRole, _).
    if addrRole \<noteq> addressRole_StockHolder
    then (Inr (errD ErrCodeInterContractsNoAuthorization ''You are not a stock holder''), s)
    else need (checkAddress E byb toStockHolder (sm_v1 s)) s (\<lambda>(addrRole, _).
    if addrRole \<noteq> addressRole_StockHolder
    then (Inr (errD ErrCodeInterContractsNoAuthorization ''Cannot transfer chromo to one who is not a stock holder''), s)
    else need (isStockHolderOwnTheChromo E byb sender chromo (sm_v1 s)) s (\<lambda>owned.
    if \<not> owned then (Inr (errD ErrCodeInterContractsMinUserCode ''Do not own the specified byb chromo''), s)
    else changeChromoOwnership E byb sender toStockHolder chromo s))))"

section \<open>Owner, supply and price\<close>

text \<open>
  An error of \<open>DeleteContractAddr\<close> is overwritten, its text stays. The contract and the token are read from the
  block, past the tx.
\<close>

definition byb_setOwner :: "'db EnvS \<Rightarrow> SmcApi \<Rightarrow> string \<Rightarrow> 'db V1 \<Rightarrow> ('db V1, BCError) act" where
  "byb_setOwner E byb newOwnerAddr v = (let K = base1 E; ts = sa_State byb in
    getOr (sdb_GetContract K (ts_ContractAddress ts) v) (errC ErrCodeInterContractsInvalidAddr) v (\<lambda>contract.
    orLow (ts_SetTokenContract K ts (contract\<lparr>tc_Owner := newOwnerAddr\<rparr>) v) (\<lambda>v.
    seqR (ts_DeleteContractAddr K ts (ac_Addr (sa_Owner byb)) (tc_Address contract) v) (\<lambda>r v.
    let desc = (case r of Inl e \<Rightarrow> e | Inr _ \<Rightarrow> []) in
    getOr (sdb_GetToken K (ts_ContractAddress ts) v) (errD ErrCodeInterContractsInvalidAddr desc) v (\<lambda>token.
    orLow (ts_SetToken K ts (token\<lparr>it_Owner := newOwnerAddr\<rparr>) v) (\<lambda>v. (Inr (errD ErrCodeOK desc), v)))))))"

definition byb_SetOwner :: "'db EnvS \<Rightarrow> SmcApi \<Rightarrow> string \<Rightarrow> 'db Smc \<Rightarrow> ('db Smc, BCError) act" where
  "byb_SetOwner E byb newOwnerAddr s = byb_owner byb s
    (if newOwnerAddr = ac_Addr (sa_Owner byb) then (Inr (errC ErrCodeInterContractsUnsupportTransToSelf), s)
     else need (checkAddress E byb newOwnerAddr (sm_v1 s)) s (\<lambda>(addrRole, e).
     if \<not> isOK e then (Inr e, s)
     else if addrRole = addressRole_Committee \<or> addrRole = addressRole_StockHolder \<or> addrRole = addressRole_Hole
     then (Inr (errD ErrCodeInterContractsInvalidParameter ''Invalid address''), s)
     else seqR (onV (byb_setOwner E byb newOwnerAddr) s) (\<lambda>e s.
       if \<not> isOK e then (Inr e, s) else (Inr e, bybReceipt_onSetOwner E byb newOwnerAddr s))))"

definition byb_token :: "'db EnvS \<Rightarrow> SmcApi \<Rightarrow> 'db V1 \<Rightarrow> IssueToken option res" where
  "byb_token E byb v = ts_GetToken (base1 E) (sa_State byb) (sa_ContractAddr byb) v"

text \<open>The new supply is stored before the account is read, which is taken to hold one chromo.\<close>

definition byb_addSupply :: "'db EnvS \<Rightarrow> SmcApi \<Rightarrow> int \<Rightarrow> 'db Smc \<Rightarrow> ('db Smc, int \<times> BCError) act" where
  "byb_addSupply E byb value s = (let K = base1 E; acct = ac_Addr (sa_ContractAcct byb) in
    readP 0 (byb_token E byb (sm_v1 s)) s (\<lambda>t. case t of
      None \<Rightarrow> (Inr (0, errC ErrCodeInterContractsInvalidAddr), s)
    | Some token \<Rightarrow>
      if \<not> it_AddSupplyEnabled token then (Inr (0, errC ErrCodeInterContractsUnsupportAddSupply), s)
      else let newSupply = Big_Add K (it_TotalSupply token) value in
      if Big_Compare K newSupply (it_TotalSupply token) < 0 then (Inr (0, errC ErrCodeInterContractsInvalidSupply), s)
      else writeP 0 (onV (ts_SetToken K (sa_State byb) (token\<lparr>it_TotalSupply := newSupply\<rparr>)) s) (\<lambda>s.
      readP 0 (getBybBalance E byb acct (sm_v1 s)) s (\<lambda>ownerByb. case ownerByb of
        [] \<Rightarrow> (Inl index_panic, s)
      | first # rest \<Rightarrow>
        writeP 0 (onV (setBybBalance E byb acct (first\<lparr>Value := Big_Add K (Value first) value\<rparr> # rest)) s) (\<lambda>s.
        (Inr (newSupply, okE), bybReceipt_onTransfer E byb [] acct [\<lparr>Chromo = white_Chromo, Value = value\<rparr>] s))))))"

definition byb_AddSupply :: "'db EnvS \<Rightarrow> SmcApi \<Rightarrow> int \<Rightarrow> 'db Smc \<Rightarrow> ('db Smc, BCError) act" where
  "byb_AddSupply E byb value s =
    (if Num_Cmp E value 0 \<le> 0
     then (Inr (errD ErrCodeInterContractsInvalidParameter ''Invalid value: it cannot be a negative''), s)
     else byb_owner byb s (checkP (byb_addSupply E byb value s) (\<lambda>newSupply s.
       (Inr okE, bybReceipt_onAddSupply E byb value newSupply s))))"

definition byb_burn :: "'db EnvS \<Rightarrow> SmcApi \<Rightarrow> int \<Rightarrow> 'db Smc \<Rightarrow> ('db Smc, int \<times> BCError) act" where
  "byb_burn E byb value s = (let K = base1 E; acct = ac_Addr (sa_ContractAcct byb) in
    readP 0 (byb_token E byb (sm_v1 s)) s (\<lambda>t. case t of
      None \<Rightarrow> (Inr (0, errC ErrCodeInterContractsInvalidAddr), s)
    | Some token \<Rightarrow>
      if \<not> it_BurnEnabled token then (Inr (0, errC ErrCodeInterContractsUnsupportBurn), s)
      else if Big_Compare K (it_TotalSupply token) value < 0 then (Inr (0, errC ErrCodeInterContractsInsufficientBalance), s)
      else readP 0 (getBybBalance E byb acct (sm_v1 s)) s (\<lambda>ownerByb. case ownerByb of
        [] \<Rightarrow> (Inl index_panic, s)
      | first # rest \<Rightarrow>
        if Big_Compare K (Value first) value < 0 then (Inr (0, errC ErrCodeInterContractsInsufficientBalance), s)
        else let newBalance = Big_Sub K (Value first) value in
        if 0 \<le> Big_Compare K newBalance (Value first) then (Inr (0, errC ErrCodeInterContractsInvalidBalance), s)
        else writeP 0 (onV (setBybBalance E byb acct (first\<lparr>Value := newBalance\<rparr> # rest)) s) (\<lambda>s.
        let newSupply = Big_Sub K (it_TotalSupply token) value in
        if 0 \<le> Big_Compare K newSupply (it_TotalSupply token) then (Inr (0, errC ErrCodeInterContractsInvalidSupply), s)
        else writeP 0 (onV (ts_SetToken K (sa_State byb) (token\<lparr>it_TotalSupply := newSupply\<rparr>)) s) (\<lambda>s.
        (Inr (newSupply, okE), bybReceipt_onTransfer E byb acct [] [\<lparr>Chromo = white_Chromo, Value = value\<rparr>] s))))))"

definition byb_Burn :: "'db EnvS \<Rightarrow> SmcApi \<Rightarrow> int \<Rightarrow> 'db Smc \<Rightarrow> ('db Smc, BCError) act" where
  "byb_Burn E byb value s =
    (if Num_Cmp E value 0 \<le> 0
     then (Inr (errD ErrCodeInterContractsInvalidParameter ''Invalid value: it cannot be a negative''), s)
     else byb_owner byb s (checkP (byb_burn E byb value s) (\<lambda>newSupply s.
       (Inr okE, bybReceipt_onBurn E byb value newSupply s))))"

definition byb_setGasPrice :: "'db EnvS \<Rightarrow> SmcApi \<Rightarrow> uint64 \<Rightarrow> 'db V1 \<Rightarrow> ('db V1, BCError) act" where
  "byb_setGasPrice E byb value v = getOr (byb_token E byb v) (errC ErrCodeInterContractsInvalidAddr) v (\<lambda>token.
     low (ts_SetToken (base1 E) (sa_State byb) (token\<lparr>it_GasPrice := value\<rparr>) v))"

definition byb_SetGasPrice :: "'db EnvS \<Rightarrow> SmcApi \<Rightarrow> uint64 \<Rightarrow> 'db Smc \<Rightarrow> ('db Smc, BCError) act" where
  "byb_SetGasPrice E byb value s = byb_owner byb s
    (need (ts_GetBaseGasPrice (base1 E) (sa_State byb) (sm_v1 s)) s (\<lambda>base_price.
     if value < base_price \<or> Max_Gas_Price < value then (Inr (errC ErrCodeInterContractsInvalidGasPrice), s)
     else checkE (onV (byb_setGasPrice E byb value) s) (\<lambda>s. (Inr okE, bybReceipt_onSetGasPrice E byb value s))))"

end
