(* ===== verification/V1_Byb_Split.thy ===== *)
theory V1_Byb_Split
  imports V1_Byb_Ops V1_Tokens
begin

text \<open>
  How the BYB token divides a value over the chromos of an account: the two rounds of a transfer in
  proportion, and the merge into the account of the payee, on lists alone. \<open>amount c l\<close> is what the list
  holds of chromo \<open>c\<close>.
\<close>

section \<open>Amounts\<close>

definition amount :: "string \<Rightarrow> bybBalance list \<Rightarrow> int" where
  "amount c l = (\<Sum>b \<leftarrow> l. if Chromo b = c then Value b else 0)"

definition whole :: "bybBalance list \<Rightarrow> int" where
  "whole l = (\<Sum>b \<leftarrow> l. Value b)"

definition nonneg :: "bybBalance list \<Rightarrow> bool" where
  "nonneg l \<longleftrightarrow> (\<forall>b \<in> set l. 0 \<le> Value b)"

text \<open>What is stored for an account: an entry at most per chromo, none negative.\<close>

definition list_ok :: "bybBalance list \<Rightarrow> bool" where
  "list_ok l \<longleftrightarrow> distinct (map Chromo l) \<and> nonneg l"

lemma amount_simps [simp]:
  "amount c [] = 0" "amount c (b # l) = (if Chromo b = c then Value b else 0) + amount c l"
  "amount c (l @ l') = amount c l + amount c l'"
  by (simp_all add: amount_def)

lemma whole_simps [simp]:
  "whole [] = 0" "whole (b # l) = Value b + whole l" "whole (l @ l') = whole l + whole l'"
  by (simp_all add: whole_def)

lemma nonneg_simps [simp]:
  "nonneg []" "nonneg (b # l) \<longleftrightarrow> 0 \<le> Value b \<and> nonneg l" "nonneg (l @ l') \<longleftrightarrow> nonneg l \<and> nonneg l'"
  by (auto simp: nonneg_def)

lemma nonnegI: "(\<And>b. b \<in> set l \<Longrightarrow> 0 \<le> Value b) \<Longrightarrow> nonneg l"
  by (simp add: nonneg_def)

lemma nonneg_subset: "nonneg l \<Longrightarrow> set l' \<subseteq> set l \<Longrightarrow> nonneg l'"
  by (auto simp: nonneg_def)

lemma amount_absent [simp]: "c \<notin> Chromo ` set l \<Longrightarrow> amount c l = 0"
  by (induction l) auto

lemma amount_nonneg: "nonneg l \<Longrightarrow> 0 \<le> amount c l"
  by (induction l) auto

lemma whole_nonneg: "nonneg l \<Longrightarrow> 0 \<le> whole l"
  by (induction l) auto

text \<open>The whole is the sum over the chromos, so what keeps every amount keeps the whole.\<close>

lemma whole_by_chromo: "finite C \<Longrightarrow> Chromo ` set l \<subseteq> C \<Longrightarrow> whole l = (\<Sum>c \<in> C. amount c l)"
proof (induction l)
  case (Cons b l)
  have "(\<Sum>c \<in> C. amount c (b # l)) = (\<Sum>c \<in> C. if c = Chromo b then Value b else 0) + (\<Sum>c \<in> C. amount c l)"
    by (simp add: sum.distrib [symmetric]) (rule sum.cong, auto)
  then show ?case using Cons by simp
qed simp

lemma whole_cong:
  assumes "\<And>c. amount c l = amount c l1 + amount c l2"
  shows "whole l = whole l1 + whole l2"
proof -
  let ?C = "Chromo ` (set l \<union> set l1 \<union> set l2)"
  have "whole x = (\<Sum>c \<in> ?C. amount c x)" if "x \<in> {l, l1, l2}" for x
    by (rule whole_by_chromo) (use that in auto)
  then show ?thesis using assms by (simp add: sum.distrib)
qed

lemma folded_sum:
  assumes "bignum_ok (base1 E)"
  shows "sum_values E l = whole l" "calcTotalBalance E l = whole l"
proof -
  have "foldl (\<lambda>t b. Big_Add (base1 E) t (Value b)) x l = x + whole l" for x
    by (induction l arbitrary: x) (simp_all add: bigD [OF assms])
  then show "sum_values E l = whole l" "calcTotalBalance E l = whole l"
    by (simp_all add: sum_values_def calcTotalBalance_def)
qed

section \<open>One round\<close>

lemma share_bound:
  assumes "0 \<le> v" "0 \<le> value" "value \<le> (t :: int)" "0 < t"
  shows "value * v div t \<le> v" "0 \<le> value * v div t" "value * v - t < t * (value * v div t)"
proof -
  have "value * v \<le> t * v" using assms by (simp add: mult_right_mono)
  then have "value * v div t \<le> t * v div t" using assms(4) by (rule zdiv_mono1)
  then show "value * v div t \<le> v" using assms(4) by simp
  show "0 \<le> value * v div t" using assms by (simp add: pos_imp_zdiv_nonneg_iff)
  have "value * v mod t < t" using assms(4) by simp
  then show "value * v - t < t * (value * v div t)" using mult_div_mod_eq [of t "value * v"] by linarith
qed

lemma share_lt:
  assumes "0 < v" "0 \<le> value" "value < (t :: int)"
  shows "value * v div t < v"
proof -
  have t: "0 < t" using assms(2,3) by simp
  have "t * (value * v div t) \<le> value * v" using mult_div_mod_eq [of t "value * v"] pos_mod_sign [OF t, of "value * v"] by linarith
  also have "\<dots> < t * v" using assms by simp
  finally show ?thesis using t by simp
qed

text \<open>What one chromo gives: at least one unit, at most what it has and what is still to be moved.\<close>

definition given :: "int \<Rightarrow> int \<Rightarrow> int \<Rightarrow> int \<Rightarrow> int" where
  "given t value surplus v = (let share = value * v div t in
     if surplus < share then surplus else if share = 0 then 1 else share)"

lemma given_bounds:
  assumes "0 < v" "0 \<le> value" "value \<le> t" "0 < t" "0 < surplus"
  shows "1 \<le> given t value surplus v" "given t value surplus v \<le> v" "given t value surplus v \<le> surplus"
  using assms share_bound [of v "value" t] by (auto simp: given_def Let_def)

lemma transfer_loop_Cons:
  assumes K: "bignum_ok K" and "0 \<le> Value b" "0 \<le> value" "value \<le> t" "0 < t" "m \<le> value"
  shows "transfer_loop K t value m (b # l) =
    (if Value b = 0 then transfer_loop K t value m l
     else if m = value then (case transfer_loop K t value m l of
         Inl e \<Rightarrow> Inl e | Inr (new, pay) \<Rightarrow> Inr (b # new, pay))
     else let g = given t value (value - m) (Value b) in
       (case transfer_loop K t value (m + g) l of
         Inl e \<Rightarrow> Inl e
       | Inr (new, pay) \<Rightarrow> Inr (if 0 < Value b - g then \<lparr>Chromo = Chromo b, Value = Value b - g\<rparr> # new else new,
           \<lparr>Chromo = Chromo b, Value = g\<rparr> # pay)))"
proof -
  have mul: "Big_SafeMul K value (Value b) = value * Value b" using K assms(2,3) by (simp add: bignum_ok_def)
  moreover have "0 \<le> value * Value b" using assms(2,3) by simp
  ultimately have share: "Big_SafeDiv K (Big_SafeMul K value (Value b)) t = value * Value b div t"
    using K assms(5) by (simp add: bignum_ok_def)
  have "\<not> Value b < value * Value b div t" using share_bound(1) [OF assms(2-5)] by simp
  then show ?thesis
    using assms(6) unfolding transfer_loop.simps Let_def share bigD [OF K] given_def by auto
qed

text \<open>How a round divides a list: every chromo is split, no more is moved than there is to move, no entry is zero.\<close>

definition splits :: "bybBalance list \<Rightarrow> int \<Rightarrow> bybBalance list \<times> bybBalance list \<Rightarrow> bool" where
  "splits l w r \<longleftrightarrow> (case r of (new, pay) \<Rightarrow>
     (\<forall>c. amount c new + amount c pay = amount c l) \<and> whole pay \<le> w \<and> (\<forall>b \<in> set new \<union> set pay. 0 < Value b)
     \<and> Chromo ` set new \<subseteq> Chromo ` set l \<and> Chromo ` set pay \<subseteq> Chromo ` set l
     \<and> (distinct (map Chromo l) \<longrightarrow> distinct (map Chromo new) \<and> distinct (map Chromo pay)))"

lemma splits_steps:
  "0 \<le> w \<Longrightarrow> splits [] w ([], [])"
  "Value b = 0 \<Longrightarrow> splits l w (new, pay) \<Longrightarrow> splits (b # l) w (new, pay)"
  "0 < Value b \<Longrightarrow> splits l w (new, pay) \<Longrightarrow> splits (b # l) w (b # new, pay)"
  by (auto simp: splits_def)

lemma splits_give:
  assumes "0 < g" "g \<le> Value b" "splits l (w - g) (new, pay)"
  shows "splits (b # l) w (if 0 < Value b - g then \<lparr>Chromo = Chromo b, Value = Value b - g\<rparr> # new else new,
    \<lparr>Chromo = Chromo b, Value = g\<rparr> # pay)"
proof (cases "g = Value b")
  case True
  then show ?thesis using assms by (auto simp: splits_def)
next
  case False
  then show ?thesis using assms by (auto simp: splits_def)
qed

lemma splitsD:
  assumes "splits l w (new, pay)"
  shows "amount c new + amount c pay = amount c l" "whole pay \<le> w" "\<forall>b \<in> set new. 0 < Value b" "\<forall>b \<in> set pay. 0 < Value b"
    "Chromo ` set new \<subseteq> Chromo ` set l" "Chromo ` set pay \<subseteq> Chromo ` set l"
    "distinct (map Chromo l) \<Longrightarrow> distinct (map Chromo new)" "distinct (map Chromo l) \<Longrightarrow> distinct (map Chromo pay)"
    "0 \<le> whole pay" "whole new + whole pay = whole l"
proof -
  show s: "amount c new + amount c pay = amount c l" for c using assms by (simp add: splits_def)
  show "whole new + whole pay = whole l" by (rule whole_cong [symmetric]) (simp add: s)
  show "0 \<le> whole pay" by (rule whole_nonneg) (use assms in \<open>auto simp: splits_def intro!: nonnegI less_imp_le\<close>)
qed (use assms in \<open>auto simp: splits_def\<close>)

lemma transfer_round:
  assumes K: "bignum_ok K" and "nonneg l" "0 \<le> value" "value \<le> t" "0 < t" "m \<le> value"
  shows "\<exists>new pay. transfer_loop K t value m l = Inr (new, pay) \<and> splits l (value - m) (new, pay)"
  using assms(2,6)
proof (induction l arbitrary: m)
  case Nil
  then show ?case by (simp add: splits_steps)
next
  case (Cons b l)
  have nn: "nonneg l" and b: "0 \<le> Value b" using Cons.prems(1) by auto
  note step = transfer_loop_Cons [OF K b assms(3-5) Cons.prems(2), of l]
  obtain new pay where r: "transfer_loop K t value m l = Inr (new, pay)" "splits l (value - m) (new, pay)"
    using Cons.IH [OF nn Cons.prems(2)] by blast
  consider "Value b = 0" | "0 < Value b" "m = value" | "0 < Value b" "m < value" using b Cons.prems(2) by linarith
  then show ?case
  proof cases
    case 1
    then show ?thesis using step r splits_steps(2) by auto
  next
    case 2
    then show ?thesis using step r splits_steps(3) by auto
  next
    case 3
    let ?g = "given t value (value - m) (Value b)"
    have "0 < value - m" using 3 by simp
    note g = given_bounds [OF 3(1) assms(3-5) this]
    have mg: "m + ?g \<le> value" using g(3) by simp
    obtain new pay where r: "transfer_loop K t value (m + ?g) l = Inr (new, pay)" "splits l (value - (m + ?g)) (new, pay)"
      using Cons.IH [OF nn mg] by blast
    have "splits l (value - m - ?g) (new, pay)" using r(2) by (simp add: diff_diff_add)
    from splits_give [OF _ g(2) this] g(1) show ?thesis using 3 step r(1) by (simp add: Let_def)
  qed
qed

text \<open>A round that does not move everything leaves more chromos than units.\<close>

lemma round_remainder:
  assumes K: "bignum_ok K" and "nonneg l" "0 \<le> value" "value < t" "m \<le> value"
    and "transfer_loop K t value m l = Inr (new, pay)" "whole pay < value - m"
  shows "value * whole l \<le> t * whole pay + (t - 1) * int (length new) \<and> Chromo ` set new \<subseteq> Chromo ` set pay"
  using assms(2,5-7)
proof (induction l arbitrary: m new pay)
  case (Cons b l)
  have nn: "nonneg l" and b: "0 \<le> Value b" using Cons.prems(1) by auto
  have t: "value \<le> t" "0 < t" using assms(3,4) by simp_all
  note step = transfer_loop_Cons [OF K b assms(3) t Cons.prems(2), of l]
  have pay: "0 \<le> whole x" if "transfer_loop K t value n l = Inr (y, x)" "n \<le> value" for n x y
    using transfer_round [OF K nn assms(3) t that(2)] that(1) by (auto dest: splitsD)
  consider "Value b = 0" | "Value b \<noteq> 0" "m = value" | "Value b \<noteq> 0" "m \<noteq> value" by blast
  then show ?case
  proof cases
    case 1
    then show ?thesis using step Cons.IH [OF nn Cons.prems(2)] Cons.prems(3,4) by auto
  next
    case 2
    then obtain y where "transfer_loop K t value m l = Inr (y, pay)"
      using step Cons.prems(3) by (auto split: sum.splits)
    then have "0 \<le> whole pay" using pay Cons.prems(2) by blast
    then show ?thesis using Cons.prems(4) 2 by simp
  next
    case 3
    let ?g = "given t value (value - m) (Value b)" and ?s = "value * Value b div t"
    have pos: "0 < Value b" "0 < value - m" using 3 b Cons.prems(2) by auto
    note g = given_bounds [OF pos(1) assms(3) t pos(2)]
    obtain y x where r: "transfer_loop K t value (m + ?g) l = Inr (y, x)"
      "new = (if 0 < Value b - ?g then \<lparr>Chromo = Chromo b, Value = Value b - ?g\<rparr> # y else y)"
      "pay = \<lparr>Chromo = Chromo b, Value = ?g\<rparr> # x"
      using step Cons.prems(3) 3 by (auto simp: Let_def split: sum.splits)
    have mg: "m + ?g \<le> value" using g(3) by simp
    have x: "whole x < value - (m + ?g)" using Cons.prems(4) r(3) by simp
    have IH: "value * whole l \<le> t * whole x + (t - 1) * int (length y)" "Chromo ` set y \<subseteq> Chromo ` set x"
      using Cons.IH [OF nn mg r(1) x] by simp_all
    have "?g \<noteq> value - m" using x pay [OF r(1) mg] by linarith
    then have gs: "?g = (if ?s = 0 then 1 else ?s)" "?s \<le> value - m" by (auto simp: given_def Let_def split: if_splits)
    have own: "value * Value b \<le> t * ?g + (if ?g < Value b then t - 1 else 0)"
    proof (cases "?s = 0")
      case True
      have "value * Value b < t + t * ?s" using share_bound(3) [OF b assms(3) t] by simp
      then show ?thesis using True gs t by simp
    next
      case False
      have "?s < Value b" by (rule share_lt [OF pos(1) assms(3,4)])
      then show ?thesis using False gs share_bound(3) [OF b assms(3) t] by simp
    qed
    have n: "int (length new) = (if ?g < Value b then 1 else 0) + int (length y)" by (simp add: r(2))
    have "value * whole (b # l) \<le> t * ?g + (if ?g < Value b then t - 1 else 0) + (t * whole x + (t - 1) * int (length y))"
      using own IH(1) by (simp add: distrib_left)
    also have "\<dots> = t * whole pay + (t - 1) * int (length new)"
      unfolding n r(3) by (simp add: algebra_simps)
    finally show ?thesis using IH(2) r(2,3) by auto
  qed
qed simp

text \<open>With at least as many units as there are to move every unit finds its chromo.\<close>

lemma round_all:
  assumes K: "bignum_ok K" and "\<forall>b \<in> set l. 0 < Value b" "0 \<le> value" "value \<le> t" "0 < t" "m \<le> value"
    and "value - m \<le> int (length l)" "transfer_loop K t value m l = Inr (new, pay)"
  shows "whole pay = value - m"
  using assms(2,6-8)
proof (induction l arbitrary: m new pay)
  case (Cons b l)
  have nn: "\<forall>b \<in> set l. 0 < Value b" and b: "0 \<le> Value b" "0 < Value b" using Cons.prems(1) by auto
  note step = transfer_loop_Cons [OF K b(1) assms(3-5) Cons.prems(2), of l]
  show ?case
  proof (cases "m = value")
    case True
    then obtain y where "transfer_loop K t value m l = Inr (y, pay)"
      using step Cons.prems(4) b(2) by (auto split: sum.splits)
    then show ?thesis using Cons.IH [OF nn Cons.prems(2)] True by simp
  next
    case False
    let ?g = "given t value (value - m) (Value b)"
    have "0 < value - m" using False Cons.prems(2) by auto
    note g = given_bounds [OF b(2) assms(3-5) this]
    obtain y x where r: "transfer_loop K t value (m + ?g) l = Inr (y, x)" "pay = \<lparr>Chromo = Chromo b, Value = ?g\<rparr> # x"
      using step Cons.prems(4) False b(2) by (auto simp: Let_def split: sum.splits)
    have "m + ?g \<le> value" "value - (m + ?g) \<le> int (length l)" using g Cons.prems(3) by simp_all
    then show ?thesis using Cons.IH [OF nn _ _ r(1)] r(2) by simp
  qed
qed simp

section \<open>Both rounds\<close>

text \<open>The first round may leave a remainder; the second one then moves all of it.\<close>

lemma two_rounds:
  assumes K: "bignum_ok (base1 E)" and l: "nonneg l" and v: "0 < value" "value < whole l"
  obtains new pay where "calcTransferBybChromo E l value = Inr (new, pay)" "splits l value (new, pay)" "whole pay = value"
  | new pay new2 pay2 where "calcTransferBybChromo E l value = Inr (new, pay)" "splits l value (new, pay)" "whole pay < value"
    "calcTransferBybChromo E new (value - whole pay) = Inr (new2, pay2)" "splits new (value - whole pay) (new2, pay2)"
    "whole pay2 = value - whole pay" "Chromo ` set new \<subseteq> Chromo ` set pay"
proof -
  have v0: "0 \<le> value" "value \<le> whole l" "0 < whole l" using v by simp_all
  obtain new pay where r: "transfer_loop (base1 E) (whole l) value 0 l = Inr (new, pay)" "splits l value (new, pay)"
    using transfer_round [OF K l v0 v0(1)] by auto
  have c: "calcTransferBybChromo E l value = Inr (new, pay)" using r(1) by (simp add: calcTransferBybChromo_def folded_sum [OF K])
  note s = splitsD [OF r(2)]
  show thesis
  proof (cases "whole pay = value")
    case True
    then show ?thesis by (rule that(1) [OF c r(2)])
  next
    case False
    then have P: "whole pay < value" using s(2) by simp
    have rem: "value * whole l \<le> whole l * whole pay + (whole l - 1) * int (length new)" "Chromo ` set new \<subseteq> Chromo ` set pay"
      using round_remainder [OF K l v0(1) v(2) v0(1) r(1)] P by simp_all
    let ?r = "value - whole pay" and ?T = "whole new"
    have "whole l * ?r \<le> (whole l - 1) * int (length new)" using rem(1) by (simp add: algebra_simps)
    moreover have "(whole l - 1) * int (length new) \<le> (whole l - 1) * ?r" if "int (length new) < ?r"
      using that v0(3) by (intro mult_left_mono) simp_all
    ultimately have "?r \<le> int (length new)"
      using P by (auto simp: algebra_simps not_le [symmetric])
    moreover have T: "?r < ?T" using s(10) v(2) by simp
    ultimately have r0: "0 \<le> ?r" "?r \<le> ?T" "0 < ?T" "?r - 0 \<le> int (length new)" using P by simp_all
    have nn: "nonneg new" using s(3) by (auto intro!: nonnegI less_imp_le)
    obtain new2 pay2 where r2: "transfer_loop (base1 E) ?T ?r 0 new = Inr (new2, pay2)" "splits new ?r (new2, pay2)"
      using transfer_round [OF K nn r0(1-3) r0(1)] by auto
    have "whole pay2 = ?r" using round_all [OF K s(3) r0(1-3) r0(1,4) r2(1)] by simp
    moreover have "calcTransferBybChromo E new ?r = Inr (new2, pay2)"
      using r2(1) by (simp add: calcTransferBybChromo_def folded_sum [OF K])
    ultimately show ?thesis using that(2) [OF c r(2) P _ r2(2) _ rem(2)] by blast
  qed
qed

text \<open>What the two rounds took of a chromo is added up.\<close>

lemma amount_find:
  assumes "distinct (map Chromo l)"
  shows "amount c l = (case find (\<lambda>b. c = Chromo b) l of None \<Rightarrow> 0 | Some b \<Rightarrow> Value b)"
  using assms
proof (induction l)
  case (Cons b l)
  show ?case
  proof (cases "c = Chromo b")
    case True
    then have "c \<notin> Chromo ` set l" using Cons.prems by auto
    then show ?thesis using True by simp
  qed (use Cons in auto)
qed simp

lemma add_second_eq:
  assumes "bignum_ok (base1 E)" "distinct (map Chromo sr)"
  shows "Chromo (add_second E sr b) = Chromo b" "Value (add_second E sr b) = Value b + amount (Chromo b) sr"
  using amount_find [OF assms(2), of "Chromo b"] by (simp_all add: add_second_def bigD [OF assms(1)] split: option.split)

lemma amount_second:
  assumes K: "bignum_ok (base1 E)" and sr: "distinct (map Chromo sr)" and "distinct (map Chromo l)"
  shows "amount c (map (add_second E sr) l) = amount c l + (if c \<in> Chromo ` set l then amount c sr else 0)"
  using assms(3) by (induction l) (auto simp: add_second_eq [OF K sr])

section \<open>What leaves an account\<close>

text \<open>The account keeps \<open>left\<close> and gives \<open>out\<close>, which is the value.\<close>

definition parted :: "bybBalance list \<Rightarrow> int \<Rightarrow> bybBalance list \<Rightarrow> bybBalance list \<Rightarrow> bool" where
  "parted l value left out \<longleftrightarrow> (\<forall>c. amount c left + amount c out = amount c l) \<and> whole out = value
    \<and> list_ok left \<and> list_ok out"

lemma parted_whole:
  assumes "parted l value left out"
  shows "whole left = whole l - value"
proof -
  have "whole l = whole left + whole out" by (rule whole_cong) (use assms in \<open>simp add: parted_def\<close>)
  then show ?thesis using assms by (simp add: parted_def)
qed

lemma positive_ok: "\<forall>b \<in> set l. 0 < Value b \<Longrightarrow> distinct (map Chromo l) \<Longrightarrow> list_ok l"
  by (auto simp: list_ok_def intro!: nonnegI less_imp_le)

lemma parted_one:
  assumes l: "list_ok l" and s: "splits l value (new, pay)" "whole pay = value"
  shows "parted l value new pay"
proof -
  note d = splitsD [OF s(1)]
  have "distinct (map Chromo l)" using l by (simp add: list_ok_def)
  then have "list_ok new" "list_ok pay" using d(3,4,7,8) by (auto intro!: positive_ok)
  then show ?thesis using d(1) s(2) by (simp add: parted_def)
qed

lemma parted_two:
  assumes K: "bignum_ok (base1 E)" and l: "list_ok l" and s: "splits l value (new, pay)"
    and s2: "splits new (value - whole pay) (new2, pay2)" "whole pay2 = value - whole pay" "Chromo ` set new \<subseteq> Chromo ` set pay"
  shows "parted l value new2 (map (add_second E pay2) pay)"
proof -
  note d = splitsD [OF s] and d2 = splitsD [OF s2(1)]
  have dl: "distinct (map Chromo l)" using l by (simp add: list_ok_def)
  note dp = d(7,8) [OF dl] and dn = d2(7,8) [OF d(7) [OF dl]]
  let ?out = "map (add_second E pay2) pay"
  have out: "amount c ?out = amount c pay + amount c pay2" for c
  proof (cases "c \<in> Chromo ` set pay")
    case False
    then have "c \<notin> Chromo ` set pay2" using d2(6) s2(3) by blast
    then show ?thesis by (simp add: amount_second [OF K dn(2) dp(2)] False)
  qed (simp add: amount_second [OF K dn(2) dp(2)])
  have "whole ?out = value" using whole_cong [OF out] s2(2) by simp
  moreover have "amount c new2 + amount c ?out = amount c l" for c using out [of c] d(1) [of c] d2(1) [of c] by simp
  moreover have "list_ok new2" by (rule positive_ok [OF d2(3) dn(1)])
  moreover have "list_ok ?out"
  proof -
    have m: "map Chromo ?out = map Chromo pay" by (simp add: add_second_eq [OF K dn(2)])
    have "0 \<le> amount c pay2" for c using d2(4) by (intro amount_nonneg nonnegI) (auto intro: less_imp_le)
    then have "nonneg ?out"
      using d(4) by (intro nonnegI) (auto simp: add_second_eq [OF K dn(2)] intro: add_nonneg_nonneg less_imp_le)
    then show ?thesis using dp(2) unfolding list_ok_def m by simp
  qed
  ultimately show ?thesis by (simp add: parted_def)
qed

section \<open>What comes into an account\<close>

lemma take_added_None: "take_added K b l = None \<longleftrightarrow> (\<forall>x \<in> set l. Chromo x \<noteq> Chromo b)"
  by (induction l) (auto split: option.split)

lemma take_added_Cons:
  assumes "bignum_ok K" "take_added K b (a # l) = Some (b', l')"
  obtains "Chromo b = Chromo a" "b' = b\<lparr>Value := Value b + Value a\<rparr>" "l' = a\<lparr>Value := 0\<rparr> # l"
  | l1 where "Chromo b \<noteq> Chromo a" "take_added K b l = Some (b', l1)" "l' = a # l1"
  using assms by (auto simp: bigD split: if_splits option.splits)

lemma take_added_Some:
  assumes K: "bignum_ok K" and "take_added K b l = Some (b', l')"
  shows "Chromo b' = Chromo b" "map Chromo l' = map Chromo l" "amount c (b' # l') = amount c (b # l)"
    "nonneg (b # l) \<Longrightarrow> nonneg (b' # l')"
proof -
  have "Chromo b' = Chromo b \<and> map Chromo l' = map Chromo l \<and> amount c (b' # l') = amount c (b # l)
    \<and> (nonneg (b # l) \<longrightarrow> nonneg (b' # l'))" for c
    using assms(2)
  proof (induction l arbitrary: l')
    case (Cons a l)
    from K Cons.prems show ?case
    proof (cases rule: take_added_Cons)
      case 1
      then show ?thesis by auto
    next
      case (2 l1)
      have i: "Chromo b' = Chromo b" "map Chromo l1 = map Chromo l" "amount c (b' # l1) = amount c (b # l)"
        "nonneg (b # l) \<longrightarrow> nonneg (b' # l1)"
        using Cons.IH [OF 2(2)] by blast+
      have "amount c (b' # l') = amount c (b # a # l)" using i(3) unfolding 2(3) amount_simps by linarith
      moreover have "nonneg (b # a # l) \<longrightarrow> nonneg (b' # l')"
        using i(4) by (simp add: 2(3))
      ultimately show ?thesis using i(1,2) 2(3) by simp
    qed
  qed simp
  then show "Chromo b' = Chromo b" "map Chromo l' = map Chromo l" "amount c (b' # l') = amount c (b # l)"
    "nonneg (b # l) \<Longrightarrow> nonneg (b' # l')" by blast+
qed

text \<open>What is left to add is what was to be added, but not of this chromo.\<close>

lemma take_added_left:
  assumes "take_added K b l = Some (b', l')" "distinct (map Chromo l)" "x \<in> set l'" "Value x \<noteq> 0"
  shows "x \<in> set l \<and> Chromo x \<noteq> Chromo b"
  using assms
proof (induction l arbitrary: l')
  case (Cons a l)
  show ?case
  proof (cases "Chromo b = Chromo a")
    case True
    then have "x \<in> set l" using Cons.prems by auto
    then show ?thesis using True Cons.prems(2) by (metis distinct.simps(2) imageI list.map(2) list.set_intros(2) set_map)
  next
    case False
    then obtain l1 where l1: "take_added K b l = Some (b', l1)" "l' = a # l1"
      using Cons.prems by (auto split: option.splits)
    show ?thesis using Cons.IH [OF l1(1)] l1(2) False Cons.prems(2-4) by auto
  qed
qed simp

lemma merge_old_keeps:
  assumes K: "bignum_ok K" and "merge_old K old add = (l, a)"
  shows "map Chromo l = map Chromo old \<and> map Chromo a = map Chromo add
    \<and> amount c l + amount c a = amount c old + amount c add
    \<and> (nonneg (old @ add) \<longrightarrow> nonneg (l @ a))"
  using assms(2)
proof (induction old arbitrary: add l a)
  case (Cons b old)
  show ?case
  proof (cases "take_added K b add")
    case None
    then obtain l1 where r: "merge_old K old add = (l1, a)" "l = b # l1"
      using Cons.prems by (auto split: prod.splits)
    have h: "map Chromo l1 = map Chromo old" "map Chromo a = map Chromo add" "amount c l1 + amount c a = amount c old + amount c add"
      "nonneg (old @ add) \<longrightarrow> nonneg (l1 @ a)"
      using Cons.IH [OF r(1)] by blast+
    have "amount c l + amount c a = amount c (b # old) + amount c add" using h(3) r(2) by simp
    moreover have "nonneg ((b # old) @ add) \<longrightarrow> nonneg (l @ a)"
      using h(4) by (simp add: r(2))
    ultimately show ?thesis using h(1,2) r(2) by simp
  next
    case (Some q)
    obtain b' add' where q: "q = (b', add')" by (cases q)
    obtain l1 where r: "merge_old K old add' = (l1, a)" "l = b' # l1"
      using Cons.prems Some q by (auto split: prod.splits)
    note t = take_added_Some [OF K Some [unfolded q]]
    have h: "map Chromo l1 = map Chromo old" "map Chromo a = map Chromo add'" "amount c l1 + amount c a = amount c old + amount c add'"
      "nonneg (old @ add') \<longrightarrow> nonneg (l1 @ a)"
      using Cons.IH [OF r(1)] by blast+
    have "amount c l + amount c a = amount c (b # old) + amount c add" using h(3) t(3) [of c] unfolding r(2) amount_simps by linarith
    moreover have "nonneg ((b # old) @ add) \<longrightarrow> nonneg (l @ a)"
    proof
      assume n: "nonneg ((b # old) @ add)"
      then have "nonneg (b' # add')" by (intro t(4)) auto
      then show "nonneg (l @ a)" using n h(4) by (simp add: r(2))
    qed
    ultimately show ?thesis using h(1,2) t(1,2) r(2) by simp
  qed
qed simp

lemma merge_old_left:
  assumes "bignum_ok K" "merge_old K old add = (l, a)" "distinct (map Chromo add)" "x \<in> set a" "Value x \<noteq> 0"
  shows "x \<in> set add \<and> (\<forall>y \<in> set old. Chromo y \<noteq> Chromo x)"
  using assms(2,3)
proof (induction old arbitrary: add l)
  case Nil
  then show ?case using assms(4) by simp
next
  case (Cons b old)
  show ?case
  proof (cases "take_added K b add")
    case None
    then obtain l1 where "merge_old K old add = (l1, a)" using Cons.prems by (auto split: prod.splits)
    from Cons.IH [OF this Cons.prems(2)] show ?thesis using None by (auto simp: take_added_None)
  next
    case (Some q)
    obtain b' add' where q: "q = (b', add')" by (cases q)
    then obtain l1 where r: "merge_old K old add' = (l1, a)" using Cons.prems Some by (auto split: prod.splits)
    have d: "distinct (map Chromo add')" using take_added_Some(2) [OF assms(1) Some [unfolded q]] Cons.prems(2) by simp
    have "x \<in> set add'" "\<forall>y \<in> set old. Chromo y \<noteq> Chromo x" using Cons.IH [OF r d] by simp_all
    with take_added_left [OF Some [unfolded q] Cons.prems(2) _ assms(5)] show ?thesis by (metis set_ConsD)
  qed
qed

lemma amount_filter [simp]: "amount c (filter (\<lambda>b. Value b \<noteq> 0) l) = amount c l"
  by (induction l) auto

text \<open>The payee has what it had and what came in, of every chromo.\<close>

lemma merge_byb_adds:
  assumes K: "bignum_ok K"
  shows "amount c (merge_byb K old add) = amount c old + amount c add"
    "list_ok old \<Longrightarrow> list_ok add \<Longrightarrow> list_ok (merge_byb K old add)"
proof -
  obtain l a where m: "merge_old K old add = (l, a)" by (cases "merge_old K old add")
  have r: "merge_byb K old add = l @ filter (\<lambda>b. Value b \<noteq> 0) a" by (simp add: merge_byb_def m bigD [OF K])
  note k = merge_old_keeps [OF K m]
  show "amount c (merge_byb K old add) = amount c old + amount c add" using k [of c] by (simp add: r)
  assume ok: "list_ok old" "list_ok add"
  have d: "distinct (map Chromo a)" "distinct (map Chromo l)" "distinct (map Chromo add)" using k ok by (simp_all add: list_ok_def)
  have s: "Chromo ` set l = Chromo ` set old" using k by (metis list.set_map)
  have "distinct (map Chromo (filter (\<lambda>b. Value b \<noteq> 0) a))" by (rule distinct_map_filter [OF d(1)])
  moreover have "Chromo ` set l \<inter> Chromo ` set (filter (\<lambda>b. Value b \<noteq> 0) a) = {}"
    using merge_old_left [OF K m d(3)] unfolding s by fastforce
  ultimately have "distinct (map Chromo (l @ filter (\<lambda>b. Value b \<noteq> 0) a))" using d(2) by simp
  moreover have "nonneg (l @ a)"
    using k ok by (simp add: list_ok_def)
  ultimately show "list_ok (merge_byb K old add)"
    unfolding r list_ok_def by (auto intro: nonneg_subset)
qed

lemma merge_whole:
  assumes "bignum_ok K"
  shows "whole (merge_byb K old add) = whole old + whole add"
  by (rule whole_cong) (rule merge_byb_adds(1) [OF assms])

section \<open>One chromo\<close>

lemma chromo_value_amount:
  assumes "distinct (map Chromo l)" "chromo_value c l = Some v"
  shows "amount c l = v"
  using amount_find [OF assms(1), of c] assms(2) by (auto simp: chromo_value_def eq_commute [of _ c] split: option.splits)

lemma take_chromo_parted:
  assumes K: "bignum_ok K" and l: "list_ok l" and v: "chromo_value c l = Some v" "0 \<le> value" "value \<le> v"
  shows "parted l value (take_chromo K c value keep l) [\<lparr>Chromo = c, Value = value\<rparr>]"
proof -
  have "(\<forall>d. amount d (take_chromo K c value keep l) + (if c = d then value else 0) = amount d l)
    \<and> nonneg (take_chromo K c value keep l) \<and> Chromo ` set (take_chromo K c value keep l) \<subseteq> Chromo ` set l
    \<and> distinct (map Chromo (take_chromo K c value keep l))"
    using l v
  proof (induction l)
    case (Cons b l)
    show ?case
    proof (cases "Chromo b = c")
      case True
      then have "v = Value b" using Cons.prems(2) by (simp add: chromo_value_def)
      then show ?thesis using True Cons.prems by (auto simp: list_ok_def bigD [OF K] Let_def)
    next
      case False
      then have "list_ok l" "chromo_value c l = Some v" using Cons.prems by (auto simp: list_ok_def chromo_value_def)
      from Cons.IH [OF this v(2,3)] show ?thesis using False Cons.prems(1) by (auto simp: list_ok_def)
    qed
  qed (simp add: chromo_value_def)
  then have am: "amount d (take_chromo K c value keep l) + (if c = d then value else 0) = amount d l" and
    "list_ok (take_chromo K c value keep l)" for d by (auto simp: list_ok_def)
  moreover have "amount d (take_chromo K c value keep l) + amount d [\<lparr>Chromo = c, Value = value\<rparr>] = amount d l" for d
    using am [of d] by (simp split: if_splits)
  ultimately show ?thesis using v(2) unfolding parted_def by (simp add: list_ok_def)
qed

lemma remove_parted:
  assumes "list_ok l" "b \<in> set l"
  shows "parted l (Value b) (remove1 b l) [b]"
proof -
  have "amount d (remove1 b l) + (if Chromo b = d then Value b else 0) = amount d l" for d
    using assms(2) by (induction l) auto
  moreover have "distinct (map Chromo (remove1 b l))"
    using assms(1) by (auto simp: list_ok_def distinct_map inj_on_def)
  ultimately show ?thesis using assms by (auto simp: parted_def list_ok_def nonneg_def dest: set_remove1_subset [THEN subsetD])
qed

end
