(* ===== verification/V1_Byb_State.thy ===== *)
theory V1_Byb_State
  imports V1_Byb_Split
begin

text \<open>
  What the BYB token stores, as a table: the holding of every account, with the token's balance beside it, the black
  holes and the stock holders. Storing a holding changes one entry and sets the balance to its whole.
\<close>

section \<open>A table of holdings\<close>

locale accounts =
  fixes ok :: "'s \<Rightarrow> bool" and acct :: "'a \<Rightarrow> bool" and get :: "'s \<Rightarrow> 'a \<Rightarrow> 'l" and put :: "'a \<Rightarrow> 'l \<Rightarrow> 's \<Rightarrow> 's"
  assumes put_ok: "ok s \<Longrightarrow> acct a \<Longrightarrow> ok (put a l s)"
    and get_put: "ok s \<Longrightarrow> acct a \<Longrightarrow> acct b \<Longrightarrow> get (put a l s) b = (if b = a then l else get s b)"
begin

text \<open>What is counted over a set of accounts changes by what is counted in the entry.\<close>

lemma total_put:
  assumes "ok s" "finite S" "\<forall>b \<in> S. acct b" "a \<in> S"
  shows "(\<Sum>b \<in> S. m (get (put a l s) b)) = (\<Sum>b \<in> S. m (get s b)) - m (get s a) + (m l :: int)"
proof -
  have "(\<Sum>b \<in> S. m (get (put a l s) b)) = m l + (\<Sum>b \<in> S - {a}. m (get s b))"
    using assms by (simp add: sum.remove [OF assms(2,4)] get_put)
  then show ?thesis using assms(2,4) by (simp add: sum.remove [OF assms(2,4)])
qed

lemma total_move:
  assumes "ok s" "finite S" "\<forall>b \<in> S. acct b" "a \<in> S" "c \<in> S" "a \<noteq> c"
    and "m l + m l' = m (get s a) + (m (get s c) :: int)"
  shows "(\<Sum>b \<in> S. m (get (put c l' (put a l s)) b)) = (\<Sum>b \<in> S. m (get s b))"
  using assms total_put [OF put_ok [OF assms(1)] assms(2,3,5), of a m l' l] total_put [OF assms(1-4), of m l]
  by (simp add: get_put)

end

section \<open>Keys\<close>

lemma byb_key_eq [simp]: "keyOfByb a = keyOfByb b \<longleftrightarrow> a = b"
  by (simp add: keyOfByb_def)

lemma byb_keys:
  assumes "plain a" "plain b"
  shows "keyOfByb a \<noteq> keyOfAccountToken b tok" "keyOfByb a \<noteq> keyOfAccount b"
proof -
  have "keyOfByb a = ''/account/ex/'' @ a @ CHR ''/'' # ''byb''" by (simp add: keyOfByb_def keyOfAccount_def)
  moreover have "keyOfAccountToken b tok = ''/account/ex/'' @ b @ CHR ''/'' # (''token/'' @ tok)" by (simp add: keyOfAccountToken_def)
  ultimately show "keyOfByb a \<noteq> keyOfAccountToken b tok" using slash_split [OF assms, of "''byb''" "''token/'' @ tok"] by auto
  show "keyOfByb a \<noteq> keyOfAccount b" using assms by (auto simp: keyOfByb_def keyOfAccount_def plain_def)
qed

lemmas byb_keys_sym = byb_keys [THEN not_sym]

text \<open>The keys of the contract; no operation on the token's record or on balances writes under them.\<close>

definition byb_key :: "string \<Rightarrow> bool" where
  "byb_key k \<longleftrightarrow> k = keyOfBlackHole \<or> k = keyOfStockholders \<or> (\<exists>a. plain a \<and> k = keyOfByb a)"

lemma byb_key_token:
  assumes "byb_key k"
  shows "k \<noteq> keyOfToken_v1 tok" "k \<noteq> keyOfTokenAll" "k \<noteq> keyOfTokenName K n" "k \<noteq> keyOfTokenSymbol K n"
    "plain a \<Longrightarrow> k \<noteq> keyOfAccount a" "plain a \<Longrightarrow> k \<noteq> keyOfAccountToken a tok" "k \<noteq> keyOfCurChromo"
proof -
  have "keyOfBlackHole \<noteq> keyOfAccount a" "keyOfStockholders \<noteq> keyOfAccount a"
    "keyOfBlackHole \<noteq> keyOfAccountToken a tok" "keyOfStockholders \<noteq> keyOfAccountToken a tok"
    by (simp_all add: keyOfBlackHole_def keyOfStockholders_def keyOfAccount_def keyOfAccountToken_def)
  then show "plain a \<Longrightarrow> k \<noteq> keyOfAccount a" "plain a \<Longrightarrow> k \<noteq> keyOfAccountToken a tok"
    using assms byb_keys unfolding byb_key_def by metis+
qed (use assms in \<open>auto simp: byb_key_def keyOfBlackHole_def keyOfStockholders_def keyOfByb_def keyOfAccount_def keyOfToken_v1_def
  keyOfTokenAll_def keyOfTokenName_def keyOfTokenSymbol_def keyOfCurChromo_def\<close>)

section \<open>The table of the contract\<close>

definition byb_view :: "'db EnvS \<Rightarrow> SmcApi \<Rightarrow> 'db V1 \<Rightarrow> string \<Rightarrow> bytes option" where
  "byb_view E byb v = view1 (base1 E) (sa_State byb) v"

definition own_tok :: "SmcApi \<Rightarrow> string" where
  "own_tok byb = ts_ContractAddress (sa_State byb)"

definition dec_list :: "'a list codec \<Rightarrow> bytes option \<Rightarrow> 'a list" where
  "dec_list c b = (case dec1 c b of Inr l \<Rightarrow> list_of l | Inl _ \<Rightarrow> [])"

definition holding :: "'db EnvS \<Rightarrow> SmcApi \<Rightarrow> 'db V1 \<Rightarrow> string \<Rightarrow> bybBalance list" where
  "holding E byb v a = dec_list (k_Byb E) (byb_view E byb v (keyOfByb a))"

definition holes :: "'db EnvS \<Rightarrow> SmcApi \<Rightarrow> 'db V1 \<Rightarrow> string set" where
  "holes E byb v = set (dec_list (k_strings (base1 E)) (byb_view E byb v keyOfBlackHole))"

definition holders :: "'db EnvS \<Rightarrow> SmcApi \<Rightarrow> 'db V1 \<Rightarrow> string set" where
  "holders E byb v = set (dec_list (k_strings (base1 E)) (byb_view E byb v keyOfStockholders))"

definition byb_bal :: "'db EnvS \<Rightarrow> SmcApi \<Rightarrow> 'db V1 \<Rightarrow> string \<Rightarrow> int" where
  "byb_bal E byb v a = bal1 (base1 E) (sa_State byb) (own_tok byb) v a"

definition byb_record :: "'db EnvS \<Rightarrow> SmcApi \<Rightarrow> 'db V1 \<Rightarrow> IssueToken option" where
  "byb_record E byb v = tok1 (base1 E) (sa_State byb) (own_tok byb) v"

definition committee :: "SmcApi \<Rightarrow> string set" where
  "committee byb = {ac_Addr (sa_Owner byb), ac_Addr (sa_ContractAcct byb), sa_ContractAddr byb}"

text \<open>External code and setting: the numbers are integers, the codec loses nothing, the stub uses one address.\<close>

definition env_ok :: "'db EnvS \<Rightarrow> SmcApi \<Rightarrow> bool" where
  "env_ok E byb \<longleftrightarrow> bignum_ok (base1 E) \<and> codec_ok (k_Byb E)
    \<and> (\<forall>a b. (Num_Cmp E a b < 0) = (a < b) \<and> (0 < Num_Cmp E a b) = (b < a))
    \<and> sa_ContractAddr byb = own_tok byb \<and> plain (ac_Addr (sa_Sender byb)) \<and> plain (ac_Addr (sa_ContractAcct byb))"

definition readable :: "'a codec \<Rightarrow> bytes option \<Rightarrow> bool" where
  "readable c b \<longleftrightarrow> (\<exists>x. dec1 c b = Inr x)"

definition byb_ok :: "'db EnvS \<Rightarrow> SmcApi \<Rightarrow> 'db V1 \<Rightarrow> bool" where
  "byb_ok E byb v \<longleftrightarrow> env_ok E byb \<and> tok_ok (base1 E) (sa_State byb) (own_tok byb) v
    \<and> (\<forall>a. plain a \<longrightarrow> readable (k_Byb E) (byb_view E byb v (keyOfByb a)))
    \<and> readable (k_strings (base1 E)) (byb_view E byb v keyOfBlackHole)
    \<and> readable (k_strings (base1 E)) (byb_view E byb v keyOfStockholders)"

lemma byb_okD:
  assumes "byb_ok E byb v"
  shows "env_ok E byb" "bignum_ok (base1 E)" "codec_ok (k_Byb E)" "tok_ok (base1 E) (sa_State byb) (own_tok byb) v"
    "ext_ok (ext1 (base1 E))" "codec_ok (k_strings (base1 E))" "live (sa_State byb) v"
    "plain (ac_Addr (sa_Sender byb))" "plain (ac_Addr (sa_ContractAcct byb))" "sa_ContractAddr byb = own_tok byb"
  using assms tok_okD(1,2) [of "base1 E" "sa_State byb" "own_tok byb" v] codecs1D [of "base1 E"]
  by (auto simp: byb_ok_def env_ok_def)

lemma Num_Cmp_sign:
  assumes "env_ok E byb"
  shows "Num_Cmp E a b < 0 \<longleftrightarrow> a < b" "Num_Cmp E a b \<le> 0 \<longleftrightarrow> a \<le> b" "0 \<le> Num_Cmp E a b \<longleftrightarrow> b \<le> a"
proof -
  have c: "(Num_Cmp E a b < 0) = (a < b) \<and> (0 < Num_Cmp E a b) = (b < a)" using assms by (simp add: env_ok_def)
  show "Num_Cmp E a b < 0 \<longleftrightarrow> a < b" "Num_Cmp E a b \<le> 0 \<longleftrightarrow> a \<le> b" "0 \<le> Num_Cmp E a b \<longleftrightarrow> b \<le> a" using c by linarith+
qed

section \<open>Reading\<close>

lemma read_view:
  assumes "byb_ok E byb v"
  shows "ts_Get (base1 E) (sa_State byb) v k = Inr (Inr (byb_view E byb v k))"
  using ts_Get_view [OF byb_okD(5,7) [OF assms]] by (simp add: byb_view_def)

lemma readable_dec: "readable c b \<Longrightarrow> \<exists>l. dec1 c b = Inr l \<and> dec_list c b = list_of l"
  by (auto simp: readable_def dec_list_def)

lemma getBybBalance_run:
  assumes "byb_ok E byb v" "plain a"
  shows "getBybBalance E byb a v = Inr (Inr (holding E byb v a))"
proof -
  have "readable (k_Byb E) (byb_view E byb v (keyOfByb a))" using assms by (simp add: byb_ok_def)
  from readable_dec [OF this] show ?thesis by (auto simp: getBybBalance_def read_view [OF assms(1)] holding_def)
qed

lemma balance_run:
  assumes "byb_ok E byb v" "plain a"
  shows "ts_GetBalance (base1 E) (sa_State byb) a (ts_ContractAddress (sa_State byb)) v = Inr (Inr (byb_bal E byb v a))"
  using GetBalance_view [OF byb_okD(4) [OF assms(1)] assms(2)] by (simp add: byb_bal_def own_tok_def)

lemma record_run:
  assumes "byb_ok E byb v"
  shows "byb_token E byb v = Inr (Inr (byb_record E byb v))"
proof -
  have "readable (k_Token (base1 E)) (byb_view E byb v (keyOfToken_v1 (own_tok byb)))"
    using byb_okD(4) [OF assms] by (auto simp: tok_ok_def readable_def byb_view_def)
  then show ?thesis
    using byb_okD(10) [OF assms]
    by (auto simp: byb_token_def ts_GetToken_def read_view [OF assms] byb_record_def tok1_def readable_def byb_view_def)
qed

definition role :: "'db EnvS \<Rightarrow> SmcApi \<Rightarrow> 'db V1 \<Rightarrow> string \<Rightarrow> uint32" where
  "role E byb v a = (if a \<in> committee byb then addressRole_Committee
     else if a \<in> holes E byb v then addressRole_Hole
     else if a \<in> holders E byb v then addressRole_StockHolder else addressRole_User)"

lemma checkAddress_run:
  assumes "byb_ok E byb v"
  shows "checkAddress E byb a v = Inr (role E byb v a, okE)"
proof -
  have r: "readable (k_strings (base1 E)) (byb_view E byb v keyOfBlackHole)" "readable (k_strings (base1 E)) (byb_view E byb v keyOfStockholders)"
    using assms by (simp_all add: byb_ok_def)
  from readable_dec [OF r(1)] readable_dec [OF r(2)] show ?thesis
    by (auto simp: checkAddress_def getBlackHole_def getBybStockHolders_def read_view [OF assms] role_def committee_def holes_def holders_def)
qed

lemma owns_run:
  assumes "byb_ok E byb v" "plain a"
  shows "isStockHolderOwnTheChromo E byb a c v = Inr (c \<in> Chromo ` set (holding E byb v a))"
  by (auto simp: isStockHolderOwnTheChromo_def getBybBalance_run [OF assms])

section \<open>Writing\<close>

text \<open>A write that the contract's keys do not see.\<close>

lemma byb_unseen:
  assumes ok: "byb_ok E byb v" and "tok_ok (base1 E) (sa_State byb) (own_tok byb) v'"
    and k: "\<And>k. byb_key k \<Longrightarrow> byb_view E byb v' k = byb_view E byb v k"
  shows "byb_ok E byb v'" "plain a \<Longrightarrow> holding E byb v' a = holding E byb v a" "holes E byb v' = holes E byb v"
    "holders E byb v' = holders E byb v"
proof -
  have k1: "byb_view E byb v' keyOfBlackHole = byb_view E byb v keyOfBlackHole" "byb_view E byb v' keyOfStockholders = byb_view E byb v keyOfStockholders"
    "plain a \<Longrightarrow> byb_view E byb v' (keyOfByb a) = byb_view E byb v (keyOfByb a)" for a using k by (auto simp: byb_key_def)
  show "byb_ok E byb v'" using ok assms(2) k1 by (simp add: byb_ok_def)
  show "plain a \<Longrightarrow> holding E byb v' a = holding E byb v a" "holes E byb v' = holes E byb v" "holders E byb v' = holders E byb v"
    by (simp_all add: holding_def holes_def holders_def k1)
qed

definition byb_put :: "'db EnvS \<Rightarrow> SmcApi \<Rightarrow> string \<Rightarrow> bybBalance list \<Rightarrow> 'db V1 \<Rightarrow> 'db V1" where
  "byb_put E byb a l v = snd (setBybBalance E byb a l v)"

lemma setBybBalance_run:
  assumes ok: "byb_ok E byb v" and a: "plain a"
  shows "setBybBalance E byb a l v = (Inr (Inr ()), byb_put E byb a l v)" "byb_ok E byb (byb_put E byb a l v)"
    "plain b \<Longrightarrow> holding E byb (byb_put E byb a l v) b = (if b = a then l else holding E byb v b)"
    "plain b \<Longrightarrow> byb_bal E byb (byb_put E byb a l v) b = (if b = a then whole l else byb_bal E byb v b)"
    "byb_record E byb (byb_put E byb a l v) = byb_record E byb v"
    "holes E byb (byb_put E byb a l v) = holes E byb v" "holders E byb (byb_put E byb a l v) = holders E byb v"
proof -
  let ?K = "base1 E" and ?ts = "sa_State byb" and ?tok = "own_tok byb" and ?c = "keyOfByb a" and ?k = "keyOfAccount a"
  note K = tok_okD(1) [OF byb_okD(4) [OF ok]] and lv = byb_okD(7) [OF ok] and tok = byb_okD(4) [OF ok]
  obtain d where d: "mjson (k_Byb E) l = Inr (Inr d)" "d \<noteq> []" "unmarshal (k_Byb E) d = Inr l"
    by (rule mjson_ok [OF byb_okD(3) [OF ok]])
  obtain l0 where l0: "dec1 (k_strings ?K) (view1 ?K ?ts v ?k) = Inr l0"
    by (rule list_readable [OF tok_okD(4) [OF tok], of ?k]) (use a in auto)
  obtain v1 w where v1: "(if view1 ?K ?ts v ?c = None then ts_addChildKey ?K ?ts ?k ?c v else (Inr (Inr ()), v)) = (Inr (Inr ()), v1)"
    "live ?ts v1" "view1 ?K ?ts v1 = (view1 ?K ?ts v)(?k := w)" "\<exists>l'. dec1 (k_strings ?K) w = Inr l'"
  proof (cases "view1 ?K ?ts v ?c = None")
    case True
    obtain v1 w where "ts_addChildKey ?K ?ts ?k ?c v = (Inr (Inr ()), v1)" "live ?ts v1"
      "view1 ?K ?ts v1 = (view1 ?K ?ts v)(?k := w)" "dec1 (k_strings ?K) w = Inr l0 \<or> (\<exists>l'. dec1 (k_strings ?K) w = Inr (Some l'))"
      by (rule addChildKey_run [OF K lv l0])
    then show thesis using that [of v1 w] True by auto
  next
    case False
    then have "(if view1 ?K ?ts v ?c = None then ts_addChildKey ?K ?ts ?k ?c v else (Inr (Inr ()), v)) = (Inr (Inr ()), v)"
      by (rule if_not_P)
    then show thesis by (rule that [where w = "view1 ?K ?ts v ?k"]) (use lv l0 in simp_all)
  qed
  obtain v2 where v2: "ts_Set ?ts ?c d v1 = (Inr (Inr ()), v2)" "live ?ts v2" "view1 ?K ?ts v2 = (view1 ?K ?ts v1)(?c \<mapsto> d)"
    by (rule ts_Set_run [OF v1(2) d(2)])
  have w2: "view1 ?K ?ts v2 = (view1 ?K ?ts v)(?k := w, ?c \<mapsto> d)" using v1(3) v2(3) by simp
  have tokc: "?c \<noteq> keyOfToken_v1 ?tok" "?c \<noteq> keyOfTokenAll"
    by (simp_all add: keyOfByb_def keyOfAccount_def keyOfToken_v1_def keyOfTokenAll_def)
  have tok2: "tok_ok ?K ?ts ?tok v2"
  proof (rule tok_ok_put [OF tok v2(2)])
    fix k assume k: "(\<exists>b. plain b \<and> k = keyOfAccount b) \<or> k = keyOfTokenAll"
    then have "k \<noteq> ?c" using byb_keys(2) [OF a] tokc(2) by metis
    then show "\<exists>l. dec1 (k_strings ?K) (view1 ?K ?ts v2 k) = Inr l"
      using list_readable [OF tok_okD(4) [OF tok], of k] k v1(4) unfolding w2 by fastforce
  next
    fix b assume b: "plain b"
    have "keyOfAccountToken b ?tok \<noteq> ?c" using byb_keys(1) [OF a b] by metis
    then show "\<exists>t. dec1 (k_Balance ?K) (view1 ?K ?ts v2 (keyOfAccountToken b ?tok)) = Inr t"
      using tok b plain_keys1(2) [OF a] unfolding w2 tok_ok_def by simp
  next
    show "\<exists>t. dec1 (k_Token ?K) (view1 ?K ?ts v2 (keyOfToken_v1 ?tok)) = Inr t"
      using tok tokc(1) unfolding w2 tok_ok_def by simp
  qed
  obtain v3 where v3: "ts_SetBalance ?K ?ts a ?tok (whole l) v2 = (Inr (Inr ()), v3)" "tok_ok ?K ?ts ?tok v3"
    "\<And>b. plain b \<Longrightarrow> bal1 ?K ?ts ?tok v3 b = ((bal1 ?K ?ts ?tok v2)(a := whole l)) b" "tok1 ?K ?ts ?tok v3 = tok1 ?K ?ts ?tok v2"
    "\<And>k. k \<noteq> ?k \<Longrightarrow> k \<noteq> keyOfAccountToken a ?tok \<Longrightarrow> view1 ?K ?ts v3 k = view1 ?K ?ts v2 k"
    by (rule SetBalance_run [OF tok2 a, where v = "whole l"]) blast
  have run: "setBybBalance E byb a l v = (Inr (Inr ()), v3)"
    using v2(1) v3(1) unfolding setBybBalance_def Let_def d(1) ts_Get_view [OF byb_okD(5,7) [OF ok]] try_simps v1(1)
      folded_sum [OF byb_okD(2) [OF ok]] own_tok_def by simp
  then show put: "setBybBalance E byb a l v = (Inr (Inr ()), byb_put E byb a l v)" by (simp add: byb_put_def)
  have p: "byb_put E byb a l v = v3" using run by (simp add: byb_put_def)
  have bv: "byb_view E byb v3 k = (if k = ?c then Some d else byb_view E byb v k)" if "byb_key k" for k
    using v3(5) [of k] byb_key_token(5,6) [OF that] a by (simp add: byb_view_def w2)
  have kk: "byb_key ?c" "byb_key keyOfBlackHole" "byb_key keyOfStockholders" "plain b \<Longrightarrow> byb_key (keyOfByb b)" for b
    using a by (auto simp: byb_key_def)
  have ne: "keyOfBlackHole \<noteq> ?c" "keyOfStockholders \<noteq> ?c"
    by (simp_all add: keyOfBlackHole_def keyOfStockholders_def keyOfByb_def keyOfAccount_def)
  show "byb_ok E byb (byb_put E byb a l v)"
    using ok v3(2) bv kk ne d(3) unfolding p by (auto simp: byb_ok_def readable_def)
  show "plain b \<Longrightarrow> holding E byb (byb_put E byb a l v) b = (if b = a then l else holding E byb v b)"
    unfolding p using bv [OF kk(4)] d(3) by (auto simp: holding_def dec_list_def list_of_def)
  show "holes E byb (byb_put E byb a l v) = holes E byb v" "holders E byb (byb_put E byb a l v) = holders E byb v"
    unfolding p using bv [OF kk(2)] bv [OF kk(3)] ne by (simp_all add: holes_def holders_def)
  show "byb_record E byb (byb_put E byb a l v) = byb_record E byb v"
    unfolding p using v3(4) tokc(1) by (simp add: byb_record_def tok1_def w2)
  show "byb_bal E byb (byb_put E byb a l v) b = (if b = a then whole l else byb_bal E byb v b)" if b: "plain b"
  proof -
    have "keyOfAccountToken b ?tok \<noteq> ?c" using byb_keys(1) [OF a b] by metis
    then show ?thesis unfolding p using v3(3) [OF b] plain_keys1(2) [OF a] by (simp add: byb_bal_def bal1_def w2)
  qed
qed

interpretation holdings: accounts "byb_ok E byb" plain "holding E byb" "byb_put E byb" for E :: "'db EnvS" and byb
  by unfold_locales (simp_all add: setBybBalance_run(2,3))

section \<open>The other writes\<close>

definition put_holders :: "'db EnvS \<Rightarrow> SmcApi \<Rightarrow> string list \<Rightarrow> 'db V1 \<Rightarrow> 'db V1" where
  "put_holders E byb l v = snd (setBybStockHolders E byb l v)"

definition put_holes :: "'db EnvS \<Rightarrow> SmcApi \<Rightarrow> string list \<Rightarrow> 'db V1 \<Rightarrow> 'db V1" where
  "put_holes E byb l v = snd (setBlackHole E byb l v)"

definition put_chromo :: "SmcApi \<Rightarrow> string \<Rightarrow> 'db V1 \<Rightarrow> 'db V1" where
  "put_chromo byb c v = snd (setCurChromo byb c v)"

definition put_token :: "'db EnvS \<Rightarrow> SmcApi \<Rightarrow> IssueToken \<Rightarrow> 'db V1 \<Rightarrow> 'db V1" where
  "put_token E byb t v = snd (ts_SetToken (base1 E) (sa_State byb) t v)"

text \<open>What stays the same whatever is written beside the holdings.\<close>

definition same_table :: "'db EnvS \<Rightarrow> SmcApi \<Rightarrow> 'db V1 \<Rightarrow> 'db V1 \<Rightarrow> bool" where
  "same_table E byb v v' \<longleftrightarrow> byb_ok E byb v'
    \<and> (\<forall>a. plain a \<longrightarrow> holding E byb v' a = holding E byb v a \<and> byb_bal E byb v' a = byb_bal E byb v a)"

text \<open>A write under a key of the contract that is no account's.\<close>

lemma own_key_write:
  assumes ok: "byb_ok E byb v" and k: "k \<in> {keyOfBlackHole, keyOfStockholders, keyOfCurChromo}"
    and d: "d \<noteq> []" "readable (k_strings (base1 E)) (Some d) \<or> k = keyOfCurChromo"
  obtains v' where "ts_Set (sa_State byb) k d v = (Inr (Inr ()), v')" "same_table E byb v v'"
    "byb_record E byb v' = byb_record E byb v"
    "\<And>j. byb_view E byb v' j = (if j = k then Some d else byb_view E byb v j)"
proof -
  have n: "k \<noteq> keyOfAccountToken a (own_tok byb)" "k \<noteq> keyOfAccount a" "k \<noteq> keyOfTokenAll" "k \<noteq> keyOfToken_v1 (own_tok byb)"
    "k \<noteq> keyOfByb a" for a
    using k by (auto simp: keyOfBlackHole_def keyOfStockholders_def keyOfCurChromo_def keyOfAccountToken_def keyOfAccount_def
        keyOfTokenAll_def keyOfToken_v1_def keyOfByb_def)
  obtain v' where v': "ts_Set (sa_State byb) k d v = (Inr (Inr ()), v')" "tok_ok (base1 E) (sa_State byb) (own_tok byb) v'"
    "\<And>a. plain a \<Longrightarrow> bal1 (base1 E) (sa_State byb) (own_tok byb) v' a = bal1 (base1 E) (sa_State byb) (own_tok byb) v a"
    "tok1 (base1 E) (sa_State byb) (own_tok byb) v' = tok1 (base1 E) (sa_State byb) (own_tok byb) v"
    "view1 (base1 E) (sa_State byb) v' = (view1 (base1 E) (sa_State byb) v)(k \<mapsto> d)"
    by (rule other_write [OF byb_okD(4) [OF ok] d(1) n(1-4)]) blast
  have bv: "byb_view E byb v' j = (if j = k then Some d else byb_view E byb v j)" for j
    by (simp add: byb_view_def v'(5))
  have c: "keyOfCurChromo \<noteq> keyOfBlackHole" "keyOfCurChromo \<noteq> keyOfStockholders"
    by (simp_all add: keyOfCurChromo_def keyOfBlackHole_def keyOfStockholders_def)
  have "readable (k_strings (base1 E)) (byb_view E byb v' j)" if "j = keyOfBlackHole \<or> j = keyOfStockholders" for j
    using that ok d(2) c unfolding bv by (auto simp: byb_ok_def)
  then have "byb_ok E byb v'" using ok v'(2) n(5) unfolding byb_ok_def bv by (metis (full_types) bv)
  then have "same_table E byb v v'" using n(5) v'(3) by (simp add: same_table_def holding_def bv byb_bal_def) (metis)
  then show thesis using that v'(1,4) bv by (simp add: byb_record_def)
qed

lemma list_write:
  assumes ok: "byb_ok E byb v"
  obtains d where "mjson (k_strings (base1 E)) l = Inr (Inr d)" "d \<noteq> []" "readable (k_strings (base1 E)) (Some d)"
    "dec_list (k_strings (base1 E)) (Some d) = l"
proof -
  obtain d where d: "mjson (k_strings (base1 E)) l = Inr (Inr d)" "d \<noteq> []" "unmarshal (k_strings (base1 E)) d = Inr l"
    by (rule mjson_ok [OF byb_okD(6) [OF ok]])
  then show thesis using that [of d] by (simp add: readable_def dec_list_def list_of_def)
qed

lemma put_holders_run:
  assumes ok: "byb_ok E byb v"
  shows "setBybStockHolders E byb l v = (Inr (Inr ()), put_holders E byb l v)" "same_table E byb v (put_holders E byb l v)"
    "holders E byb (put_holders E byb l v) = set l" "holes E byb (put_holders E byb l v) = holes E byb v"
    "byb_record E byb (put_holders E byb l v) = byb_record E byb v"
proof -
  obtain d where d: "mjson (k_strings (base1 E)) l = Inr (Inr d)" "d \<noteq> []" "readable (k_strings (base1 E)) (Some d)"
    "dec_list (k_strings (base1 E)) (Some d) = l" by (rule list_write [OF ok])
  obtain v' where v': "ts_Set (sa_State byb) keyOfStockholders d v = (Inr (Inr ()), v')" "same_table E byb v v'"
    "byb_record E byb v' = byb_record E byb v" "\<And>j. byb_view E byb v' j = (if j = keyOfStockholders then Some d else byb_view E byb v j)"
    by (rule own_key_write [OF ok _ d(2), where k = keyOfStockholders]) (use d(3) in auto)
  have run: "setBybStockHolders E byb l v = (Inr (Inr ()), v')" using d(1) v'(1) by (simp add: setBybStockHolders_def)
  then have p: "put_holders E byb l v = v'" by (simp add: put_holders_def)
  show "setBybStockHolders E byb l v = (Inr (Inr ()), put_holders E byb l v)" using run p by simp
  have "keyOfBlackHole \<noteq> keyOfStockholders" by (simp add: keyOfBlackHole_def keyOfStockholders_def)
  then show "holes E byb (put_holders E byb l v) = holes E byb v" by (simp add: p holes_def v'(4))
  show "same_table E byb v (put_holders E byb l v)" "holders E byb (put_holders E byb l v) = set l"
    "byb_record E byb (put_holders E byb l v) = byb_record E byb v"
    using v'(2-4) d(4) by (simp_all add: p holders_def)
qed

lemma put_holes_run:
  assumes ok: "byb_ok E byb v"
  shows "setBlackHole E byb l v = (Inr (Inr ()), put_holes E byb l v)" "same_table E byb v (put_holes E byb l v)"
    "holes E byb (put_holes E byb l v) = set l" "holders E byb (put_holes E byb l v) = holders E byb v"
    "byb_record E byb (put_holes E byb l v) = byb_record E byb v"
proof -
  obtain d where d: "mjson (k_strings (base1 E)) l = Inr (Inr d)" "d \<noteq> []" "readable (k_strings (base1 E)) (Some d)"
    "dec_list (k_strings (base1 E)) (Some d) = l" by (rule list_write [OF ok])
  obtain v' where v': "ts_Set (sa_State byb) keyOfBlackHole d v = (Inr (Inr ()), v')" "same_table E byb v v'"
    "byb_record E byb v' = byb_record E byb v" "\<And>j. byb_view E byb v' j = (if j = keyOfBlackHole then Some d else byb_view E byb v j)"
    by (rule own_key_write [OF ok _ d(2), where k = keyOfBlackHole]) (use d(3) in auto)
  have run: "setBlackHole E byb l v = (Inr (Inr ()), v')" using d(1) v'(1) by (simp add: setBlackHole_def)
  then have p: "put_holes E byb l v = v'" by (simp add: put_holes_def)
  show "setBlackHole E byb l v = (Inr (Inr ()), put_holes E byb l v)" using run p by simp
  have "keyOfStockholders \<noteq> keyOfBlackHole" by (simp add: keyOfBlackHole_def keyOfStockholders_def)
  then show "holders E byb (put_holes E byb l v) = holders E byb v" by (simp add: p holders_def v'(4))
  show "same_table E byb v (put_holes E byb l v)" "holes E byb (put_holes E byb l v) = set l"
    "byb_record E byb (put_holes E byb l v) = byb_record E byb v"
    using v'(2-4) d(4) by (simp_all add: p holes_def)
qed

lemma put_chromo_run:
  assumes ok: "byb_ok E byb v" and c: "c \<noteq> []"
  shows "setCurChromo byb c v = (Inr (Inr ()), put_chromo byb c v)" "same_table E byb v (put_chromo byb c v)"
    "holes E byb (put_chromo byb c v) = holes E byb v" "holders E byb (put_chromo byb c v) = holders E byb v"
    "byb_record E byb (put_chromo byb c v) = byb_record E byb v"
proof -
  have d: "bytes_of_string c \<noteq> []" using c by (simp add: bytes_of_string_def)
  obtain v' where v': "ts_Set (sa_State byb) keyOfCurChromo (bytes_of_string c) v = (Inr (Inr ()), v')" "same_table E byb v v'"
    "byb_record E byb v' = byb_record E byb v"
    "\<And>j. byb_view E byb v' j = (if j = keyOfCurChromo then Some (bytes_of_string c) else byb_view E byb v j)"
    by (rule own_key_write [OF ok _ d, where k = keyOfCurChromo]) auto
  have p: "put_chromo byb c v = v'" using v'(1) by (simp add: put_chromo_def setCurChromo_def)
  show "setCurChromo byb c v = (Inr (Inr ()), put_chromo byb c v)" using v'(1) p by (simp add: setCurChromo_def)
  have "keyOfBlackHole \<noteq> keyOfCurChromo" "keyOfStockholders \<noteq> keyOfCurChromo"
    by (simp_all add: keyOfBlackHole_def keyOfStockholders_def keyOfCurChromo_def)
  then show "holes E byb (put_chromo byb c v) = holes E byb v" "holders E byb (put_chromo byb c v) = holders E byb v"
    by (simp_all add: p holes_def holders_def v'(4))
  show "same_table E byb v (put_chromo byb c v)" "byb_record E byb (put_chromo byb c v) = byb_record E byb v"
    using v'(2,3) by (simp_all add: p)
qed

lemma put_token_run:
  assumes ok: "byb_ok E byb v" and t: "it_Address t = own_tok byb"
  shows "ts_SetToken (base1 E) (sa_State byb) t v = (Inr (Inr ()), put_token E byb t v)" "same_table E byb v (put_token E byb t v)"
    "byb_record E byb (put_token E byb t v) = Some t"
    "holes E byb (put_token E byb t v) = holes E byb v" "holders E byb (put_token E byb t v) = holders E byb v"
proof -
  let ?tok = "own_tok byb"
  obtain v' where v': "ts_SetToken (base1 E) (sa_State byb) t v = (Inr (Inr ()), v')" "tok_ok (base1 E) (sa_State byb) ?tok v'"
    "tok1 (base1 E) (sa_State byb) ?tok v' = Some t"
    "\<And>b. plain b \<Longrightarrow> bal1 (base1 E) (sa_State byb) ?tok v' b = bal1 (base1 E) (sa_State byb) ?tok v b"
    "\<And>k. k \<notin> {keyOfToken_v1 ?tok, keyOfTokenAll, keyOfTokenName (base1 E) (it_Name t), keyOfTokenSymbol (base1 E) (it_Symbol t)}
       \<Longrightarrow> view1 (base1 E) (sa_State byb) v' k = view1 (base1 E) (sa_State byb) v k"
    by (rule SetToken_run [OF byb_okD(4) [OF ok] t]) blast
  have p: "put_token E byb t v = v'" using v'(1) by (simp add: put_token_def)
  have bv: "byb_view E byb v' k = byb_view E byb v k" if "byb_key k" for k
    unfolding byb_view_def by (rule v'(5)) (use byb_key_token(1-2) [OF that] byb_key_token(3-4) [OF that, of "base1 E"] in auto)
  note f = byb_unseen [OF ok v'(2) bv]
  show "same_table E byb v (put_token E byb t v)" using f(1,2) v'(4) by (simp add: same_table_def p byb_bal_def)
  show "ts_SetToken (base1 E) (sa_State byb) t v = (Inr (Inr ()), put_token E byb t v)" using v'(1) p by simp
  show "byb_record E byb (put_token E byb t v) = Some t" using v'(3) by (simp add: p byb_record_def)
  show "holes E byb (put_token E byb t v) = holes E byb v" "holders E byb (put_token E byb t v) = holders E byb v"
    using f(3,4) by (simp_all add: p)
qed

end
