(* ===== verification/V1_Byb_Calls.thy ===== *)
theory V1_Byb_Calls
  imports V1_Byb_State
begin

text \<open>
  What the methods of the BYB token do to the table: their values on every branch where the table is readable, and
  the invariant that balances are the wholes of the holdings.
\<close>

section \<open>Receipts leave the state alone\<close>

lemma receipts_sm [simp]:
  "sm_v1 (EmitReceipt E byb name b s) = sm_v1 s" "sm_v1 (pack E byb name body s) = sm_v1 s"
  "sm_v1 (emit_byb E byb name body s) = sm_v1 s" "sm_v1 (bybReceipt_onTransfer E byb x y l s) = sm_v1 s"
  "sm_v1 (bybReceipt_onChangeChromoOwnership E byb x y l s) = sm_v1 s"
  "sm_v1 (bybReceipt_onNewBlackHole E byb x s) = sm_v1 s" "sm_v1 (bybReceipt_onNewStockHolder E byb x l s) = sm_v1 s"
  "sm_v1 (bybReceipt_onDelStockHolder E byb x s) = sm_v1 s" "sm_v1 (bybReceipt_onAddSupply E byb n m s) = sm_v1 s"
  "sm_v1 (bybReceipt_onBurn E byb n m s) = sm_v1 s" "sm_v1 (bybReceipt_onSetGasPrice E byb w s) = sm_v1 s"
proof -
  show e: "sm_v1 (EmitReceipt E byb name b s) = sm_v1 s" for name b s by (simp add: EmitReceipt_def)
  show p: "sm_v1 (pack E byb name body s) = sm_v1 s" for name body s by (simp add: pack_def e split: sum.split)
  show m: "sm_v1 (emit_byb E byb name body s) = sm_v1 s" for name body s by (simp add: emit_byb_def e)
  show t: "sm_v1 (bybReceipt_onTransfer E byb x y l s) = sm_v1 s" for s
    by (simp add: bybReceipt_onTransfer_def PackReceiptOfTransfer_def Let_def m p)
  show "sm_v1 (bybReceipt_onChangeChromoOwnership E byb x y l s) = sm_v1 s"
    by (simp add: bybReceipt_onChangeChromoOwnership_def m t)
qed (simp_all add: EmitReceipt_def pack_def emit_byb_def bybReceipt_onNewBlackHole_def bybReceipt_onNewStockHolder_def
  bybReceipt_onDelStockHolder_def bybReceipt_onAddSupply_def bybReceipt_onBurn_def bybReceipt_onSetGasPrice_def
  PackReceiptOfAddSupply_def PackReceiptOfBurn_def PackReceiptOfSetGasPrice_def split: sum.split)

lemma onV_run: "f (sm_v1 s) = (r, v) \<Longrightarrow> onV f s = (r, s\<lparr>sm_v1 := v\<rparr>)"
  by (simp add: onV_def)

section \<open>Taking a value from the sender\<close>

lemma whiten_ok:
  assumes "list_ok out" "whole out = value" "0 \<le> value"
  shows "list_ok (whiten r value out)" "whole (whiten r value out) = value"
  using assms by (simp_all add: whiten_def list_ok_def)

lemma calcAndSetSenderBalance_run:
  assumes ok: "byb_ok E byb v" and l: "list_ok (holding E byb v (ac_Addr (sa_Sender byb)))"
    and x: "0 < value" "value \<le> whole (holding E byb v (ac_Addr (sa_Sender byb)))"
  shows "\<exists>left out. calcAndSetSenderBalance E byb value r v = (Inr (whiten r value out, okE), byb_put E byb (ac_Addr (sa_Sender byb)) left v)
    \<and> parted (holding E byb v (ac_Addr (sa_Sender byb))) value left out"
proof -
  let ?a = "ac_Addr (sa_Sender byb)" and ?l = "holding E byb v (ac_Addr (sa_Sender byb))"
  note K = byb_okD(2) [OF ok] and a = byb_okD(8) [OF ok]
  note eqs = calcAndSetSenderBalance_def getBybBalance_run [OF ok a] folded_sum [OF K] bigD [OF K] setBybBalance_run(1) [OF ok a] Let_def
  show ?thesis
  proof (cases "value = whole ?l")
    case True
    have "parted ?l value [] ?l" using l True by (simp add: parted_def list_ok_def)
    moreover have "calcAndSetSenderBalance E byb value r v = (Inr (whiten r value ?l, okE), byb_put E byb ?a [] v)"
      using True x by (simp add: eqs)
    ultimately show ?thesis by blast
  next
    case False
    then have lt: "value < whole ?l" using x by simp
    have nn: "nonneg ?l" using l by (simp add: list_ok_def)
    from K nn x(1) lt show ?thesis
    proof (cases rule: two_rounds)
      case (1 new pay)
      then have "calcAndSetSenderBalance E byb value r v = (Inr (whiten r value pay, okE), byb_put E byb ?a new v)"
        using x lt by (simp add: eqs)
      then show ?thesis using parted_one [OF l 1(2,3)] by blast
    next
      case (2 new pay new2 pay2)
      then have "calcAndSetSenderBalance E byb value r v
          = (Inr (whiten r value (map (add_second E pay2) pay), okE), byb_put E byb ?a new2 v)"
        using x lt by (simp add: eqs)
      then show ?thesis using parted_two [OF K l 2(2,5-7)] by blast
    qed
  qed
qed

lemma calcAndSetSenderBalance_short:
  assumes ok: "byb_ok E byb v" and x: "0 < value" "whole (holding E byb v (ac_Addr (sa_Sender byb))) < value"
  shows "calcAndSetSenderBalance E byb value r v = (Inr ([], errC ErrCodeInterContractsInsufficientBalance), v)"
  using x by (simp add: calcAndSetSenderBalance_def getBybBalance_run [OF ok byb_okD(8) [OF ok]] folded_sum [OF byb_okD(2) [OF ok]]
      bigD [OF byb_okD(2) [OF ok]])

lemma setPayeeBalance_run:
  assumes ok: "byb_ok E byb v" and a: "plain a"
  shows "setPayeeBalance E byb a add v = (Inr okE, byb_put E byb a (merge_byb (base1 E) (holding E byb v a) add) v)"
  by (simp add: setPayeeBalance_def getBybBalance_run [OF ok a] setBybBalance_run(1) [OF ok a])

section \<open>Transfer\<close>

text \<open>Whom the contract lets send and receive.\<close>

definition may_trade :: "uint32 \<Rightarrow> bool" where
  "may_trade r \<longleftrightarrow> r \<noteq> addressRole_StockHolder \<and> r \<noteq> addressRole_Committee"

text \<open>The state after a value has gone from the sender to another account.\<close>

definition moved :: "'db EnvS \<Rightarrow> SmcApi \<Rightarrow> string \<Rightarrow> bybBalance list \<Rightarrow> bybBalance list \<Rightarrow> 'db V1 \<Rightarrow> 'db V1" where
  "moved E byb to_addr left out v =
    byb_put E byb to_addr (merge_byb (base1 E) (holding E byb v to_addr) out) (byb_put E byb (ac_Addr (sa_Sender byb)) left v)"

lemma byb_Transfer_moves:
  assumes ok: "byb_ok E byb (sm_v1 s)" and l: "list_ok (holding E byb (sm_v1 s) (ac_Addr (sa_Sender byb)))"
    and x: "0 < value" "value \<le> whole (holding E byb (sm_v1 s) (ac_Addr (sa_Sender byb)))"
    and a: "plain to_addr" "to_addr \<noteq> ac_Addr (sa_Sender byb)"
    and r: "may_trade (role E byb (sm_v1 s) to_addr)" "may_trade (role E byb (sm_v1 s) (ac_Addr (sa_Sender byb)))"
  shows "\<exists>left out s'. byb_Transfer E byb to_addr value s = (Inr okE, s')
    \<and> parted (holding E byb (sm_v1 s) (ac_Addr (sa_Sender byb))) value left out
    \<and> sm_v1 s' = moved E byb to_addr left (whiten (role E byb (sm_v1 s) (ac_Addr (sa_Sender byb))) value out) (sm_v1 s)"
proof -
  let ?v = "sm_v1 s" and ?a = "ac_Addr (sa_Sender byb)" and ?r = "role E byb (sm_v1 s) (ac_Addr (sa_Sender byb))"
  note K = byb_okD(2) [OF ok] and p = byb_okD(8) [OF ok]
  obtain left out where c: "calcAndSetSenderBalance E byb value ?r ?v = (Inr (whiten ?r value out, okE), byb_put E byb ?a left ?v)"
    "parted (holding E byb ?v ?a) value left out"
    using calcAndSetSenderBalance_run [OF ok l x] by blast
  have acct: "ac_Addr (sa_ContractAcct byb) \<noteq> to_addr"
    using r(1) by (auto simp: may_trade_def role_def committee_def)
  have h: "holding E byb (byb_put E byb ?a left ?v) to_addr = holding E byb ?v to_addr"
    using setBybBalance_run(3) [OF ok p a(1)] a(2) by simp
  let ?s1 = "bybReceipt_onTransfer E byb ?a to_addr (whiten ?r value out) (s\<lparr>sm_v1 := byb_put E byb ?a left ?v\<rparr>)"
  have s1: "sm_v1 ?s1 = byb_put E byb ?a left ?v" by simp
  have "onV (setPayeeBalance E byb to_addr (whiten ?r value out)) ?s1
      = (Inr okE, ?s1\<lparr>sm_v1 := moved E byb to_addr left (whiten ?r value out) ?v\<rparr>)"
    by (rule onV_run) (simp add: s1 setPayeeBalance_run [OF setBybBalance_run(2) [OF ok p] a(1)] h moved_def)
  then have "byb_Transfer E byb to_addr value s = (Inr okE, ?s1\<lparr>sm_v1 := moved E byb to_addr left (whiten ?r value out) ?v\<rparr>)"
    using x a(2) acct r
    by (simp add: byb_Transfer_def checkAddress_run [OF ok] bigD [OF K] onV_run [of "calcAndSetSenderBalance E byb value ?r", OF c(1)]
        may_trade_def Let_def)
  then show ?thesis using c(2) by auto
qed

lemma byb_Transfer_refuses:
  assumes ok: "byb_ok E byb (sm_v1 s)"
  shows "value \<le> 0 \<Longrightarrow> byb_Transfer E byb to_addr value s = (Inr smc_negative, s)"
    "0 < value \<Longrightarrow> to_addr \<in> {ac_Addr (sa_Sender byb), ac_Addr (sa_ContractAcct byb)} \<Longrightarrow>
       byb_Transfer E byb to_addr value s = (Inr (errC ErrCodeInterContractsUnsupportTransToSelf), s)"
    "0 < value \<Longrightarrow> to_addr \<notin> {ac_Addr (sa_Sender byb), ac_Addr (sa_ContractAcct byb)} \<Longrightarrow>
       \<not> may_trade (role E byb (sm_v1 s) to_addr) \<Longrightarrow> byb_Transfer E byb to_addr value s = (Inr (no_transfer ''to''), s)"
    "0 < value \<Longrightarrow> to_addr \<notin> {ac_Addr (sa_Sender byb), ac_Addr (sa_ContractAcct byb)} \<Longrightarrow>
       may_trade (role E byb (sm_v1 s) to_addr) \<Longrightarrow> \<not> may_trade (role E byb (sm_v1 s) (ac_Addr (sa_Sender byb))) \<Longrightarrow>
       byb_Transfer E byb to_addr value s = (Inr (no_transfer ''from''), s)"
    "0 < value \<Longrightarrow> to_addr \<notin> {ac_Addr (sa_Sender byb), ac_Addr (sa_ContractAcct byb)} \<Longrightarrow>
       may_trade (role E byb (sm_v1 s) to_addr) \<Longrightarrow> may_trade (role E byb (sm_v1 s) (ac_Addr (sa_Sender byb))) \<Longrightarrow>
       whole (holding E byb (sm_v1 s) (ac_Addr (sa_Sender byb))) < value \<Longrightarrow>
       byb_Transfer E byb to_addr value s = (Inr (errC ErrCodeInterContractsInsufficientBalance), s)"
  by (auto simp: byb_Transfer_def bigD [OF byb_okD(2) [OF ok]] checkAddress_run [OF ok] may_trade_def smc_negative_def
      onV_def calcAndSetSenderBalance_short [OF ok])

section \<open>The invariant\<close>

text \<open>
  Every holding is well formed and the balance of the token is its whole; the contract's account has one chromo; the
  token is issued.
\<close>

definition byb_inv :: "'db EnvS \<Rightarrow> SmcApi \<Rightarrow> 'db V1 \<Rightarrow> bool" where
  "byb_inv E byb v \<longleftrightarrow> byb_ok E byb v
    \<and> (\<forall>a. plain a \<longrightarrow> list_ok (holding E byb v a) \<and> byb_bal E byb v a = whole (holding E byb v a))
    \<and> length (holding E byb v (ac_Addr (sa_ContractAcct byb))) = 1
    \<and> (\<exists>t. byb_record E byb v = Some t \<and> it_Address t = own_tok byb)"

definition issued :: "'db EnvS \<Rightarrow> SmcApi \<Rightarrow> 'db V1 \<Rightarrow> int" where
  "issued E byb v = (case byb_record E byb v of Some t \<Rightarrow> it_TotalSupply t | None \<Rightarrow> 0)"

text \<open>The invariant holds after the step; supply and balances of the accounts concerned have changed by \<open>d\<close>.\<close>

definition byb_effect :: "'db EnvS \<Rightarrow> SmcApi \<Rightarrow> string set \<Rightarrow> int \<Rightarrow> 'db V1 \<Rightarrow> 'db V1 \<Rightarrow> bool" where
  "byb_effect E byb P d v v' \<longleftrightarrow> byb_inv E byb v' \<and> issued E byb v' = issued E byb v + d
    \<and> (\<forall>S. finite S \<longrightarrow> P \<subseteq> S \<longrightarrow> (\<forall>a \<in> S. plain a) \<longrightarrow> sum (byb_bal E byb v') S = sum (byb_bal E byb v) S + d)"

lemma byb_invD:
  assumes "byb_inv E byb v"
  shows "byb_ok E byb v" "plain a \<Longrightarrow> list_ok (holding E byb v a)" "plain a \<Longrightarrow> byb_bal E byb v a = whole (holding E byb v a)"
    "length (holding E byb v (ac_Addr (sa_ContractAcct byb))) = 1"
  using assms by (simp_all add: byb_inv_def)

lemma inv_put:
  assumes "byb_inv E byb v" "plain a" "list_ok l" "a = ac_Addr (sa_ContractAcct byb) \<Longrightarrow> length l = 1"
  shows "byb_inv E byb (byb_put E byb a l v)" "issued E byb (byb_put E byb a l v) = issued E byb v"
  using assms setBybBalance_run [OF byb_invD(1) [OF assms(1)] assms(2), where l = l] byb_okD(9) [OF byb_invD(1) [OF assms(1)]]
  by (auto simp: byb_inv_def issued_def)

lemma total_bal:
  assumes "byb_inv E byb v" "\<forall>a \<in> S. plain a"
  shows "sum (byb_bal E byb v) S = (\<Sum>a \<in> S. whole (holding E byb v a))"
  by (rule sum.cong) (use assms in \<open>auto simp: byb_inv_def\<close>)

lemma inv_put_total:
  assumes "byb_inv E byb v" "list_ok l" "a = ac_Addr (sa_ContractAcct byb) \<Longrightarrow> length l = 1"
    and "finite S" "\<forall>b \<in> S. plain b" "a \<in> S"
  shows "sum (byb_bal E byb (byb_put E byb a l v)) S = sum (byb_bal E byb v) S - whole (holding E byb v a) + whole l"
proof -
  have a: "plain a" using assms(5,6) by blast
  have "byb_inv E byb (byb_put E byb a l v)" using inv_put [OF assms(1) a assms(2,3)] by blast
  then show ?thesis
    using holdings.total_put [OF byb_invD(1) [OF assms(1)] assms(4-6), of whole l] total_bal assms(1,5) by metis
qed

lemma effect_two_puts:
  assumes v: "byb_inv E byb v" and a: "plain a" "plain b" "a \<noteq> b" and l: "list_ok la" "list_ok lb"
    and c: "a = ac_Addr (sa_ContractAcct byb) \<Longrightarrow> length la = 1" "b = ac_Addr (sa_ContractAcct byb) \<Longrightarrow> length lb = 1"
    and w: "whole la + whole lb = whole (holding E byb v a) + whole (holding E byb v b)"
  shows "byb_effect E byb {a, b} 0 v (byb_put E byb b lb (byb_put E byb a la v))"
proof -
  note i1 = inv_put [OF v a(1) l(1) c(1)] note i2 = inv_put [OF i1(1) a(2) l(2) c(2)]
  have "sum (byb_bal E byb (byb_put E byb b lb (byb_put E byb a la v))) S = sum (byb_bal E byb v) S"
    if S: "finite S" "{a, b} \<subseteq> S" "\<forall>x \<in> S. plain x" for S
  proof -
    have ab: "a \<in> S" "b \<in> S" using S(2) by auto
    show ?thesis
      using holdings.total_move [OF byb_invD(1) [OF v] S(1,3) ab a(3), of whole la lb] w total_bal [OF v S(3)] total_bal [OF i2(1) S(3)]
      by simp
  qed
  then show ?thesis using i1 i2 by (auto simp: byb_effect_def)
qed

lemma inv_table:
  assumes "byb_inv E byb v" "same_table E byb v v'" "byb_record E byb v' = Some t" "it_Address t = own_tok byb"
  shows "byb_inv E byb v'" "finite S \<Longrightarrow> \<forall>a \<in> S. plain a \<Longrightarrow> sum (byb_bal E byb v') S = sum (byb_bal E byb v) S"
  using assms byb_okD(9) [OF byb_invD(1) [OF assms(1)]] by (auto simp: byb_inv_def same_table_def intro: sum.cong)

lemma effect_table:
  assumes "byb_inv E byb v" "same_table E byb v v'" "byb_record E byb v' = byb_record E byb v"
  shows "byb_effect E byb {} 0 v v'"
proof -
  obtain t where t: "byb_record E byb v = Some t" "it_Address t = own_tok byb" using assms(1) by (auto simp: byb_inv_def)
  show ?thesis using inv_table [OF assms(1,2) _ t(2)] assms(3) t(1) by (auto simp: byb_effect_def issued_def)
qed

lemma effect_self: "byb_inv E byb v \<Longrightarrow> byb_effect E byb {} 0 v v"
  by (simp add: byb_effect_def)

lemma effect_trans:
  assumes "byb_effect E byb P d v v1" "byb_effect E byb Q e v1 v2" "P \<union> Q \<subseteq> R"
  shows "byb_effect E byb R (d + e) v v2"
  using assms by (auto simp: byb_effect_def)

lemma byb_effect_mono: "byb_effect E byb P d v v' \<Longrightarrow> P \<subseteq> Q \<Longrightarrow> byb_effect E byb Q d v v'"
  by (auto simp: byb_effect_def)

text \<open>The supply and the contract's account change together, whichever is written first.\<close>

lemma effect_supply:
  assumes v: "byb_inv E byb v" and t: "byb_record E byb v = Some t"
    and h: "holding E byb v (ac_Addr (sa_ContractAcct byb)) = [b]" "0 \<le> Value b + d"
  defines "l \<equiv> [b\<lparr>Value := Value b + d\<rparr>]" and "t' \<equiv> t\<lparr>it_TotalSupply := it_TotalSupply t + d\<rparr>" and "a \<equiv> ac_Addr (sa_ContractAcct byb)"
  shows "byb_effect E byb {a} d v (byb_put E byb a l (put_token E byb t' v))"
    "byb_effect E byb {a} d v (put_token E byb t' (byb_put E byb a l v))"
proof -
  note ok = byb_invD(1) [OF v]
  have a: "plain a" using byb_okD(9) [OF ok] by (simp add: a_def)
  have ad: "it_Address t' = own_tok byb" using v t by (simp add: byb_inv_def t'_def)
  have l: "list_ok l" using h(2) by (simp add: l_def list_ok_def)
  have one: "length l = 1" by (simp add: l_def)
  note pt = put_token_run [OF ok ad] note it = inv_table [OF v pt(2,3) ad]
  note ip = inv_put [OF v a l one] and ip2 = inv_put [OF it(1) a l one]
  note pt2 = put_token_run [OF byb_invD(1) [OF ip(1)] ad] note it2 = inv_table [OF ip(1) pt2(2,3) ad]
  have h2: "holding E byb (put_token E byb t' v) a = [b]" using pt(2) h(1) a by (simp add: same_table_def a_def)
  have w: "whole l = Value b + d" by (simp add: l_def)
  have sum1: "sum (byb_bal E byb (byb_put E byb a l (put_token E byb t' v))) S = sum (byb_bal E byb v) S + d"
    if "finite S" "{a} \<subseteq> S" "\<forall>x \<in> S. plain x" for S
    using inv_put_total [OF it(1) l one that(1,3)] it(2) [OF that(1,3)] that(2) h2 w by simp
  have sum2: "sum (byb_bal E byb (put_token E byb t' (byb_put E byb a l v))) S = sum (byb_bal E byb v) S + d"
    if "finite S" "{a} \<subseteq> S" "\<forall>x \<in> S. plain x" for S
    using inv_put_total [OF v l one that(1,3)] it2(2) [OF that(1,3)] that(2) h(1) w by (simp add: a_def)
  have s: "issued E byb v = it_TotalSupply t" "issued E byb (put_token E byb t' v) = it_TotalSupply t + d"
    "issued E byb (put_token E byb t' (byb_put E byb a l v)) = it_TotalSupply t + d"
    using pt(3) pt2(3) t by (simp_all add: issued_def t'_def)
  show "byb_effect E byb {a} d v (byb_put E byb a l (put_token E byb t' v))"
    using ip2 sum1 s unfolding byb_effect_def by simp
  show "byb_effect E byb {a} d v (put_token E byb t' (byb_put E byb a l v))"
    using it2(1) sum2 s unfolding byb_effect_def by simp
qed

end
