(* ===== verification/V1_Byb_Effects.thy ===== *)
theory V1_Byb_Effects
  imports V1_Byb_Calls
begin

text \<open>
  What every method of the BYB token does when it succeeds: holdings move, the balances of the accounts concerned and
  the supply change by the same amount, and the invariant stays. \<open>Init\<close> and \<open>SetOwner\<close>, which write the
  record of the contract, are not among them.
\<close>

section \<open>Transfers\<close>

lemma role_committee: "role E byb v a = addressRole_Committee \<longleftrightarrow> a \<in> committee byb"
  by (simp add: role_def addressRole_Committee_def addressRole_StockHolder_def addressRole_Hole_def addressRole_User_def)

lemma not_OK [simp]: "\<not> isOK (no_transfer which)" "\<not> isOK smc_negative"
  by (simp_all add: no_transfer_def smc_negative_def)

lemma acct_committee: "ac_Addr (sa_ContractAcct byb) \<in> committee byb"
  by (simp add: committee_def)

lemma moved_effect:
  assumes v: "byb_inv E byb v" and a: "plain to_addr" "to_addr \<noteq> ac_Addr (sa_Sender byb)"
    and c: "ac_Addr (sa_Sender byb) \<notin> committee byb" "to_addr \<notin> committee byb"
    and p: "parted (holding E byb v (ac_Addr (sa_Sender byb))) value left out"
    and o: "list_ok gift" "whole gift = value"
  shows "byb_effect E byb {ac_Addr (sa_Sender byb), to_addr} 0 v (moved E byb to_addr left gift v)"
  unfolding moved_def
proof (rule effect_two_puts [OF v byb_okD(8) [OF byb_invD(1) [OF v]] a(1)])
  note K = byb_okD(2) [OF byb_invD(1) [OF v]]
  show "ac_Addr (sa_Sender byb) \<noteq> to_addr" using a(2) by simp
  show "list_ok left" using p by (simp add: parted_def)
  show "list_ok (merge_byb (base1 E) (holding E byb v to_addr) gift)"
    by (rule merge_byb_adds(2) [OF K byb_invD(2) [OF v a(1)] o(1)])
  show "whole left + whole (merge_byb (base1 E) (holding E byb v to_addr) gift) =
      whole (holding E byb v (ac_Addr (sa_Sender byb))) + whole (holding E byb v to_addr)"
    using parted_whole [OF p] merge_whole [OF K] o(2) by simp
qed (use c acct_committee in metis)+

lemma moved_holding:
  assumes v: "byb_ok E byb v" and a: "plain to_addr" "plain b"
  shows "holding E byb (moved E byb to_addr left gift v) b = (if b = to_addr then merge_byb (base1 E) (holding E byb v to_addr) gift
    else if b = ac_Addr (sa_Sender byb) then left else holding E byb v b)"
  unfolding moved_def
  by (simp add: setBybBalance_run(3) [OF setBybBalance_run(2) [OF v byb_okD(8) [OF v]] a] setBybBalance_run(3) [OF v byb_okD(8) [OF v] a(2)])

lemma Transfer_effect:
  assumes v: "byb_inv E byb (sm_v1 s)" and a: "plain to_addr" and r: "byb_Transfer E byb to_addr value s = (Inr e, s')" "isOK e"
  shows "byb_effect E byb {ac_Addr (sa_Sender byb), to_addr} 0 (sm_v1 s) (sm_v1 s')"
proof -
  let ?v = "sm_v1 s" and ?a = "ac_Addr (sa_Sender byb)"
  note ok = byb_invD(1) [OF v] note no = byb_Transfer_refuses [OF ok, of "value" to_addr]
  have x: "0 < value" using no(1) r by (cases "value \<le> 0") auto
  have n: "to_addr \<notin> {?a, ac_Addr (sa_ContractAcct byb)}" using no(2) [OF x] r by auto
  have t: "may_trade (role E byb ?v to_addr)" by (rule ccontr) (use no(3) [OF x n] r in auto)
  have t2: "may_trade (role E byb ?v ?a)" by (rule ccontr) (use no(4) [OF x n t] r in auto)
  have w: "value \<le> whole (holding E byb ?v ?a)" by (rule ccontr) (use no(5) [OF x n t t2] r in auto)
  have n': "to_addr \<noteq> ?a" using n by simp
  obtain left out where m: "parted (holding E byb ?v ?a) value left out"
    "sm_v1 s' = moved E byb to_addr left (whiten (role E byb ?v ?a) value out) ?v"
    using byb_Transfer_moves [OF ok byb_invD(2) [OF v byb_okD(8) [OF ok]] x w a n' t t2] r(1) by auto
  have c: "?a \<notin> committee byb" "to_addr \<notin> committee byb" using t t2 by (auto simp: may_trade_def role_committee)
  have o: "list_ok out" "whole out = value" using m(1) by (simp_all add: parted_def)
  show ?thesis
    unfolding m(2) by (rule moved_effect [OF v a n' c m(1)]) (use whiten_ok [OF o] x in auto)
qed

lemma checkAndSet_run:
  assumes ok: "byb_ok E byb v"
  shows "checkAndSetSenderChromoBybBalance E byb c value v = (let a = ac_Addr (sa_Sender byb); r = role E byb v a in
    if a \<in> committee byb then (Inr ([], no_transfer ''from''), v)
    else case chromo_value c (holding E byb v a) of
      None \<Rightarrow> (Inr ([], errC ErrCodeInterContractsInsufficientBalance), v)
    | Some n \<Rightarrow> if n < value then (Inr ([], errC ErrCodeInterContractsInsufficientBalance), v)
      else (Inr ([\<lparr>Chromo = if r = addressRole_Hole then white_Chromo else c, Value = value\<rparr>], okE),
        byb_put E byb a (take_chromo (base1 E) c value (r = addressRole_StockHolder) (holding E byb v a)) v))"
  by (simp add: checkAndSetSenderChromoBybBalance_def checkAddress_run [OF ok] role_committee getBybBalance_run [OF ok byb_okD(8) [OF ok]]
      bigD [OF byb_okD(2) [OF ok]] setBybBalance_run(1) [OF ok byb_okD(8) [OF ok]] Let_def split: option.split)

lemma TransferByChromo_effect:
  assumes v: "byb_inv E byb (sm_v1 s)" and a: "plain to_addr"
    and r: "TransferByChromo E byb c to_addr value s = (Inr e, s')" "isOK e"
  shows "byb_effect E byb {ac_Addr (sa_Sender byb), to_addr} 0 (sm_v1 s) (sm_v1 s')"
proof -
  let ?v = "sm_v1 s" and ?a = "ac_Addr (sa_Sender byb)"
  note ok = byb_invD(1) [OF v] note pa = byb_okD(8) [OF ok]
  note run = TransferByChromo_def Num_Cmp_sign [OF byb_okD(1) [OF ok]] checkAddress_run [OF ok] role_committee owns_run [OF ok a] Let_def
  have g: "0 < value" "?a \<noteq> to_addr" "to_addr \<notin> committee byb"
    using r by (auto simp: run no_transfer_def split: if_splits)
  obtain l v1 e1 where q: "checkAndSetSenderChromoBybBalance E byb c value ?v = (Inr (l, e1), v1)" "isOK e1"
    "onV (setPayeeBalance E byb to_addr l) (bybReceipt_onTransfer E byb ?a to_addr l (s\<lparr>sm_v1 := v1\<rparr>)) = (Inr e, s')"
  proof -
    obtain q1 v1 where c: "checkAndSetSenderChromoBybBalance E byb c value ?v = (q1, v1)" by fastforce
    show thesis using r g that c by (cases q1) (auto simp: run onV_def [of "checkAndSetSenderChromoBybBalance E byb c value"] split: if_splits)
  qed
  from q(1,2) obtain x where h: "?a \<notin> committee byb" "chromo_value c (holding E byb ?v ?a) = Some x" "value \<le> x"
    "l = [\<lparr>Chromo = if role E byb ?v ?a = addressRole_Hole then white_Chromo else c, Value = value\<rparr>]"
    "v1 = byb_put E byb ?a (take_chromo (base1 E) c value (role E byb ?v ?a = addressRole_StockHolder) (holding E byb ?v ?a)) ?v"
    unfolding checkAndSet_run [OF ok] Let_def by (auto simp: no_transfer_def split: if_splits option.splits)
  have p: "parted (holding E byb ?v ?a) value (take_chromo (base1 E) c value (role E byb ?v ?a = addressRole_StockHolder) (holding E byb ?v ?a))
      [\<lparr>Chromo = c, Value = value\<rparr>]"
    by (rule take_chromo_parted [OF byb_okD(2) [OF ok] byb_invD(2) [OF v pa] h(2)]) (use g h(3) in simp_all)
  have ok1: "byb_ok E byb v1" unfolding h(5) by (rule setBybBalance_run(2) [OF ok pa])
  have "sm_v1 s' = byb_put E byb to_addr (merge_byb (base1 E) (holding E byb v1 to_addr) l) v1"
    using q(3) by (auto simp: onV_def setPayeeBalance_run [OF ok1 a])
  also have "holding E byb v1 to_addr = holding E byb ?v to_addr"
    unfolding h(5) using setBybBalance_run(3) [OF ok pa a] g(2) by simp
  finally have m: "sm_v1 s' = moved E byb to_addr (take_chromo (base1 E) c value (role E byb ?v ?a = addressRole_StockHolder) (holding E byb ?v ?a)) l ?v"
    by (simp add: moved_def h(5))
  show ?thesis unfolding m by (rule moved_effect [OF v a _ h(1) g(3) p]) (use g h(4) in \<open>auto simp: list_ok_def\<close>)
qed

section \<open>Black holes, stock holders, price\<close>

lemma NewBlackHole_effect:
  assumes v: "byb_inv E byb (sm_v1 s)" and r: "NewBlackHole E byb a s = (Inr e, s')" "isOK e"
  shows "byb_effect E byb {} 0 (sm_v1 s) (sm_v1 s')"
proof -
  note ok = byb_invD(1) [OF v]
  obtain h where h: "getBlackHole E byb (sm_v1 s) = Inr (Inr h)"
    using ok by (auto simp: getBlackHole_def read_view [OF ok] byb_ok_def readable_def)
  have "updateBlackHole E byb a (sm_v1 s) = (Inr okE, put_holes E byb (list_of h @ [a]) (sm_v1 s))"
    by (simp add: updateBlackHole_def h put_holes_run(1) [OF ok])
  then have "sm_v1 s' = put_holes E byb (list_of h @ [a]) (sm_v1 s)"
    using r by (auto simp: NewBlackHole_def byb_owner_def checkAddress_run [OF ok] onV_def split: if_splits)
  then show ?thesis using effect_table [OF v] put_holes_run(2,5) [OF ok] by simp
qed

lemma DelStockHolder_effect:
  assumes v: "byb_inv E byb (sm_v1 s)" and a: "plain a" and r: "DelStockHolder E byb a s = (Inr e, s')" "isOK e"
  shows "byb_effect E byb {} 0 (sm_v1 s) (sm_v1 s')"
proof -
  note ok = byb_invD(1) [OF v]
  obtain h where h: "getBybStockHolders E byb (sm_v1 s) = Inr (Inr h)"
    using ok by (auto simp: getBybStockHolders_def read_view [OF ok] byb_ok_def readable_def)
  have d: "delStockHolder E byb a (sm_v1 s) = (case h of None \<Rightarrow> (Inr (lowE ''Failed to get stock holders list''), sm_v1 s)
     | Some l \<Rightarrow> if a \<notin> set l then (Inr (errC ErrCodeInterContractsBybHolderNotFound), sm_v1 s)
         else (Inr okE, put_holders E byb (remove1 a l) (sm_v1 s)))"
    by (simp add: delStockHolder_def h put_holders_run(1) [OF ok] split: option.split)
  obtain l where "sm_v1 s' = put_holders E byb l (sm_v1 s)"
    using r by (auto simp: DelStockHolder_def byb_owner_def getBybBalance_run [OF ok a] onV_def d split: if_splits option.splits)
  then show ?thesis using effect_table [OF v] put_holders_run(2,5) [OF ok] by simp
qed

lemma SetGasPrice_effect:
  assumes v: "byb_inv E byb (sm_v1 s)" and r: "byb_SetGasPrice E byb w s = (Inr e, s')" "isOK e"
  shows "byb_effect E byb {} 0 (sm_v1 s) (sm_v1 s')"
proof -
  note ok = byb_invD(1) [OF v]
  obtain t where t: "byb_record E byb (sm_v1 s) = Some t" "it_Address t = own_tok byb" using v by (auto simp: byb_inv_def)
  let ?t = "t\<lparr>it_GasPrice := w\<rparr>"
  have t': "it_Address ?t = own_tok byb" using t(2) by simp
  have "byb_setGasPrice E byb w (sm_v1 s) = (Inr okE, put_token E byb ?t (sm_v1 s))"
    by (simp add: byb_setGasPrice_def record_run [OF ok] t(1) put_token_run(1) [OF ok t'])
  then have "sm_v1 s' = put_token E byb ?t (sm_v1 s)"
    using r by (cases "ts_GetBaseGasPrice (base1 E) (sa_State byb) (sm_v1 s)")
      (auto simp: byb_SetGasPrice_def byb_owner_def onV_def split: if_splits)
  then show ?thesis
    using inv_table [OF v put_token_run(2,3) [OF ok t'] t'] put_token_run(3) [OF ok t'] t(1) by (simp add: byb_effect_def issued_def)
qed

section \<open>Supply\<close>

lemma contract_account:
  assumes "byb_inv E byb v"
  obtains b where "holding E byb v (ac_Addr (sa_ContractAcct byb)) = [b]" "0 \<le> Value b"
proof -
  obtain b where b: "holding E byb v (ac_Addr (sa_ContractAcct byb)) = [b]"
    using byb_invD(4) [OF assms] by (auto simp: length_Suc_conv)
  then show thesis using that byb_invD(2) [OF assms byb_okD(9) [OF byb_invD(1) [OF assms]]] by (simp add: list_ok_def)
qed

lemma AddSupply_effect:
  assumes v: "byb_inv E byb (sm_v1 s)" and r: "byb_AddSupply E byb value s = (Inr e, s')" "isOK e"
  shows "byb_effect E byb {ac_Addr (sa_ContractAcct byb)} value (sm_v1 s) (sm_v1 s')"
proof -
  let ?v = "sm_v1 s" and ?a = "ac_Addr (sa_ContractAcct byb)"
  note ok = byb_invD(1) [OF v] note pa = byb_okD(9) [OF ok]
  obtain t where t: "byb_record E byb ?v = Some t" "it_Address t = own_tok byb" using v by (auto simp: byb_inv_def)
  obtain b where b: "holding E byb ?v ?a = [b]" "0 \<le> Value b" by (rule contract_account [OF v])
  let ?t = "t\<lparr>it_TotalSupply := it_TotalSupply t + value\<rparr>"
  have t': "it_Address ?t = own_tok byb" using t(2) by simp
  note pt = put_token_run [OF ok t']
  have ok1: "byb_ok E byb (put_token E byb ?t ?v)" using pt(2) by (simp add: same_table_def)
  have h1: "holding E byb (put_token E byb ?t ?v) ?a = [b]" using pt(2) pa b(1) by (simp add: same_table_def)
  have x: "0 < value" using r by (auto simp: byb_AddSupply_def Num_Cmp_sign [OF byb_okD(1) [OF ok]] split: if_splits)
  have "sm_v1 s' = byb_put E byb ?a [b\<lparr>Value := Value b + value\<rparr>] (put_token E byb ?t ?v)"
    using r x by (auto simp: byb_AddSupply_def byb_owner_def byb_addSupply_def Num_Cmp_sign [OF byb_okD(1) [OF ok]] record_run [OF ok] t(1)
        bigD [OF byb_okD(2) [OF ok]] pt(1) getBybBalance_run [OF ok1 pa] h1
        onV_def setBybBalance_run(1) [OF ok1 pa] Let_def split: if_splits)
  then show ?thesis using effect_supply(1) [OF v t(1) b(1), of "value"] b(2) x by simp
qed

lemma Burn_effect:
  assumes v: "byb_inv E byb (sm_v1 s)" and r: "byb_Burn E byb value s = (Inr e, s')" "isOK e"
  shows "byb_effect E byb {ac_Addr (sa_ContractAcct byb)} (- value) (sm_v1 s) (sm_v1 s')"
proof -
  let ?v = "sm_v1 s" and ?a = "ac_Addr (sa_ContractAcct byb)"
  note ok = byb_invD(1) [OF v] note pa = byb_okD(9) [OF ok]
  obtain t where t: "byb_record E byb ?v = Some t" "it_Address t = own_tok byb" using v by (auto simp: byb_inv_def)
  obtain b where b: "holding E byb ?v ?a = [b]" "0 \<le> Value b" by (rule contract_account [OF v])
  let ?t = "t\<lparr>it_TotalSupply := it_TotalSupply t - value\<rparr>" and ?v1 = "byb_put E byb ?a [b\<lparr>Value := Value b - value\<rparr>] ?v"
  have t': "it_Address ?t = own_tok byb" using t(2) by simp
  note pt = put_token_run [OF setBybBalance_run(2) [OF ok pa] t', of "[b\<lparr>Value := Value b - value\<rparr>]"]
  have x: "0 < value" using r by (auto simp: byb_Burn_def Num_Cmp_sign [OF byb_okD(1) [OF ok]] split: if_splits)
  have "value \<le> Value b \<and> sm_v1 s' = put_token E byb ?t ?v1"
    using r x by (auto simp: byb_Burn_def byb_owner_def byb_burn_def Num_Cmp_sign [OF byb_okD(1) [OF ok]] record_run [OF ok] t(1)
        bigD [OF byb_okD(2) [OF ok]] getBybBalance_run [OF ok pa] b(1) onV_def setBybBalance_run(1) [OF ok pa] pt(1) Let_def split: if_splits)
  then show ?thesis using effect_supply(2) [OF v t(1) b(1), of "- value"] by simp
qed

section \<open>Stock holders and chromos\<close>

text \<open>A new chromo changes nothing in the table.\<close>

lemma makeByb_run:
  assumes ok: "byb_ok E byb v" and r: "makeByb E byb value v = (Inr (b, e), v')"
  shows "same_table E byb v v'" "byb_record E byb v' = byb_record E byb v" "holders E byb v' = holders E byb v"
    "holes E byb v' = holes E byb v" "isOK e \<Longrightarrow> Value b = value"
proof -
  have self: "same_table E byb v v" using ok by (simp add: same_table_def)
  have "same_table E byb v v' \<and> byb_record E byb v' = byb_record E byb v \<and> holders E byb v' = holders E byb v
    \<and> holes E byb v' = holes E byb v \<and> (isOK e \<longrightarrow> Value b = value)"
    using r put_chromo_run [OF ok] self
    by (auto simp: makeByb_def calcNewChromo_def getCurChromo_def read_view [OF ok] Let_def split: if_splits)
  then show "same_table E byb v v'" "byb_record E byb v' = byb_record E byb v" "holders E byb v' = holders E byb v"
    "holes E byb v' = holes E byb v" "isOK e \<Longrightarrow> Value b = value" by blast+
qed

text \<open>The holding that a stock holder is to have, with nothing changed in the table yet.\<close>

lemma makeStockHolder_run:
  assumes v: "byb_inv E byb v" and a: "plain a" and x: "0 < value"
    and r: "makeStockHolderAndBybBalance E byb a value v = (Inr (l, e), v')" "isOK e" "l \<noteq> []"
  shows "same_table E byb v v' \<and> byb_record E byb v' = byb_record E byb v \<and> a \<notin> committee byb
    \<and> list_ok l \<and> whole l = whole (holding E byb v a) + value"
proof -
  note ok = byb_invD(1) [OF v] note K = byb_okD(2) [OF ok]
  have la: "list_ok (holding E byb v a)" by (rule byb_invD(2) [OF v a])
  obtain h where h: "getBybStockHolders E byb v = Inr (Inr h)"
    using ok by (auto simp: getBybStockHolders_def read_view [OF ok] byb_ok_def readable_def)
  note run = makeStockHolderAndBybBalance_def checkAddress_run [OF ok] role_committee h getBybBalance_run [OF ok a] Let_def
  have c: "a \<notin> committee byb" using r by (auto simp: run split: if_splits)
  have fin: "same_table E byb v v1 \<Longrightarrow> byb_record E byb v1 = byb_record E byb v \<Longrightarrow>
      same_table E byb v (put_holders E byb q v1) \<and> byb_record E byb (put_holders E byb q v1) = byb_record E byb v" for v1 q
    using put_holders_run(2,5) [of E byb v1 q] by (simp add: same_table_def)
  show ?thesis
  proof (cases "holding E byb v a")
    case Nil
    obtain q v1 where m: "makeByb E byb value v = (q, v1)" by fastforce
    obtain b e1 where q: "q = Inr (b, e1)" "isOK e1"
      using r c Nil m by (cases q) (auto simp: run split: if_splits)
    note mb = makeByb_run [OF ok m [unfolded q(1)]]
    have ok1: "byb_ok E byb v1" using mb(1) by (simp add: same_table_def)
    have "l = [b] \<and> (v' = v1 \<or> (\<exists>q. v' = put_holders E byb q v1))"
      using r c Nil m q put_holders_run(1) [OF ok1] by (auto simp: run split: if_splits)
    then show ?thesis using c mb(1,2) mb(5) [OF q(2)] fin [OF mb(1,2)] Nil x by (auto simp: list_ok_def)
  next
    case (Cons b rest)
    have "l = \<lparr>Chromo = Chromo b, Value = Value b + value\<rparr> # rest \<and> (v' = v \<or> (\<exists>q. v' = put_holders E byb q v))"
      using r c Cons put_holders_run(1) [OF ok] by (auto simp: run bigD [OF K] split: if_splits)
    moreover have "same_table E byb v v" using ok by (simp add: same_table_def)
    ultimately show ?thesis using c Cons la x fin [of v] by (auto simp: list_ok_def)
  qed
qed

lemma NewStockHolder_effect:
  assumes v: "byb_inv E byb (sm_v1 s)" and a: "plain a" and r: "NewStockHolder E byb a value s = (Inr (c, e), s')" "isOK e"
  shows "byb_effect E byb {a, ac_Addr (sa_ContractAcct byb)} 0 (sm_v1 s) (sm_v1 s')"
proof -
  let ?v = "sm_v1 s" and ?o = "ac_Addr (sa_ContractAcct byb)"
  note ok = byb_invD(1) [OF v] note po = byb_okD(9) [OF ok] note K = byb_okD(2) [OF ok]
  obtain b where b: "holding E byb ?v ?o = [b]" "0 \<le> Value b" by (rule contract_account [OF v])
  have bal: "byb_bal E byb ?v ?o = Value b" using byb_invD(3) [OF v po] b(1) by simp
  note run = NewStockHolder_def Num_Cmp_sign [OF byb_okD(1) [OF ok]] balance_run [OF ok po] bal
  have x: "0 < value" "value < Value b" using r by (auto simp: run split: if_splits)
  obtain q v1 where m: "makeStockHolderAndBybBalance E byb a value ?v = (q, v1)" by fastforce
  obtain l e1 where q: "q = Inr (l, e1)" "isOK e1"
    using r x m by (cases q) (auto simp: run onV_def split: if_splits)
  obtain q2 s2 where t: "setOwnerAndStockHolderBalance E byb a l value (Value b) (s\<lparr>sm_v1 := v1\<rparr>) = (q2, s2)" by fastforce
  obtain e2 where q2: "q2 = Inr e2" "isOK e2" "l \<noteq> []" "sm_v1 s' = sm_v1 s2"
    using r x m q t by (cases q2) (auto simp: run onV_def split: if_splits list.splits)
  have k: "same_table E byb ?v v1" "byb_record E byb v1 = byb_record E byb ?v" "a \<notin> committee byb" "list_ok l"
    "whole l = whole (holding E byb ?v a) + value"
    using makeStockHolder_run [OF v a x(1) m [unfolded q(1)] q(2) q2(3)] by blast+
  have ao: "a \<noteq> ?o" using k(3) acct_committee by metis
  have e1: "byb_effect E byb {} 0 ?v v1" by (rule effect_table [OF v k(1,2)])
  have v1: "byb_inv E byb v1" using e1 by (simp add: byb_effect_def)
  note ok1 = byb_invD(1) [OF v1]
  have ok2: "byb_ok E byb (byb_put E byb a l v1)" by (rule setBybBalance_run(2) [OF ok1 a])
  have h1: "holding E byb v1 ?o = [b]" "holding E byb v1 a = holding E byb ?v a"
    using k(1) po a b(1) by (simp_all add: same_table_def)
  have h2: "holding E byb (byb_put E byb a l v1) ?o = [b]" using setBybBalance_run(3) [OF ok1 a po] h1(1) ao by simp
  have "sm_v1 s2 = byb_put E byb ?o [b\<lparr>Value := Value b - value\<rparr>] (byb_put E byb a l v1)"
    using t q2(1,2) by (auto simp: setOwnerAndStockHolderBalance_def onV_def setBybBalance_run(1) [OF ok1 a] getBybBalance_run [OF ok2 po] h2
        setBybBalance_run(1) [OF ok2 po] bigD [OF K] Let_def split: if_splits)
  moreover have "byb_effect E byb {a, ?o} 0 v1 (byb_put E byb ?o [b\<lparr>Value := Value b - value\<rparr>] (byb_put E byb a l v1))"
    by (rule effect_two_puts [OF v1 a po ao k(4)]) (use x h1 k(5) ao in \<open>simp_all add: list_ok_def\<close>)
  ultimately show ?thesis using effect_trans [OF e1, of "{a, ?o}" 0] q2(4) by simp
qed

text \<open>
  The receiver of a chromo holds none of it yet, which the code takes for granted.
\<close>

lemma ChangeChromoOwnership_effect:
  assumes v: "byb_inv E byb (sm_v1 s)" and a: "plain a" and n: "c \<notin> Chromo ` set (holding E byb (sm_v1 s) a)"
    and r: "ChangeChromoOwnership E byb c a s = (Inr e, s')" "isOK e"
  shows "byb_effect E byb {ac_Addr (sa_Sender byb), a} 0 (sm_v1 s) (sm_v1 s')"
proof -
  let ?v = "sm_v1 s" and ?f = "ac_Addr (sa_Sender byb)"
  note ok = byb_invD(1) [OF v] note pf = byb_okD(8) [OF ok]
  note run = ChangeChromoOwnership_def checkAddress_run [OF ok] owns_run [OF ok pf] Let_def
  have g: "?f \<noteq> a" "role E byb ?v ?f = addressRole_StockHolder" "role E byb ?v a = addressRole_StockHolder"
    "c \<in> Chromo ` set (holding E byb ?v ?f)" "changeChromoOwnership E byb ?f a c s = (Inr e, s')"
    using r by (auto simp: run split: if_splits)
  have cm: "?f \<notin> committee byb" "a \<notin> committee byb"
    using g(2,3) role_committee [of E byb ?v ?f] role_committee [of E byb ?v a]
    by (auto simp: addressRole_StockHolder_def addressRole_Committee_def)
  obtain b where b: "find (\<lambda>bybt. Chromo bybt = c) (holding E byb ?v ?f) = Some b"
    using g(4) by (cases "find (\<lambda>bybt. Chromo bybt = c) (holding E byb ?v ?f)") (auto simp: find_None_iff)
  have bm: "b \<in> set (holding E byb ?v ?f)" "Chromo b = c" using b by (auto simp: find_Some_iff)
  let ?l = "remove1 b (holding E byb ?v ?f)"
  note lf = byb_invD(2) [OF v pf] and lt = byb_invD(2) [OF v a]
  have p: "parted (holding E byb ?v ?f) (Value b) ?l [b]" by (rule remove_parted [OF lf bm(1)])
  have ok1: "byb_ok E byb (byb_put E byb ?f ?l ?v)" by (rule setBybBalance_run(2) [OF ok pf])
  have h: "holding E byb (byb_put E byb ?f ?l ?v) a = holding E byb ?v a" using setBybBalance_run(3) [OF ok pf a] g(1) by simp
  have "sm_v1 s' = byb_put E byb a (holding E byb ?v a @ [b]) (byb_put E byb ?f ?l ?v)"
    using g(5) by (auto simp: changeChromoOwnership_def getBybBalance_run [OF ok pf] b onV_def setBybBalance_run(1) [OF ok pf]
        getBybBalance_run [OF ok1 a] h setBybBalance_run(1) [OF ok1 a])
  moreover have "byb_effect E byb {?f, a} 0 ?v (byb_put E byb a (holding E byb ?v a @ [b]) (byb_put E byb ?f ?l ?v))"
  proof (rule effect_two_puts [OF v pf a g(1)])
    show "list_ok ?l" using p by (simp add: parted_def)
    show "list_ok (holding E byb ?v a @ [b])" using lt lf n bm by (auto simp: list_ok_def nonneg_def)
    show "whole ?l + whole (holding E byb ?v a @ [b]) = whole (holding E byb ?v ?f) + whole (holding E byb ?v a)"
      using parted_whole [OF p] by simp
  qed (use cm acct_committee in metis)+
  ultimately show ?thesis by simp
qed

end
