(* ===== verification/V1_Byb_Model.thy ===== *)
theory V1_Byb_Model
  imports V1_Byb_Effects V1_Model
begin

text \<open>
  A concrete setting for the witnesses of the BYB token: a token of which the contract's account holds all but 1000 units,
  which a user holds in two chromos.
\<close>

definition byb_codec :: "bybBalance list codec" where
  "byb_codec = \<lparr>marshal = (\<lambda>l. Inr (enc_entries (map (\<lambda>b. (Chromo b, bytes_of_string (dec_of_int (Value b)))) l))),
     unmarshal = (\<lambda>b. Inr (map (\<lambda>(c, v). \<lparr>Chromo = c, Value = int_of_dec (string_of_bytes v)\<rparr>) (dec_entries (length b) b)))\<rparr>"

lemma same_entries: "map (\<lambda>b. \<lparr>Chromo = Chromo b, Value = Value b\<rparr>) l = l"
  by (induction l) simp_all

lemma byb_codec_ok [simp]: "codec_ok byb_codec"
  unfolding codec_ok_def byb_codec_def codec.simps by (simp add: comp_def same_entries del: enc_entries.simps)

definition receipt_codec :: "receipt_body codec" where
  "receipt_codec = \<lparr>marshal = (\<lambda>_. Inr [1]), unmarshal = (\<lambda>_. Inl ''unsupported'')\<rparr>"

definition modelS :: "kvs EnvS" where
  "modelS = \<lparr>base1 = model1, k_Byb = byb_codec, k_Receipt = receipt_codec, Num_Cmp = (\<lambda>a b. sgn (a - b)),
     Sha3_256 = (\<lambda>b. b), GreaterThan = (\<lambda>_ _. False)\<rparr>"

lemma modelS_sel [simp]: "base1 modelS = model1" "k_Byb modelS = byb_codec" "k_Receipt modelS = receipt_codec"
  by (simp_all add: modelS_def)

definition demo_api :: SmcApi where
  "demo_api = \<lparr>sa_Sender = \<lparr>ac_Addr = ''bcbU'', ac_TxState = demo_ts\<rparr>, sa_Owner = \<lparr>ac_Addr = ''bcbA'', ac_TxState = demo_ts\<rparr>,
     sa_ContractAcct = \<lparr>ac_Addr = ''bcbC'', ac_TxState = demo_ts\<rparr>, sa_ContractAddr = ''bcbT'', sa_State = demo_ts, sa_Note = []\<rparr>"

lemma demo_api_sel [simp]:
  "ac_Addr (sa_Sender demo_api) = ''bcbU''" "ac_Addr (sa_Owner demo_api) = ''bcbA''" "ac_Addr (sa_ContractAcct demo_api) = ''bcbC''"
  "sa_ContractAddr demo_api = ''bcbT''" "sa_State demo_api = demo_ts" "own_tok demo_api = ''bcbT''"
  by (simp_all add: demo_api_def own_tok_def demo_ts_def)

definition demo_white :: "bybBalance list" where
  "demo_white = [\<lparr>Chromo = white_Chromo, Value = 4999999000\<rparr>]"

definition demo_user :: "bybBalance list" where
  "demo_user = [\<lparr>Chromo = ''1'', Value = 700\<rparr>, \<lparr>Chromo = ''2'', Value = 300\<rparr>]"

definition demo_tokbal :: "int \<Rightarrow> bytes" where
  "demo_tokbal n = demo_enc tokbal_codec \<lparr>tb_Address = ''bcbT'', tb_Balance = n\<rparr>"

definition demo_v3 :: "kvs V1" where
  "demo_v3 = \<lparr>v_helper = demo_helper,
     v_Transaction = Some \<lparr>transactionID = 1, tbuffer = [], committable = True, lastTxID = 1\<rparr>,
     v_Tx = [1 \<mapsto> \<lparr>txID = 1, xbuffer = [
       (keyOfToken_v1 ''bcbT'', demo_enc token_codec demo_token),
       (keyOfByb ''bcbC'', demo_enc byb_codec demo_white), (keyOfByb ''bcbU'', demo_enc byb_codec demo_user),
       (keyOfAccountToken ''bcbC'' ''bcbT'', demo_tokbal 4999999000), (keyOfAccountToken ''bcbU'' ''bcbT'', demo_tokbal 1000)]\<rparr>]\<rparr>"

definition demo_smc :: "kvs Smc" where
  "demo_smc = \<lparr>sm_v1 = demo_v3, sm_receipts = []\<rparr>"

lemma demo_smc_v1 [simp]: "sm_v1 demo_smc = demo_v3"
  by (simp add: demo_smc_def)

lemma demo_block3: "block1 model1 demo_v3 k = None"
  using demo_store_empty [of k]
  by (simp add: block1_def demo_v3_def demo_helper_def base_def nonnil_def db_val_def model_env_def)

lemma demo_enc_nonempty: "demo_enc byb_codec l \<noteq> []" "demo_tokbal n \<noteq> []" "demo_enc token_codec t \<noteq> []"
  by (simp_all add: demo_enc_ok demo_tokbal_def)

lemmas demo_keys = keyOfToken_v1_def keyOfByb_def keyOfAccount_def keyOfAccountToken_def keyOfTokenAll_def
  keyOfBlackHole_def keyOfStockholders_def

lemma demo_live3: "live demo_ts demo_v3"
  using demo_enc_nonempty
  by (auto simp: live_def demo_ts_def demo_v3_def buf_ok_def demo_keys split: if_splits)

lemma demo_view3:
  "view1 model1 demo_ts demo_v3 k =
    (if k = keyOfToken_v1 ''bcbT'' then Some (demo_enc token_codec demo_token)
     else if k = keyOfByb ''bcbC'' then Some (demo_enc byb_codec demo_white)
     else if k = keyOfByb ''bcbU'' then Some (demo_enc byb_codec demo_user)
     else if k = keyOfAccountToken ''bcbC'' ''bcbT'' then Some (demo_tokbal 4999999000)
     else if k = keyOfAccountToken ''bcbU'' ''bcbT'' then Some (demo_tokbal 1000) else None)"
  using demo_block3 [of k] demo_enc_nonempty
  by (auto simp: view1_def demo_ts_def demo_v3_def demo_keys)

lemma demo_dec: "unmarshal byb_codec (demo_enc byb_codec l) = Inr l" "unmarshal token_codec (demo_enc token_codec t) = Inr t"
  "unmarshal tokbal_codec (demo_tokbal n) = Inr \<lparr>tb_Address = ''bcbT'', tb_Balance = n\<rparr>"
  by (simp_all add: demo_enc_ok demo_tokbal_def)

lemma demo_plain: "plain ''bcbT''" "plain ''bcbU''" "plain ''bcbC''" "plain ''bcbB''" "plain ''bcbA''"
  by (simp_all add: plain_def)

lemma plain_other: "plain a \<Longrightarrow> keyOfByb a \<noteq> keyOfToken_v1 t" "plain a \<Longrightarrow> keyOfByb a \<noteq> keyOfTokenAll"
  "keyOfBlackHole \<noteq> keyOfByb a" "keyOfStockholders \<noteq> keyOfByb a" "keyOfBlackHole \<noteq> keyOfToken_v1 t" "keyOfStockholders \<noteq> keyOfToken_v1 t"
  "keyOfBlackHole \<noteq> keyOfAccountToken a t" "keyOfStockholders \<noteq> keyOfAccountToken a t"
  by (simp_all add: demo_keys)

lemma demo_tok_ok3: "tok_ok model1 demo_ts ''bcbT'' demo_v3"
proof -
  have l: "\<exists>x. dec1 strings_codec (view1 model1 demo_ts demo_v3 k) = Inr x" if "k = keyOfTokenAll \<or> (\<exists>a. plain a \<and> k = keyOfAccount a)" for k
  proof -
    have "view1 model1 demo_ts demo_v3 k = None"
      using that by (auto simp: demo_view3 demo_keys plain_def)
    then show ?thesis by simp
  qed
  have b: "\<exists>x. dec1 tokbal_codec (view1 model1 demo_ts demo_v3 (keyOfAccountToken a ''bcbT'')) = Inr x" if "plain a" for a
    using byb_keys_sym(1) [OF demo_plain(3) that] byb_keys_sym(1) [OF demo_plain(2) that] by (auto simp: demo_view3 demo_dec)
  have t: "\<exists>x. dec1 token_codec (view1 model1 demo_ts demo_v3 (keyOfToken_v1 ''bcbT'')) = Inr x" by (simp add: demo_view3 demo_dec)
  show ?thesis
    unfolding tok_ok_def codecs1_ok_def lists_ok_def using l b t model1_ext demo_live3 demo_plain(1) by auto
qed

lemma demo_env_ok: "env_ok modelS demo_api"
  by (auto simp: env_ok_def plain_def modelS_def sgn_if)

lemma demo_holding: "plain a \<Longrightarrow> holding modelS demo_api demo_v3 a = (if a = ''bcbC'' then demo_white else if a = ''bcbU'' then demo_user else [])"
  using byb_keys(1) [of a "''bcbC''" "''bcbT''"] byb_keys(1) [of a "''bcbU''" "''bcbT''"] demo_plain
  by (simp add: holding_def byb_view_def demo_view3 plain_other dec_list_def demo_dec list_of_def)

lemma demo_byb_bal: "plain a \<Longrightarrow> byb_bal modelS demo_api demo_v3 a = (if a = ''bcbC'' then 4999999000 else if a = ''bcbU'' then 1000 else 0)"
  using byb_keys_sym(1) [OF demo_plain(3), of a "''bcbT''"] byb_keys_sym(1) [OF demo_plain(2), of a "''bcbT''"]
  by (simp add: byb_bal_def bal1_def demo_view3 demo_dec)

lemma demo_roles: "holes modelS demo_api demo_v3 = {}" "holders modelS demo_api demo_v3 = {}"
  by (simp_all add: holes_def holders_def byb_view_def demo_view3 plain_other dec_list_def list_of_def)

lemma demo_inv: "byb_inv modelS demo_api demo_v3"
proof -
  have r: "readable byb_codec (byb_view modelS demo_api demo_v3 (keyOfByb a))" if "plain a" for a
    using byb_keys(1) [OF that demo_plain(3), of "''bcbT''"] byb_keys(1) [OF that demo_plain(2), of "''bcbT''"] that
    by (auto simp: readable_def byb_view_def demo_view3 demo_dec plain_other)
  have "byb_ok modelS demo_api demo_v3"
    using demo_env_ok demo_tok_ok3 r
    by (simp add: byb_ok_def) (simp add: readable_def byb_view_def demo_view3 plain_other)
  moreover have "byb_record modelS demo_api demo_v3 = Some demo_token"
    by (simp add: byb_record_def tok1_def demo_view3 demo_dec)
  ultimately show ?thesis
    by (auto simp: byb_inv_def demo_holding demo_byb_bal demo_plain demo_white_def demo_user_def list_ok_def demo_token_def)
qed

end
