(* ===== verification/V1_Byb_Props.thy ===== *)
theory V1_Byb_Props
  imports V1_Byb_Model
begin

text \<open>
  The properties of the BYB token: what a transfer moves, and what every sequence of successful calls keeps.
\<close>

section \<open>Transfer\<close>

lemma demo_traders:
  "may_trade (role modelS demo_api demo_v3 ''bcbB'')" "role modelS demo_api demo_v3 ''bcbU'' = addressRole_User"
  "whiten addressRole_User n out = out" "may_trade addressRole_User"
  by (simp_all add: role_def demo_roles committee_def may_trade_def whiten_def addressRole_User_def addressRole_StockHolder_def
      addressRole_Committee_def addressRole_Hole_def)

lemma demo_holds: "holding modelS demo_api demo_v3 ''bcbU'' = demo_user" "holding modelS demo_api demo_v3 ''bcbB'' = []"
  by (simp_all add: demo_holding demo_plain)

text \<open>C5. A transfer of BYB is refused, with nothing changed, when the value is not positive, when it goes to the
  sender or to the contract's account, when the payee or the sender is a stock holder, the owner or the
  contract, or when the sender holds less. Otherwise it succeeds: chromos worth exactly the value leave the
  sender, the payee gets the same chromos (white ones, if the sender is a black hole), every other holding
  stays, and balances are still the wholes of the holdings.\<close>
theorem byb_Transfer_exact:
  assumes v: "byb_inv E byb (sm_v1 s)" and a: "plain to_addr"
  defines "payer \<equiv> ac_Addr (sa_Sender byb)" and "h \<equiv> holding E byb (sm_v1 s)" and "r \<equiv> role E byb (sm_v1 s)"
  shows "if value \<le> 0 then byb_Transfer E byb to_addr value s = (Inr smc_negative, s)
    else if to_addr = payer \<or> to_addr = ac_Addr (sa_ContractAcct byb)
    then byb_Transfer E byb to_addr value s = (Inr (errC ErrCodeInterContractsUnsupportTransToSelf), s)
    else if \<not> may_trade (r to_addr) then byb_Transfer E byb to_addr value s = (Inr (no_transfer ''to''), s)
    else if \<not> may_trade (r payer) then byb_Transfer E byb to_addr value s = (Inr (no_transfer ''from''), s)
    else if whole (h payer) < value
    then byb_Transfer E byb to_addr value s = (Inr (errC ErrCodeInterContractsInsufficientBalance), s)
    else \<exists>out s'. byb_Transfer E byb to_addr value s = (Inr okE, s') \<and> byb_inv E byb (sm_v1 s') \<and> whole out = value
      \<and> (\<forall>c. 0 \<le> amount c out \<and> amount c (holding E byb (sm_v1 s') payer) = amount c (h payer) - amount c out
          \<and> amount c (holding E byb (sm_v1 s') to_addr) = amount c (h to_addr) + amount c (whiten (r payer) value out))
      \<and> (\<forall>b. plain b \<longrightarrow> b \<noteq> payer \<longrightarrow> b \<noteq> to_addr \<longrightarrow> holding E byb (sm_v1 s') b = h b)"
proof -
  note ok = byb_invD(1) [OF v] note no = byb_Transfer_refuses [OF ok, of "value" to_addr] and p = byb_okD(8) [OF ok, folded payer_def]
  show ?thesis
  proof (cases "0 < value \<and> to_addr \<noteq> payer \<and> to_addr \<noteq> ac_Addr (sa_ContractAcct byb) \<and> may_trade (r to_addr)
      \<and> may_trade (r payer) \<and> value \<le> whole (h payer)")
    case True
    then have c: "0 < value" "to_addr \<noteq> payer" "to_addr \<noteq> ac_Addr (sa_ContractAcct byb)" "may_trade (r to_addr)" "may_trade (r payer)"
      "value \<le> whole (h payer)" by simp_all
    obtain left out s' where m: "byb_Transfer E byb to_addr value s = (Inr okE, s')" "parted (h payer) value left out"
      "sm_v1 s' = moved E byb to_addr left (whiten (r payer) value out) (sm_v1 s)"
      using byb_Transfer_moves [OF ok byb_invD(2) [OF v p [unfolded payer_def]] c(1,6) [unfolded h_def payer_def] a
        c(2,4,5) [unfolded r_def payer_def]] unfolding payer_def h_def r_def by blast
    have e: "byb_inv E byb (sm_v1 s')" using Transfer_effect [OF v a m(1)] by (simp add: byb_effect_def okE_def errC_def isOK_def)
    have "list_ok out" "whole out = value" using m(2) by (simp_all add: parted_def)
    then have o: "\<forall>c. 0 \<le> amount c out" "whole out = value" by (simp_all add: list_ok_def amount_nonneg)
    have g: "amount c left = amount c (h payer) - amount c out" for c
      using m(2) by (simp add: parted_def eq_diff_eq)
    note mh = moved_holding [OF ok a, where left = left and gift = "whiten (r payer) value out", folded m(3) payer_def h_def]
    have "\<forall>c. 0 \<le> amount c out \<and> amount c (holding E byb (sm_v1 s') payer) = amount c (h payer) - amount c out
        \<and> amount c (holding E byb (sm_v1 s') to_addr) = amount c (h to_addr) + amount c (whiten (r payer) value out)"
      using o(1) g mh [OF p] mh [OF a] c(2) merge_byb_adds(1) [OF byb_okD(2) [OF ok]] by simp
    moreover have "\<forall>b. plain b \<longrightarrow> b \<noteq> payer \<longrightarrow> b \<noteq> to_addr \<longrightarrow> holding E byb (sm_v1 s') b = h b" using mh by simp
    ultimately show ?thesis using c m(1) e o(2) by (simp only: if_False not_less not_le de_Morgan_disj simp_thms if_not_P) blast
  qed (use no in \<open>auto simp: payer_def h_def r_def\<close>)
qed

lemma byb_Transfer_exact_witness:
  "\<exists>s'. byb_Transfer modelS demo_api ''bcbB'' 250 demo_smc = (Inr okE, s') \<and> byb_bal modelS demo_api (sm_v1 s') ''bcbB'' = 250"
proof -
  have inv: "byb_inv modelS demo_api (sm_v1 demo_smc)" using demo_inv by simp
  obtain out s' where t: "byb_Transfer modelS demo_api ''bcbB'' 250 demo_smc = (Inr okE, s')" "byb_inv modelS demo_api (sm_v1 s')"
    "whole out = 250" "\<forall>c. amount c (holding modelS demo_api (sm_v1 s') ''bcbB'') = amount c out"
    using byb_Transfer_exact [OF inv demo_plain(4), of 250] by (auto simp: demo_traders demo_holds demo_user_def)
  have "whole (holding modelS demo_api (sm_v1 s') ''bcbB'') = 250" using whole_cong [of _ out "[]"] t(3,4) by simp
  then show ?thesis using t(1) byb_invD(3) [OF t(2) demo_plain(4)] by simp
qed

section \<open>Sequences of calls\<close>

text \<open>
  A call with its caller. The methods use the sender of the API, not its stored accounts, so another caller sees the
  same table.
\<close>

datatype byb_call = Call_Transfer string int | Call_TransferByChromo string string int | Call_NewBlackHole string
  | Call_NewStockHolder string int | Call_DelStockHolder string | Call_ChangeChromoOwnership string string
  | Call_AddSupply int | Call_Burn int | Call_SetGasPrice uint64

definition sent_by :: "SmcApi \<Rightarrow> string \<Rightarrow> SmcApi" where
  "sent_by byb who = byb\<lparr>sa_Sender := (sa_Sender byb)\<lparr>ac_Addr := who\<rparr>\<rparr>"

fun run_byb :: "'db EnvS \<Rightarrow> SmcApi \<Rightarrow> byb_call \<Rightarrow> 'db Smc \<Rightarrow> ('db Smc, BCError) act" where
  "run_byb E byb (Call_Transfer a x) s = byb_Transfer E byb a x s"
| "run_byb E byb (Call_TransferByChromo c a x) s = TransferByChromo E byb c a x s"
| "run_byb E byb (Call_NewBlackHole a) s = NewBlackHole E byb a s"
| "run_byb E byb (Call_NewStockHolder a x) s = seqR (NewStockHolder E byb a x s) (\<lambda>(_, e) s. (Inr e, s))"
| "run_byb E byb (Call_DelStockHolder a) s = DelStockHolder E byb a s"
| "run_byb E byb (Call_ChangeChromoOwnership c a) s = ChangeChromoOwnership E byb c a s"
| "run_byb E byb (Call_AddSupply x) s = byb_AddSupply E byb x s"
| "run_byb E byb (Call_Burn x) s = byb_Burn E byb x s"
| "run_byb E byb (Call_SetGasPrice w) s = byb_SetGasPrice E byb w s"

fun paid :: "byb_call \<Rightarrow> string set" where
  "paid (Call_Transfer a _) = {a}"
| "paid (Call_TransferByChromo _ a _) = {a}"
| "paid (Call_NewStockHolder a _) = {a}"
| "paid (Call_DelStockHolder a) = {a}"
| "paid (Call_ChangeChromoOwnership _ a) = {a}"
| "paid _ = {}"

text \<open>
  What the code takes for granted and does not check (\<open>changeChromoOwnership\<close>: ``the stock holder would never owned this
  chromo''): the receiver of a chromo's ownership holds none of it. One that does gets a second entry of the chromo.
\<close>

fun fresh_chromo :: "'db EnvS \<Rightarrow> SmcApi \<Rightarrow> byb_call \<Rightarrow> 'db V1 \<Rightarrow> bool" where
  "fresh_chromo E byb (Call_ChangeChromoOwnership c a) v \<longleftrightarrow> c \<notin> Chromo ` set (holding E byb v a)"
| "fresh_chromo E byb _ v \<longleftrightarrow> True"

text \<open>States reached by calls that succeed, between the accounts of a set, each made where the condition \<open>G\<close> holds.\<close>

inductive byb_reaches :: "'db EnvS \<Rightarrow> SmcApi \<Rightarrow> string set \<Rightarrow> (byb_call \<Rightarrow> 'db V1 \<Rightarrow> bool) \<Rightarrow> 'db Smc \<Rightarrow> 'db Smc \<Rightarrow> bool"
  for E byb S G s where
  here: "byb_reaches E byb S G s s"
| call: "byb_reaches E byb S G s s1 \<Longrightarrow> who \<in> S \<Longrightarrow> paid c \<subseteq> S \<Longrightarrow> G c (sm_v1 s1) \<Longrightarrow>
    run_byb E (sent_by byb who) c s1 = (Inr e, s2) \<Longrightarrow> isOK e \<Longrightarrow> byb_reaches E byb S G s s2"

lemma sent_by_table [simp]:
  "holding E (sent_by byb who) = holding E byb" "byb_bal E (sent_by byb who) = byb_bal E byb" "issued E (sent_by byb who) = issued E byb"
  "byb_record E (sent_by byb who) = byb_record E byb" "own_tok (sent_by byb who) = own_tok byb"
  "byb_view E (sent_by byb who) = byb_view E byb" "sa_State (sent_by byb who) = sa_State byb"
  "sa_ContractAcct (sent_by byb who) = sa_ContractAcct byb" "ac_Addr (sa_Sender (sent_by byb who)) = who"
  "sa_ContractAddr (sent_by byb who) = sa_ContractAddr byb"
  by (simp_all add: sent_by_def fun_eq_iff holding_def byb_bal_def issued_def byb_record_def own_tok_def byb_view_def)

lemma sent_by_inv: "plain who \<Longrightarrow> byb_inv E byb v \<Longrightarrow> byb_inv E (sent_by byb who) v"
  by (simp add: byb_inv_def byb_ok_def env_ok_def)

lemma inv_sent_by: "plain (ac_Addr (sa_Sender byb)) \<Longrightarrow> byb_inv E (sent_by byb who) v \<Longrightarrow> byb_inv E byb v"
  by (simp add: byb_inv_def byb_ok_def env_ok_def)

lemma run_byb_effect:
  assumes v: "byb_inv E byb (sm_v1 s)" and a: "\<forall>a \<in> paid c. plain a" "fresh_chromo E byb c (sm_v1 s)"
    and r: "run_byb E byb c s = (Inr e, s')" "isOK e"
  shows "\<exists>d. byb_effect E byb ({ac_Addr (sa_Sender byb), ac_Addr (sa_ContractAcct byb)} \<union> paid c) d (sm_v1 s) (sm_v1 s')"
proof -
  let ?P = "{ac_Addr (sa_Sender byb), ac_Addr (sa_ContractAcct byb)} \<union> paid c"
  have "\<exists>P d. byb_effect E byb P d (sm_v1 s) (sm_v1 s') \<and> P \<subseteq> ?P"
  proof (cases c)
    case (Call_Transfer x y)
    then show ?thesis using Transfer_effect [OF v _ _ r(2)] a r(1) by fastforce
  next
    case (Call_TransferByChromo x y z)
    then show ?thesis using TransferByChromo_effect [OF v _ _ r(2)] a r(1) by fastforce
  next
    case (Call_NewBlackHole x)
    then show ?thesis using NewBlackHole_effect [OF v _ r(2)] r(1) by fastforce
  next
    case (Call_NewStockHolder x y)
    then obtain q where "NewStockHolder E byb x y s = (Inr (q, e), s')"
      using r(1) by (cases "NewStockHolder E byb x y s"; cases "fst (NewStockHolder E byb x y s)") auto
    then show ?thesis using NewStockHolder_effect [OF v _ _ r(2)] a Call_NewStockHolder by fastforce
  next
    case (Call_DelStockHolder x)
    then show ?thesis using DelStockHolder_effect [OF v _ _ r(2)] a r(1) by fastforce
  next
    case (Call_ChangeChromoOwnership x y)
    then show ?thesis using ChangeChromoOwnership_effect [OF v _ _ _ r(2)] a r(1) by fastforce
  next
    case (Call_AddSupply x)
    then show ?thesis using AddSupply_effect [OF v _ r(2)] r(1) by fastforce
  next
    case (Call_Burn x)
    then show ?thesis using Burn_effect [OF v _ r(2)] r(1) by fastforce
  next
    case (Call_SetGasPrice x)
    then show ?thesis using SetGasPrice_effect [OF v _ r(2)] r(1) by fastforce
  qed
  then show ?thesis using byb_effect_mono by blast
qed

text \<open>C4. Whatever methods of the BYB token succeed one after another, called by any accounts (transfers, transfers and
  handing over of a chromo, new black holes and stock holders, issue of supply, burning, the price), as long as a chromo is
  handed over (\<open>ChangeChromoOwnership\<close>) only to an account that holds none of it yet, which the code takes for granted
  without a check: every account still holds one entry at most of a chromo and none below zero, its balance of the token is
  the whole of its holding, and the balances of all accounts concerned change together by what the total supply changes.\<close>
theorem byb_calls_keep_supply:
  assumes "byb_inv E byb (sm_v1 s)" "byb_reaches E byb S (fresh_chromo E byb) s s'" "finite S" "\<forall>a \<in> S. plain a" "ac_Addr (sa_ContractAcct byb) \<in> S"
  shows "byb_inv E byb (sm_v1 s') \<and>
    sum (byb_bal E byb (sm_v1 s')) S - issued E byb (sm_v1 s') = sum (byb_bal E byb (sm_v1 s)) S - issued E byb (sm_v1 s)"
  using assms(2)
proof (induction rule: byb_reaches.induct)
  case here
  then show ?case using assms(1) by simp
next
  case (call s1 who c e s2)
  have p: "plain (ac_Addr (sa_Sender byb))" by (rule byb_okD(8) [OF byb_invD(1) [OF assms(1)]])
  have v: "byb_inv E (sent_by byb who) (sm_v1 s1)" using sent_by_inv call.IH call.hyps(2) assms(4) by blast
  have f: "fresh_chromo E (sent_by byb who) c (sm_v1 s1)" using call.hyps(4) by (cases c) simp_all
  obtain d where d: "byb_effect E (sent_by byb who) ({who, ac_Addr (sa_ContractAcct byb)} \<union> paid c) d (sm_v1 s1) (sm_v1 s2)"
    using run_byb_effect [OF v _ f call.hyps(5,6)] call.hyps(3) assms(4) by (auto simp: subset_iff)
  then have "sum (byb_bal E byb (sm_v1 s2)) S = sum (byb_bal E byb (sm_v1 s1)) S + d" "issued E byb (sm_v1 s2) = issued E byb (sm_v1 s1) + d"
    using call.hyps(2,3) assms(3-5) by (auto simp: byb_effect_def)
  moreover have "byb_inv E byb (sm_v1 s2)" using d inv_sent_by [OF p, of E who "sm_v1 s2"] by (simp add: byb_effect_def)
  ultimately show ?case using call.IH by simp
qed

lemma byb_calls_keep_supply_witness:
  "\<exists>s'. byb_reaches modelS demo_api {''bcbU'', ''bcbB'', ''bcbC''} (fresh_chromo modelS demo_api) demo_smc s' \<and> byb_bal modelS demo_api (sm_v1 s') ''bcbB'' = 250
    \<and> sum (byb_bal modelS demo_api (sm_v1 s')) {''bcbU'', ''bcbB'', ''bcbC''} = issued modelS demo_api (sm_v1 s')"
proof -
  let ?S = "{''bcbU'', ''bcbB'', ''bcbC''}"
  have inv: "byb_inv modelS demo_api (sm_v1 demo_smc)" using demo_inv by simp
  note ok = byb_invD(1) [OF demo_inv]
  obtain left out s' where m: "byb_Transfer modelS demo_api ''bcbB'' 250 demo_smc = (Inr okE, s')" "parted demo_user 250 left out"
    "sm_v1 s' = moved modelS demo_api ''bcbB'' left out demo_v3"
    using byb_Transfer_moves [of modelS demo_api demo_smc 250 "''bcbB''"] ok demo_plain
    by (auto simp: demo_traders demo_holds) (auto simp: demo_user_def list_ok_def)
  have sb: "sent_by demo_api ''bcbU'' = demo_api" by (simp add: sent_by_def demo_api_def)
  have r: "byb_reaches modelS demo_api ?S (fresh_chromo modelS demo_api) demo_smc s'"
    by (rule byb_reaches.call [OF byb_reaches.here, where who = "''bcbU''" and c = "Call_Transfer ''bcbB'' 250" and e = okE]) (simp_all add: sb m(1))
  have "byb_inv modelS demo_api (sm_v1 s') \<and> sum (byb_bal modelS demo_api (sm_v1 s')) ?S - issued modelS demo_api (sm_v1 s')
      = sum (byb_bal modelS demo_api (sm_v1 demo_smc)) ?S - issued modelS demo_api (sm_v1 demo_smc)"
    by (rule byb_calls_keep_supply [OF inv r]) (simp_all add: demo_plain)
  moreover have "issued modelS demo_api demo_v3 = 5000000000"
    by (simp add: issued_def byb_record_def tok1_def demo_view3 demo_dec) (simp add: demo_token_def)
  moreover have "whole (holding modelS demo_api (sm_v1 s') ''bcbB'') = 250"
    using m(2) merge_whole [OF model1_bignum] by (simp add: m(3) moved_holding [OF ok demo_plain(4,4)] demo_holds parted_def)
  ultimately show ?thesis using r byb_invD(3) [of modelS demo_api "sm_v1 s'" "''bcbB''"] by (auto simp: demo_byb_bal demo_plain)
qed

end
