(* ===== verification/Keccak_Perm.thy ===== *)
theory Keccak_Perm
  imports Keccak
begin

unbundle bit_operations_syntax

text \<open>
  The unrolled permutation is Keccak-f[1600] as the standard writes it: the steps over rows and columns of lanes, with the
  rotation offsets and the round constants computed.
\<close>

section \<open>The permutation of the standard\<close>

definition lane :: "uint64 list \<Rightarrow> nat \<Rightarrow> nat \<Rightarrow> uint64" where
  "lane a x y = a ! (5 * (y mod 5) + x mod 5)"

definition from_lanes :: "(nat \<Rightarrow> nat \<Rightarrow> uint64) \<Rightarrow> uint64 list" where
  "from_lanes f = map (\<lambda>i. f (i mod 5) (i div 5)) [0..<25]"

definition ref_theta :: "uint64 list \<Rightarrow> uint64 list" where
  "ref_theta a =
    (let column = (\<lambda>x. lane a x 0 XOR lane a x 1 XOR lane a x 2 XOR lane a x 3 XOR lane a x 4) in
     from_lanes (\<lambda>x y. lane a x y XOR (column (x + 4) XOR word_rotl 1 (column (x + 1)))))"

text \<open>The walk through the lanes that fixes the offsets.\<close>

fun rho_walk :: "nat \<Rightarrow> nat \<times> nat" where
  "rho_walk 0 = (1, 0)"
| "rho_walk (Suc t) = (case rho_walk t of (x, y) \<Rightarrow> (y, (2 * x + 3 * y) mod 5))"

definition rho_offset :: "nat \<Rightarrow> nat \<Rightarrow> nat" where
  "rho_offset x y = (case filter (\<lambda>t. rho_walk t = (x, y)) [0..<24] of [] \<Rightarrow> 0 | t # _ \<Rightarrow> (t + 1) * (t + 2) div 2 mod 64)"

definition ref_rho :: "uint64 list \<Rightarrow> uint64 list" where
  "ref_rho a = from_lanes (\<lambda>x y. word_rotl (rho_offset x y) (lane a x y))"

definition ref_pi :: "uint64 list \<Rightarrow> uint64 list" where
  "ref_pi a = from_lanes (\<lambda>x y. lane a (x + 3 * y) x)"

definition ref_chi :: "uint64 list \<Rightarrow> uint64 list" where
  "ref_chi a = from_lanes (\<lambda>x y. lane a x y XOR (NOT (lane a (x + 1) y) AND lane a (x + 2) y))"

text \<open>The shift register behind the round constants.\<close>

definition lfsr :: "byte \<Rightarrow> byte" where
  "lfsr r = (if bit r 7 then push_bit 1 r XOR 0x71 else push_bit 1 r)"

primrec lfsr_bits :: "nat \<Rightarrow> byte \<Rightarrow> bool list" where
  "lfsr_bits 0 r = []"
| "lfsr_bits (Suc n) r = bit r 0 # lfsr_bits n (lfsr r)"

definition rc_bits :: "bool list" where
  "rc_bits = lfsr_bits 168 1"

definition round_constant :: "nat \<Rightarrow> uint64" where
  "round_constant i = foldr (\<lambda>j w. if rc_bits ! (j + 7 * i) then w OR push_bit (2 ^ j - 1) 1 else w) [0..<7] 0"

definition ref_iota :: "nat \<Rightarrow> uint64 list \<Rightarrow> uint64 list" where
  "ref_iota i a = from_lanes (\<lambda>x y. if x = 0 \<and> y = 0 then lane a 0 0 XOR round_constant i else lane a x y)"

definition ref_round :: "nat \<Rightarrow> uint64 list \<Rightarrow> uint64 list" where
  "ref_round i a = ref_iota i (ref_chi (ref_pi (ref_rho (ref_theta a))))"

text \<open>The tables of the code.\<close>

lemma rol_rotl: "n < 64 \<Longrightarrow> 0 < n \<Longrightarrow> rol n x = word_rotl n x"
proof (rule bit_word_eqI)
  fix m assume n: "n < 64" "0 < n" and "m < LENGTH(64)"
  then have m: "m < 64" by simp
  show "bit (rol n x) m = bit (word_rotl n x) m"
  proof (cases "n \<le> m")
    case True
    then have "(m + 64 - n) mod 64 = m - n" using n m by (simp add: mod_if)
    moreover have "\<not> bit x (64 + m - n)" using True by (auto dest: bit_imp_le_length)
    moreover have "64 - n + m = 64 + m - n" using n by simp
    ultimately show ?thesis using True n m by (simp add: rol_def bit_simps bit_word_rotl_iff)
  next
    case False
    then have "(m + 64 - n) mod 64 = 64 - n + m" using n m by (subst mod_less) auto
    then show ?thesis using False n m by (simp add: rol_def bit_simps bit_word_rotl_iff)
  qed
qed

lemma offsets: "map (\<lambda>i. rho_offset (i mod 5) (i div 5)) [0..<25] = map (\<lambda>n. rho_offsets ! (5 * (n mod 5) + n div 5)) [0..<25]"
  by code_simp

lemma rc_bits_value:
  "rc_bits = [True, False, False, False, False, False, False, False, True, False, True, True, False, False,
    False, True, True, True, True, False, True, False, False, False, False, True, True, True,
    True, True, True, True, True, False, False, True, False, False, False, False, True, False,
    True, False, False, True, True, True, True, True, False, True, False, True, False, True,
    False, True, True, True, False, False, False, False, False, True, True, False, False, False,
    True, False, True, False, True, True, False, False, True, True, False, False, True, False,
    True, True, True, True, True, True, False, True, True, True, True, False, False, True,
    True, False, True, True, True, False, True, True, True, False, False, True, False, True,
    False, True, False, False, True, False, True, False, False, False, True, False, False, True,
    False, True, True, False, True, False, False, False, True, True, False, False, True, True,
    True, False, False, True, True, True, True, False, False, False, True, True, False, True,
    True, False, False, False, False, True, False, False, False, True, False, True, True, True]"
  unfolding rc_bits_def by code_simp

lemma constants: "map round_constant [0..<24] = round_constants"
  unfolding round_constant_def rc_bits_value round_constants_def by code_simp

section \<open>The unrolled round\<close>

lemma lanes_upt: "[0..<25] = [0, 1, 2, 3, 4, 5, 6, 7, 8, 9, 10, 11, 12, 13, 14, 15, 16, 17, 18, 19, 20, 21, 22, 23, 24 :: nat]"
  by (simp add: upt_rec)

lemma length_steps: "length (from_lanes f) = 25" "length (chi a) = 25" "length (rho_pi a) = 25" "length (theta a) = 25"
    "length (ref_chi a) = 25" "length round_constants = 24"
  by (simp_all add: from_lanes_def chi_def rho_pi_def theta_def ref_chi_def round_constants_def Let_def)

lemma rotl_0: "word_rotl 0 (x :: uint64) = x"
  by (rule bit_word_eqI) (simp add: bit_word_rotl_iff)

lemma theta_ref: "theta a = ref_theta a"
  unfolding ref_theta_def from_lanes_def lanes_upt theta_def Let_def
  by (simp add: lane_def rol_rotl numeral_2_eq_2 [symmetric])

lemma offset_table: "i < 25 \<Longrightarrow> rho_offset (i mod 5) (i div 5) = rho_offsets ! (5 * (i mod 5) + i div 5)"
  using arg_cong [OF offsets, of "\<lambda>l. l ! i"] by simp

lemma rho_pi_ref: "rho_pi a = ref_pi (ref_rho a)"
proof -
  have "ref_rho a = map (\<lambda>i. word_rotl (rho_offsets ! (5 * (i mod 5) + i div 5)) (lane a (i mod 5) (i div 5))) [0..<25]"
    unfolding ref_rho_def from_lanes_def by (rule map_cong) (simp_all add: offset_table)
  then show ?thesis unfolding ref_pi_def from_lanes_def lanes_upt rho_pi_def
    by (simp add: lane_def rol_rotl rho_offsets_def rotl_0 numeral_2_eq_2 [symmetric])
qed

lemma chi_ref: "chi b = ref_chi b"
  unfolding ref_chi_def from_lanes_def lanes_upt chi_def
  by (simp add: lane_def numeral_2_eq_2 [symmetric])

lemma round_ref: "i < 24 \<Longrightarrow> keccak_round (round_constants ! i) a = ref_round i a"
proof -
  assume i: "i < 24"
  have c: "round_constants ! i = round_constant i" using arg_cong [OF constants, of "\<lambda>l. l ! i"] i by simp
  moreover have "iota k b = from_lanes (\<lambda>x y. if x = 0 \<and> y = 0 then lane b 0 0 XOR k else lane b x y)" if "length b = 25" for k b
  proof (rule nth_equalityI)
    fix j assume "j < length (iota k b)"
    then have "j < 25" using that by (simp add: iota_def)
    moreover have "j mod 5 = 0 \<and> j div 5 = 0 \<longleftrightarrow> j = 0" by (auto simp: dvd_def)
    moreover have "5 * (j div 5) + j mod 5 = j" by simp
    ultimately show "iota k b ! j = from_lanes (\<lambda>x y. if x = 0 \<and> y = 0 then lane b 0 0 XOR k else lane b x y) ! j"
      using that by (auto simp: iota_def from_lanes_def lane_def nth_list_update)
  qed (use that in \<open>simp add: iota_def from_lanes_def\<close>)
  ultimately show ?thesis
    by (simp add: keccak_round_def ref_round_def ref_iota_def theta_ref rho_pi_ref chi_ref length_steps)
qed

lemma keccak_f_ref: "keccak_f a = fold ref_round [0..<24] a"
proof -
  have "round_constants = map (\<lambda>i. round_constants ! i) [0..<24]" using map_nth [of round_constants] unfolding length_steps(6) by (rule sym)
  then have "keccak_f a = fold keccak_round (map (\<lambda>i. round_constants ! i) [0..<24]) a"
    unfolding keccak_f_def by (rule arg_cong)
  also have "\<dots> = fold (\<lambda>i. keccak_round (round_constants ! i)) [0..<24] a" by (simp only: fold_map comp_def)
  also have "\<dots> = fold ref_round [0..<24] a" by (rule fold_cong) (auto simp: round_ref)
  finally show ?thesis .
qed

end
