(* ===== verification/Keccak_Sponge.thy ===== *)
theory Keccak_Sponge
  imports Keccak
begin

unbundle bit_operations_syntax

text \<open>
  The sponge absorbs byte by byte (\<open>absorb_byte\<close>), whatever lanes the code groups the bytes into; every write and every sum
  returns.
\<close>

section \<open>One byte\<close>

definition flush :: "digest \<Rightarrow> digest" where
  "flush d = (if absorbed d mod rate d = 0 then keccakF d else d)"

definition absorb_byte :: "byte \<Rightarrow> digest \<Rightarrow> digest" where
  "absorb_byte b d =
    (let pos = absorbed d mod rate d in
     flush (d\<lparr>dg_a := xor_lane (pos div 8) (push_bit (8 * (pos mod 8)) (ucast b)) (dg_a d), absorbed := absorbed d + 1\<rparr>))"

definition digest_ok :: "digest \<Rightarrow> bool" where
  "digest_ok d \<longleftrightarrow> 0 < rate d \<and> rate d mod 8 = 0 \<and> length (dg_a d) = 25"

lemma rate_simps [simp]:
  "rate (d\<lparr>dg_a := a\<rparr>) = rate d" "rate (d\<lparr>absorbed := n\<rparr>) = rate d" "rate (keccakF d) = rate d"
  "rate (flush d) = rate d" "rate (unalignedAbsorb p d) = rate d" "rate (absorb_byte b d) = rate d"
  by (simp_all add: rate_def keccakF_def flush_def unalignedAbsorb_def absorb_byte_def Let_def)

lemma length_keccak_f [simp]: "length (keccak_f a) = 25"
proof -
  have len: "length (keccak_round k b) = 25" for k b by (simp add: keccak_round_def iota_def chi_def)
  have "length (fold keccak_round ks b) = 25" if "length b = 25 \<or> ks \<noteq> []" for ks b
    using that by (induction ks arbitrary: b) (auto simp: len)
  moreover have "round_constants \<noteq> []" by (simp add: round_constants_def)
  ultimately show ?thesis by (simp add: keccak_f_def)
qed

lemma length_xor_lane [simp]: "length (xor_lane i t a) = length a"
  by (simp add: xor_lane_def)

lemma ok_simps [simp]:
  "digest_ok d \<Longrightarrow> digest_ok (keccakF d)" "digest_ok d \<Longrightarrow> digest_ok (flush d)"
  "digest_ok d \<Longrightarrow> digest_ok (unalignedAbsorb p d)" "digest_ok d \<Longrightarrow> digest_ok (absorb_byte b d)"
  by (simp_all add: digest_ok_def rate_def keccakF_def flush_def unalignedAbsorb_def absorb_byte_def Let_def)

lemma absorbed_simps [simp]:
  "absorbed (keccakF d) = absorbed d" "absorbed (flush d) = absorbed d" "absorbed (unalignedAbsorb p d) = absorbed d + length p"
  "absorbed (absorb_byte b d) = absorbed d + 1"
  by (simp_all add: keccakF_def flush_def unalignedAbsorb_def absorb_byte_def Let_def)

lemma flush_not: "absorbed d mod rate d \<noteq> 0 \<Longrightarrow> flush d = d"
  by (simp add: flush_def)

section \<open>The bytes of one lane\<close>

lemma le_word_simps: "le_word [] = 0" "le_word (b # p) = push_bit 8 (le_word p) XOR ucast b"
proof -
  show "le_word (b # p) = push_bit 8 (le_word p) XOR ucast b"
    by (rule bit_word_eqI) (auto simp: le_word_def bit_simps dest: bit_imp_le_length)
qed (simp add: le_word_def)

lemma xor_lane_simps: "xor_lane i 0 a = a" "xor_lane i s (xor_lane i t a) = xor_lane i (t XOR s) a"
proof -
  show "xor_lane i s (xor_lane i t a) = xor_lane i (t XOR s) a"
    by (cases "i < length a") (simp_all add: xor_lane_def xor.assoc list_update_beyond)
qed (simp add: xor_lane_def)

text \<open>Within a lane the position does not wrap around.\<close>

lemma next_pos:
  assumes "digest_ok d" "absorbed d mod rate d mod 8 + n \<le> 8"
  shows "absorbed d mod rate d + n \<le> rate d"
    "absorbed d mod rate d + n < rate d \<Longrightarrow> (absorbed d + n) mod rate d = absorbed d mod rate d + n"
proof -
  let ?pos = "absorbed d mod rate d"
  have r: "0 < rate d" "8 * (rate d div 8) = rate d" using assms(1) by (auto simp: digest_ok_def)
  have "?pos < rate d" using r by simp
  then have "?pos div 8 < rate d div 8" using r(2) by (metis div_le_mono less_mult_imp_div_less mult.commute)
  then have "8 * (?pos div 8) + 8 \<le> rate d" using r(2) by linarith
  then show "?pos + n \<le> rate d" using assms(2) mult_div_mod_eq [of 8 ?pos] by linarith
  show "(absorbed d + n) mod rate d = ?pos + n" if "?pos + n < rate d"
    using that mod_add_left_eq [of "absorbed d" "rate d" n] by (metis mod_less)
qed

lemma unaligned_one: "unalignedAbsorb [b] d = d\<lparr>dg_a := xor_lane (absorbed d mod rate d div 8)
    (push_bit (8 * (absorbed d mod rate d mod 8)) (ucast b)) (dg_a d), absorbed := absorbed d + 1\<rparr>"
  by (simp add: unalignedAbsorb_def le_word_simps laneSize_def Let_def)

lemma absorb_byte_eq: "absorb_byte b d = flush (unalignedAbsorb [b] d)"
  by (simp add: absorb_byte_def Let_def unaligned_one)

lemma unaligned_Cons:
  assumes "digest_ok d" "p \<noteq> []" "absorbed d mod rate d mod 8 + Suc (length p) \<le> 8"
  shows "unalignedAbsorb (b # p) d = unalignedAbsorb p (unalignedAbsorb [b] d)" "absorb_byte b d = unalignedAbsorb [b] d"
    "absorbed (unalignedAbsorb [b] d) mod rate d mod 8 + length p \<le> 8"
proof -
  let ?pos = "absorbed d mod rate d"
  have "0 < length p" using assms(2) by simp
  then have k: "?pos mod 8 + 1 < 8" using assms(3) by linarith
  have "?pos + 2 \<le> rate d" by (rule next_pos(1) [OF assms(1)]) (use k in simp)
  then have n: "(absorbed d + 1) mod rate d = ?pos + 1" using next_pos(2) [OF assms(1), of 1] k by simp
  have m: "(?pos + 1) mod 8 = ?pos mod 8 + 1" "(?pos + 1) div 8 = ?pos div 8" using k by (simp_all add: mod_Suc div_Suc)
  have "push_bit (8 * (?pos mod 8)) (push_bit 8 (le_word p) XOR ucast b)
      = push_bit (8 * (?pos mod 8)) (ucast b) XOR push_bit (8 * (?pos mod 8 + 1)) (le_word p)"
    by (simp add: push_bit_xor push_bit_push_bit xor.commute add.commute)
  then show "unalignedAbsorb (b # p) d = unalignedAbsorb p (unalignedAbsorb [b] d)"
    using n m by (simp add: unaligned_one) (simp add: unalignedAbsorb_def laneSize_def le_word_simps xor_lane_simps Let_def)
  show "absorb_byte b d = unalignedAbsorb [b] d" using n by (simp add: absorb_byte_eq flush_not)
  show "absorbed (unalignedAbsorb [b] d) mod rate d mod 8 + length p \<le> 8" using n m assms(3) by simp
qed

lemma absorb_in_lane:
  "digest_ok d \<Longrightarrow> p \<noteq> [] \<Longrightarrow> absorbed d mod rate d mod 8 + length p \<le> 8 \<Longrightarrow> fold absorb_byte p d = flush (unalignedAbsorb p d)"
proof (induction p arbitrary: d)
  case (Cons b p)
  show ?case
  proof (cases "p = []")
    case False
    note S = unaligned_Cons [OF Cons.prems(1) False, of b]
    have "absorbed d mod rate d mod 8 + Suc (length p) \<le> 8" using Cons.prems(3) by simp
    then show ?thesis using S Cons.IH [of "unalignedAbsorb [b] d"] False Cons.prems(1) by simp
  qed (simp add: absorb_byte_eq)
qed simp

section \<open>Whole lanes\<close>

lemma aligned: "digest_ok d \<Longrightarrow> absorbed d mod rate d mod 8 = absorbed d mod 8"
  by (rule mod_mod_cancel) (auto simp: digest_ok_def)

lemma absorb_lane:
  assumes "digest_ok d" "absorbed d mod 8 = 0" "8 \<le> length p"
  shows "fold absorb_byte (take 8 p) d =
    flush (d\<lparr>dg_a := xor_lane (absorbed d mod rate d div 8) (le_word (take 8 p)) (dg_a d), absorbed := absorbed d + 8\<rparr>)"
proof -
  have "fold absorb_byte (take 8 p) d = flush (unalignedAbsorb (take 8 p) d)"
    by (rule absorb_in_lane [OF assms(1)]) (use assms aligned [OF assms(1)] in auto)
  then show ?thesis using assms aligned [OF assms(1)] by (simp add: unalignedAbsorb_def laneSize_def min_def Let_def)
qed

lemma length_absorb_lanes [simp]: "length (snd (absorb_lanes n lane p a)) = length a"
  by (induction n lane p a rule: absorb_lanes.induct) simp_all

lemma absorb_lanes_bytes:
  "digest_ok d \<Longrightarrow> absorbed d mod 8 = 0 \<Longrightarrow> 8 * Suc n \<le> length p \<Longrightarrow> absorbed d mod rate d div 8 + Suc n \<le> rate d div 8 \<Longrightarrow>
    fold absorb_byte (take (8 * Suc n) p) d = flush (d\<lparr>dg_a := snd (absorb_lanes (Suc n) (absorbed d mod rate d div 8) p (dg_a d)),
      absorbed := absorbed d + 8 * Suc n\<rparr>)"
proof (induction n arbitrary: d p)
  case 0
  then show ?case using absorb_lane [OF 0(1,2), of p] by (simp add: laneSize_def)
next
  case (Suc n)
  let ?pos = "absorbed d mod rate d"
  let ?d = "d\<lparr>dg_a := xor_lane (?pos div 8) (le_word (take 8 p)) (dg_a d), absorbed := absorbed d + 8\<rparr>"
  have ok: "digest_ok ?d" using Suc.prems(1) by (simp add: digest_ok_def rate_def)
  have "?pos + 8 < rate d" using Suc.prems(4) by linarith
  then have pos: "(absorbed d + 8) mod rate d = ?pos + 8" "absorbed ?d mod rate ?d \<noteq> 0"
    using next_pos(2) [OF Suc.prems(1), of 8] aligned [OF Suc.prems(1)] Suc.prems(2) by simp_all
  have "fold absorb_byte (take (8 * Suc (Suc n)) p) d = fold absorb_byte (take (8 * Suc n) (drop 8 p)) (fold absorb_byte (take 8 p) d)"
    using take_add [of 8 "8 * Suc n" p] by (simp add: add.commute)
  also have "fold absorb_byte (take 8 p) d = ?d"
    using absorb_lane [OF Suc.prems(1,2), of p] Suc.prems(3) flush_not [OF pos(2)] by simp
  also have "fold absorb_byte (take (8 * Suc n) (drop 8 p)) ?d = flush (?d\<lparr>dg_a :=
      snd (absorb_lanes (Suc n) (absorbed ?d mod rate ?d div 8) (drop 8 p) (dg_a ?d)), absorbed := absorbed ?d + 8 * Suc n\<rparr>)"
    by (rule Suc.IH [OF ok]) (use Suc.prems(2-4) pos(1) in simp_all)
  also have "absorbed ?d mod rate ?d div 8 = ?pos div 8 + 1" using pos(1) by (simp add: div_add_self2)
  finally show ?case by (simp add: laneSize_def ac_simps)
qed

lemma absorb_loop_bytes:
  "digest_ok d \<Longrightarrow> p = [] \<or> absorbed d mod 8 = 0 \<and> (length p \<le> 7 \<or> offset = absorbed d mod rate d) \<Longrightarrow>
    \<exists>q d'. absorb_loop p offset d = Some (q, d') \<and> length q \<le> 7 \<and> digest_ok d' \<and> (q = [] \<or> absorbed d' mod 8 = 0) \<and>
      fold absorb_byte p d = fold absorb_byte q d'"
proof (induction "length p" arbitrary: p offset d rule: less_induct)
  case less
  show ?case
  proof (cases "length p \<le> 7")
    case True
    then show ?thesis using less.prems by (subst absorb_loop.simps) auto
  next
    case False
    let ?pos = "absorbed d mod rate d"
    define n where "n = min (rate d div 8) (?pos div 8 + length p div 8) - ?pos div 8"
    define d1 where "d1 = d\<lparr>dg_a := snd (absorb_lanes n (?pos div 8) p (dg_a d)), absorbed := absorbed d + 8 * n\<rparr>"
    have al: "absorbed d mod 8 = 0" "offset = ?pos" using less.prems(2) False by auto
    have r: "0 < rate d" "8 * (rate d div 8) = rate d" using less.prems(1) by (auto simp: digest_ok_def)
    have "?pos < rate d" using r by simp
    then have lt: "?pos div 8 < rate d div 8" using r(2) by linarith
    have n: "0 < n" "8 * n \<le> length p" "?pos div 8 + n \<le> rate d div 8" "n + ?pos div 8 = rate d div 8 \<or> n = length p div 8"
      using lt False unfolding n_def by (auto simp: min_def)
    have ok: "digest_ok (flush d1)" using less.prems(1) by (auto simp: d1_def digest_ok_def rate_def flush_def keccakF_def)
    have last: "min (rate d div 8) (?pos div 8 + length p div 8) = ?pos div 8 + n" using n(1) unfolding n_def by linarith
    have step: "absorb_loop p offset d = absorb_loop (drop (8 * n) p) 0 (flush d1)"
      using False n(1) absorb_lanes_rest [of n "?pos div 8" p "dg_a d"]
      by (subst absorb_loop.simps, cases "absorb_lanes n (?pos div 8) p (dg_a d)")
         (simp add: al(2) laneSize_def last d1_def flush_def Let_def mult.commute)
    have "\<exists>q d'. absorb_loop (drop (8 * n) p) 0 (flush d1) = Some (q, d') \<and> length q \<le> 7 \<and> digest_ok d' \<and>
        (q = [] \<or> absorbed d' mod 8 = 0) \<and> fold absorb_byte (drop (8 * n) p) (flush d1) = fold absorb_byte q d'"
    proof (rule less.hyps [OF _ ok], goal_cases)
      case 1
      then show ?case using n(1) False by simp
    next
      case 2
      have "absorbed (flush d1) mod 8 = 0" using al(1) by (simp add: d1_def)
      moreover have "length (drop (8 * n) p) \<le> 7" if "n = length p div 8" using that by simp
      moreover have "absorbed (flush d1) mod rate (flush d1) = 0" if "n + ?pos div 8 = rate d div 8"
      proof -
        have "?pos + 8 * n = rate d" 
          using that r(2) al(1) aligned [OF less.prems(1)] mult_div_mod_eq [of 8 ?pos] by linarith
        then have "(absorbed d + 8 * n) mod rate d = 0" by (metis mod_add_left_eq mod_self)
        then show ?thesis by (simp add: d1_def)
      qed
      ultimately show ?case using n(4) by auto
    qed
    moreover have "fold absorb_byte p d = fold absorb_byte (drop (8 * n) p) (flush d1)"
    proof -
      obtain m where m: "n = Suc m" using n(1) by (cases n) auto
      have "fold absorb_byte (take (8 * n) p) d = flush d1"
        unfolding m d1_def by (rule absorb_lanes_bytes [OF less.prems(1) al(1)]) (use n(2,3) m in simp_all)
      then show ?thesis by (metis append_take_drop_id comp_apply fold_append)
    qed
    ultimately show ?thesis using step by simp
  qed
qed

section \<open>Writes and sums\<close>

lemma absorb_tail:
  assumes "digest_ok d" "length q \<le> 7" "q = [] \<or> absorbed d mod 8 = 0"
  shows "(if 0 < length q then unalignedAbsorb q d else d) = fold absorb_byte q d"
proof (cases "q = []")
  case False
  have m: "absorbed d mod rate d mod 8 = 0" using assms(3) False aligned [OF assms(1)] by simp
  have "absorbed d mod rate d + 8 \<le> rate d" by (rule next_pos(1) [OF assms(1)]) (use m in simp)
  then have "(absorbed d + length q) mod rate d = absorbed d mod rate d + length q"
    using next_pos(2) [OF assms(1), of "length q"] m assms(2) by simp
  then show ?thesis using absorb_in_lane [OF assms(1) False] m assms(2) False by (simp add: flush_not)
qed simp

lemma Write_bytes:
  assumes "digest_ok d"
  shows "digest_Write p d = Some (length p, fold absorb_byte p d)"
proof -
  let ?off = "absorbed d mod rate d"
  define k where "k = min (8 - ?off mod 8) (length p)"
  define first where "first = ((?off mod 8 \<noteq> 0 \<or> length p < 8) \<and> 0 < length p)"
  define p1 where "p1 = (if first then drop k p else p)"
  define d1 where "d1 = (if first then flush (unalignedAbsorb (take k p) d) else d)"
  have take: "fold absorb_byte (take k p) d = flush (unalignedAbsorb (take k p) d)" if first
    by (rule absorb_in_lane [OF assms]) (use that in \<open>auto simp: k_def first_def\<close>)
  have ok: "digest_ok d1" using assms by (simp add: d1_def)
  have "p1 = [] \<or> absorbed d1 mod 8 = 0"
  proof (cases "first \<and> p1 \<noteq> []")
    case True
    then have "k = 8 - absorbed d mod 8" using aligned [OF assms] by (auto simp: p1_def k_def min_def split: if_splits)
    moreover have "(absorbed d + (8 - absorbed d mod 8)) mod 8 = 0" by presburger
    ultimately show ?thesis using True by (simp add: d1_def min_def p1_def)
  qed (use aligned [OF assms] in \<open>auto simp: first_def p1_def d1_def\<close>)
  then obtain q d2 where q: "absorb_loop p1 (absorbed d1 mod rate d1) d1 = Some (q, d2)" "length q \<le> 7" "digest_ok d2"
      "q = [] \<or> absorbed d2 mod 8 = 0" "fold absorb_byte p1 d1 = fold absorb_byte q d2"
    using absorb_loop_bytes [OF ok, of p1 "absorbed d1 mod rate d1"] by auto
  have "fold absorb_byte p d = fold absorb_byte p1 d1"
    using take fold_append [of absorb_byte "take k p" "drop k p"] by (simp add: p1_def d1_def)
  moreover have "digest_Write p d = Some (length p, if 0 < length q then unalignedAbsorb q d2 else d2)"
  proof (cases first)
    case True
    show ?thesis using q(1) True unfolding digest_Write_def Let_def laneSize_def if_P [OF True [unfolded first_def]] k_def [symmetric]
      by (simp add: p1_def d1_def flush_def split: if_splits)
  next
    case False
    show ?thesis using q(1) False unfolding digest_Write_def Let_def laneSize_def if_not_P [OF False [unfolded first_def]]
      by (simp add: p1_def d1_def)
  qed
  ultimately show ?thesis using absorb_tail [OF q(3,2,4)] q(5) by simp
qed

lemma fold_absorb_simps [simp]:
  "digest_ok d \<Longrightarrow> digest_ok (fold absorb_byte p d)" "rate (fold absorb_byte p d) = rate d"
  "absorbed (fold absorb_byte p d) = absorbed d + length p"
  by (induction p arbitrary: d) simp_all

lemma outputSize_simps [simp]:
  "outputSize (keccakF d) = outputSize d" "outputSize (absorb_byte b d) = outputSize d" "outputSize (finalize d) = outputSize d"
  "outputSize (fold absorb_byte p d) = outputSize d"
proof -
  show 1: "outputSize (absorb_byte b d) = outputSize d" for b d
    by (simp add: absorb_byte_def flush_def keccakF_def Let_def)
  show "outputSize (fold absorb_byte p d) = outputSize d" by (induction p arbitrary: d) (simp_all add: 1)
qed (simp_all add: finalize_def pad_def keccakF_def Let_def)

lemma write_all_bytes: "digest_ok d \<Longrightarrow> write_all data d = Some (fold absorb_byte (concat data) d)"
  by (induction data arbitrary: d) (simp_all add: Write_bytes)

lemma finalize_simps [simp]: "digest_ok d \<Longrightarrow> digest_ok (finalize d)" "rate (finalize d) = rate d"
  by (simp_all add: finalize_def pad_def digest_ok_def rate_def keccakF_def Let_def)

text \<open>One block of output is enough for every digest of the package.\<close>

lemma Sum_block:
  assumes "digest_ok d" "outputSize d \<le> rate d"
  shows "digest_Sum inp d = Some (inp @ take (outputSize d) (concat (map le_bytes (dg_a (finalize d)))))"
proof -
  let ?d = "finalize d" and ?out = "outputSize d"
  define n where "n = (?out + (8 - ?out mod 8) mod 8) div 8"
  have up: "(x + (8 - x mod 8) mod 8) div 8 = (x + 7) div 8" for x :: nat
  proof (cases "x mod 8 = 0")
    case False
    then have "(8 - x mod 8) mod 8 = 8 - x mod 8" by simp
    moreover have "x + (8 - x mod 8) = 8 * (x div 8 + 1)" by presburger
    moreover have "(x + 7) div 8 = x div 8 + 1" using False by presburger
    ultimately show ?thesis by simp
  qed auto
  have n: "?out \<le> 8 * n" "n \<le> (rate d + 7) div 8"
    using assms(2) unfolding n_def up by (linarith, intro div_le_mono, simp)
  have len: "length (concat (map le_bytes ws)) = 8 * length ws" for ws by (induction ws) (simp_all add: le_bytes_def)
  have "squeeze_lanes n ?d = Some (concat (map le_bytes (take n (dg_a ?d))))"
    using n(2) by (subst squeeze_lanes.simps) (simp add: laneSize_def Let_def min_def)
  moreover have "take ?out (concat (map le_bytes (take n (dg_a ?d)))) = take ?out (concat (map le_bytes (dg_a ?d)))"
  proof -
    have "n \<le> length (dg_a ?d)"
      using n(2) finalize_simps(1) [OF assms(1)] by (simp add: digest_ok_def rate_def stateSize_def laneSize_def numLanes_def sliceSize_def)
    then have "?out \<le> length (concat (map le_bytes (take n (dg_a ?d))))" using n(1) by (simp add: len)
    moreover have "concat (map le_bytes (dg_a ?d)) = concat (map le_bytes (take n (dg_a ?d))) @ concat (map le_bytes (drop n (dg_a ?d)))"
      by (metis append_take_drop_id concat_append map_append)
    ultimately show ?thesis by simp
  qed
  ultimately show ?thesis by (simp add: digest_Sum_def squeeze_def n_def laneSize_def Let_def)
qed

end
