(* ===== verification/Keccak_Props.thy ===== *)
theory Keccak_Props
  imports Keccak_Perm Keccak_Sponge
begin

unbundle bit_operations_syntax

text \<open>
  The digests of the package compute Keccak as it is specified: the message and its padding cut into blocks, every block
  added to the state and the permutation applied (\<open>ref_keccak\<close>), whatever the slices in which the bytes are written.
\<close>

section \<open>The sponge of the specification\<close>

definition ref_f :: "uint64 list \<Rightarrow> uint64 list" where
  "ref_f s = fold ref_round [0..<24] s"

definition xor_block :: "uint64 list \<Rightarrow> bytes \<Rightarrow> uint64 list" where
  "xor_block s blk = map (\<lambda>i. s ! i XOR (if 8 * i < length blk then le_word (take 8 (drop (8 * i) blk)) else 0)) [0..<25]"

definition blocks :: "nat \<Rightarrow> bytes \<Rightarrow> bytes list" where
  "blocks r m = map (\<lambda>i. take r (drop (i * r) m)) [0..<length m div r]"

text \<open>The padding \<open>10*1\<close>, the bits of a byte the least significant first.\<close>

definition padding :: "nat \<Rightarrow> nat \<Rightarrow> bytes" where
  "padding r n = (let k = r - n mod r in if k = 1 then [0x81] else 0x01 # replicate (k - 2) 0 @ [0x80])"

definition absorb_blocks :: "nat \<Rightarrow> bytes \<Rightarrow> uint64 list \<Rightarrow> uint64 list" where
  "absorb_blocks r m s = fold (\<lambda>blk s. ref_f (xor_block s blk)) (blocks r m) s"

definition ref_keccak :: "nat \<Rightarrow> bytes \<Rightarrow> bytes" where
  "ref_keccak bits m =
    (let r = 200 - 2 * bits div 8 in
     take (bits div 8) (concat (map le_bytes (absorb_blocks r (m @ padding r (length m)) (replicate 25 0)))))"

lemma keccakF_ref: "dg_a (keccakF d) = ref_f (dg_a d)"
  by (simp add: keccakF_def keccak_f_ref ref_f_def)

section \<open>Blocks\<close>

lemma absorb_lanes_nth:
  "8 * n \<le> length p \<Longrightarrow> j + n \<le> length a \<Longrightarrow> snd (absorb_lanes n j p a) ! i =
    (if j \<le> i \<and> i < j + n then a ! i XOR le_word (take 8 (drop (8 * (i - j)) p)) else a ! i)"
proof (induction n j p a rule: absorb_lanes.induct)
  case (2 n j p a)
  have IH: "snd (absorb_lanes (Suc n) j p a) ! i =
    (if Suc j \<le> i \<and> i < Suc j + n then xor_lane j (le_word (take 8 p)) a ! i XOR le_word (take 8 (drop (8 * (i - Suc j)) (drop 8 p)))
     else xor_lane j (le_word (take 8 p)) a ! i)"
    using 2 by (simp add: laneSize_def)
  have "8 * (i - Suc j) + 8 = 8 * (i - j)" if "Suc j \<le> i" using that by simp
  then show ?case using 2(3) unfolding IH by (auto simp: xor_lane_def nth_list_update)
qed auto

lemma absorb_block:
  assumes "digest_ok d" "absorbed d mod rate d = 0" "length blk = rate d"
  shows "dg_a (fold absorb_byte blk d) = ref_f (xor_block (dg_a d) blk)"
proof -
  define n where "n = rate d div 8"
  have n: "0 < n" "8 * n = rate d" "n \<le> 25" "length (dg_a d) = 25"
    using assms(1) by (auto simp: n_def digest_ok_def rate_def stateSize_def laneSize_def numLanes_def sliceSize_def)
  then obtain m where m: "n = Suc m" by (cases n) auto
  have "absorbed d mod 8 = 0" using aligned [OF assms(1)] assms(2) by simp
  then have "fold absorb_byte (take (8 * Suc m) blk) d =
      flush (d\<lparr>dg_a := snd (absorb_lanes (Suc m) (absorbed d mod rate d div 8) blk (dg_a d)), absorbed := absorbed d + 8 * Suc m\<rparr>)"
    by (rule absorb_lanes_bytes [OF assms(1)]) (use n m assms(2,3) in \<open>simp_all add: n_def [symmetric]\<close>)
  then have "fold absorb_byte blk d = flush (d\<lparr>dg_a := snd (absorb_lanes n 0 blk (dg_a d)), absorbed := absorbed d + rate d\<rparr>)"
    using n(2) assms(2,3) unfolding m [symmetric] by simp
  moreover have "snd (absorb_lanes n 0 blk (dg_a d)) = xor_block (dg_a d) blk"
  proof (rule nth_equalityI)
    fix i assume "i < length (snd (absorb_lanes n 0 blk (dg_a d)))"
    then show "snd (absorb_lanes n 0 blk (dg_a d)) ! i = xor_block (dg_a d) blk ! i"
      using n assms(3) by (auto simp: absorb_lanes_nth xor_block_def)
  qed (use n(4) in \<open>simp add: xor_block_def\<close>)
  ultimately show ?thesis using assms(2) by (simp add: flush_def keccakF_ref)
qed

lemma blocks_Cons:
  assumes "0 < r" "r \<le> length m"
  shows "blocks r m = take r m # blocks r (drop r m)"
proof -
  have "length m div r = Suc ((length m - r) div r)" using assms by (simp add: le_div_geq)
  then show ?thesis by (simp add: blocks_def upt_conv_Cons map_Suc_upt [symmetric] add.commute del: upt_Suc map_Suc_upt)
qed

lemma absorb_all:
  "digest_ok d \<Longrightarrow> absorbed d mod rate d = 0 \<Longrightarrow> length m = n * rate d \<Longrightarrow>
    dg_a (fold absorb_byte m d) = absorb_blocks (rate d) m (dg_a d)"
proof (induction n arbitrary: m d)
  case 0
  then show ?case by (simp add: absorb_blocks_def blocks_def)
next
  case (Suc n)
  let ?r = "rate d"
  let ?d = "fold absorb_byte (take ?r m) d"
  have r: "0 < ?r" "?r \<le> length m" using Suc.prems(1,3) by (auto simp: digest_ok_def)
  have 1: "dg_a ?d = ref_f (xor_block (dg_a d) (take ?r m))" by (rule absorb_block) (use Suc.prems r in auto)
  have "dg_a (fold absorb_byte (drop ?r m) ?d) = absorb_blocks (rate ?d) (drop ?r m) (dg_a ?d)"
    by (rule Suc.IH) (use Suc.prems r in auto)
  moreover have "fold absorb_byte (drop ?r m) ?d = fold absorb_byte m d"
    by (metis append_take_drop_id comp_apply fold_append)
  ultimately show ?case by (simp add: absorb_blocks_def blocks_Cons [OF r] 1)
qed

section \<open>The padding\<close>

lemma absorb_zeros:
  "digest_ok d \<Longrightarrow> absorbed d mod rate d + k < rate d \<Longrightarrow> fold absorb_byte (replicate k 0) d = d\<lparr>absorbed := absorbed d + k\<rparr>"
proof (induction k arbitrary: d)
  case (Suc k)
  have n: "(absorbed d + 1) mod rate d = absorbed d mod rate d + 1"
    using Suc.prems(2) mod_add_left_eq [of "absorbed d" "rate d" 1] by simp
  then have "absorb_byte 0 d = d\<lparr>absorbed := absorbed d + 1\<rparr>" by (simp add: absorb_byte_def flush_def xor_lane_simps Let_def)
  moreover have "digest_ok (d\<lparr>absorbed := absorbed d + 1\<rparr>)" using Suc.prems(1) by (simp add: digest_ok_def)
  ultimately show ?case using Suc.IH [of "d\<lparr>absorbed := absorbed d + 1\<rparr>"] Suc.prems(2) n by simp
qed simp

lemma last_byte:
  assumes "digest_ok d"
  shows "(rate d - 1) div 8 = rate d div 8 - 1" "(rate d - 1) mod 8 = 7"
proof -
  obtain j where "rate d = 8 * Suc j"
    using assms by (metis digest_ok_def mod_0_imp_dvd dvdE gr0_implies_Suc mult_is_0 neq0_conv)
  then have "rate d - 1 = 8 * j + 7" "rate d div 8 = Suc j" by simp_all
  then show "(rate d - 1) div 8 = rate d div 8 - 1" "(rate d - 1) mod 8 = 7" by simp_all
qed

lemma absorb_last:
  assumes "digest_ok d" "absorbed d mod rate d = rate d - 1"
  shows "dg_a (absorb_byte b d) = ref_f (xor_lane (rate d div 8 - 1) (push_bit 56 (ucast b)) (dg_a d))"
proof -
  have "0 < rate d" using assms(1) by (simp add: digest_ok_def)
  then have "(absorbed d + 1) mod rate d = 0" using mod_add_left_eq [of "absorbed d" "rate d" 1] assms(2) by simp
  then show ?thesis using assms(2) last_byte [OF assms(1)] by (simp add: absorb_byte_def flush_def keccakF_ref Let_def)
qed

lemma finalize_bytes:
  assumes ok: "digest_ok d"
  shows "dg_a (finalize d) = dg_a (fold absorb_byte (padding (rate d) (absorbed d)) d)"
proof -
  let ?pos = "absorbed d mod rate d"
  have r: "0 < rate d" using ok by (simp add: digest_ok_def)
  then have lt: "?pos < rate d" by simp
  show ?thesis
  proof (cases "?pos = rate d - 1")
    case True
    then have p: "padding (rate d) (absorbed d) = [0x81]" using r by (simp add: padding_def)
    show ?thesis using last_byte [OF ok] absorb_last [OF ok True, of "0x81"] True unfolding p
      by (simp add: finalize_def keccakF_ref pad_def laneSize_def xor_lane_simps Let_def)
  next
    case False
    define k where "k = rate d - ?pos - 2"
    let ?d = "absorb_byte 1 d"
    have k: "rate d - ?pos = k + 2" using False lt by (simp add: k_def)
    then have p: "padding (rate d) (absorbed d) = 1 # replicate k 0 @ [0x80]" by (simp add: padding_def)
    have n: "(absorbed d + 1) mod rate d = ?pos + 1" "(absorbed d + Suc k) mod rate d = rate d - 1"
      using mod_add_left_eq [of "absorbed d" "rate d" 1] mod_add_left_eq [of "absorbed d" "rate d" "Suc k"] k by simp_all
    have 1: "?d = d\<lparr>dg_a := xor_lane (?pos div 8) (push_bit (8 * (?pos mod 8)) 1) (dg_a d), absorbed := absorbed d + 1\<rparr>"
      using n(1) by (simp add: absorb_byte_def flush_def Let_def)
    have ok1: "digest_ok ?d" using ok by simp
    have 2: "fold absorb_byte (replicate k 0) ?d = ?d\<lparr>absorbed := absorbed ?d + k\<rparr>"
      by (rule absorb_zeros [OF ok1]) (use n(1) k in simp)
    have "dg_a (absorb_byte 0x80 (?d\<lparr>absorbed := absorbed ?d + k\<rparr>)) =
        ref_f (xor_lane (rate d div 8 - 1) (push_bit 56 (ucast (0x80 :: byte))) (dg_a ?d))"
      using absorb_last [of "?d\<lparr>absorbed := absorbed ?d + k\<rparr>"] ok1 n(2) by (simp add: digest_ok_def)
    then show ?thesis unfolding p using 1 2 by (simp add: finalize_def keccakF_ref pad_def laneSize_def Let_def)
  qed
qed

section \<open>The digests of the package\<close>

lemma new_ok: "bits \<in> {224, 256, 384, 512} \<Longrightarrow> digest_ok (new_digest bits)"
  by (auto simp: new_digest_def digest_ok_def rate_def stateSize_def laneSize_def numLanes_def sliceSize_def)

lemma new_digest_keccak:
  assumes bits: "bits \<in> {224, 256, 384, 512}"
  shows "\<exists>d. write_all data (new_digest bits) = Some d \<and> digest_Sum inp d = Some (inp @ ref_keccak bits (concat data))"
proof (intro exI conjI)
  let ?d = "new_digest bits" and ?m = "concat data"
  let ?r = "rate ?d" and ?e = "fold absorb_byte ?m ?d"
  have ok: "digest_ok ?d" by (rule new_ok [OF bits])
  show "write_all data ?d = Some ?e" by (rule write_all_bytes [OF ok])
  have d: "?r = 200 - 2 * bits div 8" "absorbed ?d = 0" "dg_a ?d = replicate 25 0" "outputSize ?d = bits div 8" "bits div 8 \<le> ?r"
    using bits by (auto simp: new_digest_def rate_def stateSize_def laneSize_def numLanes_def sliceSize_def)
  have r: "0 < ?r" using ok by (simp add: digest_ok_def)
  have pad: "length (padding ?r n) = ?r - n mod ?r" for n
    using mod_less_divisor [OF r, of n] by (auto simp: padding_def Let_def)
  have "length ?m + (?r - length ?m mod ?r) = length ?m div ?r * ?r + ?r"
    using mod_less_divisor [OF r, of "length ?m"] div_mult_mod_eq [of "length ?m" ?r] by linarith
  then have "length (?m @ padding ?r (length ?m)) = (length ?m div ?r + 1) * ?r" by (simp add: pad)
  from absorb_all [OF ok _ this] have "dg_a (fold absorb_byte (padding ?r (length ?m)) ?e)
      = absorb_blocks ?r (?m @ padding ?r (length ?m)) (replicate 25 0)"
    by (simp add: d(2,3))
  then have "dg_a (finalize ?e) = absorb_blocks ?r (?m @ padding ?r (length ?m)) (replicate 25 0)"
    using ok by (simp add: finalize_bytes d(2))
  then show "digest_Sum inp ?e = Some (inp @ ref_keccak bits ?m)"
    using Sum_block [of ?e inp] ok d(1,4,5) by (simp add: ref_keccak_def Let_def)
qed

text \<open>C23. keccakF is the permutation Keccak-f[1600] as specified: 24 rounds of theta (column parities), rho (rotations by the
  triangular numbers along the walk (x, y) -> (y, 2x + 3y)), pi, chi and iota, whose constants come from the linear feedback shift
  register; the unrolled code with its tables round_constants and rho_offsets computes the same.\<close>

theorem keccakF_reference: "keccakF d = d\<lparr>dg_a := fold ref_round [0..<24] (dg_a d)\<rparr>"
  by (simp add: keccakF_def keccak_f_ref)

text \<open>C9. Every digest of the package returns and computes Keccak: however the message is cut into writes (unaligned, short,
  across blocks), Sum after the writes appends to its argument the hash of the whole message as specified (padding 10*1, the blocks
  absorbed one by one with the reference permutation, the output cut to the digest's size), and Sha3, which
  the instruction SHA3, EXTCODEHASH and NewContractAddress2 call, is Keccak-256.\<close>

theorem digests_compute_Keccak:
  "Sha3 data = Some (ref_keccak 256 (concat data)) \<and> sha3_bytes m = ref_keccak 256 m \<and>
   (\<forall>inp. \<exists>d. write_all data NewKeccak224 = Some d \<and> digest_Sum inp d = Some (inp @ ref_keccak 224 (concat data))) \<and>
   (\<forall>inp. \<exists>d. write_all data NewKeccak384 = Some d \<and> digest_Sum inp d = Some (inp @ ref_keccak 384 (concat data))) \<and>
   (\<forall>inp. \<exists>d. write_all data NewKeccak512 = Some d \<and> digest_Sum inp d = Some (inp @ ref_keccak 512 (concat data)))"
proof -
  note K = new_digest_keccak [where data = data]
  have sha3: "Sha3 bs = Some (ref_keccak 256 (concat bs))" for bs
    using new_digest_keccak [of 256 bs "[]"] by (auto simp: Sha3_def NewKeccak256_def)
  have "sha3_bytes m = ref_keccak 256 m" by (simp add: sha3_bytes_def sha3)
  then show ?thesis using sha3 K [of 224] K [of 384] K [of 512]
    by (simp add: NewKeccak224_def NewKeccak384_def NewKeccak512_def)
qed

end
