(* ===== verification/Query.thy ===== *)
theory Query
  imports Burrow_Tx "HOL-Library.Sublist"
begin

text \<open>
  The queries a node answers (\<open>abciapp/service/query\<close>): a key of the database, several keys by one path, the result of a
  view method of a contract of the virtual machine, the version of the genesis files.

  Outside: the parser of signed queries, the types and encoder of a parsed interface, addresses, the key with which a view
  is called, and files. A value of Go's \<open>interface{}\<close> is one of \<open>arg_value\<close>; the result \<open>Inl\<close> is a panic.
\<close>

section \<open>Requests, responses and external code\<close>

record RequestQuery =
  qr_Data :: string
  qr_Path :: string

record ResponseQuery =
  rq_Code :: nat
  rq_Log :: string
  rq_Key :: string
  rq_Value :: bytes

record ResponseQueryEx =
  qx_Code :: nat
  qx_Log :: string
  qx_KeyValues :: "(string \<times> bytes) list"

datatype arg_value =
    V_nil | V_error string | V_bool bool | V_int64 int64 | V_uint64 uint64
  | V_int64s "int64 list" | V_uint64s "uint64 list" | V_int64ss "int64 list list" | V_uint64ss "uint64 list list"
  | V_string string | V_bytes bytes | V_bytess "bytes list"
  | V_address word160 | V_addresses "word160 list" | V_addressess "word160 list list"

record 'db Queries = "'db Burrow" +
  c_CodeTypeOK :: nat
  c_ErrNoAuthorization :: nat
  txt_ErrNoAuthorization :: string
  c_ErrPath :: nat
  QueryDataParse :: "string \<Rightarrow> string \<Rightarrow> string + string \<times> string"
  CheckAddress :: "string \<Rightarrow> string \<Rightarrow> bool"
  abi_isConst :: "ABI \<Rightarrow> string \<Rightarrow> bool"
  abi_inputs :: "ABI \<Rightarrow> string \<Rightarrow> string list"
  abi_ctor_inputs :: "ABI \<Rightarrow> string list"
  abi_Pack :: "ABI \<Rightarrow> string \<Rightarrow> arg_value list \<Rightarrow> string + bytes"
  WrapInvokeParams :: "bytes \<Rightarrow> bytes list"
  view_sender :: "string \<Rightarrow> string"

abbreviation base_burrow :: "'db Queries \<Rightarrow> 'db Burrow" where
  "base_burrow K \<equiv> Burrow.truncate K"

definition empty_response :: ResponseQuery where
  "empty_response = \<lparr>rq_Code = 0, rq_Log = [], rq_Key = [], rq_Value = []\<rparr>"

section \<open>Strings\<close>

text \<open>\<open>strings.Index\<close>, \<open>strings.LastIndex\<close> of a character.\<close>

fun Index :: "string \<Rightarrow> string \<Rightarrow> nat option" where
  "Index [] sub = (if sub = [] then Some 0 else None)"
| "Index (c # s) sub = (if prefix sub (c # s) then Some 0 else map_option Suc (Index s sub))"

definition LastIndex :: "string \<Rightarrow> char \<Rightarrow> nat option" where
  "LastIndex s c = (if c \<in> set s then Some (length s - 1 - length (takeWhile (\<lambda>d. d \<noteq> c) (rev s))) else None)"

text \<open>\<open>s[1 : len(s)-1]\<close>.\<close>

definition strip_ends :: "string \<Rightarrow> string + string" where
  "strip_ends s = (if length s < 2 then Inl ''slice bounds out of range'' else Inr (butlast (tl s)))"

text \<open>The first groups of all matches of the regular expression \<open>\[(.*?)\]\<close>: the dot matches anything but a line break.\<close>

function bracketed :: "string \<Rightarrow> string list" where
  "bracketed [] = []"
| "bracketed (c # s) =
    (let inner = takeWhile (\<lambda>d. d \<noteq> CHR '']'') s; after = dropWhile (\<lambda>d. d \<noteq> CHR '']'') s in
     if c = CHR ''['' \<and> after \<noteq> [] \<and> CHR 0x0A \<notin> set inner then inner # bracketed (tl after) else bracketed s)"
  by pat_completeness auto
termination
proof (relation "measure length")
  fix c s x xa
  assume "xa = dropWhile (\<lambda>d. d \<noteq> CHR '']'') (s :: string)"
  then show "(tl xa, c # s) \<in> measure length" using length_dropWhile_le [of "\<lambda>d. d \<noteq> CHR '']''" s] by simp
qed auto

section \<open>Arguments of a view (\<open>common.go\<close>)\<close>

definition number :: "string \<Rightarrow> 64 word" where
  "number s = word_of_int (snd (Atoi s))"

definition GetBetweenStrUint :: "string \<Rightarrow> uint64 list list" where
  "GetBetweenStrUint str = map (\<lambda>m. map number (Split (CHR '','') m)) (bracketed str)"

definition GetBetweenStrInt :: "string \<Rightarrow> int64 list list" where
  "GetBetweenStrInt str = map (\<lambda>m. map number (Split (CHR '','') m)) (bracketed str)"

definition GetBetweenStrByte :: "string \<Rightarrow> bytes list" where
  "GetBetweenStrByte str = concat (map (\<lambda>m. map bytes_of_string (Split (CHR '','') m)) (bracketed str))"

text \<open>An address, \<open>None\<close> when it is not valid.\<close>

definition read_address :: "'db Queries \<Rightarrow> string \<Rightarrow> string + word160 option" where
  "read_address K s = (if CheckAddress K (cr_chainID (ch_crypto K)) s
     then andThen (or_crash ''slice bounds out of range'' (ToBVM (ch_crypto K) s)) (\<lambda>a. Inr (Some a)) else Inr None)"

text \<open>The loop stops at the first address that is not valid.\<close>

fun read_addresses :: "'db Queries \<Rightarrow> string list \<Rightarrow> string + word160 list option" where
  "read_addresses K [] = Inr (Some [])"
| "read_addresses K (v # vs) = andThen (read_address K v) (\<lambda>a. case a of None \<Rightarrow> Inr None
     | Some a \<Rightarrow> andThen (read_addresses K vs) (\<lambda>r. Inr (map_option (\<lambda>l. a # l) r)))"

fun read_address_lists :: "'db Queries \<Rightarrow> string list \<Rightarrow> string + word160 list list option" where
  "read_address_lists K [] = Inr (Some [])"
| "read_address_lists K (m # ms) = andThen (read_addresses K (Split (CHR '','') m)) (\<lambda>a. case a of None \<Rightarrow> Inr None
     | Some a \<Rightarrow> andThen (read_address_lists K ms) (\<lambda>r. Inr (map_option (\<lambda>l. a # l) r)))"

definition GetBetweenStrAddr :: "'db Queries \<Rightarrow> string \<Rightarrow> string + word160 list list" where
  "GetBetweenStrAddr K str = andThen (read_address_lists K (bracketed str)) (\<lambda>r. Inr (case r of None \<Rightarrow> [] | Some l \<Rightarrow> l))"

definition norm_type :: "string \<Rightarrow> string" where
  "norm_type paramType =
    (let paramType = (if prefix ''bytes'' paramType then ''bytes'' else paramType);
         shape = (\<lambda>base t. if prefix base t
           then (if \<not> suffix '']'' t then base else if Contains t '']['' then base @ ''[][]'' else base @ ''[]'') else t)
     in shape ''uint'' (shape ''int'' paramType))"

definition DetermineType :: "'db Queries \<Rightarrow> string \<Rightarrow> string \<Rightarrow> string + arg_value" where
  "DetermineType K paramType param = (let t = norm_type paramType in
     if t = ''bool'' then Inr (case ParseBool param of
         None \<Rightarrow> V_error (''strconv.ParseBool: parsing '' @ param @ '': invalid syntax'') | Some b \<Rightarrow> V_bool b)
     else if t = ''int'' then Inr (V_int64 (number param))
     else if t = ''uint'' then Inr (V_uint64 (number param))
     else if t = ''int[]'' then andThen (strip_ends param) (\<lambda>s. Inr (V_int64s (map number (Split (CHR '','') s))))
     else if t = ''uint[]'' then andThen (strip_ends param) (\<lambda>s. Inr (V_uint64s (map number (Split (CHR '','') s))))
     else if t = ''int[][]'' then Inr (V_int64ss (GetBetweenStrInt param))
     else if t = ''uint[][]'' then Inr (V_uint64ss (GetBetweenStrUint param))
     else if t = ''string'' then Inr (V_string param)
     else if t = ''bytes'' \<or> t = ''byte[]'' then Inr (V_bytes (bytes_of_string param))
     else if t = ''byte[][]'' then Inr (V_bytess (GetBetweenStrByte param))
     else if t = ''address'' then andThen (read_address K param) (\<lambda>a. Inr (case a of None \<Rightarrow> V_nil | Some a \<Rightarrow> V_address a))
     else if t = ''address[]'' then andThen (strip_ends param) (\<lambda>s. andThen (read_addresses K (Split (CHR '','') s)) (\<lambda>r.
       Inr (case r of None \<Rightarrow> V_nil | Some l \<Rightarrow> V_addresses l)))
     else if t = ''address[][]'' then andThen (GetBetweenStrAddr K param) (\<lambda>l. Inr (V_addressess l))
     else Inr V_nil)"

text \<open>The loops of \<open>PackParams\<close> over the types of the inputs: too few arguments are an index out of range.\<close>

fun determine_all :: "'db Queries \<Rightarrow> string list \<Rightarrow> string list \<Rightarrow> string + arg_value list" where
  "determine_all K [] args = Inr []"
| "determine_all K (t # ts) [] = Inl index_range"
| "determine_all K (t # ts) (p # ps) = andThen (DetermineType K t p) (\<lambda>v. andThen (determine_all K ts ps) (\<lambda>vs. Inr (v # vs)))"

definition PackParams :: "'db Queries \<Rightarrow> ABI \<Rightarrow> string \<Rightarrow> string list \<Rightarrow> string + string + bytes" where
  "PackParams K abi2 meth args =
    (let types = (if meth = [] then abi_ctor_inputs K abi2 else abi_inputs K abi2 meth) in
     if meth \<noteq> [] \<and> types \<noteq> [] \<and> args = [] then Inr (Inr [])
     else andThen (determine_all K types args) (\<lambda>newParam. Inr (abi_Pack K abi2 meth newParam)))"

section \<open>Views of contracts\<close>

definition PrepareMessages :: "'db Queries \<Rightarrow> string \<Rightarrow> bytes \<Rightarrow> Message list" where
  "PrepareMessages K ContractAddr BVMParams =
    [\<lparr>ms_Contract = ContractAddr, ms_MethodID = 0xFFFFFFFF, ms_Items = WrapInvokeParams K BVMParams\<rparr>]"

text \<open>The call is made outside any transaction (numbers 0) with an empty header; what it answers is the text of the result,
  whether the call succeeded or not.\<close>

definition commitTX :: "'db Queries \<Rightarrow> string \<Rightarrow> bytes \<Rightarrow> 'db Helper \<Rightarrow> ('db Helper, string + ResponseQuery) act" where
  "commitTX K contractAddr BinParams h =
    seqR (GetChainID (ch_ext K) (ch_json K) h) (\<lambda>cid h. let senderAddr = view_sender K cid in
    let nonceValue = (case GetFromDB (ch_ext K) (KeyOfAccountNonce senderAddr) h of Inl _ \<Rightarrow> [] | Inr v \<Rightarrow> v) in
    case (if length nonceValue = 0 then Inr 1 else map_sum id (\<lambda>n. n + 1) (unmarshal (j_Nonce (ch_json K)) nonceValue)) of
      Inl err \<Rightarrow> (Inr (Inl err), h)
    | Inr n \<Rightarrow>
      seqR (InvokeTxEx (base_burrow K) no_header [] 0 0 senderAddr \<lparr>td_Nonce = n, td_GasLimit = 100000, td_Note = [],
          td_Messages = PrepareMessages K contractAddr BinParams\<rparr> h) (\<lambda>res h.
      (Inr (Inr \<lparr>rq_Code = c_BVMQueryOK K, rq_Log = rs_Log res, rq_Key = [], rq_Value = bytes_of_string (rs_Data res)\<rparr>), h)))"

text \<open>The name and arguments of a method as it is written in the path.\<close>

definition view_method :: "string \<Rightarrow> string + string \<times> string list" where
  "view_method methods =
    (if Contains methods ''('' \<and> suffix '')'' methods
     then (let methodSlice = Split (CHR ''('') methods in
       andThen (elem_at methodSlice 0) (\<lambda>meth. andThen (elem_at methodSlice 1) (\<lambda>arg.
       if arg = [] then Inl ''slice bounds out of range'' else Inr (meth, Split (CHR '','') (butlast arg)))))
     else Inr (methods, []))"

definition BvmViewKey :: "'db Queries \<Rightarrow> string \<Rightarrow> 'db Helper \<Rightarrow> ('db Helper, ResponseQuery) act" where
  "BvmViewKey K key h = (let keys = Split (CHR ''/'') key in
    if length keys \<noteq> 5 then (Inr empty_response, h)
    else let contractAddr = keys ! 3; methods = keys ! 4 in
    need (view_method methods) h (\<lambda>(methodName, args).
    let res = (case GetFromDB (ch_ext K) (''/bvm/contract/'' @ contractAddr) h of Inl _ \<Rightarrow> [] | Inr v \<Rightarrow> v) in
    case unmarshal (j_BvmContract K) res of
      Inl _ \<Rightarrow> (Inr empty_response, h)
    | Inr contract \<Rightarrow> (case abi_JSON K (bc_BvmAbi contract) of
        Inl _ \<Rightarrow> (Inr empty_response, h)
      | Inr Abi \<Rightarrow>
        if \<not> abi_isConst K Abi methodName then (Inr empty_response, h)
        else need (PackParams K Abi methodName args) h (\<lambda>q. case q of
          Inl _ \<Rightarrow> (Inr empty_response, h)
        | Inr BinParams \<Rightarrow> seqR (commitTX K contractAddr BinParams h) (\<lambda>q h. case q of
            Inl _ \<Rightarrow> (Inr empty_response, h)
          | Inr resQuery \<Rightarrow> (Inr (resQuery\<lparr>rq_Key := key\<rparr>), h))))))"

section \<open>Keys of the database (\<open>querystatedb.go\<close>)\<close>

text \<open>A signed query of an account must name the address of its signer.\<close>

definition signed_key :: "'db Queries \<Rightarrow> string \<Rightarrow> 'db Helper \<Rightarrow> ('db Helper, ResponseQuery + string) act" where
  "signed_key K dat h = seqR (GetChainID (ch_ext K) (ch_json K) h) (\<lambda>cid h. (Inr (case QueryDataParse K cid dat of
     Inl err \<Rightarrow> Inl (empty_response\<lparr>rq_Code := c_LogicError K, rq_Log := err\<rparr>)
   | Inr (addrStr, key) \<Rightarrow>
       if prefix ''/account'' key \<and> \<not> Contains key addrStr
       then Inl (empty_response\<lparr>rq_Code := c_ErrNoAuthorization K, rq_Log := txt_ErrNoAuthorization K\<rparr>)
       else Inr key), h))"

definition query :: "'db Queries \<Rightarrow> RequestQuery \<Rightarrow> 'db Helper \<Rightarrow> ('db Helper, ResponseQuery) act" where
  "query K req h =
    seqR (if qr_Data req \<noteq> [] then signed_key K (qr_Data req) h else (Inr (Inr (qr_Path req)), h)) (\<lambda>q h. case q of
      Inl resp \<Rightarrow> (Inr resp, h)
    | Inr QueryKey \<Rightarrow>
      if prefix ''/bvm/view/'' QueryKey then BvmViewKey K QueryKey h
      else need (GetFromDB (ch_ext K) QueryKey h) h (\<lambda>kBytes.
        (Inr \<lparr>rq_Code = c_CodeTypeOK K, rq_Log = [], rq_Key = qr_Path req, rq_Value = kBytes\<rparr>, h)))"

definition ResolvePath :: "string \<Rightarrow> string + string list" where
  "ResolvePath path =
    (if \<not> prefix ''/'' path then Inl (''path does not start with '' @ [CHR 0x27] @ ''/'' @ [CHR 0x27])
     else if suffix ''/'' path then Inl (''path cannot end with '' @ [CHR 0x27] @ ''/'' @ [CHR 0x27])
     else case Index path ''/['' of
       None \<Rightarrow> Inl (''path does not contain '' @ [CHR 0x27] @ ''/['' @ [CHR 0x27])
     | Some i \<Rightarrow> (case LastIndex path (CHR '']'') of
         None \<Rightarrow> Inl ([CHR 0x27] @ '']'' @ [CHR 0x27] @ '' is not on the right of '' @ [CHR 0x27] @ ''/['' @ [CHR 0x27])
       | Some j \<Rightarrow>
           if j < i then Inl ([CHR 0x27] @ '']'' @ [CHR 0x27] @ '' is not on the right of '' @ [CHR 0x27] @ ''/['' @ [CHR 0x27])
           else Inr (map (\<lambda>v. take (i + 1) path @ v @ drop (j + 1) path)
             (Split (CHR '','') (take (j - (i + 2)) (drop (i + 2) path))))))"

fun read_keys :: "'db Queries \<Rightarrow> string list \<Rightarrow> 'db Helper \<Rightarrow> string + (string \<times> bytes) list" where
  "read_keys K [] h = Inr []"
| "read_keys K (v # keys) h = andThen (GetFromDB (ch_ext K) v h) (\<lambda>kBytes.
     andThen (read_keys K keys h) (\<lambda>kv. Inr ((v, kBytes) # kv)))"

definition queryEx :: "'db Queries \<Rightarrow> RequestQuery \<Rightarrow> 'db Helper \<Rightarrow> ('db Helper, ResponseQueryEx) act" where
  "queryEx K req h = (case ResolvePath (qr_Path req) of
     Inl err \<Rightarrow> (Inr \<lparr>qx_Code = c_ErrPath K, qx_Log = err, qx_KeyValues = []\<rparr>, h)
   | Inr keys \<Rightarrow> need (read_keys K keys h) h (\<lambda>kv. (Inr \<lparr>qx_Code = c_CodeTypeOK K, qx_Log = [], qx_KeyValues = kv\<rparr>, h)))"

section \<open>Genesis files (\<open>get_genesis.go\<close>)\<close>

fun compare_parts :: "string list \<Rightarrow> string list \<Rightarrow> int" where
  "compare_parts (a # as) (b # bs) =
    (let (ok1, v1) = Atoi a; (ok2, v2) = Atoi b in
     if \<not> ok1 \<or> \<not> ok2 then 0 else if v2 < v1 then 1 else if v1 < v2 then - 1 else compare_parts as bs)"
| "compare_parts _ _ = 0"

definition compareVersion :: "string \<Rightarrow> string \<Rightarrow> int" where
  "compareVersion v1 v2 =
    (if v1 = [] then - 1
     else let v1s = Split (CHR ''.'') v1; v2s = Split (CHR ''.'') v2 in
       if length v1s \<noteq> length v2s then 0 else compare_parts v1s v2s)"

text \<open>The choice of the file in \<open>targzGenesis\<close> among the names of the directory that are no directories.\<close>

fun min_version :: "string \<Rightarrow> string list \<Rightarrow> string" where
  "min_version minVersion [] = minVersion"
| "min_version minVersion (name # files) =
    (if prefix ''genesis-smcrunsvc_'' name \<and> suffix ''.tar.gz'' name
     then let version = drop 18 name;
              version = (if suffix ''.tar.gz'' version then take (length version - 7) version else version) in
       if minVersion = [] then min_version version files
       else if 0 < compareVersion minVersion version then min_version version files else min_version minVersion files
     else min_version minVersion files)"

end
