(* ===== verification/Query_Props.thy ===== *)
theory Query_Props
  imports Query Burrow_Props Helper_Props
begin

text \<open>
  Properties of queries: none of them changes the chain; a path with brackets stands for the list of its keys; some paths
  stop the node.
\<close>

section \<open>Paths\<close>

fun join :: "char \<Rightarrow> string list \<Rightarrow> string" where
  "join c [] = []"
| "join c [e] = e"
| "join c (e # es) = e @ c # join c es"

lemma Split_no: "c \<notin> set s \<Longrightarrow> Split c s = [s]"
  by (induction s) auto

lemma Split_append: "c \<notin> set s \<Longrightarrow> Split c (s @ c # t) = s # Split c t"
  by (induction s) auto

lemma Split_join: "es \<noteq> [] \<Longrightarrow> \<forall>e \<in> set es. c \<notin> set e \<Longrightarrow> Split c (join c es) = es"
  by (induction c es rule: join.induct) (auto simp: Split_no Split_append)

lemma Index_bracket: "CHR ''['' \<notin> set p \<Longrightarrow> Index (p @ ''/['' @ s) ''/['' = Some (length p)"
proof (induction p)
  case (Cons c p)
  have "\<not> prefix ''/['' (c # p @ ''/['' @ s)" using Cons.prems by (cases p) auto
  then show ?case using Cons by simp
qed simp

lemma LastIndex_last: "c \<notin> set t \<Longrightarrow> LastIndex (s @ c # t) c = Some (length s)"
  by (simp add: LastIndex_def takeWhile_append2 takeWhile_append)

lemma ResolvePath_list:
  assumes "prefix ''/'' (p @ ''/'')" "CHR ''['' \<notin> set p" "CHR '']'' \<notin> set t" "\<not> suffix ''/'' t"
    and es: "es \<noteq> []" "\<forall>e \<in> set es. CHR '','' \<notin> set e"
  shows "ResolvePath (p @ ''/['' @ join (CHR '','') es @ '']'' @ t) = Inr (map (\<lambda>e. p @ ''/'' @ e @ t) es)"
proof -
  let ?in = "join (CHR '','') es"
  let ?path = "p @ ''/['' @ ?in @ '']'' @ t"
  have i: "Index ?path ''/['' = Some (length p)" by (rule Index_bracket [OF assms(2)])
  have j: "LastIndex ?path (CHR '']'') = Some (length p + 2 + length ?in)"
    using LastIndex_last [OF assms(3), of "p @ ''/['' @ ?in"] by simp
  have "prefix ''/'' ?path" using assms(1) by (cases p) auto
  moreover have "\<not> suffix ''/'' ?path" using assms(4) by (cases t rule: rev_cases) (auto simp: suffix_def)
  ultimately show ?thesis using Split_join [OF es] i j by (simp add: ResolvePath_def numeral_3_eq_3)
qed

section \<open>Paths that stop the node\<close>

lemma Contains_mid: "Contains (p @ c # s) [c]"
  by (induction p) (subst Contains.simps, simp)+

lemma view_method_double:
  assumes "CHR ''('' \<notin> set m"
  shows "view_method (m @ ''(('' @ r @ '')'') = Inl ''slice bounds out of range''"
proof -
  have "Split (CHR ''('') (m @ ''(('' @ r @ '')'') = m # [] # Split (CHR ''('') (r @ '')'')"
    using Split_append [OF assms, of "CHR ''('' # r @ '')''"] by simp
  moreover have "suffix '')'' (m @ ''(('' @ r @ '')'')" by (simp add: suffix_def)
  moreover have "Contains (m @ ''(('' @ r @ '')'') ''(''" using Contains_mid [of m "CHR ''(''" "CHR ''('' # r @ '')''"] by simp
  ultimately show ?thesis by (simp add: view_method_def elem_at_def andThen_def)
qed

section \<open>What a query leaves alone\<close>

text \<open>A view runs as a call of transaction 0, and is confined to a tx of that transaction, which is not open.\<close>

lemma kept_query: "confined 0 0 h0 h \<Longrightarrow> kept (confined 0 0 h0) (query K req h)"
  unfolding query_def signed_key_def BvmViewKey_def commitTX_def Let_def by (intro kept; assumption)

section \<open>Properties\<close>

text \<open>C20. A query changes nothing: whatever it asks for (a key, several keys, a signed key, a view of a contract, whose run
  happens on caches that are thrown away) and however it ends, a panic included, the database, the open transaction of the block with its txs
  and the snapshots are afterwards what they were, in every state that the node's operations keep.\<close>

theorem queries_change_nothing:
  assumes "helper_ok h"
  shows "same_chain h (snd (query K req h)) \<and> snd (queryEx K req h) = h"
proof -
  have "transactionMap h 0 = None"
    using helper_okD(1) [OF assms, of 0] by (cases "transactionMap h 0") (auto simp: trans_ok_def tran_def)
  then show ?thesis
    using kept_query [OF confined_refl [of 0 0 h]] by (auto simp: kept_def queryEx_def need_def split: sum.split intro: confined_same_chain)
qed

definition demo_queries :: "kvs Queries" where
  "demo_queries = Burrow.extend demo_burrow (Queries.fields 200 5007 ''not authorized'' 5008 (\<lambda>_ _. Inl ''no signature'') (\<lambda>_ _. True)
     (\<lambda>_ _. True) (\<lambda>_ _. []) (\<lambda>_. []) (\<lambda>_ _ _. Inr []) (\<lambda>b. [b]) (\<lambda>_. demo_bvm_contract))"

theorem queries_change_nothing_witness:
  "same_chain demo_open (snd (query demo_queries \<lparr>qr_Data = [], qr_Path = ''/bvm/view/a/f''\<rparr> demo_open))
   \<and> snd (queryEx demo_queries \<lparr>qr_Data = [], qr_Path = ''/bvm/view/a/f''\<rparr> demo_open) = demo_open"
  by (rule queries_change_nothing [OF helper_reach_ok [OF demo_open_reach]])

text \<open>C31. A path with a list in brackets is answered with the keys it stands for: for elements without a comma, in the order
  written, each key put together from what is before and after the brackets, with the bytes the database has for it (none
  for a key it does not have).\<close>

theorem queryEx_values:
  assumes "prefix ''/'' (p @ ''/'')" "CHR ''['' \<notin> set p" "CHR '']'' \<notin> set t" "\<not> suffix ''/'' t"
    and "es \<noteq> []" "\<forall>e \<in> set es. CHR '','' \<notin> set e"
    and "\<forall>e \<in> set es. GetFromDB (ch_ext K) (p @ ''/'' @ e @ t) h = Inr (value_of e)"
    and "qr_Path req = p @ ''/['' @ join (CHR '','') es @ '']'' @ t"
  shows "queryEx K req h = (Inr \<lparr>qx_Code = c_CodeTypeOK K, qx_Log = [],
    qx_KeyValues = map (\<lambda>e. (p @ ''/'' @ e @ t, value_of e)) es\<rparr>, h)"
proof -
  have "\<forall>e \<in> set es. GetFromDB (ch_ext K) (p @ ''/'' @ e @ t) h = Inr (value_of e) \<Longrightarrow>
      read_keys K (map (\<lambda>e. p @ ''/'' @ e @ t) es) h = Inr (map (\<lambda>e. (p @ ''/'' @ e @ t, value_of e)) es)" for es
    by (induction es) (simp_all add: andThen_def)
  then show ?thesis using assms(7) ResolvePath_list [OF assms(1-6)] by (simp add: queryEx_def assms(8) need_def)
qed

theorem queryEx_values_witness:
  "let h = demo_open\<lparr>stateDB := (stateDB demo_open)\<lparr>sdb := [(''/a/x/b'', [1]), (''/a/y/b'', [2])]\<rparr>\<rparr> in
   queryEx demo_queries \<lparr>qr_Data = [], qr_Path = ''/a/[y,z,x]/b''\<rparr> h =
     (Inr \<lparr>qx_Code = 200, qx_Log = [], qx_KeyValues = [(''/a/y/b'', [2]), (''/a/z/b'', []), (''/a/x/b'', [1])]\<rparr>, h)"
  using queryEx_values [where K = demo_queries and p = "''/a''" and t = "''/b''" and es = "[''y'', ''z'', ''x'']"
      and req = "\<lparr>qr_Data = [], qr_Path = ''/a/[y,z,x]/b''\<rparr>" and value_of = "\<lambda>e. if e = ''y'' then [2] else if e = ''x'' then [1] else []"
      and h = "demo_open\<lparr>stateDB := (stateDB demo_open)\<lparr>sdb := [(''/a/x/b'', [1]), (''/a/y/b'', [2])]\<rparr>\<rparr>"]
  by (simp add: suffix_def demo_queries_def Burrow.extend_def Queries.fields_def demo_burrow_def GetFromDB_def StateDB_Get_def
      model_ext_def kv_get_def)

text \<open>A path that stops the node: the query of a view whose method is written with two opening parentheses in a row
  panics with a slice out of range, in every state, before the contract has been looked for.\<close>

theorem view_path_panics:
  assumes "CHR ''/'' \<notin> set addr" "CHR ''/'' \<notin> set m" "CHR ''/'' \<notin> set r" "CHR ''('' \<notin> set m"
  shows "query K \<lparr>qr_Data = [], qr_Path = ''/bvm/view/'' @ addr @ ''/'' @ m @ ''(('' @ r @ '')''\<rparr> h =
    (Inl ''slice bounds out of range'', h)"
proof -
  let ?path = "''/bvm/view/'' @ addr @ ''/'' @ m @ ''(('' @ r @ '')''"
  have "Split (CHR ''/'') ?path = [[], ''bvm'', ''view'', addr, m @ ''(('' @ r @ '')'']"
    using Split_append [OF assms(1), of "m @ ''(('' @ r @ '')''"] Split_no [of "CHR ''/''" "m @ ''(('' @ r @ '')''"] assms(2,3) by simp
  then show ?thesis
    using view_method_double [OF assms(4), of r] by (simp add: query_def BvmViewKey_def need_def)
qed

theorem view_path_panics_witness:
  "query demo_queries \<lparr>qr_Data = [], qr_Path = ''/bvm/view/bcbA/get((1)''\<rparr> demo_open = (Inl ''slice bounds out of range'', demo_open)"
  using view_path_panics [of "''bcbA''" "''get''" "''1''" demo_queries demo_open] by simp

end
