(* ===== verification/V1_Funds.thy ===== *)
theory V1_Funds
  imports V1_Byb_Ops
begin

text \<open>
  The small contracts of version 1 that hold funds on an account of their own: the team's and the foundation's
  vesting (\<open>contract/tokenbasic_team\<close>, \<open>contract/tokenbasic_foundation\<close>), the cancellation of supply
  (\<open>contract/tokenbasic_cancellation\<close>), mining (\<open>contract/mining\<close>) and the transfer agency
  (\<open>contract/transferAgency\<close>). The header of the current block is an argument; \<open>time.ParseInLocation\<close> with
  \<open>Unix\<close> is a field of \<open>EnvC\<close>, as are the codecs of the stored structures.
\<close>

section \<open>Stored data\<close>

record UnLock =
  ul_UnlockTime :: string
  ul_Amount :: int
  ul_Settled :: bool

record 'db EnvC =
  envs :: "'db EnvS"
  k_Global :: "UnLock list codec"
  k_Manager :: "string list codec"
  k_FeeInfo :: "TokenFeeInfo codec"
  k_FeeInfos :: "TokenFeeInfo list option codec"
  k_int64 :: "int64 codec"
  Unlock_Unix :: "string \<Rightarrow> int"
  Num_Mul :: "int \<Rightarrow> int \<Rightarrow> int"
  Num_Div :: "int \<Rightarrow> int \<Rightarrow> int"

abbreviation ec :: "'db EnvC \<Rightarrow> 'db Env1" where
  "ec C \<equiv> base1 (envs C)"

text \<open>A value under a key; every error of reading, decoding, encoding is a panic, no value is the default.\<close>

definition load :: "'db Env1 \<Rightarrow> 'a codec \<Rightarrow> 'a \<Rightarrow> TxState \<Rightarrow> string \<Rightarrow> 'db V1 \<Rightarrow> string + 'a" where
  "load K c default_value ts key v = (case ts_Get K ts v key of
     Inl e \<Rightarrow> Inl e
   | Inr (Inl e) \<Rightarrow> Inl e
   | Inr (Inr b) \<Rightarrow> if length (list_of b) = 0 then Inr default_value else unmarshal c (list_of b))"

text \<open>The result of \<open>Set\<close> is dropped.\<close>

definition save :: "'a codec \<Rightarrow> TxState \<Rightarrow> string \<Rightarrow> 'a \<Rightarrow> 'db V1 \<Rightarrow> ('db V1, unit) act" where
  "save c ts key x v = need (marshal c x) v (\<lambda>b. seqR (ts_Set ts key b v) (\<lambda>_ v. (Inr (), v)))"

text \<open>An error of \<open>Set\<close> is a panic as well.\<close>

definition save_strict :: "'a codec \<Rightarrow> TxState \<Rightarrow> string \<Rightarrow> 'a \<Rightarrow> 'db V1 \<Rightarrow> ('db V1, unit) act" where
  "save_strict c ts key x v = need (marshal c x) v (\<lambda>b. seqR (ts_Set ts key b v) (\<lambda>r v.
     (case r of Inl e \<Rightarrow> Inl e | Inr _ \<Rightarrow> Inr (), v)))"

section \<open>Vesting\<close>

definition team_addressList :: "string list" where
  "team_addressList = [''bcbJkkFcqarbCyuMnVWsnR6MDRtGg56TokJp'', ''bcbPLrAYFYRrxnzM4vbJmam7hperGWYa6q6p'',
     ''bcb62xxXHUsTT1NpZ5ZEXnSf3E1j9PbN7nNf'', ''bcbHSUwdkmqdQPq5Roi9d95mRTthkz94a6i2'',
     ''bcbMJGB58Ys4PsYVt3GqAkd9scYVbXDGh6qu'']"

definition foundation_addressList :: "string list" where
  "foundation_addressList = [''bcbDJSLrajxUwu8JWX54GKzUQQuDMBeMs3Z3'', ''bcbCv1zLTK1Mk2Lntuh9hYzgoM3yLwCFs3Rj'',
     ''bcb68adY4FTK5eqRfiXxxbm6SC2YoE2Nmajh'', ''bcb4WwQ7QLPvP1KavgrLSGVQH8dPV77W2eN3'',
     ''bcb3TE7Jii6KGrNpkiZFvMjREVa3nsaUXMCi'']"

definition team_totalBCB :: int where "team_totalBCB = 13200000000000000"
definition foundation_totalBCB :: int where "foundation_totalBCB = 19800000000000000"

text \<open>\<open>init\<close>: the five tranches of a pool.\<close>

definition tranches :: "'db EnvC \<Rightarrow> int \<Rightarrow> UnLock list" where
  "tranches C totalBCB = map (\<lambda>(t, p). \<lparr>ul_UnlockTime = t, ul_Amount = Num_Div C (Num_Mul C totalBCB p) 100, ul_Settled = False\<rparr>)
     [(''2019-07-21 00:00:00'', 10), (''2020-07-21 00:00:00'', 20), (''2021-07-21 00:00:00'', 40),
      (''2022-07-21 00:00:00'', 20), (''2023-07-21 00:00:00'', 10)]"

definition keyOfGlobal_team :: string where "keyOfGlobal_team = ''/TBT(BCB)/global''"
definition keyOfGlobal_foundation :: string where "keyOfGlobal_foundation = ''/TBF(BCB)/global''"

definition getGlobalDB :: "'db EnvC \<Rightarrow> SmcApi \<Rightarrow> string \<Rightarrow> 'db V1 \<Rightarrow> string + UnLock list" where
  "getGlobalDB C api key v = load (ec C) (k_Global C) [] (sa_State api) key v"

definition setGlobalDB :: "'db EnvC \<Rightarrow> SmcApi \<Rightarrow> string \<Rightarrow> UnLock list \<Rightarrow> 'db V1 \<Rightarrow> ('db V1, unit) act" where
  "setGlobalDB C api key g v = save (k_Global C) (sa_State api) key g v"

text \<open>The first tranche that is not settled, by its index.\<close>

fun first_open :: "UnLock list \<Rightarrow> nat option" where
  "first_open [] = None"
| "first_open (u # us) = (if \<not> ul_Settled u then Some 0 else map_option Suc (first_open us))"

text \<open>Equal transfers, in order, until one fails.\<close>

fun pay_each :: "'db EnvC \<Rightarrow> SmcApi \<Rightarrow> string \<Rightarrow> int \<Rightarrow> string list \<Rightarrow> BCError \<Rightarrow> 'db Smc \<Rightarrow> ('db Smc, BCError) act" where
  "pay_each C api token amount [] e s = (Inr e, s)"
| "pay_each C api token amount (a # as) e s =
    seqR (smc_TransferByAddr (envs C) api token (ac_Addr (sa_ContractAcct api)) a amount s) (\<lambda>e s.
      if isOK e then pay_each C api token amount as e s else (Inr e, s))"

definition too_early :: BCError where
  "too_early = errD ErrCodeInterContractsInvalidParameter (''It'' @ [CHR 0x27] @ ''s not time to call withdraw'')"

text \<open>The tranche with index \<open>i\<close> is due: time, balance, payments, mark.\<close>

definition settle_tranche :: "'db EnvC \<Rightarrow> SmcApi \<Rightarrow> Header \<Rightarrow> string \<Rightarrow> string list \<Rightarrow> UnLock list \<Rightarrow> nat \<Rightarrow>
    'db Smc \<Rightarrow> ('db Smc, BCError) act" where
  "settle_tranche C api block key addressList g i s = (let u = g ! i; E = envs C in
    if sint (hd_Time block) < Unlock_Unix C (ul_UnlockTime u) then (Inr too_early, s)
    else need (or_nil (ts_GetGenesisToken (ec C) (sa_State api) (sm_v1 s))) s (\<lambda>t. need (deref t) s (\<lambda>token.
    need (bal_only (api_GetBalance E api (it_Name token) (ac_Addr (sa_ContractAcct api)) (sm_v1 s))) s (\<lambda>balance.
    if Num_Cmp E balance (ul_Amount u) < 0
    then (Inr (errD ErrCodeInterContractsInsufficientBalance ''The balance of contract account is insufficient''), s)
    else let eachAmount = Num_Div C (ul_Amount u) (int (length addressList)) in
    checkE (pay_each C api (it_Address token) eachAmount addressList okE s) (\<lambda>s.
    seqR (onV (setGlobalDB C api key (g[i := u\<lparr>ul_Settled := True\<rparr>])) s) (\<lambda>_ s. (Inr okE, s)))))))"

text \<open>\<open>Withdraw\<close>, the same text in both contracts.\<close>

definition withdraw :: "'db EnvC \<Rightarrow> SmcApi \<Rightarrow> Header \<Rightarrow> string \<Rightarrow> string list \<Rightarrow> int \<Rightarrow> 'db Smc \<Rightarrow> ('db Smc, BCError) act" where
  "withdraw C api block key addressList totalBCB s =
    (if ac_Addr (sa_Sender api) \<notin> set addressList
     then (Inr (errD ErrCodeInterContractsNoAuthorization ''Only stipulate address can call withdraw''), s)
     else need (getGlobalDB C api key (sm_v1 s)) s (\<lambda>g0.
     let g = (if length g0 = 0 then tranches C totalBCB else g0) in
     seqR (if length g0 = 0 then onV (setGlobalDB C api key g) s else (Inr (), s)) (\<lambda>_ s.
     case first_open g of
       None \<Rightarrow> (Inr (errC ErrCodeInterContractsOutOfRange), s)
     | Some i \<Rightarrow> settle_tranche C api block key addressList g i s)))"

definition tbt_Withdraw :: "'db EnvC \<Rightarrow> SmcApi \<Rightarrow> Header \<Rightarrow> 'db Smc \<Rightarrow> ('db Smc, BCError) act" where
  "tbt_Withdraw C api block = withdraw C api block keyOfGlobal_team team_addressList team_totalBCB"

definition tbf_Withdraw :: "'db EnvC \<Rightarrow> SmcApi \<Rightarrow> Header \<Rightarrow> 'db Smc \<Rightarrow> ('db Smc, BCError) act" where
  "tbf_Withdraw C api block = withdraw C api block keyOfGlobal_foundation foundation_addressList foundation_totalBCB"

section \<open>Cancellation of supply\<close>

definition BCB_TOKEN_SUPPLY :: uint64 where "BCB_TOKEN_SUPPLY = 5000000000000000000"
definition BCB_TOKEN_NEW_SUPPLY :: uint64 where "BCB_TOKEN_NEW_SUPPLY = 66000000000000000"
definition BCB_TOKEN_SUB_SUPPLY :: uint64 where "BCB_TOKEN_SUB_SUPPLY = 4934000000000000000"

text \<open>A receipt whose text is empty when its body cannot be marshalled.\<close>

definition emit_body :: "'db EnvS \<Rightarrow> SmcApi \<Rightarrow> string \<Rightarrow> receipt_body \<Rightarrow> 'db Smc \<Rightarrow> 'db Smc" where
  "emit_body E api name body s = EmitReceipt E api name (case marshal (k_Receipt E) body of Inl _ \<Rightarrow> [] | Inr b \<Rightarrow> b) s"

definition ReceiptOfCancel :: "'db EnvS \<Rightarrow> SmcApi \<Rightarrow> int \<Rightarrow> 'db Smc \<Rightarrow> 'db Smc" where
  "ReceiptOfCancel E api supply = emit_body E api ''onCancellation'' (ReceiptOfCancellation supply)"

definition tbc_Cancel :: "'db EnvC \<Rightarrow> SmcApi \<Rightarrow> Header \<Rightarrow> 'db Smc \<Rightarrow> ('db Smc, BCError) act" where
  "tbc_Cancel C api block s = (let E = envs C; K = ec C; sender = ac_Addr (sa_Sender api); owner = ac_Addr (sa_Owner api) in
    need (GetOwnerOfGenesisToken E api (sm_v1 s)) s (\<lambda>(tokenBasicOwner, _).
    if sender \<noteq> owner \<or> owner \<noteq> tokenBasicOwner
    then (Inr (errD ErrCodeInterContractsNoAuthorization ''Only contract & token basic owner just can call Cancellation()''), s)
    else need (or_nil (ts_GetGenesisToken K (sa_State api) (sm_v1 s))) s (\<lambda>g. need (deref g) s (\<lambda>genesis.
    need (or_nil (ts_GetToken K (sa_State api) (it_Address genesis) (sm_v1 s))) s (\<lambda>t. need (deref t) s (\<lambda>tokenInfo.
    if Big_Compare K (UintToBigInt K BCB_TOKEN_SUPPLY) (it_TotalSupply tokenInfo) \<noteq> 0
    then (Inr (errD ErrCodeInterContractsInvalidBalance '' Error supply balance''), s)
    else need (bal_only (acct_BalanceOf K (sa_Owner api) (it_Address tokenInfo) (sm_v1 s))) s (\<lambda>ownerBalance.
    let subSupply = UintToBigInt K BCB_TOKEN_SUB_SUPPLY; newSupply = UintToBigInt K BCB_TOKEN_NEW_SUPPLY in
    if Big_Compare K ownerBalance subSupply < 0
    then (Inr (errD ErrCodeInterContractsInvalidBalance
      ('' Owner balance amount should be bigger than '' @ dec_of_nat (unat BCB_TOKEN_SUB_SUPPLY))), s)
    else orLow (onV (ts_SetToken K (sa_State api) (tokenInfo\<lparr>it_TotalSupply := newSupply\<rparr>)) s) (\<lambda>s.
    checkE (onV (acct_SetBalance K (sa_Owner api) (it_Address tokenInfo) (Big_Sub K ownerBalance subSupply)) s) (\<lambda>s.
    onV (ForbidSpecificContract E api (sa_ContractAddr api) (of_int (Height block + 1)))
      (ReceiptOfCancel E api newSupply s))))))))))"

section \<open>Mining\<close>

definition keyOfStartHeight :: string where "keyOfStartHeight = ''/mining/start/height''"
definition keyOfRewardAmount :: string where "keyOfRewardAmount = ''/mining/reward/amount''"

definition getMiningStartHeight :: "'db EnvC \<Rightarrow> SmcApi \<Rightarrow> 'db V1 \<Rightarrow> string + int64" where
  "getMiningStartHeight C api v = load (ec C) (k_int64 C) 0 (sa_State api) keyOfStartHeight v"

definition setMiningStartHeight :: "'db EnvC \<Rightarrow> SmcApi \<Rightarrow> int64 \<Rightarrow> 'db V1 \<Rightarrow> ('db V1, unit) act" where
  "setMiningStartHeight C api x v = save_strict (k_int64 C) (sa_State api) keyOfStartHeight x v"

definition getMiningRewardAmount :: "'db EnvC \<Rightarrow> SmcApi \<Rightarrow> 'db V1 \<Rightarrow> string + uint64" where
  "getMiningRewardAmount C api v = load (ec C) (k_uint64 (ec C)) 0 (sa_State api) keyOfRewardAmount v"

definition setMiningRewardAmount :: "'db EnvC \<Rightarrow> SmcApi \<Rightarrow> uint64 \<Rightarrow> 'db V1 \<Rightarrow> ('db V1, unit) act" where
  "setMiningRewardAmount C api x v = save_strict (k_uint64 (ec C)) (sa_State api) keyOfRewardAmount x v"

definition calcRewardAmount :: "'db EnvC \<Rightarrow> SmcApi \<Rightarrow> int64 \<Rightarrow> int64 \<Rightarrow> 'db V1 \<Rightarrow> ('db V1, uint64) act" where
  "calcRewardAmount C api cHeight sHeight v = (let blockNum = sint (cHeight - sHeight) in
    need (getMiningRewardAmount C api v) v (\<lambda>reward.
    if 0 < blockNum \<and> blockNum mod 66000000 = 0
    then let half = (if reward div 2 = 0 then 1 else reward div 2)
      in seqR (setMiningRewardAmount C api half v) (\<lambda>_ v. (Inr half, v))
    else (Inr reward, v)))"

definition ReceiptOfMining :: "'db EnvS \<Rightarrow> SmcApi \<Rightarrow> string \<Rightarrow> int64 \<Rightarrow> string \<Rightarrow> uint64 \<Rightarrow> 'db Smc \<Rightarrow> ('db Smc, unit) act" where
  "ReceiptOfMining E api proposer height rewardAddr rewardValue s =
    need (marshal (k_Receipt E) (ReceiptOfMine proposer height rewardAddr rewardValue)) s (\<lambda>b.
      (Inr (), EmitReceipt E api ''Mine'' b s))"

text \<open>The start height that counts is the one read before it was set: 0 in the first call.\<close>

definition Mine1 :: "'db EnvC \<Rightarrow> SmcApi \<Rightarrow> Header \<Rightarrow> 'db Smc \<Rightarrow> ('db Smc, uint64 \<times> BCError) act" where
  "Mine1 C api block s = (let E = envs C; K = ec C in
    case GetCurrentBlockHeight E (sm_v1 s) of
      Inl e \<Rightarrow> (Inl e, s)
    | Inr (Inl e) \<Rightarrow> (Inr (0, lowE e), s)
    | Inr (Inr h) \<Rightarrow> let currentHeight = of_int h in
    need (getMiningStartHeight C api (sm_v1 s)) s (\<lambda>sHeight.
    seqR (if sHeight = 0 then onV (setMiningStartHeight C api currentHeight) s else (Inr (), s)) (\<lambda>_ s.
    need (getMiningRewardAmount C api (sm_v1 s)) s (\<lambda>startReward.
    seqR (if startReward = 0 then onV (setMiningRewardAmount C api 150000000) s else (Inr (), s)) (\<lambda>_ s.
    seqR (onV (calcRewardAmount C api currentHeight sHeight) s) (\<lambda>reward s.
    case ts_GetGenesisToken K (sa_State api) (sm_v1 s) of
      Inl e \<Rightarrow> (Inl e, s)
    | Inr (Inl e) \<Rightarrow> (Inr (reward, lowE e), s)
    | Inr (Inr None) \<Rightarrow> (Inl nil_pointer, s)
    | Inr (Inr (Some token)) \<Rightarrow>
      need (api_GetBalance E api (it_Name token) (ac_Addr (sa_ContractAcct api)) (sm_v1 s)) s (\<lambda>(bal, e).
      if \<not> isOK e then (Inr (reward, e), s)
      else if big_Uint64 bal < reward then (Inr (reward, e), s)
      else seqR (smc_TransferByAddr E api (it_Address token) (ac_Addr (sa_ContractAcct api)) (RewardAddress block)
             (sint reward) s) (\<lambda>e s.
        if \<not> isOK e then (Inr (reward, e), s)
        else seqR (ReceiptOfMining E api (ProposerAddress block) currentHeight (RewardAddress block) reward s) (\<lambda>_ s.
          (Inr (reward, e), s))))))))))"

section \<open>Transfer agency\<close>

definition keyOfTokenFeeInfo :: "string \<Rightarrow> string" where
  "keyOfTokenFeeInfo tokenName = ''/TAC(BCB)/tokenFeeInfo/'' @ tokenName"

definition keyOfManager :: string where "keyOfManager = ''/TAC(BCB)/managerInfo''"

definition SetManagerInfoDB :: "'db EnvC \<Rightarrow> SmcApi \<Rightarrow> string list \<Rightarrow> 'db V1 \<Rightarrow> ('db V1, unit) act" where
  "SetManagerInfoDB C api addressList v = save (k_Manager C) (sa_State api) keyOfManager addressList v"

text \<open>Without an entry an empty one is written.\<close>

definition getManagerInfoDB :: "'db EnvC \<Rightarrow> SmcApi \<Rightarrow> 'db V1 \<Rightarrow> ('db V1, string list) act" where
  "getManagerInfoDB C api v = (case ts_Get (ec C) (sa_State api) v keyOfManager of
     Inl e \<Rightarrow> (Inl e, v)
   | Inr (Inl e) \<Rightarrow> (Inl e, v)
   | Inr (Inr b) \<Rightarrow> if length (list_of b) = 0 then seqR (SetManagerInfoDB C api [] v) (\<lambda>_ v. (Inr [], v))
       else (unmarshal (k_Manager C) (list_of b), v))"

definition setTokenFeeInfoDB :: "'db EnvC \<Rightarrow> SmcApi \<Rightarrow> TokenFeeInfo \<Rightarrow> 'db V1 \<Rightarrow> ('db V1, unit) act" where
  "setTokenFeeInfoDB C api info v = save (k_FeeInfo C) (sa_State api) (keyOfTokenFeeInfo (tf_TokenName info)) info v"

definition getTokenFeeInfoDB :: "'db EnvC \<Rightarrow> SmcApi \<Rightarrow> string \<Rightarrow> 'db V1 \<Rightarrow> string + TokenFeeInfo" where
  "getTokenFeeInfoDB C api tokenName v =
    load (ec C) (k_FeeInfo C) \<lparr>tf_TokenName = [], tf_TokenAddr = [], tf_Fee = 0\<rparr> (sa_State api) (keyOfTokenFeeInfo tokenName) v"

text \<open>The loop of \<open>checkTokenFee\<close>: the names seen so far, and the entries with their addresses.\<close>

fun check_fees :: "'db EnvC \<Rightarrow> SmcApi \<Rightarrow> IssueToken option \<Rightarrow> string list \<Rightarrow> TokenFeeInfo list \<Rightarrow> 'db V1 \<Rightarrow>
    string + (BCError + TokenFeeInfo list)" where
  "check_fees C api genesis names [] v = Inr (Inr [])"
| "check_fees C api genesis names (item # items) v =
    (if tf_TokenName item = [] then Inr (Inl (invalidD ''TokenName should not be empty''))
     else andThen (deref genesis) (\<lambda>token.
     if tf_TokenName item = it_Name token then Inr (Inl (invalidD ''TokenName should not be genesisToken''))
     else andThen (or_empty (ts_GetTokenAddrByName (ec C) (sa_State api) (tf_TokenName item) v)) (\<lambda>tokenAddress.
     if tokenAddress = [] then Inr (Inl (invalidD ''TokenName error''))
     else if Num_Cmp (envs C) (tf_Fee item) 0 < 0 then Inr (Inl (invalidD ''TokenFee should not be smaller than zero ''))
     else if tf_TokenName item \<in> set names then Inr (Inl (invalidD ''TokenName should not be repeat ''))
     else andThen (check_fees C api genesis (tf_TokenName item # names) items v) (\<lambda>r. Inr (case r of
       Inl e \<Rightarrow> Inl e | Inr l \<Rightarrow> Inr (item\<lparr>tf_TokenAddr := tokenAddress\<rparr> # l))))))"

definition checkTokenFee :: "'db EnvC \<Rightarrow> SmcApi \<Rightarrow> bytes \<Rightarrow> 'db V1 \<Rightarrow> string + (BCError + TokenFeeInfo list)" where
  "checkTokenFee C api strTokenFee v = (case unmarshal (k_FeeInfos C) strTokenFee of
     Inl e \<Rightarrow> Inr (Inl (invalidD e))
   | Inr None \<Rightarrow> Inr (Inl (invalidD ''strTokenFee should not be empty''))
   | Inr (Some tokenFeeList) \<Rightarrow> andThen (or_nil (ts_GetGenesisToken (ec C) (sa_State api) v)) (\<lambda>genesis.
       check_fees C api genesis [] tokenFeeList v))"

text \<open>The addresses of new managers, in order.\<close>

fun check_managers :: "'db EnvC \<Rightarrow> SmcApi \<Rightarrow> string list \<Rightarrow> 'db V1 \<Rightarrow> string + BCError" where
  "check_managers C api [] v = Inr okE"
| "check_managers C api (a # as) v = andThen (sdb_GetChainID (ec C) v) (\<lambda>cid.
     case CheckAddress (ec C) cid a of
       Some e \<Rightarrow> Inr (invalidD e)
     | None \<Rightarrow> if a \<in> {ac_Addr (sa_Owner api), sa_ContractAddr api, ac_Addr (sa_ContractAcct api)}
         then Inr (invalidD ''address error'') else check_managers C api as v)"

definition tac_SetManager :: "'db EnvC \<Rightarrow> SmcApi \<Rightarrow> string list \<Rightarrow> 'db Smc \<Rightarrow> ('db Smc, BCError) act" where
  "tac_SetManager C api addressList s =
    (if ac_Addr (sa_Sender api) \<noteq> ac_Addr (sa_Owner api)
     then (Inr (errD ErrCodeInterContractsNoAuthorization ''Only contract owner can do SetManager()''), s)
     else if \<not> (0 < length addressList \<and> length addressList \<le> 10)
     then (Inr (invalidD ''The length of addressList must be bigger than zero and smaller than eleven''), s)
     else need (check_managers C api addressList (sm_v1 s)) s (\<lambda>e.
     if \<not> isOK e then (Inr e, s)
     else seqR (onV (getManagerInfoDB C api) s) (\<lambda>_ s.
     seqR (onV (SetManagerInfoDB C api addressList) s) (\<lambda>_ s.
     (Inr okE, emit_body (envs C) api ''onSetManager'' (ReceiptOfSetManager addressList) s)))))"

fun save_fees :: "'db EnvC \<Rightarrow> SmcApi \<Rightarrow> TokenFeeInfo list \<Rightarrow> 'db V1 \<Rightarrow> ('db V1, unit) act" where
  "save_fees C api [] v = (Inr (), v)"
| "save_fees C api (info # infos) v = seqR (setTokenFeeInfoDB C api info v) (\<lambda>_ v. save_fees C api infos v)"

definition tac_SetTokenFee :: "'db EnvC \<Rightarrow> SmcApi \<Rightarrow> bytes \<Rightarrow> 'db Smc \<Rightarrow> ('db Smc, BCError) act" where
  "tac_SetTokenFee C api strTokenFee s = seqR (onV (getManagerInfoDB C api) s) (\<lambda>addressList s.
    if ac_Addr (sa_Sender api) \<notin> set addressList
    then (Inr (errD ErrCodeInterContractsNoAuthorization ''Only manager can do SetTokenFee()''), s)
    else need (checkTokenFee C api strTokenFee (sm_v1 s)) s (\<lambda>r. case r of
      Inl e \<Rightarrow> (Inr e, s)
    | Inr tokenFeeList \<Rightarrow> seqR (onV (save_fees C api tokenFeeList) s) (\<lambda>_ s.
        (Inr okE, emit_body (envs C) api ''onSetTokenFeeInfo'' (ReceiptOfSetTokenFeeInfo tokenFeeList) s))))"

definition tac_Transfer :: "'db EnvC \<Rightarrow> SmcApi \<Rightarrow> string \<Rightarrow> string \<Rightarrow> int \<Rightarrow> 'db Smc \<Rightarrow> ('db Smc, BCError) act" where
  "tac_Transfer C api tokenName to_addr amount s = (let E = envs C; K = ec C in
    if tokenName = [] then (Inr (invalidD ''tokenName should not be empty''), s)
    else need (getTokenFeeInfoDB C api tokenName (sm_v1 s)) s (\<lambda>info.
    if tf_TokenName info = [] then (Inr (invalidD ''The transaction is not supported''), s)
    else if Num_Cmp E (tf_Fee info) 0 \<le> 0 then (Inr (invalidD ''The transaction is not supported''), s)
    else need (sdb_GetChainID K (sm_v1 s)) s (\<lambda>cid. case CheckAddress K cid to_addr of
      Some e \<Rightarrow> (Inr (invalidD e), s)
    | None \<Rightarrow> if Num_Cmp E amount 0 \<le> 0 then (Inr (invalidD ''Amount should bigger than zero''), s)
      else checkE (smc_TransferByAddr E api (tf_TokenAddr info) (ac_Addr (sa_Sender api)) (ac_Addr (sa_ContractAcct api))
             (Big_Add K amount (tf_Fee info)) s) (\<lambda>s.
        smc_TransferByAddr E api (tf_TokenAddr info) (ac_Addr (sa_ContractAcct api)) to_addr amount s))))"

definition tac_WithdrawFunds :: "'db EnvC \<Rightarrow> SmcApi \<Rightarrow> string \<Rightarrow> int \<Rightarrow> 'db Smc \<Rightarrow> ('db Smc, BCError) act" where
  "tac_WithdrawFunds C api tokenName withdrawAmount s = (let E = envs C in
    if ac_Addr (sa_Sender api) \<noteq> ac_Addr (sa_Owner api)
    then (Inr (errD ErrCodeInterContractsNoAuthorization ''Only contract owner can do WithdrawFunds()''), s)
    else if Num_Cmp E withdrawAmount 0 \<le> 0 then (Inr (invalidD ''amount should be bigger than zero''), s)
    else need (api_GetBalance E api tokenName (ac_Addr (sa_ContractAcct api)) (sm_v1 s)) s (\<lambda>(balance, e).
    if \<not> isOK e then (Inr e, s)
    else if 0 < Num_Cmp E withdrawAmount balance
    then (Inr (invalidD ''WithdrawAmount cannot be larger than balance''), s)
    else need (or_empty (ts_GetTokenAddrByName (ec C) (sa_State api) tokenName (sm_v1 s))) s (\<lambda>tokenAddress.
    smc_TransferByAddr E api tokenAddress (ac_Addr (sa_ContractAcct api)) (ac_Addr (sa_Owner api)) withdrawAmount s)))"

end
