(* ===== verification/V1_System.thy ===== *)
theory V1_System
  imports V1_Funds
begin

text \<open>
  The system contract of version 1 (\<open>contract/system/system.go\<close>): validators, reward strategies, the deployment and
  the end of the contracts built into the node. A method runs in the context of its call. A \<open>float64\<close> is its bit
  pattern; its operations are those of the processor, fields of \<open>EnvD\<close>, as are RLP, the keys of the chain's SDK, the
  numbers of \<open>bclib\<close> read from bytes and the codecs of the structures used here.
\<close>

type_synonym float64 = "64 word"

record MethodInfo =
  mi_MethodID :: uint32
  mi_ParamData :: bytes

record 'db EnvD =
  envc :: "'db EnvC"
  Rlp_Method :: "bytes \<Rightarrow> string + MethodInfo"
  Rlp_Items :: "bytes \<Rightarrow> string + bytes list"
  k_Rcpt :: "Receipt codec"
  k_Strategy :: "types_RewardStrategy codec"
  k_Versions :: "ContractVersionList codec"
  std_KeyOfOrgID :: string
  std_KeyOfContractsWithName :: "string \<Rightarrow> string \<Rightarrow> string"
  f_Parse :: "string \<Rightarrow> float64"
  f_Add :: "float64 \<Rightarrow> float64 \<Rightarrow> float64"
  f_Less :: "float64 \<Rightarrow> float64 \<Rightarrow> bool"
  f_Equal :: "float64 \<Rightarrow> float64 \<Rightarrow> bool"
  Num_SetBytes :: "bytes \<Rightarrow> int"

abbreviation ed :: "'db EnvD \<Rightarrow> 'db Env1" where
  "ed D \<equiv> ec (envc D)"

abbreviation es :: "'db EnvD \<Rightarrow> 'db EnvS" where
  "es D \<equiv> envs (envc D)"

section \<open>Reward strategies (\<open>CheckRewardStrategy\<close>)\<close>

definition f_hundred :: float64 where "f_hundred = 0x4059000000000000"
definition f_zero :: float64 where "f_zero = 0"
definition Max_Name_Len :: nat where "Max_Name_Len = 40"

text \<open>At most two digits behind the first point.\<close>

definition two_decimals :: "string \<Rightarrow> bool" where
  "two_decimals s \<longleftrightarrow> CHR ''.'' \<notin> set s \<or> length (drop (nat (index_point s) + 1) s) \<le> 2"

text \<open>The loop: the sum of the percentages and whether the validators have an entry.\<close>

fun check_rewarders :: "'db EnvD \<Rightarrow> string \<Rightarrow> types_Rewarder list \<Rightarrow> float64 \<Rightarrow> bool \<Rightarrow> BCError + float64 \<times> bool" where
  "check_rewarders D cid [] percent has = Inr (percent, has)"
| "check_rewarders D cid (st # sts) percent has =
    (if Max_Name_Len < length (wr_Name st) then Inl (errC ErrCodeInterContractsNameTooLong)
     else if length (wr_Name st) = 0 then Inl (errC ErrCodeInterContractsEmptyName)
     else if \<not> two_decimals (wr_RewardPercent st) then Inl (errC ErrCodeInterContractsInvalidPercent)
     else let nodePerc = f_Parse D (wr_RewardPercent st); total = f_Add D percent nodePerc in
       if f_Less D f_hundred total \<or> f_Less D nodePerc f_zero then Inl (errC ErrCodeInterContractsInvalidPercent)
       else if wr_Name st = ''validators'' then check_rewarders D cid sts total True
       else case CheckAddress (ed D) cid (wr_Address st) of
         Some e \<Rightarrow> Inl (lowE e)
       | None \<Rightarrow> check_rewarders D cid sts total has)"

definition ctx_CheckRewardStrategy :: "'db EnvD \<Rightarrow> bytes \<Rightarrow> 'db V1 \<Rightarrow> string + BCError" where
  "ctx_CheckRewardStrategy D strategy s = (case unmarshal (k_Strategy D) strategy of
     Inl e \<Rightarrow> Inr (lowE e)
   | Inr rwdStrategy \<Rightarrow> andThen (sdb_GetChainID (ed D) s) (\<lambda>cid. Inr
      (case check_rewarders D cid (list_of (st_Strategy rwdStrategy)) f_zero False of
         Inl e \<Rightarrow> e
       | Inr (percent, has) \<Rightarrow> if \<not> f_Equal D percent f_hundred then errC ErrCodeInterContractsInvalidPercent
           else if \<not> has then errC ErrCodeInterContractsLoseNameOfValidators else okE)))"

section \<open>Validators and strategies\<close>

definition upgraded :: BCError where
  "upgraded = lowE ''this chain has upgraded, now chainVersion is 2''"

definition validator_s :: "string \<Rightarrow> string" where
  "validator_s rest_text = ''validator'' @ [CHR 0x27] @ ''s '' @ rest_text"

text \<open>Two checks that four methods begin with.\<close>

definition sys_owner :: "InvokeContext \<Rightarrow> 'db V1 \<Rightarrow> ('db V1, BCError) act \<Rightarrow> ('db V1, BCError) act" where
  "sys_owner ctx s m = (if hd_ChainVersion (cx_BlockHeader ctx) \<noteq> 0 then (Inr upgraded, s) else only_owner ctx s m)"

definition sys_NewValidator :: "'db EnvD \<Rightarrow> InvokeContext \<Rightarrow> string \<Rightarrow> bytes \<Rightarrow> string \<Rightarrow> uint64 \<Rightarrow> 'db V1 \<Rightarrow> ('db V1, BCError) act" where
  "sys_NewValidator D ctx name pubKey rewardAddr pw s = (let K = ed D in
    if hd_ChainVersion (cx_BlockHeader ctx) \<noteq> 0 then (Inr upgraded, s)
    else if length name = 0 then (Inr (invalidD (''Invalid name: '' @ validator_s ''name cannot be empty'')), s)
    else if pw = 0 then (Inr (invalidD (''Invalid power: '' @ validator_s ''power cannot be ZERO'')), s)
    else only_owner ctx s (seqR (ctx_HasValidator K pubKey s) (\<lambda>has s.
      if has then (Inr (invalidD (''Invalid public key: '' @ validator_s ''public key is already used'')), s)
      else seqR (ctx_CheckValidatorName K ctx name s) (\<lambda>e s.
      if \<not> isOK e then (Inr (invalidD (''Invalid name: '' @ validator_s ''name is already used'')), s)
      else need (CheckRewardAddress K rewardAddr s) s (\<lambda>e.
      if \<not> isOK e then (Inr (invalidD (''Invalid name: '' @ validator_s ''reward address is already used'')), s)
      else ctx_AddValidator K ctx name pubKey rewardAddr pw s)))))"

definition no_validator :: BCError where
  "no_validator = invalidD (''Invalid validator: it doesn'' @ [CHR 0x27] @ ''t exist'')"

definition sys_SetPower :: "'db EnvD \<Rightarrow> InvokeContext \<Rightarrow> bytes \<Rightarrow> uint64 \<Rightarrow> 'db V1 \<Rightarrow> ('db V1, BCError) act" where
  "sys_SetPower D ctx pubKey pw s = sys_owner ctx s (seqR (ctx_HasValidator (ed D) pubKey s) (\<lambda>has s.
     if \<not> has then (Inr no_validator, s) else ctx_SetValidatorPower (ed D) ctx pubKey pw s))"

definition sys_SetRewardAddr :: "'db EnvD \<Rightarrow> InvokeContext \<Rightarrow> bytes \<Rightarrow> string \<Rightarrow> 'db V1 \<Rightarrow> ('db V1, BCError) act" where
  "sys_SetRewardAddr D ctx pubKey rewardAddr s = sys_owner ctx s (seqR (ctx_HasValidator (ed D) pubKey s) (\<lambda>has s.
     if \<not> has then (Inr no_validator, s) else ctx_SetValidatorRewardAddr (ed D) ctx pubKey rewardAddr s))"

definition sys_SetRewardStrategy :: "'db EnvD \<Rightarrow> InvokeContext \<Rightarrow> bytes \<Rightarrow> uint64 \<Rightarrow> 'db V1 \<Rightarrow> ('db V1, BCError) act" where
  "sys_SetRewardStrategy D ctx strategy effectHeight s = sys_owner ctx s
    (need (ctx_CheckEffectHeight (ed D) ctx effectHeight s) s (\<lambda>e. if \<not> isOK e then (Inr e, s)
     else need (ctx_CheckRewardStrategy D strategy s) s (\<lambda>e. if \<not> isOK e then (Inr e, s)
     else ctx_UpdateRewardStrategy (ed D) ctx strategy effectHeight s)))"

section \<open>Contracts\<close>

text \<open>What the methods hand to \<open>SmcApi\<close>: sender, owner and state. The other fields are not read.\<close>

definition sys_api :: "InvokeContext \<Rightarrow> SmcApi" where
  "sys_api ctx = \<lparr>sa_Sender = cx_Sender ctx, sa_Owner = cx_Owner ctx, sa_ContractAcct = cx_Sender ctx, sa_ContractAddr = [],
     sa_State = cx_TxState ctx, sa_Note = []\<rparr>"

text \<open>Every error is a panic, and so is a contract that is not stored.\<close>

definition must :: "'a res \<Rightarrow> string + 'a" where
  "must r = (case r of Inl e \<Rightarrow> Inl e | Inr x \<Rightarrow> x)"

lemma must_simps [simp]: "must (Inl e) = Inl e" "must (Inr x) = x"
  by (simp_all add: must_def)

definition must_contract :: "'db Env1 \<Rightarrow> string \<Rightarrow> 'db V1 \<Rightarrow> string + types_Contract" where
  "must_contract K addr s = andThen (must (sdb_GetContract K addr s)) deref"

fun any_named :: "'db Env1 \<Rightarrow> string \<Rightarrow> string list \<Rightarrow> 'db V1 \<Rightarrow> string + bool" where
  "any_named K name [] s = Inr False"
| "any_named K name (addr # addrs) s = andThen (must_contract K addr s) (\<lambda>c.
     if tc_Name c = name then Inr True else any_named K name addrs s)"

text \<open>The second loop of \<open>isDisabled\<close>: a contract of another version disables the name, one without an end enables it.\<close>

fun all_ended :: "'db Env1 \<Rightarrow> string list \<Rightarrow> bool \<Rightarrow> 'db V1 \<Rightarrow> string + bool" where
  "all_ended K [] forbidFlag s = Inr forbidFlag"
| "all_ended K (addr # addrs) forbidFlag s = andThen (must_contract K addr s) (\<lambda>c.
     if tc_ChainVersion c \<noteq> 0 then Inr True
     else all_ended K addrs (forbidFlag \<and> tc_LoseHeight c \<noteq> 0) s)"

definition isDisabled :: "'db EnvD \<Rightarrow> InvokeContext \<Rightarrow> string \<Rightarrow> 'db V1 \<Rightarrow> string + bool" where
  "isDisabled D ctx name s = (let K = ed D in
    andThen (if hd_ChainVersion (cx_BlockHeader ctx) = 0 then Inr False
      else if HasPrefix name ''token-templet-'' then Inr True
      else andThen (must (sdb_GetGenesisContractList K s)) (\<lambda>l. any_named K name (list_of l) s)) (\<lambda>b.
    if b then Inr True
    else andThen (must (ts_GetContractsListByName K name s)) (\<lambda>oldContracts.
      all_ended K oldContracts (length oldContracts \<noteq> 0) s)))"

definition getOrgIDAndConVerList :: "'db EnvD \<Rightarrow> InvokeContext \<Rightarrow> string \<Rightarrow> 'db V1 \<Rightarrow> string + string \<times> ContractVersionList" where
  "getOrgIDAndConVerList D ctx name s = (let K = ed D; ts = cx_TxState ctx in
    if hd_ChainVersion (cx_BlockHeader ctx) = 0 then Inr ([], no_versions)
    else andThen (must (ts_Get K ts s (std_KeyOfOrgID D))) (\<lambda>value.
      andThen (unmarshal (k_string K) (list_of value)) (\<lambda>orgID.
      andThen (must (ts_Get K ts s (std_KeyOfContractsWithName D orgID name))) (\<lambda>value.
      andThen (if length (list_of value) = 0 then Inr no_versions else unmarshal (k_Versions D) (list_of value)) (\<lambda>cv.
      Inr (orgID, cv))))))"

text \<open>The list of versions of a contract is kept for the second version of the chain only.\<close>

definition note_version :: "'db EnvD \<Rightarrow> InvokeContext \<Rightarrow> string \<Rightarrow> string \<Rightarrow> uint64 \<Rightarrow> string \<Rightarrow> ContractVersionList \<Rightarrow>
    'db V1 \<Rightarrow> ('db V1, string + unit) act" where
  "note_version D ctx name addr effectHeight orgID cv s =
    (if hd_ChainVersion (cx_BlockHeader ctx) = 0 then (Inr (Inr ()), s)
     else tryN (mjson (k_Versions D) \<lparr>cv_Name = name, cv_ContractAddrList = cv_ContractAddrList cv @ [addr],
         cv_EffectHeights = cv_EffectHeights cv @ [sint effectHeight]\<rparr>) s (\<lambda>resBytes.
       ts_Set (cx_TxState ctx) (std_KeyOfContractsWithName D orgID name) resBytes s))"

text \<open>The current height; an error is dropped and counts as 0.\<close>

definition height_or_0 :: "int res \<Rightarrow> string + int" where
  "height_or_0 r = (case r of Inl e \<Rightarrow> Inl e | Inr (Inl _) \<Rightarrow> Inr 0 | Inr (Inr h) \<Rightarrow> Inr h)"

definition past_height :: BCError where
  "past_height = invalidD ''The specified block height is less than current height''"

definition DeployInternalContract :: "'db EnvD \<Rightarrow> InvokeContext \<Rightarrow> string \<Rightarrow> string \<Rightarrow> string list \<Rightarrow> uint64 list \<Rightarrow> bytes \<Rightarrow>
    uint64 \<Rightarrow> 'db V1 \<Rightarrow> ('db V1, string \<times> BCError) act" where
  "DeployInternalContract D ctx name version protoTypes gasList codeHash effectHeight s = (let E = es D; api = sys_api ctx in
    need (isDisabled D ctx name s) s (\<lambda>disabled.
    if disabled then (Inr ([], lowE ''contract is disabled''), s)
    else if ac_Addr (cx_Sender ctx) \<noteq> ac_Addr (cx_Owner ctx) then (Inr ([], errC ErrCodeInterContractsNoAuthorization), s)
    else if length name = 0 \<or> length version = 0 \<or> effectHeight = 0
    then (Inr ([], errC ErrCodeInterContractsInvalidParameter), s)
    else let e = CheckParameterGasAndPrototype protoTypes gasList in
    if \<not> isOK e then (Inr ([], e), s)
    else need (height_or_0 (GetCurrentBlockHeight E s)) s (\<lambda>blockHeight.
    if sint effectHeight \<le> blockHeight then (Inr ([], past_height), s)
    else seqR (CheckAndForbidOldVersionContract E api name version effectHeight s) (\<lambda>(bForbid, e) s.
    if \<not> isOK e then (Inr ([], e), s)
    else if bForbid then (Inr ([], lowE ''contract forbidden''), s)
    else need (api_CalcContractAddress E api name version s) s (\<lambda>contractAddr.
    need (getOrgIDAndConVerList D ctx name s) s (\<lambda>(orgID, conVerList).
    seqR (note_version D ctx name contractAddr effectHeight orgID conVerList s) (\<lambda>r s. case r of
      Inl e \<Rightarrow> (Inr (contractAddr, lowE e), s)
    | Inr _ \<Rightarrow> seqR (SetNewContract E api contractAddr name version protoTypes gasList codeHash effectHeight s) (\<lambda>r s.
        (Inr (case r of Inl e \<Rightarrow> ([], lowE e) | Inr _ \<Rightarrow> (contractAddr, okE)), s)))))))))"

text \<open>A contract that is not stored is a \<open>nil\<close> pointer, which is read.\<close>

definition ForbidInternalContract :: "'db EnvD \<Rightarrow> InvokeContext \<Rightarrow> string \<Rightarrow> uint64 \<Rightarrow> 'db V1 \<Rightarrow> ('db V1, BCError) act" where
  "ForbidInternalContract D ctx contractAddr effectHeight s = only_owner ctx s
    (case sdb_GetContract (ed D) contractAddr s of
       Inl e \<Rightarrow> (Inl e, s)
     | Inr (Inl e) \<Rightarrow> (Inr (invalidD e), s)
     | Inr (Inr None) \<Rightarrow> (Inl nil_pointer, s)
     | Inr (Inr (Some con)) \<Rightarrow>
       if tc_ChainVersion con \<noteq> 0
       then (Inr (lowE (''cannot forbid contract deploy by chain version '' @ dec_of_int (sint (tc_ChainVersion con)))), s)
       else need (height_or_0 (GetCurrentBlockHeight (es D) s)) s (\<lambda>blockHeight.
         if sint effectHeight \<le> blockHeight then (Inr past_height, s)
         else seqR (ForbidSpecificContract (es D) (sys_api ctx) contractAddr effectHeight s) (\<lambda>e s.
           if \<not> isOK e then (Inr e, s) else (Inr (e\<lparr>ErrorCode := ErrCodeOK\<rparr>), s))))"

end
