(* ===== verification/V1_Stubs.thy ===== *)
theory V1_Stubs
  imports V1_System Binary
begin

text \<open>
  The stubs of the version 1 contracts (\<open>contract/stubs\<close>): a stub decodes the call, charges its gas, decodes the
  parameters and runs one method of its contract. What a stub returns are the response and a \<open>BCError\<close>; a panic of
  the code (an index out of range, a \<open>nil\<close> pointer) is the outer \<open>Inl\<close>. The slices the RLP decoder returns are
  taken to have no spare capacity, which is what \<open>make\<close> gives it.
\<close>

section \<open>Responses (\<open>stubapi/types.go\<close>)\<close>

record StubResponse =
  rp_RequestMethod :: string
  rp_GasUsed :: uint64
  rp_GasPrice :: uint64
  rp_RewardValues :: "(string, uint64) gomap"
  rp_Code :: uint32
  rp_Data :: string
  rp_Tags :: "(string \<times> bytes) list"
  rp_Log :: string

definition no_stub_response :: StubResponse where
  "no_stub_response = \<lparr>rp_RequestMethod = [], rp_GasUsed = 0, rp_GasPrice = 0, rp_RewardValues = [], rp_Code = 0, rp_Data = [],
     rp_Tags = [], rp_Log = []\<rparr>"

type_synonym 's answer = "('s, StubResponse \<times> BCError) act"

definition RESPONSE_CODE_NEWTOKEN :: uint32 where "RESPONSE_CODE_NEWTOKEN = 1"
definition RESPONSE_CODE_UPDATE_VALIDATORS :: uint32 where "RESPONSE_CODE_UPDATE_VALIDATORS = 2"
definition RESPONSE_CODE_BYBCHROMO :: uint32 where "RESPONSE_CODE_BYBCHROMO = 8"

text \<open>Ending with an error: the code of the \<open>BCError\<close> at hand replaced, or a low level error.\<close>

definition stop :: "StubResponse \<Rightarrow> BCError \<Rightarrow> uint32 \<Rightarrow> 's \<Rightarrow> 's answer" where
  "stop resp e code s = (Inr (resp, e\<lparr>ErrorCode := code\<rparr>), s)"

definition stop_low :: "StubResponse \<Rightarrow> string \<Rightarrow> 's \<Rightarrow> 's answer" where
  "stop_low resp e s = (Inr (resp, lowE e), s)"

definition answer :: "StubResponse \<Rightarrow> ('s, BCError) act \<Rightarrow> 's answer" where
  "answer resp m = seqR m (\<lambda>e s. (Inr (resp, e), s))"

section \<open>Parameters (\<open>common.go\<close>)\<close>

definition slice_panic :: string where
  "slice_panic = ''runtime error: slice bounds out of range''"

text \<open>\<open>itemsBytes[i]\<close>.\<close>

definition item :: "bytes list \<Rightarrow> nat \<Rightarrow> string + bytes" where
  "item items i = (if i < length items then Inr (items ! i) else Inl index_panic)"

definition item_string :: "bytes list \<Rightarrow> nat \<Rightarrow> string" where
  "item_string items i = string_of_bytes (items ! i)"

text \<open>More than eight bytes do not fit.\<close>

definition decode2Uint64 :: "bytes \<Rightarrow> string + uint64" where
  "decode2Uint64 b = (if 8 < length b then Inl slice_panic else Inr (be_word b))"

text \<open>A flag that cannot be read is \<open>false\<close>.\<close>

definition flag :: "bytes \<Rightarrow> bool" where
  "flag b = (ParseBool (string_of_bytes b) = Some True)"

text \<open>An address of this chain, or the low level error (of the given code).\<close>

definition with_address :: "'db EnvD \<Rightarrow> StubResponse \<Rightarrow> uint32 \<Rightarrow> string \<Rightarrow> 'db V1 \<Rightarrow> 's \<Rightarrow> 's answer \<Rightarrow> 's answer" where
  "with_address D resp code addr v s m = need (sdb_GetChainID (ed D) v) s (\<lambda>cid.
     case CheckAddress (ed D) cid addr of
       Some e \<Rightarrow> (Inr (resp, (lowE e)\<lparr>ErrorCode := code\<rparr>), s)
     | None \<Rightarrow> m)"

section \<open>Height and gas\<close>

definition not_in_effect :: "types_Contract \<Rightarrow> int \<Rightarrow> string option" where
  "not_in_effect c height = (let h = (of_int height :: uint64) in
     if tc_EffectHeight c \<le> h
     then if tc_LoseHeight c = 0 \<or> h < tc_LoseHeight c then None else Some ''The specified contract has expired''
     else Some ''The specified contract is not yet in effect'')"

text \<open>The error of \<open>IsRightHeight\<close>, if any; a contract that is not stored is a \<open>nil\<close> pointer, which is read.\<close>

definition IsRightHeight :: "'db EnvD \<Rightarrow> InvokeContext \<Rightarrow> 'db V1 \<Rightarrow> string + string option" where
  "IsRightHeight D ctx s = (case sdb_GetContract (ed D) (own_addr ctx) s of
     Inl e \<Rightarrow> Inl e
   | Inr (Inl e) \<Rightarrow> Inr (Some e)
   | Inr (Inr None) \<Rightarrow> Inl nil_pointer
   | Inr (Inr (Some c)) \<Rightarrow> Inr (not_in_effect c (Height (cx_BlockHeader ctx))))"

definition IsMiningRightHeight :: "types_Contract \<Rightarrow> InvokeContext \<Rightarrow> string option" where
  "IsMiningRightHeight c ctx = not_in_effect c (Height (cx_BlockHeader ctx))"

text \<open>The call and the gas of its method.\<close>

definition open_call :: "'db EnvD \<Rightarrow> bytes \<Rightarrow> 's \<Rightarrow> (MethodInfo \<Rightarrow> 's answer) \<Rightarrow> 's answer" where
  "open_call D callParams s f = (case Rlp_Method D callParams of Inl e \<Rightarrow> stop_low no_stub_response e s | Inr m \<Rightarrow> f m)"

definition find_gas_of :: "'db EnvD \<Rightarrow> InvokeContext \<Rightarrow> MethodInfo \<Rightarrow> 'db V1 \<Rightarrow> (uint64 \<Rightarrow> 'db V1 answer) \<Rightarrow> 'db V1 answer" where
  "find_gas_of D ctx m s f = (case ts_GetGas (ed D) (own_addr ctx) (mi_MethodID m) s of
     Inl e \<Rightarrow> (Inl e, s)
   | Inr (Inl e) \<Rightarrow> stop_low no_stub_response e s
   | Inr (Inr gas) \<Rightarrow> f gas)"

text \<open>The payment of \<open>account\<close>: its amounts go into the response, its error ends the call.\<close>

definition pay_for :: "'db EnvD \<Rightarrow> InvokeContext \<Rightarrow> Account1 \<Rightarrow> uint64 \<Rightarrow> 'db V1 \<Rightarrow>
    (StubResponse \<Rightarrow> BCError \<Rightarrow> 'db V1 \<Rightarrow> 'db V1 answer) \<Rightarrow> 'db V1 answer" where
  "pay_for D ctx account gas s f =
    seqR (CheckAndPayForGas (ed D) ctx account (cx_Proposer ctx) (cx_Rewarder ctx) gas (cx_GasLimit ctx) s) (\<lambda>g s.
      let resp = no_stub_response\<lparr>rp_GasUsed := gr_gasused g, rp_GasPrice := gr_gasprice g, rp_RewardValues := gr_rewards g\<rparr>
      in if \<not> isOK (gr_error g) then (Inr (resp, gr_error g), s) else f resp (gr_error g) s)"

text \<open>\<open>TransactionFee\<close>: the gas is checked and paid for, nothing is called.\<close>

definition TransactionFee :: "'db EnvD \<Rightarrow> InvokeContext \<Rightarrow> bytes \<Rightarrow> 'db V1 \<Rightarrow> 'db V1 answer" where
  "TransactionFee D ctx callParams s = open_call D callParams s (\<lambda>m. find_gas_of D ctx m s (\<lambda>gas.
     pay_for D ctx (cx_Sender ctx) gas s (\<lambda>resp e s. (Inr (resp, e), s))))"

text \<open>The parameters of a method; the low level error of the token stubs, and that of the others, which has no text.\<close>

definition items_of :: "'db EnvD \<Rightarrow> StubResponse \<Rightarrow> MethodInfo \<Rightarrow> 's \<Rightarrow> (bytes list \<Rightarrow> 's answer) \<Rightarrow> 's answer" where
  "items_of D resp m s f = (case Rlp_Items D (mi_ParamData m) of Inl e \<Rightarrow> stop_low resp e s | Inr items \<Rightarrow> f items)"

definition items_or_code :: "'db EnvD \<Rightarrow> StubResponse \<Rightarrow> BCError \<Rightarrow> MethodInfo \<Rightarrow> 's \<Rightarrow> (bytes list \<Rightarrow> 's answer) \<Rightarrow> 's answer" where
  "items_or_code D resp e m s f = (case Rlp_Items D (mi_ParamData m) of
     Inl _ \<Rightarrow> stop resp e ErrCodeLowLevelError s | Inr items \<Rightarrow> f items)"

definition method_id :: "'db EnvD \<Rightarrow> string \<Rightarrow> uint32" where
  "method_id D prototype = ConvertPrototype2ID (ed D) prototype"

definition bad_call :: "StubResponse \<Rightarrow> BCError \<Rightarrow> 's \<Rightarrow> 's answer" where
  "bad_call resp e = stop resp e ErrCodeInterContractsInvalidMethod"

definition bad_param :: "StubResponse \<Rightarrow> BCError \<Rightarrow> 's \<Rightarrow> 's answer" where
  "bad_param resp e = stop resp e ErrCodeInterContractsInvalidParameter"

text \<open>A gas price: the first parameter, which nobody counts.\<close>

definition price_item :: "StubResponse \<Rightarrow> BCError \<Rightarrow> uint32 \<Rightarrow> bytes list \<Rightarrow> 's \<Rightarrow> (uint64 \<Rightarrow> 's answer) \<Rightarrow> 's answer" where
  "price_item resp e code items s f = need (item items 0) s (\<lambda>b.
     if 8 < length b then stop resp e code s else need (decode2Uint64 b) s f)"

section \<open>Basic token (\<open>tokenbasicstub.go\<close>)\<close>

definition TbTransfer :: string where "TbTransfer = ''Transfer(smc.Address,big.Int)smc.Error''"
definition TbSetGasBasePrice :: string where "TbSetGasBasePrice = ''SetGasBasePrice(uint64)smc.Error''"
definition TbSetGasPrice :: string where "TbSetGasPrice = ''SetGasPrice(uint64)smc.Error''"

definition TokenBasic_method :: "'db EnvD \<Rightarrow> InvokeContext \<Rightarrow> MethodInfo \<Rightarrow> StubResponse \<Rightarrow> BCError \<Rightarrow> 'db V1 \<Rightarrow> 'db V1 answer" where
  "TokenBasic_method D ctx m resp e s =
    (if mi_MethodID m = method_id D TbTransfer then
       let resp = resp\<lparr>rp_RequestMethod := TbTransfer\<rparr> in items_of D resp m s (\<lambda>items.
       if length items < 2 then bad_param resp e s
       else if length (items ! 1) = 0 then bad_param resp e s
       else with_address D resp ErrCodeLowLevelError (item_string items 0) s s
         (answer resp (Basic_Transfer (ed D) ctx (item_string items 0) (big_of_bytes (items ! 1)) s)))
     else if mi_MethodID m = method_id D TbSetGasPrice then
       let resp = resp\<lparr>rp_RequestMethod := TbSetGasPrice\<rparr> in items_of D resp m s (\<lambda>items.
       price_item resp e ErrCodeInterContractsInvalidGasPrice items s (\<lambda>price. answer resp (Basic_SetGasPrice (ed D) ctx price s)))
     else if mi_MethodID m = method_id D TbSetGasBasePrice then
       let resp = resp\<lparr>rp_RequestMethod := TbSetGasBasePrice\<rparr> in items_of D resp m s (\<lambda>items.
       price_item resp e ErrCodeInterContractsInvalidParameter items s (\<lambda>price. answer resp (Basic_SetGasBasePrice (ed D) ctx price s)))
     else bad_call resp e s)"

definition TokenBasic_Dispatcher :: "'db EnvD \<Rightarrow> InvokeContext \<Rightarrow> bytes \<Rightarrow> 'db V1 \<Rightarrow> 'db V1 answer" where
  "TokenBasic_Dispatcher D ctx callParams s = open_call D callParams s (\<lambda>m. find_gas_of D ctx m s (\<lambda>gas.
     pay_for D ctx (cx_Sender ctx) gas s (TokenBasic_method D ctx m)))"

section \<open>Tokens (\<open>tokentempletstub.go\<close>)\<close>

definition TtBatchTransfer :: string where "TtBatchTransfer = ''BatchTransfer([]smc.Address,big.Int)smc.Error''"
definition TtAddSupply :: string where "TtAddSupply = ''AddSupply(big.Int)smc.Error''"
definition TtBurn :: string where "TtBurn = ''Burn(big.Int)smc.Error''"
definition TtSetGasPrice :: string where "TtSetGasPrice = ''SetGasPrice(uint64)smc.Error''"
definition TtSetOwner :: string where "TtSetOwner = ''SetOwner(smc.Address)smc.Error''"

text \<open>A token without supply accepts \<open>SetOwner\<close> only.\<close>

definition checkTokenStatus :: "'db EnvD \<Rightarrow> InvokeContext \<Rightarrow> uint32 \<Rightarrow> 'db V1 \<Rightarrow> string + BCError" where
  "checkTokenStatus D ctx methodId s = (let K = ed D in case ts_GetToken K (cx_TxState ctx) (own_addr ctx) s of
     Inl e \<Rightarrow> Inl e
   | Inr (Inl e) \<Rightarrow> Inr (lowE e)
   | Inr (Inr None) \<Rightarrow> Inr (errC ErrCodeInterContractsInvalidAddr)
   | Inr (Inr (Some token)) \<Rightarrow>
       if Big_Compare K (it_TotalSupply token) (Big_Zero K) = 0 \<and> methodId \<noteq> method_id D TtSetOwner
       then Inr (errC ErrCodeInterContractsTokenNotInit) else Inr okE)"

text \<open>The receivers of a batch, checked in order.\<close>

fun first_bad :: "'db EnvD \<Rightarrow> string \<Rightarrow> string list \<Rightarrow> string option" where
  "first_bad D cid [] = None"
| "first_bad D cid (a # as) = (case CheckAddress (ed D) cid a of Some e \<Rightarrow> Some e | None \<Rightarrow> first_bad D cid as)"

definition to_list :: "string \<Rightarrow> string list" where
  "to_list strToList = (if Contains strToList '','' then Split (CHR '','') strToList else [strToList])"

definition amount_item :: "StubResponse \<Rightarrow> BCError \<Rightarrow> bytes list \<Rightarrow> 's \<Rightarrow> (int \<Rightarrow> 's answer) \<Rightarrow> 's answer" where
  "amount_item resp e items s f = need (item items 0) s (\<lambda>b.
     if length b = 0 then bad_param resp e s else f (big_of_bytes b))"

definition TokenTemplet_method :: "'db EnvD \<Rightarrow> InvokeContext \<Rightarrow> MethodInfo \<Rightarrow> StubResponse \<Rightarrow> BCError \<Rightarrow> 'db V1 \<Rightarrow> 'db V1 answer" where
  "TokenTemplet_method D ctx m resp e s = (let K = ed D in
     if mi_MethodID m = method_id D TbTransfer then
       let resp = resp\<lparr>rp_RequestMethod := TbTransfer\<rparr> in items_of D resp m s (\<lambda>items.
       if length items \<noteq> 2 then bad_param resp e s
       else if length (items ! 1) = 0 then bad_param resp e s
       else with_address D resp ErrCodeLowLevelError (item_string items 0) s s
         (answer resp (Templet_Transfer K ctx (item_string items 0) (big_of_bytes (items ! 1)) s)))
     else if mi_MethodID m = method_id D TtBatchTransfer then
       let resp = resp\<lparr>rp_RequestMethod := TtBatchTransfer\<rparr> in items_of D resp m s (\<lambda>items.
       if length items \<noteq> 2 then bad_param resp e s
       else need (sdb_GetChainID K s) s (\<lambda>cid. let toList = to_list (item_string items 0) in
         case first_bad D cid toList of
           Some err \<Rightarrow> stop_low resp err s
         | None \<Rightarrow> answer resp (Templet_BatchTransfer K ctx toList (big_of_bytes (items ! 1)) s)))
     else if mi_MethodID m = method_id D TtAddSupply then
       let resp = resp\<lparr>rp_RequestMethod := TtAddSupply\<rparr> in items_of D resp m s (\<lambda>items.
       amount_item resp e items s (\<lambda>n. answer resp (Templet_AddSupply K ctx n s)))
     else if mi_MethodID m = method_id D TtBurn then
       let resp = resp\<lparr>rp_RequestMethod := TtBurn\<rparr> in items_of D resp m s (\<lambda>items.
       amount_item resp e items s (\<lambda>n. answer resp (Templet_Burn K ctx n s)))
     else if mi_MethodID m = method_id D TtSetOwner then
       let resp = resp\<lparr>rp_RequestMethod := TtSetOwner\<rparr> in items_of D resp m s (\<lambda>items.
       need (item items 0) s (\<lambda>b. with_address D resp ErrCodeLowLevelError (string_of_bytes b) s s
         (answer resp (Templet_SetOwner K ctx (string_of_bytes b) s))))
     else if mi_MethodID m = method_id D TtSetGasPrice then
       let resp = resp\<lparr>rp_RequestMethod := TtSetGasPrice\<rparr> in items_of D resp m s (\<lambda>items.
       price_item resp e ErrCodeInterContractsInvalidParameter items s (\<lambda>price. answer resp (Templet_SetGasPrice K ctx price s)))
     else bad_call resp e s)"

definition TokenTemplet_Dispatcher :: "'db EnvD \<Rightarrow> InvokeContext \<Rightarrow> bytes \<Rightarrow> 'db V1 \<Rightarrow> 'db V1 answer" where
  "TokenTemplet_Dispatcher D ctx callParams s = open_call D callParams s (\<lambda>m.
     need (checkTokenStatus D ctx (mi_MethodID m) s) s (\<lambda>e.
     if \<not> isOK e then (Inr (no_stub_response, e), s)
     else find_gas_of D ctx m s (\<lambda>gas.
       pay_for D ctx (cx_Sender ctx) gas s (TokenTemplet_method D ctx m))))"

section \<open>New tokens (\<open>tokenissuestub.go\<close>)\<close>

definition TiNewToken :: string where
  "TiNewToken = ''NewToken(string,string,big.Int,bool,bool,uint64)(smc.Address,smc.Error)''"

definition MIN_SIZE :: nat where "MIN_SIZE = 3"

text \<open>The loop over the parameters: only the supply, the third, may be empty.\<close>

fun token_params :: "nat \<Rightarrow> bytes list \<Rightarrow> uint32 option" where
  "token_params i [] = None"
| "token_params i (b # bs) = (if length b = 0 \<and> i \<noteq> 2 then Some ErrCodeInterContractsInvalidParameter
     else if i = 5 \<and> 8 < length b then Some ErrCodeInterContractsInvalidGasLimit
     else token_params (Suc i) bs)"

definition TokenIssue_method :: "'db EnvD \<Rightarrow> InvokeContext \<Rightarrow> MethodInfo \<Rightarrow> StubResponse \<Rightarrow> BCError \<Rightarrow> 'db V1 \<Rightarrow> 'db V1 answer" where
  "TokenIssue_method D ctx m resp e s =
    (if mi_MethodID m = method_id D TiNewToken then
       let resp = resp\<lparr>rp_RequestMethod := TiNewToken\<rparr> in items_of D resp m s (\<lambda>items.
       if length items < 6 then bad_param resp e s
       else case token_params 0 items of
         Some code \<Rightarrow> stop resp e code s
       | None \<Rightarrow> let name = item_string items 0; symbol = item_string items 1 in
         need (decode2Uint64 (items ! 5)) s (\<lambda>gasprice.
         if (length name < MIN_SIZE \<or> length symbol < MIN_SIZE) \<and> ac_Addr (cx_Sender ctx) \<noteq> ac_Addr (cx_Owner ctx)
         then stop resp e ErrCodeInterContractsNoAuthorization s
         else seqR (Issue_NewToken (ed D) ctx name symbol (big_of_bytes (items ! 2)) (flag (items ! 3)) (flag (items ! 4)) gasprice s)
           (\<lambda>(addr, e) s. if addr = [] \<or> \<not> isOK e then (Inr (resp, e), s)
             else (Inr (resp\<lparr>rp_Data := addr, rp_Code := RESPONSE_CODE_NEWTOKEN\<rparr>, e), s))))
     else bad_call resp e s)"

definition TokenIssue_Dispatcher :: "'db EnvD \<Rightarrow> InvokeContext \<Rightarrow> bytes \<Rightarrow> 'db V1 \<Rightarrow> 'db V1 answer" where
  "TokenIssue_Dispatcher D ctx callParams s = open_call D callParams s (\<lambda>m. find_gas_of D ctx m s (\<lambda>gas.
     pay_for D ctx (cx_Sender ctx) gas s (TokenIssue_method D ctx m)))"

section \<open>System contract (\<open>systemstub.go\<close>)\<close>

definition SysNewValidator :: string where "SysNewValidator = ''NewValidator(string,smc.PubKey,smc.Address,uint64)smc.Error''"
definition SysSetPower :: string where "SysSetPower = ''SetPower(smc.PubKey,uint64)smc.Error''"
definition SysSetRewardAddr :: string where "SysSetRewardAddr = ''SetRewardAddr(smc.PubKey,smc.Address)smc.Error''"
definition SysForbidInternalContract :: string where
  "SysForbidInternalContract = ''ForbidInternalContract(smc.Address,uint64)smc.Error''"
definition SysDeployInternalContract :: string where
  "SysDeployInternalContract = ''DeployInternalContract(string,string,[]string,[]uint64,smc.Hash,uint64)(smc.Address,smc.Error)''"
definition SysSetRewardStrategy :: string where "SysSetRewardStrategy = ''SetRewardStrategy(string,uint64)smc.Error''"

definition PUBKEY_LEN :: nat where "PUBKEY_LEN = 32"

text \<open>A change of a validator: on success the response carries its node address.\<close>

definition update_validator :: "'db EnvD \<Rightarrow> StubResponse \<Rightarrow> bytes \<Rightarrow> ('db V1, BCError) act \<Rightarrow> 'db V1 answer" where
  "update_validator D resp pubKey m = seqR m (\<lambda>e s. if \<not> isOK e then (Inr (resp, e), s)
     else seqR (ctx_GetValidatorUpdate (ed D) pubKey s) (\<lambda>d s.
       (Inr (resp\<lparr>rp_Data := d, rp_Code := RESPONSE_CODE_UPDATE_VALIDATORS\<rparr>, e), s)))"

text \<open>The gas of the methods: eight bytes each.\<close>

fun gas_list :: "bytes \<Rightarrow> string + uint64 list" where
  "gas_list b = (if b = [] then Inr [] else if length b < 8 then Inl slice_panic
     else andThen (gas_list (drop 8 b)) (\<lambda>l. Inr (be_word (take 8 b) # l)))"

declare gas_list.simps [simp del]

definition deploy_code :: "string \<Rightarrow> uint32" where
  "deploy_code name = (case map_of [(''token-byb'', 3), (''transferAgency'', 37), (''token-basic-cancellation-1'', 47),
     (''upgrade1to2'', 48), (''token-basic-team'', 52), (''token-basic-foundation'', 53), (''mining'', 51)] name of
     Some c \<Rightarrow> c | None \<Rightarrow> 0)"

definition System_deploy :: "'db EnvD \<Rightarrow> InvokeContext \<Rightarrow> bytes list \<Rightarrow> StubResponse \<Rightarrow> BCError \<Rightarrow> 'db V1 \<Rightarrow> 'db V1 answer" where
  "System_deploy D ctx items resp e s =
    (if length items \<noteq> 6 then bad_param resp e s
     else if length (items ! 0) = 0 \<or> length (items ! 2) = 0 \<or> length (items ! 3) = 0 \<or> 8 < length (items ! 5)
     then bad_param resp e s
     else let name = item_string items 0; version = item_string items 1 in
       need (gas_list (items ! 3)) s (\<lambda>gasList. need (decode2Uint64 (items ! 5)) s (\<lambda>effectHeight.
       seqR (DeployInternalContract D ctx name version (Split (CHR '';'') (item_string items 2)) gasList (items ! 4) effectHeight s)
         (\<lambda>(newcontract, e) s. if \<not> isOK e then (Inr (resp, e), s)
           else (Inr (resp\<lparr>rp_Code := deploy_code name, rp_Log := name @ '','' @ version, rp_Data := newcontract\<rparr>, e), s)))))"

definition System_method :: "'db EnvD \<Rightarrow> InvokeContext \<Rightarrow> MethodInfo \<Rightarrow> bytes list \<Rightarrow> StubResponse \<Rightarrow> BCError \<Rightarrow> 'db V1 \<Rightarrow>
    'db V1 answer" where
  "System_method D ctx m items resp e s =
    (if mi_MethodID m = method_id D SysNewValidator then
       let resp = resp\<lparr>rp_RequestMethod := SysNewValidator\<rparr> in
       if length items \<noteq> 4 then bad_param resp e s
       else if length (items ! 0) = 0 \<or> length (items ! 1) \<noteq> PUBKEY_LEN \<or> 8 < length (items ! 3) then bad_param resp e s
       else need (decode2Uint64 (items ! 3)) s (\<lambda>pw.
         update_validator D resp (items ! 1) (sys_NewValidator D ctx (item_string items 0) (items ! 1) (item_string items 2) pw s))
     else if mi_MethodID m = method_id D SysSetPower then
       let resp = resp\<lparr>rp_RequestMethod := SysSetPower\<rparr> in
       need (item items 0) s (\<lambda>key. need (item items 1) s (\<lambda>b.
       if length key \<noteq> PUBKEY_LEN \<or> 8 < length b then bad_param resp e s
       else need (decode2Uint64 b) s (\<lambda>pw. update_validator D resp key (sys_SetPower D ctx key pw s))))
     else if mi_MethodID m = method_id D SysSetRewardAddr then
       let resp = resp\<lparr>rp_RequestMethod := SysSetRewardAddr\<rparr> in
       need (item items 0) s (\<lambda>key. need (item items 1) s (\<lambda>b.
       if length key \<noteq> PUBKEY_LEN then bad_param resp e s
       else update_validator D resp key (sys_SetRewardAddr D ctx key (string_of_bytes b) s)))
     else if mi_MethodID m = method_id D SysSetRewardStrategy then
       let resp = resp\<lparr>rp_RequestMethod := SysSetRewardStrategy\<rparr> in
       need (item items 0) s (\<lambda>strategy. need (item items 1) s (\<lambda>b. need (decode2Uint64 b) s (\<lambda>height.
         answer resp (sys_SetRewardStrategy D ctx strategy height s))))
     else if mi_MethodID m = method_id D SysDeployInternalContract then
       System_deploy D ctx items (resp\<lparr>rp_RequestMethod := SysDeployInternalContract\<rparr>) e s
     else if mi_MethodID m = method_id D SysForbidInternalContract then
       let resp = resp\<lparr>rp_RequestMethod := SysForbidInternalContract\<rparr> in
       if length items \<noteq> 2 then bad_param resp e s
       else if length (items ! 0) = 0 \<or> 8 < length (items ! 1) then bad_param resp e s
       else with_address D resp ErrCodeLowLevelError (item_string items 0) s s
         (need (decode2Uint64 (items ! 1)) s (\<lambda>height.
           answer resp (ForbidInternalContract D ctx (item_string items 0) height s)))
     else bad_call resp e s)"

definition System_Dispatcher :: "'db EnvD \<Rightarrow> InvokeContext \<Rightarrow> bytes \<Rightarrow> 'db V1 \<Rightarrow> 'db V1 answer" where
  "System_Dispatcher D ctx callParams s = open_call D callParams s (\<lambda>m. find_gas_of D ctx m s (\<lambda>gas.
     pay_for D ctx (cx_Sender ctx) gas s (\<lambda>resp e s. items_of D resp m s (\<lambda>items. System_method D ctx m items resp e s))))"

section \<open>Contracts with receipts\<close>

text \<open>
  The stubs of the version 1 contracts that write receipts (\<open>contract/stubs\<close>): the BYB token, the vesting of the team
  and of the foundation, the cancellation, the transfer agency, mining. The fee and the rewards of a call are receipts
  too; the receipts become tags of the response when the call has succeeded.
\<close>

section \<open>Accounts (\<open>common.go\<close>)\<close>

text \<open>The address of a token by its name; no name is the basic token, whose absence is a \<open>nil\<close> pointer.\<close>

definition token_or_basic :: "'db EnvD \<Rightarrow> InvokeContext \<Rightarrow> string \<Rightarrow> 'db V1 \<Rightarrow> string + string" where
  "token_or_basic D ctx tokenName s = (let K = ed D; ts = cx_TxState ctx in
     andThen (if length tokenName = 0
       then andThen (or_nil (ts_GetGenesisToken K ts s)) (\<lambda>t. andThen (deref t) (\<lambda>genToken. Inr (it_Name genToken)))
       else Inr tokenName) (\<lambda>name. or_empty (ts_GetTokenAddrByName K ts name s)))"

definition CreateAccount :: "'db EnvD \<Rightarrow> InvokeContext \<Rightarrow> string \<Rightarrow> string \<Rightarrow> 'db V1 \<Rightarrow> string + Account1" where
  "CreateAccount D ctx address tokenName s = andThen (token_or_basic D ctx tokenName s) (\<lambda>tokenAddr.
     Inr \<lparr>ac_Addr = address, ac_TxState = (cx_TxState ctx)\<lparr>ts_ContractAddress := tokenAddr\<rparr>\<rparr>)"

definition CreateContractAcct :: "'db EnvD \<Rightarrow> InvokeContext \<Rightarrow> string \<Rightarrow> string \<Rightarrow> 'db V1 \<Rightarrow> string + Account1" where
  "CreateContractAcct D ctx contractName tokenName s = andThen (ts_GetChainID (ed D) (cx_TxState ctx) s) (\<lambda>cid.
     andThen (token_or_basic D ctx tokenName s) (\<lambda>tokenAddr.
     Inr \<lparr>ac_Addr = CalcContractAddress (ed D) cid [] contractName [],
       ac_TxState = (cx_TxState ctx)\<lparr>ts_ContractAddress := tokenAddr\<rparr>\<rparr>))"

definition CalcContractAcct :: "'db EnvD \<Rightarrow> InvokeContext \<Rightarrow> string \<Rightarrow> 'db V1 \<Rightarrow> string + Account1 option" where
  "CalcContractAcct D ctx contractName s = andThen (ts_GetChainID (ed D) (cx_TxState ctx) s) (\<lambda>cid.
     andThen (or_nil (ts_GetGenesisToken (ed D) (cx_TxState ctx) s)) (\<lambda>t. Inr (map_option (\<lambda>genToken.
       \<lparr>ac_Addr = CalcContractAddress (ed D) cid [] contractName [],
        ac_TxState = (cx_TxState ctx)\<lparr>ts_ContractAddress := it_Address genToken\<rparr>\<rparr>) t)))"

text \<open>What \<open>NewTokenBYB\<close>, \<open>NewTBT\<close>, \<open>NewTBF\<close>, \<open>NewTBC\<close>, \<open>NewTAC\<close> and \<open>NewMN\<close> make of the context. Only \<open>NewTAC\<close> sets the note.\<close>

definition smc_api :: "InvokeContext \<Rightarrow> Account1 \<Rightarrow> string \<Rightarrow> SmcApi" where
  "smc_api ctx acct note = \<lparr>sa_Sender = cx_Sender ctx, sa_Owner = cx_Owner ctx, sa_ContractAcct = acct,
     sa_ContractAddr = ts_ContractAddress (ac_TxState (cx_Owner ctx)), sa_State = cx_TxState ctx, sa_Note = note\<rparr>"

section \<open>Receipts (\<open>common.go\<close>)\<close>

text \<open>One receipt for the fee, one for every reward, by address.\<close>

definition receiptsOfTransactionFee :: "'db EnvS \<Rightarrow> SmcApi \<Rightarrow> string \<Rightarrow> string \<Rightarrow> uint64 \<Rightarrow> (string, uint64) gomap \<Rightarrow>
    'db Smc \<Rightarrow> 'db Smc" where
  "receiptsOfTransactionFee E api tokenAddress sender fee rewardValues s =
     fold (\<lambda>k. PackReceiptOfTransfer E api tokenAddress sender k
       (UintToBigInt (base1 E) (case map_of rewardValues k of Some v \<Rightarrow> v | None \<Rightarrow> 0)))
     (sort (map fst rewardValues)) (PackReceiptOfFee E api tokenAddress sender fee s)"

text \<open>The receipts become tags, numbered; one that cannot be marshalled has no text.\<close>

definition addReceiptsToResponse :: "'db EnvD \<Rightarrow> 'db Smc \<Rightarrow> StubResponse \<Rightarrow> StubResponse" where
  "addReceiptsToResponse D s resp = resp\<lparr>rp_Tags := rp_Tags resp @
     map (\<lambda>(i, r). (dec_of_nat i, case marshal (k_Rcpt D) r of Inl _ \<Rightarrow> [] | Inr b \<Rightarrow> b)) (enumerate 0 (GetReceipts s))\<rparr>"

definition with_receipts :: "'db EnvD \<Rightarrow> StubResponse \<Rightarrow> ('db Smc, BCError) act \<Rightarrow> 'db Smc answer" where
  "with_receipts D resp m = seqR m (\<lambda>e s. (Inr (if isOK e then addReceiptsToResponse D s resp else resp, e), s))"

text \<open>The receipts of the payment; no basic token is a \<open>nil\<close> pointer.\<close>

definition fee_receipts :: "'db EnvD \<Rightarrow> SmcApi \<Rightarrow> string \<Rightarrow> StubResponse \<Rightarrow> 'db Smc \<Rightarrow> ('db Smc, unit) act" where
  "fee_receipts D api payer resp s = need (or_nil (ts_GetGenesisToken (ed D) (sa_State api) (sm_v1 s))) s (\<lambda>t.
     need (deref t) s (\<lambda>tokenBasic. (Inr (), receiptsOfTransactionFee (es D) api (it_Address tokenBasic) payer
       (rp_GasUsed resp * rp_GasPrice resp) (rp_RewardValues resp) s)))"

text \<open>A contract with a fresh event handler; its receipts are dropped with it.\<close>

definition on_smc :: "('db Smc \<Rightarrow> ('db Smc, 'a) act) \<Rightarrow> 'db V1 \<Rightarrow> ('db V1, 'a) act" where
  "on_smc f v = (case f (InitEventHandler v) of (r, s) \<Rightarrow> (r, sm_v1 s))"

text \<open>What follows the payment: receipts of the fee, parameters, the method.\<close>

definition after_payment :: "'db EnvD \<Rightarrow> SmcApi \<Rightarrow> string \<Rightarrow> MethodInfo \<Rightarrow> StubResponse \<Rightarrow> BCError \<Rightarrow>
    (bytes list \<Rightarrow> 'db Smc \<Rightarrow> 'db Smc answer) \<Rightarrow> 'db V1 \<Rightarrow> 'db V1 answer" where
  "after_payment D api payer m resp e f = on_smc (\<lambda>s. seqR (fee_receipts D api payer resp s) (\<lambda>_ s.
     items_or_code D resp e m s (\<lambda>items. f items s)))"

section \<open>The BYB token (\<open>tokenbybstub.go\<close>)\<close>

definition BYBInit :: string where "BYBInit = ''Init(Number,bool,bool)smc.Error''"
definition BYBSetOwner :: string where "BYBSetOwner = ''SetOwner(smc.Address)smc.Error''"
definition BYBSetGasPrice :: string where "BYBSetGasPrice = ''SetGasPrice(uint64)smc.Error''"
definition BYBAddSupply :: string where "BYBAddSupply = ''AddSupply(Number)smc.Error''"
definition BYBBurn :: string where "BYBBurn = ''Burn(Number)smc.Error''"
definition BYBNewBlackHole :: string where "BYBNewBlackHole = ''NewBlackHole(smc.Address)smc.Error''"
definition BYBNewStockHolder :: string where "BYBNewStockHolder = ''NewStockHolder(smc.Address,Number)(smc.Chromo,smc.Error)''"
definition BYBDelStockHolder :: string where "BYBDelStockHolder = ''DelStockHolder(smc.Address)smc.Error''"
definition BYBChangeChromoOwnerShip :: string where
  "BYBChangeChromoOwnerShip = ''ChangeChromoOwnership(smc.Chromo,smc.Address)smc.Error''"
definition BYBTransfer :: string where "BYBTransfer = ''Transfer(smc.Address,big.Int)smc.Error''"
definition BYBTransferByChromo :: string where "BYBTransferByChromo = ''TransferByChromo(smc.Chromo,smc.Address,Number)smc.Error''"

definition no_chromo :: "StubResponse \<Rightarrow> 's \<Rightarrow> 's answer" where
  "no_chromo resp s = (Inr (resp, errD ErrCodeInterContractsInvalidParameter ''Chromo cannot be empty''), s)"

text \<open>A method whose one parameter is an address, and one whose one parameter is a number.\<close>

definition byb_address_call :: "'db EnvD \<Rightarrow> StubResponse \<Rightarrow> BCError \<Rightarrow> bytes list \<Rightarrow> 'db Smc \<Rightarrow>
    (string \<Rightarrow> 'db Smc \<Rightarrow> ('db Smc, BCError) act) \<Rightarrow> 'db Smc answer" where
  "byb_address_call D resp e items s f = (if length items \<noteq> 1 then bad_param resp e s
     else with_address D resp ErrCodeInterContractsInvalidAddr (item_string items 0) (sm_v1 s) s
       (with_receipts D resp (f (item_string items 0) s)))"

definition byb_number_call :: "'db EnvD \<Rightarrow> StubResponse \<Rightarrow> BCError \<Rightarrow> bytes list \<Rightarrow> 'db Smc \<Rightarrow>
    (int \<Rightarrow> 'db Smc \<Rightarrow> ('db Smc, BCError) act) \<Rightarrow> 'db Smc answer" where
  "byb_number_call D resp e items s f = (if length items \<noteq> 1 then bad_param resp e s
     else with_receipts D resp (f (Num_SetBytes D (items ! 0)) s))"

text \<open>A gas price that is too long is logged with a second parameter, which does not exist.\<close>

definition byb_price_call :: "'db EnvD \<Rightarrow> SmcApi \<Rightarrow> StubResponse \<Rightarrow> BCError \<Rightarrow> bytes list \<Rightarrow> 'db Smc \<Rightarrow> 'db Smc answer" where
  "byb_price_call D api resp e items s = (if length items \<noteq> 1 then bad_param resp e s
     else if 8 < length (items ! 0)
     then need (item items 1) s (\<lambda>_. stop resp e ErrCodeInterContractsInvalidTeam s)
     else need (decode2Uint64 (items ! 0)) s (\<lambda>price. with_receipts D resp (byb_SetGasPrice (es D) api price s)))"

definition byb_transfer_calls :: "'db EnvD \<Rightarrow> SmcApi \<Rightarrow> MethodInfo \<Rightarrow> StubResponse \<Rightarrow> BCError \<Rightarrow> bytes list \<Rightarrow> 'db Smc \<Rightarrow>
    'db Smc answer option" where
  "byb_transfer_calls D api m resp e items s = (let E = es D in
     if mi_MethodID m = method_id D BYBTransfer then Some (let resp = resp\<lparr>rp_RequestMethod := BYBTransfer\<rparr> in
       if length items \<noteq> 2 then bad_param resp e s
       else with_address D resp ErrCodeLowLevelError (item_string items 0) (sm_v1 s) s
         (with_receipts D resp (byb_Transfer E api (item_string items 0) (Num_SetBytes D (items ! 1)) s)))
     else if mi_MethodID m = method_id D BYBTransferByChromo then
       Some (let resp = resp\<lparr>rp_RequestMethod := BYBTransferByChromo\<rparr> in
       if length items \<noteq> 3 then bad_param resp e s
       else if length (items ! 0) = 0 then no_chromo resp s
       else with_address D resp ErrCodeLowLevelError (item_string items 1) (sm_v1 s) s
         (with_receipts D resp (TransferByChromo E api (item_string items 0) (item_string items 1) (Num_SetBytes D (items ! 2)) s)))
     else None)"

definition byb_holder_calls :: "'db EnvD \<Rightarrow> SmcApi \<Rightarrow> MethodInfo \<Rightarrow> StubResponse \<Rightarrow> BCError \<Rightarrow> bytes list \<Rightarrow> 'db Smc \<Rightarrow>
    'db Smc answer" where
  "byb_holder_calls D api m resp e items s = (let E = es D in
     if mi_MethodID m = method_id D BYBNewBlackHole
     then byb_address_call D (resp\<lparr>rp_RequestMethod := BYBNewBlackHole\<rparr>) e items s (NewBlackHole E api)
     else if mi_MethodID m = method_id D BYBNewStockHolder then
       let resp = resp\<lparr>rp_RequestMethod := BYBNewStockHolder\<rparr> in
       if length items \<noteq> 2 then bad_param resp e s
       else with_address D resp ErrCodeLowLevelError (item_string items 0) (sm_v1 s) s
         (seqR (NewStockHolder E api (item_string items 0) (Num_SetBytes D (items ! 1)) s) (\<lambda>(chromo, e) s.
           let resp = resp\<lparr>rp_Code := RESPONSE_CODE_BYBCHROMO, rp_Data := chromo\<rparr>
           in (Inr (if isOK e then addReceiptsToResponse D s resp else resp, e), s)))
     else if mi_MethodID m = method_id D BYBDelStockHolder
     then byb_address_call D (resp\<lparr>rp_RequestMethod := BYBDelStockHolder\<rparr>) e items s (DelStockHolder E api)
     else if mi_MethodID m = method_id D BYBChangeChromoOwnerShip then
       let resp = resp\<lparr>rp_RequestMethod := BYBChangeChromoOwnerShip\<rparr> in
       if length items \<noteq> 2 then bad_param resp e s
       else if length (items ! 0) = 0 then no_chromo resp s
       else with_address D resp ErrCodeInterContractsInvalidAddr (item_string items 1) (sm_v1 s) s
         (with_receipts D resp (ChangeChromoOwnership E api (item_string items 0) (item_string items 1) s))
     else bad_call resp e s)"

definition TokenBYB_method :: "'db EnvD \<Rightarrow> SmcApi \<Rightarrow> MethodInfo \<Rightarrow> StubResponse \<Rightarrow> BCError \<Rightarrow> bytes list \<Rightarrow> 'db Smc \<Rightarrow>
    'db Smc answer" where
  "TokenBYB_method D api m resp e items s = (let E = es D in case byb_transfer_calls D api m resp e items s of
     Some a \<Rightarrow> a
   | None \<Rightarrow>
     if mi_MethodID m = method_id D BYBInit then let resp = resp\<lparr>rp_RequestMethod := BYBInit\<rparr> in
       if length items \<noteq> 3 then bad_param resp e s
       else with_receipts D resp (byb_Init E api (Num_SetBytes D (items ! 0)) (flag (items ! 1)) (flag (items ! 2)) s)
     else if mi_MethodID m = method_id D BYBSetOwner
     then byb_address_call D (resp\<lparr>rp_RequestMethod := BYBSetOwner\<rparr>) e items s (byb_SetOwner E api)
     else if mi_MethodID m = method_id D BYBSetGasPrice
     then byb_price_call D api (resp\<lparr>rp_RequestMethod := BYBSetGasPrice\<rparr>) e items s
     else if mi_MethodID m = method_id D BYBAddSupply
     then byb_number_call D (resp\<lparr>rp_RequestMethod := BYBAddSupply\<rparr>) e items s (byb_AddSupply E api)
     else if mi_MethodID m = method_id D BYBBurn
     then byb_number_call D (resp\<lparr>rp_RequestMethod := BYBBurn\<rparr>) e items s (byb_Burn E api)
     else byb_holder_calls D api m resp e items s)"

definition TokenBYB_Dispatcher :: "'db EnvD \<Rightarrow> InvokeContext \<Rightarrow> bytes \<Rightarrow> 'db V1 \<Rightarrow> 'db V1 answer" where
  "TokenBYB_Dispatcher D ctx callParams s = open_call D callParams s (\<lambda>m. find_gas_of D ctx m s (\<lambda>gas.
     pay_for D ctx (cx_Sender ctx) gas s (\<lambda>resp e s.
     need (CreateContractAcct D ctx ''token-byb'' BybName s) s (\<lambda>acct. let api = smc_api ctx acct [] in
     after_payment D api (ac_Addr (sa_Sender api)) m resp e (TokenBYB_method D api m resp e) s))))"

section \<open>Vesting and cancellation (\<open>tokenbasicteamstub.go\<close>, \<open>tokenbasicfoundationstub.go\<close>, \<open>tbcancellationstub.go\<close>)\<close>

text \<open>The three stubs have the same text: one method, without parameters.\<close>

definition one_method :: "'db EnvD \<Rightarrow> InvokeContext \<Rightarrow> string \<Rightarrow> string \<Rightarrow> (SmcApi \<Rightarrow> 'db Smc \<Rightarrow> ('db Smc, BCError) act) \<Rightarrow>
    bytes \<Rightarrow> 'db V1 \<Rightarrow> 'db V1 answer" where
  "one_method D ctx contractName prototype f callParams s = open_call D callParams s (\<lambda>m. find_gas_of D ctx m s (\<lambda>gas.
     need (CreateContractAcct D ctx contractName [] s) s (\<lambda>acct. let api = smc_api ctx acct [] in
     pay_for D ctx (cx_Sender ctx) gas s (\<lambda>resp e.
     after_payment D api (ac_Addr (sa_Sender api)) m resp e (\<lambda>items s.
       if mi_MethodID m = method_id D prototype then let resp = resp\<lparr>rp_RequestMethod := prototype\<rparr> in
         if length items \<noteq> 0 then bad_param resp e s else with_receipts D resp (f api s)
       else bad_call resp e s)))))"

definition TBT_Dispatcher :: "'db EnvD \<Rightarrow> InvokeContext \<Rightarrow> bytes \<Rightarrow> 'db V1 \<Rightarrow> 'db V1 answer" where
  "TBT_Dispatcher D ctx = one_method D ctx ''token-basic-team'' ''Withdraw()smc.Error''
     (\<lambda>api. tbt_Withdraw (envc D) api (cx_BlockHeader ctx))"

definition TBF_Dispatcher :: "'db EnvD \<Rightarrow> InvokeContext \<Rightarrow> bytes \<Rightarrow> 'db V1 \<Rightarrow> 'db V1 answer" where
  "TBF_Dispatcher D ctx = one_method D ctx ''token-basic-foundation'' ''Withdraw()smc.Error''
     (\<lambda>api. tbf_Withdraw (envc D) api (cx_BlockHeader ctx))"

definition TBC_Dispatcher :: "'db EnvD \<Rightarrow> InvokeContext \<Rightarrow> bytes \<Rightarrow> 'db V1 \<Rightarrow> 'db V1 answer" where
  "TBC_Dispatcher D ctx = one_method D ctx ''token-basic-cancellation-1'' ''Cancel()smc.Error''
     (\<lambda>api. tbc_Cancel (envc D) api (cx_BlockHeader ctx))"

section \<open>Transfer agency (\<open>transferagencystub.go\<close>)\<close>

definition TACSetManager :: string where "TACSetManager = ''SetManager([]smc.Address)smc.Error''"
definition TACSetTokenFee :: string where "TACSetTokenFee = ''SetTokenFee(string)smc.Error''"
definition TACTransfer :: string where "TACTransfer = ''Transfer(string,smc.Address,Number)smc.Error''"
definition TACWithdrawFunds :: string where "TACWithdrawFunds = ''WithdrawFunds(string,Number)smc.Error''"

definition TAC_method :: "'db EnvD \<Rightarrow> SmcApi \<Rightarrow> MethodInfo \<Rightarrow> StubResponse \<Rightarrow> BCError \<Rightarrow> bytes list \<Rightarrow> 'db Smc \<Rightarrow>
    'db Smc answer" where
  "TAC_method D api m resp e items s = (let C = envc D in
     if mi_MethodID m = method_id D TACSetManager then let resp = resp\<lparr>rp_RequestMethod := TACSetManager\<rparr> in
       if length items \<noteq> 1 then bad_param resp e s
       else with_receipts D resp (tac_SetManager C api (to_list (item_string items 0)) s)
     else if mi_MethodID m = method_id D TACSetTokenFee then let resp = resp\<lparr>rp_RequestMethod := TACSetTokenFee\<rparr> in
       if length items \<noteq> 1 then bad_param resp e s
       else with_receipts D resp (tac_SetTokenFee C api (items ! 0) s)
     else if mi_MethodID m = method_id D TACTransfer then let resp = resp\<lparr>rp_RequestMethod := TACTransfer\<rparr> in
       if length items \<noteq> 3 then bad_param resp e s
       else with_receipts D resp (tac_Transfer C api (item_string items 0) (item_string items 1) (Num_SetBytes D (items ! 2)) s)
     else if mi_MethodID m = method_id D TACWithdrawFunds then let resp = resp\<lparr>rp_RequestMethod := TACWithdrawFunds\<rparr> in
       if length items \<noteq> 2 then bad_param resp e s
       else with_receipts D resp (tac_WithdrawFunds C api (item_string items 0) (Num_SetBytes D (items ! 1)) s)
     else bad_call resp e s)"

text \<open>The gas of \<open>Transfer\<close> is paid by the account of the contract.\<close>

definition TAC_Dispatcher :: "'db EnvD \<Rightarrow> InvokeContext \<Rightarrow> bytes \<Rightarrow> 'db V1 \<Rightarrow> 'db V1 answer" where
  "TAC_Dispatcher D ctx callParams s = open_call D callParams s (\<lambda>m. find_gas_of D ctx m s (\<lambda>gas.
     need (CreateContractAcct D ctx ''transferAgency'' [] s) s (\<lambda>acct.
     let api = smc_api ctx acct (cx_Note ctx);
         feePayer = (if mi_MethodID m = method_id D TACTransfer then acct else cx_Sender ctx) in
     pay_for D ctx feePayer gas s (\<lambda>resp e.
     after_payment D api (ac_Addr feePayer) m resp e (TAC_method D api m resp e)))))"

section \<open>Mining (\<open>miningstub.go\<close>)\<close>

text \<open>
  No gas is paid. Without a basic token the contract has no account; \<open>Mine\<close> ends before it would read it, so the
  sender's state stands in for it.
\<close>

definition MNMine :: string where "MNMine = ''Mine()smc.Error''"

definition MN_Dispatcher :: "'db EnvD \<Rightarrow> InvokeContext \<Rightarrow> 'db V1 \<Rightarrow> 'db V1 answer" where
  "MN_Dispatcher D ctx s = need (CalcContractAcct D ctx ''mining'' s) s (\<lambda>acct.
     let api = smc_api ctx (case acct of Some a \<Rightarrow> a | None \<Rightarrow> \<lparr>ac_Addr = [], ac_TxState = cx_TxState ctx\<rparr>) [];
         resp = no_stub_response\<lparr>rp_RequestMethod := MNMine\<rparr> in
     on_smc (\<lambda>s. seqR (Mine1 (envc D) api (cx_BlockHeader ctx) s) (\<lambda>(rewardAmount, e) s.
       (Inr (if isOK e then addReceiptsToResponse D s (resp\<lparr>rp_Data := dec_of_nat (unat rewardAmount)\<rparr>) else resp, e), s))) s)"

end
