(* ===== verification/V1_Deliver.thy ===== *)
theory V1_Deliver
  imports V1_Stubs
begin

text \<open>
  Which stub runs a version 1 contract (\<open>contract/contractdocker\<close>, and the registration in \<open>service/deliver/deliver.go\<close> and
  \<open>service/check/check.go\<close>). A contract without a stub runs in the service of \<open>smcrunctl\<close>, another process: its answer
  is the field \<open>Smc_Invoke\<close>. The stub of the upgrade to version 2, which builds contracts outside the process, is
  \<open>Upgrade_Dispatcher\<close>.
\<close>

text \<open>The genesis text (\<open>service/deliver/initchain.go\<close>); pointers may be \<open>nil\<close>.\<close>

record initAppState =
  gn_Token :: "IssueToken option"
  gn_RewardStrategy :: "types_Rewarder list option"
  gn_Contracts :: "types_Contract option list"

record 'db EnvI =
  envd :: "'db EnvD"
  Upgrade_Dispatcher :: "InvokeContext \<Rightarrow> bytes \<Rightarrow> 'db V1 \<Rightarrow> 'db V1 answer"
  Smc_Invoke :: "InvokeContext \<Rightarrow> bytes \<Rightarrow> int \<Rightarrow> 'db V1 \<Rightarrow> 'db V1 answer"
  Smc_Register :: "string \<Rightarrow> string \<Rightarrow> string + BCError"
  Base58_Decode :: "string \<Rightarrow> bytes"
  Rlp_Sig :: "bytes \<Rightarrow> string + bytes \<times> bytes"
  VerifyBytes :: "bytes \<Rightarrow> bytes \<Rightarrow> bytes \<Rightarrow> bool"
  Rlp_Query :: "bytes \<Rightarrow> string + string"
  Rlp_Tx :: "bytes \<Rightarrow> string + uint64 \<times> uint64 \<times> string \<times> string \<times> bytes"
  WrapInvokeParams :: "string \<Rightarrow> int \<Rightarrow> bytes list"
  Contract_Token :: "Contract \<Rightarrow> string"
  CalcAddressFromCdcPubKey :: "string \<Rightarrow> bytes \<Rightarrow> string"
  k_Genesis :: "initAppState codec"

abbreviation ei :: "'db EnvI \<Rightarrow> 'db Env1" where
  "ei I \<equiv> ed (envd I)"

datatype ContractStub = SystemStub | TokenBasicStub | TokenIssueStub | TokenTempletStub | TokenBYBStub | Upgrade1to2Stub
  | TBCStub | TBTStub | TBFStub | TACStub

fun stub_Dispatcher :: "'db EnvI \<Rightarrow> ContractStub \<Rightarrow> InvokeContext \<Rightarrow> bytes \<Rightarrow> 'db V1 \<Rightarrow> 'db V1 answer" where
  "stub_Dispatcher I SystemStub = System_Dispatcher (envd I)"
| "stub_Dispatcher I TokenBasicStub = TokenBasic_Dispatcher (envd I)"
| "stub_Dispatcher I TokenIssueStub = TokenIssue_Dispatcher (envd I)"
| "stub_Dispatcher I TokenTempletStub = TokenTemplet_Dispatcher (envd I)"
| "stub_Dispatcher I TokenBYBStub = TokenBYB_Dispatcher (envd I)"
| "stub_Dispatcher I Upgrade1to2Stub = Upgrade_Dispatcher I"
| "stub_Dispatcher I TBCStub = TBC_Dispatcher (envd I)"
| "stub_Dispatcher I TBTStub = TBT_Dispatcher (envd I)"
| "stub_Dispatcher I TBFStub = TBF_Dispatcher (envd I)"
| "stub_Dispatcher I TACStub = TAC_Dispatcher (envd I)"

type_synonym docker = "string \<Rightarrow> ContractStub option"

section \<open>Registration\<close>

text \<open>A second stub for an address is refused.\<close>

definition RegisterStub :: "string \<Rightarrow> ContractStub \<Rightarrow> docker \<Rightarrow> BCError \<times> docker" where
  "RegisterStub addr stub d = (case d addr of
     Some _ \<Rightarrow> (errC ErrCodeDockerDupRegist, d)
   | None \<Rightarrow> (okE, d(addr \<mapsto> stub)))"

text \<open>The stub for the name of a contract; \<open>token-trade\<close> has none.\<close>

definition stub_of_name :: "string \<Rightarrow> ContractStub option" where
  "stub_of_name name = (case map_of [(''system'', Some SystemStub), (''token-basic'', Some TokenBasicStub),
       (''token-issue'', Some TokenIssueStub), (''token-templet'', Some TokenTempletStub), (''token-trade'', None),
       (''token-byb'', Some TokenBYBStub), (''upgrade1to2'', Some Upgrade1to2Stub), (''token-basic-cancellation-1'', Some TBCStub),
       (''token-basic-team'', Some TBTStub), (''token-basic-foundation'', Some TBFStub), (''transferAgency'', Some TACStub)] name of
     Some stub \<Rightarrow> stub
   | None \<Rightarrow> if Contains name ''token-templet-'' then Some TokenTempletStub else None)"

text \<open>The loop of \<open>InitContractDocker\<close>: an error of the store is a panic, one of the registration is only logged. The
  flag says that the mining contract has been seen, which only \<open>service/deliver\<close> looks for.\<close>

fun register_all :: "'db EnvI \<Rightarrow> string list \<Rightarrow> docker \<times> bool \<Rightarrow> 'db V1 \<Rightarrow> string + docker \<times> bool" where
  "register_all I [] d s = Inr d"
| "register_all I (addr # addrs) (d, mn) s = andThen (must (sdb_GetContract (ei I) addr s)) (\<lambda>c. case c of
     None \<Rightarrow> register_all I addrs (d, mn) s
   | Some contract \<Rightarrow> if 2 \<le> sint (tc_ChainVersion contract) then register_all I addrs (d, mn) s
     else if tc_Name contract = ''mining'' then register_all I addrs (d, True) s
     else register_all I addrs (case stub_of_name (tc_Name contract) of
       None \<Rightarrow> d | Some stub \<Rightarrow> snd (RegisterStub addr stub d), mn) s)"

text \<open>\<open>InitContractDocker\<close>, one round: none as long as no contract is listed; the code waits and tries again.\<close>

definition InitContractDocker :: "'db EnvI \<Rightarrow> 'db V1 \<Rightarrow> string + (docker \<times> bool) option" where
  "InitContractDocker I s = andThen (sdb_GetContractAddrList (ei I) s) (\<lambda>contractAddrArry.
     if length contractAddrArry = 0 then Inr None
     else andThen (register_all I contractAddrArry (\<lambda>_. None, False) s) (\<lambda>d. Inr (Some d)))"

text \<open>A contract deployed at run time, by the code of the response.\<close>

definition stub_of_code :: "uint32 \<Rightarrow> ContractStub option" where
  "stub_of_code code = map_of [(1, TokenTempletStub), (3, TokenBYBStub), (37, TACStub), (48, Upgrade1to2Stub), (47, TBCStub),
     (52, TBTStub), (53, TBFStub)] code"

section \<open>Calls\<close>

text \<open>Nothing runs for a sender on the black list; a stub runs while its contract is in effect. The
  docker is a pointer, \<open>nil\<close> before \<open>InitContractDocker\<close>. A contract without a stub goes to the service outside the
  process (\<open>smcrunctl/invokemgr\<close>), the parameter \<open>Smc_Invoke\<close>, and the stub of the upgrade to the parameter
  \<open>Upgrade_Dispatcher\<close>: what is proved of all calls (\<open>failed_v1_call_pays_only\<close>, \<open>check1_isolated\<close>) is for the
  contracts of the other stubs.\<close>

definition docker_Invoke :: "'db EnvI \<Rightarrow> docker option \<Rightarrow> InvokeContext \<Rightarrow> bytes \<Rightarrow> int \<Rightarrow> 'db V1 \<Rightarrow> 'db V1 answer" where
  "docker_Invoke I d ctx callParams transID s =
    need (ts_CheckBlackAddress (ei I) (cx_TxState ctx) (ac_Addr (cx_Sender ctx)) s) s (\<lambda>black.
    if black then (Inr (no_stub_response, errC ErrCodeInterContractsSenderInBlackList), s)
    else need (deref d) s (\<lambda>stubs. case stubs (own_addr ctx) of
      Some stub \<Rightarrow> need (IsRightHeight (envd I) ctx s) s (\<lambda>err. case err of
          Some e \<Rightarrow> stop_low no_stub_response e s
        | None \<Rightarrow> stub_Dispatcher I stub ctx callParams s)
    | None \<Rightarrow> Smc_Invoke I ctx callParams transID s))"

section \<open>Transactions (\<open>tx/tx/tx.go\<close>)\<close>

record Transaction1 =
  tx_Nonce :: uint64
  tx_GasLimit :: uint64
  tx_Note :: string
  tx_To :: string
  tx_Data :: bytes

definition MAX_SIZE_NOTE :: nat where "MAX_SIZE_NOTE = 256"

definition as_Transaction1 :: "uint64 \<times> uint64 \<times> string \<times> string \<times> bytes \<Rightarrow> Transaction1" where
  "as_Transaction1 t = (case t of (nonce, gasLimit, note, to_addr, data) \<Rightarrow>
     \<lparr>tx_Nonce = nonce, tx_GasLimit = gasLimit, tx_Note = note, tx_To = to_addr, tx_Data = data\<rparr>)"

text \<open>The signed payload: the signature's key and the payload itself.\<close>

definition signed_payload :: "'db EnvI \<Rightarrow> string \<Rightarrow> string \<Rightarrow> string + bytes \<times> bytes" where
  "signed_payload I payload sig = (let txData = Base58_Decode I payload in
     case Rlp_Sig I (Base58_Decode I sig) of
       Inl e \<Rightarrow> Inl e
     | Inr (pubKey, sigValue) \<Rightarrow> if \<not> VerifyBytes I pubKey txData sigValue then Inl ''verify sig fail'' else Inr (pubKey, txData))"

text \<open>The address, the key and the transaction, or the error.\<close>

definition TxParse :: "'db EnvI \<Rightarrow> string \<Rightarrow> string \<Rightarrow> string + string \<times> bytes \<times> Transaction1" where
  "TxParse I cid txString = (case Split (CHR ''.'') txString of
     [mac, version, payload, signers, sig] \<Rightarrow>
       if mac \<noteq> cid @ ''<tx>'' \<or> version \<noteq> ''v1'' \<or> signers \<noteq> ''<1>'' then Inl ''tx data error''
       else case signed_payload I payload sig of
         Inl e \<Rightarrow> Inl e
       | Inr (pubKey, txData) \<Rightarrow> (case Rlp_Tx I txData of
           Inl e \<Rightarrow> Inl e
         | Inr t \<Rightarrow> Inr (Address_of (env (ei I)) pubKey cid, pubKey, as_Transaction1 t))
   | _ \<Rightarrow> Inl ''tx data error'')"

text \<open>\<open>QueryDataParse\<close> does not count the parts: the outer \<open>Inl\<close> is the index out of range.\<close>

definition QueryDataParse :: "'db EnvI \<Rightarrow> string \<Rightarrow> string \<Rightarrow> (string \<times> string) res" where
  "QueryDataParse I cid txString = (let strs = Split (CHR ''.'') txString in
     if strs ! 0 \<noteq> cid @ ''<qy>'' then Inr (Inl ''tx data error'')
     else if length strs < 2 then Inl index_panic
     else if strs ! 1 \<noteq> ''v1'' then Inr (Inl ''tx data error'')
     else if length strs < 4 then Inl index_panic
     else if strs ! 3 \<noteq> ''<1>'' then Inr (Inl ''tx data error'')
     else if length strs < 5 then Inl index_panic
     else case signed_payload I (strs ! 2) (strs ! 4) of
       Inl e \<Rightarrow> Inr (Inl e)
     | Inr (pubKey, txData) \<Rightarrow> (case Rlp_Query I txData of
         Inl e \<Rightarrow> Inr (Inl e)
       | Inr queryKey \<Rightarrow> Inr (Inr (Address_of (env (ei I)) pubKey cid, queryKey))))"

text \<open>\<open>exMessageParams\<close>, the same in \<open>service/deliver\<close> and \<open>service/check\<close>: the parameters of a transfer for version 2.\<close>

definition transferMethodID :: uint32 where "transferMethodID = 0x44d8ca60"

definition exMessageParams :: "'db EnvI \<Rightarrow> bytes \<Rightarrow> string + uint32 \<times> bytes list" where
  "exMessageParams I data = (let D = envd I in case Rlp_Method D data of
     Inl e \<Rightarrow> Inl e
   | Inr m \<Rightarrow> (case Rlp_Items D (mi_ParamData m) of
       Inl e \<Rightarrow> Inl e
     | Inr items \<Rightarrow>
       if mi_MethodID m = method_id D TbTransfer
       then if length items \<noteq> 2 then Inl (''invalid parameter'' @ [CHR 0x27] @ ''s count'') else
         Inr (transferMethodID, WrapInvokeParams I (item_string items 0) (big_of_bytes (items ! 1)))
       else Inl ''invalid tx''))"

section \<open>Blocks\<close>

text \<open>
  Blocks of version 1 (\<open>abciapp_v1.0/service/deliver\<close>). The state \<open>Chain\<close> has the connection of
  version 1, its store and the connection of version 2, which a transaction of version 1 reports to when the chain has been
  upgraded (\<open>connV2\<close>; the flag \<open>up\<close> says that it is not \<open>nil\<close>). Both versions work on the same helper; the object
  of the open transaction, which \<open>v_Transaction\<close> keeps, is written back before version 2 runs and read again afterwards.
  \<open>rewards\<close> is \<open>nil\<close> before the first block that makes it.
\<close>

section \<open>State\<close>

record DeliverConnection =
  dc_blockHash :: bytes
  dc_blockHeader :: Header
  dc_docker :: "docker option"
  dc_appState :: AppState
  dc_hashList :: "bytes list"
  dc_sponser :: string
  dc_rewarder :: string
  dc_udValidator :: bool
  dc_validators :: "string list"
  dc_fee :: uint64
  dc_rewards :: "(string, uint64) gomap option"
  dc_RespCode :: uint32
  dc_RespData :: string
  dc_NameVersion :: string
  dc_mineContract :: "types_Contract option"
  dc_mineStub :: bool

record 'db Chain =
  c_conn :: DeliverConnection
  c_v1 :: "'db V1"
  c_v2 :: AppDeliver

definition upd_conn :: "(DeliverConnection \<Rightarrow> DeliverConnection) \<Rightarrow> 'db Chain \<Rightarrow> 'db Chain" where
  "upd_conn f c = c\<lparr>c_conn := f (c_conn c)\<rparr>"

definition onV1 :: "('db V1 \<Rightarrow> ('db V1, 'a) act) \<Rightarrow> 'db Chain \<Rightarrow> ('db Chain, 'a) act" where
  "onV1 f c = (case f (c_v1 c) of (r, v) \<Rightarrow> (r, c\<lparr>c_v1 := v\<rparr>))"

text \<open>An operation of version 2 on the shared helper.\<close>

definition pull :: "'db Helper \<Rightarrow> Transaction \<Rightarrow> Transaction" where
  "pull h t = (case transactionMap h (transactionID t) of Some tr \<Rightarrow> tr_Transaction tr | None \<Rightarrow> t)"

definition onV2 :: "('db Node \<Rightarrow> ('db Node, 'a) act) \<Rightarrow> 'db Chain \<Rightarrow> ('db Chain, 'a) act" where
  "onV2 f c = (let v = c_v1 c;
      h = (case v_Transaction v of Some t \<Rightarrow> write_back t (v_helper v) | None \<Rightarrow> v_helper v);
      (r, n) = f \<lparr>app = c_v2 c, helper = h\<rparr>
    in (r, c\<lparr>c_v1 := v\<lparr>v_helper := helper n, v_Transaction := map_option (pull (helper n)) (v_Transaction v)\<rparr>,
             c_v2 := app n\<rparr>))"

definition tell_v2 :: "('db Node \<Rightarrow> 'db Node) \<Rightarrow> 'db Chain \<Rightarrow> 'db Chain" where
  "tell_v2 f c = c\<lparr>c_v2 := app (f \<lparr>app = c_v2 c, helper = v_helper (c_v1 c)\<rparr>)\<rparr>"

section \<open>Results of a transaction (\<open>delivertx.go\<close>)\<close>

text \<open>Before the upgrade every call adds a hash, with one even of nothing at all.\<close>

definition calcDeliverTxHash :: "'db EnvI \<Rightarrow> bool \<Rightarrow> string option \<Rightarrow> ResponseDeliverTx option \<Rightarrow> bytes option \<Rightarrow>
    'db Chain \<Rightarrow> 'db Chain" where
  "calcDeliverTxHash I up tx response stateTx c = (let K = env (ei I);
      deliverHash = Md5 K ((case tx of None \<Rightarrow> [] | Some t \<Rightarrow> bytes_of_string t)
        @ (case response of None \<Rightarrow> [] | Some r \<Rightarrow> bytes_of_string (Response_String K r)) @ list_of stateTx);
      c = (if \<not> up \<or> tx \<noteq> None \<or> response \<noteq> None \<or> stateTx \<noteq> None
        then upd_conn (\<lambda>d. d\<lparr>dc_hashList := dc_hashList d @ [deliverHash]\<rparr>) c else c)
    in if up then tell_v2 (AddDeliverHash deliverHash) c else c)"

definition error_response :: "BCError \<Rightarrow> ResponseDeliverTx" where
  "error_response e = no_response\<lparr>rd_Code := unat (ErrorCode e), rd_Log := BCError_Error e\<rparr>"

text \<open>\<open>parseTx\<close>: the sender, the key and the transaction, or the error that ends the delivery without a trace.\<close>

definition parseTx :: "'db EnvI \<Rightarrow> string \<Rightarrow> 'db V1 \<Rightarrow> string + (BCError + string \<times> bytes \<times> Transaction1)" where
  "parseTx I tx s = andThen (sdb_GetChainID (ei I) s) (\<lambda>cid. Inr (case TxParse I cid tx of
     Inl _ \<Rightarrow> Inl (errC ErrCodeDeliverTxTransData)
   | Inr (fromAddr, pubKey, t) \<Rightarrow> if MAX_SIZE_NOTE < length (tx_Note t) then Inl (errC ErrCodeCheckTxNoteExceedLimit)
       else Inr (fromAddr, pubKey, t)))"

text \<open>The context of a call; proposer and rewarder of the block are accounts without a state.\<close>

definition call_context :: "DeliverConnection \<Rightarrow> TxState \<Rightarrow> string \<Rightarrow> string \<Rightarrow> uint64 \<Rightarrow> string \<Rightarrow> InvokeContext" where
  "call_context d ts fromAddr owner gasLimit note = \<lparr>cx_Sender = \<lparr>ac_Addr = fromAddr, ac_TxState = ts\<rparr>,
     cx_Owner = \<lparr>ac_Addr = owner, ac_TxState = ts\<rparr>, cx_TxState = ts, cx_BlockHash = dc_blockHash d,
     cx_BlockHeader = dc_blockHeader d, cx_Proposer = Some (dc_sponser d), cx_Rewarder = Some (dc_rewarder d),
     cx_GasLimit = gasLimit, cx_Note = note\<rparr>"

text \<open>Before the call: nonce, tx, contract. The \<open>Inl\<close> inside is the error whose hash counts.\<close>

definition prepare_call :: "'db EnvI \<Rightarrow> string \<Rightarrow> Transaction1 \<Rightarrow> 'db V1 \<Rightarrow>
    ('db V1, BCError + TxState \<times> types_Contract) act" where
  "prepare_call I fromAddr t s = seqR (sdb_SetAccountNonce (ei I) fromAddr (tx_Nonce t) s) (\<lambda>r s. case r of
     Inl _ \<Rightarrow> (Inr (Inl (errC ErrCodeDeliverTxInvalidNonce)), s)
   | Inr _ \<Rightarrow> seqR (sdb_NewTxState (tx_To t) fromAddr s) (\<lambda>ts s. case sdb_GetContract (ei I) (tx_To t) s of
       Inl e \<Rightarrow> (Inl e, s)
     | Inr (Inl e) \<Rightarrow> (Inr (Inl (lowE e)), s)
     | Inr (Inr None) \<Rightarrow> (Inr (Inl (errC ErrCodeDeliverTxNoContract)), s)
     | Inr (Inr (Some contract)) \<Rightarrow> (Inr (Inr (ts, contract)), s)))"

definition call_failed :: "Transaction1 \<Rightarrow> StubResponse \<Rightarrow> BCError \<Rightarrow> ResponseDeliverTx" where
  "call_failed t resp e = (error_response e)\<lparr>rd_GasLimit := tx_GasLimit t, rd_GasUsed := rp_GasUsed resp,
     rd_Fee := rp_GasPrice resp * rp_GasUsed resp\<rparr>"

text \<open>What a successful call leaves in the connection, and the data of the answer.\<close>

definition note_response :: "StubResponse \<Rightarrow> DeliverConnection \<Rightarrow> DeliverConnection" where
  "note_response resp d0 = (let d = d0\<lparr>dc_NameVersion := rp_Log resp\<rparr> in
     if rp_Code resp = RESPONSE_CODE_UPDATE_VALIDATORS
     then d\<lparr>dc_udValidator := True, dc_validators := dc_validators d @ [rp_Data resp]\<rparr>
     else if rp_Code resp = 49
     then d\<lparr>dc_appState := (dc_appState d)\<lparr>ChainVersion := sint (ParseInt (rp_Data resp))\<rparr>\<rparr>
     else d\<lparr>dc_RespCode := rp_Code resp, dc_RespData := rp_Data resp\<rparr>)"

definition call_succeeded :: "Transaction1 \<Rightarrow> StubResponse \<Rightarrow> ResponseDeliverTx" where
  "call_succeeded t resp = \<lparr>rd_Code = unat ErrCodeOK, rd_Log = ''Deliver tx succeed'',
     rd_Data = (if rp_Code resp = RESPONSE_CODE_UPDATE_VALIDATORS \<or> rp_Code resp = 49 then [] else rp_Data resp),
     rd_GasLimit = tx_GasLimit t, rd_GasUsed = rp_GasUsed resp, rd_Fee = rp_GasPrice resp * rp_GasUsed resp,
     rd_Tags = map (\<lambda>(k, v). \<lparr>kv_Key = k, kv_Value = v\<rparr>) (rp_Tags resp)\<rparr>"

text \<open>The rewards of the block; an entry in a \<open>nil\<close> map is a panic.\<close>

definition add_rewards :: "(string, uint64) gomap \<Rightarrow> (string, uint64) gomap option \<Rightarrow> string + (string, uint64) gomap option" where
  "add_rewards values rewards = (case rewards of
     Some m \<Rightarrow> Inr (Some (foldl (\<lambda>m (k, v). add_reward k v m) m values))
   | None \<Rightarrow> if values = [] then Inr None else Inl ''assignment to entry in nil map'')"

text \<open>Fee and rewards: up to the height of the switch, the rewards of the earlier transactions are lost.\<close>

definition account_fees :: "'db EnvI \<Rightarrow> bool \<Rightarrow> uint64 \<Rightarrow> (string, uint64) gomap \<Rightarrow> 'db Chain \<Rightarrow> ('db Chain, unit) act" where
  "account_fees I up fee values c = (let d = c_conn c;
      old = (if V1_0_2_3233 (TagToForkInfo (env (ei I))) (BlockHeight (dc_appState d)) then Some [] else dc_rewards d)
    in case add_rewards values old of
      Inl e \<Rightarrow> (Inl e, upd_conn (\<lambda>d. d\<lparr>dc_fee := dc_fee d + fee, dc_rewards := old\<rparr>) c)
    | Inr rewards \<Rightarrow> let c = upd_conn (\<lambda>d. d\<lparr>dc_fee := dc_fee d + fee, dc_rewards := rewards\<rparr>) c
        in (Inr (), if up then tell_v2 (\<lambda>n. AddRewardValues values (AddFee fee n)) c else c))"

definition finish_call :: "'db EnvI \<Rightarrow> bool \<Rightarrow> string \<Rightarrow> Transaction1 \<Rightarrow> TxState \<Rightarrow> StubResponse \<Rightarrow> 'db Chain \<Rightarrow>
    ('db Chain, ResponseDeliverTx) act" where
  "finish_call I up tx t ts resp c = (let res = call_succeeded t resp in
    seqR (onV1 (ts_CommitTx ts) (upd_conn (note_response resp) c)) (\<lambda>(stateTx, _) c.
    seqR (account_fees I up (rd_Fee res) (rp_RewardValues resp)
      (calcDeliverTxHash I up (Some tx) (Some res) (nonnil stateTx) c)) (\<lambda>_ c.
    (Inr res, c))))"

definition runDeliverBCTx1 :: "'db EnvI \<Rightarrow> bool \<Rightarrow> string \<Rightarrow> string \<Rightarrow> Transaction1 \<Rightarrow> 'db Chain \<Rightarrow>
    ('db Chain, ResponseDeliverTx) act" where
  "runDeliverBCTx1 I up tx fromAddr t c =
    seqR (onV1 (prepare_call I fromAddr t) c) (\<lambda>r c. case r of
      Inl e \<Rightarrow> (Inr (error_response e), calcDeliverTxHash I up (Some tx) (Some (error_response e)) None c)
    | Inr (ts, contract) \<Rightarrow>
      seqR (onV1 (docker_Invoke I (dc_docker (c_conn c))
          (call_context (c_conn c) ts fromAddr (tc_Owner contract) (tx_GasLimit t) (tx_Note t)) (tx_Data t)
          (if up then a_transID (c_v2 c) else 0)) c) (\<lambda>(resp, e) c.
        if \<not> isOK e then seqR (onV1 (ts_RollbackTx ts) c) (\<lambda>_ c. let res = call_failed t resp e in
          (Inr res, calcDeliverTxHash I up (Some tx) (Some res) None c))
        else finish_call I up tx t ts resp c))"

text \<open>After the upgrade: a transfer of a token of the genesis organisation runs as a transaction of version 2.\<close>

definition plain_error :: "string \<Rightarrow> ResponseDeliverTx" where
  "plain_error msg = no_response\<lparr>rd_Code := unat ErrCodeLowLevelError, rd_Log := msg\<rparr>"

definition runs_on_v2 :: "string \<Rightarrow> types_Contract \<Rightarrow> bool" where
  "runs_on_v2 genesisOrg contract \<longleftrightarrow> tc_OrgID contract = genesisOrg \<and> tc_ChainVersion contract = 0
     \<and> (tc_Name contract = ''token-basic'' \<or> HasPrefix (tc_Name contract) ''token-templet-'')"

definition as_v2 :: "Transaction1 \<Rightarrow> string \<Rightarrow> uint32 \<times> bytes list \<Rightarrow> TxData" where
  "as_v2 t token call = \<lparr>td_Nonce = tx_Nonce t, td_GasLimit = tx_GasLimit t, td_Note = tx_Note t,
     td_Messages = [\<lparr>ms_Contract = token, ms_MethodID = fst call, ms_Items = snd call\<rparr>]\<rparr>"

definition runDeliverBCTxEx :: "'db EnvI \<Rightarrow> string \<Rightarrow> string \<Rightarrow> bytes \<Rightarrow> Transaction1 \<Rightarrow> 'db Chain \<Rightarrow>
    ('db Chain, ResponseDeliverTx) act" where
  "runDeliverBCTxEx I tx fromAddr pubKey t c = (let K = env (ei I); h = v_helper (c_v1 c) in
    case sdb_GetContract (ei I) (tx_To t) (c_v1 c) of
      Inl e \<Rightarrow> (Inl e, c)
    | Inr (Inl e) \<Rightarrow> (Inr (plain_error e), c)
    | Inr (Inr None) \<Rightarrow> (Inr (plain_error ''invalid smcAddress''), c)
    | Inr (Inr (Some contract)) \<Rightarrow>
      if tc_ChainVersion contract \<noteq> 0 then (Inr (plain_error ''v1 transaction cannot use other version contract''), c)
      else need (GetGenesisOrgID (ext K) (jsn K) 0 0 h) c (\<lambda>genesisOrg.
        if \<not> runs_on_v2 genesisOrg contract then runDeliverBCTx1 I True tx fromAddr t c
        else need (GetEffectContractByName (ext K) (jsn K) 0 0
            (Height (bb_Header (BeginBlock (dc_appState (c_conn c))))) (tc_Name contract) (tc_OrgID contract) h) c (\<lambda>eff. case eff of
          None \<Rightarrow> (Inr (plain_error ''cannot get effectContract''), c)
        | Some effectContract \<Rightarrow> (case exMessageParams I (tx_Data t) of
            Inl _ \<Rightarrow> runDeliverBCTx1 I True tx fromAddr t c
          | Inr call \<Rightarrow> seqR (onV2 (runDeliverTx K tx (as_v2 t (Contract_Token I effectContract) call) pubKey) c)
              (\<lambda>(res, _) c. (Inr res, c))))))"

definition deliverBCTx1 :: "'db EnvI \<Rightarrow> bool \<Rightarrow> string \<Rightarrow> 'db Chain \<Rightarrow> ('db Chain, ResponseDeliverTx) act" where
  "deliverBCTx1 I up tx c = need (parseTx I tx (c_v1 c)) c (\<lambda>r. case r of
     Inl e \<Rightarrow> (Inr (error_response e), c)
   | Inr (fromAddr, pubKey, t) \<Rightarrow>
       if up then runDeliverBCTxEx I tx fromAddr pubKey t c else runDeliverBCTx1 I False tx fromAddr t c)"

section \<open>Registration at run time (\<open>deliver.go\<close>)\<close>

text \<open>A refused registration is only logged; a contract that has no stub goes to the service.\<close>

definition RegisterIntoContractDocker :: "'db EnvI \<Rightarrow> string \<Rightarrow> uint32 \<Rightarrow> string \<Rightarrow> 'db Chain \<Rightarrow> ('db Chain, unit) act" where
  "RegisterIntoContractDocker I respData respCode nameVersion c = (case stub_of_code respCode of
     Some stub \<Rightarrow> need (deref (dc_docker (c_conn c))) c (\<lambda>stubs.
       (Inr (), upd_conn (\<lambda>d. d\<lparr>dc_docker := Some (snd (RegisterStub respData stub stubs))\<rparr>) c))
   | None \<Rightarrow> if respCode = 51 then (Inr (), upd_conn (\<lambda>d. d\<lparr>dc_mineStub := True\<rparr>) c)
       else need (Smc_Register I respData nameVersion) c (\<lambda>_. (Inr (), c)))"

section \<open>Begin of a block (\<open>begin_block.go\<close>)\<close>

definition note_block :: "RequestBeginBlock \<Rightarrow> DeliverConnection \<Rightarrow> DeliverConnection" where
  "note_block req d = (let header = bb_Header req in d\<lparr>dc_sponser := ProposerAddress header, dc_rewarder := RewardAddress header,
     dc_blockHash := bb_Hash req, dc_blockHeader := header\<rparr>)"

text \<open>The stored application state; without one a \<open>nil\<close> pointer is read.\<close>

definition stored_state :: "'db EnvI \<Rightarrow> 'db V1 \<Rightarrow> string + AppState" where
  "stored_state I s = andThen (must (sdb_GetWorldAppState (ei I) s)) deref"

definition open_transaction :: "'db V1 \<Rightarrow> ('db V1, unit) act" where
  "open_transaction s = (case NewCommittableTransactionID (v_helper s) of
     (Inl e, h) \<Rightarrow> (Inl e, s\<lparr>v_helper := h\<rparr>)
   | (Inr i, h) \<Rightarrow> (case transactionMap h i of
       None \<Rightarrow> (Inl nil_pointer, s\<lparr>v_helper := h\<rparr>)
     | Some tr \<Rightarrow> (Inr (), sdb_BeginBlock (tr_Transaction tr) (s\<lparr>v_helper := h\<rparr>))))"

definition start_block :: "'db EnvI \<Rightarrow> RequestBeginBlock \<Rightarrow> AppState \<Rightarrow> 'db Chain \<Rightarrow> ('db Chain, unit) act" where
  "start_block I req st c = (let st = st\<lparr>BlockHeight := Height (bb_Header req), BeginBlock := req\<rparr> in
    onV1 open_transaction (upd_conn (\<lambda>d. d\<lparr>dc_appState := st, dc_hashList := [], dc_fee := 0,
      dc_rewards := (if V1_0_2_3233 (TagToForkInfo (env (ei I))) (BlockHeight st) then dc_rewards d else Some [])\<rparr>) c))"

definition BCBeginBlock1 :: "'db EnvI \<Rightarrow> RequestBeginBlock \<Rightarrow> 'db Chain \<Rightarrow> ('db Chain, unit) act" where
  "BCBeginBlock1 I req c0 = (let c = upd_conn (note_block req) c0; header = bb_Header req; K = env (ei I) in
    need (stored_state I (c_v1 c)) c (\<lambda>st. let c1 = upd_conn (\<lambda>d. d\<lparr>dc_appState := st\<rparr>) c in
    if Height header \<noteq> BlockHeight st + 1 then (Inl ''failed to match block height'', c1)
    else if \<not> EqualFold (same_fold K) (LastAppHash header) (AppHash st) then (Inl ''failed to match app hash'', c1)
    else start_block I req st c1))"

definition BCBeginBlockToV2 :: "'db EnvI \<Rightarrow> RequestBeginBlock \<Rightarrow> 'db Chain \<Rightarrow> ('db Chain, unit) act" where
  "BCBeginBlockToV2 I req c0 = (let c = upd_conn (note_block req) c0 in
    need (stored_state I (c_v1 c)) c (\<lambda>st. start_block I req st c))"

section \<open>End of a block (\<open>deliver.go\<close>)\<close>

text \<open>The loop that looks for the mining contract: the last one counts; a listed contract that is not stored is a \<open>nil\<close> pointer.\<close>

fun find_mining :: "'db EnvI \<Rightarrow> string list \<Rightarrow> types_Contract option \<Rightarrow> 'db V1 \<Rightarrow> string + types_Contract option" where
  "find_mining I [] found s = Inr found"
| "find_mining I (addr # addrs) found s = andThen (must_contract (ei I) addr s) (\<lambda>c.
     find_mining I addrs (if tc_Name c = ''mining'' \<and> tc_ChainVersion c = 0 then Some c else found) s)"

text \<open>\<open>newInvokeParams\<close>: the contract and the context of a mining call.\<close>

definition newInvokeParams :: "'db EnvI \<Rightarrow> 'db Chain \<Rightarrow> ('db Chain, (types_Contract \<times> InvokeContext) option) act" where
  "newInvokeParams I c = (let d = c_conn c in
    need (if dc_mineStub d \<and> dc_mineContract d = None
      then andThen (sdb_GetContractAddrList (ei I) (c_v1 c)) (\<lambda>contracts. find_mining I contracts None (c_v1 c))
      else Inr (dc_mineContract d)) c (\<lambda>mc. let c = upd_conn (\<lambda>d. d\<lparr>dc_mineContract := mc\<rparr>) c in
    case mc of
      None \<Rightarrow> (Inr None, c)
    | Some contract \<Rightarrow> seqR (onV1 (sdb_NewTxState (tc_Address contract) []) c) (\<lambda>ts c.
        need (andThen (must (sdb_GetGenesisToken (ei I) (c_v1 c))) deref) c (\<lambda>token.
        (Inr (Some (contract, call_context (c_conn c) ts (dc_sponser (c_conn c)) (it_Owner token) 0 [])), c)))))"

text \<open>Mining: the hash of what the call wrote, if it wrote anything, is added to those of the transactions. A mining contract
  without a stub is a \<open>nil\<close> pointer.\<close>

definition mine_block :: "'db EnvI \<Rightarrow> types_Contract \<Rightarrow> InvokeContext \<Rightarrow> 'db Chain \<Rightarrow> ('db Chain, int64) act" where
  "mine_block I contract ctx c =
    (if tc_ChainVersion contract \<noteq> 0 \<or> IsMiningRightHeight contract ctx \<noteq> None then (Inr 0, c)
     else if \<not> dc_mineStub (c_conn c) then (Inl nil_pointer, c)
     else seqR (onV1 (MN_Dispatcher (envd I) ctx) c) (\<lambda>(resp, e) c.
       if \<not> isOK e then (Inr 0, c)
       else seqR (onV1 (ts_CommitTx (cx_TxState ctx)) c) (\<lambda>(stateTx, _) c.
         (Inr (ParseInt (rp_Data resp)), if stateTx = [] then c else calcDeliverTxHash I False None None (Some stateTx) c))))"

text \<open>The changed validators; an error is logged, and a missing one is a \<open>nil\<close> pointer.\<close>

fun validator_updates :: "'db EnvI \<Rightarrow> string list \<Rightarrow> 'db V1 \<Rightarrow> string + AbciValidator list" where
  "validator_updates I [] s = Inr []"
| "validator_updates I (e # later) s = andThen (or_nil (sdb_GetValidator (ei I) e s)) (\<lambda>v.
     andThen (validator_updates I later s) (\<lambda>l. andThen (deref v) (\<lambda>val.
     Inr (\<lparr>av_PubKey = tv_NodePubKey val, av_Power = tv_Power val, av_RewardAddr = tv_RewardAddr val, av_Name = tv_Name val\<rparr> # l))))"

definition EndBlock1 :: "'db EnvI \<Rightarrow> 'db Chain \<Rightarrow> ('db Chain, ResponseEndBlock) act" where
  "EndBlock1 I c = seqR (newInvokeParams I c) (\<lambda>item c.
    seqR (case item of None \<Rightarrow> (Inr 0, c) | Some (contract, ctx) \<Rightarrow> mine_block I contract ctx c) (\<lambda>reward c.
    let d = c_conn c;
        resp = \<lparr>re_RewardAmount = reward, re_ValidatorUpdates = [], re_SCGenesis = [], re_ChainVersion = ChainVersion (dc_appState d)\<rparr>
    in if dc_udValidator d
       then need (validator_updates I (dc_validators d) (c_v1 c)) c (\<lambda>l.
         (Inr (resp\<lparr>re_ValidatorUpdates := l\<rparr>), upd_conn (\<lambda>d. d\<lparr>dc_udValidator := False, dc_validators := []\<rparr>) c))
       else (Inr resp, c)))"

section \<open>Commit (\<open>commit.go\<close>)\<close>

definition forget_proposer :: "DeliverConnection \<Rightarrow> DeliverConnection" where
  "forget_proposer d = d\<lparr>dc_sponser := [], dc_rewarder := []\<rparr>"

text \<open>An empty block: the error of the store counts after the block has been committed.\<close>

definition commit_empty1 :: "'db EnvI \<Rightarrow> 'db Chain \<Rightarrow> ('db Chain, AppState) act" where
  "commit_empty1 I c = seqR (onV1 (sdb_SetWorldAppState (ei I) (dc_appState (c_conn c))) c) (\<lambda>err c.
    seqR (onV1 (sdb_CommitBlock (ei I)) c) (\<lambda>_ c. let c = upd_conn forget_proposer c; st = dc_appState (c_conn c) in
    case err of Inl e \<Rightarrow> (Inl e, c)
    | Inr _ \<Rightarrow> (Inr (no_state\<lparr>BlockHeight := BlockHeight st, AppHash := AppHash st\<rparr>), c)))"

text \<open>
  The rewards go into the state in the order in which a loop over the map yields them, \<open>order\<close>. The chain version of the
  header is that of the stored state.
\<close>

definition block_state :: "'db EnvI \<Rightarrow> (string list \<Rightarrow> string list) \<Rightarrow> DeliverConnection \<Rightarrow> AppState" where
  "block_state I order d = (let K = env (ei I); rewards = list_of (dc_rewards d) in
    (dc_appState d)\<lparr>AppHash := Deliver.Env.Sha3_256 K (AppHash (dc_appState d) @ Deliver.Env.Sha3_256 K (concat (dc_hashList d))),
      TxsHashList := dc_hashList d, Fee := dc_fee d,
      Rewards := map (\<lambda>k. (k, be64 (case map_of rewards k of Some v \<Rightarrow> v | None \<Rightarrow> 0))) (order (map fst rewards))\<rparr>)"

definition with_version :: "AppState \<Rightarrow> AppState \<Rightarrow> AppState" where
  "with_version st stored = (let req = BeginBlock st in st\<lparr>BeginBlock := req\<lparr>bb_Header := (bb_Header req)\<lparr>hd_ChainVersion :=
     hd_ChainVersion (bb_Header (BeginBlock stored))\<rparr>\<rparr>\<rparr>)"

definition commitTx1 :: "'db EnvI \<Rightarrow> (string list \<Rightarrow> string list) \<Rightarrow> 'db Chain \<Rightarrow> ('db Chain, AppState) act" where
  "commitTx1 I order c = (if dc_hashList (c_conn c) = [] then commit_empty1 I c
     else let c = upd_conn (\<lambda>d. d\<lparr>dc_appState := block_state I order d\<rparr>) c in
       need (stored_state I (c_v1 c)) c (\<lambda>stored.
       let st = with_version (dc_appState (c_conn c)) stored; c = upd_conn (\<lambda>d. d\<lparr>dc_appState := st\<rparr>) c in
       seqR (onV1 (sdb_SetWorldAppState (ei I) st) c) (\<lambda>err c. case err of
         Inl e \<Rightarrow> (Inl e, c)
       | Inr _ \<Rightarrow> seqR (onV1 (sdb_CommitBlock (ei I)) c) (\<lambda>_ c. (Inr st, upd_conn forget_proposer c)))))"

end
