(* ===== verification/Application.thy ===== *)
theory Application
  imports V1_Deliver
begin

text \<open>
  The application of the chain (\<open>abciapp/app/application.go\<close>): a transaction, the begin and the end of a block and the
  commit go to version 1 or to version 2. The state has the connections of both versions, the docker and the \<open>StateDB\<close>
  of the checks, and the version of the chain, which is read once and changes with a commit only.
\<close>

section \<open>Checking\<close>

text \<open>
  Checking transactions of version 1 (\<open>abciapp_v1.0/service/check\<close>). The connection has a \<open>StateDB\<close> of its own: a
  check opens a transaction that is rolled back when the check ends, however it ends.
\<close>

definition check_error :: "uint32 \<Rightarrow> ResponseCheckTx" where
  "check_error code = check_response (unat code) (BCError_Error (errC code)) []"

text \<open>The header of the block to come: one block and one second after the last.\<close>

definition next_header :: "AppState \<Rightarrow> Header" where
  "next_header st = (let h = bb_Header (BeginBlock st) in h\<lparr>Height := Height h + 1, hd_Time := hd_Time h + 1\<rparr>)"

text \<open>No proposer and no rewarder: the fee is taken, nobody is paid.\<close>

definition check_context :: "TxState \<Rightarrow> string \<Rightarrow> string \<Rightarrow> Header \<Rightarrow> Transaction1 \<Rightarrow> InvokeContext" where
  "check_context ts fromAddr owner header t = \<lparr>cx_Sender = \<lparr>ac_Addr = fromAddr, ac_TxState = ts\<rparr>,
     cx_Owner = \<lparr>ac_Addr = owner, ac_TxState = ts\<rparr>, cx_TxState = ts, cx_BlockHash = [], cx_BlockHeader = header,
     cx_Proposer = None, cx_Rewarder = None, cx_GasLimit = tx_GasLimit t, cx_Note = tx_Note t\<rparr>"

text \<open>The body, in the open transaction; the error of reading the application state is dropped, and the \<open>nil\<close> pointer read.\<close>

definition check_call :: "'db EnvI \<Rightarrow> docker \<Rightarrow> string \<Rightarrow> Transaction1 \<Rightarrow> 'db V1 \<Rightarrow> ('db V1, ResponseCheckTx) act" where
  "check_call I d fromAddr t s = seqR (sdb_NewTxState (tx_To t) fromAddr s) (\<lambda>ts s.
    case sdb_GetContract (ei I) (tx_To t) s of
      Inl e \<Rightarrow> (Inl e, s)
    | Inr (Inl e) \<Rightarrow> (Inr (check_response (unat ErrCodeLowLevelError) (BCError_Error (lowE e)) []), s)
    | Inr (Inr None) \<Rightarrow> (Inr (check_error ErrCodeCheckTxNoContract), s)
    | Inr (Inr (Some contract)) \<Rightarrow>
      need (andThen (or_nil (sdb_GetWorldAppState (ei I) s)) deref) s (\<lambda>st.
      seqR (docker_Invoke I (Some d) (check_context ts fromAddr (tc_Owner contract) (next_header st) t) (tx_Data t) 0 s) (\<lambda>(_, e) s.
        (Inr (if \<not> isOK e then check_response (unat (ErrorCode e)) (BCError_Error e) []
          else check_response (unat ErrCodeOK) ''Check tx succeed'' []), s))))"

text \<open>A transaction that is rolled back at the end.\<close>

definition open_rollback :: "'db V1 \<Rightarrow> ('db V1, unit) act" where
  "open_rollback s = (case NewRollbackTransactionID (v_helper s) of (i, h) \<Rightarrow> (case transactionMap h i of
     None \<Rightarrow> (Inl nil_pointer, s\<lparr>v_helper := h\<rparr>)
   | Some tr \<Rightarrow> (Inr (), sdb_BeginBlock (tr_Transaction tr) (s\<lparr>v_helper := h\<rparr>))))"

definition runCheckBCTx1 :: "'db EnvI \<Rightarrow> docker \<Rightarrow> string \<Rightarrow> Transaction1 \<Rightarrow> 'db V1 \<Rightarrow> ('db V1, ResponseCheckTx) act" where
  "runCheckBCTx1 I d fromAddr t s =
    (if MAX_SIZE_NOTE < length (tx_Note t) then (Inr (check_error ErrCodeCheckTxNoteExceedLimit), s)
     else case sdb_CheckAccountNonce (ei I) fromAddr (tx_Nonce t) s of
       Inl e \<Rightarrow> (Inl e, s)
     | Inr (Inl _) \<Rightarrow> (Inr (check_error ErrCodeCheckTxInvalidNonce), s)
     | Inr (Inr _) \<Rightarrow> seqR (open_rollback s) (\<lambda>_ s. deferred (check_call I d fromAddr t s) sdb_RollBlock))"

text \<open>After the upgrade: a transfer of a token of the genesis organisation is checked as a transaction of version 2.\<close>

definition low_response :: "string \<Rightarrow> ResponseCheckTx" where
  "low_response msg = check_response (unat ErrCodeLowLevelError) msg []"

definition onHelper :: "('db Helper \<Rightarrow> ('db Helper, 'a) act) \<Rightarrow> 'db V1 \<Rightarrow> ('db V1, 'a) act" where
  "onHelper f s = (case f (v_helper s) of (r, h) \<Rightarrow> (r, s\<lparr>v_helper := h\<rparr>))"

definition runCheckBCTxEx1 :: "'db EnvI \<Rightarrow> docker \<Rightarrow> string \<Rightarrow> string \<Rightarrow> string \<Rightarrow> bytes \<Rightarrow> Transaction1 \<Rightarrow> 'db V1 \<Rightarrow>
    ('db V1, ResponseCheckTx) act" where
  "runCheckBCTxEx1 I d chainID_v2 tx fromAddr pubKey t s = (let K = env (ei I); h = v_helper s in
    case sdb_GetContract (ei I) (tx_To t) s of
      Inl e \<Rightarrow> (Inl e, s)
    | Inr (Inl e) \<Rightarrow> (Inr (low_response e), s)
    | Inr (Inr None) \<Rightarrow> (Inr (low_response ''invalid smcAddress''), s)
    | Inr (Inr (Some contract)) \<Rightarrow>
      if tc_ChainVersion contract \<noteq> 0 then (Inr (low_response ''v1 transaction cannot use other version contract''), s)
      else need (GetGenesisOrgID (ext K) (jsn K) 0 0 h) s (\<lambda>genesisOrg.
        if \<not> runs_on_v2 genesisOrg contract then runCheckBCTx1 I d fromAddr t s
        else need (GetWorldAppState (ext K) (jsn K) 0 0 h) s (\<lambda>appState.
          need (GetEffectContractByName (ext K) (jsn K) 0 0 (Height (bb_Header (BeginBlock appState)) + 1)
            (tc_Name contract) (tc_OrgID contract) h) s (\<lambda>eff. case eff of
            None \<Rightarrow> (Inr (low_response ''cannot get effectContract''), s)
          | Some effectContract \<Rightarrow> (case exMessageParams I (tx_Data t) of
              Inl _ \<Rightarrow> runCheckBCTx1 I d fromAddr t s
            | Inr call \<Rightarrow> onHelper (runCheckBCTx K chainID_v2 tx (as_v2 t (Contract_Token I effectContract) call) pubKey) s)))))"

definition CheckBCTx1 :: "'db EnvI \<Rightarrow> docker \<Rightarrow> string option \<Rightarrow> string \<Rightarrow> 'db V1 \<Rightarrow> ('db V1, ResponseCheckTx) act" where
  "CheckBCTx1 I d connV2 tx s = need (sdb_GetChainID (ei I) s) s (\<lambda>cid. case TxParse I cid tx of
     Inl _ \<Rightarrow> (Inr (check_error ErrCodeCheckTxTransData), s)
   | Inr (fromAddr, pubKey, t) \<Rightarrow> (case connV2 of
       Some chainID_v2 \<Rightarrow> runCheckBCTxEx1 I d chainID_v2 tx fromAddr pubKey t s
     | None \<Rightarrow> runCheckBCTx1 I d fromAddr t s))"

definition CheckTx1 :: "'db EnvI \<Rightarrow> docker option \<Rightarrow> string option \<Rightarrow> string \<Rightarrow> 'db V1 \<Rightarrow> ('db V1, ResponseCheckTx) act" where
  "CheckTx1 I d connV2 tx s = (case d of
     None \<Rightarrow> (Inr (check_error ErrCodeDockerNotFindDocker), s)
   | Some d \<Rightarrow> CheckBCTx1 I d connV2 tx s)"

text \<open>A contract deployed at run time; a refused registration is only logged.\<close>

definition check_Register :: "string \<Rightarrow> uint32 \<Rightarrow> docker option \<Rightarrow> string + docker option" where
  "check_Register contractAddress code d = (case stub_of_code code of
     Some stub \<Rightarrow> andThen (deref d) (\<lambda>stubs. Inr (Some (snd (RegisterStub contractAddress stub stubs))))
   | None \<Rightarrow> Inr d)"

section \<open>Genesis\<close>

text \<open>
  The genesis of a chain of version 1 (\<open>abciapp_v1.0/service/deliver/initchain.go\<close>). The body runs in a transaction with a
  deferred \<open>RollBlock\<close>. The answer is its code, its log and the application state.
\<close>

type_synonym init_response = "nat \<times> string \<times> AppState option"

definition init_error :: "string \<Rightarrow> init_response" where
  "init_error e = (unat ErrCodeLowLevelError, e, None)"

text \<open>The error of storing a validator is dropped.\<close>

fun genesis_validators :: "'db EnvI \<Rightarrow> string \<Rightarrow> AbciValidator list \<Rightarrow> 'db V1 \<Rightarrow> ('db V1, unit) act" where
  "genesis_validators I cid [] s = (Inr (), s)"
| "genesis_validators I cid (v # vs) s = seqR (sdb_SetValidator (ei I)
     \<lparr>tv_Name = av_Name v, tv_NodePubKey = av_PubKey v, tv_NodeAddr = CalcAddressFromCdcPubKey I cid (av_PubKey v),
      tv_RewardAddr = av_RewardAddr v, tv_Power = av_Power v\<rparr> s) (\<lambda>_ s. genesis_validators I cid vs s)"

text \<open>The first method whose stored id is the decimal id of its prototype: the code takes the equal for the wrong one.\<close>

definition same_text :: "'db EnvI \<Rightarrow> string \<Rightarrow> string \<Rightarrow> bool" where
  "same_text I a b = EqualFold (same_fold (env (ei I))) (bytes_of_string a) (bytes_of_string b)"

fun wrong_method :: "'db EnvI \<Rightarrow> types_Method list \<Rightarrow> string option" where
  "wrong_method I [] = None"
| "wrong_method I (m # ms) =
    (if same_text I (me_MethodId m) (dec_of_nat (unat (ConvertPrototype2ID (ei I) (me_Prototype m)))) then Some (me_Prototype m)
     else wrong_method I ms)"

text \<open>The loop over the contracts ends at the first whose owner is not the owner of the token; the rest is left out in silence.\<close>

fun genesis_contracts :: "'db EnvI \<Rightarrow> string \<Rightarrow> types_Contract option list \<Rightarrow> 'db V1 \<Rightarrow> ('db V1, string + unit) act" where
  "genesis_contracts I owner [] s = (Inr (Inr ()), s)"
| "genesis_contracts I owner (c # cs) s = need (deref c) s (\<lambda>contract.
     if \<not> same_text I (tc_Owner contract) owner then (Inr (Inr ()), s)
     else case wrong_method I (tc_Methods contract) of
       Some p \<Rightarrow> (Inr (Inl (''Contract methodID is wrong,method:'' @ p)), s)
     | None \<Rightarrow> tryS (sdb_SetGenesisContract (ei I) contract s) (\<lambda>_ s. genesis_contracts I owner cs s))"

text \<open>The end: the hash of what was written, the application state, the commit. The error of storing the state is dropped.\<close>

definition genesis_commit :: "'db EnvI \<Rightarrow> 'db V1 \<Rightarrow> ('db V1, init_response) act" where
  "genesis_commit I s = need (sdb_GetBlockBuffer s) s (\<lambda>genData.
     let st = no_state\<lparr>BlockHeight := 0, AppHash := Deliver.Env.Sha3_256 (env (ei I)) genData\<rparr> in
     seqR (sdb_SetWorldAppState (ei I) st s) (\<lambda>_ s. seqR (sdb_CommitBlock (ei I) s) (\<lambda>_ s.
     (Inr (unat ErrCodeOK, [], Some st), s))))"

definition genesis_body :: "'db EnvI \<Rightarrow> string \<Rightarrow> AbciValidator list \<Rightarrow> initAppState \<Rightarrow> 'db V1 \<Rightarrow> ('db V1, init_response) act" where
  "genesis_body I cid vals g s = (let K = ei I in
    seqR (sdb_SetChainID cid s) (\<lambda>_ s.
    seqR (sdb_SetStrategys K [\<lparr>st_Strategy = gn_RewardStrategy g, st_EffectHeight = 1\<rparr>] s) (\<lambda>r s. case r of
      Inl e \<Rightarrow> (Inr (init_error e), s)
    | Inr _ \<Rightarrow> seqR (genesis_validators I cid vals s) (\<lambda>_ s.
    need (deref (gn_Token g)) s (\<lambda>token.
    seqR (sdb_SetGenesisToken K token s) (\<lambda>r s. case r of
      Inl e \<Rightarrow> (Inr (init_error e), s)
    | Inr _ \<Rightarrow> seqR (genesis_contracts I (it_Owner token) (gn_Contracts g) s) (\<lambda>r s. case r of
        Inl e \<Rightarrow> (Inr (init_error e), s)
      | Inr _ \<Rightarrow> genesis_commit I s)))))))"

definition initChain1 :: "'db EnvI \<Rightarrow> string \<Rightarrow> AbciValidator list \<Rightarrow> bytes \<Rightarrow> 'db Chain \<Rightarrow> ('db Chain, init_response) act" where
  "initChain1 I cid vals stateJson c = (case unmarshal (k_Genesis I) stateJson of
     Inl e \<Rightarrow> (Inr (init_error e), c)
   | Inr g \<Rightarrow> seqR (onV1 open_transaction c) (\<lambda>_ c. deferred (onV1 (genesis_body I cid vals g) c) (onV1 sdb_RollBlock)))"

section \<open>The application\<close>

record 'db Application =
  ap_chain :: "'db Chain"
  ap_v1 :: bool
  ap_chainVersion :: "int option"
  ap_updateChainVersion :: int
  ap_checkDocker :: "docker option"
  ap_checkTransaction :: "Transaction option"
  ap_checkTx :: "int \<Rightarrow> Tx option"
  ap_checkChainID :: string

definition onC :: "('db Chain \<Rightarrow> ('db Chain, 'a) act) \<Rightarrow> 'db Application \<Rightarrow> ('db Application, 'a) act" where
  "onC f a = (case f (ap_chain a) of (r, c) \<Rightarrow> (r, a\<lparr>ap_chain := c\<rparr>))"

text \<open>An operation on the \<open>StateDB\<close> of the checks.\<close>

definition onCheck :: "('db V1 \<Rightarrow> ('db V1, 'a) act) \<Rightarrow> 'db Application \<Rightarrow> ('db Application, 'a) act" where
  "onCheck f a = (let v = c_v1 (ap_chain a) in
    case f \<lparr>v_helper = v_helper v, v_Transaction = ap_checkTransaction a, v_Tx = ap_checkTx a\<rparr> of (r, w) \<Rightarrow>
      (r, a\<lparr>ap_chain := (ap_chain a)\<lparr>c_v1 := v\<lparr>v_helper := v_helper w\<rparr>\<rparr>,
        ap_checkTransaction := v_Transaction w, ap_checkTx := v_Tx w\<rparr>))"

text \<open>\<open>ChainVersion\<close>: the stored version, kept once it has been read.\<close>

definition app_ChainVersion :: "'db EnvI \<Rightarrow> 'db Application \<Rightarrow> ('db Application, int) act" where
  "app_ChainVersion I a = (let K = env (ei I) in case ap_chainVersion a of
     Some v \<Rightarrow> (Inr v, a)
   | None \<Rightarrow> need (GetWorldAppState (ext K) (jsn K) 0 0 (v_helper (c_v1 (ap_chain a)))) a (\<lambda>st.
       (Inr (ChainVersion st), a\<lparr>ap_chainVersion := Some (ChainVersion st)\<rparr>)))"

definition checkGenesisChainVersion :: "'db EnvI \<Rightarrow> 'db Application \<Rightarrow> string + int" where
  "checkGenesisChainVersion I a = (let K = env (ei I) in
     GetChainGenesisVersion (ext K) (jsn K) (v_helper (c_v1 (ap_chain a))))"

definition invalid_version :: string where
  "invalid_version = ''invalid chain version in state''"

text \<open>\<open>DeliverTx\<close>; a registration at run time goes to the docker of the checks as well.\<close>

definition v1_DeliverTx :: "'db EnvI \<Rightarrow> bool \<Rightarrow> string \<Rightarrow> 'db Application \<Rightarrow> ('db Application, ResponseDeliverTx) act" where
  "v1_DeliverTx I up tx a = seqR (onC (deliverBCTx1 I up tx) a) (\<lambda>res a. let d = c_conn (ap_chain a) in
    seqR (if dc_RespData d = [] then (Inr (), a)
      else need (check_Register (dc_RespData d) (dc_RespCode d) (ap_checkDocker a)) a (\<lambda>cd.
        onC (RegisterIntoContractDocker I (dc_RespData d) (dc_RespCode d) (dc_NameVersion d)) (a\<lparr>ap_checkDocker := cd\<rparr>))) (\<lambda>_ a.
    (Inr res, a\<lparr>ap_chain := upd_conn (\<lambda>d. d\<lparr>dc_RespCode := 0, dc_RespData := []\<rparr>) (ap_chain a)\<rparr>)))"

text \<open>The response and the hash of the transaction.\<close>

definition hashed :: "'db EnvI \<Rightarrow> string \<Rightarrow> ('s, 'a) act \<Rightarrow> ('s, 'a \<times> bytes) act" where
  "hashed I tx m = seqR m (\<lambda>res a. (Inr (res, CalcCodeHash (env (ei I)) tx), a))"

definition app_DeliverTx :: "'db EnvI \<Rightarrow> string \<Rightarrow> 'db Application \<Rightarrow> ('db Application, ResponseDeliverTx \<times> bytes) act" where
  "app_DeliverTx I tx a = (let K = env (ei I); splitTx = Split (CHR ''.'') tx;
      bad = no_response\<lparr>rd_Code := c_ErrLogicError K, rd_Log := ''invalid transaction''\<rparr> in
    hashed I tx
      (if length splitTx \<noteq> 5 then (Inr bad, a)
       else if splitTx ! 1 = ''v1'' \<and> ap_v1 a
       then seqR (app_ChainVersion I a) (\<lambda>v a. v1_DeliverTx I (v = 2) tx a)
       else if splitTx ! 1 = ''v2'' \<or> splitTx ! 1 = ''v3''
       then seqR (app_ChainVersion I a) (\<lambda>v a. if v = 2
         then seqR (onC (onV2 (deliverBCTx K tx)) a) (\<lambda>(res, _) a. (Inr res, a)) else (Inr bad, a))
       else (Inr bad, a)))"

definition app_CheckTx :: "'db EnvI \<Rightarrow> string \<Rightarrow> 'db Application \<Rightarrow> ('db Application, ResponseCheckTx \<times> bytes) act" where
  "app_CheckTx I tx a = (let K = env (ei I); splitTx = Split (CHR ''.'') tx;
      bad = check_response (c_ErrLogicError K) ''invalid transaction 1'' [] in
    hashed I tx
      (if length splitTx \<noteq> 5 then (Inr (check_response (c_ErrLogicError K) ''invalid transaction 2'' []), a)
       else if splitTx ! 1 = ''v1'' \<and> ap_v1 a
       then seqR (app_ChainVersion I a) (\<lambda>v a.
         onCheck (CheckTx1 I (ap_checkDocker a) (if v = 2 then Some (ap_checkChainID a) else None) tx) a)
       else if splitTx ! 1 = ''v2'' \<or> splitTx ! 1 = ''v3''
       then seqR (app_ChainVersion I a) (\<lambda>v a. if v = 2
         then onCheck (onHelper (CheckBCTx K (ap_checkChainID a) tx)) a else (Inr bad, a))
       else (Inr bad, a)))"

text \<open>A chain of version 0 has a connection of version 1; without one the \<open>nil\<close> pointer is read.\<close>

definition need_v1 :: "'db Application \<Rightarrow> ('db Application, 'a) act \<Rightarrow> ('db Application, 'a) act" where
  "need_v1 a m = (if ap_v1 a then m else (Inl nil_pointer, a))"

text \<open>The code and the log of the answer.\<close>

definition app_BeginBlock :: "'db EnvI \<Rightarrow> RequestBeginBlock \<Rightarrow> 'db Application \<Rightarrow> ('db Application, nat \<times> string) act" where
  "app_BeginBlock I req a = seqR (app_ChainVersion I a) (\<lambda>v a.
    if v = 0 then need_v1 a (seqR (onC (BCBeginBlock1 I req) a) (\<lambda>_ a. (Inr (unat ErrCodeOK, []), a)))
    else if v = 2 then need (checkGenesisChainVersion I a) a (\<lambda>g.
      seqR (if g = 0 then need_v1 a (onC (BCBeginBlockToV2 I req) a) else (Inr (), a)) (\<lambda>_ a.
      seqR (onC (onV2 (BCBeginBlock (env (ei I)) req)) a) (\<lambda>(code, msg, _) a. (Inr (code, msg), a))))
    else (Inl invalid_version, a))"

text \<open>A version that differs from the one at hand is kept for the commit.\<close>

definition app_EndBlock :: "'db EnvI \<Rightarrow> 'db Application \<Rightarrow> ('db Application, ResponseEndBlock) act" where
  "app_EndBlock I a = seqR (app_ChainVersion I a) (\<lambda>v a.
    seqR (if v = 0 then need_v1 a (onC (EndBlock1 I) a)
      else if v = 2 then seqR (onC (onV2 (EndBlock (env (ei I)))) a) (\<lambda>(res, _) a. (Inr res, a))
      else (Inl invalid_version, a)) (\<lambda>res a.
    (Inr res, if ap_chainVersion a \<noteq> None \<and> ap_chainVersion a \<noteq> Some (re_ChainVersion res)
      then a\<lparr>ap_updateChainVersion := re_ChainVersion res\<rparr> else a)))"

text \<open>The version noted at the end of the block holds from the next block on.\<close>

definition app_Commit :: "'db EnvI \<Rightarrow> (string list \<Rightarrow> string list) \<Rightarrow> 'db Application \<Rightarrow> ('db Application, AppState) act" where
  "app_Commit I order a = seqR (app_ChainVersion I a) (\<lambda>v a.
    seqR (if v = 0 then need_v1 a (onC (commitTx1 I order) a)
      else if v = 2 then onC (onV2 (deliver_commit (env (ei I)))) a
      else (Inl invalid_version, a)) (\<lambda>st a.
    (Inr st, if ap_updateChainVersion a \<noteq> 0
      then a\<lparr>ap_chainVersion := Some (ap_updateChainVersion a), ap_updateChainVersion := 0\<rparr> else a)))"

text \<open>
  \<open>InitChain\<close> of version 1: once the genesis is stored the stubs are registered, first those of the checks. Until a
  contract is listed the code waits, which is the answer \<open>None\<close> of \<open>InitContractDocker\<close>, and here a panic.
\<close>

definition app1_InitChain :: "'db EnvI \<Rightarrow> string \<Rightarrow> AbciValidator list \<Rightarrow> bytes \<Rightarrow> 'db Application \<Rightarrow>
    ('db Application, nat \<times> string \<times> AppState option) act" where
  "app1_InitChain I cid vals stateJson a = seqR (onC (initChain1 I cid vals stateJson) a) (\<lambda>(code, msg, st) a.
     if code \<noteq> unat ErrCodeOK then (Inr (code, msg, st), a)
     else need (InitContractDocker I (c_v1 (ap_chain a))) a (\<lambda>r. case r of
       None \<Rightarrow> (Inl ''no contract is listed'', a)
     | Some (stubs, mn) \<Rightarrow> (Inr (code, msg, st), a\<lparr>ap_checkDocker := Some stubs, ap_chain := upd_conn (\<lambda>d. d\<lparr>dc_docker := Some stubs,
         dc_mineStub := mn \<or> dc_mineStub d\<rparr>) (ap_chain a)\<rparr>)))"

definition app_Rollback :: "'db EnvI \<Rightarrow> 'db Application \<Rightarrow> ('db Application, unit) act" where
  "app_Rollback I a = onC (onV2 (deliver_rollback (env (ei I)))) a"

end
