(* ===== verification/V1_Frame.thy ===== *)
theory V1_Frame
  imports V1_Deliver V1_Byb_Calls
begin

text \<open>
  The methods of the version 1 contracts write to the buffer of their tx and nowhere else: the transaction of the block
  and the store stay as they are, but for the cached name of the chain in the helper. The rules here extend
  the collection \<open>kept\<close> of the prelude: one for every combinator of version 1 and one for every method.
\<close>

section \<open>The frame\<close>

definition frame :: "'db V1 \<Rightarrow> 'db V1 \<Rightarrow> bool" where
  "frame s0 s \<longleftrightarrow> v_Transaction s = v_Transaction s0 \<and> (v_helper s)\<lparr>chainID := []\<rparr> = (v_helper s0)\<lparr>chainID := []\<rparr>
     \<and> dom (v_Tx s0) \<subseteq> dom (v_Tx s)"

abbreviation frameS :: "'db V1 \<Rightarrow> 'db Smc \<Rightarrow> bool" where
  "frameS s0 \<equiv> \<lambda>s. frame s0 (sm_v1 s)"

lemma frame_self [simp]: "frame s s"
  by (simp add: frame_def)

lemma frame_trans: "frame s0 s1 \<Longrightarrow> frame s1 s \<Longrightarrow> frame s0 s"
  by (auto simp: frame_def)

subsection \<open>Combinators\<close>

lemma kept_reads [kept]:
  "P s \<Longrightarrow> (\<And>a. kept P (g a)) \<Longrightarrow> kept P (tryN q s g)"
  "P s \<Longrightarrow> (\<And>a. kept P (h a)) \<Longrightarrow> kept P (getOr u b s h)"
  "P s \<Longrightarrow> (\<And>a. kept P (h' a)) \<Longrightarrow> kept P (readL u' s h')"
  "P s \<Longrightarrow> (\<And>a. kept P (k a)) \<Longrightarrow> kept P (readP z u' s k)"
  by (auto simp: kept_def tryN_def getOr_def readL_def readP_def split: sum.split option.split)

lemma kept_calls [kept]:
  "kept P m \<Longrightarrow> (\<And>a s. P s \<Longrightarrow> kept P (f a s)) \<Longrightarrow> kept P (tryS m f)"
  "kept P w \<Longrightarrow> kept P (no_err w)"
  "kept P w \<Longrightarrow> kept P (low w)"
  "kept P w \<Longrightarrow> (\<And>s. P s \<Longrightarrow> kept P (g s)) \<Longrightarrow> kept P (orLow w g)"
  "kept P w \<Longrightarrow> (\<And>s. P s \<Longrightarrow> kept P (h s)) \<Longrightarrow> kept P (writeP z w h)"
  "kept P e \<Longrightarrow> (\<And>s. P s \<Longrightarrow> kept P (g s)) \<Longrightarrow> kept P (checkE e g)"
  "kept P q \<Longrightarrow> (\<And>a s. P s \<Longrightarrow> kept P (k a s)) \<Longrightarrow> kept P (checkP q k)"
  unfolding tryS_def no_err_def low_def orLow_def writeP_def checkE_def checkP_def by (intro kept; simp)+

lemma kept_owner [kept]:
  "P s \<Longrightarrow> kept P m \<Longrightarrow> kept P (only_owner ctx s m)"
  "P s \<Longrightarrow> kept P m \<Longrightarrow> kept P (sys_owner ctx s m)"
  "Q u \<Longrightarrow> kept Q n \<Longrightarrow> kept Q (byb_owner byb u n)"
  by (simp_all add: only_owner_def sys_owner_def byb_owner_def kept_def)

lemma kept_onV [kept]: "kept (frame s0) (f (sm_v1 s)) \<Longrightarrow> kept (frameS s0) (onV f s)"
  by (cases "f (sm_v1 s)") (simp add: kept_def onV_def)

lemma kept_on_smc [kept]: "kept (frameS s0) (f (InitEventHandler v)) \<Longrightarrow> kept (frame s0) (on_smc f v)"
  by (cases "f (InitEventHandler v)") (simp add: kept_def on_smc_def)

lemma sm_Init [simp]: "sm_v1 (InitEventHandler v) = v"
  by (simp add: InitEventHandler_def)

lemma kept_answers [kept]:
  "P s \<Longrightarrow> kept P (stop resp e code s)"
  "P s \<Longrightarrow> kept P (stop_low resp d s)"
  "P s \<Longrightarrow> kept P (bad_call resp e s)"
  "P s \<Longrightarrow> kept P (bad_param resp e s)"
  "P s \<Longrightarrow> kept P (no_chromo resp s)"
  "kept P m \<Longrightarrow> kept P (answer resp m)"
  "P s \<Longrightarrow> kept P w \<Longrightarrow> kept P (with_address D resp code addr v s w)"
  "P s \<Longrightarrow> (\<And>items. kept P (f items)) \<Longrightarrow> kept P (items_of D resp i s f)"
  "P s \<Longrightarrow> (\<And>items. kept P (f items)) \<Longrightarrow> kept P (items_or_code D resp e i s f)"
  "P s \<Longrightarrow> (\<And>n. kept P (g n)) \<Longrightarrow> kept P (price_item resp e code items s g)"
  "P s \<Longrightarrow> (\<And>n. kept P (h n)) \<Longrightarrow> kept P (amount_item resp e items s h)"
  "kept Q n \<Longrightarrow> kept Q (with_receipts D resp n)"
  unfolding stop_def stop_low_def bad_call_def bad_param_def no_chromo_def answer_def with_address_def items_of_def
    items_or_code_def price_item_def amount_item_def with_receipts_def
  by (intro kept; simp)+

lemma kept_ts_Set [kept]: "frame s0 s \<Longrightarrow> kept (frame s0) (ts_Set ts k v s)"
  by (auto simp: kept_def ts_Set_def frame_def split: option.split)

lemma kept_helper_ChainID [kept]: "frame s0 s \<Longrightarrow> kept (frame s0) (helper_ChainID K s)"
  by (auto simp: kept_def helper_ChainID_def frame_def GetChainID_def Let_def need_def split: option.split sum.split prod.split)

lemma more_receipts_sm [simp]:
  "sm_v1 (emit_body E api name body s) = sm_v1 s" "sm_v1 (PackReceiptOfTransfer E api t x y n s) = sm_v1 s"
  "sm_v1 (PackReceiptOfFee E api t x w s) = sm_v1 s"
  "sm_v1 (bybReceipt_onInitToken E api tok x s) = sm_v1 s" "sm_v1 (bybReceipt_onSetOwner E api x s) = sm_v1 s"
  "sm_v1 (ReceiptOfCancel E api n s) = sm_v1 s"
  by (simp_all add: emit_body_def PackReceiptOfTransfer_def PackReceiptOfFee_def bybReceipt_onInitToken_def
      bybReceipt_onSetOwner_def ReceiptOfCancel_def PackReceiptOfNewToken_def PackReceiptOfSetOwner_def)

lemma fee_receipts_sm [simp]: "sm_v1 (receiptsOfTransactionFee E api t x f r s) = sm_v1 s"
proof -
  have "sm_v1 (fold (\<lambda>k. PackReceiptOfTransfer E api t x k (g k)) l s) = sm_v1 s" for g l s
    by (induction l arbitrary: s) simp_all
  then show ?thesis by (simp add: receiptsOfTransactionFee_def)
qed


section \<open>The tx\<close>

lemma kept_ts_addChildKey [kept]: "frame s0 s \<Longrightarrow> kept (frame s0) (ts_addChildKey K ts key childKey s)"
  unfolding ts_addChildKey_def by (intro kept) simp_all

lemma kept_ts_deleteChildKey [kept]: "frame s0 s \<Longrightarrow> kept (frame s0) (ts_deleteChildKey K ts key childKey s)"
  unfolding ts_deleteChildKey_def by (intro kept) simp_all

lemma kept_ts_SetBalance [kept]: "frame s0 s \<Longrightarrow> kept (frame s0) (ts_SetBalance K ts exAddress tokenAddress value s)"
  unfolding ts_SetBalance_def by (intro kept) simp_all

lemma kept_ts_SetToken [kept]: "frame s0 s \<Longrightarrow> kept (frame s0) (ts_SetToken K ts issueToken s)"
  unfolding ts_SetToken_def by (intro kept) simp_all

lemma kept_ts_SetTokenContract [kept]: "frame s0 s \<Longrightarrow> kept (frame s0) (ts_SetTokenContract K ts contract s)"
  unfolding ts_SetTokenContract_def by (intro kept) simp_all

lemma kept_ts_SetStrategys [kept]: "frame s0 s \<Longrightarrow> kept (frame s0) (ts_SetStrategys K ts strategys s)"
  unfolding ts_SetStrategys_def by (intro kept) simp_all

lemma kept_ts_DeleteContractAddr [kept]: "frame s0 s \<Longrightarrow> kept (frame s0) (ts_DeleteContractAddr K ts exAddress contractAddr s)"
  unfolding ts_DeleteContractAddr_def by (intro kept) simp_all

lemma kept_ts_SetBaseGasPrice [kept]: "frame s0 s \<Longrightarrow> kept (frame s0) (ts_SetBaseGasPrice K ts gasPrice s)"
  unfolding ts_SetBaseGasPrice_def by (intro kept) simp_all

lemma kept_ts_SetValidator [kept]: "frame s0 s \<Longrightarrow> kept (frame s0) (ts_SetValidator K ts validator s)"
  unfolding ts_SetValidator_def by (intro kept) simp_all

section \<open>The context\<close>

lemma kept_acct_SetBalance [kept]: "frame s0 s \<Longrightarrow> kept (frame s0) (acct_SetBalance K account tokenAddr value s)"
  unfolding acct_SetBalance_def by (intro kept) simp_all

lemma kept_ctx_SetGasBasePrice [kept]: "frame s0 s \<Longrightarrow> kept (frame s0) (ctx_SetGasBasePrice K ctx value s)"
  unfolding ctx_SetGasBasePrice_def by (intro kept) simp_all

lemma kept_ctx_SetGasPrice [kept]: "frame s0 s \<Longrightarrow> kept (frame s0) (ctx_SetGasPrice K ctx value s)"
  unfolding ctx_SetGasPrice_def by (intro kept) simp_all

lemma kept_ctx_NewToken [kept]: "frame s0 s \<Longrightarrow> kept (frame s0) (ctx_NewToken K ctx addr name symbol supply addSupplyEnabled burnEnabled gasprice s)"
  unfolding ctx_NewToken_def by (intro kept) simp_all

lemma kept_ctx_SetTokenSupply [kept]: "frame s0 s \<Longrightarrow> kept (frame s0) (ctx_SetTokenSupply K ctx value isAddSupply isBurn s)"
  unfolding ctx_SetTokenSupply_def by (intro kept) simp_all

lemma kept_ctx_SetTokenNewOwner [kept]: "frame s0 s \<Longrightarrow> kept (frame s0) (ctx_SetTokenNewOwner K ctx owner s)"
  unfolding ctx_SetTokenNewOwner_def by (intro kept) simp_all

lemma kept_ctx_UpdateRewardStrategy [kept]: "frame s0 s \<Longrightarrow> kept (frame s0) (ctx_UpdateRewardStrategy K ctx strategy effectHeight s)"
  unfolding ctx_UpdateRewardStrategy_def by (intro kept) simp_all

section \<open>Validators and strategies\<close>

lemma kept_node_addr [kept]: "frame s0 s \<Longrightarrow> kept (frame s0) (node_addr K pubKey s)"
  unfolding node_addr_def by (intro kept) simp_all

lemma kept_with_validator [kept]:
  "frame s0 s \<Longrightarrow> (\<And>v s. frame s0 s \<Longrightarrow> kept (frame s0) (f v s)) \<Longrightarrow> kept (frame s0) (with_validator K pubKey s f)"
  unfolding with_validator_def by (intro kept; simp)

lemma kept_checkValidatorsPower [kept]: "frame s0 s \<Longrightarrow> kept (frame s0) (checkValidatorsPower K pubKey pw s)"
  unfolding checkValidatorsPower_def by (intro kept) simp_all

lemma kept_ctx_AddValidator [kept]: "frame s0 s \<Longrightarrow> kept (frame s0) (ctx_AddValidator K ctx name pubKey rewardAddr pw s)"
  unfolding ctx_AddValidator_def by (intro kept) simp_all

lemma kept_ctx_GetValidatorUpdate [kept]: "frame s0 s \<Longrightarrow> kept (frame s0) (ctx_GetValidatorUpdate K pubKey s)"
  unfolding ctx_GetValidatorUpdate_def by (intro kept) simp_all

lemma kept_update_validator [kept]: "kept (frame s0) m \<Longrightarrow> kept (frame s0) (update_validator D resp pubKey m)"
  unfolding update_validator_def by (intro kept; simp)

lemma kept_ctx_HasValidator [kept]: "frame s0 s \<Longrightarrow> kept (frame s0) (ctx_HasValidator K pubKey s)"
  unfolding ctx_HasValidator_def by (intro kept) simp_all

lemma kept_name_loop [kept]: "frame s0 s \<Longrightarrow> kept (frame s0) (name_loop K name l s)"
  by (induction l arbitrary: s) (simp_all only: name_loop.simps, (intro kept; simp)+)

lemma kept_ctx_CheckValidatorName [kept]: "frame s0 s \<Longrightarrow> kept (frame s0) (ctx_CheckValidatorName K ctx name s)"
  unfolding ctx_CheckValidatorName_def by (intro kept) simp_all

lemma kept_ctx_SetValidatorPower [kept]: "frame s0 s \<Longrightarrow> kept (frame s0) (ctx_SetValidatorPower K ctx pubKey pw s)"
  unfolding ctx_SetValidatorPower_def by (intro kept) simp_all

lemma kept_ctx_SetValidatorRewardAddr [kept]: "frame s0 s \<Longrightarrow> kept (frame s0) (ctx_SetValidatorRewardAddr K ctx pubKey rewardAddr s)"
  unfolding ctx_SetValidatorRewardAddr_def by (intro kept) simp_all

section \<open>Tokens\<close>

lemma kept_debit [kept]: "frame s0 s \<Longrightarrow> kept (frame s0) (debit K ctx account old value s)"
  unfolding debit_def by (intro kept) simp_all

lemma kept_credit_to [kept]: "frame s0 s \<Longrightarrow> kept (frame s0) (credit_to K ctx account value s)"
  unfolding credit_to_def by (intro kept) simp_all

lemma kept_Templet_Transfer [kept]: "frame s0 s \<Longrightarrow> kept (frame s0) (Templet_Transfer K ctx to_addr value s)"
  unfolding Templet_Transfer_def by (intro kept) simp_all

lemma kept_Basic_Transfer [kept]: "frame s0 s \<Longrightarrow> kept (frame s0) (Basic_Transfer K ctx to_addr value s)"
  unfolding Basic_Transfer_def by (intro kept) simp_all

lemma kept_batch_loop [kept]: "frame s0 s \<Longrightarrow> kept (frame s0) (batch_loop K ctx l value s)"
  by (induction l arbitrary: s) (simp_all only: batch_loop.simps, (intro kept; simp)+)

lemma kept_Templet_BatchTransfer [kept]: "frame s0 s \<Longrightarrow> kept (frame s0) (Templet_BatchTransfer K ctx toList value s)"
  unfolding Templet_BatchTransfer_def by (intro kept) simp_all

lemma kept_Token_SetSupply [kept]: "frame s0 s \<Longrightarrow> kept (frame s0) (Token_SetSupply K ctx value s)"
  unfolding Token_SetSupply_def by (intro kept) simp_all

lemma kept_Token_Burn [kept]: "frame s0 s \<Longrightarrow> kept (frame s0) (Token_Burn K ctx value s)"
  unfolding Token_Burn_def by (intro kept) simp_all

lemma kept_Templet_AddSupply [kept]: "frame s0 s \<Longrightarrow> kept (frame s0) (Templet_AddSupply K ctx value s)"
  unfolding Templet_AddSupply_def by (intro kept) simp_all

lemma kept_Templet_Burn [kept]: "frame s0 s \<Longrightarrow> kept (frame s0) (Templet_Burn K ctx value s)"
  unfolding Templet_Burn_def by (intro kept) simp_all

lemma kept_Templet_SetOwner [kept]: "frame s0 s \<Longrightarrow> kept (frame s0) (Templet_SetOwner K ctx newOwner s)"
  unfolding Templet_SetOwner_def by (intro kept) simp_all

lemma kept_Templet_SetGasPrice [kept]: "frame s0 s \<Longrightarrow> kept (frame s0) (Templet_SetGasPrice K ctx value s)"
  unfolding Templet_SetGasPrice_def by (intro kept) simp_all

lemma kept_Basic_SetGasPrice [kept]: "frame s0 s \<Longrightarrow> kept (frame s0) (Basic_SetGasPrice K ctx value s)"
  unfolding Basic_SetGasPrice_def by (intro kept) simp_all

lemma kept_Basic_SetGasBasePrice [kept]: "frame s0 s \<Longrightarrow> kept (frame s0) (Basic_SetGasBasePrice K ctx value s)"
  unfolding Basic_SetGasBasePrice_def by (intro kept) simp_all

lemma kept_Issue_NewToken [kept]: "frame s0 s \<Longrightarrow> kept (frame s0) (Issue_NewToken K ctx name symbol supply addSupplyEnabled burnEnabled gasprice s)"
  unfolding Issue_NewToken_def by (intro kept) simp_all

section \<open>Transfers of any token and new contracts\<close>

lemma kept_smc_transferToken [kept]: "frame s0 (sm_v1 s) \<Longrightarrow> kept (frameS s0) (smc_transferToken E api tokenAddr from_addr to_addr value s)"
  unfolding smc_transferToken_def by (intro kept) simp_all

lemma kept_smc_TransferByAddr [kept]: "frame s0 (sm_v1 s) \<Longrightarrow> kept (frameS s0) (smc_TransferByAddr E api tokenAddr from_addr to_addr value s)"
  unfolding smc_TransferByAddr_def by (intro kept) simp_all

lemma kept_ForbidSpecificContract [kept]: "frame s0 s \<Longrightarrow> kept (frame s0) (ForbidSpecificContract E api addr loseHeight s)"
  unfolding ForbidSpecificContract_def by (intro kept) simp_all

lemma kept_forbid_loop [kept]: "frame s0 s \<Longrightarrow> kept (frame s0) (forbid_loop E api version eh l b s)"
  by (induction l arbitrary: s b) (simp_all only: forbid_loop.simps, (intro kept; simp)+)

lemma kept_CheckAndForbidOldVersionContract [kept]: "frame s0 s \<Longrightarrow> kept (frame s0) (CheckAndForbidOldVersionContract E api name version effectHeight s)"
  unfolding CheckAndForbidOldVersionContract_def by (intro kept) simp_all

lemma kept_SetNewContract [kept]: "frame s0 s \<Longrightarrow> kept (frame s0) (SetNewContract E api contractAddr name version protoTypes gasList codeHash effectHeight s)"
  unfolding SetNewContract_def by (intro kept) simp_all

section \<open>The BYB token\<close>

lemma kept_setBlackHole [kept]: "frame s0 s \<Longrightarrow> kept (frame s0) (setBlackHole E byb blackHoles s)"
  unfolding setBlackHole_def by (intro kept) simp_all

lemma kept_setBybBalance [kept]: "frame s0 s \<Longrightarrow> kept (frame s0) (setBybBalance E byb addr balances s)"
  unfolding setBybBalance_def by (intro kept) simp_all

lemma kept_setBybStockHolders [kept]: "frame s0 s \<Longrightarrow> kept (frame s0) (setBybStockHolders E byb stockHolders s)"
  unfolding setBybStockHolders_def by (intro kept) simp_all

lemma kept_setCurChromo [kept]: "frame s0 s \<Longrightarrow> kept (frame s0) (setCurChromo byb chromo s)"
  unfolding setCurChromo_def by (intro kept) simp_all

lemma kept_calcNewChromo [kept]: "frame s0 s \<Longrightarrow> kept (frame s0) (calcNewChromo E byb s)"
  unfolding calcNewChromo_def by (intro kept) simp_all

lemma kept_makeByb [kept]: "frame s0 s \<Longrightarrow> kept (frame s0) (makeByb E byb value s)"
  unfolding makeByb_def by (intro kept) simp_all

lemma kept_calcAndSetSenderBalance [kept]: "frame s0 s \<Longrightarrow> kept (frame s0) (calcAndSetSenderBalance E byb value senderRole s)"
  unfolding calcAndSetSenderBalance_def by (intro kept) simp_all

lemma kept_setPayeeBalance [kept]: "frame s0 s \<Longrightarrow> kept (frame s0) (setPayeeBalance E byb payeeAddr addedByb s)"
  unfolding setPayeeBalance_def by (intro kept) simp_all

lemma kept_checkBybToken [kept]: "frame s0 s \<Longrightarrow> kept (frame s0) (checkBybToken E byb s)"
  unfolding checkBybToken_def by (intro kept) simp_all

lemma kept_initBybToken [kept]: "frame s0 (sm_v1 s) \<Longrightarrow> kept (frameS s0) (initBybToken E byb totalSupply addSupplyEnabled burnEnabled s)"
  unfolding initBybToken_def by (intro kept) simp_all

lemma kept_byb_Init [kept]: "frame s0 (sm_v1 s) \<Longrightarrow> kept (frameS s0) (byb_Init E byb totalSupply addSupplyEnabled burnEnabled s)"
  unfolding byb_Init_def by (intro kept) simp_all

lemma kept_updateBlackHole [kept]: "frame s0 s \<Longrightarrow> kept (frame s0) (updateBlackHole E byb blackHole s)"
  unfolding updateBlackHole_def by (intro kept) simp_all

lemma kept_NewBlackHole [kept]: "frame s0 (sm_v1 s) \<Longrightarrow> kept (frameS s0) (NewBlackHole E byb blackHole s)"
  unfolding NewBlackHole_def by (intro kept) simp_all

lemma kept_makeStockHolderAndBybBalance [kept]: "frame s0 s \<Longrightarrow> kept (frame s0) (makeStockHolderAndBybBalance E byb stockHolder value s)"
  unfolding makeStockHolderAndBybBalance_def by (intro kept) simp_all

lemma kept_setOwnerAndStockHolderBalance [kept]: "frame s0 (sm_v1 s) \<Longrightarrow> kept (frameS s0) (setOwnerAndStockHolderBalance E byb stockHolder bybBalances value sendBalanceBYB s)"
  unfolding setOwnerAndStockHolderBalance_def by (intro kept) simp_all

lemma kept_NewStockHolder [kept]: "frame s0 (sm_v1 s) \<Longrightarrow> kept (frameS s0) (NewStockHolder E byb stockHolder value s)"
  unfolding NewStockHolder_def by (intro kept) simp_all

lemma kept_delStockHolder [kept]: "frame s0 s \<Longrightarrow> kept (frame s0) (delStockHolder E byb stockHolder s)"
  unfolding delStockHolder_def by (intro kept) simp_all

lemma kept_DelStockHolder [kept]: "frame s0 (sm_v1 s) \<Longrightarrow> kept (frameS s0) (DelStockHolder E byb stockHolder s)"
  unfolding DelStockHolder_def by (intro kept) simp_all

lemma kept_byb_Transfer [kept]: "frame s0 (sm_v1 s) \<Longrightarrow> kept (frameS s0) (byb_Transfer E byb to_addr value s)"
  unfolding byb_Transfer_def by (intro kept) simp_all

lemma kept_checkAndSetSenderChromoBybBalance [kept]: "frame s0 s \<Longrightarrow> kept (frame s0) (checkAndSetSenderChromoBybBalance E byb chromo value s)"
  unfolding checkAndSetSenderChromoBybBalance_def by (intro kept) simp_all

lemma kept_TransferByChromo [kept]: "frame s0 (sm_v1 s) \<Longrightarrow> kept (frameS s0) (TransferByChromo E byb chromo to_addr value s)"
  unfolding TransferByChromo_def by (intro kept) simp_all

lemma kept_changeChromoOwnership [kept]: "frame s0 (sm_v1 s) \<Longrightarrow> kept (frameS s0) (changeChromoOwnership E byb from_addr to_addr chromo s)"
  unfolding changeChromoOwnership_def by (intro kept) simp_all

lemma kept_ChangeChromoOwnership [kept]: "frame s0 (sm_v1 s) \<Longrightarrow> kept (frameS s0) (ChangeChromoOwnership E byb chromo toStockHolder s)"
  unfolding ChangeChromoOwnership_def by (intro kept) simp_all

lemma kept_byb_setOwner [kept]: "frame s0 s \<Longrightarrow> kept (frame s0) (byb_setOwner E byb newOwnerAddr s)"
  unfolding byb_setOwner_def by (intro kept) simp_all

lemma kept_byb_SetOwner [kept]: "frame s0 (sm_v1 s) \<Longrightarrow> kept (frameS s0) (byb_SetOwner E byb newOwnerAddr s)"
  unfolding byb_SetOwner_def by (intro kept) simp_all

lemma kept_byb_addSupply [kept]: "frame s0 (sm_v1 s) \<Longrightarrow> kept (frameS s0) (byb_addSupply E byb value s)"
  unfolding byb_addSupply_def by (intro kept) simp_all

lemma kept_byb_AddSupply [kept]: "frame s0 (sm_v1 s) \<Longrightarrow> kept (frameS s0) (byb_AddSupply E byb value s)"
  unfolding byb_AddSupply_def by (intro kept) simp_all

lemma kept_byb_burn [kept]: "frame s0 (sm_v1 s) \<Longrightarrow> kept (frameS s0) (byb_burn E byb value s)"
  unfolding byb_burn_def by (intro kept) simp_all

lemma kept_byb_Burn [kept]: "frame s0 (sm_v1 s) \<Longrightarrow> kept (frameS s0) (byb_Burn E byb value s)"
  unfolding byb_Burn_def by (intro kept) simp_all

lemma kept_byb_setGasPrice [kept]: "frame s0 s \<Longrightarrow> kept (frame s0) (byb_setGasPrice E byb value s)"
  unfolding byb_setGasPrice_def by (intro kept) simp_all

lemma kept_byb_SetGasPrice [kept]: "frame s0 (sm_v1 s) \<Longrightarrow> kept (frameS s0) (byb_SetGasPrice E byb value s)"
  unfolding byb_SetGasPrice_def by (intro kept) simp_all

section \<open>Funds\<close>

lemma kept_save [kept]: "frame s0 s \<Longrightarrow> kept (frame s0) (save c ts key x s)"
  unfolding save_def by (intro kept) simp_all

lemma kept_save_strict [kept]: "frame s0 s \<Longrightarrow> kept (frame s0) (save_strict c ts key x s)"
  unfolding save_strict_def by (intro kept) simp_all

lemma kept_setGlobalDB [kept]: "frame s0 s \<Longrightarrow> kept (frame s0) (setGlobalDB C api key g s)"
  unfolding setGlobalDB_def by (intro kept) simp_all

lemma kept_pay_each [kept]: "frame s0 (sm_v1 s) \<Longrightarrow> kept (frameS s0) (pay_each C api token am l e s)"
  by (induction l arbitrary: s e) (simp_all only: pay_each.simps, (intro kept; simp)+)

lemma kept_settle_tranche [kept]: "frame s0 (sm_v1 s) \<Longrightarrow> kept (frameS s0) (settle_tranche C api block key addressList g i s)"
  unfolding settle_tranche_def by (intro kept) simp_all

lemma kept_withdraw [kept]: "frame s0 (sm_v1 s) \<Longrightarrow> kept (frameS s0) (withdraw C api block key addressList totalBCB s)"
  unfolding withdraw_def by (intro kept) simp_all

lemma kept_tbt_Withdraw [kept]: "frame s0 (sm_v1 s) \<Longrightarrow> kept (frameS s0) (tbt_Withdraw x1 x2 x3 s)"
  unfolding tbt_Withdraw_def by (intro kept) simp_all

lemma kept_tbf_Withdraw [kept]: "frame s0 (sm_v1 s) \<Longrightarrow> kept (frameS s0) (tbf_Withdraw x1 x2 x3 s)"
  unfolding tbf_Withdraw_def by (intro kept) simp_all

lemma kept_tbc_Cancel [kept]: "frame s0 (sm_v1 s) \<Longrightarrow> kept (frameS s0) (tbc_Cancel C api block s)"
  unfolding tbc_Cancel_def by (intro kept) simp_all

lemma kept_setMiningStartHeight [kept]: "frame s0 s \<Longrightarrow> kept (frame s0) (setMiningStartHeight C api x s)"
  unfolding setMiningStartHeight_def by (intro kept) simp_all

lemma kept_setMiningRewardAmount [kept]: "frame s0 s \<Longrightarrow> kept (frame s0) (setMiningRewardAmount C api x s)"
  unfolding setMiningRewardAmount_def by (intro kept) simp_all

lemma kept_calcRewardAmount [kept]: "frame s0 s \<Longrightarrow> kept (frame s0) (calcRewardAmount C api cHeight sHeight s)"
  unfolding calcRewardAmount_def by (intro kept) simp_all

lemma kept_ReceiptOfMining [kept]: "frame s0 (sm_v1 s) \<Longrightarrow> kept (frameS s0) (ReceiptOfMining E api proposer height rewardAddr rewardValue s)"
  unfolding ReceiptOfMining_def by (intro kept) simp_all

lemma kept_Mine1 [kept]: "frame s0 (sm_v1 s) \<Longrightarrow> kept (frameS s0) (Mine1 C api block s)"
  unfolding Mine1_def by (intro kept) simp_all

lemma kept_SetManagerInfoDB [kept]: "frame s0 s \<Longrightarrow> kept (frame s0) (SetManagerInfoDB C api addressList s)"
  unfolding SetManagerInfoDB_def by (intro kept) simp_all

lemma kept_getManagerInfoDB [kept]: "frame s0 s \<Longrightarrow> kept (frame s0) (getManagerInfoDB C api s)"
  unfolding getManagerInfoDB_def by (intro kept) simp_all

lemma kept_setTokenFeeInfoDB [kept]: "frame s0 s \<Longrightarrow> kept (frame s0) (setTokenFeeInfoDB C api info s)"
  unfolding setTokenFeeInfoDB_def by (intro kept) simp_all

lemma kept_tac_SetManager [kept]: "frame s0 (sm_v1 s) \<Longrightarrow> kept (frameS s0) (tac_SetManager C api addressList s)"
  unfolding tac_SetManager_def by (intro kept) simp_all

lemma kept_save_fees [kept]: "frame s0 s \<Longrightarrow> kept (frame s0) (save_fees C api l s)"
  by (induction l arbitrary: s) (simp_all only: save_fees.simps, (intro kept; simp)+)

lemma kept_tac_SetTokenFee [kept]: "frame s0 (sm_v1 s) \<Longrightarrow> kept (frameS s0) (tac_SetTokenFee C api strTokenFee s)"
  unfolding tac_SetTokenFee_def by (intro kept) simp_all

lemma kept_tac_Transfer [kept]: "frame s0 (sm_v1 s) \<Longrightarrow> kept (frameS s0) (tac_Transfer C api tokenName to_addr am s)"
  unfolding tac_Transfer_def by (intro kept) simp_all

lemma kept_tac_WithdrawFunds [kept]: "frame s0 (sm_v1 s) \<Longrightarrow> kept (frameS s0) (tac_WithdrawFunds C api tokenName withdrawAmount s)"
  unfolding tac_WithdrawFunds_def by (intro kept) simp_all

section \<open>The system contract\<close>

lemma kept_sys_NewValidator [kept]: "frame s0 s \<Longrightarrow> kept (frame s0) (sys_NewValidator D ctx name pubKey rewardAddr pw s)"
  unfolding sys_NewValidator_def by (intro kept) simp_all

lemma kept_sys_SetPower [kept]: "frame s0 s \<Longrightarrow> kept (frame s0) (sys_SetPower D ctx pubKey pw s)"
  unfolding sys_SetPower_def by (intro kept) simp_all

lemma kept_sys_SetRewardAddr [kept]: "frame s0 s \<Longrightarrow> kept (frame s0) (sys_SetRewardAddr D ctx pubKey rewardAddr s)"
  unfolding sys_SetRewardAddr_def by (intro kept) simp_all

lemma kept_sys_SetRewardStrategy [kept]: "frame s0 s \<Longrightarrow> kept (frame s0) (sys_SetRewardStrategy D ctx strategy effectHeight s)"
  unfolding sys_SetRewardStrategy_def by (intro kept) simp_all

lemma kept_note_version [kept]: "frame s0 s \<Longrightarrow> kept (frame s0) (note_version D ctx name addr effectHeight orgID cv s)"
  unfolding note_version_def by (intro kept) simp_all

lemma kept_DeployInternalContract [kept]: "frame s0 s \<Longrightarrow> kept (frame s0) (DeployInternalContract D ctx name version protoTypes gasList codeHash effectHeight s)"
  unfolding DeployInternalContract_def by (intro kept) simp_all

lemma kept_ForbidInternalContract [kept]: "frame s0 s \<Longrightarrow> kept (frame s0) (ForbidInternalContract D ctx contractAddr effectHeight s)"
  unfolding ForbidInternalContract_def by (intro kept) simp_all

section \<open>The stubs\<close>

lemma kept_TokenBasic_method [kept]: "frame s0 s \<Longrightarrow> kept (frame s0) (TokenBasic_method D ctx m resp e s)"
  unfolding TokenBasic_method_def by (intro kept) simp_all

lemma kept_TokenTemplet_method [kept]: "frame s0 s \<Longrightarrow> kept (frame s0) (TokenTemplet_method D ctx m resp e s)"
  unfolding TokenTemplet_method_def by (intro kept) simp_all

lemma kept_TokenIssue_method [kept]: "frame s0 s \<Longrightarrow> kept (frame s0) (TokenIssue_method D ctx m resp e s)"
  unfolding TokenIssue_method_def by (intro kept) simp_all

lemma kept_System_deploy [kept]: "frame s0 s \<Longrightarrow> kept (frame s0) (System_deploy D ctx items resp e s)"
  unfolding System_deploy_def by (intro kept) simp_all

lemma kept_System_method [kept]: "frame s0 s \<Longrightarrow> kept (frame s0) (System_method D ctx m items resp e s)"
  unfolding System_method_def by (intro kept) simp_all

lemma kept_fee_receipts [kept]: "frame s0 (sm_v1 s) \<Longrightarrow> kept (frameS s0) (fee_receipts D api payer resp s)"
  unfolding fee_receipts_def by (intro kept) simp_all

lemma kept_byb_price_call [kept]: "frame s0 (sm_v1 s) \<Longrightarrow> kept (frameS s0) (byb_price_call D api resp e items s)"
  unfolding byb_price_call_def by (intro kept) simp_all

lemma kept_byb_calls [kept]:
  "frameS s0 s \<Longrightarrow> (\<And>x. kept (frameS s0) (f x s)) \<Longrightarrow> kept (frameS s0) (byb_address_call D resp e items s f)"
  "frameS s0 s \<Longrightarrow> (\<And>x. kept (frameS s0) (g x s)) \<Longrightarrow> kept (frameS s0) (byb_number_call D resp e items s g)"
  unfolding byb_address_call_def byb_number_call_def by (intro kept; simp)+

lemma kept_if_Some:
  "(\<And>a. x = Some a \<Longrightarrow> kept P a) \<Longrightarrow> (\<And>a. y = Some a \<Longrightarrow> kept P a) \<Longrightarrow> (if c then x else y) = Some a \<Longrightarrow> kept P a"
  by (simp split: if_splits)

lemma kept_byb_transfer_calls:
  assumes "byb_transfer_calls D api m resp e items s = Some a" "frameS s0 s"
  shows "kept (frameS s0) a"
proof -
  show ?thesis
    by (rule kept_if_Some [OF _ kept_if_Some assms(1) [unfolded byb_transfer_calls_def Let_def]];
        (simp only: option.inject option.distinct; elim subst; intro kept)?) (use assms(2) in simp_all)
qed

lemma kept_byb_holder_calls [kept]: "frame s0 (sm_v1 s) \<Longrightarrow> kept (frameS s0) (byb_holder_calls D api m resp e items s)"
  unfolding byb_holder_calls_def by (intro kept) simp_all

lemma kept_TokenBYB_method [kept]: "frameS s0 s \<Longrightarrow> kept (frameS s0) (TokenBYB_method D api m resp e items s)"
proof (cases "byb_transfer_calls D api m resp e items s")
  case None
  assume s: "frameS s0 s"
  show ?thesis unfolding TokenBYB_method_def None option.case by (intro kept) (use s in simp_all)
next
  case (Some a)
  assume "frameS s0 s"
  then show ?thesis using kept_byb_transfer_calls [OF Some] Some by (simp add: TokenBYB_method_def)
qed

lemma kept_TAC_method [kept]: "frame s0 (sm_v1 s) \<Longrightarrow> kept (frameS s0) (TAC_method D api m resp e items s)"
  unfolding TAC_method_def by (intro kept) simp_all

section \<open>Calls that pay\<close>

text \<open>
  A call has kept the frame, or it has paid once and kept the frame from there on; if it returns, so did the payment,
  which is one of \<open>CheckAndPayForGas\<close> and commits its own tx to the block.
\<close>

definition paid :: "'db Env1 \<Rightarrow> InvokeContext \<Rightarrow> bool \<Rightarrow> 'db V1 \<Rightarrow> 'db V1 \<Rightarrow> bool" where
  "paid K ctx returns s s' \<longleftrightarrow> frame s s' \<or> (\<exists>payer gas g s1.
     CheckAndPayForGas K ctx payer (cx_Proposer ctx) (cx_Rewarder ctx) gas (cx_GasLimit ctx) s = (g, s1) \<and> frame s1 s'
     \<and> (returns \<longrightarrow> \<not> isl g))"

definition pays :: "'db Env1 \<Rightarrow> InvokeContext \<Rightarrow> 'db V1 \<Rightarrow> ('db V1, 'a) act \<Rightarrow> bool" where
  "pays K ctx s m \<longleftrightarrow> paid K ctx (\<not> isl (fst m)) s (snd m)"

lemma paid_self [simp]: "paid K ctx b s s"
  by (simp add: paid_def)

lemma pays_pair: "pays K ctx s (r, s)"
  by (simp add: pays_def)

lemma pays_need: "(\<And>a. pays K ctx s (f a)) \<Longrightarrow> pays K ctx s (need r s f)"
  by (cases r) (simp_all add: pays_def)

lemma pays_branches:
  "pays K ctx s a \<Longrightarrow> pays K ctx s b \<Longrightarrow> pays K ctx s (if c then a else b)"
  "(\<And>x. pays K ctx s (f x)) \<Longrightarrow> pays K ctx s (Let y f)"
  "pays K ctx s a \<Longrightarrow> (\<And>x. pays K ctx s (g x)) \<Longrightarrow> pays K ctx s (case u of None \<Rightarrow> a | Some x \<Rightarrow> g x)"
  by (simp_all add: Let_def split: option.split)

lemma pays_stop_low: "pays K ctx s (stop_low resp d s)"
  by (simp add: stop_low_def pays_pair)

lemma pays_open_call: "(\<And>m. pays K ctx s (f m)) \<Longrightarrow> pays K ctx s (open_call D params s f)"
  by (simp add: open_call_def pays_stop_low split: sum.split)

lemma pays_find_gas_of: "(\<And>gas. pays K ctx s (f gas)) \<Longrightarrow> pays K ctx s (find_gas_of D ctx m s f)"
  by (auto simp: find_gas_of_def pays_stop_low pays_pair split: sum.split)

lemma pays_pay_for:
  assumes "\<And>resp e s1. kept (frame s1) (f resp e s1)"
  shows "pays (ed D) ctx s (pay_for D ctx payer gas s f)"
proof -
  obtain r s1 where c: "CheckAndPayForGas (ed D) ctx payer (cx_Proposer ctx) (cx_Rewarder ctx) gas (cx_GasLimit ctx) s = (r, s1)"
    by (cases "CheckAndPayForGas (ed D) ctx payer (cx_Proposer ctx) (cx_Rewarder ctx) gas (cx_GasLimit ctx) s")
  have p: "paid (ed D) ctx b s s'" if "frame s1 s'" "b \<longrightarrow> \<not> isl r" for b s' using c that unfolding paid_def by blast
  show ?thesis
  proof (cases r)
    case (Inr g)
    have "frame s1 (snd (f resp e s1))" for resp e using assms by (simp add: kept_def)
    then show ?thesis using p Inr by (simp add: pay_for_def pays_def c Let_def)
  qed (simp add: pay_for_def pays_def c p)
qed

lemmas pays_rules = pays_need pays_branches pays_open_call pays_find_gas_of pays_pay_for pays_pair

lemma kept_after_payment [kept]:
  assumes "frame s0 v" "\<And>items s. frameS s0 s \<Longrightarrow> kept (frameS s0) (f items s)"
  shows "kept (frame s0) (after_payment D api payer m resp e f v)"
  unfolding after_payment_def by (intro kept) (use assms in simp_all)

lemma pays_one_method:
  assumes "\<And>api s s0. frameS s0 s \<Longrightarrow> kept (frameS s0) (f api s)"
  shows "pays (ed D) ctx s (one_method D ctx n p f params s)"
  unfolding one_method_def by (intro pays_rules kept) (simp_all add: assms)

text \<open>Every stub but that of the upgrade.\<close>

lemma stub_pays:
  assumes "stub \<noteq> Upgrade1to2Stub"
  shows "pays (ei I) ctx s (stub_Dispatcher I stub ctx params s)"
proof (cases stub)
  case SystemStub
  show ?thesis unfolding SystemStub stub_Dispatcher.simps System_Dispatcher_def by (intro pays_rules kept) simp_all
next
  case TokenBasicStub
  show ?thesis unfolding TokenBasicStub stub_Dispatcher.simps TokenBasic_Dispatcher_def by (intro pays_rules kept) simp_all
next
  case TokenIssueStub
  show ?thesis unfolding TokenIssueStub stub_Dispatcher.simps TokenIssue_Dispatcher_def by (intro pays_rules kept) simp_all
next
  case TokenTempletStub
  show ?thesis unfolding TokenTempletStub stub_Dispatcher.simps TokenTemplet_Dispatcher_def by (intro pays_rules kept) simp_all
next
  case TokenBYBStub
  show ?thesis unfolding TokenBYBStub stub_Dispatcher.simps TokenBYB_Dispatcher_def by (intro pays_rules kept) simp_all
next
  case TBCStub
  show ?thesis unfolding TBCStub stub_Dispatcher.simps TBC_Dispatcher_def by (rule pays_one_method) (rule kept)
next
  case TBTStub
  show ?thesis unfolding TBTStub stub_Dispatcher.simps TBT_Dispatcher_def by (rule pays_one_method) (rule kept)
next
  case TBFStub
  show ?thesis unfolding TBFStub stub_Dispatcher.simps TBF_Dispatcher_def by (rule pays_one_method) (rule kept)
next
  case TACStub
  show ?thesis unfolding TACStub stub_Dispatcher.simps TAC_Dispatcher_def by (intro pays_rules kept) simp_all
qed (use assms in simp)

lemma docker_Invoke_pays:
  assumes "d = Some stubs" "stubs (own_addr ctx) = Some stub" "stub \<noteq> Upgrade1to2Stub"
  shows "pays (ei I) ctx s (docker_Invoke I d ctx params transID s)"
  unfolding docker_Invoke_def assms(1) deref_simps need_simps
  by (simp add: assms(2) pays_rules pays_stop_low stub_pays [OF assms(3)])

section \<open>What no payment changes\<close>

text \<open>The helper, but for the cached name of the chain, and the number of the transaction; no tx goes.\<close>

definition held :: "'db V1 \<Rightarrow> 'db V1 \<Rightarrow> bool" where
  "held s0 s \<longleftrightarrow> map_option transactionID (v_Transaction s) = map_option transactionID (v_Transaction s0)
     \<and> (v_helper s)\<lparr>chainID := []\<rparr> = (v_helper s0)\<lparr>chainID := []\<rparr> \<and> dom (v_Tx s0) \<subseteq> dom (v_Tx s)"

lemma held_self [simp]: "held s s"
  by (simp add: held_def)

lemma held_frame: "held s0 s \<Longrightarrow> frame s s' \<Longrightarrow> held s0 s'"
  by (auto simp: held_def frame_def)

lemma held_step: "held s0 s \<Longrightarrow> kept (frame s) m \<Longrightarrow> kept (held s0) m"
  unfolding kept_def by (rule held_frame)

lemma held_SetBalance: "held s0 s \<Longrightarrow> kept (held s0) (acct_SetBalance K a t v s)"
  by (erule held_step) (intro kept, simp)

lemma held_ts_SetBalance: "held s0 s \<Longrightarrow> kept (held s0) (ts_SetBalance K ts a t v s)"
  by (erule held_step) (intro kept, simp)

lemma held_NewTxState: "held s0 s \<Longrightarrow> kept (held s0) (sdb_NewTxState c a s)"
  by (cases "v_Transaction s") (auto simp: kept_def held_def sdb_NewTxState_def Transaction_NewTx_def calcTxID_def Let_def)

lemma held_CommitTx: "held s0 s \<Longrightarrow> kept (held s0) (ts_CommitTx ts s)"
  by (auto simp: kept_def held_def ts_CommitTx_def Tx_Commit_def split: option.split prod.split)

lemma held_setRewardBalances: "held s0 s \<Longrightarrow> kept (held s0) (setRewardBalances K ts l s)"
  by (induction l arbitrary: s)
    (simp_all only: setRewardBalances.simps split_paired_all, (intro kept held_ts_SetBalance; simp)+)

lemma held_gas_branches:
  "kept P m \<Longrightarrow> (\<And>s. P s \<Longrightarrow> kept P (f s)) \<Longrightarrow> kept P (onError m f)"
  "P s \<Longrightarrow> (\<And>a. kept P (g a)) \<Longrightarrow> kept P (getGas r absent s g)"
  unfolding onError_def getGas_def by (intro kept; simp)+

lemma held_pay_rewards: "held s0 s \<Longrightarrow> kept (held s0) (pay_rewards K ctx ts value rw s)"
  unfolding pay_rewards_def by (intro kept held_setRewardBalances) simp_all

lemma held_pay_gas: "held s0 s \<Longrightarrow> kept (held s0) (pay_gas K ctx sender p rw tb t bal ts fee e s)"
  unfolding pay_gas_def by (intro kept held_gas_branches held_pay_rewards held_SetBalance held_CommitTx) simp_all

lemma held_CheckAndPayForGas: "held s0 s \<Longrightarrow> kept (held s0) (CheckAndPayForGas K ctx sender p rw gas gl s)"
  unfolding CheckAndPayForGas_def by (intro kept held_gas_branches held_NewTxState held_pay_gas) simp_all

lemma held_pays: "held s0 s \<Longrightarrow> pays K ctx s m \<Longrightarrow> kept (held s0) m"
  using held_CheckAndPayForGas held_frame unfolding pays_def paid_def kept_def by (metis snd_conv)

end
