(* ===== verification/V1_App_Props.thy ===== *)
theory V1_App_Props
  imports Application V1_Frame V1_Byb_Model Helper_Props
begin

text \<open>
  What holds of the application as a whole: a failed call of version 1 leaves a trace in accounts only, a check none, the
  version of the chain changes with a commit, and a transaction is good for one chain.
\<close>

section \<open>What the block sees\<close>

text \<open>The keys under an account: nonce, balances, lists. \<open>outside\<close> says that the block has the same value for all others.\<close>

definition of_account :: "string \<Rightarrow> bool" where
  "of_account k \<longleftrightarrow> HasPrefix k ''/account/ex/''"

lemma of_account_keys [simp]:
  "of_account (keyOfAccount a)" "of_account (keyOfAccountNonce a)" "of_account (keyOfAccountToken a t)"
  by (simp_all add: of_account_def HasPrefix_def keyOfAccount_def keyOfAccountNonce_def keyOfAccountToken_def)

definition outside :: "'db Env1 \<Rightarrow> 'db V1 \<Rightarrow> 'db V1 \<Rightarrow> bool" where
  "outside K s0 s \<longleftrightarrow> (\<forall>k. of_account k \<or> block1 K s k = block1 K s0 k)"

lemma outside_self [simp]: "outside K s s"
  by (simp add: outside_def)

lemma outside_trans: "outside K s0 s1 \<Longrightarrow> outside K s1 s \<Longrightarrow> outside K s0 s"
  unfolding outside_def by metis

lemma base_chainID: "h\<lparr>chainID := []\<rparr> = h'\<lparr>chainID := []\<rparr> \<Longrightarrow> stateDB h = stateDB h'"
  by (drule arg_cong [where f = stateDB]) simp

lemma frame_block: "frame s0 s \<Longrightarrow> block1 K s = block1 K s0"
proof (rule ext)
  fix k assume "frame s0 s"
  then have f: "v_Transaction s = v_Transaction s0" "stateDB (v_helper s) = stateDB (v_helper s0)"
    unfolding frame_def by (blast, blast dest: base_chainID)
  show "block1 K s k = block1 K s0 k" by (simp only: block1_def base_def f)
qed

lemma frame_outside: "frame s0 s \<Longrightarrow> outside K s0 s"
  by (simp add: outside_def frame_block)

subsection \<open>The nonce\<close>

lemma outside_sdb_Set:
  assumes "outside K s0 s" "of_account k"
  shows "kept (outside K s0) (sdb_Set k v s)"
proof (cases "v_Transaction s")
  case (Some t)
  have "block1 K (s\<lparr>v_Transaction := Some (Transaction_Set t k v)\<rparr>) j = block1 K s j" if "j \<noteq> k" for j
    using that Some by (simp add: block1_def Transaction_Set_def update_conv')
  then have "block1 K (snd (sdb_Set k v s)) j = block1 K s j" if "\<not> of_account j" for j
    using that assms(2) Some by (cases "j = k") (simp_all add: sdb_Set_def)
  then show ?thesis using assms(1) unfolding kept_def outside_def by metis
qed (use assms(1) in \<open>simp add: sdb_Set_def kept_def\<close>)

lemma outside_addChildKeyEx: "outside K s0 s \<Longrightarrow> of_account k \<Longrightarrow> kept (outside K s0) (sdb_addChildKeyEx K k c s)"
  unfolding sdb_addChildKeyEx_def by (intro kept outside_sdb_Set) simp_all

lemma outside_SetAccountNonce: "outside K s0 s \<Longrightarrow> kept (outside K s0) (sdb_SetAccountNonce K a n s)"
  unfolding sdb_SetAccountNonce_def Let_def by (intro kept outside_sdb_Set outside_addChildKeyEx) simp_all

lemma block_NewTxState: "block1 K (snd (sdb_NewTxState c a s)) = block1 K s"
  by (rule ext, cases "v_Transaction s")
    (simp_all add: sdb_NewTxState_def Transaction_NewTx_def calcTxID_def block1_def Let_def)

lemma outside_NewTxState: "outside K s0 s \<Longrightarrow> kept (outside K s0) (sdb_NewTxState c a s)"
  by (simp add: kept_def outside_def block_NewTxState)

lemma outside_prepare: "kept (outside (ei I) s) (prepare_call I a t s)"
  unfolding prepare_call_def by (intro kept outside_SetAccountNonce outside_NewTxState) simp_all

subsection \<open>The payment\<close>

text \<open>The tx of a payment has entries for accounts only.\<close>

definition booking :: "'db Env1 \<Rightarrow> TxState \<Rightarrow> 'db V1 \<Rightarrow> 'db V1 \<Rightarrow> bool" where
  "booking K ts s0 s \<longleftrightarrow> outside K s0 s
    \<and> (\<forall>i tx. ts_Tx ts = Some i \<longrightarrow> v_Tx s i = Some tx \<longrightarrow> (\<forall>(k, v) \<in> set (xbuffer tx). of_account k))"

lemma booking_outside: "booking K ts s0 s \<Longrightarrow> outside K s0 s"
  by (simp add: booking_def)

lemma update_keys: "(k', v') \<in> set (AList.update k v m) \<Longrightarrow> k' = k \<or> (k', v') \<in> set m"
  by (induction m) (auto split: if_splits)

lemma booking_ts_Set:
  assumes "booking K ts s0 s" "of_account k"
  shows "kept (booking K ts s0) (ts_Set ts k v s)"
proof (cases "ts_Tx ts")
  case (Some i)
  show ?thesis
  proof (cases "v_Tx s i")
    case (Some tx)
    have "block1 K (s\<lparr>v_Tx := f\<rparr>) j = block1 K s j" for f j by (simp add: block1_def)
    then show ?thesis
      using assms Some \<open>ts_Tx ts = Some i\<close> by (auto simp: kept_def ts_Set_def booking_def outside_def Tx_Set_def dest: update_keys)
  qed (use assms(1) Some in \<open>simp add: ts_Set_def kept_def\<close>)
qed (use assms(1) in \<open>simp add: ts_Set_def kept_def\<close>)

lemma booking_addChildKey: "booking K ts s0 s \<Longrightarrow> of_account k \<Longrightarrow> kept (booking K ts s0) (ts_addChildKey K ts k c s)"
  unfolding ts_addChildKey_def by (intro kept booking_ts_Set) simp_all

lemma booking_SetBalance: "booking K ts s0 s \<Longrightarrow> kept (booking K ts s0) (ts_SetBalance K ts a t v s)"
  unfolding ts_SetBalance_def Let_def by (intro kept booking_ts_Set booking_addChildKey) simp_all

lemma booking_acct_SetBalance:
  "booking K ts s0 s \<Longrightarrow> ac_TxState acc = ts \<Longrightarrow> kept (booking K ts s0) (acct_SetBalance K acc t v s)"
  unfolding acct_SetBalance_def by (intro kept) (simp add: booking_SetBalance)

lemma booking_setRewardBalances: "booking K ts s0 s \<Longrightarrow> kept (booking K ts s0) (setRewardBalances K ts l s)"
  by (induction l arbitrary: s)
    (simp_all only: setRewardBalances.simps split_paired_all, (intro kept booking_SetBalance; simp)+)

lemma booking_pay_rewards: "booking K ts s0 s \<Longrightarrow> kept (booking K ts s0) (pay_rewards K ctx ts value rw s)"
  unfolding pay_rewards_def by (intro kept booking_setRewardBalances) simp_all

lemma put_all_other: "\<forall>(k', v) \<in> set m. of_account k' \<Longrightarrow> \<not> of_account k \<Longrightarrow> map_of (put_all b m) k = map_of b k"
  by (induction b m rule: put_all.induct) (auto simp: update_conv')

lemma outside_CommitTx: "booking K ts s0 s \<Longrightarrow> kept (outside K s0) (ts_CommitTx ts s)"
proof -
  assume b: "booking K ts s0 s"
  show ?thesis
  proof (cases "\<exists>i t tx. ts_Tx ts = Some i \<and> v_Transaction s = Some t \<and> v_Tx s i = Some tx")
    case True
    then obtain i t tx where c: "ts_Tx ts = Some i" "v_Transaction s = Some t" "v_Tx s i = Some tx" by blast
    have x: "\<forall>(k, v) \<in> set (xbuffer tx). of_account k" using b c by (auto simp: booking_def)
    have "block1 K (s\<lparr>v_Transaction := Some (t\<lparr>tbuffer := put_all (tbuffer t) (xbuffer tx)\<rparr>), v_Tx := f\<rparr>) k = block1 K s k"
      if "\<not> of_account k" for k f using c(2) by (simp add: block1_def put_all_other [OF x that])
    then have "outside K s (snd (ts_CommitTx ts s))" by (simp add: outside_def ts_CommitTx_def Tx_Commit_def c) metis
    then show ?thesis unfolding kept_def by (rule outside_trans [OF booking_outside [OF b]])
  next
    case False
    then show ?thesis using b by (auto simp: kept_def ts_CommitTx_def booking_def split: option.split)
  qed
qed

lemma kept_weaker: "kept P m \<Longrightarrow> (\<And>s. P s \<Longrightarrow> Q s) \<Longrightarrow> kept Q m"
  by (simp add: kept_def)

lemma kept_seqR_via: "kept Q m \<Longrightarrow> (\<And>s. Q s \<Longrightarrow> P s) \<Longrightarrow> (\<And>a s. Q s \<Longrightarrow> kept P (f a s)) \<Longrightarrow> kept P (seqR m f)"
  by (auto simp: kept_def seqR_def split: prod.split sum.split)

lemma outside_pay_gas:
  assumes b: "booking K ts s0 s"
  shows "kept (outside K s0) (pay_gas K ctx sender p rw tb t bal ts fee e s)"
proof -
  have 1: "kept (booking K ts s0) (acct_SetBalance K \<lparr>ac_Addr = ac_Addr sender, ac_TxState = ts\<rparr> a v s)" for a v
    using booking_acct_SetBalance [OF b] by simp
  have 2: "kept (outside K s0) (case p of
      None \<Rightarrow> seqR (ts_CommitTx ts s) (\<lambda>_ s. (Inr (gasErr x), s))
    | Some _ \<Rightarrow> (case rw of None \<Rightarrow> (Inl nil_pointer, s)
      | Some r \<Rightarrow> seqR (pay_rewards K ctx ts v r s) (\<lambda>(rewardValues, y) s. if \<not> isOK y then (Inr (gasErr y), s)
          else seqR (ts_CommitTx ts s) (\<lambda>_ s. (Inr \<lparr>gr_gasused = fee div it_GasPrice t, gr_gasprice = it_GasPrice t,
             gr_rewards = rewardValues, gr_error = x\<rparr>, s)))))"
    if s: "booking K ts s0 s" for s x v
  proof -
    have c: "kept (outside K s0) (seqR (ts_CommitTx ts s') (\<lambda>_ s. (r, s)))" if "booking K ts s0 s'" for s' and r :: "string + GasResult"
      by (intro kept outside_CommitTx that)
    have "kept (outside K s0) (seqR (pay_rewards K ctx ts v r s) (\<lambda>(rewardValues, y) s. if \<not> isOK y then (Inr (gasErr y), s)
          else seqR (ts_CommitTx ts s) (\<lambda>_ s. (Inr \<lparr>gr_gasused = fee div it_GasPrice t, gr_gasprice = it_GasPrice t,
             gr_rewards = rewardValues, gr_error = x\<rparr>, s))))" for r
      by (rule kept_seqR_via [OF booking_pay_rewards [OF s] booking_outside]; (intro kept_branches kept_pair c)?)
        (auto intro: booking_outside)
    then show ?thesis using c [OF s] booking_outside [OF s] by (auto simp: kept_pair split: option.split)
  qed
  show ?thesis unfolding pay_gas_def Let_def onError_def
    by (rule kept_seqR_via [OF 1 booking_outside], assumption)
      (rule kept_branches(1), rule 2, assumption, rule kept_pair, erule booking_outside)
qed

lemma fresh_booking:
  assumes "sdb_NewTxState c a s = (Inr ts, s1)"
  shows "booking K ts s s1"
proof -
  have "block1 K s1 = block1 K s" using block_NewTxState [of K c a s] assms by simp
  moreover obtain t where t: "v_Transaction s = Some t" using assms by (cases "v_Transaction s") (simp_all add: sdb_NewTxState_def)
  have "xbuffer tx = []" if "ts_Tx ts = Some i" "v_Tx s1 i = Some tx" for i tx
    using assms t that by (auto simp: sdb_NewTxState_def Transaction_NewTx_def calcTxID_def Let_def)
  ultimately show ?thesis by (auto simp: booking_def outside_def)
qed

lemma outside_CheckAndPayForGas: "kept (outside K s) (CheckAndPayForGas K ctx sender p rw gas gl s)"
proof -
  have "kept (outside K s) (seqR (sdb_NewTxState c a s) f)"
    if "\<And>ts s1. booking K ts s s1 \<Longrightarrow> kept (outside K s) (f ts s1)" for c a and f :: "TxState \<Rightarrow> 'a V1 \<Rightarrow> ('a V1, GasResult) act"
  proof (cases "sdb_NewTxState c a s")
    case (Pair r s1)
    show ?thesis
    proof (cases r)
      case (Inr ts)
      show ?thesis using that [OF fresh_booking] Pair Inr by simp
    next
      case (Inl e)
      show ?thesis using outside_NewTxState [of K s s c a] Pair Inl by (simp add: kept_def)
    qed
  qed
  note new = this
  show ?thesis unfolding CheckAndPayForGas_def
    by (intro kept_need kept_reads kept_branches kept_pair new held_gas_branches(2) outside_pay_gas)
      (auto dest: booking_outside)
qed

lemma paid_outside: "paid K ctx b s s' \<Longrightarrow> outside K s s'"
  using outside_CheckAndPayForGas frame_outside outside_trans unfolding paid_def kept_def by (metis snd_conv)

section \<open>A failed transaction\<close>

lemma calcDeliverTxHash_v1 [simp]: "c_v1 (calcDeliverTxHash I up tx r st c) = c_v1 c"
  by (simp add: calcDeliverTxHash_def tell_v2_def upd_conn_def Let_def)

lemma onV1_run: "f (c_v1 c) = (r, s) \<Longrightarrow> onV1 f c = (r, c\<lparr>c_v1 := s\<rparr>)"
  by (simp add: onV1_def)

lemma ts_RollbackTx_frame: "frame s (snd (ts_RollbackTx ts s))"
  by (auto simp: ts_RollbackTx_def frame_def split: option.split)

lemma paid_frame: "paid K ctx b s s1 \<Longrightarrow> frame s1 s' \<Longrightarrow> paid K ctx b s s'"
  unfolding paid_def by (metis frame_trans)

lemma prepare_address:
  "prepare_call I a t s = (Inr (Inr (ts, contract)), s1) \<Longrightarrow> ts_ContractAddress ts = tx_To t"
  by (auto simp: prepare_call_def seqR_def sdb_NewTxState_def Let_def split: prod.splits sum.splits option.splits)

lemma finish_call_code: "finish_call I up tx t ts resp c = (Inr res, c') \<Longrightarrow> rd_Code res = unat ErrCodeOK"
  by (auto simp: finish_call_def seqR_def call_succeeded_def Let_def split: prod.splits sum.splits)

text \<open>C6. A call of version 1 that fails, of any contract that a stub runs (the upgrade, which is outside the model,
  excepted), leaves in the open block every value as it was but those under accounts: the nonce of the sender and the
  balances that the gas moves. More exactly: the store is the one the preparation of the call leaves (nonce and new tx)
  when the preparation fails, and otherwise that one after at most one payment for gas; nothing a contract wrote
  is in the block.\<close>

theorem failed_v1_call_pays_only:
  assumes run: "runDeliverBCTx1 I up tx fromAddr t c = (Inr res, c')" and fail: "rd_Code res \<noteq> unat ErrCodeOK"
    and stub: "dc_docker (c_conn c) = Some stubs" "stubs (tx_To t) = Some stub" "stub \<noteq> Upgrade1to2Stub"
  shows "(\<forall>k. of_account k \<or> block1 (ei I) (c_v1 c') k = block1 (ei I) (c_v1 c) k)
    \<and> (\<exists>r s1. prepare_call I fromAddr t (c_v1 c) = (Inr r, s1) \<and> (case r of
        Inl e \<Rightarrow> c_v1 c' = s1
      | Inr (ts, contract) \<Rightarrow> paid (ei I) (call_context (c_conn c) ts fromAddr (tc_Owner contract) (tx_GasLimit t) (tx_Note t))
          True s1 (c_v1 c')))"
proof -
  obtain p s1 where p: "prepare_call I fromAddr t (c_v1 c) = (p, s1)" by fastforce
  have o: "outside (ei I) (c_v1 c) s1" using outside_prepare [of I "c_v1 c" fromAddr t] p by (simp add: kept_def)
  have "onV1 (prepare_call I fromAddr t) c = (p, c\<lparr>c_v1 := s1\<rparr>)" using p by (simp add: onV1_def)
  note run1 = run [unfolded runDeliverBCTx1_def this]
  obtain r where r: "p = Inr r" using run1 by (cases p) simp_all
  show ?thesis
  proof (cases r)
    case (Inl e)
    then have "c_v1 c' = s1" using run1 r by auto
    then show ?thesis using o p r Inl unfolding outside_def by simp
  next
    case (Inr q)
    obtain ts contract where q: "q = (ts, contract)" by fastforce
    let ?ctx = "call_context (c_conn c) ts fromAddr (tc_Owner contract) (tx_GasLimit t) (tx_Note t)"
    have own: "own_addr ?ctx = tx_To t" using prepare_address p r Inr q by (simp add: own_addr_def call_context_def)
    obtain a s2 where a: "docker_Invoke I (dc_docker (c_conn c)) ?ctx (tx_Data t) (if up then a_transID (c_v2 c) else 0) s1 = (a, s2)"
      by fastforce
    have pay: "paid (ei I) ?ctx (\<not> isl a) s1 s2"
      using docker_Invoke_pays [OF stub(1) _ stub(3), of ?ctx] stub(2) a own by (metis fst_conv snd_conv pays_def)
    have "onV1 (docker_Invoke I (dc_docker (c_conn c)) ?ctx (tx_Data t) (if up then a_transID (c_v2 c) else 0)) (c\<lparr>c_v1 := s1\<rparr>)
      = (a, c\<lparr>c_v1 := s2\<rparr>)" using a by (simp add: onV1_def)
    then have run2: "seqR (a, c\<lparr>c_v1 := s2\<rparr>) (\<lambda>(resp, e) c.
        if \<not> isOK e then seqR (onV1 (ts_RollbackTx ts) c) (\<lambda>_ c. let res = call_failed t resp e in
          (Inr res, calcDeliverTxHash I up (Some tx) (Some res) None c))
        else finish_call I up tx t ts resp c) = (Inr res, c')" using run1 r Inr q by (simp cong: if_cong)
    obtain resp e where e: "a = Inr (resp, e)" using run2 by (cases a) auto
    have "\<not> isOK e" using run2 e fail by (auto dest: finish_call_code)
    then have "c_v1 c' = snd (ts_RollbackTx ts s2)"
      using run2 e by (cases "ts_RollbackTx ts s2") (auto simp: onV1_def seqR_def Let_def split: sum.splits)
    then have "paid (ei I) ?ctx True s1 (c_v1 c')" using paid_frame [OF pay ts_RollbackTx_frame] e by simp
    then show ?thesis
      using outside_trans [OF o paid_outside] p r Inr q unfolding outside_def by auto
  qed
qed

section \<open>A check\<close>

lemma check_call_held:
  assumes s: "held s0 s" and stub: "d (tx_To t) = Some stub" "stub \<noteq> Upgrade1to2Stub"
  shows "kept (held s0) (check_call I d fromAddr t s)"
proof (cases "sdb_NewTxState (tx_To t) fromAddr s")
  case (Pair r s1)
  have h: "held s0 s1" using held_NewTxState [OF s, of "tx_To t" fromAddr] Pair by (simp add: kept_def)
  show ?thesis
  proof (cases r)
    case (Inr ts)
    have "ts_ContractAddress ts = tx_To t"
      using Pair Inr by (auto simp: sdb_NewTxState_def Let_def split: option.splits prod.splits)
    then have own: "own_addr (check_context ts fromAddr x y t) = tx_To t" for x y by (simp add: own_addr_def check_context_def)
    have "kept (held s0) (docker_Invoke I (Some d) (check_context ts fromAddr x y t) cp j s1)" for x y cp j
      by (rule held_pays [OF h docker_Invoke_pays [OF refl _ stub(2)]]) (simp add: own stub(1))
    then show ?thesis unfolding check_call_def Pair Inr seqR_simps
      by (intro kept) (simp_all add: h)
  qed (use h Pair in \<open>simp add: check_call_def kept_def\<close>)
qed

lemma open_rollback_run:
  obtains t h' where "open_rollback s = (Inr (), sdb_BeginBlock t (s\<lparr>v_helper := h'\<rparr>))"
    "transactionID t = - (lastRollbackTransactionID (stateDB (v_helper s)) + 1)"
    "transactionMap h' = (transactionMap (v_helper s))(transactionID t \<mapsto> \<lparr>tr_Transaction = t, tr_TxMap = \<lambda>_. None\<rparr>)"
    "sdb (stateDB h') = sdb (stateDB (v_helper s))" "sndb (stateDB h') = sndb (stateDB (v_helper s))"
    "committableTransaction (stateDB h') = committableTransaction (stateDB (v_helper s))"
    "currentCommittableTransaction h' = currentCommittableTransaction (v_helper s)"
  by (rule that [where t = "\<lparr>transactionID = - (lastRollbackTransactionID (stateDB (v_helper s)) + 1), tbuffer = [],
        committable = False, lastTxID = 0\<rparr>" and h' = "snd (NewRollbackTransactionID (v_helper s))"])
    (simp_all add: open_rollback_def NewRollbackTransactionID_def NewRollbackTransaction_def calcTransactionID_def Let_def put_trans_def)

text \<open>The rollback at the end finds the transaction that was opened, and forgets it.\<close>

lemma held_rolls_back:
  assumes held: "held s1 s2" and t: "v_Transaction s1 = Some t" and m: "transactionMap (v_helper s1) (transactionID t) = Some tr"
    "tr_Transaction tr = t" and cur: "currentCommittableTransaction (v_helper s1) \<noteq> Some (transactionID t)"
  obtains u s3 where "sdb_RollBlock s2 = (Inr u, s3)" "stateDB (v_helper s3) = stateDB (v_helper s1)"
    "transactionMap (v_helper s3) = (transactionMap (v_helper s1))(transactionID t := None)"
    "currentCommittableTransaction (v_helper s3) = currentCommittableTransaction (v_helper s1)"
proof -
  obtain t2 where t2: "v_Transaction s2 = Some t2" "transactionID t2 = transactionID t" using held t by (auto simp: held_def)
  have h2: "(v_helper s2)\<lparr>chainID := []\<rparr> = (v_helper s1)\<lparr>chainID := []\<rparr>" using held by (simp add: held_def)
  have "stateDB (v_helper s2) = stateDB (v_helper s1)" "transactionMap (v_helper s2) = transactionMap (v_helper s1)"
    "currentCommittableTransaction (v_helper s2) = currentCommittableTransaction (v_helper s1)"
    using arg_cong [OF h2, of stateDB] arg_cong [OF h2, of transactionMap] arg_cong [OF h2, of currentCommittableTransaction]
    by simp_all
  then show thesis using that t2 m cur
    by (simp add: sdb_RollBlock_def RollbackBlock_def write_back_def getTrans_def put_trans_def Let_def)
qed

lemma runCheckBCTx1_isolated:
  assumes ok: "helper_ok (v_helper s)" and stub: "d (tx_To t) = Some stub" "stub \<noteq> Upgrade1to2Stub"
  shows "let h = v_helper s; h' = v_helper (snd (runCheckBCTx1 I d fromAddr t s)) in
    sdb (stateDB h') = sdb (stateDB h) \<and> sndb (stateDB h') = sndb (stateDB h)
    \<and> committableTransaction (stateDB h') = committableTransaction (stateDB h)
    \<and> currentCommittableTransaction h' = currentCommittableTransaction h \<and> transactionMap h' = transactionMap h"
proof (cases "MAX_SIZE_NOTE < length (tx_Note t) \<or> sdb_CheckAccountNonce (ei I) fromAddr (tx_Nonce t) s \<noteq> Inr (Inr ())")
  case True
  then have "snd (runCheckBCTx1 I d fromAddr t s) = s"
    by (auto simp: runCheckBCTx1_def split: sum.split)
  then show ?thesis by (simp add: Let_def)
next
  case False
  obtain x h1 where o: "open_rollback s = (Inr (), sdb_BeginBlock x (s\<lparr>v_helper := h1\<rparr>))"
    "transactionID x = - (lastRollbackTransactionID (stateDB (v_helper s)) + 1)"
    "transactionMap h1 = (transactionMap (v_helper s))(transactionID x \<mapsto> \<lparr>tr_Transaction = x, tr_TxMap = \<lambda>_. None\<rparr>)"
    "sdb (stateDB h1) = sdb (stateDB (v_helper s))" "sndb (stateDB h1) = sndb (stateDB (v_helper s))"
    "committableTransaction (stateDB h1) = committableTransaction (stateDB (v_helper s))"
    "currentCommittableTransaction h1 = currentCommittableTransaction (v_helper s)"
    by (rule open_rollback_run)
  let ?s1 = "sdb_BeginBlock x (s\<lparr>v_helper := h1\<rparr>)"
  obtain r s2 where c: "check_call I d fromAddr t ?s1 = (r, s2)" by fastforce
  have held: "held ?s1 s2" using check_call_held [of ?s1 ?s1 d t stub I fromAddr] stub c by (simp add: kept_def)
  have none: "transactionMap (v_helper s) (transactionID x) = None"
    using helper_okD(1) [OF ok, of "transactionID x"] o(2)
    by (cases "transactionMap (v_helper s) (transactionID x)") (auto simp: tran_def trans_ok_def)
  have cur: "currentCommittableTransaction h1 \<noteq> Some (transactionID x)" using helper_okD(3) [OF ok, of "transactionID x"] helper_okD(5) [OF ok] o(2,7) by auto
  obtain u s3 where roll: "sdb_RollBlock s2 = (Inr u, s3)" "stateDB (v_helper s3) = stateDB h1"
    "transactionMap (v_helper s3) = (transactionMap h1)(transactionID x := None)"
    "currentCommittableTransaction (v_helper s3) = currentCommittableTransaction h1"
    by (rule held_rolls_back [OF held]) (use o(3) cur in \<open>auto simp: sdb_BeginBlock_def\<close>)
  have "snd (runCheckBCTx1 I d fromAddr t s) = s3"
    using False o(1) c roll(1) by (auto simp: runCheckBCTx1_def deferred_def Let_def)
  moreover have "(transactionMap h1)(transactionID x := None) = transactionMap (v_helper s)" using none o(3) by auto
  ultimately show ?thesis using roll(2-4) o(4-7) by (simp add: Let_def)
qed

text \<open>C18. Checking a transaction on a chain of version 1 (no checker of version 2 is passed), from its text to the call of
  its contract and whatever it ends with (an error or a panic included), leaves the database, the undo snapshots, the open
  block and all its txs as they were. This is for texts that parse to a call of a contract with a registered stub other
  than the upgrade. Excluded are the upgrade and the contracts of the service outside the process (\<open>smcrunctl\<close>): a check
  passes the number 0 to that service, as a delivery before the upgrade does, and the service keeps one call per number.\<close>

theorem check1_isolated:
  assumes "helper_ok (v_helper s)"
    and "\<forall>cid fromAddr pk t. TxParse I cid tx = Inr (fromAddr, pk, t) \<longrightarrow> (\<exists>stub. d (tx_To t) = Some stub \<and> stub \<noteq> Upgrade1to2Stub)"
  shows "let h = v_helper s; h' = v_helper (snd (CheckTx1 I (Some d) None tx s)) in
    sdb (stateDB h') = sdb (stateDB h) \<and> sndb (stateDB h') = sndb (stateDB h)
    \<and> committableTransaction (stateDB h') = committableTransaction (stateDB h)
    \<and> currentCommittableTransaction h' = currentCommittableTransaction h \<and> transactionMap h' = transactionMap h"
proof -
  consider (early) "snd (CheckTx1 I (Some d) None tx s) = s"
    | (run) cid fromAddr pk t where "TxParse I cid tx = Inr (fromAddr, pk, t)" "CheckTx1 I (Some d) None tx s = runCheckBCTx1 I d fromAddr t s"
  proof (cases "sdb_GetChainID (ei I) s")
    case (Inr cid)
    then show ?thesis using that by (cases "TxParse I cid tx") (auto simp: CheckTx1_def CheckBCTx1_def)
  qed (use that in \<open>simp add: CheckTx1_def CheckBCTx1_def\<close>)
  then show ?thesis
  proof cases
    case run
    then obtain stub where "d (tx_To t) = Some stub" "stub \<noteq> Upgrade1to2Stub" using assms(2) by blast
    from runCheckBCTx1_isolated [where d = d and t = t, OF assms(1) this] show ?thesis unfolding run(2) .
  qed (simp add: Let_def)
qed

section \<open>The version of the chain\<close>

text \<open>What tendermint calls between two commits.\<close>

datatype app_call = CallDeliverTx string | CallCheckTx string | CallBeginBlock RequestBeginBlock | CallEndBlock | CallRollback

fun app_step :: "'db EnvI \<Rightarrow> app_call \<Rightarrow> 'db Application \<Rightarrow> 'db Application" where
  "app_step I (CallDeliverTx tx) a = snd (app_DeliverTx I tx a)"
| "app_step I (CallCheckTx tx) a = snd (app_CheckTx I tx a)"
| "app_step I (CallBeginBlock req) a = snd (app_BeginBlock I req a)"
| "app_step I CallEndBlock a = snd (app_EndBlock I a)"
| "app_step I CallRollback a = snd (app_Rollback I a)"

definition at_version :: "int \<Rightarrow> int \<Rightarrow> 'db Application \<Rightarrow> bool" where
  "at_version v u a \<longleftrightarrow> ap_chainVersion a = Some v \<and> ap_updateChainVersion a = u"

lemma at_version_onC: "at_version v u a \<Longrightarrow> kept (at_version v u) (onC f a)"
  by (simp add: kept_def at_version_def onC_def split: prod.split)

lemma at_version_onCheck: "at_version v u a \<Longrightarrow> kept (at_version v u) (onCheck f a)"
  by (simp add: kept_def at_version_def onCheck_def Let_def split: prod.split)

lemma at_version_read: "at_version v u a \<Longrightarrow> kept (at_version v u) (app_ChainVersion I a)"
  by (simp add: kept_def at_version_def app_ChainVersion_def)

lemma at_version_branches:
  "kept P m \<Longrightarrow> kept P (hashed I tx m)"
  "at_version v u a \<Longrightarrow> kept (at_version v u) n \<Longrightarrow> kept (at_version v u) (need_v1 a n)"
  unfolding hashed_def need_v1_def by (intro kept; simp)+

lemmas at_version_rules = kept at_version_onC at_version_onCheck at_version_read at_version_branches

lemma at_version_step:
  assumes a: "at_version v u a" and call: "call \<noteq> CallEndBlock"
  shows "at_version v u (app_step I call a)"
proof (cases call)
  case (CallDeliverTx tx)
  have "kept (at_version v u) (app_DeliverTx I tx a)"
    unfolding app_DeliverTx_def v1_DeliverTx_def by (intro at_version_rules) (use a in \<open>simp_all add: at_version_def\<close>)
  then show ?thesis by (simp add: CallDeliverTx kept_def)
next
  case (CallCheckTx tx)
  have "kept (at_version v u) (app_CheckTx I tx a)"
    unfolding app_CheckTx_def by (intro at_version_rules) (use a in simp_all)
  then show ?thesis by (simp add: CallCheckTx kept_def)
next
  case (CallBeginBlock req)
  have "kept (at_version v u) (app_BeginBlock I req a)"
    unfolding app_BeginBlock_def by (intro at_version_rules) (use a in simp_all)
  then show ?thesis by (simp add: CallBeginBlock kept_def)
next
  case CallRollback
  have "kept (at_version v u) (app_Rollback I a)" unfolding app_Rollback_def by (rule at_version_onC [OF a])
  then show ?thesis by (simp add: CallRollback kept_def)
qed (use call in simp)

text \<open>The end of a block and the commit begin with an operation that changes neither version.\<close>

lemma versioned_onC: "onC f a = (r, b) \<Longrightarrow> ap_chainVersion b = ap_chainVersion a \<and> ap_updateChainVersion b = ap_updateChainVersion a"
  by (auto simp: onC_def split: prod.splits)

lemma EndBlock_version:
  assumes "at_version v u a"
  shows "ap_chainVersion (snd (app_EndBlock I a)) = Some v"
    "app_EndBlock I a = (Inr res, a') \<Longrightarrow> ap_updateChainVersion a' = (if re_ChainVersion res = v then u else re_ChainVersion res)"
  using assms
  by (auto simp: app_EndBlock_def app_ChainVersion_def seqR_def need_v1_def at_version_def dest!: versioned_onC
      split: if_splits prod.splits sum.splits)

lemma Commit_version:
  assumes "at_version v u a" "app_Commit I order a = (Inr st, a')"
  shows "ap_chainVersion a' = Some (if u = 0 then v else u) \<and> ap_updateChainVersion a' = 0"
  using assms
  by (auto simp: app_Commit_def app_ChainVersion_def seqR_def need_v1_def at_version_def dest!: versioned_onC
      split: if_splits prod.splits sum.splits)

text \<open>C19. Between two commits the version that the application routes by never changes, whatever the
  consensus engine calls. Only the end of a block notes the version to switch to, and it notes the one it reports; the commit switches to it
  and clears the note.\<close>

theorem version_changes_on_commit:
  assumes "ap_chainVersion a = Some v"
  shows "(\<forall>call. ap_chainVersion (app_step I call a) = Some v
      \<and> (call = CallEndBlock \<or> ap_updateChainVersion (app_step I call a) = ap_updateChainVersion a))
    \<and> (\<forall>res a'. app_EndBlock I a = (Inr res, a') \<longrightarrow>
        ap_updateChainVersion a' = (if re_ChainVersion res = v then ap_updateChainVersion a else re_ChainVersion res))
    \<and> (\<forall>order st a'. app_Commit I order a = (Inr st, a') \<longrightarrow>
        ap_chainVersion a' = Some (if ap_updateChainVersion a = 0 then v else ap_updateChainVersion a) \<and> ap_updateChainVersion a' = 0)"
proof -
  have a: "at_version v (ap_updateChainVersion a) a" using assms by (simp add: at_version_def)
  have "ap_chainVersion (app_step I call a) = Some v
      \<and> (call = CallEndBlock \<or> ap_updateChainVersion (app_step I call a) = ap_updateChainVersion a)" for call
    using at_version_step [OF a, of call I] EndBlock_version(1) [OF a] by (cases "call = CallEndBlock") (auto simp: at_version_def)
  then show ?thesis using EndBlock_version(2) [OF a] Commit_version [OF a] by blast
qed

section \<open>One chain\<close>

text \<open>C28. A transaction that parses for one chain is refused, without a trace in the state, by the delivery and by the
  check of every other chain: the chain is part of its text.\<close>

theorem transaction_for_one_chain:
  assumes "TxParse I cid tx = Inr accepted" and "sdb_GetChainID (ei I) s = Inr own" "own \<noteq> cid"
    and "c_v1 c = s"
  shows "deliverBCTx1 I up tx c = (Inr (error_response (errC ErrCodeDeliverTxTransData)), c)
    \<and> CheckBCTx1 I d conn tx s = (Inr (check_error ErrCodeCheckTxTransData), s)"
proof -
  have "\<exists>e. TxParse I own tx = Inl e"
    using assms(1,3) by (auto simp: TxParse_def split: list.splits if_splits)
  then show ?thesis
    using assms(2,4) by (auto simp: deliverBCTx1_def parseTx_def CheckBCTx1_def)
qed

section \<open>Genesis\<close>

lemma genesis_codes: "unat ErrCodeLowLevelError \<noteq> unat ErrCodeOK"
  by (simp add: code_defs)

text \<open>After the commit the transaction is not in the map any more, and the deferred \<open>RollBlock\<close> panics.\<close>

lemma committed_no_roll:
  assumes "sdb_CommitBlock K s = (Inr u, s')"
  shows "\<exists>e s''. sdb_RollBlock s' = (Inl e, s'')"
proof (cases "v_Transaction s")
  case (Some t)
  have none: "transactionMap (v_helper s') (transactionID t) = None"
    using assms Some by (auto simp: sdb_CommitBlock_def CommitBlock_def getTrans_def write_back_def put_trans_def seqR_def Let_def
        split: option.splits prod.splits sum.splits)
  moreover have "v_Transaction s' = Some t" using assms Some by (auto simp: sdb_CommitBlock_def Let_def split: prod.splits)
  ultimately show ?thesis by (simp add: sdb_RollBlock_def write_back_def RollbackBlock_def getTrans_def)
qed (use assms in \<open>simp add: sdb_CommitBlock_def\<close>)

text \<open>An answer that is not \<open>OK\<close>, or a state that cannot be rolled back.\<close>

definition no_ok :: "('db V1, init_response) act \<Rightarrow> bool" where
  "no_ok m \<longleftrightarrow> (\<forall>msg st s. m = (Inr (unat ErrCodeOK, msg, st), s) \<longrightarrow> (\<exists>e s''. sdb_RollBlock s = (Inl e, s'')))"

lemma no_ok_error: "no_ok (Inr (init_error e), s)" "no_ok (Inl e, s)"
  by (simp_all add: no_ok_def init_error_def code_defs)

lemma no_ok_seqR: "(\<And>a s. no_ok (f a s)) \<Longrightarrow> no_ok (seqR m f)"
  by (auto simp: no_ok_def seqR_def split: prod.splits sum.splits)

lemma no_ok_need: "(\<And>a. no_ok (f a)) \<Longrightarrow> no_ok (need r s f)"
  by (cases r) (simp_all add: no_ok_error)

lemma no_ok_commit: "no_ok (genesis_commit I s)"
proof -
  have c: "no_ok (seqR (sdb_CommitBlock (ei I) s) (\<lambda>_ s. (Inr (unat ErrCodeOK, [], st), s)))" for st s
    using committed_no_roll by (auto simp: no_ok_def seqR_def split: prod.splits sum.splits)
  show ?thesis unfolding genesis_commit_def Let_def by (rule no_ok_need) (rule no_ok_seqR, rule c)
qed

lemma no_ok_case: "(\<And>e. no_ok (f e)) \<Longrightarrow> (\<And>x. no_ok (g x)) \<Longrightarrow> no_ok (case r of Inl e \<Rightarrow> f e | Inr x \<Rightarrow> g x)"
  by (cases r) simp_all

lemma no_ok_body: "no_ok (genesis_body I cid vals g s)"
  unfolding genesis_body_def Let_def by (intro no_ok_need no_ok_seqR no_ok_case no_ok_error no_ok_commit)

text \<open>C29. The genesis of version 1 never answers with success: after the commit of the block the deferred
  rollback does not find the transaction and panics, on every path that would return the code \<open>OK\<close>.\<close>

theorem genesis1_never_ok:
  "fst (initChain1 I cid vals stateJson c) \<noteq> Inr (unat ErrCodeOK, msg, st)"
proof (cases "unmarshal (k_Genesis I) stateJson")
  case (Inr g)
  have "fst (deferred (onV1 (genesis_body I cid vals g) c1) (onV1 sdb_RollBlock)) \<noteq> Inr (unat ErrCodeOK, msg, st)" for c1
  proof -
    obtain r s where b: "genesis_body I cid vals g (c_v1 c1) = (r, s)" by fastforce
    then have "r = Inr (unat ErrCodeOK, msg, st) \<Longrightarrow> \<exists>e s''. sdb_RollBlock s = (Inl e, s'')"
      using no_ok_body [of I cid vals g "c_v1 c1"] by (simp add: no_ok_def)
    then show ?thesis by (auto simp: deferred_def onV1_def b Let_def split: prod.splits sum.splits)
  qed
  then show ?thesis by (cases "onV1 open_transaction c"; cases "fst (onV1 open_transaction c)") (simp_all add: initChain1_def Inr)
qed (simp add: initChain1_def init_error_def code_defs)

section \<open>A concrete application\<close>

definition account_codec :: "AccountInfo codec" where
  "account_codec = \<lparr>marshal = (\<lambda>a. Inr (enc_entries [(dec_of_int (uint (an_Nonce a)), [])])),
     unmarshal = (\<lambda>b. case dec_entries (length b) b of
         [(n, _)] \<Rightarrow> Inr \<lparr>an_Nonce = word_of_int (int_of_dec n)\<rparr> | _ \<Rightarrow> Inl ''not an account'')\<rparr>"

definition demo_called :: types_Contract where
  "demo_called = demo_contract1\<lparr>tc_Methods := [\<lparr>me_MethodId = ''1'', me_Gas = 100, me_Prototype = ''Lost()''\<rparr>]\<rparr>"

definition model_app :: "kvs EnvI" where
  "model_app = \<lparr>envd = \<lparr>envc = \<lparr>envs = modelS\<lparr>base1 := model1\<lparr>k_Account := account_codec, k_Contract := const_codec demo_called,
       k_Strategies := const_codec [\<lparr>st_Strategy = Some [], st_EffectHeight = 1\<rparr>]\<rparr>\<rparr>,
       k_Global = no_codec, k_Manager = no_codec, k_FeeInfo = no_codec, k_FeeInfos = no_codec, k_int64 = no_codec,
       Unlock_Unix = (\<lambda>_. 0), Num_Mul = (*), Num_Div = (div)\<rparr>,
     Rlp_Method = (\<lambda>_. Inr \<lparr>mi_MethodID = 1, mi_ParamData = []\<rparr>), Rlp_Items = (\<lambda>_. Inr []), k_Rcpt = no_codec,
     k_Strategy = no_codec, k_Versions = no_codec, std_KeyOfOrgID = [], std_KeyOfContractsWithName = (\<lambda>_ _. []),
     f_Parse = (\<lambda>_. 0), f_Add = (\<lambda>a b. a), f_Less = (\<lambda>_ _. False), f_Equal = (\<lambda>_ _. True), Num_SetBytes = (\<lambda>_. 0)\<rparr>,
   Upgrade_Dispatcher = (\<lambda>_ _ s. (Inl ''none'', s)), Smc_Invoke = (\<lambda>_ _ _ s. (Inl ''none'', s)), Smc_Register = (\<lambda>_ _. Inl ''none''),
   Base58_Decode = bytes_of_string, Rlp_Sig = (\<lambda>_. Inr ([1], [1])), VerifyBytes = (\<lambda>_ _ _. True), Rlp_Query = (\<lambda>_. Inl ''none''),
   Rlp_Tx = (\<lambda>_. Inr (1, 1000, [], ''bcbT'', [])), WrapInvokeParams = (\<lambda>_ _. []), Contract_Token = (\<lambda>_. []),
   CalcAddressFromCdcPubKey = (\<lambda>_ _. []), k_Genesis = no_codec\<rparr>"

definition demo_call1 :: Transaction1 where
  "demo_call1 = \<lparr>tx_Nonce = 1, tx_GasLimit = 1000, tx_Note = [], tx_To = ''bcbT'', tx_Data = []\<rparr>"

definition demo_stubs :: docker where
  "demo_stubs = [''bcbT'' \<mapsto> TokenBasicStub]"

definition demo_conn :: DeliverConnection where
  "demo_conn = \<lparr>dc_blockHash = [], dc_blockHeader = no_header\<lparr>Height := 5\<rparr>, dc_docker = Some demo_stubs, dc_appState = no_state,
     dc_hashList = [], dc_sponser = ''bcbN'', dc_rewarder = ''bcbP'', dc_udValidator = False, dc_validators = [], dc_fee = 0,
     dc_rewards = Some [], dc_RespCode = 0, dc_RespData = [], dc_NameVersion = [], dc_mineContract = None, dc_mineStub = False\<rparr>"

definition demo_chain :: "kvs Chain" where
  "demo_chain = \<lparr>c_conn = demo_conn, c_v1 = demo_v2, c_v2 = app demo_node\<rparr>"



lemma model_app_sel [simp]:
  "env (ei model_app) = model_env" "k_Account (ei model_app) = account_codec" "k_strings (ei model_app) = strings_codec"
  "k_Contract (ei model_app) = const_codec demo_called" "k_string (ei model_app) = string_codec"
  "k_Token (ei model_app) = token_codec" "k_Balance (ei model_app) = tokbal_codec"
  by (simp_all add: model_app_def modelS_def)

lemma model_app_bignum [simp]: "bignum_ok (ei model_app)"
  using model1_bignum by (simp add: bignum_ok_def model_app_def modelS_def)

lemma account_codec_ok [simp]: "codec_ok account_codec"
  unfolding codec_ok_def account_codec_def codec.simps by (simp del: enc_entries.simps)

lemma app_get: "sdb_Get (ei model_app) s k = Inr (Inr (block1 model1 s k))"
proof -
  have "ext_ok (ext1 (ei model_app))" by (simp add: model_env_def model_ext_ok)
  moreover have "block1 (ei model_app) s k = block1 model1 s k" by (simp add: block1_def)
  ultimately show ?thesis using sdb_Get_block by metis
qed

lemma sdb_Set_block:
  assumes "v_Transaction s = Some t"
  obtains s' where "sdb_Set k v s = (Inr (Inr ()), s')" "block1 K s' = (block1 K s)(k \<mapsto> v)"
    "v_Transaction s' = Some (Transaction_Set t k v)"
proof -
  let ?s = "s\<lparr>v_Transaction := Some (Transaction_Set t k v)\<rparr>"
  have "block1 K ?s j = ((block1 K s)(k \<mapsto> v)) j" for j
    using assms by (simp add: block1_def Transaction_Set_def update_conv')
  then have "block1 K ?s = (block1 K s)(k \<mapsto> v)" by (rule ext)
  then show thesis using that [of ?s] assms by (simp add: sdb_Set_def)
qed

definition demo_nonce :: bytes where
  "demo_nonce = demo_enc account_codec \<lparr>an_Nonce = 1\<rparr>"

definition demo_list :: bytes where
  "demo_list = demo_enc strings_codec [keyOfAccountNonce ''bcbA'']"

lemma demo_nonce_set:
  obtains m s0 where "sdb_SetAccountNonce (ei model_app) ''bcbA'' 1 demo_v2 = (Inr (Inr m), s0)"
    "block1 model1 s0 = (block1 model1 demo_v2)(keyOfAccount ''bcbA'' \<mapsto> demo_list, keyOfAccountNonce ''bcbA'' \<mapsto> demo_nonce)"
    "\<exists>t. v_Transaction s0 = Some t \<and> lastTxID t = 1"
proof -
  obtain t where t: "v_Transaction demo_v2 = Some t" "lastTxID t = 1" by (simp add: demo_v2_def)
  obtain s1 where s1: "sdb_Set (keyOfAccount ''bcbA'') demo_list demo_v2 = (Inr (Inr ()), s1)"
    "block1 model1 s1 = (block1 model1 demo_v2)(keyOfAccount ''bcbA'' \<mapsto> demo_list)"
    "v_Transaction s1 = Some (Transaction_Set t (keyOfAccount ''bcbA'') demo_list)"
    by (rule sdb_Set_block [OF t(1)])
  obtain s2 where s2: "sdb_Set (keyOfAccountNonce ''bcbA'') demo_nonce s1 = (Inr (Inr ()), s2)"
    "block1 model1 s2 = (block1 model1 s1)(keyOfAccountNonce ''bcbA'' \<mapsto> demo_nonce)"
    "v_Transaction s2 = Some (Transaction_Set (Transaction_Set t (keyOfAccount ''bcbA'') demo_list) (keyOfAccountNonce ''bcbA'') demo_nonce)"
    by (rule sdb_Set_block [OF s1(3)])
  have keys: "block1 model1 demo_v2 (keyOfAccount ''bcbA'') = None" "block1 model1 demo_v2 (keyOfAccountNonce ''bcbA'') = None"
    by (simp_all add: demo_block2 key_defs keyOfAccountNonce_def)
  have m: "marshal account_codec \<lparr>an_Nonce = 1\<rparr> = Inr demo_nonce" "marshal strings_codec [keyOfAccountNonce ''bcbA''] = Inr demo_list"
    by (simp_all add: demo_nonce_def demo_list_def demo_enc_def account_codec_def strings_codec_def)
  have i: "insert_child [] c = Some [c]" for c
    by (simp add: insert_child_def SearchStrings_def search.simps)
  have e: "sdb_addChildKeyEx (ei model_app) (keyOfAccount ''bcbA'') (keyOfAccountNonce ''bcbA'') demo_v2
      = (Inr (Inr (Some [(keyOfAccount ''bcbA'', demo_list)])), s1)"
    by (simp add: sdb_addChildKeyEx_def sdb_getChildKeys_def app_get keys as_json_def list_of_def i mjson_def m s1(1))
  have "sdb_SetAccountNonce (ei model_app) ''bcbA'' 1 demo_v2
      = (Inr (Inr (AList.update (keyOfAccountNonce ''bcbA'') demo_nonce [(keyOfAccount ''bcbA'', demo_list)])), s2)"
    by (simp add: sdb_SetAccountNonce_def sdb_CheckAccountNonce_def app_get keys as_json_def mjson_def m e s2(1) Let_def)
  then show thesis using that s2(2,3) s1(2) t(2) by (simp add: Transaction_Set_def)
qed

lemma demo_prepared:
  obtains ts s1 where "prepare_call model_app ''bcbA'' demo_call1 demo_v2 = (Inr (Inr (ts, demo_called)), s1)"
    "ts_ContractAddress ts = ''bcbT''" "ts_Tx ts = Some 2" "v_Tx s1 2 = Some \<lparr>txID = 2, xbuffer = []\<rparr>"
    "block1 model1 s1 = (block1 model1 demo_v2)(keyOfAccount ''bcbA'' \<mapsto> demo_list, keyOfAccountNonce ''bcbA'' \<mapsto> demo_nonce)"
    "\<exists>t. v_Transaction s1 = Some t \<and> lastTxID t = 2"
proof (rule demo_nonce_set)
  fix m s0
  assume s0: "sdb_SetAccountNonce (ei model_app) ''bcbA'' 1 demo_v2 = (Inr (Inr m), s0)"
    "block1 model1 s0 = (block1 model1 demo_v2)(keyOfAccount ''bcbA'' \<mapsto> demo_list, keyOfAccountNonce ''bcbA'' \<mapsto> demo_nonce)"
    "\<exists>t. v_Transaction s0 = Some t \<and> lastTxID t = 1"
  then obtain t where t: "v_Transaction s0 = Some t" "lastTxID t = 1" by blast
  let ?ts = "\<lparr>ts_ContractAddress = ''bcbT'', ts_SenderAddress = ''bcbA'', ts_Tx = Some 2\<rparr>"
  let ?s1 = "s0\<lparr>v_Transaction := Some (t\<lparr>lastTxID := 2\<rparr>), v_Tx := (v_Tx s0)(2 \<mapsto> \<lparr>txID = 2, xbuffer = []\<rparr>)\<rparr>"
  have n: "sdb_NewTxState ''bcbT'' ''bcbA'' s0 = (Inr ?ts, ?s1)"
    by (simp add: sdb_NewTxState_def t Transaction_NewTx_def calcTxID_def Let_def)
  have b: "block1 model1 ?s1 = block1 model1 s0" using block_NewTxState [of model1 "''bcbT''" "''bcbA''" s0] n by simp
  have "sdb_GetContract (ei model_app) ''bcbT'' ?s1 = Inr (Inr (Some demo_called))"
    by (simp add: sdb_GetContract_def app_get b s0(2) demo_block2 key_defs keyOfAccountNonce_def as_json_def)
      (simp add: const_codec_def)
  then have "prepare_call model_app ''bcbA'' demo_call1 demo_v2 = (Inr (Inr (?ts, demo_called)), ?s1)"
    by (simp add: prepare_call_def demo_call1_def s0(1) n)
  then show thesis by (rule that) (use b s0(2) in simp_all)
qed


lemma demo_reads3:
  fixes s ts
  defines "K \<equiv> ei model_app" and "ctx \<equiv> call_context demo_conn ts ''bcbA'' ''bcbA'' 1000 []"
  assumes b: "block1 model1 s = (block1 model1 demo_v2)(keyOfAccount ''bcbA'' \<mapsto> demo_list, keyOfAccountNonce ''bcbA'' \<mapsto> demo_nonce)"
    and ts: "ts_Tx ts = Some 2" "v_Tx s 2 = Some \<lparr>txID = 2, xbuffer = []\<rparr>" "ts_ContractAddress ts = ''bcbT''"
    and t: "v_Transaction s = Some t"
  shows "ts_CheckBlackAddress K ts ''bcbA'' s = Inr False" "IsRightHeight (envd model_app) ctx s = Inr None"
    "ts_GetGas K (own_addr ctx) 1 s = Inr (Inr 100)" "V1_Gas_Props.block_ok K ''bcbT'' s"
    "ctx_CheckValidatorRewardAddr K ''bcbN'' ''bcbP'' s = Inr okE" "ts_GetGenesisToken K ts s = Inr (Inr (Some demo_token))"
    "sdb_GetContract K ''bcbT'' s = Inr (Inr (Some demo_called))"
    "price_token K ctx (cx_Sender ctx) demo_token s = Inr (Inr demo_token)"
    "ctx_GetStrategy K ctx s = Inr (\<lparr>st_Strategy = Some [], st_EffectHeight = 1\<rparr>, okE)"
    "block_bal K ''bcbT'' s ''bcbA'' = 5000000000"
proof -
  have K: "block1 K s = block1 model1 s" by (rule ext) (simp add: block1_def K_def)
  have get: "sdb_Get K s k = Inr (Inr (block1 model1 s k))" for k by (simp add: K_def app_get)
  have x: "ext_ok (ext1 K)" by (simp add: K_def model_env_def model_ext_ok)
  have l: "live ts s" "view1 K ts s = block1 model1 s" using ts t by (auto simp: live_def view1_def K)
  have tget: "ts_Get K ts s k = Inr (Inr (block1 model1 s k))" for k using ts_Get_view [OF x l(1)] l(2) by simp
  note at = b demo_block2 key_defs keyOfAccountNonce_def
  have own: "own_addr ctx = ''bcbT''" "cx_TxState ctx = ts" "ac_TxState (cx_Sender ctx) = ts"
    "Height (cx_BlockHeader ctx) = 5" using ts(3) by (simp_all add: own_addr_def ctx_def call_context_def demo_conn_def)
  show "ts_CheckBlackAddress K ts ''bcbA'' s = Inr False"
    by (simp add: ts_CheckBlackAddress_def tget at keyOfBlackList_v1_def)
  show con: "sdb_GetContract K ''bcbT'' s = Inr (Inr (Some demo_called))"
    by (simp add: sdb_GetContract_def get at) (simp add: K_def const_codec_def)
  show "IsRightHeight (envd model_app) ctx s = Inr None"
    using con by (simp add: IsRightHeight_def own K_def not_in_effect_def demo_called_def demo_contract1_def)
  show "ts_GetGas K (own_addr ctx) 1 s = Inr (Inr 100)"
    by (simp add: ts_GetGas_def own con) (simp add: demo_called_def ParseUint16_32_def hex_digit_def)
  show "V1_Gas_Props.block_ok K ''bcbT'' s"
    unfolding V1_Gas_Props.block_ok_def lists_ok_def codecs1_ok_def K b demo_block2
    using x t by (auto simp: demo_enc_ok plain_def key_defs keyOfAccountNonce_def K_def demo_list_def)
  show "ctx_CheckValidatorRewardAddr K ''bcbN'' ''bcbP'' s = Inr okE"
    by (simp add: ctx_CheckValidatorRewardAddr_def sdb_GetValidator_def get at)
      (simp add: K_def model_app_def modelS_def model1_def const_codec_def demo_validator1_def)
  show "ts_GetGenesisToken K ts s = Inr (Inr (Some demo_token))"
    by (simp add: ts_GetGenesisToken_def tget at) (simp add: K_def model_app_def modelS_def demo_enc_ok)
  show "price_token K ctx (cx_Sender ctx) demo_token s = Inr (Inr demo_token)"
    by (simp add: price_token_def own ts ts_GetToken_def tget at) (simp add: K_def model_app_def modelS_def demo_enc_ok)
  have st: "ts_GetStrategys K ts s = Inr (Inr [\<lparr>st_Strategy = Some [], st_EffectHeight = 1\<rparr>])"
    by (simp add: ts_GetStrategys_def tget at) (simp add: K_def model_app_def modelS_def const_codec_def list_of_def)
  have w: "sdb_GetWorldAppState K s = Inr (Inr (Some no_state))"
    by (simp add: sdb_GetWorldAppState_def get at) (simp add: K_def model_app_def modelS_def model1_def const_codec_def)
  show "ctx_GetStrategy K ctx s = Inr (\<lparr>st_Strategy = Some [], st_EffectHeight = 1\<rparr>, okE)"
    by (simp add: ctx_GetStrategy_def own st w) (simp add: no_strategy_def no_state_def)
  show "block_bal K ''bcbT'' s ''bcbA'' = 5000000000"
    by (simp add: block_bal_def K at) (simp add: K_def model_app_def modelS_def demo_enc_ok)
qed


lemma demo_pays:
  fixes s ts
  defines "ctx \<equiv> call_context demo_conn ts ''bcbA'' ''bcbA'' 1000 []"
  assumes b: "block1 model1 s = (block1 model1 demo_v2)(keyOfAccount ''bcbA'' \<mapsto> demo_list, keyOfAccountNonce ''bcbA'' \<mapsto> demo_nonce)"
    and ts: "ts_Tx ts = Some 2" "v_Tx s 2 = Some \<lparr>txID = 2, xbuffer = []\<rparr>" "ts_ContractAddress ts = ''bcbT''"
    and t: "v_Transaction s = Some t" "lastTxID t = 2"
  shows "\<exists>s'. CheckAndPayForGas (ei model_app) ctx (cx_Sender ctx) (Some ''bcbN'') (Some ''bcbP'') 100 1000 s =
      (Inr \<lparr>gr_gasused = 100, gr_gasprice = 2500, gr_rewards = [(''bcbP'', 250000)], gr_error = okE\<rparr>, s')"
proof -
  note r = demo_reads3 [OF b ts t(1)]
  have tok: "it_Address demo_token = ''bcbT''" "it_GasPrice demo_token = 2500" by (simp_all add: demo_token_def)
  have c: "ac_Addr (cx_Sender ctx) = ''bcbA''" "ac_TxState (cx_Sender ctx) = ts" "cx_TxState ctx = ts"
    by (simp_all add: ctx_def call_context_def)
  have fee: "calcFee 100 1000 2500 = (250000, okE)" by (simp add: calcFee_cases Let_def)
  have rew: "CalcdRewards \<lparr>st_Strategy = Some [], st_EffectHeight = 1\<rparr> 250000 ''bcbP'' = ([(''bcbP'', 250000)], okE)"
    by (simp add: CalcdRewards_def list_of_def big_Uint64_def val_at_def)
  have "plain ''bcbA''" "plain ''bcbP''" by (simp_all add: plain_def)
  then show ?thesis
    using CheckAndPayForGas_goes [where K = "ei model_app" and ctx = ctx and sender = "cx_Sender ctx" and s = s
      and tokenbasic = demo_token and token = demo_token and con = demo_called and t = t
      and strategy = "\<lparr>st_Strategy = Some [], st_EffectHeight = 1\<rparr>"
      and p = "''bcbN''" and rw = "''bcbP''" and gas = 100 and gaslimit = 1000 and fee = 250000 and e = okE
      and rewards = "[(''bcbP'', 250000)]", unfolded tok c ts(3)] r(4-8) r(9,10) fee rew t ts(1)
    by (simp add: ctx_def [symmetric])
qed


lemma demo_no_method:
  "method_id (envd model_app) TbTransfer \<noteq> 1" "method_id (envd model_app) TbSetGasPrice \<noteq> 1"
  "method_id (envd model_app) TbSetGasBasePrice \<noteq> 1"
  by (simp_all add: method_id_def ConvertPrototype2ID_def model_app_def modelS_def model1_def TbTransfer_def TbSetGasPrice_def
      TbSetGasBasePrice_def bytes_of_string_def be_word_def)

lemma demo_v1_call_fails:
  "\<exists>res c'. runDeliverBCTx1 model_app False ''tx'' ''bcbA'' demo_call1 demo_chain = (Inr res, c') \<and> rd_Code res \<noteq> unat ErrCodeOK"
proof -
  obtain ts s1 where p: "prepare_call model_app ''bcbA'' demo_call1 demo_v2 = (Inr (Inr (ts, demo_called)), s1)"
    "ts_ContractAddress ts = ''bcbT''" "ts_Tx ts = Some 2" "v_Tx s1 2 = Some \<lparr>txID = 2, xbuffer = []\<rparr>"
    "block1 model1 s1 = (block1 model1 demo_v2)(keyOfAccount ''bcbA'' \<mapsto> demo_list, keyOfAccountNonce ''bcbA'' \<mapsto> demo_nonce)"
    "\<exists>t. v_Transaction s1 = Some t \<and> lastTxID t = 2"
    by (rule demo_prepared)
  then obtain t where t: "v_Transaction s1 = Some t" "lastTxID t = 2" by blast
  let ?ctx = "call_context demo_conn ts ''bcbA'' ''bcbA'' 1000 []"
  note r = demo_reads3 [OF p(5,3,4,2) t(1)]
  obtain s2 where pay: "CheckAndPayForGas (ei model_app) ?ctx (cx_Sender ?ctx) (Some ''bcbN'') (Some ''bcbP'') 100 1000 s1 =
      (Inr \<lparr>gr_gasused = 100, gr_gasprice = 2500, gr_rewards = [(''bcbP'', 250000)], gr_error = okE\<rparr>, s2)"
    using demo_pays [OF p(5,3,4,2) t] by blast
  have "kept (held s1) (CheckAndPayForGas (ei model_app) ?ctx (cx_Sender ?ctx) (Some ''bcbN'') (Some ''bcbP'') 100 1000 s1)"
    by (rule held_CheckAndPayForGas) simp
  then have "dom (v_Tx s1) \<subseteq> dom (v_Tx s2)" using pay by (simp add: kept_def held_def)
  then obtain tx where tx: "v_Tx s2 2 = Some tx" using p(4) by blast
  define ctx where "ctx = ?ctx"
  have c: "own_addr ctx = ''bcbT''" "cx_TxState ctx = ts" "ac_Addr (cx_Sender ctx) = ''bcbA''" "cx_Proposer ctx = Some ''bcbN''"
    "cx_Rewarder ctx = Some ''bcbP''" "cx_GasLimit ctx = 1000"
    using p(2) by (simp_all add: own_addr_def call_context_def demo_conn_def ctx_def)
  have m: "Rlp_Method (envd model_app) [] = Inr \<lparr>mi_MethodID = 1, mi_ParamData = []\<rparr>" by (simp add: model_app_def)
  obtain resp where run: "docker_Invoke model_app (Some demo_stubs) ctx [] 0 s1 =
      (Inr (resp, okE\<lparr>ErrorCode := ErrCodeInterContractsInvalidMethod\<rparr>), s2)"
    using r(1-3) [folded ctx_def] pay [folded ctx_def] demo_no_method m
    by (simp add: docker_Invoke_def c demo_stubs_def TokenBasic_Dispatcher_def open_call_def find_gas_of_def pay_for_def
        TokenBasic_method_def bad_call_def stop_def)
  have d: "c_conn demo_chain = demo_conn" "c_v1 demo_chain = demo_v2" "dc_docker demo_conn = Some demo_stubs"
    "tc_Owner demo_called = ''bcbA''" "tx_GasLimit demo_call1 = 1000" "tx_Note demo_call1 = []" "tx_Data demo_call1 = []"
    by (simp_all add: demo_chain_def demo_conn_def demo_called_def demo_contract1_def demo_call1_def)
  show ?thesis
    using p(1,3) tx run
    by (simp add: runDeliverBCTx1_def onV1_def d ctx_def [symmetric] ts_RollbackTx_def Let_def)
      (simp add: call_failed_def error_response_def code_defs isOK_def okE_def)
qed


section \<open>Witnesses\<close>

lemma failed_v1_call_pays_only_witness:
  "\<exists>res c'. runDeliverBCTx1 model_app False ''tx'' ''bcbA'' demo_call1 demo_chain = (Inr res, c') \<and> rd_Code res \<noteq> unat ErrCodeOK
    \<and> (\<forall>k. of_account k \<or> block1 (ei model_app) (c_v1 c') k = block1 (ei model_app) demo_v2 k)"
proof -
  obtain res c' where run: "runDeliverBCTx1 model_app False ''tx'' ''bcbA'' demo_call1 demo_chain = (Inr res, c')"
    "rd_Code res \<noteq> unat ErrCodeOK" using demo_v1_call_fails by blast
  have "dc_docker (c_conn demo_chain) = Some demo_stubs" "demo_stubs (tx_To demo_call1) = Some TokenBasicStub"
    "c_v1 demo_chain = demo_v2"
    by (simp_all add: demo_chain_def demo_conn_def demo_stubs_def demo_call1_def)
  then show ?thesis using failed_v1_call_pays_only [OF run] run by auto
qed

lemma check1_isolated_witness:
  "sdb (stateDB (v_helper (snd (CheckTx1 model_app (Some demo_stubs) None ''bcb<tx>.v1.p.<1>.s'' (demo_v2\<lparr>v_helper := demo_open\<rparr>)))))
      = sdb (stateDB demo_open)"
proof -
  have "helper_ok (v_helper (demo_v2\<lparr>v_helper := demo_open\<rparr>))" using helper_reach_ok [OF demo_open_reach] by simp
  moreover have "\<exists>stub. demo_stubs (tx_To t) = Some stub \<and> stub \<noteq> Upgrade1to2Stub"
    if "TxParse model_app cid ''bcb<tx>.v1.p.<1>.s'' = Inr (fromAddr, pk, t)" for cid fromAddr pk t
    using that by (cases "cid = ''bcb''")
      (auto simp: TxParse_def signed_payload_def model_app_def as_Transaction1_def demo_stubs_def)
  ultimately show ?thesis
    using check1_isolated [of "demo_v2\<lparr>v_helper := demo_open\<rparr>" model_app "''bcb<tx>.v1.p.<1>.s''" demo_stubs]
    by (auto simp: Let_def)
qed

definition demo_application :: "kvs Application" where
  "demo_application = \<lparr>ap_chain = demo_chain, ap_v1 = True, ap_chainVersion = Some 0, ap_updateChainVersion = 0,
     ap_checkDocker = Some demo_stubs, ap_checkTransaction = None, ap_checkTx = (\<lambda>_. None), ap_checkChainID = ''bcb''\<rparr>"

lemma version_changes_on_commit_witness:
  "ap_chainVersion (app_step model_app (CallDeliverTx ''tx'') demo_application) = Some 0"
proof -
  have "ap_chainVersion demo_application = Some 0" by (simp add: demo_application_def)
  from version_changes_on_commit [OF this, of model_app] show ?thesis by blast
qed

definition demo_home :: "kvs V1" where
  "demo_home = demo_v2\<lparr>v_Transaction := Some \<lparr>transactionID = 1, tbuffer = [(keyOfGenesisChainId, bytes_of_string ''bcb'')],
     committable = True, lastTxID = 1\<rparr>\<rparr>"

lemma transaction_for_one_chain_witness:
  "\<exists>accepted. TxParse model_app ''other'' ''other<tx>.v1.p.<1>.s'' = Inr accepted
    \<and> deliverBCTx1 model_app False ''other<tx>.v1.p.<1>.s'' (demo_chain\<lparr>c_v1 := demo_home\<rparr>)
      = (Inr (error_response (errC ErrCodeDeliverTxTransData)), demo_chain\<lparr>c_v1 := demo_home\<rparr>)"
proof -
  obtain accepted where a: "TxParse model_app ''other'' ''other<tx>.v1.p.<1>.s'' = Inr accepted"
    by (simp add: TxParse_def signed_payload_def model_app_def)
  have "block1 model1 demo_home keyOfGenesisChainId = Some (bytes_of_string ''bcb'')"
    by (simp add: block1_def demo_home_def)
  then have own: "sdb_GetChainID (ei model_app) demo_home = Inr ''bcb''" by (simp add: sdb_GetChainID_def app_get)
  show ?thesis using transaction_for_one_chain [OF a own, of "demo_chain\<lparr>c_v1 := demo_home\<rparr>" False] a
    by (cases accepted) simp
qed

end
