(* ===== verification/Spec2Isabelle.thy ===== *)
theory Spec2Isabelle
  imports State_DB_Props Acm_Props Bvm_Props Helper_Props Deliver_Props V1_Props V1_Byb_Props Burrow_Props Keccak_Props Query_Props V1_App_Props
begin

text \<open>
  Verification of the core of \<^verbatim>\<open>bcbchain\<close>, the application layer of a blockchain node.

  The node executes blocks of transactions. \<open>statedb\<close> keeps the state of the chain as versioned
  keys and values over LevelDB: a block is a committable transaction, a snapshot of the overwritten
  values of each of the last blocks allows undoing them. \<open>statedbhelper\<close> gives the rest of the node
  access to that state: a transaction has a buffer for the block and one buffer for each tx of it,
  read through in the order tx buffer, block buffer, database. \<open>deliver\<close> runs the txs of a block over
  it: nonce, call of the contract, commit or rollback of the tx buffer, distribution of the fees, and
  the state and hash of the application at the end of the block; \<open>check\<close> runs a tx on a transaction
  that is thrown away. Contracts for the virtual machine in
  \<open>hyperledger/burrow\<close> run against an account state of their own, a stack of caches with one cache
  per call frame over the state of the chain, which is synced down when a call succeeds.

  Theories, in the order of the import graph:
  \<^item> \<open>Prelude\<close>: types, association lists as Go maps, sequencing of operations that may panic, what an operation keeps
    however it ends (the collection \<open>kept\<close>), printing.
  \<^item> \<open>State_DB\<close>: \<open>src/statedb\<close> (store, transactions, transaction buffers, undo snapshots). LevelDB and
    the JSON codec are the fields of the record \<open>ext\<close>, with the laws \<open>ext_ok\<close>; \<open>Ext_Model\<close> gives
    functions that satisfy them. \<open>State_DB_Undo\<close> has the invariant of the undo history and the
    refinement of the operations; \<open>State_DB_Props\<close> states the interface as the locale
    \<open>undo_history\<close>, interprets it on the store, and has the properties of the store.
  \<^item> \<open>State_Helper\<close>: \<open>src/common/statedbhelper\<close>, every function of it, over \<open>State_DB\<close>; the JSON codec is
    the record \<open>json\<close>, one \<open>codec\<close> for each type that is stored. \<open>Helper_View\<close> has the observations (the
    value of a key in the tx, in the block, in the database), what each write does to them, and the relation \<open>confined\<close>:
    nothing has changed but the pending writes of one tx and the values cached of the genesis;
    \<open>Helper_Inv\<close> the invariant \<open>helper_ok\<close> and that every operation keeps it; \<open>Json_Model\<close> functions for
    the codecs; \<open>Helper_Props\<close> a block as a sequence of txs, the interpretation of \<open>undo_history\<close> on blocks
    that are run this way, and the properties (\<open>helper_reach\<close> is the reachable states).
  \<^item> \<open>Deliver\<close>: \<open>abciapp/service/deliver\<close>, \<open>abciapp/service/check\<close> and \<open>abciapp/softforks\<close>. The record \<open>Env\<close> holds
    what is outside: contracts, parsing and signatures, hashes, codecs, decimal numbers; \<open>Node\<close> is the
    \<open>AppDeliver\<close> together with the store. \<open>Ledger\<close> is the interface of an account book as a locale;
    \<open>Deliver_Fee\<close> interprets it on the balances in the store and proves how a fee is distributed;
    \<open>Deliver_Model\<close> is an instance of the environment; \<open>Deliver_Props\<close> has the properties. Those of failed and checked
    transactions are about an environment whose \<open>InvokeTx\<close> is the adapter's (\<open>adapter_InvokeTx\<close>, below).
  \<^item> \<open>V1_Errors\<close>, \<open>V1_State\<close>, \<open>V1_Store\<close>, \<open>V1_TxState\<close>: the application of version 1, which replays the old blocks
    (\<open>abciapp_v1.0\<close>): error codes, stored types and keys, the methods of its \<open>StateDB\<close> and \<open>TxState\<close>.
    \<open>V1_Context\<close>, \<open>V1_Gas\<close>, \<open>V1_Validators\<close>: \<open>contract/stubapi/invokecontext.go\<close>, the record \<open>Env1\<close> holding
    what is outside (codecs, big numbers, addresses); \<open>V1_Contracts\<close>: the token contracts.
    \<open>V1_View\<close> has the observations and what the writes do to them; \<open>V1_Tokens\<close> interprets \<open>Ledger\<close> on the
    balances of a token and \<open>V1_Token_Props\<close> says what each call of a token does; \<open>V1_Gas_Props\<close> proves
    the checked arithmetic, the rewards and the payment for gas, \<open>V1_Power\<close> the check of the validators'
    power; \<open>V1_Keys\<close> states the lists of keys as the locale \<open>key_set\<close>; \<open>V1_Model\<close> is an instance of the
    environment and \<open>V1_Props\<close> has the properties.
  \<^item> \<open>V1_Smc\<close>: \<open>contract/smcapi\<close> and \<open>smc\<close>, the interface of the later contracts of version 1 and their receipts; the
    record \<open>Smc\<close> is the state of version 1 with the receipts emitted so far. \<open>V1_Byb\<close> and \<open>V1_Byb_Ops\<close>:
    \<open>contract/tokenbyb\<close>, a token whose units have a chromo. \<open>V1_Byb_Split\<close> proves how a value is taken from
    the chromos of an account (in proportion, in two rounds) and merged into another; \<open>V1_Byb_State\<close> sees the
    stored lists as a table (the locale \<open>accounts\<close>, interpreted on the holdings), \<open>V1_Byb_Calls\<close> has the
    invariant \<open>byb_inv\<close> and \<open>V1_Byb_Effects\<close> what every method does to table and supply; \<open>V1_Byb_Model\<close> is
    an instance and \<open>V1_Byb_Props\<close> has the properties, over sequences of calls (\<open>byb_reaches\<close>). \<open>Init\<close> and
    \<open>SetOwner\<close> are modelled but not among these calls: they write the record of the contract, and after
    \<open>SetOwner\<close> another account is the owner.
  \<^item> \<open>V1_Funds\<close>, \<open>V1_System\<close>: the other contracts of version 1: vesting, cancellation of supply, mining and the transfer
    agency (\<open>contract/tokenbasic_team\<close> and its neighbours), validators, reward strategies and the deployment of contracts
    (\<open>contract/system\<close>). \<open>V1_Stubs\<close>: \<open>contract/stubs\<close>, which decode a call, charge its gas and run one method.
    \<open>V1_Deliver\<close>: \<open>contract/contractdocker\<close>, \<open>tx/tx\<close> and \<open>service/deliver\<close>; its state \<open>Chain\<close> has the connections of both
    versions over one store. \<open>Application\<close>: \<open>service/check\<close>, the genesis of version 1 and \<open>app/application.go\<close>, which sends
    what the consensus engine calls to one of the versions.
  \<^item> \<open>V1_Frame\<close>: what a contract of version 1 can change. One introduction rule for each operation (in the collection \<open>kept\<close>)
    says that it keeps \<open>frame\<close>, the open block and the helper, or that it is \<open>paid\<close>: \<open>frame\<close> up to one payment for gas; the
    rules follow the text of the stubs. \<open>V1_App_Props\<close> adds which keys of the block a payment reaches (those of
    accounts) and has the properties: failed calls, checks, the version of the chain, transactions of other chains, genesis.
    Those of failed calls and checks are for contracts that a registered stub runs, the upgrade excepted.
  \<^item> \<open>Binary\<close>, \<open>Errors\<close>: \<open>binary/*.go\<close> and \<open>execution/errors/errors.go\<close>.
  \<^item> \<open>Keccak\<close>: the hash function of \<open>crypto/sha3\<close>, the unrolled permutation and the sponge. \<open>Keccak_Perm\<close> states the
    permutation as it is specified and proves the tables and the unrolled rounds equal to it; \<open>Keccak_Sponge\<close> reduces
    writes to absorbing bytes one by one; \<open>Keccak_Props\<close> proves that the digests compute Keccak of the whole message.
  \<^item> \<open>Acm_State\<close>: \<open>acm/account.go\<close>, \<open>acmstate/memory_state.go\<close> and \<open>acmstate/state_cache.go\<close>; \<open>Acm_Cache\<close>
    gives a chain of caches its meaning (the view of a reader), states the contract of a \<open>Writer\<close> as
    the locale \<open>account_store\<close> and proves \<open>Sync\<close> in it; \<open>Acm_Props\<close> has the properties.
  \<^item> \<open>Bvm_State\<close>: \<open>bvm/state.go\<close>. \<open>Bvm_Crypto\<close>: addresses, gas table, native contracts; hash functions
    and encodings of other modules are the fields of the record \<open>Crypto\<close>. \<open>Bvm_Opcodes\<close>: the
    instruction set. \<open>Bvm_Frame\<close>: stack, memory, events. \<open>Bvm_Ops\<close>: one definition per case of the
    interpreter's switch. \<open>Bvm_VM\<close>: calls, creation, the loop.
  \<^item> \<open>Bvm_Effect\<close>, \<open>Bvm_Nested\<close>: the method of the proofs about all code. A relation between the state
    before and after that holds of every primitive step holds of every instruction
    (\<open>frame_effect\<close>) and every run (\<open>run_effect\<close>). \<open>Bvm_Order\<close>, \<open>Bvm_Gas\<close>, \<open>Bvm_Bounds\<close>,
    \<open>Bvm_Isolation\<close> interpret these locales; \<open>Bvm_Fuel\<close> and \<open>Bvm_Total\<close> show that the machine is
    total; \<open>Bvm_Transfer\<close> and \<open>Bvm_Alu\<close> have the functional behaviour; \<open>Bvm_Props\<close> the properties.
  \<^item> \<open>Burrow_Store\<close>: \<open>burrow/state.go\<close>, the state of the chain as the backend of the machine's caches. \<open>Burrow_Tx\<close>:
    \<open>burrow/invokeTx.go\<close>, \<open>burrow/receipt\<close>, the manager of the contract processes (\<open>smcrunctl/invokermgr\<close>, \<open>smcdocker\<close>:
    payer, effective contract, address of the process, one call for each message) and the choice of the executor in
    \<open>smcrunctl/adapter\<close>; parsed contract interfaces, RLP and the processes are the record \<open>Burrow\<close>. \<open>Burrow_View\<close> tells the keys of accounts and storage
    apart, reads an account from the pending contents of a tx, and interprets \<open>account_store\<close> (and \<open>reliable_store\<close>, a
    store whose writes do not fail) on the chain; \<open>Burrow_Props\<close> has the properties of a run up to its commit, and proves that
    everything the machine, the manager and the adapter do is \<open>confined\<close> to their tx: nothing is assumed of contracts in the machine,
    and of the processes that run other contracts that they work through the callbacks (\<open>by_callbacks\<close>).
  \<^item> \<open>Query\<close>: \<open>abciapp/service/query\<close>, the keys, paths and views that are asked of a node; \<open>Query_Props\<close> proves that
    no query changes the chain: a view is a call confined to a tx of transaction 0, which is never open.

  How the state corresponds to the code. A Go map whose order of iteration can matter is an
  association list, its order being the iteration order; integers are words of their width or, for
  \<open>big.Int\<close> and \<open>bn.Number\<close>, \<open>int\<close>. An operation of the store that may panic returns a sum with the
  state it leaves behind; in the virtual machine a Go panic is recorded in the field \<open>halt\<close>, of
  which the first entry counts.

  Fuel. \<open>run\<close> has fuel, used by each turn of the loop and each nested frame (not by their sum: a
  nested frame gets the fuel that is left on its own path). \<open>VM_Call_total\<close> shows that one more than
  the gas plus the depth left of the call stack is enough, and that the outcome is then the same for
  all larger fuel, so the model is the Go loop. The chain sets the maximal depth to 10. One instruction is one step of the
  model, also \<open>EXP\<close>, whose full power the code computes before it cuts it to 256 bits.

  Not modelled: locks (every structure is used by one goroutine), logging, LevelDB and files, the
  consensus engine, RPC, JSON and ABI encodings, the hash functions of other modules, the processes that run the
  contracts outside the node (their answer is the field \<open>rpc_Invoke\<close> of \<open>Burrow\<close>, their start \<open>docker_url\<close>) with the
  manager's tables of which process to tell of a commit or a rollback, the upgrade contract and the service of version 1
  that runs contracts in another process (their answers are the fields \<open>Upgrade_Dispatcher\<close> and \<open>Smc_Invoke\<close> of \<open>EnvI\<close>), the
  genesis and clean-up of version 2, contract checking and building, and the parts listed as not modelled in the manifest.
\<close>

end
